(* ===== verification/Py_Prelude.thy ===== *)
theory Py_Prelude
  imports Main "HOL-Library.Char_ord"
begin

text \<open>
  What every component of the model shares.

  The source is Python. Its exceptions are values of \<open>py_exc\<close>, an exception class together with
  the message; a function that may raise returns \<open>'a res\<close>, with \<open>Inl\<close> for the raised exception.
  A method that may raise and that changes the state of its object returns the pair of its
  result and of the new state.

  A message (the text of an exception, or the \<open>rejection_detail\<close> of a decision) is an f-string of
  the source. \<open>Msg t args\<close> keeps the f-string as it is written, with \<open>{}\<close> for each hole, and the
  values that fill the holes in order; rendering the text is left out, since no code of the
  modelled components reads a message back, apart from the test whether it is empty.

  Times are \<open>datetime\<close> values, modelled as the integer number of microseconds since the epoch in
  UTC. A call of \<open>_utc_now()\<close> reads the clock, which is an argument \<open>now\<close> of the definition; an
  optional argument \<open>at\<close> overrides it, as in the source. Calls that draw fresh random
  identifiers take the drawn identifier as an argument too.
\<close>

section \<open>Messages, exceptions and results\<close>

datatype pyval = PInt int | PStr string | PTime int | PNone

datatype msg = Msg (msg_text: string) (msg_args: "pyval list")

definition msg_truthy :: "msg \<Rightarrow> bool" where
  "msg_truthy m \<longleftrightarrow> msg_text m \<noteq> [] \<or> msg_args m \<noteq> []"

definition msg_or :: "msg option \<Rightarrow> msg \<Rightarrow> msg" where
  \<comment> \<open>Python's \<open>detail or default\<close>\<close>
  "msg_or d dflt = (case d of None \<Rightarrow> dflt | Some m \<Rightarrow> if msg_truthy m then m else dflt)"

definition option_or :: "'a option \<Rightarrow> 'a \<Rightarrow> 'a" where
  \<comment> \<open>Python's \<open>x or default\<close> for a value that is never falsy when present\<close>
  "option_or x dflt = (case x of None \<Rightarrow> dflt | Some v \<Rightarrow> v)"

lemma option_or_simps [simp]: "option_or None d = d" "option_or (Some v) d = v"
  by (simp_all add: option_or_def)

datatype exc_class =
    ValueError | TypeError | KeyError | ZeroDivisionError | IntegrityError | RuntimeError
  | BudgetInsufficientError | NonceAlreadyConsumedError | AuthorizationExpiredError
  | SourceError string string \<comment> \<open>another exception class of the source, with its error code\<close>

datatype py_exc = Raise exc_class msg

type_synonym 'a res = "py_exc + 'a"

definition is_ok :: "'a res \<Rightarrow> bool" where
  "is_ok r = (case r of Inl _ \<Rightarrow> False | Inr _ \<Rightarrow> True)"

definition bind_res :: "'a res \<Rightarrow> ('a \<Rightarrow> 'b res) \<Rightarrow> 'b res" where
  "bind_res r f = (case r of Inl e \<Rightarrow> Inl e | Inr x \<Rightarrow> f x)"

lemma is_ok_simps [simp]: "is_ok (Inr x)" "\<not> is_ok (Inl e)"
  by (simp_all add: is_ok_def)

lemma bind_res_simps [simp]:
  "bind_res (Inl e) f = Inl e"
  "bind_res (Inr x) f = f x"
  by (simp_all add: bind_res_def)

lemma bind_res_Inr: "bind_res r f = Inr y \<longleftrightarrow> (\<exists>x. r = Inr x \<and> f x = Inr y)"
  by (cases r) auto

definition member_of_value :: "('a \<Rightarrow> string) \<Rightarrow> 'a list \<Rightarrow> string \<Rightarrow> 'a option" where
  \<comment> \<open>the call \<open>E(v)\<close> of an enumeration class, where \<open>None\<close> stands for its \<open>ValueError\<close>\<close>
  "member_of_value val members v = find (\<lambda>m. val m = v) members"

section \<open>Time\<close>

type_synonym datetime = int

definition seconds :: "int \<Rightarrow> int" where
  "seconds n = n * 1000000"

lemma seconds_mono [simp]: "seconds m \<le> seconds n \<longleftrightarrow> m \<le> n"
  by (simp add: seconds_def)

lemma seconds_less [simp]: "seconds m < seconds n \<longleftrightarrow> m < n"
  by (simp add: seconds_def)

lemma seconds_zero [simp]: "seconds 0 = 0"
  by (simp add: seconds_def)

lemma seconds_pos_iff [simp]: "0 < seconds n \<longleftrightarrow> 0 < n" "0 \<le> seconds n \<longleftrightarrow> 0 \<le> n"
  by (simp_all add: seconds_def)

definition resolve_at :: "datetime option \<Rightarrow> datetime \<Rightarrow> datetime" where
  \<comment> \<open>\<open>at if at is not None else _utc_now()\<close>\<close>
  "resolve_at at now = (case at of None \<Rightarrow> now | Some t \<Rightarrow> t)"

lemma resolve_at_simps [simp]: "resolve_at None now = now" "resolve_at (Some t) now = t"
  by (simp_all add: resolve_at_def)

definition opt_time :: "datetime option \<Rightarrow> pyval" where
  "opt_time t = (case t of None \<Rightarrow> PNone | Some u \<Rightarrow> PTime u)"

section \<open>Strings\<close>

text \<open>
  Strings are lists of characters whose code points are below 256. \<open>is_space\<close> is Python's
  \<open>str.isspace\<close> on that range, and \<open>strip\<close> is \<open>str.strip\<close>.
\<close>

definition is_space :: "char \<Rightarrow> bool" where
  "is_space c = (let n = of_char c :: nat in
     (9 \<le> n \<and> n \<le> 13) \<or> (28 \<le> n \<and> n \<le> 32) \<or> n = 133 \<or> n = 160)"

definition lstrip :: "string \<Rightarrow> string" where
  "lstrip s = dropWhile is_space s"

definition rstrip :: "string \<Rightarrow> string" where
  "rstrip s = rev (dropWhile is_space (rev s))"

definition strip :: "string \<Rightarrow> string" where
  "strip s = rstrip (lstrip s)"

lemma dropWhile_idem: "dropWhile P (dropWhile P xs) = dropWhile P xs"
  by (induction xs) auto

lemma rstrip_decomp: "\<exists>t. s = rstrip s @ t \<and> (\<forall>c \<in> set t. is_space c)"
proof -
  have "rev s = takeWhile is_space (rev s) @ dropWhile is_space (rev s)" by simp
  then have "s = rstrip s @ rev (takeWhile is_space (rev s))"
    by (metis rev_append rev_rev_ident rstrip_def)
  moreover have "\<forall>c \<in> set (rev (takeWhile is_space (rev s))). is_space c"
    by (auto dest: set_takeWhileD)
  ultimately show ?thesis by blast
qed

lemma dropWhile_prefix_fix:
  assumes "dropWhile P (xs @ ys) = xs @ ys"
  shows "dropWhile P xs = xs"
proof (cases xs)
  case (Cons x zs)
  have "\<not> P x"
  proof
    assume "P x"
    with assms Cons have "dropWhile P (zs @ ys) = x # zs @ ys" by simp
    then show False using length_dropWhile_le [of P "zs @ ys"] by simp
  qed
  with Cons show ?thesis by simp
qed simp

lemma strip_idem [simp]: "strip (strip s) = strip s"
proof -
  let ?l = "lstrip s"
  obtain t where t: "?l = rstrip ?l @ t" using rstrip_decomp by blast
  have "dropWhile is_space ?l = ?l" by (simp add: lstrip_def dropWhile_idem)
  with t have "dropWhile is_space (rstrip ?l) = rstrip ?l"
    by (metis dropWhile_prefix_fix)
  then have "lstrip (strip s) = strip s" by (simp add: strip_def lstrip_def)
  then show ?thesis by (simp add: strip_def rstrip_def dropWhile_idem)
qed

lemma strip_Nil [simp]: "strip [] = []"
  by (simp add: strip_def lstrip_def rstrip_def)

definition blank :: "string \<Rightarrow> bool" where
  \<comment> \<open>\<open>not s or not s.strip()\<close>\<close>
  "blank s \<longleftrightarrow> strip s = []"

lemma blank_strip [simp]: "blank (strip s) = blank s"
  by (simp add: blank_def)

definition lower_char :: "char \<Rightarrow> char" where
  "lower_char c = (let n = of_char c :: nat in
     if (65 \<le> n \<and> n \<le> 90) \<or> (192 \<le> n \<and> n \<le> 222 \<and> n \<noteq> 215) then char_of (n + 32) else c)"

definition lower :: "string \<Rightarrow> string" where
  \<comment> \<open>\<open>str.lower\<close>\<close>
  "lower s = map lower_char s"

lemma lower_char_idem [simp]: "lower_char (lower_char c) = lower_char c"
  by (auto simp: lower_char_def Let_def)

lemma lower_idem [simp]: "lower (lower s) = lower s"
  by (simp add: lower_def)

definition norm_hash :: "string \<Rightarrow> string" where
  \<comment> \<open>\<open>s.strip().lower()\<close>\<close>
  "norm_hash s = lower (strip s)"

section \<open>Maps\<close>

text \<open>A dictionary is a map. These are the facts on updates every component uses.\<close>

named_theorems store_simps \<open>what the operations of a component do to its stores\<close>

lemma map_upd_eq_Some [store_simps]:
  "(m(k \<mapsto> v)) k' = Some w \<longleftrightarrow> (if k' = k then w = v else m k' = Some w)"
  by auto

lemma map_upd_None [store_simps]:
  "(m(k \<mapsto> v)) k' = None \<longleftrightarrow> k' \<noteq> k \<and> m k' = None"
  by auto

section \<open>Sums over a dictionary\<close>

definition map_sum :: "('v \<Rightarrow> int) \<Rightarrow> ('k \<rightharpoonup> 'v) \<Rightarrow> int" where
  \<comment> \<open>the sum of a measure of the stored values\<close>
  "map_sum f m = (\<Sum>k \<in> dom m. f (the (m k)))"

lemma map_sum_empty [simp]: "map_sum f Map.empty = 0"
  by (simp add: map_sum_def)

lemma map_sum_insert:
  assumes "finite (dom m)" and "m k = None"
  shows "map_sum f (m(k \<mapsto> v)) = map_sum f m + f v"
proof -
  have "k \<notin> dom m" using assms by auto
  moreover have "(\<Sum>x\<in>dom m. f (the ((m(k \<mapsto> v)) x))) = (\<Sum>x\<in>dom m. f (the (m x)))"
    using calculation by (intro sum.cong) auto
  ultimately show ?thesis using assms by (simp add: map_sum_def)
qed

lemma map_sum_update:
  assumes "finite (dom m)" and "m k = Some w"
  shows "map_sum f (m(k \<mapsto> v)) = map_sum f m - f w + f v"
proof -
  have k: "k \<in> dom m" using assms by auto
  then have d: "dom (m(k \<mapsto> v)) = insert k (dom m - {k})" by auto
  have "(\<Sum>x\<in>dom m - {k}. f (the ((m(k \<mapsto> v)) x))) = (\<Sum>x\<in>dom m - {k}. f (the (m x)))"
    by (intro sum.cong) auto
  moreover have "map_sum f (m(k \<mapsto> v)) =
      f v + (\<Sum>x\<in>dom m - {k}. f (the ((m(k \<mapsto> v)) x)))"
    unfolding map_sum_def d using assms(1) by (subst sum.insert) auto
  ultimately have "map_sum f (m(k \<mapsto> v)) = f v + (\<Sum>x\<in>dom m - {k}. f (the (m x)))"
    by simp
  moreover have "map_sum f m = f w + (\<Sum>x\<in>dom m - {k}. f (the (m x)))"
    using assms k by (simp add: map_sum_def sum.remove)
  ultimately show ?thesis by simp
qed

lemma map_sum_nonneg: "(\<And>k v. m k = Some v \<Longrightarrow> 0 \<le> f v) \<Longrightarrow> 0 \<le> map_sum f m"
  unfolding map_sum_def by (rule sum_nonneg) auto

lemma map_sum_ge:
  assumes "finite (dom m)" and "m k = Some w" and "\<And>k v. m k = Some v \<Longrightarrow> 0 \<le> f v"
  shows "f w \<le> map_sum f m"
proof -
  have "k \<in> dom m" using assms by auto
  then have "map_sum f m = f w + (\<Sum>x\<in>dom m - {k}. f (the (m x)))"
    using assms by (simp add: map_sum_def sum.remove)
  moreover have "0 \<le> (\<Sum>x\<in>dom m - {k}. f (the (m x)))"
    using assms(3) by (intro sum_nonneg) auto
  ultimately show ?thesis by simp
qed

end
