(* ===== verification/Domain_Types.thy ===== *)
theory Domain_Types
  imports Py_Prelude
begin

text \<open>
  The enumerations of \<open>apps/api/domain/types.py\<close>, with the source's member names, the predicates
  the enumeration classes define, and the transition graph of a transaction. The graph is
  \<open>legal_next_states\<close>, a transaction's life is a path in it, and \<open>txn_rank\<close> is the
  topological order that shows that every life is finite.
\<close>

section \<open>Enumerations\<close>

datatype Currency = INR | USD

fun currency_value :: "Currency \<Rightarrow> string" where
  "currency_value INR = ''INR''"
| "currency_value USD = ''USD''"

datatype Region = IN | US

fun region_value :: "Region \<Rightarrow> string" where
  "region_value IN = ''IN''"
| "region_value US = ''US''"

datatype MandateStatus = DRAFT | ACTIVE | SUSPENDED | REVOKED | EXPIRED

fun mandate_status_value :: "MandateStatus \<Rightarrow> string" where
  "mandate_status_value MandateStatus.DRAFT = ''DRAFT''"
| "mandate_status_value MandateStatus.ACTIVE = ''ACTIVE''"
| "mandate_status_value SUSPENDED = ''SUSPENDED''"
| "mandate_status_value REVOKED = ''REVOKED''"
| "mandate_status_value MandateStatus.EXPIRED = ''EXPIRED''"

definition mandate_status_of :: "string \<Rightarrow> MandateStatus option" where
  "mandate_status_of = member_of_value mandate_status_value
     [MandateStatus.DRAFT, MandateStatus.ACTIVE, SUSPENDED, REVOKED, MandateStatus.EXPIRED]"

lemma mandate_status_of_value [simp]: "mandate_status_of (mandate_status_value s) = Some s"
  by (cases s) (simp_all add: mandate_status_of_def member_of_value_def)

definition mandate_can_execute :: "MandateStatus \<Rightarrow> bool" where
  "mandate_can_execute s = (s = MandateStatus.ACTIVE)"

definition mandate_is_terminal :: "MandateStatus \<Rightarrow> bool" where
  "mandate_is_terminal s = (s \<in> {MandateStatus.REVOKED, MandateStatus.EXPIRED})"

datatype TransactionState =
    DRAFT | PROPOSED | VALIDATING | REJECTED | STEP_UP_REQUIRED | USER_APPROVED | RESERVED
  | AUTHORIZED | EXECUTING | SUCCESS | FAILURE | COMMITTED | ROLLED_BACK | COMPLETED | RECEIPT
  | EXPIRED | CONSUMED

fun legal_next_states :: "TransactionState \<Rightarrow> TransactionState set" where
  "legal_next_states TransactionState.DRAFT = {TransactionState.PROPOSED}"
| "legal_next_states TransactionState.PROPOSED = {TransactionState.VALIDATING}"
| "legal_next_states TransactionState.VALIDATING =
     {TransactionState.REJECTED, TransactionState.STEP_UP_REQUIRED, TransactionState.RESERVED}"
| "legal_next_states TransactionState.STEP_UP_REQUIRED = {TransactionState.USER_APPROVED}"
| "legal_next_states TransactionState.USER_APPROVED = {TransactionState.RESERVED}"
| "legal_next_states TransactionState.RESERVED = {TransactionState.AUTHORIZED}"
| "legal_next_states TransactionState.AUTHORIZED = {TransactionState.EXECUTING}"
| "legal_next_states TransactionState.EXECUTING =
     {TransactionState.SUCCESS, TransactionState.FAILURE, TransactionState.COMMITTED,
      TransactionState.ROLLED_BACK}"
| "legal_next_states TransactionState.SUCCESS = {TransactionState.COMMITTED}"
| "legal_next_states TransactionState.FAILURE = {TransactionState.ROLLED_BACK}"
| "legal_next_states TransactionState.COMMITTED = {TransactionState.COMPLETED}"
| "legal_next_states TransactionState.ROLLED_BACK = {TransactionState.COMPLETED}"
| "legal_next_states TransactionState.COMPLETED = {TransactionState.RECEIPT}"
| "legal_next_states TransactionState.REJECTED = {}"
| "legal_next_states TransactionState.RECEIPT = {}"
| "legal_next_states TransactionState.EXPIRED = {}"
| "legal_next_states TransactionState.CONSUMED = {}"

fun txn_state_value :: "TransactionState \<Rightarrow> string" where
  "txn_state_value TransactionState.DRAFT = ''DRAFT''"
| "txn_state_value TransactionState.PROPOSED = ''PROPOSED''"
| "txn_state_value TransactionState.VALIDATING = ''VALIDATING''"
| "txn_state_value TransactionState.REJECTED = ''REJECTED''"
| "txn_state_value TransactionState.STEP_UP_REQUIRED = ''STEP_UP_REQUIRED''"
| "txn_state_value TransactionState.USER_APPROVED = ''USER_APPROVED''"
| "txn_state_value TransactionState.RESERVED = ''RESERVED''"
| "txn_state_value TransactionState.AUTHORIZED = ''AUTHORIZED''"
| "txn_state_value TransactionState.EXECUTING = ''EXECUTING''"
| "txn_state_value TransactionState.SUCCESS = ''SUCCESS''"
| "txn_state_value TransactionState.FAILURE = ''FAILURE''"
| "txn_state_value TransactionState.COMMITTED = ''COMMITTED''"
| "txn_state_value TransactionState.ROLLED_BACK = ''ROLLED_BACK''"
| "txn_state_value TransactionState.COMPLETED = ''COMPLETED''"
| "txn_state_value TransactionState.RECEIPT = ''RECEIPT''"
| "txn_state_value TransactionState.EXPIRED = ''EXPIRED''"
| "txn_state_value TransactionState.CONSUMED = ''CONSUMED''"

definition txn_state_of :: "string \<Rightarrow> TransactionState option" where
  "txn_state_of = member_of_value txn_state_value
     [TransactionState.DRAFT, TransactionState.PROPOSED, TransactionState.VALIDATING,
      TransactionState.REJECTED, TransactionState.STEP_UP_REQUIRED, TransactionState.USER_APPROVED,
      TransactionState.RESERVED, TransactionState.AUTHORIZED, TransactionState.EXECUTING,
      TransactionState.SUCCESS, TransactionState.FAILURE, TransactionState.COMMITTED,
      TransactionState.ROLLED_BACK, TransactionState.COMPLETED, TransactionState.RECEIPT,
      TransactionState.EXPIRED, TransactionState.CONSUMED]"

lemma txn_state_of_value [simp]: "txn_state_of (txn_state_value s) = Some s"
  by (cases s) (simp_all add: txn_state_of_def member_of_value_def)

definition can_transition_to :: "TransactionState \<Rightarrow> TransactionState \<Rightarrow> bool" where
  "can_transition_to s t = (t \<in> legal_next_states s)"

definition txn_is_terminal :: "TransactionState \<Rightarrow> bool" where
  "txn_is_terminal s = (s \<in> {TransactionState.REJECTED, TransactionState.COMPLETED,
     TransactionState.EXPIRED, TransactionState.RECEIPT})"

definition txn_can_execute :: "TransactionState \<Rightarrow> bool" where
  "txn_can_execute s = (s = TransactionState.AUTHORIZED)"

datatype PolicyDecision = ALLOW | STEP_UP_REQUIRED | REJECT

fun decision_value :: "PolicyDecision \<Rightarrow> string" where
  "decision_value ALLOW = ''ALLOW''"
| "decision_value PolicyDecision.STEP_UP_REQUIRED = ''STEP_UP_REQUIRED''"
| "decision_value REJECT = ''REJECT''"

lemma decision_value_inject [simp]: "decision_value a = decision_value b \<longleftrightarrow> a = b"
  by (cases a; cases b) simp_all

datatype StepUpZone = AUTO_EXECUTE | STEP_UP_REQUIRED | HARD_REJECT

datatype BudgetState = AVAILABLE | RESERVED | COMMITTED | SPENT | EXPIRED | RELEASED

fun budget_state_value :: "BudgetState \<Rightarrow> string" where
  "budget_state_value AVAILABLE = ''AVAILABLE''"
| "budget_state_value BudgetState.RESERVED = ''RESERVED''"
| "budget_state_value BudgetState.COMMITTED = ''COMMITTED''"
| "budget_state_value SPENT = ''SPENT''"
| "budget_state_value BudgetState.EXPIRED = ''EXPIRED''"
| "budget_state_value RELEASED = ''RELEASED''"

datatype NonceState = ISSUED | CONSUMED

fun nonce_state_value :: "NonceState \<Rightarrow> string" where
  "nonce_state_value ISSUED = ''ISSUED''"
| "nonce_state_value NonceState.CONSUMED = ''CONSUMED''"

datatype McpOperation =
    CREATE_ORDER | CREATE_PAYMENT_LINK | FETCH_PAYMENT | PAYOUT | SETTLEMENT | BANK_TRANSFER

fun mcp_value :: "McpOperation \<Rightarrow> string" where
  "mcp_value CREATE_ORDER = ''create_order''"
| "mcp_value CREATE_PAYMENT_LINK = ''create_payment_link''"
| "mcp_value FETCH_PAYMENT = ''fetch_payment''"
| "mcp_value PAYOUT = ''payout''"
| "mcp_value SETTLEMENT = ''settlement''"
| "mcp_value BANK_TRANSFER = ''bank_transfer''"

definition mcp_of :: "string \<Rightarrow> McpOperation option" where
  "mcp_of = member_of_value mcp_value
     [CREATE_ORDER, CREATE_PAYMENT_LINK, FETCH_PAYMENT, PAYOUT, SETTLEMENT, BANK_TRANSFER]"

lemma mcp_of_value [simp]: "mcp_of (mcp_value op) = Some op"
  by (cases op) (simp_all add: mcp_of_def member_of_value_def)

definition is_blocked_by_default :: "McpOperation \<Rightarrow> bool" where
  "is_blocked_by_default op = (op \<in> {PAYOUT, SETTLEMENT, BANK_TRANSFER})"

datatype AuditEventType =
    MANDATE_CREATED | MERCHANT_POLICY_CREATED | CART_PROPOSED | POLICY_EVALUATED
  | STEP_UP_REQUESTED | STEP_UP_APPROVED | RESERVATION_CREATED | TOOL_BLOCKED
  | EXECUTION_AUTHORIZED | PAYMENT_STARTED | PAYMENT_SUCCESS | PAYMENT_FAILED
  | RESERVATION_RELEASED | NONCE_REPLAY_BLOCKED | CART_TAMPER_BLOCKED | API_CREDENTIAL_CREATED
  | API_CREDENTIAL_AUTHENTICATED | API_CREDENTIAL_AUTH_FAILED | API_CREDENTIAL_REVOKED
  | AUTHORIZATION_DENIED | TENANT_ACCESS_DENIED | SCOPE_DENIED

datatype PaymentResultState = PENDING | SUCCESS | FAILED | EXPIRED | UNKNOWN

definition is_retryable :: "PaymentResultState \<Rightarrow> bool" where
  "is_retryable s = (s = UNKNOWN)"

datatype RejectionReason =
    MANDATE_EXPIRED | MANDATE_REVOKED | MANDATE_NOT_ACTIVE | MANDATE_NOT_IN_SCOPE
  | MERCHANT_NOT_IN_SCOPE | CATEGORY_NOT_IN_SCOPE | AMOUNT_EXCEEDS_MANDATE | CURRENCY_MISMATCH
  | AUTONOMOUS_EXECUTION_DISABLED | MANDATE_TTL_EXPIRED
  | AI_COMMERCE_DISABLED | MERCHANT_CATEGORY_NOT_ALLOWED | MERCHANT_AMOUNT_LIMIT_EXCEEDED
  | OPERATION_NOT_ALLOWED | REGION_NOT_ALLOWED | MERCHANT_CURRENCY_NOT_SUPPORTED
  | POLICY_VERSION_INVALID | MERCHANT_POLICY_EXPIRED | MERCHANT_MISMATCH
  | CART_INTEGRITY_VIOLATION | CART_TOTAL_MISMATCH | CART_CURRENCY_MISMATCH | PRODUCT_UNAVAILABLE
  | NONCE_ALREADY_CONSUMED | AUTHORIZATION_EXPIRED | NONCE_INVALID | INVALID_TRANSACTION_STATE
  | TOOL_OUTSIDE_MANDATE | METHOD_NOT_AUTHORIZED | CONTROL_RESULT_MISSING
  | REPLAY_ATTEMPT_DETECTED
  | BUDGET_INSUFFICIENT | DAILY_LIMIT_EXCEEDED | BUDGET_EXCEEDED | BUDGET_CURRENCY_MISMATCH
  | INVALID_AMOUNT
  | EXCEEDS_STEP_UP_HARD_LIMIT | STEP_UP_CONFIRMATION_INVALID | STEP_UP_CONFIRMATION_EXPIRED

section \<open>The life of a transaction\<close>

fun txn_path :: "TransactionState \<Rightarrow> TransactionState list \<Rightarrow> bool" where
  "txn_path s [] = True"
| "txn_path s (t # ts) = (can_transition_to s t \<and> txn_path t ts)"

fun txn_end :: "TransactionState \<Rightarrow> TransactionState list \<Rightarrow> TransactionState" where
  "txn_end s [] = s"
| "txn_end s (t # ts) = txn_end t ts"

fun txn_rank :: "TransactionState \<Rightarrow> nat" where
  "txn_rank TransactionState.DRAFT = 0"
| "txn_rank TransactionState.PROPOSED = 1"
| "txn_rank TransactionState.VALIDATING = 2"
| "txn_rank TransactionState.STEP_UP_REQUIRED = 3"
| "txn_rank TransactionState.USER_APPROVED = 4"
| "txn_rank TransactionState.RESERVED = 5"
| "txn_rank TransactionState.AUTHORIZED = 6"
| "txn_rank TransactionState.EXECUTING = 7"
| "txn_rank TransactionState.SUCCESS = 8"
| "txn_rank TransactionState.FAILURE = 8"
| "txn_rank TransactionState.COMMITTED = 9"
| "txn_rank TransactionState.ROLLED_BACK = 9"
| "txn_rank TransactionState.COMPLETED = 10"
| "txn_rank TransactionState.RECEIPT = 11"
| "txn_rank TransactionState.REJECTED = 11"
| "txn_rank TransactionState.EXPIRED = 11"
| "txn_rank TransactionState.CONSUMED = 11"

lemma can_transition_rank: "can_transition_to s t \<Longrightarrow> txn_rank s < txn_rank t"
  by (cases s) (auto simp: can_transition_to_def)

lemma txn_rank_le: "txn_rank s \<le> 11"
  by (cases s) simp_all

lemma txn_path_rank: "txn_path s ts \<Longrightarrow> length ts + txn_rank s \<le> txn_rank (txn_end s ts)"
proof (induction ts arbitrary: s)
  case (Cons t ts)
  then show ?case using can_transition_rank [of s t] by fastforce
qed simp

lemma txn_path_append:
  "txn_path s (ts @ us) \<longleftrightarrow> txn_path s ts \<and> txn_path (txn_end s ts) us"
  by (induction ts arbitrary: s) auto

lemma txn_end_snoc [simp]: "txn_end s (ts @ [t]) = t"
  by (induction ts arbitrary: s) auto

text \<open>The only step into a state of the execution phase is the one before it.\<close>

lemma into_executing: "can_transition_to s TransactionState.EXECUTING \<longleftrightarrow> s = AUTHORIZED"
  by (cases s) (auto simp: can_transition_to_def)

lemma into_authorized: "can_transition_to s TransactionState.AUTHORIZED \<longleftrightarrow> s = TransactionState.RESERVED"
  by (cases s) (auto simp: can_transition_to_def)

lemma into_committed:
  "can_transition_to s TransactionState.COMMITTED \<longleftrightarrow>
     s \<in> {TransactionState.EXECUTING, TransactionState.SUCCESS}"
  by (cases s) (auto simp: can_transition_to_def)

lemma into_success: "can_transition_to s TransactionState.SUCCESS \<longleftrightarrow> s = EXECUTING"
  by (cases s) (auto simp: can_transition_to_def)

lemma into_user_approved:
  "can_transition_to s TransactionState.USER_APPROVED \<longleftrightarrow> s = TransactionState.STEP_UP_REQUIRED"
  by (cases s) (auto simp: can_transition_to_def)

end
