(* ===== verification/Money.thy ===== *)
theory Money
  imports Domain_Types
begin

text \<open>
  The value object of \<open>apps/api/domain/money.py\<close>: an amount in integer paise, bounded by
  \<open>MAX_PAISE\<close>, with its currency. \<open>mk_money\<close> is the constructor with its \<open>__post_init__\<close>
  checks (the type checks hold by typing), and \<open>money_ok\<close> is what the constructor establishes.
  \<open>of_rupees\<close> is modelled on integer rupees; the branch for a float argument is not.
\<close>

definition MAX_PAISE :: int where
  "MAX_PAISE = 100000000"

record Money =
  paise :: int
  mcurrency :: Currency

definition money_ok :: "Money \<Rightarrow> bool" where
  "money_ok m \<longleftrightarrow> 0 \<le> paise m \<and> paise m \<le> MAX_PAISE"

definition mk_money :: "int \<Rightarrow> Currency \<Rightarrow> Money res" where
  "mk_money p c =
     (if p < 0 then
        Inl (Raise ValueError (Msg ''Money amount cannot be negative: {} paise'' [PInt p]))
      else if p > MAX_PAISE then
        Inl (Raise ValueError (Msg ''Money amount {} paise exceeds maximum {} paise''
               [PInt p, PInt MAX_PAISE]))
      else Inr \<lparr>paise = p, mcurrency = c\<rparr>)"

definition of_rupees :: "int \<Rightarrow> Currency \<Rightarrow> Money res" where
  "of_rupees rupees c =
     (if rupees < 0 then
        Inl (Raise ValueError (Msg ''Rupee amount cannot be negative: {}'' [PInt rupees]))
      else mk_money (rupees * 100) c)"

definition money_zero :: "Currency \<Rightarrow> Money res" where
  "money_zero c = mk_money 0 c"

definition assert_same_currency :: "Money \<Rightarrow> Money \<Rightarrow> unit res" where
  "assert_same_currency a b =
     (if mcurrency a \<noteq> mcurrency b then
        Inl (Raise ValueError (Msg ''Currency mismatch: {} vs {}''
          [PStr (currency_value (mcurrency a)), PStr (currency_value (mcurrency b))]))
      else Inr ())"

definition money_add :: "Money \<Rightarrow> Money \<Rightarrow> Money res" where
  "money_add a b = bind_res (assert_same_currency a b)
     (\<lambda>_. mk_money (paise a + paise b) (mcurrency a))"

definition money_sub :: "Money \<Rightarrow> Money \<Rightarrow> Money res" where
  "money_sub a b = bind_res (assert_same_currency a b)
     (\<lambda>_. let r = paise a - paise b in
        if r < 0 then
          Inl (Raise ValueError (Msg ''Subtraction would produce negative Money: {} - {} = {} paise''
                 [PInt (paise a), PInt (paise b), PInt r]))
        else mk_money r (mcurrency a))"

definition money_le :: "Money \<Rightarrow> Money \<Rightarrow> bool res" where
  "money_le a b = bind_res (assert_same_currency a b) (\<lambda>_. Inr (paise a \<le> paise b))"

definition money_lt :: "Money \<Rightarrow> Money \<Rightarrow> bool res" where
  "money_lt a b = bind_res (assert_same_currency a b) (\<lambda>_. Inr (paise a < paise b))"

definition money_ge :: "Money \<Rightarrow> Money \<Rightarrow> bool res" where
  "money_ge a b = bind_res (assert_same_currency a b) (\<lambda>_. Inr (paise a \<ge> paise b))"

definition money_gt :: "Money \<Rightarrow> Money \<Rightarrow> bool res" where
  "money_gt a b = bind_res (assert_same_currency a b) (\<lambda>_. Inr (paise a > paise b))"

definition money_eq :: "Money \<Rightarrow> Money \<Rightarrow> bool" where
  "money_eq a b = (paise a = paise b \<and> mcurrency a = mcurrency b)"

lemmas money_defs = mk_money_def of_rupees_def money_zero_def assert_same_currency_def
  money_add_def money_sub_def money_le_def money_lt_def money_ge_def money_gt_def

section \<open>What the operations promise\<close>

lemma mk_money_Inr:
  "mk_money p c = Inr m \<longleftrightarrow> 0 \<le> p \<and> p \<le> MAX_PAISE \<and> m = \<lparr>paise = p, mcurrency = c\<rparr>"
  by (auto simp: mk_money_def)

lemma mk_money_ok: "mk_money p c = Inr m \<Longrightarrow> money_ok m"
  by (auto simp: mk_money_Inr money_ok_def)

lemma money_rebuild [simp]: "money_ok m \<Longrightarrow> mk_money (paise m) (mcurrency m) = Inr m"
  by (simp add: mk_money_Inr money_ok_def)

lemma money_add_Inr:
  "money_add a b = Inr m \<longleftrightarrow> mcurrency a = mcurrency b \<and>
     mk_money (paise a + paise b) (mcurrency a) = Inr m"
  by (simp add: money_add_def assert_same_currency_def bind_res_Inr)

lemma money_sub_Inr:
  "money_sub a b = Inr m \<longleftrightarrow> mcurrency a = mcurrency b \<and> paise b \<le> paise a \<and>
     mk_money (paise a - paise b) (mcurrency a) = Inr m"
  by (auto simp: money_sub_def assert_same_currency_def bind_res_Inr Let_def)

lemma money_eq_iff: "money_eq a b \<longleftrightarrow> a = b"
  by (cases a; cases b) (simp add: money_eq_def)

lemma money_le_gt: "money_le a b = Inr t \<longleftrightarrow> money_gt a b = Inr (\<not> t)"
  by (auto simp: money_le_def money_gt_def bind_res_Inr assert_same_currency_def)

end
