(* ===== verification/Contracts.thy ===== *)
theory Contracts
  imports Py_Prelude
begin

text \<open>
  The contracts that several components share, as locales over the operations of a component.

  A component with state is run by a list of operations (\<open>run_ops\<close>), each of which returns an
  output and the next state. \<open>machine\<close> is the contract "every operation keeps the invariant".
  \<open>single_use\<close> is the contract of the stores that guard against replays: a key is accepted at
  most once, whatever else happens between the attempts. The nonce engine, the replay engine and
  the other guards interpret them on their own operations.
\<close>

section \<open>Running a component\<close>

fun run_ops :: "('s \<Rightarrow> 'op \<Rightarrow> 'o \<times> 's) \<Rightarrow> 's \<Rightarrow> 'op list \<Rightarrow> 'o list \<times> 's" where
  "run_ops step s [] = ([], s)"
| "run_ops step s (x # xs) =
     (case step s x of (out, s') \<Rightarrow>
        case run_ops step s' xs of (outs, s'') \<Rightarrow> (out # outs, s''))"

fun run_adm :: "('s \<Rightarrow> 'op \<Rightarrow> 'o \<times> 's) \<Rightarrow> ('s \<Rightarrow> 'op \<Rightarrow> bool) \<Rightarrow> 's \<Rightarrow> 'op list \<Rightarrow> bool" where
  \<comment> \<open>every operation is admissible in the state in which it runs\<close>
  "run_adm step adm s [] = True"
| "run_adm step adm s (x # xs) = (adm s x \<and> run_adm step adm (snd (step s x)) xs)"

lemma run_ops_Cons:
  "run_ops step s (x # xs) =
     (fst (step s x) # fst (run_ops step (snd (step s x)) xs),
      snd (run_ops step (snd (step s x)) xs))"
  by (simp split: prod.splits)

lemma length_run_ops [simp]: "length (fst (run_ops step s xs)) = length xs"
  by (induction xs arbitrary: s) (simp_all add: run_ops_Cons del: run_ops.simps(2))

lemma run_adm_trivial [simp]: "run_adm step (\<lambda>_ _. True) s xs"
  by (induction xs arbitrary: s) auto

definition accepted_count :: "('o \<Rightarrow> bool) \<Rightarrow> ('op \<Rightarrow> bool) \<Rightarrow> 'op list \<Rightarrow> 'o list \<Rightarrow> nat" where
  "accepted_count acc P xs outs =
     length (filter (\<lambda>(x, out). P x \<and> acc out) (zip xs outs))"

lemma accepted_count_Nil [simp]: "accepted_count acc P [] outs = 0"
  by (simp add: accepted_count_def)

lemma accepted_count_Cons [simp]:
  "accepted_count acc P (x # xs) (out # outs) =
     (if P x \<and> acc out then 1 else 0) + accepted_count acc P xs outs"
  by (simp add: accepted_count_def)

section \<open>Invariants of a machine\<close>

locale machine =
  fixes step :: "'s \<Rightarrow> 'op \<Rightarrow> 'o \<times> 's"
    and adm :: "'s \<Rightarrow> 'op \<Rightarrow> bool"
    and inv :: "'s \<Rightarrow> bool"
  assumes inv_step: "inv s \<Longrightarrow> adm s x \<Longrightarrow> inv (snd (step s x))"
begin

lemma inv_run:
  assumes "inv s" and "run_adm step adm s xs"
  shows "inv (snd (run_ops step s xs))"
  using assms
proof (induction xs arbitrary: s)
  case (Cons x xs)
  then have "inv (snd (step s x))" by (simp add: inv_step)
  with Cons show ?case by (simp add: run_ops_Cons del: run_ops.simps(2))
qed simp

end

section \<open>Single use\<close>

locale single_use = machine +
  fixes accepted :: "'o \<Rightarrow> bool"
    and key :: "'op \<Rightarrow> 'k option"
    and used :: "'s \<Rightarrow> 'k \<Rightarrow> bool"
  assumes accept_fresh:
      "inv s \<Longrightarrow> adm s x \<Longrightarrow> key x = Some k \<Longrightarrow> accepted (fst (step s x)) \<Longrightarrow> \<not> used s k"
    and accept_marks:
      "inv s \<Longrightarrow> adm s x \<Longrightarrow> key x = Some k \<Longrightarrow> accepted (fst (step s x)) \<Longrightarrow>
         used (snd (step s x)) k"
    and used_stays: "inv s \<Longrightarrow> adm s x \<Longrightarrow> used s k \<Longrightarrow> used (snd (step s x)) k"
begin

lemma used_run:
  assumes "inv s" and "run_adm step adm s xs" and "used s k"
  shows "used (snd (run_ops step s xs)) k"
  using assms
proof (induction xs arbitrary: s)
  case (Cons x xs)
  then have "inv (snd (step s x))" "used (snd (step s x)) k"
    by (simp_all add: inv_step used_stays)
  with Cons show ?case by (simp add: run_ops_Cons del: run_ops.simps(2))
qed simp

lemma used_never_accepted:
  assumes "inv s" and "run_adm step adm s xs" and "used s k"
  shows "accepted_count accepted (\<lambda>x. key x = Some k) xs (fst (run_ops step s xs)) = 0"
  using assms
proof (induction xs arbitrary: s)
  case (Cons x xs)
  then have "inv (snd (step s x))" "used (snd (step s x)) k"
    by (simp_all add: inv_step used_stays)
  moreover have "\<not> (key x = Some k \<and> accepted (fst (step s x)))"
    using Cons.prems accept_fresh by fastforce
  ultimately show ?case using Cons by (auto simp: run_ops_Cons simp del: run_ops.simps(2))
qed simp

lemma at_most_once:
  assumes "inv s" and "run_adm step adm s xs"
  shows "accepted_count accepted (\<lambda>x. key x = Some k) xs (fst (run_ops step s xs)) \<le> 1"
  using assms
proof (induction xs arbitrary: s)
  case (Cons x xs)
  let ?s' = "snd (step s x)"
  have inv': "inv ?s'" "run_adm step adm ?s' xs" using Cons.prems by (simp_all add: inv_step)
  show ?case
  proof (cases "key x = Some k \<and> accepted (fst (step s x))")
    case True
    then have "used ?s' k" using Cons.prems accept_marks by simp
    then have "accepted_count accepted (\<lambda>x. key x = Some k) xs (fst (run_ops step ?s' xs)) = 0"
      using inv' by (simp add: used_never_accepted)
    with True show ?thesis by (simp add: run_ops_Cons del: run_ops.simps(2))
  next
    case False
    then show ?thesis using Cons.IH [OF inv'] by (auto simp: run_ops_Cons simp del: run_ops.simps(2))
  qed
qed simp

end

section \<open>Tallies\<close>

definition tally :: "('op \<Rightarrow> 'o \<Rightarrow> int) \<Rightarrow> 'op list \<Rightarrow> 'o list \<Rightarrow> int" where
  \<comment> \<open>the sum of what the operations of a run are charged\<close>
  "tally charge xs outs = (\<Sum>(x, out) \<leftarrow> zip xs outs. charge x out)"

lemma tally_Nil [simp]: "tally charge [] outs = 0"
  by (simp add: tally_def)

lemma tally_Cons [simp]: "tally charge (x # xs) (out # outs) = charge x out + tally charge xs outs"
  by (simp add: tally_def)

locale tallied = machine +
  fixes charge :: "'b \<Rightarrow> 'c \<Rightarrow> int"
    and spent :: "'a \<Rightarrow> int"
  assumes spent_step: "inv s \<Longrightarrow> adm s x \<Longrightarrow> spent (snd (step s x)) = spent s + charge x (fst (step s x))"
begin

lemma spent_run:
  assumes "inv s" and "run_adm step adm s xs"
  shows "spent (snd (run_ops step s xs)) = spent s + tally charge xs (fst (run_ops step s xs))"
  using assms
proof (induction xs arbitrary: s)
  case (Cons x xs)
  then have "inv (snd (step s x))" by (simp add: inv_step)
  with Cons show ?case by (simp add: run_ops_Cons spent_step del: run_ops.simps(2))
qed simp

end

end
