(* ===== verification/Control_Outcome.thy ===== *)
theory Control_Outcome
  imports Domain_Types
begin

text \<open>
  The data that the security controls exchange: \<open>StepUpDiff\<close> of
  \<open>apps/api/contracts/transaction.py\<close> and \<open>SecurityControlOutcome\<close> of
  \<open>apps/api/domain/authorization_aggregator.py\<close>. Every engine converts its evaluation result to a
  \<open>SecurityControlOutcome\<close>, and the aggregator reads nothing else of it.

  The source computes a percentage \<open>round((d / c) * 100.0, 2)\<close> in floating point, only to show
  it. \<open>Percent d c\<close> keeps that expression with its two operands.
\<close>

datatype percent = Percent int int

record StepUpDiff =
  sd_approved_paise :: int
  sd_proposed_paise :: int
  sd_delta_paise :: int
  sd_delta_percent :: percent
  sd_reason :: msg

record SecurityControlOutcome =
  sco_control_name :: string
  sco_passed :: bool
  sco_decision :: PolicyDecision
  sco_rejection_reason :: "RejectionReason option"
  sco_detail :: "msg option"
  sco_step_up_diff :: "StepUpDiff option"

definition sco_allows :: "SecurityControlOutcome \<Rightarrow> bool" where
  "sco_allows c \<longleftrightarrow> sco_passed c \<and> sco_decision c = ALLOW"

text \<open>
  The strings of \<open>checks_failed\<close>: a plain label, \<open>{reason}: {detail}\<close> of the policy engine, or
  \<open>{control}: {reason} - {detail}\<close> of the aggregator.
\<close>

datatype check_note =
    Label string
  | Rejected_For RejectionReason msg
  | Control_Failed string RejectionReason msg

end
