(* ===== verification/Budget.thy ===== *)
theory Budget
  imports Control_Outcome Contracts
begin

text \<open>
  Daily budgets and their reservations: the contracts of \<open>apps/api/domain/budget.py\<close> and the
  in-memory engine of \<open>apps/api/domain/budget_engine.py\<close>. The engine's state is its two
  dictionaries. Every public method runs under the mandate's lock, so a method is one step of
  the model; \<open>budget_step\<close> is the engine as a machine over its three mutating methods and
  \<open>reserve\<close>'s result is the evaluation the other engines consume.

  \<open>budget_inv\<close> is the financial invariant of the module (spent and reserved are non-negative
  and never exceed the daily limit). \<open>ledger_ok\<close> is the conservation law behind it: what a
  budget shows as reserved is exactly the sum of its open reservations, what it shows as spent
  is exactly the sum of its committed ones, over what it was registered with.
\<close>

section \<open>The contracts\<close>

datatype date_utc = Date_Given string | Strftime_Ymd datetime

record DailyBudget =
  db_budget_id :: string
  db_mandate_id :: string
  db_currency :: Currency
  db_date_utc :: date_utc
  db_daily_limit_paise :: int
  db_spent_paise :: int
  db_reserved_paise :: int
  db_created_at :: datetime
  db_updated_at :: datetime

definition available_paise :: "DailyBudget \<Rightarrow> int" where
  "available_paise b = db_daily_limit_paise b - db_spent_paise b - db_reserved_paise b"

definition mk_daily_budget ::
  "string \<Rightarrow> string \<Rightarrow> Currency \<Rightarrow> date_utc \<Rightarrow> int \<Rightarrow> int \<Rightarrow> int \<Rightarrow> datetime \<Rightarrow> DailyBudget res" where
  \<comment> \<open>the constructor with its field constraints and \<open>_validate_budget_invariant\<close>\<close>
  "mk_daily_budget bid mid cur date limit spent reserved now =
     (if mid = [] then Inl (Raise ValueError (Msg ''mandate_id: min_length 1'' []))
      else if limit < 0 then Inl (Raise ValueError (Msg ''daily_limit_paise: ge 0'' []))
      else if spent < 0 then Inl (Raise ValueError (Msg ''spent_paise: ge 0'' []))
      else if reserved < 0 then Inl (Raise ValueError (Msg ''reserved_paise: ge 0'' []))
      else if spent + reserved > limit then
        Inl (Raise ValueError
          (Msg ''Budget invariant violated: spent ({}) + reserved ({}) > daily_limit ({}).''
            [PInt spent, PInt reserved, PInt limit]))
      else Inr \<lparr>db_budget_id = bid, db_mandate_id = mid, db_currency = cur, db_date_utc = date,
                db_daily_limit_paise = limit, db_spent_paise = spent,
                db_reserved_paise = reserved, db_created_at = now, db_updated_at = now\<rparr>)"

record BudgetReservation =
  br_reservation_id :: string
  br_transaction_id :: string
  br_mandate_id :: string
  br_amount_paise :: int
  br_currency :: Currency
  br_state :: BudgetState
  br_created_at :: datetime
  br_expires_at :: datetime
  br_updated_at :: datetime

definition reservation_is_expired :: "BudgetReservation \<Rightarrow> datetime option \<Rightarrow> datetime \<Rightarrow> bool" where
  "reservation_is_expired r at now = (resolve_at at now \<ge> br_expires_at r)"

definition mk_budget_reservation ::
  "string \<Rightarrow> string \<Rightarrow> string \<Rightarrow> int \<Rightarrow> Currency \<Rightarrow> BudgetState \<Rightarrow> datetime \<Rightarrow> datetime \<Rightarrow>
   BudgetReservation res" where
  "mk_budget_reservation rid tid mid amount cur st created expires =
     (if tid = [] then Inl (Raise ValueError (Msg ''transaction_id: min_length 1'' []))
      else if mid = [] then Inl (Raise ValueError (Msg ''mandate_id: min_length 1'' []))
      else if amount < 0 then Inl (Raise ValueError (Msg ''amount_paise: ge 0'' []))
      else Inr \<lparr>br_reservation_id = rid, br_transaction_id = tid, br_mandate_id = mid,
                br_amount_paise = amount, br_currency = cur, br_state = st,
                br_created_at = created, br_expires_at = expires, br_updated_at = created\<rparr>)"

section \<open>The accounting functions\<close>

definition assert_can_reserve :: "DailyBudget \<Rightarrow> int \<Rightarrow> unit res" where
  "assert_can_reserve b requested =
     (if requested \<le> 0 then
        Inl (Raise ValueError (Msg ''requested_paise must be positive, got {}.'' [PInt requested]))
      else if db_spent_paise b + db_reserved_paise b + requested > db_daily_limit_paise b then
        Inl (Raise BudgetInsufficientError
          (Msg ''Budget insufficient: requested {} paise, available {} paise (limit={}, spent={}, reserved={}).''
            [PInt requested, PInt (available_paise b), PInt (db_daily_limit_paise b),
             PInt (db_spent_paise b), PInt (db_reserved_paise b)]))
      else Inr ())"

definition reserve_budget :: "DailyBudget \<Rightarrow> int \<Rightarrow> datetime \<Rightarrow> DailyBudget res" where
  "reserve_budget b p now =
     bind_res (assert_can_reserve b p)
       (\<lambda>_. Inr (b\<lparr>db_reserved_paise := db_reserved_paise b + p, db_updated_at := now\<rparr>))"

definition commit_reservation :: "DailyBudget \<Rightarrow> int \<Rightarrow> datetime \<Rightarrow> DailyBudget res" where
  "commit_reservation b p now =
     (if p > db_reserved_paise b then
        Inl (Raise ValueError (Msg ''Cannot commit {} paise - only {} paise reserved.''
          [PInt p, PInt (db_reserved_paise b)]))
      else Inr (b\<lparr>db_reserved_paise := db_reserved_paise b - p,
                  db_spent_paise := db_spent_paise b + p, db_updated_at := now\<rparr>))"

definition release_reservation :: "DailyBudget \<Rightarrow> int \<Rightarrow> datetime \<Rightarrow> DailyBudget res" where
  "release_reservation b p now =
     (if p > db_reserved_paise b then
        Inl (Raise ValueError (Msg ''Cannot release {} paise - only {} paise reserved.''
          [PInt p, PInt (db_reserved_paise b)]))
      else Inr (b\<lparr>db_reserved_paise := db_reserved_paise b - p, db_updated_at := now\<rparr>))"

section \<open>The engine\<close>

record BudgetEngine =
  be_budgets :: "string \<rightharpoonup> DailyBudget"
  be_reservations :: "string \<rightharpoonup> BudgetReservation"

definition budget_engine_init :: BudgetEngine where
  "budget_engine_init = \<lparr>be_budgets = Map.empty, be_reservations = Map.empty\<rparr>"

record BudgetEvaluationResult =
  bev_valid :: bool
  bev_decision :: PolicyDecision
  bev_mandate_id :: string
  bev_requested_paise :: int
  bev_available_paise :: int
  bev_reservation :: "BudgetReservation option"
  bev_rejection_reason :: "RejectionReason option"
  bev_rejection_detail :: "msg option"
  bev_evaluated_at :: datetime

definition bev_is_allowed :: "BudgetEvaluationResult \<Rightarrow> bool" where
  "bev_is_allowed r \<longleftrightarrow> bev_valid r \<and> bev_decision r = ALLOW"

definition bev_to_control :: "BudgetEvaluationResult \<Rightarrow> SecurityControlOutcome" where
  "bev_to_control r =
     \<lparr>sco_control_name = ''BUDGET'', sco_passed = bev_valid r, sco_decision = bev_decision r,
      sco_rejection_reason = bev_rejection_reason r, sco_detail = bev_rejection_detail r,
      sco_step_up_diff = None\<rparr>"

definition register_budget ::
  "BudgetEngine \<Rightarrow> string \<Rightarrow> int \<Rightarrow> Currency \<Rightarrow> date_utc option \<Rightarrow> int \<Rightarrow> int \<Rightarrow> string \<Rightarrow> datetime \<Rightarrow>
   DailyBudget res \<times> BudgetEngine" where
  "register_budget e mid limit cur date spent reserved new_id now =
     (if limit < 0 then
        (Inl (Raise ValueError (Msg ''daily_limit_paise must be non-negative, got {}.''
           [PInt limit])), e)
      else if spent < 0 \<or> reserved < 0 then
        (Inl (Raise ValueError (Msg ''spent_paise and reserved_paise must be non-negative.'' [])), e)
      else if spent + reserved > limit then
        (Inl (Raise ValueError (Msg ''spent_paise + reserved_paise exceeds daily_limit_paise.'' [])), e)
      else
        case mk_daily_budget new_id mid cur (option_or date (Strftime_Ymd now)) limit spent reserved now of
          Inl x \<Rightarrow> (Inl x, e)
        | Inr b \<Rightarrow> (Inr b, e\<lparr>be_budgets := (be_budgets e)(mid \<mapsto> b)\<rparr>))"

definition get_budget :: "BudgetEngine \<Rightarrow> string \<Rightarrow> DailyBudget option" where
  "get_budget e mid = be_budgets e mid"

definition list_budgets :: "BudgetEngine \<Rightarrow> string \<rightharpoonup> DailyBudget" where
  "list_budgets e = be_budgets e"

definition get_reservation :: "BudgetEngine \<Rightarrow> string \<Rightarrow> BudgetReservation option" where
  "get_reservation e rid = be_reservations e rid"

definition bev_reject ::
  "string \<Rightarrow> int \<Rightarrow> int \<Rightarrow> RejectionReason \<Rightarrow> msg \<Rightarrow> datetime \<Rightarrow> BudgetEvaluationResult" where
  "bev_reject mid requested avail reason detail t =
     \<lparr>bev_valid = False, bev_decision = REJECT, bev_mandate_id = mid,
      bev_requested_paise = requested, bev_available_paise = avail, bev_reservation = None,
      bev_rejection_reason = Some reason, bev_rejection_detail = Some detail,
      bev_evaluated_at = t\<rparr>"

definition bev_allow ::
  "string \<Rightarrow> int \<Rightarrow> int \<Rightarrow> BudgetReservation \<Rightarrow> datetime \<Rightarrow> BudgetEvaluationResult" where
  "bev_allow mid requested avail r t =
     \<lparr>bev_valid = True, bev_decision = ALLOW, bev_mandate_id = mid,
      bev_requested_paise = requested, bev_available_paise = avail, bev_reservation = Some r,
      bev_rejection_reason = None, bev_rejection_detail = None, bev_evaluated_at = t\<rparr>"

definition reserve ::
  "BudgetEngine \<Rightarrow> string \<Rightarrow> string \<Rightarrow> int \<Rightarrow> Currency \<Rightarrow> string option \<Rightarrow> int \<Rightarrow> datetime option \<Rightarrow>
   string \<Rightarrow> datetime \<Rightarrow> BudgetEvaluationResult res \<times> BudgetEngine" where
  "reserve e mid tid amount cur rid ttl at new_id now =
     (let t = resolve_at at now in
      if amount \<le> 0 then
        (Inr (bev_reject mid amount 0 INVALID_AMOUNT
           (Msg ''Budget reservation amount must be positive integer paise, got {}.'' [PInt amount]) t), e)
      else case be_budgets e mid of
        None \<Rightarrow>
          (Inr (bev_reject mid amount 0 BUDGET_EXCEEDED
             (Msg ''No budget registered for mandate {}.'' [PStr mid]) t), e)
      | Some b \<Rightarrow>
          if db_currency b \<noteq> cur then
            (Inr (bev_reject mid amount (available_paise b) BUDGET_CURRENCY_MISMATCH
               (Msg ''Budget currency mismatch: mandate is in {}, requested in {}.''
                 [PStr (currency_value (db_currency b)), PStr (currency_value cur)]) t), e)
          else
            let res_id = (case rid of None \<Rightarrow> new_id | Some r \<Rightarrow> if r = [] then new_id else r) in
            case be_reservations e res_id of
              Some old \<Rightarrow>
                (Inr (bev_reject mid amount (available_paise b) INVALID_TRANSACTION_STATE
                   (Msg ''Duplicate reservation ID {} already exists in state {}.''
                     [PStr res_id, PStr (budget_state_value (br_state old))]) t), e)
            | None \<Rightarrow>
                if db_spent_paise b + db_reserved_paise b + amount > db_daily_limit_paise b then
                  (Inr (bev_reject mid amount (available_paise b) BUDGET_EXCEEDED
                     (Msg ''Budget limit exceeded: requested {} paise, available {} paise (limit={}, spent={}, reserved={}).''
                       [PInt amount, PInt (available_paise b), PInt (db_daily_limit_paise b),
                        PInt (db_spent_paise b), PInt (db_reserved_paise b)]) t), e)
                else
                  case reserve_budget b amount now of
                    Inl x \<Rightarrow> (Inl x, e)
                  | Inr b' \<Rightarrow>
                      (case mk_budget_reservation res_id tid mid amount cur BudgetState.RESERVED t
                              (t + seconds ttl) of
                         Inl x \<Rightarrow> (Inl x, e)
                       | Inr r \<Rightarrow>
                           (Inr (bev_allow mid amount (available_paise b') r t),
                            e\<lparr>be_budgets := (be_budgets e)(mid \<mapsto> b'),
                              be_reservations := (be_reservations e)(res_id \<mapsto> r)\<rparr>)))"

definition commit ::
  "BudgetEngine \<Rightarrow> string \<Rightarrow> string \<Rightarrow> datetime option \<Rightarrow> datetime \<Rightarrow>
   BudgetReservation res \<times> BudgetEngine" where
  "commit e mid rid at now =
     (case be_reservations e rid of
        None \<Rightarrow> (Inl (Raise ValueError (Msg ''Reservation {} not found.'' [PStr rid])), e)
      | Some r \<Rightarrow>
          if br_mandate_id r \<noteq> mid then
            (Inl (Raise ValueError (Msg ''Reservation {} belongs to mandate {}, not {}.''
               [PStr rid, PStr (br_mandate_id r), PStr mid])), e)
          else if br_state r = BudgetState.COMMITTED then
            (Inl (Raise ValueError
               (Msg ''Double-commit error: Reservation {} is already COMMITTED.'' [PStr rid])), e)
          else if br_state r = BudgetState.RELEASED then
            (Inl (Raise ValueError
               (Msg ''Illegal state transition: Cannot commit RELEASED reservation {}.'' [PStr rid])), e)
          else if br_state r = BudgetState.EXPIRED then
            (Inl (Raise ValueError
               (Msg ''Illegal state transition: Cannot commit EXPIRED reservation {}.'' [PStr rid])), e)
          else if br_state r \<noteq> BudgetState.RESERVED then
            (Inl (Raise ValueError (Msg ''Cannot commit reservation {} in state {}.''
               [PStr rid, PStr (budget_state_value (br_state r))])), e)
          else
            case be_budgets e mid of
              None \<Rightarrow> (Inl (Raise ValueError (Msg ''No budget registered for mandate {}.'' [PStr mid])), e)
            | Some b \<Rightarrow>
                (case commit_reservation b (br_amount_paise r) now of
                   Inl x \<Rightarrow> (Inl x, e)
                 | Inr b' \<Rightarrow>
                     let r' = r\<lparr>br_state := BudgetState.COMMITTED, br_updated_at := resolve_at at now\<rparr> in
                     (Inr r', e\<lparr>be_budgets := (be_budgets e)(mid \<mapsto> b'),
                                be_reservations := (be_reservations e)(rid \<mapsto> r')\<rparr>)))"

definition release ::
  "BudgetEngine \<Rightarrow> string \<Rightarrow> string \<Rightarrow> datetime option \<Rightarrow> datetime \<Rightarrow>
   BudgetReservation res \<times> BudgetEngine" where
  "release e mid rid at now =
     (case be_reservations e rid of
        None \<Rightarrow> (Inl (Raise ValueError (Msg ''Reservation {} not found.'' [PStr rid])), e)
      | Some r \<Rightarrow>
          if br_mandate_id r \<noteq> mid then
            (Inl (Raise ValueError (Msg ''Reservation {} belongs to mandate {}, not {}.''
               [PStr rid, PStr (br_mandate_id r), PStr mid])), e)
          else if br_state r = BudgetState.RELEASED then
            (Inl (Raise ValueError
               (Msg ''Double-release error: Reservation {} is already RELEASED.'' [PStr rid])), e)
          else if br_state r = BudgetState.COMMITTED then
            (Inl (Raise ValueError
               (Msg ''Illegal state transition: Cannot release COMMITTED reservation {}.'' [PStr rid])), e)
          else if br_state r \<notin> {BudgetState.RESERVED, BudgetState.EXPIRED} then
            (Inl (Raise ValueError (Msg ''Cannot release reservation {} in state {}.''
               [PStr rid, PStr (budget_state_value (br_state r))])), e)
          else
            case be_budgets e mid of
              None \<Rightarrow> (Inl (Raise ValueError (Msg ''No budget registered for mandate {}.'' [PStr mid])), e)
            | Some b \<Rightarrow>
                (case release_reservation b (br_amount_paise r) now of
                   Inl x \<Rightarrow> (Inl x, e)
                 | Inr b' \<Rightarrow>
                     let r' = r\<lparr>br_state := BudgetState.RELEASED, br_updated_at := resolve_at at now\<rparr> in
                     (Inr r', e\<lparr>be_budgets := (be_budgets e)(mid \<mapsto> b'),
                                be_reservations := (be_reservations e)(rid \<mapsto> r')\<rparr>)))"

section \<open>What each operation does\<close>

definition budget_ok :: "DailyBudget \<Rightarrow> bool" where
  "budget_ok b \<longleftrightarrow> 0 \<le> db_spent_paise b \<and> 0 \<le> db_reserved_paise b \<and>
     db_spent_paise b + db_reserved_paise b \<le> db_daily_limit_paise b"

lemma mk_daily_budget_ok: "mk_daily_budget i m c d l s r t = Inr b \<Longrightarrow> budget_ok b"
  by (auto simp: mk_daily_budget_def budget_ok_def split: if_splits)

lemma reserve_budget_Inr:
  "reserve_budget b p now = Inr b' \<longleftrightarrow>
     0 < p \<and> db_spent_paise b + db_reserved_paise b + p \<le> db_daily_limit_paise b \<and>
     b' = b\<lparr>db_reserved_paise := db_reserved_paise b + p, db_updated_at := now\<rparr>"
  by (auto simp: reserve_budget_def assert_can_reserve_def)

lemma commit_reservation_Inr:
  "commit_reservation b p now = Inr b' \<longleftrightarrow> p \<le> db_reserved_paise b \<and>
     b' = b\<lparr>db_reserved_paise := db_reserved_paise b - p,
            db_spent_paise := db_spent_paise b + p, db_updated_at := now\<rparr>"
  by (auto simp: commit_reservation_def)

lemma release_reservation_Inr:
  "release_reservation b p now = Inr b' \<longleftrightarrow> p \<le> db_reserved_paise b \<and>
     b' = b\<lparr>db_reserved_paise := db_reserved_paise b - p, db_updated_at := now\<rparr>"
  by (auto simp: release_reservation_def)

lemmas budget_accounting = reserve_budget_Inr commit_reservation_Inr release_reservation_Inr

definition reservation_id_of :: "string option \<Rightarrow> string \<Rightarrow> string" where
  "reservation_id_of rid new_id =
     (case rid of None \<Rightarrow> new_id | Some r \<Rightarrow> if r = [] then new_id else r)"

lemma reserve_cases:
  "reserve e mid tid amount cur rid ttl at new_id now = (out, e') \<Longrightarrow>
   (e' = e \<and> (\<forall>v. out = Inr v \<longrightarrow> \<not> bev_valid v \<and> bev_decision v = REJECT \<and> bev_reservation v = None)) \<or>
   (\<exists>b b' r. be_budgets e mid = Some b \<and> 0 < amount \<and> db_currency b = cur \<and>
      be_reservations e (reservation_id_of rid new_id) = None \<and>
      reserve_budget b amount now = Inr b' \<and>
      mk_budget_reservation (reservation_id_of rid new_id) tid mid amount cur BudgetState.RESERVED
        (resolve_at at now) (resolve_at at now + seconds ttl) = Inr r \<and>
      out = Inr (bev_allow mid amount (available_paise b') r (resolve_at at now)) \<and>
      e' = e\<lparr>be_budgets := (be_budgets e)(mid \<mapsto> b'),
             be_reservations := (be_reservations e)(reservation_id_of rid new_id \<mapsto> r)\<rparr>)"
  unfolding reserve_def Let_def reservation_id_of_def [symmetric]
  by (auto simp: bev_reject_def split: if_splits option.splits sum.splits)

lemma commit_cases:
  "commit e mid rid at now = (out, e') \<Longrightarrow>
   (e' = e \<and> \<not> is_ok out) \<or>
   (\<exists>r b b'. be_reservations e rid = Some r \<and> br_mandate_id r = mid \<and>
      br_state r = BudgetState.RESERVED \<and> be_budgets e mid = Some b \<and>
      commit_reservation b (br_amount_paise r) now = Inr b' \<and>
      out = Inr (r\<lparr>br_state := BudgetState.COMMITTED, br_updated_at := resolve_at at now\<rparr>) \<and>
      e' = e\<lparr>be_budgets := (be_budgets e)(mid \<mapsto> b'),
             be_reservations := (be_reservations e)
               (rid \<mapsto> r\<lparr>br_state := BudgetState.COMMITTED, br_updated_at := resolve_at at now\<rparr>)\<rparr>)"
  unfolding commit_def Let_def
  by (auto split: if_splits option.splits sum.splits)

lemma release_cases:
  "release e mid rid at now = (out, e') \<Longrightarrow>
   (e' = e \<and> \<not> is_ok out) \<or>
   (\<exists>r b b'. be_reservations e rid = Some r \<and> br_mandate_id r = mid \<and>
      br_state r \<in> {BudgetState.RESERVED, BudgetState.EXPIRED} \<and> be_budgets e mid = Some b \<and>
      release_reservation b (br_amount_paise r) now = Inr b' \<and>
      out = Inr (r\<lparr>br_state := BudgetState.RELEASED, br_updated_at := resolve_at at now\<rparr>) \<and>
      e' = e\<lparr>be_budgets := (be_budgets e)(mid \<mapsto> b'),
             be_reservations := (be_reservations e)
               (rid \<mapsto> r\<lparr>br_state := BudgetState.RELEASED, br_updated_at := resolve_at at now\<rparr>)\<rparr>)"
  unfolding release_def Let_def
  by (auto split: if_splits option.splits sum.splits)

lemma register_cases:
  assumes "register_budget e mid limit cur date spent reserved new_id now = (out, e')"
  shows "(e' = e \<and> \<not> is_ok out) \<or>
   (\<exists>b. mk_daily_budget new_id mid cur (option_or date (Strftime_Ymd now)) limit spent reserved now
          = Inr b \<and> out = Inr b \<and> e' = e\<lparr>be_budgets := (be_budgets e)(mid \<mapsto> b)\<rparr>)"
proof -
  define m where
    "m = mk_daily_budget new_id mid cur (option_or date (Strftime_Ymd now)) limit spent reserved now"
  from assms show ?thesis
    unfolding register_budget_def m_def [symmetric] by (cases m) (auto split: if_splits)
qed

section \<open>The engine as a machine\<close>

datatype budget_op =
    BRegister string int Currency "date_utc option" int int string datetime
  | BReserve string string int Currency "string option" int "datetime option" string datetime
  | BCommit string string "datetime option" datetime
  | BRelease string string "datetime option" datetime

datatype budget_out =
    ORegister "DailyBudget res" | OReserve "BudgetEvaluationResult res"
  | OSettle "BudgetReservation res"

fun budget_step :: "BudgetEngine \<Rightarrow> budget_op \<Rightarrow> budget_out \<times> BudgetEngine" where
  "budget_step e (BRegister mid limit cur date spent reserved new_id now) =
     map_prod ORegister id (register_budget e mid limit cur date spent reserved new_id now)"
| "budget_step e (BReserve mid tid amount cur rid ttl at new_id now) =
     map_prod OReserve id (reserve e mid tid amount cur rid ttl at new_id now)"
| "budget_step e (BCommit mid rid at now) = map_prod OSettle id (commit e mid rid at now)"
| "budget_step e (BRelease mid rid at now) = map_prod OSettle id (release e mid rid at now)"

fun budget_no_register :: "BudgetEngine \<Rightarrow> budget_op \<Rightarrow> bool" where
  "budget_no_register e (BRegister _ _ _ _ _ _ _ _) = False"
| "budget_no_register e _ = True"

text \<open>
  The ways in which a step other than a registration can change the state: not at all, one new
  reservation, or the settlement of an open one.
\<close>

inductive ledger_change :: "BudgetEngine \<Rightarrow> BudgetEngine \<Rightarrow> bool" where
  unchanged: "ledger_change e e"
| reserved: "be_budgets e mid = Some b \<Longrightarrow> be_reservations e rid = None \<Longrightarrow>
     reserve_budget b (br_amount_paise r) now = Inr b' \<Longrightarrow> br_mandate_id r = mid \<Longrightarrow>
     br_state r = BudgetState.RESERVED \<Longrightarrow>
     ledger_change e (e\<lparr>be_budgets := (be_budgets e)(mid \<mapsto> b'),
                        be_reservations := (be_reservations e)(rid \<mapsto> r)\<rparr>)"
| committed: "be_reservations e rid = Some r \<Longrightarrow> br_mandate_id r = mid \<Longrightarrow>
     be_budgets e mid = Some b \<Longrightarrow> br_state r = BudgetState.RESERVED \<Longrightarrow>
     commit_reservation b (br_amount_paise r) now = Inr b' \<Longrightarrow>
     ledger_change e (e\<lparr>be_budgets := (be_budgets e)(mid \<mapsto> b'),
                        be_reservations := (be_reservations e)
                          (rid \<mapsto> r\<lparr>br_state := BudgetState.COMMITTED, br_updated_at := u\<rparr>)\<rparr>)"
| released: "be_reservations e rid = Some r \<Longrightarrow> br_mandate_id r = mid \<Longrightarrow>
     be_budgets e mid = Some b \<Longrightarrow> br_state r \<in> {BudgetState.RESERVED, BudgetState.EXPIRED} \<Longrightarrow>
     release_reservation b (br_amount_paise r) now = Inr b' \<Longrightarrow>
     ledger_change e (e\<lparr>be_budgets := (be_budgets e)(mid \<mapsto> b'),
                        be_reservations := (be_reservations e)
                          (rid \<mapsto> r\<lparr>br_state := BudgetState.RELEASED, br_updated_at := u\<rparr>)\<rparr>)"

lemma reserve_change: "ledger_change e (snd (reserve e mid tid amount cur rid ttl at new_id now))"
proof -
  obtain out e' where s: "reserve e mid tid amount cur rid ttl at new_id now = (out, e')"
    by (rule prod.exhaust)
  from reserve_cases [OF s] have "ledger_change e e'"
  proof (elim disjE exE conjE)
    assume "e' = e"
    then show ?thesis by (simp add: ledger_change.unchanged)
  next
    fix b b' r
    assume r: "mk_budget_reservation (reservation_id_of rid new_id) tid mid amount cur
        BudgetState.RESERVED (resolve_at at now) (resolve_at at now + seconds ttl) = Inr r"
      and b: "be_budgets e mid = Some b" "reserve_budget b amount now = Inr b'"
        "be_reservations e (reservation_id_of rid new_id) = None"
      and e': "e' = e\<lparr>be_budgets := (be_budgets e)(mid \<mapsto> b'),
             be_reservations := (be_reservations e)(reservation_id_of rid new_id \<mapsto> r)\<rparr>"
    from r have "br_amount_paise r = amount" "br_mandate_id r = mid" "br_state r = BudgetState.RESERVED"
      by (auto simp: mk_budget_reservation_def split: if_splits)
    with b show ?thesis unfolding e' by (intro ledger_change.reserved) simp_all
  qed
  with s show ?thesis by simp
qed

lemma commit_change: "ledger_change e (snd (commit e mid rid at now))"
  using commit_cases [of e mid rid at now] by (cases "commit e mid rid at now")
    (auto intro: ledger_change.unchanged intro!: ledger_change.committed)

lemma release_change: "ledger_change e (snd (release e mid rid at now))"
  using release_cases [of e mid rid at now] by (cases "release e mid rid at now")
    (auto intro: ledger_change.unchanged intro!: ledger_change.released)

lemma budget_step_change:
  "budget_no_register e x \<Longrightarrow> ledger_change e (snd (budget_step e x))"
  by (cases x) (simp_all add: reserve_change commit_change release_change)

section \<open>Conservation of the ledger\<close>

definition open_amount :: "string \<Rightarrow> BudgetReservation \<Rightarrow> int" where
  "open_amount mid r =
     (if br_mandate_id r = mid \<and> br_state r \<in> {BudgetState.RESERVED, BudgetState.EXPIRED}
      then br_amount_paise r else 0)"

definition committed_amount :: "string \<Rightarrow> BudgetReservation \<Rightarrow> int" where
  "committed_amount mid r =
     (if br_mandate_id r = mid \<and> br_state r = BudgetState.COMMITTED then br_amount_paise r else 0)"

definition open_total :: "BudgetEngine \<Rightarrow> string \<Rightarrow> int" where
  "open_total e mid = map_sum (open_amount mid) (be_reservations e)"

definition committed_total :: "BudgetEngine \<Rightarrow> string \<Rightarrow> int" where
  "committed_total e mid = map_sum (committed_amount mid) (be_reservations e)"

definition budget_inv :: "BudgetEngine \<Rightarrow> bool" where
  "budget_inv e \<longleftrightarrow> (\<forall>mid b. be_budgets e mid = Some b \<longrightarrow> budget_ok b)"

definition reservations_ok :: "BudgetEngine \<Rightarrow> bool" where
  "reservations_ok e \<longleftrightarrow> finite (dom (be_reservations e)) \<and>
     (\<forall>rid r. be_reservations e rid = Some r \<longrightarrow>
        0 < br_amount_paise r \<and> be_budgets e (br_mandate_id r) \<noteq> None)"

definition ledger_exact :: "BudgetEngine \<Rightarrow> bool" where
  "ledger_exact e \<longleftrightarrow> (\<forall>mid b. be_budgets e mid = Some b \<longrightarrow>
     db_reserved_paise b = open_total e mid \<and> db_spent_paise b = committed_total e mid)"

definition ledger_inv :: "BudgetEngine \<Rightarrow> bool" where
  "ledger_inv e \<longleftrightarrow> budget_inv e \<and> reservations_ok e \<and> ledger_exact e"

text \<open>A mandate is registered once, and with nothing spent or reserved.\<close>

fun register_fresh :: "BudgetEngine \<Rightarrow> budget_op \<Rightarrow> bool" where
  "register_fresh e (BRegister mid _ _ _ spent reserved _ _) =
     (be_budgets e mid = None \<and> spent = 0 \<and> reserved = 0)"
| "register_fresh e _ = True"

lemma open_amount_nonneg: "0 < br_amount_paise r \<Longrightarrow> 0 \<le> open_amount mid r"
  by (simp add: open_amount_def)

lemma budget_ok_accounting [intro]:
  "budget_ok b \<Longrightarrow> reserve_budget b p now = Inr b' \<Longrightarrow> budget_ok b'"
  "budget_ok b \<Longrightarrow> 0 \<le> p \<Longrightarrow> commit_reservation b p now = Inr b' \<Longrightarrow> budget_ok b'"
  "budget_ok b \<Longrightarrow> 0 \<le> p \<Longrightarrow> release_reservation b p now = Inr b' \<Longrightarrow> budget_ok b'"
  by (auto simp: budget_ok_def budget_accounting)

lemma budget_inv_upd:
  "budget_inv e \<Longrightarrow> budget_ok b \<Longrightarrow>
     budget_inv (e\<lparr>be_budgets := (be_budgets e)(mid \<mapsto> b), be_reservations := R\<rparr>)"
  by (simp add: budget_inv_def)

lemma budget_invD: "budget_inv e \<Longrightarrow> be_budgets e mid = Some b \<Longrightarrow> budget_ok b"
  by (simp add: budget_inv_def)

lemma reservations_okD:
  "reservations_ok e \<Longrightarrow> be_reservations e rid = Some r \<Longrightarrow> 0 \<le> br_amount_paise r"
  by (force simp: reservations_ok_def)

lemma ledger_change_budget_inv:
  "ledger_change e e' \<Longrightarrow> reservations_ok e \<Longrightarrow> budget_inv e \<Longrightarrow> budget_inv e'"
  by (induction rule: ledger_change.induct)
    (blast intro: budget_inv_upd dest: budget_invD reservations_okD)+

lemma ledger_change_reservations_ok:
  "ledger_change e e' \<Longrightarrow> reservations_ok e \<Longrightarrow> reservations_ok e'"
  by (induction rule: ledger_change.induct)
    (auto simp: reservations_ok_def budget_accounting split: if_splits)

lemma ledger_change_exact:
  "ledger_change e e' \<Longrightarrow> reservations_ok e \<Longrightarrow> ledger_exact e \<Longrightarrow> ledger_exact e'"
  by (induction rule: ledger_change.induct)
    (auto simp: ledger_exact_def open_total_def committed_total_def budget_accounting
      reservations_ok_def map_sum_insert map_sum_update open_amount_def committed_amount_def)

lemma register_ledger_inv:
  assumes "ledger_inv e" and "be_budgets e mid = None"
    and "register_budget e mid limit cur date 0 0 new_id now = (out, e')"
  shows "ledger_inv e'"
proof -
  have "\<And>rid r. be_reservations e rid = Some r \<Longrightarrow> br_mandate_id r \<noteq> mid"
    using assms(1,2) by (force simp: ledger_inv_def reservations_ok_def)
  then have none: "map_sum (open_amount mid) (be_reservations e) = 0"
    "map_sum (committed_amount mid) (be_reservations e) = 0"
    by (auto simp: map_sum_def open_amount_def committed_amount_def intro!: sum.neutral)
  from register_cases [OF assms(3)] show ?thesis
  proof (elim disjE exE conjE)
    fix b
    assume b: "mk_daily_budget new_id mid cur (option_or date (Strftime_Ymd now)) limit 0 0 now = Inr b"
      and e': "e' = e\<lparr>be_budgets := (be_budgets e)(mid \<mapsto> b)\<rparr>"
    from b have "budget_ok b" "db_reserved_paise b = 0" "db_spent_paise b = 0"
      by (auto simp: mk_daily_budget_ok mk_daily_budget_def split: if_splits)
    then show ?thesis using assms(1) none unfolding e'
      by (auto simp: ledger_inv_def budget_inv_def reservations_ok_def ledger_exact_def
          open_total_def committed_total_def)
  qed (use assms(1) in simp)
qed

lemma ledger_change_ledger_inv: "ledger_change e e' \<Longrightarrow> ledger_inv e \<Longrightarrow> ledger_inv e'"
  by (simp add: ledger_inv_def ledger_change_budget_inv ledger_change_reservations_ok
      ledger_change_exact)

lemma ledger_invD:
  assumes "ledger_inv e" and "be_budgets e mid = Some b"
  shows "db_reserved_paise b = open_total e mid" "db_spent_paise b = committed_total e mid"
    "0 \<le> committed_total e mid" "0 \<le> open_total e mid"
    "committed_total e mid + open_total e mid \<le> db_daily_limit_paise b"
proof -
  from assms show r: "db_reserved_paise b = open_total e mid"
    and s: "db_spent_paise b = committed_total e mid"
    by (simp_all add: ledger_inv_def ledger_exact_def)
  from assms have "budget_ok b" by (auto simp: ledger_inv_def intro: budget_invD)
  then show "0 \<le> committed_total e mid" "0 \<le> open_total e mid"
    "committed_total e mid + open_total e mid \<le> db_daily_limit_paise b"
    by (simp_all add: budget_ok_def flip: r s)
qed

lemma open_reservation_covered:
  assumes "ledger_inv e" and "be_reservations e rid = Some r"
    and "br_state r = BudgetState.RESERVED" and "be_budgets e (br_mandate_id r) = Some b"
  shows "br_amount_paise r \<le> db_reserved_paise b"
proof -
  have "open_amount (br_mandate_id r) r \<le> open_total e (br_mandate_id r)"
    unfolding open_total_def using assms(1,2)
    by (intro map_sum_ge open_amount_nonneg) (auto simp: ledger_inv_def reservations_ok_def)
  then show ?thesis using assms ledger_invD(1) by (simp add: open_amount_def)
qed

lemma budget_step_ledger_inv:
  assumes "ledger_inv e" and "register_fresh e x"
  shows "ledger_inv (snd (budget_step e x))"
proof (cases "budget_no_register e x")
  case True
  with assms show ?thesis by (auto intro: ledger_change_ledger_inv budget_step_change)
next
  case False
  then obtain mid limit cur date s r i t where x: "x = BRegister mid limit cur date s r i t"
    by (cases x) auto
  obtain out e' where "register_budget e mid limit cur date s r i t = (out, e')"
    by (rule prod.exhaust)
  with x assms register_ledger_inv show ?thesis by auto
qed

lemma ledger_inv_init [simp]: "ledger_inv budget_engine_init"
  by (simp add: ledger_inv_def budget_inv_def reservations_ok_def ledger_exact_def
      budget_engine_init_def)

interpretation budget_ledger: machine budget_step register_fresh ledger_inv
  by unfold_locales (rule budget_step_ledger_inv)

section \<open>A reservation is settled at most once\<close>

definition reservation_settled :: "BudgetEngine \<Rightarrow> string \<Rightarrow> bool" where
  "reservation_settled e rid =
     (case be_reservations e rid of None \<Rightarrow> False
      | Some r \<Rightarrow> br_state r = BudgetState.COMMITTED \<or> br_state r = RELEASED)"

fun settle_accepted :: "budget_out \<Rightarrow> bool" where
  "settle_accepted (OSettle r) = is_ok r"
| "settle_accepted _ = False"

fun settle_key :: "budget_op \<Rightarrow> string option" where
  "settle_key (BCommit _ rid _ _) = Some rid"
| "settle_key (BRelease _ rid _ _) = Some rid"
| "settle_key _ = None"

lemma ledger_change_settled:
  "ledger_change e e' \<Longrightarrow> reservation_settled e rid \<Longrightarrow> reservation_settled e' rid"
  by (induction rule: ledger_change.induct) (auto simp: reservation_settled_def)

lemma budget_step_settled:
  assumes "reservation_settled e rid"
  shows "reservation_settled (snd (budget_step e x)) rid"
proof (cases "budget_no_register e x")
  case True
  with assms show ?thesis by (auto intro: ledger_change_settled budget_step_change)
next
  case False
  then obtain mid limit cur date s r i t where x: "x = BRegister mid limit cur date s r i t"
    by (cases x) auto
  obtain out e' where "register_budget e mid limit cur date s r i t = (out, e')"
    by (rule prod.exhaust)
  with register_cases [OF this] x assms show ?thesis by (auto simp: reservation_settled_def)
qed

lemma settle_step:
  assumes "settle_key x = Some rid" and "settle_accepted (fst (budget_step e x))"
  shows "\<not> reservation_settled e rid \<and> reservation_settled (snd (budget_step e x)) rid"
proof (cases x)
  case (BCommit mid r at now)
  with assms commit_cases [of e mid r at now] show ?thesis
    by (cases "commit e mid r at now") (auto simp: reservation_settled_def)
next
  case (BRelease mid r at now)
  with assms release_cases [of e mid r at now] show ?thesis
    by (cases "release e mid r at now") (auto simp: reservation_settled_def)
qed (use assms in auto)

interpretation budget_settle: single_use budget_step "\<lambda>_ _. True" "\<lambda>_. True" settle_accepted
  settle_key reservation_settled
  by unfold_locales (simp_all add: settle_step budget_step_settled)

section \<open>Properties\<close>

text \<open>C13: In any run of the engine that starts empty and registers every mandate once, with nothing
  spent or reserved, a budget's reserved amount is exactly the sum of its open reservations, its
  spent amount exactly the sum of its committed ones, both are non-negative, and together they
  never exceed the daily limit, whatever reservations, commits and releases (valid or not) run.\<close>

theorem budget_conservation:
  assumes "run_adm budget_step register_fresh budget_engine_init ops"
    and "be_budgets (snd (run_ops budget_step budget_engine_init ops)) mid = Some b"
  shows "db_reserved_paise b = open_total (snd (run_ops budget_step budget_engine_init ops)) mid
    \<and> db_spent_paise b = committed_total (snd (run_ops budget_step budget_engine_init ops)) mid
    \<and> 0 \<le> db_spent_paise b \<and> 0 \<le> db_reserved_paise b
    \<and> db_spent_paise b + db_reserved_paise b \<le> db_daily_limit_paise b"
proof -
  have "ledger_inv (snd (run_ops budget_step budget_engine_init ops))"
    using ledger_inv_init assms(1) by (rule budget_ledger.inv_run)
  then show ?thesis using assms(2) by (simp add: ledger_invD)
qed

definition sample_budget_ops :: "budget_op list" where
  "sample_budget_ops =
     [BRegister ''m'' 1000 INR None 0 0 ''b'' 0,
      BReserve ''m'' ''t1'' 600 INR (Some ''r1'') 300 None ''x'' 1,
      BReserve ''m'' ''t2'' 600 INR (Some ''r2'') 300 None ''x'' 2,
      BReserve ''m'' ''t3'' 400 INR (Some ''r3'') 300 None ''x'' 3,
      BCommit ''m'' ''r1'' None 4,
      BCommit ''m'' ''r1'' None 5,
      BRelease ''m'' ''r3'' None 6]"

lemmas budget_eval = register_budget_def mk_daily_budget_def reserve_def resolve_at_def
  reserve_budget_def assert_can_reserve_def mk_budget_reservation_def commit_def
  commit_reservation_def release_def release_reservation_def budget_engine_init_def
  available_paise_def Let_def

theorem budget_conservation_witness:
  "\<exists>b. be_budgets (snd (run_ops budget_step budget_engine_init sample_budget_ops)) ''m'' = Some b
     \<and> db_spent_paise b = 600 \<and> db_reserved_paise b = 0
     \<and> db_spent_paise b = committed_total
         (snd (run_ops budget_step budget_engine_init sample_budget_ops)) ''m''"
proof -
  have "run_adm budget_step register_fresh budget_engine_init sample_budget_ops"
    by (simp add: sample_budget_ops_def budget_eval)
  moreover have "\<exists>b. be_budgets (snd (run_ops budget_step budget_engine_init sample_budget_ops)) ''m''
      = Some b \<and> db_spent_paise b = 600 \<and> db_reserved_paise b = 0"
    by (simp add: sample_budget_ops_def budget_eval)
  ultimately show ?thesis using budget_conservation by metis
qed

text \<open>The decision of \<open>reserve\<close>, on every branch: it allows exactly when the amount is positive,
  the mandate has a budget in the requested currency, the reservation id is new, the amount fits
  under the daily limit beside what is spent and reserved, and the identifiers are non-empty.\<close>

theorem reserve_allows_iff:
  "(\<exists>v. fst (reserve e mid tid amount cur rid ttl at new_id now) = Inr v \<and> bev_is_allowed v) \<longleftrightarrow>
   0 < amount \<and> tid \<noteq> [] \<and> mid \<noteq> [] \<and> be_reservations e (reservation_id_of rid new_id) = None \<and>
   (\<exists>b. be_budgets e mid = Some b \<and> db_currency b = cur \<and>
      db_spent_paise b + db_reserved_paise b + amount \<le> db_daily_limit_paise b)"
  unfolding reserve_def Let_def reservation_id_of_def [symmetric] bev_is_allowed_def
  by (auto simp: bev_reject_def bev_allow_def budget_accounting mk_budget_reservation_def
      reserve_budget_def assert_can_reserve_def split: option.splits)

text \<open>Settlement happens at most once: in any run from any state, for every reservation id, at
  most one of all its commits and releases succeeds, so no reservation is committed twice,
  released twice, or both committed and released.\<close>

theorem reservation_settled_at_most_once:
  "accepted_count settle_accepted (\<lambda>x. settle_key x = Some rid) ops
     (fst (run_ops budget_step e ops)) \<le> 1"
  by (rule budget_settle.at_most_once) simp_all

text \<open>Held funds are never stuck. In a state the ledger invariant describes, an open reservation
  can be committed, which leaves the available amount as it is, and can be released, which gives
  exactly its amount back to the available amount.\<close>

theorem open_reservation_settles:
  assumes "ledger_inv e" and "be_reservations e rid = Some r"
    and "br_state r = BudgetState.RESERVED" and "be_budgets e (br_mandate_id r) = Some b"
  shows "\<exists>bc br. is_ok (fst (commit e (br_mandate_id r) rid at now))
    \<and> be_budgets (snd (commit e (br_mandate_id r) rid at now)) (br_mandate_id r) = Some bc
    \<and> available_paise bc = available_paise b
    \<and> is_ok (fst (release e (br_mandate_id r) rid at now))
    \<and> be_budgets (snd (release e (br_mandate_id r) rid at now)) (br_mandate_id r) = Some br
    \<and> available_paise br = available_paise b + br_amount_paise r"
proof -
  have "br_amount_paise r \<le> db_reserved_paise b"
    using assms open_reservation_covered by simp
  then show ?thesis using assms
    by (simp add: commit_def release_def commit_reservation_def release_reservation_def
        available_paise_def Let_def)
qed

theorem open_reservation_settles_witness:
  "\<exists>e r b. be_reservations e ''r1'' = Some r \<and> br_amount_paise r = 600
     \<and> be_budgets e ''m'' = Some b \<and> available_paise b = 400
     \<and> is_ok (fst (commit e ''m'' ''r1'' None 9)) \<and> is_ok (fst (release e ''m'' ''r1'' None 9))"
proof -
  let ?ops = "take 2 sample_budget_ops"
  let ?e = "snd (run_ops budget_step budget_engine_init ?ops)"
  have inv: "ledger_inv ?e"
    by (rule budget_ledger.inv_run [OF ledger_inv_init])
      (simp add: sample_budget_ops_def budget_eval)
  obtain r b where r: "be_reservations ?e ''r1'' = Some r" "br_amount_paise r = 600"
      "br_state r = BudgetState.RESERVED" "br_mandate_id r = ''m''"
    and b: "be_budgets ?e ''m'' = Some b" "available_paise b = 400"
    by (simp add: sample_budget_ops_def budget_eval)
  with open_reservation_settles [OF inv r(1) r(3), of b None 9] show ?thesis
    by (intro exI [of _ ?e] exI [of _ r] exI [of _ b]) auto
qed

end
