(* ===== verification/Nonce.thy ===== *)
theory Nonce
  imports Control_Outcome Contracts
begin

text \<open>
  Single-use execution nonces: the record of \<open>apps/api/domain/nonce.py\<close> and the in-memory engine
  of \<open>apps/api/domain/nonce_engine.py\<close>. The engine is a dictionary from the nonce value to its
  record; \<open>validate_and_consume\<close> is one step, since it runs under the engine's lock. The random
  value that \<open>generate_nonce\<close> draws is an argument of \<open>issue_nonce\<close>; that it has not been drawn
  before is the admissibility condition \<open>nonce_fresh\<close> of the machine.
\<close>

section \<open>The record and its consumption\<close>

record NonceRecord =
  nr_nonce_id :: string
  nr_nonce_value :: string
  nr_transaction_id :: string
  nr_mandate_id :: string
  nr_state :: NonceState
  nr_issued_at :: datetime
  nr_expires_at :: datetime
  nr_consumed_at :: "datetime option"

definition mk_nonce_record ::
  "string \<Rightarrow> string \<Rightarrow> string \<Rightarrow> string \<Rightarrow> NonceState \<Rightarrow> datetime \<Rightarrow> datetime \<Rightarrow> datetime option \<Rightarrow>
   NonceRecord res" where
  "mk_nonce_record nid v tid mid st issued expires consumed =
     (if length v < 16 then Inl (Raise ValueError (Msg ''nonce_value: min_length 16'' []))
      else if tid = [] then Inl (Raise ValueError (Msg ''transaction_id: min_length 1'' []))
      else if mid = [] then Inl (Raise ValueError (Msg ''mandate_id: min_length 1'' []))
      else Inr \<lparr>nr_nonce_id = nid, nr_nonce_value = v, nr_transaction_id = tid,
                nr_mandate_id = mid, nr_state = st, nr_issued_at = issued,
                nr_expires_at = expires, nr_consumed_at = consumed\<rparr>)"

definition nonce_is_expired :: "NonceRecord \<Rightarrow> datetime option \<Rightarrow> datetime \<Rightarrow> bool" where
  "nonce_is_expired r at now = (resolve_at at now \<ge> nr_expires_at r)"

definition assert_nonce_consumable :: "NonceRecord \<Rightarrow> datetime option \<Rightarrow> datetime \<Rightarrow> unit res" where
  "assert_nonce_consumable r at now =
     (if nr_state r = NonceState.CONSUMED then
        Inl (Raise NonceAlreadyConsumedError
          (Msg ''Nonce {} has already been consumed (consumed_at={}).''
            [PStr (nr_nonce_value r), opt_time (nr_consumed_at r)]))
      else if resolve_at at now \<ge> nr_expires_at r then
        Inl (Raise AuthorizationExpiredError
          (Msg ''Nonce {} expired at {}.'' [PStr (nr_nonce_value r), PTime (nr_expires_at r)]))
      else Inr ())"

definition consume_nonce :: "NonceRecord \<Rightarrow> datetime option \<Rightarrow> datetime \<Rightarrow> NonceRecord res" where
  "consume_nonce r at now = bind_res (assert_nonce_consumable r at now)
     (\<lambda>_. Inr (r\<lparr>nr_state := NonceState.CONSUMED, nr_consumed_at := Some (resolve_at at now)\<rparr>))"

section \<open>The engine\<close>

type_synonym NonceEngine = "string \<rightharpoonup> NonceRecord"

record NonceEvaluationResult =
  nev_valid :: bool
  nev_decision :: PolicyDecision
  nev_nonce_value :: string
  nev_mandate_id :: string
  nev_transaction_id :: string
  nev_record :: "NonceRecord option"
  nev_rejection_reason :: "RejectionReason option"
  nev_rejection_detail :: "msg option"
  nev_evaluated_at :: datetime

definition nev_is_allowed :: "NonceEvaluationResult \<Rightarrow> bool" where
  "nev_is_allowed r \<longleftrightarrow> nev_valid r \<and> nev_decision r = ALLOW"

definition nev_to_control :: "NonceEvaluationResult \<Rightarrow> SecurityControlOutcome" where
  "nev_to_control r =
     \<lparr>sco_control_name = ''NONCE_VALIDATION'', sco_passed = nev_valid r,
      sco_decision = nev_decision r, sco_rejection_reason = nev_rejection_reason r,
      sco_detail = nev_rejection_detail r, sco_step_up_diff = None\<rparr>"

definition issue_nonce ::
  "NonceEngine \<Rightarrow> string \<Rightarrow> string \<Rightarrow> int \<Rightarrow> datetime option \<Rightarrow> string \<Rightarrow> string \<Rightarrow> datetime \<Rightarrow>
   NonceRecord res \<times> NonceEngine" where
  \<comment> \<open>\<open>nval\<close> is what \<open>generate_nonce\<close> draws, \<open>nid\<close> the record's fresh uuid\<close>
  "issue_nonce e mid tid ttl at nval nid now =
     (if blank mid then (Inl (Raise ValueError (Msg ''mandate_id cannot be empty'' [])), e)
      else if blank tid then (Inl (Raise ValueError (Msg ''transaction_id cannot be empty'' [])), e)
      else
        let issued = resolve_at at now in
        case mk_nonce_record nid nval (strip tid) (strip mid) ISSUED issued (issued + seconds ttl) None of
          Inl x \<Rightarrow> (Inl x, e)
        | Inr r \<Rightarrow> (Inr r, e(nval \<mapsto> r)))"

definition nev_reject ::
  "string \<Rightarrow> string \<Rightarrow> string \<Rightarrow> NonceRecord option \<Rightarrow> RejectionReason \<Rightarrow> msg \<Rightarrow> datetime \<Rightarrow>
   NonceEvaluationResult" where
  "nev_reject v mid tid r reason detail t =
     \<lparr>nev_valid = False, nev_decision = REJECT, nev_nonce_value = v, nev_mandate_id = mid,
      nev_transaction_id = tid, nev_record = r, nev_rejection_reason = Some reason,
      nev_rejection_detail = Some detail, nev_evaluated_at = t\<rparr>"

definition nev_allow ::
  "string \<Rightarrow> string \<Rightarrow> string \<Rightarrow> NonceRecord \<Rightarrow> datetime \<Rightarrow> NonceEvaluationResult" where
  "nev_allow v mid tid r t =
     \<lparr>nev_valid = True, nev_decision = ALLOW, nev_nonce_value = v, nev_mandate_id = mid,
      nev_transaction_id = tid, nev_record = Some r, nev_rejection_reason = None,
      nev_rejection_detail = None, nev_evaluated_at = t\<rparr>"

definition validate_and_consume ::
  "NonceEngine \<Rightarrow> string \<Rightarrow> string \<Rightarrow> string \<Rightarrow> datetime option \<Rightarrow> datetime \<Rightarrow>
   NonceEvaluationResult \<times> NonceEngine" where
  "validate_and_consume e nonce_value mid tid at now =
     (let t = resolve_at at now; clean = strip nonce_value in
      if clean = [] then
        (nev_reject nonce_value mid tid None NONCE_INVALID
           (Msg ''Nonce validation failed: Nonce value cannot be empty.'' []) t, e)
      else case e clean of
        None \<Rightarrow>
          (nev_reject clean mid tid None NONCE_INVALID
             (Msg ''Nonce validation failed: Nonce {} not found in store.'' [PStr clean]) t, e)
      | Some r \<Rightarrow>
          if nr_mandate_id r \<noteq> strip mid \<or> nr_transaction_id r \<noteq> strip tid then
            (nev_reject clean mid tid (Some r) NONCE_INVALID
               (Msg ''Nonce binding mismatch: Nonce {}... is bound to mandate={}, tx={}, but submitted for mandate={}, tx={}.''
                 [PStr (take 8 clean), PStr (nr_mandate_id r), PStr (nr_transaction_id r), PStr mid,
                  PStr tid]) t, e)
          else if nr_state r = NonceState.CONSUMED then
            (nev_reject clean mid tid (Some r) NONCE_ALREADY_CONSUMED
               (Msg ''Nonce {} has already been consumed at {}.''
                 [PStr clean, opt_time (nr_consumed_at r)]) t, e)
          else if t < nr_issued_at r then
            (nev_reject clean mid tid (Some r) INVALID_TRANSACTION_STATE
               (Msg ''Nonce {} issued in future ({}).'' [PStr clean, PTime (nr_issued_at r)]) t, e)
          else if t \<ge> nr_expires_at r then
            (nev_reject clean mid tid (Some r) AUTHORIZATION_EXPIRED
               (Msg ''Nonce {} expired at {}.'' [PStr clean, PTime (nr_expires_at r)]) t, e)
          else
            let r' = r\<lparr>nr_state := NonceState.CONSUMED, nr_consumed_at := Some t\<rparr> in
            (nev_allow clean mid tid r' t, e(clean \<mapsto> r')))"

definition get_nonce :: "NonceEngine \<Rightarrow> string \<Rightarrow> NonceRecord option" where
  "get_nonce e nonce_value = e (strip nonce_value)"

definition nonce_record_count :: "NonceEngine \<Rightarrow> nat" where
  "nonce_record_count e = card (dom e)"

section \<open>What validation does\<close>

definition consumable :: "NonceRecord \<Rightarrow> string \<Rightarrow> string \<Rightarrow> datetime \<Rightarrow> bool" where
  "consumable r mid tid t \<longleftrightarrow> nr_mandate_id r = strip mid \<and> nr_transaction_id r = strip tid \<and>
     nr_state r = ISSUED \<and> nr_issued_at r \<le> t \<and> t < nr_expires_at r"

lemma NonceState_not_CONSUMED [simp]: "s \<noteq> NonceState.CONSUMED \<longleftrightarrow> s = ISSUED"
  by (cases s) simp_all

lemma validate_cases:
  assumes "validate_and_consume e v mid tid at now = (out, e')"
  shows "(e' = e \<and> \<not> nev_valid out \<and> nev_decision out = REJECT \<and>
      \<not> (\<exists>r. strip v \<noteq> [] \<and> e (strip v) = Some r \<and> consumable r mid tid (resolve_at at now))) \<or>
    (\<exists>r. strip v \<noteq> [] \<and> e (strip v) = Some r \<and> consumable r mid tid (resolve_at at now) \<and>
      out = nev_allow (strip v) mid tid
        (r\<lparr>nr_state := NonceState.CONSUMED, nr_consumed_at := Some (resolve_at at now)\<rparr>)
        (resolve_at at now) \<and>
      e' = e(strip v \<mapsto>
        r\<lparr>nr_state := NonceState.CONSUMED, nr_consumed_at := Some (resolve_at at now)\<rparr>))"
  using assms unfolding validate_and_consume_def Let_def
  by (auto simp: nev_reject_def consumable_def split: if_splits option.splits)

lemma issue_cases:
  assumes "issue_nonce e mid tid ttl at nval nid now = (out, e')"
  shows "(e' = e \<and> \<not> is_ok out) \<or>
    (\<exists>r. out = Inr r \<and> e' = e(nval \<mapsto> r) \<and> nr_state r = ISSUED \<and> nr_nonce_value r = nval \<and>
       16 \<le> length nval \<and> nr_mandate_id r = strip mid \<and> nr_transaction_id r = strip tid \<and>
       nr_issued_at r = resolve_at at now \<and> nr_expires_at r = resolve_at at now + seconds ttl)"
  using assms unfolding issue_nonce_def Let_def
  by (auto simp: mk_nonce_record_def split: if_splits)

section \<open>The engine as a machine\<close>

datatype nonce_op =
    NIssue string string int "datetime option" string string datetime
  | NConsume string string string "datetime option" datetime

datatype nonce_out = OIssued "NonceRecord res" | OConsumed NonceEvaluationResult

fun nonce_step :: "NonceEngine \<Rightarrow> nonce_op \<Rightarrow> nonce_out \<times> NonceEngine" where
  "nonce_step e (NIssue mid tid ttl at nval nid now) =
     map_prod OIssued id (issue_nonce e mid tid ttl at nval nid now)"
| "nonce_step e (NConsume v mid tid at now) =
     map_prod OConsumed id (validate_and_consume e v mid tid at now)"

fun nonce_fresh :: "NonceEngine \<Rightarrow> nonce_op \<Rightarrow> bool" where
  "nonce_fresh e (NIssue _ _ _ _ nval _ _) = (e nval = None)"
| "nonce_fresh e _ = True"

fun nonce_accepted :: "nonce_out \<Rightarrow> bool" where
  "nonce_accepted (OConsumed r) = nev_is_allowed r"
| "nonce_accepted _ = False"

fun nonce_key :: "nonce_op \<Rightarrow> string option" where
  "nonce_key (NConsume v _ _ _ _) = Some (strip v)"
| "nonce_key _ = None"

definition nonce_used :: "NonceEngine \<Rightarrow> string \<Rightarrow> bool" where
  "nonce_used e v = (case e v of None \<Rightarrow> False | Some r \<Rightarrow> nr_state r = NonceState.CONSUMED)"

lemma nonce_accept_step:
  assumes "nonce_key x = Some k" and "nonce_accepted (fst (nonce_step e x))"
  shows "\<not> nonce_used e k \<and> nonce_used (snd (nonce_step e x)) k"
proof (cases x)
  case (NConsume v mid tid at now)
  with assms validate_cases [of e v mid tid at now] show ?thesis
    by (cases "validate_and_consume e v mid tid at now")
      (auto simp: nonce_used_def consumable_def nev_is_allowed_def)
qed (use assms in auto)

lemma nonce_used_stays:
  assumes "nonce_fresh e x" and "nonce_used e k"
  shows "nonce_used (snd (nonce_step e x)) k"
proof (cases x)
  case (NIssue mid tid ttl at nval nid now)
  with assms issue_cases [of e mid tid ttl at nval nid now] show ?thesis
    by (cases "issue_nonce e mid tid ttl at nval nid now") (auto simp: nonce_used_def)
next
  case (NConsume v mid tid at now)
  with assms validate_cases [of e v mid tid at now] show ?thesis
    by (cases "validate_and_consume e v mid tid at now") (auto simp: nonce_used_def)
qed

interpretation nonce_guard: single_use nonce_step nonce_fresh "\<lambda>_. True" nonce_accepted nonce_key
  nonce_used
  by unfold_locales (simp_all add: nonce_accept_step nonce_used_stays)

section \<open>Properties\<close>

text \<open>C31: A nonce authorizes at most one execution: in any run of the engine in which newly drawn
  nonce values are fresh, at most one of all validations of a given nonce value is allowed,
  however they are spelled (surrounding blanks), bound and timed.\<close>

theorem nonce_single_use:
  assumes "run_adm nonce_step nonce_fresh e ops"
  shows "accepted_count nonce_accepted (\<lambda>x. nonce_key x = Some v) ops
           (fst (run_ops nonce_step e ops)) \<le> 1"
  using assms by (intro nonce_guard.at_most_once) simp_all

definition sample_nonce_ops :: "nonce_op list" where
  "sample_nonce_ops =
     [NIssue ''m'' ''t'' 300 (Some 0) ''0123456789abcdef'' ''id'' 0,
      NConsume ''0123456789abcdef'' ''m'' ''other'' (Some 5) 0,
      NConsume '' 0123456789abcdef'' ''m'' ''t'' (Some 6) 0,
      NConsume ''0123456789abcdef'' ''m'' ''t'' (Some 7) 0]"

lemmas nonce_eval = issue_nonce_def validate_and_consume_def mk_nonce_record_def blank_def
  strip_def lstrip_def rstrip_def is_space_def resolve_at_def seconds_def nev_reject_def
  nev_allow_def nev_is_allowed_def Let_def

theorem nonce_single_use_witness:
  "accepted_count nonce_accepted (\<lambda>x. nonce_key x = Some ''0123456789abcdef'') sample_nonce_ops
     (fst (run_ops nonce_step Map.empty sample_nonce_ops)) = 1"
proof -
  have "run_adm nonce_step nonce_fresh Map.empty sample_nonce_ops"
    by (simp add: sample_nonce_ops_def nonce_eval)
  from nonce_single_use [OF this]
  have "accepted_count nonce_accepted (\<lambda>x. nonce_key x = Some ''0123456789abcdef'') sample_nonce_ops
     (fst (run_ops nonce_step Map.empty sample_nonce_ops)) \<le> 1" .
  moreover have "1 \<le> accepted_count nonce_accepted (\<lambda>x. nonce_key x = Some ''0123456789abcdef'')
     sample_nonce_ops (fst (run_ops nonce_step Map.empty sample_nonce_ops))"
    by (simp add: sample_nonce_ops_def nonce_eval)
  ultimately show ?thesis by simp
qed

text \<open>The verdict of a validation and its effect, on every branch: it is allowed exactly when the
  stripped value is known, bound to this mandate and transaction, issued and not consumed, and the
  time is within its life; every other attempt is rejected and leaves the store as it is, so a
  failed attempt never burns a nonce.\<close>

theorem validate_and_consume_exact:
  "(nev_is_allowed (fst (validate_and_consume e v mid tid at now)) \<longleftrightarrow>
      (\<exists>r. strip v \<noteq> [] \<and> e (strip v) = Some r \<and> consumable r mid tid (resolve_at at now))) \<and>
   (nev_decision (fst (validate_and_consume e v mid tid at now)) =
      (if nev_is_allowed (fst (validate_and_consume e v mid tid at now)) then ALLOW else REJECT)) \<and>
   (snd (validate_and_consume e v mid tid at now) \<noteq> e \<longleftrightarrow>
      nev_is_allowed (fst (validate_and_consume e v mid tid at now)))"
proof -
  obtain out e' where s: "validate_and_consume e v mid tid at now = (out, e')" by (rule prod.exhaust)
  have upd: "e(strip v \<mapsto> r\<lparr>nr_state := NonceState.CONSUMED, nr_consumed_at := c\<rparr>) \<noteq> e"
    if "e (strip v) = Some r" "nr_state r = ISSUED" for r c
  proof
    assume "e(strip v \<mapsto> r\<lparr>nr_state := NonceState.CONSUMED, nr_consumed_at := c\<rparr>) = e"
    then have "(e(strip v \<mapsto> r\<lparr>nr_state := NonceState.CONSUMED, nr_consumed_at := c\<rparr>)) (strip v)
        = e (strip v)" by (rule fun_cong)
    with that have "r\<lparr>nr_state := NonceState.CONSUMED, nr_consumed_at := c\<rparr> = r" by simp
    then have "nr_state (r\<lparr>nr_state := NonceState.CONSUMED, nr_consumed_at := c\<rparr>) = nr_state r"
      by (rule arg_cong)
    with that(2) show False by simp
  qed
  from validate_cases [OF s] s upd show ?thesis
    by (auto simp: nev_is_allowed_def nev_allow_def consumable_def)
qed

end
