(* ===== verification/Db_Table.thy ===== *)
theory Db_Table
  imports Py_Prelude
begin

text \<open>
  Tables of the relational database as the repositories see them through SQLAlchemy's session.
  A table whose rows are read by primary key is a map from the key to the row. The database
  itself is not part of the repository: whether a \<open>flush\<close> of a new row succeeds is a parameter
  \<open>accepts\<close> of every definition that inserts, which reads the table and the new row. \<open>enforces_pk\<close>
  is what the code relies on, and what a primary key column promises: a row whose key is taken is
  not accepted.
\<close>

definition enforces_pk :: "('row \<Rightarrow> 'k) \<Rightarrow> (('k \<rightharpoonup> 'row) \<Rightarrow> 'row \<Rightarrow> bool) \<Rightarrow> bool" where
  "enforces_pk key accepts \<longleftrightarrow> (\<forall>tab row. accepts tab row \<longrightarrow> tab (key row) = None)"

definition pk_accepts :: "('row \<Rightarrow> 'k) \<Rightarrow> ('k \<rightharpoonup> 'row) \<Rightarrow> 'row \<Rightarrow> bool" where
  \<comment> \<open>the database with no constraint beside the primary key\<close>
  "pk_accepts key tab row = (tab (key row) = None)"

lemma enforces_pkD: "enforces_pk key accepts \<Longrightarrow> accepts tab row \<Longrightarrow> tab (key row) = None"
  by (simp add: enforces_pk_def)

lemma pk_accepts_enforces [simp]: "enforces_pk key (pk_accepts key)"
  by (simp add: enforces_pk_def pk_accepts_def)

end
