(* ===== verification/Nonce_Store.thy ===== *)
theory Nonce_Store
  imports Nonce Db_Table
begin

text \<open>
  Nonces in the database: the table of \<open>db/models/replay.py\<close>, the repository of
  \<open>db/repository/nonce_repository.py\<close> and the asynchronous methods of the nonce engine, which
  work on that table and keep the engine's dictionary as a cache. \<open>abs_nonces\<close> maps a table to the
  dictionary of the in-memory engine; the refinement theorem says that the database path decides
  as the in-memory engine does on that abstraction, for a time to live of at most 300 seconds.
  Beyond 300 seconds it does not: \<open>async_validate_and_consume\<close> does not pass its time to live on
  to the repository, which applies its own default.
\<close>

section \<open>The table\<close>

record NonceRow =
  nrow_nonce :: string
  nrow_transaction_id :: string
  nrow_mandate_id :: string
  nrow_status :: string
  nrow_created_at :: datetime
  nrow_consumed_at :: "datetime option"

type_synonym nonce_table = "string \<rightharpoonup> NonceRow"

section \<open>The repository\<close>

definition repo_create_nonce ::
  "(nonce_table \<Rightarrow> NonceRow \<Rightarrow> bool) \<Rightarrow> nonce_table \<Rightarrow> string \<Rightarrow> string \<Rightarrow> string \<Rightarrow> string \<Rightarrow>
   datetime option \<Rightarrow> datetime \<Rightarrow> NonceRow res \<times> nonce_table" where
  "repo_create_nonce accepts tab nonce tid mid status created now =
     (if blank nonce then (Inl (Raise ValueError (Msg ''Nonce value cannot be empty.'' [])), tab)
      else if blank tid then (Inl (Raise ValueError (Msg ''Transaction ID cannot be empty.'' [])), tab)
      else if blank mid then (Inl (Raise ValueError (Msg ''Mandate ID cannot be empty.'' [])), tab)
      else
        let row = \<lparr>nrow_nonce = strip nonce, nrow_transaction_id = strip tid,
                   nrow_mandate_id = strip mid, nrow_status = status,
                   nrow_created_at = resolve_at created now, nrow_consumed_at = None\<rparr> in
        if accepts tab row then (Inr row, tab(strip nonce \<mapsto> row))
        else (Inl (Raise ValueError (Msg ''Nonce '{}' already exists in persistence store.''
                [PStr nonce])), tab))"

definition repo_get_nonce :: "nonce_table \<Rightarrow> string \<Rightarrow> NonceRow option" where
  "repo_get_nonce tab nonce = (if nonce = [] then None else tab (strip nonce))"

definition repo_lock_nonce :: "nonce_table \<Rightarrow> string \<Rightarrow> NonceRow option" where
  "repo_lock_nonce tab nonce = tab nonce"

definition repo_consume_nonce ::
  "nonce_table \<Rightarrow> string \<Rightarrow> string \<Rightarrow> string \<Rightarrow> int \<Rightarrow> datetime option \<Rightarrow> datetime \<Rightarrow>
   NonceRow res \<times> nonce_table" where
  "repo_consume_nonce tab nonce tid mid ttl at now =
     (if blank nonce then (Inl (Raise ValueError (Msg ''Nonce value cannot be empty.'' [])), tab)
      else
        let clean = strip nonce; t = resolve_at at now in
        case repo_lock_nonce tab clean of
          None \<Rightarrow> (Inl (Raise ValueError (Msg ''Nonce '{}' not found in persistence store.''
                     [PStr clean])), tab)
        | Some row \<Rightarrow>
            if nrow_transaction_id row \<noteq> strip tid \<or> nrow_mandate_id row \<noteq> strip mid then
              (Inl (Raise ValueError
                 (Msg ''Nonce context mismatch for '{}...': bound to tx='{}', mandate='{}'; submitted for tx='{}', mandate='{}'.''
                   [PStr (take 8 clean), PStr (nrow_transaction_id row), PStr (nrow_mandate_id row),
                    PStr (strip tid), PStr (strip mid)])), tab)
            else if nrow_status row = nonce_state_value NonceState.CONSUMED then
              (Inl (Raise ValueError (Msg ''Nonce '{}' has already been consumed at {}.''
                 [PStr clean, opt_time (nrow_consumed_at row)])), tab)
            else if 0 < ttl \<and> t - nrow_created_at row \<ge> seconds ttl then
              (Inl (Raise ValueError
                 (Msg ''Nonce '{}' expired: created at {}, evaluated at {} (age >= TTL {}s).''
                   [PStr clean, PTime (nrow_created_at row), PTime t, PInt ttl])), tab)
            else
              let row' = row\<lparr>nrow_status := nonce_state_value NonceState.CONSUMED,
                             nrow_consumed_at := Some t\<rparr> in
              (Inr row', tab(clean \<mapsto> row')))"

section \<open>The engine over the database\<close>

definition nonce_state_of :: "string \<Rightarrow> NonceState res" where
  \<comment> \<open>the call \<open>NonceState(model.status)\<close>\<close>
  "nonce_state_of s =
     (if s = nonce_state_value ISSUED then Inr ISSUED
      else if s = nonce_state_value NonceState.CONSUMED then Inr NonceState.CONSUMED
      else Inl (Raise ValueError (Msg ''{} is not a valid NonceState'' [PStr s])))"

definition row_to_record :: "NonceRow \<Rightarrow> int \<Rightarrow> string \<Rightarrow> NonceRecord res" where
  \<comment> \<open>the \<open>NonceRecord\<close> that the engine builds from a row; \<open>nid\<close> is its fresh uuid\<close>
  "row_to_record row ttl nid =
     bind_res (nonce_state_of (nrow_status row))
       (\<lambda>st. mk_nonce_record nid (nrow_nonce row) (nrow_transaction_id row) (nrow_mandate_id row) st
               (nrow_created_at row) (nrow_created_at row + seconds ttl) (nrow_consumed_at row))"

definition async_issue_nonce ::
  "(nonce_table \<Rightarrow> NonceRow \<Rightarrow> bool) \<Rightarrow> NonceEngine \<Rightarrow> nonce_table \<Rightarrow> string \<Rightarrow> string \<Rightarrow> int \<Rightarrow>
   datetime option \<Rightarrow> string \<Rightarrow> string \<Rightarrow> datetime \<Rightarrow> NonceRecord res \<times> NonceEngine \<times> nonce_table" where
  "async_issue_nonce accepts e tab mid tid ttl at nval nid now =
     (if blank mid then (Inl (Raise ValueError (Msg ''mandate_id cannot be empty'' [])), e, tab)
      else if blank tid then (Inl (Raise ValueError (Msg ''transaction_id cannot be empty'' [])), e, tab)
      else
        let issued = resolve_at at now in
        case repo_create_nonce accepts tab nval (strip tid) (strip mid) (nonce_state_value ISSUED)
               (Some issued) now of
          (Inl x, tab') \<Rightarrow> (Inl x, e, tab')
        | (Inr row, tab') \<Rightarrow>
            (case mk_nonce_record nid (nrow_nonce row) (nrow_transaction_id row) (nrow_mandate_id row)
                    ISSUED (nrow_created_at row) (issued + seconds ttl) None of
               Inl x \<Rightarrow> (Inl x, e, tab')
             | Inr r \<Rightarrow> (Inr r, e(nval \<mapsto> r), tab')))"

definition async_validate_and_consume ::
  "NonceEngine \<Rightarrow> nonce_table \<Rightarrow> string \<Rightarrow> string \<Rightarrow> string \<Rightarrow> datetime option \<Rightarrow> int \<Rightarrow> string \<Rightarrow>
   datetime \<Rightarrow> NonceEvaluationResult res \<times> NonceEngine \<times> nonce_table" where
  "async_validate_and_consume e tab nonce_value mid tid at ttl nid now =
     (let t = resolve_at at now; clean = strip nonce_value in
      if clean = [] then
        (Inr (nev_reject nonce_value mid tid None NONCE_INVALID
           (Msg ''Nonce validation failed: Nonce value cannot be empty.'' []) t), e, tab)
      else case repo_lock_nonce tab clean of
        None \<Rightarrow>
          (Inr (nev_reject clean mid tid None NONCE_INVALID
             (Msg ''Nonce validation failed: Nonce {} not found in database.'' [PStr clean]) t), e, tab)
      | Some row \<Rightarrow>
          (case row_to_record row ttl nid of
             Inl x \<Rightarrow> (Inl x, e, tab)
           | Inr r \<Rightarrow>
               if nrow_mandate_id row \<noteq> strip mid \<or> nrow_transaction_id row \<noteq> strip tid then
                 (Inr (nev_reject clean mid tid (Some r) NONCE_INVALID
                    (Msg ''Nonce binding mismatch: Nonce {}... is bound to mandate={}, tx={}, but submitted for mandate={}, tx={}.''
                      [PStr (take 8 clean), PStr (nrow_mandate_id row), PStr (nrow_transaction_id row),
                       PStr mid, PStr tid]) t), e, tab)
               else if nrow_status row = nonce_state_value NonceState.CONSUMED then
                 (Inr (nev_reject clean mid tid (Some r) NONCE_ALREADY_CONSUMED
                    (Msg ''Nonce {} has already been consumed at {}.''
                      [PStr clean, opt_time (nrow_consumed_at row)]) t), e, tab)
               else if t \<ge> nrow_created_at row + seconds ttl then
                 (Inr (nev_reject clean mid tid (Some r) AUTHORIZATION_EXPIRED
                    (Msg ''Nonce {} expired at {}.''
                      [PStr clean, PTime (nrow_created_at row + seconds ttl)]) t), e, tab)
               else
                 (case repo_consume_nonce tab clean (strip tid) (strip mid) 300 (Some t) now of
                    (Inl x, tab') \<Rightarrow> (Inl x, e, tab')
                  | (Inr row', tab') \<Rightarrow>
                      let r' = r\<lparr>nr_state := NonceState.CONSUMED,
                                 nr_consumed_at := Some (option_or (nrow_consumed_at row') t)\<rparr> in
                      (Inr (nev_allow clean mid tid r' t), e(clean \<mapsto> r'), tab'))))"

definition async_get_nonce :: "nonce_table \<Rightarrow> string \<Rightarrow> int \<Rightarrow> string \<Rightarrow> NonceRecord option res" where
  "async_get_nonce tab nonce_value ttl nid =
     (if strip nonce_value = [] then Inr None
      else case repo_get_nonce tab (strip nonce_value) of
        None \<Rightarrow> Inr None
      | Some row \<Rightarrow> bind_res (row_to_record row ttl nid) (\<lambda>r. Inr (Some r)))"

section \<open>The table as the engine's dictionary\<close>

definition nonce_row_ok :: "string \<Rightarrow> NonceRow \<Rightarrow> bool" where
  "nonce_row_ok k row \<longleftrightarrow> nrow_nonce row = k \<and> strip k = k \<and> 16 \<le> length k \<and>
     nrow_transaction_id row \<noteq> [] \<and> nrow_mandate_id row \<noteq> [] \<and>
     nrow_status row \<in> {nonce_state_value ISSUED, nonce_state_value NonceState.CONSUMED}"

definition nonce_table_ok :: "nonce_table \<Rightarrow> bool" where
  "nonce_table_ok tab \<longleftrightarrow> (\<forall>k row. tab k = Some row \<longrightarrow> nonce_row_ok k row)"

definition abs_nonce :: "int \<Rightarrow> string \<Rightarrow> NonceRow \<Rightarrow> NonceRecord" where
  "abs_nonce ttl nid row =
     \<lparr>nr_nonce_id = nid, nr_nonce_value = nrow_nonce row,
      nr_transaction_id = nrow_transaction_id row, nr_mandate_id = nrow_mandate_id row,
      nr_state = (if nrow_status row = nonce_state_value NonceState.CONSUMED
                  then NonceState.CONSUMED else ISSUED),
      nr_issued_at = nrow_created_at row, nr_expires_at = nrow_created_at row + seconds ttl,
      nr_consumed_at = nrow_consumed_at row\<rparr>"

definition abs_nonces :: "int \<Rightarrow> string \<Rightarrow> nonce_table \<Rightarrow> NonceEngine" where
  "abs_nonces ttl nid tab = (\<lambda>k. map_option (abs_nonce ttl nid) (tab k))"

lemma row_to_record_ok: "nonce_row_ok k row \<Longrightarrow> row_to_record row ttl nid = Inr (abs_nonce ttl nid row)"
  by (auto simp: row_to_record_def nonce_row_ok_def nonce_state_of_def mk_nonce_record_def
      abs_nonce_def)

lemma abs_nonces_upd: "abs_nonces ttl nid (tab(k \<mapsto> row)) = (abs_nonces ttl nid tab)(k \<mapsto> abs_nonce ttl nid row)"
  by (auto simp: abs_nonces_def)

lemma abs_nonce_status [simp]:
  "nr_state (abs_nonce ttl nid row) = NonceState.CONSUMED \<longleftrightarrow>
     nrow_status row = nonce_state_value NonceState.CONSUMED"
  by (simp add: abs_nonce_def)

section \<open>Single use across the database\<close>

datatype nonce_db_op =
    DIssue string string int "datetime option" string string datetime
  | DConsume string string string "datetime option" int string datetime

datatype nonce_db_out = DIssued "NonceRecord res" | DConsumed "NonceEvaluationResult res"

fun nonce_db_step ::
  "(nonce_table \<Rightarrow> NonceRow \<Rightarrow> bool) \<Rightarrow> NonceEngine \<times> nonce_table \<Rightarrow> nonce_db_op \<Rightarrow>
   nonce_db_out \<times> NonceEngine \<times> nonce_table" where
  "nonce_db_step accepts (e, tab) (DIssue mid tid ttl at nval nid now) =
     map_prod DIssued id (async_issue_nonce accepts e tab mid tid ttl at nval nid now)"
| "nonce_db_step accepts (e, tab) (DConsume v mid tid at ttl nid now) =
     map_prod DConsumed id (async_validate_and_consume e tab v mid tid at ttl nid now)"

fun nonce_db_accepted :: "nonce_db_out \<Rightarrow> bool" where
  "nonce_db_accepted (DConsumed (Inr r)) = nev_is_allowed r"
| "nonce_db_accepted _ = False"

fun nonce_db_key :: "nonce_db_op \<Rightarrow> string option" where
  "nonce_db_key (DConsume v _ _ _ _ _ _) = Some (strip v)"
| "nonce_db_key _ = None"

definition nonce_db_used :: "NonceEngine \<times> nonce_table \<Rightarrow> string \<Rightarrow> bool" where
  "nonce_db_used s k = (case snd s k of None \<Rightarrow> False
     | Some row \<Rightarrow> nrow_status row = nonce_state_value NonceState.CONSUMED)"

lemma repo_create_nonce_tab:
  assumes "repo_create_nonce accepts tab nonce tid mid status created now = (out, tab')"
  shows "tab' = tab \<or> (\<exists>row. accepts tab row \<and> nrow_nonce row = strip nonce \<and>
      tab' = tab(strip nonce \<mapsto> row))"
  using assms unfolding repo_create_nonce_def Let_def by (auto split: if_splits)

lemma async_issue_tab:
  "snd (snd (async_issue_nonce accepts e tab mid tid ttl at nval nid now)) = tab \<or>
   (\<exists>k row. accepts tab row \<and> nrow_nonce row = k \<and>
      snd (snd (async_issue_nonce accepts e tab mid tid ttl at nval nid now)) = tab(k \<mapsto> row))"
proof -
  obtain out tab' where c: "repo_create_nonce accepts tab nval (strip tid) (strip mid)
      (nonce_state_value ISSUED) (Some (resolve_at at now)) now = (out, tab')" by (rule prod.exhaust)
  then have "snd (snd (async_issue_nonce accepts e tab mid tid ttl at nval nid now)) \<in> {tab, tab'}"
    unfolding async_issue_nonce_def Let_def by (auto split: sum.split)
  with repo_create_nonce_tab [OF c] show ?thesis by auto
qed

lemma async_validate_tab:
  assumes "async_validate_and_consume e tab v mid tid at ttl nid now = (out, e', tab')"
  shows "(tab' = tab \<and> \<not> nonce_db_accepted (DConsumed out)) \<or>
    (\<not> nonce_db_used (e, tab) (strip v) \<and> nonce_db_used (e', tab') (strip v) \<and>
       (\<forall>k. k \<noteq> strip v \<longrightarrow> tab' k = tab k))"
proof (cases "strip v = [] \<or> tab (strip v) = None")
  case True
  then show ?thesis
  proof
    assume "strip v = []"
    with assms show ?thesis
      by (auto simp: async_validate_and_consume_def nev_reject_def nev_is_allowed_def)
  next
    assume "tab (strip v) = None"
    with assms show ?thesis
      by (auto simp: async_validate_and_consume_def Let_def repo_lock_nonce_def nev_reject_def
          nev_is_allowed_def split: if_splits)
  qed
next
  case False
  then obtain row where row: "tab (strip v) = Some row" and ne: "strip v \<noteq> []" by auto
  show ?thesis
  proof (cases "row_to_record row ttl nid")
    case (Inl x)
    with assms row ne show ?thesis
      by (auto simp: async_validate_and_consume_def Let_def repo_lock_nonce_def)
  next
    case (Inr r)
    with assms row ne show ?thesis
      by (auto simp: async_validate_and_consume_def Let_def repo_lock_nonce_def
          repo_consume_nonce_def blank_def nev_reject_def nev_is_allowed_def nonce_db_used_def
          split: if_splits)
  qed
qed

text \<open>The contract holds on every database that enforces the primary key.\<close>

locale nonce_db =
  fixes accepts :: "nonce_table \<Rightarrow> NonceRow \<Rightarrow> bool"
  assumes pk: "enforces_pk nrow_nonce accepts"
begin

lemma issue_used_stays:
  assumes "nonce_db_used (e, tab) k"
  shows "nonce_db_used (snd (nonce_db_step accepts (e, tab) (DIssue mid tid ttl at nval nid now))) k"
proof -
  from assms obtain row where "tab k = Some row" by (auto simp: nonce_db_used_def split: option.splits)
  with pk have other: "nrow_nonce r \<noteq> k" if "accepts tab r" for r
    using that by (auto dest: enforces_pkD)
  from async_issue_tab [of accepts e tab mid tid ttl at nval nid now]
  have "snd (snd (async_issue_nonce accepts e tab mid tid ttl at nval nid now)) k = tab k"
    by (auto dest: other)
  with assms show ?thesis by (simp add: nonce_db_used_def)
qed

lemma used_stays_db:
  assumes "nonce_db_used s k"
  shows "nonce_db_used (snd (nonce_db_step accepts s x)) k"
proof (cases x)
  case (DIssue mid tid ttl at nval nid now)
  with assms issue_used_stays show ?thesis by (cases s) simp
next
  case (DConsume v mid tid at ttl nid now)
  obtain e tab where s: "s = (e, tab)" by (cases s)
  obtain out e' tab' where "async_validate_and_consume e tab v mid tid at ttl nid now = (out, e', tab')"
    by (rule prod_cases3)
  with async_validate_tab [OF this] assms DConsume s show ?thesis
    by (cases "k = strip v") (auto simp: nonce_db_used_def)
qed

lemma accept_db:
  assumes "nonce_db_key x = Some k" and "nonce_db_accepted (fst (nonce_db_step accepts s x))"
  shows "\<not> nonce_db_used s k \<and> nonce_db_used (snd (nonce_db_step accepts s x)) k"
proof (cases x)
  case (DConsume v mid tid at ttl nid now)
  obtain e tab where s: "s = (e, tab)" by (cases s)
  obtain out e' tab' where "async_validate_and_consume e tab v mid tid at ttl nid now = (out, e', tab')"
    by (rule prod_cases3)
  with async_validate_tab [OF this] assms DConsume s show ?thesis
    by (cases "k = strip v") (auto simp: nonce_db_used_def)
qed (use assms in simp)

end

sublocale nonce_db \<subseteq> guard: single_use "nonce_db_step accepts" "\<lambda>_ _. True" "\<lambda>_. True"
  nonce_db_accepted nonce_db_key nonce_db_used
  by unfold_locales (simp_all add: accept_db used_stays_db)

context nonce_db
begin

lemma validated_at_most_once:
  "accepted_count nonce_db_accepted (\<lambda>x. nonce_db_key x = Some v) ops
     (fst (run_ops (nonce_db_step accepts) s ops)) \<le> 1"
  by (rule guard.at_most_once) simp_all

end

interpretation pk_nonces: nonce_db "pk_accepts nrow_nonce"
  by unfold_locales simp

section \<open>Properties\<close>

text \<open>Refinement: on a well-formed table, for a time to live of at most 300 seconds and a time not
  before the nonce was issued, the validation over the database never raises, decides as the
  in-memory engine does on the table's abstraction, and its new table abstracts to the engine's
  new dictionary.\<close>

theorem async_nonce_refines:
  assumes ok: "nonce_table_ok tab" and ttl: "ttl \<le> 300"
    and past: "\<And>row. tab (strip v) = Some row \<Longrightarrow> nrow_created_at row \<le> resolve_at at now"
  shows "\<exists>out e' tab'. async_validate_and_consume e tab v mid tid at ttl nid now = (Inr out, e', tab')
    \<and> nev_valid out = nev_valid (fst (validate_and_consume (abs_nonces ttl nid tab) v mid tid at now))
    \<and> nev_rejection_reason out
        = nev_rejection_reason (fst (validate_and_consume (abs_nonces ttl nid tab) v mid tid at now))
    \<and> abs_nonces ttl nid tab'
        = snd (validate_and_consume (abs_nonces ttl nid tab) v mid tid at now)"
proof (cases "strip v = [] \<or> tab (strip v) = None")
  case True
  then show ?thesis
    by (auto simp: async_validate_and_consume_def validate_and_consume_def abs_nonces_def
        repo_lock_nonce_def nev_reject_def Let_def)
next
  case False
  then obtain row where row: "tab (strip v) = Some row" and ne: "strip v \<noteq> []" by auto
  with ok have rok: "nonce_row_ok (strip v) row" by (simp add: nonce_table_ok_def)
  have a: "abs_nonces ttl nid tab (strip v) = Some (abs_nonce ttl nid row)"
    by (simp add: abs_nonces_def row)
  have young: "resolve_at at now - nrow_created_at row < 300000000"
    if "\<not> nrow_created_at row + seconds ttl \<le> resolve_at at now"
    using that ttl by (simp add: seconds_def)
  show ?thesis
    using past [OF row] ne young
    by (auto simp: async_validate_and_consume_def validate_and_consume_def row a Let_def
        row_to_record_ok [OF rok] repo_lock_nonce_def repo_consume_nonce_def blank_def
        abs_nonces_upd nev_reject_def nev_allow_def seconds_def [of 300] abs_nonce_def
        not_le)
qed

definition sample_nonce_row :: NonceRow where
  "sample_nonce_row =
     \<lparr>nrow_nonce = ''0123456789abcdef'', nrow_transaction_id = ''t'', nrow_mandate_id = ''m'',
      nrow_status = ''ISSUED'', nrow_created_at = 0, nrow_consumed_at = None\<rparr>"

definition sample_nonce_table :: nonce_table where
  "sample_nonce_table = [''0123456789abcdef'' \<mapsto> sample_nonce_row]"

lemma sample_nonce_table_ok: "nonce_table_ok sample_nonce_table"
  by (simp add: nonce_table_ok_def nonce_row_ok_def sample_nonce_table_def sample_nonce_row_def
      nonce_eval)

theorem async_nonce_refines_witness:
  "\<exists>out e' tab'. async_validate_and_consume Map.empty sample_nonce_table ''0123456789abcdef'' ''m'' ''t''
      (Some 1000000) 300 ''id'' 0 = (Inr out, e', tab') \<and> nev_valid out"
proof -
  have "nev_valid (fst (validate_and_consume (abs_nonces 300 ''id'' sample_nonce_table)
      ''0123456789abcdef'' ''m'' ''t'' (Some 1000000) 0))"
    by (simp add: abs_nonces_def abs_nonce_def sample_nonce_table_def sample_nonce_row_def nonce_eval)
  moreover have "\<And>row. sample_nonce_table (strip ''0123456789abcdef'') = Some row \<Longrightarrow>
      nrow_created_at row \<le> resolve_at (Some 1000000) 0"
    by (auto simp: sample_nonce_table_def sample_nonce_row_def split: if_splits)
  ultimately show ?thesis
    using async_nonce_refines [OF sample_nonce_table_ok, of 300 "''0123456789abcdef''" "Some 1000000" 0
        Map.empty "''m''" "''t''" "''id''"] by auto
qed

text \<open>Over a database that enforces the primary key, a nonce value is accepted at most once in any
  run of issues and validations, with no freshness assumption on the drawn values: the key column
  refuses a value that was drawn before.\<close>

theorem nonce_db_single_use:
  assumes "enforces_pk nrow_nonce accepts"
  shows "accepted_count nonce_db_accepted (\<lambda>x. nonce_db_key x = Some v) ops
           (fst (run_ops (nonce_db_step accepts) s ops)) \<le> 1"
  by (rule nonce_db.validated_at_most_once [OF nonce_db.intro [OF assms]])

definition sample_nonce_db_ops :: "nonce_db_op list" where
  "sample_nonce_db_ops =
     [DIssue ''m'' ''t'' 300 (Some 0) ''0123456789abcdef'' ''id'' 0,
      DConsume ''0123456789abcdef'' ''m'' ''t'' (Some 6) 300 ''id'' 0,
      DIssue ''m'' ''t'' 300 (Some 7) ''0123456789abcdef'' ''id'' 0,
      DConsume ''0123456789abcdef'' ''m'' ''t'' (Some 8) 300 ''id'' 0]"

theorem nonce_db_single_use_witness:
  "accepted_count nonce_db_accepted (\<lambda>x. nonce_db_key x = Some ''0123456789abcdef'') sample_nonce_db_ops
     (fst (run_ops (nonce_db_step (pk_accepts nrow_nonce)) (Map.empty, Map.empty)
        sample_nonce_db_ops)) = 1"
proof -
  have "accepted_count nonce_db_accepted (\<lambda>x. nonce_db_key x = Some ''0123456789abcdef'')
      sample_nonce_db_ops (fst (run_ops (nonce_db_step (pk_accepts nrow_nonce)) (Map.empty, Map.empty)
        sample_nonce_db_ops)) \<le> 1"
    by (rule nonce_db_single_use) simp
  moreover have "1 \<le> accepted_count nonce_db_accepted (\<lambda>x. nonce_db_key x = Some ''0123456789abcdef'')
      sample_nonce_db_ops (fst (run_ops (nonce_db_step (pk_accepts nrow_nonce)) (Map.empty, Map.empty)
        sample_nonce_db_ops))"
    by (simp add: sample_nonce_db_ops_def nonce_eval async_issue_nonce_def pk_accepts_def
        repo_create_nonce_def async_validate_and_consume_def repo_lock_nonce_def
        repo_consume_nonce_def row_to_record_def nonce_state_of_def)
  ultimately show ?thesis by simp
qed

text \<open>A time to live above 300 seconds is not honoured over the database: between the 300th second
  and its end, a nonce that the in-memory engine accepts makes \<open>async_validate_and_consume\<close> raise,
  because the repository applies its own default of 300 seconds.\<close>

theorem async_long_ttl_raises:
  assumes "nonce_table_ok tab" and "strip v \<noteq> []" and "tab (strip v) = Some row"
    and "consumable (abs_nonce ttl nid row) mid tid (resolve_at at now)"
    and "nrow_created_at row + seconds 300 \<le> resolve_at at now"
  shows "nev_is_allowed (fst (validate_and_consume (abs_nonces ttl nid tab) v mid tid at now))
    \<and> (\<exists>m. fst (async_validate_and_consume e tab v mid tid at ttl nid now) = Inl (Raise ValueError m))
    \<and> snd (async_validate_and_consume e tab v mid tid at ttl nid now) = (e, tab)"
proof -
  from assms(1,3) have rok: "nonce_row_ok (strip v) row" by (simp add: nonce_table_ok_def)
  have a: "abs_nonces ttl nid tab (strip v) = Some (abs_nonce ttl nid row)"
    by (simp add: abs_nonces_def assms(3))
  from assms(2,4) a have "nev_is_allowed (fst (validate_and_consume (abs_nonces ttl nid tab) v mid tid at now))"
    by (auto simp: validate_and_consume_exact)
  moreover have "\<exists>m. async_validate_and_consume e tab v mid tid at ttl nid now
      = (Inl (Raise ValueError m), e, tab)"
    using assms(2-5)
    by (auto simp: async_validate_and_consume_def Let_def row_to_record_ok [OF rok]
        repo_lock_nonce_def repo_consume_nonce_def blank_def consumable_def abs_nonce_def)
  ultimately show ?thesis by force
qed

theorem async_long_ttl_raises_witness:
  "(\<exists>m. fst (async_validate_and_consume Map.empty sample_nonce_table ''0123456789abcdef'' ''m'' ''t''
      (Some 400000000) 600 ''id'' 0) = Inl (Raise ValueError m))"
proof -
  have s: "strip ''0123456789abcdef'' = ''0123456789abcdef''" by (simp add: nonce_eval)
  have "sample_nonce_table (strip ''0123456789abcdef'') = Some sample_nonce_row"
    by (simp add: s sample_nonce_table_def)
  moreover have "consumable (abs_nonce 600 ''id'' sample_nonce_row) ''m'' ''t''
      (resolve_at (Some 400000000) 0)"
    by (simp add: consumable_def abs_nonce_def sample_nonce_row_def nonce_eval)
  moreover have "nrow_created_at sample_nonce_row + seconds 300 \<le> resolve_at (Some 400000000) 0"
    by (simp add: sample_nonce_row_def seconds_def)
  ultimately show ?thesis
    using async_long_ttl_raises [OF sample_nonce_table_ok, of "''0123456789abcdef''" sample_nonce_row 600
        "''id''" "''m''" "''t''" "Some 400000000" 0 Map.empty] by (simp add: s)
qed

end
