(* ===== verification/Step_Up.thy ===== *)
theory Step_Up
  imports Control_Outcome Contracts
begin

text \<open>
  Step-up authorization: the contracts of \<open>apps/api/domain/step_up.py\<close> and the in-memory engine
  of \<open>apps/api/domain/step_up_engine.py\<close>. \<open>classify_step_up_zone\<close> puts a cart total into one of
  three zones; the engine keeps the challenges of the middle zone and their human confirmations.
  Zones are ordered by severity (\<open>linorder\<close>).
\<close>

section \<open>The contracts\<close>

datatype StepUpChallengeStatus = PENDING | APPROVED | REJECTED | EXPIRED

fun challenge_status_value :: "StepUpChallengeStatus \<Rightarrow> string" where
  "challenge_status_value StepUpChallengeStatus.PENDING = ''PENDING''"
| "challenge_status_value APPROVED = ''APPROVED''"
| "challenge_status_value StepUpChallengeStatus.REJECTED = ''REJECTED''"
| "challenge_status_value StepUpChallengeStatus.EXPIRED = ''EXPIRED''"

record StepUpResult =
  sur_zone :: StepUpZone
  sur_diff :: "StepUpDiff option"
  sur_reason :: msg

record StepUpChallengeRecord =
  suc_challenge_id :: string
  suc_mandate_id :: string
  suc_transaction_id :: string
  suc_cart_hash :: string
  suc_approved_paise :: int
  suc_proposed_paise :: int
  suc_merchant_id :: string
  suc_status :: StepUpChallengeStatus
  suc_created_at :: datetime
  suc_expires_at :: datetime
  suc_confirmed_at :: "datetime option"
  suc_confirmed_by :: "string option"

definition challenge_is_expired :: "StepUpChallengeRecord \<Rightarrow> datetime option \<Rightarrow> datetime \<Rightarrow> bool" where
  "challenge_is_expired r at now = (resolve_at at now \<ge> suc_expires_at r)"

record TrustedConfirmation =
  tc_challenge_id :: string
  tc_mandate_id :: string
  tc_transaction_id :: string
  tc_cart_hash :: string
  tc_proposed_paise :: int
  tc_merchant_id :: string
  tc_confirmed_by :: string

record StepUpEvaluationResult =
  sev_valid :: bool
  sev_decision :: PolicyDecision
  sev_zone :: StepUpZone
  sev_challenge_id :: "string option"
  sev_diff :: "StepUpDiff option"
  sev_rejection_reason :: "RejectionReason option"
  sev_rejection_detail :: "msg option"
  sev_evaluated_at :: datetime

definition sev_is_allowed :: "StepUpEvaluationResult \<Rightarrow> bool" where
  "sev_is_allowed r \<longleftrightarrow> sev_valid r \<and> sev_decision r = ALLOW"

definition sev_to_control :: "StepUpEvaluationResult \<Rightarrow> SecurityControlOutcome" where
  "sev_to_control r =
     \<lparr>sco_control_name = ''STEP_UP_AUTHORIZATION'', sco_passed = sev_valid r,
      sco_decision = sev_decision r, sco_rejection_reason = sev_rejection_reason r,
      sco_detail = sev_rejection_detail r, sco_step_up_diff = None\<rparr>"

section \<open>Zones\<close>

instantiation StepUpZone :: linorder
begin

fun zone_severity :: "StepUpZone \<Rightarrow> nat" where
  "zone_severity AUTO_EXECUTE = 0"
| "zone_severity StepUpZone.STEP_UP_REQUIRED = 1"
| "zone_severity HARD_REJECT = 2"

definition less_eq_StepUpZone :: "StepUpZone \<Rightarrow> StepUpZone \<Rightarrow> bool" where
  "less_eq_StepUpZone a b \<longleftrightarrow> zone_severity a \<le> zone_severity b"

definition less_StepUpZone :: "StepUpZone \<Rightarrow> StepUpZone \<Rightarrow> bool" where
  "less_StepUpZone a b \<longleftrightarrow> zone_severity a < zone_severity b"

instance
proof
  fix a b :: StepUpZone
  show "a \<le> b \<Longrightarrow> b \<le> a \<Longrightarrow> a = b"
    by (cases a; cases b) (simp_all add: less_eq_StepUpZone_def)
qed (auto simp: less_eq_StepUpZone_def less_StepUpZone_def)

end

definition classify_step_up_zone :: "int \<Rightarrow> int \<Rightarrow> int \<Rightarrow> StepUpResult res" where
  "classify_step_up_zone amount cap pct =
     (if amount < 0 \<or> cap < 0 then Inl (Raise ValueError (Msg ''Prices cannot be negative.'' []))
      else if amount \<le> cap then
        Inr \<lparr>sur_zone = AUTO_EXECUTE, sur_diff = None,
             sur_reason = Msg ''Cart total is within buyer mandate limit.'' []\<rparr>
      else
        let max_allowed = cap + cap * pct div 100; delta = amount - cap in
        if cap = 0 then Inl (Raise ZeroDivisionError (Msg ''division by zero'' []))
          \<comment> \<open>both branches below divide \<open>delta_paise / mandate_cap_paise\<close>\<close>
        else if amount \<le> max_allowed then
          Inr \<lparr>sur_zone = StepUpZone.STEP_UP_REQUIRED,
               sur_diff = Some \<lparr>sd_approved_paise = cap, sd_proposed_paise = amount,
                 sd_delta_paise = delta, sd_delta_percent = Percent delta cap,
                 sd_reason = Msg ''Cart total exceeds mandate limit by {}/{}. Step-up approval required.''
                   [PInt delta, PInt cap]\<rparr>,
               sur_reason = Msg ''Step-up approval required (+{}/{} over cap).'' [PInt delta, PInt cap]\<rparr>
        else
          Inr \<lparr>sur_zone = HARD_REJECT, sur_diff = None,
               sur_reason = Msg ''Cart total ({}) exceeds mandate limit ({}) by {}/{}, which exceeds the maximum allowed step-up threshold of {}%.''
                 [PInt amount, PInt cap, PInt delta, PInt cap, PInt pct]\<rparr>)"

section \<open>The engine\<close>

type_synonym StepUpEngine = "string \<rightharpoonup> StepUpChallengeRecord"

definition create_challenge ::
  "StepUpEngine \<Rightarrow> string \<Rightarrow> string \<Rightarrow> string \<Rightarrow> int \<Rightarrow> int \<Rightarrow> string \<Rightarrow> int \<Rightarrow> datetime option \<Rightarrow>
   string \<Rightarrow> datetime \<Rightarrow> StepUpChallengeRecord \<times> StepUpEngine" where
  \<comment> \<open>\<open>uid\<close> is the fresh uuid\<close>
  "create_challenge e mid tid cart approved proposed merchant ttl at uid now =
     (let t = resolve_at at now; cid = ''challenge-'' @ uid;
          r = \<lparr>suc_challenge_id = cid, suc_mandate_id = strip mid, suc_transaction_id = strip tid,
               suc_cart_hash = norm_hash cart, suc_approved_paise = approved,
               suc_proposed_paise = proposed, suc_merchant_id = strip merchant,
               suc_status = StepUpChallengeStatus.PENDING, suc_created_at = t,
               suc_expires_at = t + seconds ttl, suc_confirmed_at = None, suc_confirmed_by = None\<rparr>
      in (r, e(cid \<mapsto> r)))"

definition record_human_confirmation ::
  "StepUpEngine \<Rightarrow> TrustedConfirmation \<Rightarrow> datetime option \<Rightarrow> datetime \<Rightarrow>
   StepUpChallengeRecord res \<times> StepUpEngine" where
  "record_human_confirmation e c at now =
     (let t = resolve_at at now; cid = strip (tc_challenge_id c) in
      case e cid of
        None \<Rightarrow> (Inl (Raise ValueError (Msg ''Step-up challenge {} not found.'' [PStr cid])), e)
      | Some r \<Rightarrow>
          if suc_status r \<noteq> StepUpChallengeStatus.PENDING then
            (Inl (Raise ValueError (Msg ''Step-up challenge {} is already {}.''
               [PStr cid, PStr (challenge_status_value (suc_status r))])), e)
          else if t \<ge> suc_expires_at r then
            (Inl (Raise ValueError (Msg ''Step-up challenge {} has expired.'' [PStr cid])),
             e(cid \<mapsto> r\<lparr>suc_status := StepUpChallengeStatus.EXPIRED, suc_confirmed_at := None,
                        suc_confirmed_by := None\<rparr>))
          else if suc_mandate_id r \<noteq> strip (tc_mandate_id c) then
            (Inl (Raise ValueError
               (Msg ''Mandate binding mismatch: challenge bound to {}, confirmation submitted for {}.''
                 [PStr (suc_mandate_id r), PStr (tc_mandate_id c)])), e)
          else if suc_transaction_id r \<noteq> strip (tc_transaction_id c) then
            (Inl (Raise ValueError
               (Msg ''Transaction binding mismatch: challenge bound to {}, confirmation submitted for {}.''
                 [PStr (suc_transaction_id r), PStr (tc_transaction_id c)])), e)
          else if suc_cart_hash r \<noteq> norm_hash (tc_cart_hash c) then
            (Inl (Raise ValueError
               (Msg ''Cart hash binding mismatch: challenge bound to {}, confirmation submitted for {}.''
                 [PStr (suc_cart_hash r), PStr (tc_cart_hash c)])), e)
          else if suc_proposed_paise r \<noteq> tc_proposed_paise c then
            (Inl (Raise ValueError
               (Msg ''Amount binding mismatch: challenge bound to {}, confirmation submitted for {}.''
                 [PInt (suc_proposed_paise r), PInt (tc_proposed_paise c)])), e)
          else if suc_merchant_id r \<noteq> strip (tc_merchant_id c) then
            (Inl (Raise ValueError
               (Msg ''Merchant binding mismatch: challenge bound to {}, confirmation submitted for {}.''
                 [PStr (suc_merchant_id r), PStr (tc_merchant_id c)])), e)
          else
            let r' = r\<lparr>suc_status := APPROVED, suc_confirmed_at := Some t,
                       suc_confirmed_by := Some (strip (tc_confirmed_by c))\<rparr> in
            (Inr r', e(cid \<mapsto> r')))"

definition sev_result ::
  "bool \<Rightarrow> PolicyDecision \<Rightarrow> StepUpZone \<Rightarrow> string option \<Rightarrow> StepUpDiff option \<Rightarrow>
   RejectionReason option \<Rightarrow> msg option \<Rightarrow> datetime \<Rightarrow> StepUpEvaluationResult" where
  "sev_result v d z cid diff reason detail t =
     \<lparr>sev_valid = v, sev_decision = d, sev_zone = z, sev_challenge_id = cid, sev_diff = diff,
      sev_rejection_reason = reason, sev_rejection_detail = detail, sev_evaluated_at = t\<rparr>"

definition arg_given :: "string option \<Rightarrow> bool" where
  \<comment> \<open>the truth value of an optional string argument\<close>
  "arg_given s \<longleftrightarrow> (case s of None \<Rightarrow> False | Some t \<Rightarrow> t \<noteq> [])"

definition evaluate_authorization_step_up ::
  "StepUpEngine \<Rightarrow> int \<Rightarrow> int \<Rightarrow> int \<Rightarrow> string option \<Rightarrow> string option \<Rightarrow> string option \<Rightarrow>
   string option \<Rightarrow> string option \<Rightarrow> datetime option \<Rightarrow> datetime \<Rightarrow> StepUpEvaluationResult res" where
  "evaluate_authorization_step_up e amount cap pct challenge_id mid tid cart merchant at now =
     (let t = resolve_at at now in
      bind_res (classify_step_up_zone amount cap pct) (\<lambda>s.
        if sur_zone s = AUTO_EXECUTE then
          Inr (sev_result True ALLOW AUTO_EXECUTE None None None None t)
        else if sur_zone s = HARD_REJECT then
          Inr (sev_result False REJECT HARD_REJECT None None (Some EXCEEDS_STEP_UP_HARD_LIMIT)
                 (Some (sur_reason s)) t)
        else if \<not> arg_given challenge_id \<or> strip (the challenge_id) = [] then
          Inr (sev_result False PolicyDecision.STEP_UP_REQUIRED StepUpZone.STEP_UP_REQUIRED None
                 (sur_diff s) None (Some (sur_reason s)) t)
        else
          let cid = strip (the challenge_id);
              rej = (\<lambda>reason detail. Inr (sev_result False REJECT StepUpZone.STEP_UP_REQUIRED
                       (Some cid) (sur_diff s) (Some reason) (Some detail) t))
          in case e cid of
            None \<Rightarrow> rej STEP_UP_CONFIRMATION_INVALID
              (Msg ''Step-up challenge {} not found in store.'' [PStr cid])
          | Some r \<Rightarrow>
              if suc_status r \<noteq> APPROVED then
                rej STEP_UP_CONFIRMATION_INVALID
                  (Msg ''Step-up challenge {} status is {} (must be APPROVED).''
                    [PStr cid, PStr (challenge_status_value (suc_status r))])
              else if t \<ge> suc_expires_at r then
                rej STEP_UP_CONFIRMATION_EXPIRED
                  (Msg ''Step-up challenge {} expired at {}.'' [PStr cid, PTime (suc_expires_at r)])
              else if arg_given mid \<and> suc_mandate_id r \<noteq> strip (the mid) then
                rej STEP_UP_CONFIRMATION_INVALID
                  (Msg ''Step-up mandate mismatch (bound {}, current {}).''
                    [PStr (suc_mandate_id r), PStr (the mid)])
              else if arg_given tid \<and> suc_transaction_id r \<noteq> strip (the tid) then
                rej STEP_UP_CONFIRMATION_INVALID
                  (Msg ''Step-up transaction mismatch (bound {}, current {}).''
                    [PStr (suc_transaction_id r), PStr (the tid)])
              else if arg_given cart \<and> suc_cart_hash r \<noteq> norm_hash (the cart) then
                rej STEP_UP_CONFIRMATION_INVALID
                  (Msg ''Step-up cart hash mismatch (bound {}, current {}).''
                    [PStr (suc_cart_hash r), PStr (the cart)])
              else if arg_given merchant \<and> suc_merchant_id r \<noteq> strip (the merchant) then
                rej STEP_UP_CONFIRMATION_INVALID
                  (Msg ''Step-up merchant mismatch (bound {}, current {}).''
                    [PStr (suc_merchant_id r), PStr (the merchant)])
              else if suc_proposed_paise r \<noteq> amount then
                rej STEP_UP_CONFIRMATION_INVALID
                  (Msg ''Step-up amount mismatch (confirmed {}, proposed {}).''
                    [PInt (suc_proposed_paise r), PInt amount])
              else
                Inr (sev_result True ALLOW StepUpZone.STEP_UP_REQUIRED (Some cid) (sur_diff s)
                       None None t)))"

definition get_challenge :: "StepUpEngine \<Rightarrow> string \<Rightarrow> StepUpChallengeRecord option" where
  "get_challenge e cid = e (strip cid)"


section \<open>The engine as a machine\<close>

datatype step_up_op =
    CreateOp string string string int int string int "datetime option" string datetime
  | ConfirmOp TrustedConfirmation "datetime option" datetime

datatype step_up_out = Created StepUpChallengeRecord | Confirmed "StepUpChallengeRecord res"

fun step_up_step :: "StepUpEngine \<Rightarrow> step_up_op \<Rightarrow> step_up_out \<times> StepUpEngine" where
  "step_up_step e (CreateOp mid tid cart approved proposed merchant ttl at uid now) =
     map_prod Created id (create_challenge e mid tid cart approved proposed merchant ttl at uid now)"
| "step_up_step e (ConfirmOp c at now) = map_prod Confirmed id (record_human_confirmation e c at now)"

fun step_up_adm :: "StepUpEngine \<Rightarrow> step_up_op \<Rightarrow> bool" where
  \<comment> \<open>the drawn uuid is fresh\<close>
  "step_up_adm e (CreateOp _ _ _ _ _ _ _ _ uid _) = (e (''challenge-'' @ uid) = None)"
| "step_up_adm e (ConfirmOp _ _ _) = True"

fun step_up_confirmed :: "step_up_out \<Rightarrow> bool" where
  "step_up_confirmed (Confirmed r) = is_ok r"
| "step_up_confirmed (Created _) = False"

fun step_up_key :: "step_up_op \<Rightarrow> string option" where
  "step_up_key (ConfirmOp c _ _) = Some (strip (tc_challenge_id c))"
| "step_up_key _ = None"

definition challenge_closed :: "StepUpEngine \<Rightarrow> string \<Rightarrow> bool" where
  "challenge_closed e k = (case e k of None \<Rightarrow> False
     | Some r \<Rightarrow> suc_status r \<noteq> StepUpChallengeStatus.PENDING)"

definition confirmation_matches :: "TrustedConfirmation \<Rightarrow> StepUpChallengeRecord \<Rightarrow> bool" where
  "confirmation_matches c r \<longleftrightarrow> strip (tc_mandate_id c) = suc_mandate_id r \<and>
     strip (tc_transaction_id c) = suc_transaction_id r \<and> norm_hash (tc_cart_hash c) = suc_cart_hash r \<and>
     tc_proposed_paise c = suc_proposed_paise r \<and> strip (tc_merchant_id c) = suc_merchant_id r"

lemma record_human_confirmation_cases:
  obtains (rejected) x where "record_human_confirmation e c at now = (Inl x, e)"
  | (expired) x r where "record_human_confirmation e c at now =
        (Inl x, e(strip (tc_challenge_id c) \<mapsto> r\<lparr>suc_status := StepUpChallengeStatus.EXPIRED,
            suc_confirmed_at := None, suc_confirmed_by := None\<rparr>))"
      "e (strip (tc_challenge_id c)) = Some r" "suc_status r = StepUpChallengeStatus.PENDING"
  | (approved) r r' where "record_human_confirmation e c at now =
        (Inr r', e(strip (tc_challenge_id c) \<mapsto> r'))"
      "e (strip (tc_challenge_id c)) = Some r" "suc_status r = StepUpChallengeStatus.PENDING"
      "r' = r\<lparr>suc_status := APPROVED, suc_confirmed_at := Some (resolve_at at now),
             suc_confirmed_by := Some (strip (tc_confirmed_by c))\<rparr>"
      "resolve_at at now < suc_expires_at r" "confirmation_matches c r'"
proof (cases "e (strip (tc_challenge_id c))")
  case None
  then show ?thesis using rejected by (simp add: record_human_confirmation_def Let_def)
next
  case (Some r)
  consider (np) "suc_status r \<noteq> StepUpChallengeStatus.PENDING"
    | (ex) "suc_status r = StepUpChallengeStatus.PENDING" "suc_expires_at r \<le> resolve_at at now"
    | (mm) "suc_status r = StepUpChallengeStatus.PENDING" "resolve_at at now < suc_expires_at r"
        "\<not> confirmation_matches c r"
    | (ok) "suc_status r = StepUpChallengeStatus.PENDING" "resolve_at at now < suc_expires_at r"
        "confirmation_matches c r"
    by linarith
  then show ?thesis
  proof cases
    case np
    with Some show ?thesis using rejected by (simp add: record_human_confirmation_def Let_def)
  next
    case ex
    with Some show ?thesis using expired by (simp add: record_human_confirmation_def Let_def)
  next
    case mm
    with Some have "\<exists>x. record_human_confirmation e c at now = (Inl x, e)"
      by (auto simp: record_human_confirmation_def Let_def confirmation_matches_def)
    then show ?thesis using rejected by blast
  next
    case ok
    with Some show ?thesis using approved
      by (simp add: record_human_confirmation_def Let_def confirmation_matches_def)
  qed
qed

interpretation step_up_confirmation: single_use step_up_step step_up_adm "\<lambda>_. True"
  step_up_confirmed step_up_key challenge_closed
proof unfold_locales
  fix e x k
  assume k: "step_up_key x = Some k" and a: "step_up_confirmed (fst (step_up_step e x))"
  then obtain c at now where x: "x = ConfirmOp c at now" "k = strip (tc_challenge_id c)"
    by (cases x) auto
  show "\<not> challenge_closed e k"
    using a x by (cases rule: record_human_confirmation_cases [of e c at now])
      (simp_all add: challenge_closed_def)
  show "challenge_closed (snd (step_up_step e x)) k"
    using a x by (cases rule: record_human_confirmation_cases [of e c at now])
      (simp_all add: challenge_closed_def)
next
  fix e x k
  assume "step_up_adm e x" and u: "challenge_closed e k"
  then show "challenge_closed (snd (step_up_step e x)) k"
  proof (cases x)
    case (CreateOp mid tid cart approved proposed merchant ttl at uid now)
    with \<open>step_up_adm e x\<close> u show ?thesis
      by (auto simp: create_challenge_def Let_def challenge_closed_def)
  next
    case (ConfirmOp c at now)
    with u show ?thesis
      by (cases rule: record_human_confirmation_cases [of e c at now])
        (auto simp: challenge_closed_def)
  qed
qed simp

lemma step_up_step_approved:
  assumes "snd (step_up_step e x) k = Some r" and "suc_status r = APPROVED"
  shows "e k = Some r \<or> (\<exists>c at now. x = ConfirmOp c at now \<and> strip (tc_challenge_id c) = k \<and>
      confirmation_matches c r \<and> resolve_at at now < suc_expires_at r \<and>
      suc_confirmed_at r = Some (resolve_at at now) \<and>
      suc_confirmed_by r = Some (strip (tc_confirmed_by c)))"
proof (cases x)
  case CreateOp
  with assms show ?thesis by (auto simp: create_challenge_def Let_def split: if_splits)
next
  case (ConfirmOp c at now)
  with assms show ?thesis
    by (cases rule: record_human_confirmation_cases [of e c at now]) (auto split: if_splits)
qed

lemma step_up_run_approved:
  assumes "snd (run_ops step_up_step e ops) k = Some r" and "suc_status r = APPROVED"
  shows "e k = Some r \<or> (\<exists>c at now. ConfirmOp c at now \<in> set ops \<and> strip (tc_challenge_id c) = k \<and>
      confirmation_matches c r \<and> resolve_at at now < suc_expires_at r \<and>
      suc_confirmed_by r = Some (strip (tc_confirmed_by c)))"
  using assms
proof (induction ops arbitrary: e)
  case (Cons x xs)
  then have "snd (step_up_step e x) k = Some r \<or> (\<exists>c at now. ConfirmOp c at now \<in> set xs \<and>
      strip (tc_challenge_id c) = k \<and> confirmation_matches c r \<and>
      resolve_at at now < suc_expires_at r \<and> suc_confirmed_by r = Some (strip (tc_confirmed_by c)))"
    by (simp add: run_ops_Cons del: run_ops.simps(2))
  then show ?case using step_up_step_approved [OF _ Cons.prems(2)] by fastforce
qed simp

section \<open>The zones\<close>

definition within_step_up :: "int \<Rightarrow> int \<Rightarrow> int \<Rightarrow> bool" where
  \<comment> \<open>the total exceeds the cap by at most \<open>pct\<close> percent of the cap\<close>
  "within_step_up amount cap pct \<longleftrightarrow> cap < amount \<and> 100 * (amount - cap) \<le> cap * pct"

lemma max_allowed_iff: "amount \<le> cap + cap * pct div 100 \<longleftrightarrow> 100 * (amount - cap) \<le> cap * pct"
  for amount cap pct :: int
proof -
  have "a \<le> x div 100 \<longleftrightarrow> 100 * a \<le> x" for a x :: int
    using mult_div_mod_eq [of 100 x] pos_mod_bound [of 100 x] pos_mod_sign [of 100 x] by linarith
  from this [of "amount - cap" "cap * pct"] show ?thesis by (simp add: algebra_simps)
qed

lemma classify_Inr:
  "classify_step_up_zone amount cap pct = Inr s \<Longrightarrow>
     0 \<le> amount \<and> 0 \<le> cap \<and> (amount \<le> cap \<or> 0 < cap) \<and>
     sur_zone s = (if amount \<le> cap then AUTO_EXECUTE
                   else if within_step_up amount cap pct then StepUpZone.STEP_UP_REQUIRED
                   else HARD_REJECT)"
  by (auto simp: classify_step_up_zone_def Let_def max_allowed_iff within_step_up_def split: if_splits)

lemma classify_ok:
  "is_ok (classify_step_up_zone amount cap pct) \<longleftrightarrow> 0 \<le> amount \<and> 0 \<le> cap \<and> (amount \<le> cap \<or> 0 < cap)"
  by (auto simp: classify_step_up_zone_def Let_def)

definition binding_ok :: "string option \<Rightarrow> string \<Rightarrow> bool" where
  \<comment> \<open>a context argument that is given agrees with the challenge\<close>
  "binding_ok arg bound \<longleftrightarrow> (if arg_given arg then bound = strip (the arg) else True)"

definition challenge_approves ::
  "StepUpChallengeRecord \<Rightarrow> int \<Rightarrow> string option \<Rightarrow> string option \<Rightarrow> string option \<Rightarrow>
   string option \<Rightarrow> datetime \<Rightarrow> bool" where
  "challenge_approves r amount mid tid cart merchant t \<longleftrightarrow>
     suc_status r = APPROVED \<and> t < suc_expires_at r \<and> suc_proposed_paise r = amount \<and>
     binding_ok mid (suc_mandate_id r) \<and> binding_ok tid (suc_transaction_id r) \<and>
     (if arg_given cart then suc_cart_hash r = norm_hash (the cart) else True) \<and>
     binding_ok merchant (suc_merchant_id r)"

definition approved_step_up ::
  "StepUpEngine \<Rightarrow> string option \<Rightarrow> int \<Rightarrow> string option \<Rightarrow> string option \<Rightarrow> string option \<Rightarrow>
   string option \<Rightarrow> datetime \<Rightarrow> bool" where
  "approved_step_up e challenge_id amount mid tid cart merchant t \<longleftrightarrow>
     arg_given challenge_id \<and> strip (the challenge_id) \<noteq> [] \<and>
     (case e (strip (the challenge_id)) of None \<Rightarrow> False
      | Some r \<Rightarrow> challenge_approves r amount mid tid cart merchant t)"

lemma sev_result_allowed [simp]: "sev_is_allowed (sev_result v d z cid diff reason detail t) \<longleftrightarrow> v \<and> d = ALLOW"
  by (simp add: sev_is_allowed_def sev_result_def)

text \<open>The evaluation over a classified cart, for the proofs.\<close>

lemma evaluate_allows_classified:
  assumes "classify_step_up_zone amount cap pct = Inr s"
  shows "\<exists>r. evaluate_authorization_step_up e amount cap pct cid mid tid cart merchant at now = Inr r \<and>
    (sev_is_allowed r \<longleftrightarrow> sur_zone s = AUTO_EXECUTE \<or> (sur_zone s = StepUpZone.STEP_UP_REQUIRED \<and>
       approved_step_up e cid amount mid tid cart merchant (resolve_at at now)))"
proof (cases "sur_zone s = StepUpZone.STEP_UP_REQUIRED \<and> arg_given cid \<and> strip (the cid) \<noteq> []")
  case False
  then show ?thesis
    by (cases "sur_zone s")
      (auto simp: evaluate_authorization_step_up_def assms Let_def approved_step_up_def)
next
  case True
  show ?thesis
  proof (cases "e (strip (the cid))")
    case None
    with True show ?thesis
      by (auto simp: evaluate_authorization_step_up_def assms Let_def approved_step_up_def)
  next
    case (Some r)
    with True show ?thesis
      by (auto simp: evaluate_authorization_step_up_def assms Let_def approved_step_up_def
          challenge_approves_def binding_ok_def)
  qed
qed

section \<open>Properties\<close>

text \<open>The zone of a cart never gets milder when the cart grows, the buyer's cap shrinks or the
  merchant's step-up percentage shrinks.\<close>

theorem zone_monotone:
  assumes "classify_step_up_zone amount cap pct = Inr s"
    and "classify_step_up_zone amount' cap' pct' = Inr s'"
    and "amount \<le> amount'" and "cap' \<le> cap" and "0 \<le> pct'" and "pct' \<le> pct"
  shows "sur_zone s \<le> sur_zone s'"
proof -
  note c = classify_Inr [OF assms(1)] classify_Inr [OF assms(2)]
  have "cap' * pct' \<le> cap * pct" using assms c by (intro mult_mono) auto
  moreover have "100 * (amount - cap) \<le> 100 * (amount' - cap')" using assms(3,4) by simp
  ultimately have "within_step_up amount' cap' pct' \<Longrightarrow> cap < amount \<Longrightarrow> within_step_up amount cap pct"
    unfolding within_step_up_def by linarith
  then show ?thesis using c assms(3,4)
    by (auto simp: less_eq_StepUpZone_def)
qed

theorem zone_monotone_witness:
  "sur_zone (projr (classify_step_up_zone 105 100 10)) \<le> sur_zone (projr (classify_step_up_zone 111 100 10))"
  by (rule zone_monotone [of 105 100 10 _ 111 100 10]) (simp_all add: classify_step_up_zone_def Let_def)

text \<open>The exact answer of the step-up evaluation. It returns a result for every cart and cap that
  \<open>classify_step_up_zone\<close> classifies; the result allows the payment exactly when the total is within
  the cap, or is within the step-up margin and the named challenge is approved, unexpired, for this
  very amount and bound to every context argument that was given.\<close>

theorem step_up_allows_iff:
  assumes "0 \<le> amount" and "0 < cap"
  shows "\<exists>r. evaluate_authorization_step_up e amount cap pct cid mid tid cart merchant at now = Inr r \<and>
    (sev_is_allowed r \<longleftrightarrow> amount \<le> cap \<or> (within_step_up amount cap pct \<and>
       approved_step_up e cid amount mid tid cart merchant (resolve_at at now)))"
proof -
  obtain s where s: "classify_step_up_zone amount cap pct = Inr s"
    using assms classify_ok [of amount cap pct] by (auto simp: is_ok_def split: sum.splits)
  have z: "sur_zone s = AUTO_EXECUTE \<longleftrightarrow> amount \<le> cap"
    "sur_zone s = StepUpZone.STEP_UP_REQUIRED \<longleftrightarrow> within_step_up amount cap pct"
    using classify_Inr [OF s] by (auto simp: within_step_up_def)
  show ?thesis using evaluate_allows_classified [OF s] unfolding z .
qed

definition sample_challenge :: StepUpChallengeRecord where
  "sample_challenge =
     \<lparr>suc_challenge_id = ''challenge-u'', suc_mandate_id = ''m'', suc_transaction_id = ''t'',
      suc_cart_hash = ''h'', suc_approved_paise = 100, suc_proposed_paise = 105,
      suc_merchant_id = ''s'', suc_status = APPROVED, suc_created_at = 0,
      suc_expires_at = seconds 300, suc_confirmed_at = Some 1, suc_confirmed_by = Some ''h''\<rparr>"

lemmas step_up_eval = strip_def lstrip_def rstrip_def is_space_def norm_hash_def lower_def
  lower_char_def sample_challenge_def challenge_approves_def binding_ok_def arg_given_def
  within_step_up_def approved_step_up_def

theorem step_up_allows_iff_witness:
  "\<exists>r. evaluate_authorization_step_up [''challenge-u'' \<mapsto> sample_challenge] 105 100 10
     (Some ''challenge-u'') (Some ''m'') (Some ''t'') None None (Some 2) 0 = Inr r \<and> sev_is_allowed r"
  using step_up_allows_iff [of 105 100 "[''challenge-u'' \<mapsto> sample_challenge]" 10
      "Some ''challenge-u''" "Some ''m''" "Some ''t''" None None "Some 2" 0]
  by (simp add: step_up_eval seconds_def)


definition sample_confirmation :: TrustedConfirmation where
  "sample_confirmation = \<lparr>tc_challenge_id = ''challenge-u'', tc_mandate_id = ''m'',
     tc_transaction_id = ''t'', tc_cart_hash = ''h'', tc_proposed_paise = 105,
     tc_merchant_id = ''s'', tc_confirmed_by = ''h''\<rparr>"

definition sample_step_up_ops :: "step_up_op list" where
  "sample_step_up_ops = [CreateOp ''m'' ''t'' ''h'' 100 105 ''s'' 300 (Some 0) ''u'' 0,
     ConfirmOp sample_confirmation (Some 1) 0]"

lemma sample_step_up_run:
  "snd (run_ops step_up_step Map.empty sample_step_up_ops) = [''challenge-u'' \<mapsto> sample_challenge]"
  by (auto simp: sample_step_up_ops_def create_challenge_def Let_def record_human_confirmation_def
      sample_confirmation_def step_up_eval seconds_def)


text \<open>A challenge is confirmed at most once in any run whose drawn identifiers are fresh.\<close>

theorem challenge_confirmed_once:
  assumes "run_adm step_up_step step_up_adm e ops"
  shows "accepted_count step_up_confirmed (\<lambda>x. step_up_key x = Some k) ops
    (fst (run_ops step_up_step e ops)) \<le> 1"
  by (rule step_up_confirmation.at_most_once [OF TrueI assms])

theorem challenge_confirmed_once_witness:
  "accepted_count step_up_confirmed (\<lambda>x. step_up_key x = Some ''challenge-u'') sample_step_up_ops
    (fst (run_ops step_up_step Map.empty sample_step_up_ops)) \<le> 1"
  by (rule challenge_confirmed_once)
    (simp add: sample_step_up_ops_def create_challenge_def Let_def)

text \<open>A cap of zero is not rejected: for any positive total the classification raises
  \<open>ZeroDivisionError\<close> (from computing the percentage over the cap), and so does the evaluation.\<close>

theorem zero_cap_raises:
  assumes "0 < amount"
  shows "evaluate_authorization_step_up e amount 0 pct cid mid tid cart merchant at now =
    Inl (Raise ZeroDivisionError (Msg ''division by zero'' []))"
  using assms by (simp add: evaluate_authorization_step_up_def classify_step_up_zone_def)

theorem zero_cap_raises_witness:
  "evaluate_authorization_step_up Map.empty 1 0 10 None None None None None None 0 =
    Inl (Raise ZeroDivisionError (Msg ''division by zero'' []))"
  by (rule zero_cap_raises) simp

end
