(* ===== verification/Json.thy ===== *)
theory Json
  imports Py_Prelude "HOL-Library.List_Lexorder"
begin

text \<open>
  The standard library's \<open>json.dumps\<close> as the source uses it for what it hashes:
  \<open>sort_keys=True\<close>, the separators without spaces, and the default \<open>ensure_ascii\<close>. Values are those the
  source serialises (no floats). A dictionary is the list of its entries; \<open>sort_keys\<close> is the sorting
  of \<open>json_canon\<close>.

  The point of the theory is \<open>json_print_inject\<close>: the printed text determines the value, so that
  two different canonical values are never hashed as the same text.
\<close>

datatype json =
    JNull | JBool bool | JInt int | JStr string | JArr "json list" | JObj "(string \<times> json) list"

section \<open>Numbers\<close>

definition digit_char :: "nat \<Rightarrow> char" where
  "digit_char d = char_of (48 + d)"

fun nat_str :: "nat \<Rightarrow> string" where
  "nat_str n = (if n < 10 then [digit_char n] else nat_str (n div 10) @ [digit_char (n mod 10)])"

declare nat_str.simps [simp del]

definition int_str :: "int \<Rightarrow> string" where
  \<comment> \<open>Python's \<open>str(i)\<close>\<close>
  "int_str i = (if i < 0 then CHR ''-'' # nat_str (nat (- i)) else nat_str (nat i))"

definition is_digit :: "char \<Rightarrow> bool" where
  "is_digit c \<longleftrightarrow> 48 \<le> (of_char c :: nat) \<and> (of_char c :: nat) \<le> 57"

lemma digit_char_inj: "d < 10 \<Longrightarrow> e < 10 \<Longrightarrow> digit_char d = digit_char e \<Longrightarrow> d = e"
  unfolding digit_char_def by (simp add: char_of_eq_iff take_bit_eq_mod)

lemma digit_char_digit [simp]: "d < 10 \<Longrightarrow> is_digit (digit_char d)"
  by (simp add: is_digit_def digit_char_def)

lemma nat_str_digits: "c \<in> set (nat_str n) \<Longrightarrow> is_digit c"
proof (induction n rule: nat_str.induct)
  case (1 n)
  then show ?case by (subst (asm) (2) nat_str.simps) (auto split: if_splits)
qed

lemma nat_str_not_Nil [simp]: "nat_str n \<noteq> []"
  by (subst nat_str.simps) simp

lemma nat_str_small: "n < 10 \<Longrightarrow> nat_str n = [digit_char n]"
  by (subst nat_str.simps) simp

lemma nat_str_large: "\<not> n < 10 \<Longrightarrow> nat_str n = nat_str (n div 10) @ [digit_char (n mod 10)]"
  by (subst nat_str.simps) simp

lemma nat_str_inj: "nat_str m = nat_str n \<Longrightarrow> m = n"
proof (induction m arbitrary: n rule: nat_str.induct)
  case (1 m)
  consider "m < 10" "n < 10" | "m < 10" "\<not> n < 10" | "\<not> m < 10" "n < 10" | "\<not> m < 10" "\<not> n < 10"
    by blast
  then show ?case
  proof cases
    case 4
    then have "nat_str (m div 10) = nat_str (n div 10)" "digit_char (m mod 10) = digit_char (n mod 10)"
      using "1.prems" by (simp_all add: nat_str_large)
    then have "m div 10 = n div 10" "m mod 10 = n mod 10"
      using "1.IH" [OF 4(1)] by (auto intro: digit_char_inj)
    then show ?thesis by (metis div_mult_mod_eq)
  qed (use "1.prems" in \<open>auto simp: nat_str_small nat_str_large digit_char_inj Cons_eq_append_conv append_eq_Cons_conv\<close>)
qed

definition is_num_char :: "char \<Rightarrow> bool" where
  "is_num_char c \<longleftrightarrow> is_digit c \<or> c = CHR ''-''"

lemma int_str_chars: "c \<in> set (int_str i) \<Longrightarrow> is_num_char c"
  by (auto simp: int_str_def is_num_char_def split: if_splits dest: nat_str_digits)

lemma int_str_not_Nil [simp]: "int_str i \<noteq> []"
  by (simp add: int_str_def)

lemma nat_str_hd: "hd (nat_str n) \<noteq> CHR ''-''"
  using nat_str_digits [of "hd (nat_str n)" n] by (auto simp: is_digit_def)

lemma int_str_inj [simp]: "int_str i = int_str j \<longleftrightarrow> i = j"
proof
  assume a: "int_str i = int_str j"
  then have "i < 0 \<longleftrightarrow> j < 0"
    using nat_str_hd [of "nat i"] nat_str_hd [of "nat j"]
    by (auto simp: int_str_def split: if_splits) (metis list.sel(1))+
  with a show "i = j"
    by (auto simp: int_str_def split: if_splits dest!: nat_str_inj)
qed simp

section \<open>Strings\<close>

definition hex_digit :: "nat \<Rightarrow> char" where
  "hex_digit d = (if d < 10 then char_of (48 + d) else char_of (87 + d))"

definition esc_char :: "char \<Rightarrow> string" where
  "esc_char c =
     (if c = CHR 0x22 then [CHR 0x5C, CHR 0x22]
      else if c = CHR 0x5C then [CHR 0x5C, CHR 0x5C]
      else if c = CHR 0x0A then [CHR 0x5C, CHR ''n'']
      else if c = CHR 0x0D then [CHR 0x5C, CHR ''r'']
      else if c = CHR 0x09 then [CHR 0x5C, CHR ''t'']
      else if c = CHR 0x0C then [CHR 0x5C, CHR ''f'']
      else if c = CHR 0x08 then [CHR 0x5C, CHR ''b'']
      else let n = of_char c :: nat in
        if 32 \<le> n \<and> n \<le> 126 then [c]
        else [CHR 0x5C, CHR ''u'', CHR ''0'', CHR ''0'', hex_digit (n div 16), hex_digit (n mod 16)])"

fun esc :: "string \<Rightarrow> string" where
  "esc [] = []"
| "esc (c # cs) = esc_char c @ esc cs"

definition str_lit :: "string \<Rightarrow> string" where
  "str_lit s = CHR 0x22 # esc s @ [CHR 0x22]"

lemma hex_digit_inj: "d < 16 \<Longrightarrow> e < 16 \<Longrightarrow> hex_digit d = hex_digit e \<Longrightarrow> d = e"
  unfolding hex_digit_def by (auto simp: char_of_eq_iff take_bit_eq_mod split: if_splits)

lemma esc_char_prefix:
  assumes "esc_char c @ u = esc_char d @ v"
  shows "c = d \<and> u = v"
proof (cases "esc_char c = [c] \<or> esc_char d = [d]")
  case True
  then show ?thesis using assms by (auto simp: esc_char_def Let_def split: if_splits)
next
  case False
  have hex: "c = d" if "hex_digit (of_char c div 16) = hex_digit (of_char d div 16)"
    "hex_digit (of_char c mod 16) = hex_digit (of_char d mod 16)" for c d :: char
  proof -
    have lt: "(of_char c :: nat) < 256" "(of_char d :: nat) < 256" by simp_all
    then have "(of_char c :: nat) div 16 < 16" "(of_char d :: nat) div 16 < 16" by linarith+
    then have "of_char c div 16 = (of_char d div 16 :: nat)"
      using that(1) by (rule hex_digit_inj)
    moreover have "of_char c mod 16 = (of_char d mod 16 :: nat)"
      using that(2) by (intro hex_digit_inj) auto
    ultimately have "(of_char c :: nat) = of_char d" by (metis div_mult_mod_eq)
    then show ?thesis by simp
  qed
  from False show ?thesis using assms
    by (simp add: esc_char_def Let_def split: if_splits) (blast dest: hex)+
qed

lemma esc_char_not_quote: "esc_char c \<noteq> [] \<and> hd (esc_char c) \<noteq> CHR 0x22"
  by (simp add: esc_char_def Let_def)

lemma esc_prefix: "esc s @ CHR 0x22 # u = esc t @ CHR 0x22 # v \<Longrightarrow> s = t \<and> u = v"
proof (induction s arbitrary: t)
  case Nil
  then show ?case
  proof (cases t)
    case (Cons d t')
    then show ?thesis using Nil esc_char_not_quote [of d] by (cases "esc_char d") auto
  qed simp
next
  case (Cons c s)
  show ?case
  proof (cases t)
    case Nil
    then show ?thesis using Cons.prems esc_char_not_quote [of c] by (cases "esc_char c") auto
  next
    case (Cons d t')
    then have "c = d \<and> esc s @ CHR 0x22 # u = esc t' @ CHR 0x22 # v"
      using Cons.prems by (auto dest: esc_char_prefix)
    then show ?thesis using Cons.IH Cons by auto
  qed
qed

lemma str_lit_prefix: "str_lit s @ u = str_lit t @ v \<Longrightarrow> s = t \<and> u = v"
  by (auto simp: str_lit_def dest: esc_prefix)

section \<open>Values\<close>

fun json_print :: "json \<Rightarrow> string" and json_tail :: "json list \<Rightarrow> string"
  and json_members :: "(string \<times> json) list \<Rightarrow> string" where
  "json_print JNull = ''null''"
| "json_print (JBool b) = (if b then ''true'' else ''false'')"
| "json_print (JInt i) = int_str i"
| "json_print (JStr s) = str_lit s"
| "json_print (JArr []) = ''[]''"
| "json_print (JArr (x # xs)) = ''['' @ json_print x @ json_tail xs"
| "json_print (JObj []) = ''{}''"
| "json_print (JObj ((k, v) # kvs)) = ''{'' @ str_lit k @ '':'' @ json_print v @ json_members kvs"
| "json_tail [] = '']''"
| "json_tail (x # xs) = '','' @ json_print x @ json_tail xs"
| "json_members [] = ''}''"
| "json_members ((k, v) # kvs) = '','' @ str_lit k @ '':'' @ json_print v @ json_members kvs"

fun json_canon :: "json \<Rightarrow> json" where
  "json_canon (JArr xs) = JArr (map json_canon xs)"
| "json_canon (JObj kvs) = JObj (sort_key fst (map (\<lambda>(k, v). (k, json_canon v)) kvs))"
| "json_canon j = j"

definition json_dumps :: "json \<Rightarrow> string" where
  "json_dumps j = json_print (json_canon j)"

section \<open>The text determines the value\<close>

definition at_end :: "string \<Rightarrow> bool" where
  \<comment> \<open>what may follow a printed value\<close>
  "at_end r \<longleftrightarrow> r = [] \<or> hd r \<in> {CHR '','', CHR '']'', CHR ''}''}"

lemma at_end_tail [simp]: "at_end (json_tail xs @ r)" "at_end (json_members kvs @ r)"
  by (cases xs; simp add: at_end_def) (cases kvs; auto simp: at_end_def)

lemma int_str_prefix:
  assumes "int_str i @ u = int_str j @ v" and "at_end u" and "at_end v"
  shows "i = j \<and> u = v"
proof -
  have stop: "takeWhile is_num_char (int_str i @ r) = int_str i" if "at_end r" for i r
  proof -
    have "takeWhile is_num_char r = []"
      using that by (cases r) (auto simp: at_end_def is_num_char_def is_digit_def)
    then show ?thesis using int_str_chars by (simp add: takeWhile_append2)
  qed
  have "int_str i = int_str j"
    using stop [OF assms(2), of i] stop [OF assms(3), of j] assms(1) by simp
  with assms(1) show ?thesis by simp
qed

lemma int_str_hd: "is_num_char (hd (int_str i))"
  by (rule int_str_chars [OF hd_in_set]) simp

lemma int_str_Cons: "int_str i @ u = c # s \<Longrightarrow> is_num_char c" "c # s = int_str i @ u \<Longrightarrow> is_num_char c"
  using int_str_hd [of i] by (cases "int_str i"; auto)+

lemma num_chars [simp]:
  "\<not> is_num_char CHR ''n''" "\<not> is_num_char CHR ''t''" "\<not> is_num_char CHR ''f''"
  "\<not> is_num_char CHR '']''" "\<not> is_num_char CHR ''}''" "\<not> is_num_char CHR 0x22" "\<not> is_num_char CHR ''[''" "\<not> is_num_char CHR ''{''"
  by (simp_all add: is_num_char_def is_digit_def)

definition kind_of :: "json \<Rightarrow> nat" where
  "kind_of j = (case j of JNull \<Rightarrow> 0 | JBool True \<Rightarrow> 1 | JBool False \<Rightarrow> 2 | JInt _ \<Rightarrow> 3 | JStr _ \<Rightarrow> 4
     | JArr _ \<Rightarrow> 5 | JObj _ \<Rightarrow> 6)"

definition kind_of_char :: "char \<Rightarrow> nat" where
  "kind_of_char c = (if c = CHR ''n'' then 0 else if c = CHR ''t'' then 1 else if c = CHR ''f'' then 2
     else if c = CHR 0x22 then 4 else if c = CHR ''['' then 5 else if c = CHR ''{'' then 6 else 3)"

lemma kind_of_num: "is_num_char c \<Longrightarrow> kind_of_char c = 3"
  by (auto simp: kind_of_char_def)

lemma json_print_head: "\<exists>c s. json_print j = c # s \<and> kind_of_char c = kind_of j \<and> c \<noteq> CHR '']'' \<and> c \<noteq> CHR ''}''"
proof (cases j)
  case (JInt i)
  then show ?thesis using kind_of_num [OF int_str_hd [of i]] int_str_hd [of i]
    by (cases "int_str i") (auto simp: kind_of_def)
next
  case (JArr xs)
  then show ?thesis by (cases xs) (auto simp: kind_of_def kind_of_char_def)
next
  case (JObj kvs)
  then show ?thesis by (cases kvs) (auto simp: kind_of_def kind_of_char_def)
qed (auto simp: kind_of_def kind_of_char_def str_lit_def)

lemma json_print_kind: "json_print j @ u = json_print j' @ v \<Longrightarrow> kind_of j = kind_of j'"
  using json_print_head [of j] json_print_head [of j'] by auto

lemma kind_cases:
  assumes "kind_of j = kind_of j'"
  shows "(\<exists>i i'. j = JInt i \<and> j' = JInt i') \<or> (\<exists>s s'. j = JStr s \<and> j' = JStr s') \<or>
    (\<exists>xs ys. j = JArr xs \<and> j' = JArr ys) \<or> (\<exists>ks ls. j = JObj ks \<and> j' = JObj ls) \<or>
    (j' = j \<and> (j = JNull \<or> (\<exists>b. j = JBool b)))"
  using assms by (cases j; cases j') (auto simp: kind_of_def split: bool.splits)

lemma JArr_kind: "kind_of (JArr xs) = kind_of j' \<longleftrightarrow> (\<exists>ys. j' = JArr ys)"
  and JObj_kind: "kind_of (JObj kvs) = kind_of j' \<longleftrightarrow> (\<exists>ls. j' = JObj ls)"
  and JInt_kind: "kind_of (JInt i) = kind_of j' \<longleftrightarrow> (\<exists>i'. j' = JInt i')"
  and JStr_kind: "kind_of (JStr s) = kind_of j' \<longleftrightarrow> (\<exists>s'. j' = JStr s')"
  and JBool_kind: "kind_of (JBool b) = kind_of j' \<longleftrightarrow> j' = JBool b"
  and JNull_kind: "kind_of JNull = kind_of j' \<longleftrightarrow> j' = JNull"
  by (cases j'; auto simp: kind_of_def split: bool.splits)+

lemmas kinds = JArr_kind JObj_kind JInt_kind JStr_kind JBool_kind JNull_kind

lemma json_print_heads [simp]:
  "json_print j \<noteq> []" "json_print j @ u \<noteq> CHR '']'' # v" "json_print j @ u \<noteq> CHR ''}'' # v"
  "CHR '']'' # v \<noteq> json_print j @ u"
  using json_print_head [of j] by auto

lemma json_print_prefix_aux:
  "json_print j @ r = json_print j' @ r' \<Longrightarrow> at_end r \<Longrightarrow> at_end r' \<Longrightarrow> j = j' \<and> r = r'"
  "json_tail xs @ r = json_tail xs' @ r' \<Longrightarrow> xs = xs' \<and> r = r'"
  "json_members ks @ r = json_members ks' @ r' \<Longrightarrow> ks = ks' \<and> r = r'"
proof (induction j and xs and ks arbitrary: j' r r' and xs' r r' and ks' r r'
    rule: json_print_json_tail_json_members.induct)
  case (3 i)
  then show ?case using json_print_kind [OF "3.prems"(1)]
    by (auto simp: kinds dest: int_str_prefix)
next
  case (4 s)
  then show ?case using json_print_kind [OF "4.prems"(1)] by (auto simp: kinds dest: str_lit_prefix)
next
  case 5
  obtain ys where j': "j' = JArr ys" using json_print_kind [OF "5.prems"(1)] by (auto simp: kinds)
  then show ?case using "5.prems"(1) j' by (cases ys) simp_all
next
  case (6 x xs)
  obtain ys where j': "j' = JArr ys" using json_print_kind [OF "6.prems"(1)] by (auto simp: kinds)
  then obtain y zs where ys: "ys = y # zs" using "6.prems"(1) by (cases ys) auto
  have "json_print x @ json_tail xs @ r = json_print y @ json_tail zs @ r'"
    using "6.prems" j' ys by simp
  then have "x = y \<and> json_tail xs @ r = json_tail zs @ r'" by (rule "6.IH"(1)) simp_all
  then show ?case using "6.IH"(2) j' ys by blast
next
  case 7
  obtain ls where j': "j' = JObj ls" using json_print_kind [OF "7.prems"(1)] by (auto simp: kinds)
  then show ?case using "7.prems"(1) j' by (cases ls) (auto simp: str_lit_def)
next
  case (8 k v kvs)
  obtain ls where j': "j' = JObj ls" using json_print_kind [OF "8.prems"(1)] by (auto simp: kinds)
  then obtain k' v' ms where ls: "ls = (k', v') # ms"
    using "8.prems"(1) by (cases ls) (auto simp: str_lit_def)
  have "str_lit k @ CHR '':'' # json_print v @ json_members kvs @ r =
      str_lit k' @ CHR '':'' # json_print v' @ json_members ms @ r'"
    using "8.prems" j' ls by simp
  then have k: "k = k'" and "json_print v @ json_members kvs @ r = json_print v' @ json_members ms @ r'"
    by (auto dest: str_lit_prefix)
  then have "v = v' \<and> json_members kvs @ r = json_members ms @ r'" by (intro "8.IH"(1)) simp_all
  then show ?case using "8.IH"(2) j' ls k by blast
next
  case (9)
  then show ?case by (cases xs') auto
next
  case (10 x xs)
  obtain y zs where xs': "xs' = y # zs" using "10.prems" by (cases xs') auto
  have "json_print x @ json_tail xs @ r = json_print y @ json_tail zs @ r'"
    using "10.prems" xs' by simp
  then have "x = y \<and> json_tail xs @ r = json_tail zs @ r'" by (rule "10.IH"(1)) simp_all
  then show ?case using "10.IH"(2) xs' by blast
next
  case 11
  then show ?case by (cases ks') auto
next
  case (12 k v kvs)
  obtain k' v' ms where ks': "ks' = (k', v') # ms" using "12.prems" by (cases ks') auto
  have "str_lit k @ CHR '':'' # json_print v @ json_members kvs @ r =
      str_lit k' @ CHR '':'' # json_print v' @ json_members ms @ r'"
    using "12.prems" ks' by simp
  then have k: "k = k'" and "json_print v @ json_members kvs @ r = json_print v' @ json_members ms @ r'"
    by (auto dest: str_lit_prefix)
  then have "v = v' \<and> json_members kvs @ r = json_members ms @ r'" by (intro "12.IH"(1)) simp_all
  then show ?case using "12.IH"(2) ks' k by blast
next
  case 1
  then show ?case using json_print_kind [OF "1.prems"(1)] by (auto simp: kinds)
next
  case (2 b)
  then show ?case using json_print_kind [OF "2.prems"(1)] by (auto simp: kinds)
qed

lemma json_print_inject [simp]: "json_print j = json_print j' \<longleftrightarrow> j = j'"
  using json_print_prefix_aux(1) [of j "[]" j' "[]"] by (auto simp: at_end_def)

lemma json_dumps_inject: "json_dumps j = json_dumps j' \<longleftrightarrow> json_canon j = json_canon j'"
  by (simp add: json_dumps_def)

section \<open>The canonical form\<close>

definition map_values :: "('v \<Rightarrow> 'w) \<Rightarrow> ('k \<times> 'v) list \<Rightarrow> ('k \<times> 'w) list" where
  "map_values f kvs = map (\<lambda>(k, v). (k, f v)) kvs"

lemma sort_key_map_values: "sort_key fst (map_values f kvs) = map_values f (sort_key fst kvs)"
proof (induction kvs)
  case (Cons kv kvs)
  have "insort_key fst (fst x, f (snd x)) (map_values f xs) = map_values f (insort_key fst x xs)" for x xs
    by (induction xs) (auto simp: map_values_def case_prod_unfold)
  then show ?case using Cons by (simp add: map_values_def case_prod_unfold)
qed (simp add: map_values_def)

lemma json_canon_idem [simp]: "json_canon (json_canon j) = json_canon j"
proof (induction j)
  case (JObj kvs)
  have "map_values json_canon (map_values json_canon kvs) = map_values json_canon kvs"
    using JObj by (auto simp: map_values_def snds.simps)
  moreover have "json_canon (JObj ls) = JObj (sort_key fst (map_values json_canon ls))" for ls
    by (simp add: map_values_def)
  moreover have "sort_key fst (sort_key fst ls) = sort_key fst ls" for ls :: "(string \<times> json) list"
    by (rule sort_key_id_if_sorted) simp
  ultimately show ?case by (simp add: sort_key_map_values [symmetric] del: json_canon.simps(2))
qed simp_all

end
