(* ===== verification/Cart.thy ===== *)
theory Cart
  imports Control_Outcome Json "HOL-Library.Multiset"
begin

text \<open>
  Carts (\<open>apps/api/domain/cart.py\<close>) and the verification of their integrity
  (\<open>apps/api/domain/cart_integrity.py\<close>). \<open>mk_cart\<close> is the constructor with its validator. SHA-256 is
  not in the repository: it is the argument \<open>sha\<close> of every definition that hashes, from the text to
  the hexadecimal digest; \<open>hex_digest\<close> (a digest is 64 lower-case hexadecimal characters) and
  \<open>no_collision\<close> (on the two texts at hand) name what the code relies on.
\<close>

section \<open>Carts\<close>

record CartItem =
  ci_product_id :: string
  ci_merchant_id :: string
  ci_name :: string
  ci_category :: string
  ci_quantity :: int
  ci_unit_price_paise :: int
  ci_currency :: Currency

definition subtotal_paise :: "CartItem \<Rightarrow> int" where
  "subtotal_paise i = ci_quantity i * ci_unit_price_paise i"

definition mk_cart_item ::
  "string \<Rightarrow> string \<Rightarrow> string \<Rightarrow> string \<Rightarrow> int \<Rightarrow> int \<Rightarrow> Currency \<Rightarrow> CartItem res" where
  "mk_cart_item pid mid name cat qty price cur =
     (if pid = [] then Inl (Raise ValueError (Msg ''product_id: min_length 1'' []))
      else if mid = [] then Inl (Raise ValueError (Msg ''merchant_id: min_length 1'' []))
      else if name = [] then Inl (Raise ValueError (Msg ''name: min_length 1'' []))
      else if length name > 500 then Inl (Raise ValueError (Msg ''name: max_length 500'' []))
      else if cat = [] then Inl (Raise ValueError (Msg ''category: min_length 1'' []))
      else if length cat > 100 then Inl (Raise ValueError (Msg ''category: max_length 100'' []))
      else if qty < 1 then Inl (Raise ValueError (Msg ''quantity: ge 1'' []))
      else if price < 0 then Inl (Raise ValueError (Msg ''unit_price_paise: ge 0'' []))
      else Inr \<lparr>ci_product_id = pid, ci_merchant_id = mid, ci_name = name, ci_category = cat,
                ci_quantity = qty, ci_unit_price_paise = price, ci_currency = cur\<rparr>)"

record Cart =
  cart_id :: string
  cart_merchant_id :: string
  cart_mandate_id :: string
  cart_currency :: Currency
  cart_items :: "CartItem list"
  cart_tax_paise :: int
  cart_shipping_paise :: int
  cart_total_paise :: int
  cart_created_at :: datetime
  cart_hash :: string

definition items_total :: "CartItem list \<Rightarrow> int" where
  "items_total items = sum_list (map subtotal_paise items)"

fun check_items :: "Currency \<Rightarrow> string \<Rightarrow> CartItem list \<Rightarrow> unit res" where
  \<comment> \<open>the loop of \<open>_validate_items\<close>\<close>
  "check_items cur mid [] = Inr ()"
| "check_items cur mid (i # is) =
     (if ci_currency i \<noteq> cur then
        Inl (Raise ValueError (Msg ''Item {} currency {} does not match cart currency {}.''
          [PStr (ci_product_id i), PStr (currency_value (ci_currency i)), PStr (currency_value cur)]))
      else if ci_merchant_id i \<noteq> mid then
        Inl (Raise ValueError (Msg ''Item {} merchant_id {} does not match cart merchant_id {}.''
          [PStr (ci_product_id i), PStr (ci_merchant_id i), PStr mid]))
      else check_items cur mid is)"

definition mk_cart ::
  "string \<Rightarrow> string \<Rightarrow> string \<Rightarrow> Currency \<Rightarrow> CartItem list \<Rightarrow> int \<Rightarrow> int \<Rightarrow> int \<Rightarrow> datetime \<Rightarrow> string \<Rightarrow>
   Cart res" where
  "mk_cart cid mid mandate cur items tax ship amount created hash =
     (if mid = [] then Inl (Raise ValueError (Msg ''merchant_id: min_length 1'' []))
      else if mandate = [] then Inl (Raise ValueError (Msg ''mandate_id: min_length 1'' []))
      else if items = [] then Inl (Raise ValueError (Msg ''items: min_length 1'' []))
      else if tax < 0 then Inl (Raise ValueError (Msg ''tax_paise: ge 0'' []))
      else if ship < 0 then Inl (Raise ValueError (Msg ''shipping_paise: ge 0'' []))
      else if amount < 0 then Inl (Raise ValueError (Msg ''total_paise: ge 0'' []))
      else bind_res (check_items cur mid items) (\<lambda>_.
        let expected = items_total items + tax + ship in
        if amount \<noteq> expected then
          Inl (Raise ValueError (Msg ''Cart total mismatch: declared {} paise, computed {} paise.''
            [PInt amount, PInt expected]))
        else Inr \<lparr>cart_id = cid, cart_merchant_id = mid, cart_mandate_id = mandate,
                  cart_currency = cur, cart_items = items, cart_tax_paise = tax,
                  cart_shipping_paise = ship, cart_total_paise = amount, cart_created_at = created,
                  cart_hash = hash\<rparr>))"

section \<open>The canonical hash\<close>

definition is_hex_char :: "char \<Rightarrow> bool" where
  "is_hex_char c = (let n = of_char c :: nat in
     (48 \<le> n \<and> n \<le> 57) \<or> (65 \<le> n \<and> n \<le> 70) \<or> (97 \<le> n \<and> n \<le> 102))"

definition is_valid_hex64 :: "string \<Rightarrow> bool" where
  \<comment> \<open>\<open>^[a-fA-F0-9]{64}$\<close> with \<open>match\<close>: the dollar also matches before a final newline\<close>
  "is_valid_hex64 s \<longleftrightarrow> list_all is_hex_char (take 64 s) \<and>
     (length s = 64 \<or> (length s = 65 \<and> s ! 64 = CHR 0x0A))"

definition canonical_item :: "CartItem \<Rightarrow> json" where
  "canonical_item i = JObj
     [(''category'', JStr (lower (strip (ci_category i)))), (''merchant_id'', JStr (ci_merchant_id i)),
      (''product_id'', JStr (ci_product_id i)), (''quantity'', JInt (ci_quantity i)),
      (''unit_price_paise'', JInt (ci_unit_price_paise i))]"

definition canonical_cart ::
  "string \<Rightarrow> string \<Rightarrow> Currency \<Rightarrow> CartItem list \<Rightarrow> int \<Rightarrow> int \<Rightarrow> int \<Rightarrow> json" where
  "canonical_cart mid mandate cur items tax ship amount = JObj
     [(''currency'', JStr (currency_value cur)),
      (''items'', JArr (map canonical_item (sort_key ci_product_id items))),
      (''mandate_id'', JStr mandate), (''merchant_id'', JStr mid), (''shipping_paise'', JInt ship),
      (''tax_paise'', JInt tax), (''total_paise'', JInt amount)]"

definition compute_cart_hash ::
  "(string \<Rightarrow> string) \<Rightarrow> string \<Rightarrow> string \<Rightarrow> Currency \<Rightarrow> CartItem list \<Rightarrow> int \<Rightarrow> int \<Rightarrow> int \<Rightarrow> string" where
  "compute_cart_hash sha mid mandate cur items tax ship amount =
     sha (json_dumps (canonical_cart mid mandate cur items tax ship amount))"

definition cart_text :: "Cart \<Rightarrow> string" where
  \<comment> \<open>what \<open>compute_cart_object_hash\<close> hashes\<close>
  "cart_text c = json_dumps (canonical_cart (cart_merchant_id c) (cart_mandate_id c) (cart_currency c)
     (cart_items c) (cart_tax_paise c) (cart_shipping_paise c) (cart_total_paise c))"

definition compute_cart_object_hash :: "(string \<Rightarrow> string) \<Rightarrow> Cart \<Rightarrow> string" where
  "compute_cart_object_hash sha c =
     compute_cart_hash sha (cart_merchant_id c) (cart_mandate_id c) (cart_currency c) (cart_items c)
       (cart_tax_paise c) (cart_shipping_paise c) (cart_total_paise c)"

definition build_cart_with_hash ::
  "(string \<Rightarrow> string) \<Rightarrow> string option \<Rightarrow> string \<Rightarrow> string \<Rightarrow> Currency \<Rightarrow> CartItem list \<Rightarrow> int \<Rightarrow> int \<Rightarrow>
   int \<Rightarrow> string \<Rightarrow> datetime \<Rightarrow> Cart res" where
  \<comment> \<open>\<open>uid\<close> is the fresh uuid of the default \<open>cart_id\<close>\<close>
  "build_cart_with_hash sha cid mid mandate cur items tax ship amount uid now =
     (let digest = compute_cart_hash sha mid mandate cur items tax ship amount in
      mk_cart (option_or cid uid) mid mandate cur items tax ship amount now digest)"

section \<open>Verification\<close>

datatype authorized_cart = Auth_Cart Cart | Auth_Hash string

record CartIntegrityResult =
  cir_valid :: bool
  cir_authorized_hash :: string
  cir_current_hash :: string
  cir_rejection_reason :: "RejectionReason option"
  cir_rejection_detail :: "msg option"
  cir_field_mismatches :: "string list"
  cir_evaluated_at :: datetime

definition cir_to_control :: "CartIntegrityResult \<Rightarrow> SecurityControlOutcome" where
  "cir_to_control r =
     \<lparr>sco_control_name = ''CART_INTEGRITY'', sco_passed = cir_valid r,
      sco_decision = (if cir_valid r then ALLOW else REJECT),
      sco_rejection_reason = cir_rejection_reason r, sco_detail = cir_rejection_detail r,
      sco_step_up_diff = None\<rparr>"

definition effective_hash :: "(string \<Rightarrow> string) \<Rightarrow> Cart \<Rightarrow> string" where
  \<comment> \<open>\<open>c.cart_hash if c.cart_hash else compute_cart_object_hash(c)\<close>\<close>
  "effective_hash sha c = (if cart_hash c \<noteq> [] then cart_hash c else compute_cart_object_hash sha c)"

definition label_if :: "bool \<Rightarrow> string \<Rightarrow> string list" where
  "label_if b s = (if b then [s] else [])"

definition item_mismatches :: "CartItem \<Rightarrow> CartItem \<Rightarrow> string list" where
  "item_mismatches a c =
     label_if (ci_product_id a \<noteq> ci_product_id c) (''product_id_mismatch:'' @ ci_product_id c) @
     label_if (ci_quantity a \<noteq> ci_quantity c) (''quantity_mismatch:'' @ ci_product_id c) @
     label_if (ci_unit_price_paise a \<noteq> ci_unit_price_paise c) (''unit_price_mismatch:'' @ ci_product_id c) @
     label_if (lower (strip (ci_category a)) \<noteq> lower (strip (ci_category c)))
       (''category_mismatch:'' @ ci_product_id c)"

definition cart_mismatches :: "Cart \<Rightarrow> Cart \<Rightarrow> string list" where
  "cart_mismatches a c =
     (let as = sort_key ci_product_id (cart_items a); cs = sort_key ci_product_id (cart_items c) in
      label_if (cart_merchant_id a \<noteq> cart_merchant_id c) ''merchant_id_mismatch'' @
      label_if (cart_mandate_id a \<noteq> cart_mandate_id c) ''mandate_id_mismatch'' @
      label_if (cart_currency a \<noteq> cart_currency c) ''currency_mismatch'' @
      label_if (cart_tax_paise a \<noteq> cart_tax_paise c) ''tax_paise_mismatch'' @
      label_if (cart_shipping_paise a \<noteq> cart_shipping_paise c) ''shipping_paise_mismatch'' @
      label_if (cart_total_paise a \<noteq> cart_total_paise c) ''total_paise_mismatch'' @
      (if length as \<noteq> length cs then [''item_count_mismatch'']
       else concat (map (\<lambda>(x, y). item_mismatches x y) (zip as cs))))"

definition mismatch_reason :: "string list \<Rightarrow> RejectionReason" where
  "mismatch_reason ms =
     (if ''merchant_id_mismatch'' \<in> set ms then MERCHANT_MISMATCH
      else if ''currency_mismatch'' \<in> set ms then CART_CURRENCY_MISMATCH
      else if ''total_paise_mismatch'' \<in> set ms then CART_TOTAL_MISMATCH
      else CART_INTEGRITY_VIOLATION)"

definition cir_reject ::
  "string \<Rightarrow> string \<Rightarrow> RejectionReason \<Rightarrow> msg \<Rightarrow> string list \<Rightarrow> datetime \<Rightarrow> CartIntegrityResult" where
  "cir_reject expected current reason detail ms t =
     \<lparr>cir_valid = False, cir_authorized_hash = expected, cir_current_hash = current,
      cir_rejection_reason = Some reason, cir_rejection_detail = Some detail,
      cir_field_mismatches = ms, cir_evaluated_at = t\<rparr>"

definition expected_hash :: "(string \<Rightarrow> string) \<Rightarrow> authorized_cart \<Rightarrow> string" where
  "expected_hash sha a = (case a of Auth_Cart c \<Rightarrow> effective_hash sha c | Auth_Hash h \<Rightarrow> norm_hash h)"

definition verify ::
  "(string \<Rightarrow> string) \<Rightarrow> authorized_cart \<Rightarrow> Cart \<Rightarrow> datetime option \<Rightarrow> datetime \<Rightarrow> CartIntegrityResult" where
  "verify sha a c at now =
     (let t = resolve_at at now; expected = expected_hash sha a in
      if \<not> is_valid_hex64 expected then
        cir_reject expected [] CART_INTEGRITY_VIOLATION
          (Msg ''Authorized cart hash is missing or malformed.'' []) [''malformed_authorized_hash''] t
      else
        let current = lower (effective_hash sha c) in
        if \<not> is_valid_hex64 current then
          cir_reject expected current CART_INTEGRITY_VIOLATION
            (Msg ''Current cart canonical hash is malformed.'' []) [''malformed_current_hash''] t
        else if expected = current then
          \<lparr>cir_valid = True, cir_authorized_hash = expected, cir_current_hash = current,
           cir_rejection_reason = None, cir_rejection_detail = None, cir_field_mismatches = [],
           cir_evaluated_at = t\<rparr>
        else
          let ms = (case a of Auth_Cart ac \<Rightarrow> cart_mismatches ac c | Auth_Hash _ \<Rightarrow> [''hash_mismatch''])
          in cir_reject expected current (mismatch_reason ms)
               (Msg ''Cart integrity verification failed. Field mismatches: {}.'' (map PStr ms)) ms t)"

definition verify_cart_integrity :: "(string \<Rightarrow> string) \<Rightarrow> Cart \<Rightarrow> string \<Rightarrow> datetime \<Rightarrow> bool" where
  "verify_cart_integrity sha c approved now = cir_valid (verify sha (Auth_Hash approved) c None now)"

section \<open>What the constructor establishes\<close>

definition cart_ok :: "Cart \<Rightarrow> bool" where
  "cart_ok c \<longleftrightarrow> cart_merchant_id c \<noteq> [] \<and> cart_mandate_id c \<noteq> [] \<and> cart_items c \<noteq> [] \<and>
     0 \<le> cart_tax_paise c \<and> 0 \<le> cart_shipping_paise c \<and> 0 \<le> cart_total_paise c \<and>
     list_all (\<lambda>i. ci_currency i = cart_currency c \<and> ci_merchant_id i = cart_merchant_id c) (cart_items c) \<and>
     cart_total_paise c = items_total (cart_items c) + cart_tax_paise c + cart_shipping_paise c"

lemma check_items_Inr:
  "check_items cur mid items = Inr u \<longleftrightarrow> list_all (\<lambda>i. ci_currency i = cur \<and> ci_merchant_id i = mid) items"
  by (induction items) auto

lemma mk_cart_Inr:
  "mk_cart cid mid mandate cur items tax ship amount created hash = Inr c \<longleftrightarrow>
     cart_ok c \<and> c = \<lparr>cart_id = cid, cart_merchant_id = mid, cart_mandate_id = mandate,
                  cart_currency = cur, cart_items = items, cart_tax_paise = tax,
                  cart_shipping_paise = ship, cart_total_paise = amount, cart_created_at = created,
                  cart_hash = hash\<rparr>"
  unfolding mk_cart_def cart_ok_def Let_def
  by (auto simp: bind_res_Inr check_items_Inr)

section \<open>Digests\<close>

definition hex_digest :: "(string \<Rightarrow> string) \<Rightarrow> bool" where
  "hex_digest sha \<longleftrightarrow> (\<forall>x. length (sha x) = 64 \<and> list_all is_hex_char (sha x) \<and> lower (sha x) = sha x)"

definition no_collision :: "(string \<Rightarrow> string) \<Rightarrow> string \<Rightarrow> string \<Rightarrow> bool" where
  "no_collision sha x y \<longleftrightarrow> sha x = sha y \<longrightarrow> x = y"

lemma digest_valid: "hex_digest sha \<Longrightarrow> is_valid_hex64 (sha x)"
  by (simp add: hex_digest_def is_valid_hex64_def)

lemma digest_lower: "hex_digest sha \<Longrightarrow> lower (sha x) = sha x"
  by (simp add: hex_digest_def)

lemma digest_not_Nil: "hex_digest sha \<Longrightarrow> sha x \<noteq> []"
  unfolding hex_digest_def by (metis length_0_conv zero_neq_numeral)

definition honest_hash :: "(string \<Rightarrow> string) \<Rightarrow> Cart \<Rightarrow> bool" where
  \<comment> \<open>the cart carries no digest, or the one of its own contents\<close>
  "honest_hash sha c \<longleftrightarrow> cart_hash c \<in> {[], compute_cart_object_hash sha c}"

lemma object_hash_text: "compute_cart_object_hash sha c = sha (cart_text c)"
  by (simp add: compute_cart_object_hash_def compute_cart_hash_def cart_text_def)

lemma honest_effective: "honest_hash sha c \<Longrightarrow> effective_hash sha c = sha (cart_text c)"
  by (auto simp: honest_hash_def effective_hash_def object_hash_text)

lemma honest_verify:
  assumes "hex_digest sha" and "honest_hash sha a" and "honest_hash sha c"
    and "no_collision sha (cart_text a) (cart_text c)"
  shows "cir_valid (verify sha (Auth_Cart a) c at now) \<longleftrightarrow> cart_text a = cart_text c"
  using assms digest_valid [OF assms(1)] digest_lower [OF assms(1)]
  by (auto simp: verify_def Let_def expected_hash_def honest_effective no_collision_def cir_reject_def)

section \<open>What the text of a cart determines\<close>

lemma currency_value_inj [simp]: "currency_value a = currency_value b \<longleftrightarrow> a = b"
  by (cases a; cases b; simp)

lemma json_canon_cart [simp]:
  "json_canon (canonical_cart mid mandate cur items tax ship amount) =
     canonical_cart mid mandate cur items tax ship amount"
proof -
  have "json_canon (canonical_item i) = canonical_item i" for i
    unfolding canonical_item_def by simp
  then show ?thesis unfolding canonical_cart_def by simp
qed

definition item_key :: "CartItem \<Rightarrow> string \<times> string \<times> string \<times> int \<times> int" where
  \<comment> \<open>what the hash sees of a line item: the name is left out, the category is normalised\<close>
  "item_key i = (ci_product_id i, lower (strip (ci_category i)), ci_merchant_id i, ci_quantity i,
     ci_unit_price_paise i)"

definition same_purchase :: "Cart \<Rightarrow> Cart \<Rightarrow> bool" where
  "same_purchase a c \<longleftrightarrow> cart_merchant_id a = cart_merchant_id c \<and>
     cart_mandate_id a = cart_mandate_id c \<and> cart_currency a = cart_currency c \<and>
     cart_tax_paise a = cart_tax_paise c \<and> cart_shipping_paise a = cart_shipping_paise c \<and>
     cart_total_paise a = cart_total_paise c \<and>
     mset (map item_key (cart_items a)) = mset (map item_key (cart_items c))"

definition canonical_order :: "Cart \<Rightarrow> (string \<times> string \<times> string \<times> int \<times> int) list" where
  "canonical_order c = map item_key (sort_key ci_product_id (cart_items c))"

lemma canonical_item_eq: "canonical_item i = canonical_item j \<longleftrightarrow> item_key i = item_key j"
  by (auto simp: canonical_item_def item_key_def)

lemma map_canonical_item_eq:
  "map canonical_item xs = map canonical_item ys \<longleftrightarrow> map item_key xs = map item_key ys"
  by (induction xs arbitrary: ys) (auto simp: canonical_item_eq Cons_eq_map_conv map_eq_Cons_conv)

lemma cart_text_eq:
  "cart_text a = cart_text c \<longleftrightarrow> cart_merchant_id a = cart_merchant_id c \<and>
     cart_mandate_id a = cart_mandate_id c \<and> cart_currency a = cart_currency c \<and>
     cart_tax_paise a = cart_tax_paise c \<and> cart_shipping_paise a = cart_shipping_paise c \<and>
     cart_total_paise a = cart_total_paise c \<and> canonical_order a = canonical_order c"
  unfolding cart_text_def json_dumps_inject json_canon_cart
  by (auto simp: canonical_cart_def canonical_order_def map_canonical_item_eq)

lemma canonical_order_mset: "mset (canonical_order c) = mset (map item_key (cart_items c))"
  by (simp add: canonical_order_def)

lemma canonical_order_sorted: "sorted (map fst (canonical_order c))"
proof -
  have "map fst (canonical_order c) = map ci_product_id (sort_key ci_product_id (cart_items c))"
    by (simp add: canonical_order_def item_key_def)
  then show ?thesis by simp
qed

lemma canonical_order_distinct:
  assumes "distinct (map ci_product_id (cart_items c))"
  shows "distinct (map fst (canonical_order c))"
proof -
  have "mset (map fst (canonical_order c)) = mset (map ci_product_id (cart_items c))"
    by (simp add: canonical_order_def item_key_def multiset.map_comp comp_def)
  then show ?thesis using assms mset_eq_imp_distinct_iff by blast
qed

lemma canonical_order_unique:
  assumes "mset (map item_key (cart_items a)) = mset (map item_key (cart_items c))"
    and "distinct (map ci_product_id (cart_items a))"
  shows "canonical_order a = canonical_order c"
proof -
  have "inj_on fst (set (canonical_order a))"
    using canonical_order_distinct [OF assms(2)] by (simp add: distinct_map)
  then have "sort_key fst (canonical_order a) = canonical_order c"
    using assms(1) by (intro sort_key_inj_key_eq)
      (simp_all add: canonical_order_mset canonical_order_sorted)
  moreover have "sort_key fst (canonical_order a) = canonical_order a"
    using canonical_order_sorted by (intro sort_key_id_if_sorted)
  ultimately show ?thesis by simp
qed

lemma same_text_same_purchase: "cart_text a = cart_text c \<Longrightarrow> same_purchase a c"
  using canonical_order_mset [of a] canonical_order_mset [of c]
  by (simp add: cart_text_eq same_purchase_def)

lemma same_purchase_same_text:
  "same_purchase a c \<Longrightarrow> distinct (map ci_product_id (cart_items a)) \<Longrightarrow> cart_text a = cart_text c"
  by (auto simp: cart_text_eq same_purchase_def intro: canonical_order_unique)

section \<open>Properties\<close>

text \<open>The constructor accepts exactly the carts whose items share the cart's currency and
  merchant and whose declared total is the sum of the line items, the tax and the shipping.\<close>

theorem mk_cart_accepts_iff:
  "is_ok (mk_cart cid mid mandate cur items tax ship amount created hash) \<longleftrightarrow>
     mid \<noteq> [] \<and> mandate \<noteq> [] \<and> items \<noteq> [] \<and> 0 \<le> tax \<and> 0 \<le> ship \<and> 0 \<le> amount \<and>
     list_all (\<lambda>i. ci_currency i = cur \<and> ci_merchant_id i = mid) items \<and>
     amount = items_total items + tax + ship"
proof -
  have "is_ok (mk_cart cid mid mandate cur items tax ship amount created hash) \<longleftrightarrow>
      (\<exists>c. mk_cart cid mid mandate cur items tax ship amount created hash = Inr c)"
    by (auto simp: is_ok_def split: sum.splits)
  then show ?thesis by (simp add: mk_cart_Inr cart_ok_def)
qed

text \<open>C38: Cart integrity. Between two carts that carry no digest or the digest of their own
  contents, and whose line items have distinct products, the verification succeeds exactly when they
  are the same purchase: the same merchant, mandate, currency, tax, shipping and total, and the same
  line items in any order. A changed quantity, price, product or category is always caught.\<close>

theorem honest_integrity:
  assumes "hex_digest sha" and "honest_hash sha a" and "honest_hash sha c"
    and "no_collision sha (cart_text a) (cart_text c)"
    and "distinct (map ci_product_id (cart_items a))"
  shows "cir_valid (verify sha (Auth_Cart a) c at now) \<longleftrightarrow> same_purchase a c"
  using honest_verify [OF assms(1-4)] same_text_same_purchase same_purchase_same_text [OF _ assms(5)]
  by blast

definition sample_item :: "string \<Rightarrow> int \<Rightarrow> CartItem" where
  "sample_item pid qty = \<lparr>ci_product_id = pid, ci_merchant_id = ''s'', ci_name = ''n'',
     ci_category = ''Books'', ci_quantity = qty, ci_unit_price_paise = 50, ci_currency = INR\<rparr>"

definition sample_cart :: "CartItem list \<Rightarrow> int \<Rightarrow> string \<Rightarrow> Cart" where
  "sample_cart items amount hash = \<lparr>cart_id = ''c'', cart_merchant_id = ''s'',
     cart_mandate_id = ''m'', cart_currency = INR, cart_items = items, cart_tax_paise = 0,
     cart_shipping_paise = 0, cart_total_paise = amount, cart_created_at = 0, cart_hash = hash\<rparr>"

definition sample_sha :: "string \<Rightarrow> string \<Rightarrow> string" where
  \<comment> \<open>tells one text from the others\<close>
  "sample_sha x y = (if y = x then replicate 64 CHR ''a'' else replicate 64 CHR ''b'')"

lemma sample_sha_digest: "hex_digest (sample_sha x)"
  by (simp add: hex_digest_def sample_sha_def is_hex_char_def list_all_length lower_def lower_char_def)

theorem honest_integrity_witness:
  "\<not> cir_valid (verify (sample_sha (cart_text (sample_cart [sample_item ''p'' 2] 100 [])))
     (Auth_Cart (sample_cart [sample_item ''p'' 2] 100 [])) (sample_cart [sample_item ''p'' 3] 100 []) None 0)"
proof -
  let ?a = "sample_cart [sample_item ''p'' 2] 100 []" and ?c = "sample_cart [sample_item ''p'' 3] 100 []"
  have "\<not> same_purchase ?a ?c"
    by (simp add: same_purchase_def sample_cart_def sample_item_def item_key_def)
  moreover from this have "cart_text ?a \<noteq> cart_text ?c" using same_text_same_purchase by blast
  then have "no_collision (sample_sha (cart_text ?a)) (cart_text ?a) (cart_text ?c)"
    by (simp add: no_collision_def sample_sha_def replicate_eq_replicate)
  moreover have "honest_hash sha (sample_cart items amount [])" for sha items amount
    by (simp add: honest_hash_def sample_cart_def)
  moreover have "distinct (map ci_product_id (cart_items ?a))"
    by (simp add: sample_cart_def)
  ultimately show ?thesis
    using honest_integrity [OF sample_sha_digest, of "cart_text ?a" ?a ?c None 0] by blast
qed

text \<open>The verification trusts a digest that the cart under verification carries: a cart with
  arbitrary contents passes against any authorized digest once that digest is written into its
  \<open>cart_hash\<close> field, whatever the hash function.\<close>

theorem attached_hash_is_trusted:
  assumes "length h = 64" and "list_all is_hex_char h" and "lower h = h"
  shows "cir_valid (verify sha (Auth_Cart (a\<lparr>cart_hash := h\<rparr>)) (c\<lparr>cart_hash := h\<rparr>) at now)
    \<and> cart_ok (c\<lparr>cart_hash := h\<rparr>) = cart_ok c"
proof -
  have "h \<noteq> []" using assms(1) by auto
  then show ?thesis using assms
    by (simp add: verify_def expected_hash_def effective_hash_def is_valid_hex64_def cart_ok_def Let_def)
qed

theorem attached_hash_is_trusted_witness:
  "cir_valid (verify (sample_sha [])
     (Auth_Cart ((sample_cart [sample_item ''p'' 1] 50 [])\<lparr>cart_hash := replicate 64 CHR ''a''\<rparr>))
     ((sample_cart [sample_item ''q'' 900] 45000 [])\<lparr>cart_hash := replicate 64 CHR ''a''\<rparr>) None 0)"
  using attached_hash_is_trusted [of "replicate 64 CHR ''a''" "sample_sha []"
      "sample_cart [sample_item ''p'' 1] 50 []" "sample_cart [sample_item ''q'' 900] 45000 []" None 0]
  by (simp add: is_hex_char_def list_all_length lower_def lower_char_def)

end
