(* ===== verification/Rule_Chain.thy ===== *)
theory Rule_Chain
  imports Control_Outcome
begin

text \<open>
  The evaluators of mandates and of merchant policies apply numbered rules in a fixed order. Each
  rule either appends one passed step to the trace, or appends one failed step and returns the
  rejection at once. A rule is a definition of its own in the evaluator's theory; \<open>run_rules\<close> is the
  sequence with its early return, and the lemmas here are what both evaluators need of it.
\<close>

record RuleStep =
  rs_rule_name :: string
  rs_passed :: bool
  rs_detail :: msg

datatype verdict = Pass msg | Fail msg RejectionReason msg

fun verdict_passes :: "verdict \<Rightarrow> bool" where
  "verdict_passes (Pass _) = True"
| "verdict_passes (Fail _ _ _) = False"

definition rule_step :: "string \<Rightarrow> bool \<Rightarrow> msg \<Rightarrow> RuleStep" where
  "rule_step n p d = \<lparr>rs_rule_name = n, rs_passed = p, rs_detail = d\<rparr>"

fun run_rules :: "(string \<times> verdict) list \<Rightarrow> RuleStep list \<times> (RejectionReason \<times> msg) option" where
  "run_rules [] = ([], None)"
| "run_rules ((n, Pass d) # rs) = (case run_rules rs of (steps, out) \<Rightarrow> (rule_step n True d # steps, out))"
| "run_rules ((n, Fail d reason detail) # rs) = ([rule_step n False d], Some (reason, detail))"

lemma run_rules_None: "snd (run_rules rs) = None \<longleftrightarrow> list_all (\<lambda>(n, v). verdict_passes v) rs"
  by (induction rs rule: run_rules.induct) (auto split: prod.splits)

lemma run_rules_trace:
  "\<exists>rest. map fst rs = map rs_rule_name (fst (run_rules rs)) @ rest"
  by (induction rs rule: run_rules.induct) (auto simp: rule_step_def split: prod.splits)

lemma run_rules_passed:
  "snd (run_rules rs) = None \<Longrightarrow> list_all rs_passed (fst (run_rules rs)) \<and>
     map rs_rule_name (fst (run_rules rs)) = map fst rs"
  by (induction rs rule: run_rules.induct) (auto simp: rule_step_def split: prod.splits)

lemma run_rules_failed:
  "snd (run_rules rs) = Some (reason, detail) \<Longrightarrow>
     (\<exists>n d pre post. rs = pre @ (n, Fail d reason detail) # post \<and>
        list_all (\<lambda>(n, v). verdict_passes v) pre \<and>
        list_all rs_passed (butlast (fst (run_rules rs))) \<and> fst (run_rules rs) \<noteq> [] \<and>
        last (fst (run_rules rs)) = rule_step n False d)"
proof (induction rs rule: run_rules.induct)
  case (2 n d rs)
  then obtain n' d' pre post where IH: "rs = pre @ (n', Fail d' reason detail) # post"
    "list_all (\<lambda>(n, v). verdict_passes v) pre" "list_all rs_passed (butlast (fst (run_rules rs)))"
    "fst (run_rules rs) \<noteq> []" "last (fst (run_rules rs)) = rule_step n' False d'"
    by (auto split: prod.splits)
  have "(n, Pass d) # rs = ((n, Pass d) # pre) @ (n', Fail d' reason detail) # post"
    using IH(1) by simp
  moreover have "list_all (\<lambda>(n, v). verdict_passes v) ((n, Pass d) # pre)" using IH(2) by simp
  ultimately show ?case using IH(3-5)
    by (intro exI [of _ n'] exI [of _ d'] exI [of _ "(n, Pass d) # pre"] exI [of _ post])
      (auto simp: rule_step_def split: prod.splits)
next
  case (3 n d r rd rs)
  then have "(n, Fail d r rd) # rs = [] @ (n, Fail d reason detail) # rs" by simp
  then show ?case by (intro exI [of _ n] exI [of _ d] exI [of _ "[]"] exI [of _ rs]) simp
qed simp

section \<open>Checks with labels\<close>

text \<open>
  The policy engine and the aggregator share another pattern: guards in a fixed order, each of which
  either rejects at once or appends its label (if it has one) to \<open>passed\<close>.
\<close>

datatype 'r check = Guard (guard_reject: "'r option") (guard_label: "string option")

fun run_checks :: "string list \<Rightarrow> 'r check list \<Rightarrow> string list \<times> 'r option" where
  "run_checks passed [] = (passed, None)"
| "run_checks passed (Guard (Some r) l # cs) = (passed, Some r)"
| "run_checks passed (Guard None l # cs) =
     run_checks (passed @ (case l of None \<Rightarrow> [] | Some s \<Rightarrow> [s])) cs"

lemma run_checks_None: "snd (run_checks passed cs) = None \<longleftrightarrow> list_all (\<lambda>c. guard_reject c = None) cs"
  by (induction passed cs rule: run_checks.induct) auto

lemma run_checks_Some: "snd (run_checks passed cs) = Some r \<Longrightarrow> \<exists>c \<in> set cs. guard_reject c = Some r"
  by (induction passed cs rule: run_checks.induct) auto

definition reject_if :: "bool \<Rightarrow> 'r \<Rightarrow> 'r option" where
  "reject_if b r = (if b then Some r else None)"

lemma reject_if_simps [simp]: "reject_if b r = None \<longleftrightarrow> \<not> b" "reject_if b r = Some q \<longleftrightarrow> b \<and> q = r"
  by (auto simp: reject_if_def)

end
