(* ===== verification/Mandate.thy ===== *)
theory Mandate
  imports Rule_Chain Cart Contracts
begin

text \<open>
  Buyer mandates: the contract of \<open>apps/api/domain/mandate.py\<close>, the intents of
  \<open>apps/api/domain/intent.py\<close>, and the life cycle and the evaluator of
  \<open>apps/api/domain/mandate_lifecycle.py\<close>. Every rule of \<open>MandateEvaluator.evaluate\<close> is one definition,
  \<open>evaluate_mandate\<close> runs them in the source's order. Scopes are sets, as the source's frozensets.
\<close>

section \<open>The contract\<close>

record BuyerMandate =
  bm_mandate_id :: string
  bm_buyer_id :: string
  bm_version :: int
  bm_merchant_scope :: "string set"
  bm_category_scope :: "string set"
  bm_allowed_regions :: "Region set"
  bm_maximum_amount_paise :: int
  bm_daily_budget_paise :: int
  bm_currency :: Currency
  bm_autonomous_execution :: bool
  bm_issued_at :: datetime
  bm_expires_at :: datetime
  bm_status :: MandateStatus

definition normalize_category :: "string \<Rightarrow> string" where
  "normalize_category c = lower (strip c)"

definition mk_mandate ::
  "string \<Rightarrow> string \<Rightarrow> int \<Rightarrow> string set \<Rightarrow> string set \<Rightarrow> Region set \<Rightarrow> int \<Rightarrow> int \<Rightarrow> Currency \<Rightarrow> bool \<Rightarrow>
   datetime \<Rightarrow> datetime \<Rightarrow> MandateStatus \<Rightarrow> BuyerMandate res" where
  \<comment> \<open>the constructor: \<open>strip_buyer_id\<close> and \<open>normalize_categories\<close>, the field constraints, then
      \<open>_validate_expiry\<close>\<close>
  "mk_mandate mid buyer version merchants cats regions cap daily cur auto issued expires st =
     (if strip buyer = [] then Inl (Raise ValueError (Msg ''buyer_id: min_length 1'' []))
      else if version < 1 then Inl (Raise ValueError (Msg ''version: ge 1'' []))
      else if cap < 0 then Inl (Raise ValueError (Msg ''maximum_amount_paise: ge 0'' []))
      else if daily < 0 then Inl (Raise ValueError (Msg ''daily_budget_paise: ge 0'' []))
      else if expires \<le> issued then
        Inl (Raise ValueError (Msg ''expires_at ({}) must be after issued_at ({}).''
          [PTime expires, PTime issued]))
      else if daily < cap then
        Inl (Raise ValueError (Msg ''daily_budget_paise ({}) must be >= maximum_amount_paise ({}).''
          [PInt daily, PInt cap]))
      else Inr \<lparr>bm_mandate_id = mid, bm_buyer_id = strip buyer, bm_version = version,
                bm_merchant_scope = merchants, bm_category_scope = normalize_category ` cats,
                bm_allowed_regions = regions, bm_maximum_amount_paise = cap,
                bm_daily_budget_paise = daily, bm_currency = cur, bm_autonomous_execution = auto,
                bm_issued_at = issued, bm_expires_at = expires, bm_status = st\<rparr>)"

definition mandate_is_active :: "BuyerMandate \<Rightarrow> datetime option \<Rightarrow> datetime \<Rightarrow> bool" where
  "mandate_is_active m at now = (bm_status m = MandateStatus.ACTIVE \<and> resolve_at at now < bm_expires_at m)"

definition authorizes_merchant :: "BuyerMandate \<Rightarrow> string \<Rightarrow> bool" where
  "authorizes_merchant m mid = (mid \<in> bm_merchant_scope m)"

definition authorizes_category :: "BuyerMandate \<Rightarrow> string \<Rightarrow> bool" where
  "authorizes_category m cat = (lower (strip cat) \<in> bm_category_scope m)"

definition authorizes_amount :: "BuyerMandate \<Rightarrow> int \<Rightarrow> bool" where
  "authorizes_amount m p = (p \<le> bm_maximum_amount_paise m)"

definition authorizes_region :: "BuyerMandate \<Rightarrow> Region \<Rightarrow> bool" where
  "authorizes_region m r = (r \<in> bm_allowed_regions m)"

record CommerceIntent =
  int_intent_id :: string
  int_buyer_id :: string
  int_raw_prompt :: string
  int_target_category :: "string option"
  int_target_merchant_id :: "string option"
  int_max_budget_paise :: "int option"
  int_currency :: Currency
  int_region :: Region
  int_metadata :: "string \<rightharpoonup> json"
  int_created_at :: datetime

definition given :: "string option \<Rightarrow> string option" where
  \<comment> \<open>an optional string, as its truth value reads it: the empty string counts as absent\<close>
  "given s = (case s of None \<Rightarrow> None | Some t \<Rightarrow> if t = [] then None else Some t)"

definition eval_amount :: "Cart option \<Rightarrow> CommerceIntent \<Rightarrow> int" where
  \<comment> \<open>\<open>cart.total_paise if cart else (intent.max_budget_paise or 0)\<close>\<close>
  "eval_amount cart i = (case cart of Some c \<Rightarrow> cart_total_paise c
     | None \<Rightarrow> (case int_max_budget_paise i of Some p \<Rightarrow> p | None \<Rightarrow> 0))"

section \<open>The life cycle\<close>

fun mandate_legal_transitions :: "MandateStatus \<Rightarrow> MandateStatus set" where
  "mandate_legal_transitions MandateStatus.DRAFT = {MandateStatus.ACTIVE}"
| "mandate_legal_transitions MandateStatus.ACTIVE = {SUSPENDED, REVOKED, MandateStatus.EXPIRED}"
| "mandate_legal_transitions SUSPENDED = {MandateStatus.ACTIVE, REVOKED, MandateStatus.EXPIRED}"
| "mandate_legal_transitions REVOKED = {}"
| "mandate_legal_transitions MandateStatus.EXPIRED = {}"

definition state_transition_error :: "MandateStatus \<Rightarrow> MandateStatus \<Rightarrow> py_exc" where
  "state_transition_error cur target =
     Raise (SourceError ''MandateStateTransitionError'' ''MANDATE_ILLEGAL_TRANSITION'')
       (Msg ''Illegal mandate state transition: {} -> {}. Terminal or invalid state path.''
         [PStr (mandate_status_value cur), PStr (mandate_status_value target)])"

definition transition_mandate :: "BuyerMandate \<Rightarrow> MandateStatus \<Rightarrow> BuyerMandate res" where
  "transition_mandate m target =
     (if target \<notin> mandate_legal_transitions (bm_status m)
      then Inl (state_transition_error (bm_status m) target)
      else Inr (m\<lparr>bm_status := target\<rparr>))"

definition activate_mandate :: "BuyerMandate \<Rightarrow> BuyerMandate res" where
  "activate_mandate m = transition_mandate m MandateStatus.ACTIVE"

definition suspend_mandate :: "BuyerMandate \<Rightarrow> BuyerMandate res" where
  "suspend_mandate m = transition_mandate m SUSPENDED"

definition resume_mandate :: "BuyerMandate \<Rightarrow> BuyerMandate res" where
  "resume_mandate m = transition_mandate m MandateStatus.ACTIVE"

definition revoke_mandate :: "BuyerMandate \<Rightarrow> BuyerMandate res" where
  "revoke_mandate m = transition_mandate m REVOKED"

definition expire_mandate :: "BuyerMandate \<Rightarrow> BuyerMandate res" where
  "expire_mandate m = transition_mandate m MandateStatus.EXPIRED"

section \<open>The rules\<close>

definition mandate_rule_status :: "BuyerMandate \<Rightarrow> verdict" where
  "mandate_rule_status m =
     (if bm_status m = SUSPENDED then
        Fail (Msg ''Mandate is currently SUSPENDED.'' []) MANDATE_NOT_ACTIVE
          (Msg ''Mandate '{}' is suspended.'' [PStr (bm_mandate_id m)])
      else if bm_status m = REVOKED then
        Fail (Msg ''Mandate has been REVOKED.'' []) MANDATE_REVOKED
          (Msg ''Mandate '{}' has been permanently revoked.'' [PStr (bm_mandate_id m)])
      else if bm_status m = MandateStatus.EXPIRED then
        Fail (Msg ''Mandate has EXPIRED.'' []) MANDATE_EXPIRED
          (Msg ''Mandate '{}' is marked expired.'' [PStr (bm_mandate_id m)])
      else if bm_status m \<noteq> MandateStatus.ACTIVE then
        Fail (Msg ''Mandate status '{}' is not ACTIVE.'' [PStr (mandate_status_value (bm_status m))])
          MANDATE_NOT_ACTIVE
          (Msg ''Mandate '{}' is in status '{}'.''
            [PStr (bm_mandate_id m), PStr (mandate_status_value (bm_status m))])
      else Pass (Msg ''Mandate status is ACTIVE.'' []))"

definition mandate_rule_autonomous :: "BuyerMandate \<Rightarrow> verdict" where
  "mandate_rule_autonomous m =
     (if \<not> bm_autonomous_execution m then
        Fail (Msg ''Autonomous execution is disabled on this mandate.'' []) AUTONOMOUS_EXECUTION_DISABLED
          (Msg ''Mandate '{}' has autonomous execution disabled.'' [PStr (bm_mandate_id m)])
      else Pass (Msg ''Autonomous execution is enabled.'' []))"

definition mandate_rule_window :: "BuyerMandate \<Rightarrow> datetime \<Rightarrow> verdict" where
  "mandate_rule_window m t =
     (if t < bm_issued_at m then
        Fail (Msg ''Evaluation time ({}) is before mandate issued_at ({}).''
            [PTime t, PTime (bm_issued_at m)]) MANDATE_TTL_EXPIRED
          (Msg ''Mandate '{}' is not yet effective.'' [PStr (bm_mandate_id m)])
      else if t \<ge> bm_expires_at m then
        Fail (Msg ''Evaluation time ({}) is at or after mandate expires_at ({}).''
            [PTime t, PTime (bm_expires_at m)]) MANDATE_EXPIRED
          (Msg ''Mandate '{}' expired at {}.'' [PStr (bm_mandate_id m), PTime (bm_expires_at m)])
      else Pass (Msg ''Mandate is within valid time window.'' []))"

definition mandate_rule_buyer :: "BuyerMandate \<Rightarrow> CommerceIntent \<Rightarrow> verdict" where
  "mandate_rule_buyer m i =
     (if int_buyer_id i \<noteq> bm_buyer_id m then
        Fail (Msg ''Intent buyer_id '{}' does not match mandate buyer_id '{}'.''
            [PStr (int_buyer_id i), PStr (bm_buyer_id m)]) MANDATE_NOT_IN_SCOPE
          (Msg ''Intent buyer '{}' does not own mandate '{}'.''
            [PStr (int_buyer_id i), PStr (bm_mandate_id m)])
      else Pass (Msg ''Buyer identity '{}' verified.'' [PStr (bm_buyer_id m)]))"

definition mandate_rule_merchant :: "BuyerMandate \<Rightarrow> CommerceIntent \<Rightarrow> Cart option \<Rightarrow> verdict" where
  "mandate_rule_merchant m i cart =
     (let ok = Pass (Msg ''Merchant scope satisfied.'' []);
          check_cart = (case cart of None \<Rightarrow> ok | Some c \<Rightarrow>
            if \<not> authorizes_merchant m (cart_merchant_id c) then
              Fail (Msg ''Cart merchant '{}' is not in mandate merchant_scope.'' [PStr (cart_merchant_id c)])
                MERCHANT_NOT_IN_SCOPE
                (Msg ''Cart merchant '{}' is outside mandate scope.'' [PStr (cart_merchant_id c)])
            else ok)
      in if bm_merchant_scope m \<noteq> {} then
           (case given (int_target_merchant_id i) of
              None \<Rightarrow> check_cart
            | Some target \<Rightarrow>
                if \<not> authorizes_merchant m target then
                  Fail (Msg ''Target merchant '{}' is not in mandate merchant_scope.'' [PStr target])
                    MERCHANT_NOT_IN_SCOPE
                    (Msg ''Merchant '{}' is outside mandate scope.'' [PStr target])
                else check_cart)
         else ok)"

definition mandate_rule_currency :: "BuyerMandate \<Rightarrow> CommerceIntent \<Rightarrow> verdict" where
  "mandate_rule_currency m i =
     (if int_currency i \<noteq> bm_currency m then
        Fail (Msg ''Intent currency '{}' does not match mandate currency '{}'.''
            [PStr (currency_value (int_currency i)), PStr (currency_value (bm_currency m))])
          CURRENCY_MISMATCH
          (Msg ''Currency '{}' conflicts with mandate currency '{}'.''
            [PStr (currency_value (int_currency i)), PStr (currency_value (bm_currency m))])
      else Pass (Msg ''Currency '{}' matches mandate.'' [PStr (currency_value (int_currency i))]))"

definition mandate_rule_region :: "BuyerMandate \<Rightarrow> CommerceIntent \<Rightarrow> verdict" where
  "mandate_rule_region m i =
     (if bm_allowed_regions m \<noteq> {} \<and> \<not> authorizes_region m (int_region i) then
        Fail (Msg ''Intent region '{}' is not in mandate allowed_regions.'' [PStr (region_value (int_region i))])
          REGION_NOT_ALLOWED
          (Msg ''Region '{}' is outside mandate region scope.'' [PStr (region_value (int_region i))])
      else Pass (Msg ''Region '{}' is authorized.'' [PStr (region_value (int_region i))]))"

fun mandate_item_categories :: "BuyerMandate \<Rightarrow> CartItem list \<Rightarrow> verdict option" where
  \<comment> \<open>the loop over \<open>cart.items\<close>: the rejection of the first item outside the scope\<close>
  "mandate_item_categories m [] = None"
| "mandate_item_categories m (item # items) =
     (if \<not> authorizes_category m (ci_category item) then
        Some (Fail (Msg ''Cart item '{}' category '{}' is not in mandate scope.''
                [PStr (ci_product_id item), PStr (ci_category item)]) CATEGORY_NOT_IN_SCOPE
              (Msg ''Cart item category '{}' is outside mandate scope.'' [PStr (ci_category item)]))
      else mandate_item_categories m items)"

definition multi_category :: string where
  "multi_category = ''multi-category''"

definition mandate_rule_category :: "BuyerMandate \<Rightarrow> CommerceIntent \<Rightarrow> Cart option \<Rightarrow> verdict" where
  "mandate_rule_category m i cart =
     (let ok = Pass (Msg ''Category scope satisfied.'' []);
          check_cart = (case cart of None \<Rightarrow> ok
            | Some c \<Rightarrow> option_or (mandate_item_categories m (cart_items c)) ok)
      in if bm_category_scope m \<noteq> {} then
           (case given (int_target_category i) of
              None \<Rightarrow> check_cart
            | Some cat \<Rightarrow>
                if lower cat \<noteq> multi_category \<and> \<not> authorizes_category m cat then
                  Fail (Msg ''Category '{}' is not in mandate category_scope.'' [PStr cat])
                    CATEGORY_NOT_IN_SCOPE
                    (Msg ''Category '{}' is outside mandate category scope.'' [PStr cat])
                else check_cart)
         else ok)"

definition mandate_rule_amount :: "BuyerMandate \<Rightarrow> int \<Rightarrow> verdict" where
  "mandate_rule_amount m p =
     (if \<not> authorizes_amount m p then
        Fail (Msg ''Amount ({} paise) exceeds mandate maximum_amount_paise of {} paise.''
            [PInt p, PInt (bm_maximum_amount_paise m)]) AMOUNT_EXCEEDS_MANDATE
          (Msg ''Requested amount ({} paise) exceeds mandate limit of {} paise.''
            [PInt p, PInt (bm_maximum_amount_paise m)])
      else Pass (Msg ''Amount ({} paise) is within mandate cap.'' [PInt p]))"

section \<open>The evaluator\<close>

record MandateEvaluationResult =
  mer_valid :: bool
  mer_mandate_id :: string
  mer_buyer_id :: string
  mer_status :: MandateStatus
  mer_rejection_reason :: "RejectionReason option"
  mer_rejection_detail :: "msg option"
  mer_evaluated_rules :: "RuleStep list"
  mer_evaluated_at :: datetime

definition mandate_rules ::
  "BuyerMandate \<Rightarrow> CommerceIntent \<Rightarrow> Cart option \<Rightarrow> datetime \<Rightarrow> (string \<times> verdict) list" where
  "mandate_rules m i cart t =
     [(''mandate_status'', mandate_rule_status m),
      (''autonomous_execution'', mandate_rule_autonomous m),
      (''validity_window'', mandate_rule_window m t),
      (''buyer_binding'', mandate_rule_buyer m i),
      (''merchant_scope'', mandate_rule_merchant m i cart),
      (''currency_allowed'', mandate_rule_currency m i),
      (''region_allowed'', mandate_rule_region m i),
      (''category_scope'', mandate_rule_category m i cart),
      (''amount_within_mandate_cap'', mandate_rule_amount m (eval_amount cart i))]"

definition evaluate_mandate ::
  "BuyerMandate \<Rightarrow> CommerceIntent \<Rightarrow> Cart option \<Rightarrow> datetime option \<Rightarrow> datetime \<Rightarrow>
   MandateEvaluationResult" where
  "evaluate_mandate m i cart at now =
     (let t = resolve_at at now in
      case run_rules (mandate_rules m i cart t) of (steps, out) \<Rightarrow>
        \<lparr>mer_valid = (out = None), mer_mandate_id = bm_mandate_id m, mer_buyer_id = bm_buyer_id m,
         mer_status = bm_status m, mer_rejection_reason = map_option fst out,
         mer_rejection_detail = map_option snd out, mer_evaluated_rules = steps,
         mer_evaluated_at = t\<rparr>)"

section \<open>What the evaluator decides\<close>

definition mandate_permits :: "BuyerMandate \<Rightarrow> CommerceIntent \<Rightarrow> Cart option \<Rightarrow> datetime \<Rightarrow> bool" where
  \<comment> \<open>the nine rules of the documentation as one condition\<close>
  "mandate_permits m i cart t \<longleftrightarrow>
     bm_status m = MandateStatus.ACTIVE \<and> bm_autonomous_execution m \<and>
     bm_issued_at m \<le> t \<and> t < bm_expires_at m \<and> int_buyer_id i = bm_buyer_id m \<and>
     (bm_merchant_scope m = {} \<or>
        (set_option (given (int_target_merchant_id i)) \<union> cart_merchant_id ` set_option cart
           \<subseteq> bm_merchant_scope m)) \<and>
     int_currency i = bm_currency m \<and>
     (bm_allowed_regions m = {} \<or> int_region i \<in> bm_allowed_regions m) \<and>
     (bm_category_scope m = {} \<or>
        (normalize_category ` ({c \<in> set_option (given (int_target_category i)). lower c \<noteq> multi_category} \<union>
           (\<Union>c \<in> set_option cart. ci_category ` set (cart_items c))) \<subseteq> bm_category_scope m)) \<and>
     eval_amount cart i \<le> bm_maximum_amount_paise m"

lemma mandate_item_categories_None:
  "mandate_item_categories m items = None \<longleftrightarrow>
     (\<forall>item \<in> set items. normalize_category (ci_category item) \<in> bm_category_scope m)"
  by (induction items) (auto simp: authorizes_category_def normalize_category_def)

lemma mandate_item_categories_Some: "mandate_item_categories m items = Some v \<Longrightarrow> \<not> verdict_passes v"
  by (induction items) (auto split: if_splits)

lemma mandate_items_pass [simp]:
  "verdict_passes (option_or (mandate_item_categories m items) (Pass d)) \<longleftrightarrow>
     (\<forall>item \<in> set items. normalize_category (ci_category item) \<in> bm_category_scope m)"
  using mandate_item_categories_None [of m items] mandate_item_categories_Some [of m items]
  by (cases "mandate_item_categories m items") auto

lemma mandate_rules_pass:
  "verdict_passes (mandate_rule_status m) \<longleftrightarrow> bm_status m = MandateStatus.ACTIVE"
  "verdict_passes (mandate_rule_autonomous m) \<longleftrightarrow> bm_autonomous_execution m"
  "verdict_passes (mandate_rule_window m t) \<longleftrightarrow> bm_issued_at m \<le> t \<and> t < bm_expires_at m"
  "verdict_passes (mandate_rule_buyer m i) \<longleftrightarrow> int_buyer_id i = bm_buyer_id m"
  "verdict_passes (mandate_rule_currency m i) \<longleftrightarrow> int_currency i = bm_currency m"
  "verdict_passes (mandate_rule_region m i) \<longleftrightarrow>
     bm_allowed_regions m = {} \<or> int_region i \<in> bm_allowed_regions m"
  "verdict_passes (mandate_rule_amount m p) \<longleftrightarrow> p \<le> bm_maximum_amount_paise m"
  by (auto simp: mandate_rule_status_def mandate_rule_autonomous_def mandate_rule_window_def
      mandate_rule_buyer_def mandate_rule_currency_def mandate_rule_region_def
      mandate_rule_amount_def authorizes_region_def authorizes_amount_def)

lemma mandate_rule_merchant_pass:
  "verdict_passes (mandate_rule_merchant m i cart) \<longleftrightarrow> bm_merchant_scope m = {} \<or>
     (set_option (given (int_target_merchant_id i)) \<union> cart_merchant_id ` set_option cart
        \<subseteq> bm_merchant_scope m)"
  by (auto simp: mandate_rule_merchant_def Let_def authorizes_merchant_def split: option.splits)

lemma mandate_rule_category_pass:
  "verdict_passes (mandate_rule_category m i cart) \<longleftrightarrow> bm_category_scope m = {} \<or>
     (normalize_category ` ({c \<in> set_option (given (int_target_category i)). lower c \<noteq> multi_category} \<union>
        (\<Union>c \<in> set_option cart. ci_category ` set (cart_items c))) \<subseteq> bm_category_scope m)"
  by (cases "given (int_target_category i)"; cases cart)
    (auto simp: mandate_rule_category_def Let_def authorizes_category_def normalize_category_def)

lemma evaluate_mandate_valid:
  "mer_valid (evaluate_mandate m i cart at now) \<longleftrightarrow> mandate_permits m i cart (resolve_at at now)"
proof -
  have "mer_valid (evaluate_mandate m i cart at now) \<longleftrightarrow>
      snd (run_rules (mandate_rules m i cart (resolve_at at now))) = None"
    by (simp add: evaluate_mandate_def Let_def split: prod.splits)
  then show ?thesis
    by (simp add: run_rules_None mandate_rules_def mandate_rules_pass mandate_rule_merchant_pass
        mandate_rule_category_pass mandate_permits_def)
qed

section \<open>The life cycle as a machine\<close>

datatype mandate_op = Activate | Suspend | Resume | Revoke | Expire

fun mandate_call :: "mandate_op \<Rightarrow> BuyerMandate \<Rightarrow> BuyerMandate res" where
  "mandate_call Activate = activate_mandate"
| "mandate_call Suspend = suspend_mandate"
| "mandate_call Resume = resume_mandate"
| "mandate_call Revoke = revoke_mandate"
| "mandate_call Expire = expire_mandate"

definition mandate_step :: "BuyerMandate \<Rightarrow> mandate_op \<Rightarrow> BuyerMandate res \<times> BuyerMandate" where
  \<comment> \<open>a call that raises leaves the holder with the mandate it had\<close>
  "mandate_step m x = (let r = mandate_call x m in (r, case r of Inl _ \<Rightarrow> m | Inr m' \<Rightarrow> m'))"

definition same_terms :: "BuyerMandate \<Rightarrow> BuyerMandate \<Rightarrow> bool" where
  \<comment> \<open>all but the status\<close>
  "same_terms m0 m \<longleftrightarrow> m = m0\<lparr>bm_status := bm_status m\<rparr>"

definition closed_mandate :: "BuyerMandate \<Rightarrow> BuyerMandate \<Rightarrow> bool" where
  "closed_mandate m0 m \<longleftrightarrow> m = m0 \<and> mandate_is_terminal (bm_status m0)"

lemmas mandate_call_defs = activate_mandate_def suspend_mandate_def resume_mandate_def
  revoke_mandate_def expire_mandate_def transition_mandate_def

lemma mandate_step_cases:
  "snd (mandate_step m x) = m \<or>
     (\<exists>st. st \<in> mandate_legal_transitions (bm_status m) \<and> snd (mandate_step m x) = m\<lparr>bm_status := st\<rparr>)"
  by (cases x) (auto simp: mandate_step_def mandate_call_defs Let_def)

interpretation mandate_terms: machine mandate_step "\<lambda>_ _. True" "same_terms m0" for m0
proof unfold_locales
  fix m x
  assume "same_terms m0 m"
  then show "same_terms m0 (snd (mandate_step m x))"
    using mandate_step_cases [of m x] unfolding same_terms_def
    by (metis BuyerMandate.surjective BuyerMandate.update_convs(13) BuyerMandate.select_convs(13))
qed

interpretation mandate_final: machine mandate_step "\<lambda>_ _. True" "closed_mandate m0" for m0
proof unfold_locales
  fix m x
  assume "closed_mandate m0 m"
  then show "closed_mandate m0 (snd (mandate_step m x))"
    using mandate_step_cases [of m x] by (auto simp: closed_mandate_def mandate_is_terminal_def)
qed

section \<open>Properties\<close>

text \<open>The evaluator of a mandate is valid exactly when the intent and the cart are within its
  status, its window, its buyer, its scopes, its currency and its amount; an invalid result always
  carries its reason, a valid one never does.\<close>

theorem mandate_evaluation_exact:
  "(mer_valid (evaluate_mandate m i cart at now) \<longleftrightarrow> mandate_permits m i cart (resolve_at at now))
   \<and> (mer_rejection_reason (evaluate_mandate m i cart at now) = None \<longleftrightarrow>
        mer_valid (evaluate_mandate m i cart at now))"
  using evaluate_mandate_valid [of m i cart at now]
  by (simp add: evaluate_mandate_def Let_def split: prod.splits)

text \<open>The audit trace of an evaluation names the nine rules in their order up to where the
  evaluation stopped: all of them passed when it is valid, and otherwise all but the last, which failed.\<close>

theorem mandate_trace_exact:
  "let r = evaluate_mandate m i cart at now; steps = mer_evaluated_rules r;
       names = [''mandate_status'', ''autonomous_execution'', ''validity_window'', ''buyer_binding'',
         ''merchant_scope'', ''currency_allowed'', ''region_allowed'', ''category_scope'',
         ''amount_within_mandate_cap'']
   in map rs_rule_name steps = take (length steps) names \<and>
      (if mer_valid r then length steps = 9 \<and> list_all rs_passed steps
       else steps \<noteq> [] \<and> list_all rs_passed (butlast steps) \<and> \<not> rs_passed (last steps))"
proof -
  define rs where "rs = mandate_rules m i cart (resolve_at at now)"
  obtain steps out where so: "run_rules rs = (steps, out)" by (cases "run_rules rs")
  obtain rest where pre: "map fst rs = map rs_rule_name steps @ rest"
    using run_rules_trace [of rs] so by auto
  have r: "mer_evaluated_rules (evaluate_mandate m i cart at now) = steps"
    "mer_valid (evaluate_mandate m i cart at now) \<longleftrightarrow> out = None"
    by (simp_all add: evaluate_mandate_def Let_def rs_def [symmetric] so)
  have names: "map fst rs = [''mandate_status'', ''autonomous_execution'', ''validity_window'', ''buyer_binding'',
         ''merchant_scope'', ''currency_allowed'', ''region_allowed'', ''category_scope'',
         ''amount_within_mandate_cap'']"
    by (simp add: rs_def mandate_rules_def)
  have "map rs_rule_name steps = take (length steps) (map fst rs)"
    unfolding pre by simp
  moreover have "length steps = 9 \<and> list_all rs_passed steps" if "out = None"
  proof -
    have "list_all rs_passed steps" "map rs_rule_name steps = map fst rs"
      using run_rules_passed [of rs] so that by simp_all
    moreover from this(2) have "length steps = length (map fst rs)" by (metis length_map)
    ultimately show ?thesis unfolding names by simp
  qed
  moreover have "steps \<noteq> [] \<and> list_all rs_passed (butlast steps) \<and> \<not> rs_passed (last steps)"
    if "out = Some e" for e
    using run_rules_failed [of rs "fst e" "snd e"] so that by (auto simp: rule_step_def)
  ultimately show ?thesis unfolding Let_def r names by (cases out) auto
qed

text \<open>A revoked or expired mandate is final: no sequence of life-cycle calls changes it in any
  way, so no later evaluation against it is valid.\<close>

theorem terminal_mandate_is_final:
  assumes "mandate_is_terminal (bm_status m)"
  shows "snd (run_ops mandate_step m ops) = m \<and>
    \<not> mer_valid (evaluate_mandate (snd (run_ops mandate_step m ops)) i cart at now)"
proof -
  have "closed_mandate m (snd (run_ops mandate_step m ops))"
    using assms by (intro mandate_final.inv_run) (simp_all add: closed_mandate_def)
  then show ?thesis using assms
    by (auto simp: closed_mandate_def evaluate_mandate_valid mandate_permits_def mandate_is_terminal_def)
qed

definition sample_mandate :: "MandateStatus \<Rightarrow> BuyerMandate" where
  "sample_mandate st = \<lparr>bm_mandate_id = ''m'', bm_buyer_id = ''b'', bm_version = 1,
     bm_merchant_scope = {''s''}, bm_category_scope = {''books''}, bm_allowed_regions = {IN},
     bm_maximum_amount_paise = 500, bm_daily_budget_paise = 1000, bm_currency = INR,
     bm_autonomous_execution = True, bm_issued_at = 0, bm_expires_at = 100, bm_status = st\<rparr>"

definition sample_intent :: CommerceIntent where
  "sample_intent = \<lparr>int_intent_id = ''i'', int_buyer_id = ''b'', int_raw_prompt = ''buy'',
     int_target_category = None, int_target_merchant_id = None, int_max_budget_paise = None,
     int_currency = INR, int_region = IN, int_metadata = Map.empty, int_created_at = 0\<rparr>"

theorem terminal_mandate_is_final_witness:
  "\<not> mer_valid (evaluate_mandate (snd (run_ops mandate_step (sample_mandate REVOKED) [Resume, Activate]))
      sample_intent None (Some 1) 0)"
proof -
  have "mandate_is_terminal (bm_status (sample_mandate REVOKED))"
    by (simp add: sample_mandate_def mandate_is_terminal_def)
  from terminal_mandate_is_final [OF this] show ?thesis by blast
qed

text \<open>Life-cycle calls never change the terms of a mandate: after any sequence of them the limits,
  the scopes, the buyer and the window are those it was created with.\<close>

theorem mandate_terms_immutable:
  "snd (run_ops mandate_step m ops) = m\<lparr>bm_status := bm_status (snd (run_ops mandate_step m ops))\<rparr>"
proof -
  have "same_terms m (snd (run_ops mandate_step m ops))"
    by (rule mandate_terms.inv_run) (simp_all add: same_terms_def)
  then show ?thesis by (simp add: same_terms_def)
qed

end
