(* ===== verification/Merchant_Policy.thy ===== *)
theory Merchant_Policy
  imports Mandate
begin

text \<open>
  Merchants and their AI commerce policies: \<open>apps/api/domain/merchant.py\<close> and the evaluator of
  \<open>apps/api/domain/merchant_policy_engine.py\<close>, with the policy table it reads
  (\<open>db/repository/merchant_repository.py\<close>, \<open>db/models/policy.py\<close>). The columns that hold JSON lists
  of strings are written and read only through \<open>json.dumps\<close> and \<open>json.loads\<close>, and appear here as the
  lists. When two active policies share their \<open>effective_at\<close> the query leaves the choice open; here
  it is the first stored.
\<close>

section \<open>Contracts\<close>

record Merchant =
  mch_merchant_id :: string
  mch_name :: string
  mch_razorpay_account_id :: string
  mch_created_at :: datetime

definition mk_merchant :: "string \<Rightarrow> string \<Rightarrow> string \<Rightarrow> datetime \<Rightarrow> Merchant res" where
  "mk_merchant mid name account created =
     (let n = strip name; a = strip account in
      if n = [] then Inl (Raise ValueError (Msg ''name: min_length 1'' []))
      else if length n > 255 then Inl (Raise ValueError (Msg ''name: max_length 255'' []))
      else if a = [] then Inl (Raise ValueError (Msg ''razorpay_account_id: min_length 1'' []))
      else if length a > 255 then Inl (Raise ValueError (Msg ''razorpay_account_id: max_length 255'' []))
      else Inr \<lparr>mch_merchant_id = strip mid, mch_name = n, mch_razorpay_account_id = a,
                mch_created_at = created\<rparr>)"

record MerchantPolicy =
  mp_policy_id :: string
  mp_merchant_id :: string
  mp_policy_version :: int
  mp_ai_commerce_enabled :: bool
  mp_currency :: Currency
  mp_allowed_categories :: "string set"
  mp_autonomous_purchase_limit_paise :: int
  mp_step_up_threshold_paise :: int
  mp_max_step_up_percent :: int
  mp_allowed_regions :: "Region set"
  mp_allowed_operations :: "McpOperation set"
  mp_blocked_operations :: "McpOperation set"
  mp_created_at :: datetime
  mp_expires_at :: "datetime option"

definition check_policy :: "MerchantPolicy \<Rightarrow> MerchantPolicy res" where
  \<comment> \<open>the field constraints and \<open>_validate_thresholds\<close>, on the fields of the constructor's call\<close>
  "check_policy p =
     (if mp_merchant_id p = [] then Inl (Raise ValueError (Msg ''merchant_id: min_length 1'' []))
      else if mp_policy_version p < 1 then Inl (Raise ValueError (Msg ''policy_version: ge 1'' []))
      else if mp_autonomous_purchase_limit_paise p < 0 then
        Inl (Raise ValueError (Msg ''autonomous_purchase_limit_paise: ge 0'' []))
      else if mp_step_up_threshold_paise p < 0 then
        Inl (Raise ValueError (Msg ''step_up_threshold_paise: ge 0'' []))
      else if mp_max_step_up_percent p < 0 \<or> mp_max_step_up_percent p > 100 then
        Inl (Raise ValueError (Msg ''max_step_up_percent: ge 0, le 100'' []))
      else if mp_step_up_threshold_paise p > mp_autonomous_purchase_limit_paise p then
        Inl (Raise ValueError
          (Msg ''step_up_threshold_paise ({}) must be <= autonomous_purchase_limit_paise ({}).''
            [PInt (mp_step_up_threshold_paise p), PInt (mp_autonomous_purchase_limit_paise p)]))
      else if mp_allowed_operations p \<inter> mp_blocked_operations p \<noteq> {} then
        Inl (Raise ValueError (Msg ''Operations appear in both allowed and blocked sets'' []))
      else Inr p)"

definition is_operation_allowed :: "MerchantPolicy \<Rightarrow> McpOperation \<Rightarrow> bool" where
  "is_operation_allowed p op =
     (if \<not> mp_ai_commerce_enabled p then False
      else if op \<in> mp_blocked_operations p then False
      else op \<in> mp_allowed_operations p)"

definition is_category_allowed :: "MerchantPolicy \<Rightarrow> string \<Rightarrow> bool" where
  "is_category_allowed p cat = (lower cat \<in> lower ` mp_allowed_categories p)"

definition is_region_allowed :: "MerchantPolicy \<Rightarrow> Region \<Rightarrow> bool" where
  "is_region_allowed p r = (r \<in> mp_allowed_regions p)"

definition policy_is_active :: "MerchantPolicy \<Rightarrow> datetime option \<Rightarrow> datetime \<Rightarrow> bool" where
  "policy_is_active p at now =
     (case mp_expires_at p of None \<Rightarrow> True | Some e \<Rightarrow> resolve_at at now < e)"

section \<open>The rules\<close>

definition policy_rule_active :: "MerchantPolicy \<Rightarrow> datetime \<Rightarrow> verdict" where
  "policy_rule_active p t =
     (if \<not> policy_is_active p (Some t) t then
        Fail (Msg ''Policy version {} is expired or inactive.'' [PInt (mp_policy_version p)])
          MERCHANT_POLICY_EXPIRED
          (Msg ''Merchant policy {} v{} is expired.'' [PStr (mp_policy_id p), PInt (mp_policy_version p)])
      else Pass (Msg ''Policy v{} is active.'' [PInt (mp_policy_version p)]))"

definition policy_rule_ai_commerce :: "MerchantPolicy \<Rightarrow> verdict" where
  "policy_rule_ai_commerce p =
     (if \<not> mp_ai_commerce_enabled p then
        Fail (Msg ''AI commerce is disabled for this merchant.'' []) AI_COMMERCE_DISABLED
          (Msg ''Merchant policy has disabled AI commerce purchases.'' [])
      else Pass (Msg ''AI commerce is enabled.'' []))"

definition policy_rule_binding :: "MerchantPolicy \<Rightarrow> CommerceIntent \<Rightarrow> Cart option \<Rightarrow> verdict" where
  "policy_rule_binding p i cart =
     (let ok = Pass (Msg ''Merchant identity '{}' verified.'' [PStr (mp_merchant_id p)]);
          check_cart = (case cart of None \<Rightarrow> ok | Some c \<Rightarrow>
            if cart_merchant_id c \<noteq> mp_merchant_id p then
              Fail (Msg ''Cart merchant '{}' does not match policy merchant '{}'.''
                  [PStr (cart_merchant_id c), PStr (mp_merchant_id p)]) MERCHANT_MISMATCH
                (Msg ''Cart merchant '{}' conflicts with policy merchant '{}'.''
                  [PStr (cart_merchant_id c), PStr (mp_merchant_id p)])
            else ok)
      in case given (int_target_merchant_id i) of
           None \<Rightarrow> check_cart
         | Some target \<Rightarrow>
             if target \<noteq> mp_merchant_id p then
               Fail (Msg ''Intent target merchant '{}' does not match policy merchant '{}'.''
                   [PStr target, PStr (mp_merchant_id p)]) MERCHANT_MISMATCH
                 (Msg ''Intent merchant '{}' conflicts with policy merchant '{}'.''
                   [PStr target, PStr (mp_merchant_id p)])
             else check_cart)"

definition requested_operation :: "CommerceIntent \<Rightarrow> McpOperation" where
  "requested_operation i =
     (case int_metadata i ''operation'' of
        Some (JStr s) \<Rightarrow> option_or (mcp_of (lower s)) CREATE_ORDER
      | _ \<Rightarrow> CREATE_ORDER)"

definition policy_rule_operation :: "MerchantPolicy \<Rightarrow> McpOperation \<Rightarrow> verdict" where
  "policy_rule_operation p op =
     (if op \<in> mp_blocked_operations p then
        Fail (Msg ''Operation '{}' is explicitly BLOCKED by merchant policy.'' [PStr (mcp_value op)])
          OPERATION_NOT_ALLOWED
          (Msg ''Operation '{}' is blocked by merchant policy.'' [PStr (mcp_value op)])
      else if mp_allowed_operations p \<noteq> {} \<and> op \<notin> mp_allowed_operations p then
        Fail (Msg ''Operation '{}' is not in policy allowed_operations set.'' [PStr (mcp_value op)])
          OPERATION_NOT_ALLOWED
          (Msg ''Operation '{}' is not permitted by merchant policy.'' [PStr (mcp_value op)])
      else Pass (Msg ''Operation '{}' is permitted.'' [PStr (mcp_value op)]))"

definition policy_rule_currency :: "MerchantPolicy \<Rightarrow> CommerceIntent \<Rightarrow> verdict" where
  "policy_rule_currency p i =
     (if int_currency i \<noteq> mp_currency p then
        Fail (Msg ''Intent currency '{}' does not match policy currency '{}'.''
            [PStr (currency_value (int_currency i)), PStr (currency_value (mp_currency p))])
          MERCHANT_CURRENCY_NOT_SUPPORTED
          (Msg ''Currency '{}' is not supported by policy '{}'.''
            [PStr (currency_value (int_currency i)), PStr (currency_value (mp_currency p))])
      else Pass (Msg ''Currency '{}' matches policy.'' [PStr (currency_value (int_currency i))]))"

definition policy_rule_region :: "MerchantPolicy \<Rightarrow> CommerceIntent \<Rightarrow> verdict" where
  "policy_rule_region p i =
     (if mp_allowed_regions p \<noteq> {} \<and> int_region i \<notin> mp_allowed_regions p then
        Fail (Msg ''Intent region '{}' is not in allowed regions set.'' [PStr (region_value (int_region i))])
          REGION_NOT_ALLOWED
          (Msg ''Region '{}' is not permitted by merchant policy.'' [PStr (region_value (int_region i))])
      else Pass (Msg ''Region '{}' is permitted.'' [PStr (region_value (int_region i))]))"

fun policy_item_categories :: "string set \<Rightarrow> CartItem list \<Rightarrow> verdict option" where
  "policy_item_categories allowed [] = None"
| "policy_item_categories allowed (item # items) =
     (if lower (ci_category item) \<notin> allowed then
        Some (Fail (Msg ''Cart item '{}' category '{}' is not allowed.''
                [PStr (ci_product_id item), PStr (ci_category item)]) MERCHANT_CATEGORY_NOT_ALLOWED
              (Msg ''Cart item category '{}' is not permitted by merchant policy.''
                [PStr (ci_category item)]))
      else policy_item_categories allowed items)"

definition policy_rule_category :: "MerchantPolicy \<Rightarrow> CommerceIntent \<Rightarrow> Cart option \<Rightarrow> verdict" where
  "policy_rule_category p i cart =
     (let ok = Pass (Msg ''Category restrictions satisfied.'' []);
          allowed = lower ` mp_allowed_categories p;
          check_cart = (case cart of None \<Rightarrow> ok
            | Some c \<Rightarrow> option_or (policy_item_categories allowed (cart_items c)) ok)
      in if mp_allowed_categories p \<noteq> {} then
           (case given (int_target_category i) of
              None \<Rightarrow> check_cart
            | Some cat \<Rightarrow>
                if lower cat \<noteq> multi_category \<and> lower cat \<notin> allowed then
                  Fail (Msg ''Category '{}' is not in policy allowed_categories.'' [PStr cat])
                    MERCHANT_CATEGORY_NOT_ALLOWED
                    (Msg ''Category '{}' is not permitted by merchant policy.'' [PStr cat])
                else check_cart)
         else ok)"

definition policy_rule_amount :: "MerchantPolicy \<Rightarrow> int \<Rightarrow> verdict" where
  "policy_rule_amount p amount =
     (if amount > mp_autonomous_purchase_limit_paise p then
        Fail (Msg ''Amount ({} paise) exceeds policy autonomous limit of {} paise.''
            [PInt amount, PInt (mp_autonomous_purchase_limit_paise p)]) MERCHANT_AMOUNT_LIMIT_EXCEEDED
          (Msg ''Requested amount ({} paise) exceeds merchant autonomous limit of {} paise.''
            [PInt amount, PInt (mp_autonomous_purchase_limit_paise p)])
      else Pass (Msg ''Amount ({} paise) is within autonomous limit.'' [PInt amount]))"

section \<open>The evaluator\<close>

record MerchantPolicyEvaluationResult =
  mpr_decision :: PolicyDecision
  mpr_merchant_id :: string
  mpr_policy_id :: string
  mpr_policy_version :: int
  mpr_rejection_reason :: "RejectionReason option"
  mpr_rejection_detail :: "msg option"
  mpr_evaluated_rules :: "RuleStep list"
  mpr_evaluated_at :: datetime

definition mpr_is_allowed :: "MerchantPolicyEvaluationResult \<Rightarrow> bool" where
  "mpr_is_allowed r = (mpr_decision r = ALLOW)"

definition mpr_is_step_up_required :: "MerchantPolicyEvaluationResult \<Rightarrow> bool" where
  "mpr_is_step_up_required r = (mpr_decision r = PolicyDecision.STEP_UP_REQUIRED)"

definition mpr_is_rejected :: "MerchantPolicyEvaluationResult \<Rightarrow> bool" where
  "mpr_is_rejected r = (mpr_decision r = REJECT)"

definition policy_rules ::
  "MerchantPolicy \<Rightarrow> CommerceIntent \<Rightarrow> Cart option \<Rightarrow> datetime \<Rightarrow> (string \<times> verdict) list" where
  "policy_rules p i cart t =
     [(''policy_active'', policy_rule_active p t),
      (''ai_commerce_enabled'', policy_rule_ai_commerce p),
      (''merchant_binding'', policy_rule_binding p i cart),
      (''operation_allowed'', policy_rule_operation p (requested_operation i)),
      (''currency_allowed'', policy_rule_currency p i),
      (''region_allowed'', policy_rule_region p i),
      (''category_allowed'', policy_rule_category p i cart),
      (''amount_within_autonomous_limit'', policy_rule_amount p (eval_amount cart i))]"

definition evaluate_policy ::
  "MerchantPolicy \<Rightarrow> CommerceIntent \<Rightarrow> Cart option \<Rightarrow> datetime option \<Rightarrow> datetime \<Rightarrow>
   MerchantPolicyEvaluationResult" where
  "evaluate_policy p i cart at now =
     (let t = resolve_at at now in
      case run_rules (policy_rules p i cart t) of (steps, out) \<Rightarrow>
        \<lparr>mpr_decision = (if out = None then ALLOW else REJECT), mpr_merchant_id = mp_merchant_id p,
         mpr_policy_id = mp_policy_id p, mpr_policy_version = mp_policy_version p,
         mpr_rejection_reason = map_option fst out, mpr_rejection_detail = map_option snd out,
         mpr_evaluated_rules = steps, mpr_evaluated_at = t\<rparr>)"

section \<open>The stored policies\<close>

record PolicyRow =
  prow_id :: string
  prow_merchant_id :: string
  prow_policy_version :: string
  prow_autonomous_limit_paise :: int
  prow_step_up_threshold_paise :: int
  prow_allowed_categories :: "string list"
  prow_allowed_operations :: "string list"
  prow_blocked_operations :: "string list"
  prow_active :: bool
  prow_effective_at :: datetime

definition newest_first :: "PolicyRow list \<Rightarrow> PolicyRow list" where
  "newest_first rows = sort_key (\<lambda>r. - prow_effective_at r) rows"

definition get_active_policy :: "PolicyRow list \<Rightarrow> string \<Rightarrow> PolicyRow option" where
  "get_active_policy tab mid =
     (case newest_first (filter (\<lambda>r. prow_merchant_id r = mid \<and> prow_active r) tab) of
        [] \<Rightarrow> None | r # _ \<Rightarrow> Some r)"

definition is_digit_py :: "char \<Rightarrow> bool" where
  \<comment> \<open>\<open>str.isdigit\<close> on one character: the decimal digits and the superscripts one to three\<close>
  "is_digit_py c \<longleftrightarrow> is_digit c \<or> (of_char c :: nat) \<in> {178, 179, 185}"

definition digits_value :: "string \<Rightarrow> int" where
  "digits_value s = foldl (\<lambda>n c. 10 * n + (of_char c - 48)) 0 s"

definition policy_version_int :: "string \<Rightarrow> int res" where
  \<comment> \<open>\<open>int(v) if str(v).isdigit() else 1\<close>; \<open>int\<close> refuses the superscripts\<close>
  "policy_version_int v =
     (if v \<noteq> [] \<and> list_all is_digit_py v then
        (if list_all is_digit v then Inr (digits_value v)
         else Inl (Raise ValueError (Msg ''invalid literal for int() with base 10: {}'' [PStr v])))
      else Inr 1)"

fun mcp_list :: "string list \<Rightarrow> McpOperation list res" where
  "mcp_list [] = Inr []"
| "mcp_list (s # ss) =
     (case mcp_of s of
        None \<Rightarrow> Inl (Raise ValueError (Msg ''{} is not a valid McpOperation'' [PStr s]))
      | Some op \<Rightarrow> bind_res (mcp_list ss) (\<lambda>ops. Inr (op # ops)))"

definition row_to_policy :: "PolicyRow \<Rightarrow> datetime \<Rightarrow> MerchantPolicy res" where
  "row_to_policy r now =
     bind_res (mcp_list (prow_allowed_operations r)) (\<lambda>allowed.
     bind_res (mcp_list (prow_blocked_operations r)) (\<lambda>blocked.
     bind_res (policy_version_int (prow_policy_version r)) (\<lambda>version.
       check_policy \<lparr>mp_policy_id = prow_id r, mp_merchant_id = prow_merchant_id r,
         mp_policy_version = version, mp_ai_commerce_enabled = prow_active r, mp_currency = INR,
         mp_allowed_categories = set (prow_allowed_categories r),
         mp_autonomous_purchase_limit_paise = prow_autonomous_limit_paise r,
         mp_step_up_threshold_paise = prow_step_up_threshold_paise r, mp_max_step_up_percent = 10,
         mp_allowed_regions = {}, mp_allowed_operations = set allowed,
         mp_blocked_operations = set blocked, mp_created_at = now, mp_expires_at = None\<rparr>)))"

definition async_get_active_policy ::
  "PolicyRow list \<Rightarrow> string \<Rightarrow> datetime \<Rightarrow> MerchantPolicy option res" where
  "async_get_active_policy tab mid now =
     (if strip mid = [] then Inr None
      else case get_active_policy tab (strip mid) of
        None \<Rightarrow> Inr None
      | Some r \<Rightarrow> bind_res (row_to_policy r now) (\<lambda>p. Inr (Some p)))"

definition async_evaluate_policy ::
  "PolicyRow list \<Rightarrow> string \<Rightarrow> CommerceIntent \<Rightarrow> Cart option \<Rightarrow> datetime option \<Rightarrow> datetime \<Rightarrow>
   MerchantPolicyEvaluationResult res" where
  "async_evaluate_policy tab mid i cart at now =
     (let t = resolve_at at now in
      bind_res (async_get_active_policy tab mid now) (\<lambda>found.
        case found of
          None \<Rightarrow> Inr \<lparr>mpr_decision = REJECT, mpr_merchant_id = mid, mpr_policy_id = [],
            mpr_policy_version = 0, mpr_rejection_reason = Some POLICY_VERSION_INVALID,
            mpr_rejection_detail = Some (Msg ''Active merchant policy for merchant {} not found in database.'' [PStr mid]),
            mpr_evaluated_rules = [], mpr_evaluated_at = t\<rparr>
        | Some p \<Rightarrow> Inr (evaluate_policy p i cart (Some t) now)))"

section \<open>What the evaluator decides\<close>

definition policy_permits :: "MerchantPolicy \<Rightarrow> CommerceIntent \<Rightarrow> Cart option \<Rightarrow> datetime \<Rightarrow> bool" where
  "policy_permits p i cart t \<longleftrightarrow>
     policy_is_active p (Some t) t \<and> mp_ai_commerce_enabled p \<and>
     (set_option (given (int_target_merchant_id i)) \<union> cart_merchant_id ` set_option cart
        \<subseteq> {mp_merchant_id p}) \<and>
     requested_operation i \<notin> mp_blocked_operations p \<and>
     (mp_allowed_operations p = {} \<or> requested_operation i \<in> mp_allowed_operations p) \<and>
     int_currency i = mp_currency p \<and>
     (mp_allowed_regions p = {} \<or> int_region i \<in> mp_allowed_regions p) \<and>
     (mp_allowed_categories p = {} \<or>
        (lower ` ({c \<in> set_option (given (int_target_category i)). lower c \<noteq> multi_category} \<union>
           (\<Union>c \<in> set_option cart. ci_category ` set (cart_items c)))
         \<subseteq> lower ` mp_allowed_categories p)) \<and>
     eval_amount cart i \<le> mp_autonomous_purchase_limit_paise p"

lemma policy_item_categories_None:
  "policy_item_categories allowed items = None \<longleftrightarrow> (\<forall>item \<in> set items. lower (ci_category item) \<in> allowed)"
  by (induction items) auto

lemma policy_item_categories_Some: "policy_item_categories allowed items = Some v \<Longrightarrow> \<not> verdict_passes v"
  by (induction items) (auto split: if_splits)

lemma policy_items_pass [simp]:
  "verdict_passes (option_or (policy_item_categories allowed items) (Pass d)) \<longleftrightarrow>
     (\<forall>item \<in> set items. lower (ci_category item) \<in> allowed)"
  using policy_item_categories_None [of allowed items] policy_item_categories_Some [of allowed items]
  by (cases "policy_item_categories allowed items") auto

lemma policy_rules_pass:
  "verdict_passes (policy_rule_active p t) \<longleftrightarrow> policy_is_active p (Some t) t"
  "verdict_passes (policy_rule_ai_commerce p) \<longleftrightarrow> mp_ai_commerce_enabled p"
  "verdict_passes (policy_rule_operation p op) \<longleftrightarrow> op \<notin> mp_blocked_operations p \<and>
     (mp_allowed_operations p = {} \<or> op \<in> mp_allowed_operations p)"
  "verdict_passes (policy_rule_currency p i) \<longleftrightarrow> int_currency i = mp_currency p"
  "verdict_passes (policy_rule_region p i) \<longleftrightarrow> mp_allowed_regions p = {} \<or> int_region i \<in> mp_allowed_regions p"
  "verdict_passes (policy_rule_amount p a) \<longleftrightarrow> a \<le> mp_autonomous_purchase_limit_paise p"
  by (auto simp: policy_rule_active_def policy_rule_ai_commerce_def policy_rule_operation_def
      policy_rule_currency_def policy_rule_region_def policy_rule_amount_def)

lemma policy_rule_binding_pass:
  "verdict_passes (policy_rule_binding p i cart) \<longleftrightarrow>
     set_option (given (int_target_merchant_id i)) \<union> cart_merchant_id ` set_option cart \<subseteq> {mp_merchant_id p}"
  by (auto simp: policy_rule_binding_def Let_def split: option.splits)

lemma policy_rule_category_pass:
  "verdict_passes (policy_rule_category p i cart) \<longleftrightarrow> mp_allowed_categories p = {} \<or>
     (lower ` ({c \<in> set_option (given (int_target_category i)). lower c \<noteq> multi_category} \<union>
        (\<Union>c \<in> set_option cart. ci_category ` set (cart_items c))) \<subseteq> lower ` mp_allowed_categories p)"
  by (cases "given (int_target_category i)"; cases cart) (auto simp: policy_rule_category_def Let_def)

lemma evaluate_policy_allows:
  "mpr_is_allowed (evaluate_policy p i cart at now) \<longleftrightarrow> policy_permits p i cart (resolve_at at now)"
proof -
  have "mpr_is_allowed (evaluate_policy p i cart at now) \<longleftrightarrow>
      snd (run_rules (policy_rules p i cart (resolve_at at now))) = None"
    by (simp add: evaluate_policy_def mpr_is_allowed_def Let_def split: prod.splits)
  then show ?thesis
    by (simp add: run_rules_None policy_rules_def policy_rules_pass policy_rule_binding_pass
        policy_rule_category_pass policy_permits_def)
qed

section \<open>Properties\<close>

text \<open>The merchant policy evaluator allows exactly what the policy permits, and every other
  answer is a rejection with a reason: it never asks for a step-up. In particular a blocked operation
  is never allowed, whatever the allow list says.\<close>

theorem policy_evaluation_exact:
  "(mpr_decision (evaluate_policy p i cart at now) =
      (if policy_permits p i cart (resolve_at at now) then ALLOW else REJECT))
   \<and> (mpr_rejection_reason (evaluate_policy p i cart at now) = None \<longleftrightarrow>
        mpr_is_allowed (evaluate_policy p i cart at now))
   \<and> \<not> (requested_operation i \<in> mp_blocked_operations p \<and> mpr_is_allowed (evaluate_policy p i cart at now))"
proof -
  let ?r = "evaluate_policy p i cart at now"
  have "mpr_decision ?r = (if mpr_is_allowed ?r then ALLOW else REJECT)"
    "mpr_rejection_reason ?r = None \<longleftrightarrow> mpr_is_allowed ?r"
    by (simp_all add: evaluate_policy_def mpr_is_allowed_def Let_def split: prod.splits)
  moreover have "\<not> (requested_operation i \<in> mp_blocked_operations p \<and>
      policy_permits p i cart (resolve_at at now))" by (simp add: policy_permits_def)
  ultimately show ?thesis by (simp add: evaluate_policy_allows)
qed

text \<open>Evaluation over the database fails closed: without an active stored policy of the merchant
  every intent is rejected, and an answer that allows comes from a stored active row of that merchant
  whose limit covers the amount.\<close>

theorem stored_policy_fails_closed:
  assumes "async_evaluate_policy tab mid i cart at now = Inr r" and "mpr_is_allowed r"
  shows "\<exists>row \<in> set tab. prow_merchant_id row = strip mid \<and> prow_active row \<and>
    eval_amount cart i \<le> prow_autonomous_limit_paise row \<and> mpr_merchant_id r = strip mid"
proof -
  obtain found where f: "async_get_active_policy tab mid now = Inr found"
    using assms(1) by (auto simp: async_evaluate_policy_def bind_res_Inr Let_def)
  then obtain p where p: "found = Some p"
    using assms by (auto simp: async_evaluate_policy_def mpr_is_allowed_def Let_def split: option.splits)
  then obtain row where row: "get_active_policy tab (strip mid) = Some row" "row_to_policy row now = Inr p"
    using f by (auto simp: async_get_active_policy_def bind_res_Inr split: if_splits option.splits)
  have "row \<in> set (newest_first (filter (\<lambda>r. prow_merchant_id r = strip mid \<and> prow_active r) tab))"
    using row(1) by (auto simp: get_active_policy_def split: list.splits)
  then have in_tab: "row \<in> set tab" "prow_merchant_id row = strip mid" "prow_active row"
    by (auto simp: newest_first_def)
  have fields: "mp_merchant_id p = prow_merchant_id row"
    "mp_autonomous_purchase_limit_paise p = prow_autonomous_limit_paise row"
    using row(2) by (auto simp: row_to_policy_def bind_res_Inr check_policy_def split: if_splits)
  have r: "r = evaluate_policy p i cart (Some (resolve_at at now)) now"
    using assms(1) f p by (simp add: async_evaluate_policy_def Let_def)
  then have "policy_permits p i cart (resolve_at at now)"
    using assms(2) by (simp add: evaluate_policy_allows)
  moreover have "mpr_merchant_id r = mp_merchant_id p"
    unfolding r by (simp add: evaluate_policy_def Let_def split: prod.splits)
  ultimately show ?thesis using in_tab fields by (auto simp: policy_permits_def)
qed

definition sample_policy_row :: PolicyRow where
  "sample_policy_row = \<lparr>prow_id = ''p'', prow_merchant_id = ''s'', prow_policy_version = ''v1'',
     prow_autonomous_limit_paise = 500, prow_step_up_threshold_paise = 500,
     prow_allowed_categories = [], prow_allowed_operations = [''create_order''],
     prow_blocked_operations = [], prow_active = True, prow_effective_at = 0\<rparr>"

lemma sample_policy_allows:
  "\<exists>r. async_evaluate_policy [sample_policy_row] ''s'' sample_intent None (Some 1) 0 = Inr r \<and> mpr_is_allowed r"
proof -
  have s: "strip ''s'' = ''s''" by (simp add: strip_def lstrip_def rstrip_def is_space_def)
  have g: "get_active_policy [sample_policy_row] ''s'' = Some sample_policy_row"
    by (simp add: get_active_policy_def newest_first_def sample_policy_row_def)
  obtain p where p: "row_to_policy sample_policy_row 0 = Inr p" "policy_permits p sample_intent None 1"
    by (simp add: row_to_policy_def sample_policy_row_def mcp_of_def member_of_value_def
        policy_version_int_def is_digit_py_def is_digit_def check_policy_def policy_permits_def
        policy_is_active_def sample_intent_def given_def requested_operation_def eval_amount_def)
  have a: "async_get_active_policy [sample_policy_row] ''s'' 0 = Inr (Some p)"
    by (simp add: async_get_active_policy_def s g p)
  show ?thesis using p(2) by (simp add: async_evaluate_policy_def a evaluate_policy_allows)
qed

theorem stored_policy_fails_closed_witness:
  "\<exists>row \<in> set [sample_policy_row]. prow_merchant_id row = strip ''s'' \<and> prow_active row \<and>
     eval_amount None sample_intent \<le> prow_autonomous_limit_paise row"
proof -
  obtain r where "async_evaluate_policy [sample_policy_row] ''s'' sample_intent None (Some 1) 0 = Inr r"
    "mpr_is_allowed r" using sample_policy_allows by blast
  from stored_policy_fails_closed [OF this] show ?thesis by blast
qed

end
