(* ===== verification/Policy_Engine.thy ===== *)
theory Policy_Engine
  imports Merchant_Policy Budget Nonce Step_Up
begin

text \<open>
  The authorization decision engine of \<open>apps/api/domain/policy_engine.py\<close>: the thirteen checks of
  \<open>PolicyEngine.evaluate\<close> in their order. The checks that can only reject are the guards of
  \<open>policy_engine_checks\<close>; the last one classifies the total against the buyer's cap and decides
  between the three outcomes. An exception that a check catches becomes its rejection.
\<close>

record DecisionTrace =
  dt_decision :: PolicyDecision
  dt_checks_passed :: "string list"
  dt_checks_failed :: "check_note list"
  dt_rejection_reason :: "RejectionReason option"
  dt_step_up_diff :: "StepUpDiff option"

record PolicyEvaluationResult =
  per_decision :: PolicyDecision
  per_rejection_reason :: "RejectionReason option"
  per_rejection_detail :: "msg option"
  per_step_up_diff :: "StepUpDiff option"
  per_trace :: DecisionTrace

definition per_is_allowed :: "PolicyEvaluationResult \<Rightarrow> bool" where
  "per_is_allowed r = (per_decision r = ALLOW)"

definition exc_msg :: "py_exc \<Rightarrow> msg" where
  \<comment> \<open>\<open>str(ex)\<close>\<close>
  "exc_msg e = (case e of Raise _ m \<Rightarrow> m)"

definition per_reject :: "string list \<Rightarrow> RejectionReason \<Rightarrow> msg \<Rightarrow> PolicyEvaluationResult" where
  \<comment> \<open>the local function \<open>_reject\<close>\<close>
  "per_reject passed reason detail =
     \<lparr>per_decision = REJECT, per_rejection_reason = Some reason, per_rejection_detail = Some detail,
      per_step_up_diff = None,
      per_trace = \<lparr>dt_decision = REJECT, dt_checks_passed = passed,
        dt_checks_failed = [Rejected_For reason detail], dt_rejection_reason = Some reason,
        dt_step_up_diff = None\<rparr>\<rparr>"

fun engine_item_categories ::
  "BuyerMandate \<Rightarrow> MerchantPolicy \<Rightarrow> CartItem list \<Rightarrow> (RejectionReason \<times> msg) option" where
  "engine_item_categories m p [] = None"
| "engine_item_categories m p (item # items) =
     (if \<not> authorizes_category m (ci_category item) then
        Some (CATEGORY_NOT_IN_SCOPE, Msg ''Product category '{}' is not in mandate category_scope.''
          [PStr (ci_category item)])
      else if \<not> is_category_allowed p (ci_category item) then
        Some (MERCHANT_CATEGORY_NOT_ALLOWED, Msg ''Product category '{}' is not allowed by merchant policy.''
          [PStr (ci_category item)])
      else engine_item_categories m p items)"

definition policy_engine_checks ::
  "BuyerMandate \<Rightarrow> MerchantPolicy \<Rightarrow> Cart \<Rightarrow> DailyBudget option \<Rightarrow> McpOperation \<Rightarrow> Region \<Rightarrow>
   NonceRecord option \<Rightarrow> datetime \<Rightarrow> (RejectionReason \<times> msg) check list" where
  "policy_engine_checks m p cart budget op region nonce now =
     [Guard (reject_if (\<not> mp_ai_commerce_enabled p)
        (AI_COMMERCE_DISABLED, Msg ''Merchant '{}' has disabled AI commerce.'' [PStr (mp_merchant_id p)]))
        (Some ''MERCHANT_AI_COMMERCE_ENABLED''),
      Guard (reject_if (\<not> policy_is_active p (Some now) now)
        (POLICY_VERSION_INVALID, Msg ''Merchant policy (v{}) has expired.'' [PInt (mp_policy_version p)]))
        (Some ''MERCHANT_POLICY_ACTIVE''),
      Guard (reject_if (\<not> is_region_allowed p region)
        (REGION_NOT_ALLOWED, Msg ''Region '{}' is not permitted by merchant policy.''
          [PStr (region_value region)]))
        (Some ''MERCHANT_REGION_ALLOWED''),
      Guard (reject_if (op \<in> mp_blocked_operations p)
        (OPERATION_NOT_ALLOWED, Msg ''Operation '{}' is explicitly blocked by merchant policy.''
          [PStr (mcp_value op)])) None,
      Guard (reject_if (op \<notin> mp_allowed_operations p)
        (OPERATION_NOT_ALLOWED, Msg ''Operation '{}' is not in merchant allowed_operations.''
          [PStr (mcp_value op)]))
        (Some ''OPERATION_ALLOWED''),
      Guard (reject_if (\<not> mandate_is_active m (Some now) now)
        (if now \<ge> bm_expires_at m
         then (MANDATE_EXPIRED, Msg ''Buyer mandate expired at {}.'' [PTime (bm_expires_at m)])
         else (MANDATE_NOT_ACTIVE, Msg ''Buyer mandate status is '{}', expected ACTIVE.''
           [PStr (mandate_status_value (bm_status m))])))
        (Some ''BUYER_MANDATE_ACTIVE''),
      Guard (reject_if (\<not> authorizes_merchant m (cart_merchant_id cart))
        (MERCHANT_NOT_IN_SCOPE, Msg ''Merchant '{}' is not in mandate merchant_scope.''
          [PStr (cart_merchant_id cart)]))
        (Some ''MANDATE_MERCHANT_IN_SCOPE''),
      Guard (engine_item_categories m p (cart_items cart)) (Some ''CATEGORIES_ALLOWED''),
      Guard (reject_if (cart_currency cart \<noteq> bm_currency m)
        (CURRENCY_MISMATCH, Msg ''Cart currency '{}' does not match mandate currency '{}'.''
          [PStr (currency_value (cart_currency cart)), PStr (currency_value (bm_currency m))])) None,
      Guard (reject_if (cart_currency cart \<noteq> mp_currency p)
        (MERCHANT_CURRENCY_NOT_SUPPORTED, Msg ''Cart currency '{}' does not match merchant currency '{}'.''
          [PStr (currency_value (cart_currency cart)), PStr (currency_value (mp_currency p))]))
        (Some ''CURRENCY_MATCHED''),
      Guard (reject_if (cart_hash cart = [])
        (CART_INTEGRITY_VIOLATION, Msg ''Cart missing valid cart_hash digest.'' []))
        (Some ''CART_INTEGRITY_VALID''),
      (case nonce of
         None \<Rightarrow> Guard None None
       | Some r \<Rightarrow> Guard (case assert_nonce_consumable r (Some now) now of
            Inl ex \<Rightarrow> Some (NONCE_ALREADY_CONSUMED, exc_msg ex) | Inr _ \<Rightarrow> None) (Some ''NONCE_VALID'')),
      Guard (reject_if (\<not> bm_autonomous_execution m)
        (AUTONOMOUS_EXECUTION_DISABLED, Msg ''Buyer mandate has autonomous_execution set to False.'' []))
        (Some ''AUTONOMOUS_EXECUTION_PERMITTED''),
      Guard (reject_if (cart_total_paise cart > mp_autonomous_purchase_limit_paise p)
        (MERCHANT_AMOUNT_LIMIT_EXCEEDED,
         Msg ''Cart total ({} paise) exceeds merchant autonomous purchase limit ({} paise).''
           [PInt (cart_total_paise cart), PInt (mp_autonomous_purchase_limit_paise p)]))
        (Some ''MERCHANT_AMOUNT_LIMIT_OK''),
      (case budget of
         None \<Rightarrow> Guard None None
       | Some b \<Rightarrow> Guard (case assert_can_reserve b (cart_total_paise cart) of
            Inl ex \<Rightarrow> Some (BUDGET_INSUFFICIENT, exc_msg ex) | Inr _ \<Rightarrow> None) (Some ''BUDGET_AVAILABLE''))]"

definition policy_engine_evaluate ::
  "BuyerMandate \<Rightarrow> MerchantPolicy \<Rightarrow> Cart \<Rightarrow> DailyBudget option \<Rightarrow> McpOperation \<Rightarrow> Region \<Rightarrow>
   NonceRecord option \<Rightarrow> datetime option \<Rightarrow> datetime \<Rightarrow> PolicyEvaluationResult res" where
  "policy_engine_evaluate m p cart budget op region nonce at clock =
     (let now = resolve_at at clock in
      case run_checks [] (policy_engine_checks m p cart budget op region nonce now) of
        (passed, Some (reason, detail)) \<Rightarrow> Inr (per_reject passed reason detail)
      | (passed, None) \<Rightarrow>
          bind_res (classify_step_up_zone (cart_total_paise cart) (bm_maximum_amount_paise m)
                      (mp_max_step_up_percent p)) (\<lambda>s.
            if sur_zone s = HARD_REJECT then
              Inr (per_reject passed EXCEEDS_STEP_UP_HARD_LIMIT (sur_reason s))
            else if sur_zone s = StepUpZone.STEP_UP_REQUIRED then
              Inr \<lparr>per_decision = PolicyDecision.STEP_UP_REQUIRED, per_rejection_reason = None,
                   per_rejection_detail = None, per_step_up_diff = sur_diff s,
                   per_trace = \<lparr>dt_decision = PolicyDecision.STEP_UP_REQUIRED,
                     dt_checks_passed = passed, dt_checks_failed = [Label ''STEP_UP_REQUIRED''],
                     dt_rejection_reason = None, dt_step_up_diff = sur_diff s\<rparr>\<rparr>
            else
              Inr \<lparr>per_decision = ALLOW, per_rejection_reason = None, per_rejection_detail = None,
                   per_step_up_diff = None,
                   per_trace = \<lparr>dt_decision = ALLOW,
                     dt_checks_passed = passed @ [''STEP_UP_NOT_REQUIRED''], dt_checks_failed = [],
                     dt_rejection_reason = None, dt_step_up_diff = None\<rparr>\<rparr>))"

section \<open>What the engine decides\<close>

definition engine_admits ::
  "BuyerMandate \<Rightarrow> MerchantPolicy \<Rightarrow> Cart \<Rightarrow> DailyBudget option \<Rightarrow> McpOperation \<Rightarrow> Region \<Rightarrow>
   NonceRecord option \<Rightarrow> datetime \<Rightarrow> bool" where
  \<comment> \<open>all checks before the step-up classification\<close>
  "engine_admits m p cart budget op region nonce now \<longleftrightarrow>
     mp_ai_commerce_enabled p \<and> policy_is_active p (Some now) now \<and> region \<in> mp_allowed_regions p \<and>
     op \<notin> mp_blocked_operations p \<and> op \<in> mp_allowed_operations p \<and>
     bm_status m = MandateStatus.ACTIVE \<and> now < bm_expires_at m \<and>
     cart_merchant_id cart \<in> bm_merchant_scope m \<and>
     (\<forall>item \<in> set (cart_items cart). normalize_category (ci_category item) \<in> bm_category_scope m \<and>
        lower (ci_category item) \<in> lower ` mp_allowed_categories p) \<and>
     cart_currency cart = bm_currency m \<and> cart_currency cart = mp_currency p \<and> cart_hash cart \<noteq> [] \<and>
     (case nonce of None \<Rightarrow> True | Some r \<Rightarrow> nr_state r = ISSUED \<and> now < nr_expires_at r) \<and>
     bm_autonomous_execution m \<and> cart_total_paise cart \<le> mp_autonomous_purchase_limit_paise p \<and>
     (case budget of None \<Rightarrow> True
      | Some b \<Rightarrow> 0 < cart_total_paise cart \<and> cart_total_paise cart \<le> available_paise b)"

lemma engine_item_categories_None:
  "engine_item_categories m p items = None \<longleftrightarrow>
     (\<forall>item \<in> set items. normalize_category (ci_category item) \<in> bm_category_scope m \<and>
        lower (ci_category item) \<in> lower ` mp_allowed_categories p)"
  by (induction items) (auto simp: authorizes_category_def normalize_category_def is_category_allowed_def)

lemma nonce_guard_None:
  "(case assert_nonce_consumable r (Some now) now of Inl ex \<Rightarrow> Some (NONCE_ALREADY_CONSUMED, exc_msg ex)
      | Inr _ \<Rightarrow> None) = None \<longleftrightarrow> nr_state r = ISSUED \<and> now < nr_expires_at r"
  using NonceState.exhaust [of "nr_state r"] by (auto simp: assert_nonce_consumable_def)

lemma budget_guard_None:
  "(case assert_can_reserve b p of Inl ex \<Rightarrow> Some (BUDGET_INSUFFICIENT, exc_msg ex) | Inr _ \<Rightarrow> None) = None
     \<longleftrightarrow> 0 < p \<and> p \<le> available_paise b"
  by (auto simp: assert_can_reserve_def available_paise_def)

lemma policy_engine_checks_pass:
  "snd (run_checks [] (policy_engine_checks m p cart budget op region nonce now)) = None \<longleftrightarrow>
     engine_admits m p cart budget op region nonce now"
  unfolding run_checks_None policy_engine_checks_def engine_admits_def
  by (cases nonce; cases budget)
    (simp_all add: engine_item_categories_None nonce_guard_None budget_guard_None is_region_allowed_def
      mandate_is_active_def authorizes_merchant_def not_less not_le conj_ac)

lemma policy_engine_classified:
  assumes "engine_admits m p cart budget op region nonce (resolve_at at clock)"
    and "classify_step_up_zone (cart_total_paise cart) (bm_maximum_amount_paise m) (mp_max_step_up_percent p) = Inr s"
  shows "\<exists>r. policy_engine_evaluate m p cart budget op region nonce at clock = Inr r \<and>
    per_decision r = (if sur_zone s = HARD_REJECT then REJECT
      else if sur_zone s = StepUpZone.STEP_UP_REQUIRED then PolicyDecision.STEP_UP_REQUIRED else ALLOW)"
proof -
  obtain passed where "run_checks [] (policy_engine_checks m p cart budget op region nonce (resolve_at at clock))
      = (passed, None)"
    using assms(1) policy_engine_checks_pass by (metis prod.collapse)
  then show ?thesis by (simp add: policy_engine_evaluate_def assms(2) per_reject_def)
qed

lemma policy_engine_rejects:
  assumes "\<not> engine_admits m p cart budget op region nonce (resolve_at at clock)"
  shows "\<exists>r. policy_engine_evaluate m p cart budget op region nonce at clock = Inr r \<and> per_decision r = REJECT"
proof -
  obtain passed reason detail where
    "run_checks [] (policy_engine_checks m p cart budget op region nonce (resolve_at at clock))
      = (passed, Some (reason, detail))"
    using assms policy_engine_checks_pass by (metis option.exhaust prod.collapse)
  then show ?thesis by (simp add: policy_engine_evaluate_def per_reject_def)
qed

lemma policy_engine_allow_cases:
  assumes "policy_engine_evaluate m p cart budget op region nonce at clock = Inr r"
    and "per_decision r = ALLOW"
  shows "engine_admits m p cart budget op region nonce (resolve_at at clock) \<and>
    cart_total_paise cart \<le> bm_maximum_amount_paise m"
proof (cases "engine_admits m p cart budget op region nonce (resolve_at at clock)")
  case False
  then show ?thesis using policy_engine_rejects [OF False] assms by auto
next
  case True
  obtain passed where run: "run_checks [] (policy_engine_checks m p cart budget op region nonce (resolve_at at clock))
      = (passed, None)"
    using True policy_engine_checks_pass by (metis prod.collapse)
  then obtain s where s: "classify_step_up_zone (cart_total_paise cart) (bm_maximum_amount_paise m)
      (mp_max_step_up_percent p) = Inr s"
    using assms(1) by (auto simp: policy_engine_evaluate_def bind_res_Inr)
  then have "sur_zone s = AUTO_EXECUTE"
    using policy_engine_classified [OF True s] assms by (cases "sur_zone s") auto
  then show ?thesis using classify_Inr [OF s] True by (auto split: if_splits)
qed

section \<open>Properties\<close>

text \<open>C34: The exact decision of the policy engine, for a cart and a mandate with non-negative amounts
  and a positive cap: it rejects when any of the checks fails or the total is beyond the step-up
  margin, asks for a step-up exactly within the margin, and allows exactly up to the cap.\<close>

theorem policy_engine_decides:
  assumes "0 \<le> cart_total_paise cart" and "0 < bm_maximum_amount_paise m"
  shows "\<exists>r. policy_engine_evaluate m p cart budget op region nonce at clock = Inr r \<and>
    per_decision r =
      (if \<not> engine_admits m p cart budget op region nonce (resolve_at at clock) then REJECT
       else if cart_total_paise cart \<le> bm_maximum_amount_paise m then ALLOW
       else if within_step_up (cart_total_paise cart) (bm_maximum_amount_paise m) (mp_max_step_up_percent p)
       then PolicyDecision.STEP_UP_REQUIRED else REJECT)"
proof (cases "engine_admits m p cart budget op region nonce (resolve_at at clock)")
  case False
  then show ?thesis using policy_engine_rejects [OF False] by simp
next
  case True
  obtain s where s: "classify_step_up_zone (cart_total_paise cart) (bm_maximum_amount_paise m)
      (mp_max_step_up_percent p) = Inr s"
    using assms classify_ok [of "cart_total_paise cart" "bm_maximum_amount_paise m" "mp_max_step_up_percent p"]
    by (auto simp: is_ok_def split: sum.splits)
  show ?thesis using policy_engine_classified [OF True s] classify_Inr [OF s] True
    by (auto split: if_splits)
qed

definition sample_policy :: MerchantPolicy where
  "sample_policy = \<lparr>mp_policy_id = ''p'', mp_merchant_id = ''s'', mp_policy_version = 1,
     mp_ai_commerce_enabled = True, mp_currency = INR, mp_allowed_categories = {''books''},
     mp_autonomous_purchase_limit_paise = 1000, mp_step_up_threshold_paise = 500,
     mp_max_step_up_percent = 10, mp_allowed_regions = {IN}, mp_allowed_operations = {CREATE_ORDER},
     mp_blocked_operations = {PAYOUT}, mp_created_at = 0, mp_expires_at = None\<rparr>"

lemma sample_engine_admits:
  "engine_admits (sample_mandate MandateStatus.ACTIVE) sample_policy
     (sample_cart [sample_item ''p'' q] a ''h'') None CREATE_ORDER IN None 1 \<longleftrightarrow> a \<le> 1000"
proof -
  have "lower ''Books'' = ''books''" "lower ''books'' = ''books''" "normalize_category ''Books'' = ''books''"
    by code_simp+
  then show ?thesis
    by (simp add: engine_admits_def sample_mandate_def sample_policy_def sample_cart_def sample_item_def
        policy_is_active_def)
qed

theorem policy_engine_decides_witness:
  "\<exists>r. policy_engine_evaluate (sample_mandate MandateStatus.ACTIVE) sample_policy
     (sample_cart [sample_item ''p'' 11] 550 ''h'') None CREATE_ORDER IN None (Some 1) 0 = Inr r \<and>
     per_decision r = PolicyDecision.STEP_UP_REQUIRED"
  using policy_engine_decides [of "sample_cart [sample_item ''p'' 11] 550 ''h''"
      "sample_mandate MandateStatus.ACTIVE" sample_policy None CREATE_ORDER IN None "Some 1" 0]
  by (simp add: sample_engine_admits)
    (simp add: sample_cart_def sample_mandate_def sample_policy_def within_step_up_def)

text \<open>The two implementations of the mandate and policy rules agree where they overlap: whatever
  the policy engine allows, the mandate evaluator finds valid and the merchant policy evaluator
  allows, for an intent of the mandate's buyer that names the same merchant, operation, region and
  currency, once the mandate is in effect and covers the region.\<close>

theorem engine_allow_implies_evaluators:
  assumes "policy_engine_evaluate m p cart budget (requested_operation i) (int_region i) nonce at clock = Inr r"
    and "per_decision r = ALLOW"
    and "int_buyer_id i = bm_buyer_id m" and "int_currency i = cart_currency cart"
    and "bm_issued_at m \<le> resolve_at at clock" and "int_region i \<in> bm_allowed_regions m"
    and "mp_merchant_id p = cart_merchant_id cart"
    and "given (int_target_merchant_id i) \<in> {None, Some (cart_merchant_id cart)}"
    and "given (int_target_category i) = None"
  shows "mer_valid (evaluate_mandate m i (Some cart) at clock) \<and>
    mpr_is_allowed (evaluate_policy p i (Some cart) at clock)"
proof -
  have a: "engine_admits m p cart budget (requested_operation i) (int_region i) nonce (resolve_at at clock)"
    "cart_total_paise cart \<le> bm_maximum_amount_paise m"
    using policy_engine_allow_cases [OF assms(1,2)] by blast+
  have "mandate_permits m i (Some cart) (resolve_at at clock)"
    using a assms(3-9) by (auto simp: mandate_permits_def engine_admits_def eval_amount_def)
  moreover have "policy_permits p i (Some cart) (resolve_at at clock)"
    using a assms(3-9) by (auto simp: policy_permits_def engine_admits_def eval_amount_def)
  ultimately show ?thesis by (simp add: evaluate_mandate_valid evaluate_policy_allows)
qed

theorem engine_allow_implies_evaluators_witness:
  "mer_valid (evaluate_mandate (sample_mandate MandateStatus.ACTIVE) sample_intent
     (Some (sample_cart [sample_item ''p'' 1] 50 ''h'')) (Some 1) 0)"
proof -
  let ?m = "sample_mandate MandateStatus.ACTIVE" and ?c = "sample_cart [sample_item ''p'' 1] 50 ''h''"
  have op: "requested_operation sample_intent = CREATE_ORDER"
    by (simp add: requested_operation_def sample_intent_def)
  have adm: "engine_admits ?m sample_policy ?c None CREATE_ORDER IN None (resolve_at (Some 1) 0)"
    by (simp add: sample_engine_admits)
  have cls: "classify_step_up_zone (cart_total_paise ?c) (bm_maximum_amount_paise ?m)
      (mp_max_step_up_percent sample_policy) = Inr \<lparr>sur_zone = AUTO_EXECUTE, sur_diff = None,
             sur_reason = Msg ''Cart total is within buyer mandate limit.'' []\<rparr>"
    by (simp add: classify_step_up_zone_def sample_cart_def sample_mandate_def)
  obtain r where "policy_engine_evaluate ?m sample_policy ?c None (requested_operation sample_intent)
      (int_region sample_intent) None (Some 1) 0 = Inr r" "per_decision r = ALLOW"
    using policy_engine_classified [OF adm cls] op by (auto simp: sample_intent_def)
  from engine_allow_implies_evaluators [OF this] show ?thesis
    by (simp add: sample_mandate_def sample_intent_def sample_cart_def sample_policy_def given_def)
qed

end
