(* ===== verification/Aggregator.thy ===== *)
theory Aggregator
  imports Merchant_Policy Step_Up
begin

text \<open>
  The authorization aggregator of \<open>apps/api/domain/authorization_aggregator.py\<close> and the decision
  contract of \<open>apps/api/domain/authorization.py\<close>. The outcomes of the independent controls go
  through \<open>aggregate\<close> in the fixed precedence of the source; a rejection names the control, the
  reason and the detail.
\<close>

section \<open>Contracts\<close>

record AuthorizationDecision =
  ad_decision_id :: string
  ad_request_id :: string
  ad_transaction_id :: "string option"
  ad_decision :: PolicyDecision
  ad_rejection_reason :: "RejectionReason option"
  ad_rejection_detail :: "msg option"
  ad_step_up_diff :: "StepUpDiff option"
  ad_checks_passed :: "string list"
  ad_checks_failed :: "check_note list"
  ad_nonce :: "string option"
  ad_created_at :: datetime

definition from_mandate :: "MandateEvaluationResult \<Rightarrow> SecurityControlOutcome" where
  "from_mandate r =
     \<lparr>sco_control_name = ''MANDATE_SCOPE_LIFECYCLE'', sco_passed = mer_valid r,
      sco_decision = (if mer_valid r then ALLOW else REJECT),
      sco_rejection_reason = mer_rejection_reason r, sco_detail = mer_rejection_detail r,
      sco_step_up_diff = None\<rparr>"

definition from_merchant_policy :: "MerchantPolicyEvaluationResult \<Rightarrow> SecurityControlOutcome" where
  \<comment> \<open>the result class has no \<open>step_up_diff\<close>, so \<open>getattr\<close> gives its default\<close>
  "from_merchant_policy r =
     \<lparr>sco_control_name = ''MERCHANT_COMMERCE_POLICY'',
      sco_passed = (mpr_is_allowed r \<or> mpr_is_step_up_required r), sco_decision = mpr_decision r,
      sco_rejection_reason = mpr_rejection_reason r, sco_detail = mpr_rejection_detail r,
      sco_step_up_diff = None\<rparr>"

datatype mandate_outcome = Mandate_Control SecurityControlOutcome | Mandate_Result MandateEvaluationResult

datatype policy_outcome = Policy_Control SecurityControlOutcome | Policy_Result MerchantPolicyEvaluationResult

record AggregationInput =
  agg_mandate :: "mandate_outcome option"
  agg_policy :: "policy_outcome option"
  agg_cart :: "SecurityControlOutcome option"
  agg_budget :: "SecurityControlOutcome option"
  agg_replay :: "SecurityControlOutcome option"
  agg_nonce :: "SecurityControlOutcome option"
  agg_step_up :: "SecurityControlOutcome option"

record AggregatedAuthorizationResult =
  agr_decision :: PolicyDecision
  agr_request_id :: string
  agr_rejection_reason :: "RejectionReason option"
  agr_rejection_detail :: "msg option"
  agr_step_up_diff :: "StepUpDiff option"
  agr_checks_passed :: "string list"
  agr_checks_failed :: "check_note list"
  agr_evaluated_at :: datetime

definition to_authorization_decision ::
  "AggregatedAuthorizationResult \<Rightarrow> string option \<Rightarrow> string option \<Rightarrow> string option \<Rightarrow>
   AuthorizationDecision res" where
  \<comment> \<open>\<open>decision_id or f"dec-{request_id}"\<close>; the contract refuses an empty \<open>request_id\<close>\<close>
  "to_authorization_decision r decision_id tid nonce =
     (if agr_request_id r = [] then Inl (Raise ValueError (Msg ''request_id: min_length 1'' []))
      else Inr \<lparr>ad_decision_id = option_or (given decision_id) (''dec-'' @ agr_request_id r),
        ad_request_id = agr_request_id r, ad_transaction_id = tid, ad_decision = agr_decision r,
        ad_rejection_reason = agr_rejection_reason r, ad_rejection_detail = agr_rejection_detail r,
        ad_step_up_diff = agr_step_up_diff r, ad_checks_passed = agr_checks_passed r,
        ad_checks_failed = agr_checks_failed r, ad_nonce = nonce,
        ad_created_at = agr_evaluated_at r\<rparr>)"

section \<open>Aggregation\<close>

definition mandate_ctrl :: "mandate_outcome option \<Rightarrow> SecurityControlOutcome option" where
  "mandate_ctrl o' = (case o' of None \<Rightarrow> None | Some (Mandate_Control c) \<Rightarrow> Some c
     | Some (Mandate_Result r) \<Rightarrow> Some (from_mandate r))"

definition policy_ctrl :: "policy_outcome option \<Rightarrow> SecurityControlOutcome option" where
  "policy_ctrl o' = (case o' of None \<Rightarrow> None | Some (Policy_Control c) \<Rightarrow> Some c
     | Some (Policy_Result r) \<Rightarrow> Some (from_merchant_policy r))"

type_synonym control_rejection = "string \<times> RejectionReason \<times> msg"

definition missing_check :: "SecurityControlOutcome option \<Rightarrow> string \<Rightarrow> string \<Rightarrow> control_rejection check" where
  "missing_check c text name =
     Guard (reject_if (c = None) (name, CONTROL_RESULT_MISSING, Msg text [])) None"

definition control_rejects :: "SecurityControlOutcome \<Rightarrow> bool" where
  "control_rejects c \<longleftrightarrow> \<not> sco_passed c \<or> sco_decision c = REJECT"

definition rejection_of ::
  "SecurityControlOutcome \<Rightarrow> string \<Rightarrow> RejectionReason \<Rightarrow> string \<Rightarrow> control_rejection" where
  "rejection_of c name reason text =
     (name, option_or (sco_rejection_reason c) reason, msg_or (sco_detail c) (Msg text []))"

definition control_check ::
  "SecurityControlOutcome option \<Rightarrow> string \<Rightarrow> RejectionReason \<Rightarrow> string \<Rightarrow> string \<Rightarrow>
   control_rejection check" where
  \<comment> \<open>a control that may be absent, with its default reason, its default detail and its label\<close>
  "control_check c name reason text label =
     (case c of None \<Rightarrow> Guard None None
      | Some o' \<Rightarrow> Guard (reject_if (control_rejects o') (rejection_of o' name reason text)) (Some label))"

definition policy_check :: "SecurityControlOutcome option \<Rightarrow> control_rejection check" where
  \<comment> \<open>the policy control is checked by its decision alone\<close>
  "policy_check c =
     (case c of None \<Rightarrow> Guard None None
      | Some o' \<Rightarrow> Guard (reject_if (sco_decision o' = REJECT)
           (rejection_of o' ''MERCHANT_COMMERCE_POLICY'' OPERATION_NOT_ALLOWED ''Merchant policy check failed.''))
           (Some ''MERCHANT_COMMERCE_POLICY_OK''))"

definition aggregation_checks :: "AggregationInput \<Rightarrow> control_rejection check list" where
  "aggregation_checks i =
     [missing_check (mandate_ctrl (agg_mandate i)) ''Mandate evaluation control result is missing.''
        ''MANDATE_SCOPE_LIFECYCLE'',
      missing_check (policy_ctrl (agg_policy i)) ''Merchant policy evaluation control result is missing.''
        ''MERCHANT_COMMERCE_POLICY'',
      missing_check (agg_cart i) ''Cart integrity evaluation control result is missing.'' ''CART_INTEGRITY'',
      control_check (mandate_ctrl (agg_mandate i)) ''MANDATE_SCOPE_LIFECYCLE'' MANDATE_NOT_ACTIVE
        ''Mandate scope/lifecycle check failed.'' ''MANDATE_SCOPE_LIFECYCLE_OK'',
      policy_check (policy_ctrl (agg_policy i)),
      control_check (agg_cart i) ''CART_INTEGRITY'' CART_INTEGRITY_VIOLATION
        ''Cart integrity check failed.'' ''CART_INTEGRITY_OK'',
      control_check (agg_budget i) ''BUDGET_RESERVATION'' BUDGET_INSUFFICIENT
        ''Budget availability check failed.'' ''BUDGET_RESERVATION_OK'',
      control_check (agg_replay i) ''REPLAY_PROTECTION'' REPLAY_ATTEMPT_DETECTED
        ''Replay protection check failed.'' ''REPLAY_PROTECTION_OK'',
      control_check (agg_nonce i) ''NONCE_VALIDATION'' NONCE_ALREADY_CONSUMED
        ''Nonce validation check failed.'' ''NONCE_VALIDATION_OK'']"

definition policy_asks_step_up :: "AggregationInput \<Rightarrow> bool" where
  "policy_asks_step_up i = (case policy_ctrl (agg_policy i) of None \<Rightarrow> False
     | Some c \<Rightarrow> sco_decision c = PolicyDecision.STEP_UP_REQUIRED)"

definition selected_diff :: "AggregationInput \<Rightarrow> StepUpDiff option" where
  \<comment> \<open>the local variable \<open>step_up_diff\<close> of check 8\<close>
  "selected_diff i =
     (if policy_asks_step_up i then Option.bind (policy_ctrl (agg_policy i)) sco_step_up_diff
      else (case agg_step_up i of None \<Rightarrow> None
        | Some c \<Rightarrow> if sco_decision c = PolicyDecision.STEP_UP_REQUIRED then sco_step_up_diff c else None))"

definition aggregate ::
  "string \<Rightarrow> AggregationInput \<Rightarrow> datetime option \<Rightarrow> datetime \<Rightarrow> AggregatedAuthorizationResult" where
  "aggregate request_id i at now =
     (let t = resolve_at at now in
      case run_checks [] (aggregation_checks i) of
        (passed, Some (name, reason, detail)) \<Rightarrow>
          \<lparr>agr_decision = REJECT, agr_request_id = request_id, agr_rejection_reason = Some reason,
           agr_rejection_detail = Some detail, agr_step_up_diff = None, agr_checks_passed = passed,
           agr_checks_failed = [Control_Failed name reason detail], agr_evaluated_at = t\<rparr>
      | (passed, None) \<Rightarrow>
          if selected_diff i \<noteq> None \<or> policy_asks_step_up i then
            \<lparr>agr_decision = PolicyDecision.STEP_UP_REQUIRED, agr_request_id = request_id,
             agr_rejection_reason = None, agr_rejection_detail = None,
             agr_step_up_diff = selected_diff i, agr_checks_passed = passed,
             agr_checks_failed = [Label ''STEP_UP_REQUIRED''], agr_evaluated_at = t\<rparr>
          else
            \<lparr>agr_decision = ALLOW, agr_request_id = request_id, agr_rejection_reason = None,
             agr_rejection_detail = None, agr_step_up_diff = None,
             agr_checks_passed = passed @ [''STEP_UP_NOT_REQUIRED''], agr_checks_failed = [],
             agr_evaluated_at = t\<rparr>)"

section \<open>What the aggregator decides\<close>

definition control_clear :: "SecurityControlOutcome option \<Rightarrow> bool" where
  \<comment> \<open>an absent control does not object\<close>
  "control_clear c = (case c of None \<Rightarrow> True | Some o' \<Rightarrow> \<not> control_rejects o')"

definition unanimous :: "AggregationInput \<Rightarrow> bool" where
  "unanimous i \<longleftrightarrow>
     (\<exists>c. mandate_ctrl (agg_mandate i) = Some c \<and> \<not> control_rejects c) \<and>
     (\<exists>c. policy_ctrl (agg_policy i) = Some c \<and> sco_decision c \<noteq> REJECT) \<and>
     (\<exists>c. agg_cart i = Some c \<and> \<not> control_rejects c) \<and>
     control_clear (agg_budget i) \<and> control_clear (agg_replay i) \<and> control_clear (agg_nonce i)"

definition demands_step_up :: "AggregationInput \<Rightarrow> bool" where
  "demands_step_up i \<longleftrightarrow> policy_asks_step_up i \<or> selected_diff i \<noteq> None"

lemma control_check_None: "guard_reject (control_check c n r t l) = None \<longleftrightarrow> control_clear c"
  by (simp add: control_check_def control_clear_def split: option.split)

lemma aggregation_checks_pass: "snd (run_checks [] (aggregation_checks i)) = None \<longleftrightarrow> unanimous i"
  unfolding run_checks_None aggregation_checks_def unanimous_def
  by (auto simp: control_check_None missing_check_def policy_check_def control_clear_def split: option.splits)

lemma aggregate_decision:
  "agr_decision (aggregate rid i at now) =
     (if \<not> unanimous i then REJECT
      else if selected_diff i \<noteq> None \<or> policy_asks_step_up i then PolicyDecision.STEP_UP_REQUIRED
      else ALLOW)"
  using aggregation_checks_pass [of i]
  by (auto simp: aggregate_def Let_def split: prod.split option.split)

section \<open>Properties\<close>

text \<open>The exact decision of the aggregator. It rejects when the mandate, the policy or the cart
  control is missing or objects, or when a budget, replay or nonce control that is present objects;
  otherwise it asks for a step-up when the policy control asks for one or the step-up control asks for
  one and carries its diff; otherwise it allows.\<close>

theorem aggregation_exact:
  "agr_decision (aggregate rid i at now) =
     (if \<not> unanimous i then REJECT
      else if demands_step_up i then PolicyDecision.STEP_UP_REQUIRED else ALLOW)
   \<and> (agr_decision (aggregate rid i at now) = REJECT \<longleftrightarrow>
        agr_rejection_reason (aggregate rid i at now) \<noteq> None)"
  using aggregate_decision [of rid i at now] aggregation_checks_pass [of i]
  by (auto simp: aggregate_def demands_step_up_def Let_def split: prod.splits option.splits if_splits)

text \<open>C33: An aggregation over the results of the evaluators that allows is sound for both of them: the
  mandate permits the intent and the merchant policy permits it, and no budget, replay, nonce or cart
  control that was given objected.\<close>

theorem aggregation_allow_sound:
  assumes "agr_decision (aggregate rid i at now) = ALLOW"
    and "agg_mandate i = Some (Mandate_Result (evaluate_mandate m intent cart t clock))"
    and "agg_policy i = Some (Policy_Result (evaluate_policy p intent cart t clock))"
  shows "mandate_permits m intent cart (resolve_at t clock) \<and> policy_permits p intent cart (resolve_at t clock) \<and>
    agg_cart i \<noteq> None \<and>
    list_all control_clear [agg_cart i, agg_budget i, agg_replay i, agg_nonce i]"
proof -
  have u: "unanimous i" using assms(1) by (auto simp: aggregate_decision split: if_splits)
  have "mer_valid (evaluate_mandate m intent cart t clock)"
    using u assms(2) by (auto simp: unanimous_def mandate_ctrl_def from_mandate_def control_rejects_def
        split: if_splits)
  moreover have "mpr_is_allowed (evaluate_policy p intent cart t clock)"
  proof -
    have "mpr_decision (evaluate_policy p intent cart t clock) \<noteq> REJECT"
      using u assms(3) by (auto simp: unanimous_def policy_ctrl_def from_merchant_policy_def)
    then show ?thesis
      by (auto simp: evaluate_policy_def mpr_is_allowed_def Let_def split: prod.splits if_splits)
  qed
  ultimately show ?thesis
    using u by (auto simp: evaluate_mandate_valid evaluate_policy_allows unanimous_def control_clear_def)
qed

definition allowing :: "string \<Rightarrow> SecurityControlOutcome" where
  "allowing name = \<lparr>sco_control_name = name, sco_passed = True, sco_decision = ALLOW,
     sco_rejection_reason = None, sco_detail = None, sco_step_up_diff = None\<rparr>"

definition sample_terms :: MerchantPolicy where
  "sample_terms = \<lparr>mp_policy_id = ''p'', mp_merchant_id = ''s'', mp_policy_version = 1,
     mp_ai_commerce_enabled = True, mp_currency = INR, mp_allowed_categories = {},
     mp_autonomous_purchase_limit_paise = 1000, mp_step_up_threshold_paise = 500,
     mp_max_step_up_percent = 10, mp_allowed_regions = {IN}, mp_allowed_operations = {CREATE_ORDER},
     mp_blocked_operations = {PAYOUT}, mp_created_at = 0, mp_expires_at = None\<rparr>"

definition sample_aggregation :: AggregationInput where
  "sample_aggregation = \<lparr>
     agg_mandate = Some (Mandate_Result (evaluate_mandate (sample_mandate MandateStatus.ACTIVE)
        sample_intent None (Some 1) 0)),
     agg_policy = Some (Policy_Result (evaluate_policy sample_terms sample_intent None (Some 1) 0)),
     agg_cart = Some (allowing ''CART_INTEGRITY''), agg_budget = None, agg_replay = None,
     agg_nonce = None, agg_step_up = None\<rparr>"

lemma sample_aggregation_permits:
  "mandate_permits (sample_mandate MandateStatus.ACTIVE) sample_intent None 1"
  "policy_permits sample_terms sample_intent None 1"
  by (simp_all add: mandate_permits_def policy_permits_def sample_mandate_def sample_terms_def
      sample_intent_def given_def eval_amount_def policy_is_active_def requested_operation_def)

lemma sample_aggregation_allows: "agr_decision (aggregate ''r'' sample_aggregation None 0) = ALLOW"
proof -
  have v: "mer_valid (evaluate_mandate (sample_mandate MandateStatus.ACTIVE) sample_intent None (Some 1) 0)"
    using sample_aggregation_permits(1) by (simp add: evaluate_mandate_valid)
  have "mpr_is_allowed (evaluate_policy sample_terms sample_intent None (Some 1) 0)"
    using sample_aggregation_permits(2) by (simp add: evaluate_policy_allows)
  then have d: "mpr_decision (evaluate_policy sample_terms sample_intent None (Some 1) 0) = ALLOW"
    by (simp add: mpr_is_allowed_def)
  have "unanimous sample_aggregation"
    by (simp add: sample_aggregation_def unanimous_def mandate_ctrl_def policy_ctrl_def
        from_mandate_def from_merchant_policy_def v d control_rejects_def control_clear_def allowing_def)
  moreover have "\<not> policy_asks_step_up sample_aggregation" "selected_diff sample_aggregation = None"
    by (simp_all add: policy_asks_step_up_def selected_diff_def policy_ctrl_def sample_aggregation_def
        from_merchant_policy_def d)
  ultimately show ?thesis by (simp add: aggregate_decision)
qed

theorem aggregation_allow_sound_witness:
  "mandate_permits (sample_mandate MandateStatus.ACTIVE) sample_intent None 1"
  using aggregation_allow_sound [OF sample_aggregation_allows, of "sample_mandate MandateStatus.ACTIVE"
      sample_intent None "Some 1" 0 sample_terms]
  by (simp add: sample_aggregation_def)

lemma step_up_control_ignored:
  "sco_step_up_diff c = None \<Longrightarrow>
     agr_decision (aggregate rid (i\<lparr>agg_step_up := Some c\<rparr>) at now) =
     agr_decision (aggregate rid (i\<lparr>agg_step_up := None\<rparr>) at now)"
  by (auto simp: aggregate_decision unanimous_def selected_diff_def policy_asks_step_up_def)

text \<open>The verdict of the step-up engine never reaches the decision. Whatever the engine's
  evaluation is, a demand for a step-up or a hard rejection included, the aggregator decides as if no
  step-up control had been given: the conversion drops the diff, and a step-up control is read only
  for its diff.\<close>

theorem step_up_verdict_ignored:
  "agr_decision (aggregate rid (i\<lparr>agg_step_up := Some (sev_to_control r)\<rparr>) at now) =
   agr_decision (aggregate rid (i\<lparr>agg_step_up := None\<rparr>) at now)"
  by (rule step_up_control_ignored) (simp add: sev_to_control_def)

end
