(* ===== verification/Replay.thy ===== *)
theory Replay
  imports Cart Contracts Db_Table
begin

text \<open>
  Replay protection: the in-memory engine of \<open>apps/api/domain/replay_engine.py\<close>, the repository of
  \<open>db/repository/replay_repository.py\<close> and the engine's asynchronous method over it. A fingerprint
  is the digest (\<open>sha\<close>, a parameter) of the canonical JSON text of the action's identity;
  \<open>replay_text\<close> is that text. \<open>replay_guard\<close> interprets \<open>single_use\<close> for the in-memory engine
  inside a time window that no record outlives, \<open>replay_db_guard\<close> for the database, where the primary key
  makes the protection permanent.
\<close>

section \<open>Fingerprints\<close>

definition given_or_empty :: "(string \<Rightarrow> string) \<Rightarrow> string option \<Rightarrow> string" where
  \<comment> \<open>\<open>f(s) if s else ""\<close>\<close>
  "given_or_empty f s = (case s of None \<Rightarrow> [] | Some t \<Rightarrow> if t = [] then [] else f t)"

definition replay_text :: "string \<Rightarrow> string \<Rightarrow> string option \<Rightarrow> string option \<Rightarrow> string" where
  "replay_text mid tid cart merchant = json_dumps (JObj
     [(''cart_hash'', JStr (given_or_empty norm_hash cart)), (''mandate_id'', JStr (strip mid)),
      (''merchant_id'', JStr (given_or_empty strip merchant)), (''transaction_id'', JStr (strip tid))])"

definition compute_replay_fingerprint ::
  "(string \<Rightarrow> string) \<Rightarrow> string \<Rightarrow> string \<Rightarrow> string option \<Rightarrow> string option \<Rightarrow> string" where
  "compute_replay_fingerprint sha mid tid cart merchant = sha (replay_text mid tid cart merchant)"

lemma replay_text_eq:
  "replay_text mid tid cart merchant = replay_text mid' tid' cart' merchant' \<longleftrightarrow>
     strip mid = strip mid' \<and> strip tid = strip tid' \<and>
     given_or_empty norm_hash cart = given_or_empty norm_hash cart' \<and>
     given_or_empty strip merchant = given_or_empty strip merchant'"
  unfolding replay_text_def json_dumps_inject by auto

section \<open>The in-memory engine\<close>

record ReplayRecord =
  rr_fingerprint :: string
  rr_mandate_id :: string
  rr_transaction_id :: string
  rr_created_at :: datetime
  rr_expires_at :: "datetime option"

definition replay_is_expired :: "ReplayRecord \<Rightarrow> datetime option \<Rightarrow> datetime \<Rightarrow> bool" where
  "replay_is_expired r at now =
     (case rr_expires_at r of None \<Rightarrow> False | Some e \<Rightarrow> resolve_at at now \<ge> e)"

record ReplayEvaluationResult =
  rev_valid :: bool
  rev_decision :: PolicyDecision
  rev_fingerprint :: string
  rev_mandate_id :: string
  rev_transaction_id :: string
  rev_rejection_reason :: "RejectionReason option"
  rev_rejection_detail :: "msg option"
  rev_evaluated_at :: datetime

definition rev_is_allowed :: "ReplayEvaluationResult \<Rightarrow> bool" where
  "rev_is_allowed r \<longleftrightarrow> rev_valid r \<and> rev_decision r = ALLOW"

definition rev_to_control :: "ReplayEvaluationResult \<Rightarrow> SecurityControlOutcome" where
  "rev_to_control r =
     \<lparr>sco_control_name = ''REPLAY_PROTECTION'', sco_passed = rev_valid r,
      sco_decision = rev_decision r, sco_rejection_reason = rev_rejection_reason r,
      sco_detail = rev_rejection_detail r, sco_step_up_diff = None\<rparr>"

definition rev_reject ::
  "string \<Rightarrow> string \<Rightarrow> string \<Rightarrow> RejectionReason \<Rightarrow> msg \<Rightarrow> datetime \<Rightarrow> ReplayEvaluationResult" where
  "rev_reject fp mid tid reason detail t =
     \<lparr>rev_valid = False, rev_decision = REJECT, rev_fingerprint = fp, rev_mandate_id = mid,
      rev_transaction_id = tid, rev_rejection_reason = Some reason, rev_rejection_detail = Some detail,
      rev_evaluated_at = t\<rparr>"

definition rev_allow :: "string \<Rightarrow> string \<Rightarrow> string \<Rightarrow> datetime \<Rightarrow> ReplayEvaluationResult" where
  "rev_allow fp mid tid t =
     \<lparr>rev_valid = True, rev_decision = ALLOW, rev_fingerprint = fp, rev_mandate_id = mid,
      rev_transaction_id = tid, rev_rejection_reason = None, rev_rejection_detail = None,
      rev_evaluated_at = t\<rparr>"

type_synonym ReplayEngine = "string \<rightharpoonup> ReplayRecord"

definition replay_blocked :: "string \<Rightarrow> string \<Rightarrow> string \<Rightarrow> msg" where
  "replay_blocked mid tid fp =
     Msg ''Replay attack blocked: Transaction/action identity {} for mandate {} (fingerprint {}...) was previously executed.''
       [PStr tid, PStr mid, PStr (take 12 fp)]"

definition check_and_record ::
  "(string \<Rightarrow> string) \<Rightarrow> ReplayEngine \<Rightarrow> string \<Rightarrow> string \<Rightarrow> string option \<Rightarrow> string option \<Rightarrow> int \<Rightarrow>
   datetime option \<Rightarrow> datetime \<Rightarrow> ReplayEvaluationResult \<times> ReplayEngine" where
  "check_and_record sha e mid tid cart merchant ttl at now =
     (let t = resolve_at at now in
      if blank mid then
        (rev_reject [] mid tid INVALID_TRANSACTION_STATE
           (Msg ''Replay check failed: mandate_id cannot be empty.'' []) t, e)
      else if blank tid then
        (rev_reject [] mid tid INVALID_TRANSACTION_STATE
           (Msg ''Replay check failed: transaction_id cannot be empty.'' []) t, e)
      else
        let fp = compute_replay_fingerprint sha mid tid cart merchant in
        if (case e fp of None \<Rightarrow> False | Some r \<Rightarrow> \<not> replay_is_expired r (Some t) now) then
          (rev_reject fp mid tid REPLAY_ATTEMPT_DETECTED (replay_blocked mid tid fp) t, e)
        else
          let r = \<lparr>rr_fingerprint = fp, rr_mandate_id = mid, rr_transaction_id = tid,
                   rr_created_at = t, rr_expires_at = (if ttl > 0 then Some (t + seconds ttl) else None)\<rparr>
          in (rev_allow fp mid tid t, e(fp \<mapsto> r)))"

definition is_replayed ::
  "(string \<Rightarrow> string) \<Rightarrow> ReplayEngine \<Rightarrow> string \<Rightarrow> string \<Rightarrow> string option \<Rightarrow> string option \<Rightarrow>
   datetime option \<Rightarrow> datetime \<Rightarrow> bool" where
  "is_replayed sha e mid tid cart merchant at now =
     (case e (compute_replay_fingerprint sha mid tid cart merchant) of
        None \<Rightarrow> False | Some r \<Rightarrow> \<not> replay_is_expired r (Some (resolve_at at now)) now)"

definition record_count :: "ReplayEngine \<Rightarrow> nat" where
  "record_count e = card (dom e)"

section \<open>The repository and the asynchronous engine\<close>

record ReplayRow =
  rrow_fingerprint :: string
  rrow_transaction_id :: string
  rrow_created_at :: datetime

type_synonym replay_table = "string \<rightharpoonup> ReplayRow"

definition record_replay_fingerprint ::
  "(replay_table \<Rightarrow> ReplayRow \<Rightarrow> bool) \<Rightarrow> replay_table \<Rightarrow> string \<Rightarrow> string \<Rightarrow> datetime option \<Rightarrow> datetime \<Rightarrow>
   ReplayRow res \<times> replay_table" where
  "record_replay_fingerprint accepts tab fp tid created now =
     (if blank fp then (Inl (Raise ValueError (Msg ''Replay fingerprint cannot be empty.'' [])), tab)
      else if blank tid then (Inl (Raise ValueError (Msg ''Transaction ID cannot be empty.'' [])), tab)
      else
        let row = \<lparr>rrow_fingerprint = strip fp, rrow_transaction_id = strip tid,
                   rrow_created_at = resolve_at created now\<rparr> in
        if accepts tab row then (Inr row, tab(strip fp \<mapsto> row))
        else (Inl (Raise ValueError (Msg ''Replay fingerprint '{}' already exists in persistence store.''
                [PStr fp])), tab))"

definition get_replay_record :: "replay_table \<Rightarrow> string \<Rightarrow> ReplayRow option" where
  "get_replay_record tab fp = (if fp = [] then None else tab (strip fp))"

definition lock_replay_for_update :: "replay_table \<Rightarrow> string \<Rightarrow> ReplayRow option" where
  "lock_replay_for_update tab fp = tab fp"

definition is_fingerprint_replayed ::
  "replay_table \<Rightarrow> string \<Rightarrow> int \<Rightarrow> datetime option \<Rightarrow> datetime \<Rightarrow> bool" where
  "is_fingerprint_replayed tab fp ttl at now =
     (case get_replay_record tab fp of
        None \<Rightarrow> False
      | Some row \<Rightarrow> \<not> (ttl > 0 \<and> resolve_at at now - rrow_created_at row \<ge> seconds ttl))"

definition check_and_record_replay ::
  "(replay_table \<Rightarrow> ReplayRow \<Rightarrow> bool) \<Rightarrow> replay_table \<Rightarrow> string \<Rightarrow> string \<Rightarrow> int \<Rightarrow> datetime option \<Rightarrow>
   datetime \<Rightarrow> (bool \<times> ReplayRow) res \<times> replay_table" where
  "check_and_record_replay accepts tab fp tid ttl at now =
     (if blank fp then (Inl (Raise ValueError (Msg ''Replay fingerprint cannot be empty.'' [])), tab)
      else if blank tid then (Inl (Raise ValueError (Msg ''Transaction ID cannot be empty.'' [])), tab)
      else
        let clean_fp = strip fp; clean_tx = strip tid; t = resolve_at at now;
            record_new = (case record_replay_fingerprint accepts tab clean_fp clean_tx (Some t) now of
              (Inl x, tab') \<Rightarrow> (Inl x, tab') | (Inr row, tab') \<Rightarrow> (Inr (False, row), tab'))
        in case lock_replay_for_update tab clean_fp of
             None \<Rightarrow> record_new
           | Some row \<Rightarrow>
               if rrow_transaction_id row \<noteq> clean_tx then
                 (Inl (Raise ValueError
                    (Msg ''Conflicting context reuse detected for fingerprint '{}...': original transaction '{}', attempted transaction '{}'.''
                      [PStr (take 12 clean_fp), PStr (rrow_transaction_id row), PStr clean_tx])), tab)
               else if ttl > 0 then
                 (if t - rrow_created_at row < seconds ttl then (Inr (True, row), tab) else record_new)
               else (Inr (True, row), tab))"

definition async_check_and_record ::
  "(string \<Rightarrow> string) \<Rightarrow> (replay_table \<Rightarrow> ReplayRow \<Rightarrow> bool) \<Rightarrow> ReplayEngine \<Rightarrow> replay_table \<Rightarrow> string \<Rightarrow>
   string \<Rightarrow> string option \<Rightarrow> string option \<Rightarrow> int \<Rightarrow> datetime option \<Rightarrow> datetime \<Rightarrow>
   ReplayEvaluationResult res \<times> ReplayEngine \<times> replay_table" where
  "async_check_and_record sha accepts e tab mid tid cart merchant ttl at now =
     (let t = resolve_at at now in
      if blank mid then
        (Inr (rev_reject [] mid tid INVALID_TRANSACTION_STATE
           (Msg ''Replay check failed: mandate_id cannot be empty.'' []) t), e, tab)
      else if blank tid then
        (Inr (rev_reject [] mid tid INVALID_TRANSACTION_STATE
           (Msg ''Replay check failed: transaction_id cannot be empty.'' []) t), e, tab)
      else
        let fp = compute_replay_fingerprint sha mid tid cart merchant in
        if is_fingerprint_replayed tab fp ttl (Some t) now then
          (Inr (rev_reject fp mid tid REPLAY_ATTEMPT_DETECTED (replay_blocked mid tid fp) t), e, tab)
        else case record_replay_fingerprint accepts tab fp tid (Some t) now of
          (Inl x, tab') \<Rightarrow> (Inl x, e, tab')
        | (Inr row, tab') \<Rightarrow>
            let r = \<lparr>rr_fingerprint = rrow_fingerprint row, rr_mandate_id = mid,
                     rr_transaction_id = rrow_transaction_id row,
                     rr_created_at = rrow_created_at row, rr_expires_at = Some (t + seconds ttl)\<rparr>
            in (Inr (rev_allow fp mid tid t), e(fp \<mapsto> r), tab'))"

section \<open>The engines as machines\<close>

datatype replay_op = Check string string "string option" "string option" int "datetime option" datetime

fun op_text :: "replay_op \<Rightarrow> string option" where
  "op_text (Check mid tid cart merchant _ _ _) = Some (replay_text mid tid cart merchant)"

fun op_time :: "replay_op \<Rightarrow> datetime" where
  "op_time (Check _ _ _ _ _ at now) = resolve_at at now"

fun op_ttl :: "replay_op \<Rightarrow> int" where
  "op_ttl (Check _ _ _ _ ttl _ _) = ttl"

fun replay_step ::
  "(string \<Rightarrow> string) \<Rightarrow> ReplayEngine \<Rightarrow> replay_op \<Rightarrow> ReplayEvaluationResult \<times> ReplayEngine" where
  "replay_step sha e (Check mid tid cart merchant ttl at now) =
     check_and_record sha e mid tid cart merchant ttl at now"

definition replay_window :: "datetime \<Rightarrow> int \<Rightarrow> ReplayEngine \<Rightarrow> replay_op \<Rightarrow> bool" where
  \<comment> \<open>evaluated within \<open>w\<close> seconds from \<open>lo\<close>, and with a time to live of at least \<open>w\<close> or none\<close>
  "replay_window lo w e x \<longleftrightarrow> lo \<le> op_time x \<and> op_time x < lo + seconds w \<and> (op_ttl x \<le> 0 \<or> w \<le> op_ttl x)"

definition replay_used :: "(string \<Rightarrow> string) \<Rightarrow> datetime \<Rightarrow> int \<Rightarrow> ReplayEngine \<Rightarrow> string \<Rightarrow> bool" where
  "replay_used sha lo w e k = (case e (sha k) of None \<Rightarrow> False
     | Some r \<Rightarrow> (case rr_expires_at r of None \<Rightarrow> True | Some x \<Rightarrow> lo + seconds w \<le> x))"

lemma rev_allowed [simp]:
  "\<not> rev_is_allowed (rev_reject fp mid tid reason detail t)" "rev_is_allowed (rev_allow fp mid tid t)"
  by (simp_all add: rev_is_allowed_def rev_reject_def rev_allow_def)

lemma check_and_record_cases:
  obtains (rejected) r where "check_and_record sha e mid tid cart merchant ttl at now = (r, e)"
      "\<not> rev_is_allowed r"
      "blank mid \<or> blank tid \<or> is_replayed sha e mid tid cart merchant at now"
  | (recorded) r rec where "check_and_record sha e mid tid cart merchant ttl at now =
        (r, e(compute_replay_fingerprint sha mid tid cart merchant \<mapsto> rec))"
      "rev_is_allowed r" "\<not> blank mid" "\<not> blank tid" "\<not> is_replayed sha e mid tid cart merchant at now"
      "rr_expires_at rec = (if ttl > 0 then Some (resolve_at at now + seconds ttl) else None)"
proof -
  consider "blank mid" | "\<not> blank mid" "blank tid" | "\<not> blank mid" "\<not> blank tid" by blast
  then show ?thesis
  proof cases
    case 3
    show ?thesis
    proof (cases "is_replayed sha e mid tid cart merchant at now")
      case True
      with 3 show ?thesis using rejected by (simp add: check_and_record_def is_replayed_def Let_def)
    next
      case False
      with 3 show ?thesis using recorded by (simp add: check_and_record_def is_replayed_def Let_def)
    qed
  qed (use rejected in \<open>simp_all add: check_and_record_def Let_def\<close>)
qed

lemma replay_used_active:
  "replay_used sha lo w e (replay_text mid tid cart merchant) \<Longrightarrow> resolve_at at now < lo + seconds w \<Longrightarrow>
     is_replayed sha e mid tid cart merchant at now"
  by (auto simp: replay_used_def is_replayed_def replay_is_expired_def compute_replay_fingerprint_def
      split: option.splits)

lemma recorded_used:
  "rr_expires_at rec = (if ttl > 0 then Some (t + seconds ttl) else None) \<Longrightarrow> lo \<le> t \<Longrightarrow> ttl \<le> 0 \<or> w \<le> ttl \<Longrightarrow>
     replay_used sha lo w (e(sha k \<mapsto> rec)) k"
  using seconds_mono [of w ttl] by (auto simp: replay_used_def simp del: seconds_mono)

interpretation replay_guard: single_use "replay_step sha" "replay_window lo w" "\<lambda>_. True"
  rev_is_allowed op_text "replay_used sha lo w" for sha lo w
proof unfold_locales
  fix e x k
  assume adm: "replay_window lo w e x" and k: "op_text x = Some k"
    and a: "rev_is_allowed (fst (replay_step sha e x))"
  obtain mid tid cart merchant ttl at now where x: "x = Check mid tid cart merchant ttl at now"
    by (cases x)
  have "\<not> replay_used sha lo w e k \<and> replay_used sha lo w (snd (replay_step sha e x)) k"
  proof (cases rule: check_and_record_cases [of sha e mid tid cart merchant ttl at now])
    case (recorded r rec)
    have "replay_used sha lo w (e(sha k \<mapsto> rec)) k"
      using adm x by (intro recorded_used [OF recorded(6)]) (simp_all add: replay_window_def)
    moreover have "\<not> replay_used sha lo w e k"
      using replay_used_active [of sha lo w e mid tid cart merchant at now] recorded(5) adm k x
      by (auto simp: replay_window_def)
    ultimately show ?thesis using k x recorded(1) by (simp add: compute_replay_fingerprint_def)
  qed (use a x in simp)
  then show "\<not> replay_used sha lo w e k" "replay_used sha lo w (snd (replay_step sha e x)) k"
    by blast+
next
  fix e x k
  assume adm: "replay_window lo w e x" and u: "replay_used sha lo w e k"
  obtain mid tid cart merchant ttl at now where x: "x = Check mid tid cart merchant ttl at now"
    by (cases x)
  show "replay_used sha lo w (snd (replay_step sha e x)) k"
  proof (cases rule: check_and_record_cases [of sha e mid tid cart merchant ttl at now])
    case (recorded r rec)
    have "replay_used sha lo w (e(sha (replay_text mid tid cart merchant) \<mapsto> rec)) k"
      if "sha (replay_text mid tid cart merchant) \<noteq> sha k"
      using u that by (simp add: replay_used_def)
    moreover have "replay_used sha lo w (e(sha k \<mapsto> rec)) k"
      using adm x by (intro recorded_used [OF recorded(6)]) (simp_all add: replay_window_def)
    ultimately show ?thesis using x recorded(1) by (cases "sha (replay_text mid tid cart merchant) = sha k")
      (simp_all add: compute_replay_fingerprint_def)
  qed (use u x in simp)
qed simp

fun replay_db_step ::
  "(string \<Rightarrow> string) \<Rightarrow> (replay_table \<Rightarrow> ReplayRow \<Rightarrow> bool) \<Rightarrow> ReplayEngine \<times> replay_table \<Rightarrow> replay_op \<Rightarrow>
   ReplayEvaluationResult res \<times> ReplayEngine \<times> replay_table" where
  "replay_db_step sha accepts (e, tab) (Check mid tid cart merchant ttl at now) =
     async_check_and_record sha accepts e tab mid tid cart merchant ttl at now"

definition replay_db_allowed :: "ReplayEvaluationResult res \<Rightarrow> bool" where
  "replay_db_allowed r = (case r of Inl _ \<Rightarrow> False | Inr v \<Rightarrow> rev_is_allowed v)"

definition replay_db_used ::
  "(string \<Rightarrow> string) \<Rightarrow> ReplayEngine \<times> replay_table \<Rightarrow> string \<Rightarrow> bool" where
  "replay_db_used sha s k = (snd s (strip (sha k)) \<noteq> None)"

lemma async_check_and_record_cases:
  assumes "async_check_and_record sha accepts e tab mid tid cart merchant ttl at now = (r, e', tab')"
  obtains (unchanged) "tab' = tab" "\<not> replay_db_allowed r"
  | (inserted) row where "tab' = tab(strip (compute_replay_fingerprint sha mid tid cart merchant) \<mapsto> row)"
      "accepts tab row" "rrow_fingerprint row = strip (compute_replay_fingerprint sha mid tid cart merchant)"
proof -
  let ?fp = "compute_replay_fingerprint sha mid tid cart merchant"
  let ?t = "resolve_at at now"
  consider "blank mid \<or> blank tid" | "\<not> blank mid" "\<not> blank tid" "is_fingerprint_replayed tab ?fp ttl (Some ?t) now"
    | "\<not> blank mid" "\<not> blank tid" "\<not> is_fingerprint_replayed tab ?fp ttl (Some ?t) now" by blast
  then show ?thesis
  proof cases
    case 1
    then show ?thesis using assms unchanged
      by (auto simp: async_check_and_record_def replay_db_allowed_def Let_def split: if_splits)
  next
    case 2
    then show ?thesis using assms unchanged
      by (auto simp: async_check_and_record_def replay_db_allowed_def Let_def)
  next
    case 3
    then show ?thesis using assms unchanged inserted
      by (auto simp: async_check_and_record_def replay_db_allowed_def record_replay_fingerprint_def
          Let_def split: if_splits)
  qed
qed

section \<open>The contract over the database\<close>

locale replay_db =
  fixes accepts :: "replay_table \<Rightarrow> ReplayRow \<Rightarrow> bool"
  assumes pk: "enforces_pk rrow_fingerprint accepts"

sublocale replay_db \<subseteq> db_guard: single_use "replay_db_step sha accepts" "\<lambda>_ _. True" "\<lambda>_. True"
  replay_db_allowed op_text "replay_db_used sha" for sha
proof unfold_locales
  fix s x k
  assume k: "op_text x = Some k" and a: "replay_db_allowed (fst (replay_db_step sha accepts s x))"
  obtain mid tid cart merchant ttl at now where x: "x = Check mid tid cart merchant ttl at now"
    by (cases x)
  obtain e tab where s: "s = (e, tab)" by (cases s)
  obtain r e' tab' where run: "async_check_and_record sha accepts e tab mid tid cart merchant ttl at now
      = (r, e', tab')" by (metis prod_cases3)
  show "\<not> replay_db_used sha s k" "replay_db_used sha (snd (replay_db_step sha accepts s x)) k"
    using a k unfolding x s replay_db_step.simps run
    by (cases rule: async_check_and_record_cases [OF run];
        auto simp: replay_db_used_def compute_replay_fingerprint_def dest: enforces_pkD [OF pk])+
next
  fix s x k
  assume u: "replay_db_used sha s k"
  obtain mid tid cart merchant ttl at now where x: "x = Check mid tid cart merchant ttl at now"
    by (cases x)
  obtain e tab where s: "s = (e, tab)" by (cases s)
  obtain r e' tab' where run: "async_check_and_record sha accepts e tab mid tid cart merchant ttl at now
      = (r, e', tab')" by (metis prod_cases3)
  show "replay_db_used sha (snd (replay_db_step sha accepts s x)) k"
    using u unfolding x s replay_db_step.simps run
    by (cases rule: async_check_and_record_cases [OF run]) (auto simp: replay_db_used_def)
qed simp

context replay_db begin

lemma recorded_at_most_once:
  "accepted_count replay_db_allowed (\<lambda>x. op_text x = Some k) ops
     (fst (run_ops (replay_db_step sha accepts) s ops)) \<le> 1"
  by (rule db_guard.at_most_once) simp_all

end

interpretation pk_replay: replay_db "pk_accepts rrow_fingerprint"
  by unfold_locales simp

section \<open>Properties\<close>

text \<open>Two actions have the same fingerprint exactly when they agree on the mandate, the
  transaction, the cart digest and the merchant up to surrounding white space (and the case of the
  digest), unless their two texts collide under the hash.\<close>

theorem fingerprint_identifies:
  assumes "no_collision sha (replay_text mid tid cart merchant) (replay_text mid' tid' cart' merchant')"
  shows "compute_replay_fingerprint sha mid tid cart merchant =
      compute_replay_fingerprint sha mid' tid' cart' merchant' \<longleftrightarrow>
    strip mid = strip mid' \<and> strip tid = strip tid' \<and>
    given_or_empty norm_hash cart = given_or_empty norm_hash cart' \<and>
    given_or_empty strip merchant = given_or_empty strip merchant'"
  using assms replay_text_eq [of mid tid cart merchant mid' tid' cart' merchant']
  by (auto simp: compute_replay_fingerprint_def no_collision_def)

theorem fingerprint_identifies_witness:
  "compute_replay_fingerprint (sample_sha (replay_text ''m'' ''t'' None None)) ''m'' ''t'' None None \<noteq>
   compute_replay_fingerprint (sample_sha (replay_text ''m'' ''t'' None None)) ''m'' ''u'' None None"
proof -
  have s: "strip ''t'' \<noteq> strip ''u''" by (simp add: strip_def lstrip_def rstrip_def is_space_def)
  then have "replay_text ''m'' ''u'' None None \<noteq> replay_text ''m'' ''t'' None None"
    by (auto simp: replay_text_eq)
  then have "no_collision (sample_sha (replay_text ''m'' ''t'' None None))
      (replay_text ''m'' ''t'' None None) (replay_text ''m'' ''u'' None None)"
    by (simp add: no_collision_def sample_sha_def replicate_eq_replicate)
  from fingerprint_identifies [OF this] s show ?thesis by simp
qed

text \<open>The in-memory engine lets an action through at most once in any run of checks within \<open>w\<close>
  seconds whose times to live are at least \<open>w\<close>, whatever checks of other actions are interleaved.\<close>

theorem replay_blocked_in_window:
  assumes "run_adm (replay_step sha) (replay_window lo w) e ops"
  shows "accepted_count rev_is_allowed (\<lambda>x. op_text x = Some k) ops
    (fst (run_ops (replay_step sha) e ops)) \<le> 1"
  by (rule replay_guard.at_most_once [OF TrueI assms])

theorem replay_blocked_in_window_witness:
  "accepted_count rev_is_allowed (\<lambda>x. op_text x = Some (replay_text ''m'' ''t'' None None))
     [Check ''m'' ''t'' None None 60 (Some 0) 0, Check '' m'' ''t '' None None 60 (Some 7) 0]
     (fst (run_ops (replay_step (\<lambda>x. x)) Map.empty
       [Check ''m'' ''t'' None None 60 (Some 0) 0, Check '' m'' ''t '' None None 60 (Some 7) 0])) \<le> 1"
  by (rule replay_blocked_in_window [where lo = 0 and w = 60]) (simp add: replay_window_def seconds_def)

text \<open>Over a database that enforces the primary key an action passes at most once, ever, with no
  assumption on the clock or the times to live.\<close>

theorem replay_db_single_use:
  assumes "enforces_pk rrow_fingerprint accepts"
  shows "accepted_count replay_db_allowed (\<lambda>x. op_text x = Some k) ops
    (fst (run_ops (replay_db_step sha accepts) s ops)) \<le> 1"
  by (rule replay_db.recorded_at_most_once [OF replay_db.intro [OF assms]])

theorem replay_db_single_use_witness:
  "accepted_count replay_db_allowed (\<lambda>x. op_text x = Some (replay_text ''m'' ''t'' None None))
     [Check ''m'' ''t'' None None 60 (Some 0) 0, Check ''m'' ''t'' None None 60 (Some 7) 0]
     (fst (run_ops (replay_db_step (\<lambda>x. x) (pk_accepts rrow_fingerprint)) (Map.empty, Map.empty)
       [Check ''m'' ''t'' None None 60 (Some 0) 0, Check ''m'' ''t'' None None 60 (Some 7) 0])) \<le> 1"
  by (rule replay_db_single_use) simp

text \<open>An expired record does not allow a new registration, against the documentation of
  \<open>check_and_record_replay\<close>: with the primary key enforced, the call raises \<open>ValueError\<close> and changes
  nothing, for every expired record of the same transaction.\<close>

theorem expired_replay_raises:
  assumes "enforces_pk rrow_fingerprint accepts" and "\<not> blank fp" and "\<not> blank tid"
    and "tab (strip fp) = Some row" and "rrow_transaction_id row = strip tid"
    and "0 < ttl" and "rrow_created_at row + seconds ttl \<le> resolve_at at now"
  shows "\<exists>m. check_and_record_replay accepts tab fp tid ttl at now = (Inl (Raise ValueError m), tab)"
proof -
  have "\<not> accepts tab r" if "rrow_fingerprint r = strip fp" for r
    using enforces_pkD [OF assms(1), of tab r] assms(4) that by auto
  then show ?thesis using assms(2-7)
    by (auto simp: check_and_record_replay_def record_replay_fingerprint_def lock_replay_for_update_def Let_def)
qed

theorem expired_replay_raises_witness:
  "\<exists>m. check_and_record_replay (pk_accepts rrow_fingerprint)
     [''f'' \<mapsto> \<lparr>rrow_fingerprint = ''f'', rrow_transaction_id = ''t'', rrow_created_at = 0\<rparr>]
     ''f'' ''t'' 60 (Some (seconds 60)) 0 = (Inl (Raise ValueError m),
     [''f'' \<mapsto> \<lparr>rrow_fingerprint = ''f'', rrow_transaction_id = ''t'', rrow_created_at = 0\<rparr>])"
  by (rule expired_replay_raises [where row = "\<lparr>rrow_fingerprint = ''f'', rrow_transaction_id = ''t'', rrow_created_at = 0\<rparr>"])
    (simp_all add: blank_def strip_def lstrip_def rstrip_def is_space_def)

end
