(* ===== verification/Transactions.thy ===== *)
theory Transactions
  imports Domain_Types Contracts
begin

text \<open>
  Transaction records (\<open>apps/api/domain/transaction.py\<close>) and their state machine
  (\<open>apps/api/domain/transaction_engine.py\<close>). \<open>transition_transaction\<close> is the only operation that moves
  a record along the legal graph of \<open>Domain_Types\<close>; the optional fields it may set are a record of
  options. \<open>transition_lifecycle\<close> interprets \<open>machine\<close> with the consistency rule of the
  constructor's validator.
\<close>

record Transaction =
  tx_transaction_id :: string
  tx_buyer_id :: string
  tx_merchant_id :: string
  tx_mandate_id :: string
  tx_mandate_version :: int
  tx_policy_version :: int
  tx_cart_id :: "string option"
  tx_cart_hash :: "string option"
  tx_amount_paise :: int
  tx_currency :: Currency
  tx_state :: TransactionState
  tx_rejection_reason :: "RejectionReason option"
  tx_rejection_detail :: "msg option"
  tx_idempotency_key :: string
  tx_nonce :: "string option"
  tx_created_at :: datetime
  tx_updated_at :: datetime
  tx_step_up_required_at :: "datetime option"
  tx_step_up_approved_at :: "datetime option"
  tx_step_up_amount_paise :: "int option"
  tx_razorpay_order_id :: "string option"
  tx_razorpay_payment_id :: "string option"

definition check_transaction :: "Transaction \<Rightarrow> Transaction res" where
  \<comment> \<open>the field constraints and \<open>_validate_rejection_consistency\<close>, on the fields of the constructor's call\<close>
  "check_transaction t =
     (if tx_buyer_id t = [] then Inl (Raise ValueError (Msg ''buyer_id: min_length 1'' []))
      else if tx_merchant_id t = [] then Inl (Raise ValueError (Msg ''merchant_id: min_length 1'' []))
      else if tx_mandate_id t = [] then Inl (Raise ValueError (Msg ''mandate_id: min_length 1'' []))
      else if tx_mandate_version t < 1 then Inl (Raise ValueError (Msg ''mandate_version: ge 1'' []))
      else if tx_policy_version t < 1 then Inl (Raise ValueError (Msg ''policy_version: ge 1'' []))
      else if tx_amount_paise t < 0 then Inl (Raise ValueError (Msg ''amount_paise: ge 0'' []))
      else if tx_state t = TransactionState.REJECTED \<and> tx_rejection_reason t = None then
        Inl (Raise ValueError (Msg ''Rejected transaction must have a rejection_reason.'' []))
      else if tx_state t \<noteq> TransactionState.REJECTED \<and> tx_rejection_reason t \<noteq> None then
        Inl (Raise ValueError (Msg ''rejection_reason set but state is {}, not REJECTED.''
          [PStr (txn_state_value (tx_state t))]))
      else Inr t)"

definition is_executable :: "Transaction \<Rightarrow> bool" where
  "is_executable t = txn_can_execute (tx_state t)"

definition is_terminal :: "Transaction \<Rightarrow> bool" where
  "is_terminal t = txn_is_terminal (tx_state t)"

record TransitionFields =
  \<comment> \<open>the keyword arguments of \<open>transition_transaction\<close>\<close>
  tf_rejection_reason :: "RejectionReason option"
  tf_rejection_detail :: "msg option"
  tf_cart_id :: "string option"
  tf_cart_hash :: "string option"
  tf_amount_paise :: "int option"
  tf_nonce :: "string option"
  tf_razorpay_order_id :: "string option"
  tf_razorpay_payment_id :: "string option"
  tf_step_up_amount_paise :: "int option"

definition no_fields :: TransitionFields where
  "no_fields = \<lparr>tf_rejection_reason = None, tf_rejection_detail = None, tf_cart_id = None,
     tf_cart_hash = None, tf_amount_paise = None, tf_nonce = None, tf_razorpay_order_id = None,
     tf_razorpay_payment_id = None, tf_step_up_amount_paise = None\<rparr>"

definition opt_update :: "'a option \<Rightarrow> 'a option \<Rightarrow> 'a option" where
  \<comment> \<open>\<open>if x is not None: updates[...] = x\<close> on an optional field\<close>
  "opt_update new old = (case new of None \<Rightarrow> old | Some v \<Rightarrow> Some v)"

lemma opt_update_simps [simp]: "opt_update None old = old" "opt_update (Some v) old = Some v"
  by (simp_all add: opt_update_def)

definition transition_transaction ::
  "Transaction \<Rightarrow> TransactionState \<Rightarrow> TransitionFields \<Rightarrow> datetime \<Rightarrow> Transaction res" where
  "transition_transaction t new f now =
     (if new \<notin> legal_next_states (tx_state t) then
        Inl (Raise (SourceError ''TransactionStateError'' [])
          (Msg ''Illegal transaction transition: {} -> {}.''
            [PStr (txn_state_value (tx_state t)), PStr (txn_state_value new)]))
      else if new = TransactionState.REJECTED \<and> tf_rejection_reason f = None then
        Inl (Raise ValueError (Msg ''Must provide rejection_reason when transitioning to REJECTED.'' []))
      else if new \<noteq> TransactionState.REJECTED \<and> tf_rejection_reason f \<noteq> None then
        Inl (Raise ValueError (Msg ''rejection_reason only allowed for REJECTED, not {}.''
          [PStr (txn_state_value new)]))
      else Inr (t\<lparr>tx_state := new, tx_updated_at := now,
        tx_rejection_reason := opt_update (tf_rejection_reason f) (tx_rejection_reason t),
        tx_rejection_detail := opt_update (tf_rejection_detail f) (tx_rejection_detail t),
        tx_cart_id := opt_update (tf_cart_id f) (tx_cart_id t),
        tx_cart_hash := opt_update (tf_cart_hash f) (tx_cart_hash t),
        tx_amount_paise := option_or (tf_amount_paise f) (tx_amount_paise t),
        tx_nonce := opt_update (tf_nonce f) (tx_nonce t),
        tx_razorpay_order_id := opt_update (tf_razorpay_order_id f) (tx_razorpay_order_id t),
        tx_razorpay_payment_id := opt_update (tf_razorpay_payment_id f) (tx_razorpay_payment_id t),
        tx_step_up_amount_paise := opt_update (tf_step_up_amount_paise f) (tx_step_up_amount_paise t),
        tx_step_up_required_at :=
          (if new = TransactionState.STEP_UP_REQUIRED then Some now else tx_step_up_required_at t),
        tx_step_up_approved_at :=
          (if new = TransactionState.USER_APPROVED then Some now else tx_step_up_approved_at t)\<rparr>))"

section \<open>The record as a machine\<close>

datatype transition_op = Transition TransactionState TransitionFields datetime

fun transition_step :: "Transaction \<Rightarrow> transition_op \<Rightarrow> Transaction res \<times> Transaction" where
  \<comment> \<open>a transition that raises leaves the holder with the record it had\<close>
  "transition_step t (Transition new f now) =
     (let r = transition_transaction t new f now in (r, case r of Inl _ \<Rightarrow> t | Inr t' \<Rightarrow> t'))"

definition rejection_consistent :: "Transaction \<Rightarrow> bool" where
  "rejection_consistent t \<longleftrightarrow> (tx_state t = TransactionState.REJECTED \<longleftrightarrow> tx_rejection_reason t \<noteq> None)"

lemma transition_Inr:
  "transition_transaction t new f now = Inr t' \<Longrightarrow>
     new \<in> legal_next_states (tx_state t) \<and> tx_state t' = new \<and>
     (new = TransactionState.REJECTED \<longleftrightarrow> tf_rejection_reason f \<noteq> None) \<and>
     tx_rejection_reason t' = opt_update (tf_rejection_reason f) (tx_rejection_reason t) \<and>
     tx_transaction_id t' = tx_transaction_id t \<and> tx_merchant_id t' = tx_merchant_id t \<and>
     tx_buyer_id t' = tx_buyer_id t \<and> tx_mandate_id t' = tx_mandate_id t \<and>
     tx_amount_paise t' = option_or (tf_amount_paise f) (tx_amount_paise t)"
  by (auto simp: transition_transaction_def split: if_splits)

lemma transition_plain:
  "tf_rejection_reason f = None \<Longrightarrow> new \<noteq> TransactionState.REJECTED \<Longrightarrow>
     is_ok (transition_transaction t new f now) \<longleftrightarrow> new \<in> legal_next_states (tx_state t)"
  by (simp add: transition_transaction_def)

lemma legal_not_REJECTED: "new \<in> legal_next_states s \<Longrightarrow> s \<noteq> TransactionState.REJECTED"
  by (cases s) simp_all

lemma transition_step_consistent:
  assumes "rejection_consistent t"
  shows "rejection_consistent (snd (transition_step t x))"
proof (cases x)
  case (Transition new f now)
  show ?thesis
  proof (cases "transition_transaction t new f now")
    case (Inr t')
    from transition_Inr [OF this] assms legal_not_REJECTED [of new "tx_state t"] show ?thesis
      by (auto simp: Transition Inr rejection_consistent_def opt_update_def split: option.splits)
  qed (simp add: Transition assms)
qed

interpretation transition_lifecycle: machine transition_step "\<lambda>_ _. True" rejection_consistent
  by unfold_locales (rule transition_step_consistent)

section \<open>A life of a transaction\<close>

fun states_of :: "Transaction \<Rightarrow> transition_op list \<Rightarrow> TransactionState list" where
  \<comment> \<open>the states entered by the operations that did not raise\<close>
  "states_of t [] = []"
| "states_of t (x # xs) =
     (case transition_step t x of
        (Inl _, t') \<Rightarrow> states_of t' xs | (Inr _, t') \<Rightarrow> tx_state t' # states_of t' xs)"

lemma states_of_path: "txn_path (tx_state t) (states_of t ops)"
proof (induction ops arbitrary: t)
  case (Cons x xs)
  obtain new f now where x: "x = Transition new f now" by (cases x)
  show ?case
  proof (cases "transition_transaction t new f now")
    case (Inl e)
    then show ?thesis using Cons x by simp
  next
    case (Inr t')
    then show ?thesis using Cons [of t'] x transition_Inr [OF Inr]
      by (simp add: can_transition_to_def)
  qed
qed simp

lemma states_of_end: "txn_end (tx_state t) (states_of t ops) = tx_state (snd (run_ops transition_step t ops))"
proof (induction ops arbitrary: t)
  case (Cons x xs)
  obtain new f now where x: "x = Transition new f now" by (cases x)
  show ?case
    by (cases "transition_transaction t new f now") (use Cons x in \<open>simp_all add: run_ops_Cons del: run_ops.simps(2)\<close>)
qed simp

lemma txn_path_Cons_iff:
  "txn_path s ss \<longleftrightarrow> (case ss of [] \<Rightarrow> True | t # ts \<Rightarrow> t \<in> legal_next_states s \<and> txn_path t ts)"
  by (cases ss) (simp_all add: can_transition_to_def)

lemma path_ranks: "txn_path s ss \<Longrightarrow> t \<in> set ss \<Longrightarrow> txn_rank s < txn_rank t"
  by (induction ss arbitrary: s) (use can_transition_rank order.strict_trans in \<open>fastforce+\<close>)

lemma path_outcome_unique:
  "txn_path s ss \<Longrightarrow> t \<in> set ss \<Longrightarrow> u \<in> set ss \<Longrightarrow> txn_rank t = txn_rank u \<Longrightarrow> t = u"
proof (induction ss arbitrary: s)
  case (Cons x xs)
  have r: "txn_rank x < txn_rank v" if "v \<in> set xs" for v
    using path_ranks [of x xs v] Cons.prems(1) that by simp
  show ?case
  proof (cases "t = x \<or> u = x")
    case True
    then show ?thesis using Cons.prems r [of t] r [of u] by auto
  next
    case False
    then show ?thesis using Cons by auto
  qed
qed simp

lemma path_from_reserved:
  assumes "txn_path TransactionState.RESERVED ss" and "TransactionState.COMMITTED \<in> set ss"
  shows "\<exists>rest. ss = [AUTHORIZED, EXECUTING] @ rest"
proof -
  obtain ts where ss: "ss = AUTHORIZED # ts" "txn_path AUTHORIZED ts"
    using assms by (cases ss) (auto simp: can_transition_to_def)
  then show ?thesis using assms(2) by (cases ts) (auto simp: can_transition_to_def)
qed

lemma path_from_validating:
  assumes "txn_path VALIDATING ss" and "TransactionState.COMMITTED \<in> set ss"
  shows "\<exists>steps rest. ss = steps @ [TransactionState.RESERVED, AUTHORIZED, EXECUTING] @ rest \<and>
    steps \<in> {[], [TransactionState.STEP_UP_REQUIRED, USER_APPROVED]}"
proof -
  obtain t ts where ss: "ss = t # ts" "t \<in> legal_next_states VALIDATING" "txn_path t ts"
    using assms by (cases ss) (auto simp: can_transition_to_def)
  then consider "t = TransactionState.REJECTED" | "t = TransactionState.STEP_UP_REQUIRED" | "t = TransactionState.RESERVED"
    by auto
  then show ?thesis
  proof cases
    case 1
    then show ?thesis using ss assms(2) by (cases ts) (auto simp: can_transition_to_def)
  next
    case 2
    then obtain us where ts: "ts = USER_APPROVED # TransactionState.RESERVED # us" "txn_path TransactionState.RESERVED us"
      using ss assms(2) by (cases ts; simp; cases "tl ts") (auto simp: can_transition_to_def)
    then have "TransactionState.COMMITTED \<in> set us" using ss assms(2) 2 by auto
    from path_from_reserved [OF ts(2) this] obtain rest where "us = [AUTHORIZED, EXECUTING] @ rest" ..
    then have "ss = [TransactionState.STEP_UP_REQUIRED, USER_APPROVED] @
        [TransactionState.RESERVED, AUTHORIZED, EXECUTING] @ rest" using ss ts 2 by simp
    then show ?thesis by blast
  next
    case 3
    then have "TransactionState.COMMITTED \<in> set ts" using ss assms(2) by auto
    with ss 3 obtain rest where "ts = [AUTHORIZED, EXECUTING] @ rest" using path_from_reserved [of ts] by auto
    then have "ss = [] @ [TransactionState.RESERVED, AUTHORIZED, EXECUTING] @ rest" using ss 3 by simp
    then show ?thesis by blast
  qed
qed

section \<open>Properties\<close>

text \<open>The life of a transaction. In any sequence of transitions from a draft, legal or not, a
  transaction that was ever committed went through validation, the approval of the buyer where a
  step-up was required, the reservation and the authorization, in this order, before it was
  executed; it is never both committed and rolled back, and it changes its state at most eleven times.\<close>

theorem committed_life:
  assumes "tx_state t = TransactionState.DRAFT"
    and "TransactionState.COMMITTED \<in> set (states_of t ops)"
  shows "(\<exists>steps rest. states_of t ops = [PROPOSED, VALIDATING] @ steps @
      [TransactionState.RESERVED, AUTHORIZED, EXECUTING] @ rest \<and>
      steps \<in> {[], [TransactionState.STEP_UP_REQUIRED, USER_APPROVED]}) \<and>
    ROLLED_BACK \<notin> set (states_of t ops) \<and> length (states_of t ops) \<le> 11"
proof -
  have path: "txn_path TransactionState.DRAFT (states_of t ops)" using states_of_path [of t ops] assms(1) by simp
  then obtain ss where ss: "states_of t ops = PROPOSED # VALIDATING # ss" "txn_path VALIDATING ss"
    using assms(2) by (cases "states_of t ops"; simp; cases "tl (states_of t ops)") (auto simp: can_transition_to_def)
  then have "TransactionState.COMMITTED \<in> set ss" using assms(2) by auto
  from path_from_validating [OF ss(2) this] have "\<exists>steps rest. states_of t ops = [PROPOSED, VALIDATING] @ steps @
      [TransactionState.RESERVED, AUTHORIZED, EXECUTING] @ rest \<and>
      steps \<in> {[], [TransactionState.STEP_UP_REQUIRED, USER_APPROVED]}" using ss(1) by auto
  moreover have "ROLLED_BACK \<notin> set (states_of t ops)"
    using path_outcome_unique [OF path assms(2), of ROLLED_BACK] by auto
  moreover have "length (states_of t ops) \<le> 11"
    using txn_path_rank [OF path] txn_rank_le [of "txn_end TransactionState.DRAFT (states_of t ops)"] by simp
  ultimately show ?thesis by blast
qed

definition sample_transaction :: "TransactionState \<Rightarrow> Transaction" where
  "sample_transaction st = \<lparr>tx_transaction_id = ''t'', tx_buyer_id = ''b'', tx_merchant_id = ''s'',
     tx_mandate_id = ''m'', tx_mandate_version = 1, tx_policy_version = 1, tx_cart_id = None,
     tx_cart_hash = Some ''h'', tx_amount_paise = 50, tx_currency = INR, tx_state = st,
     tx_rejection_reason = None, tx_rejection_detail = None, tx_idempotency_key = ''k'', tx_nonce = None,
     tx_created_at = 0, tx_updated_at = 0, tx_step_up_required_at = None, tx_step_up_approved_at = None,
     tx_step_up_amount_paise = None, tx_razorpay_order_id = None, tx_razorpay_payment_id = None\<rparr>"

definition sample_life :: "transition_op list" where
  "sample_life = map (\<lambda>s. Transition s no_fields 0)
     [PROPOSED, COMPLETED, VALIDATING, TransactionState.RESERVED, AUTHORIZED, EXECUTING, TransactionState.COMMITTED]"

theorem committed_life_witness:
  "length (states_of (sample_transaction TransactionState.DRAFT) sample_life) \<le> 11"
proof -
  have "TransactionState.COMMITTED \<in> set (states_of (sample_transaction TransactionState.DRAFT) sample_life)"
    by (simp add: sample_life_def sample_transaction_def transition_transaction_def no_fields_def Let_def)
  then show ?thesis
    using committed_life [of "sample_transaction TransactionState.DRAFT" sample_life]
    by (simp add: sample_transaction_def)
qed

text \<open>A rejection always carries its reason and nothing else does: the consistency rule that the
  constructor checks survives every sequence of transitions, which copy the record without
  validating it again.\<close>

theorem rejection_consistency:
  assumes "check_transaction t = Inr t'"
  shows "rejection_consistent (snd (run_ops transition_step t' ops))"
proof -
  have "rejection_consistent t'"
    using assms by (auto simp: check_transaction_def rejection_consistent_def split: if_splits)
  then show ?thesis by (intro transition_lifecycle.inv_run) simp_all
qed

theorem rejection_consistency_witness:
  "rejection_consistent (snd (run_ops transition_step (sample_transaction TransactionState.DRAFT) sample_life))"
  by (rule rejection_consistency [of "sample_transaction TransactionState.DRAFT"])
    (simp add: check_transaction_def sample_transaction_def)

end
