(* ===== verification/Execution.thy ===== *)
theory Execution
  imports Transactions Control_Outcome Json
begin

text \<open>
  The payment execution boundary: the contracts of \<open>apps/api/domain/execution.py\<close>,
  \<open>apps/api/contracts/execution.py\<close> and \<open>apps/api/contracts/authorization.py\<close>, and the in-memory
  service of \<open>apps/api/domain/execution_engine.py\<close>. The payment provider is outside the service: the
  answer of \<open>adapter.execute_payment\<close> is a function \<open>pay\<close> and the answer of
  \<open>adapter.fetch_payment_status\<close> a function \<open>fetch\<close>, arguments of the definitions that call them; both
  may raise. \<open>pes_sent\<close> logs the requests that the adapter received (the provider's side of the
  call, which \<open>MockRazorpayAdapter\<close> keeps as \<open>executed_requests\<close>). Every public method runs under
  the service's lock and is one step.
\<close>

section \<open>Contracts\<close>

datatype ExecutionFailureCategory =
    AUTHORIZATION_FAILED | AUTHENTICATION_ERROR | VALIDATION_ERROR | RATE_LIMIT_EXCEEDED | TIMEOUT
  | CONNECTION_FAILED | PROVIDER_REJECTED | IDEMPOTENCY_CONFLICT | UNKNOWN_PROVIDER_ERROR
  | INVALID_CONTEXT

fun failure_category_value :: "ExecutionFailureCategory \<Rightarrow> string" where
  "failure_category_value AUTHORIZATION_FAILED = ''AUTHORIZATION_FAILED''"
| "failure_category_value AUTHENTICATION_ERROR = ''AUTHENTICATION_ERROR''"
| "failure_category_value VALIDATION_ERROR = ''VALIDATION_ERROR''"
| "failure_category_value RATE_LIMIT_EXCEEDED = ''RATE_LIMIT_EXCEEDED''"
| "failure_category_value TIMEOUT = ''TIMEOUT''"
| "failure_category_value CONNECTION_FAILED = ''CONNECTION_FAILED''"
| "failure_category_value PROVIDER_REJECTED = ''PROVIDER_REJECTED''"
| "failure_category_value IDEMPOTENCY_CONFLICT = ''IDEMPOTENCY_CONFLICT''"
| "failure_category_value UNKNOWN_PROVIDER_ERROR = ''UNKNOWN_PROVIDER_ERROR''"
| "failure_category_value INVALID_CONTEXT = ''INVALID_CONTEXT''"

fun payment_result_value :: "PaymentResultState \<Rightarrow> string" where
  "payment_result_value PaymentResultState.PENDING = ''PENDING''"
| "payment_result_value PaymentResultState.SUCCESS = ''SUCCESS''"
| "payment_result_value PaymentResultState.FAILED = ''FAILED''"
| "payment_result_value PaymentResultState.EXPIRED = ''EXPIRED''"
| "payment_result_value UNKNOWN = ''UNKNOWN''"

record TrustedExecutionRequest =
  ter_transaction_id :: string
  ter_merchant_id :: string
  ter_buyer_id :: string
  ter_mandate_id :: string
  ter_amount_paise :: int
  ter_currency :: Currency
  ter_cart_hash :: string
  ter_operation :: McpOperation
  ter_authorization_reference :: json
  ter_idempotency_key :: string
  ter_execution_context :: "string \<rightharpoonup> string"

record ExecutionResult =
  exr_success :: bool
  exr_transaction_id :: string
  exr_state :: TransactionState
  exr_external_reference :: "string option"
  exr_failure_code :: "RejectionReason option"
  exr_failure_category :: "ExecutionFailureCategory option"
  exr_safe_message :: msg
  exr_idempotent_replay :: bool
  exr_provider_status :: "PaymentResultState option"
  exr_raw_response_redacted :: "json option"
  exr_executed_at :: datetime

record ExecutionAuditEvidence =
  exa_transaction_id :: string
  exa_merchant_id :: string
  exa_buyer_id :: string
  exa_mandate_id :: string
  exa_operation :: string
  exa_amount_paise :: int
  exa_currency :: string
  exa_authorization_reference :: json
  exa_execution_result_success :: bool
  exa_external_reference :: "string option"
  exa_failure_category :: "string option"
  exa_provider_status :: "string option"
  exa_timestamp :: datetime

record ExecuteProposal =
  prop_transaction_id :: string
  prop_merchant_id :: string
  prop_buyer_id :: string
  prop_mandate_id :: string
  prop_amount_paise :: int
  prop_currency :: Currency
  prop_cart_hash :: string
  prop_operation :: McpOperation
  prop_idempotency_key :: string
  prop_untrusted_metadata :: "string \<rightharpoonup> json"

record AuthorizationResult =
  aur_decision :: PolicyDecision
  aur_control_outcomes :: "SecurityControlOutcome list"
  aur_rejection_reason :: "RejectionReason option"
  aur_rejection_detail :: "msg option"
  aur_decision_trace :: "string \<rightharpoonup> json"

record PaymentExecutionService =
  pes_transactions :: "string \<rightharpoonup> Transaction"
  pes_results :: "string \<rightharpoonup> ExecutionResult"
  pes_audit_events :: "ExecutionAuditEvidence list"
  pes_sent :: "TrustedExecutionRequest list"

definition execution_service_init :: PaymentExecutionService where
  "execution_service_init =
     \<lparr>pes_transactions = Map.empty, pes_results = Map.empty, pes_audit_events = [], pes_sent = []\<rparr>"

definition register_transaction :: "PaymentExecutionService \<Rightarrow> Transaction \<Rightarrow> PaymentExecutionService" where
  "register_transaction s t =
     s\<lparr>pes_transactions := (pes_transactions s)(tx_transaction_id t \<mapsto> t)\<rparr>"

definition get_transaction :: "PaymentExecutionService \<Rightarrow> string \<Rightarrow> Transaction option" where
  "get_transaction s tid = pes_transactions s tid"

definition get_execution_result :: "PaymentExecutionService \<Rightarrow> string \<Rightarrow> ExecutionResult option" where
  "get_execution_result s tid = pes_results s tid"

section \<open>Rejections\<close>

definition reject_result ::
  "string \<Rightarrow> RejectionReason \<Rightarrow> ExecutionFailureCategory \<Rightarrow> msg \<Rightarrow> datetime \<Rightarrow> ExecutionResult" where
  "reject_result tid reason category message now =
     \<lparr>exr_success = False, exr_transaction_id = tid, exr_state = TransactionState.REJECTED,
      exr_external_reference = None, exr_failure_code = Some reason,
      exr_failure_category = Some category, exr_safe_message = message,
      exr_idempotent_replay = False, exr_provider_status = Some PaymentResultState.FAILED,
      exr_raw_response_redacted = None, exr_executed_at = now\<rparr>"

definition reject_execution ::
  "PaymentExecutionService \<Rightarrow> Transaction \<Rightarrow> RejectionReason \<Rightarrow> ExecutionFailureCategory \<Rightarrow> msg \<Rightarrow>
   datetime \<Rightarrow> ExecutionResult \<times> PaymentExecutionService" where
  \<comment> \<open>the transition is attempted and its exception is swallowed\<close>
  "reject_execution s t reason category message now =
     (let s1 = (if tx_state t \<noteq> TransactionState.REJECTED then
                  (case transition_transaction t TransactionState.REJECTED
                          (no_fields\<lparr>tf_rejection_reason := Some reason,
                                     tf_rejection_detail := Some message\<rparr>) now of
                     Inl _ \<Rightarrow> s
                   | Inr t' \<Rightarrow> s\<lparr>pes_transactions := (pes_transactions s)(tx_transaction_id t \<mapsto> t')\<rparr>)
                else s);
          r = reject_result (tx_transaction_id t) reason category message now
      in (r, s1\<lparr>pes_results := (pes_results s1)(tx_transaction_id t \<mapsto> r)\<rparr>))"

section \<open>The checks before execution\<close>

definition outcome_named :: "SecurityControlOutcome list \<Rightarrow> string \<Rightarrow> SecurityControlOutcome option" where
  \<comment> \<open>the dictionary by control name: the last outcome of a name counts\<close>
  "outcome_named cs n = find (\<lambda>c. sco_control_name c = n) (rev cs)"

definition required_controls :: "string list" where
  "required_controls = [''MANDATE_EVALUATION'', ''MERCHANT_POLICY'', ''CART_INTEGRITY'',
     ''BUDGET_RESERVATION'', ''REPLAY_PROTECTION'', ''NONCE_VALIDATION'']"

definition control_satisfied :: "SecurityControlOutcome list \<Rightarrow> string \<Rightarrow> bool" where
  "control_satisfied cs n = (case outcome_named cs n of None \<Rightarrow> False | Some c \<Rightarrow> sco_decision c = ALLOW)"

type_synonym execution_rejection = "RejectionReason \<times> ExecutionFailureCategory \<times> msg"

definition verify_pre_execution_auth :: "AuthorizationResult \<Rightarrow> execution_rejection option" where
  \<comment> \<open>\<open>None\<close> when the gate passes; the caller records the rejection by \<open>reject_execution\<close>\<close>
  "verify_pre_execution_auth a =
     (if aur_decision a \<noteq> ALLOW then
        Some (option_or (aur_rejection_reason a) METHOD_NOT_AUTHORIZED, AUTHORIZATION_FAILED,
          Msg ''Execution blocked: Authorization decision is {}.'' [PStr (decision_value (aur_decision a))])
      else case find (\<lambda>n. \<not> control_satisfied (aur_control_outcomes a) n) required_controls of
        Some n \<Rightarrow> Some (CONTROL_RESULT_MISSING, AUTHORIZATION_FAILED,
          Msg ''Execution blocked: Security control {} not satisfied.'' [PStr n])
      | None \<Rightarrow>
          (case outcome_named (aur_control_outcomes a) ''STEP_UP_AUTHORIZATION'' of
             Some c \<Rightarrow>
               if sco_decision c \<noteq> ALLOW then
                 Some (STEP_UP_CONFIRMATION_INVALID, AUTHORIZATION_FAILED,
                   Msg ''Execution blocked: Step-up authorization required but not approved.'' [])
               else None
           | None \<Rightarrow> None))"

definition verify_context_and_operation :: "ExecuteProposal \<Rightarrow> Transaction \<Rightarrow> execution_rejection option" where
  "verify_context_and_operation p t =
     (if prop_transaction_id p \<noteq> tx_transaction_id t then
        Some (INVALID_TRANSACTION_STATE, INVALID_CONTEXT,
          Msg ''Transaction ID mismatch between proposal and authorized transaction.'' [])
      else if prop_merchant_id p \<noteq> tx_merchant_id t then
        Some (MERCHANT_MISMATCH, INVALID_CONTEXT,
          Msg ''Merchant ID mismatch between proposal and authorized transaction.'' [])
      else if prop_buyer_id p \<noteq> tx_buyer_id t then
        Some (MANDATE_NOT_IN_SCOPE, INVALID_CONTEXT,
          Msg ''Buyer ID mismatch between proposal and authorized transaction.'' [])
      else if prop_mandate_id p \<noteq> tx_mandate_id t then
        Some (MANDATE_NOT_IN_SCOPE, INVALID_CONTEXT,
          Msg ''Mandate ID mismatch between proposal and authorized transaction.'' [])
      else if prop_amount_paise p \<noteq> tx_amount_paise t then
        Some (INVALID_AMOUNT, INVALID_CONTEXT, Msg ''Amount mismatch: proposed {} != authorized {}.''
          [PInt (prop_amount_paise p), PInt (tx_amount_paise t)])
      else if prop_currency p \<noteq> tx_currency t then
        Some (CURRENCY_MISMATCH, INVALID_CONTEXT, Msg ''Currency mismatch: proposed {} != authorized {}.''
          [PStr (currency_value (prop_currency p)), PStr (currency_value (tx_currency t))])
      else if (case tx_cart_hash t of None \<Rightarrow> False
               | Some h \<Rightarrow> h \<noteq> [] \<and> norm_hash (prop_cart_hash p) \<noteq> norm_hash h) then
        Some (CART_INTEGRITY_VIOLATION, INVALID_CONTEXT,
          Msg ''Cart hash mismatch between proposal and authorized transaction.'' [])
      else if is_blocked_by_default (prop_operation p) then
        Some (OPERATION_NOT_ALLOWED, VALIDATION_ERROR,
          Msg ''Operation {} is dangerous and blocked by default.'' [PStr (mcp_value (prop_operation p))])
      else if prop_operation p \<notin> {CREATE_ORDER, CREATE_PAYMENT_LINK, FETCH_PAYMENT} then
        Some (OPERATION_NOT_ALLOWED, VALIDATION_ERROR,
          Msg ''Operation {} not allowed.'' [PStr (mcp_value (prop_operation p))])
      else None)"

section \<open>Reconciliation\<close>

definition two_transitions ::
  "Transaction \<Rightarrow> TransactionState \<Rightarrow> TransitionFields \<Rightarrow> TransactionState \<Rightarrow> datetime \<Rightarrow> Transaction res" where
  "two_transitions t st1 f st2 now =
     bind_res (transition_transaction t st1 f now) (\<lambda>t'. transition_transaction t' st2 no_fields now)"

definition store_outcome ::
  "PaymentExecutionService \<Rightarrow> string \<Rightarrow> Transaction \<Rightarrow> ExecutionResult \<Rightarrow> PaymentExecutionService" where
  "store_outcome s tid t r = s\<lparr>pes_transactions := (pes_transactions s)(tid \<mapsto> t),
     pes_results := (pes_results s)(tid \<mapsto> r)\<rparr>"

definition or_else :: "string option \<Rightarrow> string option \<Rightarrow> string \<Rightarrow> string" where
  \<comment> \<open>\<open>a or b or c\<close> on optional strings\<close>
  "or_else a b c =
     (case a of Some x \<Rightarrow> if x \<noteq> [] then x else (case b of Some y \<Rightarrow> if y \<noteq> [] then y else c | None \<Rightarrow> c)
      | None \<Rightarrow> (case b of Some y \<Rightarrow> if y \<noteq> [] then y else c | None \<Rightarrow> c))"

definition reconcile_payment_status ::
  "(string \<Rightarrow> ExecutionResult res) \<Rightarrow> PaymentExecutionService \<Rightarrow> string \<Rightarrow> string option \<Rightarrow> datetime \<Rightarrow>
   ExecutionResult res \<times> PaymentExecutionService" where
  "reconcile_payment_status fetch s tid ext now =
     (case pes_transactions s tid of
        None \<Rightarrow>
          (Inr \<lparr>exr_success = False, exr_transaction_id = tid, exr_state = TransactionState.REJECTED,
             exr_external_reference = None, exr_failure_code = Some INVALID_TRANSACTION_STATE,
             exr_failure_category = Some INVALID_CONTEXT,
             exr_safe_message = Msg ''Transaction {} not found for reconciliation.'' [PStr tid],
             exr_idempotent_replay = False, exr_provider_status = None,
             exr_raw_response_redacted = None, exr_executed_at = now\<rparr>, s)
      | Some t \<Rightarrow>
          if is_terminal t \<and> pes_results s tid \<noteq> None then (Inr (the (pes_results s tid)), s)
          else
            let ref = or_else ext (tx_razorpay_order_id t) (tx_transaction_id t) in
            case fetch ref of
              Inl e \<Rightarrow> (Inl e, s)
            | Inr st \<Rightarrow>
                if exr_provider_status st = Some PaymentResultState.SUCCESS then
                  (case two_transitions t TransactionState.SUCCESS
                          (no_fields\<lparr>tf_razorpay_order_id := Some ref\<rparr>) TransactionState.COMMITTED now of
                     Inl e \<Rightarrow> (Inl e, s)
                   | Inr t' \<Rightarrow>
                       let r = \<lparr>exr_success = True, exr_transaction_id = tid,
                         exr_state = TransactionState.COMMITTED, exr_external_reference = Some ref,
                         exr_failure_code = None, exr_failure_category = None,
                         exr_safe_message = Msg ''Payment status successfully reconciled to SUCCESS.'' [],
                         exr_idempotent_replay = False,
                         exr_provider_status = Some PaymentResultState.SUCCESS,
                         exr_raw_response_redacted = None, exr_executed_at = now\<rparr>
                       in (Inr r, store_outcome s tid t' r))
                else if exr_provider_status st \<in>
                    {Some PaymentResultState.FAILED, Some PaymentResultState.EXPIRED} then
                  (case two_transitions t FAILURE no_fields ROLLED_BACK now of
                     Inl e \<Rightarrow> (Inl e, s)
                   | Inr t' \<Rightarrow>
                       let r = \<lparr>exr_success = False, exr_transaction_id = tid,
                         exr_state = ROLLED_BACK, exr_external_reference = Some ref,
                         exr_failure_code = Some METHOD_NOT_AUTHORIZED,
                         exr_failure_category = Some PROVIDER_REJECTED,
                         exr_safe_message = Msg ''Payment status successfully reconciled to FAILED.'' [],
                         exr_idempotent_replay = False,
                         exr_provider_status = Some PaymentResultState.FAILED,
                         exr_raw_response_redacted = None, exr_executed_at = now\<rparr>
                       in (Inr r, store_outcome s tid t' r))
                else
                  let r = \<lparr>exr_success = False, exr_transaction_id = tid, exr_state = EXECUTING,
                    exr_external_reference = Some ref, exr_failure_code = Some AUTHORIZATION_EXPIRED,
                    exr_failure_category = Some TIMEOUT,
                    exr_safe_message = Msg ''Payment status reconciliation returned UNKNOWN. Transaction remains in EXECUTING state.'' [],
                    exr_idempotent_replay = False, exr_provider_status = Some UNKNOWN,
                    exr_raw_response_redacted = None, exr_executed_at = now\<rparr>
                  in (Inr r, s\<lparr>pes_results := (pes_results s)(tid \<mapsto> r)\<rparr>))"

section \<open>Execution\<close>

definition trusted_request ::
  "Transaction \<Rightarrow> ExecuteProposal \<Rightarrow> AuthorizationResult \<Rightarrow> TrustedExecutionRequest" where
  "trusted_request t p a =
     \<lparr>ter_transaction_id = tx_transaction_id t, ter_merchant_id = tx_merchant_id t,
      ter_buyer_id = tx_buyer_id t, ter_mandate_id = tx_mandate_id t,
      ter_amount_paise = tx_amount_paise t, ter_currency = tx_currency t,
      ter_cart_hash = or_else (tx_cart_hash t) None (prop_cart_hash p),
      ter_operation = prop_operation p,
      ter_authorization_reference = option_or (aur_decision_trace a ''authorization_reference'')
        (JStr (''auth_'' @ take 8 (tx_transaction_id t))),
      ter_idempotency_key = ''exec:'' @ tx_transaction_id t, ter_execution_context = Map.empty\<rparr>"

definition settle_outcome ::
  "Transaction \<Rightarrow> ExecutionResult \<Rightarrow> datetime \<Rightarrow> (Transaction \<times> ExecutionResult) res" where
  \<comment> \<open>step 7: the final record and result for the provider's answer \<open>r\<close>\<close>
  "settle_outcome t r now =
     (if exr_success r then
        bind_res (two_transitions t TransactionState.SUCCESS
                    (no_fields\<lparr>tf_razorpay_order_id := exr_external_reference r\<rparr>)
                    TransactionState.COMMITTED now)
          (\<lambda>t'. Inr (t', \<lparr>exr_success = True, exr_transaction_id = tx_transaction_id t',
            exr_state = TransactionState.COMMITTED, exr_external_reference = exr_external_reference r,
            exr_failure_code = None, exr_failure_category = None, exr_safe_message = exr_safe_message r,
            exr_idempotent_replay = False, exr_provider_status = Some PaymentResultState.SUCCESS,
            exr_raw_response_redacted = exr_raw_response_redacted r,
            exr_executed_at = exr_executed_at r\<rparr>))
      else if exr_provider_status r = Some UNKNOWN then
        Inr (t, \<lparr>exr_success = False, exr_transaction_id = tx_transaction_id t, exr_state = EXECUTING,
            exr_external_reference = exr_external_reference r,
            exr_failure_code = Some (option_or (exr_failure_code r) AUTHORIZATION_EXPIRED),
            exr_failure_category = Some (option_or (exr_failure_category r) TIMEOUT),
            exr_safe_message = msg_or (Some (exr_safe_message r))
              (Msg ''Payment outcome is UNKNOWN due to gateway timeout. Status reconciliation required.'' []),
            exr_idempotent_replay = False, exr_provider_status = Some UNKNOWN,
            exr_raw_response_redacted = exr_raw_response_redacted r,
            exr_executed_at = exr_executed_at r\<rparr>)
      else
        bind_res (two_transitions t FAILURE no_fields ROLLED_BACK now)
          (\<lambda>t'. Inr (t', \<lparr>exr_success = False, exr_transaction_id = tx_transaction_id t',
            exr_state = ROLLED_BACK, exr_external_reference = exr_external_reference r,
            exr_failure_code = Some (option_or (exr_failure_code r) METHOD_NOT_AUTHORIZED),
            exr_failure_category = exr_failure_category r, exr_safe_message = exr_safe_message r,
            exr_idempotent_replay = False,
            exr_provider_status = Some (option_or (exr_provider_status r) PaymentResultState.FAILED),
            exr_raw_response_redacted = exr_raw_response_redacted r,
            exr_executed_at = exr_executed_at r\<rparr>)))"

definition audit_evidence ::
  "Transaction \<Rightarrow> ExecuteProposal \<Rightarrow> TrustedExecutionRequest \<Rightarrow> ExecutionResult \<Rightarrow> datetime \<Rightarrow>
   ExecutionAuditEvidence" where
  "audit_evidence t p req r now =
     \<lparr>exa_transaction_id = tx_transaction_id t, exa_merchant_id = tx_merchant_id t,
      exa_buyer_id = tx_buyer_id t, exa_mandate_id = tx_mandate_id t,
      exa_operation = mcp_value (prop_operation p), exa_amount_paise = tx_amount_paise t,
      exa_currency = currency_value (tx_currency t),
      exa_authorization_reference = ter_authorization_reference req,
      exa_execution_result_success = exr_success r, exa_external_reference = exr_external_reference r,
      exa_failure_category = map_option failure_category_value (exr_failure_category r),
      exa_provider_status = map_option payment_result_value (exr_provider_status r),
      exa_timestamp = now\<rparr>"

definition dispatch_payment ::
  "(TrustedExecutionRequest \<Rightarrow> ExecutionResult res) \<Rightarrow> PaymentExecutionService \<Rightarrow> ExecuteProposal \<Rightarrow>
   AuthorizationResult \<Rightarrow> Transaction \<Rightarrow> Transaction \<Rightarrow> datetime \<Rightarrow>
   ExecutionResult res \<times> PaymentExecutionService" where
  \<comment> \<open>steps 5 to 8, where \<open>t'\<close> is the claimed record of \<open>t\<close>\<close>
  "dispatch_payment pay s p a t t' now =
     (let req = trusted_request t' p a;
          s1 = s\<lparr>pes_sent := pes_sent s @ [req]\<rparr>
      in case pay req of
           Inl e \<Rightarrow> (Inl e, s1)
         | Inr answer \<Rightarrow>
             (case settle_outcome t' answer now of
                Inl e \<Rightarrow> (Inl e, s1)
              | Inr (final_tx, r) \<Rightarrow>
                  (Inr r, (store_outcome s1 (tx_transaction_id t) final_tx r)
                     \<lparr>pes_audit_events := pes_audit_events s @ [audit_evidence t p req r now]\<rparr>)))"

definition execute_payment ::
  "(TrustedExecutionRequest \<Rightarrow> ExecutionResult res) \<Rightarrow> (string \<Rightarrow> ExecutionResult res) \<Rightarrow>
   PaymentExecutionService \<Rightarrow> ExecuteProposal \<Rightarrow> AuthorizationResult \<Rightarrow> Transaction \<Rightarrow> datetime \<Rightarrow>
   ExecutionResult res \<times> PaymentExecutionService" where
  "execute_payment pay fetch s p a t now =
     (let tid = tx_transaction_id t in
      case pes_results s tid of
        Some r \<Rightarrow>
          if exr_provider_status r = Some UNKNOWN then reconcile_payment_status fetch s tid None now
          else (Inr (r\<lparr>exr_idempotent_replay := True\<rparr>), s)
      | None \<Rightarrow>
          let s1 = register_transaction s t in
          case verify_pre_execution_auth a of
            Some (reason, category, message) \<Rightarrow> map_prod Inr id (reject_execution s1 t reason category message now)
          | None \<Rightarrow>
              (case verify_context_and_operation p t of
                 Some (reason, category, message) \<Rightarrow> map_prod Inr id (reject_execution s1 t reason category message now)
               | None \<Rightarrow>
                   if \<not> is_executable t then
                     map_prod Inr id (reject_execution s1 t INVALID_TRANSACTION_STATE INVALID_CONTEXT
                       (Msg ''Transaction in state {} cannot be executed.'' [PStr (txn_state_value (tx_state t))]) now)
                   else
                     (case transition_transaction t EXECUTING no_fields now of
                        Inl (Raise _ m) \<Rightarrow> map_prod Inr id (reject_execution s1 t INVALID_TRANSACTION_STATE INVALID_CONTEXT
                          (Msg ''Failed to claim EXECUTING state: {}'' [PStr (msg_text m)]) now)
                      | Inr t' \<Rightarrow> dispatch_payment pay (register_transaction s1 t') p a t t' now)))"

section \<open>What the operations do to the service\<close>

lemma reject_execution_effect [simp]:
  "pes_sent (snd (reject_execution s t reason category m now)) = pes_sent s"
  "pes_results (snd (reject_execution s t reason category m now)) = (pes_results s)
     (tx_transaction_id t \<mapsto> reject_result (tx_transaction_id t) reason category m now)"
  "fst (reject_execution s t reason category m now) = reject_result (tx_transaction_id t) reason category m now"
  by (auto simp: reject_execution_def Let_def split: sum.splits)

lemma reconcile_effect:
  assumes "reconcile_payment_status fetch s tid ext now = (out, s')"
  shows "pes_sent s' = pes_sent s" "pes_results s k \<noteq> None \<Longrightarrow> pes_results s' k \<noteq> None"
proof -
  have "pes_sent s' = pes_sent s \<and> (s' = s \<or> (\<exists>r. pes_results s' = (pes_results s)(tid \<mapsto> r)))"
  proof (cases "pes_transactions s tid")
    case None
    then show ?thesis using assms by (simp add: reconcile_payment_status_def)
  next
    case (Some t)
    show ?thesis
    proof (cases "is_terminal t \<and> pes_results s tid \<noteq> None")
      case True
      then show ?thesis using assms Some by (simp add: reconcile_payment_status_def)
    next
      case False
      then show ?thesis using assms Some
        by (auto simp: reconcile_payment_status_def Let_def store_outcome_def split: sum.splits if_splits)
    qed
  qed
  then show "pes_sent s' = pes_sent s" "pes_results s k \<noteq> None \<Longrightarrow> pes_results s' k \<noteq> None" by auto
qed

lemma claim_ok:
  assumes "is_executable t"
  obtains t' where "transition_transaction t EXECUTING no_fields now = Inr t'" "tx_state t' = EXECUTING"
    "tx_transaction_id t' = tx_transaction_id t" "tx_amount_paise t' = tx_amount_paise t"
    "tx_merchant_id t' = tx_merchant_id t" "tx_buyer_id t' = tx_buyer_id t"
    "tx_mandate_id t' = tx_mandate_id t" "tx_currency t' = tx_currency t" "tx_cart_hash t' = tx_cart_hash t"
  using assms by (auto simp: is_executable_def txn_can_execute_def transition_transaction_def no_fields_def)

lemma two_transitions_ok:
  "tx_state t = EXECUTING \<Longrightarrow> tf_rejection_reason f = None \<Longrightarrow>
     (st1, st2) \<in> {(TransactionState.SUCCESS, TransactionState.COMMITTED), (FAILURE, ROLLED_BACK)} \<Longrightarrow>
     \<exists>t'. two_transitions t st1 f st2 now = Inr t' \<and> tx_state t' = st2 \<and>
       tx_transaction_id t' = tx_transaction_id t"
  by (auto simp: two_transitions_def transition_transaction_def no_fields_def)

lemma settle_ok:
  assumes "tx_state t = EXECUTING"
  shows "\<exists>t' r. settle_outcome t answer now = Inr (t', r) \<and> exr_state r = tx_state t' \<and>
    tx_state t' \<in> {TransactionState.COMMITTED, EXECUTING, ROLLED_BACK} \<and>
    (exr_success r \<longleftrightarrow> tx_state t' = TransactionState.COMMITTED)"
proof -
  obtain a where "two_transitions t TransactionState.SUCCESS
      (no_fields\<lparr>tf_razorpay_order_id := exr_external_reference answer\<rparr>) TransactionState.COMMITTED now = Inr a"
    "tx_state a = TransactionState.COMMITTED"
    using two_transitions_ok [OF assms, of "no_fields\<lparr>tf_razorpay_order_id := exr_external_reference answer\<rparr>"
        TransactionState.SUCCESS TransactionState.COMMITTED now] by (auto simp: no_fields_def)
  moreover obtain b where "two_transitions t FAILURE no_fields ROLLED_BACK now = Inr b" "tx_state b = ROLLED_BACK"
    using two_transitions_ok [OF assms, of no_fields FAILURE ROLLED_BACK now] by (auto simp: no_fields_def)
  ultimately show ?thesis using assms by (simp add: settle_outcome_def)
qed

definition execution_cleared :: "ExecuteProposal \<Rightarrow> AuthorizationResult \<Rightarrow> Transaction \<Rightarrow> bool" where
  \<comment> \<open>every check before the provider is called\<close>
  "execution_cleared p a t \<longleftrightarrow> verify_pre_execution_auth a = None \<and>
     verify_context_and_operation p t = None \<and> is_executable t"

lemma execute_payment_cases:
  assumes "execute_payment pay fetch s p a t now = (out, s')"
  obtains (known) r where "pes_results s (tx_transaction_id t) = Some r" "pes_sent s' = pes_sent s"
      "\<And>k. pes_results s k \<noteq> None \<Longrightarrow> pes_results s' k \<noteq> None"
  | (rejected) reason category m where "pes_results s (tx_transaction_id t) = None"
      "\<not> execution_cleared p a t"
      "(out, s') = map_prod Inr id (reject_execution (register_transaction s t) t reason category m now)"
  | (dispatched) t' where "pes_results s (tx_transaction_id t) = None" "execution_cleared p a t"
      "transition_transaction t EXECUTING no_fields now = Inr t'"
      "(out, s') = dispatch_payment pay (register_transaction (register_transaction s t) t') p a t t' now"
proof (cases "pes_results s (tx_transaction_id t)")
  case (Some r)
  have sent: "pes_sent s' = pes_sent s \<and> (\<forall>k. pes_results s k \<noteq> None \<longrightarrow> pes_results s' k \<noteq> None)"
  proof (cases "exr_provider_status r = Some UNKNOWN")
    case True
    then have "reconcile_payment_status fetch s (tx_transaction_id t) None now = (out, s')"
      using assms Some by (simp add: execute_payment_def)
    from reconcile_effect [OF this] show ?thesis by blast
  next
    case False
    then show ?thesis using assms Some by (simp add: execute_payment_def)
  qed
  then show ?thesis using known [OF Some] by blast
next
  case None
  show ?thesis
  proof (cases "execution_cleared p a t")
    case True
    then obtain t' where "transition_transaction t EXECUTING no_fields now = Inr t'"
      using claim_ok [of t now] by (auto simp: execution_cleared_def)
    then show ?thesis using assms None True dispatched
      by (simp add: execute_payment_def execution_cleared_def Let_def)
  next
    case False
    then have "\<exists>reason category m. map_prod Inr id
        (reject_execution (register_transaction s t) t reason category m now) = (out, s')"
      using assms None
      by (auto simp: execute_payment_def execution_cleared_def Let_def split: option.splits if_splits)
    then show ?thesis using rejected [OF None False] by metis
  qed
qed

section \<open>The service as a machine\<close>

datatype execution_op =
    Register Transaction
  | Execute "TrustedExecutionRequest \<Rightarrow> ExecutionResult res" "string \<Rightarrow> ExecutionResult res"
      ExecuteProposal AuthorizationResult Transaction datetime
  | Reconcile "string \<Rightarrow> ExecutionResult res" string "string option" datetime

fun execution_call ::
  "PaymentExecutionService \<Rightarrow> execution_op \<Rightarrow> ExecutionResult res option \<times> PaymentExecutionService" where
  "execution_call s (Register t) = (None, register_transaction s t)"
| "execution_call s (Execute pay fetch p a t now) = map_prod Some id (execute_payment pay fetch s p a t now)"
| "execution_call s (Reconcile fetch tid ext now) =
     map_prod Some id (reconcile_payment_status fetch s tid ext now)"

definition adapter_answers :: "PaymentExecutionService \<Rightarrow> execution_op \<Rightarrow> bool" where
  \<comment> \<open>the adapter returns a result and never raises\<close>
  "adapter_answers s x = (case x of Execute pay _ _ _ _ _ \<Rightarrow> (\<forall>req. is_ok (pay req)) | _ \<Rightarrow> True)"

definition sent_for :: "PaymentExecutionService \<Rightarrow> string \<Rightarrow> nat" where
  \<comment> \<open>how many requests for a transaction the provider has received\<close>
  "sent_for s k = length (filter (\<lambda>r. ter_transaction_id r = k) (pes_sent s))"

definition sent_once :: "PaymentExecutionService \<Rightarrow> bool" where
  "sent_once s \<longleftrightarrow> (\<forall>k. sent_for s k \<le> (if pes_results s k = None then 0 else 1))"

lemma dispatch_sent:
  assumes "dispatch_payment pay s p a t t' now = (out, s')"
  shows "pes_sent s' = pes_sent s @ [trusted_request t' p a]"
  using assms by (auto simp: dispatch_payment_def Let_def store_outcome_def split: sum.splits prod.splits)

lemma dispatch_result:
  assumes "dispatch_payment pay s p a t t' now = (out, s')" and "is_ok (pay (trusted_request t' p a))"
    and "tx_state t' = EXECUTING"
  shows "pes_results s' (tx_transaction_id t) \<noteq> None"
    "pes_results s k \<noteq> None \<Longrightarrow> pes_results s' k \<noteq> None"
proof -
  obtain answer where "pay (trusted_request t' p a) = Inr answer"
    using assms(2) by (auto simp: is_ok_def split: sum.splits)
  then obtain final_tx r where "settle_outcome t' answer now = Inr (final_tx, r)"
    "pay (trusted_request t' p a) = Inr answer" using settle_ok [OF assms(3)] by blast
  then show "pes_results s' (tx_transaction_id t) \<noteq> None"
    "pes_results s k \<noteq> None \<Longrightarrow> pes_results s' k \<noteq> None"
    using assms(1) by (auto simp: dispatch_payment_def Let_def store_outcome_def)
qed

lemma dispatch_keeps_results:
  assumes "dispatch_payment pay s p a t t' now = (out, s')" and "pes_results s k \<noteq> None"
  shows "pes_results s' k \<noteq> None"
  using assms by (auto simp: dispatch_payment_def Let_def store_outcome_def split: sum.splits prod.splits)

lemma execute_sends:
  assumes "execute_payment pay fetch s p a t now = (out, s')"
  shows "pes_sent s' = pes_sent s \<or> (pes_results s (tx_transaction_id t) = None \<and> execution_cleared p a t \<and>
    (\<exists>t'. transition_transaction t EXECUTING no_fields now = Inr t' \<and>
      pes_sent s' = pes_sent s @ [trusted_request t' p a]))"
  using assms
proof (cases rule: execute_payment_cases)
  case (dispatched t')
  from dispatch_sent [OF dispatched(4) [symmetric]] dispatched(1-3) show ?thesis
    by (simp add: register_transaction_def)
next
  case (rejected reason category m)
  then have "s' = snd (reject_execution (register_transaction s t) t reason category m now)"
    by (cases "reject_execution (register_transaction s t) t reason category m now") simp
  then show ?thesis by (simp add: register_transaction_def)
qed simp

lemma sent_onceI:
  assumes "\<And>k. sent_for s k \<le> 1" and "\<And>k. pes_results s k = None \<Longrightarrow> sent_for s k = 0"
  shows "sent_once s"
  using assms by (auto simp: sent_once_def)

lemma sent_onceD:
  assumes "sent_once s"
  shows "sent_for s k \<le> 1" and "pes_results s k = None \<Longrightarrow> sent_for s k = 0"
  using spec [OF assms [unfolded sent_once_def], of k] by (simp_all split: if_splits)

lemma sent_once_mono:
  assumes "sent_once s" and "pes_sent s' = pes_sent s"
    and keep: "\<And>k. pes_results s k \<noteq> None \<Longrightarrow> pes_results s' k \<noteq> None"
  shows "sent_once s'"
proof (rule sent_onceI)
  fix k
  have same: "sent_for s' k = sent_for s k" using assms(2) by (simp add: sent_for_def)
  then show "sent_for s' k \<le> 1" using sent_onceD(1) [OF assms(1)] by simp
  assume "pes_results s' k = None"
  then have "pes_results s k = None" using keep [of k] by (cases "pes_results s k") simp_all
  then show "sent_for s' k = 0" using sent_onceD(2) [OF assms(1)] same by simp
qed

lemma execute_sent_once:
  assumes "sent_once s" and "\<And>req. is_ok (pay req)" and "execute_payment pay fetch s p a t now = (out, s')"
  shows "sent_once s'"
  using assms(3)
proof (cases rule: execute_payment_cases)
  case (known r)
  then show ?thesis using sent_once_mono [OF assms(1)] by blast
next
  case (rejected reason category m)
  then have s': "s' = snd (reject_execution (register_transaction s t) t reason category m now)"
    by (cases "reject_execution (register_transaction s t) t reason category m now") simp
  show ?thesis by (rule sent_once_mono [OF assms(1)]) (auto simp: s' register_transaction_def)
next
  case (dispatched t')
  obtain u where u: "transition_transaction t EXECUTING no_fields now = Inr u" "tx_state u = EXECUTING"
    "tx_transaction_id u = tx_transaction_id t"
    using dispatched(2) claim_ok [of t now] by (auto simp: execution_cleared_def)
  then have t': "tx_state t' = EXECUTING" "tx_transaction_id t' = tx_transaction_id t"
    using dispatched(3) by auto
  note run = dispatched(4) [symmetric]
  have keep: "pes_results s k \<noteq> None \<Longrightarrow> pes_results s' k \<noteq> None" for k
    using dispatch_keeps_results [OF run, of k] by (simp add: register_transaction_def)
  have new: "pes_results s' (tx_transaction_id t) \<noteq> None"
    by (rule dispatch_result(1) [OF run assms(2) t'(1)])
  have count: "sent_for s' k = sent_for s k + (if k = tx_transaction_id t then 1 else 0)" for k
    using dispatch_sent [OF run] t'(2)
    by (simp add: sent_for_def register_transaction_def trusted_request_def)
  show ?thesis
  proof (rule sent_onceI)
    fix k
    show "sent_for s' k \<le> 1"
      using count [of k] sent_onceD [OF assms(1), of k] dispatched(1) by (simp split: if_splits)
    assume none: "pes_results s' k = None"
    then have "k \<noteq> tx_transaction_id t" using new by auto
    moreover have "pes_results s k = None" using keep [of k] none by (cases "pes_results s k") simp_all
    ultimately show "sent_for s' k = 0" using count [of k] sent_onceD(2) [OF assms(1)] by simp
  qed
qed

interpretation execution_service: machine execution_call adapter_answers sent_once
proof unfold_locales
  fix s x
  assume "sent_once s" "adapter_answers s x"
  then show "sent_once (snd (execution_call s x))"
  proof (cases x)
    case (Register t)
    show ?thesis by (rule sent_once_mono [OF \<open>sent_once s\<close>]) (simp_all add: Register register_transaction_def)
  next
    case (Execute pay fetch p a t now)
    then show ?thesis using \<open>sent_once s\<close> \<open>adapter_answers s x\<close> execute_sent_once [of s pay fetch p a t now]
      by (cases "execute_payment pay fetch s p a t now") (simp add: adapter_answers_def)
  next
    case (Reconcile fetch tid ext now)
    obtain out s' where run: "reconcile_payment_status fetch s tid ext now = (out, s')"
      by (rule prod.exhaust)
    then show ?thesis using Reconcile sent_once_mono [OF \<open>sent_once s\<close>] reconcile_effect [OF run] by auto
  qed
qed

definition step_up_clear :: "SecurityControlOutcome list \<Rightarrow> bool" where
  "step_up_clear cs = (case outcome_named cs ''STEP_UP_AUTHORIZATION'' of
     None \<Rightarrow> True | Some c \<Rightarrow> sco_decision c = ALLOW)"

definition allowed_by :: "SecurityControlOutcome list \<Rightarrow> string \<Rightarrow> bool" where
  \<comment> \<open>a control of this name allows\<close>
  "allowed_by cs n \<longleftrightarrow> (\<exists>c \<in> set cs. sco_control_name c = n \<and> sco_decision c = ALLOW)"

lemma control_satisfied_allowed: "control_satisfied cs n \<Longrightarrow> allowed_by cs n"
  by (auto simp: control_satisfied_def outcome_named_def allowed_by_def find_Some_iff nth_mem
      split: option.splits) (metis length_rev nth_mem set_rev)

section \<open>Properties\<close>

text \<open>C1: No double payment. In any run of registrations, executions and reconciliations from the
  empty service, with any proposals, authorizations and provider answers, the provider receives at most
  one payment request for a transaction, as long as the adapter returns results instead of raising.\<close>

theorem payment_sent_at_most_once:
  assumes "run_adm execution_call adapter_answers execution_service_init ops"
  shows "sent_for (snd (run_ops execution_call execution_service_init ops)) k \<le> 1"
proof -
  have "sent_once (snd (run_ops execution_call execution_service_init ops))"
    using assms by (intro execution_service.inv_run)
      (simp_all add: sent_once_def sent_for_def execution_service_init_def)
  then show ?thesis by (rule sent_onceD(1))
qed

definition sample_answer :: "PaymentResultState \<Rightarrow> ExecutionResult" where
  "sample_answer st = \<lparr>exr_success = (st = PaymentResultState.SUCCESS), exr_transaction_id = ''t'',
     exr_state = EXECUTING, exr_external_reference = Some ''pay_1'', exr_failure_code = None,
     exr_failure_category = None, exr_safe_message = Msg ''ok'' [], exr_idempotent_replay = False,
     exr_provider_status = Some st, exr_raw_response_redacted = None, exr_executed_at = 0\<rparr>"

definition sample_proposal :: "int \<Rightarrow> ExecuteProposal" where
  "sample_proposal amount = \<lparr>prop_transaction_id = ''t'', prop_merchant_id = ''s'', prop_buyer_id = ''b'',
     prop_mandate_id = ''m'', prop_amount_paise = amount, prop_currency = INR, prop_cart_hash = ''h'',
     prop_operation = CREATE_ORDER, prop_idempotency_key = ''k'',
     prop_untrusted_metadata = Map.empty\<rparr>"

definition sample_authorization :: AuthorizationResult where
  "sample_authorization = \<lparr>aur_decision = ALLOW, aur_control_outcomes = map (\<lambda>n.
       \<lparr>sco_control_name = n, sco_passed = True, sco_decision = ALLOW, sco_rejection_reason = None,
        sco_detail = None, sco_step_up_diff = None\<rparr>) required_controls,
     aur_rejection_reason = None, aur_rejection_detail = None, aur_decision_trace = Map.empty\<rparr>"

lemma sample_cleared:
  "execution_cleared (sample_proposal 50) sample_authorization (sample_transaction AUTHORIZED)"
  by (simp add: execution_cleared_def verify_pre_execution_auth_def sample_authorization_def
      required_controls_def control_satisfied_def outcome_named_def verify_context_and_operation_def
      sample_proposal_def sample_transaction_def is_blocked_by_default_def is_executable_def
      txn_can_execute_def)

lemma sample_not_cleared: "amount \<noteq> 50 \<Longrightarrow>
  \<not> execution_cleared (sample_proposal amount) sample_authorization (sample_transaction AUTHORIZED)"
  by (simp add: execution_cleared_def verify_context_and_operation_def sample_proposal_def
      sample_transaction_def)

theorem payment_sent_at_most_once_witness:
  "sent_for (snd (run_ops execution_call execution_service_init
     [Execute (\<lambda>_. Inr (sample_answer UNKNOWN)) (\<lambda>_. Inr (sample_answer UNKNOWN)) (sample_proposal 50)
        sample_authorization (sample_transaction AUTHORIZED) 0,
      Execute (\<lambda>_. Inr (sample_answer UNKNOWN)) (\<lambda>_. Inr (sample_answer UNKNOWN)) (sample_proposal 50)
        sample_authorization (sample_transaction AUTHORIZED) 1])) ''t'' \<le> 1"
  by (rule payment_sent_at_most_once) (simp add: adapter_answers_def)

text \<open>C2: Only an authorized payment reaches the provider, and with the authorized terms: when an
  execution sends a request, the authorization allows, every required control (and the step-up
  control where there is one) allows, the transaction is authorized, the operation is not a dangerous
  one, and the request carries the amount, currency, merchant, buyer and mandate of the transaction,
  which the proposal repeats.\<close>

theorem sent_payment_is_authorized:
  assumes "execute_payment pay fetch s p a t now = (out, s')" and "pes_sent s' \<noteq> pes_sent s"
  shows "\<exists>req. pes_sent s' = pes_sent s @ [req] \<and> aur_decision a = ALLOW \<and>
    list_all (allowed_by (aur_control_outcomes a)) [''MANDATE_EVALUATION'', ''MERCHANT_POLICY'',
      ''CART_INTEGRITY'', ''BUDGET_RESERVATION'', ''REPLAY_PROTECTION'', ''NONCE_VALIDATION''] \<and>
    step_up_clear (aur_control_outcomes a) \<and>
    tx_state t = AUTHORIZED \<and> \<not> is_blocked_by_default (ter_operation req) \<and>
    ter_transaction_id req = tx_transaction_id t \<and>
    (ter_amount_paise req, ter_currency req, ter_merchant_id req, ter_buyer_id req, ter_mandate_id req) =
      (tx_amount_paise t, tx_currency t, tx_merchant_id t, tx_buyer_id t, tx_mandate_id t) \<and>
    (prop_amount_paise p, prop_currency p, prop_merchant_id p, prop_buyer_id p, prop_mandate_id p) =
      (tx_amount_paise t, tx_currency t, tx_merchant_id t, tx_buyer_id t, tx_mandate_id t)"
proof -
  obtain t' where t': "execution_cleared p a t" "transition_transaction t EXECUTING no_fields now = Inr t'"
    "pes_sent s' = pes_sent s @ [trusted_request t' p a]"
    using execute_sends [OF assms(1)] assms(2) by auto
  have auth: "verify_pre_execution_auth a = None" and ctx: "verify_context_and_operation p t = None"
    and st: "tx_state t = AUTHORIZED"
    using t'(1) by (simp_all add: execution_cleared_def is_executable_def txn_can_execute_def)
  have "aur_decision a = ALLOW" and req: "find (\<lambda>n. \<not> control_satisfied (aur_control_outcomes a) n) required_controls = None"
    and "step_up_clear (aur_control_outcomes a)"
    using auth by (auto simp: verify_pre_execution_auth_def step_up_clear_def split: if_splits option.splits)
  moreover have "list_all (allowed_by (aur_control_outcomes a)) [''MANDATE_EVALUATION'', ''MERCHANT_POLICY'',
      ''CART_INTEGRITY'', ''BUDGET_RESERVATION'', ''REPLAY_PROTECTION'', ''NONCE_VALIDATION'']"
    using req by (auto simp: control_satisfied_allowed required_controls_def split: if_splits)
  moreover have "\<not> is_blocked_by_default (prop_operation p)" "prop_amount_paise p = tx_amount_paise t"
    "prop_currency p = tx_currency t" "prop_merchant_id p = tx_merchant_id t"
    "prop_buyer_id p = tx_buyer_id t" "prop_mandate_id p = tx_mandate_id t"
    using ctx by (simp_all add: verify_context_and_operation_def split: if_splits)
  ultimately show ?thesis using t'(2,3) st claim_ok [of t now]
    by (auto simp: trusted_request_def is_executable_def txn_can_execute_def)
qed

definition answer_SUCCESS :: "TrustedExecutionRequest \<Rightarrow> ExecutionResult res" where
  "answer_SUCCESS r = Inr (sample_answer PaymentResultState.SUCCESS)"

theorem sent_payment_is_authorized_witness:
  "\<exists>req. pes_sent (snd (execute_payment answer_SUCCESS (\<lambda>_. Inr (sample_answer UNKNOWN))
      execution_service_init (sample_proposal 50) sample_authorization (sample_transaction AUTHORIZED) 0)) = [req]
    \<and> ter_amount_paise req = 50"
proof -
  let ?run = "execute_payment answer_SUCCESS (\<lambda>_. Inr (sample_answer UNKNOWN))
      execution_service_init (sample_proposal 50) sample_authorization (sample_transaction AUTHORIZED) 0"
  obtain out s' where run: "?run = (out, s')" by (rule prod.exhaust)
  have "pes_sent s' \<noteq> pes_sent execution_service_init"
    using run
  proof (cases rule: execute_payment_cases)
    case (known r)
    then show ?thesis by (simp add: execution_service_init_def)
  next
    case (rejected reason category m)
    then show ?thesis using sample_cleared by blast
  next
    case (dispatched t')
    from dispatch_sent [OF dispatched(4) [symmetric]] show ?thesis
      by (simp add: register_transaction_def execution_service_init_def)
  qed
  from sent_payment_is_authorized [OF run this] show ?thesis
    using run by (auto simp: execution_service_init_def sample_transaction_def)
qed

text \<open>One bad proposal blocks the payment for good. When a call for an authorized transaction fails
  any check (a tampered amount, a wrong merchant, a denied authorization), its rejection is cached:
  every later call for the transaction, with whatever proposal and authorization, replays that failure
  without calling the provider, although the stored transaction is still in state AUTHORIZED.\<close>

theorem rejected_proposal_blocks_payment:
  assumes "pes_results s (tx_transaction_id t) = None" and "tx_state t = AUTHORIZED"
    and "\<not> execution_cleared p' a' t"
    and "execute_payment pay' fetch' s p' a' t now' = (out', s')"
    and "execute_payment pay fetch s' p a t now = (out, s'')"
  shows "\<exists>r. out = Inr r \<and> \<not> exr_success r \<and> exr_idempotent_replay r \<and> pes_sent s'' = pes_sent s \<and>
    get_transaction s'' (tx_transaction_id t) = Some t"
proof -
  from assms(4) obtain reason category m where
    rej: "(out', s') = map_prod Inr id (reject_execution (register_transaction s t) t reason category m now')"
    using assms(1,3) by (cases rule: execute_payment_cases) auto
  have "\<not> is_ok (transition_transaction t TransactionState.REJECTED
      (no_fields\<lparr>tf_rejection_reason := Some reason, tf_rejection_detail := Some m\<rparr>) now')"
    by (simp add: transition_transaction_def assms(2))
  then have s': "pes_transactions s' = (pes_transactions s)(tx_transaction_id t \<mapsto> t)"
    "pes_sent s' = pes_sent s" "pes_results s' (tx_transaction_id t) =
       Some (reject_result (tx_transaction_id t) reason category m now')"
    using rej by (auto simp: reject_execution_def Let_def register_transaction_def is_ok_def assms(2)
        split: sum.splits)
  then have "(out, s'') = (Inr ((reject_result (tx_transaction_id t) reason category m now')
      \<lparr>exr_idempotent_replay := True\<rparr>), s')"
    using assms(5) by (simp add: execute_payment_def reject_result_def)
  then show ?thesis using s' by (simp add: reject_result_def get_transaction_def)
qed

theorem rejected_proposal_blocks_payment_witness:
  "\<exists>r. fst (execute_payment answer_SUCCESS (\<lambda>_. Inr (sample_answer UNKNOWN))
      (snd (execute_payment answer_SUCCESS (\<lambda>_. Inr (sample_answer UNKNOWN)) execution_service_init
         (sample_proposal 51) sample_authorization (sample_transaction AUTHORIZED) 0))
      (sample_proposal 50) sample_authorization (sample_transaction AUTHORIZED) 1) = Inr r \<and> \<not> exr_success r"
proof -
  let ?t = "sample_transaction AUTHORIZED"
  obtain out' s' where 1: "execute_payment answer_SUCCESS (\<lambda>_. Inr (sample_answer UNKNOWN)) execution_service_init
      (sample_proposal 51) sample_authorization ?t 0 = (out', s')" by (rule prod.exhaust)
  obtain out s'' where 2: "execute_payment answer_SUCCESS (\<lambda>_. Inr (sample_answer UNKNOWN)) s'
      (sample_proposal 50) sample_authorization ?t 1 = (out, s'')" by (rule prod.exhaust)
  have "pes_results execution_service_init (tx_transaction_id ?t) = None" "tx_state ?t = AUTHORIZED"
    by (simp_all add: execution_service_init_def sample_transaction_def)
  from rejected_proposal_blocks_payment [OF this sample_not_cleared 1 2] show ?thesis by (auto simp: 1 2)
qed

text \<open>Reconciliation forgets a committed payment. Against its own comment, the guard of
  \<open>reconcile_payment_status\<close> does not cover the states COMMITTED and ROLLED_BACK: when the provider
  does not know the payment of a committed transaction, its cached result is overwritten by an
  unsuccessful one in state EXECUTING.\<close>

theorem reconcile_forgets_commit:
  assumes "pes_transactions s tid = Some t" and "tx_state t = TransactionState.COMMITTED"
    and "fetch (or_else ext (tx_razorpay_order_id t) (tx_transaction_id t)) = Inr st"
    and "exr_provider_status st = Some UNKNOWN"
  shows "\<exists>r. get_execution_result (snd (reconcile_payment_status fetch s tid ext now)) tid = Some r \<and>
    exr_state r = EXECUTING \<and> \<not> exr_success r"
  using assms by (simp add: reconcile_payment_status_def Let_def is_terminal_def txn_is_terminal_def
      get_execution_result_def)

theorem reconcile_forgets_commit_witness:
  "\<exists>r. get_execution_result (snd (reconcile_payment_status (\<lambda>_. Inr (sample_answer UNKNOWN))
      (register_transaction execution_service_init (sample_transaction TransactionState.COMMITTED)) ''t'' None 9))
    ''t'' = Some r \<and> exr_state r = EXECUTING \<and> \<not> exr_success r"
  by (rule reconcile_forgets_commit [where t = "sample_transaction TransactionState.COMMITTED"
        and st = "sample_answer UNKNOWN"])
    (simp_all add: register_transaction_def sample_transaction_def sample_answer_def)

text \<open>When the adapter raises, the exclusive claim is lost: nothing is recorded for the
  transaction, and the same call made again sends the same payment request a second time.\<close>

theorem raising_adapter_sends_twice:
  assumes "pes_results s (tx_transaction_id t) = None" and "execution_cleared p a t"
    and "execute_payment (\<lambda>_. Inl e) fetch s p a t now = (out', s')"
    and "execute_payment (\<lambda>_. Inl e) fetch s' p a t now = (out, s'')"
  shows "\<exists>req. pes_sent s'' = pes_sent s @ [req, req]"
proof -
  have step: "\<exists>t'. transition_transaction t EXECUTING no_fields now = Inr t' \<and>
      pes_sent s2 = pes_sent s1 @ [trusted_request t' p a] \<and> pes_results s2 = pes_results s1"
    if "pes_results s1 (tx_transaction_id t) = None"
      "execute_payment (\<lambda>_. Inl e) fetch s1 p a t now = (o1, s2)" for s1 o1 s2
    using that(2)
  proof (cases rule: execute_payment_cases)
    case (dispatched t')
    then show ?thesis by (auto simp: dispatch_payment_def Let_def register_transaction_def)
  qed (use that(1) assms(2) in auto)
  from step [OF assms(1,3)] have s': "pes_results s' (tx_transaction_id t) = None" using assms(1) by auto
  from step [OF assms(1,3)] step [OF s' assms(4)] show ?thesis by auto
qed

theorem raising_adapter_sends_twice_witness:
  "\<exists>req. pes_sent (snd (execute_payment (\<lambda>_. Inl (Raise RuntimeError (Msg [] []))) (\<lambda>_. Inr (sample_answer UNKNOWN))
      (snd (execute_payment (\<lambda>_. Inl (Raise RuntimeError (Msg [] []))) (\<lambda>_. Inr (sample_answer UNKNOWN))
         execution_service_init (sample_proposal 50) sample_authorization (sample_transaction AUTHORIZED) 0))
      (sample_proposal 50) sample_authorization (sample_transaction AUTHORIZED) 0)) = [req, req]"
proof -
  let ?ex = "\<lambda>s. execute_payment (\<lambda>_. Inl (Raise RuntimeError (Msg [] []))) (\<lambda>_. Inr (sample_answer UNKNOWN)) s
      (sample_proposal 50) sample_authorization (sample_transaction AUTHORIZED) 0"
  obtain out' s' where 1: "?ex execution_service_init = (out', s')" by (rule prod.exhaust)
  obtain out s'' where 2: "?ex s' = (out, s'')" by (rule prod.exhaust)
  have "pes_results execution_service_init (tx_transaction_id (sample_transaction AUTHORIZED)) = None"
    by (simp add: execution_service_init_def)
  from raising_adapter_sends_twice [OF this sample_cleared 1 2] show ?thesis
    using 1 2 by (simp add: execution_service_init_def)
qed

end
