(* ===== verification/Iso_Time.thy ===== *)
theory Iso_Time
  imports Json
begin

text \<open>
  \<open>datetime.isoformat()\<close> of a UTC time, as the source hashes it, on times from the epoch on. The
  calendar is counted from 1970-01-01: a day number is split first by the lengths of the years of
  its 400-year cycle, then by the lengths of the months. The point of the theory is
  \<open>isoformat_inject\<close>: two different times are never written as the same text.
\<close>

section \<open>The calendar\<close>

definition leap :: "nat \<Rightarrow> bool" where
  "leap y \<longleftrightarrow> y mod 4 = 0 \<and> (y mod 100 \<noteq> 0 \<or> y mod 400 = 0)"

definition year_length :: "nat \<Rightarrow> nat" where
  "year_length y = (if leap y then 366 else 365)"

definition month_lengths :: "nat \<Rightarrow> nat list" where
  "month_lengths y = [31, if leap y then 29 else 28, 31, 30, 31, 30, 31, 31, 30, 31, 30, 31]"

function year_day :: "nat \<Rightarrow> nat \<Rightarrow> nat \<times> nat" where
  \<comment> \<open>the year and the day in the year of the \<open>n\<close>-th day after the beginning of year \<open>y\<close>\<close>
  "year_day y n = (if n < year_length y then (y, n) else year_day (y + 1) (n - year_length y))"
  by pat_completeness auto
termination by (relation "measure snd") (auto simp: year_length_def)

declare year_day.simps [simp del]

fun month_day :: "nat \<Rightarrow> nat list \<Rightarrow> nat \<Rightarrow> nat \<times> nat" where
  "month_day m [] n = (m, n)"
| "month_day m (l # ls) n = (if n < l then (m, n) else month_day (m + 1) ls (n - l))"

lemma year_day_cases:
  "n < year_length y \<Longrightarrow> year_day y n = (y, n)"
  "\<not> n < year_length y \<Longrightarrow> year_day y n = year_day (y + 1) (n - year_length y)"
  by (subst year_day.simps, simp)+

lemma year_day_ge: "y \<le> fst (year_day y n)"
proof (induction y n rule: year_day.induct)
  case (1 y n)
  then show ?case by (cases "n < year_length y") (simp_all add: year_day_cases)
qed

lemma year_day_inj: "year_day y n = year_day y n' \<Longrightarrow> n = n'"
proof (induction y n arbitrary: n' rule: year_day.induct)
  case (1 y n)
  have apart: False if "(y, a) = year_day (y + 1) b" for a b
    using year_day_ge [of "y + 1" b] arg_cong [OF that, of fst] by simp
  consider "n < year_length y" "n' < year_length y" | "n < year_length y" "\<not> n' < year_length y"
    | "\<not> n < year_length y" "n' < year_length y" | "\<not> n < year_length y" "\<not> n' < year_length y" by blast
  then show ?case
  proof cases
    case 4
    then have "n - year_length y = n' - year_length y"
      using "1.prems" by (intro "1.IH") (simp_all add: year_day_cases)
    then show ?thesis using 4 by linarith
  qed (use "1.prems" apart apart [OF sym] in \<open>auto simp: year_day_cases\<close>)
qed

lemma month_day_ge: "m \<le> fst (month_day m ls n)"
  by (induction m ls n rule: month_day.induct) (auto dest: Suc_leD)

lemma month_day_inj: "month_day m ls n = month_day m ls n' \<Longrightarrow> n = n'"
proof (induction m ls n arbitrary: n' rule: month_day.induct)
  case (2 m l ls n)
  have apart: False if "(m, a) = month_day (m + 1) ls b" for a b
    using month_day_ge [of "m + 1" ls b] arg_cong [OF that, of fst] by simp
  consider "n < l" "n' < l" | "n < l" "\<not> n' < l" | "\<not> n < l" "n' < l" | "\<not> n < l" "\<not> n' < l" by blast
  then show ?case
  proof cases
    case 4
    then have "n - l = n' - l" using "2.prems" by (intro "2.IH") simp_all
    then show ?thesis using 4 by linarith
  qed (use "2.prems" apart apart [OF sym] in \<open>auto\<close>)
qed simp

lemma month_day_bounds:
  "n < sum_list ls \<Longrightarrow> \<forall>l \<in> set ls. l \<le> 31 \<Longrightarrow>
     fst (month_day m ls n) < m + length ls \<and> snd (month_day m ls n) < 31"
proof (induction m ls n rule: month_day.induct)
  case (2 m l ls n)
  show ?case
  proof (cases "n < l")
    case True
    then show ?thesis using "2.prems" by simp
  next
    case False
    then have "n - l < sum_list ls" using "2.prems"(1) by simp
    from "2.IH" [OF False this] "2.prems"(2) False show ?thesis by simp
  qed
qed simp

lemma year_day_bounds:
  "n < sum_list (map year_length [y..<y + k]) \<Longrightarrow>
     y \<le> fst (year_day y n) \<and> fst (year_day y n) < y + k \<and> snd (year_day y n) < year_length (fst (year_day y n))"
proof (induction k arbitrary: y n)
  case (Suc k)
  show ?case
  proof (cases "n < year_length y")
    case True
    then show ?thesis by (simp add: year_day_cases)
  next
    case False
    have "sum_list (map year_length [y..<y + Suc k]) =
        year_length y + sum_list (map year_length [y + 1..<y + 1 + k])"
      by (simp add: upt_conv_Cons del: upt_Suc)
    then have "n - year_length y < sum_list (map year_length [y + 1..<y + 1 + k])"
      using Suc.prems False by linarith
    from Suc.IH [OF this] False show ?thesis by (simp add: year_day_cases)
  qed
qed simp

definition cycle_days :: nat where
  "cycle_days = 146097"

definition civil :: "nat \<Rightarrow> nat \<times> nat \<times> nat" where
  \<comment> \<open>year, month and day of the month of a day after 1970-01-01\<close>
  "civil n = (let (y, doy) = year_day 1970 (n mod cycle_days); (m, d) = month_day 1 (month_lengths y) doy
     in (y + 400 * (n div cycle_days), m, d + 1))"

lemma cycle_length: "sum_list (map year_length [1970..<1970 + 400]) = cycle_days"
  by (simp add: cycle_days_def year_length_def leap_def)

lemma month_lengths_sum: "sum_list (month_lengths y) = year_length y"
  by (simp add: month_lengths_def year_length_def)

lemma month_lengths_max: "\<forall>l \<in> set (month_lengths y). l \<le> 31"
  by (simp add: month_lengths_def)

lemma month_lengths_length: "length (month_lengths y) = 12"
  by (simp add: month_lengths_def)

lemma civil_cases:
  obtains y doy where "year_day 1970 (n mod cycle_days) = (y, doy)" "1970 \<le> y" "y < 2370"
    "doy < year_length y"
    "civil n = (y + 400 * (n div cycle_days), fst (month_day 1 (month_lengths y) doy),
       snd (month_day 1 (month_lengths y) doy) + 1)"
proof -
  have "n mod cycle_days < sum_list (map year_length [1970..<1970 + 400])"
    unfolding cycle_length by (simp add: cycle_days_def)
  from year_day_bounds [OF this] show ?thesis
    using that [of "fst (year_day 1970 (n mod cycle_days))" "snd (year_day 1970 (n mod cycle_days))"]
    by (simp add: civil_def case_prod_unfold Let_def)
qed

lemma civil_inj: "civil n = civil n' \<Longrightarrow> n = n'"
proof -
  assume eq: "civil n = civil n'"
  obtain y doy where 1: "year_day 1970 (n mod cycle_days) = (y, doy)" "1970 \<le> y" "y < 2370"
    "civil n = (y + 400 * (n div cycle_days), fst (month_day 1 (month_lengths y) doy),
       snd (month_day 1 (month_lengths y) doy) + 1)"
    by (rule civil_cases)
  obtain y' doy' where 2: "year_day 1970 (n' mod cycle_days) = (y', doy')" "1970 \<le> y'" "y' < 2370"
    "civil n' = (y' + 400 * (n' div cycle_days), fst (month_day 1 (month_lengths y') doy'),
       snd (month_day 1 (month_lengths y') doy') + 1)"
    by (rule civil_cases)
  have y: "y + 400 * (n div cycle_days) = y' + 400 * (n' div cycle_days)" using eq 1(4) 2(4) by simp
  have gen: "a = b \<and> q = r" if "a + 400 * q = b + 400 * r" "1970 \<le> a" "a < 2370" "1970 \<le> b" "b < 2370"
    for a b q r :: nat using that by (cases q r rule: linorder_cases) linarith+
  have "y = y'" "n div cycle_days = n' div cycle_days" using gen [OF y 1(2,3) 2(2,3)] by auto
  moreover have "month_day 1 (month_lengths y) doy = month_day 1 (month_lengths y') doy'"
    using eq 1(4) 2(4) by (simp add: prod_eq_iff)
  ultimately have "year_day 1970 (n mod cycle_days) = year_day 1970 (n' mod cycle_days)"
    using 1(1) 2(1) by (auto dest: month_day_inj)
  then have "n mod cycle_days = n' mod cycle_days" by (rule year_day_inj)
  then show "n = n'" using \<open>n div cycle_days = n' div cycle_days\<close> by (metis div_mult_mod_eq)
qed

lemma civil_bounds:
  assumes "civil n = (y, m, d)"
  shows "1970 \<le> y" and "m \<le> 12" and "d \<le> 31"
proof -
  obtain y' doy where 1: "1970 \<le> y'" "doy < year_length y'"
    "civil n = (y' + 400 * (n div cycle_days), fst (month_day 1 (month_lengths y') doy),
       snd (month_day 1 (month_lengths y') doy) + 1)"
    by (rule civil_cases)
  have "doy < sum_list (month_lengths y')" using 1(2) by (simp only: month_lengths_sum)
  from month_day_bounds [OF this month_lengths_max, of 1]
  have b: "fst (month_day 1 (month_lengths y') doy) < 13" "snd (month_day 1 (month_lengths y') doy) < 31"
    by (simp_all add: month_lengths_length)
  have e: "y = y' + 400 * (n div cycle_days)" "m = fst (month_day 1 (month_lengths y') doy)"
    "d = snd (month_day 1 (month_lengths y') doy) + 1"
    using 1(3) assms by simp_all
  show "1970 \<le> y" "m \<le> 12" "d \<le> 31" using b 1(1) unfolding e by linarith+
qed

section \<open>Numbers of fixed width\<close>

definition pad :: "nat \<Rightarrow> nat \<Rightarrow> string" where
  "pad k n = replicate (k - length (nat_str n)) (CHR ''0'') @ nat_str n"

definition digits_value :: "string \<Rightarrow> nat" where
  "digits_value s = foldl (\<lambda>v c. 10 * v + (of_char c - 48)) 0 s"

lemma digits_value_snoc: "d < 10 \<Longrightarrow> digits_value (s @ [digit_char d]) = 10 * digits_value s + d"
  by (simp add: digits_value_def digit_char_def take_bit_eq_mod)

lemma digits_value_nat_str [simp]: "digits_value (nat_str n) = n"
proof (induction n rule: nat_str.induct)
  case (1 n)
  show ?case
  proof (cases "n < 10")
    case True
    then show ?thesis using digits_value_snoc [of n "[]"] by (simp add: nat_str_small digits_value_def)
  next
    case False
    then show ?thesis using 1 by (simp add: nat_str_large digits_value_snoc)
  qed
qed

lemma digits_value_pad [simp]: "digits_value (pad k n) = n"
proof -
  have "digits_value (replicate j (CHR ''0'') @ s) = digits_value s" for j s
    by (induction j) (simp_all add: digits_value_def)
  then show ?thesis by (simp add: pad_def)
qed

lemma pad_inj: "pad k n = pad k m \<Longrightarrow> n = m"
  using digits_value_pad by metis

lemma nat_str_length: "n < 10 ^ Suc k \<Longrightarrow> length (nat_str n) \<le> Suc k"
proof (induction k arbitrary: n)
  case (Suc k)
  show ?case
  proof (cases "n < 10")
    case False
    then have "length (nat_str (n div 10)) \<le> Suc k" using Suc by (intro Suc.IH) simp
    then show ?thesis using False by (simp add: nat_str_large)
  qed (simp add: nat_str_small)
qed (simp add: nat_str_small)

lemma pad_length: "n < 10 ^ Suc k \<Longrightarrow> length (pad (Suc k) n) = Suc k"
  using nat_str_length [of n k] by (simp add: pad_def)

lemma pad_length_2: "n < 100 \<Longrightarrow> length (pad 2 n) = 2"
  using pad_length [of n 1] by (simp add: numeral_2_eq_2)

lemma pad_digits: "c \<in> set (pad k n) \<Longrightarrow> is_digit c"
  using nat_str_digits by (auto simp: pad_def is_digit_def)

section \<open>The text of a time\<close>

definition time_text :: "nat \<Rightarrow> string" where
  \<comment> \<open>of the microseconds of a day\<close>
  "time_text n = (let us = n mod 1000000; s = n div 1000000 in
     pad 2 (s div 3600) @ '':'' @ pad 2 (s div 60 mod 60) @ '':'' @ pad 2 (s mod 60) @
     (if us = 0 then [] else ''.'' @ pad 6 us))"

definition day_text :: "nat \<Rightarrow> string" where
  "day_text n = (let (y, m, d) = civil n in pad 4 y @ ''-'' @ pad 2 m @ ''-'' @ pad 2 d)"

definition day_micros :: nat where
  "day_micros = 86400000000"

definition isoformat :: "datetime \<Rightarrow> string" where
  "isoformat t = day_text (nat t div day_micros) @ ''T'' @ time_text (nat t mod day_micros) @ ''+00:00''"

lemma same_length_append: "xs @ us = ys @ vs \<Longrightarrow> length xs = length ys \<Longrightarrow> xs = ys \<and> us = vs"
  by simp

lemma day_text_prefix:
  assumes "day_text n @ u = day_text n' @ v"
  shows "n = n' \<and> u = v"
proof -
  obtain y m d where c: "civil n = (y, m, d)" by (rule prod_cases3)
  obtain y' m' d' where c': "civil n' = (y', m', d')" by (rule prod_cases3)
  have txts: "pad 4 y @ CHR ''-'' # pad 2 m @ CHR ''-'' # pad 2 d @ u =
      pad 4 y' @ CHR ''-'' # pad 2 m' @ CHR ''-'' # pad 2 d' @ v"
    using assms by (simp add: day_text_def c c')
  have stop: "takeWhile is_digit (pad 4 k @ CHR ''-'' # w) = pad 4 k" for k w
    by (subst takeWhile_append2) (auto dest: pad_digits simp: is_digit_def)
  from arg_cong [OF txts, of "takeWhile is_digit"] have y: "y = y'" unfolding stop by (rule pad_inj)
  have len: "length (pad 2 m) = length (pad 2 m')" "length (pad 2 d) = length (pad 2 d')"
    using civil_bounds [OF c] civil_bounds [OF c'] by (simp_all add: pad_length_2)
  have "pad 2 m = pad 2 m' \<and> CHR ''-'' # pad 2 d @ u = CHR ''-'' # pad 2 d' @ v"
    by (rule same_length_append [OF _ len(1)]) (use txts y in simp)
  moreover from this have "pad 2 d = pad 2 d' \<and> u = v" by (intro same_length_append len(2)) simp
  ultimately have "civil n = civil n'" "u = v" using y by (auto simp: c c' dest: pad_inj)
  then show ?thesis by (simp add: civil_inj)
qed

lemma time_text_prefix:
  assumes "n < day_micros" and "n' < day_micros"
    and "time_text n @ ''+00:00'' = time_text n' @ ''+00:00''"
  shows "n = n'"
proof -
  let ?s = "n div 1000000" and ?s' = "n' div 1000000"
  let ?u = "if n mod 1000000 = 0 then [] else ''.'' @ pad 6 (n mod 1000000)"
  let ?u' = "if n' mod 1000000 = 0 then [] else ''.'' @ pad 6 (n' mod 1000000)"
  have b: "?s div 3600 < 100" "?s' div 3600 < 100" using assms(1,2) by (simp_all add: day_micros_def)
  have len: "length (pad 2 (?s div 3600)) = length (pad 2 (?s' div 3600))"
    "length (pad 2 (?s div 60 mod 60)) = length (pad 2 (?s' div 60 mod 60))"
    "length (pad 2 (?s mod 60)) = length (pad 2 (?s' mod 60))"
    using b by (simp_all add: pad_length_2)
  have txts: "pad 2 (?s div 3600) @ CHR '':'' # pad 2 (?s div 60 mod 60) @ CHR '':'' # pad 2 (?s mod 60) @ ?u =
      pad 2 (?s' div 3600) @ CHR '':'' # pad 2 (?s' div 60 mod 60) @ CHR '':'' # pad 2 (?s' mod 60) @ ?u'"
    using assms(3) by (simp add: time_text_def Let_def split del: if_split)
  from same_length_append [OF txts len(1)] have h: "?s div 3600 = ?s' div 3600"
    and r: "pad 2 (?s div 60 mod 60) @ CHR '':'' # pad 2 (?s mod 60) @ ?u =
      pad 2 (?s' div 60 mod 60) @ CHR '':'' # pad 2 (?s' mod 60) @ ?u'"
    by (auto dest: pad_inj)
  from same_length_append [OF r len(2)] have m: "?s div 60 mod 60 = ?s' div 60 mod 60"
    and r2: "pad 2 (?s mod 60) @ ?u = pad 2 (?s' mod 60) @ ?u'"
    by (auto dest: pad_inj)
  from same_length_append [OF r2 len(3)] have s: "?s mod 60 = ?s' mod 60" and u: "?u = ?u'"
    by (auto dest: pad_inj)
  have "n mod 1000000 = n' mod 1000000" using u by (auto split: if_splits dest: pad_inj)
  moreover have "?s = ?s'"
  proof -
    have "k div 60 div 60 = k div 3600" for k :: nat by (simp add: div_mult2_eq [symmetric])
    then have "?s div 60 div 60 = ?s' div 60 div 60" using h by simp
    then have "?s div 60 = ?s' div 60" using m by (metis div_mult_mod_eq)
    then show ?thesis using s by (metis div_mult_mod_eq)
  qed
  ultimately show ?thesis by (metis div_mult_mod_eq)
qed

lemma isoformat_inject:
  assumes "0 \<le> t" and "0 \<le> t'" and "isoformat t = isoformat t'"
  shows "t = t'"
proof -
  have "nat t div day_micros = nat t' div day_micros"
    and "''T'' @ time_text (nat t mod day_micros) @ ''+00:00'' = ''T'' @ time_text (nat t' mod day_micros) @ ''+00:00''"
    using day_text_prefix [OF assms(3) [unfolded isoformat_def]] by auto
  moreover from this(2) have "nat t mod day_micros = nat t' mod day_micros"
    by (intro time_text_prefix) (simp_all add: day_micros_def)
  ultimately have "nat t = nat t'" by (metis div_mult_mod_eq)
  then show ?thesis using assms(1,2) by simp
qed

end
