(* ===== verification/Hash_Chain.thy ===== *)
theory Hash_Chain
  imports Py_Prelude
begin

text \<open>
  The contract of an append-only list whose entries carry the digest of their predecessor: the
  locale \<open>hash_chain\<close> over the text that an entry's digest covers. The audit ledger in memory and the
  audit table interpret it. Its main fact is that the digest at the tip fixes the whole chain.
\<close>

fun linked :: "('e \<Rightarrow> string) \<Rightarrow> ('e \<Rightarrow> string) \<Rightarrow> ('e \<Rightarrow> string) \<Rightarrow> (string \<Rightarrow> string) \<Rightarrow> string \<Rightarrow> 'e list \<Rightarrow> bool" where
  \<comment> \<open>every entry names the digest before it and carries the digest of its own text\<close>
  "linked prev hash body sha g [] = True"
| "linked prev hash body sha g (e # es) =
     (prev e = g \<and> hash e = sha (body e) \<and> linked prev hash body sha (hash e) es)"

definition tip :: "('e \<Rightarrow> string) \<Rightarrow> string \<Rightarrow> 'e list \<Rightarrow> string" where
  "tip hash g es = (if es = [] then g else hash (last es))"

lemma tip_simps [simp]: "tip hash g [] = g" "tip hash g (es @ [e]) = hash e"
  by (simp_all add: tip_def)

lemma tip_Cons [simp]: "tip hash g (e # es) = tip hash (hash e) es"
  by (simp add: tip_def)

lemma linked_snoc:
  "linked prev hash body sha g (es @ [e]) \<longleftrightarrow>
     linked prev hash body sha g es \<and> prev e = tip hash g es \<and> hash e = sha (body e)"
  by (induction es arbitrary: g) auto

locale hash_chain =
  fixes prev hash body :: "'e \<Rightarrow> string"
  assumes body_prev: "body e = body e' \<Longrightarrow> prev e = prev e'"
begin

lemma tip_fixes_chain:
  assumes "linked prev hash body sha g es" and "linked prev hash body sha g es'"
    and "tip hash g es = tip hash g es'"
    and "inj_on sha (body ` (set es \<union> set es'))" and "g \<notin> sha ` body ` (set es \<union> set es')"
  shows "map body es = map body es' \<and> map hash es = map hash es'"
  using assms
proof (induction es arbitrary: es' rule: rev_induct)
  case Nil
  show ?case
  proof (cases es' rule: rev_cases)
    case (snoc fs f)
    then have "g = sha (body f)" using Nil.prems by (simp add: linked_snoc)
    then show ?thesis using Nil.prems(5) snoc by simp
  qed simp
next
  case (snoc e es)
  show ?case
  proof (cases es' rule: rev_cases)
    case Nil
    then have "g = sha (body e)" using snoc.prems by (simp add: linked_snoc)
    then show ?thesis using snoc.prems(5) by simp
  next
    case (snoc fs f)
    have e: "linked prev hash body sha g es" "prev e = tip hash g es" "hash e = sha (body e)"
      using snoc.prems(1) by (simp_all add: linked_snoc)
    have f: "linked prev hash body sha g fs" "prev f = tip hash g fs" "hash f = sha (body f)"
      using snoc.prems(2) snoc by (simp_all add: linked_snoc)
    have "sha (body e) = sha (body f)" using snoc.prems(3) snoc e(3) f(3) by simp
    then have ef: "body e = body f"
      using inj_onD [OF snoc.prems(4), of "body e" "body f"] snoc by auto
    then have "tip hash g es = tip hash g fs" using body_prev e(2) f(2) by metis
    moreover have "inj_on sha (body ` (set es \<union> set fs))"
      by (rule inj_on_subset [OF snoc.prems(4)]) (auto simp: snoc)
    moreover have "g \<notin> sha ` body ` (set es \<union> set fs)" using snoc.prems(5) snoc by auto
    ultimately have "map body es = map body fs \<and> map hash es = map hash fs"
      using snoc.IH e(1) f(1) by blast
    then show ?thesis using ef e(3) f(3) snoc by simp
  qed
qed

end

end
