(* ===== verification/Audit_Ledger.thy ===== *)
theory Audit_Ledger
  imports Domain_Types Iso_Time Hash_Chain Contracts
begin

text \<open>
  The audit event (\<open>apps/api/domain/audit.py\<close>) and the in-memory ledger
  (\<open>apps/api/domain/audit_ledger.py\<close>). A payload is a dictionary of JSON values; its text is the
  sorted one of \<open>json.dumps\<close>. SHA-256 is the parameter \<open>sha\<close>. Every method of the ledger runs under
  its lock and is one step. \<open>audit_chain\<close> interprets \<open>hash_chain\<close> and \<open>audit_machine\<close> interprets
  \<open>machine\<close>.
\<close>

section \<open>Events\<close>

fun audit_event_value :: "AuditEventType \<Rightarrow> string" where
  "audit_event_value MANDATE_CREATED = ''MANDATE_CREATED''"
| "audit_event_value MERCHANT_POLICY_CREATED = ''MERCHANT_POLICY_CREATED''"
| "audit_event_value CART_PROPOSED = ''CART_PROPOSED''"
| "audit_event_value POLICY_EVALUATED = ''POLICY_EVALUATED''"
| "audit_event_value STEP_UP_REQUESTED = ''STEP_UP_REQUESTED''"
| "audit_event_value STEP_UP_APPROVED = ''STEP_UP_APPROVED''"
| "audit_event_value RESERVATION_CREATED = ''RESERVATION_CREATED''"
| "audit_event_value TOOL_BLOCKED = ''TOOL_BLOCKED''"
| "audit_event_value EXECUTION_AUTHORIZED = ''EXECUTION_AUTHORIZED''"
| "audit_event_value PAYMENT_STARTED = ''PAYMENT_STARTED''"
| "audit_event_value PAYMENT_SUCCESS = ''PAYMENT_SUCCESS''"
| "audit_event_value PAYMENT_FAILED = ''PAYMENT_FAILED''"
| "audit_event_value RESERVATION_RELEASED = ''RESERVATION_RELEASED''"
| "audit_event_value NONCE_REPLAY_BLOCKED = ''NONCE_REPLAY_BLOCKED''"
| "audit_event_value CART_TAMPER_BLOCKED = ''CART_TAMPER_BLOCKED''"
| "audit_event_value API_CREDENTIAL_CREATED = ''API_CREDENTIAL_CREATED''"
| "audit_event_value API_CREDENTIAL_AUTHENTICATED = ''API_CREDENTIAL_AUTHENTICATED''"
| "audit_event_value API_CREDENTIAL_AUTH_FAILED = ''API_CREDENTIAL_AUTH_FAILED''"
| "audit_event_value API_CREDENTIAL_REVOKED = ''API_CREDENTIAL_REVOKED''"
| "audit_event_value AUTHORIZATION_DENIED = ''AUTHORIZATION_DENIED''"
| "audit_event_value TENANT_ACCESS_DENIED = ''TENANT_ACCESS_DENIED''"
| "audit_event_value SCOPE_DENIED = ''SCOPE_DENIED''"

definition audit_event_of :: "string \<Rightarrow> AuditEventType option" where
  "audit_event_of = member_of_value audit_event_value
     [MANDATE_CREATED, MERCHANT_POLICY_CREATED, CART_PROPOSED, POLICY_EVALUATED, STEP_UP_REQUESTED,
      STEP_UP_APPROVED, RESERVATION_CREATED, TOOL_BLOCKED, EXECUTION_AUTHORIZED, PAYMENT_STARTED,
      PAYMENT_SUCCESS, PAYMENT_FAILED, RESERVATION_RELEASED, NONCE_REPLAY_BLOCKED,
      CART_TAMPER_BLOCKED, API_CREDENTIAL_CREATED, API_CREDENTIAL_AUTHENTICATED,
      API_CREDENTIAL_AUTH_FAILED, API_CREDENTIAL_REVOKED, AUTHORIZATION_DENIED,
      TENANT_ACCESS_DENIED, SCOPE_DENIED]"

lemma audit_event_of_value [simp]: "audit_event_of (audit_event_value t) = Some t"
  by (cases t) (simp_all add: audit_event_of_def member_of_value_def)

lemma audit_event_value_inject [simp]: "audit_event_value a = audit_event_value b \<longleftrightarrow> a = b"
  by (metis audit_event_of_value option.inject)

definition GENESIS_HASH :: string where
  "GENESIS_HASH = replicate 64 CHR ''0''"

record AuditEvent =
  ae_event_id :: string
  ae_event_type :: AuditEventType
  ae_timestamp :: datetime
  ae_transaction_id :: "string option"
  ae_mandate_id :: "string option"
  ae_merchant_id :: "string option"
  ae_buyer_id :: "string option"
  ae_payload :: "(string \<times> json) list"
  ae_previous_hash :: string
  ae_event_hash :: string

definition json_opt :: "string option \<Rightarrow> json" where
  "json_opt s = (case s of None \<Rightarrow> JNull | Some t \<Rightarrow> JStr t)"

lemma json_opt_inject [simp]: "json_opt a = json_opt b \<longleftrightarrow> a = b"
  by (auto simp: json_opt_def split: option.splits)

lemma json_canon_opt [simp]: "json_canon (json_opt s) = json_opt s"
  by (simp add: json_opt_def split: option.split)

definition canonical_event ::
  "string \<Rightarrow> AuditEventType \<Rightarrow> datetime \<Rightarrow> string \<Rightarrow> string option \<Rightarrow> string option \<Rightarrow> string option \<Rightarrow>
   string option \<Rightarrow> json \<Rightarrow> json" where
  "canonical_event eid ty ts prev tid mid merchant buyer payload = JObj
     [(''buyer_id'', json_opt buyer), (''event_id'', JStr eid),
      (''event_type'', JStr (audit_event_value ty)), (''mandate_id'', json_opt mid),
      (''merchant_id'', json_opt merchant), (''payload'', payload),
      (''previous_hash'', JStr prev), (''timestamp'', JStr (isoformat ts)),
      (''transaction_id'', json_opt tid)]"

definition compute_event_hash ::
  "(string \<Rightarrow> string) \<Rightarrow> string \<Rightarrow> AuditEventType \<Rightarrow> datetime \<Rightarrow> string \<Rightarrow> string option \<Rightarrow> string option \<Rightarrow>
   string option \<Rightarrow> string option \<Rightarrow> json \<Rightarrow> string" where
  "compute_event_hash sha eid ty ts prev tid mid merchant buyer payload =
     sha (json_dumps (canonical_event eid ty ts prev tid mid merchant buyer payload))"

record EventArgs =
  \<comment> \<open>the keyword arguments of \<open>append_event\<close>\<close>
  ev_transaction_id :: "string option"
  ev_mandate_id :: "string option"
  ev_merchant_id :: "string option"
  ev_buyer_id :: "string option"
  ev_payload :: "(string \<times> json) list option"

definition create_event ::
  "(string \<Rightarrow> string) \<Rightarrow> AuditEventType \<Rightarrow> string \<Rightarrow> EventArgs \<Rightarrow> datetime option \<Rightarrow> string \<Rightarrow> datetime \<Rightarrow>
   AuditEvent" where
  \<comment> \<open>\<open>uid\<close> is the fresh uuid\<close>
  "create_event sha ty prev f at uid now =
     (let ts = resolve_at at now; payload = option_or (ev_payload f) [] in
      \<lparr>ae_event_id = uid, ae_event_type = ty, ae_timestamp = ts,
       ae_transaction_id = ev_transaction_id f, ae_mandate_id = ev_mandate_id f,
       ae_merchant_id = ev_merchant_id f, ae_buyer_id = ev_buyer_id f, ae_payload = payload,
       ae_previous_hash = prev,
       ae_event_hash = compute_event_hash sha uid ty ts prev (ev_transaction_id f) (ev_mandate_id f)
         (ev_merchant_id f) (ev_buyer_id f) (JObj payload)\<rparr>)"

definition verify_hash :: "(string \<Rightarrow> string) \<Rightarrow> AuditEvent \<Rightarrow> bool" where
  "verify_hash sha e \<longleftrightarrow> ae_event_hash e = compute_event_hash sha (ae_event_id e) (ae_event_type e)
     (ae_timestamp e) (ae_previous_hash e) (ae_transaction_id e) (ae_mandate_id e)
     (ae_merchant_id e) (ae_buyer_id e) (JObj (ae_payload e))"

section \<open>The ledger\<close>

record AuditLedger =
  al_events :: "AuditEvent list"
  al_head_hash :: string

definition audit_ledger_init :: AuditLedger where
  "audit_ledger_init = \<lparr>al_events = [], al_head_hash = GENESIS_HASH\<rparr>"

definition append_event ::
  "(string \<Rightarrow> string) \<Rightarrow> AuditLedger \<Rightarrow> AuditEventType \<Rightarrow> EventArgs \<Rightarrow> datetime option \<Rightarrow> string \<Rightarrow>
   datetime \<Rightarrow> AuditEvent res \<times> AuditLedger" where
  "append_event sha l ty f at uid now =
     (let e = create_event sha ty (al_head_hash l) f at uid now in
      if \<not> verify_hash sha e then
        (Inl (Raise RuntimeError (Msg ''Computed audit event hash for {} failed self-verification.''
           [PStr (audit_event_value ty)])), l)
      else (Inr e, \<lparr>al_events = al_events l @ [e], al_head_hash = ae_event_hash e\<rparr>))"

fun verify_events ::
  "(string \<Rightarrow> string) \<Rightarrow> int \<Rightarrow> string \<Rightarrow> AuditEvent list \<Rightarrow> msg + string" where
  \<comment> \<open>the loop of \<open>verify_chain\<close>: the first error, or the digest of the last event\<close>
  "verify_events sha i expected [] = Inr expected"
| "verify_events sha i expected (e # es) =
     (if ae_previous_hash e \<noteq> expected then
        Inl (Msg ''Chain broken at index {}: event previous_hash '{}' != expected '{}'.''
          [PInt i, PStr (ae_previous_hash e), PStr expected])
      else if \<not> verify_hash sha e then
        Inl (Msg ''Hash calculation invalid at index {}: event_id '{}' payload or headers altered.''
          [PInt i, PStr (ae_event_id e)])
      else verify_events sha (i + 1) (ae_event_hash e) es)"

definition verify_chain :: "(string \<Rightarrow> string) \<Rightarrow> AuditLedger \<Rightarrow> bool \<times> msg option" where
  "verify_chain sha l =
     (if al_events l = [] then
        (if al_head_hash l \<noteq> GENESIS_HASH then
           (False, Some (Msg ''Empty ledger head_hash does not match GENESIS_HASH.'' []))
         else (True, None))
      else case verify_events sha 0 GENESIS_HASH (al_events l) of
        Inl m \<Rightarrow> (False, Some m)
      | Inr h \<Rightarrow>
          if al_head_hash l \<noteq> h then
            (False, Some (Msg ''Ledger head_hash '{}' != last event digest '{}'.''
               [PStr (al_head_hash l), PStr h]))
          else (True, None))"

definition assert_chain_valid :: "(string \<Rightarrow> string) \<Rightarrow> AuditLedger \<Rightarrow> unit res" where
  "assert_chain_valid sha l =
     (case verify_chain sha l of
        (True, _) \<Rightarrow> Inr ()
      | (False, m) \<Rightarrow> Inl (Raise (SourceError ''AuditChainTamperedError'' ''CHAIN_LINKAGE_BROKEN'')
          (msg_or m (Msg ''Audit chain integrity verification failed.'' []))))"

record EventQuery =
  q_transaction_id :: "string option"
  q_mandate_id :: "string option"
  q_merchant_id :: "string option"
  q_buyer_id :: "string option"
  q_event_type :: "AuditEventType option"

definition query_skips :: "EventQuery \<Rightarrow> AuditEvent \<Rightarrow> bool" where
  \<comment> \<open>the \<open>continue\<close> tests of the loop\<close>
  "query_skips q e \<longleftrightarrow>
     q_transaction_id q \<noteq> None \<and> ae_transaction_id e \<noteq> q_transaction_id q \<or>
     q_mandate_id q \<noteq> None \<and> ae_mandate_id e \<noteq> q_mandate_id q \<or>
     q_merchant_id q \<noteq> None \<and> ae_merchant_id e \<noteq> q_merchant_id q \<or>
     q_buyer_id q \<noteq> None \<and> ae_buyer_id e \<noteq> q_buyer_id q \<or>
     q_event_type q \<noteq> None \<and> Some (ae_event_type e) \<noteq> q_event_type q"

fun query_loop ::
  "EventQuery \<Rightarrow> int option \<Rightarrow> int \<Rightarrow> AuditEvent list \<Rightarrow> int \<Rightarrow> AuditEvent list \<Rightarrow> AuditEvent list" where
  "query_loop q limit offset results skipped [] = results"
| "query_loop q limit offset results skipped (e # es) =
     (if query_skips q e then query_loop q limit offset results skipped es
      else if skipped < offset then query_loop q limit offset results (skipped + 1) es
      else
        let results' = results @ [e] in
        if (case limit of None \<Rightarrow> False | Some n \<Rightarrow> int (length results') \<ge> n) then results'
        else query_loop q limit offset results' skipped es)"

definition query_events :: "AuditLedger \<Rightarrow> EventQuery \<Rightarrow> int option \<Rightarrow> int \<Rightarrow> AuditEvent list" where
  "query_events l q limit offset = query_loop q limit offset [] 0 (al_events l)"

definition get_latest_event_for_transaction :: "AuditLedger \<Rightarrow> string \<Rightarrow> AuditEvent option" where
  "get_latest_event_for_transaction l tid = find (\<lambda>e. ae_transaction_id e = Some tid) (rev (al_events l))"

definition event_count :: "AuditLedger \<Rightarrow> nat" where
  "event_count l = length (al_events l)"

definition clear_ledger :: "AuditLedger \<Rightarrow> AuditLedger" where
  "clear_ledger l = l\<lparr>al_events := [], al_head_hash := GENESIS_HASH\<rparr>"

section \<open>The chain\<close>

definition audit_text :: "AuditEvent \<Rightarrow> string" where
  \<comment> \<open>what the digest of an event covers\<close>
  "audit_text e = json_dumps (canonical_event (ae_event_id e) (ae_event_type e) (ae_timestamp e)
     (ae_previous_hash e) (ae_transaction_id e) (ae_mandate_id e) (ae_merchant_id e)
     (ae_buyer_id e) (JObj (ae_payload e)))"

lemma verify_hash_text: "verify_hash sha e \<longleftrightarrow> ae_event_hash e = sha (audit_text e)"
  by (simp add: verify_hash_def compute_event_hash_def audit_text_def)

lemma json_canon_event:
  "json_canon (canonical_event eid ty ts prev tid mid merchant buyer payload) = JObj
     [(''buyer_id'', json_opt buyer), (''event_id'', JStr eid),
      (''event_type'', JStr (audit_event_value ty)), (''mandate_id'', json_opt mid),
      (''merchant_id'', json_opt merchant), (''payload'', json_canon payload),
      (''previous_hash'', JStr prev), (''timestamp'', JStr (isoformat ts)),
      (''transaction_id'', json_opt tid)]"
  by (simp add: canonical_event_def)

definition same_event :: "AuditEvent \<Rightarrow> AuditEvent \<Rightarrow> bool" where
  \<comment> \<open>equal up to the order of the entries of the payload dictionary\<close>
  "same_event e e' \<longleftrightarrow> ae_event_id e = ae_event_id e' \<and> ae_event_type e = ae_event_type e' \<and>
     ae_timestamp e = ae_timestamp e' \<and> ae_transaction_id e = ae_transaction_id e' \<and>
     ae_mandate_id e = ae_mandate_id e' \<and> ae_merchant_id e = ae_merchant_id e' \<and>
     ae_buyer_id e = ae_buyer_id e' \<and> json_canon (JObj (ae_payload e)) = json_canon (JObj (ae_payload e')) \<and>
     ae_previous_hash e = ae_previous_hash e' \<and> ae_event_hash e = ae_event_hash e'"

lemma audit_text_eq:
  "audit_text e = audit_text e' \<longleftrightarrow> ae_event_id e = ae_event_id e' \<and> ae_event_type e = ae_event_type e' \<and>
     isoformat (ae_timestamp e) = isoformat (ae_timestamp e') \<and>
     ae_transaction_id e = ae_transaction_id e' \<and> ae_mandate_id e = ae_mandate_id e' \<and>
     ae_merchant_id e = ae_merchant_id e' \<and> ae_buyer_id e = ae_buyer_id e' \<and>
     json_canon (JObj (ae_payload e)) = json_canon (JObj (ae_payload e')) \<and>
     ae_previous_hash e = ae_previous_hash e'"
  unfolding audit_text_def json_dumps_inject json_canon_event by (auto simp del: json_canon.simps)

interpretation audit_chain: hash_chain ae_previous_hash ae_event_hash audit_text
  by unfold_locales (simp add: audit_text_eq)

abbreviation audit_linked :: "(string \<Rightarrow> string) \<Rightarrow> string \<Rightarrow> AuditEvent list \<Rightarrow> bool" where
  "audit_linked \<equiv> linked ae_previous_hash ae_event_hash audit_text"

lemma verify_events_iff:
  "verify_events sha i g es = Inr h \<longleftrightarrow> audit_linked sha g es \<and> h = tip ae_event_hash g es"
  by (induction es arbitrary: i g) (auto simp: verify_hash_text)

lemma verify_chain_iff:
  "fst (verify_chain sha l) \<longleftrightarrow> audit_linked sha GENESIS_HASH (al_events l) \<and>
     al_head_hash l = tip ae_event_hash GENESIS_HASH (al_events l)"
proof (cases "verify_events sha 0 GENESIS_HASH (al_events l)")
  case (Inl m)
  then have "\<not> audit_linked sha GENESIS_HASH (al_events l)"
    using verify_events_iff [of sha 0 GENESIS_HASH "al_events l" "tip ae_event_hash GENESIS_HASH (al_events l)"]
    by simp
  then show ?thesis using Inl by (auto simp: verify_chain_def)
next
  case (Inr h)
  note v = verify_events_iff [THEN iffD1, OF Inr]
  then show ?thesis by (cases "al_events l = []") (auto simp: verify_chain_def Inr)
qed

section \<open>The ledger as a machine\<close>

datatype ledger_op = Append AuditEventType EventArgs "datetime option" string datetime | Clear

fun ledger_step :: "(string \<Rightarrow> string) \<Rightarrow> AuditLedger \<Rightarrow> ledger_op \<Rightarrow> AuditEvent res option \<times> AuditLedger" where
  "ledger_step sha l (Append ty f at uid now) = map_prod Some id (append_event sha l ty f at uid now)"
| "ledger_step sha l Clear = (None, clear_ledger l)"

lemma create_event_text [simp]:
  "verify_hash sha (create_event sha ty prev f at uid now)"
  "ae_previous_hash (create_event sha ty prev f at uid now) = prev"
  by (simp_all add: verify_hash_def create_event_def Let_def)

lemma append_event_ok:
  "append_event sha l ty f at uid now =
     (Inr (create_event sha ty (al_head_hash l) f at uid now),
      \<lparr>al_events = al_events l @ [create_event sha ty (al_head_hash l) f at uid now],
       al_head_hash = ae_event_hash (create_event sha ty (al_head_hash l) f at uid now)\<rparr>)"
  by (simp add: append_event_def Let_def)

interpretation audit_machine: machine "ledger_step sha" "\<lambda>_ _. True" "\<lambda>l. fst (verify_chain sha l)"
proof unfold_locales
  fix l x
  assume v: "fst (verify_chain sha l)"
  show "fst (verify_chain sha (snd (ledger_step sha l x)))"
  proof (cases x)
    case (Append ty f at uid now)
    have "ae_event_hash (create_event sha ty (al_head_hash l) f at uid now) =
        sha (audit_text (create_event sha ty (al_head_hash l) f at uid now))"
      using create_event_text(1) by (simp only: verify_hash_text)
    then show ?thesis using v Append by (simp add: append_event_ok verify_chain_iff linked_snoc)
  qed (simp add: clear_ledger_def verify_chain_iff)
qed

section \<open>Queries\<close>

definition query_matches :: "EventQuery \<Rightarrow> AuditEvent \<Rightarrow> bool" where
  "query_matches q e \<longleftrightarrow>
     list_all (\<lambda>(wanted, actual). wanted = None \<or> actual = wanted)
       [(q_transaction_id q, ae_transaction_id e), (q_mandate_id q, ae_mandate_id e),
        (q_merchant_id q, ae_merchant_id e), (q_buyer_id q, ae_buyer_id e)] \<and>
     (case q_event_type q of None \<Rightarrow> True | Some t \<Rightarrow> ae_event_type e = t)"

lemma query_skips_matches: "query_skips q e \<longleftrightarrow> \<not> query_matches q e"
  by (auto simp: query_skips_def query_matches_def split: option.splits)

definition at_most :: "int option \<Rightarrow> 'a list \<Rightarrow> 'a list" where
  "at_most limit xs = (case limit of None \<Rightarrow> xs | Some n \<Rightarrow> take (nat n) xs)"

lemma query_loop_all:
  "query_loop q None offset results skipped es =
     results @ drop (nat (offset - skipped)) (filter (query_matches q) es)"
proof (induction es arbitrary: results skipped)
  case (Cons e es)
  show ?case
  proof (cases "query_matches q e \<and> skipped < offset")
    case True
    then have "nat (offset - skipped) = Suc (nat (offset - (skipped + 1)))" by linarith
    then show ?thesis using True Cons by (simp add: query_skips_matches)
  next
    case False
    then show ?thesis using Cons by (auto simp: query_skips_matches)
  qed
qed simp

lemma query_loop_limited:
  assumes "int (length results) < n"
  shows "query_loop q (Some n) offset results skipped es =
    results @ take (nat n - length results) (drop (nat (offset - skipped)) (filter (query_matches q) es))"
  using assms
proof (induction es arbitrary: results skipped)
  case (Cons e es)
  consider (skip) "\<not> query_matches q e" | (offset) "query_matches q e" "skipped < offset"
    | (last) "query_matches q e" "\<not> skipped < offset" "int (length results) + 1 \<ge> n"
    | (more) "query_matches q e" "\<not> skipped < offset" "int (length results) + 1 < n" by linarith
  then show ?case
  proof cases
    case offset
    then have "nat (offset - skipped) = Suc (nat (offset - (skipped + 1)))" by linarith
    then show ?thesis using offset Cons by (simp add: query_skips_matches)
  next
    case last
    then have "nat n - length results = 1" using Cons.prems by linarith
    then show ?thesis using last by (simp add: query_skips_matches)
  next
    case more
    then have "nat n - length results = Suc (nat n - length (results @ [e]))" by simp
    then show ?thesis using more Cons by (simp add: query_skips_matches)
  qed (use Cons in \<open>simp add: query_skips_matches\<close>)
qed simp

lemma query_loop_nonpositive:
  assumes "n \<le> 1"
  shows "query_loop q (Some n) offset [] skipped es = query_loop q (Some 1) offset [] skipped es"
  using assms by (induction es arbitrary: skipped) simp_all

section \<open>Properties\<close>

text \<open>C35: Tampering is evident. Two ledgers that both pass the chain verification and have the same
  head hash hold the same events, in the same order and with all their fields (a payload up to the
  order of its entries), provided that SHA-256 does not collide on the texts of their events and
  that the genesis hash is not the digest of one of them: no event can be altered, dropped, inserted
  or moved without changing the head hash.\<close>

theorem audit_tamper_evident:
  assumes "fst (verify_chain sha l)" and "fst (verify_chain sha l')" and "al_head_hash l = al_head_hash l'"
    and "inj_on sha (audit_text ` (set (al_events l) \<union> set (al_events l')))"
    and "GENESIS_HASH \<notin> sha ` audit_text ` (set (al_events l) \<union> set (al_events l'))"
    and "list_all (\<lambda>e. 0 \<le> ae_timestamp e) (al_events l @ al_events l')"
  shows "list_all2 same_event (al_events l) (al_events l')"
proof -
  have "map audit_text (al_events l) = map audit_text (al_events l') \<and>
      map ae_event_hash (al_events l) = map ae_event_hash (al_events l')"
    by (rule audit_chain.tip_fixes_chain [OF _ _ _ assms(4,5)])
      (use assms(1-3) in \<open>simp_all add: verify_chain_iff\<close>)
  then have "list_all2 (\<lambda>e e'. audit_text e = audit_text e' \<and> ae_event_hash e = ae_event_hash e')
      (al_events l) (al_events l')"
    by (auto simp: list_all2_conv_all_nth list_eq_iff_nth_eq)
  then show ?thesis
  proof (rule list.rel_mono_strong)
    fix e e'
    assume m: "e \<in> set (al_events l)" "e' \<in> set (al_events l')"
      and t: "audit_text e = audit_text e' \<and> ae_event_hash e = ae_event_hash e'"
    have "0 \<le> ae_timestamp e" "0 \<le> ae_timestamp e'" using assms(6) m by (auto simp: list_all_iff)
    then show "same_event e e'"
      using t isoformat_inject [of "ae_timestamp e" "ae_timestamp e'"]
      by (simp add: audit_text_eq same_event_def del: json_canon.simps)
  qed
qed

definition sample_event :: "(string \<times> json) list \<Rightarrow> AuditEvent" where
  "sample_event payload = create_event (\<lambda>_. ''d'') CART_PROPOSED GENESIS_HASH
     \<lparr>ev_transaction_id = Some ''t'', ev_mandate_id = None, ev_merchant_id = None, ev_buyer_id = None,
      ev_payload = Some payload\<rparr> None ''e'' 0"

definition sample_ledger :: "(string \<times> json) list \<Rightarrow> AuditLedger" where
  "sample_ledger payload = \<lparr>al_events = [sample_event payload], al_head_hash = ''d''\<rparr>"

theorem audit_tamper_evident_witness:
  "list_all2 same_event (al_events (sample_ledger [(''a'', JInt 1), (''b'', JInt 2)]))
     (al_events (sample_ledger [(''b'', JInt 2), (''a'', JInt 1)]))"
proof -
  have one: "audit_text (sample_event [(''a'', JInt 1), (''b'', JInt 2)]) =
      audit_text (sample_event [(''b'', JInt 2), (''a'', JInt 1)])"
    by (simp add: audit_text_eq sample_event_def create_event_def Let_def)
  have v: "fst (verify_chain (\<lambda>_. ''d'') (sample_ledger p))" for p
    by (simp add: verify_chain_def sample_ledger_def sample_event_def)
      (simp add: create_event_def Let_def compute_event_hash_def)
  have g: "GENESIS_HASH \<noteq> ''d''" by (simp add: GENESIS_HASH_def numeral_eq_Suc)
  show ?thesis
    by (rule audit_tamper_evident [OF v v])
      (use g in \<open>simp_all add: sample_ledger_def one\<close>, simp_all add: sample_event_def create_event_def Let_def)
qed

text \<open>An honest ledger always verifies: after any sequence of appends and clears, the whole chain
  passes the verification.\<close>

theorem honest_ledger_verifies:
  "verify_chain sha (snd (run_ops (ledger_step sha) audit_ledger_init ops)) = (True, None)"
proof -
  have "fst (verify_chain sha (snd (run_ops (ledger_step sha) audit_ledger_init ops)))"
    by (rule audit_machine.inv_run) (simp_all add: verify_chain_def audit_ledger_init_def)
  then show ?thesis by (auto simp: verify_chain_def split: if_splits sum.splits)
qed

text \<open>What a query returns: the events that match every given criterion, in the order of the
  ledger, without the first \<open>offset\<close> of them and at most \<open>limit\<close> of them, except that a limit of zero
  (or less) still returns one.\<close>

theorem query_events_exact:
  "query_events l q limit offset =
     at_most (map_option (max 1) limit) (drop (nat offset) (filter (query_matches q) (al_events l)))"
proof (cases limit)
  case None
  then show ?thesis by (simp add: query_events_def query_loop_all at_most_def)
next
  case (Some n)
  show ?thesis
  proof (cases "n \<le> 1")
    case True
    then have "max 1 n = 1" by simp
    then show ?thesis using Some query_loop_nonpositive [OF True] query_loop_limited [of "[]" 1]
      by (simp add: query_events_def at_most_def)
  next
    case False
    then show ?thesis using Some by (simp add: query_events_def at_most_def query_loop_limited)
  qed
qed

end
