(* ===== verification/Audit_Store.thy ===== *)
theory Audit_Store
  imports Audit_Ledger "HOL-Library.AList"
begin

text \<open>
  The audit table (\<open>db/models/audit.py\<close>), its repository (\<open>db/repository/audit_repository.py\<close>) and the
  asynchronous methods of the ledger (\<open>apps/api/domain/audit_ledger.py\<close>). The table is the list of
  its rows in the order of insertion; a query orders them by sequence number. Whether a flush accepts
  a row is the parameter \<open>accepts\<close>, of which the properties use that the unique columns are
  enforced (\<open>audit_unique\<close>). The text column \<open>payload_json\<close> is what \<open>json.loads\<close> makes of it.

  \<open>repo_append_event\<close> holds its lock only while it reads the latest event, so two writers can read
  the same one. \<open>audit_db_step\<close> therefore has the read and the flush of a writer as two steps, in any
  interleaving with those of others, and \<open>audit_db\<close> interprets \<open>machine\<close> on them.
\<close>

section \<open>The table\<close>

datatype json_column = Json_Text json | Empty_Text | Not_Json

record AuditRow =
  ar_event_id :: string
  ar_sequence_number :: int
  ar_event_type :: string
  ar_transaction_id :: "string option"
  ar_mandate_id :: "string option"
  ar_merchant_id :: "string option"
  ar_buyer_id :: "string option"
  ar_payload_json :: json_column
  ar_previous_hash :: string
  ar_event_hash :: string
  ar_timestamp :: datetime

definition audit_unique :: "(AuditRow list \<Rightarrow> AuditRow \<Rightarrow> bool) \<Rightarrow> bool" where
  \<comment> \<open>the primary key and the unique columns\<close>
  "audit_unique accepts \<longleftrightarrow> (\<forall>rows r. accepts rows r \<longrightarrow> ar_event_id r \<notin> ar_event_id ` set rows \<and>
     ar_sequence_number r \<notin> ar_sequence_number ` set rows \<and> ar_event_hash r \<notin> ar_event_hash ` set rows)"

definition audit_accepts :: "AuditRow list \<Rightarrow> AuditRow \<Rightarrow> bool" where
  \<comment> \<open>the database with no constraint beside them\<close>
  "audit_accepts rows r \<longleftrightarrow> ar_event_id r \<notin> ar_event_id ` set rows \<and>
     ar_sequence_number r \<notin> ar_sequence_number ` set rows \<and> ar_event_hash r \<notin> ar_event_hash ` set rows"

definition get_all_events :: "AuditRow list \<Rightarrow> AuditRow list" where
  "get_all_events rows = sort_key ar_sequence_number rows"

definition get_latest_event :: "AuditRow list \<Rightarrow> AuditRow option" where
  \<comment> \<open>\<open>order_by(sequence_number.desc()).limit(1)\<close>\<close>
  "get_latest_event rows = (if rows = [] then None else Some (last (get_all_events rows)))"

definition get_events_for_transaction :: "AuditRow list \<Rightarrow> string \<Rightarrow> AuditRow list" where
  "get_events_for_transaction rows tid =
     sort_key ar_sequence_number (filter (\<lambda>r. ar_transaction_id r = Some tid) rows)"

definition get_event_by_sequence :: "AuditRow list \<Rightarrow> int \<Rightarrow> AuditRow option" where
  "get_event_by_sequence rows n = find (\<lambda>r. ar_sequence_number r = n) rows"

definition get_event :: "AuditRow list \<Rightarrow> string \<Rightarrow> AuditRow option" where
  "get_event rows eid = (if eid = [] then None else find (\<lambda>r. ar_event_id r = strip eid) rows)"

section \<open>Appending\<close>

definition audit_row ::
  "(string \<Rightarrow> string) \<Rightarrow> AuditRow option \<Rightarrow> AuditEventType \<Rightarrow> EventArgs \<Rightarrow> datetime \<Rightarrow> string \<Rightarrow> AuditRow" where
  \<comment> \<open>the row after the latest event that was read; \<open>json.dumps\<close> sorts the payload\<close>
  "audit_row sha latest ty f ts eid =
     (let seq = (case latest of None \<Rightarrow> 1 | Some r \<Rightarrow> ar_sequence_number r + 1);
          prev = (case latest of None \<Rightarrow> GENESIS_HASH | Some r \<Rightarrow> ar_event_hash r);
          payload = option_or (ev_payload f) []
      in \<lparr>ar_event_id = eid, ar_sequence_number = seq, ar_event_type = audit_event_value ty,
          ar_transaction_id = ev_transaction_id f, ar_mandate_id = ev_mandate_id f,
          ar_merchant_id = ev_merchant_id f, ar_buyer_id = ev_buyer_id f,
          ar_payload_json = Json_Text (json_canon (JObj payload)), ar_previous_hash = prev,
          ar_event_hash = compute_event_hash sha eid ty ts prev (ev_transaction_id f) (ev_mandate_id f)
            (ev_merchant_id f) (ev_buyer_id f) (JObj payload),
          ar_timestamp = ts\<rparr>)"

definition flush_event ::
  "(AuditRow list \<Rightarrow> AuditRow \<Rightarrow> bool) \<Rightarrow> AuditRow list \<Rightarrow> AuditRow \<Rightarrow> AuditRow res \<times> AuditRow list" where
  "flush_event accepts rows r =
     (if accepts rows r then (Inr r, rows @ [r])
      else (Inl (Raise ValueError
        (Msg ''Failed to append audit event {} at sequence {}: integrity constraint violated.''
          [PStr (ar_event_id r), PInt (ar_sequence_number r)])), rows))"

definition repo_append_event ::
  "(string \<Rightarrow> string) \<Rightarrow> (AuditRow list \<Rightarrow> AuditRow \<Rightarrow> bool) \<Rightarrow> AuditRow list \<Rightarrow> string \<Rightarrow> EventArgs \<Rightarrow>
   datetime option \<Rightarrow> string option \<Rightarrow> string \<Rightarrow> datetime \<Rightarrow> AuditRow res \<times> AuditRow list" where
  \<comment> \<open>without another writer between the read and the flush; \<open>ty\<close> is the value of the event type\<close>
  "repo_append_event sha accepts rows ty f at eid uid now =
     (case audit_event_of ty of
        None \<Rightarrow> (Inl (Raise ValueError (Msg ''{} is not a valid AuditEventType'' [PStr ty])), rows)
      | Some t \<Rightarrow>
          flush_event accepts rows (audit_row sha (get_latest_event rows) t f (resolve_at at now)
            (if eid = None \<or> eid = Some [] then uid else the eid)))"

definition record_event ::
  "(string \<Rightarrow> string) \<Rightarrow> (AuditRow list \<Rightarrow> AuditRow \<Rightarrow> bool) \<Rightarrow> AuditRow list \<Rightarrow> string \<Rightarrow> string \<Rightarrow> string \<Rightarrow>
   (string \<times> json) list option \<Rightarrow> string option \<Rightarrow> string \<Rightarrow> datetime \<Rightarrow> AuditRow res \<times> AuditRow list" where
  "record_event sha accepts rows ty actor cmp payload tid uid now =
     (let p = option_or payload [];
          p1 = (if actor \<noteq> [] then AList.update ''actor'' (JStr actor) p else p);
          p2 = (if cmp \<noteq> [] then AList.update ''component'' (JStr cmp) p1 else p1)
      in repo_append_event sha accepts rows ty \<lparr>ev_transaction_id = tid, ev_mandate_id = None,
           ev_merchant_id = None, ev_buyer_id = None, ev_payload = Some p2\<rparr> None None uid now)"

section \<open>Verification\<close>

definition row_payload :: "AuditRow \<Rightarrow> json option" where
  \<comment> \<open>\<open>json.loads(payload_json) if payload_json else {}\<close>, where \<open>None\<close> is its exception\<close>
  "row_payload r = (case ar_payload_json r of Json_Text j \<Rightarrow> Some j | Empty_Text \<Rightarrow> Some (JObj [])
     | Not_Json \<Rightarrow> None)"

fun verify_rows ::
  "(string \<Rightarrow> string) \<Rightarrow> int \<Rightarrow> int \<Rightarrow> string \<Rightarrow> AuditRow list \<Rightarrow> bool \<times> msg option" where
  "verify_rows sha i seq prev [] = (True, None)"
| "verify_rows sha i seq prev (r # rs) =
     (if ar_sequence_number r \<noteq> seq then
        (False, Some (Msg ''Audit chain sequence broken at index {}: expected sequence {}, got {}.''
           [PInt i, PInt seq, PInt (ar_sequence_number r)]))
      else if ar_previous_hash r \<noteq> prev then
        (False, Some (Msg ''Audit chain link broken at sequence {}: previous_hash '{}' != expected '{}'.''
           [PInt (ar_sequence_number r), PStr (ar_previous_hash r), PStr prev]))
      else case row_payload r of
        None \<Rightarrow> (False, Some (Msg ''Invalid payload_json at sequence {}: {}''
           [PInt (ar_sequence_number r), PNone]))
      | Some payload \<Rightarrow>
          (case audit_event_of (ar_event_type r) of
             None \<Rightarrow> (False, Some (Msg ''Invalid event_type '{}' at sequence {}.''
                [PStr (ar_event_type r), PInt (ar_sequence_number r)]))
           | Some ty \<Rightarrow>
               let h = compute_event_hash sha (ar_event_id r) ty (ar_timestamp r) (ar_previous_hash r)
                 (ar_transaction_id r) (ar_mandate_id r) (ar_merchant_id r) (ar_buyer_id r) payload
               in if ar_event_hash r \<noteq> h then
                    (False, Some (Msg ''Audit event_hash tampered at sequence {}: stored '{}' != recomputed '{}'.''
                       [PInt (ar_sequence_number r), PStr (ar_event_hash r), PStr h]))
                  else verify_rows sha (i + 1) (seq + 1) (ar_event_hash r) rs))"

definition verify_table :: "(string \<Rightarrow> string) \<Rightarrow> AuditRow list \<Rightarrow> bool \<times> msg option" where
  \<comment> \<open>\<open>AuditRepository.verify_chain\<close>\<close>
  "verify_table sha rows = verify_rows sha 0 1 GENESIS_HASH (get_all_events rows)"

section \<open>The ledger over the table\<close>

definition row_event :: "AuditRow \<Rightarrow> AuditEvent res" where
  "row_event r =
     (case row_payload r of
        Some (JObj payload) \<Rightarrow>
          (case audit_event_of (ar_event_type r) of
             None \<Rightarrow> Inl (Raise ValueError (Msg ''{} is not a valid AuditEventType'' [PStr (ar_event_type r)]))
           | Some ty \<Rightarrow> Inr \<lparr>ae_event_id = ar_event_id r, ae_event_type = ty,
               ae_timestamp = ar_timestamp r, ae_transaction_id = ar_transaction_id r,
               ae_mandate_id = ar_mandate_id r, ae_merchant_id = ar_merchant_id r,
               ae_buyer_id = ar_buyer_id r, ae_payload = payload,
               ae_previous_hash = ar_previous_hash r, ae_event_hash = ar_event_hash r\<rparr>)
      | _ \<Rightarrow> Inl (Raise ValueError (Msg ''payload'' [])))"

definition async_append_event ::
  "(string \<Rightarrow> string) \<Rightarrow> (AuditRow list \<Rightarrow> AuditRow \<Rightarrow> bool) \<Rightarrow> AuditLedger \<Rightarrow> AuditRow list \<Rightarrow> AuditEventType \<Rightarrow>
   EventArgs \<Rightarrow> datetime option \<Rightarrow> string \<Rightarrow> datetime \<Rightarrow> AuditEvent res \<times> AuditLedger \<times> AuditRow list" where
  "async_append_event sha accepts l rows ty f at uid now =
     (case repo_append_event sha accepts rows (audit_event_value ty) f at None uid now of
        (Inl e, rows') \<Rightarrow> (Inl e, l, rows')
      | (Inr r, rows') \<Rightarrow>
          (case row_event r of
             Inl e \<Rightarrow> (Inl e, l, rows')
           | Inr e \<Rightarrow> (Inr e, \<lparr>al_events = al_events l @ [e], al_head_hash = ae_event_hash e\<rparr>, rows')))"

definition async_verify_chain :: "(string \<Rightarrow> string) \<Rightarrow> AuditRow list \<Rightarrow> bool \<times> msg option" where
  "async_verify_chain sha rows = verify_table sha rows"

section \<open>What the verification accepts\<close>

definition row_text :: "AuditRow \<Rightarrow> string" where
  \<comment> \<open>what the digest of a well-formed row covers\<close>
  "row_text r = json_dumps (canonical_event (ar_event_id r) (the (audit_event_of (ar_event_type r)))
     (ar_timestamp r) (ar_previous_hash r) (ar_transaction_id r) (ar_mandate_id r)
     (ar_merchant_id r) (ar_buyer_id r) (the (row_payload r)))"

definition wf_row :: "AuditRow \<Rightarrow> bool" where
  "wf_row r \<longleftrightarrow> row_payload r \<noteq> None \<and> audit_event_of (ar_event_type r) \<noteq> None"

interpretation audit_row_chain: hash_chain ar_previous_hash ar_event_hash row_text
  by unfold_locales (simp add: row_text_def json_dumps_inject json_canon_event del: json_canon.simps)

abbreviation rows_linked :: "(string \<Rightarrow> string) \<Rightarrow> string \<Rightarrow> AuditRow list \<Rightarrow> bool" where
  "rows_linked \<equiv> linked ar_previous_hash ar_event_hash row_text"

fun numbered :: "int \<Rightarrow> AuditRow list \<Rightarrow> bool" where
  "numbered n [] = True"
| "numbered n (r # rs) = (ar_sequence_number r = n \<and> numbered (n + 1) rs)"

lemma numbered_snoc:
  "numbered n (rs @ [r]) \<longleftrightarrow> numbered n rs \<and> ar_sequence_number r = n + int (length rs)"
proof (induction rs arbitrary: n)
  case (Cons q rs)
  have "n + 1 + int (length rs) = n + int (length (q # rs))" by simp
  then show ?case using Cons.IH [of "n + 1"] by (simp only: append_Cons numbered.simps conj_assoc)
qed simp

lemma numbered_set: "numbered n rs \<Longrightarrow> ar_sequence_number ` set rs = {n..<n + int (length rs)}"
  by (induction rs arbitrary: n) auto

lemma numbered_sorted: "numbered n rs \<Longrightarrow> sorted (map ar_sequence_number rs)"
proof (induction rs arbitrary: n)
  case (Cons r rs)
  then show ?case using numbered_set [of "n + 1" rs] by auto
qed simp

lemma numbered_all: "numbered n rs \<Longrightarrow> get_all_events rs = rs"
  unfolding get_all_events_def by (rule sort_key_id_if_sorted) (rule numbered_sorted)

definition table_ok :: "(string \<Rightarrow> string) \<Rightarrow> AuditRow list \<Rightarrow> bool" where
  "table_ok sha rs \<longleftrightarrow> numbered 1 rs \<and> rows_linked sha GENESIS_HASH rs \<and> list_all wf_row rs"

lemma verify_rows_iff:
  "verify_rows sha i n prev rs = (True, None) \<longleftrightarrow>
     numbered n rs \<and> rows_linked sha prev rs \<and> list_all wf_row rs"
proof (induction rs arbitrary: i n prev)
  case (Cons r rs)
  show ?case
  proof (cases "wf_row r")
    case True
    then obtain payload ty where p: "row_payload r = Some payload" "audit_event_of (ar_event_type r) = Some ty"
      by (auto simp: wf_row_def)
    have "sha (row_text r) = compute_event_hash sha (ar_event_id r) ty (ar_timestamp r) (ar_previous_hash r)
        (ar_transaction_id r) (ar_mandate_id r) (ar_merchant_id r) (ar_buyer_id r) payload"
      by (simp add: row_text_def compute_event_hash_def p)
    then have "verify_rows sha i n prev (r # rs) = (True, None) \<longleftrightarrow> ar_sequence_number r = n \<and>
        ar_previous_hash r = prev \<and> ar_event_hash r = sha (row_text r) \<and>
        verify_rows sha (i + 1) (n + 1) (ar_event_hash r) rs = (True, None)"
      by (simp add: p Let_def)
    then show ?thesis using True Cons.IH by auto
  next
    case False
    then have "verify_rows sha i n prev (r # rs) \<noteq> (True, None)"
      by (auto simp: wf_row_def split: option.splits)
    then show ?thesis using False by simp
  qed
qed simp

lemma verify_table_iff: "verify_table sha rows = (True, None) \<longleftrightarrow> table_ok sha (get_all_events rows)"
  by (simp add: verify_table_def verify_rows_iff table_ok_def)

section \<open>Writers in any interleaving\<close>

lemma audit_row_hash: "ar_event_hash (audit_row sha latest ty f ts eid) = sha (row_text (audit_row sha latest ty f ts eid))"
  by (simp add: audit_row_def Let_def row_text_def row_payload_def compute_event_hash_def json_dumps_def
      json_canon_event del: json_canon.simps)

lemma audit_row_wf: "wf_row (audit_row sha latest ty f ts eid)"
  by (simp add: audit_row_def Let_def wf_row_def row_payload_def)

lemma numbered_last:
  assumes "numbered 1 rs" and "r \<in> set rs" and "ar_sequence_number r + 1 \<notin> ar_sequence_number ` set rs"
  shows "\<exists>qs. rs = qs @ [r]"
proof -
  have "ar_sequence_number r \<in> {1..<1 + int (length rs)}"
    using assms(1,2) numbered_set [OF assms(1)] by blast
  then have top: "ar_sequence_number r = int (length rs)"
    using assms(3) numbered_set [OF assms(1)] by auto
  obtain qs x where rs: "rs = qs @ [x]" using assms(2) by (cases rs rule: rev_cases) auto
  have "r = x"
  proof (rule ccontr)
    assume "r \<noteq> x"
    then have "ar_sequence_number r \<in> ar_sequence_number ` set qs" using assms(2) rs by auto
    moreover have "numbered 1 qs" using assms(1) rs by (simp add: numbered_snoc)
    ultimately show False using numbered_set [of 1 qs] top rs by auto
  qed
  then show ?thesis using rs by simp
qed

definition read_from :: "AuditRow list \<Rightarrow> AuditRow option \<Rightarrow> bool" where
  "read_from rows latest = (case latest of None \<Rightarrow> True | Some r \<Rightarrow> r \<in> set rows)"

lemma flush_keeps_chain:
  assumes "audit_unique accepts" and "table_ok sha rows"
    and "read_from rows latest"
  shows "table_ok sha (snd (flush_event accepts rows (audit_row sha latest ty f ts eid)))"
proof (cases "accepts rows (audit_row sha latest ty f ts eid)")
  case True
  let ?r = "audit_row sha latest ty f ts eid"
  have fresh: "ar_sequence_number ?r \<notin> ar_sequence_number ` set rows"
    using True assms(1) by (simp add: audit_unique_def)
  have nums: "numbered 1 rows" using assms(2) by (simp add: table_ok_def)
  have "ar_sequence_number ?r = 1 + int (length rows) \<and>
      ar_previous_hash ?r = tip ar_event_hash GENESIS_HASH rows"
  proof (cases latest)
    case None
    then have "1 \<notin> {1..<1 + int (length rows)}"
      using fresh numbered_set [OF nums] by (simp add: audit_row_def Let_def)
    then show ?thesis using None by (simp add: audit_row_def Let_def)
  next
    case (Some q)
    then obtain qs where rows: "rows = qs @ [q]"
      using numbered_last [OF nums, of q] fresh assms(3) by (auto simp: audit_row_def Let_def read_from_def)
    then show ?thesis using Some nums by (simp add: audit_row_def Let_def numbered_snoc)
  qed
  then show ?thesis using True assms(2) audit_row_hash [of sha latest ty f ts eid]
    by (simp add: flush_event_def table_ok_def numbered_snoc linked_snoc audit_row_wf)
qed (simp add: flush_event_def assms(2))

record pending_append =
  pa_latest :: "AuditRow option"
  pa_type :: AuditEventType
  pa_args :: EventArgs
  pa_time :: datetime
  pa_event_id :: string

record AuditDb =
  adb_rows :: "AuditRow list"
  adb_pending :: "nat \<rightharpoonup> pending_append"

definition audit_db_init :: AuditDb where
  "audit_db_init = \<lparr>adb_rows = [], adb_pending = Map.empty\<rparr>"

datatype audit_db_op = Read_Latest nat AuditEventType EventArgs datetime string | Flush nat

fun audit_db_step ::
  "(string \<Rightarrow> string) \<Rightarrow> (AuditRow list \<Rightarrow> AuditRow \<Rightarrow> bool) \<Rightarrow> AuditDb \<Rightarrow> audit_db_op \<Rightarrow>
   AuditRow res option \<times> AuditDb" where
  "audit_db_step sha accepts d (Read_Latest w ty f ts eid) =
     (None, d\<lparr>adb_pending := (adb_pending d)(w \<mapsto> \<lparr>pa_latest = get_latest_event (adb_rows d),
        pa_type = ty, pa_args = f, pa_time = ts, pa_event_id = eid\<rparr>)\<rparr>)"
| "audit_db_step sha accepts d (Flush w) =
     (case adb_pending d w of
        None \<Rightarrow> (None, d)
      | Some p \<Rightarrow>
          (case flush_event accepts (adb_rows d) (audit_row sha (pa_latest p) (pa_type p) (pa_args p)
                  (pa_time p) (pa_event_id p)) of
             (out, rows') \<Rightarrow> (Some out, d\<lparr>adb_rows := rows', adb_pending := (adb_pending d)(w := None)\<rparr>)))"

definition audit_db_inv :: "(string \<Rightarrow> string) \<Rightarrow> AuditDb \<Rightarrow> bool" where
  "audit_db_inv sha d \<longleftrightarrow> table_ok sha (adb_rows d) \<and>
     (\<forall>w p. adb_pending d w = Some p \<longrightarrow> read_from (adb_rows d) (pa_latest p))"

lemma get_latest_in: "read_from rows (get_latest_event rows)"
proof (cases "rows = []")
  case False
  then have "get_all_events rows \<noteq> []" by (metis get_all_events_def length_0_conv length_sort)
  then have "last (get_all_events rows) \<in> set (get_all_events rows)" by (rule last_in_set)
  then show ?thesis using False by (simp add: read_from_def get_latest_event_def get_all_events_def)
qed (simp add: read_from_def get_latest_event_def)

lemma read_from_mono: "read_from rows x \<Longrightarrow> set rows \<subseteq> set rows' \<Longrightarrow> read_from rows' x"
  by (auto simp: read_from_def split: option.splits)

lemma audit_db_step_inv:
  assumes "audit_unique accepts" and "audit_db_inv sha d"
  shows "audit_db_inv sha (snd (audit_db_step sha accepts d x))"
proof (cases x)
  case (Read_Latest w ty f ts eid)
  then show ?thesis using assms(2) get_latest_in [of "adb_rows d"] by (simp add: audit_db_inv_def)
next
  case (Flush w)
  show ?thesis
  proof (cases "adb_pending d w")
    case (Some p)
    let ?flush = "flush_event accepts (adb_rows d) (audit_row sha (pa_latest p) (pa_type p) (pa_args p)
        (pa_time p) (pa_event_id p))"
    have "table_ok sha (snd ?flush)"
      using assms Some by (intro flush_keeps_chain) (auto simp: audit_db_inv_def)
    moreover have "set (adb_rows d) \<subseteq> set (snd ?flush)" by (auto simp: flush_event_def)
    moreover have "read_from (adb_rows d) (pa_latest q)" if "adb_pending d v = Some q" for v q
      using assms(2) that by (simp add: audit_db_inv_def)
    ultimately show ?thesis using Some Flush
      by (auto simp: audit_db_inv_def split: prod.splits if_splits) (metis read_from_mono)
  qed (use assms(2) Flush in simp)
qed

interpretation audit_db: machine "audit_db_step sha accepts" "\<lambda>_ _. audit_unique accepts" "audit_db_inv sha"
  by unfold_locales (rule audit_db_step_inv)

lemma table_ok_take: "table_ok sha rows \<Longrightarrow> table_ok sha (take n rows)"
proof -
  have "numbered k rows \<Longrightarrow> numbered k (take n rows)" for k
    by (induction rows arbitrary: k n) (auto simp: take_Cons split: nat.split)
  moreover have "rows_linked sha g rows \<Longrightarrow> rows_linked sha g (take n rows)" for g
    by (induction rows arbitrary: g n) (auto simp: take_Cons split: nat.split)
  moreover have "list_all wf_row rows \<Longrightarrow> list_all wf_row (take n rows)"
    by (auto simp: list_all_iff dest: in_set_takeD)
  ultimately show "table_ok sha rows \<Longrightarrow> table_ok sha (take n rows)" by (simp add: table_ok_def)
qed

section \<open>Properties\<close>

text \<open>Racing writers keep the chain. Although the lock of \<open>append_event\<close> is released before the new
  row is written, so that any number of writers may build on the same latest event in any
  interleaving of their reads and flushes, the stored chain always verifies: the unique sequence
  number lets only one of them in.\<close>

theorem racing_appends_keep_chain:
  assumes "audit_unique accepts"
  shows "verify_table sha (adb_rows (snd (run_ops (audit_db_step sha accepts) audit_db_init ops))) = (True, None)"
proof -
  have "audit_db_inv sha (snd (run_ops (audit_db_step sha accepts) audit_db_init ops))"
    using assms by (intro audit_db.inv_run) (simp_all add: audit_db_inv_def audit_db_init_def table_ok_def)
  then have ok: "table_ok sha (adb_rows (snd (run_ops (audit_db_step sha accepts) audit_db_init ops)))"
    by (simp add: audit_db_inv_def)
  then have "numbered 1 (adb_rows (snd (run_ops (audit_db_step sha accepts) audit_db_init ops)))"
    by (simp add: table_ok_def)
  with ok show ?thesis by (simp add: verify_table_iff numbered_all)
qed

definition sample_args :: EventArgs where
  "sample_args = \<lparr>ev_transaction_id = Some ''t'', ev_mandate_id = None, ev_merchant_id = None,
     ev_buyer_id = None, ev_payload = None\<rparr>"

lemma audit_accepts_unique: "audit_unique audit_accepts"
  by (simp add: audit_unique_def audit_accepts_def)

theorem racing_appends_keep_chain_witness:
  "verify_table (\<lambda>x. x) (adb_rows (snd (run_ops (audit_db_step (\<lambda>x. x) audit_accepts) audit_db_init
     [Read_Latest 0 CART_PROPOSED sample_args 5 ''a'', Read_Latest 1 PAYMENT_STARTED sample_args 6 ''b'',
      Flush 0, Flush 1]))) = (True, None)"
  by (rule racing_appends_keep_chain) (rule audit_accepts_unique)

text \<open>Deleting the latest events goes unnoticed. The table keeps no head hash beside its rows, so
  when a table passes the verification, so does every table that is left when the latest rows are
  deleted, against the promise of the ledger that deletion is detected.\<close>

theorem truncation_undetected:
  assumes "verify_table sha rows = (True, None)"
  shows "verify_table sha (take n (get_all_events rows)) = (True, None)"
proof -
  have ok: "table_ok sha (take n (get_all_events rows))"
    using assms by (simp add: verify_table_iff table_ok_take)
  then have "numbered 1 (take n (get_all_events rows))" by (simp add: table_ok_def)
  with ok show ?thesis by (simp add: verify_table_iff numbered_all)
qed

theorem truncation_undetected_witness:
  "verify_table (\<lambda>x. x) (take 0 (get_all_events
     [audit_row (\<lambda>x. x) None CART_PROPOSED sample_args 5 ''a''])) = (True, None)"
proof (rule truncation_undetected)
  let ?r = "audit_row (\<lambda>x. x) None CART_PROPOSED sample_args 5 ''a''"
  have "audit_unique audit_accepts" "table_ok (\<lambda>x. x) []" "read_from [] None"
    by (simp_all add: audit_accepts_unique table_ok_def read_from_def)
  from flush_keeps_chain [OF this, of CART_PROPOSED sample_args 5 "''a''"]
  have "table_ok (\<lambda>x. x) [?r]" by (simp add: flush_event_def audit_accepts_def)
  then show "verify_table (\<lambda>x. x) [?r] = (True, None)"
    by (simp add: verify_table_iff get_all_events_def)
qed

text \<open>The asynchronous ledger breaks its own chain. When a fresh ledger (a restarted process) appends
  to a table that already has events, the event enters the ledger in memory without the ones before
  it, and from then on \<open>verify_chain\<close> of the ledger reports a broken chain although nothing was altered.\<close>

theorem async_append_breaks_memory_chain:
  assumes "get_latest_event rows = Some r" and "ar_event_hash r \<noteq> GENESIS_HASH"
    and "async_append_event sha accepts audit_ledger_init rows ty f at uid now = (Inr e, l', rows')"
  shows "\<not> fst (verify_chain sha l')"
proof -
  have "al_events l' = [e] \<and> ae_previous_hash e = ar_event_hash r"
    using assms(1,3)
    by (auto simp: async_append_event_def repo_append_event_def flush_event_def audit_row_def Let_def
        row_event_def audit_ledger_init_def split: sum.splits prod.splits if_splits option.splits json.splits)
  then show ?thesis using assms(2) by (simp add: verify_chain_iff)
qed

lemma async_append_succeeds:
  "\<exists>e l' rows'. async_append_event sha (\<lambda>_ _. True) l rows ty f at uid now = (Inr e, l', rows')"
  by (simp add: async_append_event_def repo_append_event_def flush_event_def row_event_def
      audit_row_def Let_def row_payload_def)

theorem async_append_breaks_memory_chain_witness:
  "\<not> fst (verify_chain (\<lambda>_. ''d'') (fst (snd (async_append_event (\<lambda>_. ''d'') (\<lambda>_ _. True) audit_ledger_init
     [audit_row (\<lambda>_. ''d'') None CART_PROPOSED sample_args 5 ''a''] PAYMENT_STARTED sample_args None ''b'' 6))))"
proof -
  obtain e l' rows' where run: "async_append_event (\<lambda>_. ''d'') (\<lambda>_ _. True) audit_ledger_init
     [audit_row (\<lambda>_. ''d'') None CART_PROPOSED sample_args 5 ''a''] PAYMENT_STARTED sample_args None ''b'' 6
     = (Inr e, l', rows')" using async_append_succeeds by blast
  have "ar_event_hash (audit_row (\<lambda>_. ''d'') None CART_PROPOSED sample_args 5 ''a'') \<noteq> GENESIS_HASH"
    by (simp add: audit_row_def Let_def compute_event_hash_def GENESIS_HASH_def numeral_eq_Suc)
  from async_append_breaks_memory_chain [OF _ this run] show ?thesis
    by (simp add: run get_latest_event_def get_all_events_def)
qed

end
