(* ===== verification/Encoding.thy ===== *)
theory Encoding
  imports Json
begin

text \<open>
  The encodings of byte strings that the receipt code uses: \<open>base64.b64encode\<close> and the lenient
  \<open>base64.b64decode\<close> (characters outside the alphabet are skipped, a complete padding ends the
  input), \<open>bytes.hex\<close> and \<open>bytes.fromhex\<close>. A byte string is a list of characters below 256. The point of
  the theory are the round trips \<open>b64decode_encode\<close> and \<open>fromhex_hex\<close>.
\<close>

abbreviation byte :: "nat \<Rightarrow> char" where
  "byte n \<equiv> char_of n"

abbreviation code :: "char \<Rightarrow> nat" where
  "code c \<equiv> of_char c"

section \<open>Base64\<close>

definition enc64 :: "nat \<Rightarrow> char" where
  "enc64 n = (if n < 26 then byte (65 + n) else if n < 52 then byte (71 + n)
     else if n < 62 then byte (n - 4) else if n = 62 then CHR ''+'' else CHR ''/'')"

definition dec64 :: "char \<Rightarrow> nat option" where
  "dec64 c = (let n = code c in
     if 65 \<le> n \<and> n \<le> 90 then Some (n - 65) else if 97 \<le> n \<and> n \<le> 122 then Some (n - 71)
     else if 48 \<le> n \<and> n \<le> 57 then Some (n + 4) else if c = CHR ''+'' then Some 62
     else if c = CHR ''/'' then Some 63 else None)"

fun b64encode :: "string \<Rightarrow> string" where
  "b64encode [] = []"
| "b64encode [a] = [enc64 (code a div 4), enc64 (code a mod 4 * 16), CHR ''='', CHR ''='']"
| "b64encode [a, b] =
     [enc64 (code a div 4), enc64 (code a mod 4 * 16 + code b div 16), enc64 (code b mod 16 * 4), CHR ''='']"
| "b64encode (a # b # c # s) =
     enc64 (code a div 4) # enc64 (code a mod 4 * 16 + code b div 16) #
     enc64 (code b mod 16 * 4 + code c div 64) # enc64 (code c mod 64) # b64encode s"

fun b64_loop :: "string \<Rightarrow> nat \<Rightarrow> nat \<Rightarrow> nat \<Rightarrow> string \<Rightarrow> string option" where
  \<comment> \<open>the bytes so far, the position in the group of four, the bits left over, the pads seen\<close>
  "b64_loop out q left pads [] = (if q = 0 then Some out else None)"
| "b64_loop out q left pads (c # s) =
     (if c = CHR ''='' then
        (if 2 \<le> q then (if 4 \<le> q + (pads + 1) then Some out else b64_loop out q left (pads + 1) s)
         else b64_loop out q left pads s)
      else case dec64 c of
        None \<Rightarrow> b64_loop out q left pads s
      | Some v \<Rightarrow>
          (if q = 0 then b64_loop out 1 v 0 s
           else if q = 1 then b64_loop (out @ [byte (left * 4 + v div 16)]) 2 (v mod 16) 0 s
           else if q = 2 then b64_loop (out @ [byte (left * 16 + v div 4)]) 3 (v mod 4) 0 s
           else b64_loop (out @ [byte (left * 64 + v)]) 0 0 0 s))"

definition b64decode :: "string \<Rightarrow> string option" where
  \<comment> \<open>\<open>None\<close> is its \<open>binascii.Error\<close>\<close>
  "b64decode s = b64_loop [] 0 0 0 s"

lemma dec64_enc64 [simp]: "n < 64 \<Longrightarrow> dec64 (enc64 n) = Some n"
proof -
  assume "n < 64"
  then consider "n < 26" | "26 \<le> n" "n < 52" | "52 \<le> n" "n < 62" | "n = 62" | "n = 63" by linarith
  then show ?thesis by cases (simp_all add: enc64_def dec64_def Let_def take_bit_eq_mod, arith)
qed

lemma enc64_not_pad [simp]: "n < 64 \<Longrightarrow> enc64 n \<noteq> CHR ''=''"
  using dec64_enc64 [of n] by (auto simp: dec64_def)

lemma code_less [simp]: "code c < 256"
  by simp

lemma sextets [simp]:
  "code a div 4 < 64" "code a mod 4 * 16 + code b div 16 < 64" "code a mod 4 * 16 < 64"
  "code b mod 16 * 4 + code c div 64 < 64" "code b mod 16 * 4 < 64"
  using code_less [of a] code_less [of b] code_less [of c] by linarith+

lemma top_bits [simp]:
  "code b div 16 div 16 = 0" "code c div 64 div 4 = 0" "code b div 16 mod 16 = code b div 16"
  "code c div 64 mod 4 = code c div 64"
proof -
  have "code b div 16 < 16" "code c div 64 < 4" using code_less [of b] code_less [of c] by linarith+
  then show "code b div 16 div 16 = 0" "code c div 64 div 4 = 0" "code b div 16 mod 16 = code b div 16"
    "code c div 64 mod 4 = code c div 64" by simp_all
qed

lemma b64_loop_encode: "b64_loop out 0 0 0 (b64encode s) = Some (out @ s)"
  by (induction s arbitrary: out rule: b64encode.induct) simp_all

lemma b64decode_encode [simp]: "b64decode (b64encode s) = Some s"
  by (simp add: b64decode_def b64_loop_encode)

lemma b64encode_Nil [simp]: "b64encode s = [] \<longleftrightarrow> s = []"
  by (cases s rule: b64encode.cases) simp_all

section \<open>Hexadecimal\<close>

definition unhex :: "char \<Rightarrow> nat option" where
  "unhex c = (let n = code c in
     if 48 \<le> n \<and> n \<le> 57 then Some (n - 48) else if 97 \<le> n \<and> n \<le> 102 then Some (n - 87)
     else if 65 \<le> n \<and> n \<le> 70 then Some (n - 55) else None)"

fun hex :: "string \<Rightarrow> string" where
  "hex [] = []"
| "hex (c # s) = hex_digit (code c div 16) # hex_digit (code c mod 16) # hex s"

definition is_ascii_space :: "char \<Rightarrow> bool" where
  "is_ascii_space c \<longleftrightarrow> c = CHR '' '' \<or> 9 \<le> code c \<and> code c \<le> 13"

fun fromhex :: "string \<Rightarrow> string option" where
  "fromhex [] = Some []"
| "fromhex [c] = (if is_ascii_space c then Some [] else None)"
| "fromhex (c # d # s) =
     (if is_ascii_space c then fromhex (d # s)
      else case (unhex c, unhex d) of
        (Some x, Some y) \<Rightarrow> map_option ((#) (byte (16 * x + y))) (fromhex s)
      | _ \<Rightarrow> None)"

lemma unhex_hex_digit [simp]: "n < 16 \<Longrightarrow> unhex (hex_digit n) = Some n"
  by (cases "n < 10") (simp_all add: hex_digit_def unhex_def take_bit_eq_mod)

lemma hex_digit_not_space [simp]: "n < 16 \<Longrightarrow> \<not> is_ascii_space (hex_digit n)"
  by (cases "n < 10") (simp_all add: hex_digit_def is_ascii_space_def char_of_eq_iff take_bit_eq_mod)

lemma fromhex_hex [simp]: "fromhex (hex s) = Some s"
proof (induction s)
  case (Cons c s)
  have "code c div 16 < 16" using code_less [of c] by linarith
  moreover have "16 * (code c div 16) + code c mod 16 = code c" by simp
  ultimately show ?case using Cons by simp
qed simp

definition is_hex_text_char :: "char \<Rightarrow> bool" where
  \<comment> \<open>\<open>c in "0123456789abcdefABCDEF"\<close>\<close>
  "is_hex_text_char c \<longleftrightarrow> unhex c \<noteq> None"

lemma hex_length [simp]: "length (hex s) = 2 * length s"
  by (induction s) simp_all

lemma hex_chars: "list_all is_hex_text_char (hex s)"
proof (induction s)
  case (Cons c s)
  have "code c div 16 < 16" using code_less [of c] by linarith
  then show ?case using Cons by (simp add: is_hex_text_char_def)
qed simp

end
