(* ===== verification/Receipt.thy ===== *)
theory Receipt
  imports Audit_Ledger Encoding
begin

text \<open>
  Action receipts (\<open>apps/api/domain/receipt.py\<close>), their Ed25519 signer
  (\<open>apps/api/domain/receipt_signer.py\<close>) and the offline verifier
  (\<open>apps/api/domain/receipt_verifier.py\<close>).

  The \<open>cryptography\<close> package is not part of the repository: its operations are the fields of a
  record \<open>ed25519\<close>, an argument of the definitions, for private keys \<open>'k\<close> and public keys \<open>'p\<close>. What
  the properties use of it is \<open>ed_sound\<close> (a signature of a key verifies under its public key, and the raw
  key formats are read back) and, where a forger is considered, the hypothesis that only what was
  signed verifies. SHA-256 is the parameter \<open>sha\<close>.
\<close>

section \<open>The receipt\<close>

record ActionReceipt =
  rc_receipt_version :: string
  rc_receipt_id :: string
  rc_transaction_id :: string
  rc_mandate_id :: string
  rc_merchant_id :: string
  rc_policy_version :: int
  rc_cart_hash :: string
  rc_amount_paise :: int
  rc_currency :: Currency
  rc_decision :: PolicyDecision
  rc_execution_tool :: "string option"
  rc_execution_reference :: "string option"
  rc_authorized_at :: datetime
  rc_executed_at :: "datetime option"
  rc_created_at :: datetime
  rc_audit_hash :: "string option"
  rc_canonical_payload_hash :: string
  rc_signature :: "string option"

definition canonical_receipt :: "ActionReceipt \<Rightarrow> json" where
  "canonical_receipt r = JObj
     [(''amount_paise'', JInt (rc_amount_paise r)), (''audit_hash'', json_opt (rc_audit_hash r)),
      (''authorized_at'', JStr (isoformat (rc_authorized_at r))), (''cart_hash'', JStr (rc_cart_hash r)),
      (''currency'', JStr (currency_value (rc_currency r))),
      (''decision'', JStr (decision_value (rc_decision r))),
      (''execution_reference'', json_opt (rc_execution_reference r)),
      (''execution_tool'', json_opt (rc_execution_tool r)), (''mandate_id'', JStr (rc_mandate_id r)),
      (''merchant_id'', JStr (rc_merchant_id r)), (''policy_version'', JInt (rc_policy_version r)),
      (''receipt_id'', JStr (rc_receipt_id r)), (''receipt_version'', JStr (rc_receipt_version r)),
      (''transaction_id'', JStr (rc_transaction_id r))]"

definition compute_canonical_hash :: "(string \<Rightarrow> string) \<Rightarrow> ActionReceipt \<Rightarrow> string" where
  "compute_canonical_hash sha r = sha (json_dumps (canonical_receipt r))"

definition mk_receipt :: "(string \<Rightarrow> string) \<Rightarrow> ActionReceipt \<Rightarrow> ActionReceipt res" where
  \<comment> \<open>the field constraints and \<open>model_post_init\<close>, on the fields of the constructor's call\<close>
  "mk_receipt sha r =
     (if rc_transaction_id r = [] then Inl (Raise ValueError (Msg ''transaction_id: min_length 1'' []))
      else if rc_mandate_id r = [] then Inl (Raise ValueError (Msg ''mandate_id: min_length 1'' []))
      else if rc_merchant_id r = [] then Inl (Raise ValueError (Msg ''merchant_id: min_length 1'' []))
      else if rc_policy_version r < 1 then Inl (Raise ValueError (Msg ''policy_version: ge 1'' []))
      else if length (rc_cart_hash r) \<noteq> 64 then Inl (Raise ValueError (Msg ''cart_hash: length 64'' []))
      else if rc_amount_paise r < 0 then Inl (Raise ValueError (Msg ''amount_paise: ge 0'' []))
      else if rc_canonical_payload_hash r = [] then
        Inr (r\<lparr>rc_canonical_payload_hash := compute_canonical_hash sha r\<rparr>)
      else Inr r)"

definition verify_canonical_hash :: "(string \<Rightarrow> string) \<Rightarrow> ActionReceipt \<Rightarrow> bool" where
  "verify_canonical_hash sha r \<longleftrightarrow> rc_canonical_payload_hash r = compute_canonical_hash sha r"

section \<open>Keys\<close>

record ('k, 'p) ed25519 =
  ed_public_key :: "'k \<Rightarrow> 'p"
  ed_sign :: "'k \<Rightarrow> string \<Rightarrow> string option" \<comment> \<open>\<open>None\<close> when it raises\<close>
  ed_verify :: "'p \<Rightarrow> string \<Rightarrow> string \<Rightarrow> bool" \<comment> \<open>signature, then message\<close>
  ed_private_bytes :: "'k \<Rightarrow> string"
  ed_public_bytes :: "'p \<Rightarrow> string"
  ed_load_private :: "string \<Rightarrow> 'k option"
  ed_load_public :: "string \<Rightarrow> 'p option"

definition ed_sound :: "('k, 'p) ed25519 \<Rightarrow> bool" where
  "ed_sound ed \<longleftrightarrow>
     (\<forall>k m s. ed_sign ed k m = Some s \<longrightarrow> ed_verify ed (ed_public_key ed k) s m \<and> length s = 64) \<and>
     (\<forall>k. ed_load_private ed (ed_private_bytes ed k) = Some k) \<and>
     (\<forall>p. ed_load_public ed (ed_public_bytes ed p) = Some p \<and> length (ed_public_bytes ed p) = 32)"

definition signing_error :: "string \<Rightarrow> pyval list \<Rightarrow> py_exc" where
  "signing_error t args = Raise (SourceError ''ReceiptSigningError'' ''RECEIPT_SIGNING_FAILED'') (Msg t args)"

definition from_private_key_bytes :: "('k, 'p) ed25519 \<Rightarrow> string \<Rightarrow> 'k res" where
  "from_private_key_bytes ed bs = (case ed_load_private ed bs of
     None \<Rightarrow> Inl (signing_error ''Failed to load Ed25519 private key from raw bytes: {}'' [PNone]) | Some k \<Rightarrow> Inr k)"

definition from_private_key_hex :: "('k, 'p) ed25519 \<Rightarrow> string \<Rightarrow> 'k res" where
  "from_private_key_hex ed h =
     (case fromhex h of
        None \<Rightarrow> Inl (signing_error ''Failed to load Ed25519 private key from hex: {}'' [PNone])
      | Some bs \<Rightarrow> (case from_private_key_bytes ed bs of
          Inl _ \<Rightarrow> Inl (signing_error ''Failed to load Ed25519 private key from hex: {}'' [PNone]) | Inr k \<Rightarrow> Inr k))"

definition get_private_key_hex :: "('k, 'p) ed25519 \<Rightarrow> 'k \<Rightarrow> string" where
  "get_private_key_hex ed k = hex (ed_private_bytes ed k)"

definition get_public_key_hex :: "('k, 'p) ed25519 \<Rightarrow> 'k \<Rightarrow> string" where
  "get_public_key_hex ed k = hex (ed_public_bytes ed (ed_public_key ed k))"

definition get_public_key_base64 :: "('k, 'p) ed25519 \<Rightarrow> 'k \<Rightarrow> string" where
  "get_public_key_base64 ed k = b64encode (ed_public_bytes ed (ed_public_key ed k))"

definition load_public_key_bytes :: "('k, 'p) ed25519 \<Rightarrow> string \<Rightarrow> 'p res" where
  "load_public_key_bytes ed bs = (case ed_load_public ed bs of
     None \<Rightarrow> Inl (signing_error ''Invalid Ed25519 public key bytes: {}'' [PNone]) | Some p \<Rightarrow> Inr p)"

definition load_public_key_hex :: "('k, 'p) ed25519 \<Rightarrow> string \<Rightarrow> 'p res" where
  "load_public_key_hex ed h =
     (case fromhex h of
        None \<Rightarrow> Inl (signing_error ''Invalid Ed25519 public key hex string: {}'' [PNone])
      | Some bs \<Rightarrow> (case load_public_key_bytes ed bs of
          Inl _ \<Rightarrow> Inl (signing_error ''Invalid Ed25519 public key hex string: {}'' [PNone]) | Inr p \<Rightarrow> Inr p))"

definition ascii_decode :: "string \<Rightarrow> string option" where
  \<comment> \<open>\<open>base64.b64decode(s.encode("ascii"))\<close>\<close>
  "ascii_decode s = (if list_all (\<lambda>c. (of_char c :: nat) < 128) s then b64decode s else None)"

definition load_public_key_base64 :: "('k, 'p) ed25519 \<Rightarrow> string \<Rightarrow> 'p res" where
  "load_public_key_base64 ed s =
     (case ascii_decode s of
        None \<Rightarrow> Inl (signing_error ''Invalid Ed25519 public key base64 string: {}'' [PNone])
      | Some bs \<Rightarrow> (case load_public_key_bytes ed bs of
          Inl _ \<Rightarrow> Inl (signing_error ''Invalid Ed25519 public key base64 string: {}'' [PNone]) | Inr p \<Rightarrow> Inr p))"

datatype 'p key_input = Key_Object 'p | Key_Bytes string | Key_Text string

definition load_public_key_obj :: "('k, 'p) ed25519 \<Rightarrow> 'p key_input \<Rightarrow> 'p res" where
  "load_public_key_obj ed key =
     (case key of Key_Object p \<Rightarrow> Inr p
      | Key_Bytes bs \<Rightarrow> load_public_key_bytes ed bs
      | Key_Text s \<Rightarrow>
          if length s = 64 \<and> list_all is_hex_text_char s then load_public_key_hex ed s
          else load_public_key_base64 ed s)"

section \<open>Signing\<close>

record ReceiptFields =
  \<comment> \<open>the keyword arguments of \<open>sign_receipt\<close>\<close>
  rf_transaction_id :: string
  rf_mandate_id :: string
  rf_merchant_id :: string
  rf_policy_version :: int
  rf_cart_hash :: string
  rf_amount_paise :: int
  rf_currency :: Currency
  rf_decision :: PolicyDecision
  rf_execution_tool :: "string option"
  rf_execution_reference :: "string option"
  rf_audit_hash :: "string option"
  rf_authorized_at :: "datetime option"
  rf_executed_at :: "datetime option"
  rf_receipt_id :: "string option"

definition unsigned_receipt :: "ReceiptFields \<Rightarrow> string \<Rightarrow> datetime \<Rightarrow> ActionReceipt" where
  "unsigned_receipt f uid now =
     \<lparr>rc_receipt_version = ''1.0'', rc_receipt_id = option_or (rf_receipt_id f) uid,
      rc_transaction_id = rf_transaction_id f, rc_mandate_id = rf_mandate_id f,
      rc_merchant_id = rf_merchant_id f, rc_policy_version = rf_policy_version f,
      rc_cart_hash = rf_cart_hash f, rc_amount_paise = rf_amount_paise f,
      rc_currency = rf_currency f, rc_decision = rf_decision f,
      rc_execution_tool = rf_execution_tool f, rc_execution_reference = rf_execution_reference f,
      rc_authorized_at = option_or (rf_authorized_at f) now, rc_executed_at = rf_executed_at f,
      rc_created_at = now, rc_audit_hash = rf_audit_hash f, rc_canonical_payload_hash = [],
      rc_signature = None\<rparr>"

definition sign_receipt ::
  "('k, 'p) ed25519 \<Rightarrow> (string \<Rightarrow> string) \<Rightarrow> 'k \<Rightarrow> ReceiptFields \<Rightarrow> string \<Rightarrow> datetime \<Rightarrow> ActionReceipt res" where
  "sign_receipt ed sha k f uid now =
     bind_res (mk_receipt sha (unsigned_receipt f uid now)) (\<lambda>r.
       case ed_sign ed k (rc_canonical_payload_hash r) of
         None \<Rightarrow> Inl (signing_error ''Ed25519 signature generation failed: {}'' [PNone])
       | Some s \<Rightarrow> mk_receipt sha (r\<lparr>rc_signature := Some (b64encode s)\<rparr>))"

section \<open>Verification\<close>

record VerificationResult =
  vr_receipt_id :: "string option"
  vr_is_valid :: bool
  vr_canonical_payload_valid :: bool
  vr_signature_valid :: bool
  vr_structure_valid :: bool
  vr_binding_valid :: bool
  vr_audit_link_valid :: "bool option"
  vr_error :: "msg option"

record Expectations =
  ex_transaction_id :: "string option"
  ex_mandate_id :: "string option"
  ex_merchant_id :: "string option"
  ex_amount_paise :: "int option"
  ex_cart_hash :: "string option"
  ex_currency :: "Currency option"
  ex_decision :: "PolicyDecision option"

definition binding_error :: "string \<Rightarrow> ('a \<Rightarrow> pyval) \<Rightarrow> 'a option \<Rightarrow> 'a \<Rightarrow> msg list" where
  "binding_error t show expected actual =
     (case expected of None \<Rightarrow> []
      | Some e \<Rightarrow> if actual \<noteq> e then [Msg t [show actual, show e]] else [])"

definition verify_bindings :: "ActionReceipt \<Rightarrow> Expectations \<Rightarrow> msg list" where
  "verify_bindings r e =
     binding_error ''transaction_id {} != expected {}'' PStr (ex_transaction_id e) (rc_transaction_id r) @
     binding_error ''mandate_id {} != expected {}'' PStr (ex_mandate_id e) (rc_mandate_id r) @
     binding_error ''merchant_id {} != expected {}'' PStr (ex_merchant_id e) (rc_merchant_id r) @
     binding_error ''amount_paise {} != expected {}'' PInt (ex_amount_paise e) (rc_amount_paise r) @
     binding_error ''cart_hash {} != expected {}'' PStr (ex_cart_hash e) (rc_cart_hash r) @
     binding_error ''currency {} != expected {}'' (\<lambda>c. PStr (currency_value c)) (ex_currency e) (rc_currency r) @
     binding_error ''decision {} != expected {}'' (\<lambda>d. PStr (decision_value d)) (ex_decision e) (rc_decision r)"

datatype receipt_input =
    Receipt_Object ActionReceipt
  | Receipt_Fields ActionReceipt \<comment> \<open>a dictionary with a value of the right type for every field\<close>
  | Receipt_Malformed "string option" \<comment> \<open>any other dictionary, with its \<open>receipt_id\<close>\<close>

definition vr_failed ::
  "string option \<Rightarrow> bool \<Rightarrow> bool \<Rightarrow> bool \<Rightarrow> bool \<Rightarrow> bool option \<Rightarrow> msg \<Rightarrow> VerificationResult" where
  "vr_failed rid canonical sig structure binding link m =
     \<lparr>vr_receipt_id = rid, vr_is_valid = False, vr_canonical_payload_valid = canonical,
      vr_signature_valid = sig, vr_structure_valid = structure, vr_binding_valid = binding,
      vr_audit_link_valid = link, vr_error = Some m\<rparr>"

definition vr_passed :: "string option \<Rightarrow> bool option \<Rightarrow> VerificationResult" where
  "vr_passed rid link =
     \<lparr>vr_receipt_id = rid, vr_is_valid = True, vr_canonical_payload_valid = True,
      vr_signature_valid = True, vr_structure_valid = True, vr_binding_valid = True,
      vr_audit_link_valid = link, vr_error = None\<rparr>"

definition falsy :: "string option \<Rightarrow> bool" where
  "falsy s \<longleftrightarrow> s = None \<or> s = Some []"

definition signature_check :: "('k, 'p) ed25519 \<Rightarrow> 'p key_input \<Rightarrow> ActionReceipt \<Rightarrow> msg option" where
  \<comment> \<open>check 3, on a receipt whose payload hash is right\<close>
  "signature_check ed key r =
     (if falsy (rc_signature r) then Some (Msg ''Receipt is missing required Ed25519 signature.'' [])
      else case load_public_key_obj ed key of
        Inl (Raise _ m) \<Rightarrow> Some (Msg ''Failed to load Ed25519 public key for verification: {}'' [PStr (msg_text m)])
      | Inr p \<Rightarrow>
          (case ascii_decode (the (rc_signature r)) of
             None \<Rightarrow> Some (Msg ''Ed25519 signature decoding error: {}'' [PNone])
           | Some s \<Rightarrow>
               if ed_verify ed p s (rc_canonical_payload_hash r) then None
               else Some (Msg ''Ed25519 signature is invalid for the receipt canonical payload.'' [])))"

definition audit_link_check :: "(string \<Rightarrow> string) \<Rightarrow> ActionReceipt \<Rightarrow> AuditLedger \<Rightarrow> msg option" where
  \<comment> \<open>check 5, when a ledger is given\<close>
  "audit_link_check sha r l =
     (if falsy (rc_audit_hash r) then Some (Msg ''Receipt does not contain an audit_hash linkage digest.'' [])
      else case verify_chain sha l of
        (False, e) \<Rightarrow> Some (Msg ''Audit ledger chain is corrupted: {}''
          [case e of None \<Rightarrow> PNone | Some m \<Rightarrow> PStr (msg_text m)])
      | (True, _) \<Rightarrow>
          (case get_latest_event_for_transaction l (rc_transaction_id r) of
             None \<Rightarrow> Some (Msg ''No audit event recorded in ledger for transaction_id '{}'.''
               [PStr (rc_transaction_id r)])
           | Some e \<Rightarrow>
               if Some (ae_event_hash e) \<noteq> rc_audit_hash r then
                 Some (Msg ''Receipt audit_hash '{}' does not match latest ledger event digest '{}'.''
                   [PStr (the (rc_audit_hash r)), PStr (ae_event_hash e)])
               else None))"

definition verify_object ::
  "('k, 'p) ed25519 \<Rightarrow> (string \<Rightarrow> string) \<Rightarrow> ActionReceipt \<Rightarrow> 'p key_input \<Rightarrow> Expectations \<Rightarrow>
   AuditLedger option \<Rightarrow> VerificationResult" where
  \<comment> \<open>the checks after the parsing\<close>
  "verify_object ed sha r key e ledger =
     (let rid = Some (rc_receipt_id r) in
      if rc_receipt_id r = [] \<or> rc_transaction_id r = [] \<or> rc_mandate_id r = [] \<or> rc_merchant_id r = [] \<or>
         length (rc_cart_hash r) \<noteq> 64 \<or> rc_amount_paise r < 0 then
        vr_failed rid False False False False None
          (Msg ''Receipt contains incomplete or invalid structural fields.'' [])
      else if compute_canonical_hash sha r \<noteq> rc_canonical_payload_hash r then
        vr_failed rid False False True False None
          (Msg ''Canonical payload hash mismatch: computed {} != receipt {}''
            [PStr (compute_canonical_hash sha r), PStr (rc_canonical_payload_hash r)])
      else case signature_check ed key r of
        Some m \<Rightarrow> vr_failed rid True False True False None m
      | None \<Rightarrow>
          if verify_bindings r e \<noteq> [] then
            vr_failed rid True True True False None
              (Msg ''Context binding verification failed: {}'' (map (PStr \<circ> msg_text) (verify_bindings r e)))
          else case ledger of
            None \<Rightarrow> vr_passed rid None
          | Some l \<Rightarrow>
              (case audit_link_check sha r l of
                 Some m \<Rightarrow> vr_failed rid True True True True (Some False) m
               | None \<Rightarrow> vr_passed rid (Some True)))"

definition verify_receipt ::
  "('k, 'p) ed25519 \<Rightarrow> (string \<Rightarrow> string) \<Rightarrow> receipt_input \<Rightarrow> 'p key_input \<Rightarrow> Expectations \<Rightarrow>
   AuditLedger option \<Rightarrow> VerificationResult" where
  "verify_receipt ed sha receipt key e ledger =
     (case receipt of
        Receipt_Object r \<Rightarrow> verify_object ed sha r key e ledger
      | Receipt_Fields r \<Rightarrow>
          (case mk_receipt sha r of
             Inl (Raise _ m) \<Rightarrow> vr_failed (Some (rc_receipt_id r)) False False False False None
               (Msg ''Receipt structure parsing failed: {}'' [PStr (msg_text m)])
           | Inr r' \<Rightarrow> verify_object ed sha r' key e ledger)
      | Receipt_Malformed rid \<Rightarrow> vr_failed (Some (option_or rid ''unknown'')) False False False False None
          (Msg ''Receipt structure parsing failed: {}'' [PNone]))"

section \<open>What a valid receipt is\<close>

definition receipt_text :: "ActionReceipt \<Rightarrow> string" where
  "receipt_text r = json_dumps (canonical_receipt r)"

definition same_terms :: "ActionReceipt \<Rightarrow> ActionReceipt \<Rightarrow> bool" where
  \<comment> \<open>what the signature covers\<close>
  "same_terms r q \<longleftrightarrow> rc_receipt_version r = rc_receipt_version q \<and> rc_receipt_id r = rc_receipt_id q \<and>
     rc_transaction_id r = rc_transaction_id q \<and> rc_mandate_id r = rc_mandate_id q \<and>
     rc_merchant_id r = rc_merchant_id q \<and> rc_policy_version r = rc_policy_version q \<and>
     rc_cart_hash r = rc_cart_hash q \<and> rc_amount_paise r = rc_amount_paise q \<and>
     rc_currency r = rc_currency q \<and> rc_decision r = rc_decision q \<and>
     rc_execution_tool r = rc_execution_tool q \<and> rc_execution_reference r = rc_execution_reference q \<and>
     rc_authorized_at r = rc_authorized_at q \<and> rc_audit_hash r = rc_audit_hash q"

lemma currency_value_inject [simp]: "currency_value a = currency_value b \<longleftrightarrow> a = b"
  by (cases a; cases b) simp_all

lemma json_canon_receipt [simp]: "json_canon (canonical_receipt r) = canonical_receipt r"
  by (simp add: canonical_receipt_def)

lemma receipt_text_eq:
  assumes "receipt_text r = receipt_text q" and "0 \<le> rc_authorized_at r" and "0 \<le> rc_authorized_at q"
  shows "same_terms r q"
proof -
  have "canonical_receipt r = canonical_receipt q"
    using assms(1) by (simp add: receipt_text_def json_dumps_inject)
  then show ?thesis using isoformat_inject [OF assms(2,3)]
    by (simp add: canonical_receipt_def same_terms_def)
qed

lemma bindings_ok_iff:
  "binding_error t show expected actual = [] \<longleftrightarrow> (case expected of None \<Rightarrow> True | Some e \<Rightarrow> actual = e)"
  by (simp add: binding_error_def split: option.split)

lemma verify_object_valid:
  "vr_is_valid (verify_object ed sha r key e ledger) \<longleftrightarrow>
     rc_receipt_id r \<noteq> [] \<and> rc_transaction_id r \<noteq> [] \<and> rc_mandate_id r \<noteq> [] \<and> rc_merchant_id r \<noteq> [] \<and>
     length (rc_cart_hash r) = 64 \<and> 0 \<le> rc_amount_paise r \<and> verify_canonical_hash sha r \<and>
     signature_check ed key r = None \<and> verify_bindings r e = [] \<and>
     (case ledger of None \<Rightarrow> True | Some l \<Rightarrow> audit_link_check sha r l = None)"
  by (cases ledger) (auto simp: verify_object_def Let_def vr_failed_def vr_passed_def
      verify_canonical_hash_def split: option.split)

lemma signature_check_None:
  "signature_check ed key r = None \<longleftrightarrow> \<not> falsy (rc_signature r) \<and>
     (\<exists>p s. load_public_key_obj ed key = Inr p \<and> ascii_decode (the (rc_signature r)) = Some s \<and>
        ed_verify ed p s (rc_canonical_payload_hash r))"
  by (auto simp: signature_check_def split: sum.splits option.splits py_exc.splits)

lemma b64encode_ascii: "list_all (\<lambda>c. (of_char c :: nat) < 128) (b64encode s)"
proof -
  have "(of_char (enc64 n) :: nat) < 128" if "n < 64" for n
  proof -
    have "n mod 256 = n" "(65 + n) mod 256 = 65 + n" "(71 + n) mod 256 = 71 + n" "(n - 4) mod 256 = n - 4"
      using that by simp_all
    moreover have "n - 4 < 128" using that by linarith
    ultimately show ?thesis using that by (simp add: enc64_def take_bit_eq_mod)
  qed
  then show ?thesis by (induction s rule: b64encode.induct) simp_all
qed

lemma ascii_decode_encode [simp]: "ascii_decode (b64encode s) = Some s"
  by (simp add: ascii_decode_def b64encode_ascii)

lemma b64encode_length: "length (b64encode s) = 4 * ((length s + 2) div 3)"
proof (induction s rule: b64encode.induct)
  case (4 a b c s)
  have "(length (a # b # c # s) + 2) div 3 = Suc ((length s + 2) div 3)" by simp
  then show ?case using 4 by simp
qed simp_all

lemma load_own_key:
  assumes "ed_sound ed"
  shows "load_public_key_obj ed (Key_Bytes (ed_public_bytes ed p)) = Inr p"
    and "load_public_key_obj ed (Key_Text (hex (ed_public_bytes ed p))) = Inr p"
    and "load_public_key_obj ed (Key_Text (b64encode (ed_public_bytes ed p))) = Inr p"
proof -
  have k: "ed_load_public ed (ed_public_bytes ed p) = Some p" "length (ed_public_bytes ed p) = 32"
    using assms by (simp_all add: ed_sound_def)
  then show "load_public_key_obj ed (Key_Bytes (ed_public_bytes ed p)) = Inr p"
    "load_public_key_obj ed (Key_Text (hex (ed_public_bytes ed p))) = Inr p"
    "load_public_key_obj ed (Key_Text (b64encode (ed_public_bytes ed p))) = Inr p"
    by (simp_all add: load_public_key_obj_def load_public_key_bytes_def load_public_key_hex_def
        load_public_key_base64_def hex_chars b64encode_length)
qed

definition expected_of :: "ReceiptFields \<Rightarrow> Expectations" where
  "expected_of f = \<lparr>ex_transaction_id = Some (rf_transaction_id f), ex_mandate_id = Some (rf_mandate_id f),
     ex_merchant_id = Some (rf_merchant_id f), ex_amount_paise = Some (rf_amount_paise f),
     ex_cart_hash = Some (rf_cart_hash f), ex_currency = Some (rf_currency f),
     ex_decision = Some (rf_decision f)\<rparr>"

lemma sign_receipt_Inr:
  assumes "sign_receipt ed sha k f uid now = Inr r" and "\<And>x. sha x \<noteq> []"
  obtains s where "ed_sign ed k (rc_canonical_payload_hash r) = Some s"
    "r = (unsigned_receipt f uid now)\<lparr>rc_canonical_payload_hash :=
           compute_canonical_hash sha (unsigned_receipt f uid now), rc_signature := Some (b64encode s)\<rparr>"
    "rf_transaction_id f \<noteq> []" "rf_mandate_id f \<noteq> []" "rf_merchant_id f \<noteq> []"
    "length (rf_cart_hash f) = 64" "0 \<le> rf_amount_paise f"
proof -
  let ?u = "unsigned_receipt f uid now"
  let ?h = "compute_canonical_hash sha ?u"
  have h: "?h \<noteq> []" using assms(2) by (simp add: compute_canonical_hash_def)
  from assms(1) obtain q where q: "mk_receipt sha ?u = Inr q"
    by (auto simp: sign_receipt_def bind_res_Inr)
  then have q': "q = ?u\<lparr>rc_canonical_payload_hash := ?h\<rparr>"
    and ok: "rf_transaction_id f \<noteq> []" "rf_mandate_id f \<noteq> []" "rf_merchant_id f \<noteq> []"
    "\<not> rf_policy_version f < 1" "length (rf_cart_hash f) = 64" "\<not> rf_amount_paise f < 0"
    by (auto simp: mk_receipt_def unsigned_receipt_def split: if_splits)
  obtain s where s: "ed_sign ed k (rc_canonical_payload_hash q) = Some s"
    "mk_receipt sha (q\<lparr>rc_signature := Some (b64encode s)\<rparr>) = Inr r"
    using assms(1) q by (auto simp: sign_receipt_def split: option.splits)
  have r: "r = q\<lparr>rc_signature := Some (b64encode s)\<rparr>"
    using s(2) ok h unfolding q' by (simp add: mk_receipt_def unsigned_receipt_def)
  have amount: "0 \<le> rf_amount_paise f" using ok(6) by simp
  show thesis
    by (rule that [OF _ _ ok(1-3) ok(5) amount]) (simp_all add: r s(1), simp add: q')
qed

section \<open>Properties\<close>

text \<open>C37: Round trip: a receipt that the signer issues is verified as valid with the signer's public
  key in each of its formats (the object, the raw bytes, the hexadecimal and the base64 text), when
  the verifier expects the terms that were signed.\<close>

theorem signed_receipt_verifies:
  assumes "ed_sound ed" and "\<And>x. sha x \<noteq> []" and "option_or (rf_receipt_id f) uid \<noteq> []"
    and "sign_receipt ed sha k f uid now = Inr r"
  shows "list_all (\<lambda>key. vr_is_valid (verify_receipt ed sha (Receipt_Object r) key (expected_of f) None))
    [Key_Object (ed_public_key ed k), Key_Bytes (ed_public_bytes ed (ed_public_key ed k)),
     Key_Text (get_public_key_hex ed k), Key_Text (get_public_key_base64 ed k)]"
proof -
  from assms(4,2) obtain s where s: "ed_sign ed k (rc_canonical_payload_hash r) = Some s"
    and r: "r = (unsigned_receipt f uid now)\<lparr>rc_canonical_payload_hash :=
        compute_canonical_hash sha (unsigned_receipt f uid now), rc_signature := Some (b64encode s)\<rparr>"
    and ok: "rf_transaction_id f \<noteq> []" "rf_mandate_id f \<noteq> []" "rf_merchant_id f \<noteq> []"
      "length (rf_cart_hash f) = 64" "0 \<le> rf_amount_paise f"
    by (rule sign_receipt_Inr)
  have v: "ed_verify ed (ed_public_key ed k) s (rc_canonical_payload_hash r)" "length s = 64"
    using assms(1) s by (simp_all add: ed_sound_def)
  then have sig: "\<not> falsy (rc_signature r)" "ascii_decode (the (rc_signature r)) = Some s"
    by (auto simp: r falsy_def)
  have "canonical_receipt r = canonical_receipt (unsigned_receipt f uid now)"
    by (simp add: r canonical_receipt_def)
  then have "verify_canonical_hash sha r"
    by (simp add: verify_canonical_hash_def compute_canonical_hash_def) (simp add: r compute_canonical_hash_def)
  moreover have "verify_bindings r (expected_of f) = []"
    by (simp add: verify_bindings_def bindings_ok_iff expected_of_def r unsigned_receipt_def)
  moreover have "rc_receipt_id r \<noteq> []" "rc_transaction_id r \<noteq> []" "rc_mandate_id r \<noteq> []"
    "rc_merchant_id r \<noteq> []" "length (rc_cart_hash r) = 64" "0 \<le> rc_amount_paise r"
    using ok assms(3) by (simp_all add: r unsigned_receipt_def)
  ultimately have valid: "vr_is_valid (verify_receipt ed sha (Receipt_Object r) key (expected_of f) None)"
    if "load_public_key_obj ed key = Inr (ed_public_key ed k)" for key
    using that v(1) sig by (simp add: verify_receipt_def verify_object_valid signature_check_None)
  show ?thesis
    using valid [of "Key_Object (ed_public_key ed k)"] valid [OF load_own_key(1) [OF assms(1)]]
      valid [OF load_own_key(2) [OF assms(1)]] valid [OF load_own_key(3) [OF assms(1)]]
    by (simp add: load_public_key_obj_def get_public_key_hex_def get_public_key_base64_def)
qed

definition toy_keys :: "(unit, unit) ed25519" where
  \<comment> \<open>an instance of the key operations: one key, one signature\<close>
  "toy_keys = \<lparr>ed_public_key = (\<lambda>_. ()), ed_sign = (\<lambda>_ m. if m = ''digest'' then Some (replicate 64 CHR ''s'') else None),
     ed_verify = (\<lambda>_ s m. s = replicate 64 CHR ''s'' \<and> m = ''digest''), ed_private_bytes = (\<lambda>_. ''k''),
     ed_public_bytes = (\<lambda>_. replicate 32 CHR ''p''), ed_load_private = (\<lambda>_. Some ()),
     ed_load_public = (\<lambda>_. Some ())\<rparr>"

definition sample_fields :: ReceiptFields where
  "sample_fields = \<lparr>rf_transaction_id = ''t'', rf_mandate_id = ''m'', rf_merchant_id = ''s'',
     rf_policy_version = 1, rf_cart_hash = replicate 64 CHR ''c'', rf_amount_paise = 4500,
     rf_currency = INR, rf_decision = ALLOW, rf_execution_tool = None, rf_execution_reference = None,
     rf_audit_hash = None, rf_authorized_at = None, rf_executed_at = None, rf_receipt_id = None\<rparr>"

lemma toy_keys_sound: "ed_sound toy_keys"
  by (auto simp: ed_sound_def toy_keys_def split: if_splits)

definition sample_receipt :: ActionReceipt where
  "sample_receipt = (unsigned_receipt sample_fields ''r'' 0)\<lparr>rc_canonical_payload_hash := ''digest'',
     rc_signature := Some (b64encode (replicate 64 CHR ''s''))\<rparr>"

lemma sample_receipt_signed:
  "sign_receipt toy_keys (\<lambda>_. ''digest'') () sample_fields ''r'' 0 = Inr sample_receipt"
  by (simp add: sign_receipt_def mk_receipt_def sample_receipt_def unsigned_receipt_def sample_fields_def
      compute_canonical_hash_def toy_keys_def)

theorem signed_receipt_verifies_witness:
  "list_all (\<lambda>key. vr_is_valid (verify_receipt toy_keys (\<lambda>_. ''digest'') (Receipt_Object sample_receipt) key
      (expected_of sample_fields) None))
    [Key_Object (ed_public_key toy_keys ()), Key_Bytes (ed_public_bytes toy_keys (ed_public_key toy_keys ())),
     Key_Text (get_public_key_hex toy_keys ()), Key_Text (get_public_key_base64 toy_keys ())]"
  by (rule signed_receipt_verifies [OF toy_keys_sound _ _ sample_receipt_signed])
    (simp_all add: sample_fields_def)



text \<open>The execution time is not signed: the verdict on a receipt is the same whatever its
  \<open>executed_at\<close> and \<open>created_at\<close> are changed to, since neither is part of the canonical payload.\<close>

theorem execution_time_unsigned:
  "verify_receipt ed sha (Receipt_Object (r\<lparr>rc_executed_at := x, rc_created_at := y\<rparr>)) key e ledger =
     verify_receipt ed sha (Receipt_Object r) key e ledger"
proof -
  let ?r = "r\<lparr>rc_executed_at := x, rc_created_at := y\<rparr>"
  have sel: "rc_signature ?r = rc_signature r" "rc_canonical_payload_hash ?r = rc_canonical_payload_hash r"
    "rc_receipt_id ?r = rc_receipt_id r" "rc_transaction_id ?r = rc_transaction_id r"
    "rc_mandate_id ?r = rc_mandate_id r" "rc_merchant_id ?r = rc_merchant_id r"
    "rc_cart_hash ?r = rc_cart_hash r" "rc_amount_paise ?r = rc_amount_paise r"
    "rc_audit_hash ?r = rc_audit_hash r" by simp_all
  have "compute_canonical_hash sha ?r = compute_canonical_hash sha r"
    by (simp add: compute_canonical_hash_def canonical_receipt_def)
  moreover have "signature_check ed key ?r = signature_check ed key r"
    unfolding signature_check_def sel ..
  moreover have "verify_bindings ?r e = verify_bindings r e" by (simp add: verify_bindings_def)
  moreover have "audit_link_check sha ?r = audit_link_check sha r"
    unfolding audit_link_check_def fun_eq_iff sel by simp
  ultimately show ?thesis unfolding verify_receipt_def receipt_input.case verify_object_def sel
    by (simp only:)
qed

end
