(* ===== verification/Session.thy ===== *)
theory Session
  imports Db_Table "HOL-Library.AList"
begin

text \<open>
  Code that works inside a database session, as programs of a state that may raise. \<open>('s, 'a) prog\<close>
  takes the state that the session sees and returns a result or an exception with the new state;
  what an exception leaves behind stays in the session until its owner commits or rolls back, as in
  SQLAlchemy. \<open>then_do\<close> is the sequencing of statements, \<open>zoom\<close> runs the code of one repository on its
  table.

  A table is the association list of its rows by primary key, in the order of insertion.

  The locale \<open>evolution\<close> is the contract "this code changes the state only along the relation \<open>R\<close>",
  for a reflexive and transitive \<open>R\<close>; it holds of a whole handler when it holds of its statements.
  The stores interpret it on what may happen to their rows.
\<close>

section \<open>Programs\<close>

type_synonym ('s, 'a) prog = "'s \<Rightarrow> 'a res \<times> 's"

definition ret :: "'a \<Rightarrow> ('s, 'a) prog" where
  "ret x s = (Inr x, s)"

definition raise_exc :: "py_exc \<Rightarrow> ('s, 'a) prog" where
  "raise_exc e s = (Inl e, s)"

definition then_do :: "('s, 'a) prog \<Rightarrow> ('a \<Rightarrow> ('s, 'b) prog) \<Rightarrow> ('s, 'b) prog" where
  "then_do m f s = (case m s of (Inl e, t) \<Rightarrow> (Inl e, t) | (Inr x, t) \<Rightarrow> f x t)"

definition read_st :: "('s \<Rightarrow> 'a) \<Rightarrow> ('s, 'a) prog" where
  "read_st f s = (Inr (f s), s)"

definition write_st :: "('s \<Rightarrow> 's) \<Rightarrow> ('s, unit) prog" where
  "write_st f s = (Inr (), f s)"

definition of_res :: "'a res \<Rightarrow> ('s, 'a) prog" where
  "of_res r s = (r, s)"

definition zoom :: "('s \<Rightarrow> 't) \<Rightarrow> ('t \<Rightarrow> 's \<Rightarrow> 's) \<Rightarrow> ('t, 'a) prog \<Rightarrow> ('s, 'a) prog" where
  "zoom get put m s = (case m (get s) of (r, t) \<Rightarrow> (r, put t s))"

fun for_each :: "'a list \<Rightarrow> ('a \<Rightarrow> ('s, 'b) prog) \<Rightarrow> ('s, 'b list) prog" where
  "for_each [] f = ret []"
| "for_each (x # xs) f = then_do (f x) (\<lambda>y. then_do (for_each xs f) (\<lambda>ys. ret (y # ys)))"

definition attempt :: "('s, 'a) prog \<Rightarrow> ('s, 'a res) prog" where
  \<comment> \<open>the outcome of a \<open>try\<close> block: an exception is a value and the state stays as it is\<close>
  "attempt m s = (case m s of (r, t) \<Rightarrow> (Inr r, t))"

definition transactional :: "('s \<Rightarrow> 't) \<Rightarrow> ('t \<Rightarrow> 's \<Rightarrow> 's) \<Rightarrow> ('s, 'a) prog \<Rightarrow> ('s, 'a) prog" where
  \<comment> \<open>the unit of work around a call: committed when it returns; an exception rolls the session back
    and propagates, while the memory of the objects stays as it is\<close>
  "transactional get put m s =
     (case m s of (Inr x, t) \<Rightarrow> (Inr x, t) | (Inl e, t) \<Rightarrow> (Inl e, put (get s) t))"

lemma then_do_simps [simp]:
  "then_do (ret x) f = f x" "then_do (raise_exc e) f = raise_exc e" "then_do (of_res (Inr x)) f = f x"
  "then_do (of_res (Inl e)) f = raise_exc e"
  by (simp_all add: fun_eq_iff then_do_def ret_def raise_exc_def of_res_def)

lemma then_do_read [simp]: "then_do (read_st g) f s = f (g s) s"
  by (simp add: then_do_def read_st_def)

lemma then_do_write [simp]: "then_do (write_st g) f s = f () (g s)"
  by (simp add: then_do_def write_st_def)

lemma prog_simps [simp]: "ret x s = (Inr x, s)" "raise_exc e s = (Inl e, s)" "read_st f s = (Inr (f s), s)"
  "write_st g s = (Inr (), g s)" "of_res r s = (r, s)"
  by (simp_all add: ret_def raise_exc_def read_st_def write_st_def of_res_def)

lemma then_do_assoc: "then_do (then_do m f) g = then_do m (\<lambda>x. then_do (f x) g)"
  by (auto simp: fun_eq_iff then_do_def split: prod.splits sum.splits)

lemma then_do_Inr: "m s = (Inr x, t) \<Longrightarrow> then_do m f s = f x t"
  by (simp add: then_do_def)

lemma then_do_Inl: "m s = (Inl e, t) \<Longrightarrow> then_do m f s = (Inl e, t)"
  by (simp add: then_do_def)

lemma then_do_result:
  "then_do m f s = (Inr y, u) \<longleftrightarrow> (\<exists>x t. m s = (Inr x, t) \<and> f x t = (Inr y, u))"
  by (auto simp: then_do_def split: prod.splits sum.splits)

section \<open>What a program may do to the state\<close>

definition evolves :: "('s \<Rightarrow> 's \<Rightarrow> bool) \<Rightarrow> ('s, 'a) prog \<Rightarrow> bool" where
  "evolves R m \<longleftrightarrow> (\<forall>s. R s (snd (m s)))"

lemma evolvesD: "evolves R m \<Longrightarrow> R s (snd (m s))"
  by (simp add: evolves_def)

lemma evolves_zoom:
  "evolves R m \<Longrightarrow> (\<And>s t. R (get s) t \<Longrightarrow> Q s (put t s)) \<Longrightarrow> evolves Q (zoom get put m)"
  by (auto simp: evolves_def zoom_def split: prod.split dest: spec [where x = "get _"])
    (metis snd_conv)

named_theorems evolves_intros \<open>programs that follow the relation of a store\<close>

locale evolution =
  fixes R :: "'s \<Rightarrow> 's \<Rightarrow> bool"
  assumes stays: "R s s"
    and follows: "R s t \<Longrightarrow> R t u \<Longrightarrow> R s u"
begin

lemma evolves_pure: "evolves R (ret x)" "evolves R (raise_exc e)" "evolves R (read_st f)" "evolves R (of_res r)"
  by (simp_all add: evolves_def stays)

lemma evolves_then_do: "evolves R m \<Longrightarrow> (\<And>x. evolves R (f x)) \<Longrightarrow> evolves R (then_do m f)"
  unfolding evolves_def then_do_def
  by (auto split: prod.split sum.split) (metis follows snd_conv)+

lemma evolves_for_each: "(\<And>x. evolves R (f x)) \<Longrightarrow> evolves R (for_each xs f)"
  by (induction xs) (auto intro!: evolves_pure evolves_then_do)

lemma evolves_attempt: "evolves R m \<Longrightarrow> evolves R (attempt m)"
  by (auto simp: evolves_def attempt_def split: prod.split) (metis snd_conv)

lemma evolves_if: "(b \<Longrightarrow> evolves R m) \<Longrightarrow> (\<not> b \<Longrightarrow> evolves R n) \<Longrightarrow> evolves R (if b then m else n)"
  by simp

lemma evolves_option:
  "(x = None \<Longrightarrow> evolves R m) \<Longrightarrow> (\<And>y. x = Some y \<Longrightarrow> evolves R (f y)) \<Longrightarrow>
     evolves R (case x of None \<Rightarrow> m | Some y \<Rightarrow> f y)"
  by (cases x) simp_all

lemma evolves_sum:
  "(\<And>y. x = Inl y \<Longrightarrow> evolves R (f y)) \<Longrightarrow> (\<And>y. x = Inr y \<Longrightarrow> evolves R (g y)) \<Longrightarrow>
     evolves R (case x of Inl y \<Rightarrow> f y | Inr y \<Rightarrow> g y)"
  by (cases x) simp_all

lemma evolves_list:
  "(x = [] \<Longrightarrow> evolves R m) \<Longrightarrow> (\<And>y ys. x = y # ys \<Longrightarrow> evolves R (f y ys)) \<Longrightarrow>
     evolves R (case x of [] \<Rightarrow> m | y # ys \<Rightarrow> f y ys)"
  by (cases x) simp_all

lemma evolves_prod: "(\<And>a b. x = (a, b) \<Longrightarrow> evolves R (f a b)) \<Longrightarrow> evolves R (case x of (a, b) \<Rightarrow> f a b)"
  by (cases x) simp

lemmas evolves_rules = evolves_pure evolves_then_do evolves_for_each evolves_attempt evolves_if
  evolves_option evolves_sum evolves_list evolves_prod

end

section \<open>Tables\<close>

type_synonym 'r table = "(string \<times> 'r) list"

definition row_of :: "'r table \<Rightarrow> string \<Rightarrow> 'r option" where
  "row_of tab k = map_of tab k"

definition put_row :: "string \<Rightarrow> 'r \<Rightarrow> 'r table \<Rightarrow> 'r table" where
  "put_row k r tab = AList.update k r tab"

definition rows_of :: "'r table \<Rightarrow> 'r list" where
  "rows_of tab = map snd tab"

definition scalar_one_or_none :: "'r list \<Rightarrow> 'r option res" where
  \<comment> \<open>of the rows that a statement selects\<close>
  "scalar_one_or_none rows =
     (case rows of [] \<Rightarrow> Inr None | [r] \<Rightarrow> Inr (Some r)
      | _ \<Rightarrow> Inl (Raise (SourceError ''MultipleResultsFound'' [])
          (Msg ''Multiple rows were found when one or none was required'' [])))"

definition insert_row ::
  "('r table \<Rightarrow> 'r \<Rightarrow> bool) \<Rightarrow> ('r \<Rightarrow> string) \<Rightarrow> 'r \<Rightarrow> ('r table, bool) prog" where
  \<comment> \<open>\<open>add\<close> and \<open>flush\<close>; the result says whether the database accepted the row\<close>
  "insert_row accepts key r tab =
     (if accepts tab r then (Inr True, put_row (key r) r tab) else (Inr False, tab))"

definition unique_key :: "('r \<Rightarrow> string) \<Rightarrow> ('r table \<Rightarrow> 'r \<Rightarrow> bool) \<Rightarrow> bool" where
  \<comment> \<open>what a primary key promises\<close>
  "unique_key key accepts \<longleftrightarrow> (\<forall>tab r. accepts tab r \<longrightarrow> row_of tab (key r) = None)"

definition free_key :: "('r \<Rightarrow> string) \<Rightarrow> 'r table \<Rightarrow> 'r \<Rightarrow> bool" where
  "free_key key tab r \<longleftrightarrow> row_of tab (key r) = None"

lemma free_key_unique [simp]: "unique_key key (free_key key)"
  by (simp add: unique_key_def free_key_def)

lemma row_of_put [simp]: "row_of (put_row k r tab) k' = (if k' = k then Some r else row_of tab k')"
  by (simp add: row_of_def put_row_def update_conv')

lemma put_row_twice [simp]: "put_row k r (put_row k q tab) = put_row k r tab"
  by (simp add: put_row_def)

lemma row_of_Nil [simp]: "row_of [] k = None"
  by (simp add: row_of_def)

definition keeps_rows :: "('r \<Rightarrow> 'r \<Rightarrow> bool) \<Rightarrow> 'r table \<Rightarrow> 'r table \<Rightarrow> bool" where
  \<comment> \<open>no row is lost and every row changes along \<open>P\<close>\<close>
  "keeps_rows P tab tab' \<longleftrightarrow> (\<forall>k r. row_of tab k = Some r \<longrightarrow> (\<exists>r'. row_of tab' k = Some r' \<and> P r r'))"

lemma keeps_rows_refl: "(\<And>r. P r r) \<Longrightarrow> keeps_rows P tab tab"
  by (auto simp: keeps_rows_def)

lemma keeps_rows_trans:
  "(\<And>r s t. P r s \<Longrightarrow> P s t \<Longrightarrow> P r t) \<Longrightarrow> keeps_rows P tab tab' \<Longrightarrow> keeps_rows P tab' tab'' \<Longrightarrow>
     keeps_rows P tab tab''"
  unfolding keeps_rows_def by metis

lemma keeps_rows_put:
  "(\<And>r. P r r) \<Longrightarrow> (\<And>q. row_of tab k = Some q \<Longrightarrow> P q r) \<Longrightarrow> keeps_rows P tab (put_row k r tab)"
  by (auto simp: keeps_rows_def)

lemma keeps_rows_insert:
  "(\<And>r. P r r) \<Longrightarrow> unique_key key accepts \<Longrightarrow> evolves (keeps_rows P) (insert_row accepts key r)"
  by (auto simp: evolves_def insert_row_def unique_key_def intro!: keeps_rows_put keeps_rows_refl)

definition sum_rows :: "('r \<Rightarrow> int) \<Rightarrow> 'r table \<Rightarrow> int" where
  "sum_rows f tab = sum_list (map f (rows_of tab))"

lemma sum_rows_put:
  "sum_rows f (put_row k q tab) = sum_rows f tab + f q - (case row_of tab k of None \<Rightarrow> 0 | Some r \<Rightarrow> f r)"
  by (induction tab) (auto simp: sum_rows_def rows_of_def put_row_def row_of_def)

lemma sum_rows_Nil [simp]: "sum_rows f [] = 0"
  by (simp add: sum_rows_def rows_of_def)

lemma sum_rows_mono: "(\<And>r. r \<in> set (rows_of tab) \<Longrightarrow> f r \<le> g r) \<Longrightarrow> sum_rows f tab \<le> sum_rows g tab"
  by (induction tab) (auto simp: sum_rows_def rows_of_def intro: add_mono)

section \<open>Tables whose rows change along a relation\<close>

definition keyed :: "('r \<Rightarrow> string) \<Rightarrow> 'r table \<Rightarrow> bool" where
  "keyed key tab \<longleftrightarrow> (\<forall>k r. row_of tab k = Some r \<longrightarrow> key r = k)"

definition table_evolves :: "('r \<Rightarrow> string) \<Rightarrow> ('r \<Rightarrow> 'r \<Rightarrow> bool) \<Rightarrow> 'r table \<Rightarrow> 'r table \<Rightarrow> bool" where
  "table_evolves key P tab tab' \<longleftrightarrow> (keyed key tab \<longrightarrow> keyed key tab' \<and> keeps_rows P tab tab')"

lemma keyed_Nil [simp]: "keyed key []"
  by (simp add: keyed_def)

lemma keyed_put: "keyed key tab \<Longrightarrow> key r = k \<Longrightarrow> keyed key (put_row k r tab)"
  by (auto simp: keyed_def)

locale row_relation =
  fixes key :: "'r \<Rightarrow> string" and P :: "'r \<Rightarrow> 'r \<Rightarrow> bool"
  assumes row_refl: "P r r"
    and row_trans: "P r s \<Longrightarrow> P s t \<Longrightarrow> P r t"
    and row_key: "P r s \<Longrightarrow> key s = key r"

sublocale row_relation \<subseteq> table: evolution "table_evolves key P"
  by unfold_locales (auto simp: table_evolves_def intro: keeps_rows_refl row_refl keeps_rows_trans row_trans)

context row_relation
begin

lemma evolves_update:
  "row_of tab k = Some r \<Longrightarrow> P r q \<Longrightarrow> table_evolves key P tab (put_row (key r) q tab)"
  by (auto simp: table_evolves_def keyed_def row_key intro!: keeps_rows_put row_refl)

lemma evolves_insert:
  "unique_key key accepts \<Longrightarrow> evolves (table_evolves key P) (insert_row accepts key r)"
  unfolding evolves_def table_evolves_def insert_row_def
  by (auto simp: unique_key_def keyed_put intro!: keeps_rows_put keeps_rows_refl row_refl)

end

section \<open>Well-formed tables\<close>

definition wf_table :: "('r \<Rightarrow> string) \<Rightarrow> 'r table \<Rightarrow> bool" where
  "wf_table key tab \<longleftrightarrow> distinct (map fst tab) \<and> keyed key tab"

lemma wf_table_Nil [simp]: "wf_table key []"
  by (simp add: wf_table_def)

lemma wf_table_put: "wf_table key tab \<Longrightarrow> key r = k \<Longrightarrow> wf_table key (put_row k r tab)"
  by (simp add: wf_table_def keyed_put) (simp add: put_row_def distinct_update)

lemma wf_rows:
  assumes "wf_table key tab" and "r \<in> set (rows_of tab)"
  shows "row_of tab (key r) = Some r"
proof -
  obtain k where k: "(k, r) \<in> set tab" using assms(2) by (auto simp: rows_of_def)
  then have "row_of tab k = Some r" using assms(1) by (simp add: row_of_def wf_table_def map_of_eq_Some_iff)
  moreover from this have "key r = k" using assms(1) by (simp add: wf_table_def keyed_def)
  ultimately show ?thesis by simp
qed

lemma row_in_rows: "row_of tab k = Some r \<Longrightarrow> r \<in> set (rows_of tab)"
  by (force simp: row_of_def rows_of_def dest: map_of_SomeD)

lemma wf_distinct_keys:
  assumes "wf_table key tab"
  shows "distinct (map key (rows_of tab))"
proof -
  have "key (snd p) = fst p" if "p \<in> set tab" for p
  proof -
    have "row_of tab (fst p) = Some (snd p)" using that assms
      by (simp add: row_of_def wf_table_def map_of_eq_Some_iff)
    then show ?thesis using assms by (simp add: wf_table_def keyed_def)
  qed
  then have "map key (rows_of tab) = map fst tab" by (simp add: rows_of_def)
  then show ?thesis using assms by (simp add: wf_table_def)
qed

definition count_rows :: "('r \<Rightarrow> bool) \<Rightarrow> 'r table \<Rightarrow> nat" where
  "count_rows Q tab = length (filter Q (rows_of tab))"

lemma count_rows_put:
  assumes "distinct (map fst tab)" and "row_of tab k = Some r" and "Q r" and "\<not> Q q"
  shows "count_rows Q tab = Suc (count_rows Q (put_row k q tab))"
  using assms
proof (induction tab)
  case (Cons p tab)
  show ?case
  proof (cases "fst p = k")
    case True
    then have "row_of tab k = None" using Cons.prems(1) by (auto simp: row_of_def map_of_eq_None_iff)
    moreover have "snd p = r" using Cons.prems(2) True by (cases p) (simp add: row_of_def)
    ultimately show ?thesis using True Cons.prems(3,4)
      by (cases p) (simp add: count_rows_def rows_of_def put_row_def)
  next
    case False
    then show ?thesis using Cons by (cases p) (auto simp: count_rows_def rows_of_def put_row_def row_of_def)
  qed
qed simp

end
