(* ===== verification/Py_Json.thy ===== *)
theory Py_Json
  imports Json
begin

text \<open>
  What handlers do with parsed JSON values and with strings: truth values, \<open>dict.get\<close>, \<open>or\<close>, \<open>str.strip\<close>
  on a value that may not be a string, \<open>str.upper\<close>, the tests \<open>in\<close> and \<open>startswith\<close>, and \<open>json.dumps\<close> with its
  default separators. A method call on a value of another type
  raises \<open>AttributeError\<close>.
\<close>

definition attribute_error :: "string \<Rightarrow> py_exc" where
  "attribute_error name = Raise (SourceError ''AttributeError'' []) (Msg ''object has no attribute {}'' [PStr name])"

fun truthy :: "json \<Rightarrow> bool" where
  "truthy JNull = False"
| "truthy (JBool b) = b"
| "truthy (JInt i) = (i \<noteq> 0)"
| "truthy (JStr s) = (s \<noteq> [])"
| "truthy (JArr xs) = (xs \<noteq> [])"
| "truthy (JObj kvs) = (kvs \<noteq> [])"

fun dict_get :: "json \<Rightarrow> string \<Rightarrow> json \<Rightarrow> json res" where
  \<comment> \<open>\<open>v.get(key, default)\<close>\<close>
  "dict_get (JObj kvs) k d = Inr (option_or (map_of kvs k) d)"
| "dict_get _ k d = Inl (attribute_error ''get'')"

definition py_or :: "json \<Rightarrow> json \<Rightarrow> json" where
  "py_or a b = (if truthy a then a else b)"

fun str_strip :: "json \<Rightarrow> string res" where
  "str_strip (JStr s) = Inr (strip s)"
| "str_strip _ = Inl (attribute_error ''strip'')"

definition json_text :: "string option \<Rightarrow> json" where
  "json_text s = (case s of None \<Rightarrow> JNull | Some t \<Rightarrow> JStr t)"

definition text_or :: "string option \<Rightarrow> string \<Rightarrow> string" where
  \<comment> \<open>\<open>s or default\<close> for an optional string\<close>
  "text_or s d = (case s of None \<Rightarrow> d | Some t \<Rightarrow> if t = [] then d else t)"

lemma text_or_simps [simp]: "text_or None d = d" "text_or (Some t) d = (if t = [] then d else t)"
  by (simp_all add: text_or_def)

definition upper_char :: "char \<Rightarrow> string" where
  \<comment> \<open>\<open>str.upper\<close> of one character; the upper case of the codes 181 and 255 is outside the range and
    they stay\<close>
  "upper_char c = (let n = of_char c :: nat in
     if (97 \<le> n \<and> n \<le> 122) \<or> (224 \<le> n \<and> n \<le> 254 \<and> n \<noteq> 247) then [char_of (n - 32)]
     else if n = 223 then ''SS'' else [c])"

definition upper :: "string \<Rightarrow> string" where
  "upper s = concat (map upper_char s)"

section \<open>Strings\<close>

definition contains :: "string \<Rightarrow> string \<Rightarrow> bool" where
  \<comment> \<open>\<open>sub in s\<close>\<close>
  "contains sub s \<longleftrightarrow> list_ex (\<lambda>i. take (length sub) (drop i s) = sub) [0 ..< Suc (length s)]"

definition begins :: "string \<Rightarrow> string \<Rightarrow> bool" where
  \<comment> \<open>\<open>s.startswith(prefix)\<close>\<close>
  "begins prefix s \<longleftrightarrow> take (length prefix) s = prefix"

lemma contains_iff: "contains sub s \<longleftrightarrow> (\<exists>u v. s = u @ sub @ v)"
proof
  assume "contains sub s"
  then obtain i where "take (length sub) (drop i s) = sub" by (auto simp: contains_def list_ex_iff)
  then have "s = take i s @ sub @ drop (length sub) (drop i s)" by (metis append_take_drop_id)
  then show "\<exists>u v. s = u @ sub @ v" by blast
next
  assume "\<exists>u v. s = u @ sub @ v"
  then obtain u v where "s = u @ sub @ v" by blast
  then show "contains sub s" by (auto simp: contains_def list_ex_iff intro!: bexI [of _ "length u"])
qed

lemma begins_iff: "begins p s \<longleftrightarrow> (\<exists>v. s = p @ v)"
  by (metis append_eq_conv_conj append_take_drop_id begins_def)

section \<open>Printing\<close>

fun json_plain :: "json \<Rightarrow> string" and plain_tail :: "json list \<Rightarrow> string"
  and plain_members :: "(string \<times> json) list \<Rightarrow> string" where
  \<comment> \<open>\<open>json.dumps\<close> with its default separators, keys in the order of insertion\<close>
  "json_plain JNull = ''null''"
| "json_plain (JBool b) = (if b then ''true'' else ''false'')"
| "json_plain (JInt i) = int_str i"
| "json_plain (JStr s) = str_lit s"
| "json_plain (JArr []) = ''[]''"
| "json_plain (JArr (x # xs)) = ''['' @ json_plain x @ plain_tail xs"
| "json_plain (JObj []) = ''{}''"
| "json_plain (JObj ((k, v) # kvs)) = ''{'' @ str_lit k @ '': '' @ json_plain v @ plain_members kvs"
| "plain_tail [] = '']''"
| "plain_tail (x # xs) = '', '' @ json_plain x @ plain_tail xs"
| "plain_members [] = ''}''"
| "plain_members ((k, v) # kvs) = '', '' @ str_lit k @ '': '' @ json_plain v @ plain_members kvs"

end
