(* ===== verification/Txn_Store.thy ===== *)
theory Txn_Store
  imports Session Transactions Py_Json
begin

text \<open>
  The transaction table (\<open>db/models/transaction.py\<close>) and its repository
  (\<open>db/repository/transaction_repository.py\<close>). The columns \<open>state\<close> and \<open>currency\<close> are texts, as stored.
  A row lock is a read: the operations of one session between two commits are not interleaved with
  those of another on the same row. \<open>onupdate\<close> sets \<open>updated_at\<close> when a flush writes a changed row.

  \<open>transactions_evolve\<close> interprets \<open>evolution\<close>: no code that reaches the table through the repository
  removes a transaction, changes its immutable context, or moves its state but along the legal
  graph of \<open>Domain_Types\<close>.
\<close>

record TransactionRow =
  tr_transaction_id :: string
  tr_buyer_id :: string
  tr_merchant_id :: string
  tr_mandate_id :: string
  tr_cart_hash :: string
  tr_amount_paise :: int
  tr_currency :: string
  tr_region :: string
  tr_auth_decision :: string
  tr_state :: string
  tr_provider_payment_id :: "string option"
  tr_provider_status :: "string option"
  tr_idempotency_key :: string
  tr_created_at :: datetime
  tr_updated_at :: datetime

type_synonym txn_table = "TransactionRow table"

section \<open>Queries\<close>

definition repo_get_transaction :: "txn_table \<Rightarrow> string \<Rightarrow> TransactionRow option" where
  "repo_get_transaction tab tid = row_of tab tid"

definition get_transaction_for_buyer :: "txn_table \<Rightarrow> string \<Rightarrow> string \<Rightarrow> TransactionRow option res" where
  "get_transaction_for_buyer tab tid buyer = scalar_one_or_none
     (filter (\<lambda>r. tr_transaction_id r = tid \<and> tr_buyer_id r = buyer) (rows_of tab))"

definition get_transaction_for_context ::
  "txn_table \<Rightarrow> string \<Rightarrow> string \<Rightarrow> string \<Rightarrow> string \<Rightarrow> TransactionRow option res" where
  "get_transaction_for_context tab tid buyer merchant mandate = scalar_one_or_none
     (filter (\<lambda>r. tr_transaction_id r = tid \<and> tr_buyer_id r = buyer \<and> tr_merchant_id r = merchant \<and>
        tr_mandate_id r = mandate) (rows_of tab))"

definition get_transaction_by_idempotency_key :: "txn_table \<Rightarrow> string \<Rightarrow> TransactionRow option res" where
  "get_transaction_by_idempotency_key tab key =
     scalar_one_or_none (filter (\<lambda>r. tr_idempotency_key r = key) (rows_of tab))"

definition get_transaction_by_idempotency :: "txn_table \<Rightarrow> string \<Rightarrow> string \<Rightarrow> TransactionRow option res" where
  "get_transaction_by_idempotency tab merchant key = scalar_one_or_none
     (filter (\<lambda>r. tr_merchant_id r = merchant \<and> tr_idempotency_key r = key) (rows_of tab))"

definition lock_transaction_for_update :: "txn_table \<Rightarrow> string \<Rightarrow> TransactionRow option" where
  "lock_transaction_for_update tab tid = row_of tab tid"

definition needs_reconciliation :: "TransactionRow \<Rightarrow> bool" where
  "needs_reconciliation r \<longleftrightarrow> tr_state r = txn_state_value TransactionState.EXECUTING \<or>
     tr_provider_status r = Some ''UNKNOWN'' \<or> tr_provider_status r = Some ''DISPATCHED''"

definition list_transactions_requiring_reconciliation ::
  "txn_table \<Rightarrow> datetime option \<Rightarrow> TransactionRow list" where
  "list_transactions_requiring_reconciliation tab cutoff = sort_key tr_created_at
     (filter (\<lambda>r. needs_reconciliation r \<and> (case cutoff of None \<Rightarrow> True | Some c \<Rightarrow> tr_updated_at r \<le> c))
        (rows_of tab))"

definition get_stuck_executing_transactions :: "txn_table \<Rightarrow> int \<Rightarrow> datetime \<Rightarrow> TransactionRow list" where
  "get_stuck_executing_transactions tab threshold now =
     list_transactions_requiring_reconciliation tab (Some (now - seconds threshold))"

section \<open>Creation\<close>

record TransactionArgs =
  \<comment> \<open>the arguments of \<open>create_transaction\<close>\<close>
  ta_transaction_id :: string
  ta_buyer_id :: string
  ta_merchant_id :: string
  ta_mandate_id :: string
  ta_amount_paise :: int
  ta_cart_hash :: string
  ta_idempotency_key :: string
  ta_auth_decision :: string
  ta_state :: string
  ta_currency :: string
  ta_region :: string
  ta_provider_payment_id :: "string option"
  ta_provider_status :: "string option"

definition new_transaction_row :: "TransactionArgs \<Rightarrow> datetime \<Rightarrow> TransactionRow" where
  "new_transaction_row a now =
     \<lparr>tr_transaction_id = ta_transaction_id a, tr_buyer_id = ta_buyer_id a,
      tr_merchant_id = ta_merchant_id a, tr_mandate_id = ta_mandate_id a, tr_cart_hash = ta_cart_hash a,
      tr_amount_paise = ta_amount_paise a, tr_currency = ta_currency a, tr_region = ta_region a,
      tr_auth_decision = ta_auth_decision a, tr_state = ta_state a,
      tr_provider_payment_id = ta_provider_payment_id a, tr_provider_status = ta_provider_status a,
      tr_idempotency_key = ta_idempotency_key a, tr_created_at = now, tr_updated_at = now\<rparr>"

definition create_transaction ::
  "(txn_table \<Rightarrow> TransactionRow \<Rightarrow> bool) \<Rightarrow> TransactionArgs \<Rightarrow> datetime \<Rightarrow> (txn_table, TransactionRow) prog" where
  "create_transaction accepts a now =
     then_do (read_st (\<lambda>tab. get_transaction_by_idempotency_key tab (ta_idempotency_key a))) (\<lambda>found.
     then_do (of_res found) (\<lambda>existing.
       case existing of
         Some r \<Rightarrow>
           if tr_buyer_id r = ta_buyer_id a \<and> tr_merchant_id r = ta_merchant_id a \<and>
              tr_mandate_id r = ta_mandate_id a \<and> tr_amount_paise r = ta_amount_paise a \<and>
              tr_cart_hash r = ta_cart_hash a then ret r
           else raise_exc (Raise ValueError
             (Msg ''Idempotency key '{}' mismatch: attempt to reuse existing key with conflicting context.''
               [PStr (ta_idempotency_key a)]))
       | None \<Rightarrow>
           then_do (insert_row accepts tr_transaction_id (new_transaction_row a now)) (\<lambda>ok.
             if ok then ret (new_transaction_row a now)
             else raise_exc (Raise IntegrityError (Msg ''transactions'' [])))))"

section \<open>State transitions\<close>

datatype state_arg = State TransactionState | State_Text string

definition transaction_state_error :: "TransactionState \<Rightarrow> TransactionState \<Rightarrow> py_exc" where
  "transaction_state_error s t = Raise (SourceError ''TransactionStateError'' [])
     (Msg ''Illegal transaction transition: {} -> {}.'' [PStr (txn_state_value s), PStr (txn_state_value t)])"

definition state_from_text :: "string \<Rightarrow> TransactionState res" where
  \<comment> \<open>\<open>TransactionState(text)\<close>\<close>
  "state_from_text s = (case txn_state_of s of Some t \<Rightarrow> Inr t
     | None \<Rightarrow> Inl (Raise ValueError (Msg ''{} is not a valid TransactionState'' [PStr s])))"

definition target_of :: "state_arg \<Rightarrow> TransactionState res" where
  "target_of a = (case a of State t \<Rightarrow> Inr t | State_Text s \<Rightarrow> state_from_text s)"

definition flush_transaction ::
  "TransactionRow \<Rightarrow> TransactionRow \<Rightarrow> datetime \<Rightarrow> (txn_table, TransactionRow) prog" where
  \<comment> \<open>writes the attributes \<open>r\<close> of the loaded row \<open>old\<close>\<close>
  "flush_transaction old r now tab =
     (if r = old then (Inr old, tab)
      else let q = r\<lparr>tr_updated_at := now\<rparr> in (Inr q, put_row (tr_transaction_id old) q tab))"

definition locked_transaction :: "string \<Rightarrow> (txn_table, TransactionRow) prog" where
  "locked_transaction tid tab =
     (case lock_transaction_for_update tab tid of
        None \<Rightarrow> (Inl (Raise ValueError (Msg ''Transaction '{}' not found.'' [PStr tid])), tab)
      | Some r \<Rightarrow> (Inr r, tab))"

definition transition_transaction_state ::
  "string \<Rightarrow> state_arg \<Rightarrow> datetime \<Rightarrow> (txn_table, TransactionRow) prog" where
  "transition_transaction_state tid target now =
     then_do (locked_transaction tid) (\<lambda>r.
     then_do (of_res (state_from_text (tr_state r))) (\<lambda>current.
     then_do (of_res (target_of target)) (\<lambda>t.
       if txn_is_terminal current then raise_exc (transaction_state_error current t)
       else if \<not> can_transition_to current t then raise_exc (transaction_state_error current t)
       else flush_transaction r (r\<lparr>tr_state := txn_state_value t\<rparr>) now)))"

definition mark_provider_dispatch_started ::
  "string \<Rightarrow> string option \<Rightarrow> datetime \<Rightarrow> (txn_table, TransactionRow) prog" where
  "mark_provider_dispatch_started tid pid now =
     then_do (transition_transaction_state tid (State TransactionState.EXECUTING) now) (\<lambda>r.
       flush_transaction r (r\<lparr>tr_provider_payment_id := opt_update pid (tr_provider_payment_id r),
         tr_provider_status := Some ''DISPATCHED''\<rparr>) now)"

definition record_provider_outcome ::
  "string \<Rightarrow> string \<Rightarrow> string option \<Rightarrow> datetime \<Rightarrow> (txn_table, TransactionRow) prog" where
  \<comment> \<open>the row is flushed before the state is touched, since the nested call reads it\<close>
  "record_provider_outcome tid status pid now =
     then_do (locked_transaction tid) (\<lambda>old.
     then_do (flush_transaction old
        (old\<lparr>tr_provider_payment_id := opt_update pid (tr_provider_payment_id old),
             tr_provider_status := Some status\<rparr>) now) (\<lambda>r.
       if upper status \<in> {''SUCCESS'', ''CAPTURED'', ''PAID''} then
         transition_transaction_state tid (State TransactionState.SUCCESS) now
       else if upper status \<in> {''FAILURE'', ''FAILED'', ''DECLINED''} then
         transition_transaction_state tid (State FAILURE) now
       else ret r))"

section \<open>What the repository does to a transaction\<close>

definition same_context :: "TransactionRow \<Rightarrow> TransactionRow \<Rightarrow> bool" where
  "same_context r q \<longleftrightarrow> tr_transaction_id q = tr_transaction_id r \<and> tr_buyer_id q = tr_buyer_id r \<and>
     tr_merchant_id q = tr_merchant_id r \<and> tr_mandate_id q = tr_mandate_id r \<and>
     tr_cart_hash q = tr_cart_hash r \<and> tr_amount_paise q = tr_amount_paise r \<and>
     tr_currency q = tr_currency r \<and> tr_region q = tr_region r \<and> tr_auth_decision q = tr_auth_decision r \<and>
     tr_idempotency_key q = tr_idempotency_key r \<and> tr_created_at q = tr_created_at r"

definition state_evolves :: "string \<Rightarrow> string \<Rightarrow> bool" where
  "state_evolves a b \<longleftrightarrow> b = a \<or>
     (\<exists>s ts. txn_state_of a = Some s \<and> txn_path s ts \<and> b = txn_state_value (txn_end s ts))"

definition row_evolves :: "TransactionRow \<Rightarrow> TransactionRow \<Rightarrow> bool" where
  "row_evolves r q \<longleftrightarrow> same_context r q \<and> state_evolves (tr_state r) (tr_state q)"

abbreviation txns_evolve :: "txn_table \<Rightarrow> txn_table \<Rightarrow> bool" where
  "txns_evolve \<equiv> table_evolves tr_transaction_id row_evolves"

lemma txn_end_append: "txn_end s (ts @ us) = txn_end (txn_end s ts) us"
  by (induction ts arbitrary: s) auto

lemma state_evolves_trans: "state_evolves a b \<Longrightarrow> state_evolves b c \<Longrightarrow> state_evolves a c"
  unfolding state_evolves_def by (auto simp: txn_path_append) (metis txn_end_append txn_path_append)

lemma state_evolves_step:
  "txn_state_of a = Some s \<Longrightarrow> can_transition_to s t \<Longrightarrow> state_evolves a (txn_state_value t)"
  unfolding state_evolves_def by (metis txn_end.simps txn_path.simps)

interpretation txn_rows: row_relation tr_transaction_id row_evolves
  by unfold_locales
    (auto simp: row_evolves_def same_context_def intro: state_evolves_trans, simp add: state_evolves_def)

lemma flush_transaction_cases:
  "flush_transaction old r now tab = (if r = old then (Inr old, tab)
     else (Inr (r\<lparr>tr_updated_at := now\<rparr>), put_row (tr_transaction_id old) (r\<lparr>tr_updated_at := now\<rparr>) tab))"
  by (simp add: flush_transaction_def Let_def)

lemma flush_Inr: "\<exists>q tab'. flush_transaction old r now tab = (Inr q, tab')"
  by (simp add: flush_transaction_cases)

lemma flush_result:
  assumes "flush_transaction old r now tab = (Inr q, tab')" and "row_of tab (tr_transaction_id old) = Some old"
  shows "row_of tab' (tr_transaction_id old) = Some q"
proof (cases "r = old")
  case True
  then show ?thesis using assms by (simp add: flush_transaction_cases)
next
  case False
  then have "flush_transaction old r now tab =
      (Inr (r\<lparr>tr_updated_at := now\<rparr>), put_row (tr_transaction_id old) (r\<lparr>tr_updated_at := now\<rparr>) tab)"
    by (simp add: flush_transaction_cases)
  then show ?thesis using assms(1) by (metis Pair_inject row_of_put sum.inject(2))
qed

lemma transition_Inr_iff:
  "transition_transaction_state tid target now tab = (Inr q, tab') \<longleftrightarrow>
     (\<exists>r s t. row_of tab tid = Some r \<and> txn_state_of (tr_state r) = Some s \<and> target_of target = Inr t \<and>
        \<not> txn_is_terminal s \<and> can_transition_to s t \<and>
        flush_transaction r (r\<lparr>tr_state := txn_state_value t\<rparr>) now tab = (Inr q, tab'))"
  by (auto simp: transition_transaction_state_def then_do_def locked_transaction_def
      lock_transaction_for_update_def state_from_text_def split: option.splits sum.splits)


lemma transition_Inl: "fst (transition_transaction_state tid target now tab) = Inl e \<Longrightarrow>
    transition_transaction_state tid target now tab = (Inl e, tab)"
  by (auto simp: transition_transaction_state_def then_do_def locked_transaction_def
      lock_transaction_for_update_def flush_transaction_cases of_res_def raise_exc_def
      split: option.splits sum.splits if_splits)

lemma flush_evolves:
  assumes "row_of tab tid = Some old" and "same_context old r" and "state_evolves (tr_state old) (tr_state r)"
  shows "txns_evolve tab (snd (flush_transaction old r now tab))"
  using txn_rows.evolves_update [OF assms(1), of "r\<lparr>tr_updated_at := now\<rparr>"] assms(2,3) txn_rows.table.stays
  by (auto simp: flush_transaction_cases row_evolves_def same_context_def)

lemma transition_evolves [evolves_intros]: "evolves txns_evolve (transition_transaction_state tid target now)"
  unfolding evolves_def
proof
  fix tab
  obtain x tab' where run: "transition_transaction_state tid target now tab = (x, tab')"
    by (cases "transition_transaction_state tid target now tab")
  show "txns_evolve tab (snd (transition_transaction_state tid target now tab))"
  proof (cases x)
    case (Inl e)
    then show ?thesis using transition_Inl [of tid target now tab e] run by (simp add: txn_rows.table.stays)
  next
    case (Inr q)
    then obtain r s t where r: "row_of tab tid = Some r" "txn_state_of (tr_state r) = Some s"
      "can_transition_to s t"
      "flush_transaction r (r\<lparr>tr_state := txn_state_value t\<rparr>) now tab = (Inr q, tab')"
      using run by (auto simp: transition_Inr_iff)
    have "txns_evolve tab (snd (flush_transaction r (r\<lparr>tr_state := txn_state_value t\<rparr>) now tab))"
      by (rule flush_evolves [OF r(1)]) (use r(2,3) state_evolves_step in \<open>auto simp: same_context_def\<close>)
    then show ?thesis using run r(4) by simp
  qed
qed

lemma transition_result:
  assumes "transition_transaction_state tid target now tab = (Inr q, tab')" and "keyed tr_transaction_id tab"
  shows "row_of tab' tid = Some q"
proof -
  obtain r s t where r: "row_of tab tid = Some r"
    and f: "flush_transaction r (r\<lparr>tr_state := txn_state_value t\<rparr>) now tab = (Inr q, tab')"
    using assms(1) by (auto simp: transition_Inr_iff)
  have "tr_transaction_id r = tid" using assms(2) r by (simp add: keyed_def)
  then show ?thesis using flush_result [OF f] r by simp
qed

lemma dispatch_evolves [evolves_intros]: "evolves txns_evolve (mark_provider_dispatch_started tid pid now)"
  unfolding evolves_def
proof
  fix tab
  obtain x tab' where run: "transition_transaction_state tid (State TransactionState.EXECUTING) now tab = (x, tab')"
    by (cases "transition_transaction_state tid (State TransactionState.EXECUTING) now tab")
  have e: "txns_evolve tab tab'" using evolvesD [OF transition_evolves, of tab tid] run by (metis snd_conv)
  show "txns_evolve tab (snd (mark_provider_dispatch_started tid pid now tab))"
  proof (cases x)
    case (Inl y)
    then show ?thesis using run e by (simp add: mark_provider_dispatch_started_def then_do_Inl)
  next
    case (Inr q)
    have "txns_evolve tab (snd (flush_transaction q (q\<lparr>tr_provider_payment_id := p,
        tr_provider_status := st\<rparr>) now tab'))" for p st
    proof (cases "keyed tr_transaction_id tab")
      case True
      then have "row_of tab' tid = Some q" using transition_result run Inr by blast
      then show ?thesis by (rule txn_rows.table.follows [OF e flush_evolves])
        (simp_all add: same_context_def state_evolves_def)
    qed (simp add: table_evolves_def)
    then show ?thesis using run Inr by (simp add: mark_provider_dispatch_started_def then_do_Inr)
  qed
qed

lemma outcome_evolves [evolves_intros]: "evolves txns_evolve (record_provider_outcome tid status pid now)"
  unfolding evolves_def
proof
  fix tab
  show "txns_evolve tab (snd (record_provider_outcome tid status pid now tab))"
  proof (cases "row_of tab tid")
    case None
    then show ?thesis by (simp add: record_provider_outcome_def then_do_def locked_transaction_def
          lock_transaction_for_update_def txn_rows.table.stays)
  next
    case (Some old)
    let ?f = "flush_transaction old (old\<lparr>tr_provider_payment_id := opt_update pid (tr_provider_payment_id old),
             tr_provider_status := Some status\<rparr>) now tab"
    have e: "txns_evolve tab (snd ?f)"
      by (rule flush_evolves [OF Some]) (simp_all add: same_context_def state_evolves_def)
    obtain r tab' where f: "?f = (Inr r, tab')" using flush_Inr by blast
    have "txns_evolve tab (snd (transition_transaction_state tid target now tab'))" for target
      using txn_rows.table.follows e f evolvesD [OF transition_evolves] by (metis snd_conv)
    then show ?thesis using f e Some
      by (simp add: record_provider_outcome_def then_do_def locked_transaction_def lock_transaction_for_update_def)
  qed
qed

lemma create_evolves [evolves_intros]:
  "unique_key tr_transaction_id accepts \<Longrightarrow> evolves txns_evolve (create_transaction accepts a now)"
  unfolding create_transaction_def
  by (intro txn_rows.table.evolves_rules txn_rows.evolves_insert)

section \<open>The effect of the operations\<close>

lemma txn_state_value_inject [simp]: "txn_state_value s = txn_state_value t \<longleftrightarrow> s = t"
  by (metis option.inject txn_state_of_value)

lemma transition_moves:
  assumes "row_of tab tid = Some r" and "tr_transaction_id r = tid" and "txn_state_of (tr_state r) = Some s"
    and "can_transition_to s t" and "\<not> txn_is_terminal s"
  shows "transition_transaction_state tid (State t) now tab =
    (Inr (r\<lparr>tr_state := txn_state_value t, tr_updated_at := now\<rparr>),
     put_row tid (r\<lparr>tr_state := txn_state_value t, tr_updated_at := now\<rparr>) tab)"
proof -
  have "s \<noteq> t" using assms(4) by (cases s) (auto simp: can_transition_to_def)
  then have "tr_state r \<noteq> txn_state_value t" using assms(3) by auto
  then have "r\<lparr>tr_state := txn_state_value t\<rparr> \<noteq> r" by (metis TransactionRow.select_convs(10) TransactionRow.surjective TransactionRow.update_convs(10))
  then show ?thesis using assms
    by (simp add: transition_transaction_state_def then_do_def locked_transaction_def state_from_text_def
        lock_transaction_for_update_def target_of_def flush_transaction_cases)
qed

lemma transition_illegal:
  assumes "row_of tab tid = Some r" and "txn_state_of (tr_state r) = Some s" and "\<not> can_transition_to s t"
  shows "transition_transaction_state tid (State t) now tab = (Inl (transaction_state_error s t), tab)"
  using assms by (simp add: transition_transaction_state_def then_do_def locked_transaction_def
      state_from_text_def lock_transaction_for_update_def target_of_def)

definition outcome_state :: "string \<Rightarrow> TransactionState option" where
  "outcome_state status =
     (if upper status \<in> {''SUCCESS'', ''CAPTURED'', ''PAID''} then Some TransactionState.SUCCESS
      else if upper status \<in> {''FAILURE'', ''FAILED'', ''DECLINED''} then Some FAILURE else None)"

lemma outcome_moves:
  assumes "row_of tab tid = Some r" and "tr_transaction_id r = tid"
    and "txn_state_of (tr_state r) = Some TransactionState.EXECUTING" and "outcome_state status = Some t"
  shows "record_provider_outcome tid status pid now tab =
    (Inr (r\<lparr>tr_provider_payment_id := opt_update pid (tr_provider_payment_id r), tr_provider_status := Some status,
       tr_state := txn_state_value t, tr_updated_at := now\<rparr>),
     put_row tid (r\<lparr>tr_provider_payment_id := opt_update pid (tr_provider_payment_id r),
       tr_provider_status := Some status, tr_state := txn_state_value t, tr_updated_at := now\<rparr>) tab)"
proof -
  let ?q = "r\<lparr>tr_provider_payment_id := opt_update pid (tr_provider_payment_id r), tr_provider_status := Some status\<rparr>"
  have t: "can_transition_to TransactionState.EXECUTING t" "\<not> txn_is_terminal TransactionState.EXECUTING"
    using assms(4) by (auto simp: outcome_state_def can_transition_to_def txn_is_terminal_def split: if_splits)
  have run: "record_provider_outcome tid status pid now tab =
      then_do (flush_transaction r ?q now) (\<lambda>_. transition_transaction_state tid (State t) now) tab"
  proof -
    obtain x tab' where "flush_transaction r ?q now tab = (Inr x, tab')" using flush_Inr by blast
    then show ?thesis using assms(1,4) by (auto simp: record_provider_outcome_def then_do_def
        locked_transaction_def lock_transaction_for_update_def outcome_state_def split: if_splits)
  qed
  show ?thesis
  proof (cases "?q = r")
    case True
    have "transition_transaction_state tid (State t) now tab = (Inr (?q\<lparr>tr_state := txn_state_value t, tr_updated_at := now\<rparr>),
        put_row tid (?q\<lparr>tr_state := txn_state_value t, tr_updated_at := now\<rparr>) tab)"
      unfolding True by (rule transition_moves [OF assms(1,2,3) t])
    then show ?thesis using True by (simp add: run then_do_def flush_transaction_cases)
  next
    case False
    have "transition_transaction_state tid (State t) now (put_row tid (?q\<lparr>tr_updated_at := now\<rparr>) tab) =
        (Inr (?q\<lparr>tr_updated_at := now\<rparr>\<lparr>tr_state := txn_state_value t, tr_updated_at := now\<rparr>),
         put_row tid (?q\<lparr>tr_updated_at := now\<rparr>\<lparr>tr_state := txn_state_value t, tr_updated_at := now\<rparr>)
           (put_row tid (?q\<lparr>tr_updated_at := now\<rparr>) tab))"
      by (rule transition_moves [OF _ _ _ t]) (simp_all add: assms)
    then show ?thesis using False assms(2) by (simp add: run then_do_def flush_transaction_cases)
  qed
qed

lemma provider_words [simp]:
  "outcome_state ''SUCCESS'' = Some TransactionState.SUCCESS" "outcome_state ''FAILED'' = Some FAILURE"
  "outcome_state ''UNKNOWN'' = None"
  by (simp_all add: outcome_state_def upper_def upper_char_def)

lemma outcome_stays:
  assumes "row_of tab tid = Some r" and "outcome_state status = None"
  shows "record_provider_outcome tid status pid now tab = flush_transaction r
    (r\<lparr>tr_provider_payment_id := opt_update pid (tr_provider_payment_id r), tr_provider_status := Some status\<rparr>) now tab"
proof -
  obtain x tab' where "flush_transaction r (r\<lparr>tr_provider_payment_id := opt_update pid (tr_provider_payment_id r),
      tr_provider_status := Some status\<rparr>) now tab = (Inr x, tab')" using flush_Inr by blast
  then show ?thesis using assms by (auto simp: record_provider_outcome_def then_do_def
      locked_transaction_def lock_transaction_for_update_def outcome_state_def split: if_splits)
qed

lemma dispatch_moves:
  fixes now :: datetime
  assumes "row_of tab tid = Some r" and "tr_transaction_id r = tid"
    and "txn_state_of (tr_state r) = Some TransactionState.AUTHORIZED"
  defines "q \<equiv> r\<lparr>tr_state := txn_state_value TransactionState.EXECUTING, tr_updated_at := now,
    tr_provider_status := Some ''DISPATCHED''\<rparr>"
  shows "mark_provider_dispatch_started tid None now tab = (Inr q, put_row tid q tab)"
proof -
  let ?r = "r\<lparr>tr_state := txn_state_value TransactionState.EXECUTING, tr_updated_at := now\<rparr>"
  have move: "transition_transaction_state tid (State TransactionState.EXECUTING) now tab = (Inr ?r, put_row tid ?r tab)"
    by (rule transition_moves [OF assms(1-3)]) (simp_all add: can_transition_to_def txn_is_terminal_def)
  have q: "?r\<lparr>tr_provider_status := Some ''DISPATCHED''\<rparr> = q" by (simp add: q_def)
  have "mark_provider_dispatch_started tid None now tab =
      flush_transaction ?r (?r\<lparr>tr_provider_status := Some ''DISPATCHED''\<rparr>) now (put_row tid ?r tab)"
    using move by (simp add: mark_provider_dispatch_started_def then_do_def)
  also have "\<dots> = flush_transaction ?r q now (put_row tid ?r tab)" by (simp only: q)
  also have "\<dots> = (Inr q, put_row tid q tab)"
  proof (cases "q = ?r")
    case False
    have "q\<lparr>tr_updated_at := now\<rparr> = q" by (simp add: q_def)
    then show ?thesis using False assms(2) by (simp add: flush_transaction_cases)
  qed (simp add: flush_transaction_cases)
  finally show ?thesis .
qed

lemma dispatch_needs_authorized:
  assumes "mark_provider_dispatch_started tid pid now tab = (Inr q, tab')"
  shows "\<exists>r. row_of tab tid = Some r \<and> txn_state_of (tr_state r) = Some TransactionState.AUTHORIZED"
  using assms by (auto simp: mark_provider_dispatch_started_def then_do_result transition_Inr_iff target_of_def
      into_executing)

end
