(* ===== verification/Outbox_Store.thy ===== *)
theory Outbox_Store
  imports Session Json
begin

text \<open>
  Execution attempts (\<open>db/models/execution_attempt.py\<close>, \<open>db/repository/execution_attempt_repository.py\<close>)
  and the transactional outbox (\<open>db/models/outbox.py\<close>, \<open>db/repository/outbox_repository.py\<close>). The claim of
  an attempt rolls the whole session back when its row is refused, so it is stated over the whole
  database, in \<open>Payment_Db\<close>. The metrics that the repositories count are left out.
\<close>

section \<open>Execution attempts\<close>

record AttemptRow =
  at_attempt_id :: string
  at_transaction_id :: string
  at_merchant_id :: string
  at_idempotency_key :: string
  at_payload_fingerprint :: string
  at_status :: string
  at_provider_reference :: "string option"
  at_created_at :: datetime
  at_completed_at :: "datetime option"

type_synonym attempt_table = "AttemptRow table"

definition compute_payload_fingerprint :: "(string \<Rightarrow> string) \<Rightarrow> json \<Rightarrow> string" where
  "compute_payload_fingerprint sha payload = sha (json_dumps payload)"

definition get_attempt_by_key :: "attempt_table \<Rightarrow> string \<Rightarrow> string \<Rightarrow> AttemptRow option res" where
  "get_attempt_by_key tab merchant key = scalar_one_or_none
     (filter (\<lambda>r. at_merchant_id r = strip merchant \<and> at_idempotency_key r = strip key) (rows_of tab))"

definition get_attempts_for_transaction :: "attempt_table \<Rightarrow> string \<Rightarrow> AttemptRow list" where
  "get_attempts_for_transaction tab tid =
     sort_key at_created_at (filter (\<lambda>r. at_transaction_id r = strip tid) (rows_of tab))"

definition lock_attempt_for_update :: "attempt_table \<Rightarrow> string \<Rightarrow> AttemptRow option" where
  "lock_attempt_for_update tab aid = row_of tab (strip aid)"

definition record_outcome ::
  "string \<Rightarrow> string \<Rightarrow> string option \<Rightarrow> datetime \<Rightarrow> (attempt_table, AttemptRow) prog" where
  "record_outcome aid status reference now tab =
     (case lock_attempt_for_update tab aid of
        None \<Rightarrow> (Inl (Raise ValueError (Msg ''Execution attempt '{}' not found.'' [PStr aid])), tab)
      | Some r \<Rightarrow>
          let q = r\<lparr>at_status := status,
            at_provider_reference :=
              (case reference of None \<Rightarrow> at_provider_reference r
               | Some p \<Rightarrow> if p = [] then at_provider_reference r else Some p),
            at_completed_at := Some now\<rparr>
          in (Inr q, put_row (strip aid) q tab))"

section \<open>The outbox\<close>

record OutboxRow =
  ob_outbox_id :: string
  ob_event_type :: string
  ob_aggregate_type :: string
  ob_aggregate_id :: string
  ob_payload_json :: string
  ob_status :: string
  ob_created_at :: datetime
  ob_dispatched_at :: "datetime option"

type_synonym outbox_table = "OutboxRow table"

definition outbox_row ::
  "string \<Rightarrow> string \<Rightarrow> string \<Rightarrow> json \<Rightarrow> string option \<Rightarrow> string \<Rightarrow> datetime \<Rightarrow> OutboxRow" where
  \<comment> \<open>\<open>uid\<close> is the fresh identifier \<open>outbox_<16 hexadecimal digits>\<close>\<close>
  "outbox_row ty agg_ty agg_id payload oid uid now =
     \<lparr>ob_outbox_id = (if oid = None \<or> oid = Some [] then uid else the oid), ob_event_type = ty,
      ob_aggregate_type = agg_ty, ob_aggregate_id = agg_id, ob_payload_json = json_dumps payload,
      ob_status = ''PENDING'', ob_created_at = now, ob_dispatched_at = None\<rparr>"

definition outbox_create_event ::
  "(outbox_table \<Rightarrow> OutboxRow \<Rightarrow> bool) \<Rightarrow> string \<Rightarrow> string \<Rightarrow> string \<Rightarrow> json \<Rightarrow> string option \<Rightarrow> string \<Rightarrow>
   datetime \<Rightarrow> (outbox_table, OutboxRow) prog" where
  "outbox_create_event accepts ty agg_ty agg_id payload oid uid now =
     (let r = outbox_row ty agg_ty agg_id payload oid uid now in
      then_do (insert_row accepts ob_outbox_id r) (\<lambda>ok.
        if ok then ret r else raise_exc (Raise IntegrityError (Msg ''outbox_events'' []))))"

definition outbox_record_event ::
  "(outbox_table \<Rightarrow> OutboxRow \<Rightarrow> bool) \<Rightarrow> string \<Rightarrow> string \<Rightarrow> json \<Rightarrow> string \<Rightarrow> string option \<Rightarrow> string \<Rightarrow>
   datetime \<Rightarrow> (outbox_table, OutboxRow) prog" where
  "outbox_record_event accepts ty agg_id payload agg_ty oid uid now =
     outbox_create_event accepts ty agg_ty agg_id payload oid uid now"

definition pending_events :: "outbox_table \<Rightarrow> OutboxRow list" where
  "pending_events tab = sort_key ob_created_at (filter (\<lambda>r. ob_status r = ''PENDING'') (rows_of tab))"

definition get_pending_events :: "outbox_table \<Rightarrow> nat \<Rightarrow> OutboxRow list" where
  "get_pending_events tab limit = take limit (pending_events tab)"

definition get_pending_count :: "outbox_table \<Rightarrow> nat" where
  "get_pending_count tab = length (filter (\<lambda>r. ob_status r = ''PENDING'') (rows_of tab))"

definition get_oldest_pending_age :: "outbox_table \<Rightarrow> datetime \<Rightarrow> int" where
  \<comment> \<open>in microseconds\<close>
  "get_oldest_pending_age tab now =
     (case pending_events tab of [] \<Rightarrow> 0 | r # _ \<Rightarrow> max 0 (now - ob_created_at r))"

definition mark_outbox :: "string \<Rightarrow> (OutboxRow \<Rightarrow> OutboxRow) \<Rightarrow> (outbox_table, OutboxRow) prog" where
  "mark_outbox oid f tab =
     (case row_of tab oid of
        None \<Rightarrow> (Inl (Raise ValueError (Msg ''Outbox record '{}' not found.'' [PStr oid])), tab)
      | Some r \<Rightarrow> (Inr (f r), put_row oid (f r) tab))"

definition mark_dispatched :: "string \<Rightarrow> datetime \<Rightarrow> (outbox_table, OutboxRow) prog" where
  "mark_dispatched oid now =
     mark_outbox oid (\<lambda>r. r\<lparr>ob_status := ''DISPATCHED'', ob_dispatched_at := Some now\<rparr>)"

definition mark_failed :: "string \<Rightarrow> (outbox_table, OutboxRow) prog" where
  "mark_failed oid = mark_outbox oid (\<lambda>r. r\<lparr>ob_status := ''FAILED''\<rparr>)"

section \<open>The outbox worker\<close>

definition dispatch_event :: "OutboxRow \<Rightarrow> datetime \<Rightarrow> (outbox_table, int) prog" where
  \<comment> \<open>one turn of the loop of \<open>process_batch\<close>: what it adds to the count\<close>
  "dispatch_event e now =
     then_do (attempt (mark_dispatched (ob_outbox_id e) now)) (\<lambda>r.
       case r of Inr _ \<Rightarrow> ret 1
       | Inl _ \<Rightarrow> then_do (mark_failed (ob_outbox_id e)) (\<lambda>_. ret 0))"

definition outbox_batch :: "nat \<Rightarrow> datetime \<Rightarrow> (outbox_table, int) prog" where
  "outbox_batch batch_size now =
     then_do (read_st (\<lambda>tab. get_pending_events tab batch_size)) (\<lambda>events.
       if events = [] then ret 0
       else then_do (for_each events (\<lambda>e. dispatch_event e now)) (\<lambda>counts. ret (sum_list counts)))"

definition outbox_process_batch :: "nat \<Rightarrow> datetime \<Rightarrow> (outbox_table, int) prog" where
  \<comment> \<open>with the unit of work around it: committed at the end, rolled back by an exception\<close>
  "outbox_process_batch batch_size now tab =
     (case outbox_batch batch_size now tab of (Inr n, tab') \<Rightarrow> (Inr n, tab') | (Inl e, _) \<Rightarrow> (Inl e, tab))"

section \<open>What a batch does\<close>

definition dispatched :: "datetime \<Rightarrow> OutboxRow \<Rightarrow> OutboxRow" where
  "dispatched now r = r\<lparr>ob_status := ''DISPATCHED'', ob_dispatched_at := Some now\<rparr>"

abbreviation wf_outbox :: "outbox_table \<Rightarrow> bool" where
  "wf_outbox \<equiv> wf_table ob_outbox_id"

lemma dispatch_event_row:
  "row_of tab (ob_outbox_id e) = Some e \<Longrightarrow>
     dispatch_event e now tab = (Inr 1, put_row (ob_outbox_id e) (dispatched now e) tab)"
  by (simp add: dispatch_event_def attempt_def then_do_def mark_dispatched_def mark_outbox_def dispatched_def)

lemma dispatch_all:
  assumes "wf_outbox tab" and "distinct (map ob_outbox_id es)"
    and "list_all (\<lambda>e. row_of tab (ob_outbox_id e) = Some e \<and> ob_status e = ''PENDING'') es"
  shows "\<exists>tab'. for_each es (\<lambda>e. dispatch_event e now) tab = (Inr (replicate (length es) 1), tab') \<and>
    wf_outbox tab' \<and> get_pending_count tab' + length es = get_pending_count tab \<and>
    row_of tab' = (\<lambda>k. if k \<in> ob_outbox_id ` set es then map_option (dispatched now) (row_of tab k)
      else row_of tab k)"
  using assms
proof (induction es arbitrary: tab)
  case (Cons e es)
  let ?t = "put_row (ob_outbox_id e) (dispatched now e) tab"
  have e: "row_of tab (ob_outbox_id e) = Some e" "ob_status e = ''PENDING''" using Cons.prems(3) by simp_all
  have "wf_outbox ?t" by (rule wf_table_put [OF Cons.prems(1)]) (simp add: dispatched_def)
  moreover have "distinct (map ob_outbox_id es)" using Cons.prems(2) by simp
  moreover have "list_all (\<lambda>e. row_of ?t (ob_outbox_id e) = Some e \<and> ob_status e = ''PENDING'') es"
    using Cons.prems(2,3) by (auto simp: list_all_iff image_iff)
  ultimately obtain tab' where IH: "for_each es (\<lambda>e. dispatch_event e now) ?t = (Inr (replicate (length es) 1), tab')"
    "wf_outbox tab'" "get_pending_count tab' + length es = get_pending_count ?t"
    "row_of tab' = (\<lambda>k. if k \<in> ob_outbox_id ` set es then map_option (dispatched now) (row_of ?t k) else row_of ?t k)"
    using Cons.IH by blast
  have "get_pending_count tab = Suc (get_pending_count ?t)"
    using count_rows_put [of tab "ob_outbox_id e" e "\<lambda>r. ob_status r = ''PENDING''" "dispatched now e"] e Cons.prems(1)
    by (simp add: get_pending_count_def count_rows_def wf_table_def dispatched_def)
  moreover have "row_of tab' = (\<lambda>k. if k \<in> ob_outbox_id ` set (e # es)
      then map_option (dispatched now) (row_of tab k) else row_of tab k)"
    using IH(4) e(1) Cons.prems(2) by (auto simp: fun_eq_iff)
  ultimately show ?case using IH dispatch_event_row [OF e(1)]
    by (simp add: then_do_Inr)
qed simp

lemma pending_rows:
  assumes "wf_outbox tab"
  shows "distinct (map ob_outbox_id (get_pending_events tab n))"
    and "list_all (\<lambda>e. row_of tab (ob_outbox_id e) = Some e \<and> ob_status e = ''PENDING'') (get_pending_events tab n)"
    and "length (pending_events tab) = get_pending_count tab"
proof -
  have d: "distinct (map ob_outbox_id (rows_of tab))" by (rule wf_distinct_keys [OF assms])
  then have "distinct (map ob_outbox_id (pending_events tab))"
    by (simp add: pending_events_def distinct_map inj_on_def)
  then show "distinct (map ob_outbox_id (get_pending_events tab n))"
    by (simp add: get_pending_events_def take_map [symmetric])
  show "list_all (\<lambda>e. row_of tab (ob_outbox_id e) = Some e \<and> ob_status e = ''PENDING'') (get_pending_events tab n)"
    using wf_rows [OF assms]
    by (auto simp: list_all_iff get_pending_events_def pending_events_def dest!: in_set_takeD)
  show "length (pending_events tab) = get_pending_count tab"
    by (simp add: pending_events_def get_pending_count_def)
qed

lemma batch_effect:
  assumes "wf_outbox tab"
  shows "\<exists>tab'. outbox_process_batch n now tab = (Inr (int (length (get_pending_events tab n))), tab') \<and>
    wf_outbox tab' \<and> get_pending_count tab' = get_pending_count tab - n \<and>
    row_of tab' = (\<lambda>k. if k \<in> ob_outbox_id ` set (get_pending_events tab n)
      then map_option (dispatched now) (row_of tab k) else row_of tab k)"
proof -
  let ?es = "get_pending_events tab n"
  obtain tab' where all: "for_each ?es (\<lambda>e. dispatch_event e now) tab = (Inr (replicate (length ?es) 1), tab')"
    "wf_outbox tab'" "get_pending_count tab' + length ?es = get_pending_count tab"
    "row_of tab' = (\<lambda>k. if k \<in> ob_outbox_id ` set ?es then map_option (dispatched now) (row_of tab k) else row_of tab k)"
    using dispatch_all [OF assms pending_rows(1,2) [OF assms]] by blast
  have "length ?es = min n (get_pending_count tab)"
    using pending_rows(3) [OF assms] by (simp add: get_pending_events_def)
  then have count: "get_pending_count tab' = get_pending_count tab - n" using all(3) by simp
  show ?thesis
  proof (cases "?es = []")
    case True
    then have "tab' = tab" using all(1) by simp
    then show ?thesis using True all assms count by (simp add: outbox_process_batch_def outbox_batch_def)
  next
    case False
    then have "outbox_batch n now tab = (Inr (int (length ?es)), tab')"
      using all(1) by (simp add: outbox_batch_def then_do_Inr sum_list_replicate)
    then show ?thesis using all count by (simp add: outbox_process_batch_def)
  qed
qed

section \<open>The worker's loop\<close>

fun outbox_run :: "nat \<Rightarrow> nat \<Rightarrow> datetime list \<Rightarrow> outbox_table \<Rightarrow> int list \<times> outbox_table" where
  \<comment> \<open>the rounds of \<open>run\<close> until it is stopped, at the given times: what each batch returned (an exception
    is logged and counts as nothing) and the table at the end\<close>
  "outbox_run batch_size rounds [] tab = ([], tab)"
| "outbox_run batch_size 0 ts tab = ([], tab)"
| "outbox_run batch_size (Suc n) (t # ts) tab =
     (case outbox_process_batch batch_size t tab of
        (r, tab') \<Rightarrow> (case outbox_run batch_size n ts tab' of
          (counts, tab'') \<Rightarrow> ((case r of Inr c \<Rightarrow> c | Inl _ \<Rightarrow> 0) # counts, tab'')))"

section \<open>Properties\<close>

text \<open>What a batch of the outbox worker does: it marks exactly the oldest pending events, at most
  \<open>batch_size\<close> of them, as dispatched, leaves every other event as it is, commits, and returns their
  number. (Nothing is sent anywhere: marking an event is all that its dispatch consists of.)\<close>

theorem outbox_batch_exact:
  assumes "wf_outbox tab"
  shows "\<exists>tab'. outbox_process_batch n now tab = (Inr (int (length (get_pending_events tab n))), tab') \<and>
    row_of tab' = (\<lambda>k. if k \<in> ob_outbox_id ` set (get_pending_events tab n)
      then map_option (dispatched now) (row_of tab k) else row_of tab k)"
  using batch_effect [OF assms] by blast

definition sample_outbox :: outbox_table where
  "sample_outbox = map (\<lambda>i. (i, outbox_row ''PAYMENT_COMMITTED'' ''TRANSACTION'' ''t'' JNull (Some i) i 0)) [''a'', ''b'']"

lemma sample_outbox_wf: "wf_outbox sample_outbox"
  by (simp add: sample_outbox_def wf_table_def keyed_def row_of_def outbox_row_def)

theorem outbox_batch_exact_witness:
  "\<exists>tab'. outbox_process_batch 1 5 sample_outbox = (Inr (int (length (get_pending_events sample_outbox 1))), tab') \<and>
    row_of tab' = (\<lambda>k. if k \<in> ob_outbox_id ` set (get_pending_events sample_outbox 1)
      then map_option (dispatched 5) (row_of sample_outbox k) else row_of sample_outbox k)"
  by (rule outbox_batch_exact [OF sample_outbox_wf])

text \<open>C39: The outbox drains: when no new events arrive, a worker with batch size \<open>n\<close> has no pending event
  left after \<open>m\<close> rounds if \<open>m * n\<close> is at least the number of events that were pending, whatever the
  times of the rounds.\<close>

theorem outbox_drains:
  assumes "wf_outbox tab" and "get_pending_count tab \<le> m * n" and "length ts = m"
  shows "get_pending_count (snd (outbox_run n m ts tab)) = 0"
  using assms
proof (induction m arbitrary: tab ts)
  case (Suc m)
  then obtain t us where ts: "ts = t # us" "length us = m" by (cases ts) simp_all
  obtain r tab' where b: "outbox_process_batch n t tab = (r, tab')" "wf_outbox tab'"
    "get_pending_count tab' = get_pending_count tab - n"
    using batch_effect [OF Suc.prems(1)] by blast
  then have "get_pending_count tab' \<le> m * n" using Suc.prems(2) by simp
  then have "get_pending_count (snd (outbox_run n m us tab')) = 0" by (rule Suc.IH [OF b(2) _ ts(2)])
  then show ?case using b(1) ts by (cases "outbox_run n m us tab'") simp
qed simp

theorem outbox_drains_witness: "get_pending_count (snd (outbox_run 1 2 [5, 7] sample_outbox)) = 0"
  by (rule outbox_drains [OF sample_outbox_wf])
    (simp_all add: sample_outbox_def get_pending_count_def rows_of_def outbox_row_def)

end
