(* ===== verification/Mandate_Store.thy ===== *)
theory Mandate_Store
  imports Session Mandate
begin

text \<open>
  The mandate table (\<open>db/models/mandate.py\<close>), its repository (\<open>db/repository/mandate_repository.py\<close>) and the
  asynchronous helpers of \<open>apps/api/domain/mandate_lifecycle.py\<close>, which read a row as a \<open>BuyerMandate\<close>.
  \<open>row_to_mandate\<close> is the abstraction: the helpers refine the life cycle of \<open>Mandate\<close>, and
  \<open>mandate_rows\<close> interprets \<open>row_relation\<close>, so that no code going through the repository leaves a
  terminal status or changes the terms of a stored mandate.
\<close>

section \<open>The repository\<close>

record MandateRow =
  mrow_mandate_id :: string
  mrow_buyer_id :: string
  mrow_merchant_id :: "string option"
  mrow_category_scope :: "string option"
  mrow_daily_budget_paise :: int
  mrow_cumulative_budget_paise :: "int option"
  mrow_currency :: string
  mrow_region :: string
  mrow_status :: string
  mrow_expires_at :: datetime
  mrow_created_at :: datetime

type_synonym mandate_table = "MandateRow table"

definition repo_create_mandate ::
  "(mandate_table \<Rightarrow> MandateRow \<Rightarrow> bool) \<Rightarrow> MandateRow \<Rightarrow> (mandate_table, MandateRow) prog" where
  \<comment> \<open>the row of the arguments; \<open>created_at\<close> is the time of the call\<close>
  "repo_create_mandate accepts r =
     then_do (insert_row accepts mrow_mandate_id r) (\<lambda>ok.
       if ok then ret r else raise_exc (Raise IntegrityError (Msg ''mandates'' [])))"

definition repo_get_mandate :: "mandate_table \<Rightarrow> string \<Rightarrow> MandateRow option" where
  "repo_get_mandate tab mid = row_of tab mid"

definition get_mandate_for_buyer :: "mandate_table \<Rightarrow> string \<Rightarrow> string \<Rightarrow> MandateRow option res" where
  "get_mandate_for_buyer tab mid buyer = scalar_one_or_none
     (filter (\<lambda>r. mrow_mandate_id r = mid \<and> mrow_buyer_id r = buyer) (rows_of tab))"

definition get_mandates_for_buyer :: "mandate_table \<Rightarrow> string \<Rightarrow> MandateRow list" where
  "get_mandates_for_buyer tab buyer = sort_key (\<lambda>r. - mrow_created_at r)
     (sort_key mrow_mandate_id (filter (\<lambda>r. mrow_buyer_id r = buyer) (rows_of tab)))"

definition get_active_mandates_for_buyer ::
  "mandate_table \<Rightarrow> string \<Rightarrow> datetime option \<Rightarrow> datetime \<Rightarrow> MandateRow list" where
  "get_active_mandates_for_buyer tab buyer at now = sort_key (\<lambda>r. - mrow_created_at r)
     (filter (\<lambda>r. mrow_buyer_id r = buyer \<and> mrow_status r = mandate_status_value MandateStatus.ACTIVE \<and>
        resolve_at at now < mrow_expires_at r) (rows_of tab))"

definition lock_mandate_for_update :: "mandate_table \<Rightarrow> string \<Rightarrow> MandateRow option" where
  "lock_mandate_for_update tab mid = row_of tab mid"

definition mandate_status_from :: "string \<Rightarrow> MandateStatus res" where
  \<comment> \<open>\<open>MandateStatus(text)\<close>\<close>
  "mandate_status_from s = (case mandate_status_of s of Some t \<Rightarrow> Inr t
     | None \<Rightarrow> Inl (Raise ValueError (Msg ''{} is not a valid MandateStatus'' [PStr s])))"

datatype status_arg = Status MandateStatus | Status_Text string

definition status_target :: "status_arg \<Rightarrow> MandateStatus res" where
  "status_target a = (case a of Status t \<Rightarrow> Inr t | Status_Text s \<Rightarrow> mandate_status_from s)"

definition transition_mandate_status :: "string \<Rightarrow> status_arg \<Rightarrow> (mandate_table, MandateRow) prog" where
  "transition_mandate_status mid target tab =
     (case lock_mandate_for_update tab mid of
        None \<Rightarrow> (Inl (Raise ValueError (Msg ''Mandate '{}' not found.'' [PStr mid])), tab)
      | Some r \<Rightarrow>
          (case mandate_status_from (mrow_status r) of
             Inl e \<Rightarrow> (Inl e, tab)
           | Inr current \<Rightarrow>
               (case status_target target of
                  Inl e \<Rightarrow> (Inl e, tab)
                | Inr t \<Rightarrow>
                    if t \<notin> mandate_legal_transitions current then (Inl (state_transition_error current t), tab)
                    else let q = r\<lparr>mrow_status := mandate_status_value t\<rparr>
                      in (Inr q, put_row (mrow_mandate_id r) q tab))))"

definition repo_revoke_mandate :: "string \<Rightarrow> (mandate_table, MandateRow) prog" where
  "repo_revoke_mandate mid = transition_mandate_status mid (Status REVOKED)"

definition repo_expire_mandate :: "string \<Rightarrow> (mandate_table, MandateRow) prog" where
  "repo_expire_mandate mid = transition_mandate_status mid (Status MandateStatus.EXPIRED)"

section \<open>The asynchronous helpers\<close>

definition scope_of :: "string option \<Rightarrow> string set" where
  \<comment> \<open>\<open>frozenset([x]) if x else frozenset()\<close>\<close>
  "scope_of x = (case given x of None \<Rightarrow> {} | Some s \<Rightarrow> {s})"

definition row_to_mandate :: "MandateRow \<Rightarrow> BuyerMandate res" where
  "row_to_mandate r = bind_res (mandate_status_from (mrow_status r)) (\<lambda>st.
     mk_mandate (mrow_mandate_id r) (mrow_buyer_id r) 1 (scope_of (mrow_merchant_id r))
       (scope_of (mrow_category_scope r)) {IN} (mrow_daily_budget_paise r) (mrow_daily_budget_paise r) INR True
       (mrow_created_at r) (mrow_expires_at r) st)"

definition async_get_mandate :: "mandate_table \<Rightarrow> string \<Rightarrow> BuyerMandate option res" where
  "async_get_mandate tab mid =
     (if strip mid = [] then Inr None
      else case repo_get_mandate tab (strip mid) of
        None \<Rightarrow> Inr None
      | Some r \<Rightarrow> bind_res (row_to_mandate r) (\<lambda>m. Inr (Some m)))"

definition async_create_mandate ::
  "(mandate_table \<Rightarrow> MandateRow \<Rightarrow> bool) \<Rightarrow> string \<Rightarrow> string \<Rightarrow> int \<Rightarrow> datetime \<Rightarrow> string option \<Rightarrow>
   MandateStatus \<Rightarrow> datetime \<Rightarrow> (mandate_table, BuyerMandate) prog" where
  "async_create_mandate accepts mid buyer daily expires merchant st now =
     then_do (repo_create_mandate accepts
       \<lparr>mrow_mandate_id = strip mid, mrow_buyer_id = strip buyer,
        mrow_merchant_id = map_option strip (given merchant), mrow_category_scope = None,
        mrow_daily_budget_paise = daily, mrow_cumulative_budget_paise = None, mrow_currency = ''INR'',
        mrow_region = ''IN'', mrow_status = mandate_status_value st, mrow_expires_at = expires,
        mrow_created_at = now\<rparr>) (\<lambda>r. of_res (row_to_mandate r))"

definition async_transition_mandate ::
  "string \<Rightarrow> MandateStatus \<Rightarrow> (mandate_table, BuyerMandate) prog" where
  "async_transition_mandate mid target =
     then_do (read_st (\<lambda>tab. lock_mandate_for_update tab (strip mid))) (\<lambda>found.
       case found of
         None \<Rightarrow> raise_exc (Raise (SourceError ''MandateLifecycleError'' ''MANDATE_LIFECYCLE_ERROR'')
           (Msg ''Mandate {} not found in database.'' [PStr (strip mid)]))
       | Some r \<Rightarrow>
           then_do (of_res (mandate_status_from (mrow_status r))) (\<lambda>current.
             if target \<notin> mandate_legal_transitions current then
               raise_exc (state_transition_error current target)
             else then_do (transition_mandate_status (strip mid) (Status target))
               (\<lambda>q. of_res (row_to_mandate q))))"

section \<open>What happens to a stored mandate\<close>

definition mandate_row_evolves :: "MandateRow \<Rightarrow> MandateRow \<Rightarrow> bool" where
  \<comment> \<open>the terms stay, and so does a terminal status\<close>
  "mandate_row_evolves r q \<longleftrightarrow> (\<exists>s. q = r\<lparr>mrow_status := s\<rparr>) \<and>
     (\<forall>s. mandate_status_of (mrow_status r) = Some s \<and> mandate_is_terminal s \<longrightarrow> mrow_status q = mrow_status r)"

abbreviation mandates_evolve :: "mandate_table \<Rightarrow> mandate_table \<Rightarrow> bool" where
  "mandates_evolve \<equiv> table_evolves mrow_mandate_id mandate_row_evolves"

lemma mrow_same: "\<exists>s. r = r\<lparr>mrow_status := s\<rparr>"
  by (rule exI [of _ "mrow_status r"]) simp

interpretation mandate_rows: row_relation mrow_mandate_id mandate_row_evolves
proof unfold_locales
  fix r s t
  show "mandate_row_evolves r r"
    by (simp add: mandate_row_evolves_def mrow_same)
  show "mandate_row_evolves r s \<Longrightarrow> mandate_row_evolves s t \<Longrightarrow> mandate_row_evolves r t"
    using mrow_same by (auto simp: mandate_row_evolves_def)
  show "mandate_row_evolves r s \<Longrightarrow> mrow_mandate_id s = mrow_mandate_id r"
    by (auto simp: mandate_row_evolves_def)
qed

lemma terminal_mandate_no_next: "mandate_is_terminal s \<Longrightarrow> mandate_legal_transitions s = {}"
  by (cases s) (simp_all add: mandate_is_terminal_def)

lemma transition_status_evolves [evolves_intros]: "evolves mandates_evolve (transition_mandate_status mid target)"
  unfolding evolves_def
proof
  fix tab
  show "mandates_evolve tab (snd (transition_mandate_status mid target tab))"
  proof (cases "fst (transition_mandate_status mid target tab)")
    case (Inl e)
    then have "snd (transition_mandate_status mid target tab) = tab"
      by (auto simp: transition_mandate_status_def Let_def split: option.splits sum.splits if_splits)
    then show ?thesis by (simp add: mandate_rows.table.stays)
  next
    case (Inr q)
    then obtain r s t where r: "row_of tab mid = Some r" "mandate_status_of (mrow_status r) = Some s"
      "t \<in> mandate_legal_transitions s" "snd (transition_mandate_status mid target tab) =
        put_row (mrow_mandate_id r) (r\<lparr>mrow_status := mandate_status_value t\<rparr>) tab"
      by (auto simp: transition_mandate_status_def Let_def lock_mandate_for_update_def mandate_status_from_def
          split: option.splits sum.splits if_splits)
    then have "mandate_row_evolves r (r\<lparr>mrow_status := mandate_status_value t\<rparr>)"
      using terminal_mandate_no_next by (auto simp: mandate_row_evolves_def)
    from mandate_rows.evolves_update [OF r(1) this] show ?thesis using r(4) by simp
  qed
qed

lemma create_mandate_evolves [evolves_intros]:
  "unique_key mrow_mandate_id accepts \<Longrightarrow> evolves mandates_evolve (repo_create_mandate accepts r)"
  unfolding repo_create_mandate_def by (intro mandate_rows.table.evolves_rules mandate_rows.evolves_insert)

lemma async_mandate_evolves [evolves_intros]:
  "evolves mandates_evolve (async_transition_mandate mid target)"
  "unique_key mrow_mandate_id accepts \<Longrightarrow>
     evolves mandates_evolve (async_create_mandate accepts mid buyer daily expires merchant st now)"
  unfolding async_transition_mandate_def async_create_mandate_def
  by (intro mandate_rows.table.evolves_rules evolves_intros | assumption)+

lemma mk_mandate_status:
  assumes "mk_mandate mid buyer version merchants cats regions cap daily cur auto issued expires st = Inr m"
  shows "bm_status m = st" and
    "mk_mandate mid buyer version merchants cats regions cap daily cur auto issued expires t = Inr (m\<lparr>bm_status := t\<rparr>)"
  using assms unfolding mk_mandate_def by (simp_all split: if_splits) auto

section \<open>Properties\<close>

text \<open>Refinement: on a stored mandate, \<open>async_transition_mandate\<close> returns what \<open>transition_mandate\<close>
  returns for the mandate that the row stands for, the same mandate or the same error, and the row
  it leaves stands for the mandate after the transition.\<close>

theorem stored_transition_refines:
  assumes "keyed mrow_mandate_id tab" and "strip mid \<noteq> []" and "row_of tab (strip mid) = Some r"
    and "row_to_mandate r = Inr m"
  shows "fst (async_transition_mandate mid target tab) = transition_mandate m target \<and>
    async_get_mandate (snd (async_transition_mandate mid target tab)) mid =
      Inr (Some (case transition_mandate m target of Inr m' \<Rightarrow> m' | Inl _ \<Rightarrow> m))"
proof -
  obtain s where s1: "mandate_status_of (mrow_status r) = Some s"
    using assms(4) by (auto simp: row_to_mandate_def mandate_status_from_def split: option.splits)
  have s2: "bm_status m = s" and s3:
    "\<And>t. row_to_mandate (r\<lparr>mrow_status := mandate_status_value t\<rparr>) = Inr (m\<lparr>bm_status := t\<rparr>)"
    using assms(4) s1 by (auto simp: row_to_mandate_def mandate_status_from_def dest: mk_mandate_status)
  note s = s1 s2 s3
  have k: "mrow_mandate_id r = strip mid" using assms(1,3) by (simp add: keyed_def)
  show ?thesis
  proof (cases "target \<in> mandate_legal_transitions s")
    case True
    then have "async_transition_mandate mid target tab = (Inr (m\<lparr>bm_status := target\<rparr>),
        put_row (strip mid) (r\<lparr>mrow_status := mandate_status_value target\<rparr>) tab)"
      using assms(3) s k
      by (simp add: async_transition_mandate_def lock_mandate_for_update_def mandate_status_from_def
          transition_mandate_status_def status_target_def then_do_def Let_def)
    then show ?thesis using True s assms(2)
      by (simp add: transition_mandate_def async_get_mandate_def repo_get_mandate_def)
  next
    case False
    then have "async_transition_mandate mid target tab = (Inl (state_transition_error s target), tab)"
      using assms(3) s
      by (simp add: async_transition_mandate_def lock_mandate_for_update_def mandate_status_from_def)
    then show ?thesis using False s assms(2-4)
      by (simp add: transition_mandate_def async_get_mandate_def repo_get_mandate_def)
  qed
qed

definition sample_mandate_row :: MandateRow where
  "sample_mandate_row = \<lparr>mrow_mandate_id = ''m'', mrow_buyer_id = ''b'', mrow_merchant_id = Some ''s'',
     mrow_category_scope = None, mrow_daily_budget_paise = 500, mrow_cumulative_budget_paise = None,
     mrow_currency = ''USD'', mrow_region = ''US'', mrow_status = ''ACTIVE'', mrow_expires_at = 10,
     mrow_created_at = 0\<rparr>"

definition sample_stored_mandate :: BuyerMandate where
  "sample_stored_mandate = \<lparr>bm_mandate_id = ''m'', bm_buyer_id = ''b'', bm_version = 1,
     bm_merchant_scope = {''s''}, bm_category_scope = {}, bm_allowed_regions = {IN},
     bm_maximum_amount_paise = 500, bm_daily_budget_paise = 500, bm_currency = INR,
     bm_autonomous_execution = True, bm_issued_at = 0, bm_expires_at = 10, bm_status = MandateStatus.ACTIVE\<rparr>"

lemma strip_single: "\<not> is_space c \<Longrightarrow> strip [c] = [c]"
  by (simp add: strip_def lstrip_def rstrip_def)

lemma sample_mandate_loads: "row_to_mandate sample_mandate_row = Inr sample_stored_mandate"
  by (simp add: row_to_mandate_def sample_mandate_row_def sample_stored_mandate_def mandate_status_from_def
      mandate_status_of_def member_of_value_def mk_mandate_def scope_of_def given_def strip_single
      is_space_def)

theorem stored_transition_refines_witness:
  "fst (async_transition_mandate ''m'' REVOKED [(''m'', sample_mandate_row)]) =
     transition_mandate sample_stored_mandate REVOKED \<and>
   async_get_mandate (snd (async_transition_mandate ''m'' REVOKED [(''m'', sample_mandate_row)])) ''m'' =
     Inr (Some (case transition_mandate sample_stored_mandate REVOKED of Inr m' \<Rightarrow> m' | Inl _ \<Rightarrow> sample_stored_mandate))"
  by (rule stored_transition_refines [where r = sample_mandate_row])
    (simp_all add: sample_mandate_loads keyed_def row_of_def strip_single is_space_def, simp add: sample_mandate_row_def)

text \<open>A stored mandate is read without its currency, its region and its cumulative budget: whatever
  these columns hold, the mandate that is loaded is the same, in rupees and for India, and its
  maximum for one purchase is the whole daily budget.\<close>

theorem stored_currency_ignored:
  "row_to_mandate (r\<lparr>mrow_currency := c, mrow_region := g, mrow_cumulative_budget_paise := u\<rparr>) = row_to_mandate r"
  by (simp add: row_to_mandate_def)

end
