(* ===== verification/Payment_Db.thy ===== *)
theory Payment_Db
  imports Txn_Store Outbox_Store Mandate_Store Audit_Store
begin

text \<open>
  The part of the database that the payment handlers share, as one session sees it: transactions,
  execution attempts, the outbox, the audit events, the webhook events (\<open>db/models/webhook.py\<close>) and the
  mandates. \<open>Accepts\<close> bundles what the database accepts for each table.

  \<open>claim_attempt\<close> and \<open>register_event\<close> live here because they roll back the whole session when their row
  is refused: \<open>base\<close> is the database as it is read after that rollback. \<open>db_evolves\<close> is what may
  happen to the database; \<open>since base\<close>, interpreted as an \<open>evolution\<close>, is the form of it that
  survives rollbacks.
\<close>

record WebhookRow =
  wr_event_id :: string
  wr_event_type :: string
  wr_transaction_id :: string
  wr_merchant_id :: string
  wr_payload_hash :: string
  wr_status :: string
  wr_processed_at :: datetime

type_synonym webhook_table = "WebhookRow table"

record PaymentDb =
  pd_transactions :: txn_table
  pd_attempts :: attempt_table
  pd_outbox :: outbox_table
  pd_audit :: "AuditRow list"
  pd_webhooks :: webhook_table
  pd_mandates :: mandate_table

record Accepts =
  acc_transactions :: "txn_table \<Rightarrow> TransactionRow \<Rightarrow> bool"
  acc_attempts :: "attempt_table \<Rightarrow> AttemptRow \<Rightarrow> bool"
  acc_outbox :: "outbox_table \<Rightarrow> OutboxRow \<Rightarrow> bool"
  acc_audit :: "AuditRow list \<Rightarrow> AuditRow \<Rightarrow> bool"
  acc_webhooks :: "webhook_table \<Rightarrow> WebhookRow \<Rightarrow> bool"

definition enforces_keys :: "Accepts \<Rightarrow> bool" where
  "enforces_keys c \<longleftrightarrow> unique_key tr_transaction_id (acc_transactions c) \<and>
     unique_key at_attempt_id (acc_attempts c) \<and> unique_key ob_outbox_id (acc_outbox c) \<and>
     audit_unique (acc_audit c) \<and> unique_key wr_event_id (acc_webhooks c)"

lemma audit_uniqueD: "audit_unique acc \<Longrightarrow> acc rows r \<Longrightarrow> ar_event_id r \<notin> ar_event_id ` set rows"
  unfolding audit_unique_def by blast

definition plain_database :: Accepts where
  \<comment> \<open>a database with no constraint beside the keys\<close>
  "plain_database = \<lparr>acc_transactions = free_key tr_transaction_id, acc_attempts = free_key at_attempt_id,
     acc_outbox = free_key ob_outbox_id, acc_audit = audit_accepts, acc_webhooks = free_key wr_event_id\<rparr>"

lemma plain_database_keys [simp]: "enforces_keys plain_database"
  by (simp add: enforces_keys_def plain_database_def audit_unique_def audit_accepts_def)

definition on_transactions :: "(txn_table, 'a) prog \<Rightarrow> (PaymentDb, 'a) prog" where
  "on_transactions m = zoom pd_transactions (\<lambda>t s. s\<lparr>pd_transactions := t\<rparr>) m"

definition on_attempts :: "(attempt_table, 'a) prog \<Rightarrow> (PaymentDb, 'a) prog" where
  "on_attempts m = zoom pd_attempts (\<lambda>t s. s\<lparr>pd_attempts := t\<rparr>) m"

definition on_outbox :: "(outbox_table, 'a) prog \<Rightarrow> (PaymentDb, 'a) prog" where
  "on_outbox m = zoom pd_outbox (\<lambda>t s. s\<lparr>pd_outbox := t\<rparr>) m"

definition on_audit :: "(AuditRow list, 'a) prog \<Rightarrow> (PaymentDb, 'a) prog" where
  "on_audit m = zoom pd_audit (\<lambda>t s. s\<lparr>pd_audit := t\<rparr>) m"

definition on_webhooks :: "(webhook_table, 'a) prog \<Rightarrow> (PaymentDb, 'a) prog" where
  "on_webhooks m = zoom pd_webhooks (\<lambda>t s. s\<lparr>pd_webhooks := t\<rparr>) m"

definition append_audit ::
  "(string \<Rightarrow> string) \<Rightarrow> Accepts \<Rightarrow> AuditEventType \<Rightarrow> EventArgs \<Rightarrow> string option \<Rightarrow> string \<Rightarrow> datetime \<Rightarrow>
   (PaymentDb, AuditRow) prog" where
  \<comment> \<open>\<open>uow.audit.append_event(event_type, ..., event_id = eid)\<close>\<close>
  "append_audit sha c ty f eid uid now =
     on_audit (\<lambda>rows. repo_append_event sha (acc_audit c) rows (audit_event_value ty) f None eid uid now)"

section \<open>Claiming an execution attempt\<close>

definition same_claim :: "AttemptRow \<Rightarrow> string \<Rightarrow> string \<Rightarrow> string \<Rightarrow> (PaymentDb, AttemptRow \<times> bool) prog" where
  \<comment> \<open>the checks of an existing claim against the context\<close>
  "same_claim r tid key fp =
     (if at_transaction_id r \<noteq> tid then
        raise_exc (Raise ValueError
          (Msg ''Idempotency key context mismatch: key {} bound to transaction '{}', attempted for transaction '{}'.''
            [PStr key, PStr (at_transaction_id r), PStr tid]))
      else if at_payload_fingerprint r \<noteq> fp then
        raise_exc (Raise ValueError
          (Msg ''Idempotency key payload tamper detected: key {} bound to fingerprint '{}...', attempted with '{}...'.''
            [PStr key, PStr (take 16 (at_payload_fingerprint r)), PStr (take 16 fp)]))
      else ret (r, True))"

definition new_attempt ::
  "string \<Rightarrow> string \<Rightarrow> string \<Rightarrow> string \<Rightarrow> string option \<Rightarrow> string \<Rightarrow> datetime \<Rightarrow> AttemptRow" where
  "new_attempt tid merchant key fp aid uid now =
     \<lparr>at_attempt_id = text_or aid (''attempt_'' @ strip tid @ ''_'' @ uid), at_transaction_id = strip tid,
      at_merchant_id = strip merchant, at_idempotency_key = strip key, at_payload_fingerprint = strip fp,
      at_status = ''CLAIMED'', at_provider_reference = None, at_created_at = now, at_completed_at = None\<rparr>"

definition claim_attempt ::
  "Accepts \<Rightarrow> PaymentDb \<Rightarrow> string \<Rightarrow> string \<Rightarrow> string \<Rightarrow> string \<Rightarrow> string option \<Rightarrow> string \<Rightarrow> datetime \<Rightarrow>
   (PaymentDb, AttemptRow \<times> bool) prog" where
  \<comment> \<open>\<open>uid\<close> is the fresh suffix of the attempt's identifier\<close>
  "claim_attempt c base tid merchant key fp aid uid now =
     (if blank tid then raise_exc (Raise ValueError (Msg ''Transaction ID cannot be empty.'' []))
      else if blank merchant then raise_exc (Raise ValueError (Msg ''Merchant ID cannot be empty.'' []))
      else if blank key then raise_exc (Raise ValueError (Msg ''Idempotency key cannot be empty.'' []))
      else
        then_do (read_st (\<lambda>s. get_attempt_by_key (pd_attempts s) (strip merchant) (strip key))) (\<lambda>found.
        then_do (of_res found) (\<lambda>existing.
          case existing of
            Some r \<Rightarrow> same_claim r (strip tid) (strip key) (strip fp)
          | None \<Rightarrow>
              then_do (on_attempts (insert_row (acc_attempts c) at_attempt_id
                 (new_attempt tid merchant key fp aid uid now))) (\<lambda>ok.
                if ok then ret (new_attempt tid merchant key fp aid uid now, False)
                else
                  then_do (write_st (\<lambda>_. base)) (\<lambda>_.
                  then_do (of_res (get_attempt_by_key (pd_attempts base) (strip merchant) (strip key))) (\<lambda>dup.
                    case dup of
                      Some r \<Rightarrow>
                        if at_transaction_id r \<noteq> strip tid then
                          raise_exc (Raise ValueError
                            (Msg ''Idempotency key context mismatch: key {} bound to transaction '{}'.''
                              [PStr (strip key), PStr (at_transaction_id r)]))
                        else ret (r, True)
                    | None \<Rightarrow> raise_exc (Raise ValueError
                        (Msg ''Execution attempt claim failed due to database constraint: {}'' [PNone]))))))))"

definition create_attempt ::
  "Accepts \<Rightarrow> PaymentDb \<Rightarrow> string \<Rightarrow> string \<Rightarrow> string \<Rightarrow> string option \<Rightarrow> string \<Rightarrow> string \<Rightarrow> datetime \<Rightarrow>
   (PaymentDb, AttemptRow) prog" where
  "create_attempt c base aid tid merchant key fp uid now =
     then_do (claim_attempt c base tid merchant (text_or key (''ik_'' @ aid)) fp (Some aid) uid now)
       (\<lambda>(r, _). ret r)"

section \<open>Webhook events\<close>

definition register_event ::
  "Accepts \<Rightarrow> PaymentDb \<Rightarrow> string \<Rightarrow> string \<Rightarrow> string \<Rightarrow> string \<Rightarrow> string \<Rightarrow> string \<Rightarrow> datetime \<Rightarrow>
   (PaymentDb, WebhookRow \<times> bool) prog" where
  "register_event c base eid ty tid merchant phash status now =
     (if blank eid then raise_exc (Raise ValueError (Msg ''Webhook event_id cannot be empty.'' []))
      else if blank tid then raise_exc (Raise ValueError (Msg ''Transaction ID cannot be empty.'' []))
      else if blank merchant then raise_exc (Raise ValueError (Msg ''Merchant ID cannot be empty.'' []))
      else
        then_do (read_st (\<lambda>s. row_of (pd_webhooks s) (strip eid))) (\<lambda>existing.
          case existing of
            Some r \<Rightarrow> ret (r, True)
          | None \<Rightarrow>
              let row = \<lparr>wr_event_id = strip eid, wr_event_type = strip ty, wr_transaction_id = strip tid,
                wr_merchant_id = strip merchant, wr_payload_hash = strip phash, wr_status = status,
                wr_processed_at = now\<rparr> in
              then_do (on_webhooks (insert_row (acc_webhooks c) wr_event_id row)) (\<lambda>ok.
                if ok then ret (row, False)
                else
                  then_do (write_st (\<lambda>_. base)) (\<lambda>_.
                    case row_of (pd_webhooks base) (strip eid) of
                      Some r \<Rightarrow> ret (r, True)
                    | None \<Rightarrow> raise_exc (Raise IntegrityError (Msg ''webhook_events'' []))))))"

definition get_webhook_event :: "webhook_table \<Rightarrow> string \<Rightarrow> WebhookRow option" where
  "get_webhook_event tab eid = (if eid = [] then None else row_of tab (strip eid))"

definition get_webhook_events_for_transaction :: "webhook_table \<Rightarrow> string \<Rightarrow> WebhookRow list" where
  "get_webhook_events_for_transaction tab tid =
     sort_key wr_processed_at (filter (\<lambda>r. wr_transaction_id r = strip tid) (rows_of tab))"

definition lock_event_for_update :: "webhook_table \<Rightarrow> string \<Rightarrow> WebhookRow option" where
  "lock_event_for_update tab eid = row_of tab (strip eid)"

section \<open>What may happen to the database\<close>

definition db_evolves :: "PaymentDb \<Rightarrow> PaymentDb \<Rightarrow> bool" where
  \<comment> \<open>transactions follow the legal graph, audit events are only appended, registered webhook events
    stay, mandates are not touched\<close>
  "db_evolves s t \<longleftrightarrow> txns_evolve (pd_transactions s) (pd_transactions t) \<and>
     (\<exists>new. pd_audit t = pd_audit s @ new) \<and>
     table_evolves wr_event_id (=) (pd_webhooks s) (pd_webhooks t) \<and> pd_mandates t = pd_mandates s"

interpretation webhook_rows: row_relation wr_event_id "(=)"
  by unfold_locales auto

definition since :: "PaymentDb \<Rightarrow> PaymentDb \<Rightarrow> PaymentDb \<Rightarrow> bool" where
  "since base s t \<longleftrightarrow> (db_evolves base s \<longrightarrow> db_evolves base t)"

lemma db_evolves_refl [simp]: "db_evolves s s"
  by (simp add: db_evolves_def txn_rows.table.stays webhook_rows.table.stays)

lemma db_evolves_trans: "db_evolves s t \<Longrightarrow> db_evolves t u \<Longrightarrow> db_evolves s u"
  by (auto simp: db_evolves_def intro: txn_rows.table.follows webhook_rows.table.follows)

interpretation db: evolution "since base"
  by unfold_locales (auto simp: since_def)

lemma evolves_since: "evolves db_evolves m \<Longrightarrow> evolves (since base) m"
  unfolding evolves_def since_def using db_evolves_trans by blast

lemma on_transactions_evolves: "evolves txns_evolve m \<Longrightarrow> evolves (since base) (on_transactions m)"
  unfolding on_transactions_def
  by (rule evolves_since, erule evolves_zoom) (simp add: db_evolves_def webhook_rows.table.stays)

lemma on_attempts_evolves: "evolves (since base) (on_attempts m)"
  unfolding on_attempts_def
  by (rule evolves_since, rule evolves_zoom [of "\<lambda>_ _. True"])
    (simp_all add: evolves_def db_evolves_def txn_rows.table.stays webhook_rows.table.stays)

lemma on_outbox_evolves: "evolves (since base) (on_outbox m)"
  unfolding on_outbox_def
  by (rule evolves_since, rule evolves_zoom [of "\<lambda>_ _. True"])
    (simp_all add: evolves_def db_evolves_def txn_rows.table.stays webhook_rows.table.stays)

lemma repo_append_appends:
  "evolves (\<lambda>s t. \<exists>new. t = s @ new) (\<lambda>rows. repo_append_event sha acc rows ty f at eid uid now)"
  by (auto simp: evolves_def repo_append_event_def flush_event_def split: option.split)

lemma append_audit_evolves: "evolves (since base) (append_audit sha c ty f eid uid now)"
  unfolding append_audit_def on_audit_def
  by (rule evolves_since, rule evolves_zoom [OF repo_append_appends])
    (auto simp: db_evolves_def txn_rows.table.stays webhook_rows.table.stays)

lemma on_webhooks_evolves:
  "evolves (table_evolves wr_event_id (=)) m \<Longrightarrow> evolves (since base) (on_webhooks m)"
  unfolding on_webhooks_def
  by (rule evolves_since, erule evolves_zoom) (simp add: db_evolves_def txn_rows.table.stays)

lemma rollback_evolves: "evolves (since base) (write_st (\<lambda>_. base))"
  by (simp add: evolves_def since_def)

lemmas db_steps = on_transactions_evolves on_attempts_evolves on_outbox_evolves append_audit_evolves
  on_webhooks_evolves rollback_evolves evolves_intros

lemma register_event_evolves:
  assumes "enforces_keys c"
  shows "evolves (since base) (register_event c base eid ty tid merchant phash status now)"
proof -
  have "evolves (table_evolves wr_event_id (=)) (insert_row (acc_webhooks c) wr_event_id row)" for row
    using assms by (intro webhook_rows.evolves_insert) (simp add: enforces_keys_def)
  then show ?thesis unfolding register_event_def Let_def
    by (intro db.evolves_rules db_steps) simp_all
qed

lemma claim_attempt_evolves: "evolves (since base) (claim_attempt c base tid merchant key fp aid uid now)"
  unfolding claim_attempt_def same_claim_def by (intro db.evolves_rules db_steps)

end
