(* ===== verification/Webhook.thy ===== *)
theory Webhook
  imports Payment_Db
begin

text \<open>
  The webhook engine (\<open>apps/api/domain/webhook_engine.py\<close>) over the database and the endpoint that the
  payment provider calls (\<open>apps/api/routers/webhooks.py\<close>). The raw body is a byte string. HMAC-SHA256 in
  hexadecimal is the parameter \<open>hmac\<close> (key, then message), SHA-256 is \<open>sha\<close>, and the reading of a body as
  a JSON value without fractions is \<open>loads\<close> (\<open>None\<close> when it raises).
\<close>

record WebhookProcessingResult =
  wh_success :: bool
  wh_event_id :: string
  wh_transaction_id :: "string option"
  wh_state :: "TransactionState option"
  wh_is_duplicate :: bool
  wh_rejection_reason :: "RejectionReason option"
  wh_rejection_detail :: "msg option"

section \<open>Signature and time\<close>

definition starts_with :: "string \<Rightarrow> string \<Rightarrow> bool" where
  "starts_with p s \<longleftrightarrow> take (length p) s = p"

definition verify_webhook_signature ::
  "(string \<Rightarrow> string \<Rightarrow> string) \<Rightarrow> string \<Rightarrow> string \<Rightarrow> string option \<Rightarrow> bool res" where
  \<comment> \<open>\<open>hmac.compare_digest\<close> raises on texts outside ASCII\<close>
  "verify_webhook_signature hmac secret raw sig =
     (case sig of
        None \<Rightarrow> Inr False
      | Some s \<Rightarrow>
          if blank s then Inr False
          else
            let clean = (if starts_with ''sha256='' (strip s) then drop 7 (strip s) else strip s) in
            if list_all (\<lambda>ch. (of_char ch :: nat) < 128) (lower clean) then
              Inr (lower (hmac secret raw) = lower clean)
            else Inl (Raise TypeError
              (Msg ''comparing strings with non-ASCII characters is not supported'' [])))"

definition from_timestamp :: "int \<Rightarrow> datetime option" where
  \<comment> \<open>\<open>datetime.fromtimestamp(n, tz=utc)\<close>, \<open>None\<close> outside the years 1 to 9999\<close>
  "from_timestamp n = (if -62135596800 \<le> n \<and> n \<le> 253402300799 then Some (seconds n) else None)"

definition within_window :: "datetime \<Rightarrow> datetime \<Rightarrow> bool" where
  \<comment> \<open>at most 300 seconds in the past and 60 in the future\<close>
  "within_window event now \<longleftrightarrow> now - event \<le> seconds 300 \<and> - seconds 60 \<le> now - event"

definition validate_timestamp :: "json \<Rightarrow> datetime \<Rightarrow> bool res" where
  \<comment> \<open>on a value that comes out of JSON: a Boolean is an integer in Python, and a value that is not a
    number has no \<open>tzinfo\<close>\<close>
  "validate_timestamp ts now =
     (case ts of
        JNull \<Rightarrow> Inr False
      | JInt n \<Rightarrow> Inr (case from_timestamp n of None \<Rightarrow> False | Some t \<Rightarrow> within_window t now)
      | JBool b \<Rightarrow> Inr (within_window (seconds (if b then 1 else 0)) now)
      | _ \<Rightarrow> Inl (attribute_error ''tzinfo''))"

section \<open>Reading the body\<close>

definition wh_reject ::
  "string \<Rightarrow> string option \<Rightarrow> TransactionState option \<Rightarrow> RejectionReason \<Rightarrow> msg \<Rightarrow> WebhookProcessingResult" where
  "wh_reject eid tid st reason detail =
     \<lparr>wh_success = False, wh_event_id = eid, wh_transaction_id = tid, wh_state = st, wh_is_duplicate = False,
      wh_rejection_reason = Some reason, wh_rejection_detail = Some detail\<rparr>"

definition wh_accept ::
  "string \<Rightarrow> string \<Rightarrow> TransactionState option \<Rightarrow> bool \<Rightarrow> msg \<Rightarrow> WebhookProcessingResult" where
  "wh_accept eid tid st dup detail =
     \<lparr>wh_success = True, wh_event_id = eid, wh_transaction_id = Some tid, wh_state = st, wh_is_duplicate = dup,
      wh_rejection_reason = None, wh_rejection_detail = Some detail\<rparr>"

definition event_identity :: "string option \<Rightarrow> json \<Rightarrow> string res" where
  \<comment> \<open>\<open>(event_id or payload_data.get("id") or "").strip()\<close>\<close>
  "event_identity header body =
     (if text_or header [] \<noteq> [] then Inr (strip (text_or header []))
      else bind_res (dict_get body ''id'' JNull) (\<lambda>v. str_strip (py_or v (JStr []))))"

definition payment_entity :: "json \<Rightarrow> json res" where
  "payment_entity body =
     bind_res (dict_get body ''payload'' (JObj [])) (\<lambda>p.
     bind_res (dict_get p ''payment'' (JObj [])) (\<lambda>q.
     bind_res (dict_get q ''entity'' (JObj [])) (\<lambda>e.
       if truthy e then Inr e else dict_get body ''entity'' (JObj []))))"

definition entity_transaction_id :: "json \<Rightarrow> string res" where
  "entity_transaction_id e =
     bind_res (dict_get e ''notes'' (JObj [])) (\<lambda>notes.
     bind_res (dict_get notes ''transaction_id'' JNull) (\<lambda>a.
     bind_res (dict_get e ''receipt'' JNull) (\<lambda>b.
     bind_res (dict_get e ''description'' JNull) (\<lambda>c. str_strip (py_or a (py_or b (py_or c (JStr []))))))))"

definition entity_merchant_id :: "json \<Rightarrow> string res" where
  "entity_merchant_id e =
     bind_res (dict_get e ''notes'' (JObj [])) (\<lambda>notes.
     bind_res (dict_get notes ''merchant_id'' JNull) (\<lambda>a.
     bind_res (dict_get e ''merchant_id'' JNull) (\<lambda>b. str_strip (py_or a (py_or b (JStr []))))))"

definition event_target :: "string \<Rightarrow> TransactionState option" where
  "event_target ty =
     (if ty \<in> {''payment.authorized'', ''payment.captured'', ''order.paid''} then Some TransactionState.COMMITTED
      else if ty \<in> {''payment.failed'', ''order.failed''} then Some ROLLED_BACK else None)"

section \<open>The transition\<close>

definition webhook_audit_args :: "TransactionRow \<Rightarrow> string \<Rightarrow> string \<Rightarrow> string \<Rightarrow> TransactionState \<Rightarrow> EventArgs" where
  "webhook_audit_args r tid eid ty target =
     \<lparr>ev_transaction_id = Some tid, ev_mandate_id = Some (tr_mandate_id r),
      ev_merchant_id = Some (tr_merchant_id r), ev_buyer_id = Some (tr_buyer_id r),
      ev_payload = Some [(''webhook_event_id'', JStr eid), (''event_type'', JStr ty),
        (''target_state'', JStr (txn_state_value target))]\<rparr>"

definition settlement_type :: "TransactionState \<Rightarrow> AuditEventType" where
  "settlement_type target = (if target = TransactionState.COMMITTED then PAYMENT_SUCCESS else PAYMENT_FAILED)"

definition settlement_id :: "string \<Rightarrow> string" where
  "settlement_id eid = ''evt_wh_'' @ take 16 eid"

lemma settlement_id_not_Nil: "settlement_id eid \<noteq> []"
  by (simp add: settlement_id_def)

definition apply_event ::
  "(string \<Rightarrow> string) \<Rightarrow> Accepts \<Rightarrow> TransactionRow \<Rightarrow> string \<Rightarrow> string \<Rightarrow> string \<Rightarrow> string \<Rightarrow> datetime \<Rightarrow>
   (PaymentDb, WebhookProcessingResult) prog" where
  \<comment> \<open>control 6: \<open>r\<close> is the stored transaction\<close>
  "apply_event sha c r eid ty tid uid now =
     then_do (of_res (state_from_text (tr_state r))) (\<lambda>current.
       case event_target ty of
         None \<Rightarrow> ret (wh_accept eid tid (Some current) False
           (Msg ''Unhandled event_type '{}' ingested without state change.'' [PStr ty]))
       | Some target \<Rightarrow>
           if txn_is_terminal current \<or> current \<in> {TransactionState.COMMITTED, ROLLED_BACK} then
             (if current \<noteq> target then
                ret (wh_reject eid (Some tid) (Some current) INVALID_TRANSACTION_STATE
                  (Msg ''Terminal state overwrite blocked: transaction is in '{}', cannot transition to '{}'.''
                    [PStr (txn_state_value current), PStr (txn_state_value target)]))
              else ret (wh_accept eid tid (Some current) False
                (Msg ''Transaction already in target terminal state.'' [])))
           else
             then_do (on_transactions (transition_transaction_state tid (State target) now)) (\<lambda>_.
             then_do (append_audit sha c
               (settlement_type target)
               (webhook_audit_args r tid eid ty target) (Some (settlement_id eid)) uid now) (\<lambda>_.
               ret (wh_accept eid tid (Some target) False
                 (Msg ''Successfully processed webhook event {}.'' [PStr eid])))))"

definition process_registered ::
  "(string \<Rightarrow> string) \<Rightarrow> Accepts \<Rightarrow> string \<Rightarrow> string \<Rightarrow> string \<Rightarrow> string \<Rightarrow> string \<Rightarrow> datetime \<Rightarrow>
   (PaymentDb, WebhookProcessingResult) prog" where
  \<comment> \<open>control 5 and the mandate check, once the event is registered\<close>
  "process_registered sha c eid ty tid mer uid now =
     then_do (read_st (\<lambda>s. repo_get_transaction (pd_transactions s) tid)) (\<lambda>found.
       case found of
         None \<Rightarrow> ret (wh_reject eid (Some tid) None INVALID_TRANSACTION_STATE
           (Msg ''Transaction '{}' not found in persistence store.'' [PStr tid]))
       | Some r \<Rightarrow>
           if mer \<noteq> [] \<and> tr_merchant_id r \<noteq> mer then
             ret (wh_reject eid (Some tid) None MERCHANT_MISMATCH
               (Msg ''Merchant context mismatch: webhook merchant '{}' != transaction merchant '{}'.''
                 [PStr mer, PStr (tr_merchant_id r)]))
           else
             then_do (read_st (\<lambda>s. repo_get_mandate (pd_mandates s) (tr_mandate_id r))) (\<lambda>man.
               if (case man of None \<Rightarrow> False | Some m \<Rightarrow> mrow_status m = mandate_status_value REVOKED) then
                 then_do (of_res (state_from_text (tr_state r))) (\<lambda>current.
                   ret (wh_reject eid (Some tid) (Some current) MANDATE_NOT_ACTIVE
                     (Msg ''Mandate '{}' is REVOKED. Event rejected.'' [PStr (tr_mandate_id r)])))
               else apply_event sha c r eid ty tid uid now))"

definition async_process_webhook ::
  "(string \<Rightarrow> string \<Rightarrow> string) \<Rightarrow> (string \<Rightarrow> string) \<Rightarrow> (string \<Rightarrow> json option) \<Rightarrow> Accepts \<Rightarrow> PaymentDb \<Rightarrow>
   string \<Rightarrow> string \<Rightarrow> string option \<Rightarrow> string option \<Rightarrow> string \<Rightarrow> datetime \<Rightarrow>
   (PaymentDb, WebhookProcessingResult) prog" where
  "async_process_webhook hmac sha loads c base secret raw sig header uid now =
     then_do (of_res (verify_webhook_signature hmac secret raw sig)) (\<lambda>genuine.
       if \<not> genuine then
         ret (wh_reject (text_or header ''unknown_event'') None None METHOD_NOT_AUTHORIZED
           (Msg ''Webhook signature verification failed (invalid HMAC).'' []))
       else case loads raw of
         None \<Rightarrow> ret (wh_reject (text_or header ''unknown_event'') None None METHOD_NOT_AUTHORIZED
           (Msg ''Malformed webhook JSON payload: {}'' [PNone]))
       | Some body \<Rightarrow>
           then_do (of_res (event_identity header body)) (\<lambda>eid.
           then_do (of_res (bind_res (dict_get body ''event'' (JStr ''payment.unknown'')) str_strip)) (\<lambda>ty.
           then_do (of_res (dict_get body ''created_at'' JNull)) (\<lambda>ts.
             if eid = [] then
               ret (wh_reject ''missing_event_id'' None None METHOD_NOT_AUTHORIZED
                 (Msg ''Webhook missing required event identity.'' []))
             else
               then_do (of_res (if ts = JNull then Inr True else validate_timestamp ts now)) (\<lambda>fresh.
                 if \<not> fresh then
                   ret (wh_reject eid None None AUTHORIZATION_EXPIRED
                     (Msg ''Webhook timestamp outside valid window (stale or excessive future).'' []))
                 else
                   then_do (of_res (payment_entity body)) (\<lambda>entity.
                   then_do (of_res (entity_transaction_id entity)) (\<lambda>tid.
                   then_do (of_res (entity_merchant_id entity)) (\<lambda>mer.
                     if tid = [] then
                       ret (wh_reject eid None None INVALID_TRANSACTION_STATE
                         (Msg ''Webhook payload missing correlated internal transaction_id.'' []))
                     else
                       then_do (register_event c base eid ty tid (if mer = [] then ''mer_default'' else mer)
                         (sha raw) ''PROCESSED'' now) (\<lambda>(_, duplicate).
                         if duplicate then
                           ret (wh_accept eid tid None True
                             (Msg ''Duplicate webhook event identity safely deduplicated.'' []))
                         else process_registered sha c eid ty tid mer uid now)))))))))"

section \<open>The endpoint\<close>

datatype http_answer = Ok_Answer WebhookProcessingResult | Http_Error nat "msg option"

definition DEFAULT_WEBHOOK_SECRET :: string where
  \<comment> \<open>the default argument of the engine, which the endpoint uses\<close>
  "DEFAULT_WEBHOOK_SECRET = ''whsec_test_secret_key_12345''"

record WebhookRequest =
  rq_body :: string
  rq_signature :: "string option"
  rq_event_id :: "string option"
  rq_uid :: string
  rq_now :: datetime

definition handle_razorpay_webhook ::
  "(string \<Rightarrow> string \<Rightarrow> string) \<Rightarrow> (string \<Rightarrow> string) \<Rightarrow> (string \<Rightarrow> json option) \<Rightarrow> Accepts \<Rightarrow>
   PaymentDb \<Rightarrow> WebhookRequest \<Rightarrow> http_answer res \<times> PaymentDb" where
  \<comment> \<open>the unit of work commits on success and rolls back otherwise\<close>
  "handle_razorpay_webhook hmac sha loads c d q =
     (case async_process_webhook hmac sha loads c d DEFAULT_WEBHOOK_SECRET (rq_body q) (rq_signature q)
             (rq_event_id q) (rq_uid q) (rq_now q) d of
        (Inl e, _) \<Rightarrow> (Inl e, d)
      | (Inr r, d') \<Rightarrow>
          if wh_success r then (Inr (Ok_Answer r), d')
          else (Inr (Http_Error (if wh_rejection_reason r = Some METHOD_NOT_AUTHORIZED then 401 else 400)
                 (wh_rejection_detail r)), d))"

section \<open>What a request does to the database\<close>

lemma apply_event_evolves: "evolves (since base) (apply_event sha c r eid ty tid uid now)"
  unfolding apply_event_def by (intro db.evolves_rules db_steps)

lemma process_registered_evolves: "evolves (since base) (process_registered sha c eid ty tid mer uid now)"
  unfolding process_registered_def by (intro db.evolves_rules apply_event_evolves)

lemma process_webhook_evolves:
  assumes "enforces_keys c"
  shows "evolves (since base) (async_process_webhook hmac sha loads c base secret raw sig header uid now)"
  unfolding async_process_webhook_def
  by (intro db.evolves_rules process_registered_evolves register_event_evolves [OF assms])

lemma handle_evolves:
  assumes "enforces_keys c"
  shows "db_evolves d (snd (handle_razorpay_webhook hmac sha loads c d q))"
proof -
  let ?p = "async_process_webhook hmac sha loads c d DEFAULT_WEBHOOK_SECRET (rq_body q) (rq_signature q)
    (rq_event_id q) (rq_uid q) (rq_now q)"
  have "since d d (snd (?p d))" by (rule evolvesD [OF process_webhook_evolves [OF assms]])
  then show ?thesis by (auto simp: handle_razorpay_webhook_def since_def split: prod.split sum.split)
qed

lemma event_identity_stripped: "event_identity header body = Inr e \<Longrightarrow> strip e = e"
  by (auto simp: event_identity_def bind_res_Inr elim!: str_strip.elims split: if_splits)

lemma process_success:
  assumes "async_process_webhook hmac sha loads c base secret raw sig header uid now d = (Inr r, d')"
    and "wh_success r"
  obtains body eid ty tid mer where "verify_webhook_signature hmac secret raw sig = Inr True"
    "loads raw = Some body" "event_identity header body = Inr eid" "eid \<noteq> []"
    "then_do (register_event c base eid ty tid (if mer = [] then ''mer_default'' else mer)
        (sha raw) ''PROCESSED'' now) (\<lambda>(_, duplicate).
        if duplicate then ret (wh_accept eid tid None True
            (Msg ''Duplicate webhook event identity safely deduplicated.'' []))
        else process_registered sha c eid ty tid mer uid now) d = (Inr r, d')"
proof -
  note def = async_process_webhook_def and run = assms(1)
  have fail: "wh_reject a b x y z \<noteq> r" for a b x y z using assms(2) by (auto simp: wh_reject_def)
  obtain g where v: "verify_webhook_signature hmac secret raw sig = Inr g"
    using run by (cases "verify_webhook_signature hmac secret raw sig") (simp_all add: def)
  have g: "g = True" using run v by (cases g) (simp_all add: def fail)
  obtain body where l: "loads raw = Some body"
    using run v g by (cases "loads raw") (simp_all add: def fail)
  obtain eid where i: "event_identity header body = Inr eid"
    using run v g l by (cases "event_identity header body") (simp_all add: def)
  obtain ty where t: "bind_res (dict_get body ''event'' (JStr ''payment.unknown'')) str_strip = Inr ty"
    using run v g l i
    by (cases "bind_res (dict_get body ''event'' (JStr ''payment.unknown'')) str_strip") (simp_all add: def)
  obtain ts where ts: "dict_get body ''created_at'' JNull = Inr ts"
    using run v g l i t by (cases "dict_get body ''created_at'' JNull") (simp_all add: def)
  have e: "eid \<noteq> []" using run v g l i t ts by (cases "eid = []") (simp_all add: def fail)
  let ?f = "if ts = JNull then Inr True else validate_timestamp ts now"
  obtain fresh where f: "?f = Inr fresh" using run v g l i t ts e by (cases ?f) (simp_all add: def)
  have fresh: "fresh = True" using run v g l i t ts e f by (cases fresh) (simp_all add: def fail)
  obtain entity where en: "payment_entity body = Inr entity"
    using run v g l i t ts e f fresh by (cases "payment_entity body") (simp_all add: def)
  obtain tid where tid: "entity_transaction_id entity = Inr tid"
    using run v g l i t ts e f fresh en by (cases "entity_transaction_id entity") (simp_all add: def)
  obtain mer where mer: "entity_merchant_id entity = Inr mer"
    using run v g l i t ts e f fresh en tid by (cases "entity_merchant_id entity") (simp_all add: def)
  have n: "tid \<noteq> []"
    using run v g l i t ts e f fresh en tid mer by (cases "tid = []") (simp_all add: def fail)
  show thesis
    by (rule that [of body eid ty tid mer])
      (use run v g l i t ts e f fresh en tid mer n in \<open>simp_all add: def\<close>)
qed

lemma register_fresh:
  assumes "register_event c base eid ty tid merchant ph st now d = (Inr (row, False), d1)"
    and "strip eid = eid"
  shows "row_of (pd_webhooks d) eid = None" "row_of (pd_webhooks d1) eid \<noteq> None"
    "pd_transactions d1 = pd_transactions d" "pd_audit d1 = pd_audit d" "pd_mandates d1 = pd_mandates d"
    "wr_event_id row = eid" "d1 = d\<lparr>pd_webhooks := put_row eid row (pd_webhooks d)\<rparr>"
  using assms
  by (auto simp: register_event_def Let_def then_do_result on_webhooks_def zoom_def insert_row_def
      split: if_splits option.splits)

definition webhook_key :: "(string \<Rightarrow> json option) \<Rightarrow> WebhookRequest \<Rightarrow> string option" where
  \<comment> \<open>the event identity that a request carries\<close>
  "webhook_key loads q = (case loads (rq_body q) of None \<Rightarrow> None
     | Some body \<Rightarrow> (case event_identity (rq_event_id q) body of Inl _ \<Rightarrow> None | Inr e \<Rightarrow> Some e))"

definition webhook_processed :: "http_answer res \<Rightarrow> bool" where
  "webhook_processed a = (case a of Inr (Ok_Answer r) \<Rightarrow> \<not> wh_is_duplicate r | _ \<Rightarrow> False)"

lemma handle_processed:
  assumes "webhook_processed (fst (handle_razorpay_webhook hmac sha loads c d q))"
    and "webhook_key loads q = Some k" and "keyed wr_event_id (pd_webhooks d)"
  shows "row_of (pd_webhooks d) k = None"
    and "row_of (pd_webhooks (snd (handle_razorpay_webhook hmac sha loads c d q))) k \<noteq> None"
proof -
  let ?p = "async_process_webhook hmac sha loads c d DEFAULT_WEBHOOK_SECRET (rq_body q) (rq_signature q)
    (rq_event_id q) (rq_uid q) (rq_now q)"
  obtain r d' where run: "?p d = (Inr r, d')" "wh_success r" "\<not> wh_is_duplicate r"
    and h: "snd (handle_razorpay_webhook hmac sha loads c d q) = d'"
    using assms(1) unfolding handle_razorpay_webhook_def webhook_processed_def
    by (auto split: prod.splits sum.splits if_splits)
  from run(1,2) obtain body eid ty tid mer where b: "loads (rq_body q) = Some body"
    "event_identity (rq_event_id q) body = Inr eid"
    "then_do (register_event c d eid ty tid (if mer = [] then ''mer_default'' else mer)
        (sha (rq_body q)) ''PROCESSED'' (rq_now q)) (\<lambda>(_, duplicate).
        if duplicate then ret (wh_accept eid tid None True
            (Msg ''Duplicate webhook event identity safely deduplicated.'' []))
        else process_registered sha c eid ty tid mer (rq_uid q) (rq_now q)) d = (Inr r, d')"
    by (rule process_success)
  have k: "k = eid" using assms(2) b by (simp add: webhook_key_def)
  have e: "strip eid = eid" by (rule event_identity_stripped [OF b(2)])
  obtain row dup d1 where reg: "register_event c d eid ty tid (if mer = [] then ''mer_default'' else mer)
        (sha (rq_body q)) ''PROCESSED'' (rq_now q) d = (Inr (row, dup), d1)"
    and rest: "(if dup then ret (wh_accept eid tid None True
            (Msg ''Duplicate webhook event identity safely deduplicated.'' []))
        else process_registered sha c eid ty tid mer (rq_uid q) (rq_now q)) d1 = (Inr r, d')"
    using b(3) by (auto simp: then_do_result)
  have dup: "dup = False" using rest run(3) by (cases dup) (auto simp: wh_accept_def)
  note f = register_fresh [OF reg [unfolded dup] e]
  show "row_of (pd_webhooks d) k = None" using f(1) k by simp
  have "since d1 d1 (snd (process_registered sha c eid ty tid mer (rq_uid q) (rq_now q) d1))"
    by (rule evolvesD [OF process_registered_evolves])
  then have "table_evolves wr_event_id (=) (pd_webhooks d1) (pd_webhooks d')"
    using rest dup by (simp add: since_def db_evolves_def)
  moreover have "keyed wr_event_id (pd_webhooks d1)"
    using assms(3) f(6,7) by (simp add: keyed_put)
  ultimately show "row_of (pd_webhooks (snd (handle_razorpay_webhook hmac sha loads c d q))) k \<noteq> None"
    using f(2) h k by (auto simp: table_evolves_def keeps_rows_def)
qed

interpretation webhook_guard: single_use "handle_razorpay_webhook hmac sha loads c" "\<lambda>_ _. enforces_keys c"
  "\<lambda>d. keyed wr_event_id (pd_webhooks d)" webhook_processed "webhook_key loads"
  "\<lambda>d k. row_of (pd_webhooks d) k \<noteq> None"
proof unfold_locales
  fix d :: PaymentDb and q k
  assume d: "keyed wr_event_id (pd_webhooks d)" and c: "enforces_keys c"
  have e: "table_evolves wr_event_id (=) (pd_webhooks d) (pd_webhooks (snd (handle_razorpay_webhook hmac sha loads c d q)))"
    using handle_evolves [OF c] by (simp add: db_evolves_def)
  then show "keyed wr_event_id (pd_webhooks (snd (handle_razorpay_webhook hmac sha loads c d q)))"
    using d by (simp add: table_evolves_def)
  show "row_of (pd_webhooks (snd (handle_razorpay_webhook hmac sha loads c d q))) k \<noteq> None"
    if "row_of (pd_webhooks d) k \<noteq> None"
    using e d that by (auto simp: table_evolves_def keeps_rows_def)
  assume "webhook_key loads q = Some k" "webhook_processed (fst (handle_razorpay_webhook hmac sha loads c d q))"
  from handle_processed [OF this(2,1) d] show "\<not> row_of (pd_webhooks d) k \<noteq> None"
    "row_of (pd_webhooks (snd (handle_razorpay_webhook hmac sha loads c d q))) k \<noteq> None" by simp_all
qed

interpretation webhook_machine: machine "handle_razorpay_webhook hmac sha loads c" "\<lambda>_ _. enforces_keys c" "db_evolves base"
  by unfold_locales (rule db_evolves_trans, assumption, rule handle_evolves)

section \<open>The content of a request\<close>

definition webhook_content ::
  "(string \<Rightarrow> json option) \<Rightarrow> WebhookRequest \<Rightarrow> (string \<times> string \<times> string \<times> string) option" where
  \<comment> \<open>event identity, event type, transaction and merchant of a well-formed and timely request\<close>
  "webhook_content loads q =
     (case loads (rq_body q) of None \<Rightarrow> None
      | Some body \<Rightarrow>
          (case (event_identity (rq_event_id q) body,
                 bind_res (dict_get body ''event'' (JStr ''payment.unknown'')) str_strip,
                 bind_res (dict_get body ''created_at'' JNull)
                   (\<lambda>ts. if ts = JNull then Inr True else validate_timestamp ts (rq_now q)),
                 bind_res (payment_entity body) (\<lambda>e. bind_res (entity_transaction_id e)
                   (\<lambda>t. bind_res (entity_merchant_id e) (\<lambda>m. Inr (t, m))))) of
             (Inr eid, Inr ty, Inr True, Inr (tid, mer)) \<Rightarrow>
               if eid = [] \<or> tid = [] then None else Some (eid, ty, tid, mer)
           | _ \<Rightarrow> None))"

definition webhook_accepted :: "(string \<Rightarrow> string \<Rightarrow> string) \<Rightarrow> WebhookRequest \<Rightarrow> bool" where
  "webhook_accepted hmac q \<longleftrightarrow>
     verify_webhook_signature hmac DEFAULT_WEBHOOK_SECRET (rq_body q) (rq_signature q) = Inr True"

lemma process_content:
  assumes "webhook_accepted hmac q" and "webhook_content loads q = Some (eid, ty, tid, mer)"
  shows "async_process_webhook hmac sha loads c base DEFAULT_WEBHOOK_SECRET (rq_body q) (rq_signature q)
      (rq_event_id q) uid (rq_now q) =
    then_do (register_event c base eid ty tid (if mer = [] then ''mer_default'' else mer)
        (sha (rq_body q)) ''PROCESSED'' (rq_now q)) (\<lambda>(_, duplicate).
      if duplicate then ret (wh_accept eid tid None True
          (Msg ''Duplicate webhook event identity safely deduplicated.'' []))
      else process_registered sha c eid ty tid mer uid (rq_now q))"
proof -
  obtain body where b: "loads (rq_body q) = Some body"
    using assms(2) by (auto simp: webhook_content_def split: option.splits)
  note content = assms(2) [unfolded webhook_content_def b option.case]
  obtain i where i: "event_identity (rq_event_id q) body = Inr i"
    using content by (cases "event_identity (rq_event_id q) body") simp_all
  obtain t where t: "bind_res (dict_get body ''event'' (JStr ''payment.unknown'')) str_strip = Inr t"
    using content i by (cases "bind_res (dict_get body ''event'' (JStr ''payment.unknown'')) str_strip") simp_all
  obtain ts where ts: "dict_get body ''created_at'' JNull = Inr ts"
    using content i t by (cases "dict_get body ''created_at'' JNull") simp_all
  let ?f = "if ts = JNull then Inr True else validate_timestamp ts (rq_now q)"
  obtain fresh where f: "?f = Inr fresh" using content i t ts by (cases ?f) simp_all
  have fresh: "fresh = True" using content i t ts f by (cases fresh) simp_all
  obtain e where e: "payment_entity body = Inr e"
    using content i t ts f fresh by (cases "payment_entity body") simp_all
  obtain u where u: "entity_transaction_id e = Inr u"
    using content i t ts f fresh e by (cases "entity_transaction_id e") simp_all
  obtain m where m: "entity_merchant_id e = Inr m"
    using content i t ts f fresh e u by (cases "entity_merchant_id e") simp_all
  have eq: "i = eid" "t = ty" "u = tid" "m = mer" "eid \<noteq> []" "tid \<noteq> []"
    using content i t ts f fresh e u m by (simp_all split: if_splits)
  show ?thesis using assms(1) b i t ts f fresh e u m eq
    by (simp add: async_process_webhook_def webhook_accepted_def fun_eq_iff)
qed

lemma content_stripped:
  assumes "webhook_content loads q = Some (eid, ty, tid, mer)"
  shows "strip eid = eid" "strip tid = tid" "strip mer = mer" "strip ty = ty" "eid \<noteq> []" "tid \<noteq> []"
  using assms unfolding webhook_content_def entity_transaction_id_def entity_merchant_id_def
  by (auto simp: bind_res_Inr dest: event_identity_stripped elim!: str_strip.elims
      split: option.splits sum.splits prod.splits if_splits bool.splits)

definition event_row :: "(string \<Rightarrow> string) \<Rightarrow> WebhookRequest \<Rightarrow> string \<Rightarrow> string \<Rightarrow> string \<Rightarrow> string \<Rightarrow> WebhookRow" where
  "event_row sha q eid ty tid mer =
     \<lparr>wr_event_id = eid, wr_event_type = ty, wr_transaction_id = tid,
      wr_merchant_id = (if mer = [] then ''mer_default'' else mer), wr_payload_hash = strip (sha (rq_body q)),
      wr_status = ''PROCESSED'', wr_processed_at = rq_now q\<rparr>"

definition settlement_event ::
  "(string \<Rightarrow> string) \<Rightarrow> PaymentDb \<Rightarrow> WebhookRequest \<Rightarrow> TransactionRow \<Rightarrow> string \<Rightarrow> string \<Rightarrow> TransactionState \<Rightarrow> AuditRow" where
  "settlement_event sha d q r eid ty target = audit_row sha (get_latest_event (pd_audit d))
     (settlement_type target)
     (webhook_audit_args r (tr_transaction_id r) eid ty target) (rq_now q) (settlement_id eid)"

lemma settlement_event_id: "ar_event_id (settlement_event sha d q r eid ty target) = settlement_id eid"
  by (simp add: settlement_event_def audit_row_def Let_def)

definition ready_to_settle :: "Accepts \<Rightarrow> PaymentDb \<Rightarrow> TransactionRow \<Rightarrow> string \<Rightarrow> string \<Rightarrow> string \<Rightarrow> bool" where
  \<comment> \<open>the transaction is in flight, belongs to the event's merchant, its mandate is not revoked, and the
    event is new\<close>
  "ready_to_settle c d r eid tid mer \<longleftrightarrow>
     row_of (pd_transactions d) tid = Some r \<and> tr_transaction_id r = tid \<and>
     tr_state r = txn_state_value TransactionState.EXECUTING \<and> (mer = [] \<or> tr_merchant_id r = mer) \<and>
     (case row_of (pd_mandates d) (tr_mandate_id r) of None \<Rightarrow> True
      | Some m \<Rightarrow> mrow_status m \<noteq> mandate_status_value REVOKED) \<and> row_of (pd_webhooks d) eid = None"

lemma strip_default: "strip ''mer_default'' = ''mer_default''"
  by (simp add: strip_def lstrip_def rstrip_def is_space_def)

lemma not_blank_mer: "strip mer = mer \<Longrightarrow> \<not> blank (if mer = [] then ''mer_default'' else mer)"
  using strip_default by (simp add: blank_def)

lemma strip_mer: "strip mer = mer \<Longrightarrow>
    strip (if mer = [] then ''mer_default'' else mer) = (if mer = [] then ''mer_default'' else mer)"
  using strip_default by simp

lemma strip_processed: "strip ''PROCESSED'' = ''PROCESSED''"
  by (simp add: strip_def lstrip_def rstrip_def is_space_def)

lemma register_new:
  assumes "webhook_content loads q = Some (eid, ty, tid, mer)" and "row_of (pd_webhooks d) eid = None"
    and "acc_webhooks c (pd_webhooks d) (event_row sha q eid ty tid mer)"
  shows "register_event c base eid ty tid (if mer = [] then ''mer_default'' else mer)
        (sha (rq_body q)) ''PROCESSED'' (rq_now q) d =
    (Inr (event_row sha q eid ty tid mer, False),
     d\<lparr>pd_webhooks := put_row eid (event_row sha q eid ty tid mer) (pd_webhooks d)\<rparr>)"
proof -
  note s = content_stripped [OF assms(1)]
  have nb: "\<not> blank eid" "\<not> blank tid" using s by (simp_all add: blank_def)
  show ?thesis using assms(2,3) s nb not_blank_mer [OF s(3)] strip_mer [OF s(3)]
    by (simp add: register_event_def then_do_def on_webhooks_def zoom_def insert_row_def event_row_def Let_def)
qed

lemma settle_registered:
  assumes "ready_to_settle c d r eid tid mer" and "event_target ty = Some target"
  shows "process_registered sha c eid ty tid mer uid (rq_now q) (d\<lparr>pd_webhooks := w\<rparr>) =
    (if acc_audit c (pd_audit d) (settlement_event sha d q r eid ty target) then
       (Inr (wh_accept eid tid (Some target) False (Msg ''Successfully processed webhook event {}.'' [PStr eid])),
        d\<lparr>pd_webhooks := w, pd_transactions := put_row tid
          (r\<lparr>tr_state := txn_state_value target, tr_updated_at := rq_now q\<rparr>) (pd_transactions d),
          pd_audit := pd_audit d @ [settlement_event sha d q r eid ty target]\<rparr>)
     else
       (Inl (Raise ValueError
          (Msg ''Failed to append audit event {} at sequence {}: integrity constraint violated.''
            [PStr (settlement_id eid), PInt (ar_sequence_number (settlement_event sha d q r eid ty target))])),
        d\<lparr>pd_webhooks := w, pd_transactions := put_row tid
          (r\<lparr>tr_state := txn_state_value target, tr_updated_at := rq_now q\<rparr>) (pd_transactions d)\<rparr>))"
proof -
  have t: "target \<in> {TransactionState.COMMITTED, ROLLED_BACK}"
    using assms(2) by (auto simp: event_target_def split: if_splits)
  then have target: "can_transition_to TransactionState.EXECUTING target"
    "txn_state_value target \<noteq> txn_state_value TransactionState.EXECUTING"
    by (auto simp: can_transition_to_def)
  have row: "row_of (pd_transactions d) tid = Some r" "tr_transaction_id r = tid" "mer = [] \<or> tr_merchant_id r = mer"
    "tr_state r = txn_state_value TransactionState.EXECUTING"
    using assms(1) by (simp_all add: ready_to_settle_def)
  have st: "txn_state_of (tr_state r) = Some TransactionState.EXECUTING" by (simp only: row(4) txn_state_of_value)
  let ?r = "r\<lparr>tr_state := txn_state_value target, tr_updated_at := rq_now q\<rparr>"
  have "r\<lparr>tr_state := txn_state_value target\<rparr> \<noteq> r"
  proof
    assume "r\<lparr>tr_state := txn_state_value target\<rparr> = r"
    from arg_cong [OF this, of tr_state] show False using target(2) row(4) by simp
  qed
  then have move: "transition_transaction_state tid (State target) (rq_now q) (pd_transactions d) =
      (Inr ?r, put_row tid ?r (pd_transactions d))"
    using row(1,2) st target(1)
    by (simp add: transition_transaction_state_def then_do_def locked_transaction_def state_from_text_def
        lock_transaction_for_update_def target_of_def flush_transaction_cases txn_is_terminal_def)
  have man: "\<not> (case row_of (pd_mandates d) (tr_mandate_id r) of None \<Rightarrow> False
      | Some m \<Rightarrow> mrow_status m = mandate_status_value REVOKED)"
    using assms(1) by (simp add: ready_to_settle_def split: option.splits)
  have proc: "process_registered sha c eid ty tid mer uid (rq_now q) (d\<lparr>pd_webhooks := w\<rparr>) =
      apply_event sha c r eid ty tid uid (rq_now q) (d\<lparr>pd_webhooks := w\<rparr>)"
    using row(1,3) man by (auto simp: process_registered_def repo_get_transaction_def repo_get_mandate_def)
  have audit: "append_audit sha c (settlement_type target)
      (webhook_audit_args r tid eid ty target) (Some (settlement_id eid)) uid (rq_now q)
      (d\<lparr>pd_webhooks := w, pd_transactions := u\<rparr>) =
    (case flush_event (acc_audit c) (pd_audit d) (settlement_event sha d q r eid ty target) of
       (x, rows) \<Rightarrow> (x, d\<lparr>pd_webhooks := w, pd_transactions := u, pd_audit := rows\<rparr>))" for u
    using row(2) by (simp add: append_audit_def on_audit_def zoom_def repo_append_event_def settlement_event_def
        settlement_id_not_Nil)
  show ?thesis unfolding proc
    by (simp add: apply_event_def st assms(2) state_from_text_def txn_is_terminal_def on_transactions_def
        zoom_def move then_do_def audit flush_event_def settlement_event_id)
qed

lemma settle_effect:
  assumes "webhook_accepted hmac q" and "webhook_content loads q = Some (eid, ty, tid, mer)"
    and "ready_to_settle c d r eid tid mer" and "event_target ty = Some target"
    and "acc_webhooks c (pd_webhooks d) (event_row sha q eid ty tid mer)"
  shows "handle_razorpay_webhook hmac sha loads c d q =
    (if acc_audit c (pd_audit d) (settlement_event sha d q r eid ty target) then
       (Inr (Ok_Answer (wh_accept eid tid (Some target) False
          (Msg ''Successfully processed webhook event {}.'' [PStr eid]))),
        d\<lparr>pd_webhooks := put_row eid (event_row sha q eid ty tid mer) (pd_webhooks d),
          pd_transactions := put_row tid (r\<lparr>tr_state := txn_state_value target, tr_updated_at := rq_now q\<rparr>)
            (pd_transactions d),
          pd_audit := pd_audit d @ [settlement_event sha d q r eid ty target]\<rparr>)
     else
       (Inl (Raise ValueError
          (Msg ''Failed to append audit event {} at sequence {}: integrity constraint violated.''
            [PStr (settlement_id eid), PInt (ar_sequence_number (settlement_event sha d q r eid ty target))])),
        d))"
proof -
  have new: "row_of (pd_webhooks d) eid = None" using assms(3) by (simp add: ready_to_settle_def)
  show ?thesis unfolding handle_razorpay_webhook_def process_content [OF assms(1,2)]
    by (simp add: then_do_def register_new [OF assms(2) new assms(5)] settle_registered [OF assms(3,4)]
        wh_accept_def)
qed

section \<open>Properties\<close>

text \<open>C5: Deduplication: in any sequence of requests to the endpoint, genuine or forged, with any
  headers and bodies, an event identity is processed at most once; every later request with it is
  answered as a duplicate or rejected.\<close>

theorem webhook_single_use:
  assumes "enforces_keys c" and "keyed wr_event_id (pd_webhooks d)"
  shows "accepted_count webhook_processed (\<lambda>q. webhook_key loads q = Some k) qs
    (fst (run_ops (handle_razorpay_webhook hmac sha loads c) d qs)) \<le> 1"
  by (rule webhook_guard.at_most_once [OF assms(2)]) (simp add: assms(1))


text \<open>Lawful settlement: whatever requests the endpoint receives, a stored transaction keeps its
  identity, parties, amount and cart, its state moves only along the legal graph, and the audit
  events that exist stay as they are, with new ones after them.\<close>

theorem webhook_run_lawful:
  assumes "enforces_keys c" and "keyed tr_transaction_id (pd_transactions d)"
    and "row_of (pd_transactions d) tid = Some r"
  shows "\<exists>r' new. row_of (pd_transactions (snd (run_ops (handle_razorpay_webhook hmac sha loads c) d qs))) tid = Some r' \<and>
    same_context r r' \<and> state_evolves (tr_state r) (tr_state r') \<and>
    pd_audit (snd (run_ops (handle_razorpay_webhook hmac sha loads c) d qs)) = pd_audit d @ new"
proof -
  have "db_evolves d (snd (run_ops (handle_razorpay_webhook hmac sha loads c) d qs))"
    by (rule webhook_machine.inv_run) (simp_all add: assms(1))
  then show ?thesis using assms(2,3)
    by (auto simp: db_evolves_def table_evolves_def keeps_rows_def row_evolves_def)
qed

text \<open>The effect of a settling event, exactly: when a genuine and timely request names a transaction in
  flight (with a matching merchant, if it names one, and a mandate that is not revoked) and its
  event is new, the endpoint registers the event, moves the transaction to COMMITTED or
  ROLLED_BACK, appends one audit event and answers with the new state; when the database refuses the
  audit event, it raises and nothing is stored.\<close>

theorem webhook_settles:
  assumes "webhook_accepted hmac q" and "webhook_content loads q = Some (eid, ty, tid, mer)"
    and "ready_to_settle c d r eid tid mer" and "event_target ty = Some target"
    and "acc_webhooks c (pd_webhooks d) (event_row sha q eid ty tid mer)"
  shows "handle_razorpay_webhook hmac sha loads c d q =
    (if acc_audit c (pd_audit d) (settlement_event sha d q r eid ty target) then
       (Inr (Ok_Answer (wh_accept eid tid (Some target) False
          (Msg ''Successfully processed webhook event {}.'' [PStr eid]))),
        d\<lparr>pd_webhooks := put_row eid (event_row sha q eid ty tid mer) (pd_webhooks d),
          pd_transactions := put_row tid (r\<lparr>tr_state := txn_state_value target, tr_updated_at := rq_now q\<rparr>)
            (pd_transactions d),
          pd_audit := pd_audit d @ [settlement_event sha d q r eid ty target]\<rparr>)
     else
       (Inl (Raise ValueError
          (Msg ''Failed to append audit event {} at sequence {}: integrity constraint violated.''
            [PStr (settlement_id eid), PInt (ar_sequence_number (settlement_event sha d q r eid ty target))])),
        d))"
  by (rule settle_effect [OF assms])

text \<open>Audit identities collide: the identity of the audit event is made of the first 16 characters of
  the event identity, so an event that agrees on them with one that settled before, of whatever
  transaction, is never applied: the endpoint raises, now and on every redelivery.\<close>

theorem webhook_identity_collision:
  assumes "webhook_accepted hmac q" and "webhook_content loads q = Some (eid, ty, tid, mer)"
    and "ready_to_settle c d r eid tid mer" and "event_target ty = Some target"
    and "acc_webhooks c (pd_webhooks d) (event_row sha q eid ty tid mer)"
    and "enforces_keys c" and "settlement_id eid \<in> ar_event_id ` set (pd_audit d)"
  shows "\<exists>e. handle_razorpay_webhook hmac sha loads c d q = (Inl e, d)"
proof -
  have "\<not> acc_audit c (pd_audit d) (settlement_event sha d q r eid ty target)"
    using assms(6,7) audit_uniqueD settlement_event_id unfolding enforces_keys_def by metis
  moreover have new: "row_of (pd_webhooks d) eid = None" using assms(3) by (simp add: ready_to_settle_def)
  ultimately show ?thesis unfolding handle_razorpay_webhook_def process_content [OF assms(1,2)]
    by (simp add: then_do_def register_new [OF assms(2) new assms(5)] settle_registered [OF assms(3,4)])
qed

section \<open>Instances\<close>

definition sample_txn :: TransactionRow where
  "sample_txn = \<lparr>tr_transaction_id = ''t'', tr_buyer_id = ''b'', tr_merchant_id = ''s'', tr_mandate_id = ''m'',
     tr_cart_hash = ''h'', tr_amount_paise = 4500, tr_currency = ''INR'', tr_region = ''IN'',
     tr_auth_decision = ''ALLOW'', tr_state = txn_state_value TransactionState.EXECUTING,
     tr_provider_payment_id = None, tr_provider_status = Some ''DISPATCHED'', tr_idempotency_key = ''k'',
     tr_created_at = 0, tr_updated_at = 0\<rparr>"

definition sample_db :: "AuditRow list \<Rightarrow> PaymentDb" where
  "sample_db audit = \<lparr>pd_transactions = [(''t'', sample_txn)], pd_attempts = [], pd_outbox = [],
     pd_audit = audit, pd_webhooks = [], pd_mandates = []\<rparr>"

definition sample_body :: json where
  "sample_body = JObj [(''id'', JStr ''e''), (''event'', JStr ''payment.captured''),
     (''payload'', JObj [(''payment'', JObj [(''entity'', JObj [(''receipt'', JStr ''t'')])])])]"

definition sample_loads :: "string \<Rightarrow> json option" where
  "sample_loads s = Some sample_body"

definition sample_hmac :: "string \<Rightarrow> string \<Rightarrow> string" where
  "sample_hmac k s = ''a''"

definition sample_request :: WebhookRequest where
  "sample_request = \<lparr>rq_body = ''x'', rq_signature = Some ''a'', rq_event_id = None, rq_uid = ''u'', rq_now = 5\<rparr>"

lemma strip_letter: "strip ''a'' = ''a''" "strip ''e'' = ''e''" "strip ''t'' = ''t''" "strip ''x'' = ''x''"
  "strip ''payment.captured'' = ''payment.captured''"
  by (simp_all add: strip_def lstrip_def rstrip_def is_space_def)

lemma sample_accepted: "webhook_accepted sample_hmac sample_request"
  by (simp add: webhook_accepted_def sample_request_def sample_hmac_def verify_webhook_signature_def blank_def
      strip_letter starts_with_def lower_def lower_char_def)

lemma sample_content:
  "webhook_content sample_loads sample_request = Some (''e'', ''payment.captured'', ''t'', [])"
  by (simp add: webhook_content_def sample_loads_def sample_request_def sample_body_def event_identity_def
      payment_entity_def entity_transaction_id_def entity_merchant_id_def py_or_def strip_letter)

lemma sample_ready: "ready_to_settle plain_database (sample_db audit) sample_txn ''e'' ''t'' []"
  by (simp add: ready_to_settle_def sample_db_def sample_txn_def row_of_def)

lemma sample_target: "event_target ''payment.captured'' = Some TransactionState.COMMITTED"
  by (simp add: event_target_def)

lemma sample_fresh: "acc_webhooks plain_database (pd_webhooks (sample_db audit)) r"
  by (simp add: plain_database_def sample_db_def free_key_def)

theorem webhook_settles_witness:
  "handle_razorpay_webhook sample_hmac id sample_loads plain_database (sample_db []) sample_request =
    (if acc_audit plain_database (pd_audit (sample_db [])) (settlement_event id (sample_db []) sample_request
         sample_txn ''e'' ''payment.captured'' TransactionState.COMMITTED) then
       (Inr (Ok_Answer (wh_accept ''e'' ''t'' (Some TransactionState.COMMITTED) False
          (Msg ''Successfully processed webhook event {}.'' [PStr ''e'']))),
        (sample_db [])\<lparr>pd_webhooks := put_row ''e'' (event_row id sample_request ''e'' ''payment.captured'' ''t'' [])
            (pd_webhooks (sample_db [])),
          pd_transactions := put_row ''t'' (sample_txn\<lparr>tr_state := txn_state_value TransactionState.COMMITTED,
            tr_updated_at := rq_now sample_request\<rparr>) (pd_transactions (sample_db [])),
          pd_audit := pd_audit (sample_db []) @ [settlement_event id (sample_db []) sample_request sample_txn ''e''
            ''payment.captured'' TransactionState.COMMITTED]\<rparr>)
     else
       (Inl (Raise ValueError
          (Msg ''Failed to append audit event {} at sequence {}: integrity constraint violated.''
            [PStr (settlement_id ''e''), PInt (ar_sequence_number (settlement_event id (sample_db []) sample_request
              sample_txn ''e'' ''payment.captured'' TransactionState.COMMITTED))])),
        sample_db []))"
  by (rule webhook_settles [OF sample_accepted sample_content sample_ready sample_target sample_fresh])

definition taken_event :: AuditRow where
  "taken_event = audit_row id None PAYMENT_SUCCESS \<lparr>ev_transaction_id = None, ev_mandate_id = None,
     ev_merchant_id = None, ev_buyer_id = None, ev_payload = None\<rparr> 0 (settlement_id ''e'')"

theorem webhook_identity_collision_witness:
  "\<exists>e. handle_razorpay_webhook sample_hmac id sample_loads plain_database (sample_db [taken_event]) sample_request =
     (Inl e, sample_db [taken_event])"
  by (rule webhook_identity_collision [OF sample_accepted sample_content sample_ready sample_target sample_fresh
        plain_database_keys])
    (simp add: sample_db_def taken_event_def audit_row_def Let_def)

lemma sample_settled: "handle_razorpay_webhook sample_hmac id sample_loads plain_database (sample_db []) sample_request =
    (Inr (Ok_Answer (wh_accept ''e'' ''t'' (Some TransactionState.COMMITTED) False
       (Msg ''Successfully processed webhook event {}.'' [PStr ''e'']))), d) \<Longrightarrow> d \<noteq> sample_db []"
  using handle_processed(2) [of sample_hmac id sample_loads plain_database "sample_db []" sample_request "''e''"]
  by (auto simp: webhook_processed_def wh_accept_def webhook_key_def sample_loads_def sample_request_def sample_body_def
      event_identity_def py_or_def strip_letter sample_db_def)


theorem webhook_single_use_witness:
  "accepted_count webhook_processed (\<lambda>q. webhook_key sample_loads q = Some ''e'') [sample_request, sample_request]
    (fst (run_ops (handle_razorpay_webhook sample_hmac id sample_loads plain_database) (sample_db [])
      [sample_request, sample_request])) \<le> 1"
  by (rule webhook_single_use) (simp_all add: sample_db_def)

theorem webhook_run_lawful_witness:
  "\<exists>r' new. row_of (pd_transactions (snd (run_ops (handle_razorpay_webhook sample_hmac id sample_loads plain_database)
      (sample_db []) [sample_request]))) ''t'' = Some r' \<and>
    same_context sample_txn r' \<and> state_evolves (tr_state sample_txn) (tr_state r') \<and>
    pd_audit (snd (run_ops (handle_razorpay_webhook sample_hmac id sample_loads plain_database) (sample_db [])
      [sample_request])) = pd_audit (sample_db []) @ new"
  by (rule webhook_run_lawful) (simp_all add: sample_db_def sample_txn_def keyed_def row_of_def)

end
