(* ===== verification/Recovery.thy ===== *)
theory Recovery
  imports Payment_Db Execution
begin

text \<open>
  Recovery of payments whose outcome is open: the recovery service
  (\<open>apps/api/domain/recovery_engine.py\<close>), its worker (\<open>apps/workers/recovery_worker.py\<close>) and the
  reconciliation service (\<open>apps/api/domain/reconciliation_engine.py\<close>). The provider's answer to
  \<open>adapter.fetch_payment_status\<close> is the parameter \<open>fetch\<close>, which may raise. The metrics are left out.

  A flush that the database refuses makes the session unusable until it is rolled back: the worker,
  which catches exceptions and goes on, then fails at its commit (\<open>is_refusal\<close>).
\<close>

section \<open>The recovery service\<close>

record RecoveryRecord =
  rec_transaction_id :: string
  rec_previous_state :: string
  rec_final_state :: string
  rec_provider_status :: string
  rec_recovered :: bool
  rec_message :: msg
  rec_timestamp :: datetime

definition recovery_record ::
  "string \<Rightarrow> string \<Rightarrow> string \<Rightarrow> string \<Rightarrow> bool \<Rightarrow> msg \<Rightarrow> datetime \<Rightarrow> RecoveryRecord" where
  "recovery_record tid prev final status ok m now =
     \<lparr>rec_transaction_id = tid, rec_previous_state = prev, rec_final_state = final,
      rec_provider_status = status, rec_recovered = ok, rec_message = m, rec_timestamp = now\<rparr>"

definition scan_stuck_transactions :: "int \<Rightarrow> datetime option \<Rightarrow> datetime \<Rightarrow> PaymentDb \<Rightarrow> string list" where
  "scan_stuck_transactions threshold at now d = map tr_transaction_id
     (list_transactions_requiring_reconciliation (pd_transactions d)
        (Some (resolve_at at now - seconds threshold)))"

definition recovery_audit_args :: "TransactionRow \<Rightarrow> string \<Rightarrow> string \<Rightarrow> EventArgs" where
  "recovery_audit_args r tid ref =
     \<lparr>ev_transaction_id = Some tid, ev_mandate_id = Some (tr_mandate_id r),
      ev_merchant_id = Some (tr_merchant_id r), ev_buyer_id = Some (tr_buyer_id r),
      ev_payload = Some [(''reconciliation'', JBool True), (''provider_reference'', JStr ref),
        (''recovered_from'', JStr (tr_state r))]\<rparr>"

definition recovery_outbox_payload :: "TransactionRow \<Rightarrow> string \<Rightarrow> json" where
  "recovery_outbox_payload r tid = JObj
     [(''transaction_id'', JStr tid), (''merchant_id'', JStr (tr_merchant_id r)),
      (''amount_paise'', JInt (tr_amount_paise r)), (''reconciled'', JBool True)]"

definition recover_success ::
  "(string \<Rightarrow> string) \<Rightarrow> Accepts \<Rightarrow> TransactionRow \<Rightarrow> string \<Rightarrow> string \<Rightarrow> string \<Rightarrow> string \<Rightarrow> datetime \<Rightarrow>
   (PaymentDb, RecoveryRecord) prog" where
  "recover_success sha c r tid ref uid ouid now =
     then_do (on_transactions (record_provider_outcome tid ''SUCCESS'' (Some ref) now)) (\<lambda>_.
     then_do (on_transactions (transition_transaction_state tid (State TransactionState.COMMITTED) now)) (\<lambda>_.
     then_do (append_audit sha c PAYMENT_SUCCESS (recovery_audit_args r tid ref) None uid now) (\<lambda>_.
     then_do (on_outbox (outbox_create_event (acc_outbox c) ''PAYMENT_COMMITTED'' ''TRANSACTION'' tid
       (recovery_outbox_payload r tid) None ouid now)) (\<lambda>_.
       ret (recovery_record tid (tr_state r) (txn_state_value TransactionState.COMMITTED) ''SUCCESS'' True
         (Msg ''Status successfully reconciled to COMMITTED.'' []) now)))))"

definition recover_failure ::
  "(string \<Rightarrow> string) \<Rightarrow> Accepts \<Rightarrow> TransactionRow \<Rightarrow> string \<Rightarrow> string \<Rightarrow> string \<Rightarrow> string \<Rightarrow> datetime \<Rightarrow>
   (PaymentDb, RecoveryRecord) prog" where
  "recover_failure sha c r tid ref uid ouid now =
     then_do (on_transactions (record_provider_outcome tid ''FAILED'' (Some ref) now)) (\<lambda>_.
     then_do (on_transactions (transition_transaction_state tid (State FAILURE) now)) (\<lambda>_.
     then_do (on_transactions (transition_transaction_state tid (State ROLLED_BACK) now)) (\<lambda>_.
     then_do (append_audit sha c PAYMENT_FAILED (recovery_audit_args r tid ref) None uid now) (\<lambda>_.
     then_do (on_outbox (outbox_create_event (acc_outbox c) ''PAYMENT_ROLLED_BACK'' ''TRANSACTION'' tid
       (recovery_outbox_payload r tid) None ouid now)) (\<lambda>_.
       ret (recovery_record tid (tr_state r) (txn_state_value ROLLED_BACK) ''FAILED'' True
         (Msg ''Status successfully reconciled to ROLLED_BACK.'' []) now))))))"

definition settled_text :: "string \<Rightarrow> bool" where
  "settled_text s \<longleftrightarrow> s \<in> {txn_state_value TransactionState.COMMITTED, txn_state_value ROLLED_BACK,
     txn_state_value TransactionState.REJECTED}"

definition reconcile_transaction ::
  "(string \<Rightarrow> string) \<Rightarrow> Accepts \<Rightarrow> (string \<Rightarrow> ExecutionResult res) \<Rightarrow> string \<Rightarrow> string \<Rightarrow> string \<Rightarrow> datetime \<Rightarrow>
   (PaymentDb, RecoveryRecord) prog" where
  \<comment> \<open>\<open>uid\<close> and \<open>ouid\<close> are the fresh identifiers of the audit event and of the outbox event\<close>
  "reconcile_transaction sha c fetch tid uid ouid now =
     then_do (read_st (\<lambda>d. lock_transaction_for_update (pd_transactions d) tid)) (\<lambda>found.
       case found of
         None \<Rightarrow> ret (recovery_record tid ''UNKNOWN'' ''UNKNOWN'' ''NOT_FOUND'' False
           (Msg ''Transaction '{}' not found in database.'' [PStr tid]) now)
       | Some r \<Rightarrow>
           if settled_text (tr_state r) then
             ret (recovery_record tid (tr_state r) (tr_state r) (text_or (tr_provider_status r) ''TERMINAL'') True
               (Msg ''Transaction '{}' already in terminal state '{}'.'' [PStr tid, PStr (tr_state r)]) now)
           else
             let ref = text_or (tr_provider_payment_id r) tid in
             then_do (of_res (fetch ref)) (\<lambda>res.
               if exr_provider_status res = Some PaymentResultState.SUCCESS then
                 recover_success sha c r tid ref uid ouid now
               else if exr_provider_status res \<in> {Some PaymentResultState.FAILED, Some PaymentResultState.EXPIRED} then
                 recover_failure sha c r tid ref uid ouid now
               else ret (recovery_record tid (tr_state r) (txn_state_value TransactionState.EXECUTING) ''UNKNOWN'' False
                 (Msg ''Provider status remains UNKNOWN. Transaction preserved in EXECUTING state.'' []) now)))"

definition recover_all_stuck ::
  "(string \<Rightarrow> string) \<Rightarrow> Accepts \<Rightarrow> (string \<Rightarrow> ExecutionResult res) \<Rightarrow> int \<Rightarrow> (string \<Rightarrow> string) \<Rightarrow> datetime \<Rightarrow>
   (PaymentDb, RecoveryRecord list) prog" where
  \<comment> \<open>\<open>uids\<close> draws the fresh identifiers for a transaction\<close>
  "recover_all_stuck sha c fetch threshold uids now =
     then_do (read_st (scan_stuck_transactions threshold None now)) (\<lambda>ids.
       for_each ids (\<lambda>tid. reconcile_transaction sha c fetch tid (uids tid) (''outbox_'' @ uids tid) now))"

section \<open>The worker\<close>

definition is_refusal :: "py_exc \<Rightarrow> bool" where
  "is_refusal e = (case e of Raise cls m \<Rightarrow> cls = IntegrityError \<or>
     msg_text m = ''Failed to append audit event {} at sequence {}: integrity constraint violated.'')"

definition recovery_batch ::
  "(string \<Rightarrow> string) \<Rightarrow> Accepts \<Rightarrow> (string \<Rightarrow> ExecutionResult res) \<Rightarrow> int \<Rightarrow> (string \<Rightarrow> string) \<Rightarrow> datetime \<Rightarrow>
   (PaymentDb, RecoveryRecord res list) prog" where
  \<comment> \<open>every transaction in its own \<open>try\<close> block\<close>
  "recovery_batch sha c fetch threshold uids now =
     then_do (read_st (scan_stuck_transactions threshold None now)) (\<lambda>ids.
       for_each ids (\<lambda>tid. attempt
         (reconcile_transaction sha c fetch tid (uids tid) (''outbox_'' @ uids tid) now)))"

definition recovery_process_batch ::
  "(string \<Rightarrow> string) \<Rightarrow> Accepts \<Rightarrow> (string \<Rightarrow> ExecutionResult res) \<Rightarrow> int \<Rightarrow> (string \<Rightarrow> string) \<Rightarrow> datetime \<Rightarrow>
   (PaymentDb, int) prog" where
  "recovery_process_batch sha c fetch threshold uids now d =
     (case recovery_batch sha c fetch threshold uids now d of
        (Inl e, _) \<Rightarrow> (Inl e, d)
      | (Inr rs, d') \<Rightarrow>
          if list_ex (\<lambda>r. case r of Inl e \<Rightarrow> is_refusal e | Inr _ \<Rightarrow> False) rs then
            (Inl (Raise (SourceError ''PendingRollbackError'' []) (Msg [] [])), d)
          else (Inr (int (length (filter (\<lambda>r. case r of Inl _ \<Rightarrow> False | Inr x \<Rightarrow> rec_recovered x) rs))), d'))"

section \<open>The reconciliation service\<close>

definition reconciliation_result ::
  "bool \<Rightarrow> string \<Rightarrow> TransactionState \<Rightarrow> string option \<Rightarrow> RejectionReason option \<Rightarrow> ExecutionFailureCategory option \<Rightarrow>
   msg \<Rightarrow> bool \<Rightarrow> PaymentResultState option \<Rightarrow> datetime \<Rightarrow> ExecutionResult" where
  "reconciliation_result ok tid st ref code cat m replay status now =
     \<lparr>exr_success = ok, exr_transaction_id = tid, exr_state = st, exr_external_reference = ref,
      exr_failure_code = code, exr_failure_category = cat, exr_safe_message = m,
      exr_idempotent_replay = replay, exr_provider_status = status, exr_raw_response_redacted = None,
      exr_executed_at = now\<rparr>"

definition reconciliation_audit_args :: "TransactionRow \<Rightarrow> string \<Rightarrow> string \<Rightarrow> PaymentResultState \<Rightarrow> EventArgs" where
  "reconciliation_audit_args r tid ref status =
     \<lparr>ev_transaction_id = Some tid, ev_mandate_id = Some (tr_mandate_id r),
      ev_merchant_id = Some (tr_merchant_id r), ev_buyer_id = Some (tr_buyer_id r),
      ev_payload = Some [(''provider_reference'', JStr ref),
        (''reconciled_status'', JStr (payment_result_value status))]\<rparr>"

definition async_reconcile_transaction ::
  "(string \<Rightarrow> string) \<Rightarrow> Accepts \<Rightarrow> (string \<Rightarrow> ExecutionResult res) \<Rightarrow> string \<Rightarrow> string \<Rightarrow> datetime \<Rightarrow>
   (PaymentDb, ExecutionResult) prog" where
  "async_reconcile_transaction sha c fetch transaction_id uid now =
     (let tid = strip transaction_id; eid = Some (''evt_rec_'' @ take 12 tid) in
      then_do (read_st (\<lambda>d. lock_transaction_for_update (pd_transactions d) tid)) (\<lambda>found.
        case found of
          None \<Rightarrow> ret (reconciliation_result False tid TransactionState.REJECTED None
            (Some INVALID_TRANSACTION_STATE) (Some INVALID_CONTEXT)
            (Msg ''Transaction '{}' not found.'' [PStr tid]) False None now)
        | Some r \<Rightarrow>
            then_do (of_res (state_from_text (tr_state r))) (\<lambda>current.
              if current \<in> {TransactionState.COMMITTED, TransactionState.SUCCESS} then
                ret (reconciliation_result True tid TransactionState.COMMITTED
                  (Some (text_or (tr_provider_payment_id r) (''pay_'' @ take 8 tid))) None None
                  (Msg ''Transaction previously committed successfully.'' []) True
                  (Some PaymentResultState.SUCCESS) now)
              else if current \<in> {ROLLED_BACK, FAILURE, TransactionState.REJECTED} then
                ret (reconciliation_result False tid current (tr_provider_payment_id r)
                  (Some METHOD_NOT_AUTHORIZED) (Some PROVIDER_REJECTED)
                  (Msg ''Transaction previously failed or rolled back.'' []) True
                  (Some PaymentResultState.FAILED) now)
              else
                let ref = text_or (tr_provider_payment_id r) tid in
                then_do (of_res (fetch ref)) (\<lambda>res.
                  if exr_provider_status res = Some PaymentResultState.SUCCESS then
                    then_do (on_transactions (transition_transaction_state tid (State TransactionState.COMMITTED) now)) (\<lambda>_.
                    then_do (append_audit sha c PAYMENT_SUCCESS
                      (reconciliation_audit_args r tid ref PaymentResultState.SUCCESS) eid uid now) (\<lambda>_.
                      ret (reconciliation_result True tid TransactionState.COMMITTED (Some ref) None None
                        (Msg ''Reconciliation confirmed payment success.'' []) False
                        (Some PaymentResultState.SUCCESS) now)))
                  else if exr_provider_status res = Some PaymentResultState.FAILED then
                    then_do (on_transactions (transition_transaction_state tid (State ROLLED_BACK) now)) (\<lambda>_.
                    then_do (append_audit sha c PAYMENT_FAILED
                      (reconciliation_audit_args r tid ref PaymentResultState.FAILED) eid uid now) (\<lambda>_.
                      ret (reconciliation_result False tid ROLLED_BACK (Some ref)
                        (Some METHOD_NOT_AUTHORIZED) (Some PROVIDER_REJECTED)
                        (Msg ''Reconciliation confirmed payment failure.'' []) False
                        (Some PaymentResultState.FAILED) now)))
                  else ret (reconciliation_result False tid current (Some ref)
                    (Some AUTHORIZATION_EXPIRED) (Some TIMEOUT)
                    (Msg ''Provider status reconciliation returned UNKNOWN. Transaction remains pending.'' []) False
                    (Some UNKNOWN) now)))))"

section \<open>What recovery does to the database\<close>

lemma reconcile_transaction_evolves:
  "evolves (since base) (reconcile_transaction sha c fetch tid uid ouid now)"
  unfolding reconcile_transaction_def recover_success_def recover_failure_def Let_def
  by (intro db.evolves_rules db_steps)

lemma recovery_batch_evolves: "evolves (since base) (recovery_batch sha c fetch threshold uids now)"
  unfolding recovery_batch_def by (intro db.evolves_rules reconcile_transaction_evolves)

lemma async_reconcile_evolves:
  "evolves (since base) (async_reconcile_transaction sha c fetch tid uid now)"
  unfolding async_reconcile_transaction_def Let_def by (intro db.evolves_rules db_steps)

lemma recovery_process_evolves: "db_evolves d (snd (recovery_process_batch sha c fetch threshold uids now d))"
  using evolvesD [OF recovery_batch_evolves, of d d sha c fetch threshold uids now]
  by (auto simp: recovery_process_batch_def since_def split: prod.split sum.split)

definition in_flight :: "PaymentDb \<Rightarrow> string \<Rightarrow> TransactionRow \<Rightarrow> bool" where
  "in_flight d tid r \<longleftrightarrow> row_of (pd_transactions d) tid = Some r \<and> tr_transaction_id r = tid \<and>
     tr_state r = txn_state_value TransactionState.EXECUTING"

lemma in_flightD:
  assumes "in_flight d tid r"
  shows "row_of (pd_transactions d) tid = Some r" "tr_transaction_id r = tid"
    "txn_state_of (tr_state r) = Some TransactionState.EXECUTING" "\<not> settled_text (tr_state r)"
    "tr_state r = txn_state_value TransactionState.EXECUTING"
  using assms by (simp_all add: in_flight_def settled_text_def del: txn_state_value.simps)

definition outcome_row :: "TransactionRow \<Rightarrow> string \<Rightarrow> string \<Rightarrow> TransactionState \<Rightarrow> datetime \<Rightarrow> TransactionRow" where
  "outcome_row r ref status st now = r\<lparr>tr_provider_payment_id := Some ref, tr_provider_status := Some status,
     tr_state := txn_state_value st, tr_updated_at := now\<rparr>"

lemma record_in_flight:
  assumes "in_flight d tid r" and "outcome_state status = Some t"
  shows "on_transactions (record_provider_outcome tid status (Some ref) now) d =
    (Inr (outcome_row r ref status t now),
     d\<lparr>pd_transactions := put_row tid (outcome_row r ref status t now) (pd_transactions d)\<rparr>)"
  using outcome_moves [OF in_flightD(1-3) [OF assms(1)] assms(2), of "Some ref" now]
  by (simp add: on_transactions_def zoom_def outcome_row_def)

lemma recover_failure_raises:
  assumes "in_flight d tid r"
  shows "recover_failure sha c r tid ref uid ouid now d =
    (Inl (transaction_state_error FAILURE FAILURE),
     d\<lparr>pd_transactions := put_row tid (outcome_row r ref ''FAILED'' FAILURE now) (pd_transactions d)\<rparr>)"
proof -
  let ?q = "outcome_row r ref ''FAILED'' FAILURE now"
  let ?tab = "put_row tid ?q (pd_transactions d)"
  have "transition_transaction_state tid (State FAILURE) now ?tab =
      (Inl (transaction_state_error FAILURE FAILURE), ?tab)"
    by (rule transition_illegal [of _ _ ?q])
      (simp_all add: outcome_row_def can_transition_to_def del: txn_state_value.simps)
  then have "on_transactions (transition_transaction_state tid (State FAILURE) now) (d\<lparr>pd_transactions := ?tab\<rparr>) =
      (Inl (transaction_state_error FAILURE FAILURE), d\<lparr>pd_transactions := ?tab\<rparr>)"
    by (simp add: on_transactions_def zoom_def)
  then show ?thesis
    by (simp add: recover_failure_def then_do_def record_in_flight [OF assms provider_words(2)])
qed

lemma reconcile_failed:
  assumes "in_flight d tid r" and "fetch (text_or (tr_provider_payment_id r) tid) = Inr x"
    and "exr_provider_status x \<in> {Some PaymentResultState.FAILED, Some PaymentResultState.EXPIRED}"
  shows "reconcile_transaction sha c fetch tid uid ouid now d =
    (Inl (transaction_state_error FAILURE FAILURE), d\<lparr>pd_transactions := put_row tid
      (outcome_row r (text_or (tr_provider_payment_id r) tid) ''FAILED'' FAILURE now) (pd_transactions d)\<rparr>)"
proof -
  have "reconcile_transaction sha c fetch tid uid ouid now d =
      recover_failure sha c r tid (text_or (tr_provider_payment_id r) tid) uid ouid now d"
    using assms(2,3) in_flightD [OF assms(1)]
    by (auto simp: reconcile_transaction_def lock_transaction_for_update_def Let_def)
  then show ?thesis by (simp only: recover_failure_raises [OF assms(1)])
qed

interpretation unchanged: evolution "(=)"
  by unfold_locales auto

section \<open>Properties\<close>

text \<open>Recovery fails closed: when the provider gives no definite answer (it is unknown or pending, or the
  query raises), neither the recovery of a transaction nor a whole batch of the worker changes
  anything in the database.\<close>

theorem recovery_unknown_untouched:
  assumes "\<And>ref x. fetch ref = Inr x \<Longrightarrow> exr_provider_status x \<notin>
    {Some PaymentResultState.SUCCESS, Some PaymentResultState.FAILED, Some PaymentResultState.EXPIRED}"
  shows "snd (reconcile_transaction sha c fetch tid uid ouid now d) = d \<and>
    snd (recovery_process_batch sha c fetch threshold uids now d) = d"
proof -
  have one: "snd (reconcile_transaction sha c fetch t u v now s) = s" for t u v s
  proof (cases "row_of (pd_transactions s) t")
    case (Some r)
    then show ?thesis
      using assms by (cases "fetch (text_or (tr_provider_payment_id r) t)")
        (auto simp: reconcile_transaction_def lock_transaction_for_update_def Let_def)
  qed (simp add: reconcile_transaction_def lock_transaction_for_update_def)
  have "evolves (=) (recovery_batch sha c fetch threshold uids now)"
    unfolding recovery_batch_def by (intro unchanged.evolves_rules) (simp add: evolves_def one)
  from evolvesD [OF this, of d] have "snd (recovery_batch sha c fetch threshold uids now d) = d" by simp
  then show ?thesis using one by (auto simp: recovery_process_batch_def split: prod.split sum.split)
qed

text \<open>A failed payment is not rolled back: when the provider reports that a payment in flight failed or
  expired, the recovery raises, because \<open>record_provider_outcome\<close> has already moved the transaction to
  FAILURE when the code moves it there once more.\<close>

theorem recovery_of_failed_payment_raises:
  assumes "in_flight d tid r" and "fetch (text_or (tr_provider_payment_id r) tid) = Inr x"
    and "exr_provider_status x \<in> {Some PaymentResultState.FAILED, Some PaymentResultState.EXPIRED}"
  shows "fst (reconcile_transaction sha c fetch tid uid ouid now d) = Inl (transaction_state_error FAILURE FAILURE)"
  by (simp add: reconcile_failed [where fetch = fetch, OF assms])

text \<open>The worker makes it permanent: it catches that exception and commits. After a batch with such a
  payment as the only stuck transaction, the transaction is stored as FAILURE, no audit event and no
  outbox event exist for it, the batch counts nothing, and the next scans do not find it any more:
  it never becomes ROLLED_BACK.\<close>

theorem recovery_worker_strands_failed:
  assumes "in_flight d tid r" and "fetch (text_or (tr_provider_payment_id r) tid) = Inr x"
    and "exr_provider_status x \<in> {Some PaymentResultState.FAILED, Some PaymentResultState.EXPIRED}"
    and "scan_stuck_transactions threshold None now d = [tid]"
  shows "\<exists>d' q. recovery_process_batch sha c fetch threshold uids now d = (Inr 0, d') \<and>
    row_of (pd_transactions d') tid = Some q \<and> tr_state q = txn_state_value FAILURE \<and>
    needs_reconciliation q = False \<and> pd_audit d' = pd_audit d \<and> pd_outbox d' = pd_outbox d"
proof -
  let ?q = "outcome_row r (text_or (tr_provider_payment_id r) tid) ''FAILED'' FAILURE now"
  let ?d = "d\<lparr>pd_transactions := put_row tid ?q (pd_transactions d)\<rparr>"
  have "recovery_batch sha c fetch threshold uids now d =
      (Inr [Inl (transaction_state_error FAILURE FAILURE)], ?d)"
    by (simp add: recovery_batch_def assms(4) then_do_def attempt_def
        reconcile_failed [where fetch = fetch, OF assms(1-3)])
  moreover have "is_refusal (transaction_state_error FAILURE FAILURE) = False"
    by (simp add: is_refusal_def transaction_state_error_def)
  ultimately have "recovery_process_batch sha c fetch threshold uids now d = (Inr 0, ?d)"
    by (simp add: recovery_process_batch_def)
  moreover have "row_of (pd_transactions ?d) tid = Some ?q" "tr_state ?q = txn_state_value FAILURE"
    "needs_reconciliation ?q = False"
    by (simp_all add: outcome_row_def needs_reconciliation_def)
  ultimately show ?thesis by (intro exI [of _ ?d] exI [of _ ?q]) simp
qed

lemma success_effect:
  assumes "in_flight d tid r"
    and "acc_audit c (pd_audit d) (audit_row sha (get_latest_event (pd_audit d)) PAYMENT_SUCCESS
      (recovery_audit_args r tid ref) now uid)"
    and "acc_outbox c (pd_outbox d) (outbox_row ''PAYMENT_COMMITTED'' ''TRANSACTION'' tid
      (recovery_outbox_payload r tid) None ouid now)"
  shows "recover_success sha c r tid ref uid ouid now d =
    (Inr (recovery_record tid (tr_state r) (txn_state_value TransactionState.COMMITTED) ''SUCCESS'' True
       (Msg ''Status successfully reconciled to COMMITTED.'' []) now),
     d\<lparr>pd_transactions := put_row tid (outcome_row r ref ''SUCCESS'' TransactionState.COMMITTED now) (pd_transactions d),
       pd_audit := pd_audit d @ [audit_row sha (get_latest_event (pd_audit d)) PAYMENT_SUCCESS
         (recovery_audit_args r tid ref) now uid],
       pd_outbox := put_row ouid (outbox_row ''PAYMENT_COMMITTED'' ''TRANSACTION'' tid
         (recovery_outbox_payload r tid) None ouid now) (pd_outbox d)\<rparr>)"
proof -
  let ?q = "outcome_row r ref ''SUCCESS'' TransactionState.SUCCESS now"
  let ?p = "outcome_row r ref ''SUCCESS'' TransactionState.COMMITTED now"
  have "transition_transaction_state tid (State TransactionState.COMMITTED) now (put_row tid ?q (pd_transactions d)) =
      (Inr (?q\<lparr>tr_state := txn_state_value TransactionState.COMMITTED, tr_updated_at := now\<rparr>),
       put_row tid (?q\<lparr>tr_state := txn_state_value TransactionState.COMMITTED, tr_updated_at := now\<rparr>)
         (put_row tid ?q (pd_transactions d)))"
    by (rule transition_moves [where s = TransactionState.SUCCESS])
      (simp_all add: outcome_row_def in_flightD [OF assms(1)] can_transition_to_def txn_is_terminal_def
        del: txn_state_value.simps)
  moreover have "?q\<lparr>tr_state := txn_state_value TransactionState.COMMITTED, tr_updated_at := now\<rparr> = ?p"
    by (simp add: outcome_row_def)
  ultimately have move: "on_transactions (transition_transaction_state tid (State TransactionState.COMMITTED) now)
      (d\<lparr>pd_transactions := put_row tid ?q (pd_transactions d)\<rparr>) =
      (Inr ?p, d\<lparr>pd_transactions := put_row tid ?p (pd_transactions d)\<rparr>)"
    by (simp add: on_transactions_def zoom_def)
  have audit: "append_audit sha c PAYMENT_SUCCESS (recovery_audit_args r tid ref) None uid now
      (d\<lparr>pd_transactions := t\<rparr>) = (Inr (audit_row sha (get_latest_event (pd_audit d)) PAYMENT_SUCCESS
         (recovery_audit_args r tid ref) now uid), d\<lparr>pd_transactions := t, pd_audit := pd_audit d @
         [audit_row sha (get_latest_event (pd_audit d)) PAYMENT_SUCCESS (recovery_audit_args r tid ref) now uid]\<rparr>)" for t
    using assms(2) audit_event_of_value [of PAYMENT_SUCCESS]
    by (simp add: append_audit_def on_audit_def zoom_def repo_append_event_def flush_event_def
        del: audit_event_value.simps)
  have outbox: "on_outbox (outbox_create_event (acc_outbox c) ''PAYMENT_COMMITTED'' ''TRANSACTION'' tid
       (recovery_outbox_payload r tid) None ouid now) (d\<lparr>pd_transactions := t, pd_audit := a\<rparr>) =
     (Inr (outbox_row ''PAYMENT_COMMITTED'' ''TRANSACTION'' tid (recovery_outbox_payload r tid) None ouid now),
      d\<lparr>pd_transactions := t, pd_audit := a, pd_outbox := put_row ouid (outbox_row ''PAYMENT_COMMITTED'' ''TRANSACTION'' tid
         (recovery_outbox_payload r tid) None ouid now) (pd_outbox d)\<rparr>)" for t a
    using assms(3) by (simp add: on_outbox_def zoom_def outbox_create_event_def then_do_def insert_row_def Let_def outbox_row_def)
  show ?thesis
    by (simp add: recover_success_def then_do_def record_in_flight [OF assms(1) provider_words(1)] move audit outbox)
qed

text \<open>The effect of a confirmed payment: when the provider confirms a payment in flight and the database
  accepts the two new rows, recovery stores the transaction as COMMITTED with the reference it asked
  about, appends one PAYMENT_SUCCESS audit event, and adds one pending PAYMENT_COMMITTED event to the outbox.\<close>

theorem recovery_commits_confirmed:
  assumes "in_flight d tid r" and "ref = text_or (tr_provider_payment_id r) tid" and "fetch ref = Inr x"
    and "exr_provider_status x = Some PaymentResultState.SUCCESS"
    and "acc_audit c (pd_audit d) (audit_row sha (get_latest_event (pd_audit d)) PAYMENT_SUCCESS
      (recovery_audit_args r tid ref) now uid)"
    and "acc_outbox c (pd_outbox d) (outbox_row ''PAYMENT_COMMITTED'' ''TRANSACTION'' tid
      (recovery_outbox_payload r tid) None ouid now)"
  shows "reconcile_transaction sha c fetch tid uid ouid now d =
    (Inr (recovery_record tid (tr_state r) (txn_state_value TransactionState.COMMITTED) ''SUCCESS'' True
       (Msg ''Status successfully reconciled to COMMITTED.'' []) now),
     d\<lparr>pd_transactions := put_row tid (outcome_row r ref ''SUCCESS'' TransactionState.COMMITTED now) (pd_transactions d),
       pd_audit := pd_audit d @ [audit_row sha (get_latest_event (pd_audit d)) PAYMENT_SUCCESS
         (recovery_audit_args r tid ref) now uid],
       pd_outbox := put_row ouid (outbox_row ''PAYMENT_COMMITTED'' ''TRANSACTION'' tid
         (recovery_outbox_payload r tid) None ouid now) (pd_outbox d)\<rparr>)"
proof -
  have "reconcile_transaction sha c fetch tid uid ouid now d = recover_success sha c r tid ref uid ouid now d"
    using assms(2-4) in_flightD [OF assms(1)]
    by (simp add: reconcile_transaction_def lock_transaction_for_update_def Let_def)
  then show ?thesis by (simp only: success_effect [OF assms(1,5,6)])
qed

section \<open>Instances\<close>

definition stuck_row :: TransactionRow where
  "stuck_row = \<lparr>tr_transaction_id = ''t'', tr_buyer_id = ''b'', tr_merchant_id = ''s'', tr_mandate_id = ''m'',
     tr_cart_hash = ''h'', tr_amount_paise = 4500, tr_currency = ''INR'', tr_region = ''IN'',
     tr_auth_decision = ''ALLOW'', tr_state = txn_state_value TransactionState.EXECUTING,
     tr_provider_payment_id = None, tr_provider_status = Some ''DISPATCHED'', tr_idempotency_key = ''k'',
     tr_created_at = 0, tr_updated_at = 0\<rparr>"

definition stuck_db :: PaymentDb where
  "stuck_db = \<lparr>pd_transactions = [(''t'', stuck_row)], pd_attempts = [], pd_outbox = [], pd_audit = [],
     pd_webhooks = [], pd_mandates = []\<rparr>"

definition answers :: "PaymentResultState \<Rightarrow> string \<Rightarrow> ExecutionResult res" where
  \<comment> \<open>a provider that always gives the same answer\<close>
  "answers st ref = Inr (reconciliation_result False ref TransactionState.EXECUTING None None None (Msg [] []) False (Some st) 0)"

lemma stuck_in_flight: "in_flight stuck_db ''t'' stuck_row"
  by (simp add: in_flight_def stuck_db_def stuck_row_def row_of_def)

lemma stuck_scan: "scan_stuck_transactions 30 None (seconds 60) stuck_db = [''t'']"
  by (simp add: scan_stuck_transactions_def list_transactions_requiring_reconciliation_def stuck_db_def stuck_row_def
      needs_reconciliation_def rows_of_def seconds_def)

theorem recovery_unknown_untouched_witness:
  "snd (reconcile_transaction id plain_database (answers UNKNOWN) ''t'' ''u'' ''o'' (seconds 60) stuck_db) = stuck_db \<and>
    snd (recovery_process_batch id plain_database (answers UNKNOWN) 30 id (seconds 60) stuck_db) = stuck_db"
  by (rule recovery_unknown_untouched) (auto simp: answers_def reconciliation_result_def)

theorem recovery_of_failed_payment_raises_witness:
  "fst (reconcile_transaction id plain_database (answers PaymentResultState.FAILED) ''t'' ''u'' ''o'' 0 stuck_db) =
     Inl (transaction_state_error FAILURE FAILURE)"
  by (rule recovery_of_failed_payment_raises [OF stuck_in_flight answers_def])
    (simp add: reconciliation_result_def)

theorem recovery_worker_strands_failed_witness:
  "\<exists>d' q. recovery_process_batch id plain_database (answers PaymentResultState.FAILED) 30 id (seconds 60) stuck_db = (Inr 0, d') \<and>
    row_of (pd_transactions d') ''t'' = Some q \<and> tr_state q = txn_state_value FAILURE \<and>
    needs_reconciliation q = False \<and> pd_audit d' = pd_audit stuck_db \<and> pd_outbox d' = pd_outbox stuck_db"
  by (rule recovery_worker_strands_failed [OF stuck_in_flight answers_def _ stuck_scan])
    (simp add: reconciliation_result_def)

theorem recovery_commits_confirmed_witness:
  "reconcile_transaction id plain_database (answers PaymentResultState.SUCCESS) ''t'' ''u'' ''o'' 0 stuck_db =
    (Inr (recovery_record ''t'' (tr_state stuck_row) (txn_state_value TransactionState.COMMITTED) ''SUCCESS'' True
       (Msg ''Status successfully reconciled to COMMITTED.'' []) 0),
     stuck_db\<lparr>pd_transactions := put_row ''t'' (outcome_row stuck_row ''t'' ''SUCCESS'' TransactionState.COMMITTED 0)
         (pd_transactions stuck_db),
       pd_audit := pd_audit stuck_db @ [audit_row id (get_latest_event (pd_audit stuck_db)) PAYMENT_SUCCESS
         (recovery_audit_args stuck_row ''t'' ''t'') 0 ''u''],
       pd_outbox := put_row ''o'' (outbox_row ''PAYMENT_COMMITTED'' ''TRANSACTION'' ''t''
         (recovery_outbox_payload stuck_row ''t'') None ''o'' 0) (pd_outbox stuck_db)\<rparr>)"
  by (rule recovery_commits_confirmed [OF stuck_in_flight _ answers_def])
    (simp_all add: stuck_row_def reconciliation_result_def plain_database_def stuck_db_def audit_accepts_def free_key_def)

end
