(* ===== verification/Async_Execution.thy ===== *)
theory Async_Execution
  imports Recovery
begin

text \<open>
  Payment execution over the database: \<open>async_execute_payment\<close> of
  \<open>apps/api/domain/execution_engine.py\<close>, in the session of a unit of work (\<open>db/unit_of_work.py\<close>). The state
  is the service's memory, its set of transactions in flight and the database as the session sees
  it. \<open>pay\<close> is the provider's answer to \<open>adapter.execute_payment\<close> and may raise; \<open>pes_sent\<close> logs the
  requests the provider received. While a caller waits for a parallel worker, \<open>polled i\<close> is what it
  finds in the cache at its check \<open>i\<close>. \<open>base\<close> is the committed database.
\<close>

record AsyncState =
  as_service :: PaymentExecutionService
  as_in_flight :: "string set"
  as_db :: PaymentDb

definition on_db :: "(PaymentDb, 'a) prog \<Rightarrow> (AsyncState, 'a) prog" where
  "on_db m = zoom as_db (\<lambda>d s. s\<lparr>as_db := d\<rparr>) m"

definition reject_async ::
  "Transaction \<Rightarrow> execution_rejection \<Rightarrow> datetime \<Rightarrow> (AsyncState, ExecutionResult) prog" where
  \<comment> \<open>\<open>_reject_execution\<close> on the service's memory\<close>
  "reject_async t rej now s =
     (case rej of (reason, category, message) \<Rightarrow>
        (case reject_execution (as_service s) t reason category message now of
           (r, svc) \<Rightarrow> (Inr r, s\<lparr>as_service := svc\<rparr>)))"

definition execution_payload :: "Transaction \<Rightarrow> ExecuteProposal \<Rightarrow> json" where
  "execution_payload t p = JObj
     [(''transaction_id'', JStr (tx_transaction_id t)), (''merchant_id'', JStr (tx_merchant_id t)),
      (''buyer_id'', JStr (tx_buyer_id t)), (''mandate_id'', JStr (tx_mandate_id t)),
      (''amount_paise'', JInt (tx_amount_paise t)), (''currency'', JStr (currency_value (tx_currency t))),
      (''cart_hash'', JStr (or_else (tx_cart_hash t) None (prop_cart_hash p))),
      (''operation'', JStr (mcp_value (prop_operation p)))]"

definition execution_key :: "Transaction \<Rightarrow> ExecuteProposal \<Rightarrow> string" where
  "execution_key t p = text_or (Some (prop_idempotency_key p)) (''exec:'' @ tx_transaction_id t)"

definition replayed_success :: "string \<Rightarrow> string option \<Rightarrow> msg \<Rightarrow> datetime \<Rightarrow> ExecutionResult" where
  "replayed_success tid ref m now = reconciliation_result True tid TransactionState.COMMITTED
     (Some (text_or ref (''pay_'' @ take 8 tid))) None None m True (Some PaymentResultState.SUCCESS) now"

definition execution_outbox_payload :: "Transaction \<Rightarrow> string option \<Rightarrow> json" where
  "execution_outbox_payload t ref = JObj
     [(''transaction_id'', JStr (tx_transaction_id t)), (''merchant_id'', JStr (tx_merchant_id t)),
      (''amount_paise'', JInt (tx_amount_paise t)), (''provider_reference'', json_opt ref)]"

section \<open>Recording the provider's answer\<close>

definition record_success ::
  "Accepts \<Rightarrow> Transaction \<Rightarrow> AttemptRow \<Rightarrow> ExecutionResult \<Rightarrow> string \<Rightarrow> datetime \<Rightarrow>
   (PaymentDb, ExecutionResult) prog" where
  "record_success c t claim answer ouid now =
     (let tid = tx_transaction_id t; ref = exr_external_reference answer in
      then_do (on_transactions (record_provider_outcome tid ''SUCCESS'' ref now)) (\<lambda>_.
      then_do (on_transactions (transition_transaction_state tid (State TransactionState.COMMITTED) now)) (\<lambda>_.
      then_do (on_attempts (record_outcome (at_attempt_id claim) ''SUCCESS'' ref now)) (\<lambda>_.
      then_do (on_outbox (outbox_create_event (acc_outbox c) ''PAYMENT_COMMITTED'' ''TRANSACTION'' tid
        (execution_outbox_payload t ref) None ouid now)) (\<lambda>_.
        ret \<lparr>exr_success = True, exr_transaction_id = tid, exr_state = TransactionState.COMMITTED,
          exr_external_reference = ref, exr_failure_code = None, exr_failure_category = None,
          exr_safe_message = exr_safe_message answer, exr_idempotent_replay = False,
          exr_provider_status = Some PaymentResultState.SUCCESS,
          exr_raw_response_redacted = exr_raw_response_redacted answer,
          exr_executed_at = exr_executed_at answer\<rparr>)))))"

definition record_unknown ::
  "Transaction \<Rightarrow> AttemptRow \<Rightarrow> ExecutionResult \<Rightarrow> datetime \<Rightarrow> (PaymentDb, ExecutionResult) prog" where
  "record_unknown t claim answer now =
     (let tid = tx_transaction_id t; ref = exr_external_reference answer in
      then_do (on_transactions (record_provider_outcome tid ''UNKNOWN'' ref now)) (\<lambda>_.
      then_do (on_attempts (record_outcome (at_attempt_id claim) ''UNKNOWN'' ref now)) (\<lambda>_.
        ret \<lparr>exr_success = False, exr_transaction_id = tid, exr_state = TransactionState.EXECUTING,
          exr_external_reference = ref,
          exr_failure_code = Some (option_or (exr_failure_code answer) AUTHORIZATION_EXPIRED),
          exr_failure_category = Some (option_or (exr_failure_category answer) TIMEOUT),
          exr_safe_message = msg_or (Some (exr_safe_message answer)) (Msg ''Outcome UNKNOWN.'' []),
          exr_idempotent_replay = False, exr_provider_status = Some UNKNOWN,
          exr_raw_response_redacted = exr_raw_response_redacted answer,
          exr_executed_at = exr_executed_at answer\<rparr>)))"

definition record_decline ::
  "Accepts \<Rightarrow> Transaction \<Rightarrow> AttemptRow \<Rightarrow> ExecutionResult \<Rightarrow> string \<Rightarrow> datetime \<Rightarrow>
   (PaymentDb, ExecutionResult) prog" where
  "record_decline c t claim answer ouid now =
     (let tid = tx_transaction_id t; ref = exr_external_reference answer in
      then_do (on_transactions (record_provider_outcome tid ''FAILED'' ref now)) (\<lambda>_.
      then_do (on_transactions (transition_transaction_state tid (State FAILURE) now)) (\<lambda>_.
      then_do (on_transactions (transition_transaction_state tid (State ROLLED_BACK) now)) (\<lambda>_.
      then_do (on_attempts (record_outcome (at_attempt_id claim) ''FAILED'' ref now)) (\<lambda>_.
      then_do (on_outbox (outbox_create_event (acc_outbox c) ''PAYMENT_ROLLED_BACK'' ''TRANSACTION'' tid
        (execution_outbox_payload t ref) None ouid now)) (\<lambda>_.
        ret \<lparr>exr_success = False, exr_transaction_id = tid, exr_state = ROLLED_BACK,
          exr_external_reference = ref,
          exr_failure_code = Some (option_or (exr_failure_code answer) METHOD_NOT_AUTHORIZED),
          exr_failure_category = exr_failure_category answer, exr_safe_message = exr_safe_message answer,
          exr_idempotent_replay = False,
          exr_provider_status = Some (option_or (exr_provider_status answer) PaymentResultState.FAILED),
          exr_raw_response_redacted = exr_raw_response_redacted answer,
          exr_executed_at = exr_executed_at answer\<rparr>))))))"

definition record_answer ::
  "Accepts \<Rightarrow> Transaction \<Rightarrow> AttemptRow \<Rightarrow> ExecutionResult \<Rightarrow> string \<Rightarrow> datetime \<Rightarrow>
   (PaymentDb, ExecutionResult) prog" where
  "record_answer c t claim answer ouid now =
     (if exr_success answer then record_success c t claim answer ouid now
      else if exr_provider_status answer = Some UNKNOWN then record_unknown t claim answer now
      else record_decline c t claim answer ouid now)"

section \<open>The call of the provider\<close>

definition async_dispatch ::
  "(TrustedExecutionRequest \<Rightarrow> ExecutionResult res) \<Rightarrow> Accepts \<Rightarrow> ExecuteProposal \<Rightarrow> AuthorizationResult \<Rightarrow>
   Transaction \<Rightarrow> AttemptRow \<Rightarrow> string \<Rightarrow> datetime \<Rightarrow> (AsyncState, ExecutionResult) prog" where
  \<comment> \<open>the \<open>try\<close> block, whose \<open>finally\<close> leaves the set of transactions in flight\<close>
  "async_dispatch pay c p a t claim ouid now s =
     (let tid = tx_transaction_id t;
          req = (trusted_request t p a)\<lparr>ter_idempotency_key := execution_key t p\<rparr>;
          sent = (as_service s)\<lparr>pes_sent := pes_sent (as_service s) @ [req]\<rparr>;
          left = as_in_flight s - {tid}
      in case then_do (of_res (pay req)) (\<lambda>answer. record_answer c t claim answer ouid now) (as_db s) of
           (Inl e, d) \<Rightarrow> (Inl e, s\<lparr>as_service := sent, as_in_flight := left, as_db := d\<rparr>)
         | (Inr r, d) \<Rightarrow> (Inr r, s\<lparr>as_service := sent\<lparr>pes_results := (pes_results sent)(tid \<mapsto> r)\<rparr>,
             as_in_flight := left, as_db := d\<rparr>))"

fun poll_results :: "nat \<Rightarrow> (nat \<Rightarrow> ExecutionResult option) \<Rightarrow> nat \<Rightarrow> ExecutionResult option" where
  \<comment> \<open>the checks \<open>i\<close>, \<open>i + 1\<close>, ... of the waiting loop, with the rounds that are left\<close>
  "poll_results i polled 0 = polled i"
| "poll_results i polled (Suc n) =
     (case polled i of Some r \<Rightarrow> Some r | None \<Rightarrow> poll_results (Suc i) polled n)"

definition claimed_execution ::
  "(TrustedExecutionRequest \<Rightarrow> ExecutionResult res) \<Rightarrow> Accepts \<Rightarrow> (nat \<Rightarrow> ExecutionResult option) \<Rightarrow>
   ExecuteProposal \<Rightarrow> AuthorizationResult \<Rightarrow> Transaction \<Rightarrow> AttemptRow \<Rightarrow> bool \<Rightarrow> string \<Rightarrow> datetime \<Rightarrow>
   (AsyncState, ExecutionResult) prog" where
  \<comment> \<open>after the claim: an existing claim is answered, otherwise the first caller dispatches\<close>
  "claimed_execution pay c polled p a t claim existing ouid now s =
     (let tid = tx_transaction_id t; cached = pes_results (as_service s) tid in
      if existing \<and> at_status claim = ''SUCCESS'' then
        (Inr (replayed_success tid (at_provider_reference claim)
           (Msg ''Payment previously executed successfully.'' []) now), s)
      else if existing \<and> at_status claim \<in> {''CLAIMED'', ''DISPATCHED'', ''UNKNOWN''} then
        (Inr (option_or cached (replayed_success tid (at_provider_reference claim)
           (Msg ''Execution attempt in-flight or previously dispatched.'' []) now)), s)
      else case cached of
        Some r \<Rightarrow> (Inr r, s)
      | None \<Rightarrow>
          if tid \<notin> as_in_flight s then
            async_dispatch pay c p a t claim ouid now (s\<lparr>as_in_flight := insert tid (as_in_flight s)\<rparr>)
          else
            (Inr (option_or (poll_results 0 polled 50) (replayed_success tid (at_provider_reference claim)
               (Msg ''Execution attempt in-flight by parallel worker.'' []) now)), s))"

definition execute_open ::
  "(string \<Rightarrow> string) \<Rightarrow> (TrustedExecutionRequest \<Rightarrow> ExecutionResult res) \<Rightarrow> Accepts \<Rightarrow> PaymentDb \<Rightarrow>
   (nat \<Rightarrow> ExecutionResult option) \<Rightarrow> ExecuteProposal \<Rightarrow> AuthorizationResult \<Rightarrow> Transaction \<Rightarrow> string \<Rightarrow>
   string \<Rightarrow> datetime \<Rightarrow> (AsyncState, ExecutionResult) prog" where
  \<comment> \<open>the gates and the claim, for a transaction that is not stored as committed\<close>
  "execute_open sha pay c base polled p a t uid ouid now =
     (let tid = tx_transaction_id t;
          rejected = (\<lambda>rej. then_do (reject_async t rej now) (\<lambda>r.
            then_do (on_db (on_transactions (transition_transaction_state tid (State TransactionState.REJECTED) now)))
              (\<lambda>_. ret r)))
      in case verify_pre_execution_auth a of
        Some rej \<Rightarrow> rejected rej
      | None \<Rightarrow>
          (case verify_context_and_operation p t of
             Some rej \<Rightarrow> rejected rej
           | None \<Rightarrow>
               if \<not> is_executable t then
                 reject_async t (INVALID_TRANSACTION_STATE, INVALID_CONTEXT,
                   Msg ''Transaction in state {} cannot be executed.'' [PStr (txn_state_value (tx_state t))]) now
               else
                 then_do (on_db (on_transactions (mark_provider_dispatch_started tid None now))) (\<lambda>_.
                 then_do (on_db (claim_attempt c base tid (tx_merchant_id t) (execution_key t p)
                   (compute_payload_fingerprint sha (execution_payload t p)) None uid now)) (\<lambda>(claim, existing).
                   claimed_execution pay c polled p a t claim existing ouid now))))"

definition async_execute_payment ::
  "(string \<Rightarrow> string) \<Rightarrow> (TrustedExecutionRequest \<Rightarrow> ExecutionResult res) \<Rightarrow> Accepts \<Rightarrow> PaymentDb \<Rightarrow>
   (nat \<Rightarrow> ExecutionResult option) \<Rightarrow> ExecuteProposal \<Rightarrow> AuthorizationResult \<Rightarrow> Transaction \<Rightarrow> string \<Rightarrow>
   string \<Rightarrow> datetime \<Rightarrow> (AsyncState, ExecutionResult) prog" where
  \<comment> \<open>\<open>uid\<close> and \<open>ouid\<close> are the fresh suffix of the attempt and the fresh outbox identifier\<close>
  "async_execute_payment sha pay c base polled p a t uid ouid now =
     (let tid = tx_transaction_id t in
      then_do (read_st (\<lambda>s. repo_get_transaction (pd_transactions (as_db s)) tid)) (\<lambda>stored.
      case stored of
        Some r \<Rightarrow>
          if tr_state r \<in> {txn_state_value TransactionState.COMMITTED, txn_state_value TransactionState.SUCCESS} then
            ret (replayed_success tid (tr_provider_payment_id r)
              (Msg ''Payment previously executed successfully.'' []) now)
          else execute_open sha pay c base polled p a t uid ouid now
      | None \<Rightarrow> execute_open sha pay c base polled p a t uid ouid now))"

section \<open>The unit of work\<close>

definition unit_of_work :: "(AsyncState, 'a) prog \<Rightarrow> (AsyncState, 'a) prog" where
  "unit_of_work m = transactional as_db (\<lambda>d s. s\<lparr>as_db := d\<rparr>) m"

section \<open>What a call does\<close>

definition claim_row ::
  "(string \<Rightarrow> string) \<Rightarrow> Transaction \<Rightarrow> ExecuteProposal \<Rightarrow> string \<Rightarrow> datetime \<Rightarrow> AttemptRow" where
  "claim_row sha t p uid now =
     new_attempt (tx_transaction_id t) (tx_merchant_id t) (execution_key t p)
       (compute_payload_fingerprint sha (execution_payload t p)) None uid now"

definition ready_to_execute ::
  "(string \<Rightarrow> string) \<Rightarrow> Accepts \<Rightarrow> AsyncState \<Rightarrow> ExecuteProposal \<Rightarrow> AuthorizationResult \<Rightarrow> Transaction \<Rightarrow>
   TransactionRow \<Rightarrow> string \<Rightarrow> datetime \<Rightarrow> bool" where
  \<comment> \<open>the gates pass, the stored transaction is AUTHORIZED, nothing was claimed or cached for it\<close>
  "ready_to_execute sha c s p a t r uid now \<longleftrightarrow> execution_cleared p a t \<and>
     row_of (pd_transactions (as_db s)) (tx_transaction_id t) = Some r \<and>
     tr_transaction_id r = tx_transaction_id t \<and> tr_state r = txn_state_value TransactionState.AUTHORIZED \<and>
     \<not> blank (tx_transaction_id t) \<and> \<not> blank (tx_merchant_id t) \<and> \<not> blank (execution_key t p) \<and>
     get_attempt_by_key (pd_attempts (as_db s)) (strip (tx_merchant_id t)) (strip (execution_key t p)) = Inr None \<and>
     acc_attempts c (pd_attempts (as_db s)) (claim_row sha t p uid now) \<and>
     pes_results (as_service s) (tx_transaction_id t) = None \<and> tx_transaction_id t \<notin> as_in_flight s"

definition dispatched_row :: "TransactionRow \<Rightarrow> datetime \<Rightarrow> TransactionRow" where
  "dispatched_row r now = r\<lparr>tr_state := txn_state_value TransactionState.EXECUTING, tr_updated_at := now,
     tr_provider_status := Some ''DISPATCHED''\<rparr>"

definition dispatched_db ::
  "(string \<Rightarrow> string) \<Rightarrow> PaymentDb \<Rightarrow> ExecuteProposal \<Rightarrow> Transaction \<Rightarrow> TransactionRow \<Rightarrow> string \<Rightarrow> datetime \<Rightarrow>
   PaymentDb" where
  \<comment> \<open>the database at the moment of the provider's call\<close>
  "dispatched_db sha d p t r uid now =
     d\<lparr>pd_transactions := put_row (tx_transaction_id t) (dispatched_row r now) (pd_transactions d),
       pd_attempts := put_row (at_attempt_id (claim_row sha t p uid now)) (claim_row sha t p uid now) (pd_attempts d)\<rparr>"

definition sent_request :: "ExecuteProposal \<Rightarrow> AuthorizationResult \<Rightarrow> Transaction \<Rightarrow> TrustedExecutionRequest" where
  "sent_request p a t = (trusted_request t p a)\<lparr>ter_idempotency_key := execution_key t p\<rparr>"

lemma ready_dispatches:
  assumes "ready_to_execute sha c s p a t r uid now"
  shows "async_execute_payment sha pay c base polled p a t uid ouid now s =
    async_dispatch pay c p a t (claim_row sha t p uid now) ouid now
      (s\<lparr>as_db := dispatched_db sha (as_db s) p t r uid now,
         as_in_flight := insert (tx_transaction_id t) (as_in_flight s)\<rparr>)"
proof -
  let ?tid = "tx_transaction_id t"
  note r = assms [unfolded ready_to_execute_def execution_cleared_def]
  have opened: "async_execute_payment sha pay c base polled p a t uid ouid now s =
      execute_open sha pay c base polled p a t uid ouid now s"
    using r by (simp add: async_execute_payment_def repo_get_transaction_def Let_def del: txn_state_value.simps)
  have st: "txn_state_of (tr_state r) = Some TransactionState.AUTHORIZED"
    using r by (simp del: txn_state_value.simps)
  have mark: "mark_provider_dispatch_started ?tid None now (pd_transactions (as_db s)) =
      (Inr (dispatched_row r now), put_row ?tid (dispatched_row r now) (pd_transactions (as_db s)))"
    unfolding dispatched_row_def using r st by (intro dispatch_moves) simp_all
  have mark': "on_db (on_transactions (mark_provider_dispatch_started ?tid None now)) s = (Inr (dispatched_row r now),
      s\<lparr>as_db := (as_db s)\<lparr>pd_transactions := put_row ?tid (dispatched_row r now) (pd_transactions (as_db s))\<rparr>\<rparr>)"
    by (simp add: on_db_def on_transactions_def zoom_def mark)
  have claim: "on_db (claim_attempt c base ?tid (tx_merchant_id t) (execution_key t p)
      (compute_payload_fingerprint sha (execution_payload t p)) None uid now) (s\<lparr>as_db := (as_db s)\<lparr>pd_transactions := x\<rparr>\<rparr>) =
    (Inr (claim_row sha t p uid now, False), s\<lparr>as_db := (as_db s)\<lparr>pd_transactions := x, pd_attempts :=
       put_row (at_attempt_id (claim_row sha t p uid now)) (claim_row sha t p uid now) (pd_attempts (as_db s))\<rparr>\<rparr>)" for x
    using r by (simp add: on_db_def zoom_def claim_attempt_def then_do_def on_attempts_def insert_row_def claim_row_def)
  have "execute_open sha pay c base polled p a t uid ouid now s =
      claimed_execution pay c polled p a t (claim_row sha t p uid now) False ouid now
        (s\<lparr>as_db := dispatched_db sha (as_db s) p t r uid now\<rparr>)"
    using r by (simp add: execute_open_def then_do_def mark' claim dispatched_db_def Let_def)
  also have "\<dots> = async_dispatch pay c p a t (claim_row sha t p uid now) ouid now
      (s\<lparr>as_db := dispatched_db sha (as_db s) p t r uid now, as_in_flight := insert ?tid (as_in_flight s)\<rparr>)"
    using r by (simp add: claimed_execution_def Let_def)
  finally show ?thesis using opened by simp
qed

lemma dispatched_in_flight:
  "tr_transaction_id r = tx_transaction_id t \<Longrightarrow>
     in_flight (dispatched_db sha d p t r uid now) (tx_transaction_id t) (dispatched_row r now)"
  by (simp add: in_flight_def dispatched_db_def dispatched_row_def)

lemma record_in_flight_opt:
  assumes "in_flight d tid r" and "outcome_state status = Some st"
  shows "\<exists>q. on_transactions (record_provider_outcome tid status ref now) d =
      (Inr q, d\<lparr>pd_transactions := put_row tid q (pd_transactions d)\<rparr>) \<and>
    tr_transaction_id q = tid \<and> txn_state_of (tr_state q) = Some st \<and>
    q = r\<lparr>tr_provider_payment_id := opt_update ref (tr_provider_payment_id r), tr_provider_status := Some status,
      tr_state := txn_state_value st, tr_updated_at := now\<rparr>"
  using outcome_moves [OF in_flightD(1-3) [OF assms(1)] assms(2), of ref now] in_flightD(2) [OF assms(1)]
  by (simp add: on_transactions_def zoom_def del: txn_state_value.simps)

lemma decline_raises:
  assumes "in_flight d (tx_transaction_id t) r"
  shows "\<exists>d'. record_decline c t claim answer ouid now d = (Inl (transaction_state_error FAILURE FAILURE), d')"
proof -
  let ?tid = "tx_transaction_id t"
  obtain q where q: "on_transactions (record_provider_outcome ?tid ''FAILED'' (exr_external_reference answer) now) d =
      (Inr q, d\<lparr>pd_transactions := put_row ?tid q (pd_transactions d)\<rparr>)" "txn_state_of (tr_state q) = Some FAILURE"
    using record_in_flight_opt [OF assms provider_words(2)] by blast
  have "transition_transaction_state ?tid (State FAILURE) now (put_row ?tid q (pd_transactions d)) =
      (Inl (transaction_state_error FAILURE FAILURE), put_row ?tid q (pd_transactions d))"
    by (rule transition_illegal [OF _ q(2)]) (simp_all add: can_transition_to_def)
  then show ?thesis by (simp add: record_decline_def then_do_def q(1) on_transactions_def [of "transition_transaction_state _ _ _"]
        zoom_def Let_def)
qed

definition declines :: "ExecutionResult \<Rightarrow> bool" where
  "declines answer \<longleftrightarrow> \<not> exr_success answer \<and> exr_provider_status answer \<noteq> Some UNKNOWN"

lemma declined_call:
  assumes "ready_to_execute sha c s p a t r uid now" and "pay (sent_request p a t) = Inr answer" and "declines answer"
  shows "unit_of_work (async_execute_payment sha pay c base polled p a t uid ouid now) s =
    (Inl (transaction_state_error FAILURE FAILURE), s\<lparr>as_service := (as_service s)\<lparr>pes_sent :=
       pes_sent (as_service s) @ [sent_request p a t]\<rparr>\<rparr>)"
proof -
  note r = assms(1) [unfolded ready_to_execute_def]
  have "in_flight (dispatched_db sha (as_db s) p t r uid now) (tx_transaction_id t) (dispatched_row r now)"
    using r by (intro dispatched_in_flight) simp
  from decline_raises [OF this] obtain d' where "record_decline c t (claim_row sha t p uid now) answer ouid now
      (dispatched_db sha (as_db s) p t r uid now) = (Inl (transaction_state_error FAILURE FAILURE), d')" by blast
  then show ?thesis using assms(2,3) r unfolding unit_of_work_def transactional_def ready_dispatches [OF assms(1)]
    by (simp add: async_dispatch_def sent_request_def record_answer_def declines_def Let_def)
qed

section \<open>What a call may send\<close>

abbreviation sent_by :: "AsyncState \<Rightarrow> TrustedExecutionRequest list" where
  "sent_by s \<equiv> pes_sent (as_service s)"

lemma on_db_frame:
  "as_service (snd (on_db m s)) = as_service s" "as_in_flight (snd (on_db m s)) = as_in_flight s"
  by (simp_all add: on_db_def zoom_def split: prod.split)

lemma reject_async_run:
  "\<exists>s'. reject_async t rej now s = (Inr (reject_result (tx_transaction_id t) (fst rej) (fst (snd rej)) (snd (snd rej)) now), s') \<and>
     sent_by s' = sent_by s \<and> as_db s' = as_db s \<and>
     pes_results (as_service s') (tx_transaction_id t) =
       Some (reject_result (tx_transaction_id t) (fst rej) (fst (snd rej)) (snd (snd rej)) now)"
proof -
  obtain reason category m where rej: "rej = (reason, category, m)" by (cases rej)
  obtain r svc where "reject_execution (as_service s) t reason category m now = (r, svc)"
    by (cases "reject_execution (as_service s) t reason category m now")
  then show ?thesis using reject_execution_effect [of "as_service s" t reason category m now] rej
    by (simp add: reject_async_def)
qed

lemma async_dispatch_sends:
  "sent_by (snd (async_dispatch pay c p a t claim ouid now s)) = sent_by s @ [sent_request p a t]"
  by (simp add: async_dispatch_def sent_request_def Let_def split: prod.split sum.split)

lemma ready_sends:
  "ready_to_execute sha c s p a t r uid now \<Longrightarrow>
     sent_by (snd (async_execute_payment sha pay c base polled p a t uid ouid now s)) = sent_by s @ [sent_request p a t]"
  by (simp add: ready_dispatches async_dispatch_sends)

lemma claimed_execution_sends:
  "sent_by (snd (claimed_execution pay c polled p a t claim existing ouid now s)) = sent_by s \<or>
   sent_by (snd (claimed_execution pay c polled p a t claim existing ouid now s)) = sent_by s @ [sent_request p a t] \<and>
     pes_results (as_service s) (tx_transaction_id t) = None"
  by (simp add: claimed_execution_def async_dispatch_sends Let_def split: option.split)

lemma execute_open_sends:
  assumes "sent_by (snd (execute_open sha pay c base polled p a t uid ouid now s)) \<noteq> sent_by s"
  shows "sent_by (snd (execute_open sha pay c base polled p a t uid ouid now s)) = sent_by s @ [sent_request p a t] \<and>
    execution_cleared p a t \<and>
    (\<exists>r. row_of (pd_transactions (as_db s)) (tx_transaction_id t) = Some r \<and>
      txn_state_of (tr_state r) = Some TransactionState.AUTHORIZED) \<and>
    pes_results (as_service s) (tx_transaction_id t) = None"
proof -
  let ?tid = "tx_transaction_id t"
  let ?mark = "on_db (on_transactions (mark_provider_dispatch_started ?tid None now))"
  let ?claim = "on_db (claim_attempt c base ?tid (tx_merchant_id t) (execution_key t p)
    (compute_payload_fingerprint sha (execution_payload t p)) None uid now)"
  have rejected: "sent_by (snd (then_do (reject_async t rej now) (\<lambda>r. then_do (on_db m) (\<lambda>_. ret r)) s)) = sent_by s"
    for rej and m :: "(PaymentDb, TransactionRow) prog"
    using reject_async_run [of t rej now s] on_db_frame(1) [of m]
    by (auto simp: then_do_def split: prod.split sum.split) (metis snd_conv)+
  have cleared: "execution_cleared p a t"
    using assms rejected reject_async_run [of t _ now s]
    by (auto simp: execute_open_def execution_cleared_def Let_def split: option.splits if_splits) (metis snd_conv)+
  then have open': "execute_open sha pay c base polled p a t uid ouid now s = then_do ?mark (\<lambda>_. then_do ?claim
      (\<lambda>(claim, existing). claimed_execution pay c polled p a t claim existing ouid now)) s"
    by (simp add: execute_open_def execution_cleared_def Let_def)
  obtain x s1 where mark: "?mark s = (x, s1)" by (cases "?mark s")
  then have s1: "as_service s1 = as_service s" using on_db_frame(1) [of _ s] by (metis snd_conv)
  obtain q where q: "x = Inr q" using assms mark s1 unfolding open' by (cases x) (auto simp: then_do_def)
  obtain y s2 where claim: "?claim s1 = (y, s2)" by (cases "?claim s1")
  then have s2: "as_service s2 = as_service s" using on_db_frame(1) [of _ s1] s1 by (metis snd_conv)
  obtain r e where y: "y = Inr (r, e)" using assms mark q claim s2 unfolding open' by (cases y) (auto simp: then_do_def)
  have run: "execute_open sha pay c base polled p a t uid ouid now s = claimed_execution pay c polled p a t r e ouid now s2"
    unfolding open' by (simp add: then_do_def mark q claim y)
  have "mark_provider_dispatch_started ?tid None now (pd_transactions (as_db s)) = (Inr q, pd_transactions (as_db s1))"
    using mark q by (auto simp: on_db_def on_transactions_def zoom_def split: prod.splits)
  then have "\<exists>r. row_of (pd_transactions (as_db s)) ?tid = Some r \<and> txn_state_of (tr_state r) = Some TransactionState.AUTHORIZED"
    by (rule dispatch_needs_authorized)
  then show ?thesis using assms cleared claimed_execution_sends [of pay c polled p a t r e ouid now s2] s2
    unfolding run by auto
qed

section \<open>A paid call\<close>

definition paid_result :: "Transaction \<Rightarrow> ExecutionResult \<Rightarrow> ExecutionResult" where
  "paid_result t answer = answer\<lparr>exr_success := True, exr_transaction_id := tx_transaction_id t,
     exr_state := TransactionState.COMMITTED, exr_failure_code := None, exr_failure_category := None,
     exr_idempotent_replay := False, exr_provider_status := Some PaymentResultState.SUCCESS\<rparr>"

lemma record_success_effect:
  assumes "in_flight d (tx_transaction_id t) r"
    and "row_of (pd_attempts d) (strip (at_attempt_id claim)) = Some claim"
    and "acc_outbox c (pd_outbox d) (outbox_row ''PAYMENT_COMMITTED'' ''TRANSACTION'' (tx_transaction_id t)
      (execution_outbox_payload t (exr_external_reference answer)) None ouid now)"
  shows "\<exists>d' q n. record_success c t claim answer ouid now d = (Inr (paid_result t answer), d') \<and>
    row_of (pd_transactions d') (tx_transaction_id t) = Some q \<and>
    tr_state q = txn_state_value TransactionState.COMMITTED \<and>
    row_of (pd_attempts d') (strip (at_attempt_id claim)) = Some n \<and> at_status n = ''SUCCESS'' \<and>
    row_of (pd_outbox d') ouid = Some (outbox_row ''PAYMENT_COMMITTED'' ''TRANSACTION'' (tx_transaction_id t)
      (execution_outbox_payload t (exr_external_reference answer)) None ouid now)"
proof -
  let ?tid = "tx_transaction_id t" and ?ref = "exr_external_reference answer"
  obtain q where q: "on_transactions (record_provider_outcome ?tid ''SUCCESS'' ?ref now) d =
      (Inr q, d\<lparr>pd_transactions := put_row ?tid q (pd_transactions d)\<rparr>)" "tr_transaction_id q = ?tid"
    "txn_state_of (tr_state q) = Some TransactionState.SUCCESS"
    using record_in_flight_opt [OF assms(1) provider_words(1)] by blast
  obtain q' where q': "transition_transaction_state ?tid (State TransactionState.COMMITTED) now
      (put_row ?tid q (pd_transactions d)) = (Inr q', put_row ?tid q' (put_row ?tid q (pd_transactions d)))"
    "tr_state q' = txn_state_value TransactionState.COMMITTED"
    using transition_moves [of "put_row ?tid q (pd_transactions d)" ?tid q TransactionState.SUCCESS
        TransactionState.COMMITTED now] q(2,3)
    by (simp add: can_transition_to_def txn_is_terminal_def del: txn_state_value.simps)
  obtain n where n: "record_outcome (at_attempt_id claim) ''SUCCESS'' ?ref now (pd_attempts d) =
      (Inr n, put_row (strip (at_attempt_id claim)) n (pd_attempts d))" "at_status n = ''SUCCESS''"
    using assms(2) by (simp add: record_outcome_def lock_attempt_for_update_def Let_def)
  have "outbox_create_event (acc_outbox c) ''PAYMENT_COMMITTED'' ''TRANSACTION'' ?tid
      (execution_outbox_payload t ?ref) None ouid now (pd_outbox d) =
    (Inr (outbox_row ''PAYMENT_COMMITTED'' ''TRANSACTION'' ?tid (execution_outbox_payload t ?ref) None ouid now),
     put_row ouid (outbox_row ''PAYMENT_COMMITTED'' ''TRANSACTION'' ?tid (execution_outbox_payload t ?ref) None ouid now)
       (pd_outbox d))"
    using assms(3) by (simp add: outbox_create_event_def then_do_def insert_row_def Let_def outbox_row_def)
  then show ?thesis
    by (simp add: record_success_def then_do_def Let_def q(1) on_transactions_def [of "transition_transaction_state _ _ _"]
        on_attempts_def on_outbox_def zoom_def q' n paid_result_def del: txn_state_value.simps)
qed

lemma paid_call:
  assumes "ready_to_execute sha c s p a t r uid now" and "pay (sent_request p a t) = Inr answer" and "exr_success answer"
    and "strip (at_attempt_id (claim_row sha t p uid now)) = at_attempt_id (claim_row sha t p uid now)"
    and "acc_outbox c (pd_outbox (as_db s)) (outbox_row ''PAYMENT_COMMITTED'' ''TRANSACTION'' (tx_transaction_id t)
      (execution_outbox_payload t (exr_external_reference answer)) None ouid now)"
  shows "\<exists>s' q n. unit_of_work (async_execute_payment sha pay c base polled p a t uid ouid now) s =
      (Inr (paid_result t answer), s') \<and>
    pes_sent (as_service s') = pes_sent (as_service s) @ [sent_request p a t] \<and>
    row_of (pd_transactions (as_db s')) (tx_transaction_id t) = Some q \<and>
    tr_state q = txn_state_value TransactionState.COMMITTED \<and>
    row_of (pd_attempts (as_db s')) (at_attempt_id (claim_row sha t p uid now)) = Some n \<and> at_status n = ''SUCCESS'' \<and>
    row_of (pd_outbox (as_db s')) ouid = Some (outbox_row ''PAYMENT_COMMITTED'' ''TRANSACTION'' (tx_transaction_id t)
      (execution_outbox_payload t (exr_external_reference answer)) None ouid now)"
proof -
  let ?d = "dispatched_db sha (as_db s) p t r uid now" and ?claim = "claim_row sha t p uid now"
  note r = assms(1) [unfolded ready_to_execute_def]
  have fl: "in_flight ?d (tx_transaction_id t) (dispatched_row r now)"
    using r by (intro dispatched_in_flight) simp
  have att: "row_of (pd_attempts ?d) (strip (at_attempt_id ?claim)) = Some ?claim"
    using assms(4) by (simp add: dispatched_db_def)
  have acc: "acc_outbox c (pd_outbox ?d) (outbox_row ''PAYMENT_COMMITTED'' ''TRANSACTION'' (tx_transaction_id t)
      (execution_outbox_payload t (exr_external_reference answer)) None ouid now)"
    using assms(5) by (simp add: dispatched_db_def)
  obtain d' q n where run: "record_success c t ?claim answer ouid now ?d = (Inr (paid_result t answer), d')"
    and rows: "row_of (pd_transactions d') (tx_transaction_id t) = Some q" "tr_state q = txn_state_value TransactionState.COMMITTED"
      "row_of (pd_attempts d') (at_attempt_id ?claim) = Some n" "at_status n = ''SUCCESS''"
      "row_of (pd_outbox d') ouid = Some (outbox_row ''PAYMENT_COMMITTED'' ''TRANSACTION'' (tx_transaction_id t)
        (execution_outbox_payload t (exr_external_reference answer)) None ouid now)"
    using record_success_effect [OF fl att acc] unfolding assms(4) by blast
  have "async_dispatch pay c p a t ?claim ouid now (s\<lparr>as_db := ?d, as_in_flight := insert (tx_transaction_id t) (as_in_flight s)\<rparr>) =
      (Inr (paid_result t answer), \<lparr>as_service = (as_service s)\<lparr>pes_sent := pes_sent (as_service s) @ [sent_request p a t],
         pes_results := (pes_results (as_service s))(tx_transaction_id t \<mapsto> paid_result t answer)\<rparr>,
       as_in_flight = as_in_flight s - {tx_transaction_id t}, as_db = d'\<rparr>)"
    using assms(2,3) by (simp add: async_dispatch_def sent_request_def record_answer_def run Let_def)
  then show ?thesis using rows by (simp add: unit_of_work_def transactional_def ready_dispatches [OF assms(1)])
qed

lemma committed_call:
  assumes "row_of (pd_transactions (as_db s)) (tx_transaction_id t) = Some q"
    and "tr_state q = txn_state_value TransactionState.COMMITTED"
  shows "\<exists>x. unit_of_work (async_execute_payment sha pay c base polled p a t uid ouid now) s = (Inr x, s) \<and> exr_idempotent_replay x"
  using assms by (simp add: unit_of_work_def transactional_def async_execute_payment_def repo_get_transaction_def Let_def
      replayed_success_def reconciliation_result_def del: txn_state_value.simps)

section \<open>Properties\<close>

text \<open>C3: What a call may send: whenever a call of \<open>async_execute_payment\<close> makes the provider receive
  anything, it received exactly one request, with the amount, parties and operation that the authorized
  transaction and the proposal agree on; every gate passed, the stored transaction was AUTHORIZED, and
  no result was cached for it.\<close>

theorem async_send_guarded:
  assumes "async_execute_payment sha pay c base polled p a t uid ouid now s = (out, s')"
    and "pes_sent (as_service s') \<noteq> pes_sent (as_service s)"
  shows "pes_sent (as_service s') = pes_sent (as_service s) @ [sent_request p a t] \<and> execution_cleared p a t \<and>
    (\<exists>r. row_of (pd_transactions (as_db s)) (tx_transaction_id t) = Some r \<and>
      txn_state_of (tr_state r) = Some TransactionState.AUTHORIZED) \<and>
    pes_results (as_service s) (tx_transaction_id t) = None"
proof -
  have open': "async_execute_payment sha pay c base polled p a t uid ouid now s =
      execute_open sha pay c base polled p a t uid ouid now s"
    using assms by (auto simp: async_execute_payment_def Let_def simp del: txn_state_value.simps
        split: option.splits if_splits)
  from execute_open_sends [of sha pay c base polled p a t uid ouid now s] assms show ?thesis
    unfolding open' by simp
qed

text \<open>A declined payment is sent again: when the provider declines, recording the decline raises (the
  transaction is moved to FAILURE twice), the unit of work rolls everything back, and the stored
  transaction is AUTHORIZED as before with nothing remembered of the attempt; \<open>n\<close> calls send the
  same request \<open>n\<close> times.\<close>

theorem declined_payment_resent:
  assumes "ready_to_execute sha c s p a t r uid now" and "pay (sent_request p a t) = Inr answer" and "declines answer"
  shows "((\<lambda>s. snd (unit_of_work (async_execute_payment sha pay c base polled p a t uid ouid now) s)) ^^ n) s =
    s\<lparr>as_service := (as_service s)\<lparr>pes_sent := pes_sent (as_service s) @ replicate n (sent_request p a t)\<rparr>\<rparr>"
proof (induction n)
  case (Suc n)
  let ?s = "s\<lparr>as_service := (as_service s)\<lparr>pes_sent := pes_sent (as_service s) @ replicate n (sent_request p a t)\<rparr>\<rparr>"
  have "ready_to_execute sha c ?s p a t r uid now" using assms(1) by (simp add: ready_to_execute_def)
  from declined_call [where pay = pay, OF this assms(2,3)] show ?case
    by (simp add: Suc replicate_append_same [symmetric])
qed simp

text \<open>A refused authorization raises: for a stored transaction that is AUTHORIZED, a call that the
  gates refuse does not return its rejection; the move from AUTHORIZED to REJECTED is illegal and the
  call raises, although the service remembers the transaction as rejected.\<close>

theorem refused_execution_raises:
  assumes "row_of (pd_transactions (as_db s)) (tx_transaction_id t) = Some r"
    and "tr_state r = txn_state_value TransactionState.AUTHORIZED"
    and "verify_pre_execution_auth a \<noteq> None \<or> verify_context_and_operation p t \<noteq> None"
  shows "\<exists>s' x. async_execute_payment sha pay c base polled p a t uid ouid now s =
      (Inl (transaction_state_error TransactionState.AUTHORIZED TransactionState.REJECTED), s') \<and>
    pes_results (as_service s') (tx_transaction_id t) = Some x \<and> exr_state x = TransactionState.REJECTED"
proof -
  let ?tid = "tx_transaction_id t"
  obtain rej where rej: "execute_open sha pay c base polled p a t uid ouid now s =
      then_do (reject_async t rej now) (\<lambda>r. then_do (on_db (on_transactions
        (transition_transaction_state ?tid (State TransactionState.REJECTED) now))) (\<lambda>_. ret r)) s"
  proof (cases "verify_pre_execution_auth a")
    case None
    then obtain rej where "verify_context_and_operation p t = Some rej" using assms(3) by blast
    then show ?thesis using None that [of rej] by (simp add: execute_open_def Let_def)
  next
    case (Some rej)
    then show ?thesis using that [of rej] by (simp add: execute_open_def Let_def)
  qed
  obtain x s1 where s1: "reject_async t rej now s = (Inr x, s1)" "as_db s1 = as_db s"
    "pes_results (as_service s1) ?tid = Some x" "exr_state x = TransactionState.REJECTED"
    using reject_async_run [of t rej now s] by (auto simp: reject_result_def)
  have "transition_transaction_state ?tid (State TransactionState.REJECTED) now (pd_transactions (as_db s)) =
      (Inl (transaction_state_error TransactionState.AUTHORIZED TransactionState.REJECTED), pd_transactions (as_db s))"
    by (rule transition_illegal [OF assms(1)]) (simp_all add: assms(2) can_transition_to_def del: txn_state_value.simps)
  then have "execute_open sha pay c base polled p a t uid ouid now s =
      (Inl (transaction_state_error TransactionState.AUTHORIZED TransactionState.REJECTED), s1)"
    unfolding rej by (simp add: then_do_def s1 on_db_def on_transactions_def zoom_def)
  moreover have "async_execute_payment sha pay c base polled p a t uid ouid now s =
      execute_open sha pay c base polled p a t uid ouid now s"
    using assms(1,2) by (simp add: async_execute_payment_def repo_get_transaction_def Let_def del: txn_state_value.simps)
  ultimately show ?thesis using s1(3,4) by simp
qed


section \<open>Instances\<close>

definition open_row :: TransactionRow where
  "open_row = stuck_row\<lparr>tr_state := txn_state_value TransactionState.AUTHORIZED, tr_provider_status := None\<rparr>"

definition open_state :: AsyncState where
  "open_state = \<lparr>as_service = execution_service_init, as_in_flight = {},
     as_db = stuck_db\<lparr>pd_transactions := [(''t'', open_row)]\<rparr>\<rparr>"

abbreviation sample_call ::
  "PaymentResultState \<Rightarrow> int \<Rightarrow> (AsyncState, ExecutionResult) prog" where
  "sample_call st amount \<equiv> async_execute_payment id (\<lambda>_. Inr (sample_answer st)) plain_database (as_db open_state)
     (\<lambda>_. None) (sample_proposal amount) sample_authorization (sample_transaction TransactionState.AUTHORIZED) ''u'' ''o'' 0"

lemma open_ready:
  "ready_to_execute id plain_database open_state (sample_proposal 50) sample_authorization
     (sample_transaction TransactionState.AUTHORIZED) open_row ''u'' 0"
  unfolding ready_to_execute_def
  by (rule conjI [OF sample_cleared])
    (simp add: open_state_def open_row_def stuck_db_def stuck_row_def row_of_def sample_transaction_def
      sample_proposal_def execution_key_def text_or_def blank_def strip_def lstrip_def rstrip_def is_space_def
      get_attempt_by_key_def rows_of_def
      scalar_one_or_none_def plain_database_def free_key_def execution_service_init_def)

lemma open_claim: "at_attempt_id (claim_row id (sample_transaction st) (sample_proposal 50) ''u'' 0) = ''attempt_t_u''"
  by (simp add: claim_row_def new_attempt_def text_or_def sample_transaction_def strip_def lstrip_def rstrip_def is_space_def)

theorem async_send_guarded_witness:
  "\<exists>out s'. sample_call PaymentResultState.SUCCESS 50 open_state = (out, s') \<and>
    sent_by s' = sent_by open_state @ [sent_request (sample_proposal 50) sample_authorization
      (sample_transaction TransactionState.AUTHORIZED)]"
proof -
  obtain out s' where run: "sample_call PaymentResultState.SUCCESS 50 open_state = (out, s')"
    by (cases "sample_call PaymentResultState.SUCCESS 50 open_state")
  have "sent_by s' \<noteq> sent_by open_state"
    using ready_sends [OF open_ready] run by (metis append_self_conv not_Cons_self2 snd_conv)
  from async_send_guarded [OF run this] run show ?thesis by blast
qed

theorem declined_payment_resent_witness:
  "((\<lambda>s. snd (unit_of_work (sample_call PaymentResultState.FAILED 50) s)) ^^ 3) open_state =
    open_state\<lparr>as_service := (as_service open_state)\<lparr>pes_sent := sent_by open_state @ replicate 3
      (sent_request (sample_proposal 50) sample_authorization (sample_transaction TransactionState.AUTHORIZED))\<rparr>\<rparr>"
  by (rule declined_payment_resent [OF open_ready, where answer = "sample_answer PaymentResultState.FAILED"])
    (simp_all add: declines_def sample_answer_def)

theorem refused_execution_raises_witness:
  "\<exists>s' x. sample_call PaymentResultState.SUCCESS 60 open_state =
      (Inl (transaction_state_error TransactionState.AUTHORIZED TransactionState.REJECTED), s') \<and>
    pes_results (as_service s') ''t'' = Some x \<and> exr_state x = TransactionState.REJECTED"
  using refused_execution_raises [where s = open_state and t = "sample_transaction TransactionState.AUTHORIZED" and r = open_row
      and p = "sample_proposal 60" and a = sample_authorization]
  by (simp add: open_state_def open_row_def row_of_def sample_transaction_def sample_proposal_def
      verify_context_and_operation_def del: txn_state_value.simps)


end
