(* ===== verification/Budget_Store.thy ===== *)
theory Budget_Store
  imports Budget Mandate_Store Contracts
begin

text \<open>
  Budgets in the database: the reservation table (\<open>db/models/budget.py\<close>), its repository
  (\<open>db/repository/budget_repository.py\<close>) and the asynchronous methods of \<open>BudgetEngine\<close>
  (\<open>apps/api/domain/budget_engine.py\<close>). The limit of a mandate is a column of its row; what is spent or
  reserved is the sum over its reservations, taken under the lock of the mandate's row, so that one
  call is one step.

  \<open>stored_budgets\<close> interprets \<open>machine\<close>: no run takes the reservations of a mandate over its limit.
  \<open>agrees\<close> relates the database to the in-memory engine of \<open>Budget\<close>, which it simulates.
\<close>

section \<open>The repository\<close>

record ReservationRow =
  rr_reservation_id :: string
  rr_mandate_id :: string
  rr_transaction_id :: string
  rr_requested_paise :: int
  rr_reserved_paise :: int
  rr_state :: string
  rr_created_at :: datetime
  rr_resolved_at :: "datetime option"

type_synonym reservation_table = "ReservationRow table"

record BudgetDb =
  bd_mandates :: mandate_table
  bd_reservations :: reservation_table

definition on_reservations :: "(reservation_table, 'a) prog \<Rightarrow> (BudgetDb, 'a) prog" where
  "on_reservations m = zoom bd_reservations (\<lambda>t s. s\<lparr>bd_reservations := t\<rparr>) m"

definition create_reservation ::
  "(reservation_table \<Rightarrow> ReservationRow \<Rightarrow> bool) \<Rightarrow> string \<Rightarrow> string \<Rightarrow> string \<Rightarrow> int \<Rightarrow> int \<Rightarrow> string \<Rightarrow>
   datetime \<Rightarrow> (reservation_table, ReservationRow) prog" where
  "create_reservation accepts rid mid tid requested reserved st now =
     (if requested < 0 then
        raise_exc (Raise ValueError (Msg ''requested_paise cannot be negative, got {}.'' [PInt requested]))
      else if reserved < 0 then
        raise_exc (Raise ValueError (Msg ''reserved_paise cannot be negative, got {}.'' [PInt reserved]))
      else
        let r = \<lparr>rr_reservation_id = rid, rr_mandate_id = mid, rr_transaction_id = tid,
                 rr_requested_paise = requested, rr_reserved_paise = reserved, rr_state = st,
                 rr_created_at = now, rr_resolved_at = None\<rparr>
        in then_do (insert_row accepts rr_reservation_id r) (\<lambda>ok.
             if ok then ret r else raise_exc (Raise IntegrityError (Msg ''budget_reservations'' []))))"

definition get_stored_reservation :: "reservation_table \<Rightarrow> string \<Rightarrow> ReservationRow option" where
  "get_stored_reservation tab rid = row_of tab rid"

definition get_reservation_for_transaction :: "reservation_table \<Rightarrow> string \<Rightarrow> ReservationRow option res" where
  "get_reservation_for_transaction tab tid =
     scalar_one_or_none (filter (\<lambda>r. rr_transaction_id r = tid) (rows_of tab))"

definition get_reservations_for_mandate :: "reservation_table \<Rightarrow> string \<Rightarrow> ReservationRow list" where
  "get_reservations_for_mandate tab mid = sort_key (\<lambda>r. - rr_created_at r)
     (sort_key rr_reservation_id (filter (\<lambda>r. rr_mandate_id r = mid) (rows_of tab)))"

definition active_states :: "string set" where
  "active_states = {budget_state_value BudgetState.RESERVED, budget_state_value BudgetState.COMMITTED,
     budget_state_value SPENT}"

definition get_active_reservations_for_mandate :: "reservation_table \<Rightarrow> string \<Rightarrow> ReservationRow list" where
  "get_active_reservations_for_mandate tab mid = sort_key (\<lambda>r. - rr_created_at r)
     (filter (\<lambda>r. rr_mandate_id r = mid \<and> rr_state r \<in> active_states) (rows_of tab))"

definition lock_mandate_budget_for_update :: "mandate_table \<Rightarrow> string \<Rightarrow> MandateRow option" where
  "lock_mandate_budget_for_update tab mid = row_of tab mid"

definition calculate_reserved_total :: "reservation_table \<Rightarrow> string \<Rightarrow> int" where
  "calculate_reserved_total tab mid = sum_list (map rr_reserved_paise
     (filter (\<lambda>r. rr_mandate_id r = mid \<and> rr_state r \<in> active_states) (rows_of tab)))"

definition reserve_budget_atomically ::
  "(reservation_table \<Rightarrow> ReservationRow \<Rightarrow> bool) \<Rightarrow> string \<Rightarrow> string \<Rightarrow> string \<Rightarrow> int \<Rightarrow> datetime \<Rightarrow>
   (BudgetDb, ReservationRow) prog" where
  "reserve_budget_atomically accepts rid mid tid requested now =
     (if requested \<le> 0 then
        raise_exc (Raise ValueError (Msg ''requested_paise must be positive, got {}.'' [PInt requested]))
      else then_do (read_st (\<lambda>d. lock_mandate_budget_for_update (bd_mandates d) mid)) (\<lambda>found.
        case found of
          None \<Rightarrow> raise_exc (Raise ValueError (Msg ''Mandate '{}' not found.'' [PStr mid]))
        | Some m \<Rightarrow>
            then_do (read_st (\<lambda>d. calculate_reserved_total (bd_reservations d) mid)) (\<lambda>used.
              let avail = mrow_daily_budget_paise m - used in
              if requested > avail then
                raise_exc (Raise ValueError
                  (Msg ''Budget insufficient: requested {} paise, available {} paise (limit={}, active_reserved={}).''
                    [PInt requested, PInt avail, PInt (mrow_daily_budget_paise m), PInt used]))
              else on_reservations (create_reservation accepts rid mid tid requested requested
                (budget_state_value BudgetState.RESERVED) now))))"

definition settle_row :: "ReservationRow \<Rightarrow> BudgetState \<Rightarrow> datetime \<Rightarrow> ReservationRow" where
  "settle_row r st now = r\<lparr>rr_state := budget_state_value st, rr_resolved_at := Some now\<rparr>"

definition repo_commit_reservation :: "string \<Rightarrow> datetime \<Rightarrow> (reservation_table, ReservationRow) prog" where
  "repo_commit_reservation rid now tab =
     (case get_stored_reservation tab rid of
        None \<Rightarrow> (Inl (Raise ValueError (Msg ''Reservation '{}' not found.'' [PStr rid])), tab)
      | Some r \<Rightarrow>
          if rr_state r \<noteq> budget_state_value BudgetState.RESERVED then
            (Inl (Raise ValueError (Msg ''Cannot commit reservation '{}' in state '{}'.'' [PStr rid, PStr (rr_state r)])), tab)
          else
            let q = settle_row r BudgetState.COMMITTED now in (Inr q, put_row rid q tab))"

definition repo_release_reservation :: "string \<Rightarrow> datetime \<Rightarrow> (reservation_table, ReservationRow) prog" where
  "repo_release_reservation rid now tab =
     (case get_stored_reservation tab rid of
        None \<Rightarrow> (Inl (Raise ValueError (Msg ''Reservation '{}' not found.'' [PStr rid])), tab)
      | Some r \<Rightarrow>
          if rr_state r = budget_state_value RELEASED then (Inr r, tab)
          else if rr_state r \<notin> {budget_state_value BudgetState.RESERVED, budget_state_value BudgetState.EXPIRED} then
            (Inl (Raise ValueError (Msg ''Cannot release reservation '{}' in state '{}'.'' [PStr rid, PStr (rr_state r)])), tab)
          else
            let q = settle_row r RELEASED now in (Inr q, put_row rid q tab))"

section \<open>The asynchronous engine\<close>

record AsyncBudget =
  ab_engine :: BudgetEngine
  ab_db :: BudgetDb

definition on_budget_db :: "(BudgetDb, 'a) prog \<Rightarrow> (AsyncBudget, 'a) prog" where
  "on_budget_db m = zoom ab_db (\<lambda>d s. s\<lparr>ab_db := d\<rparr>) m"

definition currency_from :: "string \<Rightarrow> Currency res" where
  \<comment> \<open>\<open>Currency(text)\<close>\<close>
  "currency_from s = (if s = currency_value INR then Inr INR else if s = currency_value USD then Inr USD
     else Inl (Raise ValueError (Msg ''{} is not a valid Currency'' [PStr s])))"

definition remember_reserved ::
  "string \<Rightarrow> int \<Rightarrow> int \<Rightarrow> BudgetReservation \<Rightarrow> datetime \<Rightarrow> string \<Rightarrow> datetime \<Rightarrow> (AsyncBudget, unit) prog" where
  \<comment> \<open>the engine's memory after a stored reservation\<close>
  "remember_reserved mid limit used r t bid now =
     then_do (of_res (mk_daily_budget bid mid (br_currency r) (Strftime_Ymd t) limit 0 used now)) (\<lambda>b.
       write_st (\<lambda>s. s\<lparr>ab_engine := (ab_engine s)\<lparr>be_budgets := (be_budgets (ab_engine s))(mid \<mapsto> b),
         be_reservations := (be_reservations (ab_engine s))(br_reservation_id r \<mapsto> r)\<rparr>\<rparr>))"

definition async_reserve ::
  "(reservation_table \<Rightarrow> ReservationRow \<Rightarrow> bool) \<Rightarrow> string \<Rightarrow> string \<Rightarrow> int \<Rightarrow> Currency \<Rightarrow> string option \<Rightarrow>
   int \<Rightarrow> datetime option \<Rightarrow> string \<Rightarrow> string \<Rightarrow> datetime \<Rightarrow> (AsyncBudget, BudgetEvaluationResult) prog" where
  \<comment> \<open>\<open>new_id\<close> and \<open>bid\<close> are the fresh identifiers of the reservation and of the cached budget\<close>
  "async_reserve accepts mid tid amount cur rid ttl at new_id bid now =
     (let t = resolve_at at now in
      if amount \<le> 0 then
        ret (bev_reject mid amount 0 INVALID_AMOUNT
          (Msg ''Budget reservation amount must be positive integer paise, got {}.'' [PInt amount]) t)
      else then_do (read_st (\<lambda>s. lock_mandate_budget_for_update (bd_mandates (ab_db s)) mid)) (\<lambda>found.
        case found of
          None \<Rightarrow> ret (bev_reject mid amount 0 BUDGET_EXCEEDED
            (Msg ''No budget registered for mandate {}.'' [PStr mid]) t)
        | Some m \<Rightarrow>
            then_do (of_res (currency_from (mrow_currency m))) (\<lambda>mcur.
              if mcur \<noteq> cur then
                ret (bev_reject mid amount 0 BUDGET_CURRENCY_MISMATCH
                  (Msg ''Budget currency mismatch: mandate is in {}, requested in {}.''
                    [PStr (currency_value mcur), PStr (currency_value cur)]) t)
              else
                let res_id = reservation_id_of rid new_id; limit = mrow_daily_budget_paise m in
                then_do (read_st (\<lambda>s. get_stored_reservation (bd_reservations (ab_db s)) res_id)) (\<lambda>existing.
                case existing of
                  Some old \<Rightarrow> ret (bev_reject mid amount 0 INVALID_TRANSACTION_STATE
                    (Msg ''Duplicate reservation ID {} already exists in state {}.''
                      [PStr res_id, PStr (rr_state old)]) t)
                | None \<Rightarrow>
                    then_do (read_st (\<lambda>s. calculate_reserved_total (bd_reservations (ab_db s)) mid)) (\<lambda>used.
                      if used + amount > limit then
                        ret (bev_reject mid amount (max 0 (limit - used)) BUDGET_EXCEEDED
                          (Msg ''Budget limit exceeded: requested {} paise, available {} paise (limit={}, spent_and_reserved={}).''
                            [PInt amount, PInt (max 0 (limit - used)), PInt limit, PInt used]) t)
                      else
                        then_do (on_budget_db (on_reservations (create_reservation accepts res_id mid tid amount amount
                          (budget_state_value BudgetState.RESERVED) now))) (\<lambda>row.
                        then_do (of_res (mk_budget_reservation (rr_reservation_id row) (rr_transaction_id row)
                          (rr_mandate_id row) (rr_requested_paise row) cur BudgetState.RESERVED t (t + seconds ttl))) (\<lambda>r.
                        then_do (remember_reserved mid limit (used + amount) r t bid now) (\<lambda>_.
                          ret (bev_allow mid amount (max 0 (limit - used) - amount) r t)))))))))"

definition settled_reservation ::
  "ReservationRow \<Rightarrow> BudgetState \<Rightarrow> datetime \<Rightarrow> BudgetReservation res" where
  "settled_reservation q st t =
     bind_res (mk_budget_reservation (rr_reservation_id q) (rr_transaction_id q) (rr_mandate_id q)
       (rr_requested_paise q) INR st (rr_created_at q) (t + seconds 300)) (\<lambda>r. Inr (r\<lparr>br_updated_at := t\<rparr>))"

definition remember_settled :: "string \<Rightarrow> BudgetReservation \<Rightarrow> (AsyncBudget, unit) prog" where
  "remember_settled rid r = write_st (\<lambda>s. s\<lparr>ab_engine := (ab_engine s)
     \<lparr>be_reservations := (be_reservations (ab_engine s))(rid \<mapsto> r)\<rparr>\<rparr>)"

definition async_commit ::
  "string \<Rightarrow> string \<Rightarrow> datetime option \<Rightarrow> datetime \<Rightarrow> (AsyncBudget, BudgetReservation) prog" where
  "async_commit mid rid at now =
     then_do (read_st (\<lambda>s. get_stored_reservation (bd_reservations (ab_db s)) rid)) (\<lambda>found.
     case found of
       None \<Rightarrow> raise_exc (Raise ValueError (Msg ''Reservation {} not found.'' [PStr rid]))
     | Some r \<Rightarrow>
         if rr_mandate_id r \<noteq> mid then
           raise_exc (Raise ValueError (Msg ''Reservation {} belongs to mandate {}, not {}.''
             [PStr rid, PStr (rr_mandate_id r), PStr mid]))
         else if rr_state r = budget_state_value BudgetState.COMMITTED then
           raise_exc (Raise ValueError (Msg ''Double-commit error: Reservation {} is already COMMITTED.'' [PStr rid]))
         else if rr_state r = budget_state_value RELEASED then
           raise_exc (Raise ValueError (Msg ''Illegal state transition: Cannot commit RELEASED reservation {}.'' [PStr rid]))
         else if rr_state r \<noteq> budget_state_value BudgetState.RESERVED then
           raise_exc (Raise ValueError (Msg ''Cannot commit reservation {} in state {}.'' [PStr rid, PStr (rr_state r)]))
         else
           then_do (on_budget_db (on_reservations (repo_commit_reservation rid now))) (\<lambda>q.
           then_do (of_res (settled_reservation q BudgetState.COMMITTED (resolve_at at now))) (\<lambda>d.
           then_do (remember_settled rid d) (\<lambda>_. ret d))))"

definition async_release ::
  "string \<Rightarrow> string \<Rightarrow> datetime option \<Rightarrow> datetime \<Rightarrow> (AsyncBudget, BudgetReservation) prog" where
  "async_release mid rid at now =
     then_do (read_st (\<lambda>s. get_stored_reservation (bd_reservations (ab_db s)) rid)) (\<lambda>found.
     case found of
       None \<Rightarrow> raise_exc (Raise ValueError (Msg ''Reservation {} not found.'' [PStr rid]))
     | Some r \<Rightarrow>
         if rr_mandate_id r \<noteq> mid then
           raise_exc (Raise ValueError (Msg ''Reservation {} belongs to mandate {}, not {}.''
             [PStr rid, PStr (rr_mandate_id r), PStr mid]))
         else if rr_state r = budget_state_value RELEASED then
           raise_exc (Raise ValueError (Msg ''Double-release error: Reservation {} is already RELEASED.'' [PStr rid]))
         else if rr_state r = budget_state_value BudgetState.COMMITTED then
           raise_exc (Raise ValueError (Msg ''Illegal state transition: Cannot release COMMITTED reservation {}.'' [PStr rid]))
         else
           then_do (on_budget_db (on_reservations (repo_release_reservation rid now))) (\<lambda>q.
           then_do (of_res (settled_reservation q RELEASED (resolve_at at now))) (\<lambda>d.
           then_do (remember_settled rid d) (\<lambda>_. ret d))))"

section \<open>What a call does to the table\<close>

definition reserved_row ::
  "string \<Rightarrow> string \<Rightarrow> string \<Rightarrow> int \<Rightarrow> datetime \<Rightarrow> ReservationRow" where
  "reserved_row rid mid tid amount now =
     \<lparr>rr_reservation_id = rid, rr_mandate_id = mid, rr_transaction_id = tid, rr_requested_paise = amount,
      rr_reserved_paise = amount, rr_state = budget_state_value BudgetState.RESERVED, rr_created_at = now,
      rr_resolved_at = None\<rparr>"

inductive stored_change :: "mandate_table \<Rightarrow> reservation_table \<Rightarrow> reservation_table \<Rightarrow> bool" for M where
  unchanged: "stored_change M tab tab"
| reserved: "row_of M mid = Some m \<Longrightarrow> 0 < amount \<Longrightarrow> row_of tab rid = None \<Longrightarrow>
    calculate_reserved_total tab mid + amount \<le> mrow_daily_budget_paise m \<Longrightarrow>
    stored_change M tab (put_row rid (reserved_row rid mid tid amount now) tab)"
| committed: "row_of tab rid = Some r \<Longrightarrow> rr_state r = budget_state_value BudgetState.RESERVED \<Longrightarrow>
    stored_change M tab (put_row rid (settle_row r BudgetState.COMMITTED now) tab)"
| released: "row_of tab rid = Some r \<Longrightarrow>
    rr_state r \<in> {budget_state_value BudgetState.RESERVED, budget_state_value BudgetState.EXPIRED} \<Longrightarrow>
    stored_change M tab (put_row rid (settle_row r RELEASED now) tab)"

abbreviation resv :: "AsyncBudget \<Rightarrow> reservation_table" where
  "resv s \<equiv> bd_reservations (ab_db s)"

abbreviation mandates_of :: "AsyncBudget \<Rightarrow> mandate_table" where
  "mandates_of s \<equiv> bd_mandates (ab_db s)"

lemma create_reservation_run:
  "create_reservation accepts rid mid tid amount amount (budget_state_value BudgetState.RESERVED) now tab =
     (if amount < 0 then (Inl (Raise ValueError (Msg ''requested_paise cannot be negative, got {}.'' [PInt amount])), tab)
      else if accepts tab (reserved_row rid mid tid amount now)
      then (Inr (reserved_row rid mid tid amount now), put_row rid (reserved_row rid mid tid amount now) tab)
      else (Inl (Raise IntegrityError (Msg ''budget_reservations'' [])), tab))"
  by (simp add: create_reservation_def reserved_row_def then_do_def insert_row_def Let_def)

lemma then_do_ret_state: "snd (then_do m (\<lambda>_. ret x) s) = snd (m s)"
  by (simp add: then_do_def split: prod.split sum.split)

lemma remember_frame [simp]: "ab_db (snd (remember_reserved mid limit used r t bid now s)) = ab_db s"
  by (simp add: remember_reserved_def then_do_def split: sum.split)

lemma remember_settled_run:
  "remember_settled rid r s = (Inr (), s\<lparr>ab_engine := (ab_engine s)
     \<lparr>be_reservations := (be_reservations (ab_engine s))(rid \<mapsto> r)\<rparr>\<rparr>)"
  by (simp add: remember_settled_def)

lemma on_resv_run:
  "on_budget_db (on_reservations m) s = (case m (resv s) of (x, tab) \<Rightarrow>
     (x, s\<lparr>ab_db := (ab_db s)\<lparr>bd_reservations := tab\<rparr>\<rparr>))"
  by (simp add: on_budget_db_def on_reservations_def zoom_def split: prod.split)

lemmas reserve_simps = async_reserve_def lock_mandate_budget_for_update_def get_stored_reservation_def Let_def

lemma async_reserve_open:
  assumes "0 < amount" and "row_of (mandates_of s) mid = Some m" and "currency_from (mrow_currency m) = Inr cur"
    and "row_of (resv s) (reservation_id_of rid new_id) = None"
    and "calculate_reserved_total (resv s) mid + amount \<le> mrow_daily_budget_paise m"
  shows "async_reserve accepts mid tid amount cur rid ttl at new_id bid now s =
    (let res_id = reservation_id_of rid new_id; row = reserved_row res_id mid tid amount now;
         used = calculate_reserved_total (resv s) mid; limit = mrow_daily_budget_paise m; t = resolve_at at now in
     if accepts (resv s) row then
       then_do (of_res (mk_budget_reservation res_id tid mid amount cur BudgetState.RESERVED t (t + seconds ttl))) (\<lambda>r.
       then_do (remember_reserved mid limit (used + amount) r t bid now) (\<lambda>_.
         ret (bev_allow mid amount (max 0 (limit - used) - amount) r t)))
         (s\<lparr>ab_db := (ab_db s)\<lparr>bd_reservations := put_row res_id row (resv s)\<rparr>\<rparr>)
     else (Inl (Raise IntegrityError (Msg ''budget_reservations'' [])), s))"
  using assms by (simp add: reserve_simps then_do_def [of "on_budget_db _"] on_resv_run create_reservation_run
      reserved_row_def del: budget_state_value.simps)

lemma async_reserve_closed:
  assumes "\<not> (\<exists>m. 0 < amount \<and> row_of (mandates_of s) mid = Some m \<and> currency_from (mrow_currency m) = Inr cur \<and>
    row_of (resv s) (reservation_id_of rid new_id) = None \<and>
    calculate_reserved_total (resv s) mid + amount \<le> mrow_daily_budget_paise m)"
  shows "\<exists>x. async_reserve accepts mid tid amount cur rid ttl at new_id bid now s = (x, s) \<and>
    (\<forall>v. x = Inr v \<longrightarrow> bev_decision v = REJECT)"
proof (cases "0 < amount")
  case True
  show ?thesis
  proof (cases "row_of (mandates_of s) mid")
    case None
    then show ?thesis using True by (simp add: reserve_simps bev_reject_def)
  next
    case (Some m)
    show ?thesis
    proof (cases "currency_from (mrow_currency m)")
      case (Inl e)
      then show ?thesis using True Some by (simp add: reserve_simps)
    next
      case (Inr c)
      then show ?thesis using True Some assms
        by (cases "row_of (resv s) (reservation_id_of rid new_id)") (auto simp: reserve_simps bev_reject_def)
    qed
  qed
qed (simp add: reserve_simps bev_reject_def)

lemma async_reserve_change:
  "mandates_of (snd (async_reserve accepts mid tid amount cur rid ttl at new_id bid now s)) = mandates_of s \<and>
   stored_change (mandates_of s) (resv s) (resv (snd (async_reserve accepts mid tid amount cur rid ttl at new_id bid now s)))"
proof (cases "\<exists>m. 0 < amount \<and> row_of (mandates_of s) mid = Some m \<and> currency_from (mrow_currency m) = Inr cur \<and>
    row_of (resv s) (reservation_id_of rid new_id) = None \<and>
    calculate_reserved_total (resv s) mid + amount \<le> mrow_daily_budget_paise m")
  case True
  then obtain m where m: "0 < amount" "row_of (mandates_of s) mid = Some m" "currency_from (mrow_currency m) = Inr cur"
    "row_of (resv s) (reservation_id_of rid new_id) = None"
    "calculate_reserved_total (resv s) mid + amount \<le> mrow_daily_budget_paise m" by blast
  have "ab_db (snd (then_do (of_res q) (\<lambda>r. then_do (remember_reserved mid limit used r t bid now) (\<lambda>_. ret (f r))) u)) = ab_db u"
    for q limit used t and f :: "BudgetReservation \<Rightarrow> BudgetEvaluationResult" and u
    by (cases q) (simp_all add: then_do_ret_state)
  then show ?thesis unfolding async_reserve_open [OF m] using reserved [OF m(2,1,4,5)] unchanged
    by (simp add: Let_def)
next
  case False
  then show ?thesis using async_reserve_closed [of amount s mid cur rid new_id accepts tid ttl at bid now] unchanged
    by (metis snd_conv)
qed

lemmas settle_simps = get_stored_reservation_def then_do_def on_resv_run remember_settled_run Let_def

lemma async_commit_change:
  "mandates_of (snd (async_commit mid rid at now s)) = mandates_of s \<and>
   stored_change M (resv s) (resv (snd (async_commit mid rid at now s)))"
proof (cases "row_of (resv s) rid")
  case None
  then show ?thesis by (simp add: async_commit_def settle_simps unchanged)
next
  case (Some r)
  show ?thesis
  proof (cases "rr_mandate_id r = mid \<and> rr_state r = budget_state_value BudgetState.RESERVED")
    case True
    have "stored_change M (resv s) (put_row rid (settle_row r BudgetState.COMMITTED now) (resv s))"
      using Some True by (intro committed) simp_all
    then show ?thesis using True Some
      by (cases "settled_reservation (settle_row r BudgetState.COMMITTED now) BudgetState.COMMITTED (resolve_at at now)")
        (simp_all add: async_commit_def settle_simps repo_commit_reservation_def)
  next
    case False
    then show ?thesis using Some by (auto simp: async_commit_def settle_simps unchanged)
  qed
qed

lemma async_release_change:
  "mandates_of (snd (async_release mid rid at now s)) = mandates_of s \<and>
   stored_change M (resv s) (resv (snd (async_release mid rid at now s)))"
proof (cases "row_of (resv s) rid")
  case None
  then show ?thesis by (simp add: async_release_def settle_simps unchanged)
next
  case (Some r)
  show ?thesis
  proof (cases "rr_mandate_id r = mid \<and>
      rr_state r \<in> {budget_state_value BudgetState.RESERVED, budget_state_value BudgetState.EXPIRED}")
    case True
    have "stored_change M (resv s) (put_row rid (settle_row r RELEASED now) (resv s))"
      using Some True by (intro released) simp_all
    then show ?thesis using True Some
      by (cases "settled_reservation (settle_row r RELEASED now) RELEASED (resolve_at at now)")
        (auto simp: async_release_def settle_simps repo_release_reservation_def)
  next
    case False
    then show ?thesis using Some by (auto simp: async_release_def settle_simps repo_release_reservation_def unchanged)
  qed
qed

section \<open>The limit of a mandate\<close>

definition active_amount :: "string \<Rightarrow> ReservationRow \<Rightarrow> int" where
  "active_amount mid r = (if rr_mandate_id r = mid \<and> rr_state r \<in> active_states then rr_reserved_paise r else 0)"

definition committed_row_amount :: "string \<Rightarrow> ReservationRow \<Rightarrow> int" where
  "committed_row_amount mid r =
     (if rr_mandate_id r = mid \<and> rr_state r = budget_state_value BudgetState.COMMITTED then rr_reserved_paise r else 0)"

lemma reserved_total_sum: "calculate_reserved_total tab mid = sum_rows (active_amount mid) tab"
  by (simp add: calculate_reserved_total_def sum_rows_def active_amount_def [abs_def] sum_list_map_filter')

definition rows_positive :: "reservation_table \<Rightarrow> bool" where
  "rows_positive tab \<longleftrightarrow> (\<forall>r \<in> set (rows_of tab). 0 \<le> rr_reserved_paise r)"

definition within_limits :: "AsyncBudget \<Rightarrow> bool" where
  "within_limits s \<longleftrightarrow> rows_positive (resv s) \<and> (\<forall>mid m. row_of (mandates_of s) mid = Some m \<longrightarrow>
     calculate_reserved_total (resv s) mid \<le> max 0 (mrow_daily_budget_paise m))"

lemma active_amount_nonneg: "0 \<le> rr_reserved_paise r \<Longrightarrow> 0 \<le> active_amount mid r"
  by (simp add: active_amount_def)

lemma rows_positive_put: "rows_positive tab \<Longrightarrow> 0 \<le> rr_reserved_paise q \<Longrightarrow> rows_positive (put_row k q tab)"
proof -
  assume a: "rows_positive tab" "0 \<le> rr_reserved_paise q"
  have "set (rows_of (put_row k q tab)) \<subseteq> insert q (set (rows_of tab))"
    by (induction tab) (auto simp: rows_of_def put_row_def)
  then show ?thesis using a unfolding rows_positive_def by blast
qed

lemma rows_positive_row: "rows_positive tab \<Longrightarrow> row_of tab k = Some r \<Longrightarrow> 0 \<le> rr_reserved_paise r"
  by (auto simp: rows_positive_def dest: row_in_rows)

lemma settled_amount:
  "active_amount mid (settle_row r BudgetState.COMMITTED now) =
     (if rr_mandate_id r = mid then rr_reserved_paise r else 0)"
  "active_amount mid (settle_row r RELEASED now) = 0"
  "rr_state r = budget_state_value BudgetState.RESERVED \<Longrightarrow>
     active_amount mid r = (if rr_mandate_id r = mid then rr_reserved_paise r else 0)"
  by (simp_all add: active_amount_def active_states_def settle_row_def)

lemma stored_change_total:
  assumes "stored_change M tab tab'" and "rows_positive tab"
    and "row_of M mid = Some m" and "calculate_reserved_total tab mid \<le> max 0 (mrow_daily_budget_paise m)"
  shows "calculate_reserved_total tab' mid \<le> max 0 (mrow_daily_budget_paise m)"
  using assms
proof (cases rule: stored_change.cases)
  case (reserved mid' m' amount rid tid now)
  have "active_amount mid (reserved_row rid mid' tid amount now) = (if mid' = mid then amount else 0)"
    by (simp add: active_amount_def reserved_row_def active_states_def)
  then show ?thesis using reserved assms(3,4) by (auto simp: reserved_total_sum sum_rows_put)
next
  case (committed rid r now)
  then show ?thesis using assms(4) by (simp add: reserved_total_sum sum_rows_put settled_amount)
next
  case (released rid r now)
  have "0 \<le> active_amount mid r" using rows_positive_row [OF assms(2) released(2)] by (rule active_amount_nonneg)
  then show ?thesis using released assms(4) by (simp add: reserved_total_sum sum_rows_put settled_amount)
qed simp

lemma stored_change_positive: "stored_change M tab tab' \<Longrightarrow> rows_positive tab \<Longrightarrow> rows_positive tab'"
  by (induction rule: stored_change.induct)
    (auto simp: reserved_row_def settle_row_def intro!: rows_positive_put dest: rows_positive_row)

lemma stored_change_committed:
  assumes "stored_change M tab tab'" and "rows_positive tab"
  shows "sum_rows (committed_row_amount mid) tab \<le> sum_rows (committed_row_amount mid) tab'"
  using assms
proof (cases rule: stored_change.cases)
  case (committed rid r now)
  have "0 \<le> rr_reserved_paise r" using rows_positive_row [OF assms(2) committed(2)] .
  then show ?thesis using committed by (auto simp: sum_rows_put committed_row_amount_def settle_row_def)
qed (auto simp: sum_rows_put committed_row_amount_def reserved_row_def settle_row_def)

lemma committed_le_total:
  "rows_positive tab \<Longrightarrow> sum_rows (committed_row_amount mid) tab \<le> calculate_reserved_total tab mid"
  unfolding reserved_total_sum
  by (rule sum_rows_mono) (auto simp: committed_row_amount_def active_amount_def active_states_def rows_positive_def)

section \<open>The store as a machine\<close>

datatype stored_op =
    SReserve string string int Currency "string option" int "datetime option" string string datetime
  | SCommit string string "datetime option" datetime
  | SRelease string string "datetime option" datetime

abbreviation budget_unit :: "(AsyncBudget, 'a) prog \<Rightarrow> (AsyncBudget, 'a) prog" where
  "budget_unit m \<equiv> transactional ab_db (\<lambda>d s. s\<lparr>ab_db := d\<rparr>) m"

fun stored_step ::
  "(reservation_table \<Rightarrow> ReservationRow \<Rightarrow> bool) \<Rightarrow> AsyncBudget \<Rightarrow> stored_op \<Rightarrow> budget_out \<times> AsyncBudget" where
  "stored_step accepts s (SReserve mid tid amount cur rid ttl at new_id bid now) =
     map_prod OReserve id (budget_unit (async_reserve accepts mid tid amount cur rid ttl at new_id bid now) s)"
| "stored_step accepts s (SCommit mid rid at now) = map_prod OSettle id (budget_unit (async_commit mid rid at now) s)"
| "stored_step accepts s (SRelease mid rid at now) = map_prod OSettle id (budget_unit (async_release mid rid at now) s)"

lemma budget_unit_change:
  assumes "mandates_of (snd (m s)) = mandates_of s \<and> stored_change (mandates_of s) (resv s) (resv (snd (m s)))"
  shows "mandates_of (snd (budget_unit m s)) = mandates_of s \<and>
    stored_change (mandates_of s) (resv s) (resv (snd (budget_unit m s)))"
  using assms by (cases "m s") (auto simp: transactional_def unchanged split: sum.split)

lemma stored_step_change:
  "mandates_of (snd (stored_step accepts s x)) = mandates_of s \<and>
   stored_change (mandates_of s) (resv s) (resv (snd (stored_step accepts s x)))"
  by (cases x) (simp_all only: stored_step.simps snd_map_prod id_apply
      budget_unit_change async_reserve_change async_commit_change async_release_change)

interpretation stored_budgets: machine "stored_step accepts" "\<lambda>_ _. True" within_limits
proof
  fix s x
  assume "within_limits s"
  then show "within_limits (snd (stored_step accepts s x))"
    using stored_step_change [of accepts s x] stored_change_total stored_change_positive
    unfolding within_limits_def by metis
qed

definition committed_at_least :: "string \<Rightarrow> int \<Rightarrow> mandate_table \<Rightarrow> AsyncBudget \<Rightarrow> bool" where
  "committed_at_least mid n M s \<longleftrightarrow> mandates_of s = M \<and> rows_positive (resv s) \<and>
     n \<le> sum_rows (committed_row_amount mid) (resv s)"

interpretation stored_spending: machine "stored_step accepts" "\<lambda>_ _. True" "committed_at_least mid n M"
proof
  fix s x
  assume "committed_at_least mid n M s"
  then show "committed_at_least mid n M (snd (stored_step accepts s x))"
    using stored_step_change [of accepts s x] stored_change_committed [of _ "resv s"] stored_change_positive
    unfolding committed_at_least_def by (metis order_trans)
qed

section \<open>The store simulates the in-memory engine\<close>

definition same_reservation :: "BudgetReservation \<Rightarrow> ReservationRow \<Rightarrow> bool" where
  "same_reservation r row \<longleftrightarrow> rr_mandate_id row = br_mandate_id r \<and> rr_transaction_id row = br_transaction_id r \<and>
     rr_requested_paise row = br_amount_paise r \<and> rr_reserved_paise row = br_amount_paise r \<and>
     rr_state row = budget_state_value (br_state r) \<and>
     br_state r \<in> {BudgetState.RESERVED, BudgetState.COMMITTED, RELEASED} \<and>
     br_transaction_id r \<noteq> [] \<and> br_mandate_id r \<noteq> []"

definition same_budget :: "reservation_table \<Rightarrow> string \<Rightarrow> DailyBudget \<Rightarrow> MandateRow \<Rightarrow> bool" where
  "same_budget tab mid b m \<longleftrightarrow> mrow_daily_budget_paise m = db_daily_limit_paise b \<and>
     mrow_currency m = currency_value (db_currency b) \<and>
     db_spent_paise b + db_reserved_paise b = calculate_reserved_total tab mid"

definition agrees :: "BudgetEngine \<Rightarrow> BudgetDb \<Rightarrow> bool" where
  "agrees e d \<longleftrightarrow> ledger_inv e \<and>
     (\<forall>mid. rel_option (same_budget (bd_reservations d) mid) (be_budgets e mid) (row_of (bd_mandates d) mid)) \<and>
     (\<forall>rid. rel_option same_reservation (be_reservations e rid) (row_of (bd_reservations d) rid))"

lemma agreesD:
  assumes "agrees e d"
  shows "ledger_inv e"
    and "rel_option (same_budget (bd_reservations d) mid) (be_budgets e mid) (row_of (bd_mandates d) mid)"
    and "rel_option same_reservation (be_reservations e rid) (row_of (bd_reservations d) rid)"
  using assms by (simp_all add: agrees_def)

lemma agrees_budget:
  assumes "agrees e d" and "be_budgets e mid = Some b"
  obtains m where "row_of (bd_mandates d) mid = Some m" "same_budget (bd_reservations d) mid b m"
  using agreesD(2) [OF assms(1), of mid] assms(2) by (auto simp: option_rel_Some1)

lemma agrees_reservation:
  assumes "agrees e d" and "be_reservations e rid = Some r"
  obtains row where "row_of (bd_reservations d) rid = Some row" "same_reservation r row"
  using agreesD(3) [OF assms(1), of rid] assms(2) by (auto simp: option_rel_Some1)

lemma agrees_None:
  assumes "agrees e d"
  shows "be_budgets e mid = None \<longleftrightarrow> row_of (bd_mandates d) mid = None"
    and "be_reservations e rid = None \<longleftrightarrow> row_of (bd_reservations d) rid = None"
  using agreesD(2) [OF assms, of mid] agreesD(3) [OF assms, of rid] by (auto simp: option.rel_sel)

lemma currency_from_value [simp]: "currency_from (currency_value c) = Inr c"
  by (cases c) (simp_all add: currency_from_def)

lemma agrees_update:
  assumes "agrees e d" and "be_budgets e mid = Some b" and "same_reservation r row" and "br_mandate_id r = mid"
    and "\<And>q. be_reservations e rid = Some q \<Longrightarrow> br_mandate_id q = mid"
    and "db_daily_limit_paise b' = db_daily_limit_paise b" and "db_currency b' = db_currency b"
    and "db_spent_paise b' + db_reserved_paise b' = db_spent_paise b + db_reserved_paise b + active_amount mid row -
      (case row_of (bd_reservations d) rid of None \<Rightarrow> 0 | Some old \<Rightarrow> active_amount mid old)"
    and "ledger_inv (e\<lparr>be_budgets := (be_budgets e)(mid \<mapsto> b'), be_reservations := (be_reservations e)(rid \<mapsto> r)\<rparr>)"
  shows "agrees (e\<lparr>be_budgets := (be_budgets e)(mid \<mapsto> b'), be_reservations := (be_reservations e)(rid \<mapsto> r)\<rparr>)
    (d\<lparr>bd_reservations := put_row rid row (bd_reservations d)\<rparr>)"
proof -
  let ?tab = "bd_reservations d" and ?tab' = "put_row rid row (bd_reservations d)"
  obtain m where m: "row_of (bd_mandates d) mid = Some m" "same_budget ?tab mid b m"
    using agrees_budget [OF assms(1,2)] .
  have old: "rr_mandate_id q = mid" if "row_of ?tab rid = Some q" for q
    using agreesD(3) [OF assms(1), of rid] that assms(5) by (auto simp: option_rel_Some2 same_reservation_def)
  have others: "calculate_reserved_total ?tab' k = calculate_reserved_total ?tab k" if "k \<noteq> mid" for k
    using that assms(3,4) old
    by (auto simp: reserved_total_sum sum_rows_put active_amount_def same_reservation_def split: option.split)
  have "calculate_reserved_total ?tab' mid = db_spent_paise b' + db_reserved_paise b'"
    using assms(8) m(2) by (simp add: reserved_total_sum sum_rows_put same_budget_def)
  then have this_one: "same_budget ?tab' mid b' m" using m(2) assms(6,7) by (simp add: same_budget_def)
  have "rel_option (same_budget ?tab' k) (((be_budgets e)(mid \<mapsto> b')) k) (row_of (bd_mandates d) k)" for k
    using agreesD(2) [OF assms(1), of k] m(1) this_one others [of k]
    by (cases "k = mid") (auto simp: same_budget_def [abs_def] cong: option.rel_cong)
  moreover have "rel_option same_reservation (((be_reservations e)(rid \<mapsto> r)) k) (row_of ?tab' k)" for k
    using agreesD(3) [OF assms(1), of k] assms(3) by simp
  ultimately show ?thesis using assms(9) by (simp add: agrees_def)
qed

fun memory_op :: "stored_op \<Rightarrow> budget_op" where
  "memory_op (SReserve mid tid amount cur rid ttl at new_id bid now) = BReserve mid tid amount cur rid ttl at new_id now"
| "memory_op (SCommit mid rid at now) = BCommit mid rid at now"
| "memory_op (SRelease mid rid at now) = BRelease mid rid at now"

fun storable :: "(reservation_table \<Rightarrow> ReservationRow \<Rightarrow> bool) \<Rightarrow> reservation_table \<Rightarrow> stored_op \<Rightarrow> bool" where
  \<comment> \<open>the database takes the row of a reservation whose identifier is free\<close>
  "storable accepts tab (SReserve mid tid amount cur rid ttl at new_id bid now) = (mid \<noteq> [] \<and> tid \<noteq> [] \<and>
     (row_of tab (reservation_id_of rid new_id) \<noteq> None \<or>
      accepts tab (reserved_row (reservation_id_of rid new_id) mid tid amount now)))"
| "storable accepts tab _ = True"

fun same_verdict :: "budget_out \<Rightarrow> budget_out \<Rightarrow> bool" where
  "same_verdict (OReserve (Inr v)) (OReserve (Inr w)) =
     ((bev_decision v, bev_rejection_reason v) = (bev_decision w, bev_rejection_reason w))"
| "same_verdict (OSettle x) (OSettle y) = (is_ok x = is_ok y)"
| "same_verdict _ _ = False"

lemma agrees_open:
  assumes "agrees e (ab_db s)" and "be_budgets e mid = Some b" and "row_of (mandates_of s) mid = Some m"
  shows "currency_from (mrow_currency m) = Inr (db_currency b)"
    and "mrow_daily_budget_paise m = db_daily_limit_paise b"
    and "calculate_reserved_total (resv s) mid = db_spent_paise b + db_reserved_paise b"
  using agreesD(2) [OF assms(1), of mid] assms(2,3) by (simp_all add: same_budget_def)

lemma reserve_granted:
  assumes "0 < amount" and "be_budgets e mid = Some b" and "be_reservations e (reservation_id_of rid new_id) = None"
    and "db_spent_paise b + db_reserved_paise b + amount \<le> db_daily_limit_paise b" and "mid \<noteq> []" and "tid \<noteq> []"
  shows "\<exists>v r. reserve e mid tid amount (db_currency b) rid ttl at new_id now = (Inr v,
      e\<lparr>be_budgets := (be_budgets e)(mid \<mapsto> b\<lparr>db_reserved_paise := db_reserved_paise b + amount, db_updated_at := now\<rparr>),
        be_reservations := (be_reservations e)(reservation_id_of rid new_id \<mapsto> r)\<rparr>) \<and>
    bev_decision v = ALLOW \<and> bev_rejection_reason v = None \<and>
    same_reservation r (reserved_row (reservation_id_of rid new_id) mid tid amount now)"
  using assms unfolding reserve_def Let_def reservation_id_of_def [symmetric]
  by (simp add: reserve_budget_def assert_can_reserve_def mk_budget_reservation_def bev_allow_def
      same_reservation_def reserved_row_def) (intro exI conjI, rule refl, simp_all)

lemma async_reserve_granted:
  assumes "0 < amount" and "row_of (mandates_of s) mid = Some m" and "currency_from (mrow_currency m) = Inr cur"
    and "row_of (resv s) (reservation_id_of rid new_id) = None"
    and "calculate_reserved_total (resv s) mid + amount \<le> mrow_daily_budget_paise m"
    and "0 \<le> calculate_reserved_total (resv s) mid" and "mid \<noteq> []" and "tid \<noteq> []"
    and "accepts (resv s) (reserved_row (reservation_id_of rid new_id) mid tid amount now)"
  shows "\<exists>v s'. budget_unit (async_reserve accepts mid tid amount cur rid ttl at new_id bid now) s = (Inr v, s') \<and>
    bev_decision v = ALLOW \<and> bev_rejection_reason v = None \<and> ab_db s' = (ab_db s)\<lparr>bd_reservations :=
      put_row (reservation_id_of rid new_id) (reserved_row (reservation_id_of rid new_id) mid tid amount now) (resv s)\<rparr>"
  unfolding transactional_def async_reserve_open [OF assms(1-5)] using assms
  by (simp add: Let_def mk_budget_reservation_def remember_reserved_def then_do_def mk_daily_budget_def bev_allow_def)

lemma simulates_reserve:
  assumes "agrees e (ab_db s)" and "storable accepts (resv s) x"
    and x: "x = SReserve mid tid amount cur rid ttl at new_id bid now"
  shows "same_verdict (fst (budget_step e (memory_op x))) (fst (stored_step accepts s x)) \<and>
    agrees (snd (budget_step e (memory_op x))) (ab_db (snd (stored_step accepts s x)))"
proof (cases "be_budgets e mid")
  case None
  then show ?thesis using assms(1) agrees_None(1) [OF assms(1), of mid]
    by (simp add: x reserve_def reserve_simps transactional_def bev_reject_def)
next
  case (Some b)
  then obtain m where m: "row_of (mandates_of s) mid = Some m" using agrees_budget [OF assms(1)] by blast
  note eq = agrees_open [OF assms(1) Some m]
  let ?rid = "reservation_id_of rid new_id"
  show ?thesis
  proof (cases "0 < amount \<and> db_currency b = cur \<and> be_reservations e ?rid = None \<and>
      db_spent_paise b + db_reserved_paise b + amount \<le> db_daily_limit_paise b")
    case True
    let ?b = "b\<lparr>db_reserved_paise := db_reserved_paise b + amount, db_updated_at := now\<rparr>"
    have free: "row_of (resv s) ?rid = None" using True agrees_None(2) [OF assms(1), of ?rid] by simp
    have st: "mid \<noteq> []" "tid \<noteq> []" "accepts (resv s) (reserved_row ?rid mid tid amount now)"
      using assms(2) free by (simp_all add: x)
    have ok: "0 \<le> db_spent_paise b + db_reserved_paise b"
      using budget_invD [of e mid b] agreesD(1) [OF assms(1)] Some by (simp add: ledger_inv_def budget_ok_def)
    obtain v r where mem: "reserve e mid tid amount cur rid ttl at new_id now = (Inr v,
        e\<lparr>be_budgets := (be_budgets e)(mid \<mapsto> ?b), be_reservations := (be_reservations e)(?rid \<mapsto> r)\<rparr>)"
      "bev_decision v = ALLOW" "bev_rejection_reason v = None"
      "same_reservation r (reserved_row ?rid mid tid amount now)"
      using reserve_granted [of amount e mid b rid new_id tid ttl at now] True Some st by metis
    obtain w s' where sto: "budget_unit (async_reserve accepts mid tid amount cur rid ttl at new_id bid now) s = (Inr w, s')"
      "bev_decision w = ALLOW" "bev_rejection_reason w = None"
      "ab_db s' = (ab_db s)\<lparr>bd_reservations := put_row ?rid (reserved_row ?rid mid tid amount now) (resv s)\<rparr>"
      using async_reserve_granted [of amount s mid m cur rid new_id tid accepts now ttl at bid] True m eq free ok st by auto
    have "ledger_inv (snd (budget_step e (memory_op x)))"
      by (rule budget_step_ledger_inv [OF agreesD(1) [OF assms(1)]]) (simp add: x)
    then have "agrees (e\<lparr>be_budgets := (be_budgets e)(mid \<mapsto> ?b), be_reservations := (be_reservations e)(?rid \<mapsto> r)\<rparr>) (ab_db s')"
      unfolding sto(4) using mem(1,4) True Some free
      by (intro agrees_update [OF assms(1) Some mem(4)])
        (simp_all add: x same_reservation_def reserved_row_def active_amount_def active_states_def)
    then show ?thesis using mem sto by (simp add: x)
  next
    case False
    have "be_reservations e ?rid = None \<longleftrightarrow> row_of (resv s) ?rid = None" by (rule agrees_None(2) [OF assms(1)])
    then have "\<exists>v w. budget_step e (memory_op x) = (OReserve (Inr v), e) \<and> stored_step accepts s x = (OReserve (Inr w), s) \<and>
        bev_decision v = bev_decision w \<and> bev_rejection_reason v = bev_rejection_reason w"
      using False Some m eq
      by (cases "be_reservations e ?rid"; cases "row_of (resv s) ?rid")
        (auto simp: x reserve_def reservation_id_of_def [symmetric] reserve_simps transactional_def bev_reject_def)
    then show ?thesis using assms(1) by auto
  qed
qed

lemma settled_reservation_ok:
  assumes "same_reservation r row" and "0 \<le> br_amount_paise r"
  shows "\<exists>d. settled_reservation (settle_row row st now) st' t = Inr d"
  using assms by (simp add: settled_reservation_def settle_row_def mk_budget_reservation_def same_reservation_def bind_res_def)

lemma same_reservation_settled:
  "same_reservation r row \<Longrightarrow> st \<in> {BudgetState.COMMITTED, RELEASED} \<Longrightarrow>
     same_reservation (r\<lparr>br_state := st, br_updated_at := t\<rparr>) (settle_row row st now)"
  by (auto simp: same_reservation_def settle_row_def)

lemma open_budget:
  assumes "agrees e d" and "be_reservations e rid = Some r" and "br_state r = BudgetState.RESERVED"
  obtains b where "be_budgets e (br_mandate_id r) = Some b" "br_amount_paise r \<le> db_reserved_paise b"
    "0 \<le> br_amount_paise r"
proof -
  have inv: "ledger_inv e" by (rule agreesD(1) [OF assms(1)])
  then obtain b where b: "be_budgets e (br_mandate_id r) = Some b" and pos: "0 < br_amount_paise r"
    using assms(2) by (auto simp: ledger_inv_def reservations_ok_def)
  then show ?thesis using that open_reservation_covered [OF inv assms(2,3) b] by simp
qed

lemma simulates_commit:
  assumes "agrees e (ab_db s)" and x: "x = SCommit mid rid at now"
  shows "same_verdict (fst (budget_step e (memory_op x))) (fst (stored_step accepts s x)) \<and>
    agrees (snd (budget_step e (memory_op x))) (ab_db (snd (stored_step accepts s x)))"
proof (cases "be_reservations e rid")
  case None
  then show ?thesis using assms(1) agrees_None(2) [OF assms(1), of rid]
    by (simp add: x commit_def async_commit_def settle_simps transactional_def is_ok_def)
next
  case (Some r)
  then obtain row where row: "row_of (resv s) rid = Some row" "same_reservation r row"
    by (rule agrees_reservation [OF assms(1)])
  show ?thesis
  proof (cases "br_mandate_id r = mid \<and> br_state r = BudgetState.RESERVED")
    case True
    then obtain b where b: "be_budgets e mid = Some b" "br_amount_paise r \<le> db_reserved_paise b" "0 \<le> br_amount_paise r"
      using open_budget [OF assms(1) Some] by auto
    let ?b = "b\<lparr>db_reserved_paise := db_reserved_paise b - br_amount_paise r,
      db_spent_paise := db_spent_paise b + br_amount_paise r, db_updated_at := now\<rparr>"
    let ?r = "r\<lparr>br_state := BudgetState.COMMITTED, br_updated_at := resolve_at at now\<rparr>"
    let ?row = "settle_row row BudgetState.COMMITTED now"
    have mem: "commit e mid rid at now = (Inr ?r, e\<lparr>be_budgets := (be_budgets e)(mid \<mapsto> ?b),
        be_reservations := (be_reservations e)(rid \<mapsto> ?r)\<rparr>)"
      using Some True b by (simp add: commit_def commit_reservation_def Let_def)
    obtain d where "settled_reservation ?row BudgetState.COMMITTED (resolve_at at now) = Inr d"
      using settled_reservation_ok [OF row(2) b(3)] by blast
    moreover have "rr_mandate_id row = mid" "rr_state row = budget_state_value BudgetState.RESERVED"
      using row(2) True by (simp_all add: same_reservation_def)
    ultimately obtain s' where sto: "budget_unit (async_commit mid rid at now) s = (Inr d, s')"
      "ab_db s' = (ab_db s)\<lparr>bd_reservations := put_row rid ?row (resv s)\<rparr>"
      using row(1) by (simp add: transactional_def async_commit_def settle_simps repo_commit_reservation_def)
    have "ledger_inv (snd (budget_step e (memory_op x)))"
      by (rule budget_step_ledger_inv [OF agreesD(1) [OF assms(1)]]) (simp add: x)
    then have "agrees (e\<lparr>be_budgets := (be_budgets e)(mid \<mapsto> ?b), be_reservations := (be_reservations e)(rid \<mapsto> ?r)\<rparr>) (ab_db s')"
      unfolding sto(2) using mem True Some row
      by (intro agrees_update [OF assms(1) b(1) same_reservation_settled])
        (simp_all add: x settled_amount same_reservation_def)
    then show ?thesis using mem sto by (simp add: x is_ok_def)
  next
    case False
    then have "\<exists>m1 m2. budget_step e (memory_op x) = (OSettle (Inl m1), e) \<and> stored_step accepts s x = (OSettle (Inl m2), s)"
      using Some row by (auto simp: x commit_def async_commit_def settle_simps transactional_def same_reservation_def)
    then show ?thesis using assms(1) by (auto simp: is_ok_def)
  qed
qed

lemma simulates_release:
  assumes "agrees e (ab_db s)" and x: "x = SRelease mid rid at now"
  shows "same_verdict (fst (budget_step e (memory_op x))) (fst (stored_step accepts s x)) \<and>
    agrees (snd (budget_step e (memory_op x))) (ab_db (snd (stored_step accepts s x)))"
proof (cases "be_reservations e rid")
  case None
  then show ?thesis using assms(1) agrees_None(2) [OF assms(1), of rid]
    by (simp add: x release_def async_release_def settle_simps transactional_def is_ok_def)
next
  case (Some r)
  then obtain row where row: "row_of (resv s) rid = Some row" "same_reservation r row"
    by (rule agrees_reservation [OF assms(1)])
  show ?thesis
  proof (cases "br_mandate_id r = mid \<and> br_state r = BudgetState.RESERVED")
    case True
    then obtain b where b: "be_budgets e mid = Some b" "br_amount_paise r \<le> db_reserved_paise b" "0 \<le> br_amount_paise r"
      using open_budget [OF assms(1) Some] by auto
    let ?b = "b\<lparr>db_reserved_paise := db_reserved_paise b - br_amount_paise r, db_updated_at := now\<rparr>"
    let ?r = "r\<lparr>br_state := RELEASED, br_updated_at := resolve_at at now\<rparr>"
    let ?row = "settle_row row RELEASED now"
    have mem: "release e mid rid at now = (Inr ?r, e\<lparr>be_budgets := (be_budgets e)(mid \<mapsto> ?b),
        be_reservations := (be_reservations e)(rid \<mapsto> ?r)\<rparr>)"
      using Some True b by (simp add: release_def release_reservation_def Let_def)
    obtain d where "settled_reservation ?row RELEASED (resolve_at at now) = Inr d"
      using settled_reservation_ok [OF row(2) b(3)] by blast
    moreover have "rr_mandate_id row = mid" "rr_state row = budget_state_value BudgetState.RESERVED"
      using row(2) True by (simp_all add: same_reservation_def)
    ultimately obtain s' where sto: "budget_unit (async_release mid rid at now) s = (Inr d, s')"
      "ab_db s' = (ab_db s)\<lparr>bd_reservations := put_row rid ?row (resv s)\<rparr>"
      using row(1) by (simp add: transactional_def async_release_def settle_simps repo_release_reservation_def)
    have "ledger_inv (snd (budget_step e (memory_op x)))"
      by (rule budget_step_ledger_inv [OF agreesD(1) [OF assms(1)]]) (simp add: x)
    then have "agrees (e\<lparr>be_budgets := (be_budgets e)(mid \<mapsto> ?b), be_reservations := (be_reservations e)(rid \<mapsto> ?r)\<rparr>) (ab_db s')"
      unfolding sto(2) using mem True Some row
      by (intro agrees_update [OF assms(1) b(1) same_reservation_settled])
        (simp_all add: x settled_amount same_reservation_def)
    then show ?thesis using mem sto by (simp add: x is_ok_def)
  next
    case False
    then have "\<exists>m1 m2. budget_step e (memory_op x) = (OSettle (Inl m1), e) \<and> stored_step accepts s x = (OSettle (Inl m2), s)"
      using Some row by (auto simp: x release_def async_release_def settle_simps transactional_def same_reservation_def)
    then show ?thesis using assms(1) by (auto simp: is_ok_def)
  qed
qed

section \<open>Properties\<close>

definition fresh_store :: "mandate_table \<Rightarrow> AsyncBudget" where
  "fresh_store M = \<lparr>ab_engine = budget_engine_init, ab_db = \<lparr>bd_mandates = M, bd_reservations = []\<rparr>\<rparr>"

definition reservation_granted :: "BudgetEvaluationResult res \<Rightarrow> bool" where
  "reservation_granted x = (case x of Inl _ \<Rightarrow> False | Inr v \<Rightarrow> bev_decision v = ALLOW)"

text \<open>C14: The database keeps the limit of every mandate: starting without reservations, after any sequence of
  asynchronous reservations, commits and releases (valid or not), the active reservations of a mandate
  sum up to at most its daily budget.\<close>

theorem budget_db_within_limit:
  assumes "row_of M mid = Some m" and "0 \<le> mrow_daily_budget_paise m"
  shows "calculate_reserved_total (resv (snd (run_ops (stored_step accepts) (fresh_store M) ops))) mid
    \<le> mrow_daily_budget_paise m"
proof -
  have "within_limits (fresh_store M)"
    by (simp add: within_limits_def fresh_store_def rows_positive_def rows_of_def calculate_reserved_total_def)
  from stored_budgets.inv_run [OF this run_adm_trivial]
  have "within_limits (snd (run_ops (stored_step accepts) (fresh_store M) ops))" .
  moreover have "committed_at_least mid 0 M (fresh_store M)"
    by (simp add: committed_at_least_def fresh_store_def rows_positive_def rows_of_def)
  from stored_spending.inv_run [OF this run_adm_trivial]
  have "mandates_of (snd (run_ops (stored_step accepts) (fresh_store M) ops)) = M"
    by (simp add: committed_at_least_def)
  ultimately show ?thesis using assms by (simp add: within_limits_def max_def split: if_splits)
qed

text \<open>A daily budget is never renewed: the stored total counts committed reservations of every day, so
  once the committed amount leaves too little for a request, the request is rejected after any further
  run, at any later time.\<close>

theorem daily_budget_never_renews:
  assumes "s = snd (run_ops (stored_step accepts) (fresh_store M) ops)"
    and "row_of M mid = Some m" and "mrow_daily_budget_paise m < sum_rows (committed_row_amount mid) (resv s) + amount"
  shows "\<not> reservation_granted (fst (async_reserve accepts mid tid amount cur rid ttl at new_id bid now
    (snd (run_ops (stored_step accepts) s later))))"
proof -
  let ?u = "snd (run_ops (stored_step accepts) s later)"
  have "committed_at_least mid 0 M (fresh_store M)"
    by (simp add: committed_at_least_def fresh_store_def rows_positive_def rows_of_def)
  from stored_spending.inv_run [OF this run_adm_trivial, of accepts ops]
  have "committed_at_least mid (sum_rows (committed_row_amount mid) (resv s)) M s"
    using assms(1) by (simp add: committed_at_least_def)
  from stored_spending.inv_run [OF this run_adm_trivial, of accepts later]
  have u: "mandates_of ?u = M" "mrow_daily_budget_paise m < calculate_reserved_total (resv ?u) mid + amount"
    using assms(3) committed_le_total [of "resv ?u" mid] by (auto simp: committed_at_least_def)
  then obtain x where x: "async_reserve accepts mid tid amount cur rid ttl at new_id bid now ?u = (x, ?u)"
    "\<forall>v. x = Inr v \<longrightarrow> bev_decision v = REJECT"
    using async_reserve_closed [of amount ?u mid cur rid new_id accepts tid ttl at bid now] assms(2) by auto
  then show ?thesis by (cases x) (auto simp: reservation_granted_def)
qed

text \<open>C40: The asynchronous engine implements the in-memory one: when the database agrees with an engine (same
  limits, same reservations, totals equal to spent plus reserved), a reservation, commit or release that
  the database can store has the same verdict and rejection reason on both, and they agree afterwards.\<close>

theorem async_budget_refines:
  assumes "agrees e (ab_db s)" and "storable accepts (resv s) x"
  shows "same_verdict (fst (budget_step e (memory_op x))) (fst (stored_step accepts s x)) \<and>
    agrees (snd (budget_step e (memory_op x))) (ab_db (snd (stored_step accepts s x)))"
  using simulates_reserve [OF assms] simulates_commit [OF assms(1)] simulates_release [OF assms(1)]
  by (cases x) blast+

section \<open>Instances\<close>

definition stored_mandate :: MandateRow where
  "stored_mandate = \<lparr>mrow_mandate_id = ''m'', mrow_buyer_id = ''b'', mrow_merchant_id = None, mrow_category_scope = None,
     mrow_daily_budget_paise = 1000, mrow_cumulative_budget_paise = None, mrow_currency = ''INR'', mrow_region = ''IN'',
     mrow_status = ''ACTIVE'', mrow_expires_at = 100, mrow_created_at = 0\<rparr>"

definition stored_ops :: "stored_op list" where
  "stored_ops = [SReserve ''m'' ''t1'' 600 INR (Some ''r1'') 300 None ''x'' ''b'' 1,
     SReserve ''m'' ''t2'' 600 INR (Some ''r2'') 300 None ''x'' ''b'' 2, SCommit ''m'' ''r1'' None 3]"

lemmas stored_eval = stored_ops_def stored_mandate_def fresh_store_def transactional_def reserve_simps then_do_def
  on_resv_run create_reservation_def insert_row_def reserved_row_def resolve_at_def currency_from_def reservation_id_of_def
  calculate_reserved_total_def row_of_def put_row_def rows_of_def active_states_def free_key_def mk_budget_reservation_def
  remember_reserved_def mk_daily_budget_def bev_allow_def bev_reject_def async_commit_def repo_commit_reservation_def
  settle_row_def settled_reservation_def remember_settled_def bind_res_def budget_engine_init_def

theorem budget_db_within_limit_witness:
  "calculate_reserved_total (resv (snd (run_ops (stored_step (free_key rr_reservation_id))
     (fresh_store [(''m'', stored_mandate)]) stored_ops))) ''m'' \<le> 1000"
  using budget_db_within_limit [of "[(''m'', stored_mandate)]" "''m''" stored_mandate "free_key rr_reservation_id" stored_ops]
  by (simp add: row_of_def stored_mandate_def)

theorem daily_budget_never_renews_witness:
  "\<not> reservation_granted (fst (async_reserve (free_key rr_reservation_id) ''m'' ''t9'' 500 INR (Some ''r9'') 300
     (Some (seconds 864000)) ''x'' ''b'' (seconds 864000) (snd (run_ops (stored_step (free_key rr_reservation_id))
       (snd (run_ops (stored_step (free_key rr_reservation_id)) (fresh_store [(''m'', stored_mandate)]) stored_ops)) []))))"
proof (rule daily_budget_never_renews [OF refl])
  show "row_of [(''m'', stored_mandate)] ''m'' = Some stored_mandate" by (simp add: row_of_def)
  show "mrow_daily_budget_paise stored_mandate < sum_rows (committed_row_amount ''m'') (resv (snd (run_ops
      (stored_step (free_key rr_reservation_id)) (fresh_store [(''m'', stored_mandate)]) stored_ops))) + 500"
    by (simp add: stored_eval sum_rows_def committed_row_amount_def)
qed

definition registered_engine :: BudgetEngine where
  "registered_engine = snd (budget_step budget_engine_init (BRegister ''m'' 1000 INR None 0 0 ''b'' 0))"

theorem async_budget_refines_witness:
  "same_verdict (fst (budget_step registered_engine (memory_op (hd stored_ops))))
     (fst (stored_step (free_key rr_reservation_id) (fresh_store [(''m'', stored_mandate)]) (hd stored_ops)))"
proof -
  have inv: "ledger_inv registered_engine" unfolding registered_engine_def
    by (rule budget_step_ledger_inv) (simp_all, simp add: budget_engine_init_def)
  have eng: "be_budgets registered_engine = [''m'' \<mapsto> \<lparr>db_budget_id = ''b'', db_mandate_id = ''m'', db_currency = INR,
      db_date_utc = Strftime_Ymd 0, db_daily_limit_paise = 1000, db_spent_paise = 0, db_reserved_paise = 0,
      db_created_at = 0, db_updated_at = 0\<rparr>]" "be_reservations registered_engine = Map.empty"
    by (simp_all add: registered_engine_def budget_engine_init_def register_budget_def mk_daily_budget_def)
  have "agrees registered_engine (ab_db (fresh_store [(''m'', stored_mandate)]))"
    using inv by (simp add: agrees_def eng fresh_store_def row_of_def same_budget_def stored_mandate_def
        calculate_reserved_total_def rows_of_def)
  from async_budget_refines [OF this, of "free_key rr_reservation_id" "hd stored_ops"] show ?thesis
    by (simp add: stored_ops_def free_key_def fresh_store_def reserved_row_def)
qed

end
