(* ===== verification/Step_Up_Store.thy ===== *)
theory Step_Up_Store
  imports Step_Up Session Py_Json
begin

text \<open>
  Step-up challenges in the database: the table (\<open>db/models/step_up.py\<close>), its repository
  (\<open>db/repository/step_up_repository.py\<close>) and the asynchronous methods of \<open>StepUpAuthorizationEngine\<close>
  (\<open>apps/api/domain/step_up_engine.py\<close>). What a challenge is bound to is stored as a JSON text in the
  column \<open>approver_metadata\<close>; \<open>loads\<close> is \<open>json.loads\<close>, \<open>None\<close> where it raises. The values in that text are of
  the types with which \<open>async_create_challenge\<close> writes them.

  \<open>challenge_rows\<close> interprets \<open>row_relation\<close>: a challenge that is not pending never changes its status.
  \<open>stored_confirmation\<close> interprets \<open>single_use\<close>.
\<close>

section \<open>The repository\<close>

record ChallengeRow =
  ch_challenge_id :: string
  ch_transaction_id :: string
  ch_status :: string
  ch_risk_classification :: string
  ch_created_at :: datetime
  ch_expires_at :: datetime
  ch_approved_at :: "datetime option"
  ch_approver_metadata :: "string option"

type_synonym challenge_table = "ChallengeRow table"

abbreviation status_text :: "StepUpChallengeStatus \<Rightarrow> string" where
  "status_text \<equiv> challenge_status_value"

definition repo_create_challenge ::
  "(challenge_table \<Rightarrow> ChallengeRow \<Rightarrow> bool) \<Rightarrow> string \<Rightarrow> string \<Rightarrow> string \<Rightarrow> datetime \<Rightarrow> string \<Rightarrow> string option \<Rightarrow>
   datetime \<Rightarrow> (challenge_table, ChallengeRow) prog" where
  "repo_create_challenge accepts cid tid risk expires st meta now =
     (let r = \<lparr>ch_challenge_id = cid, ch_transaction_id = tid, ch_status = st, ch_risk_classification = risk,
               ch_created_at = now, ch_expires_at = expires, ch_approved_at = None, ch_approver_metadata = meta\<rparr>
      in then_do (insert_row accepts ch_challenge_id r) (\<lambda>ok.
           if ok then ret r else raise_exc (Raise IntegrityError (Msg ''step_up_challenges'' []))))"

definition repo_get_challenge :: "challenge_table \<Rightarrow> string \<Rightarrow> ChallengeRow option" where
  "repo_get_challenge tab cid = row_of tab cid"

definition get_challenge_for_transaction :: "challenge_table \<Rightarrow> string \<Rightarrow> ChallengeRow option" where
  "get_challenge_for_transaction tab tid =
     (case sort_key (\<lambda>r. - ch_created_at r) (filter (\<lambda>r. ch_transaction_id r = tid) (rows_of tab)) of
        [] \<Rightarrow> None | r # _ \<Rightarrow> Some r)"

definition lock_challenge_for_update :: "challenge_table \<Rightarrow> string \<Rightarrow> ChallengeRow option" where
  "lock_challenge_for_update tab cid = row_of tab cid"

definition update_challenge :: "ChallengeRow \<Rightarrow> (challenge_table, ChallengeRow) prog" where
  \<comment> \<open>the assignments to the locked row and \<open>flush\<close>\<close>
  "update_challenge q tab = (Inr q, put_row (ch_challenge_id q) q tab)"

definition locked_challenge :: "string \<Rightarrow> (challenge_table, ChallengeRow) prog" where
  "locked_challenge cid tab =
     (case lock_challenge_for_update tab cid of
        None \<Rightarrow> (Inl (Raise ValueError (Msg ''Step-up challenge '{}' not found.'' [PStr cid])), tab)
      | Some r \<Rightarrow> (Inr r, tab))"

definition approve_challenge ::
  "string \<Rightarrow> string \<Rightarrow> string option \<Rightarrow> datetime option \<Rightarrow> datetime \<Rightarrow> (challenge_table, ChallengeRow) prog" where
  "approve_challenge cid approver meta at now =
     then_do (locked_challenge cid) (\<lambda>r.
       if resolve_at at now \<ge> ch_expires_at r then
         then_do (update_challenge (r\<lparr>ch_status := status_text StepUpChallengeStatus.EXPIRED\<rparr>)) (\<lambda>_.
           raise_exc (Raise ValueError (Msg ''Cannot approve step-up challenge '{}': challenge expired at {}.''
             [PStr cid, PTime (ch_expires_at r)])))
       else if ch_status r \<noteq> status_text StepUpChallengeStatus.PENDING then
         raise_exc (Raise ValueError
           (Msg ''Cannot approve step-up challenge '{}': challenge is in state '{}', expected 'PENDING'.''
             [PStr cid, PStr (ch_status r)]))
       else update_challenge (r\<lparr>ch_status := status_text APPROVED, ch_approved_at := Some (resolve_at at now),
         ch_approver_metadata := Some (text_or meta (''approved_by:'' @ approver))\<rparr>))"

definition reject_challenge :: "string \<Rightarrow> string option \<Rightarrow> (challenge_table, ChallengeRow) prog" where
  "reject_challenge cid reason =
     then_do (locked_challenge cid) (\<lambda>r.
       if ch_status r \<noteq> status_text StepUpChallengeStatus.PENDING then
         raise_exc (Raise ValueError
           (Msg ''Cannot reject step-up challenge '{}': challenge is in state '{}', expected 'PENDING'.''
             [PStr cid, PStr (ch_status r)]))
       else update_challenge (r\<lparr>ch_status := status_text StepUpChallengeStatus.REJECTED,
         ch_approver_metadata := Some (text_or reason ''rejected'')\<rparr>))"

definition expire_challenge :: "string \<Rightarrow> (challenge_table, ChallengeRow) prog" where
  "expire_challenge cid =
     then_do (locked_challenge cid) (\<lambda>r.
       if ch_status r = status_text StepUpChallengeStatus.PENDING then
         update_challenge (r\<lparr>ch_status := status_text StepUpChallengeStatus.EXPIRED\<rparr>)
       else ret r)"

definition get_pending_challenges :: "challenge_table \<Rightarrow> datetime \<Rightarrow> ChallengeRow list" where
  "get_pending_challenges tab now = sort_key ch_created_at
     (filter (\<lambda>r. ch_status r = status_text StepUpChallengeStatus.PENDING \<and> now < ch_expires_at r) (rows_of tab))"

section \<open>The metadata of a challenge\<close>

definition challenge_metadata :: "string \<Rightarrow> string \<Rightarrow> int \<Rightarrow> int \<Rightarrow> string \<Rightarrow> json" where
  "challenge_metadata mid cart approved proposed merchant = JObj
     [(''mandate_id'', JStr (strip mid)), (''cart_hash'', JStr (norm_hash cart)), (''approved_paise'', JInt approved),
      (''proposed_paise'', JInt proposed), (''merchant_id'', JStr (strip merchant))]"

definition json_decode_error :: py_exc where
  "json_decode_error = Raise (SourceError ''JSONDecodeError'' []) (Msg ''Expecting value'' [])"

definition untyped_metadata :: py_exc where
  "untyped_metadata = Raise TypeError (Msg ''metadata value of another type'' [])"

definition metadata_of :: "(string \<Rightarrow> json option) \<Rightarrow> string option \<Rightarrow> json res" where
  \<comment> \<open>\<open>json.loads(model.approver_metadata) if model.approver_metadata else {}\<close>\<close>
  "metadata_of loads m = (case m of None \<Rightarrow> Inr (JObj [])
     | Some s \<Rightarrow> if s = [] then Inr (JObj [])
         else case loads s of None \<Rightarrow> Inl json_decode_error | Some j \<Rightarrow> Inr j)"

definition meta_str :: "json \<Rightarrow> string \<Rightarrow> string res" where
  "meta_str m k = bind_res (dict_get m k (JStr [])) (\<lambda>v. case v of JStr s \<Rightarrow> Inr s | _ \<Rightarrow> Inl untyped_metadata)"

definition meta_int :: "json \<Rightarrow> string \<Rightarrow> int res" where
  "meta_int m k = bind_res (dict_get m k (JInt 0)) (\<lambda>v. case v of JInt i \<Rightarrow> Inr i | _ \<Rightarrow> Inl untyped_metadata)"

definition meta_name :: "json \<Rightarrow> string \<Rightarrow> string option res" where
  "meta_name m k = bind_res (dict_get m k JNull)
     (\<lambda>v. case v of JNull \<Rightarrow> Inr None | JStr s \<Rightarrow> Inr (Some s) | _ \<Rightarrow> Inl untyped_metadata)"

record ChallengeBinding =
  cb_mandate_id :: string
  cb_cart_hash :: string
  cb_approved_paise :: int
  cb_proposed_paise :: int
  cb_merchant_id :: string

definition binding_of :: "json \<Rightarrow> ChallengeBinding res" where
  "binding_of m =
     bind_res (meta_str m ''mandate_id'') (\<lambda>mid. bind_res (meta_str m ''cart_hash'') (\<lambda>cart.
     bind_res (meta_int m ''approved_paise'') (\<lambda>approved. bind_res (meta_int m ''proposed_paise'') (\<lambda>proposed.
     bind_res (meta_str m ''merchant_id'') (\<lambda>merchant.
       Inr \<lparr>cb_mandate_id = mid, cb_cart_hash = cart, cb_approved_paise = approved, cb_proposed_paise = proposed,
            cb_merchant_id = merchant\<rparr>)))))"

section \<open>The asynchronous engine\<close>

record AsyncStepUp =
  su_engine :: StepUpEngine
  su_challenges :: challenge_table

definition on_challenges :: "(challenge_table, 'a) prog \<Rightarrow> (AsyncStepUp, 'a) prog" where
  "on_challenges m = zoom su_challenges (\<lambda>t s. s\<lparr>su_challenges := t\<rparr>) m"

definition remember_challenge :: "string \<Rightarrow> StepUpChallengeRecord \<Rightarrow> (AsyncStepUp, StepUpChallengeRecord) prog" where
  "remember_challenge cid r = then_do (write_st (\<lambda>s. s\<lparr>su_engine := (su_engine s)(cid \<mapsto> r)\<rparr>)) (\<lambda>_. ret r)"

definition async_create_challenge ::
  "(challenge_table \<Rightarrow> ChallengeRow \<Rightarrow> bool) \<Rightarrow> string \<Rightarrow> string \<Rightarrow> string \<Rightarrow> int \<Rightarrow> int \<Rightarrow> string \<Rightarrow> int \<Rightarrow>
   datetime option \<Rightarrow> string \<Rightarrow> datetime \<Rightarrow> (AsyncStepUp, StepUpChallengeRecord) prog" where
  "async_create_challenge accepts mid tid cart approved proposed merchant ttl at uid now =
     (let t = resolve_at at now; cid = ''challenge-'' @ uid in
      then_do (on_challenges (repo_create_challenge accepts cid (strip tid) ''STEP_UP_REQUIRED'' (t + seconds ttl)
        (status_text StepUpChallengeStatus.PENDING)
        (Some (json_plain (challenge_metadata mid cart approved proposed merchant))) now)) (\<lambda>m.
        remember_challenge cid
          \<lparr>suc_challenge_id = ch_challenge_id m, suc_mandate_id = strip mid, suc_transaction_id = ch_transaction_id m,
           suc_cart_hash = norm_hash cart, suc_approved_paise = approved, suc_proposed_paise = proposed,
           suc_merchant_id = strip merchant, suc_status = StepUpChallengeStatus.PENDING,
           suc_created_at = ch_created_at m, suc_expires_at = ch_expires_at m, suc_confirmed_at = None,
           suc_confirmed_by = None\<rparr>))"

definition missing_challenge :: "string \<Rightarrow> py_exc" where
  "missing_challenge cid = Raise ValueError (Msg ''Step-up challenge {} not found.'' [PStr cid])"

definition async_record_human_confirmation ::
  "(string \<Rightarrow> json option) \<Rightarrow> TrustedConfirmation \<Rightarrow> datetime option \<Rightarrow> datetime \<Rightarrow>
   (AsyncStepUp, StepUpChallengeRecord) prog" where
  "async_record_human_confirmation loads c at now =
     (let t = resolve_at at now; cid = strip (tc_challenge_id c) in
      then_do (read_st (\<lambda>s. lock_challenge_for_update (su_challenges s) cid)) (\<lambda>found.
      case found of
        None \<Rightarrow> raise_exc (missing_challenge cid)
      | Some m \<Rightarrow>
          if ch_status m \<noteq> status_text StepUpChallengeStatus.PENDING then
            raise_exc (Raise ValueError (Msg ''Step-up challenge {} is already {}.'' [PStr cid, PStr (ch_status m)]))
          else if t \<ge> ch_expires_at m then
            then_do (on_challenges (reject_challenge cid (Some ''Challenge expired''))) (\<lambda>_.
              raise_exc (Raise ValueError (Msg ''Step-up challenge {} has EXPIRED.'' [PStr cid])))
          else
            then_do (of_res (bind_res (metadata_of loads (ch_approver_metadata m)) binding_of)) (\<lambda>b.
              if cb_mandate_id b \<noteq> [] \<and> cb_mandate_id b \<noteq> strip (tc_mandate_id c) then
                raise_exc (Raise ValueError (Msg ''Confirmation mandate_id mismatch for challenge {}.'' [PStr cid]))
              else if ch_transaction_id m \<noteq> strip (tc_transaction_id c) then
                raise_exc (Raise ValueError (Msg ''Confirmation transaction_id mismatch for challenge {}.'' [PStr cid]))
              else if cb_cart_hash b \<noteq> [] \<and> cb_cart_hash b \<noteq> norm_hash (tc_cart_hash c) then
                raise_exc (Raise ValueError (Msg ''Confirmation cart_hash mismatch for challenge {}.'' [PStr cid]))
              else
                then_do (on_challenges (approve_challenge cid (tc_confirmed_by c) None None now)) (\<lambda>q.
                  remember_challenge cid
                    \<lparr>suc_challenge_id = ch_challenge_id q, suc_mandate_id = tc_mandate_id c,
                     suc_transaction_id = ch_transaction_id q, suc_cart_hash = tc_cart_hash c,
                     suc_approved_paise = cb_approved_paise b, suc_proposed_paise = cb_proposed_paise b,
                     suc_merchant_id = (if cb_merchant_id b = [] then tc_merchant_id c else cb_merchant_id b),
                     suc_status = APPROVED, suc_created_at = ch_created_at q, suc_expires_at = ch_expires_at q,
                     suc_confirmed_at = ch_approved_at q, suc_confirmed_by = Some (tc_confirmed_by c)\<rparr>))))"

definition async_reject_challenge ::
  "(string \<Rightarrow> json option) \<Rightarrow> string \<Rightarrow> string \<Rightarrow> datetime option \<Rightarrow> datetime \<Rightarrow>
   (AsyncStepUp, StepUpChallengeRecord) prog" where
  \<comment> \<open>\<open>model\<close> and \<open>updated_model\<close> are one object of the session, so that the metadata read at the end is the
    reason that was just stored\<close>
  "async_reject_challenge loads chid reason at now =
     (let cid = strip chid in
      then_do (read_st (\<lambda>s. lock_challenge_for_update (su_challenges s) cid)) (\<lambda>found.
      case found of
        None \<Rightarrow> raise_exc (missing_challenge cid)
      | Some _ \<Rightarrow>
          then_do (on_challenges (reject_challenge cid (Some reason))) (\<lambda>q.
          then_do (of_res (bind_res (metadata_of loads (ch_approver_metadata q)) binding_of)) (\<lambda>b.
            remember_challenge cid
              \<lparr>suc_challenge_id = ch_challenge_id q, suc_mandate_id = cb_mandate_id b,
               suc_transaction_id = ch_transaction_id q, suc_cart_hash = cb_cart_hash b,
               suc_approved_paise = cb_approved_paise b, suc_proposed_paise = cb_proposed_paise b,
               suc_merchant_id = cb_merchant_id b, suc_status = StepUpChallengeStatus.REJECTED,
               suc_created_at = ch_created_at q, suc_expires_at = ch_expires_at q,
               suc_confirmed_at = Some (resolve_at at now), suc_confirmed_by = None\<rparr>))))"

definition challenge_status_from :: "string \<Rightarrow> StepUpChallengeStatus res" where
  \<comment> \<open>\<open>StepUpChallengeStatus(text)\<close>\<close>
  "challenge_status_from s =
     (case find (\<lambda>st. status_text st = s) [StepUpChallengeStatus.PENDING, APPROVED, StepUpChallengeStatus.REJECTED,
        StepUpChallengeStatus.EXPIRED] of
        Some st \<Rightarrow> Inr st
      | None \<Rightarrow> Inl (Raise ValueError (Msg ''{} is not a valid StepUpChallengeStatus'' [PStr s])))"

definition async_get_challenge ::
  "(string \<Rightarrow> json option) \<Rightarrow> challenge_table \<Rightarrow> string \<Rightarrow> StepUpChallengeRecord option res" where
  "async_get_challenge loads tab chid =
     (if strip chid = [] then Inr None
      else case repo_get_challenge tab (strip chid) of
        None \<Rightarrow> Inr None
      | Some m \<Rightarrow>
          bind_res (metadata_of loads (ch_approver_metadata m)) (\<lambda>meta.
          bind_res (binding_of meta) (\<lambda>b. bind_res (challenge_status_from (ch_status m)) (\<lambda>st.
          bind_res (meta_name meta ''confirmed_by'') (\<lambda>who.
            Inr (Some \<lparr>suc_challenge_id = ch_challenge_id m, suc_mandate_id = cb_mandate_id b,
              suc_transaction_id = ch_transaction_id m, suc_cart_hash = cb_cart_hash b,
              suc_approved_paise = cb_approved_paise b, suc_proposed_paise = cb_proposed_paise b,
              suc_merchant_id = cb_merchant_id b, suc_status = st, suc_created_at = ch_created_at m,
              suc_expires_at = ch_expires_at m, suc_confirmed_at = ch_approved_at m, suc_confirmed_by = who\<rparr>))))))"

section \<open>What the operations do\<close>

abbreviation stored :: "(AsyncStepUp, 'a) prog \<Rightarrow> (AsyncStepUp, 'a) prog" where
  "stored m \<equiv> transactional su_challenges (\<lambda>t s. s\<lparr>su_challenges := t\<rparr>) m"

definition confirmable ::
  "(string \<Rightarrow> json option) \<Rightarrow> challenge_table \<Rightarrow> TrustedConfirmation \<Rightarrow> datetime option \<Rightarrow> datetime \<Rightarrow>
   ChallengeRow \<Rightarrow> ChallengeBinding \<Rightarrow> bool" where
  \<comment> \<open>what a confirmation is checked against\<close>
  "confirmable loads tab c at now m b \<longleftrightarrow> row_of tab (strip (tc_challenge_id c)) = Some m \<and>
     ch_status m = status_text StepUpChallengeStatus.PENDING \<and>
     resolve_at at now < ch_expires_at m \<and> now < ch_expires_at m \<and>
     bind_res (metadata_of loads (ch_approver_metadata m)) binding_of = Inr b \<and>
     cb_mandate_id b \<in> {[], strip (tc_mandate_id c)} \<and> ch_transaction_id m = strip (tc_transaction_id c) \<and>
     cb_cart_hash b \<in> {[], norm_hash (tc_cart_hash c)}"

definition approved_row :: "ChallengeRow \<Rightarrow> TrustedConfirmation \<Rightarrow> datetime \<Rightarrow> ChallengeRow" where
  "approved_row m c now = m\<lparr>ch_status := status_text APPROVED, ch_approved_at := Some now,
     ch_approver_metadata := Some (''approved_by:'' @ tc_confirmed_by c)\<rparr>"

definition confirmed_record ::
  "ChallengeRow \<Rightarrow> ChallengeBinding \<Rightarrow> TrustedConfirmation \<Rightarrow> datetime \<Rightarrow> StepUpChallengeRecord" where
  "confirmed_record m b c now =
     \<lparr>suc_challenge_id = ch_challenge_id m, suc_mandate_id = tc_mandate_id c, suc_transaction_id = ch_transaction_id m,
      suc_cart_hash = tc_cart_hash c, suc_approved_paise = cb_approved_paise b, suc_proposed_paise = cb_proposed_paise b,
      suc_merchant_id = (if cb_merchant_id b = [] then tc_merchant_id c else cb_merchant_id b), suc_status = APPROVED,
      suc_created_at = ch_created_at m, suc_expires_at = ch_expires_at m, suc_confirmed_at = Some now,
      suc_confirmed_by = Some (tc_confirmed_by c)\<rparr>"

lemmas challenge_simps = lock_challenge_for_update_def locked_challenge_def update_challenge_def on_challenges_def zoom_def
  remember_challenge_def then_do_def Let_def

lemma confirm_ok:
  assumes "confirmable loads (su_challenges s) c at now m b"
  shows "stored (async_record_human_confirmation loads c at now) s = (Inr (confirmed_record m b c now),
    \<lparr>su_engine = (su_engine s)(strip (tc_challenge_id c) \<mapsto> confirmed_record m b c now),
     su_challenges = put_row (ch_challenge_id m) (approved_row m c now) (su_challenges s)\<rparr>)"
  using assms
  by (auto simp: confirmable_def transactional_def async_record_human_confirmation_def challenge_simps approve_challenge_def
      approved_row_def confirmed_record_def resolve_at_def text_or_def simp del: challenge_status_value.simps)

lemma confirm_fails:
  assumes "\<not> (\<exists>m b. confirmable loads (su_challenges s) c at now m b)"
  shows "\<exists>x. stored (async_record_human_confirmation loads c at now) s = (Inl x, s)"
proof (cases "row_of (su_challenges s) (strip (tc_challenge_id c))")
  case None
  then show ?thesis by (simp add: transactional_def async_record_human_confirmation_def challenge_simps)
next
  case (Some m)
  show ?thesis
  proof (cases "bind_res (metadata_of loads (ch_approver_metadata m)) binding_of")
    case (Inl e)
    then show ?thesis using Some
      by (auto simp: transactional_def async_record_human_confirmation_def challenge_simps reject_challenge_def
          simp del: challenge_status_value.simps)
  next
    case (Inr b)
    then have "\<not> confirmable loads (su_challenges s) c at now m b" using assms by blast
    then show ?thesis using Some Inr
      by (auto simp: confirmable_def transactional_def async_record_human_confirmation_def challenge_simps
          reject_challenge_def approve_challenge_def resolve_at_def simp del: challenge_status_value.simps)
  qed
qed

lemma confirm_cases:
  obtains (failed) x where "stored (async_record_human_confirmation loads c at now) s = (Inl x, s)"
      "\<not> (\<exists>m b. confirmable loads (su_challenges s) c at now m b)"
  | (ok) m b where "confirmable loads (su_challenges s) c at now m b"
      "stored (async_record_human_confirmation loads c at now) s = (Inr (confirmed_record m b c now),
        \<lparr>su_engine = (su_engine s)(strip (tc_challenge_id c) \<mapsto> confirmed_record m b c now),
         su_challenges = put_row (ch_challenge_id m) (approved_row m c now) (su_challenges s)\<rparr>)"
  using confirm_ok confirm_fails by metis

section \<open>Rows that only leave the pending status\<close>

definition challenge_evolves :: "ChallengeRow \<Rightarrow> ChallengeRow \<Rightarrow> bool" where
  "challenge_evolves r q \<longleftrightarrow> ch_challenge_id q = ch_challenge_id r \<and> ch_transaction_id q = ch_transaction_id r \<and>
     ch_created_at q = ch_created_at r \<and> ch_expires_at q = ch_expires_at r \<and>
     (ch_status r = status_text StepUpChallengeStatus.PENDING \<or> ch_status q = ch_status r)"

interpretation challenge_rows: row_relation ch_challenge_id challenge_evolves
  by unfold_locales (auto simp: challenge_evolves_def)

abbreviation challenges_evolve :: "challenge_table \<Rightarrow> challenge_table \<Rightarrow> bool" where
  "challenges_evolve \<equiv> table_evolves ch_challenge_id challenge_evolves"

lemma update_evolves:
  assumes "row_of tab k = Some m" and "challenge_evolves m q"
  shows "challenges_evolve tab (put_row (ch_challenge_id m) q tab)"
  by (rule challenge_rows.evolves_update [OF assms])

datatype challenge_op =
    SuCreate string string string int int string int "datetime option" string datetime
  | SuConfirm TrustedConfirmation "datetime option" datetime
  | SuReject string string "datetime option" datetime

fun challenge_step ::
  "(string \<Rightarrow> json option) \<Rightarrow> (challenge_table \<Rightarrow> ChallengeRow \<Rightarrow> bool) \<Rightarrow> AsyncStepUp \<Rightarrow> challenge_op \<Rightarrow>
   StepUpChallengeRecord res \<times> AsyncStepUp" where
  "challenge_step loads accepts s (SuCreate mid tid cart approved proposed merchant ttl at uid now) =
     stored (async_create_challenge accepts mid tid cart approved proposed merchant ttl at uid now) s"
| "challenge_step loads accepts s (SuConfirm c at now) = stored (async_record_human_confirmation loads c at now) s"
| "challenge_step loads accepts s (SuReject chid reason at now) = stored (async_reject_challenge loads chid reason at now) s"

lemma new_row_evolves:
  "unique_key ch_challenge_id accepts \<Longrightarrow> accepts tab r \<Longrightarrow> ch_challenge_id r = k \<Longrightarrow> challenges_evolve tab (put_row k r tab)"
  using evolvesD [OF challenge_rows.evolves_insert, of accepts tab r] by (auto simp: insert_row_def)

lemma create_challenge_step:
  assumes "unique_key ch_challenge_id accepts"
  shows "challenges_evolve (su_challenges s) (su_challenges (snd (stored (async_create_challenge accepts mid tid cart
    approved proposed merchant ttl at uid now) s)))"
  using challenge_rows.table.stays
  by (auto simp: transactional_def async_create_challenge_def challenge_simps repo_create_challenge_def insert_row_def
      intro!: new_row_evolves [OF assms])

lemma confirm_step:
  "challenges_evolve (su_challenges s) (su_challenges (snd (stored (async_record_human_confirmation loads c at now) s)))"
proof (cases rule: confirm_cases [of loads c at now s])
  case (failed x)
  then show ?thesis by (simp add: challenge_rows.table.stays)
next
  case (ok m b)
  have "challenge_evolves m (approved_row m c now)"
    using ok(1) by (simp add: confirmable_def challenge_evolves_def approved_row_def)
  then show ?thesis using ok(1) update_evolves [of "su_challenges s" "strip (tc_challenge_id c)" m] unfolding ok(2)
    by (simp add: confirmable_def)
qed

lemma reject_run:
  "su_challenges (snd (stored (async_reject_challenge loads chid reason at now) s)) = su_challenges s \<or>
   (\<exists>m. row_of (su_challenges s) (strip chid) = Some m \<and> ch_status m = status_text StepUpChallengeStatus.PENDING \<and>
     su_challenges (snd (stored (async_reject_challenge loads chid reason at now) s)) =
       put_row (ch_challenge_id m) (m\<lparr>ch_status := status_text StepUpChallengeStatus.REJECTED,
         ch_approver_metadata := Some (text_or (Some reason) ''rejected'')\<rparr>) (su_challenges s))"
  by (cases "row_of (su_challenges s) (strip chid)")
    (auto simp: transactional_def async_reject_challenge_def challenge_simps reject_challenge_def
      simp del: challenge_status_value.simps text_or_simps split: sum.split)

lemma challenge_step_evolves:
  assumes "unique_key ch_challenge_id accepts"
  shows "challenges_evolve (su_challenges s) (su_challenges (snd (challenge_step loads accepts s x)))"
proof (cases x)
  case (SuReject chid reason at now)
  then show ?thesis using reject_run [of loads chid reason at now s] challenge_rows.table.stays
    by (auto intro!: update_evolves simp: challenge_evolves_def simp del: text_or_simps)
qed (simp_all add: create_challenge_step [OF assms] confirm_step)

section \<open>A challenge is confirmed once\<close>

definition stored_closed :: "AsyncStepUp \<Rightarrow> string \<Rightarrow> bool" where
  "stored_closed s k = (case row_of (su_challenges s) k of None \<Rightarrow> False
     | Some r \<Rightarrow> ch_status r \<noteq> status_text StepUpChallengeStatus.PENDING)"

fun challenge_key :: "challenge_op \<Rightarrow> string option" where
  "challenge_key (SuConfirm c _ _) = Some (strip (tc_challenge_id c))"
| "challenge_key _ = None"

lemma evolve_closed:
  "challenges_evolve (su_challenges s) (su_challenges t) \<Longrightarrow> keyed ch_challenge_id (su_challenges s) \<Longrightarrow>
     stored_closed s k \<Longrightarrow> stored_closed t k"
  unfolding table_evolves_def keeps_rows_def stored_closed_def
  by (cases "row_of (su_challenges s) k") (auto simp: challenge_evolves_def dest!: spec [of _ k])

interpretation stored_confirmation: single_use "challenge_step loads accepts"
  "\<lambda>_ _. unique_key ch_challenge_id accepts" "\<lambda>s. keyed ch_challenge_id (su_challenges s)" is_ok
  challenge_key stored_closed
proof unfold_locales
  fix s :: AsyncStepUp and x
  assume "keyed ch_challenge_id (su_challenges s)" "unique_key ch_challenge_id accepts"
  then show "keyed ch_challenge_id (su_challenges (snd (challenge_step loads accepts s x)))"
    using challenge_step_evolves [of accepts s loads x] by (simp add: table_evolves_def)
next
  fix s :: AsyncStepUp and x k
  assume k: "challenge_key x = Some k" and ok: "is_ok (fst (challenge_step loads accepts s x))"
    and keyed: "keyed ch_challenge_id (su_challenges s)"
  then obtain c at now where x: "x = SuConfirm c at now" "k = strip (tc_challenge_id c)" by (cases x) auto
  show "\<not> stored_closed s k"
    using ok x by (cases rule: confirm_cases [of loads c at now s]) (auto simp: is_ok_def stored_closed_def confirmable_def)
  show "stored_closed (snd (challenge_step loads accepts s x)) k"
    using ok x keyed by (cases rule: confirm_cases [of loads c at now s])
      (auto simp: is_ok_def stored_closed_def confirmable_def keyed_def approved_row_def)
next
  fix s :: AsyncStepUp and x k
  assume "keyed ch_challenge_id (su_challenges s)" "unique_key ch_challenge_id accepts" "stored_closed s k"
  then show "stored_closed (snd (challenge_step loads accepts s x)) k"
    by (intro evolve_closed [OF challenge_step_evolves])
qed

section \<open>Properties\<close>

text \<open>C15: A stored challenge is confirmed at most once: in any sequence of stored creations, confirmations and
  rejections, each in its unit of work, at most one confirmation of a challenge is accepted.\<close>

theorem stored_challenge_confirmed_once:
  assumes "unique_key ch_challenge_id accepts" and "keyed ch_challenge_id (su_challenges s)"
  shows "accepted_count is_ok (\<lambda>x. challenge_key x = Some k) ops (fst (run_ops (challenge_step loads accepts) s ops)) \<le> 1"
proof -
  have "run_adm (challenge_step loads accepts) (\<lambda>_ _. unique_key ch_challenge_id accepts) s ops"
    using assms(1) by simp
  then show ?thesis by (rule stored_confirmation.at_most_once [OF assms(2)])
qed

text \<open>What a stored confirmation is checked against: it is accepted exactly when the challenge is stored,
  pending and unexpired, its metadata can be read, and mandate, transaction and cart agree with it. The
  amount and the merchant that the human confirmed are not compared with the challenge, in contrast to
  the in-memory engine.\<close>

theorem stored_confirmation_exact:
  "is_ok (fst (stored (async_record_human_confirmation loads c at now) s)) \<longleftrightarrow>
    (\<exists>m b. row_of (su_challenges s) (strip (tc_challenge_id c)) = Some m \<and>
      ch_status m = status_text StepUpChallengeStatus.PENDING \<and>
      resolve_at at now < ch_expires_at m \<and> now < ch_expires_at m \<and>
      bind_res (metadata_of loads (ch_approver_metadata m)) binding_of = Inr b \<and>
      cb_mandate_id b \<in> {[], strip (tc_mandate_id c)} \<and> ch_transaction_id m = strip (tc_transaction_id c) \<and>
      cb_cart_hash b \<in> {[], norm_hash (tc_cart_hash c)})"
  by (cases rule: confirm_cases [of loads c at now s]) (auto simp: is_ok_def confirmable_def)

text \<open>A confirmed challenge cannot be read back: the confirmation replaces the JSON metadata by a text
  that is not JSON, so every later \<open>async_get_challenge\<close> of the challenge raises.\<close>

theorem confirmed_challenge_unreadable:
  assumes "stored (async_record_human_confirmation loads c at now) s = (Inr r, s')"
    and "keyed ch_challenge_id (su_challenges s)" and "strip (tc_challenge_id c) \<noteq> []"
    and "loads (''approved_by:'' @ tc_confirmed_by c) = None"
  shows "async_get_challenge loads (su_challenges s') (tc_challenge_id c) = Inl json_decode_error"
proof (cases rule: confirm_cases [of loads c at now s])
  case (failed x)
  then show ?thesis using assms(1) by simp
next
  case (ok m b)
  then have "ch_challenge_id m = strip (tc_challenge_id c)" "su_challenges s' =
      put_row (ch_challenge_id m) (approved_row m c now) (su_challenges s)"
    using assms(1,2) by (auto simp: confirmable_def keyed_def)
  then show ?thesis using assms(3,4)
    by (simp add: async_get_challenge_def repo_get_challenge_def approved_row_def metadata_of_def bind_res_def)
qed

text \<open>A stored challenge can never be rejected with a text that is not JSON (as the default reason): the
  rejection reads back the reason it has just stored as metadata, raises, and is rolled back.\<close>

theorem stored_rejection_undone:
  assumes "loads reason = None" and "reason \<noteq> []"
  shows "\<exists>x. stored (async_reject_challenge loads chid reason at now) s = (Inl x, s)"
proof (cases "row_of (su_challenges s) (strip chid)")
  case None
  then show ?thesis by (simp add: transactional_def async_reject_challenge_def challenge_simps)
next
  case (Some m)
  then show ?thesis using assms
    by (auto simp: transactional_def async_reject_challenge_def challenge_simps reject_challenge_def metadata_of_def
        bind_res_def)
qed

section \<open>Instances\<close>

definition toy_loads :: "string \<Rightarrow> json option" where
  \<comment> \<open>reads back one metadata text\<close>
  "toy_loads s = (if s = json_plain (challenge_metadata ''m'' ''h'' 100 105 ''s'')
     then Some (challenge_metadata ''m'' ''h'' 100 105 ''s'') else None)"

definition pending_row :: ChallengeRow where
  "pending_row = \<lparr>ch_challenge_id = ''c'', ch_transaction_id = ''t'', ch_status = ''PENDING'',
     ch_risk_classification = ''STEP_UP_REQUIRED'', ch_created_at = 0, ch_expires_at = seconds 300, ch_approved_at = None,
     ch_approver_metadata = Some (json_plain (challenge_metadata ''m'' ''h'' 100 105 ''s''))\<rparr>"

definition pending_store :: AsyncStepUp where
  "pending_store = \<lparr>su_engine = Map.empty, su_challenges = [(''c'', pending_row)]\<rparr>"

definition cheap_confirmation :: TrustedConfirmation where
  "cheap_confirmation = \<lparr>tc_challenge_id = ''c'', tc_mandate_id = ''m'', tc_transaction_id = ''t'', tc_cart_hash = ''h'',
     tc_proposed_paise = 1, tc_merchant_id = ''other'', tc_confirmed_by = ''human''\<rparr>"

lemma pending_keyed: "keyed ch_challenge_id (su_challenges pending_store)"
  by (auto simp: keyed_def pending_store_def pending_row_def row_of_def split: if_splits)

lemma metadata_text: "json_plain (challenge_metadata mid cart approved proposed merchant) \<noteq> ''approved_by:'' @ x"
  "json_plain (challenge_metadata mid cart approved proposed merchant) \<noteq> ''approved_by:human''"
  "json_plain (challenge_metadata mid cart approved proposed merchant) \<noteq> ''Human rejected challenge''"
  "json_plain (challenge_metadata mid cart approved proposed merchant) \<noteq> []"
  by (simp_all add: challenge_metadata_def)

lemma pending_confirmable:
  "\<exists>b. confirmable toy_loads (su_challenges pending_store) cheap_confirmation None 1 pending_row b"
  by (simp add: confirmable_def pending_store_def pending_row_def cheap_confirmation_def row_of_def step_up_eval
      resolve_at_def seconds_def metadata_of_def metadata_text toy_loads_def)
    (simp add: challenge_metadata_def bind_res_def binding_of_def meta_str_def meta_int_def step_up_eval)

theorem stored_challenge_confirmed_once_witness:
  "accepted_count is_ok (\<lambda>x. challenge_key x = Some ''c'') [SuConfirm cheap_confirmation None 1, SuConfirm cheap_confirmation None 2]
    (fst (run_ops (challenge_step toy_loads (free_key ch_challenge_id)) pending_store
      [SuConfirm cheap_confirmation None 1, SuConfirm cheap_confirmation None 2])) \<le> 1"
  by (rule stored_challenge_confirmed_once [OF free_key_unique pending_keyed])

theorem confirmed_challenge_unreadable_witness:
  "\<exists>r s'. stored (async_record_human_confirmation toy_loads cheap_confirmation None 1) pending_store = (Inr r, s') \<and>
    async_get_challenge toy_loads (su_challenges s') ''c'' = Inl json_decode_error"
proof -
  obtain b where "confirmable toy_loads (su_challenges pending_store) cheap_confirmation None 1 pending_row b"
    using pending_confirmable by blast
  then obtain r s' where run: "stored (async_record_human_confirmation toy_loads cheap_confirmation None 1) pending_store = (Inr r, s')"
    using confirm_ok by blast
  have "async_get_challenge toy_loads (su_challenges s') (tc_challenge_id cheap_confirmation) = Inl json_decode_error"
    by (rule confirmed_challenge_unreadable [OF run pending_keyed])
      (simp_all add: cheap_confirmation_def step_up_eval toy_loads_def metadata_text(2) [symmetric])
  then show ?thesis using run by (auto simp: cheap_confirmation_def)
qed

theorem stored_rejection_undone_witness:
  "\<exists>x. stored (async_reject_challenge toy_loads ''c'' ''Human rejected challenge'' None 1) pending_store = (Inl x, pending_store)"
  by (rule stored_rejection_undone) (simp_all add: toy_loads_def metadata_text(3) [symmetric])

end
