(* ===== verification/Agent_Policy.thy ===== *)
theory Agent_Policy
  imports Rule_Chain Py_Json Iso_Time
begin

text \<open>
  The payment policy of an agent: the contracts of \<open>apps/api/commerce/payments/models.py\<close> and the engine of
  \<open>apps/api/commerce/payments/policy.py\<close>. The rules run in order and the first that fails blocks the
  payment; the spending of an agent is kept by day, the text of which is \<open>today_str\<close>. One call reads
  the clock once.
\<close>

section \<open>The contracts\<close>

datatype RiskLevel = LOW | MEDIUM | HIGH | BLOCKED

fun risk_value :: "RiskLevel \<Rightarrow> string" where
  "risk_value LOW = ''LOW''"
| "risk_value MEDIUM = ''MEDIUM''"
| "risk_value HIGH = ''HIGH''"
| "risk_value BLOCKED = ''BLOCKED''"

fun risk_hierarchy :: "RiskLevel \<Rightarrow> int" where
  "risk_hierarchy LOW = 1"
| "risk_hierarchy MEDIUM = 2"
| "risk_hierarchy HIGH = 3"
| "risk_hierarchy BLOCKED = 4"

instantiation RiskLevel :: linorder
begin

definition less_eq_RiskLevel :: "RiskLevel \<Rightarrow> RiskLevel \<Rightarrow> bool" where
  "less_eq_RiskLevel a b \<longleftrightarrow> risk_hierarchy a \<le> risk_hierarchy b"

definition less_RiskLevel :: "RiskLevel \<Rightarrow> RiskLevel \<Rightarrow> bool" where
  "less_RiskLevel a b \<longleftrightarrow> risk_hierarchy a < risk_hierarchy b"

instance
proof
  fix a b :: RiskLevel
  show "a \<le> b \<Longrightarrow> b \<le> a \<Longrightarrow> a = b" by (cases a; cases b) (simp_all add: less_eq_RiskLevel_def)
qed (auto simp: less_eq_RiskLevel_def less_RiskLevel_def)

end

record AgentSpendingLimits =
  sl_per_transaction_limit_paise :: int
  sl_daily_limit_paise :: int
  sl_allowed_currencies :: "string set"
  sl_allowed_categories :: "string set"
  sl_allowed_merchants :: "string set"

record AgentPaymentPolicy =
  ap_policy_id :: string
  ap_agent_id :: string
  ap_limits :: AgentSpendingLimits
  ap_require_human_confirmation :: bool
  ap_require_verified_product :: bool
  ap_max_allowed_risk_level :: RiskLevel
  ap_allowed_providers :: "string set"

record PolicyContext =
  pc_agent_id :: string
  pc_request_id :: string
  pc_user_id :: string
  pc_merchant_id :: string
  pc_merchant_name :: string
  pc_category :: string
  pc_currency :: string
  pc_amount_paise :: int
  pc_provider :: string
  pc_is_product_verified :: bool
  pc_has_human_confirmation :: bool
  pc_confirmation_expired :: bool
  pc_authorization_token :: "string option"
  pc_is_new_merchant :: bool
  pc_recent_failure_count :: int

record PolicyResult =
  pr_allowed :: bool
  pr_risk_level :: RiskLevel
  pr_reason :: msg
  pr_block_code :: "string option"
  pr_policy_id :: "string option"
  pr_evaluated_at :: datetime

section \<open>The engine\<close>

record PaymentPolicyEngine =
  ppe_default_policy :: AgentPaymentPolicy
  ppe_custom_policies :: "string \<rightharpoonup> AgentPaymentPolicy"
  ppe_daily_spending :: "string \<rightharpoonup> (string \<rightharpoonup> int)"

definition shopping_policy :: AgentPaymentPolicy where
  \<comment> \<open>the default of the constructor\<close>
  "shopping_policy = \<lparr>ap_policy_id = ''pol_default_shopping'', ap_agent_id = ''shopping_agent_01'',
     ap_limits = \<lparr>sl_per_transaction_limit_paise = 150000, sl_daily_limit_paise = 500000,
       sl_allowed_currencies = {''INR''},
       sl_allowed_categories = {''grocery'', ''groceries'', ''beverage'', ''beverages'', ''electronics'', ''general'',
         ''dairy'', ''office'', ''stationery'', ''clothing'', ''food'', ''retail'', ''supplies''},
       sl_allowed_merchants = {}\<rparr>,
     ap_require_human_confirmation = True, ap_require_verified_product = True, ap_max_allowed_risk_level = MEDIUM,
     ap_allowed_providers = {''razorpay'', ''razorpay_test'', ''x402'', ''uap_delegated''}\<rparr>"

definition policy_engine_init :: "AgentPaymentPolicy option \<Rightarrow> PaymentPolicyEngine" where
  "policy_engine_init p = \<lparr>ppe_default_policy = option_or p shopping_policy, ppe_custom_policies = Map.empty,
     ppe_daily_spending = Map.empty\<rparr>"

definition register_policy :: "PaymentPolicyEngine \<Rightarrow> AgentPaymentPolicy \<Rightarrow> PaymentPolicyEngine" where
  "register_policy e p = e\<lparr>ppe_custom_policies := (ppe_custom_policies e)(ap_agent_id p \<mapsto> p)\<rparr>"

definition get_policy :: "PaymentPolicyEngine \<Rightarrow> string \<Rightarrow> AgentPaymentPolicy" where
  "get_policy e agent = option_or (ppe_custom_policies e agent) (ppe_default_policy e)"

definition today_str :: "datetime \<Rightarrow> string" where
  "today_str now = day_text (nat now div day_micros)"

definition spending_of :: "PaymentPolicyEngine \<Rightarrow> string \<Rightarrow> string \<Rightarrow> int" where
  \<comment> \<open>\<open>_daily_spending.get(agent, {}).get(day, 0)\<close>\<close>
  "spending_of e agent day = (case ppe_daily_spending e agent of None \<Rightarrow> 0 | Some m \<Rightarrow> option_or (m day) 0)"

definition record_spending :: "PaymentPolicyEngine \<Rightarrow> string \<Rightarrow> int \<Rightarrow> datetime \<Rightarrow> PaymentPolicyEngine" where
  "record_spending e agent amount now =
     (let day = today_str now; m = option_or (ppe_daily_spending e agent) Map.empty in
      e\<lparr>ppe_daily_spending := (ppe_daily_spending e)(agent \<mapsto> m(day \<mapsto> option_or (m day) 0 + amount))\<rparr>)"

definition get_daily_spending :: "PaymentPolicyEngine \<Rightarrow> string \<Rightarrow> datetime \<Rightarrow> int" where
  "get_daily_spending e agent now = spending_of e agent (today_str now)"

definition risk_score :: "PolicyContext \<Rightarrow> int" where
  "risk_score c =
     (if pc_amount_paise c > 100000 then 3 else if pc_amount_paise c > 50000 then 2
      else if pc_amount_paise c > 20000 then 1 else 0) +
     (if \<not> pc_is_product_verified c then 3 else 0) +
     (if pc_is_new_merchant c then 2 else 0) +
     (if \<not> pc_has_human_confirmation c \<or> pc_confirmation_expired c then 5 else 0) +
     (if pc_recent_failure_count c \<ge> 3 then 4 else if pc_recent_failure_count c \<ge> 1 then 1 else 0)"

definition classify_risk :: "PolicyContext \<Rightarrow> RiskLevel" where
  "classify_risk c = (if risk_score c \<ge> 6 then HIGH else if risk_score c \<ge> 3 then MEDIUM else LOW)"

definition rstrip_s :: "string \<Rightarrow> string" where
  \<comment> \<open>\<open>s.rstrip("s")\<close>\<close>
  "rstrip_s s = rev (dropWhile (\<lambda>c. c = CHR ''s'') (rev s))"

definition category_in_scope :: "AgentSpendingLimits \<Rightarrow> string \<Rightarrow> bool" where
  "category_in_scope l category \<longleftrightarrow> sl_allowed_categories l = {} \<or>
     strip (lower category) \<in> sl_allowed_categories l \<or> rstrip_s (strip (lower category)) \<in> sl_allowed_categories l"

type_synonym policy_block = "RiskLevel \<times> msg \<times> string"

definition payment_rules :: "AgentPaymentPolicy \<Rightarrow> PolicyContext \<Rightarrow> int \<Rightarrow> policy_block check list" where
  \<comment> \<open>the rules in their order; \<open>spent\<close> is the spending of the day\<close>
  "payment_rules p c spent =
     (let l = ap_limits p; risk = classify_risk c; amount = pc_amount_paise c in
      [Guard (reject_if (ap_require_verified_product p \<and> \<not> pc_is_product_verified c)
         (HIGH, Msg ''Product state is UNVERIFIED. Autonomous purchase blocked.'' [], ''UNVERIFIED_PRODUCT'')) None,
       Guard (reject_if (ap_require_human_confirmation p \<and> \<not> pc_has_human_confirmation c)
         (HIGH, Msg ''Human confirmation missing. Purchase requires user authorization.'' [],
          ''HUMAN_CONFIRMATION_REQUIRED'')) None,
       Guard (reject_if (ap_require_human_confirmation p \<and> pc_confirmation_expired c)
         (HIGH, Msg ''Human confirmation token has expired. Re-authorization required.'' [], ''CONFIRMATION_EXPIRED'')) None,
       Guard (reject_if (upper (pc_currency c) \<notin> sl_allowed_currencies l)
         (BLOCKED, Msg ''Currency '{}' is not permitted by agent policy.'' [PStr (pc_currency c)],
          ''DISALLOWED_CURRENCY'')) None,
       Guard (reject_if (amount > sl_per_transaction_limit_paise l)
         (HIGH, Msg ''Transaction amount {} exceeds per-transaction limit {}.''
            [PInt amount, PInt (sl_per_transaction_limit_paise l div 100)], ''PER_TRANSACTION_LIMIT_EXCEEDED'')) None,
       Guard (reject_if (spent + amount > sl_daily_limit_paise l)
         (HIGH, Msg ''Daily spending limit {} exceeded. Already spent: {}.''
            [PInt (sl_daily_limit_paise l div 100), PInt (spent div 100)], ''DAILY_LIMIT_EXCEEDED'')) None,
       Guard (reject_if (\<not> category_in_scope l (pc_category c))
         (MEDIUM, Msg ''Product category '{}' is not in allowed agent category scope.'' [PStr (pc_category c)],
          ''DISALLOWED_CATEGORY'')) None,
       Guard (reject_if (ap_allowed_providers p \<noteq> {} \<and> lower (pc_provider c) \<notin> ap_allowed_providers p)
         (BLOCKED, Msg ''Payment provider '{}' is not permitted by policy.'' [PStr (pc_provider c)],
          ''DISALLOWED_PROVIDER'')) None,
       Guard (reject_if (risk_hierarchy risk > risk_hierarchy (ap_max_allowed_risk_level p))
         (risk, Msg ''Calculated risk level ({}) exceeds policy threshold ({}).''
            [PStr (risk_value risk), PStr (risk_value (ap_max_allowed_risk_level p))], ''RISK_THRESHOLD_EXCEEDED'')) None])"

definition evaluate_payment :: "PaymentPolicyEngine \<Rightarrow> PolicyContext \<Rightarrow> datetime \<Rightarrow> PolicyResult" where
  "evaluate_payment e c now =
     (let p = get_policy e (pc_agent_id c) in
      case snd (run_checks [] (payment_rules p c (get_daily_spending e (pc_agent_id c) now))) of
        Some (risk, reason, code) \<Rightarrow>
          \<lparr>pr_allowed = False, pr_risk_level = risk, pr_reason = reason, pr_block_code = Some code,
           pr_policy_id = Some (ap_policy_id p), pr_evaluated_at = now\<rparr>
      | None \<Rightarrow>
          \<lparr>pr_allowed = True, pr_risk_level = classify_risk c,
           pr_reason = Msg ''Transaction policy evaluation passed successfully.'' [], pr_block_code = None,
           pr_policy_id = Some (ap_policy_id p), pr_evaluated_at = now\<rparr>)"

section \<open>What the policy admits\<close>

definition payment_admitted :: "AgentPaymentPolicy \<Rightarrow> PolicyContext \<Rightarrow> int \<Rightarrow> bool" where
  \<comment> \<open>the conditions of a payment, without the order of the rules\<close>
  "payment_admitted p c spent \<longleftrightarrow>
     (ap_require_verified_product p \<longrightarrow> pc_is_product_verified c) \<and>
     (ap_require_human_confirmation p \<longrightarrow> pc_has_human_confirmation c \<and> \<not> pc_confirmation_expired c) \<and>
     upper (pc_currency c) \<in> sl_allowed_currencies (ap_limits p) \<and>
     pc_amount_paise c \<le> sl_per_transaction_limit_paise (ap_limits p) \<and>
     spent + pc_amount_paise c \<le> sl_daily_limit_paise (ap_limits p) \<and>
     category_in_scope (ap_limits p) (pc_category c) \<and>
     (ap_allowed_providers p \<noteq> {} \<longrightarrow> lower (pc_provider c) \<in> ap_allowed_providers p) \<and>
     classify_risk c \<le> ap_max_allowed_risk_level p"

lemma payment_rules_pass:
  "list_all (\<lambda>g. guard_reject g = None) (payment_rules p c spent) \<longleftrightarrow> payment_admitted p c spent"
  by (auto simp: payment_rules_def payment_admitted_def Let_def less_eq_RiskLevel_def not_less)

lemma evaluate_payment_allows:
  "pr_allowed (evaluate_payment e c now) \<longleftrightarrow>
     payment_admitted (get_policy e (pc_agent_id c)) c (get_daily_spending e (pc_agent_id c) now)"
  unfolding payment_rules_pass [symmetric] run_checks_None [of "[]", symmetric]
  by (auto simp: evaluate_payment_def Let_def split: option.split)

lemma spending_recorded:
  "spending_of (record_spending e agent amount now) a d =
     spending_of e a d + (if a = agent \<and> d = today_str now then amount else 0)"
  by (auto simp: record_spending_def spending_of_def Let_def split: option.split)

lemma record_keeps_policy [simp]: "get_policy (record_spending e agent amount now) a = get_policy e a"
  by (simp add: record_spending_def get_policy_def Let_def)

lemma confirmed_risk:
  assumes "pc_is_product_verified c" and "pc_has_human_confirmation c" and "\<not> pc_confirmation_expired c"
    and "\<not> pc_is_new_merchant c" and "pc_recent_failure_count c = 0"
  shows "classify_risk c = (if 100000 < pc_amount_paise c then MEDIUM else LOW)"
  using assms by (simp add: classify_risk_def risk_score_def)

section \<open>Properties\<close>

text \<open>The exact decision of the payment policy: an agent's payment is allowed exactly when the product is
  verified and a live human confirmation is present (where the policy asks for them), the currency,
  category and provider are in scope, the amount is within the transaction limit and, with what was
  spent that day, within the daily limit, and the computed risk is within the policy's threshold; a
  payment that is not allowed has a block code.\<close>

theorem payment_policy_exact:
  "(pr_allowed (evaluate_payment e c now) \<longleftrightarrow>
     payment_admitted (get_policy e (pc_agent_id c)) c (spending_of e (pc_agent_id c) (today_str now))) \<and>
   (pr_block_code (evaluate_payment e c now) = None \<longleftrightarrow> pr_allowed (evaluate_payment e c now))"
proof
  show "pr_allowed (evaluate_payment e c now) \<longleftrightarrow>
      payment_admitted (get_policy e (pc_agent_id c)) c (spending_of e (pc_agent_id c) (today_str now))"
    using evaluate_payment_allows [of e c now] by (simp add: get_daily_spending_def)
qed (auto simp: evaluate_payment_def Let_def split: option.split)

end
