(* ===== verification/Delegation.thy ===== *)
theory Delegation
  imports Contracts Py_Json
begin

text \<open>
  Delegated spending authority: \<open>UAPAuthorizationLayer\<close> of \<open>apps/api/commerce/payments/uap.py\<close>. A delegation is
  found by its token or by its identifier. \<open>hmac\<close> is HMAC-SHA256 as hexadecimal text and \<open>time_repr\<close> the text of
  a time; the fresh part of an identifier is an argument. Times are microseconds.

  \<open>delegations\<close> interprets \<open>machine\<close>: a delegation that is not active never becomes active again.
\<close>

datatype AuthorizationStatus = ACTIVE | REVOKED | EXPIRED | CONSUMED | SUSPENDED

fun authorization_status_value :: "AuthorizationStatus \<Rightarrow> string" where
  "authorization_status_value ACTIVE = ''ACTIVE''"
| "authorization_status_value REVOKED = ''REVOKED''"
| "authorization_status_value EXPIRED = ''EXPIRED''"
| "authorization_status_value CONSUMED = ''CONSUMED''"
| "authorization_status_value SUSPENDED = ''SUSPENDED''"

record AuthorizationPolicy =
  au_authorization_id :: string
  au_agent_id :: string
  au_user_id :: string
  au_scope_merchants :: "string list"
  au_max_amount_paise :: int
  au_daily_limit_paise :: int
  au_allowed_currency :: string
  au_category_scope :: "string list"
  au_expiration_timestamp :: datetime
  au_status :: AuthorizationStatus
  au_token :: string

record UapLayer =
  uap_authorizations :: "string \<rightharpoonup> AuthorizationPolicy"
  uap_tokens :: "string \<rightharpoonup> string"

definition uap_init :: UapLayer where
  "uap_init = \<lparr>uap_authorizations = Map.empty, uap_tokens = Map.empty\<rparr>"

definition uap_error :: "string \<Rightarrow> msg \<Rightarrow> py_exc" where
  "uap_error code m = Raise (SourceError ''UAPAuthorizationError'' code) m"

definition list_or :: "'a list option \<Rightarrow> 'a list \<Rightarrow> 'a list" where
  \<comment> \<open>\<open>xs or default\<close>\<close>
  "list_or xs d = (case xs of None \<Rightarrow> d | Some ys \<Rightarrow> if ys = [] then d else ys)"

definition delegation_token ::
  "(string \<Rightarrow> string \<Rightarrow> string) \<Rightarrow> (datetime \<Rightarrow> string) \<Rightarrow> string \<Rightarrow> string \<Rightarrow> string \<Rightarrow> string \<Rightarrow> int \<Rightarrow> datetime \<Rightarrow> string" where
  "delegation_token hmac time_repr secret aid agent user amount expires =
     ''uap_tok_'' @ drop (length aid - 8) aid @ ''_'' @
     take 32 (hmac secret (aid @ '':'' @ agent @ '':'' @ user @ '':'' @ int_str amount @ '':'' @ time_repr expires))"

definition issue_authorization ::
  "(string \<Rightarrow> string \<Rightarrow> string) \<Rightarrow> (datetime \<Rightarrow> string) \<Rightarrow> string \<Rightarrow> UapLayer \<Rightarrow> string \<Rightarrow> string \<Rightarrow> int \<Rightarrow> int \<Rightarrow>
   string list option \<Rightarrow> string list option \<Rightarrow> int \<Rightarrow> string \<Rightarrow> datetime \<Rightarrow> AuthorizationPolicy \<times> UapLayer" where
  \<comment> \<open>\<open>uid\<close> is the fresh part of the identifier\<close>
  "issue_authorization hmac time_repr secret u agent user amount daily merchants categories ttl uid now =
     (let aid = ''uap_auth_'' @ uid; expires = now + ttl;
          token = delegation_token hmac time_repr secret aid agent user amount expires;
          p = \<lparr>au_authorization_id = aid, au_agent_id = agent, au_user_id = user,
               au_scope_merchants = list_or merchants [], au_max_amount_paise = amount, au_daily_limit_paise = daily,
               au_allowed_currency = ''INR'', au_category_scope = list_or categories [''grocery'', ''general'', ''beverage''],
               au_expiration_timestamp = expires, au_status = ACTIVE, au_token = token\<rparr>
      in (p, u\<lparr>uap_authorizations := (uap_authorizations u)(aid \<mapsto> p), uap_tokens := (uap_tokens u)(token \<mapsto> aid)\<rparr>))"

definition set_status :: "UapLayer \<Rightarrow> string \<Rightarrow> AuthorizationStatus \<Rightarrow> bool \<times> UapLayer" where
  "set_status u aid st = (case uap_authorizations u aid of
      None \<Rightarrow> (False, u)
    | Some p \<Rightarrow> (True, u\<lparr>uap_authorizations := (uap_authorizations u)(aid \<mapsto> p\<lparr>au_status := st\<rparr>)\<rparr>))"

definition revoke_authorization :: "UapLayer \<Rightarrow> string \<Rightarrow> bool \<times> UapLayer" where
  "revoke_authorization u aid = set_status u aid REVOKED"

definition suspend_authorization :: "UapLayer \<Rightarrow> string \<Rightarrow> bool \<times> UapLayer" where
  "suspend_authorization u aid = set_status u aid SUSPENDED"

definition resolve_token :: "UapLayer \<Rightarrow> string \<Rightarrow> string" where
  "resolve_token u t = option_or (uap_tokens u t) t"

definition validate_authorization ::
  "UapLayer \<Rightarrow> string \<Rightarrow> string \<Rightarrow> string \<Rightarrow> string \<Rightarrow> int \<Rightarrow> datetime \<Rightarrow> AuthorizationPolicy res \<times> UapLayer" where
  "validate_authorization u token agent merchant category amount now =
     (let aid = resolve_token u token in
      case uap_authorizations u aid of
        None \<Rightarrow> (Inl (uap_error ''AUTHORIZATION_NOT_FOUND'' (Msg ''UAP delegation policy not found.'' [])), u)
      | Some p \<Rightarrow>
          if au_status p = REVOKED then
            (Inl (uap_error ''AUTHORIZATION_REVOKED'' (Msg ''UAP delegation policy has been REVOKED.'' [])), u)
          else if au_status p = SUSPENDED then
            (Inl (uap_error ''AUTHORIZATION_SUSPENDED'' (Msg ''UAP delegation policy is currently SUSPENDED.'' [])), u)
          else if au_status p = CONSUMED then
            (Inl (uap_error ''TOKEN_ALREADY_CONSUMED'' (Msg ''Single-use UAP authorization token already CONSUMED.'' [])), u)
          else if au_status p \<noteq> ACTIVE then
            (Inl (uap_error ''INVALID_STATUS'' (Msg ''UAP delegation policy is in invalid status '{}'.''
               [PStr (authorization_status_value (au_status p))])), u)
          else if now > au_expiration_timestamp p then
            (Inl (uap_error ''AUTHORIZATION_EXPIRED'' (Msg ''UAP delegation policy has EXPIRED.'' [])),
             snd (set_status u aid EXPIRED))
          else if au_agent_id p \<noteq> agent then
            (Inl (uap_error ''AGENT_MISMATCH'' (Msg ''Agent identity mismatch for UAP delegation token.'' [])), u)
          else if au_scope_merchants p \<noteq> [] \<and> merchant \<notin> set (au_scope_merchants p) then
            (Inl (uap_error ''MERCHANT_OUT_OF_SCOPE''
               (Msg ''Merchant '{}' is outside delegated merchant scope.'' [PStr merchant])), u)
          else if au_category_scope p \<noteq> [] \<and> lower category \<notin> lower ` set (au_category_scope p) then
            (Inl (uap_error ''CATEGORY_OUT_OF_SCOPE''
               (Msg ''Category '{}' is outside delegated category scope.'' [PStr category])), u)
          else if amount > au_max_amount_paise p then
            (Inl (uap_error ''AMOUNT_EXCEEDS_DELEGATION'' (Msg ''Requested amount {} exceeds delegated max amount {}.''
               [PInt amount, PInt (au_max_amount_paise p div 100)])), u)
          else (Inr p, u))"

definition consume_authorization :: "UapLayer \<Rightarrow> string \<Rightarrow> bool \<Rightarrow> UapLayer" where
  "consume_authorization u token once =
     (if once then snd (set_status u (resolve_token u token) CONSUMED) else u)"

section \<open>What a delegation admits\<close>

definition delegates ::
  "AuthorizationPolicy \<Rightarrow> string \<Rightarrow> string \<Rightarrow> string \<Rightarrow> int \<Rightarrow> datetime \<Rightarrow> bool" where
  "delegates p agent merchant category amount now \<longleftrightarrow> au_status p = ACTIVE \<and> now \<le> au_expiration_timestamp p \<and>
     au_agent_id p = agent \<and> (au_scope_merchants p = [] \<or> merchant \<in> set (au_scope_merchants p)) \<and>
     (au_category_scope p = [] \<or> lower category \<in> lower ` set (au_category_scope p)) \<and> amount \<le> au_max_amount_paise p"

lemma validate_exact:
  "fst (validate_authorization u token agent merchant category amount now) = Inr p \<longleftrightarrow>
     uap_authorizations u (resolve_token u token) = Some p \<and> delegates p agent merchant category amount now"
  by (cases "uap_authorizations u (resolve_token u token)")
    (auto simp: validate_authorization_def Let_def delegates_def)

datatype uap_op =
    UIssue string string int int "string list option" "string list option" int string datetime
  | URevoke string
  | USuspend string
  | UValidate string string string string int datetime
  | UConsume string bool

datatype uap_out = UPolicy AuthorizationPolicy | UDone bool | UValidated "AuthorizationPolicy res" | UUnit

fun uap_step ::
  "(string \<Rightarrow> string \<Rightarrow> string) \<Rightarrow> (datetime \<Rightarrow> string) \<Rightarrow> string \<Rightarrow> UapLayer \<Rightarrow> uap_op \<Rightarrow> uap_out \<times> UapLayer" where
  "uap_step hmac tr secret u (UIssue agent user amount daily merchants categories ttl uid now) =
     map_prod UPolicy id (issue_authorization hmac tr secret u agent user amount daily merchants categories ttl uid now)"
| "uap_step hmac tr secret u (URevoke aid) = map_prod UDone id (revoke_authorization u aid)"
| "uap_step hmac tr secret u (USuspend aid) = map_prod UDone id (suspend_authorization u aid)"
| "uap_step hmac tr secret u (UValidate token agent merchant category amount now) =
     map_prod UValidated id (validate_authorization u token agent merchant category amount now)"
| "uap_step hmac tr secret u (UConsume token once) = (UUnit, consume_authorization u token once)"

fun uap_fresh :: "UapLayer \<Rightarrow> uap_op \<Rightarrow> bool" where
  \<comment> \<open>the drawn identifier is not in use\<close>
  "uap_fresh u (UIssue _ _ _ _ _ _ _ uid _) = (uap_authorizations u (''uap_auth_'' @ uid) = None)"
| "uap_fresh u _ = True"

definition ended :: "string \<Rightarrow> UapLayer \<Rightarrow> bool" where
  "ended aid u = (case uap_authorizations u aid of None \<Rightarrow> False | Some p \<Rightarrow> au_status p \<noteq> ACTIVE)"

lemma set_status_ended: "st \<noteq> ACTIVE \<Longrightarrow> ended aid u \<Longrightarrow> ended aid (snd (set_status u k st))"
  by (auto simp: ended_def set_status_def split: option.splits)

lemma validate_state:
  "snd (validate_authorization u token agent merchant category amount now) = u \<or>
   snd (validate_authorization u token agent merchant category amount now) = snd (set_status u (resolve_token u token) EXPIRED)"
  by (auto simp: validate_authorization_def Let_def split: option.split)

interpretation delegations: machine "uap_step hmac tr secret" uap_fresh "ended aid"
proof
  fix u x
  assume e: "ended aid u" and f: "uap_fresh u x"
  show "ended aid (snd (uap_step hmac tr secret u x))"
  proof (cases x)
    case (UIssue agent user amount daily merchants categories ttl uid now)
    then show ?thesis using e f by (auto simp: issue_authorization_def Let_def ended_def split: option.splits)
  next
    case (UValidate token agent merchant category amount now)
    then show ?thesis using e set_status_ended validate_state [of u token agent merchant category amount now] by auto
  qed (use e set_status_ended in \<open>auto simp: revoke_authorization_def suspend_authorization_def consume_authorization_def\<close>)
qed

section \<open>Properties\<close>


definition toy_hmac :: "string \<Rightarrow> string \<Rightarrow> string" where
  "toy_hmac k m = k @ m"

definition two_delegations :: UapLayer where
  "two_delegations = snd (run_ops (uap_step toy_hmac (\<lambda>_. ''0'') ''k'') uap_init
     [UIssue ''a'' ''u'' 500 2000 None None 1000 ''11111111'' 0, UIssue ''a'' ''u'' 500 2000 None None 1000 ''22222222'' 0])"


end
