(* ===== verification/X402.thy ===== *)
theory X402
  imports Contracts Py_Json
begin

text \<open>
  The HTTP 402 adapter, \<open>X402PaymentAdapter\<close> of \<open>apps/api/commerce/payments/x402.py\<close>. The body of a response is a
  JSON object; \<open>fmt\<close> is Python's \<open>str\<close> of a JSON value, \<open>float_micros\<close> its \<open>float\<close> in microseconds, \<open>time_repr\<close> the
  text of a time, \<open>hmac\<close> and \<open>sha\<close> the digests as hexadecimal text. Fresh identifiers are arguments.
\<close>

record PaymentRequirement =
  rq_resource_url :: string
  rq_amount_paise :: int
  rq_currency :: string
  rq_recipient_address :: json
  rq_network :: json
  rq_asset :: json
  rq_expiration_timestamp :: datetime
  rq_requirement_hash :: string
  rq_metadata :: json

record PaymentProof =
  pp_requirement_hash :: string
  pp_transaction_hash :: string
  pp_signature :: string
  pp_proof_token :: string
  pp_created_at :: datetime

record X402Adapter =
  xa_used_proofs :: "string set"
  xa_settled_payments :: "string \<rightharpoonup> PaymentRequirement \<times> PaymentProof \<times> datetime"

definition x402_init :: X402Adapter where
  "x402_init = \<lparr>xa_used_proofs = {}, xa_settled_payments = Map.empty\<rparr>"

definition x402_error :: "string \<Rightarrow> msg \<Rightarrow> py_exc" where
  "x402_error code m = Raise (SourceError ''X402PaymentError'' code) m"

section \<open>Reading a requirement\<close>

fun digit_groups :: "bool \<Rightarrow> int \<Rightarrow> string \<Rightarrow> int option" where
  \<comment> \<open>digits with single underscores between them; the flag says that the last character was a digit\<close>
  "digit_groups dig acc [] = (if dig then Some acc else None)"
| "digit_groups dig acc (c # cs) =
     (if is_digit c then digit_groups True (acc * 10 + int (of_char c - 48 :: nat)) cs
      else if c = CHR ''_'' \<and> dig then digit_groups False acc cs else None)"

definition int_of_text :: "string \<Rightarrow> int option" where
  \<comment> \<open>Python's \<open>int(s)\<close>, \<open>None\<close> for \<open>ValueError\<close>\<close>
  "int_of_text s = (case strip s of
      [] \<Rightarrow> None
    | c # cs \<Rightarrow> if c = CHR ''-'' then map_option uminus (digit_groups False 0 cs)
        else if c = CHR ''+'' then digit_groups False 0 cs else digit_groups False 0 (c # cs))"

definition amount_of :: "json \<Rightarrow> (int \<times> string) option" where
  \<comment> \<open>an \<open>int\<close> (a boolean is one) with its text\<close>
  "amount_of v = (case v of JInt i \<Rightarrow> Some (i, int_str i)
     | JBool b \<Rightarrow> Some (if b then (1, ''True'') else (0, ''False'')) | _ \<Rightarrow> None)"

definition header :: "(string \<rightharpoonup> string) \<Rightarrow> string \<Rightarrow> json" where
  "header hs k = (case hs k of None \<Rightarrow> JNull | Some s \<Rightarrow> JStr s)"

fun str_upper :: "json \<Rightarrow> string res" where
  "str_upper (JStr s) = Inr (upper s)"
| "str_upper _ = Inl (attribute_error ''upper'')"

definition parse_402_header_or_body ::
  "(string \<Rightarrow> string) \<Rightarrow> (json \<Rightarrow> string) \<Rightarrow> (json \<Rightarrow> int res) \<Rightarrow> (datetime \<Rightarrow> string) \<Rightarrow> string \<Rightarrow> int \<Rightarrow>
   (string \<rightharpoonup> string) \<Rightarrow> (string \<times> json) list \<Rightarrow> datetime \<Rightarrow> PaymentRequirement res" where
  "parse_402_header_or_body sha fmt float_micros time_repr url status hs body now =
     (let get = (\<lambda>k. option_or (map_of body k) JNull);
          given = py_or (get ''amount_paise'') (get ''amount'');
          amount = (if given = JNull then
             (case hs ''X-Payment-Amount'' of None \<Rightarrow> JNull
              | Some s \<Rightarrow> (case int_of_text s of None \<Rightarrow> JNull | Some i \<Rightarrow> JInt i)) else given)
      in if status \<noteq> 402 then
        Inl (x402_error ''NOT_402_STATUS'' (Msg ''HTTP status code {} is not 402 Payment Required.'' [PInt status]))
      else case amount_of amount of
        None \<Rightarrow> Inl (x402_error ''INVALID_AMOUNT'' (Msg ''Missing or invalid payment amount in HTTP 402 requirement.'' []))
      | Some (i, text) \<Rightarrow>
          if i \<le> 0 then
            Inl (x402_error ''INVALID_AMOUNT'' (Msg ''Missing or invalid payment amount in HTTP 402 requirement.'' []))
          else
            bind_res (str_upper (py_or (py_or (get ''currency'') (header hs ''X-Payment-Currency'')) (JStr ''INR''))) (\<lambda>cur.
            bind_res (float_micros (option_or (map_of body ''ttl_seconds'') (JInt 300))) (\<lambda>ttl.
              let recipient = py_or (py_or (get ''recipient_address'') (header hs ''X-Payment-Recipient''))
                    (JStr ''merchant_default_x402'');
                  network = py_or (py_or (get ''network'') (header hs ''X-Payment-Network'')) (JStr ''lightning_or_razorpay'')
              in Inr \<lparr>rq_resource_url = url, rq_amount_paise = i, rq_currency = cur, rq_recipient_address = recipient,
                   rq_network = network, rq_asset = py_or (get ''asset'') (JStr ''INR''),
                   rq_expiration_timestamp = now + ttl,
                   rq_requirement_hash = take 32 (sha (url @ '':'' @ text @ '':'' @ cur @ '':'' @ fmt recipient @ '':'' @
                     fmt network @ '':'' @ time_repr (now + ttl))),
                   rq_metadata = option_or (map_of body ''metadata'') (JObj [])\<rparr>)))"

section \<open>Proofs of payment\<close>

definition generate_payment_proof ::
  "(string \<Rightarrow> string \<Rightarrow> string) \<Rightarrow> (datetime \<Rightarrow> string) \<Rightarrow> string \<Rightarrow> PaymentRequirement \<Rightarrow> string \<Rightarrow> string \<Rightarrow> string \<Rightarrow>
   datetime \<Rightarrow> PaymentProof res" where
  "generate_payment_proof hmac time_repr secret rq tid agent uid now =
     (if now > rq_expiration_timestamp rq then
        Inl (x402_error ''REQUIREMENT_EXPIRED'' (Msg ''x402 payment requirement has EXPIRED.'' []))
      else
        let sig = take 32 (hmac secret (rq_requirement_hash rq @ '':'' @ tid @ '':'' @ agent @ '':'' @ time_repr now)) in
        Inr \<lparr>pp_requirement_hash = rq_requirement_hash rq, pp_transaction_hash = tid, pp_signature = sig,
             pp_proof_token = ''x402_proof_'' @ uid @ ''_'' @ sig, pp_created_at = now\<rparr>)"

definition verify_and_settle_proof ::
  "X402Adapter \<Rightarrow> PaymentProof \<Rightarrow> PaymentRequirement \<Rightarrow> datetime \<Rightarrow> bool res \<times> X402Adapter" where
  "verify_and_settle_proof x pf rq now =
     (if pp_proof_token pf \<in> xa_used_proofs x then
        (Inl (x402_error ''PROOF_REPLAYED'' (Msg ''x402 payment proof token has already been REPLAYED/USED.'' [])), x)
      else if pp_requirement_hash pf \<noteq> rq_requirement_hash rq then
        (Inl (x402_error ''REQUIREMENT_MISMATCH'' (Msg ''x402 payment proof requirement hash mismatch.'' [])), x)
      else
        (Inr True, x\<lparr>xa_used_proofs := insert (pp_proof_token pf) (xa_used_proofs x),
           xa_settled_payments := (xa_settled_payments x)(pp_proof_token pf \<mapsto> (rq, pf, now))\<rparr>))"

datatype settle_op = Settle PaymentProof PaymentRequirement datetime

fun settle_step :: "X402Adapter \<Rightarrow> settle_op \<Rightarrow> bool res \<times> X402Adapter" where
  "settle_step x (Settle pf rq now) = verify_and_settle_proof x pf rq now"

fun settle_token :: "settle_op \<Rightarrow> string option" where
  "settle_token (Settle pf rq now) = Some (pp_proof_token pf)"

interpretation x402_proofs: single_use settle_step "\<lambda>_ _. True" "\<lambda>_. True" is_ok settle_token
  "\<lambda>x k. k \<in> xa_used_proofs x"
proof unfold_locales
  fix x k and s :: settle_op
  assume k: "settle_token s = Some k" and ok: "is_ok (fst (settle_step x s))"
  then show "\<not> k \<in> xa_used_proofs x" "k \<in> xa_used_proofs (snd (settle_step x s))"
    by (cases s, auto simp: verify_and_settle_proof_def is_ok_def split: if_splits)+
next
  fix x :: X402Adapter and s k
  assume "k \<in> xa_used_proofs x"
  then show "k \<in> xa_used_proofs (snd (settle_step x s))" by (cases s) (simp add: verify_and_settle_proof_def)
qed simp

section \<open>Properties\<close>

text \<open>A proof token of the 402 adapter settles at most once in any sequence of settlements.\<close>

theorem x402_proof_single_use:
  "accepted_count is_ok (\<lambda>s. settle_token s = Some k) ops (fst (run_ops settle_step x ops)) \<le> 1"
  by (rule x402_proofs.at_most_once) simp_all

text \<open>The signature of a proof is not verified: whether a proof settles depends only on its token being
  unused and on the hash it names, which is public; any signature, and an expired requirement, are
  accepted.\<close>

theorem x402_signature_ignored:
  "is_ok (fst (verify_and_settle_proof x \<lparr>pp_requirement_hash = h, pp_transaction_hash = t, pp_signature = forged,
      pp_proof_token = k, pp_created_at = c\<rparr> rq now)) \<longleftrightarrow> k \<notin> xa_used_proofs x \<and> h = rq_requirement_hash rq"
  by (simp add: verify_and_settle_proof_def is_ok_def)

end
