(* ===== verification/Agent_Payments.thy ===== *)
theory Agent_Payments
  imports Agent_Policy Delegation X402
begin

text \<open>
  Agentic payments as the API offers them: the Razorpay client (\<open>apps/api/commerce/payments/razorpay_client.py\<close>),
  the timeline (\<open>timeline.py\<close>), the protocol adapters (\<open>protocol.py\<close>) and the endpoints of
  \<open>apps/api/routers/commerce.py\<close> that use them. The state is that of the module's global objects; an
  endpoint does not await, so one request is one step. \<open>provider_order\<close> and \<open>provider_payment\<close> are what the
  configured provider answers. An exception leaves what was changed before it.

  \<open>payment_service\<close> interprets \<open>machine\<close>: the orders of an agent stay within its daily limit.
\<close>

section \<open>The Razorpay client\<close>

datatype RazorpayMode = TEST | LIVE

fun razorpay_mode_value :: "RazorpayMode \<Rightarrow> string" where
  "razorpay_mode_value TEST = ''test''"
| "razorpay_mode_value LIVE = ''live''"

datatype PaymentState = CREATED | AUTHORIZED | CAPTURED | FAILED | REFUNDED | UNKNOWN

fun payment_state_value :: "PaymentState \<Rightarrow> string" where
  "payment_state_value CREATED = ''CREATED''"
| "payment_state_value AUTHORIZED = ''AUTHORIZED''"
| "payment_state_value CAPTURED = ''CAPTURED''"
| "payment_state_value FAILED = ''FAILED''"
| "payment_state_value REFUNDED = ''REFUNDED''"
| "payment_state_value UNKNOWN = ''UNKNOWN''"

definition from_razorpay_status :: "string \<Rightarrow> PaymentState" where
  "from_razorpay_status status =
     (let s = lower status in
      if s \<in> {''created'', ''issued''} then CREATED
      else if s = ''authorized'' then AUTHORIZED
      else if s \<in> {''captured'', ''paid''} then CAPTURED
      else if s \<in> {''failed'', ''expired'', ''cancelled''} then FAILED
      else if s = ''refunded'' then REFUNDED
      else UNKNOWN)"

record RazorpayTestOrder =
  ro_order_id :: string
  ro_amount_paise :: int
  ro_currency :: string
  ro_receipt :: string
  ro_status :: string
  ro_created_at :: int
  ro_notes :: json
  ro_mode :: RazorpayMode

record RazorpayPaymentDetails =
  rp_payment_id :: string
  rp_order_id :: string
  rp_amount_paise :: int
  rp_currency :: string
  rp_status :: string
  rp_method :: string
  rp_email :: string
  rp_contact :: string
  rp_created_at :: int
  rp_notes :: json
  rp_error_code :: "string option"
  rp_error_description :: "string option"

record RazorpayClient =
  rz_mode :: RazorpayMode
  rz_key_id :: string
  rz_key_secret :: string
  rz_webhook_secret :: string
  rz_mock_orders :: "string \<rightharpoonup> RazorpayTestOrder"
  rz_mock_payments :: "string \<rightharpoonup> RazorpayPaymentDetails"

definition is_configured :: "RazorpayClient \<Rightarrow> bool" where
  "is_configured c \<longleftrightarrow> rz_key_id c \<noteq> [] \<and> rz_key_secret c \<noteq> []"

definition client_error :: "string \<Rightarrow> msg \<Rightarrow> py_exc" where
  "client_error code m = Raise (SourceError ''RazorpayClientError'' code) m"

definition epoch_seconds :: "datetime \<Rightarrow> int" where
  "epoch_seconds now = now div 1000000"

definition create_test_order ::
  "(int \<Rightarrow> string \<Rightarrow> string \<Rightarrow> json \<Rightarrow> RazorpayTestOrder res) \<Rightarrow> RazorpayClient \<Rightarrow> int \<Rightarrow> string \<Rightarrow> string \<Rightarrow> json \<Rightarrow>
   datetime \<Rightarrow> RazorpayTestOrder res \<times> RazorpayClient" where
  "create_test_order provider_order c amount currency receipt notes now =
     (if amount \<le> 0 then
        (Inl (client_error ''INVALID_AMOUNT'' (Msg ''Amount must be a positive integer in minor units (paise).'' [])), c)
      else if is_configured c then (provider_order amount (upper currency) receipt notes, c)
      else
        let oid = ''order_test_'' @ (if receipt \<noteq> [] then take 12 receipt else int_str (epoch_seconds now));
            order = \<lparr>ro_order_id = oid, ro_amount_paise = amount, ro_currency = upper currency, ro_receipt = receipt,
              ro_status = ''created'', ro_created_at = epoch_seconds now, ro_notes = notes, ro_mode = TEST\<rparr>
        in (Inr order, c\<lparr>rz_mock_orders := (rz_mock_orders c)(oid \<mapsto> order)\<rparr>))"

definition fetch_order :: "(string \<Rightarrow> RazorpayTestOrder res) \<Rightarrow> RazorpayClient \<Rightarrow> string \<Rightarrow> RazorpayTestOrder res" where
  "fetch_order provider c oid =
     (if is_configured c then provider oid
      else case rz_mock_orders c oid of
        Some r \<Rightarrow> Inr r
      | None \<Rightarrow> Inl (client_error ''ORDER_NOT_FOUND'' (Msg ''Order {} not found.'' [PStr oid])))"

definition mock_payment :: "string \<Rightarrow> int \<Rightarrow> string \<Rightarrow> string \<Rightarrow> datetime \<Rightarrow> RazorpayPaymentDetails" where
  "mock_payment pid amount currency status now =
     \<lparr>rp_payment_id = pid, rp_order_id = ''order_'' @ pid, rp_amount_paise = amount, rp_currency = currency,
      rp_status = status, rp_method = ''card'', rp_email = ''buyer@example.com'', rp_contact = ''+919876543210'',
      rp_created_at = epoch_seconds now, rp_notes = JObj [], rp_error_code = None, rp_error_description = None\<rparr>"

definition fetch_payment ::
  "(string \<Rightarrow> RazorpayPaymentDetails res) \<Rightarrow> RazorpayClient \<Rightarrow> string \<Rightarrow> datetime \<Rightarrow> RazorpayPaymentDetails res" where
  "fetch_payment provider_payment c pid now =
     (if is_configured c then provider_payment pid
      else case rz_mock_payments c pid of
        Some p \<Rightarrow> Inr p
      | None \<Rightarrow>
          Inr (if contains ''unknown'' (lower pid) \<or> contains ''invalid'' (lower pid) then mock_payment pid 29900 ''INR'' ''unknown'' now
            else if contains ''failed'' (lower pid) then mock_payment pid 29900 ''INR'' ''failed'' now
            else mock_payment pid 29900 ''INR'' ''captured'' now))"

definition capture_payment ::
  "(string \<Rightarrow> int \<Rightarrow> string \<Rightarrow> RazorpayPaymentDetails res) \<Rightarrow> RazorpayClient \<Rightarrow> string \<Rightarrow> int \<Rightarrow> string \<Rightarrow> datetime \<Rightarrow>
   RazorpayPaymentDetails res \<times> RazorpayClient" where
  "capture_payment provider_capture c pid amount currency now =
     (if amount \<le> 0 then
        (Inl (client_error ''INVALID_AMOUNT'' (Msg ''Capture amount must be a positive integer in minor units.'' [])), c)
      else if is_configured c then (provider_capture pid amount (upper currency), c)
      else let p = mock_payment pid amount (upper currency) ''captured'' now in
        (Inr p, c\<lparr>rz_mock_payments := (rz_mock_payments c)(pid \<mapsto> p)\<rparr>))"

definition verify_payment_signature ::
  "(string \<Rightarrow> string \<Rightarrow> string) \<Rightarrow> RazorpayClient \<Rightarrow> string \<Rightarrow> string \<Rightarrow> string \<Rightarrow> bool" where
  "verify_payment_signature hmac c oid pid sig =
     (if oid = [] \<or> pid = [] \<or> sig = [] then False
      else if rz_key_secret c = [] then begins ''sig_valid_'' sig \<or> sig = ''mock_sig_'' @ take 8 oid
      else hmac (rz_key_secret c) (oid @ ''|'' @ pid) = sig)"

definition verify_client_webhook_signature ::
  "(string \<Rightarrow> string \<Rightarrow> string) \<Rightarrow> RazorpayClient \<Rightarrow> string \<Rightarrow> string \<Rightarrow> string option \<Rightarrow> bool" where
  "verify_client_webhook_signature hmac c body sig secret =
     (let key = text_or secret (if rz_webhook_secret c \<noteq> [] then rz_webhook_secret c else rz_key_secret c) in
      if sig = [] then False
      else if key = [] then begins ''whsig_valid_'' sig \<or> sig = ''mock_webhook_signature''
      else hmac key body = sig)"

definition get_payment_status ::
  "(string \<Rightarrow> RazorpayPaymentDetails res) \<Rightarrow> RazorpayClient \<Rightarrow> string \<Rightarrow> datetime \<Rightarrow> PaymentState" where
  "get_payment_status provider_payment c pid now =
     (case fetch_payment provider_payment c pid now of Inl _ \<Rightarrow> UNKNOWN | Inr p \<Rightarrow> from_razorpay_status (rp_status p))"

definition get_order_status :: "(string \<Rightarrow> RazorpayTestOrder res) \<Rightarrow> RazorpayClient \<Rightarrow> string \<Rightarrow> PaymentState" where
  "get_order_status provider c oid =
     (case fetch_order provider c oid of Inl _ \<Rightarrow> UNKNOWN | Inr r \<Rightarrow> from_razorpay_status (ro_status r))"

section \<open>The timeline\<close>

record TimelineEvent =
  tl_event_id :: string
  tl_timestamp :: datetime
  tl_stage :: string
  tl_label :: string
  tl_detail :: msg
  tl_status :: string
  tl_is_failed :: bool

type_synonym timelines = "string \<rightharpoonup> TimelineEvent list"

definition record_timeline_event ::
  "timelines \<Rightarrow> string \<Rightarrow> string \<Rightarrow> string \<Rightarrow> msg \<Rightarrow> bool \<Rightarrow> string \<Rightarrow> datetime \<Rightarrow> timelines" where
  \<comment> \<open>\<open>status\<close> is FAILED for a failed event and COMPLETED otherwise, as every caller passes it\<close>
  "record_timeline_event line_map tid stage label detail is_failed uid now =
     line_map(tid \<mapsto> option_or (line_map tid) [] @ [\<lparr>tl_event_id = ''evt_'' @ uid, tl_timestamp = now, tl_stage = stage,
       tl_label = label, tl_detail = detail, tl_status = (if is_failed then ''FAILED'' else ''COMPLETED''),
       tl_is_failed = is_failed\<rparr>])"

definition get_timeline :: "timelines \<Rightarrow> string \<Rightarrow> TimelineEvent list" where
  "get_timeline line_map tid = option_or (line_map tid) []"

definition default_stages :: "string \<Rightarrow> string \<Rightarrow> int \<Rightarrow> (string \<times> string \<times> msg) list" where
  "default_stages tid prompt amount =
     [(''INTENT_RECEIVED'', ''Intent Received'', Msg ''Parsed shopping prompt: '{}' '' [PStr prompt]),
      (''RESEARCH_COMPLETED'', ''Products Researched'', Msg ''Executed live multi-source candidate discovery'' []),
      (''EVIDENCE_VERIFIED'', ''Evidence Verified'', Msg ''Product truth and merchant domain verified'' []),
      (''CART_OPTIMIZED'', ''Cart Optimized'', Msg ''Optimized candidate total: {}'' [PInt amount]),
      (''PURCHASE_PLAN_CREATED'', ''Purchase Plan Created'', Msg ''Plan bound to transaction {}'' [PStr tid])]"

definition create_default_timeline ::
  "timelines \<Rightarrow> string \<Rightarrow> string \<Rightarrow> int \<Rightarrow> string list \<Rightarrow> datetime \<Rightarrow> timelines" where
  \<comment> \<open>\<open>uids\<close> are the fresh suffixes of the events\<close>
  "create_default_timeline line_map tid prompt amount uids now =
     fold (\<lambda>((stage, label, detail), uid) t. record_timeline_event t tid stage label detail False uid now)
       (zip (default_stages tid prompt amount) uids) line_map"

section \<open>Protocols\<close>

record PaymentService =
  pv_policy :: PaymentPolicyEngine
  pv_uap :: UapLayer
  pv_x402 :: X402Adapter
  pv_client :: RazorpayClient
  pv_timeline :: timelines

definition razorpay_protocol_name :: "RazorpayClient \<Rightarrow> string" where
  "razorpay_protocol_name c = (if rz_mode c = TEST then ''razorpay_test'' else ''razorpay_live'')"

definition razorpay_evaluate_authorization :: "PaymentService \<Rightarrow> PolicyContext \<Rightarrow> datetime \<Rightarrow> PolicyResult" where
  "razorpay_evaluate_authorization s c now =
     evaluate_payment (pv_policy s) (c\<lparr>pc_provider := razorpay_protocol_name (pv_client s)\<rparr>) now"

definition x402_evaluate_authorization :: "PaymentService \<Rightarrow> PolicyContext \<Rightarrow> datetime \<Rightarrow> PolicyResult" where
  "x402_evaluate_authorization s c now = evaluate_payment (pv_policy s) (c\<lparr>pc_provider := ''x402''\<rparr>) now"

definition uap_blocked :: "msg \<Rightarrow> string \<Rightarrow> datetime \<Rightarrow> PolicyResult" where
  "uap_blocked reason code now = \<lparr>pr_allowed = False, pr_risk_level = HIGH, pr_reason = reason, pr_block_code = Some code,
     pr_policy_id = None, pr_evaluated_at = now\<rparr>"

definition uap_evaluate_authorization ::
  "PaymentService \<Rightarrow> PolicyContext \<Rightarrow> string \<Rightarrow> datetime \<Rightarrow> PolicyResult \<times> PaymentService" where
  "uap_evaluate_authorization s c token now =
     (if token = [] then (uap_blocked (Msg ''Missing UAP delegation token.'' []) ''MISSING_UAP_TOKEN'' now, s)
      else case validate_authorization (pv_uap s) token (pc_agent_id c) (pc_merchant_id c) (pc_category c)
          (pc_amount_paise c) now of
        (Inl (Raise cls m), u) \<Rightarrow> (uap_blocked m ''UAP_VALIDATION_FAILED'' now, s\<lparr>pv_uap := u\<rparr>)
      | (Inr p, u) \<Rightarrow>
          let r = evaluate_payment (pv_policy s) (c\<lparr>pc_provider := ''uap_delegated''\<rparr>) now in
          (if pr_allowed r then r\<lparr>pr_policy_id := Some (au_authorization_id p)\<rparr> else r, s\<lparr>pv_uap := u\<rparr>))"

section \<open>Endpoints\<close>

record OrderRequest =
  oq_amount_paise :: int
  oq_currency :: string
  oq_receipt :: string
  oq_notes :: json
  oq_confirmation_token :: string
  oq_agent_id :: string
  oq_merchant_id :: string
  oq_category :: string
  oq_uap_token :: "string option"

definition http_error :: "int \<Rightarrow> msg \<Rightarrow> py_exc" where
  "http_error status m = Raise (SourceError ''HTTPException'' (int_str status)) m"

definition order_context :: "OrderRequest \<Rightarrow> PolicyContext" where
  "order_context q = \<lparr>pc_agent_id = oq_agent_id q, pc_request_id = oq_receipt q, pc_user_id = ''buyer_01'',
     pc_merchant_id = oq_merchant_id q, pc_merchant_name = oq_merchant_id q, pc_category = oq_category q,
     pc_currency = oq_currency q, pc_amount_paise = oq_amount_paise q, pc_provider = ''razorpay_test'',
     pc_is_product_verified = True, pc_has_human_confirmation = (oq_confirmation_token q \<noteq> []),
     pc_confirmation_expired = False, pc_authorization_token = None, pc_is_new_merchant = False,
     pc_recent_failure_count = 0\<rparr>"

definition evaluate_order :: "PaymentService \<Rightarrow> OrderRequest \<Rightarrow> datetime \<Rightarrow> PolicyResult \<times> PaymentService" where
  "evaluate_order s q now =
     (case oq_uap_token q of
        Some t \<Rightarrow> if t \<noteq> [] then uap_evaluate_authorization s (order_context q) t now
          else (razorpay_evaluate_authorization s (order_context q) now, s)
      | None \<Rightarrow> (razorpay_evaluate_authorization s (order_context q) now, s))"

record PolicyRequest =
  pq_agent_id :: string
  pq_request_id :: string
  pq_user_id :: string
  pq_merchant_id :: string
  pq_merchant_name :: string
  pq_category :: string
  pq_currency :: string
  pq_amount_paise :: int
  pq_provider :: string
  pq_is_product_verified :: bool
  pq_has_human_confirmation :: bool

definition evaluate_agent_payment_policy :: "PaymentService \<Rightarrow> PolicyRequest \<Rightarrow> datetime \<Rightarrow> PolicyResult" where
  "evaluate_agent_payment_policy s q now =
     evaluate_payment (pv_policy s) \<lparr>pc_agent_id = pq_agent_id q, pc_request_id = pq_request_id q, pc_user_id = pq_user_id q,
       pc_merchant_id = pq_merchant_id q, pc_merchant_name = pq_merchant_name q, pc_category = pq_category q,
       pc_currency = pq_currency q, pc_amount_paise = pq_amount_paise q, pc_provider = pq_provider q,
       pc_is_product_verified = pq_is_product_verified q, pc_has_human_confirmation = pq_has_human_confirmation q,
       pc_confirmation_expired = False, pc_authorization_token = None, pc_is_new_merchant = False,
       pc_recent_failure_count = 0\<rparr> now"

definition create_razorpay_order ::
  "(int \<Rightarrow> string \<Rightarrow> string \<Rightarrow> json \<Rightarrow> RazorpayTestOrder res) \<Rightarrow> PaymentService \<Rightarrow> OrderRequest \<Rightarrow> string \<Rightarrow> datetime \<Rightarrow>
   (RazorpayTestOrder \<times> RiskLevel) res \<times> PaymentService" where
  "create_razorpay_order provider_order s q uid now =
     (case evaluate_order s q now of (r, s1) \<Rightarrow>
        if \<not> pr_allowed r then
          (Inl (http_error 400 (Msg ''Payment policy block'' [PStr (option_or (pr_block_code r) [])])),
           s1\<lparr>pv_timeline := record_timeline_event (pv_timeline s1) (oq_receipt q) ''POLICY_BLOCKED''
             ''Payment Policy Blocked'' (pr_reason r) True uid now\<rparr>)
        else
          (case create_test_order provider_order (pv_client s1) (oq_amount_paise q) (oq_currency q) (oq_receipt q)
              (oq_notes q) now of
             (Inl (Raise cls m), c) \<Rightarrow>
               (Inl (http_error 400 m), s1\<lparr>pv_client := c, pv_timeline := record_timeline_event (pv_timeline s1)
                  (oq_receipt q) ''ORDER_CREATION_FAILED'' ''Order Creation Failed'' m True uid now\<rparr>)
           | (Inr order, c) \<Rightarrow>
               (Inr (order, pr_risk_level r),
                s1\<lparr>pv_client := c, pv_policy := record_spending (pv_policy s1) (oq_agent_id q) (oq_amount_paise q) now,
                   pv_timeline := record_timeline_event (pv_timeline s1) (oq_receipt q) ''RAZORPAY_ORDER_CREATED''
                     ''Razorpay Order Created'' (Msg ''Order {} created for {} paise in {} mode''
                       [PStr (ro_order_id order), PInt (oq_amount_paise q), PStr (razorpay_mode_value (ro_mode order))])
                     False uid now\<rparr>)))"

definition verify_razorpay_payment ::
  "(string \<Rightarrow> string \<Rightarrow> string) \<Rightarrow> (string \<Rightarrow> RazorpayPaymentDetails res) \<Rightarrow> PaymentService \<Rightarrow> string \<Rightarrow> string \<Rightarrow> string \<Rightarrow>
   string \<Rightarrow> string \<Rightarrow> datetime \<Rightarrow> PaymentState res \<times> PaymentService" where
  "verify_razorpay_payment hmac provider_payment s oid pid sig tid uid now =
     (if \<not> verify_payment_signature hmac (pv_client s) oid pid sig then
        (Inl (http_error 400 (Msg ''Invalid Razorpay payment signature.'' [])),
         s\<lparr>pv_timeline := record_timeline_event (pv_timeline s) tid ''SIGNATURE_VERIFICATION_FAILED'' ''Signature Failed''
           (Msg ''Signature verification failed for payment {}'' [PStr pid]) True uid now\<rparr>)
      else
        let st = get_payment_status provider_payment (pv_client s) pid now in
        (Inr st, s\<lparr>pv_timeline := record_timeline_event (pv_timeline s) tid ''PAYMENT_VERIFIED''
           ''Payment Verified & Reconciled'' (Msg ''Payment {} verified cleanly with status '{}' ''
             [PStr pid, PStr (payment_state_value st)]) False uid now\<rparr>))"

record X402Request =
  xq_resource_url :: string
  xq_status_code :: int
  xq_headers :: "string \<rightharpoonup> string"
  xq_body :: "(string \<times> json) list"
  xq_agent_id :: string
  xq_confirmation_token :: string
  xq_transaction_id :: string

definition x402_context :: "X402Request \<Rightarrow> PaymentRequirement \<Rightarrow> PolicyContext" where
  "x402_context q rq = \<lparr>pc_agent_id = xq_agent_id q, pc_request_id = xq_transaction_id q, pc_user_id = ''buyer_01'',
     pc_merchant_id = ''merchant_x402'', pc_merchant_name = ''x402 Resource Provider'', pc_category = ''general'',
     pc_currency = rq_currency rq, pc_amount_paise = rq_amount_paise rq, pc_provider = ''x402'',
     pc_is_product_verified = True, pc_has_human_confirmation = (xq_confirmation_token q \<noteq> []),
     pc_confirmation_expired = False, pc_authorization_token = None, pc_is_new_merchant = False,
     pc_recent_failure_count = 0\<rparr>"

record X402Env =
  \<comment> \<open>the functions of the runtime that the adapter calls, and its secret\<close>
  xe_sha :: "string \<Rightarrow> string"
  xe_hmac :: "string \<Rightarrow> string \<Rightarrow> string"
  xe_fmt :: "json \<Rightarrow> string"
  xe_float_micros :: "json \<Rightarrow> int res"
  xe_time_repr :: "datetime \<Rightarrow> string"
  xe_secret :: string

definition execute_x402_payment ::
  "X402Env \<Rightarrow> PaymentService \<Rightarrow> X402Request \<Rightarrow> string \<Rightarrow> string \<Rightarrow> datetime \<Rightarrow>
   (PaymentRequirement \<times> PaymentProof) res \<times> PaymentService" where
  "execute_x402_payment en s q puid uid now =
     (case parse_402_header_or_body (xe_sha en) (xe_fmt en) (xe_float_micros en) (xe_time_repr en) (xq_resource_url q)
        (xq_status_code q) (xq_headers q) (xq_body q) now of
        Inl (Raise cls m) \<Rightarrow> (Inl (http_error 400 m), s)
      | Inr rq \<Rightarrow>
          let r = x402_evaluate_authorization s (x402_context q rq) now in
          if \<not> pr_allowed r then (Inl (http_error 400 (pr_reason r)), s)
          else case generate_payment_proof (xe_hmac en) (xe_time_repr en) (xe_secret en) rq (xq_transaction_id q)
              (xq_agent_id q) puid now of
            Inl (Raise cls m) \<Rightarrow> (Inl (http_error 400 m), s)
          | Inr pf \<Rightarrow>
              (case verify_and_settle_proof (pv_x402 s) pf rq now of
                 (Inl (Raise cls m), x) \<Rightarrow> (Inl (http_error 400 m), s\<lparr>pv_x402 := x\<rparr>)
               | (Inr _, x) \<Rightarrow> (Inr (rq, pf), s\<lparr>pv_x402 := x, pv_timeline := record_timeline_event (pv_timeline s)
                   (xq_transaction_id q) ''X402_PROOF_GENERATED'' ''x402 Payment Settled''
                   (Msg ''x402 proof generated for requirement {}'' [PStr (take 8 (rq_requirement_hash rq))])
                   False uid now\<rparr>)))"

definition issue_uap_token ::
  "X402Env \<Rightarrow> PaymentService \<Rightarrow> string \<Rightarrow> string \<Rightarrow> int \<Rightarrow> int \<Rightarrow> string \<Rightarrow> datetime \<Rightarrow> AuthorizationPolicy \<times> PaymentService" where
  "issue_uap_token en s agent user amount daily uid now =
     (case issue_authorization (xe_hmac en) (xe_time_repr en) ''uap_delegation_secret_key_m26'' (pv_uap s) agent user amount
        daily None None (seconds 86400) uid now of (p, u) \<Rightarrow> (p, s\<lparr>pv_uap := u\<rparr>))"

definition revoke_uap_token :: "PaymentService \<Rightarrow> string \<Rightarrow> unit res \<times> PaymentService" where
  "revoke_uap_token s aid =
     (case revoke_authorization (pv_uap s) aid of (ok, u) \<Rightarrow>
        (if ok then Inr () else Inl (http_error 404 (Msg ''UAP authorization token not found.'' [])), s\<lparr>pv_uap := u\<rparr>))"

definition get_payment_timeline ::
  "PaymentService \<Rightarrow> string \<Rightarrow> string list \<Rightarrow> datetime \<Rightarrow> TimelineEvent list \<times> PaymentService" where
  "get_payment_timeline s tid uids now =
     (if get_timeline (pv_timeline s) tid \<noteq> [] then (get_timeline (pv_timeline s) tid, s)
      else let line_map = create_default_timeline (pv_timeline s) tid ''Find coffee and biscuits under 300'' 29900 uids now
        in (get_timeline line_map tid, s\<lparr>pv_timeline := line_map\<rparr>))"

section \<open>A run of requests\<close>

datatype pay_op =
    PCreateOrder OrderRequest string datetime
  | PVerify string string string string string datetime
  | PX402 X402Request string string datetime
  | PIssue string string int int string datetime
  | PRevoke string
  | PTimeline string "string list" datetime

datatype pay_out =
    OOrder "(RazorpayTestOrder \<times> RiskLevel) res"
  | OVerified "PaymentState res"
  | OX402 "(PaymentRequirement \<times> PaymentProof) res"
  | OIssued AuthorizationPolicy
  | ORevoked "unit res"
  | OTimeline "TimelineEvent list"

record Gateway =
  \<comment> \<open>the provider's answers and the functions of the runtime\<close>
  gw_order :: "int \<Rightarrow> string \<Rightarrow> string \<Rightarrow> json \<Rightarrow> RazorpayTestOrder res"
  gw_payment :: "string \<Rightarrow> RazorpayPaymentDetails res"
  gw_env :: X402Env

fun pay_step :: "Gateway \<Rightarrow> PaymentService \<Rightarrow> pay_op \<Rightarrow> pay_out \<times> PaymentService" where
  "pay_step g s (PCreateOrder q uid now) = map_prod OOrder id (create_razorpay_order (gw_order g) s q uid now)"
| "pay_step g s (PVerify oid pid sig tid uid now) =
     map_prod OVerified id (verify_razorpay_payment (xe_hmac (gw_env g)) (gw_payment g) s oid pid sig tid uid now)"
| "pay_step g s (PX402 q puid uid now) = map_prod OX402 id (execute_x402_payment (gw_env g) s q puid uid now)"
| "pay_step g s (PIssue agent user amount daily uid now) =
     map_prod OIssued id (issue_uap_token (gw_env g) s agent user amount daily uid now)"
| "pay_step g s (PRevoke aid) = map_prod ORevoked id (revoke_uap_token s aid)"
| "pay_step g s (PTimeline tid uids now) = map_prod OTimeline id (get_payment_timeline s tid uids now)"

fun ordered :: "string \<Rightarrow> string \<Rightarrow> pay_op \<Rightarrow> pay_out \<Rightarrow> int" where
  \<comment> \<open>the amount of an order that was created for the agent on the day\<close>
  "ordered agent day (PCreateOrder q uid now) (OOrder (Inr r)) =
     (if oq_agent_id q = agent \<and> today_str now = day then oq_amount_paise q else 0)"
| "ordered agent day _ _ = 0"

definition daily_limit :: "PaymentPolicyEngine \<Rightarrow> string \<Rightarrow> int" where
  "daily_limit e agent = sl_daily_limit_paise (ap_limits (get_policy e agent))"

definition within_daily :: "string \<Rightarrow> string \<Rightarrow> int \<Rightarrow> PaymentService \<Rightarrow> bool" where
  "within_daily agent day lim s \<longleftrightarrow> daily_limit (pv_policy s) agent = lim \<and> spending_of (pv_policy s) agent day \<le> max 0 lim"

lemma evaluate_order_policy: "pv_policy (snd (evaluate_order s q now)) = pv_policy s"
  by (auto simp: evaluate_order_def uap_evaluate_authorization_def Let_def split: option.splits prod.splits sum.splits py_exc.splits)

lemma evaluate_order_allows:
  assumes "pr_allowed (fst (evaluate_order s q now))"
  shows "spending_of (pv_policy s) (oq_agent_id q) (today_str now) + oq_amount_paise q \<le> daily_limit (pv_policy s) (oq_agent_id q)"
proof -
  have "\<exists>prov. pr_allowed (evaluate_payment (pv_policy s) ((order_context q)\<lparr>pc_provider := prov\<rparr>) now)"
    using assms
    by (auto simp: evaluate_order_def uap_evaluate_authorization_def razorpay_evaluate_authorization_def uap_blocked_def Let_def
        split: option.splits prod.splits sum.splits py_exc.splits if_splits)
  then show ?thesis
    by (auto simp: evaluate_payment_allows payment_admitted_def daily_limit_def get_daily_spending_def order_context_def)
qed

text \<open>An order is created only after the policy allowed it, and only a created order is recorded as spending.\<close>

lemma create_order_policy:
  "pv_policy (snd (create_razorpay_order po s q uid now)) =
     (if is_ok (fst (create_razorpay_order po s q uid now))
      then record_spending (pv_policy s) (oq_agent_id q) (oq_amount_paise q) now else pv_policy s)"
  using evaluate_order_policy [of s q now]
  by (auto simp: create_razorpay_order_def Let_def split: prod.splits sum.splits py_exc.splits)

lemma create_order_allowed:
  "is_ok (fst (create_razorpay_order po s q uid now)) \<Longrightarrow> pr_allowed (fst (evaluate_order s q now))"
  by (auto simp: create_razorpay_order_def Let_def split: prod.splits sum.splits py_exc.splits if_splits)

lemma x402_policy [simp]: "pv_policy (snd (execute_x402_payment en s q puid uid now)) = pv_policy s"
  by (auto simp: execute_x402_payment_def Let_def split: prod.splits sum.splits py_exc.splits)

lemma other_requests_policy [simp]:
  "pv_policy (snd (verify_razorpay_payment hmac pp s oid pid sig tid uid now)) = pv_policy s"
  "pv_policy (snd (issue_uap_token en s agent user amount daily uid now)) = pv_policy s"
  "pv_policy (snd (revoke_uap_token s aid)) = pv_policy s"
  "pv_policy (snd (get_payment_timeline s tid uids now)) = pv_policy s"
  by (simp_all add: verify_razorpay_payment_def issue_uap_token_def revoke_uap_token_def get_payment_timeline_def Let_def
      split: prod.splits)

lemma pay_step_spending:
  "spending_of (pv_policy (snd (pay_step g s x))) agent day =
     spending_of (pv_policy s) agent day + ordered agent day x (fst (pay_step g s x))"
proof (cases x)
  case (PCreateOrder q uid now)
  then show ?thesis
    by (cases "fst (create_razorpay_order (gw_order g) s q uid now)") (auto simp: create_order_policy spending_recorded)
qed simp_all

lemma pay_step_limit: "daily_limit (pv_policy (snd (pay_step g s x))) agent = daily_limit (pv_policy s) agent"
  by (cases x) (simp_all add: create_order_policy daily_limit_def)

lemma pay_step_within:
  assumes "within_daily agent day lim s"
  shows "within_daily agent day lim (snd (pay_step g s x))"
proof (cases x)
  case (PCreateOrder q uid now)
  let ?r = "fst (create_razorpay_order (gw_order g) s q uid now)"
  show ?thesis
  proof (cases "is_ok ?r \<and> oq_agent_id q = agent \<and> today_str now = day")
    case True
    then show ?thesis
      using assms PCreateOrder evaluate_order_allows [OF create_order_allowed, of "gw_order g" s q uid now]
      by (auto simp: within_daily_def create_order_policy spending_recorded daily_limit_def)
  next
    case False
    then show ?thesis
      using assms PCreateOrder by (cases ?r) (auto simp: within_daily_def create_order_policy spending_recorded daily_limit_def)
  qed
qed (use assms in \<open>simp_all add: within_daily_def\<close>)

interpretation payment_service: tallied "pay_step g" "\<lambda>_ _. True" "within_daily agent day lim" "ordered agent day"
    "\<lambda>s. spending_of (pv_policy s) agent day" for g agent day lim
  by unfold_locales (simp_all add: pay_step_within pay_step_spending)

section \<open>Properties\<close>

text \<open>C16: The orders of an agent stay within its daily limit: from a state in which nothing is recorded for the agent
  on the day, whatever is requested in whatever order of whichever endpoint (orders of this and other
  agents, x402 payments, delegations, verifications), the amounts of the orders that were created for
  the agent on that day sum to the spending the engine holds, and never exceed the daily limit of the agent's policy.\<close>

theorem orders_within_daily_limit:
  assumes "spending_of (pv_policy s) agent day = 0" and "0 \<le> daily_limit (pv_policy s) agent"
  shows "tally (ordered agent day) ops (fst (run_ops (pay_step g) s ops)) =
      spending_of (pv_policy (snd (run_ops (pay_step g) s ops))) agent day \<and>
    tally (ordered agent day) ops (fst (run_ops (pay_step g) s ops)) \<le> daily_limit (pv_policy s) agent"
proof -
  have w: "within_daily agent day (daily_limit (pv_policy s) agent) s" using assms by (simp add: within_daily_def)
  show ?thesis
    using payment_service.spent_run [OF w, of g ops] payment_service.inv_run [OF w, of g ops] assms
    by (simp add: within_daily_def)
qed

fun x402_settled :: "pay_out \<Rightarrow> bool" where
  "x402_settled (OX402 r) = is_ok r"
| "x402_settled _ = False"

lemma x402_repeatable:
  assumes "is_ok (fst (execute_x402_payment en s q p0 u0 now))"
  obtains tok where "inj tok" and
    "\<And>s' p u. pv_policy s' = pv_policy s \<Longrightarrow> tok p \<notin> xa_used_proofs (pv_x402 s') \<Longrightarrow>
       is_ok (fst (execute_x402_payment en s' q p u now)) \<and>
       xa_used_proofs (pv_x402 (snd (execute_x402_payment en s' q p u now))) = insert (tok p) (xa_used_proofs (pv_x402 s'))"
proof -
  obtain rq where rq: "parse_402_header_or_body (xe_sha en) (xe_fmt en) (xe_float_micros en) (xe_time_repr en) (xq_resource_url q)
        (xq_status_code q) (xq_headers q) (xq_body q) now = Inr rq"
    and ok: "pr_allowed (x402_evaluate_authorization s (x402_context q rq) now)" "\<not> rq_expiration_timestamp rq < now"
    using assms by (auto simp: execute_x402_payment_def generate_payment_proof_def Let_def
        split: sum.splits prod.splits py_exc.splits if_splits)
  let ?sig = "take 32 (xe_hmac en (xe_secret en)
     (rq_requirement_hash rq @ '':'' @ xq_transaction_id q @ '':'' @ xq_agent_id q @ '':'' @ xe_time_repr en now))"
  let ?tok = "\<lambda>p. ''x402_proof_'' @ p @ ''_'' @ ?sig"
  show thesis
  proof (rule that [of ?tok])
    show "inj ?tok" by (auto simp: inj_def)
    fix s' :: PaymentService and p u
    assume s': "pv_policy s' = pv_policy s" and fresh: "?tok p \<notin> xa_used_proofs (pv_x402 s')"
    have "x402_evaluate_authorization s' c now = x402_evaluate_authorization s c now" for c
      by (simp add: x402_evaluate_authorization_def s')
    with rq ok fresh
    show "is_ok (fst (execute_x402_payment en s' q p u now)) \<and>
       xa_used_proofs (pv_x402 (snd (execute_x402_payment en s' q p u now))) = insert (?tok p) (xa_used_proofs (pv_x402 s'))"
      by (simp add: execute_x402_payment_def generate_payment_proof_def verify_and_settle_proof_def Let_def)
  qed
qed

text \<open>x402 payments escape the daily limit: where one x402 payment of an agent settles, any number of repetitions of
  it settles at the same time, each with a proof identifier of its own, so their sum exceeds every limit;
  the engine's record of spending, from which the daily limit is checked, is what it was before them.\<close>

theorem x402_escapes_daily_limit:
  assumes "x402_settled (fst (pay_step g s (PX402 q p0 u0 now)))" and "distinct ps" and "xa_used_proofs (pv_x402 s) = {}"
  shows "list_all x402_settled (fst (run_ops (pay_step g) s (map (\<lambda>p. PX402 q p u now) ps))) \<and>
    pv_policy (snd (run_ops (pay_step g) s (map (\<lambda>p. PX402 q p u now) ps))) = pv_policy s"
proof -
  have "is_ok (fst (execute_x402_payment (gw_env g) s q p0 u0 now))" using assms(1) by simp
  from x402_repeatable [OF this] obtain tok where tok: "inj tok" and
    again: "\<And>s' p u. pv_policy s' = pv_policy s \<Longrightarrow> tok p \<notin> xa_used_proofs (pv_x402 s') \<Longrightarrow>
       is_ok (fst (execute_x402_payment (gw_env g) s' q p u now)) \<and>
       xa_used_proofs (pv_x402 (snd (execute_x402_payment (gw_env g) s' q p u now))) = insert (tok p) (xa_used_proofs (pv_x402 s'))"
    by metis
  have "list_all x402_settled (fst (run_ops (pay_step g) s' (map (\<lambda>p. PX402 q p u now) ps))) \<and>
      pv_policy (snd (run_ops (pay_step g) s' (map (\<lambda>p. PX402 q p u now) ps))) = pv_policy s"
    if "pv_policy s' = pv_policy s" "tok ` set ps \<inter> xa_used_proofs (pv_x402 s') = {}" "distinct ps" for s'
    using that
  proof (induction ps arbitrary: s')
    case (Cons p ps)
    let ?s = "snd (execute_x402_payment (gw_env g) s' q p u now)"
    have p: "is_ok (fst (execute_x402_payment (gw_env g) s' q p u now))" "xa_used_proofs (pv_x402 ?s) = insert (tok p) (xa_used_proofs (pv_x402 s'))"
      using again [of s' p u] Cons.prems by auto
    have "tok p \<notin> tok ` set ps" using tok Cons.prems by (auto dest: injD)
    then have "tok ` set ps \<inter> xa_used_proofs (pv_x402 ?s) = {}" using p Cons.prems by auto
    with Cons p show ?case by (simp add: run_ops_Cons del: run_ops.simps(2))
  qed simp
  then show ?thesis using assms by simp
qed

section \<open>Witnesses\<close>

definition mock_service :: PaymentService where
  "mock_service = \<lparr>pv_policy = policy_engine_init None, pv_uap = uap_init, pv_x402 = x402_init,
     pv_client = \<lparr>rz_mode = TEST, rz_key_id = [], rz_key_secret = [], rz_webhook_secret = [], rz_mock_orders = Map.empty,
       rz_mock_payments = Map.empty\<rparr>, pv_timeline = Map.empty\<rparr>"

definition offline :: Gateway where
  "offline = \<lparr>gw_order = (\<lambda>_ _ _ _. Inl (client_error ''NETWORK_ERROR'' (Msg [] []))),
     gw_payment = (\<lambda>_. Inl (client_error ''NETWORK_ERROR'' (Msg [] []))),
     gw_env = \<lparr>xe_sha = id, xe_hmac = toy_hmac, xe_fmt = (\<lambda>_. ''x''), xe_float_micros = (\<lambda>_. Inr 300000000),
       xe_time_repr = (\<lambda>_. ''0''), xe_secret = ''k''\<rparr>\<rparr>"

definition coffee_order :: "int \<Rightarrow> OrderRequest" where
  "coffee_order amount = \<lparr>oq_amount_paise = amount, oq_currency = ''INR'', oq_receipt = ''txn_1'', oq_notes = JObj [],
     oq_confirmation_token = ''tok'', oq_agent_id = ''a'', oq_merchant_id = ''m'', oq_category = ''grocery'', oq_uap_token = None\<rparr>"

definition paid_page :: X402Request where
  "paid_page = \<lparr>xq_resource_url = ''u'', xq_status_code = 402, xq_headers = Map.empty,
     xq_body = [(''amount_paise'', JInt 100000)], xq_agent_id = ''a'', xq_confirmation_token = ''tok'', xq_transaction_id = ''t''\<rparr>"

lemma mock_policy [simp]: "get_policy (pv_policy mock_service) a = shopping_policy"
  by (simp add: mock_service_def policy_engine_init_def get_policy_def)

lemma mock_spending [simp]: "spending_of (pv_policy mock_service) a d = 0"
  by (simp add: mock_service_def policy_engine_init_def spending_of_def)

theorem orders_within_daily_limit_witness:
  "tally (ordered ''a'' (today_str 0)) (replicate 40 (PCreateOrder (coffee_order 15000) ''1'' 0))
     (fst (run_ops (pay_step offline) mock_service (replicate 40 (PCreateOrder (coffee_order 15000) ''1'' 0)))) \<le> 500000"
  using orders_within_daily_limit [of mock_service "''a''" "today_str 0"
      "replicate 40 (PCreateOrder (coffee_order 15000) ''1'' 0)" offline]
  by (simp add: daily_limit_def shopping_policy_def)

lemma paid_page_settles: "x402_settled (fst (pay_step offline mock_service (PX402 paid_page p u now)))"
proof -
  have "\<exists>rq. parse_402_header_or_body id (\<lambda>_. ''x'') (\<lambda>_. Inr 300000000) (\<lambda>_. ''0'') ''u'' 402 Map.empty [(''amount_paise'', JInt 100000)] now = Inr rq \<and>
      rq_amount_paise rq = 100000 \<and> rq_currency rq = upper ''INR'' \<and> rq_expiration_timestamp rq = now + 300000000"
    by (simp add: parse_402_header_or_body_def amount_of_def header_def py_or_def Let_def)
  then obtain rq where rq: "parse_402_header_or_body id (\<lambda>_. ''x'') (\<lambda>_. Inr 300000000) (\<lambda>_. ''0'') ''u'' 402 Map.empty [(''amount_paise'', JInt 100000)] now = Inr rq"
    "rq_amount_paise rq = 100000" "rq_currency rq = upper ''INR''" "rq_expiration_timestamp rq = now + 300000000" by auto
  have "pr_allowed (x402_evaluate_authorization mock_service (x402_context paid_page rq) now)"
    by (simp add: x402_evaluate_authorization_def evaluate_payment_allows payment_admitted_def x402_context_def get_daily_spending_def
        rq paid_page_def shopping_policy_def category_in_scope_def classify_risk_def risk_score_def less_eq_RiskLevel_def
        upper_def upper_char_def lower_def lower_char_def strip_def lstrip_def rstrip_def is_space_def)
  with rq show ?thesis
    by (simp add: execute_x402_payment_def generate_payment_proof_def verify_and_settle_proof_def offline_def paid_page_def
        mock_service_def x402_init_def Let_def)
qed

theorem x402_escapes_daily_limit_witness:
  "list_all x402_settled (fst (run_ops (pay_step offline) mock_service
     (map (\<lambda>p. PX402 paid_page p ''e'' 0) [''1'', ''2'', ''3'', ''4'', ''5'', ''6''])))"
proof -
  have "xa_used_proofs (pv_x402 mock_service) = {}" by (simp add: mock_service_def x402_init_def)
  from x402_escapes_daily_limit [OF paid_page_settles _ this, of "[''1'', ''2'', ''3'', ''4'', ''5'', ''6'']" "''e''" 0] show ?thesis
    by simp
qed

end
