(* ===== verification/Py_Regex.thy ===== *)
theory Py_Regex
  imports Py_Json
begin

text \<open>
  The part of Python's \<open>re\<close> that the scanners of the program use: literals (with or without
  \<open>IGNORECASE\<close>), classes, sequences, alternatives and repetitions of a class. \<open>rx_search\<close> is \<open>pattern.search(s)\<close> and
  \<open>rx_full\<close> a match of the whole text; only whether there is a match is modelled. A pattern denotes a
  language, and both are proved to be what the language says.
\<close>

datatype rx =
    REmpty
  | RClass "char \<Rightarrow> bool"
  | RSeq rx rx
  | RAlt rx rx
  | RRun nat "nat option" "char \<Rightarrow> bool" \<comment> \<open>at least, and at most, so many characters of a class\<close>

definition run_lengths :: "nat \<Rightarrow> nat option \<Rightarrow> nat \<Rightarrow> nat list" where
  "run_lengths lo hi n = filter (\<lambda>k. lo \<le> k \<and> (case hi of None \<Rightarrow> True | Some h \<Rightarrow> k \<le> h)) [0 ..< Suc n]"

primrec rx_ends :: "rx \<Rightarrow> string \<Rightarrow> string list" where
  \<comment> \<open>what is left of the text after each match at its start\<close>
  "rx_ends REmpty s = [s]"
| "rx_ends (RClass P) s = (case s of [] \<Rightarrow> [] | c # cs \<Rightarrow> if P c then [cs] else [])"
| "rx_ends (RSeq r q) s = concat (map (rx_ends q) (rx_ends r s))"
| "rx_ends (RAlt r q) s = rx_ends r s @ rx_ends q s"
| "rx_ends (RRun lo hi P) s = map (\<lambda>k. drop k s) (run_lengths lo hi (length (takeWhile P s)))"

definition rx_search :: "rx \<Rightarrow> string \<Rightarrow> bool" where
  "rx_search r s \<longleftrightarrow> list_ex (\<lambda>i. rx_ends r (drop i s) \<noteq> []) [0 ..< Suc (length s)]"

definition rx_full :: "rx \<Rightarrow> string \<Rightarrow> bool" where
  "rx_full r s \<longleftrightarrow> list_ex (\<lambda>t. t = []) (rx_ends r s)"

definition rx_lit :: "string \<Rightarrow> rx" where
  "rx_lit s = foldr (\<lambda>c. RSeq (RClass (\<lambda>d. d = c))) s REmpty"

definition rx_word :: "string \<Rightarrow> rx" where
  \<comment> \<open>a lower-case literal under \<open>IGNORECASE\<close>\<close>
  "rx_word s = foldr (\<lambda>c. RSeq (RClass (\<lambda>d. lower_char d = c))) s REmpty"

definition rx_cat :: "rx list \<Rightarrow> rx" where
  "rx_cat rs = foldr RSeq rs REmpty"

definition rx_alts :: "rx \<Rightarrow> rx list \<Rightarrow> rx" where
  "rx_alts r rs = foldr RAlt rs r"

abbreviation rx_spaces :: rx where \<comment> \<open>\<open>\s+\<close>\<close>
  "rx_spaces \<equiv> RRun 1 None is_space"

abbreviation rx_blanks :: rx where \<comment> \<open>\<open>\s*\<close>\<close>
  "rx_blanks \<equiv> RRun 0 None is_space"

abbreviation rx_number3 :: rx where \<comment> \<open>\<open>\d{1,3}\<close>\<close>
  "rx_number3 \<equiv> RRun 1 (Some 3) is_digit"

section \<open>The language of a pattern\<close>

primrec rx_lang :: "rx \<Rightarrow> string set" where
  "rx_lang REmpty = {[]}"
| "rx_lang (RClass P) = {[c] | c. P c}"
| "rx_lang (RSeq r q) = {u @ v | u v. u \<in> rx_lang r \<and> v \<in> rx_lang q}"
| "rx_lang (RAlt r q) = rx_lang r \<union> rx_lang q"
| "rx_lang (RRun lo hi P) = {s. list_all P s \<and> lo \<le> length s \<and> (case hi of None \<Rightarrow> True | Some h \<Rightarrow> length s \<le> h)}"

lemma takeWhile_prefix: "list_all P u \<Longrightarrow> length u \<le> length (takeWhile P (u @ t))"
  by (induction u) auto

lemma take_run: "k \<le> length (takeWhile P s) \<Longrightarrow> list_all P (take k s)"
proof (induction s arbitrary: k)
  case (Cons c s)
  then show ?case by (cases k) (auto split: if_splits)
qed simp

lemma run_lengths_iff: "k \<in> set (run_lengths lo hi n) \<longleftrightarrow> lo \<le> k \<and> k \<le> n \<and> (case hi of None \<Rightarrow> True | Some h \<Rightarrow> k \<le> h)"
  by (auto simp: run_lengths_def simp del: upt_Suc)

lemma rx_ends_iff: "t \<in> set (rx_ends r s) \<longleftrightarrow> (\<exists>u \<in> rx_lang r. s = u @ t)"
proof (induction r arbitrary: s t)
  case (RClass P)
  then show ?case by (cases s) auto
next
  case (RSeq r q)
  then show ?case by (auto simp: append_assoc) (metis append_assoc)+
next
  case (RRun lo hi P)
  show ?case
  proof
    assume "t \<in> set (rx_ends (RRun lo hi P) s)"
    then obtain k where t: "t = drop k s" and "k \<in> set (run_lengths lo hi (length (takeWhile P s)))" by auto
    then have k: "lo \<le> k" "k \<le> length (takeWhile P s)" "case hi of None \<Rightarrow> True | Some h \<Rightarrow> k \<le> h"
      by (simp_all add: run_lengths_iff)
    then have "length (take k s) = k" using length_takeWhile_le [of P s] by (simp add: min_def)
    then have "take k s \<in> rx_lang (RRun lo hi P)" using k take_run [OF k(2)] by (cases hi) simp_all
    moreover have "s = take k s @ t" using t by simp
    ultimately show "\<exists>u \<in> rx_lang (RRun lo hi P). s = u @ t" by blast
  next
    assume "\<exists>u \<in> rx_lang (RRun lo hi P). s = u @ t"
    then obtain u where u: "list_all P u" "lo \<le> length u" "case hi of None \<Rightarrow> True | Some h \<Rightarrow> length u \<le> h" and s: "s = u @ t"
      by auto
    then have "length u \<in> set (run_lengths lo hi (length (takeWhile P s)))" by (simp add: run_lengths_iff takeWhile_prefix)
    then have "drop (length u) s \<in> set (rx_ends (RRun lo hi P) s)" by simp
    then show "t \<in> set (rx_ends (RRun lo hi P) s)" by (simp add: s)
  qed
qed auto

theorem rx_search_iff: "rx_search r s \<longleftrightarrow> (\<exists>u v w. v \<in> rx_lang r \<and> s = u @ v @ w)"
proof
  assume "rx_search r s"
  then obtain i where "rx_ends r (drop i s) \<noteq> []" unfolding rx_search_def list_ex_iff by blast
  then obtain t where "t \<in> set (rx_ends r (drop i s))" by (metis list.set_sel(1))
  then obtain v where "v \<in> rx_lang r" "drop i s = v @ t" by (auto simp: rx_ends_iff)
  then show "\<exists>u v w. v \<in> rx_lang r \<and> s = u @ v @ w" by (metis append_take_drop_id)
next
  assume "\<exists>u v w. v \<in> rx_lang r \<and> s = u @ v @ w"
  then obtain u v w where v: "v \<in> rx_lang r" "s = u @ v @ w" by blast
  then have "w \<in> set (rx_ends r (drop (length u) s))" by (auto simp: rx_ends_iff)
  then have "rx_ends r (drop (length u) s) \<noteq> []" by auto
  moreover have "length u \<in> set [0 ..< Suc (length s)]" using v by simp
  ultimately show "rx_search r s" unfolding rx_search_def list_ex_iff by blast
qed

theorem rx_full_iff: "rx_full r s \<longleftrightarrow> s \<in> rx_lang r"
  by (auto simp: rx_full_def list_ex_iff rx_ends_iff)

lemma rx_lang_lit [simp]: "rx_lang (rx_lit s) = {s}"
  by (induction s) (auto simp: rx_lit_def)

lemma rx_lang_word: "rx_lang (rx_word s) = {t. lower t = s}"
proof (induction s)
  case Nil
  then show ?case by (auto simp: rx_word_def lower_def)
next
  case (Cons c s)
  have "rx_lang (rx_word (c # s)) = {[d] @ v | d v. lower_char d = c \<and> v \<in> rx_lang (rx_word s)}"
    unfolding rx_word_def by (simp only: foldr.simps o_apply rx_lang.simps) blast
  also have "\<dots> = {t. lower t = c # s}" unfolding Cons by (auto simp: lower_def map_eq_Cons_conv)
  finally show ?case .
qed

lemma rx_search_lit: "rx_search (rx_lit s) t \<longleftrightarrow> contains s t"
  by (auto simp: rx_search_iff contains_iff)

end
