(* ===== verification/Agent_Tools.thy ===== *)
theory Agent_Tools
  imports Contracts Py_Regex Domain_Types
begin

text \<open>
  The tools of an agent: \<open>src/agent/tools\<close>. A tool is its definition with the function that executes it, which
  may raise and is a parameter. Names and arguments come from the model and are JSON values of any kind.
  The audit log records the event, the tool and the session, so that a tool runs exactly when
  the log says \<open>started\<close>. \<open>tool_registry\<close> interprets \<open>tallied\<close>: the runs of a tool in a session are bounded.
\<close>

section \<open>Capabilities, errors and definitions\<close>

datatype ToolCapability =
    CATALOG_READ | MERCHANT_READ | PRODUCT_READ | CART_BUILD | PRICE_CALCULATION | PROPOSAL_CREATE

fun capability_value :: "ToolCapability \<Rightarrow> string" where
  "capability_value CATALOG_READ = ''CATALOG_READ''"
| "capability_value MERCHANT_READ = ''MERCHANT_READ''"
| "capability_value PRODUCT_READ = ''PRODUCT_READ''"
| "capability_value CART_BUILD = ''CART_BUILD''"
| "capability_value PRICE_CALCULATION = ''PRICE_CALCULATION''"
| "capability_value PROPOSAL_CREATE = ''PROPOSAL_CREATE''"

definition forbidden_capabilities :: "string set" where
  "forbidden_capabilities = {''payment.execute'', ''payment.authorize'', ''mandate.override'', ''budget.override'',
     ''nonce.override'', ''policy.override'', ''admin.override'', ''arbitrary.http'', ''arbitrary.python'',
     ''arbitrary.shell'', ''arbitrary.database''}"

type_synonym capability_policy = "ToolCapability set"

definition allow_all_safe :: capability_policy where
  "allow_all_safe = {CATALOG_READ, MERCHANT_READ, PRODUCT_READ, CART_BUILD, PRICE_CALCULATION, PROPOSAL_CREATE}"

datatype ToolErrorCode =
    UNKNOWN_TOOL | TOOL_DISABLED | CAPABILITY_DENIED | INVALID_TOOL_REQUEST | INVALID_TOOL_ARGUMENTS
  | INVALID_TOOL_VERSION | TOOL_TIMEOUT | TOOL_INPUT_TOO_LARGE | TOOL_OUTPUT_TOO_LARGE | TOOL_INVOCATION_LIMIT
  | FORBIDDEN_OPERATION | AUTHORITY_FIELD_REJECTED | UNSAFE_TARGET | TOOL_EXECUTION_FAILED

datatype tool_error = ToolError ToolErrorCode msg | OtherError msg

record ToolDefinition =
  td_name :: string
  td_description :: string
  td_input_schema :: json
  td_output_schema :: json
  td_version :: string
  td_capabilities :: "ToolCapability list" \<comment> \<open>the set, in the order in which it iterates\<close>
  td_allowed_operations :: "McpOperation set"
  td_is_trusted :: bool
  td_is_blocked_by_default :: bool
  td_max_input_bytes :: int
  td_max_output_bytes :: int
  td_max_invocations :: int
  td_timeout_micros :: int
  td_is_deterministic :: bool
  td_has_external_io :: bool
  td_enabled :: bool

definition name_pattern :: rx where
  \<comment> \<open>\<open>CANONICAL_TOOL_NAME_REGEX\<close>, on a stripped name\<close>
  "name_pattern = RRun 1 None (\<lambda>c. (CHR ''a'' \<le> c \<and> c \<le> CHR ''z'') \<or> is_digit c \<or> c \<in> set ''_-.:'')"

definition path_characters :: "string \<Rightarrow> bool" where
  "path_characters s \<longleftrightarrow> contains ''..'' s \<or> list_ex (\<lambda>c. c = CHR ''/'' \<or> c = CHR 0x5C \<or> c = CHR 0x00 \<or> c = CHR 0x0A) s"

definition execution_prefixes :: "string list" where
  "execution_prefixes = [''python:'', ''shell:'', ''exec:'', ''eval:'', ''import:'', ''module:'']"

definition check_tool_definition :: "ToolDefinition \<Rightarrow> ToolDefinition res" where
  \<comment> \<open>\<open>__post_init__\<close>\<close>
  "check_tool_definition d =
     (let n = lower (strip (td_name d)) in
      if blank (td_name d) then Inl (Raise ValueError (Msg ''Tool name cannot be empty.'' []))
      else if \<not> rx_full name_pattern n then
        Inl (Raise ValueError (Msg ''Invalid canonical tool name {}. Tool names must be lowercase alphanumeric with dots, hyphens, colons, or underscores.'' [PStr (td_name d)]))
      else if path_characters (td_name d) then
        Inl (Raise ValueError (Msg ''Tool name {} contains forbidden path or control characters.'' [PStr (td_name d)]))
      else if list_ex (\<lambda>p. begins p n) execution_prefixes then
        Inl (Raise ValueError (Msg ''Tool name {} contains dangerous execution prefix.'' [PStr (td_name d)]))
      else (case find (\<lambda>c. capability_value c \<in> forbidden_capabilities) (td_capabilities d) of
        Some c \<Rightarrow> Inl (Raise ValueError (Msg ''Tool {} cannot register forbidden capability {}.''
          [PStr (td_name d), PStr (capability_value c)]))
      | None \<Rightarrow>
          if td_max_input_bytes d \<le> 0 then Inl (Raise ValueError (Msg ''max_input_bytes must be > 0.'' []))
          else if td_max_output_bytes d \<le> 0 then Inl (Raise ValueError (Msg ''max_output_bytes must be > 0.'' []))
          else if td_max_invocations d \<le> 0 then Inl (Raise ValueError (Msg ''max_invocations must be > 0.'' []))
          else if td_timeout_micros d \<le> 0 then Inl (Raise ValueError (Msg ''timeout_seconds must be > 0.0.'' []))
          else Inr d))"

record ToolResult =
  tres_tool_name :: json
  tres_success :: bool
  tres_version :: string
  tres_data :: json
  tres_error_code :: "ToolErrorCode option"
  tres_error_message :: "msg option"
  tres_execution_micros :: int

record Tool =
  tool_definition :: ToolDefinition
  tool_execute :: "json \<Rightarrow> ToolResult res"

section \<open>Validation of a request\<close>

definition forbidden_input_keys :: "string set" where
  "forbidden_input_keys = {''authorized'', ''approved'', ''human_confirmed'', ''admin_override'', ''payment_approved'',
     ''skip_policy'', ''skip_mandate'', ''skip_budget'', ''skip_nonce'', ''skip_step_up'', ''bypass_auth'', ''role'',
     ''is_admin'', ''trusted'', ''authorization_result'', ''payment_status''}"

definition ip_pattern :: "rx \<Rightarrow> rx" where
  "ip_pattern start = rx_cat [start, rx_lit ''.'', rx_number3, rx_lit ''.'', rx_number3]"

definition prohibited_targets :: "rx list" where
  "prohibited_targets =
     [rx_word ''localhost'', rx_lit ''127.0.0.1'', rx_lit ''0.0.0.0'', rx_lit ''::1'', rx_lit ''169.254.169.254'',
      rx_word ''file://'', rx_word ''data://'', rx_word ''data:'', rx_word ''javascript:'',
      ip_pattern (rx_cat [rx_lit ''10.'', rx_number3]), ip_pattern (rx_lit ''192.168''),
      ip_pattern (rx_cat [rx_lit ''172.'',
        rx_alts (rx_cat [rx_lit ''1'', RClass (\<lambda>c. CHR ''6'' \<le> c \<and> c \<le> CHR ''9'')])
          [rx_cat [rx_lit ''2'', RClass is_digit], rx_cat [rx_lit ''3'', RClass (\<lambda>c. c = CHR ''0'' \<or> c = CHR ''1'')]]]),
      rx_lit ''__import__'', rx_cat [rx_lit ''eval'', rx_blanks, rx_lit ''('']
      , rx_cat [rx_lit ''exec'', rx_blanks, rx_lit ''(''], rx_lit ''os.system'', rx_lit ''subprocess'']"

definition unsafe_text :: "string \<Rightarrow> bool" where
  "unsafe_text s \<longleftrightarrow> list_ex (\<lambda>r. rx_search r s) prohibited_targets"

definition validate_tool_name :: "json \<Rightarrow> (tool_error + string)" where
  "validate_tool_name j =
     (if \<not> truthy j then Inl (ToolError INVALID_TOOL_REQUEST (Msg ''Tool name cannot be empty.'' []))
      else case j of
        JStr s \<Rightarrow>
          (let n = lower (strip s) in
           if blank s then Inl (ToolError INVALID_TOOL_REQUEST (Msg ''Tool name cannot be empty.'' []))
           else if \<not> rx_full name_pattern n then
             Inl (ToolError INVALID_TOOL_REQUEST (Msg ''Non-canonical tool identifier syntax: {}.'' [PStr s]))
           else if path_characters s then
             Inl (ToolError INVALID_TOOL_REQUEST
               (Msg ''Path traversal or control characters detected in tool name: {}.'' [PStr s]))
           else if list_ex (\<lambda>p. begins p n) execution_prefixes then
             Inl (ToolError INVALID_TOOL_REQUEST (Msg ''Forbidden execution prefix in tool name: {}.'' [PStr s]))
           else Inr s)
      | _ \<Rightarrow> Inl (OtherError (Msg ''object has no attribute {}'' [PStr ''strip''])))"

fun scan_keys :: "string set \<Rightarrow> json \<Rightarrow> string option" and scan_keys_list :: "string set \<Rightarrow> json list \<Rightarrow> string option"
  and scan_keys_members :: "string set \<Rightarrow> (string \<times> json) list \<Rightarrow> string option" where
  \<comment> \<open>the first key, in the order of the scan, whose lower case is forbidden\<close>
  "scan_keys K (JObj kvs) = scan_keys_members K kvs"
| "scan_keys K (JArr xs) = scan_keys_list K xs"
| "scan_keys K _ = None"
| "scan_keys_list K [] = None"
| "scan_keys_list K (x # xs) = (case scan_keys K x of Some k \<Rightarrow> Some k | None \<Rightarrow> scan_keys_list K xs)"
| "scan_keys_members K [] = None"
| "scan_keys_members K ((k, v) # kvs) =
     (if lower k \<in> K then Some k
      else case scan_keys K v of Some k' \<Rightarrow> Some k' | None \<Rightarrow> scan_keys_members K kvs)"

fun scan_texts :: "(string \<Rightarrow> bool) \<Rightarrow> json \<Rightarrow> string option" and scan_texts_list :: "(string \<Rightarrow> bool) \<Rightarrow> json list \<Rightarrow> string option"
  and scan_texts_members :: "(string \<Rightarrow> bool) \<Rightarrow> (string \<times> json) list \<Rightarrow> string option" where
  \<comment> \<open>the first text, a key or a value, that is unsafe\<close>
  "scan_texts P (JStr s) = (if P s then Some s else None)"
| "scan_texts P (JObj kvs) = scan_texts_members P kvs"
| "scan_texts P (JArr xs) = scan_texts_list P xs"
| "scan_texts P _ = None"
| "scan_texts_list P [] = None"
| "scan_texts_list P (x # xs) = (case scan_texts P x of Some k \<Rightarrow> Some k | None \<Rightarrow> scan_texts_list P xs)"
| "scan_texts_members P [] = None"
| "scan_texts_members P ((k, v) # kvs) =
     (if P k then Some k
      else case scan_texts P v of Some k' \<Rightarrow> Some k' | None \<Rightarrow> scan_texts_members P kvs)"

definition validate_input_payload :: "string \<Rightarrow> json \<Rightarrow> int \<Rightarrow> tool_error option" where
  "validate_input_payload name args max_bytes =
     (let n = int (length (json_plain args)) in
      if n > max_bytes then
        Some (ToolError TOOL_INPUT_TOO_LARGE
          (Msg ''Tool input payload ({} bytes) exceeds maximum limit ({} bytes).'' [PInt n, PInt max_bytes]))
      else case scan_keys forbidden_input_keys args of
        Some k \<Rightarrow> Some (ToolError AUTHORITY_FIELD_REJECTED
          (Msg ''Forbidden authority field {} detected in tool arguments for {}.'' [PStr k, PStr name]))
      | None \<Rightarrow> (case scan_texts unsafe_text args of
          Some s \<Rightarrow> Some (ToolError UNSAFE_TARGET
            (Msg ''Unsafe target URL or pattern detected in tool argument for {}: {}.'' [PStr name, PStr s]))
        | None \<Rightarrow> None))"

section \<open>The registry\<close>

record ToolEvent =
  te_event :: string
  te_tool :: json
  te_version :: string
  te_session :: string
  te_code :: "ToolErrorCode option"

record ToolRegistry =
  tg_tools :: "(string \<times> Tool) list" \<comment> \<open>a dictionary, in the order of insertion\<close>
  tg_counts :: "string \<times> string \<rightharpoonup> int"
  tg_log :: "ToolEvent list"

definition tool_registry_init :: ToolRegistry where
  "tool_registry_init = \<lparr>tg_tools = [], tg_counts = Map.empty, tg_log = []\<rparr>"

definition tool_key :: "string \<Rightarrow> string \<Rightarrow> string" where
  "tool_key name version = name @ '':'' @ version"

definition put_tool :: "string \<Rightarrow> Tool \<Rightarrow> (string \<times> Tool) list \<Rightarrow> (string \<times> Tool) list" where
  \<comment> \<open>an assignment to a key that is kept in its place when it exists\<close>
  "put_tool k t kvs = (if k \<in> fst ` set kvs then map (\<lambda>(k', t'). (k', if k' = k then t else t')) kvs else kvs @ [(k, t)])"

definition register_tool :: "ToolRegistry \<Rightarrow> Tool \<Rightarrow> unit res \<times> ToolRegistry" where
  "register_tool g t =
     (let d = tool_definition t; key = tool_key (td_name d) (td_version d) in
      if map_of (tg_tools g) key \<noteq> None \<or> map_of (tg_tools g) (td_name d) \<noteq> None then
        (Inl (Raise ValueError (Msg ''Tool {} version {} is already registered.'' [PStr (td_name d), PStr (td_version d)])), g)
      else (case find (\<lambda>c. capability_value c \<in> forbidden_capabilities) (td_capabilities d) of
        Some c \<Rightarrow> (Inl (Raise ValueError (Msg ''Tool {} cannot declare forbidden capability {}.''
          [PStr (td_name d), PStr (capability_value c)])), g)
      | None \<Rightarrow> (Inr (), g\<lparr>tg_tools := put_tool key t (put_tool (td_name d) t (tg_tools g))\<rparr>)))"

definition unregister_tool :: "ToolRegistry \<Rightarrow> string \<Rightarrow> string option \<Rightarrow> ToolRegistry" where
  "unregister_tool g name version =
     (let kvs = (case version of Some v \<Rightarrow> if v \<noteq> [] then filter (\<lambda>(k, t). k \<noteq> tool_key name v) (tg_tools g) else tg_tools g
        | None \<Rightarrow> tg_tools g) in g\<lparr>tg_tools := filter (\<lambda>(k, t). k \<noteq> name) kvs\<rparr>)"

definition get_tool :: "ToolRegistry \<Rightarrow> string \<Rightarrow> string option \<Rightarrow> Tool option" where
  "get_tool g name version =
     (case version of
        Some v \<Rightarrow> if v \<noteq> [] then
            (case map_of (tg_tools g) (tool_key name v) of Some t \<Rightarrow> Some t | None \<Rightarrow> map_of (tg_tools g) name)
          else map_of (tg_tools g) name
      | None \<Rightarrow> map_of (tg_tools g) name)"

definition resolve_tool :: "ToolRegistry \<Rightarrow> string \<Rightarrow> string option \<Rightarrow> (tool_error + Tool)" where
  "resolve_tool g name version =
     (case get_tool g name version of
        None \<Rightarrow> Inl (ToolError UNKNOWN_TOOL (Msg ''Tool {} is not registered in ToolRegistry.'' [PStr name]))
      | Some t \<Rightarrow>
          (case version of
             Some v \<Rightarrow> if v \<noteq> [] \<and> td_version (tool_definition t) \<noteq> v then
                 Inl (ToolError INVALID_TOOL_VERSION (Msg ''Requested tool version {} does not match registered version {}.''
                   [PStr v, PStr (td_version (tool_definition t))]))
               else Inr t
           | None \<Rightarrow> Inr t))"

fun available_tools :: "capability_policy option \<Rightarrow> string set \<Rightarrow> Tool list \<Rightarrow> ToolDefinition list" where
  "available_tools pol seen [] = []"
| "available_tools pol seen (t # ts) =
     (let d = tool_definition t in
      if td_name d \<in> seen \<or> \<not> td_enabled d \<or> td_is_blocked_by_default d then available_tools pol seen ts
      else if (case pol of Some p \<Rightarrow> \<not> list_all (\<lambda>c. c \<in> p) (td_capabilities d) | None \<Rightarrow> False)
        then available_tools pol (insert (td_name d) seen) ts
      else d # available_tools pol (insert (td_name d) seen) ts)"

definition list_available :: "ToolRegistry \<Rightarrow> capability_policy option \<Rightarrow> ToolDefinition list" where
  "list_available g pol = available_tools pol {} (map snd (tg_tools g))"

definition get_tool_definitions :: "ToolRegistry \<Rightarrow> ToolDefinition list" where
  "get_tool_definitions g = list_available g None"

definition log_tool :: "string \<Rightarrow> json \<Rightarrow> string \<Rightarrow> string \<Rightarrow> ToolErrorCode option \<Rightarrow> ToolRegistry \<Rightarrow> ToolRegistry" where
  "log_tool ev name version session code g = g\<lparr>tg_log := tg_log g @
     [\<lparr>te_event = ev, te_tool = name, te_version = version, te_session = session, te_code = code\<rparr>]\<rparr>"

definition failed_result :: "json \<Rightarrow> string \<Rightarrow> ToolErrorCode \<Rightarrow> msg \<Rightarrow> int \<Rightarrow> ToolResult" where
  "failed_result name version code m micros = \<lparr>tres_tool_name = name, tres_success = False, tres_version = version,
     tres_data = JObj [], tres_error_code = Some code, tres_error_message = Some m, tres_execution_micros = micros\<rparr>"

definition denied :: "json \<Rightarrow> ToolDefinition \<Rightarrow> string \<Rightarrow> ToolErrorCode \<Rightarrow> msg \<Rightarrow> ToolRegistry \<Rightarrow> ToolResult \<times> ToolRegistry" where
  "denied name d session code m g =
     (failed_result name (td_version d) code m 0, log_tool ''denied'' name (td_version d) session (Some code) g)"

definition validation_failed :: "json \<Rightarrow> string \<Rightarrow> string \<Rightarrow> tool_error \<Rightarrow> ToolRegistry \<Rightarrow> ToolResult \<times> ToolRegistry" where
  "validation_failed name version session e g =
     (case e of
        ToolError code m \<Rightarrow>
          (failed_result name version code m 0, log_tool ''validation_failed'' name version session (Some code) g)
      | OtherError m \<Rightarrow>
          (failed_result name version INVALID_TOOL_REQUEST (Msg (''Tool request validation failed: '' @ msg_text m) (msg_args m)) 0,
           log_tool ''validation_failed'' name version session (Some INVALID_TOOL_REQUEST) g))"

definition run_tool :: "json \<Rightarrow> Tool \<Rightarrow> json \<Rightarrow> string \<Rightarrow> int \<Rightarrow> ToolRegistry \<Rightarrow> ToolResult \<times> ToolRegistry" where
  \<comment> \<open>the execution, which takes \<open>micros\<close>\<close>
  "run_tool name t args session micros g0 =
     (let d = tool_definition t; v = td_version d; g = log_tool ''started'' name v session None g0 in
      case tool_execute t args of
        Inl (Raise cls m) \<Rightarrow>
          (failed_result name v TOOL_EXECUTION_FAILED (Msg (''Tool execution unhandled exception: '' @ msg_text m) (msg_args m)) micros,
           log_tool ''failed'' name v session (Some TOOL_EXECUTION_FAILED) g)
      | Inr r \<Rightarrow>
          (let n = int (length (json_plain (tres_data r))) in
           if n > td_max_output_bytes d then
             (failed_result name v TOOL_OUTPUT_TOO_LARGE
                (Msg ''Tool output ({} bytes) exceeded maximum limit ({} bytes).'' [PInt n, PInt (td_max_output_bytes d)]) micros,
              log_tool ''failed'' name v session (Some TOOL_OUTPUT_TOO_LARGE) g)
           else
             (\<lparr>tres_tool_name = name, tres_success = tres_success r, tres_version = v, tres_data = tres_data r,
                tres_error_code = tres_error_code r, tres_error_message = tres_error_message r,
                tres_execution_micros = micros\<rparr>,
              log_tool (if tres_success r then ''completed'' else ''failed'') name v session None g)))"

definition authorize_and_execute ::
  "ToolRegistry \<Rightarrow> json \<Rightarrow> json \<Rightarrow> capability_policy \<Rightarrow> string \<Rightarrow> string option \<Rightarrow> int \<Rightarrow> ToolResult \<times> ToolRegistry" where
  "authorize_and_execute g0 name args pol session version micros =
     (let ver = text_or version ''1.0.0''; g = log_tool ''requested'' name ver session None g0 in
      case validate_tool_name name of
        Inl e \<Rightarrow> validation_failed name ver session e g
      | Inr s \<Rightarrow>
          (case resolve_tool g s version of
             Inl e \<Rightarrow> validation_failed name ver session e g
           | Inr t \<Rightarrow>
               (let d = tool_definition t in
                if \<not> td_enabled d \<or> td_is_blocked_by_default d then
                  denied name d session TOOL_DISABLED (Msg ''Tool {} is disabled or blocked by default.'' [PStr s]) g
                else case find (\<lambda>c. c \<notin> pol) (td_capabilities d) of
                  Some c \<Rightarrow> denied name d session CAPABILITY_DENIED
                    (Msg ''Capability {} is not authorized for tool {}.'' [PStr (capability_value c), PStr s]) g
                | None \<Rightarrow>
                    (let n = option_or (tg_counts g (session, td_name d)) 0 in
                     if n \<ge> td_max_invocations d then
                       denied name d session TOOL_INVOCATION_LIMIT
                         (Msg ''Tool {} exceeded maximum allowed invocations ({}).'' [PStr s, PInt (td_max_invocations d)]) g
                     else
                       let g' = g\<lparr>tg_counts := (tg_counts g)((session, td_name d) \<mapsto> n + 1)\<rparr> in
                       case validate_input_payload s args (td_max_input_bytes d) of
                         Some e \<Rightarrow> validation_failed name ver session e g'
                       | None \<Rightarrow> run_tool name t args session micros g'))))"

definition execute_tool :: "ToolRegistry \<Rightarrow> json \<Rightarrow> json \<Rightarrow> string \<Rightarrow> int \<Rightarrow> ToolResult \<times> ToolRegistry" where
  "execute_tool g name args session micros = authorize_and_execute g name args allow_all_safe session None micros"

definition reset_counts :: "ToolRegistry \<Rightarrow> ToolRegistry" where
  "reset_counts g = g\<lparr>tg_counts := Map.empty\<rparr>"

definition validate_target_url :: "string \<Rightarrow> bool" where
  \<comment> \<open>\<open>ToolRequestValidator\<close> has no method \<open>validate_argument_safety\<close>: the call raises and the handler returns False\<close>
  "validate_target_url url = False"

section \<open>What a request must satisfy\<close>

fun json_keys :: "json \<Rightarrow> string set" where
  \<comment> \<open>every key of every object inside a value\<close>
  "json_keys (JObj kvs) = (\<Union>(k, v) \<in> set kvs. insert k (json_keys v))"
| "json_keys (JArr xs) = (\<Union>x \<in> set xs. json_keys x)"
| "json_keys _ = {}"

fun json_texts :: "json \<Rightarrow> string set" where
  \<comment> \<open>every text inside a value, keys included\<close>
  "json_texts (JStr s) = {s}"
| "json_texts (JObj kvs) = (\<Union>(k, v) \<in> set kvs. insert k (json_texts v))"
| "json_texts (JArr xs) = (\<Union>x \<in> set xs. json_texts x)"
| "json_texts _ = {}"

lemma scan_keys_None:
  "scan_keys K j = None \<longleftrightarrow> (\<forall>k \<in> json_keys j. lower k \<notin> K)"
  "scan_keys_list K xs = None \<longleftrightarrow> (\<forall>x \<in> set xs. \<forall>k \<in> json_keys x. lower k \<notin> K)"
  "scan_keys_members K kvs = None \<longleftrightarrow> (\<forall>(k, v) \<in> set kvs. lower k \<notin> K \<and> (\<forall>k \<in> json_keys v. lower k \<notin> K))"
  by (induction K j and K xs and K kvs rule: scan_keys_scan_keys_list_scan_keys_members.induct)
    (auto split: option.splits)

lemma scan_texts_None:
  "scan_texts P j = None \<longleftrightarrow> (\<forall>s \<in> json_texts j. \<not> P s)"
  "scan_texts_list P xs = None \<longleftrightarrow> (\<forall>x \<in> set xs. \<forall>s \<in> json_texts x. \<not> P s)"
  "scan_texts_members P kvs = None \<longleftrightarrow> (\<forall>(k, v) \<in> set kvs. \<not> P k \<and> (\<forall>s \<in> json_texts v. \<not> P s))"
  by (induction P j and P xs and P kvs rule: scan_texts_scan_texts_list_scan_texts_members.induct)
    (auto split: option.splits)

definition canonical_name :: "string \<Rightarrow> bool" where
  "canonical_name s \<longleftrightarrow> lower (strip s) \<in> rx_lang name_pattern \<and> \<not> path_characters s \<and>
     (\<forall>p \<in> set execution_prefixes. \<not> begins p (lower (strip s)))"

definition clean_arguments :: "json \<Rightarrow> int \<Rightarrow> bool" where
  "clean_arguments args max_bytes \<longleftrightarrow> int (length (json_plain args)) \<le> max_bytes \<and>
     (\<forall>k \<in> json_keys args. lower k \<notin> forbidden_input_keys) \<and>
     (\<forall>s \<in> json_texts args. \<forall>r \<in> set prohibited_targets. \<not> (\<exists>u v w. v \<in> rx_lang r \<and> s = u @ v @ w))"

definition tool_admitted ::
  "ToolRegistry \<Rightarrow> json \<Rightarrow> json \<Rightarrow> capability_policy \<Rightarrow> string \<Rightarrow> string option \<Rightarrow> Tool \<Rightarrow> bool" where
  "tool_admitted g name args pol session version t \<longleftrightarrow>
     (\<exists>s. name = JStr s \<and> canonical_name s \<and> resolve_tool g s version = Inr t) \<and>
     td_enabled (tool_definition t) \<and> \<not> td_is_blocked_by_default (tool_definition t) \<and>
     set (td_capabilities (tool_definition t)) \<subseteq> pol \<and>
     option_or (tg_counts g (session, td_name (tool_definition t))) 0 < td_max_invocations (tool_definition t) \<and>
     clean_arguments args (td_max_input_bytes (tool_definition t))"

lemma validate_tool_name_ok: "validate_tool_name j = Inr s \<longleftrightarrow> j = JStr s \<and> canonical_name s"
proof (cases "\<exists>t. j = JStr t")
  case True
  then obtain t where t: "j = JStr t" ..
  have "\<not> canonical_name t" if "strip t = []"
    using that by (simp add: canonical_name_def name_pattern_def lower_def)
  then show ?thesis
    by (auto simp: t validate_tool_name_def canonical_name_def rx_full_iff Let_def blank_def list_ex_iff)
qed (auto simp: validate_tool_name_def split: json.split)

lemma validate_input_ok: "validate_input_payload s args m = None \<longleftrightarrow> clean_arguments args m"
proof -
  have "scan_texts unsafe_text args = None \<longleftrightarrow>
      (\<forall>s \<in> json_texts args. \<forall>r \<in> set prohibited_targets. \<not> (\<exists>u v w. v \<in> rx_lang r \<and> s = u @ v @ w))"
    unfolding scan_texts_None unsafe_text_def list_ex_iff rx_search_iff by blast
  moreover have "scan_keys forbidden_input_keys args = None \<longleftrightarrow> (\<forall>k \<in> json_keys args. lower k \<notin> forbidden_input_keys)"
    by (rule scan_keys_None)
  moreover have "validate_input_payload s args m = None \<longleftrightarrow> int (length (json_plain args)) \<le> m \<and>
      scan_keys forbidden_input_keys args = None \<and> scan_texts unsafe_text args = None"
    by (simp add: validate_input_payload_def Let_def not_less split: option.split)
  ultimately show ?thesis unfolding clean_arguments_def by (simp only:)
qed

definition counted :: "json \<Rightarrow> string \<Rightarrow> string option \<Rightarrow> Tool \<Rightarrow> ToolRegistry \<Rightarrow> ToolRegistry" where
  \<comment> \<open>the registry after the request is logged and counted\<close>
  "counted name session version t g0 = (let g = log_tool ''requested'' name (text_or version ''1.0.0'') session None g0;
     k = (session, td_name (tool_definition t)) in
     g\<lparr>tg_counts := (tg_counts g)(k \<mapsto> option_or (tg_counts g k) 0 + 1)\<rparr>)"

lemma tg_tools_log [simp]: "tg_tools (log_tool ev n v ses c g) = tg_tools g"
  by (simp add: log_tool_def)

lemma resolve_log [simp]: "resolve_tool (log_tool ev n v ses c g) s version = resolve_tool g s version"
  unfolding resolve_tool_def get_tool_def tg_tools_log ..

lemma tg_counts_log [simp]: "tg_counts (log_tool ev n v ses c g) = tg_counts g"
  by (simp add: log_tool_def)

text \<open>An admitted request is counted and run; any other leaves a failed result and runs nothing.\<close>

definition starts :: "(ToolEvent \<Rightarrow> bool) \<Rightarrow> ToolRegistry \<Rightarrow> nat" where
  "starts P g = length (filter (\<lambda>e. te_event e = ''started'' \<and> P e) (tg_log g))"

lemma starts_log [simp]:
  "starts P (log_tool ev n v ses c g) = starts P g +
     (if ev = ''started'' \<and> P \<lparr>te_event = ev, te_tool = n, te_version = v, te_session = ses, te_code = c\<rparr> then 1 else 0)"
  by (cases "ev = ''started''") (simp_all add: starts_def log_tool_def)

lemma starts_counts [simp]: "starts P (g\<lparr>tg_counts := c\<rparr>) = starts P g"
  by (simp add: starts_def)

lemma admitted_runs:
  assumes "tool_admitted g name args pol session version t"
  shows "authorize_and_execute g name args pol session version micros =
    run_tool name t args session micros (counted name session version t g)"
proof -
  obtain s where s: "name = JStr s" "canonical_name s" "resolve_tool g s version = Inr t"
    using assms by (auto simp: tool_admitted_def)
  then have v: "validate_tool_name name = Inr s" by (simp add: validate_tool_name_ok)
  have f: "find (\<lambda>c. c \<notin> pol) (td_capabilities (tool_definition t)) = None"
    using assms by (auto simp: tool_admitted_def find_None_iff)
  have i: "validate_input_payload s args (td_max_input_bytes (tool_definition t)) = None"
    using assms by (simp add: validate_input_ok tool_admitted_def)
  show ?thesis unfolding authorize_and_execute_def Let_def v sum.case resolve_log s(3)
    using assms by (simp add: f i tool_admitted_def counted_def Let_def)
qed

lemma not_admitted_fails:
  assumes "\<And>t. \<not> tool_admitted g name args pol session version t"
  shows "\<not> tres_success (fst (authorize_and_execute g name args pol session version micros)) \<and>
    starts P (snd (authorize_and_execute g name args pol session version micros)) = starts P g \<and>
    tg_tools (snd (authorize_and_execute g name args pol session version micros)) = tg_tools g \<and>
    (\<forall>k. option_or (tg_counts g k) 0 \<le> option_or (tg_counts (snd (authorize_and_execute g name args pol session version micros)) k) 0)"
proof -
  have fail: "\<not> tres_success (fst (validation_failed name ver session e h))"
      "starts P (snd (validation_failed name ver session e h)) = starts P h"
      "tg_tools (snd (validation_failed name ver session e h)) = tg_tools h"
      "tg_counts (snd (validation_failed name ver session e h)) = tg_counts h" for ver e h
    by (auto simp: validation_failed_def failed_result_def split: tool_error.split)
  have deny: "\<not> tres_success (fst (denied name d session code m h))"
      "starts P (snd (denied name d session code m h)) = starts P h"
      "tg_tools (snd (denied name d session code m h)) = tg_tools h"
      "tg_counts (snd (denied name d session code m h)) = tg_counts h" for d code m h
    by (auto simp: denied_def failed_result_def)
  show ?thesis
  proof (cases "validate_tool_name name")
    case (Inl e)
    then show ?thesis by (simp add: authorize_and_execute_def Let_def fail)
  next
    case (Inr s)
    show ?thesis
    proof (cases "resolve_tool g s version")
      case (Inl e)
      then show ?thesis using Inr by (simp add: authorize_and_execute_def Let_def fail)
    next
      case (Inr t)
      let ?d = "tool_definition t" and ?v = "text_or version ''1.0.0''"
      let ?g = "log_tool ''requested'' name ?v session None g"
      let ?n = "option_or (tg_counts g (session, td_name ?d)) 0"
      have run: "authorize_and_execute g name args pol session version micros =
          (if \<not> td_enabled ?d \<or> td_is_blocked_by_default ?d then
             denied name ?d session TOOL_DISABLED (Msg ''Tool {} is disabled or blocked by default.'' [PStr s]) ?g
           else case find (\<lambda>c. c \<notin> pol) (td_capabilities ?d) of
             Some c \<Rightarrow> denied name ?d session CAPABILITY_DENIED
               (Msg ''Capability {} is not authorized for tool {}.'' [PStr (capability_value c), PStr s]) ?g
           | None \<Rightarrow>
               if ?n \<ge> td_max_invocations ?d then
                 denied name ?d session TOOL_INVOCATION_LIMIT
                   (Msg ''Tool {} exceeded maximum allowed invocations ({}).'' [PStr s, PInt (td_max_invocations ?d)]) ?g
               else
                 case validate_input_payload s args (td_max_input_bytes ?d) of
                   Some e \<Rightarrow> validation_failed name ?v session e
                     (?g\<lparr>tg_counts := (tg_counts g)((session, td_name ?d) \<mapsto> ?n + 1)\<rparr>)
                 | None \<Rightarrow> run_tool name t args session micros
                     (?g\<lparr>tg_counts := (tg_counts g)((session, td_name ?d) \<mapsto> ?n + 1)\<rparr>))"
        unfolding authorize_and_execute_def Let_def \<open>validate_tool_name name = Inr s\<close> sum.case resolve_log Inr tg_counts_log ..
      have "\<not> (td_enabled ?d \<and> \<not> td_is_blocked_by_default ?d \<and> find (\<lambda>c. c \<notin> pol) (td_capabilities ?d) = None \<and>
          ?n < td_max_invocations ?d \<and> validate_input_payload s args (td_max_input_bytes ?d) = None)"
        using assms [of t] \<open>validate_tool_name name = Inr s\<close> Inr
        by (auto simp: tool_admitted_def validate_tool_name_ok validate_input_ok find_None_iff)
      then show ?thesis unfolding run
        by (cases "find (\<lambda>c. c \<notin> pol) (td_capabilities ?d)"; cases "validate_input_payload s args (td_max_input_bytes ?d)")
          (auto simp: fail deny)
    qed
  qed
qed

lemma run_tool_frame:
  "starts P (snd (run_tool name t args session micros g)) = starts P g +
     (if P \<lparr>te_event = ''started'', te_tool = name, te_version = td_version (tool_definition t), te_session = session, te_code = None\<rparr>
      then 1 else 0)"
  "tg_tools (snd (run_tool name t args session micros g)) = tg_tools g"
  "tg_counts (snd (run_tool name t args session micros g)) = tg_counts g"
  by (auto simp: run_tool_def Let_def split: sum.splits py_exc.splits)

section \<open>Runs of a registry\<close>

datatype tool_op = ToolCall json json capability_policy string int

fun tool_step :: "ToolRegistry \<Rightarrow> tool_op \<Rightarrow> ToolResult \<times> ToolRegistry" where
  "tool_step g (ToolCall name args pol session micros) = authorize_and_execute g name args pol session None micros"

definition started_as :: "string \<Rightarrow> string \<Rightarrow> ToolRegistry \<Rightarrow> nat" where
  "started_as s session = starts (\<lambda>e. te_tool e = JStr s \<and> te_session e = session)"

definition within_invocations :: "string \<Rightarrow> string \<Rightarrow> Tool \<Rightarrow> ToolRegistry \<Rightarrow> bool" where
  \<comment> \<open>the runs of the tool that the name denotes are counted, and within its limit\<close>
  "within_invocations s session t g \<longleftrightarrow> map_of (tg_tools g) s = Some t \<and>
     int (started_as s session g) \<le> option_or (tg_counts g (session, td_name (tool_definition t))) 0 \<and>
     int (started_as s session g) \<le> max 0 (td_max_invocations (tool_definition t))"

lemma counted_frame [simp]:
  "starts P (counted name session version t g) = starts P g"
  "tg_tools (counted name session version t g) = tg_tools g"
  "tg_counts (counted name session version t g) k = (if k = (session, td_name (tool_definition t))
     then Some (option_or (tg_counts g k) 0 + 1) else tg_counts g k)"
  by (simp_all add: counted_def Let_def)

interpretation tool_runs: machine tool_step "\<lambda>_ _. True" "within_invocations s session t"
proof
  fix g x
  assume inv: "within_invocations s session t g"
  obtain name args pol ses micros where x: "x = ToolCall name args pol ses micros" by (cases x)
  show "within_invocations s session t (snd (tool_step g x))"
  proof (cases "\<exists>u. tool_admitted g name args pol ses None u")
    case False
    then have "\<And>u. \<not> tool_admitted g name args pol ses None u" by blast
    from not_admitted_fails [OF this, where micros = micros] inv show ?thesis
      unfolding within_invocations_def started_as_def x tool_step.simps by (smt (verit, best))
  next
    case True
    then obtain u where u: "tool_admitted g name args pol ses None u" ..
    have eq: "u = t" if "name = JStr s"
      using u inv that by (auto simp: tool_admitted_def within_invocations_def resolve_tool_def get_tool_def split: option.splits)
    have room: "name = JStr s \<and> ses = session \<Longrightarrow>
        option_or (tg_counts g (session, td_name (tool_definition t))) 0 < td_max_invocations (tool_definition t)"
      using u eq by (auto simp: tool_admitted_def)
    show ?thesis
      using inv eq room
      by (auto simp: within_invocations_def started_as_def x admitted_runs [OF u] run_tool_frame)
  qed
qed

section \<open>Properties\<close>

text \<open>Which requests run a tool, exactly: a request starts a tool exactly when its name is a text in
  canonical form without path characters or an execution prefix and resolves to a registered tool that is
  enabled, not blocked, whose capabilities are all granted and whose count of the session is below its
  limit, and when its arguments are small enough, hold no forbidden key at any depth and no text in which
  an unsafe pattern occurs; every other request fails and starts nothing.\<close>

theorem tool_runs_iff_admitted:
  "starts P (snd (authorize_and_execute g name args pol session version micros)) > starts P g \<longleftrightarrow>
     (\<exists>t. tool_admitted g name args pol session version t \<and>
        P \<lparr>te_event = ''started'', te_tool = name, te_version = td_version (tool_definition t), te_session = session, te_code = None\<rparr>)"
proof (cases "\<exists>t. tool_admitted g name args pol session version t")
  case True
  then obtain t where t: "tool_admitted g name args pol session version t" ..
  then have "tool_admitted g name args pol session version u \<longleftrightarrow> u = t" for u by (auto simp: tool_admitted_def)
  then show ?thesis by (simp add: admitted_runs [OF t] run_tool_frame)
next
  case False
  then have "\<And>t. \<not> tool_admitted g name args pol session version t" by blast
  from not_admitted_fails [OF this] False show ?thesis by simp
qed

text \<open>C20: The runs of a tool are bounded: whatever requests are made for whatever tools, sessions and policies, the
  tool that a name denotes is started in one session under that name at most as often as its definition
  allows (never, when the limit is not positive), however often it is requested.\<close>

theorem tool_calls_bounded:
  assumes "map_of (tg_tools g) s = Some t" and "tg_log g = []" and "tg_counts g = Map.empty"
  shows "int (started_as s session (snd (run_ops tool_step g ops))) \<le> max 0 (td_max_invocations (tool_definition t))"
proof -
  have "within_invocations s session t g" using assms by (simp add: within_invocations_def started_as_def starts_def)
  from tool_runs.inv_run [OF this run_adm_trivial] show ?thesis by (simp add: within_invocations_def)
qed

section \<open>Witnesses\<close>

definition echo_tool :: Tool where
  "echo_tool = \<lparr>tool_definition = \<lparr>td_name = ''echo'', td_description = ''d'', td_input_schema = JObj [], td_output_schema = JObj [],
       td_version = ''1.0.0'', td_capabilities = [PRODUCT_READ], td_allowed_operations = {}, td_is_trusted = False,
       td_is_blocked_by_default = False, td_max_input_bytes = 100, td_max_output_bytes = 100, td_max_invocations = 2,
       td_timeout_micros = 5000000, td_is_deterministic = True, td_has_external_io = False, td_enabled = True\<rparr>,
     tool_execute = (\<lambda>args. Inr \<lparr>tres_tool_name = JStr ''echo'', tres_success = True, tres_version = ''1.0.0'', tres_data = args,
       tres_error_code = None, tres_error_message = None, tres_execution_micros = 0\<rparr>)\<rparr>"

definition echo_registry :: ToolRegistry where
  "echo_registry = snd (register_tool tool_registry_init echo_tool)"

lemma echo_registry [simp]: "tg_log echo_registry = []" "tg_counts echo_registry = Map.empty" "map_of (tg_tools echo_registry) ''echo'' = Some echo_tool"
  by (simp_all add: echo_registry_def register_tool_def tool_registry_init_def echo_tool_def tool_key_def put_tool_def
      forbidden_capabilities_def Let_def)

theorem tool_calls_bounded_witness:
  "int (started_as ''echo'' ''s'' (snd (run_ops tool_step echo_registry
     (replicate 7 (ToolCall (JStr ''echo'') (JObj []) allow_all_safe ''s'' 10))))) \<le> 2"
  using tool_calls_bounded [of echo_registry "''echo''" echo_tool "''s''"
      "replicate 7 (ToolCall (JStr ''echo'') (JObj []) allow_all_safe ''s'' 10)"]
  by (simp add: echo_tool_def)

lemma echo_runs: "tool_admitted echo_registry (JStr ''echo'') (JObj []) allow_all_safe ''s'' None echo_tool"
proof -
  have "canonical_name ''echo''"
    by (simp add: canonical_name_def name_pattern_def rx_full_iff [symmetric] path_characters_def execution_prefixes_def begins_def
        contains_def upt_rec strip_def lstrip_def rstrip_def is_space_def lower_def lower_char_def is_digit_def less_eq_char_def)
  then show ?thesis
    by (simp add: tool_admitted_def resolve_tool_def get_tool_def clean_arguments_def)
      (simp add: echo_tool_def allow_all_safe_def)
qed

end
