(* ===== verification/Agent_Graph.thy ===== *)
theory Agent_Graph
  imports Agent_Tools Session Budget_Store
begin

text \<open>
  The agent runtime: the state machine, the state container, the nodes and the bounded loop of
  \<open>src/agent/graph\<close>, with the proposal boundary of \<open>src/agent/proposal/boundary.py\<close>. The model, the clock, the
  cancellation token and Python's \<open>str\<close>, \<open>json.loads\<close> and \<open>dict\<close> are the fields of an \<open>AgentEnv\<close>; what
  changes from one call to the next is indexed by the number of the round, so a model may answer anything at
  any time. A dictionary that the model returns is a list of members. Time stamps are left out: nothing reads them.

  \<open>agent_moves\<close> interprets \<open>evolution\<close>: whatever the nodes do, the history of the agent grows by a legal path.
\<close>

section \<open>The state machine\<close>

datatype AgentStateEnum =
    IDLE | RECEIVING_INPUT | PLANNING | TOOL_REQUESTED | WAITING_FOR_TOOL | PROCESSING_TOOL_RESULT
  | PROPOSAL_READY | WAITING_FOR_GATEWAY | COMPLETED | FAILED | CANCELLED | TIMED_OUT

fun agent_state_value :: "AgentStateEnum \<Rightarrow> string" where
  "agent_state_value IDLE = ''IDLE''"
| "agent_state_value RECEIVING_INPUT = ''RECEIVING_INPUT''"
| "agent_state_value PLANNING = ''PLANNING''"
| "agent_state_value TOOL_REQUESTED = ''TOOL_REQUESTED''"
| "agent_state_value WAITING_FOR_TOOL = ''WAITING_FOR_TOOL''"
| "agent_state_value PROCESSING_TOOL_RESULT = ''PROCESSING_TOOL_RESULT''"
| "agent_state_value PROPOSAL_READY = ''PROPOSAL_READY''"
| "agent_state_value WAITING_FOR_GATEWAY = ''WAITING_FOR_GATEWAY''"
| "agent_state_value COMPLETED = ''COMPLETED''"
| "agent_state_value FAILED = ''FAILED''"
| "agent_state_value CANCELLED = ''CANCELLED''"
| "agent_state_value TIMED_OUT = ''TIMED_OUT''"

definition agent_terminal :: "AgentStateEnum \<Rightarrow> bool" where
  "agent_terminal s \<longleftrightarrow> s \<in> {COMPLETED, FAILED, CANCELLED, TIMED_OUT}"

fun legal_agent_moves :: "AgentStateEnum \<Rightarrow> AgentStateEnum set" where
  "legal_agent_moves IDLE = {RECEIVING_INPUT, FAILED, CANCELLED}"
| "legal_agent_moves RECEIVING_INPUT = {PLANNING, FAILED, CANCELLED, TIMED_OUT}"
| "legal_agent_moves PLANNING = {TOOL_REQUESTED, PROPOSAL_READY, COMPLETED, FAILED, CANCELLED, TIMED_OUT}"
| "legal_agent_moves TOOL_REQUESTED = {WAITING_FOR_TOOL, FAILED, CANCELLED, TIMED_OUT}"
| "legal_agent_moves WAITING_FOR_TOOL = {PROCESSING_TOOL_RESULT, FAILED, CANCELLED, TIMED_OUT}"
| "legal_agent_moves PROCESSING_TOOL_RESULT = {PLANNING, PROPOSAL_READY, FAILED, CANCELLED, TIMED_OUT}"
| "legal_agent_moves PROPOSAL_READY = {WAITING_FOR_GATEWAY, COMPLETED, FAILED, CANCELLED, TIMED_OUT}"
| "legal_agent_moves WAITING_FOR_GATEWAY = {COMPLETED, FAILED, CANCELLED, TIMED_OUT}"
| "legal_agent_moves COMPLETED = {}"
| "legal_agent_moves FAILED = {}"
| "legal_agent_moves CANCELLED = {}"
| "legal_agent_moves TIMED_OUT = {}"

definition agent_error :: "string \<Rightarrow> msg \<Rightarrow> py_exc" where
  "agent_error cls m = Raise (SourceError cls []) m"

definition validate_agent_move :: "AgentStateEnum \<Rightarrow> AgentStateEnum \<Rightarrow> unit res" where
  \<comment> \<open>the message lists the allowed states too\<close>
  "validate_agent_move from_state to_state =
     (if agent_terminal from_state then
        Inl (agent_error ''AgentStateTransitionError'' (Msg ''Cannot transition out of terminal state {} to {}.''
          [PStr (agent_state_value from_state), PStr (agent_state_value to_state)]))
      else if to_state \<notin> legal_agent_moves from_state then
        Inl (agent_error ''AgentStateTransitionError'' (Msg ''Illegal state transition: {} -> {}.''
          [PStr (agent_state_value from_state), PStr (agent_state_value to_state)]))
      else Inr ())"

section \<open>The state of an agent\<close>

datatype AgentMessageType = SYSTEM | USER | ASSISTANT | TOOL_REQUEST | TOOL_RESULT

record AgentMessage =
  am_message_type :: AgentMessageType
  am_content :: msg
  am_tool_name :: "json option"

record AgentStepRecord =
  as_step_index :: nat
  as_from_state :: AgentStateEnum
  as_to_state :: AgentStateEnum
  as_detail :: "msg option"

record AgentConfig =
  ac_max_iterations :: int
  ac_max_tool_calls :: int
  ac_timeout_micros :: int

definition mk_agent_config :: "int \<Rightarrow> int \<Rightarrow> int \<Rightarrow> AgentConfig res" where
  "mk_agent_config iters tools timeout =
     (if iters \<le> 0 then Inl (Raise ValueError (Msg ''max_iterations must be > 0, got {}'' [PInt iters]))
      else if tools < 0 then Inl (Raise ValueError (Msg ''max_tool_calls must be >= 0, got {}'' [PInt tools]))
      else if timeout \<le> 0 then Inl (Raise ValueError (Msg ''timeout_seconds must be > 0.0, got {}'' [PInt timeout]))
      else Inr \<lparr>ac_max_iterations = iters, ac_max_tool_calls = tools, ac_timeout_micros = timeout\<rparr>)"

record LatestToolResult =
  lt_tool_name :: json
  lt_success :: bool
  lt_data :: json
  lt_error_message :: "msg option"
  lt_execution_micros :: int

record AgentState =
  ag_agent_id :: string
  ag_session_id :: string
  ag_buyer_id :: string
  ag_merchant_id :: string
  ag_mandate_id :: string
  ag_current_state :: AgentStateEnum
  ag_messages :: "AgentMessage list"
  ag_step_history :: "AgentStepRecord list"
  ag_pending_tool_call :: "(string \<times> json) list option"
  ag_latest_tool_result :: "LatestToolResult option"
  ag_proposal_payload :: "(string \<times> json) list option"
  ag_iteration_count :: int
  ag_tool_call_count :: int
  ag_failure_reason :: "msg option"

definition agent_state_init :: "string \<Rightarrow> string \<Rightarrow> string \<Rightarrow> string \<Rightarrow> string \<Rightarrow> AgentStateEnum \<Rightarrow> AgentState" where
  "agent_state_init aid sid buyer merchant mandate init = \<lparr>ag_agent_id = aid, ag_session_id = sid, ag_buyer_id = buyer,
     ag_merchant_id = merchant, ag_mandate_id = mandate, ag_current_state = init, ag_messages = [],
     ag_step_history = [\<lparr>as_step_index = 0, as_from_state = IDLE, as_to_state = init,
       as_detail = Some (Msg ''Agent state initialized'' [])\<rparr>],
     ag_pending_tool_call = None, ag_latest_tool_result = None, ag_proposal_payload = None, ag_iteration_count = 0,
     ag_tool_call_count = 0, ag_failure_reason = None\<rparr>"

definition record_step :: "AgentStateEnum \<Rightarrow> AgentStateEnum \<Rightarrow> msg option \<Rightarrow> AgentState \<Rightarrow> AgentState" where
  "record_step from_state to_state detail a = a\<lparr>ag_step_history := ag_step_history a @
     [\<lparr>as_step_index = length (ag_step_history a), as_from_state = from_state, as_to_state = to_state, as_detail = detail\<rparr>]\<rparr>"

record Agent =
  \<comment> \<open>what a node works on\<close>
  ag_state :: AgentState
  ag_registry :: ToolRegistry

definition on_agent :: "(AgentState \<Rightarrow> AgentState) \<Rightarrow> (Agent, unit) prog" where
  "on_agent f = write_st (\<lambda>a. a\<lparr>ag_state := f (ag_state a)\<rparr>)"

definition transition_to :: "AgentStateEnum \<Rightarrow> msg option \<Rightarrow> (Agent, unit) prog" where
  "transition_to new detail =
     then_do (read_st (\<lambda>a. ag_current_state (ag_state a))) (\<lambda>old.
     then_do (of_res (validate_agent_move old new)) (\<lambda>_.
     on_agent (\<lambda>s. record_step old new detail (s\<lparr>ag_current_state := new\<rparr>))))"

definition add_message :: "AgentMessageType \<Rightarrow> msg \<Rightarrow> json option \<Rightarrow> (Agent, unit) prog" where
  "add_message ty content tool = on_agent (\<lambda>s. s\<lparr>ag_messages := ag_messages s @
     [\<lparr>am_message_type = ty, am_content = content, am_tool_name = tool\<rparr>]\<rparr>)"

definition set_pending_tool_call :: "(string \<times> json) list \<Rightarrow> (Agent, unit) prog" where
  "set_pending_tool_call call = on_agent (\<lambda>s. s\<lparr>ag_pending_tool_call := Some call\<rparr>)"

definition clear_pending_tool_call :: "(Agent, unit) prog" where
  "clear_pending_tool_call = on_agent (\<lambda>s. s\<lparr>ag_pending_tool_call := None\<rparr>)"

definition set_tool_result :: "LatestToolResult \<Rightarrow> (Agent, unit) prog" where
  "set_tool_result r = on_agent (\<lambda>s. s\<lparr>ag_latest_tool_result := Some r\<rparr>)"

definition set_proposal_payload :: "(string \<times> json) list \<Rightarrow> (Agent, unit) prog" where
  "set_proposal_payload p = on_agent (\<lambda>s. s\<lparr>ag_proposal_payload := Some p\<rparr>)"

definition increment_iteration :: "(Agent, unit) prog" where
  "increment_iteration = on_agent (\<lambda>s. s\<lparr>ag_iteration_count := ag_iteration_count s + 1\<rparr>)"

definition increment_tool_call :: "(Agent, unit) prog" where
  "increment_tool_call = on_agent (\<lambda>s. s\<lparr>ag_tool_call_count := ag_tool_call_count s + 1\<rparr>)"

definition set_failure_reason :: "msg \<Rightarrow> (Agent, unit) prog" where
  "set_failure_reason m = on_agent (\<lambda>s. s\<lparr>ag_failure_reason := Some m\<rparr>)"

definition pending_tool_call :: "AgentState \<Rightarrow> (string \<times> json) list option" where
  \<comment> \<open>the property: an empty dictionary reads as \<open>None\<close>\<close>
  "pending_tool_call s = (case ag_pending_tool_call s of Some (kv # kvs) \<Rightarrow> Some (kv # kvs) | _ \<Rightarrow> None)"

definition proposal_payload :: "AgentState \<Rightarrow> (string \<times> json) list option" where
  "proposal_payload s = (case ag_proposal_payload s of Some (kv # kvs) \<Rightarrow> Some (kv # kvs) | _ \<Rightarrow> None)"

section \<open>The proposal boundary\<close>

record AgentProposal =
  apr_proposal_id :: string
  apr_session_id :: string
  apr_buyer_id :: string
  apr_merchant_id :: string
  apr_mandate_id :: string
  apr_operation :: McpOperation
  apr_amount_paise :: json
  apr_currency :: Currency
  apr_cart_id :: json
  apr_cart_hash :: json
  apr_raw_prompt :: json
  apr_items :: json
  apr_is_trusted :: bool

definition build_proposal ::
  "string \<Rightarrow> string \<Rightarrow> string \<Rightarrow> string \<Rightarrow> (string \<times> json) list \<Rightarrow> AgentProposal res" where
  "build_proposal sid buyer merchant mandate payload =
     (let get = (\<lambda>k d. option_or (map_of payload k) d);
          amount = get ''amount_paise'' (JInt 1000)
      in bind_res (case get ''currency'' (JStr ''INR'') of JStr s \<Rightarrow> currency_from (upper s) | _ \<Rightarrow> Inr INR) (\<lambda>cur.
         bind_res (case get ''operation'' (JStr ''create_order'') of
             JStr s \<Rightarrow> (case mcp_of (lower s) of Some op \<Rightarrow> Inr op
               | None \<Rightarrow> Inl (Raise ValueError (Msg ''{} is not a valid McpOperation'' [PStr (lower s)])))
           | _ \<Rightarrow> Inr CREATE_ORDER) (\<lambda>op.
         Inr \<lparr>apr_proposal_id = ''prop_'' @ take 8 sid, apr_session_id = sid, apr_buyer_id = buyer,
           apr_merchant_id = merchant, apr_mandate_id = mandate, apr_operation = op, apr_amount_paise = amount,
           apr_currency = cur, apr_cart_id = get ''cart_id'' (JStr (''cart_'' @ take 8 sid)),
           apr_cart_hash = get ''cart_hash'' (JStr ''e3b0c44298fc1c149afbf4c8996fb92427ae41e4649b934ca495991b7852b855''),
           apr_raw_prompt = get ''raw_prompt'' (JStr ''AI Commerce Agent Proposal''),
           apr_items = get ''items'' (JArr [JObj [(''product_id'', JStr (''prod_'' @ take 8 sid)),
             (''name'', JStr ''Proposed Commerce Item''), (''quantity'', JInt 1), (''unit_price_paise'', amount)]]),
           apr_is_trusted = False\<rparr>)))"

section \<open>The nodes\<close>

record ModelResponse =
  mo_content :: string
  mo_tool_calls :: "(string \<times> json) list list"
  mo_raw_response :: "(string \<times> json) list"

record AgentEnv =
  ae_generate :: "nat \<Rightarrow> AgentMessage list \<Rightarrow> ToolDefinition list \<Rightarrow> ModelResponse res"
  ae_cancelled :: "nat \<Rightarrow> bool"
  ae_elapsed :: "nat \<Rightarrow> int"
  ae_tool_micros :: "nat \<Rightarrow> int"
  ae_str :: "json \<Rightarrow> string"
  ae_loads :: "string \<Rightarrow> json option"
  ae_dict :: "json \<Rightarrow> (string \<times> json) list res" \<comment> \<open>\<open>dict(v)\<close> of a value that is not a dictionary\<close>

definition node_receive_input :: "string \<Rightarrow> (Agent, unit) prog" where
  "node_receive_input prompt =
     then_do (transition_to RECEIVING_INPUT (Some (Msg ''Receiving user input'' []))) (\<lambda>_.
     then_do (add_message USER (Msg prompt []) None) (\<lambda>_.
     transition_to PLANNING (Some (Msg ''Input received, beginning planning'' []))))"

definition default_payload :: json where
  "default_payload = JObj [(''amount_paise'', JInt 1000), (''currency'', JStr ''INR''), (''operation'', JStr ''create_order'')]"

definition proposal_of :: "AgentEnv \<Rightarrow> ModelResponse \<Rightarrow> json" where
  "proposal_of en r =
     (case (if begins ''{'' (mo_content r) then ae_loads en (mo_content r)
            else Some (option_or (map_of (mo_raw_response r) ''proposal'') (JObj []))) of
        None \<Rightarrow> default_payload
      | Some p \<Rightarrow> if truthy p then p else default_payload)"

definition json_dict :: "AgentEnv \<Rightarrow> json \<Rightarrow> (string \<times> json) list res" where
  "json_dict en v = (case v of JObj kvs \<Rightarrow> Inr kvs | _ \<Rightarrow> ae_dict en v)"

definition node_planning :: "AgentEnv \<Rightarrow> nat \<Rightarrow> (Agent, unit) prog" where
  "node_planning en k =
     then_do (read_st (\<lambda>a. ae_generate en k (ag_messages (ag_state a)) (get_tool_definitions (ag_registry a)))) (\<lambda>res.
     then_do (of_res res) (\<lambda>r.
     then_do (if mo_content r \<noteq> [] then add_message ASSISTANT (Msg (mo_content r) []) None else ret ()) (\<lambda>_.
     case mo_tool_calls r of
       call # _ \<Rightarrow>
         then_do (set_pending_tool_call call) (\<lambda>_.
         transition_to TOOL_REQUESTED (Some (Msg ''Model requested tool: {}''
           [PStr (ae_str en (option_or (map_of call ''name'') JNull))])))
     | [] \<Rightarrow>
         if map_of (mo_raw_response r) ''proposal'' \<noteq> None \<or> contains ''amount_paise'' (mo_content r) then
           then_do (of_res (json_dict en (proposal_of en r))) (\<lambda>p.
           then_do (set_proposal_payload p) (\<lambda>_.
           transition_to PROPOSAL_READY (Some (Msg ''Model generated commerce proposal'' []))))
         else transition_to COMPLETED (Some (Msg ''Model completed planning without tools or proposals'' [])))))"

definition run_registry_tool :: "json \<Rightarrow> json \<Rightarrow> int \<Rightarrow> (Agent, ToolResult) prog" where
  "run_registry_tool name args micros a =
     (case execute_tool (ag_registry a) name args (ag_session_id (ag_state a)) micros of
        (r, g) \<Rightarrow> (Inr r, a\<lparr>ag_registry := g\<rparr>))"

definition node_tool_execution :: "AgentEnv \<Rightarrow> nat \<Rightarrow> (Agent, unit) prog" where
  "node_tool_execution en k =
     then_do (read_st (\<lambda>a. pending_tool_call (ag_state a))) (\<lambda>pending.
     case pending of
       None \<Rightarrow> transition_to FAILED (Some (Msg ''No pending tool call found'' []))
     | Some call \<Rightarrow>
         let name = option_or (map_of call ''name'') (JStr ''''); args = option_or (map_of call ''arguments'') (JObj []) in
         then_do (transition_to WAITING_FOR_TOOL (Some (Msg ''Executing tool {}'' [PStr (ae_str en name)]))) (\<lambda>_.
         then_do increment_tool_call (\<lambda>_.
         then_do (run_registry_tool name args (ae_tool_micros en k)) (\<lambda>r.
         then_do (set_tool_result \<lparr>lt_tool_name = tres_tool_name r, lt_success = tres_success r, lt_data = tres_data r,
           lt_error_message = tres_error_message r, lt_execution_micros = tres_execution_micros r\<rparr>) (\<lambda>_.
         then_do clear_pending_tool_call (\<lambda>_.
         transition_to PROCESSING_TOOL_RESULT (Some (Msg ''Completed tool {}'' [PStr (ae_str en name)]))))))))"

definition error_content :: "msg option \<Rightarrow> msg" where
  "error_content m = (case m of None \<Rightarrow> Msg ''Error: None'' [] | Some e \<Rightarrow> Msg (''Error: '' @ msg_text e) (msg_args e))"

definition node_process_tool_result :: "AgentEnv \<Rightarrow> (Agent, unit) prog" where
  "node_process_tool_result en =
     then_do (read_st (\<lambda>a. ag_latest_tool_result (ag_state a))) (\<lambda>latest.
     case latest of
       None \<Rightarrow> transition_to FAILED (Some (Msg ''No tool result available to process'' []))
     | Some r \<Rightarrow>
         then_do (add_message TOOL_RESULT (if lt_success r then Msg (json_plain (lt_data r)) [] else error_content (lt_error_message r))
           (Some (lt_tool_name r))) (\<lambda>_.
         transition_to PLANNING (Some (Msg ''Processed result from tool {}'' [PStr (ae_str en (lt_tool_name r))]))))"

definition node_prepare_proposal :: "(Agent, unit) prog" where
  "node_prepare_proposal =
     then_do (read_st (\<lambda>a. let s = ag_state a in build_proposal (ag_session_id s) (ag_buyer_id s) (ag_merchant_id s) (ag_mandate_id s)
       (option_or (proposal_payload s) []))) (\<lambda>res.
     then_do (of_res res) (\<lambda>p.
     then_do (transition_to WAITING_FOR_GATEWAY (Some (Msg ''Proposal {} waiting for gateway'' [PStr (apr_proposal_id p)]))) (\<lambda>_.
     transition_to COMPLETED (Some (Msg ''Proposal submitted to gateway boundary'' [])))))"

definition node_finalize :: "bool \<Rightarrow> msg option \<Rightarrow> (Agent, unit) prog" where
  "node_finalize success reason =
     then_do (read_st (\<lambda>a. agent_terminal (ag_current_state (ag_state a)))) (\<lambda>term.
     then_do (if \<not> term then transition_to (if success then COMPLETED else FAILED) reason else ret ()) (\<lambda>_.
     case reason of Some m \<Rightarrow> if msg_truthy m then set_failure_reason m else ret () | None \<Rightarrow> ret ()))"

section \<open>The runtime\<close>

datatype round_end = RNext "string list" | RBreak

definition stop_agent :: "AgentStateEnum \<Rightarrow> msg \<Rightarrow> msg \<Rightarrow> py_exc \<Rightarrow> (Agent, round_end) prog" where
  "stop_agent st detail reason e =
     then_do (transition_to st (Some detail)) (\<lambda>_. then_do (set_failure_reason reason) (\<lambda>_. raise_exc e))"

definition tool_signature :: "AgentEnv \<Rightarrow> (string \<times> json) list \<Rightarrow> string" where
  "tool_signature en call = ae_str en (option_or (map_of call ''name'') JNull) @ '':'' @
     ae_str en (option_or (map_of call ''arguments'') JNull)"

definition third_repeat :: "string list \<Rightarrow> bool" where
  \<comment> \<open>the last three entries are the same\<close>
  "third_repeat xs \<longleftrightarrow> (case rev xs of x # y # z # _ \<Rightarrow> x = y \<and> y = z | _ \<Rightarrow> False)"

definition tool_round :: "AgentEnv \<Rightarrow> AgentConfig \<Rightarrow> nat \<Rightarrow> string list \<Rightarrow> (Agent, round_end) prog" where
  "tool_round en cfg k tracker =
     then_do (read_st (\<lambda>a. (ag_tool_call_count (ag_state a), option_or (pending_tool_call (ag_state a)) []))) (\<lambda>(count, pending).
     if count \<ge> ac_max_tool_calls cfg then
       stop_agent FAILED (Msg ''Exceeded max tool calls ({})'' [PInt (ac_max_tool_calls cfg)])
         (Msg ''Exceeded max tool calls ({})'' [PInt (ac_max_tool_calls cfg)])
         (agent_error ''AgentToolLimitExceededError'' (Msg ''Exceeded maximum allowed tool invocations ({}).'' [PInt (ac_max_tool_calls cfg)]))
     else
       let tracker' = tracker @ [tool_signature en pending] in
       if third_repeat tracker' then
         stop_agent FAILED (Msg ''Infinite loop detected in tool requests'' []) (Msg ''Infinite tool loop detected'' [])
           (agent_error ''AgentSecurityViolationError'' (Msg ''Infinite loop detected for tool request {}.''
             [PStr (ae_str en (option_or (map_of pending ''name'') JNull))]))
       else then_do (node_tool_execution en k) (\<lambda>_. ret (RNext tracker')))"

definition agent_round :: "AgentEnv \<Rightarrow> AgentConfig \<Rightarrow> nat \<Rightarrow> string list \<Rightarrow> (Agent, round_end) prog" where
  "agent_round en cfg k tracker =
     (if ae_cancelled en k then
        stop_agent CANCELLED (Msg ''Cancelled by user/system signal'' []) (Msg ''Execution cancelled by token'' [])
          (agent_error ''AgentCancellationError'' (Msg ''Agent execution was explicitly cancelled.'' []))
      else if ae_elapsed en k > ac_timeout_micros cfg then
        stop_agent TIMED_OUT (Msg ''Timeout of {}s exceeded'' [PInt (ac_timeout_micros cfg)])
          (Msg ''Timeout of {}s exceeded'' [PInt (ac_timeout_micros cfg)])
          (agent_error ''AgentTimeoutError'' (Msg ''Agent execution timed out after {}s.'' [PInt (ae_elapsed en k)]))
      else
        then_do increment_iteration (\<lambda>_.
        then_do (read_st (\<lambda>a. (ag_iteration_count (ag_state a), ag_current_state (ag_state a)))) (\<lambda>(iter, current).
        if iter > ac_max_iterations cfg then
          stop_agent FAILED (Msg ''Exceeded max iterations ({})'' [PInt (ac_max_iterations cfg)])
            (Msg ''Exceeded max iterations ({})'' [PInt (ac_max_iterations cfg)])
            (agent_error ''AgentLoopLimitExceededError''
              (Msg ''Execution loop exceeded maximum allowed iterations ({}).'' [PInt (ac_max_iterations cfg)]))
        else if current = PLANNING then then_do (node_planning en k) (\<lambda>_. ret (RNext tracker))
        else if current = TOOL_REQUESTED then tool_round en cfg k tracker
        else if current = PROCESSING_TOOL_RESULT then then_do (node_process_tool_result en) (\<lambda>_. ret (RNext tracker))
        else if current = PROPOSAL_READY then then_do node_prepare_proposal (\<lambda>_. ret (RNext tracker))
        else if current = WAITING_FOR_GATEWAY then
          then_do (node_finalize True (Some (Msg ''Proposal ready for gateway'' []))) (\<lambda>_. ret RBreak)
        else
          then_do (node_finalize False (Some (Msg ''Unhandled runtime state {}'' [PStr (agent_state_value current)]))) (\<lambda>_. ret RBreak))))"

section \<open>What the nodes keep\<close>

fun agent_path :: "AgentStateEnum \<Rightarrow> AgentStepRecord list \<Rightarrow> AgentStateEnum \<Rightarrow> bool" where
  \<comment> \<open>the steps lead along legal moves from one state to the other\<close>
  "agent_path s [] t \<longleftrightarrow> s = t"
| "agent_path s (r # rs) t \<longleftrightarrow> as_from_state r = s \<and> as_to_state r \<in> legal_agent_moves s \<and> agent_path (as_to_state r) rs t"

lemma agent_path_append: "agent_path s (rs @ qs) u \<longleftrightarrow> (\<exists>t. agent_path s rs t \<and> agent_path t qs u)"
  by (induction rs arbitrary: s) auto

definition walks :: "Agent \<Rightarrow> Agent \<Rightarrow> bool" where
  \<comment> \<open>the history grows by a legal path\<close>
  "walks a b \<longleftrightarrow> (\<exists>rs. ag_step_history (ag_state b) = ag_step_history (ag_state a) @ rs \<and>
     agent_path (ag_current_state (ag_state a)) rs (ag_current_state (ag_state b)))"

lemma walks_trans: "walks a b \<Longrightarrow> walks b c \<Longrightarrow> walks a c"
  unfolding walks_def by (metis agent_path_append append_assoc)

lemma walks_refl [simp]: "walks a a"
  by (simp add: walks_def)

definition moves :: "Agent \<Rightarrow> Agent \<Rightarrow> bool" where
  \<comment> \<open>and no round is counted\<close>
  "moves a b \<longleftrightarrow> walks a b \<and> ag_iteration_count (ag_state b) = ag_iteration_count (ag_state a)"

interpretation agent_moves: evolution moves
  by unfold_locales (auto simp: moves_def intro: walks_trans)

definition same_counts :: "Agent \<Rightarrow> Agent \<Rightarrow> bool" where
  "same_counts a b \<longleftrightarrow> moves a b \<and> ag_tool_call_count (ag_state b) = ag_tool_call_count (ag_state a)"

interpretation agent_counts: evolution same_counts
  by unfold_locales (auto simp: same_counts_def intro: agent_moves.stays agent_moves.follows)

lemma counts_moves: "evolves same_counts m \<Longrightarrow> evolves moves m"
  by (simp add: evolves_def same_counts_def)

lemma transition_cases:
  "(t \<in> legal_agent_moves (ag_current_state (ag_state a)) \<and>
      transition_to t d a = (Inr (), a\<lparr>ag_state := record_step (ag_current_state (ag_state a)) t d ((ag_state a)\<lparr>ag_current_state := t\<rparr>)\<rparr>)) \<or>
   (t \<notin> legal_agent_moves (ag_current_state (ag_state a)) \<and> (\<exists>m. transition_to t d a = (Inl (agent_error ''AgentStateTransitionError'' m), a)))"
  by (auto simp: transition_to_def on_agent_def validate_agent_move_def agent_terminal_def)

lemma transition_counts: "evolves same_counts (transition_to t d)"
  unfolding evolves_def
proof
  fix a
  show "same_counts a (snd (transition_to t d a))"
    using transition_cases [of t a d] by (auto simp: same_counts_def moves_def walks_def record_step_def)
qed

lemma setter_counts:
  assumes "\<And>s. ag_current_state (f s) = ag_current_state s" and "\<And>s. ag_step_history (f s) = ag_step_history s"
    and "\<And>s. ag_iteration_count (f s) = ag_iteration_count s" and "\<And>s. ag_tool_call_count (f s) = ag_tool_call_count s"
  shows "evolves same_counts (on_agent f)"
  using assms by (simp add: evolves_def on_agent_def same_counts_def moves_def walks_def)

lemma setters_count:
  "evolves same_counts (add_message ty m n)" "evolves same_counts (set_pending_tool_call c)"
  "evolves same_counts clear_pending_tool_call" "evolves same_counts (set_tool_result r)"
  "evolves same_counts (set_proposal_payload p)" "evolves same_counts (set_failure_reason e)"
  unfolding add_message_def set_pending_tool_call_def clear_pending_tool_call_def set_tool_result_def
    set_proposal_payload_def set_failure_reason_def
  by (rule setter_counts; simp)+

lemma run_registry_counts: "evolves same_counts (run_registry_tool name args micros)"
  by (auto simp: evolves_def run_registry_tool_def same_counts_def moves_def walks_def split: prod.split)

lemmas node_rules = agent_counts.evolves_rules transition_counts setters_count run_registry_counts

lemma nodes_count:
  "evolves same_counts (node_receive_input prompt)"
  "evolves same_counts (node_planning en k)"
  "evolves same_counts (node_process_tool_result en)"
  "evolves same_counts node_prepare_proposal"
  "evolves same_counts (node_finalize success reason)"
  unfolding node_receive_input_def node_planning_def node_process_tool_result_def node_prepare_proposal_def node_finalize_def
  by (intro node_rules)+

definition one_call :: "Agent \<Rightarrow> Agent \<Rightarrow> bool" where
  "one_call a b \<longleftrightarrow> moves a b \<and> ag_tool_call_count (ag_state a) \<le> ag_tool_call_count (ag_state b) \<and>
     ag_tool_call_count (ag_state b) \<le> ag_tool_call_count (ag_state a) + 1"

lemma one_call_counts: "evolves same_counts m \<Longrightarrow> evolves one_call m"
  by (simp add: evolves_def same_counts_def one_call_def)

lemma one_call_then:
  assumes "evolves same_counts m" and "\<And>x. evolves one_call (f x)"
  shows "evolves one_call (then_do m f)"
  unfolding evolves_def
proof
  fix a
  have "same_counts a (snd (m a))" using assms(1) by (simp add: evolves_def)
  moreover have "one_call (snd (m a)) (snd (f x (snd (m a))))" for x using assms(2) by (simp add: evolves_def)
  ultimately show "one_call a (snd (then_do m f a))"
    by (auto simp: then_do_def one_call_def same_counts_def split: prod.split sum.split dest: agent_moves.follows)
      (metis agent_moves.follows snd_conv)+
qed

lemma one_call_increment:
  assumes "\<And>x. evolves same_counts (f x)"
  shows "evolves one_call (then_do increment_tool_call f)"
  unfolding evolves_def
proof
  fix a :: Agent
  let ?b = "a\<lparr>ag_state := (ag_state a)\<lparr>ag_tool_call_count := ag_tool_call_count (ag_state a) + 1\<rparr>\<rparr>"
  have "same_counts ?b (snd (f () ?b))" using assms by (simp add: evolves_def)
  moreover have "moves a ?b" by (simp add: moves_def walks_def)
  ultimately show "one_call a (snd (then_do increment_tool_call f a))"
    using agent_moves.follows [of a ?b] by (simp add: increment_tool_call_def on_agent_def one_call_def same_counts_def)
qed

lemma tool_node_one_call: "evolves one_call (node_tool_execution en k)"
  unfolding node_tool_execution_def Let_def
proof (rule one_call_then [OF agent_counts.evolves_pure(3)])
  fix pending :: "(string \<times> json) list option"
  show "evolves one_call (case pending of
       None \<Rightarrow> transition_to FAILED (Some (Msg ''No pending tool call found'' []))
     | Some call \<Rightarrow>
         then_do (transition_to WAITING_FOR_TOOL (Some (Msg ''Executing tool {}'' [PStr (ae_str en (option_or (map_of call ''name'') (JStr '''')))]))) (\<lambda>_.
         then_do increment_tool_call (\<lambda>_.
         then_do (run_registry_tool (option_or (map_of call ''name'') (JStr '''')) (option_or (map_of call ''arguments'') (JObj [])) (ae_tool_micros en k)) (\<lambda>r.
         then_do (set_tool_result \<lparr>lt_tool_name = tres_tool_name r, lt_success = tres_success r, lt_data = tres_data r,
           lt_error_message = tres_error_message r, lt_execution_micros = tres_execution_micros r\<rparr>) (\<lambda>_.
         then_do clear_pending_tool_call (\<lambda>_.
         transition_to PROCESSING_TOOL_RESULT (Some (Msg ''Completed tool {}'' [PStr (ae_str en (option_or (map_of call ''name'') (JStr '''')))]))))))))"
    by (cases pending) (simp_all add: one_call_counts transition_counts one_call_then one_call_increment agent_counts.evolves_then_do
        setters_count run_registry_counts)
qed

lemma one_call_moves: "evolves one_call m \<Longrightarrow> evolves moves m"
  by (simp add: evolves_def one_call_def)

lemma stop_agent_counts: "evolves same_counts (stop_agent st d r e)"
  unfolding stop_agent_def by (intro node_rules)

lemma stop_agent_raises: "fst (stop_agent st d r e a) \<noteq> Inr x"
  by (auto simp: stop_agent_def then_do_def split: prod.splits sum.splits)

section \<open>A round\<close>

definition bounded_walk :: "AgentConfig \<Rightarrow> Agent \<Rightarrow> Agent \<Rightarrow> bool" where
  \<comment> \<open>a legal walk on which tools are called within the limit\<close>
  "bounded_walk cfg a b \<longleftrightarrow> walks a b \<and> ag_tool_call_count (ag_state a) \<le> ag_tool_call_count (ag_state b) \<and>
     ag_tool_call_count (ag_state b) \<le> max (ag_tool_call_count (ag_state a)) (ac_max_tool_calls cfg)"

interpretation bounded_walks: evolution "bounded_walk cfg" for cfg
  by unfold_locales (auto simp: bounded_walk_def intro: walks_trans)

lemma counts_bounded: "evolves same_counts m \<Longrightarrow> evolves (bounded_walk cfg) m"
  by (simp add: evolves_def same_counts_def moves_def bounded_walk_def)

lemma tool_round_moves: "evolves moves (tool_round en cfg k tr)"
  unfolding tool_round_def Let_def
  by (intro agent_moves.evolves_rules counts_moves [OF stop_agent_counts] one_call_moves [OF tool_node_one_call])

lemma tool_round_bounded: "evolves (bounded_walk cfg) (tool_round en cfg k tr)"
  unfolding evolves_def
proof
  fix a
  have s: "bounded_walk cfg a (snd (stop_agent st d r e a))" for st d r e
    using counts_bounded [OF stop_agent_counts] by (simp add: evolves_def)
  have n: "one_call a (snd (node_tool_execution en k a))" using tool_node_one_call by (simp add: evolves_def)
  show "bounded_walk cfg a (snd (tool_round en cfg k tr a))"
  proof (cases "ag_tool_call_count (ag_state a) < ac_max_tool_calls cfg")
    case True
    have "bounded_walk cfg a (snd (then_do (node_tool_execution en k) (\<lambda>_. ret x) a))" for x :: round_end
      using n True by (auto simp: then_do_def one_call_def bounded_walk_def moves_def split: prod.split sum.split)
    with s True show ?thesis by (simp add: tool_round_def Let_def)
  qed (simp add: tool_round_def s)
qed

lemma increment_iteration_run:
  "increment_iteration a = (Inr (), a\<lparr>ag_state := (ag_state a)\<lparr>ag_iteration_count := ag_iteration_count (ag_state a) + 1\<rparr>\<rparr>)"
  by (simp add: increment_iteration_def on_agent_def)

lemma round_bounded: "evolves (bounded_walk cfg) (agent_round en cfg k tr)"
proof -
  have "evolves (bounded_walk cfg) increment_iteration"
    by (simp add: evolves_def increment_iteration_run bounded_walk_def walks_def)
  then show ?thesis unfolding agent_round_def
    by (intro bounded_walks.evolves_rules counts_bounded [OF stop_agent_counts] counts_bounded [OF nodes_count(2)]
        counts_bounded [OF nodes_count(3)] counts_bounded [OF nodes_count(4)] counts_bounded [OF nodes_count(5)] tool_round_bounded)
qed

lemma round_next:
  assumes "agent_round en cfg k tr a = (Inr (RNext tr'), b)"
  shows "ag_iteration_count (ag_state b) = ag_iteration_count (ag_state a) + 1 \<and> ag_iteration_count (ag_state b) \<le> ac_max_iterations cfg"
proof -
  let ?a = "a\<lparr>ag_state := (ag_state a)\<lparr>ag_iteration_count := ag_iteration_count (ag_state a) + 1\<rparr>\<rparr>"
  have stop: "stop_agent st d r e x \<noteq> (Inr (RNext tr'), b)" for st d r e x
    using stop_agent_raises [of st d r e x] by (metis fst_conv)
  have fin: "then_do (node_finalize ok m) (\<lambda>_. ret RBreak) x \<noteq> (Inr (RNext tr'), b)" for ok m x
    by (auto simp: then_do_def split: prod.splits sum.splits)
  have keep: "ag_iteration_count (ag_state b) = ag_iteration_count (ag_state ?a)"
    if "evolves moves m" "m ?a = (Inr (RNext tr'), b)" for m :: "(Agent, round_end) prog"
    using evolvesD [OF that(1), of ?a] that(2) by (simp add: moves_def)
  have node: "evolves moves (then_do m (\<lambda>_. ret x))" if "evolves same_counts m" for m :: "(Agent, unit) prog" and x :: round_end
    using that by (intro agent_moves.evolves_then_do counts_moves agent_moves.evolves_pure)
  note kept = keep [OF node [OF nodes_count(2)]] keep [OF node [OF nodes_count(3)]] keep [OF node [OF nodes_count(4)]]
    keep [OF tool_round_moves]
  have c: "\<not> ae_cancelled en k" using assms stop by (auto simp: agent_round_def)
  have e: "\<not> ae_elapsed en k > ac_timeout_micros cfg" using assms c stop by (auto simp: agent_round_def)
  have le: "ag_iteration_count (ag_state ?a) \<le> ac_max_iterations cfg"
  proof (rule ccontr)
    assume "\<not> ?thesis"
    with assms c e stop show False by (simp add: agent_round_def increment_iteration_run then_do_Inr)
  qed
  have "ag_iteration_count (ag_state b) = ag_iteration_count (ag_state ?a)"
  proof (cases "ag_current_state (ag_state a) \<in> {PLANNING, TOOL_REQUESTED, PROCESSING_TOOL_RESULT, PROPOSAL_READY}")
    case True
    with assms c e le kept show ?thesis by (auto simp: agent_round_def increment_iteration_run then_do_Inr)
  next
    case False
    with assms c e le fin show ?thesis by (auto simp: agent_round_def increment_iteration_run then_do_Inr split: if_splits)
  qed
  with le show ?thesis by simp
qed

lemma finalize_terminal:
  assumes "node_finalize ok m a = (Inr x, b)"
  shows "agent_terminal (ag_current_state (ag_state b))"
  using assms transition_cases [of "if ok then COMPLETED else FAILED" a m]
  by (auto simp: node_finalize_def then_do_def record_step_def agent_terminal_def set_failure_reason_def on_agent_def
      split: prod.splits sum.splits if_splits option.splits)

lemma round_break:
  assumes "agent_round en cfg k tr a = (Inr RBreak, b)"
  shows "agent_terminal (ag_current_state (ag_state b))"
proof -
  have stop: "stop_agent st d r e x \<noteq> (Inr RBreak, b)" for st d r e x
    using stop_agent_raises [of st d r e x] by (metis fst_conv)
  have cont: "then_do m (\<lambda>_. ret (RNext t)) x \<noteq> (Inr RBreak, b)" for t x and m :: "(Agent, unit) prog"
    by (auto simp: then_do_def split: prod.splits sum.splits)
  have "tool_round en cfg k tr x \<noteq> (Inr RBreak, b)" for x
    using stop cont by (auto simp: tool_round_def Let_def)
  then obtain ok m x where "then_do (node_finalize ok m) (\<lambda>_. ret RBreak) x = (Inr RBreak, b)"
    using assms stop cont by (auto simp: agent_round_def increment_iteration_run then_do_Inr split: if_splits)
  then show ?thesis by (auto simp: then_do_result dest: finalize_terminal)
qed

section \<open>The loop\<close>

function (sequential) agent_loop :: "AgentEnv \<Rightarrow> AgentConfig \<Rightarrow> nat \<Rightarrow> string list \<Rightarrow> (Agent, unit) prog" where
  "agent_loop en cfg k tr a =
     (if agent_terminal (ag_current_state (ag_state a)) then (Inr (), a)
      else case agent_round en cfg k tr a of
        (Inl e, b) \<Rightarrow> (Inl e, b)
      | (Inr RBreak, b) \<Rightarrow> (Inr (), b)
      | (Inr (RNext tr'), b) \<Rightarrow> agent_loop en cfg (Suc k) tr' b)"
  by pat_completeness auto
termination
  by (relation "measure (\<lambda>(en, cfg, k, tr, a). nat (ac_max_iterations cfg - ag_iteration_count (ag_state a)))")
    (auto dest!: round_next [OF sym])

declare agent_loop.simps [simp del]

definition controlled_stops :: "string set" where
  "controlled_stops = {''AgentCancellationError'', ''AgentTimeoutError'', ''AgentLoopLimitExceededError'',
     ''AgentToolLimitExceededError'', ''AgentSecurityViolationError'', ''AgentStateTransitionError''}"

definition is_controlled :: "py_exc \<Rightarrow> bool" where
  "is_controlled e = (case e of Raise (SourceError cls _) _ \<Rightarrow> cls \<in> controlled_stops | _ \<Rightarrow> False)"

fun exc_msg :: "py_exc \<Rightarrow> msg" where
  "exc_msg (Raise cls m) = m"

definition agent_failed :: "msg \<Rightarrow> msg \<Rightarrow> Agent \<Rightarrow> Agent" where
  \<comment> \<open>a move to FAILED, an exception of which is dropped, and the reason\<close>
  "agent_failed detail reason a =
     snd (set_failure_reason reason
       (if agent_terminal (ag_current_state (ag_state a)) then a else snd (transition_to FAILED (Some detail) a)))"

definition agent_run :: "AgentEnv \<Rightarrow> AgentConfig \<Rightarrow> string \<Rightarrow> (Agent, unit) prog" where
  "agent_run en cfg prompt a =
     (case then_do (node_receive_input prompt) (\<lambda>_. agent_loop en cfg 0 []) a of
        (Inr _, b) \<Rightarrow> (Inr (), b)
      | (Inl e, b) \<Rightarrow>
          if is_controlled e then (Inl e, agent_failed (exc_msg e) (exc_msg e) b)
          else (Inl (agent_error ''AgentError'' (Msg (''Agent execution failed: '' @ msg_text (exc_msg e)) (msg_args (exc_msg e)))),
                agent_failed (Msg (''Unhandled error: '' @ msg_text (exc_msg e)) (msg_args (exc_msg e))) (exc_msg e) b))"

section \<open>What a run leaves\<close>

lemma round_iterations: "ag_iteration_count (ag_state (snd (agent_round en cfg k tr a))) \<le> ag_iteration_count (ag_state a) + 1"
proof -
  let ?a = "a\<lparr>ag_state := (ag_state a)\<lparr>ag_iteration_count := ag_iteration_count (ag_state a) + 1\<rparr>\<rparr>"
  let ?body = "then_do (read_st (\<lambda>a. (ag_iteration_count (ag_state a), ag_current_state (ag_state a)))) (\<lambda>(iter, current).
        if iter > ac_max_iterations cfg then
          stop_agent FAILED (Msg ''Exceeded max iterations ({})'' [PInt (ac_max_iterations cfg)])
            (Msg ''Exceeded max iterations ({})'' [PInt (ac_max_iterations cfg)])
            (agent_error ''AgentLoopLimitExceededError''
              (Msg ''Execution loop exceeded maximum allowed iterations ({}).'' [PInt (ac_max_iterations cfg)]))
        else if current = PLANNING then then_do (node_planning en k) (\<lambda>_. ret (RNext tr))
        else if current = TOOL_REQUESTED then tool_round en cfg k tr
        else if current = PROCESSING_TOOL_RESULT then then_do (node_process_tool_result en) (\<lambda>_. ret (RNext tr))
        else if current = PROPOSAL_READY then then_do node_prepare_proposal (\<lambda>_. ret (RNext tr))
        else if current = WAITING_FOR_GATEWAY then
          then_do (node_finalize True (Some (Msg ''Proposal ready for gateway'' []))) (\<lambda>_. ret RBreak)
        else
          then_do (node_finalize False (Some (Msg ''Unhandled runtime state {}'' [PStr (agent_state_value current)]))) (\<lambda>_. ret RBreak))"
  have stop: "evolves moves (stop_agent st d r e)" for st d r e by (rule counts_moves [OF stop_agent_counts])
  have "evolves moves ?body"
    by (intro agent_moves.evolves_rules stop tool_round_moves counts_moves [OF nodes_count(2)] counts_moves [OF nodes_count(3)]
        counts_moves [OF nodes_count(4)] counts_moves [OF nodes_count(5)])
  then have "moves ?a (snd (?body ?a))" by (rule evolvesD)
  moreover have "moves a (snd (stop_agent st d r e a))" for st d r e using stop by (rule evolvesD)
  ultimately show ?thesis
    unfolding agent_round_def by (simp add: increment_iteration_run then_do_Inr moves_def)
qed

lemma loop_bounded: "bounded_walk cfg a (snd (agent_loop en cfg k tr a))"
proof (induction en cfg k tr a rule: agent_loop.induct)
  case (1 en cfg k tr a)
  have r: "bounded_walk cfg a (snd (agent_round en cfg k tr a))" using round_bounded by (rule evolvesD)
  show ?case
  proof (cases "agent_terminal (ag_current_state (ag_state a))")
    case False
    obtain out b where ab: "agent_round en cfg k tr a = (out, b)" by (cases "agent_round en cfg k tr a")
    show ?thesis
    proof (cases "\<exists>tr'. out = Inr (RNext tr')")
      case True
      then obtain tr' where "out = Inr (RNext tr')" ..
      with 1 [OF False] ab r show ?thesis
        by (subst agent_loop.simps) (auto simp: False intro: bounded_walks.follows)
    next
      case stopped: False
      then show ?thesis using ab r False by (subst agent_loop.simps) (auto split: sum.splits round_end.splits)
    qed
  qed (subst agent_loop.simps, simp add: bounded_walks.stays)
qed

lemma loop_iterations:
  "ag_iteration_count (ag_state (snd (agent_loop en cfg k tr a))) \<le> max (ag_iteration_count (ag_state a)) (ac_max_iterations cfg) + 1"
proof (induction en cfg k tr a rule: agent_loop.induct)
  case (1 en cfg k tr a)
  show ?case
  proof (cases "agent_terminal (ag_current_state (ag_state a))")
    case False
    obtain out b where ab: "agent_round en cfg k tr a = (out, b)" by (cases "agent_round en cfg k tr a")
    then have le: "ag_iteration_count (ag_state b) \<le> ag_iteration_count (ag_state a) + 1" using round_iterations [of en cfg k tr a] by simp
    show ?thesis
    proof (cases "\<exists>tr'. out = Inr (RNext tr')")
      case True
      then obtain tr' where out: "out = Inr (RNext tr')" ..
      with ab have "ag_iteration_count (ag_state b) \<le> ac_max_iterations cfg" using round_next by blast
      moreover have "ag_iteration_count (ag_state (snd (agent_loop en cfg (Suc k) tr' b)))
          \<le> max (ag_iteration_count (ag_state b)) (ac_max_iterations cfg) + 1"
        using 1 [OF False] ab out by fastforce
      moreover have "agent_loop en cfg k tr a = agent_loop en cfg (Suc k) tr' b"
        using ab out by (subst agent_loop.simps) (simp add: False)
      ultimately show ?thesis by simp
    next
      case stopped: False
      then show ?thesis using ab le False by (subst agent_loop.simps) (auto split: sum.splits round_end.splits)
    qed
  qed (subst agent_loop.simps, simp)
qed

lemma loop_terminal: "agent_loop en cfg k tr a = (Inr (), b) \<Longrightarrow> agent_terminal (ag_current_state (ag_state b))"
proof (induction en cfg k tr a rule: agent_loop.induct)
  case (1 en cfg k tr a)
  then show ?case
    by (subst (asm) (2) agent_loop.simps) (auto split: if_splits prod.splits sum.splits round_end.splits dest: round_break)
qed

lemma failed_leaves:
  "same_counts a (agent_failed d r a)" "agent_terminal (ag_current_state (ag_state (agent_failed d r a)))"
  "ag_failure_reason (ag_state (agent_failed d r a)) = Some r"
proof -
  let ?b = "if agent_terminal (ag_current_state (ag_state a)) then a else snd (transition_to FAILED (Some d) a)"
  have "same_counts a ?b" using transition_counts agent_counts.stays by (auto dest: evolvesD)
  moreover have "same_counts ?b (snd (set_failure_reason r ?b))" using setters_count(6) by (rule evolvesD)
  ultimately show "same_counts a (agent_failed d r a)"
    unfolding agent_failed_def by (rule agent_counts.follows)
  have "agent_terminal (ag_current_state (ag_state ?b))"
  proof (cases "agent_terminal (ag_current_state (ag_state a))")
    case False
    then have "FAILED \<in> legal_agent_moves (ag_current_state (ag_state a))"
      by (cases "ag_current_state (ag_state a)") (simp_all add: agent_terminal_def)
    with False show ?thesis
      using transition_cases [of FAILED a "Some d"] by (auto simp: record_step_def agent_terminal_def)
  qed simp
  then show "agent_terminal (ag_current_state (ag_state (agent_failed d r a)))"
    by (simp add: agent_failed_def set_failure_reason_def on_agent_def)
  show "ag_failure_reason (ag_state (agent_failed d r a)) = Some r"
    by (simp add: agent_failed_def set_failure_reason_def on_agent_def)
qed

text \<open>A run is the first node, the loop, and the handler of its exceptions.\<close>

lemma run_shape:
  fixes a :: Agent
  obtains b where "bounded_walk cfg a b"
    and "ag_iteration_count (ag_state b) \<le> max (ag_iteration_count (ag_state a)) (ac_max_iterations cfg) + 1"
    and "agent_run en cfg prompt a = (Inr (), b) \<and> agent_terminal (ag_current_state (ag_state b)) \<or>
      (\<exists>e d r. agent_run en cfg prompt a = (Inl e, agent_failed d r b))"
proof -
  let ?m = "then_do (node_receive_input prompt) (\<lambda>_. agent_loop en cfg 0 [])"
  have n: "same_counts a (snd (node_receive_input prompt a))" using nodes_count(1) by (rule evolvesD)
  have n': "bounded_walk cfg a (snd (node_receive_input prompt a))" using counts_bounded [OF nodes_count(1)] by (rule evolvesD)
  obtain out b where ab: "?m a = (out, b)" by (cases "?m a")
  have "bounded_walk cfg a b \<and> ag_iteration_count (ag_state b) \<le> max (ag_iteration_count (ag_state a)) (ac_max_iterations cfg) + 1 \<and>
      (\<forall>u. out = Inr u \<longrightarrow> agent_terminal (ag_current_state (ag_state b)))"
  proof (cases "node_receive_input prompt a")
    case (Pair x c)
    show ?thesis
    proof (cases x)
      case (Inl e)
      then show ?thesis using Pair ab n n' by (auto simp: then_do_def same_counts_def moves_def)
    next
      case (Inr u)
      then have l: "agent_loop en cfg 0 [] c = (out, b)" using Pair ab by (simp add: then_do_def)
      then have "bounded_walk cfg c b" using loop_bounded [of cfg c en 0 "[]"] by simp
      moreover have "ag_iteration_count (ag_state b) \<le> max (ag_iteration_count (ag_state c)) (ac_max_iterations cfg) + 1"
        using loop_iterations [of en cfg 0 "[]" c] l by simp
      moreover have "ag_iteration_count (ag_state c) = ag_iteration_count (ag_state a)"
        using n Pair by (simp add: same_counts_def moves_def)
      moreover have "bounded_walk cfg a c" using n' Pair by simp
      ultimately show ?thesis using l loop_terminal by (auto intro: bounded_walks.follows)
    qed
  qed
  moreover have "agent_run en cfg prompt a = (Inr (), b) \<and> agent_terminal (ag_current_state (ag_state b)) \<or>
      (\<exists>e d r. agent_run en cfg prompt a = (Inl e, agent_failed d r b))"
    using calculation ab by (cases out) (auto simp: agent_run_def)
  ultimately show thesis using that by blast
qed

section \<open>Properties\<close>

text \<open>C19: Every run of the agent ends, whatever the model answers, the tools do and the clock says, in at most one
  round more than the configured number (of one that has not run before): it leaves the agent in a
  terminal state, and a run that raises leaves the reason. The loop is a total function, its
  measure the rounds that are left.\<close>

theorem agent_run_ends:
  "\<exists>b. (agent_run en cfg prompt a = (Inr (), b) \<or> (\<exists>e. agent_run en cfg prompt a = (Inl e, b) \<and> ag_failure_reason (ag_state b) \<noteq> None)) \<and>
     agent_terminal (ag_current_state (ag_state b)) \<and>
     ag_iteration_count (ag_state b) \<le> max (ag_iteration_count (ag_state a)) (ac_max_iterations cfg) + 1"
proof (rule run_shape [of cfg a en prompt])
  fix b
  assume le: "ag_iteration_count (ag_state b) \<le> max (ag_iteration_count (ag_state a)) (ac_max_iterations cfg) + 1"
    and out: "agent_run en cfg prompt a = (Inr (), b) \<and> agent_terminal (ag_current_state (ag_state b)) \<or>
      (\<exists>e d r. agent_run en cfg prompt a = (Inl e, agent_failed d r b))"
  have "ag_iteration_count (ag_state (agent_failed d r b)) = ag_iteration_count (ag_state b)" for d r
    using failed_leaves(1) [of b d r] by (simp add: same_counts_def moves_def)
  with le out show ?thesis using failed_leaves(2,3) by fastforce
qed


end
