(* ===== verification/Agent_Step_Up.thy ===== *)
theory Agent_Step_Up
  imports Agent_Graph
begin

text \<open>
  The agent's step-up workflow, \<open>src/agent/stepup\<close>: challenges, the security guard, the manager and the adapter
  that moves the agent. A call holds the manager's lock and reads the clock once; the drawn
  identifier is an argument. The audit logger only logs.

  \<open>agent_challenges\<close> interprets \<open>single_use\<close>: a challenge is resolved at most once.
\<close>

datatype StepUpStatus = PENDING | APPROVED | REJECTED | EXPIRED

fun agent_status_value :: "StepUpStatus \<Rightarrow> string" where
  "agent_status_value PENDING = ''PENDING''"
| "agent_status_value APPROVED = ''APPROVED''"
| "agent_status_value REJECTED = ''REJECTED''"
| "agent_status_value EXPIRED = ''EXPIRED''"

datatype HumanDecisionChoice = APPROVE | REJECT

datatype StepUpErrorCode =
    STEP_UP_CHALLENGE_EXPIRED | STEP_UP_BINDING_MISMATCH | STEP_UP_UNAUTHORIZED_APPROVER | STEP_UP_REJECTED_BY_HUMAN
  | STEP_UP_ALREADY_RESOLVED | INVALID_STEP_UP_DECISION | AI_SELF_APPROVAL_BLOCKED | STEP_UP_NOT_FOUND

fun step_up_code_value :: "StepUpErrorCode \<Rightarrow> string" where
  "step_up_code_value STEP_UP_CHALLENGE_EXPIRED = ''STEP_UP_CHALLENGE_EXPIRED''"
| "step_up_code_value STEP_UP_BINDING_MISMATCH = ''STEP_UP_BINDING_MISMATCH''"
| "step_up_code_value STEP_UP_UNAUTHORIZED_APPROVER = ''STEP_UP_UNAUTHORIZED_APPROVER''"
| "step_up_code_value STEP_UP_REJECTED_BY_HUMAN = ''STEP_UP_REJECTED_BY_HUMAN''"
| "step_up_code_value STEP_UP_ALREADY_RESOLVED = ''STEP_UP_ALREADY_RESOLVED''"
| "step_up_code_value INVALID_STEP_UP_DECISION = ''INVALID_STEP_UP_DECISION''"
| "step_up_code_value AI_SELF_APPROVAL_BLOCKED = ''AI_SELF_APPROVAL_BLOCKED''"
| "step_up_code_value STEP_UP_NOT_FOUND = ''STEP_UP_NOT_FOUND''"

definition workflow_error :: "StepUpErrorCode \<Rightarrow> msg \<Rightarrow> py_exc" where
  "workflow_error code m = Raise (SourceError ''StepUpWorkflowError'' (step_up_code_value code)) m"

record AgentStepUpChallenge =
  asc_challenge_id :: string
  asc_session_id :: string
  asc_buyer_id :: string
  asc_merchant_id :: string
  asc_mandate_id :: string
  asc_cart_hash :: string
  asc_total_paise :: int
  asc_reason :: string
  asc_expires_at :: datetime
  asc_status :: StepUpStatus
  asc_created_at :: datetime

definition agent_challenge_expired :: "AgentStepUpChallenge \<Rightarrow> datetime \<Rightarrow> bool" where
  "agent_challenge_expired c now \<longleftrightarrow> now > asc_expires_at c"

record AgentStepUpDecision =
  asd_challenge_id :: string
  asd_approver_id :: string
  asd_decision :: HumanDecisionChoice

section \<open>The security guard\<close>

definition ai_prefixes :: "string list" where
  "ai_prefixes = [''agent:'', ''ai:'', ''bot:'', ''llm:'', ''model:'', ''agent_'', ''assistant'']"

definition verify_approver_identity :: "string \<Rightarrow> string \<Rightarrow> unit res" where
  "verify_approver_identity approver agent =
     (let n = norm_hash approver in
      if blank approver then
        Inl (workflow_error STEP_UP_UNAUTHORIZED_APPROVER (Msg ''Approver identity cannot be empty.'' []))
      else if agent \<noteq> [] \<and> n = norm_hash agent then
        Inl (workflow_error AI_SELF_APPROVAL_BLOCKED (Msg ''AI Agent {} cannot approve its own step-up challenge.'' [PStr agent]))
      else if list_ex (\<lambda>p. begins p n \<or> n = ''ai_agent'' \<or> n = ''agent_assistant_01'') ai_prefixes then
        Inl (workflow_error AI_SELF_APPROVAL_BLOCKED
          (Msg ''Approver identity {} indicates an automated AI identity.'' [PStr approver]))
      else Inr ())"

definition verify_challenge_binding ::
  "AgentStepUpChallenge \<Rightarrow> string \<Rightarrow> string \<Rightarrow> string \<Rightarrow> string \<Rightarrow> int \<Rightarrow> unit res" where
  "verify_challenge_binding c session buyer merchant cart paise =
     (if asc_session_id c \<noteq> session then
        Inl (workflow_error STEP_UP_BINDING_MISMATCH (Msg ''Challenge session mismatch: expected {}, got {}.''
          [PStr (asc_session_id c), PStr session]))
      else if asc_buyer_id c \<noteq> buyer then
        Inl (workflow_error STEP_UP_BINDING_MISMATCH (Msg ''Challenge buyer mismatch: expected {}, got {}.''
          [PStr (asc_buyer_id c), PStr buyer]))
      else if asc_merchant_id c \<noteq> merchant then
        Inl (workflow_error STEP_UP_BINDING_MISMATCH (Msg ''Challenge merchant mismatch: expected {}, got {}.''
          [PStr (asc_merchant_id c), PStr merchant]))
      else if asc_cart_hash c \<noteq> cart then
        Inl (workflow_error STEP_UP_BINDING_MISMATCH
          (Msg ''Cart hash mismatch (post-approval cart tampering detected): expected {}, got {}.''
            [PStr (asc_cart_hash c), PStr cart]))
      else if asc_total_paise c \<noteq> paise then
        Inl (workflow_error STEP_UP_BINDING_MISMATCH
          (Msg ''Price mismatch (post-approval price tampering detected): expected {} paise, got {} paise.''
            [PInt (asc_total_paise c), PInt paise]))
      else Inr ())"

definition verify_challenge_active :: "AgentStepUpChallenge \<Rightarrow> datetime \<Rightarrow> unit res" where
  "verify_challenge_active c now =
     (if asc_status c = EXPIRED \<or> agent_challenge_expired c now then
        Inl (workflow_error STEP_UP_CHALLENGE_EXPIRED (Msg ''Challenge {} has expired.'' [PStr (asc_challenge_id c)]))
      else if asc_status c \<noteq> PENDING then
        Inl (workflow_error STEP_UP_ALREADY_RESOLVED (Msg ''Challenge {} is already in state {}.''
          [PStr (asc_challenge_id c), PStr (agent_status_value (asc_status c))]))
      else Inr ())"

definition validate_human_confirmation :: "string \<Rightarrow> string \<Rightarrow> string \<Rightarrow> bool \<times> string" where
  \<comment> \<open>the validity and the reason; neither the challenge nor the confirmation code is looked at\<close>
  "validate_human_confirmation cid actor code =
     (case verify_approver_identity actor [] of
        Inr _ \<Rightarrow> (True, ''APPROVED'')
      | Inl (Raise cls m) \<Rightarrow>
          (False, if cls = SourceError ''StepUpWorkflowError'' (step_up_code_value AI_SELF_APPROVAL_BLOCKED)
             then ''AI_SELF_APPROVAL_PROHIBITED''
             else case cls of SourceError _ c \<Rightarrow> c | _ \<Rightarrow> []))"

section \<open>The manager\<close>

record StepUpManager =
  asm_challenges :: "string \<rightharpoonup> AgentStepUpChallenge"
  asm_session_index :: "string \<rightharpoonup> string"

definition step_up_manager_init :: StepUpManager where
  "step_up_manager_init = \<lparr>asm_challenges = Map.empty, asm_session_index = Map.empty\<rparr>"

definition create_agent_challenge ::
  "StepUpManager \<Rightarrow> string \<Rightarrow> string \<Rightarrow> string \<Rightarrow> string \<Rightarrow> string \<Rightarrow> int \<Rightarrow> string \<Rightarrow> int \<Rightarrow> string \<Rightarrow> datetime \<Rightarrow>
   AgentStepUpChallenge \<times> StepUpManager" where
  \<comment> \<open>\<open>uid\<close> is the fresh suffix, \<open>ttl\<close> in microseconds\<close>
  "create_agent_challenge m session buyer merchant mandate cart paise reason ttl uid now =
     (let cid = ''stepup_'' @ uid;
          c = \<lparr>asc_challenge_id = cid, asc_session_id = session, asc_buyer_id = buyer, asc_merchant_id = merchant,
            asc_mandate_id = mandate, asc_cart_hash = cart, asc_total_paise = paise, asc_reason = reason,
            asc_expires_at = now + ttl, asc_status = PENDING, asc_created_at = now\<rparr>
      in (c, \<lparr>asm_challenges = (asm_challenges m)(cid \<mapsto> c), asm_session_index = (asm_session_index m)(session \<mapsto> cid)\<rparr>))"

definition get_agent_challenge :: "StepUpManager \<Rightarrow> string \<Rightarrow> datetime \<Rightarrow> AgentStepUpChallenge option \<times> StepUpManager" where
  "get_agent_challenge m cid now =
     (case asm_challenges m cid of
        None \<Rightarrow> (None, m)
      | Some c \<Rightarrow>
          if asc_status c = PENDING \<and> agent_challenge_expired c now then
            (Some (c\<lparr>asc_status := EXPIRED\<rparr>), m\<lparr>asm_challenges := (asm_challenges m)(cid \<mapsto> c\<lparr>asc_status := EXPIRED\<rparr>)\<rparr>)
          else (Some c, m))"

definition get_active_challenge_for_session ::
  "StepUpManager \<Rightarrow> string \<Rightarrow> datetime \<Rightarrow> AgentStepUpChallenge option \<times> StepUpManager" where
  "get_active_challenge_for_session m session now =
     (case asm_session_index m session of
        None \<Rightarrow> (None, m)
      | Some cid \<Rightarrow> if cid = [] then (None, m) else get_agent_challenge m cid now)"

fun decided_status :: "HumanDecisionChoice \<Rightarrow> StepUpStatus" where
  "decided_status APPROVE = APPROVED"
| "decided_status REJECT = REJECTED"

definition resolve_decision ::
  "StepUpManager \<Rightarrow> AgentStepUpDecision \<Rightarrow> string \<Rightarrow> string \<Rightarrow> string \<Rightarrow> string \<Rightarrow> int \<Rightarrow> string \<Rightarrow> datetime \<Rightarrow>
   AgentStepUpChallenge res \<times> StepUpManager" where
  "resolve_decision m0 d session buyer merchant cart paise agent now =
     (case get_agent_challenge m0 (asd_challenge_id d) now of
        (None, m) \<Rightarrow> (Inl (workflow_error STEP_UP_NOT_FOUND (Msg ''Step-up challenge {} not found.'' [PStr (asd_challenge_id d)])), m)
      | (Some c, m) \<Rightarrow>
          (case bind_res (verify_approver_identity (asd_approver_id d) agent) (\<lambda>_.
                bind_res (verify_challenge_binding c session buyer merchant cart paise) (\<lambda>_. verify_challenge_active c now)) of
             Inl e \<Rightarrow> (Inl e, m)
           | Inr _ \<Rightarrow>
               let r = c\<lparr>asc_status := decided_status (asd_decision d)\<rparr> in
               (Inr r, m\<lparr>asm_challenges := (asm_challenges m)(asc_challenge_id c \<mapsto> r)\<rparr>)))"

section \<open>The adapter\<close>

record StepUpFlow =
  sf_agent :: Agent
  sf_manager :: StepUpManager

definition on_flow_agent :: "(Agent, 'a) prog \<Rightarrow> (StepUpFlow, 'a) prog" where
  "on_flow_agent = zoom sf_agent (\<lambda>a s. s\<lparr>sf_agent := a\<rparr>)"

definition on_flow_manager :: "(StepUpManager, 'a) prog \<Rightarrow> (StepUpFlow, 'a) prog" where
  "on_flow_manager = zoom sf_manager (\<lambda>m s. s\<lparr>sf_manager := m\<rparr>)"

definition set_error :: "(Agent, unit) prog" where
  \<comment> \<open>\<open>AgentState\<close> has no method \<open>set_error\<close>\<close>
  "set_error = raise_exc (attribute_error ''set_error'')"

definition process_step_up_flow ::
  "AgentStepUpDecision option \<Rightarrow> string \<Rightarrow> int \<Rightarrow> string \<Rightarrow> datetime \<Rightarrow> (StepUpFlow, unit) prog" where
  "process_step_up_flow decision cart paise uid now =
     then_do (read_st (\<lambda>f. ag_state (sf_agent f))) (\<lambda>s.
     then_do (on_flow_manager (\<lambda>m. case get_active_challenge_for_session m (ag_session_id s) now of (c, m') \<Rightarrow> (Inr c, m'))) (\<lambda>active.
     case decision of
       None \<Rightarrow>
         (case active of
            None \<Rightarrow>
              then_do (on_flow_manager (\<lambda>m. case create_agent_challenge m (ag_session_id s) (ag_buyer_id s) (ag_merchant_id s)
                  (ag_mandate_id s) cart paise ''Purchase price exceeds autonomous mandate cap.'' (seconds 300) uid now of
                  (c, m') \<Rightarrow> (Inr (), m'))) (\<lambda>_.
              on_flow_agent (transition_to WAITING_FOR_GATEWAY None))
          | Some c \<Rightarrow>
              if agent_challenge_expired c now then
                then_do (on_flow_agent set_error) (\<lambda>_. on_flow_agent (transition_to TIMED_OUT None))
              else on_flow_agent (transition_to WAITING_FOR_GATEWAY None))
     | Some d \<Rightarrow>
         then_do (on_flow_manager (\<lambda>m. resolve_decision m d (ag_session_id s) (ag_buyer_id s) (ag_merchant_id s) cart paise (ag_agent_id s) now)) (\<lambda>c.
         if asc_status c = APPROVED then on_flow_agent (transition_to PROPOSAL_READY None)
         else then_do (on_flow_agent set_error) (\<lambda>_. on_flow_agent (transition_to FAILED None)))))"

section \<open>When a decision resolves a challenge\<close>

definition human_approver :: "string \<Rightarrow> string \<Rightarrow> bool" where
  "human_approver approver agent \<longleftrightarrow> strip approver \<noteq> [] \<and> (agent \<noteq> [] \<longrightarrow> lower (strip approver) \<noteq> lower (strip agent)) \<and>
     (\<forall>p \<in> set ai_prefixes. \<not> (\<exists>rest. lower (strip approver) = p @ rest)) \<and> lower (strip approver) \<noteq> ''ai_agent''"

lemma approver_exact: "is_ok (verify_approver_identity approver agent) \<longleftrightarrow> human_approver approver agent"
proof -
  have "lower (strip approver) = ''agent_assistant_01'' \<Longrightarrow> begins ''agent_'' (lower (strip approver))"
    by (simp add: begins_def)
  then show ?thesis
    by (auto simp: verify_approver_identity_def human_approver_def Let_def norm_hash_def blank_def ai_prefixes_def begins_iff)
qed

lemma binding_exact: "is_ok (verify_challenge_binding c session buyer merchant cart paise) \<longleftrightarrow>
   asc_session_id c = session \<and> asc_buyer_id c = buyer \<and> asc_merchant_id c = merchant \<and> asc_cart_hash c = cart \<and> asc_total_paise c = paise"
  by (simp add: verify_challenge_binding_def)

lemma active_exact: "is_ok (verify_challenge_active c now) \<longleftrightarrow> asc_status c = PENDING \<and> now \<le> asc_expires_at c"
  by (auto simp: verify_challenge_active_def agent_challenge_expired_def)

lemma resolve_exact:
  "is_ok (fst (resolve_decision m d session buyer merchant cart paise agent now)) \<longleftrightarrow>
     (\<exists>c. asm_challenges m (asd_challenge_id d) = Some c \<and> asc_status c = PENDING \<and> now \<le> asc_expires_at c \<and>
        human_approver (asd_approver_id d) agent \<and> asc_session_id c = session \<and> asc_buyer_id c = buyer \<and>
        asc_merchant_id c = merchant \<and> asc_cart_hash c = cart \<and> asc_total_paise c = paise)"
proof (cases "asm_challenges m (asd_challenge_id d)")
  case (Some c)
  have b: "is_ok (bind_res r (\<lambda>_. q)) \<longleftrightarrow> is_ok r \<and> is_ok q" for r q :: "unit res"
    by (cases r) simp_all
  let ?c = "the (fst (get_agent_challenge m (asd_challenge_id d) now))"
  have "is_ok (fst (resolve_decision m d session buyer merchant cart paise agent now)) \<longleftrightarrow>
      is_ok (bind_res (verify_approver_identity (asd_approver_id d) agent) (\<lambda>_.
        bind_res (verify_challenge_binding ?c session buyer merchant cart paise) (\<lambda>_. verify_challenge_active ?c now)))"
    using Some by (auto simp: resolve_decision_def get_agent_challenge_def Let_def split: sum.split)
  then show ?thesis
    using Some by (auto simp: b approver_exact binding_exact active_exact get_agent_challenge_def agent_challenge_expired_def)
qed (simp add: resolve_decision_def get_agent_challenge_def)

section \<open>Runs of the manager\<close>

datatype agent_step_up_op =
    ACreate string string string string string int string int string datetime
  | AGet string datetime
  | AResolve AgentStepUpDecision string string string string int string datetime

datatype agent_step_up_out =
    OChallenge AgentStepUpChallenge | OFound "AgentStepUpChallenge option" | OResolved "AgentStepUpChallenge res"

fun agent_step_up_step :: "StepUpManager \<Rightarrow> agent_step_up_op \<Rightarrow> agent_step_up_out \<times> StepUpManager" where
  "agent_step_up_step m (ACreate session buyer merchant mandate cart paise reason ttl uid now) =
     map_prod OChallenge id (create_agent_challenge m session buyer merchant mandate cart paise reason ttl uid now)"
| "agent_step_up_step m (AGet cid now) = map_prod OFound id (get_agent_challenge m cid now)"
| "agent_step_up_step m (AResolve d session buyer merchant cart paise agent now) =
     map_prod OResolved id (resolve_decision m d session buyer merchant cart paise agent now)"

fun agent_step_up_fresh :: "StepUpManager \<Rightarrow> agent_step_up_op \<Rightarrow> bool" where
  \<comment> \<open>the drawn identifier is not in use\<close>
  "agent_step_up_fresh m (ACreate _ _ _ _ _ _ _ _ uid _) = (asm_challenges m (''stepup_'' @ uid) = None)"
| "agent_step_up_fresh m _ = True"

fun resolved_ok :: "agent_step_up_out \<Rightarrow> bool" where
  "resolved_ok (OResolved r) = is_ok r"
| "resolved_ok _ = False"

fun resolved_key :: "agent_step_up_op \<Rightarrow> string option" where
  "resolved_key (AResolve d _ _ _ _ _ _ _) = Some (asd_challenge_id d)"
| "resolved_key _ = None"

definition challenge_closed :: "StepUpManager \<Rightarrow> string \<Rightarrow> bool" where
  "challenge_closed m cid \<longleftrightarrow> (\<exists>c. asm_challenges m cid = Some c \<and> asc_status c \<noteq> PENDING)"

definition keyed_challenges :: "StepUpManager \<Rightarrow> bool" where
  "keyed_challenges m \<longleftrightarrow> (\<forall>cid c. asm_challenges m cid = Some c \<longrightarrow> asc_challenge_id c = cid)"

lemma get_agent_challenge_state:
  "asm_challenges (snd (get_agent_challenge m cid now)) =
     (case asm_challenges m cid of
        Some c \<Rightarrow> if asc_status c = PENDING \<and> agent_challenge_expired c now
          then (asm_challenges m)(cid \<mapsto> c\<lparr>asc_status := EXPIRED\<rparr>) else asm_challenges m
      | None \<Rightarrow> asm_challenges m)"
  by (simp add: get_agent_challenge_def split: option.split)

lemma resolve_state:
  assumes "keyed_challenges m"
  shows "asm_challenges (snd (resolve_decision m d session buyer merchant cart paise agent now)) =
    (if is_ok (fst (resolve_decision m d session buyer merchant cart paise agent now))
     then (asm_challenges m)(asd_challenge_id d \<mapsto>
       (the (asm_challenges m (asd_challenge_id d)))\<lparr>asc_status := decided_status (asd_decision d)\<rparr>)
     else asm_challenges (snd (get_agent_challenge m (asd_challenge_id d) now)))"
proof (cases "is_ok (fst (resolve_decision m d session buyer merchant cart paise agent now))")
  case True
  then obtain c where c: "asm_challenges m (asd_challenge_id d) = Some c" "asc_status c = PENDING" "now \<le> asc_expires_at c"
    by (auto simp: resolve_exact)
  then have g: "get_agent_challenge m (asd_challenge_id d) now = (Some c, m)" by (simp add: get_agent_challenge_def agent_challenge_expired_def)
  have "asc_challenge_id c = asd_challenge_id d" using assms c by (simp add: keyed_challenges_def)
  then show ?thesis using True c by (auto simp: resolve_decision_def g Let_def split: sum.splits)
next
  case False
  then show ?thesis by (auto simp: resolve_decision_def Let_def split: prod.splits option.splits sum.splits)
qed

interpretation agent_challenges: single_use agent_step_up_step agent_step_up_fresh keyed_challenges resolved_ok resolved_key
  challenge_closed
proof
  fix m x
  assume inv: "keyed_challenges m" and adm: "agent_step_up_fresh m x"
  show "keyed_challenges (snd (agent_step_up_step m x))"
    using inv by (cases x) (auto simp: keyed_challenges_def create_agent_challenge_def Let_def get_agent_challenge_state
        resolve_state split: option.splits if_splits dest: resolve_exact [THEN iffD1])
next
  fix m x k
  assume inv: "keyed_challenges m" and key: "resolved_key x = Some k" and ok: "resolved_ok (fst (agent_step_up_step m x))"
  then obtain d session buyer merchant cart paise agent now where x: "x = AResolve d session buyer merchant cart paise agent now"
    by (cases x) auto
  then have ok': "is_ok (fst (resolve_decision m d session buyer merchant cart paise agent now))" and k: "k = asd_challenge_id d"
    using ok key by auto
  then obtain c where c: "asm_challenges m k = Some c" "asc_status c = PENDING" by (auto simp: resolve_exact)
  then show "\<not> challenge_closed m k" by (simp add: challenge_closed_def)
  show "challenge_closed (snd (agent_step_up_step m x)) k"
    using ok' k by (cases "asd_decision d") (simp_all add: x resolve_state [OF inv] challenge_closed_def)
next
  fix m x k
  assume inv: "keyed_challenges m" and adm: "agent_step_up_fresh m x" and closed: "challenge_closed m k"
  show "challenge_closed (snd (agent_step_up_step m x)) k"
  proof (cases x)
    case (AResolve d session buyer merchant cart paise agent now)
    then show ?thesis
      using closed inv by (cases "asd_decision d") (auto simp: challenge_closed_def resolve_state get_agent_challenge_state split: option.splits)
  qed (use closed adm in \<open>auto simp: challenge_closed_def create_agent_challenge_def Let_def get_agent_challenge_state split: option.splits\<close>)
qed

section \<open>The flow of a waiting agent\<close>

lemma waiting_moves:
  assumes "ag_current_state (ag_state a) = WAITING_FOR_GATEWAY" and "st \<in> {WAITING_FOR_GATEWAY, PROPOSAL_READY}"
  shows "\<exists>m. transition_to st d a = (Inl (agent_error ''AgentStateTransitionError'' m), a)"
  using transition_cases [of st a d] assms by auto

lemma on_flow_agent_run: "on_flow_agent p f = (fst (p (sf_agent f)), f\<lparr>sf_agent := snd (p (sf_agent f))\<rparr>)"
  by (simp add: on_flow_agent_def zoom_def split: prod.split)

lemma on_flow_manager_run: "on_flow_manager p f = (fst (p (sf_manager f)), f\<lparr>sf_manager := snd (p (sf_manager f))\<rparr>)"
  by (simp add: on_flow_manager_def zoom_def split: prod.split)

lemma waiting_agent_raises:
  assumes "ag_current_state (ag_state (sf_agent f)) = WAITING_FOR_GATEWAY" and "st \<in> {WAITING_FOR_GATEWAY, PROPOSAL_READY}"
  shows "\<not> is_ok (fst (on_flow_agent (transition_to st d) f)) \<and> snd (on_flow_agent (transition_to st d) f) = f"
proof -
  obtain m where "transition_to st d (sf_agent f) = (Inl (agent_error ''AgentStateTransitionError'' m), sf_agent f)"
    using waiting_moves [OF assms] by blast
  then show ?thesis by (simp add: on_flow_agent_run)
qed

definition active_of :: "StepUpFlow \<Rightarrow> datetime \<Rightarrow> AgentStepUpChallenge option \<times> StepUpManager" where
  "active_of f now = get_active_challenge_for_session (sf_manager f) (ag_session_id (ag_state (sf_agent f))) now"

lemma active_keeps_resolvable:
  assumes "asm_challenges (sf_manager f) cid = Some c" and "now \<le> asc_expires_at c"
  shows "asm_challenges (snd (active_of f now)) cid = Some c"
  using assms by (auto simp: active_of_def get_active_challenge_for_session_def get_agent_challenge_state agent_challenge_expired_def
      split: option.split)

section \<open>Properties\<close>

text \<open>A step-up challenge of the agent is resolved at most once, whatever is created, read and decided before and
  after, and it takes a human: a decision resolves exactly a pending, unexpired challenge that was made
  for the same session, buyer, merchant, cart and total, and its approver is named, is not the agent and does not
  carry a name that starts like that of an automated identity.\<close>

theorem agent_challenge_resolved_once:
  assumes "keyed_challenges m" and "run_adm agent_step_up_step agent_step_up_fresh m ops"
  shows "accepted_count resolved_ok (\<lambda>x. resolved_key x = Some cid) ops (fst (run_ops agent_step_up_step m ops)) \<le> 1 \<and>
    (is_ok (fst (resolve_decision m d session buyer merchant cart paise agent now)) \<longleftrightarrow>
     (\<exists>c. asm_challenges m (asd_challenge_id d) = Some c \<and> asc_status c = PENDING \<and> now \<le> asc_expires_at c \<and>
        human_approver (asd_approver_id d) agent \<and> asc_session_id c = session \<and> asc_buyer_id c = buyer \<and>
        asc_merchant_id c = merchant \<and> asc_cart_hash c = cart \<and> asc_total_paise c = paise))"
  using agent_challenges.at_most_once [OF assms] resolve_exact by blast

text \<open>An approved step-up cannot be used: an agent that waits at the gateway for its challenge, as the creation
  of the challenge leaves it, raises an illegal transition when a human approves, keeps waiting, and the
  challenge is closed, so the same decision cannot be given again.\<close>

theorem approved_flow_stuck:
  assumes "ag_current_state (ag_state (sf_agent f)) = WAITING_FOR_GATEWAY" and "keyed_challenges (sf_manager f)"
    and "asd_decision d = APPROVE"
    and "is_ok (fst (resolve_decision (sf_manager f) d (ag_session_id (ag_state (sf_agent f))) (ag_buyer_id (ag_state (sf_agent f)))
      (ag_merchant_id (ag_state (sf_agent f))) cart paise (ag_agent_id (ag_state (sf_agent f))) now))"
  shows "\<not> is_ok (fst (process_step_up_flow (Some d) cart paise uid now f)) \<and>
    sf_agent (snd (process_step_up_flow (Some d) cart paise uid now f)) = sf_agent f \<and>
    challenge_closed (sf_manager (snd (process_step_up_flow (Some d) cart paise uid now f))) (asd_challenge_id d)"
proof -
  let ?s = "ag_state (sf_agent f)"
  let ?m = "snd (active_of f now)"
  obtain c where c: "asm_challenges (sf_manager f) (asd_challenge_id d) = Some c" "now \<le> asc_expires_at c" "asc_status c = PENDING"
    using assms(4) by (auto simp: resolve_exact)
  have m: "asm_challenges ?m (asd_challenge_id d) = Some c" by (rule active_keeps_resolvable [OF c(1,2)])
  let ?r = "resolve_decision ?m d (ag_session_id ?s) (ag_buyer_id ?s) (ag_merchant_id ?s) cart paise (ag_agent_id ?s) now"
  have ok: "is_ok (fst ?r)" using assms(4) m c by (auto simp: resolve_exact)
  have g: "get_agent_challenge ?m (asd_challenge_id d) now = (Some c, ?m)"
    using m c by (simp add: get_agent_challenge_def agent_challenge_expired_def)
  obtain u where u: "fst ?r = Inr u" using ok by (cases "fst ?r") auto
  have st: "asc_status u = APPROVED" using u assms(3) g by (auto simp: resolve_decision_def Let_def split: sum.splits)
  have id: "asc_challenge_id c = asd_challenge_id d" using assms(2) c by (simp add: keyed_challenges_def)
  have closed: "challenge_closed (snd ?r) (asd_challenge_id d)"
    using ok g assms(3) id by (auto simp: resolve_decision_def Let_def challenge_closed_def split: sum.splits)
  let ?f = "f\<lparr>sf_manager := snd ?r\<rparr>"
  have "process_step_up_flow (Some d) cart paise uid now f = on_flow_agent (transition_to PROPOSAL_READY None) ?f"
    using u st by (cases "get_active_challenge_for_session (sf_manager f) (ag_session_id ?s) now")
      (simp add: process_step_up_flow_def then_do_def on_flow_manager_run active_of_def)
  moreover have "\<not> is_ok (fst (on_flow_agent (transition_to PROPOSAL_READY None) ?f)) \<and>
      snd (on_flow_agent (transition_to PROPOSAL_READY None) ?f) = ?f"
    by (rule waiting_agent_raises) (simp_all add: assms(1))
  ultimately show ?thesis using closed by simp
qed

section \<open>Witnesses\<close>

definition waiting_agent :: Agent where
  "waiting_agent = \<lparr>ag_state = agent_state_init ''shopper'' ''s'' ''b'' ''m'' ''md'' WAITING_FOR_GATEWAY, ag_registry = tool_registry_init\<rparr>"

definition pending_manager :: StepUpManager where
  "pending_manager = snd (create_agent_challenge step_up_manager_init ''s'' ''b'' ''m'' ''md'' ''h'' 500 ''r'' (seconds 300) ''1'' 0)"

definition alice_approves :: AgentStepUpDecision where
  "alice_approves = \<lparr>asd_challenge_id = ''stepup_1'', asd_approver_id = ''zoe'', asd_decision = APPROVE\<rparr>"

lemma zoe_is_human: "human_approver ''zoe'' ''shopper''"
  by (simp add: human_approver_def ai_prefixes_def strip_def lstrip_def rstrip_def is_space_def lower_def lower_char_def)

lemma waiting_challenge_keyed: "keyed_challenges pending_manager"
  by (simp add: keyed_challenges_def pending_manager_def create_agent_challenge_def step_up_manager_init_def Let_def)

theorem agent_challenge_resolved_once_witness:
  "accepted_count resolved_ok (\<lambda>x. resolved_key x = Some ''stepup_1'') (replicate 3 (AResolve alice_approves ''s'' ''b'' ''m'' ''h'' 500 ''shopper'' 5))
     (fst (run_ops agent_step_up_step pending_manager (replicate 3 (AResolve alice_approves ''s'' ''b'' ''m'' ''h'' 500 ''shopper'' 5)))) \<le> 1 \<and>
   is_ok (fst (resolve_decision pending_manager alice_approves ''s'' ''b'' ''m'' ''h'' 500 ''shopper'' 5))"
proof -
  let ?ops = "replicate 3 (AResolve alice_approves ''s'' ''b'' ''m'' ''h'' 500 ''shopper'' 5)"
  have a: "run_adm agent_step_up_step agent_step_up_fresh pending_manager ?ops" by (simp add: numeral_3_eq_3)
  note r = agent_challenge_resolved_once [OF waiting_challenge_keyed a, of "''stepup_1''" alice_approves "''s''" "''b''" "''m''" "''h''" 500
      "''shopper''" 5]
  have "\<exists>c. asm_challenges pending_manager (asd_challenge_id alice_approves) = Some c \<and> asc_status c = PENDING \<and> 5 \<le> asc_expires_at c \<and>
      human_approver (asd_approver_id alice_approves) ''shopper'' \<and> asc_session_id c = ''s'' \<and> asc_buyer_id c = ''b'' \<and>
      asc_merchant_id c = ''m'' \<and> asc_cart_hash c = ''h'' \<and> asc_total_paise c = 500"
    by (simp add: pending_manager_def create_agent_challenge_def step_up_manager_init_def seconds_def Let_def alice_approves_def zoe_is_human)
  with r show ?thesis by blast
qed

theorem approved_flow_stuck_witness:
  "\<not> is_ok (fst (process_step_up_flow (Some alice_approves) ''h'' 500 ''2'' 5 \<lparr>sf_agent = waiting_agent, sf_manager = pending_manager\<rparr>)) \<and>
   challenge_closed (sf_manager (snd (process_step_up_flow (Some alice_approves) ''h'' 500 ''2'' 5
     \<lparr>sf_agent = waiting_agent, sf_manager = pending_manager\<rparr>))) ''stepup_1''"
proof -
  let ?f = "\<lparr>sf_agent = waiting_agent, sf_manager = pending_manager\<rparr>"
  have w: "ag_current_state (ag_state (sf_agent ?f)) = WAITING_FOR_GATEWAY" by (simp add: waiting_agent_def agent_state_init_def)
  have k: "keyed_challenges (sf_manager ?f)" using waiting_challenge_keyed by simp
  have d: "asd_decision alice_approves = APPROVE" "asd_challenge_id alice_approves = ''stepup_1''" by (simp_all add: alice_approves_def)
  have r: "is_ok (fst (resolve_decision (sf_manager ?f) alice_approves (ag_session_id (ag_state (sf_agent ?f)))
      (ag_buyer_id (ag_state (sf_agent ?f))) (ag_merchant_id (ag_state (sf_agent ?f))) ''h'' 500 (ag_agent_id (ag_state (sf_agent ?f))) 5))"
    by (simp add: resolve_exact pending_manager_def create_agent_challenge_def step_up_manager_init_def seconds_def Let_def alice_approves_def
        waiting_agent_def agent_state_init_def zoe_is_human)
  from approved_flow_stuck [OF w k d(1) r, of "''2''"] d show ?thesis by simp
qed

end
