(* ===== verification/Intent_Normalizer.thy ===== *)
theory Intent_Normalizer
  imports Cart Mandate Py_Regex Rule_Chain "HOL-Library.AList"
begin

text \<open>
  The normalizer of untrusted proposals, \<open>IntentNormalizer\<close> of \<open>apps/api/domain/intent_normalizer.py\<close>. The input is
  a text, a dictionary, the dump of the boundary model or a value of another type. JSON values here
  hold no floating-point numbers, which the code rejects wherever it reads an amount. \<open>loads\<close> is \<open>json.loads\<close>,
  with \<open>None\<close> for an exception. Messages keep the values, not the floats computed from them.
\<close>

section \<open>Limits and errors\<close>

definition max_payload_bytes :: int where "max_payload_bytes = 64 * 1024"
definition max_raw_prompt_length :: nat where "max_raw_prompt_length = 5000"
definition max_identifier_length :: nat where "max_identifier_length = 255"
definition max_items_per_intent :: nat where "max_items_per_intent = 50"
definition max_item_quantity :: int where "max_item_quantity = 1000"
definition max_single_item_price_paise :: int where "max_single_item_price_paise = 100000000"
definition max_total_amount_paise :: int where "max_total_amount_paise = 500000000"

definition forbidden_authority_keys :: "string set" where
  "forbidden_authority_keys = {''authorized'', ''approved'', ''policy_passed'', ''mandate_valid'', ''budget_approved'',
     ''budget_ok'', ''skip_step_up'', ''skip_policy'', ''override_policy'', ''override_merchant'', ''payment_confirmed'',
     ''execution_allowed'', ''admin'', ''is_trusted'', ''system'', ''role'', ''security_approved''}"

definition structural_error :: "msg \<Rightarrow> py_exc" where
  "structural_error m = Raise (SourceError ''IntentStructuralError'' ''INTENT_STRUCTURAL_INVALID'') m"
definition identity_error :: "msg \<Rightarrow> py_exc" where
  "identity_error m = Raise (SourceError ''IntentIdentityError'' ''INTENT_IDENTITY_INVALID'') m"
definition monetary_error :: "msg \<Rightarrow> py_exc" where
  "monetary_error m = Raise (SourceError ''IntentMonetaryError'' ''INTENT_MONETARY_INVALID'') m"
definition ambiguity_error :: "msg \<Rightarrow> py_exc" where
  "ambiguity_error m = Raise (SourceError ''IntentAmbiguityError'' ''INTENT_AMBIGUOUS'') m"
definition security_violation :: "msg \<Rightarrow> py_exc" where
  "security_violation m = Raise (SourceError ''IntentSecurityViolationError'' ''INTENT_SECURITY_VIOLATION'') m"

definition reject_when :: "bool \<Rightarrow> py_exc \<Rightarrow> unit res" where
  "reject_when b e = (if b then Inl e else Inr ())"

lemma reject_when_Inr [simp]: "reject_when b e = Inr u \<longleftrightarrow> \<not> b"
  by (simp add: reject_when_def)

section \<open>Structure\<close>

datatype raw_input =
    RawText string
  | RawDict "(string \<times> json) list"
  | RawModel "(string \<times> json) list" \<comment> \<open>an \<open>UntrustedProposalPayload\<close>, by its dump\<close>
  | RawOther string

definition utf8_length :: "string \<Rightarrow> int" where
  "utf8_length s = int (length s + length (filter (\<lambda>c. 128 \<le> (of_char c :: nat)) s))"

definition parse_and_validate_structure :: "(string \<Rightarrow> json option) \<Rightarrow> raw_input \<Rightarrow> (string \<times> json) list res" where
  "parse_and_validate_structure loads raw =
     (case raw of
        RawModel kvs \<Rightarrow> Inr kvs
      | RawText s \<Rightarrow>
          if utf8_length s > max_payload_bytes then
            Inl (structural_error (Msg ''Payload size exceeds maximum allowed limit of {} bytes.'' [PInt max_payload_bytes]))
          else (case loads s of
            None \<Rightarrow> Inl (structural_error (Msg ''Malformed JSON payload'' []))
          | Some (JObj kvs) \<Rightarrow> Inr kvs
          | Some _ \<Rightarrow> Inl (structural_error (Msg ''JSON payload must be an object.'' [])))
      | RawDict kvs \<Rightarrow>
          if int (length (json_plain (JObj kvs))) > max_payload_bytes then
            Inl (structural_error (Msg ''Payload size exceeds maximum allowed limit of {} bytes.'' [PInt max_payload_bytes]))
          else Inr kvs
      | RawOther ty \<Rightarrow> Inl (structural_error (Msg ''Unsupported proposal payload type: {}.'' [PStr ty])))"

fun scan_claims :: "(string \<times> json) list \<Rightarrow> string option" and scan_claims_value :: "json \<Rightarrow> string option"
  and scan_claims_list :: "json list \<Rightarrow> string option" where
  \<comment> \<open>the first key that claims authority; a list is scanned for the dictionaries that are its elements\<close>
  "scan_claims [] = None"
| "scan_claims ((k, v) # kvs) =
     (if k = ''metadata'' then scan_claims kvs
      else if norm_hash k \<in> forbidden_authority_keys then Some k
      else case scan_claims_value v of Some k' \<Rightarrow> Some k' | None \<Rightarrow> scan_claims kvs)"
| "scan_claims_value (JObj kvs) = scan_claims kvs"
| "scan_claims_value (JArr xs) = scan_claims_list xs"
| "scan_claims_value _ = None"
| "scan_claims_list [] = None"
| "scan_claims_list (x # xs) =
     (case (case x of JObj kvs \<Rightarrow> scan_claims kvs | _ \<Rightarrow> None) of Some k \<Rightarrow> Some k | None \<Rightarrow> scan_claims_list xs)"

definition check_claims :: "(string \<times> json) list \<Rightarrow> unit res" where
  \<comment> \<open>\<open>_scan_for_authority_injections\<close>; the message names the path too\<close>
  "check_claims kvs = (case scan_claims kvs of
      Some k \<Rightarrow> Inl (security_violation (Msg ''Proposal contains unauthorized authority claim key {}.'' [PStr k]))
    | None \<Rightarrow> Inr ())"

section \<open>Fields\<close>

definition field :: "(string \<times> json) list \<Rightarrow> string \<Rightarrow> json" where
  \<comment> \<open>\<open>d.get(k)\<close>\<close>
  "field kvs k = option_or (map_of kvs k) JNull"

definition field_or :: "(string \<times> json) list \<Rightarrow> string \<Rightarrow> json \<Rightarrow> json" where
  \<comment> \<open>\<open>d.get(k, default)\<close>\<close>
  "field_or kvs k d = option_or (map_of kvs k) d"

definition identifier_char :: "char \<Rightarrow> bool" where
  "identifier_char c \<longleftrightarrow> (CHR ''a'' \<le> c \<and> c \<le> CHR ''z'') \<or> (CHR ''A'' \<le> c \<and> c \<le> CHR ''Z'') \<or> is_digit c \<or> c \<in> set ''_-.:''"

definition identifier_pattern :: rx where
  "identifier_pattern = RRun 1 None identifier_char"

definition validate_identifier :: "string \<Rightarrow> json \<Rightarrow> string res" where
  "validate_identifier name v =
     (case v of
        JStr s \<Rightarrow>
          let t = strip s in
          bind_res (reject_when (t = []) (identity_error (Msg ''Field {} cannot be empty or whitespace.'' [PStr name]))) (\<lambda>_.
          bind_res (reject_when (length t > max_identifier_length)
            (identity_error (Msg ''Field {} length ({}) exceeds maximum allowed limit of {}.''
              [PStr name, PInt (int (length t)), PInt (int max_identifier_length)]))) (\<lambda>_.
          bind_res (reject_when (\<not> rx_full identifier_pattern t)
            (identity_error (Msg ''Field {} contains unsafe characters.'' [PStr name]))) (\<lambda>_. Inr t)))
      | _ \<Rightarrow> Inl (identity_error (Msg ''Field {} must be a non-empty string.'' [PStr name])))"

definition sanitize_prompt :: "json \<Rightarrow> string res" where
  "sanitize_prompt v =
     (case v of
        JStr s \<Rightarrow>
          let t = strip s in
          bind_res (reject_when (t = []) (structural_error (Msg ''Field 'raw_prompt' cannot be empty.'' []))) (\<lambda>_.
          bind_res (reject_when (length t > max_raw_prompt_length)
            (structural_error (Msg ''Field 'raw_prompt' length ({}) exceeds maximum allowed limit of {}.''
              [PInt (int (length t)), PInt (int max_raw_prompt_length)]))) (\<lambda>_. Inr t))
      | _ \<Rightarrow> Inl (structural_error (Msg ''Field 'raw_prompt' must be a non-empty string.'' [])))"

definition validate_currency :: "json \<Rightarrow> Currency res" where
  "validate_currency v =
     (case v of
        JStr s \<Rightarrow>
          if blank s then Inl (monetary_error (Msg ''Currency must be an explicit ISO string (e.g., 'INR').'' []))
          else (case member_of_value currency_value [INR, USD] (upper (strip s)) of
            Some c \<Rightarrow> Inr c
          | None \<Rightarrow> Inl (monetary_error (Msg ''Unsupported currency '{}'. Supported currencies: INR, USD.'' [PStr s])))
      | _ \<Rightarrow> Inl (monetary_error (Msg ''Currency must be an explicit ISO string (e.g., 'INR').'' [])))"

definition validate_region :: "json \<Rightarrow> Region res" where
  "validate_region v =
     (case v of
        JStr s \<Rightarrow>
          if blank s then Inl (structural_error (Msg ''Region must be a non-empty string (e.g., 'IN').'' []))
          else (case member_of_value region_value [IN, US] (upper (strip s)) of
            Some c \<Rightarrow> Inr c
          | None \<Rightarrow> Inl (structural_error (Msg ''Unsupported region '{}'. Supported regions: IN, US.'' [PStr s])))
      | _ \<Rightarrow> Inl (structural_error (Msg ''Region must be a non-empty string (e.g., 'IN').'' [])))"

definition validate_operation :: "json \<Rightarrow> McpOperation res" where
  "validate_operation v =
     (case v of
        JStr s \<Rightarrow>
          if blank s then Inl (structural_error (Msg ''Operation must be a non-empty string.'' []))
          else (case mcp_of (norm_hash s) of
            Some op \<Rightarrow> Inr op
          | None \<Rightarrow> Inl (structural_error (Msg ''Unsupported MCP operation '{}'.'' [PStr s])))
      | _ \<Rightarrow> Inl (structural_error (Msg ''Operation must be a non-empty string.'' [])))"

definition python_digit :: "char \<Rightarrow> bool" where
  \<comment> \<open>\<open>str.isdigit\<close> holds of the superscripts 1, 2 and 3 too, which \<open>int\<close> refuses\<close>
  "python_digit c \<longleftrightarrow> is_digit c \<or> (of_char c :: nat) \<in> {178, 179, 185}"

definition paise_of_digits :: "string \<Rightarrow> int" where
  "paise_of_digits s = foldl (\<lambda>n c. n * 10 + int (of_char c - 48 :: nat)) 0 s"

definition validate_integer_amount :: "string \<Rightarrow> json \<Rightarrow> int res" where
  "validate_integer_amount name v =
     bind_res (case v of
        JStr s \<Rightarrow>
          (let t = strip s in
           if t = [] \<or> \<not> list_all python_digit t then
             Inl (monetary_error (Msg ''Field {} contains non-integer value '{}'.'' [PStr name, PStr s]))
           else if \<not> list_all is_digit t then
             Inl (Raise ValueError (Msg ''invalid literal for int() with base 10: {}'' [PStr t]))
           else Inr (paise_of_digits t))
      | JInt i \<Rightarrow> Inr i
      | _ \<Rightarrow> Inl (monetary_error (Msg ''Field {} must be an integer paise amount.'' [PStr name]))) (\<lambda>i.
     bind_res (reject_when (i < 0) (monetary_error (Msg ''Field {} cannot be negative.'' [PStr name]))) (\<lambda>_. Inr i))"

definition item_text :: "nat \<Rightarrow> string \<Rightarrow> nat \<Rightarrow> json \<Rightarrow> string res" where
  \<comment> \<open>the name or the category of an item, with its limit\<close>
  "item_text index name limit v =
     (case v of
        JStr s \<Rightarrow>
          if blank s then Inl (structural_error (Msg ''Item at index {} missing valid {} string.'' [PInt (int index), PStr name]))
          else if length (strip s) > limit then
            Inl (structural_error (Msg ''Item at index {} {} length ({}) exceeds limit of {}.''
              [PInt (int index), PStr name, PInt (int (length (strip s))), PInt (int limit)]))
          else Inr (strip s)
      | _ \<Rightarrow> Inl (structural_error (Msg ''Item at index {} missing valid {} string.'' [PInt (int index), PStr name])))"

definition validate_item :: "nat \<Rightarrow> string \<Rightarrow> Currency \<Rightarrow> json \<Rightarrow> CartItem res" where
  "validate_item index merchant cur v =
     (case v of
        JObj kvs \<Rightarrow>
          bind_res (check_claims kvs) (\<lambda>_.
          bind_res (validate_identifier ''product_id'' (field kvs ''product_id'')) (\<lambda>pid.
          bind_res (if field kvs ''merchant_id'' = JNull then Inr merchant
             else bind_res (validate_identifier ''merchant_id'' (field kvs ''merchant_id'')) (\<lambda>m.
               if m \<noteq> merchant then
                 Inl (ambiguity_error (Msg ''Item '{}' merchant_id '{}' conflicts with proposal merchant_id '{}'.''
                   [PStr pid, PStr m, PStr merchant]))
               else Inr m)) (\<lambda>mid.
          bind_res (item_text index ''name'' 500 (field kvs ''name'')) (\<lambda>name.
          bind_res (item_text index ''category'' 100 (field kvs ''category'')) (\<lambda>cat.
          bind_res (validate_integer_amount ''quantity'' (field kvs ''quantity'')) (\<lambda>qty.
          bind_res (reject_when (qty \<le> 0) (monetary_error (Msg ''Item '{}' quantity must be >= 1.'' [PStr pid]))) (\<lambda>_.
          bind_res (reject_when (qty > max_item_quantity)
            (monetary_error (Msg ''Item '{}' quantity ({}) exceeds maximum limit of {}.''
              [PStr pid, PInt qty, PInt max_item_quantity]))) (\<lambda>_.
          bind_res (validate_integer_amount ''unit_price_paise'' (field kvs ''unit_price_paise'')) (\<lambda>price.
          bind_res (reject_when (price > max_single_item_price_paise)
            (monetary_error (Msg ''Item '{}' unit price ({} paise) exceeds limit of {} paise.''
              [PStr pid, PInt price, PInt max_single_item_price_paise]))) (\<lambda>_.
          bind_res (if field kvs ''currency'' = JNull then Inr ()
             else bind_res (validate_currency (field kvs ''currency'')) (\<lambda>c.
               if c \<noteq> cur then
                 Inl (ambiguity_error (Msg ''Item '{}' currency '{}' conflicts with proposal currency '{}'.''
                   [PStr pid, PStr (currency_value c), PStr (currency_value cur)]))
               else Inr ())) (\<lambda>_.
          mk_cart_item pid mid name (lower cat) qty price cur)))))))))))
      | _ \<Rightarrow> Inl (structural_error (Msg ''Line item at index {} must be an object.'' [PInt (int index)])))"

fun validate_items :: "nat \<Rightarrow> string \<Rightarrow> Currency \<Rightarrow> json list \<Rightarrow> CartItem list res" where
  "validate_items index merchant cur [] = Inr []"
| "validate_items index merchant cur (x # xs) =
     bind_res (validate_item index merchant cur x) (\<lambda>i.
     bind_res (validate_items (Suc index) merchant cur xs) (\<lambda>is. Inr (i # is)))"

fun sanitize_members :: "(string \<times> json) list \<Rightarrow> (string \<times> json) list \<Rightarrow> (string \<times> json) list"
  and sanitize_value :: "json \<Rightarrow> json option" where
  \<comment> \<open>the second argument is the dictionary that is being built\<close>
  "sanitize_members [] clean = clean"
| "sanitize_members ((k, v) # kvs) clean =
     (if norm_hash k \<in> forbidden_authority_keys then sanitize_members kvs clean
      else case sanitize_value v of
        Some w \<Rightarrow> sanitize_members kvs (AList.update (strip k) w clean)
      | None \<Rightarrow> sanitize_members kvs clean)"
| "sanitize_value (JArr xs) = None"
| "sanitize_value (JObj kvs) = Some (JObj (sanitize_members kvs []))"
| "sanitize_value v = Some v"

definition sanitize_metadata :: "json \<Rightarrow> (string \<times> json) list" where
  "sanitize_metadata v = (case v of JObj kvs \<Rightarrow> sanitize_members kvs [] | _ \<Rightarrow> [])"

section \<open>The pipeline\<close>

record NormalizedCommerceProposal =
  ncp_intent :: CommerceIntent
  ncp_cart :: Cart
  ncp_normalized_at :: datetime

definition check_declared_total :: "json \<Rightarrow> int \<Rightarrow> unit res" where
  "check_declared_total v computed =
     (if v = JNull then Inr ()
      else bind_res (validate_integer_amount ''total_paise'' v) (\<lambda>declared.
        reject_when (declared \<noteq> computed)
          (ambiguity_error (Msg ''Declared total_paise ({}) does not match computed total ({} paise).'' [PInt declared, PInt computed]))))"

definition proposal_items :: "string \<Rightarrow> Currency \<Rightarrow> json \<Rightarrow> CartItem list res" where
  \<comment> \<open>stage 5: the items, validated and sorted\<close>
  "proposal_items merchant cur v =
     (case v of
        JArr xs \<Rightarrow>
          if xs = [] then Inl (structural_error (Msg ''Proposal must contain at least one line item.'' []))
          else if length xs > max_items_per_intent then
            Inl (structural_error (Msg ''Line item count ({}) exceeds maximum limit of {}.''
              [PInt (int (length xs)), PInt (int max_items_per_intent)]))
          else bind_res (validate_items 0 merchant cur xs) (\<lambda>found. Inr (sort_key ci_product_id found))
      | _ \<Rightarrow> Inl (structural_error (Msg ''Proposal must contain at least one line item.'' [])))"

definition target_category :: "CartItem list \<Rightarrow> string" where
  "target_category items = (case items of [i] \<Rightarrow> ci_category i | _ \<Rightarrow> ''multi-category'')"

definition clean_metadata :: "(string \<times> json) list \<Rightarrow> McpOperation \<Rightarrow> string \<Rightarrow> json option" where
  "clean_metadata d op =
     map_of (AList.update ''operation'' (JStr (mcp_value op)) (sanitize_metadata (field_or d ''metadata'' (JObj []))))"

definition normalize_fields ::
  "(string \<Rightarrow> string) \<Rightarrow> (string \<times> json) list \<Rightarrow> string \<Rightarrow> string \<Rightarrow> datetime \<Rightarrow> NormalizedCommerceProposal res" where
  \<comment> \<open>the stages after the structural check; the identifiers of the cart and of the intent are drawn\<close>
  "normalize_fields sha d cart_uid intent_uid now =
     bind_res (check_claims d) (\<lambda>_.
     bind_res (validate_identifier ''buyer_id'' (field d ''buyer_id'')) (\<lambda>buyer.
     bind_res (validate_identifier ''merchant_id'' (field d ''merchant_id'')) (\<lambda>merchant.
     bind_res (validate_identifier ''mandate_id'' (field d ''mandate_id'')) (\<lambda>mandate.
     bind_res (sanitize_prompt (field d ''raw_prompt'')) (\<lambda>prompt.
     bind_res (validate_currency (field_or d ''currency'' (JStr ''INR''))) (\<lambda>cur.
     bind_res (validate_region (field_or d ''region'' (JStr ''IN''))) (\<lambda>region.
     bind_res (validate_operation (field_or d ''operation'' (JStr ''create_order''))) (\<lambda>op.
     bind_res (proposal_items merchant cur (field d ''items'')) (\<lambda>items.
     bind_res (validate_integer_amount ''tax_paise'' (field_or d ''tax_paise'' (JInt 0))) (\<lambda>tax.
     bind_res (validate_integer_amount ''shipping_paise'' (field_or d ''shipping_paise'' (JInt 0))) (\<lambda>ship.
     let computed = items_total items + tax + ship in
     bind_res (reject_when (computed > max_total_amount_paise)
       (monetary_error (Msg ''Computed total amount ({} paise) exceeds maximum allowed limit of {} paise.''
         [PInt computed, PInt max_total_amount_paise]))) (\<lambda>_.
     bind_res (check_declared_total (field d ''total_paise'') computed) (\<lambda>_.
     bind_res (build_cart_with_hash sha None merchant mandate cur items tax ship computed cart_uid now) (\<lambda>cart.
     Inr \<lparr>ncp_intent = \<lparr>int_intent_id = intent_uid, int_buyer_id = buyer, int_raw_prompt = prompt,
            int_target_category = Some (target_category items),
            int_target_merchant_id = Some merchant, int_max_budget_paise = Some computed, int_currency = cur, int_region = region,
            int_metadata = clean_metadata d op, int_created_at = now\<rparr>,
          ncp_cart = cart, ncp_normalized_at = now\<rparr>))))))))))))))"

definition normalize ::
  "(string \<Rightarrow> string) \<Rightarrow> (string \<Rightarrow> json option) \<Rightarrow> raw_input \<Rightarrow> string \<Rightarrow> string \<Rightarrow> datetime \<Rightarrow> NormalizedCommerceProposal res" where
  "normalize sha loads raw cart_uid intent_uid now =
     bind_res (parse_and_validate_structure loads raw) (\<lambda>d. normalize_fields sha d cart_uid intent_uid now)"

section \<open>What passes\<close>

fun claim_scope :: "(string \<times> json) list \<Rightarrow> string set" and claim_scope_value :: "json \<Rightarrow> string set"
  and claim_scope_list :: "json list \<Rightarrow> string set" where
  \<comment> \<open>the keys that are looked at: of the dictionary, of the dictionaries that are its values or the elements of
    its lists, and so on, except under \<open>metadata\<close> and in lists of lists\<close>
  "claim_scope [] = {}"
| "claim_scope ((k, v) # kvs) = (if k = ''metadata'' then {} else insert k (claim_scope_value v)) \<union> claim_scope kvs"
| "claim_scope_value (JObj kvs) = claim_scope kvs"
| "claim_scope_value (JArr xs) = claim_scope_list xs"
| "claim_scope_value _ = {}"
| "claim_scope_list [] = {}"
| "claim_scope_list (x # xs) = (case x of JObj kvs \<Rightarrow> claim_scope kvs | _ \<Rightarrow> {}) \<union> claim_scope_list xs"

lemma scan_claims_None:
  "scan_claims kvs = None \<longleftrightarrow> (\<forall>k \<in> claim_scope kvs. norm_hash k \<notin> forbidden_authority_keys)"
  "scan_claims_value v = None \<longleftrightarrow> (\<forall>k \<in> claim_scope_value v. norm_hash k \<notin> forbidden_authority_keys)"
  "scan_claims_list xs = None \<longleftrightarrow> (\<forall>k \<in> claim_scope_list xs. norm_hash k \<notin> forbidden_authority_keys)"
  by (induction kvs and v and xs rule: scan_claims_scan_claims_value_scan_claims_list.induct)
    (auto split: option.splits json.splits)

definition safe_identifier :: "string \<Rightarrow> bool" where
  "safe_identifier s \<longleftrightarrow> s \<noteq> [] \<and> length s \<le> max_identifier_length \<and> list_all identifier_char s"

lemma identifier_ok: "validate_identifier name v = Inr t \<Longrightarrow> safe_identifier t"
  by (auto simp: validate_identifier_def bind_res_Inr safe_identifier_def rx_full_iff identifier_pattern_def Let_def
      split: json.splits)

lemma amount_ok: "validate_integer_amount name v = Inr i \<Longrightarrow> 0 \<le> i"
  by (auto simp: validate_integer_amount_def bind_res_Inr)

definition item_in_bounds :: "string \<Rightarrow> Currency \<Rightarrow> CartItem \<Rightarrow> bool" where
  "item_in_bounds merchant cur i \<longleftrightarrow> safe_identifier (ci_product_id i) \<and> ci_merchant_id i = merchant \<and> ci_currency i = cur \<and>
     1 \<le> ci_quantity i \<and> ci_quantity i \<le> max_item_quantity \<and> 0 \<le> ci_unit_price_paise i \<and>
     ci_unit_price_paise i \<le> max_single_item_price_paise"

lemma mk_item_fields:
  "mk_cart_item pid mid name cat qty price cur = Inr i \<Longrightarrow>
     ci_product_id i = pid \<and> ci_merchant_id i = mid \<and> ci_currency i = cur \<and> ci_quantity i = qty \<and> ci_unit_price_paise i = price \<and>
     1 \<le> qty \<and> 0 \<le> price"
  by (auto simp: mk_cart_item_def split: if_splits)

lemma item_ok:
  assumes "validate_item n merchant cur v = Inr i"
  shows "item_in_bounds merchant cur i"
proof -
  obtain kvs where v: "v = JObj kvs" using assms by (cases v) (simp_all add: validate_item_def)
  obtain pid mid name cat qty price where p: "validate_identifier ''product_id'' (field kvs ''product_id'') = Inr pid"
    "(if field kvs ''merchant_id'' = JNull then Inr merchant
             else bind_res (validate_identifier ''merchant_id'' (field kvs ''merchant_id'')) (\<lambda>m.
               if m \<noteq> merchant then
                 Inl (ambiguity_error (Msg ''Item '{}' merchant_id '{}' conflicts with proposal merchant_id '{}'.''
                   [PStr pid, PStr m, PStr merchant]))
               else Inr m)) = Inr mid"
    "qty \<le> max_item_quantity" "price \<le> max_single_item_price_paise" "mk_cart_item pid mid name (lower cat) qty price cur = Inr i"
    using assms unfolding v validate_item_def by (auto simp: bind_res_Inr not_less)
  have "mid = merchant" using p(2) by (auto simp: bind_res_Inr split: if_splits)
  then show ?thesis using p mk_item_fields [OF p(5)] identifier_ok [OF p(1)] by (simp add: item_in_bounds_def)
qed

lemma items_ok:
  "validate_items n merchant cur xs = Inr is \<Longrightarrow> length is = length xs \<and> list_all (item_in_bounds merchant cur) is"
  by (induction xs arbitrary: n "is") (auto simp: bind_res_Inr item_ok)

lemma proposal_items_Inr:
  assumes "proposal_items merchant cur v = Inr items"
  obtains xs found where "v = JArr xs" "xs \<noteq> []" "length xs \<le> max_items_per_intent"
    "validate_items 0 merchant cur xs = Inr found" "items = sort_key ci_product_id found"
  using assms by (cases v) (auto simp: proposal_items_def bind_res_Inr split: if_splits)

lemma proposal_items_ok:
  assumes "proposal_items merchant cur v = Inr items"
  shows "1 \<le> length items \<and> length items \<le> max_items_per_intent \<and> list_all (item_in_bounds merchant cur) items \<and>
    sorted (map ci_product_id items)"
  using assms by (elim proposal_items_Inr) (auto dest!: items_ok simp: list_all_iff Suc_le_eq)

lemma prompt_ok: "sanitize_prompt v = Inr t \<Longrightarrow> t \<noteq> [] \<and> length t \<le> max_raw_prompt_length"
  by (cases v) (auto simp: sanitize_prompt_def bind_res_Inr Let_def not_less)

lemma check_claims_Inr: "check_claims d = Inr u \<longleftrightarrow> scan_claims d = None"
  by (simp add: check_claims_def split: option.splits)

lemma built_cart:
  assumes "build_cart_with_hash sha None merchant mandate cur items tax ship amount uid now = Inr c"
  shows "cart_ok c \<and> cart_merchant_id c = merchant \<and> cart_mandate_id c = mandate \<and> cart_currency c = cur \<and> cart_items c = items \<and>
    cart_tax_paise c = tax \<and> cart_shipping_paise c = ship \<and> cart_total_paise c = amount \<and> cart_hash c = sha (cart_text c)"
  using assms by (auto simp: build_cart_with_hash_def Let_def mk_cart_Inr cart_text_def compute_cart_hash_def)

definition proposal_bounded :: "(string \<Rightarrow> string) \<Rightarrow> NormalizedCommerceProposal \<Rightarrow> bool" where
  "proposal_bounded sha n \<longleftrightarrow> (let c = ncp_cart n; i = ncp_intent n in
     cart_ok c \<and> cart_hash c = sha (cart_text c) \<and>
     1 \<le> length (cart_items c) \<and> length (cart_items c) \<le> max_items_per_intent \<and> sorted (map ci_product_id (cart_items c)) \<and>
     list_all (item_in_bounds (cart_merchant_id c) (cart_currency c)) (cart_items c) \<and>
     safe_identifier (cart_merchant_id c) \<and> safe_identifier (cart_mandate_id c) \<and> safe_identifier (int_buyer_id i) \<and>
     0 \<le> cart_total_paise c \<and> cart_total_paise c \<le> max_total_amount_paise \<and>
     int_raw_prompt i \<noteq> [] \<and> length (int_raw_prompt i) \<le> max_raw_prompt_length \<and>
     int_target_merchant_id i = Some (cart_merchant_id c) \<and> int_max_budget_paise i = Some (cart_total_paise c) \<and>
     int_currency i = cart_currency c)"

lemma fields_bounded:
  assumes "normalize_fields sha d cart_uid intent_uid now = Inr n"
  shows "proposal_bounded sha n \<and> scan_claims d = None"
proof -
  obtain buyer merchant mandate prompt cur region op items tax ship cart where p:
    "scan_claims d = None" "safe_identifier buyer" "safe_identifier merchant" "safe_identifier mandate"
    "prompt \<noteq> [] \<and> length prompt \<le> max_raw_prompt_length" "proposal_items merchant cur (field d ''items'') = Inr items"
    "items_total items + tax + ship \<le> max_total_amount_paise"
    "build_cart_with_hash sha None merchant mandate cur items tax ship (items_total items + tax + ship) cart_uid now = Inr cart"
    "n = \<lparr>ncp_intent = \<lparr>int_intent_id = intent_uid, int_buyer_id = buyer, int_raw_prompt = prompt,
            int_target_category = Some (target_category items),
            int_target_merchant_id = Some merchant, int_max_budget_paise = Some (items_total items + tax + ship), int_currency = cur,
            int_region = region, int_metadata = clean_metadata d op, int_created_at = now\<rparr>,
          ncp_cart = cart, ncp_normalized_at = now\<rparr>"
    using assms unfolding normalize_fields_def Let_def bind_res_Inr check_claims_Inr reject_when_Inr not_less Inr_inject
    by (elim exE conjE) (drule identifier_ok prompt_ok; (drule identifier_ok prompt_ok)+; blast)
  then show ?thesis
    using built_cart [OF p(8)] proposal_items_ok [OF p(6)] by (auto simp: proposal_bounded_def Let_def cart_ok_def)
qed

text \<open>C23: whatever text, dictionary or model is given, a proposal that passes holds no key that claims authority
  where the scanner looks, and its result is within the limits: one to fifty items of the proposal's merchant and
  currency, in the order of their products, with quantities of one to a thousand and prices under the limit, a cart
  that is valid and carries the hash of its content, safe identifiers, a total under the limit, and an intent with
  that total as its budget.\<close>

theorem normalized_is_bounded:
  assumes "normalize sha loads raw cart_uid intent_uid now = Inr n"
  shows "proposal_bounded sha n \<and>
    (\<exists>d. parse_and_validate_structure loads raw = Inr d \<and> (\<forall>k \<in> claim_scope d. norm_hash k \<notin> forbidden_authority_keys))"
  using assms by (auto simp: normalize_def bind_res_Inr scan_claims_None dest: fields_bounded)

section \<open>The order of the items\<close>

lemma bind_res_cong_Inr: "(\<And>x. (a = Inr x) = (b = Inr x)) \<Longrightarrow> (bind_res a f = Inr y) = (bind_res b f = Inr y)"
  by (simp add: bind_res_Inr)

lemma item_text_index: "(item_text m name limit v = Inr s) = (item_text n name limit v = Inr s)"
  by (cases v) (auto simp: item_text_def)

lemma validate_item_index: "(validate_item m merchant cur v = Inr i) = (validate_item n merchant cur v = Inr i)"
  by (cases v) (simp_all add: validate_item_def bind_res_Inr item_text_index [of m _ _ _ _ n])

lemma validate_items_Inr:
  "validate_items n merchant cur xs = Inr is \<longleftrightarrow> list_all2 (\<lambda>v i. validate_item 0 merchant cur v = Inr i) xs is"
proof (induction xs arbitrary: n "is")
  case (Cons x xs)
  show ?case
    by (auto simp: bind_res_Inr Cons list_all2_Cons1 validate_item_index [of n _ _ _ _ 0])
qed auto

lemma list_all2_perm:
  assumes "list_all2 (\<lambda>v i. f v = Inr i) xs is" "mset ys = mset xs"
  shows "\<exists>js. list_all2 (\<lambda>v i. f v = Inr i) ys js \<and> mset js = mset is"
proof -
  have f: "is = map (\<lambda>v. projr (f v)) xs" and ok: "\<forall>v \<in> set xs. f v = Inr (projr (f v))"
    using assms(1) by (auto simp: list_all2_conv_all_nth in_set_conv_nth intro!: nth_equalityI)
  have "list_all2 (\<lambda>v i. f v = Inr i) ys (map (\<lambda>v. projr (f v)) ys)"
    using ok mset_eq_setD [OF assms(2)] by (simp add: list_all2_map2 list_all2_same)
  moreover have "mset (map (\<lambda>v. projr (f v)) ys) = mset is" using f assms(2) by simp
  ultimately show ?thesis by blast
qed

lemma proposal_items_perm:
  assumes "proposal_items merchant cur (JArr xs) = Inr items" "mset ys = mset xs" "distinct (map ci_product_id items)"
  shows "proposal_items merchant cur (JArr ys) = Inr items"
proof -
  obtain found where xs: "xs \<noteq> []" "length xs \<le> max_items_per_intent" "validate_items 0 merchant cur xs = Inr found"
    "items = sort_key ci_product_id found"
    using assms(1) by (elim proposal_items_Inr) simp
  obtain js where js: "validate_items 0 merchant cur ys = Inr js" "mset js = mset found"
    using list_all2_perm [OF _ assms(2)] xs(3) unfolding validate_items_Inr by blast
  have "inj_on ci_product_id (set js)"
    using assms(3) mset_eq_setD [OF js(2)] by (simp add: xs(4) distinct_map)
  then have "sort_key ci_product_id js = items"
    using js(2) by (intro sort_key_inj_key_eq) (simp_all add: xs(4))
  moreover have "ys \<noteq> []" "length ys \<le> max_items_per_intent" using xs(1,2) assms(2) by (auto dest: mset_eq_length)
  ultimately show ?thesis using js(1) by (simp add: proposal_items_def)
qed

lemma claim_scope_list_set: "claim_scope_list xs = (\<Union>x \<in> set xs. case x of JObj kvs \<Rightarrow> claim_scope kvs | _ \<Rightarrow> {})"
  by (induction xs) auto

lemma claim_scope_map_of: "map_of d k = Some v \<Longrightarrow> k \<noteq> ''metadata'' \<Longrightarrow> insert k (claim_scope_value v) \<subseteq> claim_scope d"
  by (induction d rule: list.induct) (auto split: if_splits)

lemma claim_scope_update:
  "claim_scope (AList.update k v d) \<subseteq> claim_scope d \<union> (if k = ''metadata'' then {} else insert k (claim_scope_value v))"
  by (induction d rule: list.induct) auto

text \<open>the order in which a proposal lists its items does not matter: when it passes and its products are
  distinct, the same proposal with the items in any other order gives the same cart, hash and intent.\<close>

theorem item_order_irrelevant:
  assumes "normalize_fields sha d cart_uid intent_uid now = Inr n" "map_of d ''items'' = Some (JArr xs)" "mset ys = mset xs"
    "distinct (map ci_product_id (cart_items (ncp_cart n)))"
  shows "normalize_fields sha (AList.update ''items'' (JArr ys) d) cart_uid intent_uid now = Inr n"
proof -
  let ?d = "AList.update ''items'' (JArr ys) d"
  have other: "field ?d k = field d k" "field_or ?d k v = field_or d k v" if "k \<noteq> ''items''" for k v
    using that by (simp_all add: field_def field_or_def update_conv')
  have mine: "field d ''items'' = JArr xs" "field ?d ''items'' = JArr ys"
    using assms(2) by (simp_all add: field_def update_conv' option_or_def)
  have scope: "claim_scope_list ys = claim_scope_list xs" using mset_eq_setD [OF assms(3)] by (simp add: claim_scope_list_set)
  then have "claim_scope ?d \<subseteq> claim_scope d"
    using claim_scope_update [of "''items''" "JArr ys" d] claim_scope_map_of [OF assms(2)] by auto
  then have claims: "check_claims ?d = Inr u" if "check_claims d = Inr u" for u
    using that unfolding check_claims_Inr scan_claims_None by blast
  have meta: "clean_metadata ?d = clean_metadata d" by (simp add: clean_metadata_def other fun_eq_iff)
  show ?thesis
    using assms(1,4) unfolding normalize_fields_def Let_def bind_res_Inr mine reject_when_Inr
    apply (elim exE conjE)
    apply (simp add: other meta mine claims)
    apply (intro exI conjI)
    apply (rule proposal_items_perm [OF _ assms(3)])
    apply assumption
    apply (auto dest: built_cart)
    done
qed

section \<open>A proposal that passes\<close>

definition sample_item :: "string \<Rightarrow> int \<Rightarrow> json" where
  "sample_item p price = JObj [(''product_id'', JStr p), (''name'', JStr ''Cup''), (''category'', JStr ''Home''),
     (''quantity'', JStr ''2''), (''unit_price_paise'', JInt price)]"

definition sample_proposal :: "json list \<Rightarrow> (string \<times> json) list" where
  "sample_proposal items = [(''buyer_id'', JStr ''b1''), (''merchant_id'', JStr ''m1''), (''mandate_id'', JStr ''d1''),
     (''raw_prompt'', JStr ''a cup''), (''items'', JArr items)]"

lemma sample_passes:
  "\<exists>n. normalize_fields (\<lambda>_. ''h'') (sample_proposal [sample_item ''p2'' 500, sample_item ''p1'' 100]) ''c'' ''i'' 0 = Inr n
     \<and> map ci_product_id (cart_items (ncp_cart n)) = [''p1'', ''p2'']"
proof -
  have "(case normalize_fields (\<lambda>_. ''h'') (sample_proposal [sample_item ''p2'' 500, sample_item ''p1'' 100]) ''c'' ''i'' 0 of
     Inr n \<Rightarrow> map ci_product_id (cart_items (ncp_cart n)) = [''p1'', ''p2''] | Inl _ \<Rightarrow> False)"
    by code_simp
  then show ?thesis by (auto split: sum.splits)
qed

theorem normalized_is_bounded_witness:
  "\<exists>n. normalize (\<lambda>_. ''h'') (\<lambda>_. None) (RawModel (sample_proposal [sample_item ''p2'' 500, sample_item ''p1'' 100])) ''c'' ''i'' 0 = Inr n
     \<and> proposal_bounded (\<lambda>_. ''h'') n"
proof -
  obtain n where "normalize (\<lambda>_. ''h'') (\<lambda>_. None) (RawModel (sample_proposal [sample_item ''p2'' 500, sample_item ''p1'' 100])) ''c'' ''i'' 0 = Inr n"
    using sample_passes by (auto simp: normalize_def parse_and_validate_structure_def)
  then show ?thesis using normalized_is_bounded by blast
qed

theorem item_order_irrelevant_witness:
  "\<exists>n. normalize_fields (\<lambda>_. ''h'') (AList.update ''items'' (JArr [sample_item ''p1'' 100, sample_item ''p2'' 500])
     (sample_proposal [sample_item ''p2'' 500, sample_item ''p1'' 100])) ''c'' ''i'' 0 = Inr n"
proof -
  obtain n where n: "normalize_fields (\<lambda>_. ''h'') (sample_proposal [sample_item ''p2'' 500, sample_item ''p1'' 100]) ''c'' ''i'' 0 = Inr n"
    "map ci_product_id (cart_items (ncp_cart n)) = [''p1'', ''p2'']"
    using sample_passes by (elim exE conjE)
  have "normalize_fields (\<lambda>_. ''h'') (AList.update ''items'' (JArr [sample_item ''p1'' 100, sample_item ''p2'' 500])
     (sample_proposal [sample_item ''p2'' 500, sample_item ''p1'' 100])) ''c'' ''i'' 0 = Inr n"
  proof (rule item_order_irrelevant [OF n(1)])
    show "map_of (sample_proposal [sample_item ''p2'' 500, sample_item ''p1'' 100]) ''items''
      = Some (JArr [sample_item ''p2'' 500, sample_item ''p1'' 100])" by (simp add: sample_proposal_def)
    show "mset [sample_item ''p1'' 100, sample_item ''p2'' 500] = mset [sample_item ''p2'' 500, sample_item ''p1'' 100]"
      unfolding mset.simps by (rule add_mset_commute)
    show "distinct (map ci_product_id (cart_items (ncp_cart n)))" unfolding n(2) by simp
  qed
  then show ?thesis ..
qed

end
