(* ===== verification/Web_Url.thy ===== *)
theory Web_Url
  imports Py_Text
begin

text \<open>
  What \<open>urllib.parse.urlparse\<close> reads of a URL, and the checks that the commerce code makes with it: the checks of
  \<open>GenericWebCheckoutConnector.validate_handoff_url\<close> (\<open>apps/api/commerce/connectors/generic_web.py\<close>) and of
  \<open>ProductTruthEngine.is_exact_product_url\<close> (\<open>product_truth_engine.py\<close>). Whether the library accepts what is between
  brackets as an address is the parameter \<open>ip6\<close>.
\<close>

section \<open>The parts of a URL\<close>

record UrlParts =
  up_scheme :: string
  up_netloc :: string
  up_path :: string

definition scheme_char :: "char \<Rightarrow> bool" where
  "scheme_char c \<longleftrightarrow> (CHR ''a'' \<le> c \<and> c \<le> CHR ''z'') \<or> (CHR ''A'' \<le> c \<and> c \<le> CHR ''Z'') \<or> is_digit c \<or> c \<in> set ''+-.''"

definition ascii_letter :: "char \<Rightarrow> bool" where
  "ascii_letter c \<longleftrightarrow> (CHR ''a'' \<le> c \<and> c \<le> CHR ''z'') \<or> (CHR ''A'' \<le> c \<and> c \<le> CHR ''Z'')"

definition clean_url :: "string \<Rightarrow> string" where
  \<comment> \<open>leading control characters and blanks, and all tabs and line ends, are dropped\<close>
  "clean_url s = filter (\<lambda>c. (of_char c :: nat) \<notin> {9, 10, 13}) (dropWhile (\<lambda>c. (of_char c :: nat) \<le> 32) s)"

definition split_scheme :: "string \<Rightarrow> string \<times> string" where
  "split_scheme s =
     (let pre = takeWhile (\<lambda>c. c \<noteq> CHR '':'') s; post = dropWhile (\<lambda>c. c \<noteq> CHR '':'') s in
      if post \<noteq> [] \<and> list_all scheme_char pre \<and> (case pre of [] \<Rightarrow> False | c # _ \<Rightarrow> ascii_letter c)
      then (lower pre, drop 1 post) else ([], s))"

definition split_netloc :: "string \<Rightarrow> string \<times> string" where
  "split_netloc s =
     (if begins ''//'' s then (takeWhile (\<lambda>c. c \<notin> set ''/?#'') (drop 2 s), dropWhile (\<lambda>c. c \<notin> set ''/?#'') (drop 2 s))
      else ([], s))"

definition params_schemes :: "string set" where
  "params_schemes = {[], ''ftp'', ''hdl'', ''prospero'', ''http'', ''https'', ''shttp'', ''rtsp'', ''rtsps'', ''rtspu'', ''sip'',
     ''sips'', ''mms'', ''sftp'', ''tel''}"

definition drop_params :: "string \<Rightarrow> string" where
  \<comment> \<open>the path up to a semicolon in its last segment\<close>
  "drop_params p = rev (dropWhile (\<lambda>c. c \<noteq> CHR ''/'') (rev p)) @
     takeWhile (\<lambda>c. c \<noteq> CHR '';'') (rev (takeWhile (\<lambda>c. c \<noteq> CHR ''/'') (rev p)))"

definition urlparse :: "(string \<Rightarrow> bool) \<Rightarrow> string \<Rightarrow> UrlParts res" where
  "urlparse ip6 url =
     (let (scheme, s) = split_scheme (clean_url url); (netloc, rest) = split_netloc s;
          opened = CHR ''['' \<in> set netloc; closed = CHR '']'' \<in> set netloc;
          path = takeWhile (\<lambda>c. c \<noteq> CHR ''?'' \<and> c \<noteq> CHR ''#'') rest
      in if opened \<noteq> closed \<or> (opened \<and> \<not> ip6 netloc) then Inl (Raise ValueError (Msg ''Invalid IPv6 URL'' []))
         else Inr \<lparr>up_scheme = scheme, up_netloc = netloc,
           up_path = (if scheme \<in> params_schemes then drop_params path else path)\<rparr>)"

definition userinfo :: "string \<Rightarrow> string" where
  \<comment> \<open>what is before the last \<open>@\<close>\<close>
  "userinfo netloc = (if CHR ''@'' \<in> set netloc then rev (drop 1 (dropWhile (\<lambda>c. c \<noteq> CHR ''@'') (rev netloc))) else [])"

definition url_username :: "string \<Rightarrow> string" where
  "url_username netloc = takeWhile (\<lambda>c. c \<noteq> CHR '':'') (userinfo netloc)"

definition url_password :: "string \<Rightarrow> string" where
  "url_password netloc = drop 1 (dropWhile (\<lambda>c. c \<noteq> CHR '':'') (userinfo netloc))"

section \<open>Redirect targets\<close>

definition connector_error :: "msg \<Rightarrow> py_exc" where
  "connector_error m = Raise (SourceError ''CommerceConnectorError'' []) m"

definition refused_schemes :: "string list" where
  "refused_schemes = [''javascript:'', ''data:'', ''file:'', ''vbscript:'', ''about:'', ''blob:'']"

definition host_of :: "string \<Rightarrow> string" where
  \<comment> \<open>\<open>netloc.lower().split("@")[-1].split(":")[0]\<close>\<close>
  "host_of netloc = hd (split_on (CHR '':'') (List.last (split_on (CHR ''@'') (lower netloc))))"

definition internal_host :: "string \<Rightarrow> bool" where
  "internal_host h \<longleftrightarrow> h \<in> {''localhost'', ''127.0.0.1'', ''0.0.0.0'', ''169.254.169.254'', ''::1''} \<or>
     begins ''192.168.'' h \<or> begins ''10.'' h \<or> begins ''127.'' h \<or>
     list_ex (\<lambda>b. begins (''172.'' @ int_str (int b) @ ''.'') h) [16 ..< 32]"

definition validate_handoff_url :: "(string \<Rightarrow> bool) \<Rightarrow> string \<Rightarrow> string res" where
  "validate_handoff_url ip6 url =
     (if url = [] then Inl (connector_error (Msg ''Handoff URL is empty.'' []))
      else let u = strip url in
        if list_ex (\<lambda>p. begins p (lower u)) refused_schemes then
          Inl (connector_error (Msg ''Security Rejection: Malicious URL scheme detected in {}.'' [PStr (take 30 u)]))
        else case urlparse ip6 u of
          Inl e \<Rightarrow> Inl (connector_error (Msg ''Security Rejection: Malformed URL {}'' [PStr (take 30 u)]))
        | Inr p \<Rightarrow>
            if up_scheme p \<notin> {''http'', ''https''} then
              Inl (connector_error (Msg ''Security Rejection: Unsupported scheme {}. Only http/https allowed.'' [PStr (up_scheme p)]))
            else if up_netloc p = [] then
              Inl (connector_error (Msg ''Security Rejection: Missing network location / domain in URL.'' []))
            else if url_username (up_netloc p) \<noteq> [] \<or> url_password (up_netloc p) \<noteq> [] then
              Inl (connector_error (Msg ''Security Rejection: URL contains credentials (userinfo), which is forbidden.'' []))
            else if internal_host (host_of (up_netloc p)) then
              Inl (connector_error (Msg ''Security Rejection: Internal / Loopback address blocked {}.'' [PStr (host_of (up_netloc p))]))
            else Inr u)"

section \<open>Product pages\<close>

definition listing_paths :: "string set" where
  "listing_paths = {[], ''/'', ''/collections'', ''/collections/'', ''/category'', ''/category/'', ''/search''}"

definition product_markers :: "string list" where
  "product_markers = [''/product/'', ''/products/'', ''/p/'', ''/item/'', ''/dp/'', ''/buy/'', ''/pd/'', ''/goods/'']"

definition ends_with :: "string \<Rightarrow> string \<Rightarrow> bool" where
  "ends_with suf s \<longleftrightarrow> begins (rev suf) (rev s)"

definition product_path :: "string \<Rightarrow> bool" where
  "product_path path \<longleftrightarrow> path \<notin> listing_paths \<and>
     (list_ex (\<lambda>m. contains m path) product_markers \<or> ends_with ''.html'' path \<or> ends_with ''.php'' path \<or>
      (let parts = filter (\<lambda>p. p \<noteq> []) (split_on (CHR ''/'') path) in
       2 \<le> length parts \<and> \<not> list_ex (\<lambda>k. k \<in> set parts) [''collections'', ''categories'', ''search'', ''all'']))"

definition is_exact_product_url :: "(string \<Rightarrow> bool) \<Rightarrow> string \<Rightarrow> bool res" where
  "is_exact_product_url ip6 url =
     (if url = [] then Inr False
      else bind_res (urlparse ip6 url) (\<lambda>p.
        Inr (up_scheme p \<in> {''http'', ''https''} \<and> product_path (lower (up_path p)))))"

section \<open>What passes\<close>

lemma handoff_Inr:
  "validate_handoff_url ip6 url = Inr u \<longleftrightarrow> url \<noteq> [] \<and> u = strip url \<and> \<not> list_ex (\<lambda>p. begins p (lower u)) refused_schemes \<and>
     (\<exists>p. urlparse ip6 u = Inr p \<and> up_scheme p \<in> {''http'', ''https''} \<and> up_netloc p \<noteq> [] \<and>
        url_username (up_netloc p) = [] \<and> url_password (up_netloc p) = [] \<and> \<not> internal_host (host_of (up_netloc p)))"
  by (auto simp: validate_handoff_url_def Let_def split: sum.splits if_splits)

lemma handoff_idem: "validate_handoff_url ip6 url = Inr u \<Longrightarrow> validate_handoff_url ip6 u = Inr u"
proof -
  assume a: "validate_handoff_url ip6 url = Inr u"
  moreover have "u \<noteq> []"
  proof
    assume "u = []"
    then have "urlparse ip6 [] = Inr \<lparr>up_scheme = [], up_netloc = [], up_path = []\<rparr>" by code_simp
    with a \<open>u = []\<close> show False by (auto simp: handoff_Inr)
  qed
  ultimately show ?thesis by (auto simp: handoff_Inr)
qed

lemma userinfo_free: "CHR ''@'' \<notin> set netloc \<Longrightarrow> userinfo netloc = []"
  by (simp add: userinfo_def)

theorem ipv6_loopback_accepted:
  "ip6 ''[::1]'' \<Longrightarrow> validate_handoff_url ip6 ''http://[::1]/admin'' = Inr ''http://[::1]/admin''"
proof -
  assume ip: "ip6 ''[::1]''"
  have split: "split_scheme (clean_url ''http://[::1]/admin'') = (''http'', ''//[::1]/admin'')"
    "split_netloc ''//[::1]/admin'' = (''[::1]'', ''/admin'')" by code_simp+
  have path: "drop_params ''/admin'' = ''/admin''" by code_simp
  have "urlparse ip6 ''http://[::1]/admin'' = Inr \<lparr>up_scheme = ''http'', up_netloc = ''[::1]'', up_path = ''/admin''\<rparr>"
    using ip path by (simp add: urlparse_def split params_schemes_def)
  moreover have "strip ''http://[::1]/admin'' = ''http://[::1]/admin''"
    "\<not> list_ex (\<lambda>p. begins p (lower ''http://[::1]/admin'')) refused_schemes"
    "url_username ''[::1]'' = [] \<and> url_password ''[::1]'' = [] \<and> \<not> internal_host (host_of ''[::1]'')" by code_simp+
  ultimately show ?thesis unfolding handoff_Inr by simp
qed

end
