(* ===== verification/Confirmation_Gate.thy ===== *)
theory Confirmation_Gate
  imports Py_Text Py_Regex Iso_Time Contracts
begin

text \<open>
  The human confirmation of a purchase: \<open>HumanConfirmationGate\<close> (\<open>apps/api/agent/confirmation_gate.py\<close>) and the checks of
  \<open>AISecurityGateway\<close> (\<open>security_gateway.py\<close>). \<open>hmac\<close> is HMAC-SHA256 in hexadecimal (key, then message) and \<open>read_iso\<close> is
  \<open>datetime.fromisoformat\<close> on times with an offset (\<open>None\<close> when it raises or when the time cannot be compared).

  \<open>confirmations\<close> interprets \<open>single_use\<close>: a token is consumed at most once.
\<close>

section \<open>Tokens\<close>

record ConfirmationGate =
  cg_secret :: string
  cg_consumed :: "string set"

record Confirmed =
  cf_request_id :: string
  cf_merchant_id :: json
  cf_buyer_id :: string
  cf_product_id :: json
  cf_product_source :: json
  cf_amount_paise :: int
  cf_currency :: json
  cf_plan_hash :: string

record ConfirmationData =
  cd_token :: string
  cd_signature :: string
  cd_about :: Confirmed
  cd_expires_at :: string
  cd_status :: string

definition confirmation_error :: "msg \<Rightarrow> py_exc" where
  "confirmation_error m = Raise (SourceError ''ConfirmationError'' []) m"

definition token_fields :: "Confirmed \<Rightarrow> string list" where
  "token_fields t = [cf_request_id t, py_str (cf_merchant_id t), cf_buyer_id t, py_str (cf_product_id t),
     py_str (cf_product_source t), int_str (cf_amount_paise t), py_str (cf_currency t), cf_plan_hash t]"

definition token_message :: "Confirmed \<Rightarrow> string" where
  "token_message t = join_with ''|'' (token_fields t)"

definition token_of :: "(string \<Rightarrow> string \<Rightarrow> string) \<Rightarrow> string \<Rightarrow> Confirmed \<Rightarrow> string" where
  "token_of hmac secret t = ''cnf_'' @ take 32 (hmac secret (token_message t))"

definition generate_token ::
  "(string \<Rightarrow> string \<Rightarrow> string) \<Rightarrow> ConfirmationGate \<Rightarrow> Confirmed \<Rightarrow> int \<Rightarrow> datetime \<Rightarrow> ConfirmationData" where
  "generate_token hmac g t ttl now =
     \<lparr>cd_token = token_of hmac (cg_secret g) t, cd_signature = hmac (cg_secret g) (token_message t), cd_about = t,
      cd_expires_at = isoformat (now + seconds ttl), cd_status = ''PENDING''\<rparr>"

definition verify_and_consume_token ::
  "(string \<Rightarrow> string \<Rightarrow> string) \<Rightarrow> (string \<Rightarrow> datetime option) \<Rightarrow> ConfirmationGate \<Rightarrow> string \<Rightarrow> Confirmed \<Rightarrow> string \<Rightarrow>
   datetime \<Rightarrow> bool res \<times> ConfirmationGate" where
  \<comment> \<open>the error for an expired token is caught as a \<open>ValueError\<close> and replaced\<close>
  "verify_and_consume_token hmac read_iso g token t expires now =
     (if token \<in> cg_consumed g then
        (Inl (confirmation_error (Msg ''Confirmation token has already been consumed (Replay Rejection).'' [])), g)
      else if expires \<noteq> [] \<and> (case read_iso expires of None \<Rightarrow> True | Some e \<Rightarrow> now > e) then
        (Inl (confirmation_error (Msg ''Invalid expires_at timestamp format.'' [])), g)
      else case compare_digest token (token_of hmac (cg_secret g) t) of
        Inl e \<Rightarrow> (Inl e, g)
      | Inr ok \<Rightarrow>
          if \<not> ok then
            (Inl (confirmation_error (Msg ''Invalid confirmation token signature. Token payload does not match request, merchant, amount, or currency parameters (Tampering Rejected).'' [])), g)
          else (Inr True, g\<lparr>cg_consumed := insert token (cg_consumed g)\<rparr>))"

lemma verify_token_ok:
  "is_ok (fst (verify_and_consume_token hmac read_iso g token t expires now)) \<longleftrightarrow>
     token \<notin> cg_consumed g \<and> (expires = [] \<or> (\<exists>e. read_iso expires = Some e \<and> now \<le> e)) \<and>
     token = token_of hmac (cg_secret g) t \<and> ascii_text token"
  by (auto simp: verify_and_consume_token_def compare_digest_def split: option.splits sum.splits)

lemma verify_token_state:
  "snd (verify_and_consume_token hmac read_iso g token t expires now) =
     (if is_ok (fst (verify_and_consume_token hmac read_iso g token t expires now))
      then g\<lparr>cg_consumed := insert token (cg_consumed g)\<rparr> else g)"
  by (auto simp: verify_and_consume_token_def compare_digest_def split: option.splits sum.splits)

datatype confirm_op = ConfirmOp "string \<Rightarrow> string \<Rightarrow> string" "string \<Rightarrow> datetime option" string Confirmed string datetime

fun confirm_step :: "ConfirmationGate \<Rightarrow> confirm_op \<Rightarrow> bool res \<times> ConfirmationGate" where
  "confirm_step g (ConfirmOp hmac read_iso token t expires now) = verify_and_consume_token hmac read_iso g token t expires now"

fun confirm_key :: "confirm_op \<Rightarrow> string option" where
  "confirm_key (ConfirmOp hmac read_iso token t expires now) = Some token"

interpretation confirmations: single_use confirm_step "\<lambda>_ _. True" "\<lambda>_. True" is_ok confirm_key "\<lambda>g k. k \<in> cg_consumed g"
proof unfold_locales
  fix g :: ConfirmationGate and x :: confirm_op and k :: string
  show "True" by simp
  obtain hmac read_iso token t expires now where x: "x = ConfirmOp hmac read_iso token t expires now" by (cases x)
  show "confirm_key x = Some k \<Longrightarrow> is_ok (fst (confirm_step g x)) \<Longrightarrow> k \<notin> cg_consumed g"
    by (auto simp: x verify_token_ok)
  show "confirm_key x = Some k \<Longrightarrow> is_ok (fst (confirm_step g x)) \<Longrightarrow> k \<in> cg_consumed (snd (confirm_step g x))"
    by (simp add: x verify_token_state)
  show "k \<in> cg_consumed g \<Longrightarrow> k \<in> cg_consumed (snd (confirm_step g x))"
    by (simp add: x verify_token_state)
qed

section \<open>What a token says\<close>

definition separable :: "Confirmed \<Rightarrow> bool" where
  \<comment> \<open>no field has the separator\<close>
  "separable t \<longleftrightarrow> list_all (\<lambda>w. CHR ''|'' \<notin> set w) (token_fields t)"

lemma same_fields:
  assumes "token_message t = token_message u" "separable t" "separable u"
  shows "token_fields t = token_fields u"
  using assms join_inject [of "CHR ''|''" "token_fields t" "token_fields u"]
  by (simp add: token_message_def separable_def list_all_iff token_fields_def)

text \<open>A confirmation token is for one payment: when the digests of the messages of two payments do not collide and
  none of their fields holds the separator, the token of one is accepted for the other only when request, buyer, amount
  and plan are the same and merchant, product, source and currency read the same.\<close>

theorem token_binds_payment:
  assumes "separable t" "separable u"
    "take 32 (hmac (cg_secret g) (token_message t)) = take 32 (hmac (cg_secret g) (token_message u)) \<Longrightarrow> token_message t = token_message u"
    "is_ok (fst (verify_and_consume_token hmac read_iso g (cd_token (generate_token hmac g t ttl issued)) u expires now))"
  shows "cf_request_id t = cf_request_id u \<and> cf_buyer_id t = cf_buyer_id u \<and> cf_amount_paise t = cf_amount_paise u \<and>
    cf_plan_hash t = cf_plan_hash u \<and> py_str (cf_merchant_id t) = py_str (cf_merchant_id u) \<and>
    py_str (cf_product_id t) = py_str (cf_product_id u) \<and> py_str (cf_product_source t) = py_str (cf_product_source u) \<and>
    py_str (cf_currency t) = py_str (cf_currency u)"
proof -
  have "token_of hmac (cg_secret g) t = token_of hmac (cg_secret g) u"
    using assms(4) by (simp add: verify_token_ok generate_token_def)
  then have "token_message t = token_message u" using assms(3) by (simp add: token_of_def)
  then have "token_fields t = token_fields u" using assms(1,2) by (rule same_fields)
  then show ?thesis by (simp add: token_fields_def)
qed

text \<open>The fields of a token run together: a token issued for one paisa in the currency \<open>100|INR\<close> is accepted, with
  any key and any digest, as the confirmation of a payment of one hundred paise in rupees.\<close>

theorem token_fields_run_together:
  "\<exists>t u. cf_amount_paise t = 1 \<and> cf_amount_paise u = 100 \<and> cf_currency u = JStr ''INR'' \<and>
     (\<forall>hmac secret. token_of hmac secret t = token_of hmac secret u)"
proof -
  let ?t = "\<lparr>cf_request_id = ''r'', cf_merchant_id = JStr ''m'', cf_buyer_id = ''b'', cf_product_id = JStr ''p'',
    cf_product_source = JStr ''LIVE'', cf_amount_paise = 1, cf_currency = JStr ''100|INR'', cf_plan_hash = ''h''\<rparr>"
  let ?u = "\<lparr>cf_request_id = ''r'', cf_merchant_id = JStr ''m'', cf_buyer_id = ''b'', cf_product_id = JStr ''p'',
    cf_product_source = JStr ''LIVE|1'', cf_amount_paise = 100, cf_currency = JStr ''INR'', cf_plan_hash = ''h''\<rparr>"
  have "token_message ?t = token_message ?u" by code_simp
  then have "\<forall>hmac secret. token_of hmac secret ?t = token_of hmac secret ?u" by (simp add: token_of_def)
  then show ?thesis by (intro exI [of _ ?t] exI [of _ ?u]) simp
qed

definition sample_payment :: Confirmed where
  "sample_payment = \<lparr>cf_request_id = ''r'', cf_merchant_id = JStr ''m'', cf_buyer_id = ''b'', cf_product_id = JStr ''p'',
    cf_product_source = JStr ''LIVE'', cf_amount_paise = 100, cf_currency = JStr ''INR'', cf_plan_hash = ''h''\<rparr>"

theorem token_binds_payment_witness:
  "cf_amount_paise sample_payment = 100 \<and> separable sample_payment \<and>
   is_ok (fst (verify_and_consume_token (\<lambda>k m. m) (\<lambda>_. None) \<lparr>cg_secret = ''k'', cg_consumed = {}\<rparr>
     (cd_token (generate_token (\<lambda>k m. m) \<lparr>cg_secret = ''k'', cg_consumed = {}\<rparr> sample_payment 600 0)) sample_payment [] 0)) \<and>
   cf_buyer_id sample_payment = cf_buyer_id sample_payment"
proof -
  have sep: "separable sample_payment" by code_simp
  have ascii: "ascii_text (token_of (\<lambda>k m. m) ''k'' sample_payment)" by code_simp
  have ok: "is_ok (fst (verify_and_consume_token (\<lambda>k m. m) (\<lambda>_. None) \<lparr>cg_secret = ''k'', cg_consumed = {}\<rparr>
     (cd_token (generate_token (\<lambda>k m. m) \<lparr>cg_secret = ''k'', cg_consumed = {}\<rparr> sample_payment 600 0)) sample_payment [] 0))"
    using ascii by (simp add: verify_token_ok generate_token_def)
  show ?thesis using token_binds_payment [OF sep sep _ ok] sep ok by (simp add: sample_payment_def)
qed

section \<open>The security gateway\<close>

definition threat :: "msg \<Rightarrow> py_exc" where
  "threat m = Raise (SourceError ''AISecurityThreatDetected'' []) m"

definition injection_patterns :: "rx list" where
  "injection_patterns =
     [rx_cat [rx_lit ''ignore'', rx_spaces, RAlt REmpty (rx_cat [rx_lit ''all'', rx_spaces]),
        RAlt (rx_lit ''previous'') (rx_lit ''prior''), rx_spaces, rx_lit ''instructions''],
      rx_cat [rx_lit ''bypass'', rx_spaces, rx_lit ''confirmation''],
      rx_cat [rx_lit ''override'', rx_spaces, rx_lit ''budget''],
      rx_lit ''system_prompt_override'', rx_lit ''admin_mode_enable'']"

definition inspect_prompt :: "string \<Rightarrow> string res" where
  "inspect_prompt prompt =
     (if list_ex (\<lambda>r. rx_search r (lower prompt)) injection_patterns then
        Inl (threat (Msg ''Prompt injection pattern detected. Request rejected.'' []))
      else Inr prompt)"

record PurchasePlan =
  pl_plan_id :: string
  pl_request_id :: string
  pl_merchant_id :: json
  pl_buyer_id :: string
  pl_product_id :: json
  pl_product_name :: json
  pl_amount_paise :: int
  pl_currency :: json
  pl_product_source :: json
  pl_source_url :: json
  pl_plan_hash :: string
  pl_retrieval_timestamp :: json
  pl_requires_confirmation :: bool
  pl_confirmation_token :: "string option"

definition plan_confirmed :: "PurchasePlan \<Rightarrow> Confirmed" where
  "plan_confirmed p = \<lparr>cf_request_id = pl_request_id p, cf_merchant_id = pl_merchant_id p, cf_buyer_id = pl_buyer_id p,
     cf_product_id = pl_product_id p, cf_product_source = pl_product_source p, cf_amount_paise = pl_amount_paise p,
     cf_currency = pl_currency p, cf_plan_hash = pl_plan_hash p\<rparr>"

definition validate_plan_execution_boundary ::
  "(string \<Rightarrow> string \<Rightarrow> string) \<Rightarrow> (string \<Rightarrow> datetime option) \<Rightarrow> ConfirmationGate \<Rightarrow> PurchasePlan \<Rightarrow> string \<Rightarrow> json \<Rightarrow>
   datetime \<Rightarrow> bool res \<times> ConfirmationGate" where
  "validate_plan_execution_boundary hmac read_iso g p token merchant now =
     (if \<not> py_eq (pl_merchant_id p) merchant then
        (Inl (threat (Msg ''Cross-tenant IDOR attack detected: PurchasePlan merchant {} does not match authenticated merchant {}.''
          [PStr (py_str (pl_merchant_id p)), PStr (py_str merchant)])), g)
      else if pl_requires_confirmation p then
        (if token = [] then (Inl (threat (Msg ''Payment execution rejected: Missing human confirmation token.'' [])), g)
         else verify_and_consume_token hmac read_iso g token (plan_confirmed p) [] now)
      else (Inr True, g))"

end
