(* ===== verification/Purchase_Agent.thy ===== *)
theory Purchase_Agent
  imports Confirmation_Gate
begin

text \<open>
  The purchase planner (\<open>apps/api/agent/purchase_planner.py\<close>) with the contracts of \<open>models.py\<close>, the validator of what a
  language model selects (\<open>product_truth_validator.py\<close>), the validator of its output (\<open>validator.py\<close>) and the endpoints of
  \<open>apps/api/routers/agent.py\<close>. The language model and the searches are the functions of \<open>PlannerEnv\<close>; a product
  candidate is a dictionary of JSON values without fractions. The state of the endpoints is the table of requests and the gate.

  \<open>agent_api\<close> interprets \<open>single_use\<close>: a request that needs a human is committed at most once.
\<close>

section \<open>Requests and intents\<close>

record AgentRequest =
  ar_request_id :: string
  ar_merchant_id :: string
  ar_buyer_id :: string
  ar_prompt :: string

record AgentIntent =
  ai_intent_type :: string
  ai_product_query :: string
  ai_max_amount_paise :: int
  ai_category :: string
  ai_currency :: string
  ai_requires_confirmation :: bool

definition validate_intent :: "AgentIntent \<Rightarrow> AgentIntent res" where
  "validate_intent i =
     (if ai_intent_type i \<notin> {''PURCHASE_PRODUCT'', ''SEARCH_ONLY'', ''BUDGET_QUERY'', ''TRANSACTION_STATUS''} then
        Inl (Raise ValueError (Msg ''Invalid or untrusted intent_type: {}'' [PStr (ai_intent_type i)]))
      else if ai_max_amount_paise i \<le> 0 then
        Inl (Raise ValueError (Msg ''Invalid max_amount_paise: {}. Must be positive.'' [PInt (ai_max_amount_paise i)]))
      else if ai_currency i \<noteq> ''INR'' then
        Inl (Raise ValueError (Msg ''Unsupported currency: {}. Only INR supported.'' [PStr (ai_currency i)]))
      else Inr i)"

type_synonym candidate = "(string \<times> json) list"

record PlannerEnv =
  pe_extract_intent :: "string \<Rightarrow> AgentIntent res"
  pe_search_live :: "string \<Rightarrow> int \<Rightarrow> string \<Rightarrow> candidate list res"
  pe_orchestrator :: "string \<Rightarrow> int \<Rightarrow> candidate list res" \<comment> \<open>the search behind the tool \<open>search_products\<close>\<close>
  pe_rank :: "AgentRequest \<Rightarrow> candidate list \<Rightarrow> candidate list res"

section \<open>Output of a language model\<close>

definition forbidden_privileges :: "string set" where
  "forbidden_privileges = {''is_authorized'', ''bypass_confirmation'', ''override_budget'', ''sudo'', ''admin_override'', ''skip_idempotency''}"

definition llm_error :: "msg \<Rightarrow> py_exc" where
  "llm_error m = Raise (SourceError ''AISecurityValidationError'' []) m"

definition sanitize_raw_llm_json ::
  "(json \<Rightarrow> int res) \<Rightarrow> (string \<times> json) list \<Rightarrow> (string \<times> json) list res" where
  \<comment> \<open>\<open>float_paise v\<close> is \<open>int(float(v) * 100)\<close>; a Boolean counts as an \<open>int\<close>\<close>
  "sanitize_raw_llm_json float_paise d =
     (if list_ex (\<lambda>(k, _). k \<in> forbidden_privileges) d then
        Inl (llm_error (Msg ''LLM output attempted forbidden privilege injection'' []))
      else
        bind_res (if map_of d ''amount'' \<noteq> None \<and> map_of d ''amount_paise'' = None then
            bind_res (float_paise (dget d ''amount'' JNull)) (\<lambda>p. Inr (d @ [(''amount_paise'', JInt p)])) else Inr d) (\<lambda>e.
        if map_of e ''amount_paise'' \<noteq> None \<and>
           (case dget e ''amount_paise'' JNull of JInt i \<Rightarrow> i \<le> 0 | JBool b \<Rightarrow> \<not> b | _ \<Rightarrow> True) then
          Inl (llm_error (Msg ''Invalid amount_paise: {}. Must be positive integer.'' [PStr (py_str (dget e ''amount_paise'' JNull))]))
        else if map_of e ''currency'' \<noteq> None \<and> dget e ''currency'' JNull \<noteq> JStr ''INR'' then
          Inl (llm_error (Msg ''Invalid currency: {}. Only INR supported.'' [PStr (py_str (dget e ''currency'' JNull))]))
        else Inr e))"

definition truth_error :: "msg \<Rightarrow> py_exc" where
  "truth_error m = Raise (SourceError ''ProductTruthValidationError'' []) m"

definition same_id :: "json \<Rightarrow> candidate \<Rightarrow> bool" where
  "same_id pid c \<longleftrightarrow> py_eq (get_or_none c ''source_product_id'') pid \<or> py_eq (get_or_none c ''product_id'') pid"

definition same_name :: "candidate \<Rightarrow> candidate \<Rightarrow> bool" where
  "same_name a c \<longleftrightarrow> lower (py_str (get_or_none c ''name'')) = lower (py_str (get_or_none a ''name''))"

definition matching_source :: "json \<Rightarrow> candidate \<Rightarrow> candidate list \<Rightarrow> candidate option" where
  \<comment> \<open>by identifier, else by name; a candidate that is an empty dictionary is not a match\<close>
  "matching_source pid sel sources =
     (let found = (\<lambda>m. case m of Some c \<Rightarrow> if c = [] then None else Some c | None \<Rightarrow> None) in
      case found (find (same_id pid) sources) of Some c \<Rightarrow> Some c | None \<Rightarrow> found (find (same_name sel) sources))"

definition selected_id :: "candidate \<Rightarrow> json" where
  "selected_id sel = py_or (get_or_none sel ''source_product_id'') (get_or_none sel ''product_id'')"

record ProductTruth =
  pt_product_id :: json
  pt_name :: json
  pt_amount_paise :: int
  pt_currency :: json
  pt_merchant_id :: json
  pt_source_url :: json
  pt_retrieval_timestamp :: json
  pt_product_source :: json

definition validate_recommendation :: "candidate \<Rightarrow> candidate list \<Rightarrow> ProductTruth res" where
  "validate_recommendation sel sources =
     (if sources = [] then Inl (truth_error (Msg ''Product truth validation failed: No verified source discovery results available.'' []))
      else case matching_source (selected_id sel) sel sources of
        None \<Rightarrow> Inl (truth_error (Msg ''Product truth validation failed: Selected product {} (ID: {}) was NOT found in verified live discovery results. Hallucination rejected.''
          [PStr (py_str (get_or_none sel ''name'')), PStr (py_str (selected_id sel))]))
      | Some src \<Rightarrow>
          bind_res (py_int (dget sel ''amount_paise'' (JInt 0))) (\<lambda>chosen.
          bind_res (py_int (dget src ''amount_paise'' (JInt 0))) (\<lambda>price.
          if chosen \<noteq> price then
            Inl (truth_error (Msg ''Product truth validation failed: Price mismatch detected for {}. Price hallucination rejected.''
              [PStr (py_str (get_or_none src ''name'')), PInt chosen, PInt price]))
          else Inr \<lparr>pt_product_id = dget src ''source_product_id'' (selected_id sel), pt_name = get_or_none src ''name'',
            pt_amount_paise = price, pt_currency = dget src ''currency'' (JStr ''INR''),
            pt_merchant_id = dget src ''merchant_identity'' (JStr ''mer_default''), pt_source_url = dget src ''source_url'' (JStr []),
            pt_retrieval_timestamp = dget src ''retrieval_timestamp'' (JStr []),
            pt_product_source = dget src ''verification_status'' (JStr ''VERIFIED_LIVE'')\<rparr>)))"

section \<open>The planner\<close>

record AgentDecision =
  ad_status :: string
  ad_plan :: "PurchasePlan option"
  ad_explanation :: msg

definition purchase_plan ::
  "(string \<Rightarrow> string) \<Rightarrow> (string \<Rightarrow> string \<Rightarrow> string) \<Rightarrow> ConfirmationGate \<Rightarrow> AgentRequest \<Rightarrow> AgentIntent \<Rightarrow> ProductTruth \<Rightarrow> string \<Rightarrow>
   PurchasePlan" where
  \<comment> \<open>steps 5 and 6, and the plan; \<open>uid\<close> is fresh\<close>
  "purchase_plan sha hmac g rq i t uid =
     (let plan_id = ''plan_'' @ uid;
          h = sha (join_with ''|'' [plan_id, py_str (pt_merchant_id t), int_str (pt_amount_paise t), py_str (pt_product_id t)]);
          p = \<lparr>pl_plan_id = plan_id, pl_request_id = ar_request_id rq, pl_merchant_id = pt_merchant_id t,
            pl_buyer_id = ar_buyer_id rq, pl_product_id = pt_product_id t, pl_product_name = pt_name t,
            pl_amount_paise = pt_amount_paise t, pl_currency = pt_currency t, pl_product_source = pt_product_source t,
            pl_source_url = pt_source_url t, pl_plan_hash = h, pl_retrieval_timestamp = pt_retrieval_timestamp t,
            pl_requires_confirmation = ai_requires_confirmation i, pl_confirmation_token = None\<rparr>
      in p\<lparr>pl_confirmation_token :=
             (if ai_requires_confirmation i then Some (token_of hmac (cg_secret g) (plan_confirmed p)) else None)\<rparr>)"

definition formulate_plan ::
  "(string \<Rightarrow> string) \<Rightarrow> (string \<Rightarrow> string \<Rightarrow> string) \<Rightarrow> ConfirmationGate \<Rightarrow> AgentRequest \<Rightarrow> AgentIntent \<Rightarrow> string \<Rightarrow>
   candidate \<Rightarrow> candidate list \<Rightarrow> AgentDecision res" where
  \<comment> \<open>steps 4 to 6\<close>
  "formulate_plan sha hmac g rq i uid sel found =
     bind_res (validate_recommendation sel found) (\<lambda>t.
       Inr \<lparr>ad_status = (if ai_requires_confirmation i then ''AWAITING_CONFIRMATION'' else ''PLANNING''),
         ad_plan = Some (purchase_plan sha hmac g rq i t uid),
         ad_explanation = Msg ''Live purchase plan formulated for {} at {} paise (Source: {}). Awaiting explicit human confirmation.''
           [PStr (py_str (pt_name t)), PInt (pt_amount_paise t), PStr (py_str (pt_product_source t))]\<rparr>)"

definition process_request ::
  "(string \<Rightarrow> string) \<Rightarrow> (string \<Rightarrow> string \<Rightarrow> string) \<Rightarrow> PlannerEnv \<Rightarrow> ConfirmationGate \<Rightarrow> AgentRequest \<Rightarrow> string \<Rightarrow> AgentDecision res" where
  "process_request sha hmac en g rq uid =
     bind_res (pe_extract_intent en (ar_prompt rq)) (\<lambda>i.
     bind_res (validate_intent i) (\<lambda>_.
     bind_res (pe_search_live en (ai_product_query i) (ai_max_amount_paise i) (ai_category i)) (\<lambda>live.
     bind_res (if live = [] then pe_orchestrator en (ai_product_query i) (ai_max_amount_paise i) else Inr live) (\<lambda>found.
     if found = [] then
       Inr \<lparr>ad_status = ''REJECTED'', ad_plan = None,
            ad_explanation = Msg ''No matching live products found under budget {} paise for query {}.''
              [PInt (ai_max_amount_paise i), PStr (ai_product_query i)]\<rparr>
     else
       bind_res (pe_rank en rq found) (\<lambda>ranked.
       case ranked of
         [] \<Rightarrow> Inl (Raise (SourceError ''IndexError'' []) (Msg ''list index out of range'' []))
       | sel # _ \<Rightarrow>
           formulate_plan sha hmac g rq i uid sel found)))))"

section \<open>The endpoints\<close>

record AgentRecord =
  rr_status :: string
  rr_merchant_id :: string
  rr_buyer_id :: string
  rr_prompt :: string
  rr_plan :: "PurchasePlan option"
  rr_explanation :: msg

record AgentApi =
  aa_requests :: "string \<rightharpoonup> AgentRecord"
  aa_gate :: ConfirmationGate

definition request_id_of :: "string \<Rightarrow> string" where
  "request_id_of uid = ''req_agent_'' @ uid"

definition create_agent_request ::
  "(string \<Rightarrow> string) \<Rightarrow> (string \<Rightarrow> string \<Rightarrow> string) \<Rightarrow> PlannerEnv \<Rightarrow> AgentApi \<Rightarrow> string \<Rightarrow> string \<Rightarrow> string \<Rightarrow> string \<Rightarrow> string \<Rightarrow>
   AgentRecord res \<times> AgentApi" where
  "create_agent_request sha hmac en s prompt merchant buyer uid plan_uid =
     (let rid = request_id_of uid in
      case inspect_prompt prompt of
        Inl (Raise cls m) \<Rightarrow> (Inl (http_exception 400 m), s)
      | Inr _ \<Rightarrow>
          (case process_request sha hmac en (aa_gate s)
             \<lparr>ar_request_id = rid, ar_merchant_id = merchant, ar_buyer_id = buyer, ar_prompt = prompt\<rparr> plan_uid of
             Inl e \<Rightarrow> (Inl e, s)
           | Inr d \<Rightarrow>
               let r = \<lparr>rr_status = ad_status d, rr_merchant_id = merchant, rr_buyer_id = buyer, rr_prompt = prompt,
                 rr_plan = ad_plan d, rr_explanation = ad_explanation d\<rparr>
               in (Inr r, s\<lparr>aa_requests := (aa_requests s)(rid \<mapsto> r)\<rparr>)))"

definition get_agent_request :: "AgentApi \<Rightarrow> string \<Rightarrow> AgentRecord res" where
  "get_agent_request s rid = (case aa_requests s rid of
      None \<Rightarrow> Inl (http_exception 404 (Msg ''Agent request {} not found.'' [PStr rid]))
    | Some r \<Rightarrow> Inr r)"

definition confirmation_refused :: "py_exc \<Rightarrow> bool" where
  \<comment> \<open>the exceptions that the endpoint turns into status 400\<close>
  "confirmation_refused e = (case e of Raise (SourceError cls _) _ \<Rightarrow> cls \<in> {''AISecurityThreatDetected'', ''ConfirmationError''} | _ \<Rightarrow> False)"

definition confirm_agent_request ::
  "(string \<Rightarrow> string \<Rightarrow> string) \<Rightarrow> (string \<Rightarrow> datetime option) \<Rightarrow> AgentApi \<Rightarrow> string \<Rightarrow> string \<Rightarrow> datetime \<Rightarrow> int res \<times> AgentApi" where
  \<comment> \<open>the amount that is committed; the merchant that the plan is compared with is the plan's own\<close>
  "confirm_agent_request hmac read_iso s rid token now =
     (case aa_requests s rid of
        None \<Rightarrow> (Inl (http_exception 404 (Msg ''Agent request {} not found.'' [PStr rid])), s)
      | Some r \<Rightarrow>
          (case rr_plan r of
             None \<Rightarrow> (Inl (http_exception 400 (Msg ''No purchase plan available for confirmation.'' [])), s)
           | Some p \<Rightarrow>
               (case validate_plan_execution_boundary hmac read_iso (aa_gate s) p token (pl_merchant_id p) now of
                  (Inl e, g) \<Rightarrow> (Inl (if confirmation_refused e then http_exception 400 (case e of Raise _ m \<Rightarrow> m) else e), s\<lparr>aa_gate := g\<rparr>)
                | (Inr _, g) \<Rightarrow> (Inr (pl_amount_paise p),
                    s\<lparr>aa_gate := g, aa_requests := (aa_requests s)(rid \<mapsto> r\<lparr>rr_status := ''COMMITTED''\<rparr>)\<rparr>))))"

section \<open>A request is committed once\<close>

datatype api_op = ApiCreate string string string string string | ApiConfirm string string datetime

datatype api_out = CreatedOut "AgentRecord res" | ConfirmedOut "int res" bool \<comment> \<open>whether the plan asked for a human\<close>

definition human_plan :: "AgentApi \<Rightarrow> string \<Rightarrow> PurchasePlan option" where
  "human_plan s rid = (case aa_requests s rid of None \<Rightarrow> None
     | Some r \<Rightarrow> (case rr_plan r of None \<Rightarrow> None | Some p \<Rightarrow> if pl_requires_confirmation p then Some p else None))"

fun api_step ::
  "(string \<Rightarrow> string) \<Rightarrow> (string \<Rightarrow> string \<Rightarrow> string) \<Rightarrow> PlannerEnv \<Rightarrow> (string \<Rightarrow> datetime option) \<Rightarrow> AgentApi \<Rightarrow> api_op \<Rightarrow>
   api_out \<times> AgentApi" where
  "api_step sha hmac en read_iso s (ApiCreate prompt merchant buyer uid plan_uid) =
     (case create_agent_request sha hmac en s prompt merchant buyer uid plan_uid of (r, s') \<Rightarrow> (CreatedOut r, s'))"
| "api_step sha hmac en read_iso s (ApiConfirm rid token now) =
     (case confirm_agent_request hmac read_iso s rid token now of (r, s') \<Rightarrow> (ConfirmedOut r (human_plan s rid \<noteq> None), s'))"

fun api_fresh :: "AgentApi \<Rightarrow> api_op \<Rightarrow> bool" where
  "api_fresh s (ApiCreate prompt merchant buyer uid plan_uid) = (aa_requests s (request_id_of uid) = None)"
| "api_fresh s _ = True"

fun api_committed :: "api_out \<Rightarrow> bool" where
  "api_committed (ConfirmedOut (Inr _) human) = human"
| "api_committed _ = False"

fun api_request :: "api_op \<Rightarrow> string option" where
  "api_request (ApiConfirm rid token now) = Some rid"
| "api_request _ = None"

definition api_spent :: "(string \<Rightarrow> string \<Rightarrow> string) \<Rightarrow> AgentApi \<Rightarrow> string \<Rightarrow> bool" where
  "api_spent hmac s rid \<longleftrightarrow> (\<exists>p. human_plan s rid = Some p \<and> token_of hmac (cg_secret (aa_gate s)) (plan_confirmed p) \<in> cg_consumed (aa_gate s))"

lemma create_request_state:
  "snd (create_agent_request sha hmac en s prompt merchant buyer uid plan_uid) = s \<or>
     (\<exists>r. snd (create_agent_request sha hmac en s prompt merchant buyer uid plan_uid) =
        s\<lparr>aa_requests := (aa_requests s)(request_id_of uid \<mapsto> r)\<rparr>)"
  by (auto simp: create_agent_request_def Let_def split: sum.splits py_exc.splits)

lemma boundary_state:
  "cg_secret (snd (validate_plan_execution_boundary hmac read_iso g p token m now)) = cg_secret g \<and>
     cg_consumed g \<subseteq> cg_consumed (snd (validate_plan_execution_boundary hmac read_iso g p token m now))"
  by (auto simp: validate_plan_execution_boundary_def verify_token_state)

lemma boundary_human:
  assumes "validate_plan_execution_boundary hmac read_iso g p token m now = (Inr b, g')" "pl_requires_confirmation p"
  shows "token_of hmac (cg_secret g) (plan_confirmed p) \<notin> cg_consumed g \<and> token_of hmac (cg_secret g) (plan_confirmed p) \<in> cg_consumed g'"
proof -
  have v: "verify_and_consume_token hmac read_iso g token (plan_confirmed p) [] now = (Inr b, g')"
    using assms by (auto simp: validate_plan_execution_boundary_def split: if_splits)
  then have ok: "is_ok (fst (verify_and_consume_token hmac read_iso g token (plan_confirmed p) [] now))" by simp
  then have "g' = g\<lparr>cg_consumed := insert token (cg_consumed g)\<rparr>"
    using verify_token_state [of hmac read_iso g token "plan_confirmed p" "[]" now] v by simp
  with ok show ?thesis by (auto simp: verify_token_ok)
qed

lemma human_plan_status: "human_plan (s\<lparr>aa_gate := g, aa_requests := (aa_requests s)(rid \<mapsto> r\<lparr>rr_status := x\<rparr>)\<rparr>) k =
   human_plan (s\<lparr>aa_requests := (aa_requests s)(rid \<mapsto> r)\<rparr>) k"
  by (simp add: human_plan_def)

lemma confirm_request_cases:
  fixes s :: AgentApi
  obtains "snd (confirm_agent_request hmac read_iso s rid token now) = s"
      "\<not> is_ok (fst (confirm_agent_request hmac read_iso s rid token now))"
  | r p e g where "aa_requests s rid = Some r" "rr_plan r = Some p"
      "validate_plan_execution_boundary hmac read_iso (aa_gate s) p token (pl_merchant_id p) now = (Inl e, g)"
      "snd (confirm_agent_request hmac read_iso s rid token now) = s\<lparr>aa_gate := g\<rparr>"
      "\<not> is_ok (fst (confirm_agent_request hmac read_iso s rid token now))"
  | r p b g where "aa_requests s rid = Some r" "rr_plan r = Some p"
      "validate_plan_execution_boundary hmac read_iso (aa_gate s) p token (pl_merchant_id p) now = (Inr b, g)"
      "confirm_agent_request hmac read_iso s rid token now = (Inr (pl_amount_paise p),
         s\<lparr>aa_gate := g, aa_requests := (aa_requests s)(rid \<mapsto> r\<lparr>rr_status := ''COMMITTED''\<rparr>)\<rparr>)"
proof (cases "aa_requests s rid")
  case None
  then show ?thesis using that(1) by (simp add: confirm_agent_request_def)
next
  case r: (Some r)
  show ?thesis
  proof (cases "rr_plan r")
    case None
    then show ?thesis using that(1) r by (simp add: confirm_agent_request_def)
  next
    case p: (Some p)
    obtain q g where v: "validate_plan_execution_boundary hmac read_iso (aa_gate s) p token (pl_merchant_id p) now = (q, g)"
      by fastforce
    show ?thesis
    proof (cases q)
      case (Inl e)
      then show ?thesis using that(2) [OF r p] v by (simp add: confirm_agent_request_def r p)
    next
      case (Inr b)
      then show ?thesis using that(3) [OF r p] v by (simp add: confirm_agent_request_def r p)
    qed
  qed
qed

lemma confirm_commits:
  assumes "confirm_agent_request hmac read_iso s rid token now = (Inr a, s')" "human_plan s rid \<noteq> None"
  shows "\<not> api_spent hmac s rid \<and> api_spent hmac s' rid"
proof (cases rule: confirm_request_cases [of hmac read_iso s rid token now])
  case (3 r p b g)
  then have req: "pl_requires_confirmation p" using assms(2) by (simp add: human_plan_def split: if_splits)
  have s': "s' = s\<lparr>aa_gate := g, aa_requests := (aa_requests s)(rid \<mapsto> r\<lparr>rr_status := ''COMMITTED''\<rparr>)\<rparr>"
    using 3(4) assms(1) by simp
  have "cg_secret g = cg_secret (aa_gate s)" using boundary_state [of hmac read_iso "aa_gate s" p token "pl_merchant_id p" now] 3(3) by simp
  then show ?thesis using boundary_human [OF 3(3) req] 3(1,2) req by (simp add: api_spent_def s' human_plan_def)
qed (use assms in simp_all)

lemma confirm_keeps_spent:
  assumes "api_spent hmac s k"
  shows "api_spent hmac (snd (confirm_agent_request hmac read_iso s rid token now)) k"
proof (cases rule: confirm_request_cases [of hmac read_iso s rid token now])
  case 1
  then show ?thesis using assms by simp
next
  case (2 r p e g)
  then show ?thesis
    using assms boundary_state [of hmac read_iso "aa_gate s" p token "pl_merchant_id p" now] by (auto simp: api_spent_def human_plan_def)
next
  case (3 r p b g)
  then show ?thesis
    using assms boundary_state [of hmac read_iso "aa_gate s" p token "pl_merchant_id p" now]
    by (auto simp: api_spent_def human_plan_def split: option.splits if_splits)
qed

lemma create_keeps_spent:
  assumes "api_spent hmac s k" "aa_requests s (request_id_of uid) = None"
  shows "api_spent hmac (snd (create_agent_request sha hmac en s prompt merchant buyer uid plan_uid)) k"
proof -
  have "k \<noteq> request_id_of uid" using assms by (auto simp: api_spent_def human_plan_def)
  then show ?thesis
    using assms create_request_state [of sha hmac en s prompt merchant buyer uid plan_uid] by (auto simp: api_spent_def human_plan_def)
qed

interpretation agent_api: single_use "api_step sha hmac en read_iso" api_fresh "\<lambda>_. True" api_committed api_request "api_spent hmac"
  for sha hmac en read_iso
proof unfold_locales
  fix s :: AgentApi and x :: api_op and k :: string
  show "True" by simp
  have committed: "\<not> api_spent hmac s k \<and> api_spent hmac (snd (api_step sha hmac en read_iso s x)) k"
    if "api_request x = Some k" "api_committed (fst (api_step sha hmac en read_iso s x))"
  proof (cases x)
    case (ApiConfirm rid token now)
    obtain r s' where r: "confirm_agent_request hmac read_iso s rid token now = (r, s')" by fastforce
    with that ApiConfirm obtain a where "r = Inr a" "human_plan s rid \<noteq> None" by (cases r) auto
    then show ?thesis using confirm_commits [of hmac read_iso s rid token now a s'] r that(1) ApiConfirm by simp
  qed (use that in simp)
  then show "api_request x = Some k \<Longrightarrow> api_committed (fst (api_step sha hmac en read_iso s x)) \<Longrightarrow> \<not> api_spent hmac s k"
    "api_request x = Some k \<Longrightarrow> api_committed (fst (api_step sha hmac en read_iso s x)) \<Longrightarrow>
       api_spent hmac (snd (api_step sha hmac en read_iso s x)) k"
    by blast+
  assume adm: "api_fresh s x" and spent: "api_spent hmac s k"
  show "api_spent hmac (snd (api_step sha hmac en read_iso s x)) k"
  proof (cases x)
    case (ApiCreate prompt merchant buyer uid plan_uid)
    then show ?thesis
      using create_keeps_spent [OF spent, of uid sha en prompt merchant buyer plan_uid] adm by (simp add: case_prod_unfold)
  next
    case (ApiConfirm rid token now)
    then show ?thesis using confirm_keeps_spent [OF spent, of read_iso rid token now] by (simp add: case_prod_unfold)
  qed
qed

text \<open>C24: A purchase that a human must confirm is committed at most once: whatever requests are made and confirmed with
  whatever tokens, in whatever order, at most one confirmation of a request whose plan asks for a human succeeds.\<close>

theorem agent_purchase_committed_once:
  assumes "run_adm (api_step sha hmac en read_iso) api_fresh s ops"
  shows "accepted_count api_committed (\<lambda>x. api_request x = Some rid) ops (fst (run_ops (api_step sha hmac en read_iso) s ops)) \<le> 1"
  using agent_api.at_most_once [OF TrueI assms] .

section \<open>Where the price comes from\<close>

lemma find_in: "find P xs = Some x \<Longrightarrow> x \<in> set xs"
  by (induction xs) (auto split: if_splits)

lemma matching_source_in: "matching_source pid sel sources = Some src \<Longrightarrow> src \<in> set sources"
  by (auto simp: matching_source_def Let_def dest: find_in split: option.splits if_splits)

lemma recommendation_sourced:
  assumes "validate_recommendation sel sources = Inr t"
  shows "\<exists>src \<in> set sources. py_int (dget src ''amount_paise'' (JInt 0)) = Inr (pt_amount_paise t) \<and>
    pt_currency t = dget src ''currency'' (JStr ''INR'') \<and> pt_merchant_id t = dget src ''merchant_identity'' (JStr ''mer_default'') \<and>
    pt_source_url t = dget src ''source_url'' (JStr [])"
proof -
  obtain src where src: "matching_source (selected_id sel) sel sources = Some src"
    using assms by (auto simp: validate_recommendation_def split: if_splits option.splits)
  then have "src \<in> set sources" by (rule matching_source_in)
  moreover have "py_int (dget src ''amount_paise'' (JInt 0)) = Inr (pt_amount_paise t) \<and>
    pt_currency t = dget src ''currency'' (JStr ''INR'') \<and> pt_merchant_id t = dget src ''merchant_identity'' (JStr ''mer_default'') \<and>
    pt_source_url t = dget src ''source_url'' (JStr [])"
    using assms src by (auto simp: validate_recommendation_def bind_res_Inr split: if_splits)
  ultimately show ?thesis by blast
qed

text \<open>C25: The price of a planned purchase is never the language model's: when a request ends with a plan, its amount,
  currency, merchant and page are those of one of the products that the live search, or the search behind the tool when
  that one finds nothing, has returned for the extracted intent, and the plan carries the token of exactly this payment
  if it asks for a human.\<close>

theorem planned_price_is_sourced:
  assumes "process_request sha hmac en g rq uid = Inr d" "ad_plan d = Some p"
  shows "\<exists>i found src. pe_extract_intent en (ar_prompt rq) = Inr i \<and> src \<in> set found \<and>
    (pe_search_live en (ai_product_query i) (ai_max_amount_paise i) (ai_category i) = Inr found \<or>
     pe_orchestrator en (ai_product_query i) (ai_max_amount_paise i) = Inr found) \<and>
    py_int (dget src ''amount_paise'' (JInt 0)) = Inr (pl_amount_paise p) \<and>
    pl_currency p = dget src ''currency'' (JStr ''INR'') \<and> pl_merchant_id p = dget src ''merchant_identity'' (JStr ''mer_default'') \<and>
    pl_source_url p = dget src ''source_url'' (JStr []) \<and>
    pl_requires_confirmation p = ai_requires_confirmation i \<and>
    pl_confirmation_token p = (if ai_requires_confirmation i then Some (token_of hmac (cg_secret g) (plan_confirmed p)) else None)"
proof -
  obtain i live found where st: "pe_extract_intent en (ar_prompt rq) = Inr i"
    "pe_search_live en (ai_product_query i) (ai_max_amount_paise i) (ai_category i) = Inr live"
    "(if live = [] then pe_orchestrator en (ai_product_query i) (ai_max_amount_paise i) else Inr live) = Inr found" "found \<noteq> []"
    and rest: "bind_res (pe_rank en rq found) (\<lambda>ranked.
       case ranked of
         [] \<Rightarrow> Inl (Raise (SourceError ''IndexError'' []) (Msg ''list index out of range'' []))
       | sel # _ \<Rightarrow> formulate_plan sha hmac g rq i uid sel found) = Inr d"
    using assms unfolding process_request_def bind_res_Inr by (elim exE conjE) (auto simp: bind_res_Inr split: if_splits)
  then obtain sel ranked where "pe_rank en rq found = Inr (sel # ranked)" "formulate_plan sha hmac g rq i uid sel found = Inr d"
    unfolding bind_res_Inr by (elim exE conjE) (auto split: list.splits)
  then obtain t where "validate_recommendation sel found = Inr t" and p: "p = purchase_plan sha hmac g rq i t uid"
    using assms(2) by (auto simp: formulate_plan_def bind_res_Inr)
  then obtain src where "src \<in> set found" "py_int (dget src ''amount_paise'' (JInt 0)) = Inr (pt_amount_paise t)"
    "pt_currency t = dget src ''currency'' (JStr ''INR'')" "pt_merchant_id t = dget src ''merchant_identity'' (JStr ''mer_default'')"
    "pt_source_url t = dget src ''source_url'' (JStr [])"
    using recommendation_sourced by blast
  moreover have "pe_search_live en (ai_product_query i) (ai_max_amount_paise i) (ai_category i) = Inr found \<or>
     pe_orchestrator en (ai_product_query i) (ai_max_amount_paise i) = Inr found"
    using st(2,3) by (auto split: if_splits)
  ultimately show ?thesis using st(1) by (intro exI [of _ i] exI [of _ found] exI [of _ src]) (simp add: p purchase_plan_def plan_confirmed_def Let_def)
qed

section \<open>What the planner lets through\<close>

text \<open>Whether a human is asked is decided by what the language model extracts: a plan of an intent without
  \<open>requires_confirmation\<close> is committed by the confirm endpoint with any token, at any time, as often as it is called, and no
  token is used up.\<close>

theorem unconfirmed_plan_commits:
  assumes "aa_requests s rid = Some r" "rr_plan r = Some p" "\<not> pl_requires_confirmation p" "pl_merchant_id p = JStr m"
  shows "\<exists>s'. confirm_agent_request hmac read_iso s rid token now = (Inr (pl_amount_paise p), s') \<and> aa_gate s' = aa_gate s \<and>
    (\<exists>s''. confirm_agent_request hmac read_iso s' rid token' now' = (Inr (pl_amount_paise p), s''))"
  using assms by (simp add: confirm_agent_request_def validate_plan_execution_boundary_def)

definition sample_intent :: "bool \<Rightarrow> AgentIntent" where
  "sample_intent human = \<lparr>ai_intent_type = ''PURCHASE_PRODUCT'', ai_product_query = ''coffee'', ai_max_amount_paise = 100,
     ai_category = ''general'', ai_currency = ''INR'', ai_requires_confirmation = human\<rparr>"

definition sample_candidate :: candidate where
  "sample_candidate = [(''source_product_id'', JStr ''p1''), (''name'', JStr ''Coffee''), (''amount_paise'', JInt 5000),
     (''merchant_identity'', JStr ''m1'')]"

definition sample_planner :: "bool \<Rightarrow> PlannerEnv" where
  "sample_planner human = \<lparr>pe_extract_intent = (\<lambda>_. Inr (sample_intent human)), pe_search_live = (\<lambda>_ _ _. Inr [sample_candidate]),
     pe_orchestrator = (\<lambda>_ _. Inr []), pe_rank = (\<lambda>_ xs. Inr xs)\<rparr>"

definition sample_gate :: ConfirmationGate where
  "sample_gate = \<lparr>cg_secret = ''k'', cg_consumed = {}\<rparr>"

definition sample_request :: AgentRequest where
  "sample_request = \<lparr>ar_request_id = ''req_agent_1'', ar_merchant_id = ''m1'', ar_buyer_id = ''b1'', ar_prompt = ''coffee''\<rparr>"

lemma sample_plan:
  "\<exists>d p. process_request (\<lambda>_. ''h'') (\<lambda>_ _. ''s'') (sample_planner human) sample_gate sample_request ''1'' = Inr d \<and> ad_plan d = Some p
     \<and> pl_amount_paise p = 5000 \<and> pl_merchant_id p = JStr ''m1'' \<and> pl_requires_confirmation p = human"
  by (simp add: process_request_def sample_planner_def validate_intent_def sample_intent_def formulate_plan_def validate_recommendation_def
      sample_candidate_def matching_source_def selected_id_def same_id_def dget_def py_or_def purchase_plan_def Let_def)

text \<open>The price of a plan is not compared with the limit of the intent: this intent allows 100 paise.\<close>

lemma plan_over_budget:
  "\<exists>d p. process_request (\<lambda>_. ''h'') (\<lambda>_ _. ''s'') (sample_planner True) sample_gate sample_request ''1'' = Inr d \<and>
     ad_plan d = Some p \<and> ai_max_amount_paise (sample_intent True) < pl_amount_paise p"
  using sample_plan [of True] by (auto simp: sample_intent_def)

theorem planned_price_is_sourced_witness:
  "\<exists>d p. process_request (\<lambda>_. ''h'') (\<lambda>_ _. ''s'') (sample_planner True) sample_gate sample_request ''1'' = Inr d \<and>
     ad_plan d = Some p \<and> (\<exists>src i. pe_extract_intent (sample_planner True) ''coffee'' = Inr i \<and>
       py_int (dget src ''amount_paise'' (JInt 0)) = Inr (pl_amount_paise p))"
proof -
  obtain d p where d: "process_request (\<lambda>_. ''h'') (\<lambda>_ _. ''s'') (sample_planner True) sample_gate sample_request ''1'' = Inr d" "ad_plan d = Some p"
    using sample_plan [of True] by blast
  then show ?thesis using planned_price_is_sourced [OF d] by (auto simp: sample_request_def)
qed

definition sample_api :: "PurchasePlan \<Rightarrow> AgentApi" where
  "sample_api p = \<lparr>aa_requests = [''req_agent_1'' \<mapsto> \<lparr>rr_status = ''PLANNING'', rr_merchant_id = ''m1'', rr_buyer_id = ''b1'',
     rr_prompt = ''coffee'', rr_plan = Some p, rr_explanation = Msg [] []\<rparr>], aa_gate = sample_gate\<rparr>"

theorem unconfirmed_plan_commits_witness:
  "\<exists>p s'. pl_amount_paise p = 5000 \<and> confirm_agent_request (\<lambda>_ _. ''s'') (\<lambda>_. None) (sample_api p) ''req_agent_1'' [] 0 = (Inr 5000, s')"
proof -
  obtain p :: PurchasePlan where p: "pl_amount_paise p = 5000" "pl_merchant_id p = JStr ''m1''" "\<not> pl_requires_confirmation p"
    using sample_plan [of False] by auto
  have "aa_requests (sample_api p) ''req_agent_1'' = Some \<lparr>rr_status = ''PLANNING'', rr_merchant_id = ''m1'', rr_buyer_id = ''b1'',
     rr_prompt = ''coffee'', rr_plan = Some p, rr_explanation = Msg [] []\<rparr>" by (simp add: sample_api_def)
  from unconfirmed_plan_commits [OF this _ p(3) p(2), of "\<lambda>_ _. ''s''" "\<lambda>_. None" "[]" 0 "[]" 0] p(1) show ?thesis by auto
qed

theorem agent_purchase_committed_once_witness:
  "accepted_count api_committed (\<lambda>x. api_request x = Some ''req_agent_1'')
     [ApiCreate ''coffee'' ''m1'' ''b1'' ''1'' ''1'', ApiConfirm ''req_agent_1'' ''cnf_s'' 0, ApiConfirm ''req_agent_1'' ''cnf_s'' 1]
     (fst (run_ops (api_step (\<lambda>_. ''h'') (\<lambda>_ _. ''s'') (sample_planner True) (\<lambda>_. None)) \<lparr>aa_requests = Map.empty, aa_gate = sample_gate\<rparr>
       [ApiCreate ''coffee'' ''m1'' ''b1'' ''1'' ''1'', ApiConfirm ''req_agent_1'' ''cnf_s'' 0, ApiConfirm ''req_agent_1'' ''cnf_s'' 1])) \<le> 1"
  by (rule agent_purchase_committed_once) simp

end
