(* ===== verification/Commerce_Product.thy ===== *)
theory Commerce_Product
  imports Web_Url Iso_Time
begin

text \<open>
  What the commerce code knows of a product: the models of \<open>apps/api/commerce/models.py\<close>, the evaluation of a candidate by
  \<open>ProductTruthEngine\<close> (\<open>product_truth_engine.py\<close>), the seller (\<open>merchant_identity.py\<close>) and the live rechecks of price and stock
  (\<open>price_revalidation.py\<close>, \<open>availability_revalidation.py\<close>). A candidate is a dictionary of JSON values without fractions,
  and its values are passed on as they are. SHA-256 in hexadecimal is \<open>sha\<close>.
\<close>

section \<open>Models\<close>

datatype VerificationStatus = UNVERIFIED | SOURCE_BACKED | PRODUCT_VERIFIED | PRICE_CHANGED | OUT_OF_STOCK

fun verification_value :: "VerificationStatus \<Rightarrow> string" where
  "verification_value UNVERIFIED = ''UNVERIFIED''"
| "verification_value SOURCE_BACKED = ''SOURCE_BACKED''"
| "verification_value PRODUCT_VERIFIED = ''PRODUCT_VERIFIED''"
| "verification_value PRICE_CHANGED = ''PRICE_CHANGED''"
| "verification_value OUT_OF_STOCK = ''OUT_OF_STOCK''"

datatype CheckoutCapability = VERIFIED_API | CHECKOUT_HANDOFF | DISCOVERY_ONLY | UNSUPPORTED

fun capability_text :: "CheckoutCapability \<Rightarrow> string" where
  "capability_text VERIFIED_API = ''VERIFIED_API''"
| "capability_text CHECKOUT_HANDOFF = ''CHECKOUT_HANDOFF''"
| "capability_text DISCOVERY_ONLY = ''DISCOVERY_ONLY''"
| "capability_text UNSUPPORTED = ''UNSUPPORTED''"

record PriceEvidence =
  pe_amount_paise :: int
  pe_currency :: json
  pe_verified_at :: json
  pe_evidence_url :: json
  pe_evidence_hash :: string

record AvailabilityEvidence =
  ae_is_in_stock :: json
  ae_stock_quantity :: json
  ae_verified_at :: json
  ae_evidence_url :: json

record MerchantIdentity =
  mi_merchant_id :: string
  mi_domain :: string
  mi_legal_name :: json
  mi_identity_status :: string

record VerifiedProduct =
  vp_product_id :: json
  vp_name :: json
  vp_description :: json
  vp_price :: PriceEvidence
  vp_availability :: AvailabilityEvidence
  vp_merchant :: MerchantIdentity
  vp_source_url :: json
  vp_retrieved_at :: json
  vp_status :: VerificationStatus
  vp_evidence_hash :: string

record TruthResult =
  tt_product :: VerifiedProduct
  tt_sku_verified :: bool
  tt_price_verified :: bool
  tt_merchant_verified :: bool
  tt_errors :: "msg list"

section \<open>The truth of a candidate\<close>

definition exact_url :: "(string \<Rightarrow> bool) \<Rightarrow> json \<Rightarrow> bool res" where
  "exact_url ip6 v = (if \<not> truthy v then Inr False else case v of
      JStr u \<Rightarrow> is_exact_product_url ip6 u | _ \<Rightarrow> Inl (attribute_error ''decode''))"

definition netloc_of :: "(string \<Rightarrow> bool) \<Rightarrow> json \<Rightarrow> string res" where
  \<comment> \<open>\<open>urlparse(v).netloc\<close>, of a value that is a text or was found to be falsy\<close>
  "netloc_of ip6 v = (case v of JStr u \<Rightarrow> bind_res (urlparse ip6 u) (\<lambda>p. Inr (up_netloc p)) | _ \<Rightarrow> Inr [])"

definition domain_of :: "string \<Rightarrow> string" where
  "domain_of netloc = (if netloc = [] then ''unknown.local'' else replace_all ''www.'' [] netloc)"

definition merchant_id_of :: "string \<Rightarrow> string" where
  "merchant_id_of domain = ''mer_'' @ take 25 (map (\<lambda>c. if c = CHR ''.'' then CHR ''_'' else c) domain)"

definition truth_status :: "bool \<Rightarrow> bool \<Rightarrow> bool \<Rightarrow> json \<Rightarrow> VerificationStatus" where
  "truth_status sku price merchant claimed =
     (if sku \<and> price \<and> merchant then PRODUCT_VERIFIED
      else if claimed = JStr ''SOURCE_BACKED'' \<or> \<not> sku then SOURCE_BACKED
      else UNVERIFIED)"

definition first_of :: "(string \<times> json) list \<Rightarrow> string \<Rightarrow> string \<Rightarrow> json \<Rightarrow> json" where
  \<comment> \<open>\<open>d.get(k) or d.get(l) or default\<close>\<close>
  "first_of d k l dflt = py_or (py_or (get_or_none d k) (get_or_none d l)) dflt"

definition evaluate_product ::
  "(string \<Rightarrow> string) \<Rightarrow> (string \<Rightarrow> bool) \<Rightarrow> (string \<times> json) list \<Rightarrow> datetime \<Rightarrow> TruthResult res" where
  "evaluate_product sha ip6 d now =
     bind_res (py_int (py_or (get_or_none d ''amount_paise'') (JInt 0))) (\<lambda>amount.
     (let pid = first_of d ''product_id'' ''source_product_id'' (JStr []);
          name = first_of d ''name'' ''title'' (JStr []);
          desc = py_or (get_or_none d ''description'') (JStr []);
          url = first_of d ''source_url'' ''url'' (JStr []);
          cur = py_or (get_or_none d ''currency'') (JStr ''INR'');
          at = py_or (get_or_none d ''retrieval_timestamp'') (JStr (isoformat now))
      in bind_res (exact_url ip6 url) (\<lambda>sku.
         bind_res (netloc_of ip6 url) (\<lambda>netloc.
         let price_ok = (amount \<ge> 1000 \<and> cur = JStr ''INR'');
             domain = domain_of netloc; merchant_ok = (domain \<noteq> [] \<and> domain \<noteq> ''unknown.local'');
             merchant = \<lparr>mi_merchant_id = merchant_id_of domain, mi_domain = domain,
               mi_legal_name = first_of d ''merchant_name'' ''merchant_identity'' (JStr ''Unknown''),
               mi_identity_status = (if merchant_ok then ''VERIFIED'' else ''UNKNOWN'')\<rparr>;
             h = sha (join_with ''|'' [py_str url, py_str name, int_str amount, py_str cur, py_str at])
         in Inr \<lparr>tt_product = \<lparr>vp_product_id = (if truthy pid then pid else JStr (''prod_'' @ take 10 h)), vp_name = name,
                vp_description = desc,
                vp_price = \<lparr>pe_amount_paise = amount, pe_currency = cur, pe_verified_at = at, pe_evidence_url = url, pe_evidence_hash = h\<rparr>,
                vp_availability = \<lparr>ae_is_in_stock = dget d ''availability'' (JBool True), ae_stock_quantity = get_or_none d ''stock_quantity'',
                  ae_verified_at = at, ae_evidence_url = url\<rparr>,
                vp_merchant = merchant, vp_source_url = url, vp_retrieved_at = at,
                vp_status = truth_status sku price_ok merchant_ok (get_or_none d ''verification_status''), vp_evidence_hash = h\<rparr>,
              tt_sku_verified = sku, tt_price_verified = price_ok, tt_merchant_verified = merchant_ok,
              tt_errors = (if sku then [] else [Msg ''URL {} is a collection/listing page, not a single SKU product detail page.'' [PStr (py_str url)]]) @
                (if price_ok then [] else [Msg ''Price amount {} Paise is unverified or invalid.'' [PInt amount]])\<rparr>))))"

section \<open>Sellers\<close>

definition known_merchants :: "string \<rightharpoonup> string \<times> string" where
  "known_merchants = [''cafeacme.local'' \<mapsto> (''mer_cafe_acme'', ''Cafe Acme Specialty Coffee Ltd''),
     ''bluetokaicoffee.com'' \<mapsto> (''mer_bluetokai'', ''Blue Tokai Coffee Roasters''),
     ''crossword.in'' \<mapsto> (''mer_crossword'', ''Crossword Bookstores Ltd'')]"

definition resolve_seller_identity ::
  "(string \<Rightarrow> bool) \<Rightarrow> (string \<Rightarrow> string) \<Rightarrow> string \<Rightarrow> string option \<Rightarrow> MerchantIdentity" where
  \<comment> \<open>\<open>title\<close> is \<open>str.title\<close>\<close>
  "resolve_seller_identity ip6 title url proposed =
     (let domain = (if url = [] then [] else case urlparse ip6 url of
          Inl _ \<Rightarrow> [] | Inr p \<Rightarrow> lower (replace_all ''www.'' [] (up_netloc p)))
      in case known_merchants domain of
        Some (mid, name) \<Rightarrow> \<lparr>mi_merchant_id = mid, mi_domain = domain, mi_legal_name = JStr name, mi_identity_status = ''VERIFIED''\<rparr>
      | None \<Rightarrow>
          if domain \<noteq> [] \<and> domain \<noteq> ''unknown.local'' then
            \<lparr>mi_merchant_id = text_or proposed (merchant_id_of domain), mi_domain = domain,
             mi_legal_name = JStr (title (hd (split_on (CHR ''.'') domain)) @ '' Online Store''), mi_identity_status = ''SOURCE_BACKED''\<rparr>
          else \<lparr>mi_merchant_id = text_or proposed ''mer_unknown'', mi_domain = ''unknown.local'',
             mi_legal_name = JStr ''Unverified Seller Domain'', mi_identity_status = ''UNKNOWN''\<rparr>)"

section \<open>Live rechecks\<close>

definition revalidate_price ::
  "(string \<Rightarrow> string) \<Rightarrow> VerifiedProduct \<Rightarrow> (string \<times> json) list option \<Rightarrow> datetime \<Rightarrow> (bool \<times> PriceEvidence \<times> bool) res" where
  "revalidate_price sha p live now =
     (let known = pe_amount_paise (vp_price p); given = option_or live [] in
      bind_res (if given = [] then Inr known else py_int (dget given ''amount_paise'' (JInt known))) (\<lambda>current.
        let url = (if given = [] then vp_source_url p else dget given ''source_url'' (vp_source_url p));
            changed = (current \<noteq> known) in
        Inr (\<not> changed,
          \<lparr>pe_amount_paise = current, pe_currency = pe_currency (vp_price p), pe_verified_at = JStr (isoformat now), pe_evidence_url = url,
           pe_evidence_hash = sha (join_with ''|'' [py_str url, int_str current, py_str (pe_currency (vp_price p)), isoformat now])\<rparr>,
          changed)))"

definition revalidate_availability ::
  "VerifiedProduct \<Rightarrow> (string \<times> json) list option \<Rightarrow> datetime \<Rightarrow> json \<times> AvailabilityEvidence" where
  "revalidate_availability p live now =
     (let given = option_or live []; stock = (case map_of given ''availability'' of
          None \<Rightarrow> ae_is_in_stock (vp_availability p) | Some v \<Rightarrow> JBool (truthy v)) in
      (stock, \<lparr>ae_is_in_stock = stock, ae_stock_quantity = dget given ''stock_quantity'' (ae_stock_quantity (vp_availability p)),
        ae_verified_at = JStr (isoformat now), ae_evidence_url = dget given ''source_url'' (vp_source_url p)\<rparr>))"

section \<open>What the evaluation establishes\<close>

lemma evaluated:
  assumes "evaluate_product sha ip6 d now = Inr t"
  shows "vp_status (tt_product t) = truth_status (tt_sku_verified t) (tt_price_verified t) (tt_merchant_verified t) (get_or_none d ''verification_status'')"
    "tt_price_verified t = (1000 \<le> pe_amount_paise (vp_price (tt_product t)) \<and> pe_currency (vp_price (tt_product t)) = JStr ''INR'')"
    "tt_merchant_verified t = (mi_domain (vp_merchant (tt_product t)) \<noteq> [] \<and> mi_domain (vp_merchant (tt_product t)) \<noteq> ''unknown.local'')"
    "exact_url ip6 (vp_source_url (tt_product t)) = Inr (tt_sku_verified t)"
  using assms by (auto simp: evaluate_product_def Let_def bind_res_Inr)

text \<open>A product is verified only on the whole evidence: its page is the page of one product on a named host, and its
  price is at least one thousand paise in rupees.\<close>

theorem verified_product_has_evidence:
  assumes "evaluate_product sha ip6 d now = Inr t" "vp_status (tt_product t) = PRODUCT_VERIFIED"
  shows "\<exists>u p. vp_source_url (tt_product t) = JStr u \<and> urlparse ip6 u = Inr p \<and> up_scheme p \<in> {''http'', ''https''} \<and>
     product_path (lower (up_path p)) \<and> mi_domain (vp_merchant (tt_product t)) \<noteq> [] \<and>
     1000 \<le> pe_amount_paise (vp_price (tt_product t)) \<and> pe_currency (vp_price (tt_product t)) = JStr ''INR''"
proof -
  have all: "tt_sku_verified t" "tt_price_verified t" "tt_merchant_verified t"
    using evaluated(1) [OF assms(1)] assms(2) by (auto simp: truth_status_def split: if_splits)
  then have "exact_url ip6 (vp_source_url (tt_product t)) = Inr True" using evaluated(4) [OF assms(1)] by simp
  then obtain u p where "vp_source_url (tt_product t) = JStr u" "urlparse ip6 u = Inr p" "up_scheme p \<in> {''http'', ''https''}"
    "product_path (lower (up_path p))"
    by (auto simp: exact_url_def is_exact_product_url_def bind_res_Inr split: if_splits json.splits)
  then show ?thesis using all evaluated(2,3) [OF assms(1)] by blast
qed

lemma verified_product_has_evidence_witness:
  "\<exists>t u p. evaluate_product (\<lambda>x. x) (\<lambda>_. True) [(''source_url'', JStr ''http://shop.in/product/1''), (''amount_paise'', JInt 14000)] 0 = Inr t \<and>
     vp_source_url (tt_product t) = JStr u \<and> urlparse (\<lambda>_. True) u = Inr p \<and> product_path (lower (up_path p))"
proof -
  have "split_scheme (clean_url ''http://shop.in/product/1'') = (''http'', ''//shop.in/product/1'')"
    "split_netloc ''//shop.in/product/1'' = (''shop.in'', ''/product/1'')" "drop_params ''/product/1'' = ''/product/1''" by code_simp+
  then have "urlparse (\<lambda>_. True) ''http://shop.in/product/1'' = Inr \<lparr>up_scheme = ''http'', up_netloc = ''shop.in'', up_path = ''/product/1''\<rparr>"
    by (simp add: urlparse_def params_schemes_def)
  moreover have "product_path (lower ''/product/1'')" "domain_of ''shop.in'' = ''shop.in''" by code_simp+
  ultimately have "case evaluate_product (\<lambda>x. x) (\<lambda>_. True) [(''source_url'', JStr ''http://shop.in/product/1''), (''amount_paise'', JInt 14000)] 0 of
      Inr t \<Rightarrow> vp_status (tt_product t) = PRODUCT_VERIFIED | Inl _ \<Rightarrow> False"
    by (simp add: evaluate_product_def dget_def py_or_def first_of_def exact_url_def is_exact_product_url_def netloc_of_def truth_status_def Let_def)
  then obtain t where t: "evaluate_product (\<lambda>x. x) (\<lambda>_. True) [(''source_url'', JStr ''http://shop.in/product/1''), (''amount_paise'', JInt 14000)] 0 = Inr t"
    "vp_status (tt_product t) = PRODUCT_VERIFIED" by (auto split: sum.splits)
  from verified_product_has_evidence [OF this] t(1) show ?thesis by blast
qed

lemma not_exact_passes:
  \<comment> \<open>the less of a product page its URL is, the better its status: the status \<open>UNVERIFIED\<close> needs an exact page\<close>
  "evaluate_product sha ip6 d now = Inr t \<Longrightarrow> vp_status (tt_product t) = UNVERIFIED \<Longrightarrow> tt_sku_verified t"
  using evaluated(1) by (auto simp: truth_status_def split: if_splits)

end
