(* ===== verification/Connectors.thy ===== *)
theory Connectors
  imports Commerce_Product Contracts Session
begin

text \<open>
  Commerce connectors: the interface and its three implementations (\<open>apps/api/commerce/connectors\<close>), the registry
  (\<open>connector_registry.py\<close>), the resolution of what a product may be bought with (\<open>connector_resolver.py\<close>) and the health
  monitor (\<open>connector_health.py\<close>), whose rates are compared in tenths of a percent. A registered connector is given by
  its identifier, its capability and the domains it supports.
\<close>

section \<open>Connectors\<close>

record Connector =
  cn_id :: string
  cn_capability :: CheckoutCapability
  cn_supports :: "string \<Rightarrow> bool"

definition generic_web :: Connector where
  "generic_web = \<lparr>cn_id = ''connector_generic_web'', cn_capability = CHECKOUT_HANDOFF,
     cn_supports = (\<lambda>d. d \<noteq> [] \<and> d \<noteq> ''unknown.local'')\<rparr>"

definition real_domains :: "string set" where
  "real_domains = {''cafeacme.local'', ''api.cafeacme.local'', ''store.cafeacme.local''}"

definition real_platform :: Connector where
  "real_platform = \<lparr>cn_id = ''connector_cafe_acme_api'', cn_capability = VERIFIED_API,
     cn_supports = (\<lambda>d. d \<noteq> [] \<and> norm_hash d \<in> real_domains)\<rparr>"

definition public_domains :: "string set" where
  "public_domains = {''world.openfoodfacts.org'', ''api.openfoodfacts.org'', ''openfoodfacts.org'', ''openfoodfacts.local''}"

definition public_platform :: Connector where
  "public_platform = \<lparr>cn_id = ''connector_openfoodfacts_public_api'', cn_capability = VERIFIED_API,
     cn_supports = (\<lambda>d. d \<noteq> [] \<and> norm_hash d \<in> public_domains)\<rparr>"

section \<open>The registry\<close>

record ConnectorRegistry =
  cr_connectors :: "Connector table"
  cr_domains :: "string \<rightharpoonup> string"

definition registry_init :: ConnectorRegistry where
  "registry_init = \<lparr>cr_connectors = [], cr_domains = Map.empty\<rparr>"

fun map_domains :: "string \<Rightarrow> string list \<Rightarrow> (string \<rightharpoonup> string) \<Rightarrow> unit res \<times> (string \<rightharpoonup> string)" where
  \<comment> \<open>the domains before one that is taken are kept\<close>
  "map_domains cid [] m = (Inr (), m)"
| "map_domains cid (d # ds) m =
     (case m (norm_hash d) of
        Some other \<Rightarrow> (Inl (connector_error (Msg ''Domain conflict detected: Domain {} is already registered to {}.''
          [PStr (norm_hash d), PStr other])), m)
      | None \<Rightarrow> map_domains cid ds (m(norm_hash d \<mapsto> cid)))"

definition register_connector :: "ConnectorRegistry \<Rightarrow> Connector \<Rightarrow> string list \<Rightarrow> unit res \<times> ConnectorRegistry" where
  "register_connector g c domains =
     (if row_of (cr_connectors g) (cn_id c) \<noteq> None then
        (Inl (connector_error (Msg ''Duplicate connector registration rejected for {}.'' [PStr (cn_id c)])), g)
      else case map_domains (cn_id c) domains (cr_domains g) of
        (r, m) \<Rightarrow> (r, \<lparr>cr_connectors = put_row (cn_id c) c (cr_connectors g), cr_domains = m\<rparr>))"

definition resolve_connector :: "ConnectorRegistry \<Rightarrow> string \<Rightarrow> Connector" where
  "resolve_connector g domain =
     (if domain = [] then generic_web
      else let d = norm_hash domain in
        case (case cr_domains g d of Some cid \<Rightarrow> if cid = [] then None else row_of (cr_connectors g) cid | None \<Rightarrow> None) of
          Some c \<Rightarrow> c
        | None \<Rightarrow> option_or (find (\<lambda>c. cn_supports c d) (rows_of (cr_connectors g))) generic_web)"

definition get_connector :: "ConnectorRegistry \<Rightarrow> string \<Rightarrow> Connector option" where
  "get_connector g cid = row_of (cr_connectors g) cid"

definition commerce_registry :: ConnectorRegistry where
  \<comment> \<open>as the router sets it up\<close>
  "commerce_registry =
     snd (register_connector (snd (register_connector registry_init real_platform [''cafeacme.local'', ''api.cafeacme.local'']))
       public_platform [''world.openfoodfacts.org'', ''api.openfoodfacts.org'', ''openfoodfacts.org''])"

section \<open>Capabilities\<close>

definition resolve_capability :: "ConnectorRegistry \<Rightarrow> VerifiedProduct \<Rightarrow> CheckoutCapability \<times> msg" where
  "resolve_capability g p =
     (if vp_status p = UNVERIFIED then
        (DISCOVERY_ONLY, Msg ''Product identity or price is unverified. Checkout is unavailable.'' [])
      else if vp_status p = OUT_OF_STOCK \<or> \<not> truthy (ae_is_in_stock (vp_availability p)) then
        (DISCOVERY_ONLY, Msg ''Product is currently out of stock. Checkout is unavailable.'' [])
      else
        let c = resolve_connector g (mi_domain (vp_merchant p)) in
        case cn_capability c of
          VERIFIED_API \<Rightarrow> (VERIFIED_API, Msg ''Product verified. Direct checkout API available via {}.'' [PStr (cn_id c)])
        | CHECKOUT_HANDOFF \<Rightarrow> (CHECKOUT_HANDOFF,
            Msg ''Product verified. Direct API checkout unavailable. Secure merchant checkout handoff available.'' [])
        | DISCOVERY_ONLY \<Rightarrow> (DISCOVERY_ONLY,
            Msg ''Product discovery verified. Checkout handoff unavailable for target seller domain.'' [])
        | UNSUPPORTED \<Rightarrow> (UNSUPPORTED, Msg ''Unsupported merchant domain for checkout execution.'' []))"

section \<open>The orders of a platform\<close>

record MerchantOrder =
  mo_order_id :: string
  mo_request_id :: string
  mo_buyer_id :: string
  mo_product_id :: json
  mo_product_name :: json
  mo_amount_paise :: int
  mo_currency :: json
  mo_payment_transaction_id :: string
  mo_binding_hash :: string
  mo_status :: string
  mo_created_at :: string
  mo_evidence_hash :: string

type_synonym merchant_orders = "MerchantOrder table"

definition create_platform_order ::
  "(string \<Rightarrow> string) \<Rightarrow> string \<Rightarrow> merchant_orders \<Rightarrow> string \<Rightarrow> string \<Rightarrow> VerifiedProduct \<Rightarrow> string \<Rightarrow> string \<Rightarrow> string \<Rightarrow>
   datetime \<Rightarrow> MerchantOrder res \<times> merchant_orders" where
  \<comment> \<open>\<open>create_order\<close> of both platforms, which differ in the prefix of the identifier\<close>
  "create_platform_order sha prefix os request_id buyer p payment binding uid now =
     (if payment = [] then
        (Inl (connector_error (Msg ''Authorized payment transaction ID required for merchant order creation.'' [])), os)
      else
        let oid = prefix @ uid;
            h = sha (join_with ''|'' [oid, payment, py_str (vp_product_id p), int_str (pe_amount_paise (vp_price p)), binding, isoformat now]);
            r = \<lparr>mo_order_id = oid, mo_request_id = request_id, mo_buyer_id = buyer, mo_product_id = vp_product_id p,
              mo_product_name = vp_name p, mo_amount_paise = pe_amount_paise (vp_price p), mo_currency = pe_currency (vp_price p),
              mo_payment_transaction_id = payment, mo_binding_hash = binding, mo_status = ''ORDER_CONFIRMED'',
              mo_created_at = isoformat now, mo_evidence_hash = h\<rparr>
        in (Inr r, put_row oid r os))"

definition real_prefix :: string where "real_prefix = ''m_ord_acme_''"
definition public_prefix :: string where "public_prefix = ''m_ord_off_''"

definition retrieve_order :: "merchant_orders \<Rightarrow> string \<Rightarrow> MerchantOrder option" where
  "retrieve_order os oid = row_of os oid"

definition verify_order :: "merchant_orders \<Rightarrow> string \<Rightarrow> string \<Rightarrow> MerchantOrder option" where
  \<comment> \<open>the first order of this identifier or of this payment; \<open>None\<close> for the status NOT_FOUND\<close>
  "verify_order os oid payment = find (\<lambda>r. mo_order_id r = oid \<or> mo_payment_transaction_id r = payment) (rows_of os)"

definition catalogue_price :: "json \<Rightarrow> int" where
  \<comment> \<open>\<open>get_product\<close> of the Cafe Acme platform\<close>
  "catalogue_price pid = (if pid \<in> {JStr ''prod_tea_01'', JStr ''sku_earl_grey_tea''} then 14000 else 18000)"

datatype revalidation = PriceMutated int | Revalidated int

definition revalidate_real :: "VerifiedProduct \<Rightarrow> revalidation" where
  \<comment> \<open>the catalogue always reports the product in stock\<close>
  "revalidate_real p = (let current = catalogue_price (vp_product_id p) in
     if current = pe_amount_paise (vp_price p) then Revalidated current else PriceMutated current)"

definition create_platform_cart :: "string \<Rightarrow> (string \<times> json) list list \<Rightarrow> int res" where
  \<comment> \<open>the total of the cart\<close>
  "create_platform_cart buyer items =
     (if buyer = [] \<or> items = [] then
        Inl (connector_error (Msg ''Buyer ID and at least one item required to create merchant cart.'' []))
      else foldl (\<lambda>acc d. bind_res acc (\<lambda>n. bind_res (py_int (dget d ''amount_paise'' (JInt 0))) (\<lambda>a.
             bind_res (py_int (dget d ''quantity'' (JInt 1))) (\<lambda>q. Inr (n + a * q))))) (Inr 0) items)"

definition create_platform_checkout :: "string \<Rightarrow> string \<Rightarrow> string res" where
  "create_platform_checkout prefix_uid cart_id =
     (if cart_id = [] then Inl (connector_error (Msg ''Cart ID required for merchant checkout creation.'' []))
      else Inr (''chk_'' @ prefix_uid))"

definition prepare_platform_checkout :: "VerifiedProduct \<Rightarrow> string \<Rightarrow> int res" where
  \<comment> \<open>the total of the prepared cart; \<open>Inl\<close> for the status FAILED\<close>
  "prepare_platform_checkout p buyer =
     create_platform_cart buyer [[(''product_id'', vp_product_id p), (''amount_paise'', JInt (pe_amount_paise (vp_price p))), (''quantity'', JInt 1)]]"

definition prepare_generic_checkout :: "(string \<Rightarrow> bool) \<Rightarrow> VerifiedProduct \<Rightarrow> string res" where
  \<comment> \<open>the URL of the package; \<open>Inl\<close> for the status FAILED\<close>
  "prepare_generic_checkout ip6 p = (case vp_source_url p of
      JStr u \<Rightarrow> validate_handoff_url ip6 u
    | v \<Rightarrow> if truthy v then Inl (attribute_error ''strip'') else Inl (connector_error (Msg ''Handoff URL is empty.'' [])))"

section \<open>Health\<close>

record ConnectorHealth =
  hm_status :: string
  hm_latency_ms :: int
  hm_success :: int
  hm_failure :: int
  hm_rate_limited :: int
  hm_webhook_failures :: int
  hm_rate_tenths :: int
  hm_last_checked :: datetime

definition health_status :: "int \<Rightarrow> int \<Rightarrow> string" where
  "health_status rate limited = (if rate < 900 \<or> limited > 5 then ''DEGRADED'' else if rate < 700 then ''UNAVAILABLE'' else ''HEALTHY'')"

definition new_health :: "int \<Rightarrow> datetime \<Rightarrow> ConnectorHealth" where
  "new_health ms now = \<lparr>hm_status = ''HEALTHY'', hm_latency_ms = ms, hm_success = 0, hm_failure = 0, hm_rate_limited = 0,
     hm_webhook_failures = 0, hm_rate_tenths = 1000, hm_last_checked = now\<rparr>"

definition record_call ::
  "(int \<Rightarrow> int \<Rightarrow> int) \<Rightarrow> (int \<Rightarrow> int \<Rightarrow> int) \<Rightarrow> (string \<rightharpoonup> ConnectorHealth) \<Rightarrow> string \<Rightarrow> int \<Rightarrow> bool \<Rightarrow> bool \<Rightarrow> datetime \<Rightarrow>
   (string \<rightharpoonup> ConnectorHealth)" where
  \<comment> \<open>\<open>smooth\<close> is the rounding of the weighted latency and \<open>rate\<close> the success rate of so many in tenths of a percent, both
    computed in floating point\<close>
  "record_call smooth rate m cid ms success limited now =
     (let h = option_or (m cid) (new_health ms now);
          ok = hm_success h + (if success then 1 else 0); bad = hm_failure h + (if success then 0 else 1);
          lim = hm_rate_limited h + (if limited then 1 else 0);
          r = rate ok (ok + bad)
      in m(cid \<mapsto> h\<lparr>hm_success := ok, hm_failure := bad, hm_rate_limited := lim, hm_latency_ms := smooth (hm_latency_ms h) ms,
           hm_rate_tenths := r, hm_status := health_status r lim, hm_last_checked := now\<rparr>))"

definition record_webhook_failure :: "(string \<rightharpoonup> ConnectorHealth) \<Rightarrow> string \<Rightarrow> (string \<rightharpoonup> ConnectorHealth)" where
  "record_webhook_failure m cid = (case m cid of None \<Rightarrow> m
     | Some h \<Rightarrow> m(cid \<mapsto> h\<lparr>hm_webhook_failures := hm_webhook_failures h + 1\<rparr>))"

lemma unavailable_unreachable:
  \<comment> \<open>the status UNAVAILABLE is never given: a rate under 70 percent is under 90\<close>
  "health_status rate limited \<noteq> ''UNAVAILABLE''"
  by (simp add: health_status_def)

section \<open>What the registry promises\<close>

definition registry_ok :: "ConnectorRegistry \<Rightarrow> bool" where
  "registry_ok g \<longleftrightarrow> (\<forall>cid c. row_of (cr_connectors g) cid = Some c \<longrightarrow> cn_id c = cid) \<and>
     (\<forall>d cid. cr_domains g d = Some cid \<longrightarrow> row_of (cr_connectors g) cid \<noteq> None)"

lemma map_domains_range:
  "map_domains cid ds m = (r, m') \<Longrightarrow> m' d = Some x \<Longrightarrow> m d = Some x \<or> x = cid"
  by (induction cid ds m rule: map_domains.induct) (auto split: option.splits if_splits)

lemma map_domains_keeps:
  "map_domains cid ds m = (r, m') \<Longrightarrow> m d = Some x \<Longrightarrow> m' d = Some x"
proof (induction cid ds m rule: map_domains.induct)
  case (2 cid e ds m)
  show ?case
  proof (cases "m (norm_hash e)")
    case None
    then have "(m(norm_hash e \<mapsto> cid)) d = Some x" using "2.prems"(2) by auto
    then show ?thesis using "2.IH" None "2.prems"(1) by (simp del: fun_upd_apply)
  qed (use "2.prems" in simp)
qed simp

definition register_step :: "ConnectorRegistry \<Rightarrow> Connector \<times> string list \<Rightarrow> unit res \<times> ConnectorRegistry" where
  "register_step g x = register_connector g (fst x) (snd x)"

interpretation connector_registry: machine register_step "\<lambda>_ _. True" registry_ok
proof unfold_locales
  fix g :: ConnectorRegistry and x :: "Connector \<times> string list"
  assume ok: "registry_ok g"
  obtain c ds where x: "x = (c, ds)" by (cases x)
  obtain r m where m: "map_domains (cn_id c) ds (cr_domains g) = (r, m)" by fastforce
  have range: "\<exists>y. row_of (cr_connectors g) cid = Some y" if "m d = Some cid" "cid \<noteq> cn_id c" for d cid
    using map_domains_range [OF m that(1)] that(2) ok by (auto simp: registry_ok_def)
  show "registry_ok (snd (register_step g x))"
  proof (cases "row_of (cr_connectors g) (cn_id c)")
    case None
    then have "register_step g x = (r, \<lparr>cr_connectors = put_row (cn_id c) c (cr_connectors g), cr_domains = m\<rparr>)"
      by (simp add: register_step_def register_connector_def x m)
    then show ?thesis using ok range by (auto simp: registry_ok_def)
  qed (use ok in \<open>simp add: register_step_def register_connector_def x\<close>)
qed

lemma domain_stays:
  assumes "cr_domains g d = Some cid"
  shows "cr_domains (snd (register_connector g c ds)) d = Some cid"
  using assms map_domains_keeps [of "cn_id c" ds "cr_domains g"]
  by (cases "map_domains (cn_id c) ds (cr_domains g)") (auto simp: register_connector_def)

lemma conflict_leaves_connector:
  \<comment> \<open>a registration that raises because of a domain leaves its connector behind\<close>
  "\<exists>g c ds e g'. register_connector g c ds = (Inl e, g') \<and> get_connector g (cn_id c) = None \<and> get_connector g' (cn_id c) = Some c"
proof -
  let ?g = "\<lparr>cr_connectors = [], cr_domains = [''a'' \<mapsto> ''x'']\<rparr>"
  have "norm_hash ''a'' = ''a''" by code_simp
  then have "register_connector ?g public_platform [''a''] = (Inl (connector_error (Msg ''Domain conflict detected: Domain {} is already registered to {}.''
          [PStr ''a'', PStr ''x''])), \<lparr>cr_connectors = put_row (cn_id public_platform) public_platform [], cr_domains = [''a'' \<mapsto> ''x'']\<rparr>)"
    by (simp add: register_connector_def)
  moreover have "get_connector ?g (cn_id public_platform) = None" by (simp add: get_connector_def)
  ultimately show ?thesis
    by (intro exI [of _ ?g] exI [of _ public_platform] exI [of _ "[''a'']"] exI conjI) (assumption | simp add: get_connector_def)+
qed

end
