(* ===== verification/Commerce_Orders.thy ===== *)
theory Commerce_Orders
  imports Commerce_Product Contracts Session
begin

text \<open>
  What the commerce code keeps of orders: the binding digest (\<open>apps/api/commerce/order_binding.py\<close>), the bindings between
  payments and merchant orders (\<open>transaction_binding.py\<close>), the outcomes of orders (\<open>order_verification.py\<close>), the signed
  webhooks of merchants (\<open>webhooks.py\<close>) and the reconciliation records (\<open>reconciliation.py\<close>). \<open>hmac\<close> is HMAC-SHA256 in
  hexadecimal (key, then message).

  \<open>tx_bindings\<close> interprets \<open>machine\<close> (a binding is one to one), \<open>merchant_events\<close> interprets \<open>single_use\<close>.
\<close>

section \<open>The binding of an order\<close>

record OrderBinding =
  ob_purchase_request_id :: string
  ob_merchant_id :: string
  ob_buyer_id :: string
  ob_product_id :: json
  ob_quantity :: int
  ob_amount_paise :: int
  ob_currency :: json
  ob_merchant_order_id :: string
  ob_payment_reference :: string
  ob_plan_hash :: string

definition binding_text :: "OrderBinding \<Rightarrow> string" where
  "binding_text b = join_with ''|'' [ob_purchase_request_id b, ob_merchant_id b, ob_buyer_id b, py_str (ob_product_id b),
     int_str (ob_quantity b), int_str (ob_amount_paise b), py_str (ob_currency b), ob_merchant_order_id b, ob_payment_reference b,
     ob_plan_hash b]"

definition compute_binding_hash :: "(string \<Rightarrow> string \<Rightarrow> string) \<Rightarrow> string \<Rightarrow> OrderBinding \<Rightarrow> string" where
  "compute_binding_hash hmac secret b = hmac secret (binding_text b)"

definition verify_binding :: "(string \<Rightarrow> string \<Rightarrow> string) \<Rightarrow> string \<Rightarrow> OrderBinding \<Rightarrow> string \<Rightarrow> bool" where
  \<comment> \<open>of a complete payload; an exception counts as a mismatch\<close>
  "verify_binding hmac secret b expected = (compare_digest (compute_binding_hash hmac secret b) expected = Inr True)"

section \<open>Payments and orders\<close>

record TransactionBinding =
  tb_binding_id :: string
  tb_transaction_id :: string
  tb_merchant_order_id :: string
  tb_merchant_id :: string
  tb_product_id :: json
  tb_evidence_hash :: string
  tb_order_binding_hash :: string
  tb_amount_paise :: int
  tb_currency :: json
  tb_connector_id :: string
  tb_created_at :: string
  tb_status :: string

record BindingManager =
  bm_tx :: "string \<rightharpoonup> TransactionBinding"
  bm_order :: "string \<rightharpoonup> TransactionBinding"

definition binding_manager_init :: BindingManager where
  "binding_manager_init = \<lparr>bm_tx = Map.empty, bm_order = Map.empty\<rparr>"

definition tx_binding_error :: "msg \<Rightarrow> py_exc" where
  "tx_binding_error m = Raise (SourceError ''TransactionBindingError'' []) m"

definition tx_conflict :: "BindingManager \<Rightarrow> TransactionBinding \<Rightarrow> py_exc option" where
  "tx_conflict m b = (case bm_tx m (tb_transaction_id b) of None \<Rightarrow> None
     | Some old \<Rightarrow> if tb_merchant_order_id old = tb_merchant_order_id b then None
         else Some (tx_binding_error (Msg ''Transaction {} is already bound to merchant order {}.''
           [PStr (tb_transaction_id b), PStr (tb_merchant_order_id old)])))"

definition order_conflict :: "BindingManager \<Rightarrow> TransactionBinding \<Rightarrow> py_exc option" where
  "order_conflict m b = (case bm_order m (tb_merchant_order_id b) of None \<Rightarrow> None
     | Some old \<Rightarrow> if tb_transaction_id old = tb_transaction_id b then None
         else Some (tx_binding_error (Msg ''Merchant order {} is already bound to transaction {}.''
           [PStr (tb_merchant_order_id b), PStr (tb_transaction_id old)])))"

definition bind_transaction_to_order :: "BindingManager \<Rightarrow> TransactionBinding \<Rightarrow> TransactionBinding res \<times> BindingManager" where
  \<comment> \<open>the argument is the binding that is asked for, with its time and its status\<close>
  "bind_transaction_to_order m b =
     (case tx_conflict m b of Some e \<Rightarrow> (Inl e, m)
      | None \<Rightarrow> (case order_conflict m b of Some e \<Rightarrow> (Inl e, m)
         | None \<Rightarrow> (Inr b, \<lparr>bm_tx = (bm_tx m)(tb_transaction_id b \<mapsto> b), bm_order = (bm_order m)(tb_merchant_order_id b \<mapsto> b)\<rparr>)))"

definition get_binding_by_transaction :: "BindingManager \<Rightarrow> string \<Rightarrow> TransactionBinding option" where
  "get_binding_by_transaction m t = bm_tx m t"

definition get_binding_by_order :: "BindingManager \<Rightarrow> string \<Rightarrow> TransactionBinding option" where
  "get_binding_by_order m k = bm_order m k"

definition one_to_one :: "BindingManager \<Rightarrow> bool" where
  \<comment> \<open>the two tables are inverse to each other\<close>
  "one_to_one m \<longleftrightarrow> (\<forall>t b. bm_tx m t = Some b \<longrightarrow> tb_transaction_id b = t \<and> bm_order m (tb_merchant_order_id b) = Some b) \<and>
     (\<forall>k b. bm_order m k = Some b \<longrightarrow> tb_merchant_order_id b = k \<and> bm_tx m (tb_transaction_id b) = Some b)"

lemma bound_cases:
  "bind_transaction_to_order m b = (Inr c, m') \<longleftrightarrow> c = b \<and> tx_conflict m b = None \<and> order_conflict m b = None \<and>
     m' = \<lparr>bm_tx = (bm_tx m)(tb_transaction_id b \<mapsto> b), bm_order = (bm_order m)(tb_merchant_order_id b \<mapsto> b)\<rparr>"
  by (auto simp: bind_transaction_to_order_def split: option.splits)

lemma bind_one_to_one:
  assumes "one_to_one m"
  shows "one_to_one (snd (bind_transaction_to_order m b))"
proof (cases "tx_conflict m b = None \<and> order_conflict m b = None")
  case True
  have tx: "tb_merchant_order_id old = tb_merchant_order_id b" if "bm_tx m (tb_transaction_id b) = Some old" for old
    using True that by (auto simp: tx_conflict_def split: if_splits)
  have order: "tb_transaction_id old = tb_transaction_id b" if "bm_order m (tb_merchant_order_id b) = Some old" for old
    using True that by (auto simp: order_conflict_def split: if_splits)
  let ?m = "\<lparr>bm_tx = (bm_tx m)(tb_transaction_id b \<mapsto> b), bm_order = (bm_order m)(tb_merchant_order_id b \<mapsto> b)\<rparr>"
  have "tb_transaction_id c = t \<and> bm_order ?m (tb_merchant_order_id c) = Some c" if c: "bm_tx ?m t = Some c" for t c
  proof (cases "t = tb_transaction_id b")
    case False
    then have "tb_transaction_id c = t" "bm_order m (tb_merchant_order_id c) = Some c" using c assms by (auto simp: one_to_one_def)
    then show ?thesis using order [of c] False by (cases "tb_merchant_order_id c = tb_merchant_order_id b") auto
  qed (use c in auto)
  moreover have "tb_merchant_order_id c = k \<and> bm_tx ?m (tb_transaction_id c) = Some c" if c: "bm_order ?m k = Some c" for k c
  proof (cases "k = tb_merchant_order_id b")
    case False
    then have "tb_merchant_order_id c = k" "bm_tx m (tb_transaction_id c) = Some c" using c assms by (auto simp: one_to_one_def)
    then show ?thesis using tx [of c] False by (cases "tb_transaction_id c = tb_transaction_id b") auto
  qed (use c in auto)
  ultimately have "one_to_one ?m" unfolding one_to_one_def by blast
  then show ?thesis using True by (simp add: bind_transaction_to_order_def)
next
  case False
  then show ?thesis using assms by (auto simp: bind_transaction_to_order_def split: option.splits)
qed

interpretation tx_bindings: machine bind_transaction_to_order "\<lambda>_ _. True" one_to_one
  by unfold_locales (rule bind_one_to_one)

text \<open>C27: Payments and merchant orders are bound one to one: whatever bindings are asked for, a payment has at most one
  order and an order at most one payment, and each of the two tables gives the binding of the other.\<close>

theorem binding_is_one_to_one:
  "one_to_one (snd (run_ops bind_transaction_to_order binding_manager_init bs))"
proof -
  have "one_to_one binding_manager_init" by (simp add: one_to_one_def binding_manager_init_def)
  then show ?thesis by (rule tx_bindings.inv_run) simp
qed

section \<open>Outcomes of orders\<close>

datatype OrderStatus = ORDER_PENDING | ORDER_VERIFIED | ORDER_UNKNOWN | ORDER_FAILED

fun order_status_value :: "OrderStatus \<Rightarrow> string" where
  "order_status_value ORDER_PENDING = ''ORDER_PENDING''"
| "order_status_value ORDER_VERIFIED = ''ORDER_VERIFIED''"
| "order_status_value ORDER_UNKNOWN = ''ORDER_UNKNOWN''"
| "order_status_value ORDER_FAILED = ''ORDER_FAILED''"

record OrderEvidence =
  oe_order_id :: json
  oe_merchant_order_id :: json
  oe_payment_transaction_id :: json
  oe_amount_paise :: int
  oe_currency :: string
  oe_source :: string
  oe_verified_at :: string
  oe_evidence_hash :: string

record CheckoutOutcome =
  co_outcome_id :: json
  co_preparation_id :: string
  co_request_id :: string
  co_merchant_id :: string
  co_capability :: string \<comment> \<open>a text, although the field is declared as the enumeration\<close>
  co_payment_transaction_id :: json
  co_status :: OrderStatus
  co_merchant_order_id :: json
  co_verified_at :: string
  co_evidence :: "OrderEvidence option"

type_synonym outcomes = "json \<rightharpoonup> CheckoutOutcome"

fun dict_key :: "json \<Rightarrow> json res" where
  \<comment> \<open>the key under which a dictionary keeps a value: \<open>True\<close> is 1, lists and dictionaries are refused\<close>
  "dict_key (JArr xs) = Inl (Raise TypeError (Msg ''unhashable type: list'' []))"
| "dict_key (JObj kvs) = Inl (Raise TypeError (Msg ''unhashable type: dict'' []))"
| "dict_key (JBool b) = Inr (JInt (if b then 1 else 0))"
| "dict_key v = Inr v"

definition outcome_to_dict :: "CheckoutOutcome \<Rightarrow> json res" where
  \<comment> \<open>\<open>to_dict\<close> reads \<open>capability.value\<close> of the text\<close>
  "outcome_to_dict c = Inl (attribute_error ''value'')"

definition record_checkout_intent ::
  "(string \<Rightarrow> string) \<Rightarrow> outcomes \<Rightarrow> string \<Rightarrow> string \<Rightarrow> string \<Rightarrow> string \<Rightarrow> datetime \<Rightarrow> CheckoutOutcome \<times> outcomes" where
  "record_checkout_intent sha os prep request merchant cap now =
     (let oid = JStr (''outcome_'' @ take 10 (sha (prep @ ''|'' @ isoformat now)));
          c = \<lparr>co_outcome_id = oid, co_preparation_id = prep, co_request_id = request, co_merchant_id = merchant, co_capability = cap,
            co_payment_transaction_id = JStr [], co_status = ORDER_PENDING, co_merchant_order_id = JNull,
            co_verified_at = isoformat now, co_evidence = None\<rparr>
      in (c, os(oid \<mapsto> c)))"

record GivenEvidence =
  ge_amount :: json
  ge_currency :: string
  ge_source :: string

definition unknown_outcome :: "json \<Rightarrow> json \<Rightarrow> json \<Rightarrow> datetime \<Rightarrow> CheckoutOutcome" where
  "unknown_outcome oid payment morder now =
     \<lparr>co_outcome_id = oid, co_preparation_id = ''prep_unknown'', co_request_id = ''req_unknown'', co_merchant_id = ''mer_unknown'',
      co_capability = ''CHECKOUT_HANDOFF'', co_payment_transaction_id = payment, co_status = ORDER_UNKNOWN,
      co_merchant_order_id = morder, co_verified_at = isoformat now, co_evidence = None\<rparr>"

definition verify_order_outcome ::
  "(string \<Rightarrow> string) \<Rightarrow> outcomes \<Rightarrow> json \<Rightarrow> json \<Rightarrow> json \<Rightarrow> GivenEvidence option \<Rightarrow> datetime \<Rightarrow> CheckoutOutcome res \<times> outcomes" where
  \<comment> \<open>the stored outcome is changed in place before the amount is read\<close>
  "verify_order_outcome sha os oid payment morder ev now =
     (case dict_key oid of
        Inl e \<Rightarrow> (Inl e, os)
      | Inr k \<Rightarrow>
          let c = (option_or (os k) (unknown_outcome oid payment morder now))
                \<lparr>co_payment_transaction_id := payment, co_merchant_order_id := morder, co_verified_at := isoformat now\<rparr>;
              unknown = c\<lparr>co_status := ORDER_UNKNOWN\<rparr>
          in case ev of
            None \<Rightarrow> (Inr unknown, os(k \<mapsto> unknown))
          | Some g \<Rightarrow>
              if \<not> truthy morder then (Inr unknown, os(k \<mapsto> unknown))
              else (case py_int (ge_amount g) of
                Inl e \<Rightarrow> (Inl e, os(k \<mapsto> c))
              | Inr amount \<Rightarrow>
                  let h = sha (join_with ''|'' [py_str oid, py_str payment, py_str morder, isoformat now]);
                      v = c\<lparr>co_status := ORDER_VERIFIED, co_evidence := Some \<lparr>oe_order_id = oid, oe_merchant_order_id = morder,
                        oe_payment_transaction_id = payment, oe_amount_paise = amount, oe_currency = ge_currency g,
                        oe_source = ge_source g, oe_verified_at = isoformat now, oe_evidence_hash = h\<rparr>\<rparr>
                  in (Inr v, os(k \<mapsto> v))))"

definition get_outcome :: "outcomes \<Rightarrow> string \<Rightarrow> CheckoutOutcome option" where
  "get_outcome os oid = os (JStr oid)"

definition evidenced :: "outcomes \<Rightarrow> bool" where
  "evidenced os \<longleftrightarrow> (\<forall>k c. os k = Some c \<longrightarrow> co_status c = ORDER_VERIFIED \<longrightarrow> co_evidence c \<noteq> None)"

lemma evidenced_upd: "evidenced os \<Longrightarrow> (co_status c = ORDER_VERIFIED \<Longrightarrow> co_evidence c \<noteq> None) \<Longrightarrow> evidenced (os(k \<mapsto> c))"
  by (auto simp: evidenced_def)

lemma verify_keeps_evidenced:
  assumes "evidenced os"
  shows "evidenced (snd (verify_order_outcome sha os oid payment morder ev now))"
proof -
  have "co_status (option_or (os k) (unknown_outcome oid payment morder now)) = ORDER_VERIFIED \<Longrightarrow>
      co_evidence (option_or (os k) (unknown_outcome oid payment morder now)) \<noteq> None" for k
    using assms by (cases "os k") (auto simp: unknown_outcome_def evidenced_def)
  then show ?thesis using assms
    by (auto simp: verify_order_outcome_def Let_def intro!: evidenced_upd split: sum.splits option.splits)
qed

lemma intent_keeps_evidenced: "evidenced os \<Longrightarrow> evidenced (snd (record_checkout_intent sha os prep request merchant cap now))"
  by (auto simp: record_checkout_intent_def Let_def intro!: evidenced_upd)

text \<open>A failed verification can leave an order verified for a payment it was never verified for: when the evidence
  of a new verification has an amount that is not a number, the call raises, and an outcome that was verified stays
  verified, now with the new payment and order and with the evidence of the old ones.\<close>

theorem verified_with_foreign_payment:
  assumes "os (JStr oid) = Some c" "co_status c = ORDER_VERIFIED" "truthy morder" "py_int (ge_amount g) = Inl e"
  shows "fst (verify_order_outcome sha os (JStr oid) payment morder (Some g) now) = Inl e \<and>
    (\<exists>c'. snd (verify_order_outcome sha os (JStr oid) payment morder (Some g) now) (JStr oid) = Some c' \<and>
       co_status c' = ORDER_VERIFIED \<and> co_payment_transaction_id c' = payment \<and> co_merchant_order_id c' = morder \<and>
       co_evidence c' = co_evidence c)"
  using assms by (simp add: verify_order_outcome_def Let_def)

section \<open>Webhooks of merchants\<close>

record MerchantWebhooks =
  mw_secret :: string
  mw_processed :: "string set"
  mw_outcomes :: outcomes

record WebhookAnswer =
  wa_status :: string
  wa_event_type :: json
  wa_order_status :: "string option"

definition webhook_error :: "msg \<Rightarrow> py_exc" where
  "webhook_error m = Raise (SourceError ''WebhookValidationError'' []) m"

definition merchant_signature_ok :: "(string \<Rightarrow> string \<Rightarrow> string) \<Rightarrow> string \<Rightarrow> string \<Rightarrow> string \<Rightarrow> bool res" where
  "merchant_signature_ok hmac secret raw sig =
     (if raw = [] \<or> sig = [] then Inr False
      else compare_digest (strip (replace_all ''sha256='' [] sig)) (hmac secret raw))"

definition merchant_event_fresh :: "string \<Rightarrow> datetime \<Rightarrow> unit res" where
  "merchant_event_fresh ts now = (case int_of_text ts of
      None \<Rightarrow> Inl (webhook_error (Msg ''Security Rejection: Invalid webhook timestamp header.'' []))
    | Some t \<Rightarrow> let age = \<bar>now div 1000000 - t\<bar> in
        if age > 300 then Inl (webhook_error (Msg ''Security Rejection: Webhook timestamp expired ({}s old > 300s limit).'' [PInt age]))
        else Inr ())"

definition either_of :: "json \<Rightarrow> string \<Rightarrow> string \<Rightarrow> json \<Rightarrow> json res" where
  \<comment> \<open>\<open>v.get(k) or v.get(l) or default\<close>\<close>
  "either_of v k l dflt = bind_res (dict_get v k JNull) (\<lambda>a. if truthy a then Inr a else
     bind_res (dict_get v l JNull) (\<lambda>b. Inr (py_or b dflt)))"

definition confirming_events :: "json set" where
  "confirming_events = {JStr ''order.confirmed'', JStr ''order.created'', JStr ''payment.accepted''}"

definition dispatch_merchant_event ::
  "(string \<Rightarrow> string) \<Rightarrow> outcomes \<Rightarrow> (string \<times> json) list \<Rightarrow> datetime \<Rightarrow> WebhookAnswer res \<times> outcomes" where
  "dispatch_merchant_event sha os payload now =
     (let ty = first_of payload ''event'' ''event_type'' (JStr ''order.updated'');
          data = py_or (get_or_none payload ''data'') (JObj payload)
      in case bind_res (either_of data ''merchant_order_id'' ''order_id'' (JStr [])) (\<lambda>morder.
           bind_res (either_of data ''payment_transaction_id'' ''transaction_id'' (JStr [])) (\<lambda>payment.
           bind_res (dict_get data ''outcome_id'' JNull) (\<lambda>given.
           bind_res (dict_get data ''amount_paise'' (JInt 0)) (\<lambda>amount.
           bind_res (dict_get data ''currency'' (JStr ''INR'')) (\<lambda>cur.
             Inr (morder, payment, py_or given (JStr (''outcome_'' @ py_str morder)),
               \<lparr>ge_amount = JStr (py_str amount), ge_currency = py_str cur, ge_source = ''merchant_signed_webhook''\<rparr>)))))) of
        Inl e \<Rightarrow> (Inl e, os)
      | Inr (morder, payment, oid, ev) \<Rightarrow>
          if ty \<in> confirming_events then
            (case verify_order_outcome sha os oid payment morder (Some ev) now of
               (Inl e, os') \<Rightarrow> (Inl e, os')
             | (Inr c, os') \<Rightarrow> (Inr \<lparr>wa_status = ''SUCCESS'', wa_event_type = ty, wa_order_status = Some (order_status_value (co_status c))\<rparr>, os'))
          else (Inr \<lparr>wa_status = ''PROCESSED'', wa_event_type = ty, wa_order_status = None\<rparr>, os))"

definition process_merchant_webhook ::
  "(string \<Rightarrow> string) \<Rightarrow> (string \<Rightarrow> string \<Rightarrow> string) \<Rightarrow> MerchantWebhooks \<Rightarrow> string \<Rightarrow> string \<Rightarrow> string \<Rightarrow> string \<Rightarrow>
   (string \<times> json) list \<Rightarrow> datetime \<Rightarrow> WebhookAnswer res \<times> MerchantWebhooks" where
  "process_merchant_webhook sha hmac h raw sig eid ts payload now =
     (case merchant_signature_ok hmac (mw_secret h) raw sig of
        Inl e \<Rightarrow> (Inl e, h)
      | Inr False \<Rightarrow> (Inl (webhook_error (Msg ''Security Rejection: Invalid HMAC-SHA256 merchant webhook signature.'' [])), h)
      | Inr True \<Rightarrow>
          (case merchant_event_fresh ts now of
             Inl e \<Rightarrow> (Inl e, h)
           | Inr _ \<Rightarrow>
               if eid \<in> mw_processed h then
                 (Inr \<lparr>wa_status = ''DUPLICATE'', wa_event_type = JNull, wa_order_status = None\<rparr>, h)
               else (case dispatch_merchant_event sha (mw_outcomes h) payload now of
                 (r, os) \<Rightarrow> (r, h\<lparr>mw_processed := insert eid (mw_processed h), mw_outcomes := os\<rparr>))))"

datatype merchant_op = MerchantEvent string string string string "(string \<times> json) list" datetime

fun merchant_step ::
  "(string \<Rightarrow> string) \<Rightarrow> (string \<Rightarrow> string \<Rightarrow> string) \<Rightarrow> MerchantWebhooks \<Rightarrow> merchant_op \<Rightarrow> WebhookAnswer res \<times> MerchantWebhooks" where
  "merchant_step sha hmac h (MerchantEvent raw sig eid ts payload now) = process_merchant_webhook sha hmac h raw sig eid ts payload now"

fun merchant_event_id :: "merchant_op \<Rightarrow> string option" where
  "merchant_event_id (MerchantEvent raw sig eid ts payload now) = Some eid"

definition event_applied :: "WebhookAnswer res \<Rightarrow> bool" where
  "event_applied r \<longleftrightarrow> (case r of Inl _ \<Rightarrow> False | Inr a \<Rightarrow> wa_status a \<noteq> ''DUPLICATE'')"

lemma webhook_applied:
  assumes "event_applied (fst (process_merchant_webhook sha hmac h raw sig eid ts payload now))"
  shows "eid \<notin> mw_processed h \<and> eid \<in> mw_processed (snd (process_merchant_webhook sha hmac h raw sig eid ts payload now)) \<and>
    merchant_signature_ok hmac (mw_secret h) raw sig = Inr True"
  using assms by (auto simp: process_merchant_webhook_def event_applied_def split: sum.splits bool.splits if_splits prod.splits)

lemma webhook_processed_grows:
  "mw_processed h \<subseteq> mw_processed (snd (process_merchant_webhook sha hmac h raw sig eid ts payload now))"
  by (auto simp: process_merchant_webhook_def split: sum.splits bool.splits prod.splits)

interpretation merchant_events: single_use "merchant_step sha hmac" "\<lambda>_ _. True" "\<lambda>_. True" event_applied merchant_event_id
  "\<lambda>h k. k \<in> mw_processed h" for sha hmac
proof unfold_locales
  fix h :: MerchantWebhooks and x :: merchant_op and k :: string
  show "True" by simp
  obtain raw sig eid ts payload now where x: "x = MerchantEvent raw sig eid ts payload now" by (cases x)
  show "merchant_event_id x = Some k \<Longrightarrow> event_applied (fst (merchant_step sha hmac h x)) \<Longrightarrow> k \<notin> mw_processed h"
    "merchant_event_id x = Some k \<Longrightarrow> event_applied (fst (merchant_step sha hmac h x)) \<Longrightarrow> k \<in> mw_processed (snd (merchant_step sha hmac h x))"
    using webhook_applied [of sha hmac h raw sig eid ts payload now] by (auto simp: x)
  show "k \<in> mw_processed h \<Longrightarrow> k \<in> mw_processed (snd (merchant_step sha hmac h x))"
    using webhook_processed_grows [of h sha hmac raw sig eid ts payload now] by (auto simp: x)
qed

text \<open>An event of a merchant is applied at most once, whatever is delivered under whatever signature and time.\<close>

theorem merchant_event_once:
  "accepted_count event_applied (\<lambda>x. merchant_event_id x = Some eid) xs (fst (run_ops (merchant_step sha hmac) h xs)) \<le> 1"
  by (rule merchant_events.at_most_once) simp_all

text \<open>An event that raises is lost: it is marked as processed before it is dispatched, so when the dispatch raises,
  every later delivery of the same event, correctly signed and fresh, is answered as a duplicate and changes nothing.\<close>

theorem failed_event_is_lost:
  assumes "merchant_signature_ok hmac (mw_secret h) raw sig = Inr True" "merchant_event_fresh ts now = Inr ()"
    "eid \<notin> mw_processed h" "fst (dispatch_merchant_event sha (mw_outcomes h) payload now) = Inl e"
    "process_merchant_webhook sha hmac h raw sig eid ts payload now = (r, h')"
    "merchant_signature_ok hmac (mw_secret h) raw' sig' = Inr True" "merchant_event_fresh ts' now' = Inr ()"
  shows "r = Inl e \<and> process_merchant_webhook sha hmac h' raw' sig' eid ts' payload' now' =
    (Inr \<lparr>wa_status = ''DUPLICATE'', wa_event_type = JNull, wa_order_status = None\<rparr>, h')"
proof -
  obtain os where "dispatch_merchant_event sha (mw_outcomes h) payload now = (Inl e, os)" using assms(4) by (metis prod.collapse)
  then have "r = Inl e" "h' = h\<lparr>mw_processed := insert eid (mw_processed h), mw_outcomes := os\<rparr>"
    using assms(1-3,5) by (simp_all add: process_merchant_webhook_def)
  then show ?thesis using assms(6,7) by (simp add: process_merchant_webhook_def)
qed

section \<open>Reconciliation\<close>

datatype ReconciliationState =
    RECONCILIATION_REQUIRED | PAYMENT_FOUND | ORDER_FOUND | BOTH_CONFIRMED | PAYMENT_ONLY | ORDER_ONLY | UNRESOLVED
  | MANUAL_REVIEW_REQUIRED

fun reconciliation_value :: "ReconciliationState \<Rightarrow> string" where
  "reconciliation_value RECONCILIATION_REQUIRED = ''RECONCILIATION_REQUIRED''"
| "reconciliation_value PAYMENT_FOUND = ''PAYMENT_FOUND''"
| "reconciliation_value ORDER_FOUND = ''ORDER_FOUND''"
| "reconciliation_value BOTH_CONFIRMED = ''BOTH_CONFIRMED''"
| "reconciliation_value PAYMENT_ONLY = ''PAYMENT_ONLY''"
| "reconciliation_value ORDER_ONLY = ''ORDER_ONLY''"
| "reconciliation_value UNRESOLVED = ''UNRESOLVED''"
| "reconciliation_value MANUAL_REVIEW_REQUIRED = ''MANUAL_REVIEW_REQUIRED''"

record ReconciliationRequest =
  rq_purchase_request_id :: string
  rq_payment_id :: string
  rq_merchant :: string
  rq_buyer :: string
  rq_amount :: int
  rq_cur :: string
  rq_order_id :: "string option"
  rq_payment_ledger :: "string option"
  rq_merchant_ledger :: "string option"

record ReconciliationRecord =
  rc_reconciliation_id :: string
  rc_request :: ReconciliationRequest
  rc_state :: ReconciliationState
  rc_payment_verified :: bool
  rc_order_verified :: bool
  rc_reconciled_at :: string
  rc_evidence :: string

definition reconciliation_state :: "bool \<Rightarrow> bool \<Rightarrow> ReconciliationState" where
  "reconciliation_state payment order =
     (if payment \<and> order then BOTH_CONFIRMED
      else if payment \<and> \<not> order then PAYMENT_ONLY
      else if \<not> payment \<and> order then ORDER_ONLY
      else if \<not> payment \<and> \<not> order then UNRESOLVED
      else MANUAL_REVIEW_REQUIRED)"

definition reconcile_commerce ::
  "(string \<Rightarrow> string) \<Rightarrow> ReconciliationRecord table \<Rightarrow> ReconciliationRequest \<Rightarrow> string \<Rightarrow> datetime \<Rightarrow>
   ReconciliationRecord \<times> ReconciliationRecord table" where
  "reconcile_commerce sha tab q uid now =
     (let rid = ''rec_'' @ uid;
          payment = (rq_payment_ledger q \<in> {Some ''AUTHORIZED'', Some ''CAPTURED'', Some ''SUCCESS''});
          order = (rq_merchant_ledger q \<in> {Some ''ORDER_CONFIRMED'', Some ''ORDER_VERIFIED'', Some ''FULFILLED''});
          st = reconciliation_state payment order;
          h = sha (join_with ''|'' [rid, rq_purchase_request_id q, rq_payment_id q, option_or (rq_order_id q) ''None'',
            reconciliation_value st, isoformat now]);
          r = \<lparr>rc_reconciliation_id = rid, rc_request = q, rc_state = st, rc_payment_verified = payment, rc_order_verified = order,
            rc_reconciled_at = isoformat now, rc_evidence = h\<rparr>
      in (r, put_row rid r tab))"

definition get_reconciliation_record :: "ReconciliationRecord table \<Rightarrow> string \<Rightarrow> ReconciliationRecord option" where
  "get_reconciliation_record tab rid = row_of tab rid"

lemma manual_review_unreachable: "reconciliation_state payment order \<noteq> MANUAL_REVIEW_REQUIRED"
  by (simp add: reconciliation_state_def)

section \<open>Concrete cases\<close>

definition verified_outcome :: CheckoutOutcome where
  "verified_outcome = (unknown_outcome (JStr ''o1'') (JStr ''pay_a'') (JStr ''m1'') 0)\<lparr>co_status := ORDER_VERIFIED\<rparr>"

theorem verified_with_foreign_payment_witness:
  "\<exists>e c'. fst (verify_order_outcome (\<lambda>_. ''h'') [JStr ''o1'' \<mapsto> verified_outcome] (JStr ''o1'') (JStr ''pay_b'') (JStr ''m2'')
       (Some \<lparr>ge_amount = JStr ''1.5'', ge_currency = ''INR'', ge_source = ''s''\<rparr>) 1) = Inl e \<and>
     snd (verify_order_outcome (\<lambda>_. ''h'') [JStr ''o1'' \<mapsto> verified_outcome] (JStr ''o1'') (JStr ''pay_b'') (JStr ''m2'')
       (Some \<lparr>ge_amount = JStr ''1.5'', ge_currency = ''INR'', ge_source = ''s''\<rparr>) 1) (JStr ''o1'') = Some c' \<and>
     co_status c' = ORDER_VERIFIED \<and> co_payment_transaction_id c' = JStr ''pay_b''"
proof -
  have bad: "int_of_text ''1.5'' = None" by code_simp
  obtain e where e: "py_int (ge_amount \<lparr>ge_amount = JStr ''1.5'', ge_currency = ''INR'', ge_source = ''s''\<rparr>) = Inl e" by (simp add: bad)
  show ?thesis
    using verified_with_foreign_payment [OF _ _ _ e, of "[JStr ''o1'' \<mapsto> verified_outcome]" "''o1''" verified_outcome "JStr ''m2''" "\<lambda>_. ''h''" "JStr ''pay_b''" 1]
    by (auto simp: verified_outcome_def)
qed

definition bad_event :: "(string \<times> json) list" where
  "bad_event = [(''event'', JStr ''order.confirmed''), (''order_id'', JStr ''m1''), (''amount_paise'', JStr ''1.5'')]"

theorem failed_event_is_lost_witness:
  "\<exists>e h'. process_merchant_webhook (\<lambda>_. ''h'') (\<lambda>_ _. ''s'') \<lparr>mw_secret = ''k'', mw_processed = {}, mw_outcomes = Map.empty\<rparr>
       ''b'' ''s'' ''e1'' ''5'' bad_event 5000000 = (Inl e, h') \<and>
     process_merchant_webhook (\<lambda>_. ''h'') (\<lambda>_ _. ''s'') h' ''b'' ''s'' ''e1'' ''5'' [] 5000000 =
       (Inr \<lparr>wa_status = ''DUPLICATE'', wa_event_type = JNull, wa_order_status = None\<rparr>, h')"
proof -
  let ?h = "\<lparr>mw_secret = ''k'', mw_processed = {}, mw_outcomes = Map.empty\<rparr>"
  have sig: "merchant_signature_ok (\<lambda>_ _. ''s'') (mw_secret ?h) ''b'' ''s'' = Inr True"
    "merchant_signature_ok (\<lambda>_ _. ''s'') ''k'' ''b'' ''s'' = Inr True" by code_simp+
  have fresh: "merchant_event_fresh ''5'' 5000000 = Inr ()" by code_simp
  have "int_of_text ''1.5'' = None" by code_simp
  then obtain e where e: "fst (dispatch_merchant_event (\<lambda>_. ''h'') (mw_outcomes ?h) bad_event 5000000) = Inl e"
    by (simp add: dispatch_merchant_event_def bad_event_def first_of_def dget_def py_or_def either_of_def confirming_events_def
        verify_order_outcome_def Let_def)
  obtain r h' where r: "process_merchant_webhook (\<lambda>_. ''h'') (\<lambda>_ _. ''s'') ?h ''b'' ''s'' ''e1'' ''5'' bad_event 5000000 = (r, h')" by fastforce
  show ?thesis
    using failed_event_is_lost [OF sig(1) fresh _ e r sig(1) fresh, of "[]"] r by auto
qed

end
