(* ===== verification/Checkout.thy ===== *)
theory Checkout
  imports Connectors Commerce_Orders Confirmation_Gate
begin

text \<open>
  From a product candidate to a prepared checkout and to a merchant order: the signed redirect packages
  (\<open>apps/api/commerce/redirect_handoff.py\<close>), the orchestrator (\<open>checkout_orchestrator.py\<close>) and the endpoint
  \<open>create_merchant_order\<close> of \<open>apps/api/routers/commerce.py\<close>. A request reads the clock once here. The audit log is not kept.
\<close>

section \<open>Redirect packages\<close>

record HandoffPackage =
  hp_request_id :: string
  hp_buyer_id :: string
  hp_merchant_id :: string
  hp_product_id :: json
  hp_product_name :: json
  hp_amount_paise :: int
  hp_currency :: json
  hp_url :: string
  hp_created_at :: string
  hp_signature :: string

definition handoff_text :: "string \<Rightarrow> string \<Rightarrow> json \<Rightarrow> int \<Rightarrow> string \<Rightarrow> string \<Rightarrow> string" where
  "handoff_text request buyer pid amount url created = join_with ''|'' [request, buyer, py_str pid, int_str amount, url, created]"

definition create_handoff_package ::
  "(string \<Rightarrow> string \<Rightarrow> string) \<Rightarrow> (string \<Rightarrow> bool) \<Rightarrow> string \<Rightarrow> string \<Rightarrow> string \<Rightarrow> VerifiedProduct \<Rightarrow> datetime \<Rightarrow> HandoffPackage res" where
  "create_handoff_package hmac ip6 secret request buyer p now =
     bind_res (prepare_generic_checkout ip6 p) (\<lambda>url.
       let amount = pe_amount_paise (vp_price p) in
       Inr \<lparr>hp_request_id = request, hp_buyer_id = buyer, hp_merchant_id = mi_merchant_id (vp_merchant p),
         hp_product_id = vp_product_id p, hp_product_name = vp_name p, hp_amount_paise = amount, hp_currency = pe_currency (vp_price p),
         hp_url = url, hp_created_at = isoformat now,
         hp_signature = hmac secret (handoff_text request buyer (vp_product_id p) amount url (isoformat now))\<rparr>)"

definition verify_handoff_package :: "(string \<Rightarrow> string \<Rightarrow> string) \<Rightarrow> (string \<Rightarrow> bool) \<Rightarrow> string \<Rightarrow> HandoffPackage \<Rightarrow> bool" where
  \<comment> \<open>every exception counts as a mismatch\<close>
  "verify_handoff_package hmac ip6 secret h =
     (case validate_handoff_url ip6 (hp_url h) of
        Inl _ \<Rightarrow> False
      | Inr url \<Rightarrow> compare_digest (hp_signature h)
          (hmac secret (handoff_text (hp_request_id h) (hp_buyer_id h) (hp_product_id h) (hp_amount_paise h) url (hp_created_at h))) = Inr True)"

lemma generic_url: "prepare_generic_checkout ip6 p = Inr url \<Longrightarrow> \<exists>u. vp_source_url p = JStr u \<and> validate_handoff_url ip6 u = Inr url"
  by (auto simp: prepare_generic_checkout_def split: json.splits if_splits)

text \<open>A redirect package that was created verifies, for every product whose URL is accepted, and its URL is one that
  the validator accepts again: with a public host, without credentials, under http or https.\<close>

theorem handoff_package_verifies:
  assumes "create_handoff_package hmac ip6 secret request buyer p now = Inr h" "\<And>k m. ascii_text (hmac k m)"
  shows "verify_handoff_package hmac ip6 secret h \<and> validate_handoff_url ip6 (hp_url h) = Inr (hp_url h)"
proof -
  obtain url where url: "prepare_generic_checkout ip6 p = Inr url" and h: "hp_url h = url"
    "hp_signature h = hmac secret (handoff_text (hp_request_id h) (hp_buyer_id h) (hp_product_id h) (hp_amount_paise h) url (hp_created_at h))"
    using assms(1) by (auto simp: create_handoff_package_def bind_res_Inr Let_def)
  have "validate_handoff_url ip6 url = Inr url" using generic_url [OF url] handoff_idem by blast
  then show ?thesis using h assms(2) by (simp add: verify_handoff_package_def compare_digest_def)
qed

section \<open>The orchestrator\<close>

record CheckoutPreparation =
  cp_preparation_id :: string
  cp_request_id :: string
  cp_merchant_id :: string
  cp_buyer_id :: string
  cp_product :: VerifiedProduct
  cp_capability :: CheckoutCapability
  cp_handoff_url :: "string option"
  cp_token :: "string option"
  cp_expires_at :: string
  cp_plan_hash :: string

record Orchestrator =
  or_gate :: ConfirmationGate
  or_registry :: ConnectorRegistry
  or_handoff_secret :: string
  or_outcomes :: outcomes

definition refused_preparation ::
  "string \<Rightarrow> string \<Rightarrow> string \<Rightarrow> VerifiedProduct \<Rightarrow> CheckoutCapability \<Rightarrow> CheckoutPreparation" where
  "refused_preparation prep_id request buyer p cap =
     \<lparr>cp_preparation_id = prep_id, cp_request_id = request, cp_merchant_id = mi_merchant_id (vp_merchant p), cp_buyer_id = buyer,
      cp_product = p, cp_capability = cap, cp_handoff_url = None, cp_token = None, cp_expires_at = [], cp_plan_hash = []\<rparr>"

definition confirmed_checkout :: "string \<Rightarrow> string \<Rightarrow> VerifiedProduct \<Rightarrow> string \<Rightarrow> Confirmed" where
  "confirmed_checkout request buyer p plan =
     \<lparr>cf_request_id = request, cf_merchant_id = JStr (mi_merchant_id (vp_merchant p)), cf_buyer_id = buyer,
      cf_product_id = vp_product_id p, cf_product_source = JStr (verification_value (vp_status p)),
      cf_amount_paise = pe_amount_paise (vp_price p), cf_currency = pe_currency (vp_price p), cf_plan_hash = plan\<rparr>"

definition plan_hash_of :: "(string \<Rightarrow> string) \<Rightarrow> string \<Rightarrow> VerifiedProduct \<Rightarrow> string" where
  "plan_hash_of sha prep_id p = sha (join_with ''|'' [prep_id, mi_merchant_id (vp_merchant p), int_str (pe_amount_paise (vp_price p)),
     py_str (vp_product_id p)])"

definition package_checkout ::
  "(string \<Rightarrow> string) \<Rightarrow> (string \<Rightarrow> string \<Rightarrow> string) \<Rightarrow> (string \<Rightarrow> bool) \<Rightarrow> Orchestrator \<Rightarrow> string \<Rightarrow> string \<Rightarrow> VerifiedProduct \<Rightarrow>
   CheckoutCapability \<Rightarrow> msg \<Rightarrow> string \<Rightarrow> datetime \<Rightarrow> (bool \<times> CheckoutPreparation \<times> msg) res \<times> Orchestrator" where
  \<comment> \<open>step 5 and the record of the intent\<close>
  "package_checkout sha hmac ip6 s request buyer p cap why uid now =
     (let prep_id = ''prep_'' @ uid; plan = plan_hash_of sha prep_id p;
          cnf = generate_token hmac (or_gate s) (confirmed_checkout request buyer p plan) 600 now
      in case (if cap = CHECKOUT_HANDOFF
               then bind_res (create_handoff_package hmac ip6 (or_handoff_secret s) request buyer p now) (\<lambda>h. Inr (Some (hp_url h)))
               else Inr None) of
           Inl e \<Rightarrow> (Inl e, s)
         | Inr url \<Rightarrow>
             (Inr (True, \<lparr>cp_preparation_id = prep_id, cp_request_id = request, cp_merchant_id = mi_merchant_id (vp_merchant p),
                cp_buyer_id = buyer, cp_product = p, cp_capability = cap, cp_handoff_url = url, cp_token = Some (cd_token cnf),
                cp_expires_at = cd_expires_at cnf, cp_plan_hash = plan\<rparr>, why),
              s\<lparr>or_outcomes := snd (record_checkout_intent sha (or_outcomes s) prep_id request (mi_merchant_id (vp_merchant p))
                (capability_text cap) now)\<rparr>))"

definition prepare_checkout_flow ::
  "(string \<Rightarrow> string) \<Rightarrow> (string \<Rightarrow> string \<Rightarrow> string) \<Rightarrow> (string \<Rightarrow> bool) \<Rightarrow> Orchestrator \<Rightarrow> string \<Rightarrow> string \<Rightarrow>
   (string \<times> json) list \<Rightarrow> (string \<times> json) list option \<Rightarrow> string \<Rightarrow> datetime \<Rightarrow>
   (bool \<times> CheckoutPreparation \<times> msg) res \<times> Orchestrator" where
  "prepare_checkout_flow sha hmac ip6 s request buyer candidate live uid now =
     (case evaluate_product sha ip6 candidate now of
        Inl e \<Rightarrow> (Inl e, s)
      | Inr t \<Rightarrow>
          let p = tt_product t in
          if vp_status p = UNVERIFIED then
            (Inr (False, refused_preparation (''prep_rejected_'' @ uid) request buyer p UNSUPPORTED,
               Msg ''Product truth validation failed'' (map (\<lambda>m. PStr (msg_text m)) (tt_errors t))), s)
          else case resolve_capability (or_registry s) p of (cap, why) \<Rightarrow>
            (case revalidate_price sha p live now of
               Inl e \<Rightarrow> (Inl e, s)
             | Inr (valid, current, changed) \<Rightarrow>
                 if changed then
                   (Inr (False, refused_preparation (''prep_price_changed_'' @ uid) request buyer (p\<lparr>vp_status := PRICE_CHANGED\<rparr>) cap,
                      Msg ''Live price revalidation detected a price mutation! Original: {}, Current: {}. Old confirmation invalidated.''
                        [PInt (pe_amount_paise (vp_price p)), PInt (pe_amount_paise current)]), s)
                 else if \<not> truthy (fst (revalidate_availability p live now)) then
                   (Inr (False, refused_preparation (''prep_stock_rejected_'' @ uid) request buyer (p\<lparr>vp_status := OUT_OF_STOCK\<rparr>) cap,
                      Msg ''Product is currently OUT_OF_STOCK. Checkout preparation rejected.'' []), s)
                 else package_checkout sha hmac ip6 s request buyer p cap why uid now))"

lemma packaged:
  assumes "package_checkout sha hmac ip6 s request buyer p cap why uid now = (Inr (ok, c, m), s')"
  shows "ok \<and> cp_product c = p \<and> cp_capability c = cap \<and>
    cp_token c = Some (token_of hmac (cg_secret (or_gate s)) (confirmed_checkout request buyer p (plan_hash_of sha (cp_preparation_id c) p))) \<and>
    (if cap = CHECKOUT_HANDOFF then \<exists>u url. vp_source_url p = JStr u \<and> validate_handoff_url ip6 u = Inr url \<and> cp_handoff_url c = Some url
     else cp_handoff_url c = None)"
  using assms
  by (auto simp: package_checkout_def generate_token_def Let_def bind_res_Inr create_handoff_package_def dest: generic_url
      split: sum.splits if_splits)


section \<open>A listing page with no price\<close>

definition bare_candidate :: "(string \<times> json) list" where
  "bare_candidate = [(''name'', JStr ''Tea''), (''source_url'', JStr ''http://cafeacme.local/'')]"

lemma bare_url: "urlparse ip6 ''http://cafeacme.local/'' = Inr \<lparr>up_scheme = ''http'', up_netloc = ''cafeacme.local'', up_path = ''/''\<rparr>"
proof -
  have "split_scheme (clean_url ''http://cafeacme.local/'') = (''http'', ''//cafeacme.local/'')"
    "split_netloc ''//cafeacme.local/'' = (''cafeacme.local'', ''/'')" "drop_params ''/'' = ''/''" by code_simp+
  then show ?thesis by (simp add: urlparse_def params_schemes_def)
qed

lemma bare_evaluated:
  "\<exists>t. evaluate_product sha ip6 bare_candidate now = Inr t \<and> vp_status (tt_product t) = SOURCE_BACKED \<and>
     pe_amount_paise (vp_price (tt_product t)) = 0 \<and> mi_domain (vp_merchant (tt_product t)) = ''cafeacme.local'' \<and>
     truthy (ae_is_in_stock (vp_availability (tt_product t)))"
proof -
  have "product_path (lower ''/'') = False" "domain_of ''cafeacme.local'' = ''cafeacme.local''" by code_simp+
  then show ?thesis
    by (simp add: evaluate_product_def bare_candidate_def dget_def py_or_def first_of_def exact_url_def is_exact_product_url_def
        netloc_of_def bare_url truth_status_def Let_def)
qed

lemma bare_capability:
  assumes "vp_status p = SOURCE_BACKED" "mi_domain (vp_merchant p) = ''cafeacme.local''" "truthy (ae_is_in_stock (vp_availability p))"
  shows "\<exists>why. resolve_capability commerce_registry p = (VERIFIED_API, why)"
proof -
  have "cn_capability (resolve_connector commerce_registry ''cafeacme.local'') = VERIFIED_API" by code_simp
  then show ?thesis using assms by (simp add: resolve_capability_def Let_def)
qed

text \<open>Missing evidence passes where incomplete evidence does not: a candidate that has only a name and the home page of
  a connected shop, with no price at all, is not rejected as unverified; its checkout is prepared, with a confirmation
  token for zero paise.\<close>

theorem unpriced_product_prepared:
  assumes "or_registry s = commerce_registry"
  shows "\<exists>c m s'. prepare_checkout_flow sha hmac ip6 s request buyer bare_candidate None uid now = (Inr (True, c, m), s') \<and>
    pe_amount_paise (vp_price (cp_product c)) = 0 \<and> cp_capability c = VERIFIED_API \<and> cp_token c \<noteq> None"
proof -
  obtain t where t: "evaluate_product sha ip6 bare_candidate now = Inr t" "vp_status (tt_product t) = SOURCE_BACKED"
    "pe_amount_paise (vp_price (tt_product t)) = 0" "mi_domain (vp_merchant (tt_product t)) = ''cafeacme.local''"
    "truthy (ae_is_in_stock (vp_availability (tt_product t)))" using bare_evaluated by blast
  obtain why where cap: "resolve_capability (or_registry s) (tt_product t) = (VERIFIED_API, why)"
    using bare_capability [OF t(2,4,5)] assms by auto
  obtain price where price: "revalidate_price sha (tt_product t) None now = Inr (True, price, False)" by (simp add: revalidate_price_def Let_def)
  have "truthy (fst (revalidate_availability (tt_product t) None now))" using t(5) by (simp add: revalidate_availability_def Let_def)
  then have "prepare_checkout_flow sha hmac ip6 s request buyer bare_candidate None uid now =
      package_checkout sha hmac ip6 s request buyer (tt_product t) VERIFIED_API why uid now"
    using t(1,2) cap price by (simp add: prepare_checkout_flow_def Let_def)
  then show ?thesis using t(3) by (simp add: package_checkout_def Let_def)
qed

section \<open>Merchant orders\<close>

record Commerce =
  cm_registry :: ConnectorRegistry
  cm_orders :: merchant_orders
  cm_bindings :: BindingManager
  cm_outcomes :: outcomes
  cm_health :: "string \<rightharpoonup> ConnectorHealth"

record CreateOrderRequest =
  cq_request_id :: string
  cq_buyer_id :: string
  cq_preparation_id :: string
  cq_payment_transaction_id :: string
  cq_confirmation_token :: string \<comment> \<open>not looked at\<close>
  cq_candidate :: "(string \<times> json) list"

definition order_binding_of :: "CreateOrderRequest \<Rightarrow> VerifiedProduct \<Rightarrow> string \<Rightarrow> OrderBinding" where
  "order_binding_of q p plan_uid =
     \<lparr>ob_purchase_request_id = cq_request_id q, ob_merchant_id = mi_merchant_id (vp_merchant p), ob_buyer_id = cq_buyer_id q,
      ob_product_id = vp_product_id p, ob_quantity = 1, ob_amount_paise = pe_amount_paise (vp_price p),
      ob_currency = pe_currency (vp_price p), ob_merchant_order_id = ''pending_creation'',
      ob_payment_reference = cq_payment_transaction_id q, ob_plan_hash = ''plan_'' @ plan_uid\<rparr>"

definition payment_binding_of :: "CreateOrderRequest \<Rightarrow> VerifiedProduct \<Rightarrow> MerchantOrder \<Rightarrow> string \<Rightarrow> string \<Rightarrow> datetime \<Rightarrow> TransactionBinding" where
  "payment_binding_of q p r cid bind_uid now =
     \<lparr>tb_binding_id = ''bind_'' @ bind_uid, tb_transaction_id = cq_payment_transaction_id q, tb_merchant_order_id = mo_order_id r,
      tb_merchant_id = mi_merchant_id (vp_merchant p), tb_product_id = vp_product_id p, tb_evidence_hash = vp_evidence_hash p,
      tb_order_binding_hash = mo_binding_hash r, tb_amount_paise = pe_amount_paise (vp_price p), tb_currency = pe_currency (vp_price p),
      tb_connector_id = cid, tb_created_at = isoformat now, tb_status = ''BOUND''\<rparr>"

definition record_merchant_order ::
  "(string \<Rightarrow> string) \<Rightarrow> (int \<Rightarrow> int \<Rightarrow> int) \<Rightarrow> (int \<Rightarrow> int \<Rightarrow> int) \<Rightarrow> Commerce \<Rightarrow> CreateOrderRequest \<Rightarrow> VerifiedProduct \<Rightarrow> string \<Rightarrow>
   MerchantOrder \<Rightarrow> string \<Rightarrow> datetime \<Rightarrow> json res \<times> Commerce" where
  \<comment> \<open>what follows the creation of the order\<close>
  "record_merchant_order sha smooth rate s q p cid r bind_uid now =
     (case bind_transaction_to_order (cm_bindings s) (payment_binding_of q p r cid bind_uid now) of
        (Inl e, b) \<Rightarrow> (Inl e, s\<lparr>cm_bindings := b\<rparr>)
      | (Inr _, b) \<Rightarrow>
          (case verify_order_outcome sha (cm_outcomes s) (JStr (''outcome_'' @ mo_order_id r)) (JStr (cq_payment_transaction_id q))
             (JStr (mo_order_id r)) (Some \<lparr>ge_amount = JStr (int_str (pe_amount_paise (vp_price p))), ge_currency = py_str (pe_currency (vp_price p)),
                ge_source = cid\<rparr>) now of
             (Inl e, os) \<Rightarrow> (Inl e, s\<lparr>cm_bindings := b, cm_outcomes := os\<rparr>)
           | (Inr c, os) \<Rightarrow> (outcome_to_dict c,
               s\<lparr>cm_bindings := b, cm_outcomes := os, cm_health := record_call smooth rate (cm_health s) cid 210 True False now\<rparr>)))"

definition create_merchant_order ::
  "(string \<Rightarrow> string) \<Rightarrow> (string \<Rightarrow> string \<Rightarrow> string) \<Rightarrow> (string \<Rightarrow> bool) \<Rightarrow> (int \<Rightarrow> int \<Rightarrow> int) \<Rightarrow> (int \<Rightarrow> int \<Rightarrow> int) \<Rightarrow> string \<Rightarrow>
   Commerce \<Rightarrow> CreateOrderRequest \<Rightarrow> string \<Rightarrow> string \<Rightarrow> string \<Rightarrow> datetime \<Rightarrow> json res \<times> Commerce" where
  \<comment> \<open>the answer holds \<open>outcome.to_dict()\<close>\<close>
  "create_merchant_order sha hmac ip6 smooth rate secret s q plan_uid order_uid bind_uid now =
     (case evaluate_product sha ip6 (cq_candidate q) now of
        Inl e \<Rightarrow> (Inl e, s)
      | Inr t \<Rightarrow>
          let p = tt_product t; c = resolve_connector (cm_registry s) (mi_domain (vp_merchant p)) in
          if cn_id c \<noteq> cn_id real_platform then
            (Inl (http_exception 400 (Msg ''Merchant domain {} does not support direct API order creation.'' [PStr (mi_domain (vp_merchant p))])), s)
          else (case create_platform_order sha real_prefix (cm_orders s) (cq_request_id q) (cq_buyer_id q) p (cq_payment_transaction_id q)
              (compute_binding_hash hmac secret (order_binding_of q p plan_uid)) order_uid now of
            (Inl e, os) \<Rightarrow> (Inl e, s\<lparr>cm_orders := os\<rparr>)
          | (Inr r, os) \<Rightarrow> record_merchant_order sha smooth rate (s\<lparr>cm_orders := os\<rparr>) q p (cn_id c) r bind_uid now))"

lemma recorded_never_answers: "\<exists>e. fst (record_merchant_order sha smooth rate s q p cid r bind_uid now) = Inl e"
  by (auto simp: record_merchant_order_def outcome_to_dict_def split: prod.splits sum.splits)

lemma recorded_keeps_orders: "cm_orders (snd (record_merchant_order sha smooth rate s q p cid r bind_uid now)) = cm_orders s"
  by (auto simp: record_merchant_order_def split: prod.splits sum.splits)

lemma platform_order_Inr:
  assumes "payment \<noteq> []"
  shows "\<exists>r. create_platform_order sha prefix os request buyer p payment binding uid now = (Inr r, put_row (prefix @ uid) r os) \<and>
    mo_payment_transaction_id r = payment \<and> mo_status r = ''ORDER_CONFIRMED''"
  using assms by (simp add: create_platform_order_def Let_def)

text \<open>Creating a merchant order never succeeds and still creates the order: whatever is asked, the endpoint ends in an
  exception; but for a product of the connected shop and any payment and token, the shop's order is there afterwards, and
  a retry, which sees only the failure, makes a second order for the same payment.\<close>

theorem failing_endpoint_creates_orders:
  assumes "evaluate_product sha ip6 (cq_candidate q) now = Inr t" "cq_payment_transaction_id q \<noteq> []"
    "cn_id (resolve_connector (cm_registry s) (mi_domain (vp_merchant (tt_product t)))) = cn_id real_platform"
    "create_merchant_order sha hmac ip6 smooth rate secret s q plan_uid u bind_uid now = (x, s')"
    "create_merchant_order sha hmac ip6 smooth rate secret s' q plan_uid' u' bind_uid' now = (x', s'')" "u \<noteq> u'"
  shows "(\<exists>e. x = Inl e) \<and> (\<exists>e. x' = Inl e) \<and>
    (\<forall>k \<in> {real_prefix @ u, real_prefix @ u'}. \<exists>r. retrieve_order (cm_orders s'') k = Some r \<and>
       mo_payment_transaction_id r = cq_payment_transaction_id q \<and> mo_status r = ''ORDER_CONFIRMED'')"
proof -
  let ?p = "tt_product t"
  have step: "\<exists>r. create_merchant_order sha hmac ip6 smooth rate secret z q a b c now =
      record_merchant_order sha smooth rate (z\<lparr>cm_orders := put_row (real_prefix @ b) r (cm_orders z)\<rparr>) q ?p
        (cn_id real_platform) r c now \<and> mo_payment_transaction_id r = cq_payment_transaction_id q \<and> mo_status r = ''ORDER_CONFIRMED''"
    if "cm_registry z = cm_registry s" for z :: Commerce and a b c
  proof -
    obtain r where r: "create_platform_order sha real_prefix (cm_orders z) (cq_request_id q) (cq_buyer_id q) ?p (cq_payment_transaction_id q)
        (compute_binding_hash hmac secret (order_binding_of q ?p a)) b now = (Inr r, put_row (real_prefix @ b) r (cm_orders z))"
      "mo_payment_transaction_id r = cq_payment_transaction_id q" "mo_status r = ''ORDER_CONFIRMED''"
      using platform_order_Inr [OF assms(2)] by blast
    then have "create_merchant_order sha hmac ip6 smooth rate secret z q a b c now =
        record_merchant_order sha smooth rate (z\<lparr>cm_orders := put_row (real_prefix @ b) r (cm_orders z)\<rparr>) q ?p (cn_id real_platform) r c now"
      using assms(1,3) that by (simp add: create_merchant_order_def Let_def)
    then show ?thesis using r by blast
  qed
  have registry: "cm_registry (snd (record_merchant_order sha smooth rate z q p cid r c now)) = cm_registry z" for z :: Commerce and p cid r c
    by (auto simp: record_merchant_order_def split: prod.splits sum.splits)
  obtain r where r: "(x, s') = record_merchant_order sha smooth rate (s\<lparr>cm_orders := put_row (real_prefix @ u) r (cm_orders s)\<rparr>) q ?p
        (cn_id real_platform) r bind_uid now" "mo_payment_transaction_id r = cq_payment_transaction_id q" "mo_status r = ''ORDER_CONFIRMED''"
    using step [of s plan_uid u bind_uid] assms(4) by auto
  have "cm_registry s' = cm_registry s" "cm_orders s' = put_row (real_prefix @ u) r (cm_orders s)"
    using arg_cong [OF r(1), of snd] by (simp_all add: registry recorded_keeps_orders)
  moreover obtain r' where r': "(x', s'') = record_merchant_order sha smooth rate (s'\<lparr>cm_orders := put_row (real_prefix @ u') r' (cm_orders s')\<rparr>) q ?p
        (cn_id real_platform) r' bind_uid' now" "mo_payment_transaction_id r' = cq_payment_transaction_id q" "mo_status r' = ''ORDER_CONFIRMED''"
    using step [of s' plan_uid' u' bind_uid'] assms(5) calculation(1) by auto
  have "cm_orders s'' = put_row (real_prefix @ u') r' (cm_orders s')"
    using arg_cong [OF r'(1), of snd] by (simp add: recorded_keeps_orders)
  moreover have "\<exists>e. x = Inl e" "\<exists>e. x' = Inl e"
    using recorded_never_answers arg_cong [OF r(1), of fst] arg_cong [OF r'(1), of fst] by (metis fst_conv)+
  ultimately show ?thesis using r(2,3) r'(2,3) assms(6) by (simp add: retrieve_order_def)
qed

definition bare_order :: CreateOrderRequest where
  "bare_order = \<lparr>cq_request_id = ''r1'', cq_buyer_id = ''b1'', cq_preparation_id = ''prep_1'', cq_payment_transaction_id = ''pay1'',
     cq_confirmation_token = ''none'', cq_candidate = bare_candidate\<rparr>"

definition fresh_commerce :: Commerce where
  "fresh_commerce = \<lparr>cm_registry = commerce_registry, cm_orders = [], cm_bindings = binding_manager_init, cm_outcomes = (\<lambda>_. None),
     cm_health = (\<lambda>_. None)\<rparr>"

lemma bare_resolved:
  "mi_domain (vp_merchant p) = ''cafeacme.local'' \<Longrightarrow>
     cn_id (resolve_connector commerce_registry (mi_domain (vp_merchant p))) = cn_id real_platform"
proof -
  have "cn_id (resolve_connector commerce_registry ''cafeacme.local'') = cn_id real_platform" by code_simp
  then show "mi_domain (vp_merchant p) = ''cafeacme.local'' \<Longrightarrow> ?thesis" by simp
qed

lemma failing_endpoint_creates_orders_witness:
  "\<exists>x s' x' s''.
     create_merchant_order (\<lambda>x. x) (\<lambda>k m. m) (\<lambda>_. True) (\<lambda>a b. b) (\<lambda>a b. a) ''k'' fresh_commerce bare_order ''1'' ''2'' ''3'' 0 = (x, s') \<and>
     create_merchant_order (\<lambda>x. x) (\<lambda>k m. m) (\<lambda>_. True) (\<lambda>a b. b) (\<lambda>a b. a) ''k'' s' bare_order ''4'' ''5'' ''6'' 0 = (x', s'') \<and>
     (\<exists>e. x = Inl e) \<and> (\<exists>e. x' = Inl e) \<and>
     (\<forall>k \<in> {real_prefix @ ''2'', real_prefix @ ''5''}. \<exists>r. retrieve_order (cm_orders s'') k = Some r \<and>
        mo_payment_transaction_id r = cq_payment_transaction_id bare_order \<and> mo_status r = ''ORDER_CONFIRMED'')"
proof -
  obtain t where t: "evaluate_product (\<lambda>x. x) (\<lambda>_. True) (cq_candidate bare_order) 0 = Inr t" "mi_domain (vp_merchant (tt_product t)) = ''cafeacme.local''"
    using bare_evaluated [of "\<lambda>x. x" "\<lambda>_. True" 0] by (auto simp: bare_order_def)
  have pay: "cq_payment_transaction_id bare_order \<noteq> []" by (simp add: bare_order_def)
  have shop: "cn_id (resolve_connector (cm_registry fresh_commerce) (mi_domain (vp_merchant (tt_product t)))) = cn_id real_platform"
    using bare_resolved [OF t(2)] by (simp add: fresh_commerce_def)
  obtain x s' where first: "create_merchant_order (\<lambda>x. x) (\<lambda>k m. m) (\<lambda>_. True) (\<lambda>a b. b) (\<lambda>a b. a) ''k'' fresh_commerce bare_order
      ''1'' ''2'' ''3'' 0 = (x, s')" by fastforce
  obtain x' s'' where second: "create_merchant_order (\<lambda>x. x) (\<lambda>k m. m) (\<lambda>_. True) (\<lambda>a b. b) (\<lambda>a b. a) ''k'' s' bare_order
      ''4'' ''5'' ''6'' 0 = (x', s'')" by fastforce
  show ?thesis
    using failing_endpoint_creates_orders [OF t(1) pay shop first second] first second by blast
qed

lemma unpriced_product_prepared_witness:
  "\<exists>c m s'. prepare_checkout_flow (\<lambda>x. x) (\<lambda>k m. m) (\<lambda>_. True)
      \<lparr>or_gate = \<lparr>cg_secret = ''k'', cg_consumed = {}\<rparr>, or_registry = commerce_registry, or_handoff_secret = ''h'', or_outcomes = (\<lambda>_. None)\<rparr>
      ''r1'' ''b1'' bare_candidate None ''1'' 0 = (Inr (True, c, m), s') \<and>
    pe_amount_paise (vp_price (cp_product c)) = 0 \<and> cp_capability c = VERIFIED_API \<and> cp_token c \<noteq> None"
  by (rule unpriced_product_prepared) simp


section \<open>A redirect\<close>

definition tea :: VerifiedProduct where
  "tea = \<lparr>vp_product_id = JStr ''p1'', vp_name = JStr ''Tea'', vp_description = JStr [],
     vp_price = \<lparr>pe_amount_paise = 14000, pe_currency = JStr ''INR'', pe_verified_at = JStr [], pe_evidence_url = JStr [], pe_evidence_hash = []\<rparr>,
     vp_availability = \<lparr>ae_is_in_stock = JBool True, ae_stock_quantity = JInt 1, ae_verified_at = JStr [], ae_evidence_url = JStr []\<rparr>,
     vp_merchant = \<lparr>mi_merchant_id = ''m1'', mi_domain = ''shop.in'', mi_legal_name = JStr ''Shop'', mi_identity_status = []\<rparr>,
     vp_source_url = JStr ''http://shop.in/'', vp_retrieved_at = JStr [], vp_status = SOURCE_BACKED, vp_evidence_hash = []\<rparr>"

lemma handoff_package_verifies_witness:
  "\<exists>h. create_handoff_package (\<lambda>k m. ''0'') (\<lambda>_. True) ''k'' ''r1'' ''b1'' tea 0 = Inr h \<and>
     verify_handoff_package (\<lambda>k m. ''0'') (\<lambda>_. True) ''k'' h \<and> validate_handoff_url (\<lambda>_. True) (hp_url h) = Inr (hp_url h)"
proof -
  have "validate_handoff_url (\<lambda>_. True) ''http://shop.in/'' = Inr ''http://shop.in/''" by code_simp
  then obtain h where h: "create_handoff_package (\<lambda>k m. ''0'') (\<lambda>_. True) ''k'' ''r1'' ''b1'' tea 0 = Inr h"
    by (simp add: create_handoff_package_def prepare_generic_checkout_def tea_def Let_def)
  have "ascii_text ''0''" by code_simp
  with handoff_package_verifies [OF h] h show ?thesis by blast
qed

end
