(* ===== verification/Rate_Limiter.thy ===== *)
theory Rate_Limiter
  imports Contracts Json
begin

text \<open>
  Sliding windows: the limiter of the API, \<open>apps/api/security/rate_limiter.py\<close>, and the one of
  \<open>apps/api/domain/security_hardening.py\<close>. Both keep for every key the times of the admitted requests, drop
  the expired ones and compare the rest with a limit. The locale \<open>sliding_window\<close> is what they share: \<open>live now t\<close>
  says that a request of the time \<open>t\<close> still counts at \<open>now\<close>. Times are microseconds here, where \<open>time.time()\<close>
  is a float.
\<close>

section \<open>Sliding windows\<close>

definition slide :: "(int \<Rightarrow> int \<Rightarrow> bool) \<Rightarrow> nat \<Rightarrow> int list \<Rightarrow> int \<Rightarrow> bool \<times> int list" where
  "slide live n h now =
     (let v = filter (live now) h in if n \<le> length v then (False, v) else (True, v @ [now]))"

fun admitted :: "(int \<Rightarrow> int \<Rightarrow> bool) \<Rightarrow> nat \<Rightarrow> int list \<Rightarrow> int list \<Rightarrow> int list" where
  \<comment> \<open>the times that are admitted, of requests at the given times\<close>
  "admitted live n h [] = []"
| "admitted live n h (t # ts) =
     (if fst (slide live n h t) then [t] else []) @ admitted live n (snd (slide live n h t)) ts"

definition window_count :: "(int \<Rightarrow> int \<Rightarrow> bool) \<Rightarrow> int \<Rightarrow> int list \<Rightarrow> nat" where
  "window_count live t ts = length (filter (\<lambda>u. live t u \<and> u \<le> t) ts)"

lemma length_filter_mono: "(\<And>x. P x \<Longrightarrow> Q x) \<Longrightarrow> length (filter P xs) \<le> length (filter Q xs)"
  by (induction xs) (auto simp: le_SucI)

locale sliding_window =
  fixes live :: "int \<Rightarrow> int \<Rightarrow> bool"
  assumes live_earlier: "now \<le> later \<Longrightarrow> live later t \<Longrightarrow> live now t"
    and live_recent: "live now t \<Longrightarrow> t \<le> u \<Longrightarrow> live now u"
    and live_now: "live t t"
begin

lemma pruned_twice: "now \<le> later \<Longrightarrow> filter (live later) (filter (live now) ts) = filter (live later) ts"
  by (simp only: filter_filter) (rule filter_cong [OF refl], use live_earlier in blast)

lemma drop_old: "sorted ts \<Longrightarrow> dropWhile (\<lambda>t. \<not> live now t) ts = filter (live now) ts"
proof (induction ts)
  case (Cons t ts)
  show ?case
  proof (cases "live now t")
    case True
    then have "\<forall>u \<in> set ts. live now u" using Cons.prems live_recent by auto
    then show ?thesis using True by simp
  qed (use Cons in auto)
qed simp

lemma admitted_bound:
  assumes "sorted (past @ ts)" "h = filter (live c) past" "\<And>t. t \<in> set ts \<Longrightarrow> c \<le> t" "\<And>t. window_count live t past \<le> n"
  shows "window_count live t (past @ admitted live n h ts) \<le> n"
  using assms
proof (induction ts arbitrary: past h c)
  case (Cons u ts)
  let ?v = "filter (live u) past"
  have v: "filter (live u) h = ?v" using Cons.prems(2,3) pruned_twice by simp
  have later: "u \<le> t" if "t \<in> set ts" for t using Cons.prems(1) that by (auto simp: sorted_append)
  show ?case
  proof (cases "n \<le> length ?v")
    case True
    have "window_count live t (past @ admitted live n ?v ts) \<le> n"
      by (rule Cons.IH [of past ?v u]) (use Cons.prems later in \<open>auto simp: sorted_append\<close>)
    then show ?thesis using True by (simp add: slide_def v)
  next
    case False
    have "window_count live s (past @ [u]) \<le> n" for s
    proof (cases "u \<le> s")
      case True
      have "window_count live s past \<le> length ?v"
        unfolding window_count_def by (rule length_filter_mono) (use live_earlier [OF True] in blast)
      then show ?thesis using False by (simp add: window_count_def)
    qed (use Cons.prems(4) [of s] in \<open>simp add: window_count_def\<close>)
    moreover have "?v @ [u] = filter (live u) (past @ [u])" using live_now by simp
    moreover have "sorted ((past @ [u]) @ ts)" using Cons.prems(1) by simp
    ultimately have "window_count live t ((past @ [u]) @ admitted live n (?v @ [u]) ts) \<le> n"
      using Cons.IH [of "past @ [u]" "?v @ [u]" u] later by blast
    then show ?thesis using False by (simp add: slide_def v)
  qed
qed simp

lemma admitted_within_limit: "sorted ts \<Longrightarrow> window_count live t (admitted live n [] ts) \<le> n"
  using admitted_bound [of "[]" ts "[]" "Min (set ts)" n t] by (simp add: window_count_def)

end

section \<open>The limiter of the API\<close>

definition category_limits :: "string \<rightharpoonup> int \<times> int" where
  "category_limits = [''AUTH_FAILURES'' \<mapsto> (5, 60), ''GENERAL_API'' \<mapsto> (100, 60), ''PAYMENT_EXECUTION'' \<mapsto> (20, 60),
     ''SENSITIVE_OPERATIONS'' \<mapsto> (10, 60), ''WEBHOOK_ENDPOINTS'' \<mapsto> (60, 60), ''INTERNAL_OPERATIONS'' \<mapsto> (30, 60)]"

record RateLimiter =
  rl_requests_per_minute :: int
  rl_window_seconds :: int
  rl_history :: "string \<rightharpoonup> int list"

definition rate_limiter_init :: "int \<Rightarrow> int \<Rightarrow> RateLimiter" where
  "rate_limiter_init n w = \<lparr>rl_requests_per_minute = n, rl_window_seconds = w, rl_history = Map.empty\<rparr>"

definition global_rate_limiter :: RateLimiter where
  "global_rate_limiter = rate_limiter_init 100 60"

definition get_limit_for_category :: "RateLimiter \<Rightarrow> string \<Rightarrow> int \<times> int" where
  "get_limit_for_category r category = option_or (category_limits category) (rl_requests_per_minute r, rl_window_seconds r)"

definition composite_key :: "string \<Rightarrow> string \<Rightarrow> string" where
  "composite_key category ident = category @ '':'' @ ident"

definition within :: "int \<Rightarrow> int \<Rightarrow> int \<Rightarrow> bool" where
  "within w now t \<longleftrightarrow> now - seconds w < t"

definition is_allowed :: "RateLimiter \<Rightarrow> string \<Rightarrow> string \<Rightarrow> datetime \<Rightarrow> (bool \<times> int) res \<times> RateLimiter" where
  \<comment> \<open>a limit that is not positive finds no oldest request\<close>
  "is_allowed r ident category now =
     (if ident = [] then (Inr (True, 0), r)
      else case get_limit_for_category r category of (limit, w) \<Rightarrow>
        let k = composite_key category ident; v = filter (within w now) (option_or (rl_history r k) []) in
        if limit \<le> int (length v) then
          (if v = [] then Inl (Raise (SourceError ''IndexError'' []) (Msg ''list index out of range'' []))
           else Inr (False, max 1 ((hd v + seconds w - now) div 1000000)),
           r\<lparr>rl_history := (rl_history r)(k \<mapsto> v)\<rparr>)
        else (Inr (True, 0), r\<lparr>rl_history := (rl_history r)(k \<mapsto> v @ [now])\<rparr>))"

definition rate_limit_error :: "int \<times> int \<Rightarrow> string \<Rightarrow> int \<Rightarrow> py_exc" where
  \<comment> \<open>the second part of the exception is \<open>retry_after_seconds\<close>\<close>
  "rate_limit_error lw category retry = Raise (SourceError ''RateLimitExceededError'' (int_str retry))
     (Msg ''Rate limit of {} requests per {}s exceeded for category '{}'.'' [PInt (fst lw), PInt (snd lw), PStr category])"

definition check_rate_limit :: "RateLimiter \<Rightarrow> string \<Rightarrow> string \<Rightarrow> datetime \<Rightarrow> unit res \<times> RateLimiter" where
  "check_rate_limit r ident category now =
     (case is_allowed r ident category now of
        (Inl e, r') \<Rightarrow> (Inl e, r')
      | (Inr (allowed, retry), r') \<Rightarrow>
          (if allowed then Inr () else Inl (rate_limit_error (get_limit_for_category r category) category retry), r'))"

definition reset_rate_limiter :: "RateLimiter \<Rightarrow> RateLimiter" where
  "reset_rate_limiter r = r\<lparr>rl_history := Map.empty\<rparr>"

datatype rate_op = RateOp (rate_ident: string) (rate_category: string) (rate_time: datetime)

fun rate_step :: "RateLimiter \<Rightarrow> rate_op \<Rightarrow> bool \<times> RateLimiter" where
  "rate_step r (RateOp ident category now) = (case check_rate_limit r ident category now of (x, r') \<Rightarrow> (is_ok x, r'))"

definition asks :: "string \<Rightarrow> string \<Rightarrow> rate_op \<Rightarrow> bool" where
  "asks ident category x \<longleftrightarrow> rate_ident x = ident \<and> rate_category x = category"

definition passed_times :: "RateLimiter \<Rightarrow> rate_op list \<Rightarrow> string \<Rightarrow> string \<Rightarrow> int list" where
  \<comment> \<open>when the requests of this identity and category were let through\<close>
  "passed_times r xs ident category = map (rate_time \<circ> fst)
     (filter (\<lambda>(x, ok). ok \<and> asks ident category x) (zip xs (fst (run_ops rate_step r xs))))"

lemma within_window: "0 < w \<Longrightarrow> sliding_window (within w)"
  by unfold_locales (auto simp: within_def)

interpretation minute: sliding_window "within 60"
  by (rule within_window) simp

lemma takeWhile_upto: "x \<notin> set c \<Longrightarrow> takeWhile (\<lambda>y. y \<noteq> x) (c @ x # i) = c"
  by (induction c) auto

lemma composite_inject:
  assumes "composite_key c i = composite_key c' i'" "CHR '':'' \<notin> set c" "CHR '':'' \<notin> set c'"
  shows "c = c' \<and> i = i'"
proof -
  have "takeWhile (\<lambda>y. y \<noteq> CHR '':'') (composite_key c i) = c" "takeWhile (\<lambda>y. y \<noteq> CHR '':'') (composite_key c' i') = c'"
    using assms(2,3) by (simp_all add: composite_key_def takeWhile_upto)
  then have "c = c'" using assms(1) by metis
  then show ?thesis using assms(1) by (simp add: composite_key_def)
qed

lemma rate_step_slide:
  assumes "ident \<noteq> []" "get_limit_for_category r category = (int n, w)"
  shows "rate_step r (RateOp ident category now) =
    (fst (slide (within w) n (option_or (rl_history r (composite_key category ident)) []) now),
     r\<lparr>rl_history := (rl_history r)(composite_key category ident \<mapsto>
        snd (slide (within w) n (option_or (rl_history r (composite_key category ident)) []) now))\<rparr>)"
  using assms by (auto simp: check_rate_limit_def is_allowed_def slide_def Let_def)

lemma rate_step_other:
  assumes "composite_key (rate_category x) (rate_ident x) \<noteq> k \<or> rate_ident x = []"
  shows "rl_history (snd (rate_step r x)) k = rl_history r k"
  using assms by (cases x) (auto simp: check_rate_limit_def is_allowed_def Let_def split: prod.splits)

lemma rate_step_limits: "get_limit_for_category (snd (rate_step r x)) = get_limit_for_category r"
  by (cases x) (auto simp: fun_eq_iff get_limit_for_category_def check_rate_limit_def is_allowed_def Let_def split: prod.splits)

lemma passed_times_admitted:
  assumes "get_limit_for_category r category = (int n, w)" "ident \<noteq> []" "CHR '':'' \<notin> set category"
    "\<forall>x \<in> set xs. CHR '':'' \<notin> set (rate_category x)"
  shows "passed_times r xs ident category =
    admitted (within w) n (option_or (rl_history r (composite_key category ident)) []) (map rate_time (filter (asks ident category) xs))"
  using assms
proof (induction xs arbitrary: r)
  case Nil
  show ?case by (simp add: passed_times_def)
next
  case (Cons x xs)
  let ?r = "snd (rate_step r x)"
  have IH: "passed_times ?r xs ident category = admitted (within w) n (option_or (rl_history ?r (composite_key category ident)) [])
      (map rate_time (filter (asks ident category) xs))"
    using Cons.IH [of ?r] Cons.prems by (simp add: rate_step_limits)
  have step: "passed_times r (x # xs) ident category =
      (if fst (rate_step r x) \<and> asks ident category x then [rate_time x] else []) @ passed_times ?r xs ident category"
    by (simp add: passed_times_def run_ops_Cons del: run_ops.simps(2))
  show ?case
  proof (cases "asks ident category x")
    case True
    then have "rate_step r x = rate_step r (RateOp ident category (rate_time x))" by (cases x) (simp add: asks_def)
    then show ?thesis unfolding step IH using rate_step_slide [OF Cons.prems(2,1), of "rate_time x"] True by simp
  next
    case False
    have "CHR '':'' \<notin> set (rate_category x)" using Cons.prems(4) by simp
    from composite_inject [OF _ this Cons.prems(3), of "rate_ident x" ident] False
    have "composite_key (rate_category x) (rate_ident x) \<noteq> composite_key category ident" by (auto simp: asks_def)
    then show ?thesis using False rate_step_other [of x "composite_key category ident" r] by (simp add: step IH)
  qed
qed



end
