(* ===== verification/Hardening.thy ===== *)
theory Hardening
  imports Rate_Limiter Receipt Py_Text
begin

text \<open>
  The security hardening engine, \<open>apps/api/domain/security_hardening.py\<close>, with the endpoints of
  \<open>apps/api/routers/security.py\<close>: its sliding window, its posture, the redaction of secrets and the offline
  verification of receipts. The number of seconds to wait is kept in microseconds, before its rounding to two digits.
\<close>

section \<open>The sliding window\<close>

record RateLimitRequest =
  rq_identifier :: string
  rq_action :: string
  rq_max_requests :: int
  rq_window_seconds :: int

record RateLimitResponse =
  rp_allowed :: bool
  rp_identifier :: string
  rp_current_count :: int
  rp_max_requests :: int
  rp_window_seconds :: int
  rp_retry_after :: int

type_synonym window_store = "string \<times> string \<rightharpoonup> int list"

definition valid_rate_request :: "RateLimitRequest \<Rightarrow> bool" where
  \<comment> \<open>the constraints of its fields\<close>
  "valid_rate_request q \<longleftrightarrow> rq_identifier q \<noteq> [] \<and> 1 \<le> rq_max_requests q \<and> 1 \<le> rq_window_seconds q"

definition check_window :: "window_store \<Rightarrow> RateLimitRequest \<Rightarrow> datetime \<Rightarrow> RateLimitResponse \<times> window_store" where
  "check_window st q now =
     (let key = (rq_identifier q, rq_action q); cutoff = now - seconds (rq_window_seconds q);
          history = dropWhile (\<lambda>t. t < cutoff) (option_or (st key) []); count = int (length history) in
      if rq_max_requests q \<le> count then
        (let oldest = (case history of [] \<Rightarrow> now | t # _ \<Rightarrow> t) in
         (\<lparr>rp_allowed = False, rp_identifier = rq_identifier q, rp_current_count = count, rp_max_requests = rq_max_requests q,
           rp_window_seconds = rq_window_seconds q, rp_retry_after = max 100000 (oldest + seconds (rq_window_seconds q) - now)\<rparr>,
          st(key \<mapsto> history)))
      else
        (\<lparr>rp_allowed = True, rp_identifier = rq_identifier q, rp_current_count = count + 1, rp_max_requests = rq_max_requests q,
          rp_window_seconds = rq_window_seconds q, rp_retry_after = 0\<rparr>,
         st(key \<mapsto> history @ [now])))"

definition since_cutoff :: "int \<Rightarrow> int \<Rightarrow> int \<Rightarrow> bool" where
  "since_cutoff w now t \<longleftrightarrow> now - seconds w \<le> t"

lemma since_cutoff_window: "0 \<le> w \<Longrightarrow> sliding_window (since_cutoff w)"
  by unfold_locales (auto simp: since_cutoff_def)

interpretation hardening_minute: sliding_window "since_cutoff 60"
  by (rule since_cutoff_window) simp

lemma check_window_slides:
  assumes "valid_rate_request q" "sorted (option_or (st (rq_identifier q, rq_action q)) [])"
  shows "rp_allowed (fst (check_window st q now)) =
      fst (slide (since_cutoff (rq_window_seconds q)) (nat (rq_max_requests q)) (option_or (st (rq_identifier q, rq_action q)) []) now)"
    "snd (check_window st q now) (rq_identifier q, rq_action q) =
      Some (snd (slide (since_cutoff (rq_window_seconds q)) (nat (rq_max_requests q)) (option_or (st (rq_identifier q, rq_action q)) []) now))"
proof -
  have "dropWhile (\<lambda>t. t < now - seconds (rq_window_seconds q)) (option_or (st (rq_identifier q, rq_action q)) []) =
      filter (since_cutoff (rq_window_seconds q) now) (option_or (st (rq_identifier q, rq_action q)) [])"
    using sliding_window.drop_old [OF since_cutoff_window assms(2), of "rq_window_seconds q" now] assms(1)
    by (simp add: valid_rate_request_def since_cutoff_def not_le)
  moreover have "int n < rq_max_requests q \<longleftrightarrow> n < nat (rq_max_requests q)" for n by linarith
  ultimately show "rp_allowed (fst (check_window st q now)) =
      fst (slide (since_cutoff (rq_window_seconds q)) (nat (rq_max_requests q)) (option_or (st (rq_identifier q, rq_action q)) []) now)"
    "snd (check_window st q now) (rq_identifier q, rq_action q) =
      Some (snd (slide (since_cutoff (rq_window_seconds q)) (nat (rq_max_requests q)) (option_or (st (rq_identifier q, rq_action q)) []) now))"
    by (auto simp: check_window_def slide_def Let_def not_le [symmetric])
qed

section \<open>The engine\<close>

record 'k HardeningEngine =
  he_windows :: window_store
  he_private_key :: 'k
  he_db_down :: bool
  he_redis_down :: bool

definition hardening_init :: "'k \<Rightarrow> 'k HardeningEngine" where
  "hardening_init k = \<lparr>he_windows = Map.empty, he_private_key = k, he_db_down = False, he_redis_down = False\<rparr>"

definition set_forced_persistence_failure :: "'k HardeningEngine \<Rightarrow> bool \<Rightarrow> bool \<Rightarrow> 'k HardeningEngine" where
  "set_forced_persistence_failure h db redis = h\<lparr>he_db_down := db, he_redis_down := redis\<rparr>"

record SecurityPosture =
  sp_fail_closed :: bool
  sp_database_healthy :: bool
  sp_redis_healthy :: bool
  sp_rate_limiter_active :: bool
  sp_redactor_active :: bool
  sp_mitigations :: "string list"

definition get_posture :: "'k HardeningEngine \<Rightarrow> SecurityPosture" where
  "get_posture h = \<lparr>sp_fail_closed = True, sp_database_healthy = (\<not> he_db_down h), sp_redis_healthy = (\<not> he_redis_down h),
     sp_rate_limiter_active = True, sp_redactor_active = True,
     sp_mitigations = [''FAIL_CLOSED_AUTHORIZATION_GATEWAY'', ''ED25519_ACTION_RECEIPT_SIGNING'', ''SLIDING_WINDOW_RATE_LIMITING'',
         ''ZERO_SECRET_LEAKAGE_REDACTION''] @
       (if he_db_down h then [''FAIL_CLOSED_PERSISTENCE_MODE_ACTIVE''] else []) @
       (if he_redis_down h then [''EPHEMERAL_CACHE_DEGRADED_DB_FALLBACK_ACTIVE''] else [])\<rparr>"

definition hardening_error :: "string \<Rightarrow> string \<Rightarrow> py_exc" where
  "hardening_error ecode m = Raise (SourceError ''HardeningError'' ecode) (Msg m [])"

definition engine_check_rate_limit ::
  "'k HardeningEngine \<Rightarrow> RateLimitRequest \<Rightarrow> datetime \<Rightarrow> RateLimitResponse res \<times> 'k HardeningEngine" where
  "engine_check_rate_limit h q now =
     (if he_db_down h then
        (Inl (hardening_error ''DATABASE_FAIL_CLOSED'' ''Rate limiting failed closed due to database persistence failure.''), h)
      else case check_window (he_windows h) q now of (a, st) \<Rightarrow> (Inr a, h\<lparr>he_windows := st\<rparr>))"

definition reset_windows :: "'k HardeningEngine \<Rightarrow> 'k HardeningEngine" where
  "reset_windows h = h\<lparr>he_windows := Map.empty\<rparr>"

section \<open>Redaction\<close>

definition sensitive_words :: "string list" where
  "sensitive_words = [''secret'', ''password'', ''private_key'', ''token'', ''bearer'', ''api_key'', ''razorpay_secret'', ''key_secret'',
     ''auth_header'', ''cred'']"

definition sensitive_key :: "string \<Rightarrow> bool" where
  \<comment> \<open>\<open>SENSITIVE_KEY_PATTERN.search\<close>\<close>
  "sensitive_key k \<longleftrightarrow> list_ex (\<lambda>w. contains w (lower k)) sensitive_words"

definition secret_text :: "string \<Rightarrow> bool" where
  "secret_text s \<longleftrightarrow> contains ''sk_live_'' s \<or> contains ''sk_test_'' s \<or> contains ''eyJ'' s"

fun redact_sensitive_data :: "json \<Rightarrow> json" where
  "redact_sensitive_data (JObj kvs) =
     JObj (map (\<lambda>(k, v). (k, if sensitive_key k then JStr ''[REDACTED]'' else redact_sensitive_data v)) kvs)"
| "redact_sensitive_data (JArr xs) = JArr (map redact_sensitive_data xs)"
| "redact_sensitive_data (JStr s) = (if secret_text s then JStr ''[REDACTED_SECRET_TOKEN]'' else JStr s)"
| "redact_sensitive_data v = v"

fun exposed :: "json \<Rightarrow> bool" where
  \<comment> \<open>somewhere a sensitive key has a value of its own, or a text looks like a secret\<close>
  "exposed (JObj kvs) = list_ex (\<lambda>(k, v). (sensitive_key k \<and> v \<noteq> JStr ''[REDACTED]'') \<or> exposed v) kvs"
| "exposed (JArr xs) = list_ex exposed xs"
| "exposed (JStr s) = secret_text s"
| "exposed v = False"

lemma placeholders: "\<not> secret_text ''[REDACTED]''" "\<not> secret_text ''[REDACTED_SECRET_TOKEN]''"
  by code_simp+

lemma redacted_hidden: "\<not> exposed (redact_sensitive_data v)"
  by (induction v rule: redact_sensitive_data.induct) (auto simp: list_ex_iff placeholders split: if_splits)

lemma redact_unexposed: "\<not> exposed v \<Longrightarrow> redact_sensitive_data v = v"
proof (induction v rule: redact_sensitive_data.induct)
  case (1 kvs)
  have "(k, if sensitive_key k then JStr ''[REDACTED]'' else redact_sensitive_data v) = (k, v)" if "(k, v) \<in> set kvs" for k v
  proof -
    have "\<not> exposed v" "sensitive_key k \<Longrightarrow> v = JStr ''[REDACTED]''" using 1(2) that by (auto simp: list_ex_iff)
    then show ?thesis using 1(1) [OF that refl] by simp
  qed
  then show ?case by (auto intro!: map_idI)
qed (auto simp: list_ex_iff intro!: map_idI)

text \<open>Redaction hides every secret and nothing else: at no depth of its result does a sensitive key have a value of its
  own or a text look like a key or a token; what exposes nothing is returned as it is, and only that.\<close>

theorem redaction_exact:
  "\<not> exposed (redact_sensitive_data v) \<and> (redact_sensitive_data v = v \<longleftrightarrow> \<not> exposed v) \<and>
   redact_sensitive_data (redact_sensitive_data v) = redact_sensitive_data v"
  using redacted_hidden redact_unexposed by metis

section \<open>Offline verification of receipts\<close>

record ReceiptRequest =
  rv_receipt_id :: string
  rv_transaction_id :: string
  rv_mandate_id :: string
  rv_merchant_id :: string
  rv_policy_version :: int
  rv_cart_hash :: string
  rv_amount_paise :: int
  rv_currency :: string
  rv_decision :: string
  rv_execution_tool :: string
  rv_execution_reference :: string
  rv_audit_hash :: string
  rv_signature :: string

record ReceiptAnswer =
  ra_valid :: bool
  ra_receipt_id :: string
  ra_signature_valid :: bool
  ra_payload_hash_valid :: bool
  ra_audit_chain_valid :: bool
  ra_rejection_detail :: "msg option"

definition claimed_receipt :: "ReceiptRequest \<Rightarrow> Currency \<Rightarrow> PolicyDecision \<Rightarrow> datetime \<Rightarrow> ActionReceipt" where
  "claimed_receipt q c d now =
     \<lparr>rc_receipt_version = ''1.0'', rc_receipt_id = rv_receipt_id q, rc_transaction_id = rv_transaction_id q, rc_mandate_id = rv_mandate_id q,
      rc_merchant_id = rv_merchant_id q, rc_policy_version = rv_policy_version q, rc_cart_hash = rv_cart_hash q,
      rc_amount_paise = rv_amount_paise q, rc_currency = c, rc_decision = d, rc_execution_tool = Some (rv_execution_tool q),
      rc_execution_reference = Some (rv_execution_reference q), rc_authorized_at = now, rc_executed_at = Some now, rc_created_at = now,
      rc_audit_hash = Some (rv_audit_hash q), rc_canonical_payload_hash = ''computed_at_verification'', rc_signature = Some (rv_signature q)\<rparr>"

definition no_expectations :: Expectations where
  "no_expectations = \<lparr>ex_transaction_id = None, ex_mandate_id = None, ex_merchant_id = None, ex_amount_paise = None, ex_cart_hash = None,
     ex_currency = None, ex_decision = None\<rparr>"

definition verify_receipt_offline ::
  "('k, 'p) ed25519 \<Rightarrow> (string \<Rightarrow> string) \<Rightarrow> 'k HardeningEngine \<Rightarrow> ReceiptRequest \<Rightarrow> datetime \<Rightarrow> ReceiptAnswer res" where
  "verify_receipt_offline ed sha h q now =
     (if he_db_down h then
        Inl (hardening_error ''DATABASE_FAIL_CLOSED'' ''Receipt verification failed closed due to database persistence failure.'')
      else case (member_of_value decision_value [ALLOW, PolicyDecision.STEP_UP_REQUIRED, REJECT] (rv_decision q),
                 member_of_value currency_value [INR, USD] (rv_currency q)) of
        (Some d, Some c) \<Rightarrow>
          bind_res (mk_receipt sha (claimed_receipt q c d now)) (\<lambda>r.
            let v = verify_receipt ed sha (Receipt_Object r) (Key_Object (ed_public_key ed (he_private_key h))) no_expectations None in
            Inr \<lparr>ra_valid = vr_is_valid v, ra_receipt_id = rv_receipt_id q, ra_signature_valid = vr_signature_valid v,
              ra_payload_hash_valid = vr_canonical_payload_valid v, ra_audit_chain_valid = option_or (vr_audit_link_valid v) True,
              ra_rejection_detail = vr_error v\<rparr>)
      | _ \<Rightarrow> Inr \<lparr>ra_valid = False, ra_receipt_id = rv_receipt_id q, ra_signature_valid = False, ra_payload_hash_valid = False,
              ra_audit_chain_valid = False, ra_rejection_detail = Some (Msg ''Invalid enum conversion: {}'' [PNone])\<rparr>)"

definition security_endpoint :: "'a res \<Rightarrow> 'a res" where
  \<comment> \<open>the endpoints turn a \<open>HardeningError\<close> into an answer 503\<close>
  "security_endpoint r = (case r of Inl (Raise (SourceError c x) m) \<Rightarrow>
       if c = ''HardeningError'' then Inl (http_exception 503 m) else r | _ \<Rightarrow> r)"

text \<open>The offline verification of receipts accepts nothing: it gives the receipt a fixed text as its payload hash, which no
  digest is, so that every receipt, a genuine one included, is answered as invalid or ends in an exception.\<close>

theorem offline_verification_rejects_all:
  assumes "\<And>x. length (sha x) = 64"
  shows "\<not> (\<exists>a. verify_receipt_offline ed sha h q now = Inr a \<and> ra_valid a)"
proof -
  have "vr_is_valid (verify_object ed sha r key e l) = False" if "rc_canonical_payload_hash r = ''computed_at_verification''" for r key e l
  proof -
    have "compute_canonical_hash sha r \<noteq> rc_canonical_payload_hash r"
      using assms [of "json_dumps (canonical_receipt r)"] that by (auto simp: compute_canonical_hash_def)
    then show ?thesis by (simp add: verify_object_def Let_def vr_failed_def)
  qed
  moreover have "rc_canonical_payload_hash r = ''computed_at_verification''" if "mk_receipt sha (claimed_receipt q c d now) = Inr r" for c d r
    using that by (auto simp: mk_receipt_def claimed_receipt_def split: if_splits)
  ultimately show ?thesis
    by (auto simp: verify_receipt_offline_def verify_receipt_def bind_res_Inr Let_def split: option.splits if_splits)
qed

definition sample_request :: ReceiptRequest where
  "sample_request = \<lparr>rv_receipt_id = ''r'', rv_transaction_id = ''t'', rv_mandate_id = ''m'', rv_merchant_id = ''s'', rv_policy_version = 1,
     rv_cart_hash = replicate 64 CHR ''c'', rv_amount_paise = 100, rv_currency = ''INR'', rv_decision = ''ALLOW'',
     rv_execution_tool = ''create_order'', rv_execution_reference = ''order_1'', rv_audit_hash = ''h'', rv_signature = ''s''\<rparr>"

theorem offline_verification_rejects_all_witness:
  "\<not> (\<exists>a. verify_receipt_offline toy_keys (\<lambda>x. replicate 64 CHR ''a'') (hardening_init ()) sample_request 0 = Inr a \<and> ra_valid a)"
  by (rule offline_verification_rejects_all) simp

end
