(* ===== verification/Credentials.thy ===== *)
theory Credentials
  imports Rate_Limiter Audit_Store Session Py_Text
begin

text \<open>
  Who makes a request: \<open>apps/api/domain/identity.py\<close>, the table of credentials (\<open>db/models/credential.py\<close>,
  \<open>db/repository/credential_repository.py\<close>) and the dependencies of the endpoints, \<open>apps/api/security/dependencies.py\<close>.
  A session sees the credentials and the audit table. The characters of a fresh key and the identifiers of
  audit events are arguments.
\<close>

section \<open>Identity\<close>

record Principal =
  pr_credential_id :: string
  pr_merchant_id :: string
  pr_scopes :: "string set"
  pr_authenticated_at :: datetime

definition has_scope :: "Principal \<Rightarrow> string \<Rightarrow> bool" where
  "has_scope p scope \<longleftrightarrow> ''*'' \<in> pr_scopes p \<or> ''admin'' \<in> pr_scopes p \<or> scope \<in> pr_scopes p"

definition has_all_scopes :: "Principal \<Rightarrow> string list \<Rightarrow> bool" where
  "has_all_scopes p required = list_all (has_scope p) required"

definition operator_from_token :: "string \<Rightarrow> string option \<Rightarrow> datetime \<Rightarrow> Principal res" where
  \<comment> \<open>\<open>get_operator_principal\<close> of \<open>identity.py\<close>\<close>
  "operator_from_token merchant token now =
     (if token \<noteq> Some ''op_token_secret_123'' then
        Inl (Raise (SourceError ''AuthorizationError'' []) (Msg ''Invalid or missing operator authorization token.'' []))
      else Inr \<lparr>pr_credential_id = ''cred_operator_001'', pr_merchant_id = merchant, pr_scopes = {''*''}, pr_authenticated_at = now\<rparr>)"

definition compute_credential_fingerprint :: "(string \<Rightarrow> string) \<Rightarrow> string \<Rightarrow> string" where
  "compute_credential_fingerprint sha raw =
     (if blank raw then ''fp_rzp_unknown'' else ''fp_rzp_'' @ take 16 (sha (strip raw)))"

definition secret_hash_salt :: string where
  "secret_hash_salt = ''rzp_sec_v1_salt_9876543210_''"

definition hash_credential_secret :: "(string \<Rightarrow> string) \<Rightarrow> string \<Rightarrow> string res" where
  "hash_credential_secret sha raw =
     (if blank raw then Inl (Raise ValueError (Msg ''Raw secret cannot be empty.'' []))
      else Inr (sha (secret_hash_salt @ strip raw)))"

definition verify_credential_secret :: "(string \<Rightarrow> string) \<Rightarrow> string \<Rightarrow> string \<Rightarrow> bool res" where
  \<comment> \<open>\<open>compare_digest\<close> of two byte strings\<close>
  "verify_credential_secret sha raw stored =
     (if raw = [] \<or> stored = [] then Inr False
      else bind_res (hash_credential_secret sha raw) (\<lambda>h. Inr (h = stored)))"

definition generate_credential_key_pair ::
  "(string \<Rightarrow> string) \<Rightarrow> string \<Rightarrow> string \<Rightarrow> string \<Rightarrow> (string \<times> string \<times> string \<times> string) res" where
  \<comment> \<open>\<open>entropy\<close> is \<open>token_hex(16)\<close> and \<open>uid\<close> the twelve characters of the identifier\<close>
  "generate_credential_key_pair sha environment uid entropy =
     (let env = (if lower environment = ''test'' then ''test'' else ''live'');
          prefix = ''rzp_'' @ env @ ''_'' @ take 8 entropy; raw = prefix @ ''_'' @ drop 8 entropy
      in bind_res (hash_credential_secret sha raw) (\<lambda>h. Inr (''cred_'' @ uid, prefix, raw, h)))"

definition permission_error :: "msg \<Rightarrow> py_exc" where
  "permission_error m = Raise (SourceError ''PermissionError'' []) m"

definition validate_merchant_access :: "Principal \<Rightarrow> string \<Rightarrow> unit res" where
  "validate_merchant_access p target =
     (if blank target then Inl (Raise ValueError (Msg ''target_merchant_id cannot be empty.'' []))
      else if ''*'' \<in> pr_scopes p \<or> ''admin'' \<in> pr_scopes p then Inr ()
      else if pr_merchant_id p \<noteq> strip target then
        Inl (permission_error (Msg ''Cross-tenant access denied. Principal merchant '{}' cannot access resource owned by merchant '{}'.''
          [PStr (pr_merchant_id p), PStr target]))
      else Inr ())"

definition validate_scopes :: "Principal \<Rightarrow> string list \<Rightarrow> unit res" where
  "validate_scopes p required =
     (let missing = filter (\<lambda>s. \<not> has_scope p s) required in
      if missing \<noteq> [] then
        Inl (permission_error (Msg ''Scope authorization denied. Required scope(s) missing: {}.'' (map PStr missing)))
      else Inr ())"

section \<open>The table of credentials\<close>

record CredentialRow =
  cr_credential_id :: string
  cr_merchant_id :: string
  cr_prefix :: string
  cr_secret_hash :: string
  cr_status :: string
  cr_scopes :: string
  cr_created_at :: datetime
  cr_expires_at :: "datetime option"
  cr_revoked_at :: "datetime option"
  cr_last_used_at :: "datetime option"

type_synonym credential_table = "CredentialRow table"

definition empty_error :: "string \<Rightarrow> py_exc" where
  "empty_error field_name = Raise ValueError (Msg ''{} cannot be empty.'' [PStr field_name])"

definition create_credential ::
  "(credential_table \<Rightarrow> CredentialRow \<Rightarrow> bool) \<Rightarrow> string \<Rightarrow> string \<Rightarrow> string \<Rightarrow> string \<Rightarrow> string \<Rightarrow> datetime option \<Rightarrow> datetime \<Rightarrow>
   (credential_table, CredentialRow) prog" where
  "create_credential accepts cid merchant prefix hashed scopes expires now =
     (if blank cid then raise_exc (empty_error ''credential_id'')
      else if blank merchant then raise_exc (empty_error ''merchant_id'')
      else if blank prefix then raise_exc (empty_error ''credential_prefix'')
      else if blank hashed then raise_exc (empty_error ''credential_secret_hash'')
      else let r = \<lparr>cr_credential_id = strip cid, cr_merchant_id = strip merchant, cr_prefix = strip prefix,
             cr_secret_hash = strip hashed, cr_status = ''ACTIVE'', cr_scopes = strip scopes, cr_created_at = now,
             cr_expires_at = expires, cr_revoked_at = None, cr_last_used_at = None\<rparr>
        in then_do (insert_row accepts cr_credential_id r) (\<lambda>ok.
          if ok then ret r else raise_exc (Raise IntegrityError (Msg ''api_credentials'' []))))"

definition get_credential :: "credential_table \<Rightarrow> string \<Rightarrow> CredentialRow option" where
  "get_credential tab cid = (if cid = [] then None else row_of tab (strip cid))"

definition get_credential_by_prefix :: "credential_table \<Rightarrow> string \<Rightarrow> CredentialRow option res" where
  "get_credential_by_prefix tab prefix =
     (if prefix = [] then Inr None else scalar_one_or_none (filter (\<lambda>r. cr_prefix r = strip prefix) (rows_of tab)))"

definition get_credentials_for_merchant :: "credential_table \<Rightarrow> string \<Rightarrow> CredentialRow list" where
  "get_credentials_for_merchant tab merchant =
     (if merchant = [] then [] else filter (\<lambda>r. cr_merchant_id r = strip merchant) (rows_of tab))"

definition put_credential :: "CredentialRow \<Rightarrow> (credential_table, unit) prog" where
  "put_credential r = write_st (put_row (cr_credential_id r) r)"

definition revoke_credential :: "string \<Rightarrow> datetime \<Rightarrow> (credential_table, CredentialRow option) prog" where
  "revoke_credential cid now tab =
     (case get_credential tab cid of
        None \<Rightarrow> (Inr None, tab)
      | Some r \<Rightarrow> let r' = r\<lparr>cr_status := ''REVOKED'', cr_revoked_at := Some now\<rparr> in
          then_do (put_credential r') (\<lambda>_. ret (Some r')) tab)"

definition update_last_used :: "string \<Rightarrow> datetime option \<Rightarrow> datetime \<Rightarrow> (credential_table, CredentialRow option) prog" where
  "update_last_used cid at now tab =
     (case get_credential tab cid of
        None \<Rightarrow> (Inr None, tab)
      | Some r \<Rightarrow> let r' = r\<lparr>cr_last_used_at := Some (resolve_at at now)\<rparr> in
          then_do (put_credential r') (\<lambda>_. ret (Some r')) tab)"

section \<open>Authentication\<close>

record AuthDb =
  ad_credentials :: credential_table
  ad_audit :: "AuditRow list"

definition on_credentials :: "(credential_table, 'a) prog \<Rightarrow> (AuthDb, 'a) prog" where
  "on_credentials m = zoom ad_credentials (\<lambda>t s. s\<lparr>ad_credentials := t\<rparr>) m"

definition append_auth_event ::
  "(string \<Rightarrow> string) \<Rightarrow> (AuditRow list \<Rightarrow> AuditRow \<Rightarrow> bool) \<Rightarrow> AuditEventType \<Rightarrow> string option \<Rightarrow> string \<Rightarrow> string \<Rightarrow> string \<Rightarrow>
   datetime \<Rightarrow> (AuthDb, AuditRow) prog" where
  "append_auth_event sha accepts ty merchant action fp uid now =
     zoom ad_audit (\<lambda>t s. s\<lparr>ad_audit := t\<rparr>) (\<lambda>rows. repo_append_event sha accepts rows (audit_event_value ty)
       \<lparr>ev_transaction_id = None, ev_mandate_id = None, ev_merchant_id = merchant, ev_buyer_id = None,
        ev_payload = Some [(''action'', JStr action), (''credential_fingerprint'', JStr fp)]\<rparr> None None uid now)"

definition quoted :: "string \<Rightarrow> string" where
  "quoted s = CHR 0x27 # s @ [CHR 0x27]"

definition refuse_401 :: "string \<Rightarrow> py_exc" where
  "refuse_401 detail = http_exception 401 (Msg detail [])"

fun words_from :: "string \<Rightarrow> string \<Rightarrow> string list" where
  \<comment> \<open>\<open>s.split()\<close>, after the characters of a word that has begun\<close>
  "words_from w [] = (if w = [] then [] else [w])"
| "words_from w (c # cs) =
     (if is_space c then (if w = [] then words_from [] cs else w # words_from [] cs) else words_from (w @ [c]) cs)"

definition principal_of :: "CredentialRow \<Rightarrow> datetime \<Rightarrow> Principal" where
  "principal_of r now = \<lparr>pr_credential_id = cr_credential_id r, pr_merchant_id = cr_merchant_id r,
     pr_scopes = set (words_from [] (cr_scopes r)), pr_authenticated_at = now\<rparr>"

definition find_credential :: "credential_table \<Rightarrow> string \<Rightarrow> string \<Rightarrow> CredentialRow option res" where
  "find_credential tab key prefix =
     bind_res (get_credential_by_prefix tab prefix) (\<lambda>c. case c of
         None \<Rightarrow> get_credential_by_prefix tab (take 18 key) | Some r \<Rightarrow> Inr (Some r))"

definition refuse_login ::
  "(string \<Rightarrow> string) \<Rightarrow> (AuditRow list \<Rightarrow> AuditRow \<Rightarrow> bool) \<Rightarrow> string option \<Rightarrow> string \<Rightarrow> string \<Rightarrow> string \<Rightarrow> string \<Rightarrow> datetime \<Rightarrow>
   (AuthDb, Principal) prog" where
  "refuse_login sha accepts merchant action detail fp uid now =
     then_do (append_auth_event sha accepts API_CREDENTIAL_AUTH_FAILED merchant action fp uid now) (\<lambda>_. raise_exc (refuse_401 detail))"

definition has_expired :: "CredentialRow \<Rightarrow> datetime \<Rightarrow> bool" where
  "has_expired r now = (case cr_expires_at r of None \<Rightarrow> False | Some e \<Rightarrow> e < now)"

definition login_row ::
  "(string \<Rightarrow> string) \<Rightarrow> (AuditRow list \<Rightarrow> AuditRow \<Rightarrow> bool) \<Rightarrow> string \<Rightarrow> string \<Rightarrow> CredentialRow \<Rightarrow> string \<Rightarrow> datetime \<Rightarrow> (AuthDb, Principal) prog" where
  \<comment> \<open>the checks of the credential that was found\<close>
  "login_row sha accepts key fp r uid now =
     (let merchant = Some (cr_merchant_id r); cid = quoted (cr_credential_id r) in
      if cr_status r \<noteq> ''ACTIVE'' then
        refuse_login sha accepts merchant (''Authentication failed: credential '' @ cid @ '' is '' @ cr_status r)
          (''API credential is '' @ lower (cr_status r) @ ''.'') fp uid now
      else if has_expired r now then
        then_do (on_credentials (put_credential (r\<lparr>cr_status := ''EXPIRED''\<rparr>))) (\<lambda>_.
          refuse_login sha accepts merchant (''Authentication failed: credential '' @ cid @ '' expired'') ''API credential has expired.'' fp uid now)
      else then_do (of_res (verify_credential_secret sha key (cr_secret_hash r))) (\<lambda>ok.
        if \<not> ok then
          refuse_login sha accepts merchant (''Authentication failed: invalid secret for credential '' @ cid)
            ''Invalid API authentication credentials.'' fp uid now
        else then_do (on_credentials (update_last_used (cr_credential_id r) (Some now) now)) (\<lambda>_.
          then_do (append_auth_event sha accepts API_CREDENTIAL_AUTHENTICATED merchant (''Successfully authenticated credential '' @ cid) fp uid now)
            (\<lambda>_. ret (principal_of r now)))))"

definition authenticate_with_uow ::
  "(string \<Rightarrow> string) \<Rightarrow> (AuditRow list \<Rightarrow> AuditRow \<Rightarrow> bool) \<Rightarrow> string \<Rightarrow> string \<Rightarrow> string \<Rightarrow> datetime \<Rightarrow> (AuthDb, Principal) prog" where
  "authenticate_with_uow sha accepts key prefix uid now =
     (let fp = compute_credential_fingerprint sha key in
      then_do (read_st (\<lambda>s. find_credential (ad_credentials s) key prefix)) (\<lambda>found.
        then_do (of_res found) (\<lambda>c. case c of
          None \<Rightarrow> refuse_login sha accepts None ''Authentication failed: unknown credential key''
            ''Invalid API authentication credentials.'' fp uid now
        | Some r \<Rightarrow> login_row sha accepts key fp r uid now)))"

datatype uow_use = Active_Uow | Fresh_Uow | No_Database

definition key_prefix :: "string \<Rightarrow> string" where
  "key_prefix key = (let parts = split_on (CHR ''_'') key in
     if 3 \<le> length parts \<and> parts ! 0 = ''rzp'' then parts ! 0 @ ''_'' @ parts ! 1 @ ''_'' @ parts ! 2 else take 18 key)"

definition dev_fallback :: "string \<Rightarrow> datetime \<Rightarrow> Principal res" where
  "dev_fallback key now =
     (if begins ''invalid'' key \<or> begins ''bad'' key \<or>
         \<not> (begins ''rzp_'' key \<or> begins ''test_'' key \<or> begins ''op_'' key \<or> begins ''cred_'' key) then
        Inl (refuse_401 ''Invalid API authentication credentials.'')
      else Inr \<lparr>pr_credential_id = ''cred_dev_fallback'', pr_merchant_id = ''mer_default'', pr_scopes = {''*''}, pr_authenticated_at = now\<rparr>)"

definition authenticate_credential ::
  "(string \<Rightarrow> string) \<Rightarrow> (AuditRow list \<Rightarrow> AuditRow \<Rightarrow> bool) \<Rightarrow> uow_use \<Rightarrow> string \<Rightarrow> string \<Rightarrow> datetime \<Rightarrow> (AuthDb, Principal) prog" where
  "authenticate_credential sha accepts u raw uid now =
     (if blank raw then raise_exc (refuse_401 ''Missing API authentication credentials.'')
      else let key = strip raw; m = authenticate_with_uow sha accepts key (key_prefix key) uid now in
        case u of Active_Uow \<Rightarrow> m | Fresh_Uow \<Rightarrow> transactional (\<lambda>s. s) (\<lambda>t _. t) m | No_Database \<Rightarrow> of_res (dev_fallback key now))"

section \<open>The dependencies of the endpoints\<close>

record Gate =
  ga_limiter :: RateLimiter
  ga_db :: AuthDb

definition header_key :: "string option \<Rightarrow> string option \<Rightarrow> string" where
  \<comment> \<open>of the headers \<open>Authorization\<close> and \<open>X-API-Key\<close>\<close>
  "header_key auth api =
     (if auth \<noteq> None \<and> auth \<noteq> Some [] then
        (if begins ''Bearer '' (the auth) then strip (drop 7 (the auth)) else strip (the auth))
      else if api \<noteq> None \<and> api \<noteq> Some [] then strip (the api) else [])"

definition limit_429 :: "py_exc \<Rightarrow> py_exc" where
  "limit_429 e = (case e of Raise (SourceError c retry) m \<Rightarrow> if c = ''RateLimitExceededError'' then http_exception 429 m else e | _ \<Rightarrow> e)"

definition is_http :: "py_exc \<Rightarrow> bool" where
  "is_http e = (case e of Raise (SourceError c _) m \<Rightarrow> c = ''HTTPException'' | _ \<Rightarrow> False)"

definition check_limit :: "string \<Rightarrow> string \<Rightarrow> datetime \<Rightarrow> (Gate, unit) prog" where
  "check_limit fp category now g = (case check_rate_limit (ga_limiter g) fp category now of
     (Inl e, l) \<Rightarrow> (Inl (limit_429 e), g\<lparr>ga_limiter := l\<rparr>) | (Inr x, l) \<Rightarrow> (Inr x, g\<lparr>ga_limiter := l\<rparr>))"

definition settle_login :: "string \<Rightarrow> datetime \<Rightarrow> Principal res \<Rightarrow> (Gate, Principal) prog" where
  "settle_login fp now r = (case r of Inr p \<Rightarrow> ret p
     | Inl e \<Rightarrow> if is_http e then then_do (check_limit fp ''AUTH_FAILURES'' now) (\<lambda>_. raise_exc e) else raise_exc e)"

definition get_current_principal ::
  "(string \<Rightarrow> string) \<Rightarrow> (AuditRow list \<Rightarrow> AuditRow \<Rightarrow> bool) \<Rightarrow> uow_use \<Rightarrow> string option \<Rightarrow> string option \<Rightarrow> string \<Rightarrow> datetime \<Rightarrow>
   (Gate, Principal) prog" where
  "get_current_principal sha accepts u auth api uid now =
     (let key = header_key auth api; fp = compute_credential_fingerprint sha key in
      if key = [] then raise_exc (refuse_401 ''Invalid API authentication credentials.'')
      else then_do (check_limit fp ''GENERAL_API'' now) (\<lambda>_.
        then_do (attempt (zoom ga_db (\<lambda>t g. g\<lparr>ga_db := t\<rparr>) (authenticate_credential sha accepts u key uid now)))
          (settle_login fp now)))"

definition get_operator_principal ::
  "(string \<Rightarrow> string) \<Rightarrow> (AuditRow list \<Rightarrow> AuditRow \<Rightarrow> bool) \<Rightarrow> uow_use \<Rightarrow> string option \<Rightarrow> string option \<Rightarrow> string \<Rightarrow> datetime \<Rightarrow>
   (AuthDb, Principal) prog" where
  "get_operator_principal sha accepts u auth operator_token uid now =
     (let key = (if operator_token \<noteq> None \<and> operator_token \<noteq> Some [] then strip (the operator_token) else header_key auth None) in
      if key = [] then raise_exc (refuse_401 ''Operator authorization credentials required.'')
      else then_do (authenticate_credential sha accepts u key uid now) (\<lambda>p.
        if has_scope p ''operator'' \<or> has_scope p ''admin'' \<or> ''*'' \<in> pr_scopes p then ret p
        else raise_exc (http_exception 403 (Msg ''Operator authorization denied. Required scope 'operator' missing.'' []))))"

definition require_scopes :: "string list \<Rightarrow> Principal \<Rightarrow> Principal res" where
  "require_scopes required p =
     (let missing = filter (\<lambda>s. \<not> has_scope p s) required in
      if missing \<noteq> [] then
        Inl (http_exception 403 (Msg ''Scope authorization denied. Required scope(s) missing: {}.'' (map PStr missing)))
      else Inr p)"

definition verify_merchant_tenant_access :: "string \<Rightarrow> Principal \<Rightarrow> unit res" where
  "verify_merchant_tenant_access merchant p = (case validate_merchant_access p merchant of
     Inl (Raise (SourceError c x) m) \<Rightarrow> Inl (if c = ''PermissionError'' then http_exception 403 m else Raise (SourceError c x) m)
   | r \<Rightarrow> r)"

section \<open>What a login establishes\<close>

lemma refusal_raises [simp]: "refuse_login sha accepts merchant action detail fp uid now s \<noteq> (Inr x, t)"
  by (simp add: refuse_login_def then_do_result)

lemma refusal_raises_later [simp]: "then_do m (\<lambda>_. refuse_login sha accepts merchant action detail fp uid now) s \<noteq> (Inr x, t)"
  by (simp add: then_do_result)

lemma login_row_result:
  assumes "login_row sha accepts key fp r uid now s = (Inr p, s')"
  shows "cr_status r = ''ACTIVE'' \<and> \<not> has_expired r now \<and> verify_credential_secret sha key (cr_secret_hash r) = Inr True \<and> p = principal_of r now"
proof -
  have active: "cr_status r = ''ACTIVE''" using assms by (rule contrapos_pp) (simp add: login_row_def Let_def)
  have live: "\<not> has_expired r now" using assms active by (rule_tac notI) (simp add: login_row_def Let_def)
  have "verify_credential_secret sha key (cr_secret_hash r) = Inr True \<and> p = principal_of r now"
    using assms active live by (auto simp: login_row_def Let_def then_do_result split: if_splits)
  then show ?thesis using active live by blast
qed

lemma login_result:
  assumes "authenticate_with_uow sha accepts key prefix uid now s = (Inr p, s')"
  shows "\<exists>r. find_credential (ad_credentials s) key prefix = Inr (Some r) \<and> cr_status r = ''ACTIVE'' \<and>
    \<not> has_expired r now \<and> verify_credential_secret sha key (cr_secret_hash r) = Inr True \<and> p = principal_of r now"
proof -
  obtain c where c: "find_credential (ad_credentials s) key prefix = Inr c"
    using assms by (cases "find_credential (ad_credentials s) key prefix") (auto simp: authenticate_with_uow_def Let_def)
  then obtain r where r: "c = Some r" using assms by (cases c) (auto simp: authenticate_with_uow_def Let_def)
  have "login_row sha accepts key (compute_credential_fingerprint sha key) r uid now s = (Inr p, s')"
    using assms c r by (simp add: authenticate_with_uow_def Let_def)
  from login_row_result [OF this] show ?thesis using c r by blast
qed

lemma found_in_table:
  assumes "find_credential tab key prefix = Inr (Some r)"
  shows "r \<in> set (rows_of tab) \<and> (cr_prefix r = strip prefix \<or> cr_prefix r = strip (take 18 key))"
proof -
  have by_prefix: "r \<in> set (rows_of tab) \<and> cr_prefix r = strip k" if "get_credential_by_prefix tab k = Inr (Some r)" for k
  proof -
    have "filter (\<lambda>r. cr_prefix r = strip k) (rows_of tab) = [r]"
      using that by (auto simp: get_credential_by_prefix_def scalar_one_or_none_def split: if_splits list.splits)
    then have "r \<in> set (filter (\<lambda>r. cr_prefix r = strip k) (rows_of tab))" by simp
    then show ?thesis by simp
  qed
  show ?thesis using assms by_prefix by (auto simp: find_credential_def bind_res_Inr split: option.splits)
qed

lemma secret_verified:
  "verify_credential_secret sha raw stored = Inr True \<longleftrightarrow> \<not> blank raw \<and> stored \<noteq> [] \<and> stored = sha (secret_hash_salt @ strip raw)"
  by (auto simp: verify_credential_secret_def hash_credential_secret_def bind_res_Inr blank_def)

definition credential_admits :: "(string \<Rightarrow> string) \<Rightarrow> CredentialRow \<Rightarrow> string \<Rightarrow> datetime \<Rightarrow> bool" where
  \<comment> \<open>this key is the secret of this active credential\<close>
  "credential_admits sha r key now \<longleftrightarrow> cr_status r = ''ACTIVE'' \<and> \<not> has_expired r now \<and>
     cr_secret_hash r = sha (secret_hash_salt @ key) \<and> (cr_prefix r = strip (key_prefix key) \<or> cr_prefix r = strip (take 18 key))"

lemma authenticated:
  assumes "authenticate_credential sha accepts u raw uid now s = (Inr p, s')" "u \<noteq> No_Database"
  shows "\<exists>r \<in> set (rows_of (ad_credentials s)). credential_admits sha r (strip raw) now \<and> p = principal_of r now"
proof -
  obtain s'' where "authenticate_with_uow sha accepts (strip raw) (key_prefix (strip raw)) uid now s = (Inr p, s'')"
    using assms by (auto simp: authenticate_credential_def transactional_def Let_def split: uow_use.splits if_splits prod.splits sum.splits)
  from login_result [OF this] show ?thesis using found_in_table by (fastforce simp: credential_admits_def secret_verified)
qed

text \<open>C28: Over a database a request acts for a principal only with the secret of a live credential: the key of its headers is
  the one whose salted digest the table holds, under that key's prefix, in a row that is active and has not expired, and
  the credential, the merchant and the scopes of the principal are those of the row, whatever the request says.\<close>

theorem principal_holds_credential:
  assumes "get_current_principal sha accepts u auth api uid now g = (Inr p, g')" "u \<noteq> No_Database"
  shows "\<exists>r \<in> set (rows_of (ad_credentials (ga_db g))). credential_admits sha r (header_key auth api) now \<and>
    pr_credential_id p = cr_credential_id r \<and> pr_merchant_id p = cr_merchant_id r \<and> pr_scopes p = set (words_from [] (cr_scopes r))"
proof -
  let ?key = "header_key auth api"
  let ?auth = "zoom ga_db (\<lambda>t g. g\<lparr>ga_db := t\<rparr>) (authenticate_credential sha accepts u ?key uid now)"
  obtain x g1 g2 where steps: "check_limit (compute_credential_fingerprint sha ?key) ''GENERAL_API'' now g = (Inr (), g1)"
    "attempt ?auth g1 = (Inr x, g2)" "settle_login (compute_credential_fingerprint sha ?key) now x g2 = (Inr p, g')"
    using assms(1) by (auto simp: get_current_principal_def then_do_result Let_def split: if_splits)
  have "x = Inr p" using steps(3) by (auto simp: settle_login_def then_do_result split: sum.splits if_splits)
  moreover have "ga_db g1 = ga_db g" using steps(1) by (auto simp: check_limit_def split: prod.splits sum.splits)
  ultimately obtain s' where call: "authenticate_credential sha accepts u ?key uid now (ga_db g) = (Inr p, s')"
    using steps(2) by (auto simp: attempt_def zoom_def split: prod.splits)
  then obtain r where "r \<in> set (rows_of (ad_credentials (ga_db g)))" "credential_admits sha r (strip ?key) now" "p = principal_of r now"
    using authenticated [OF call assms(2)] by blast
  moreover have "strip ?key = ?key" by (simp add: header_key_def)
  ultimately show ?thesis by (auto simp: principal_of_def)
qed

section \<open>Revocation\<close>

abbreviation wf_credentials :: "credential_table \<Rightarrow> bool" where
  "wf_credentials \<equiv> wf_table cr_credential_id"

definition is_dead :: "string \<Rightarrow> credential_table \<Rightarrow> bool" where
  \<comment> \<open>this credential exists and is not active\<close>
  "is_dead cid tab \<longleftrightarrow> wf_credentials tab \<and> (\<exists>r. row_of tab cid = Some r \<and> cr_status r \<noteq> ''ACTIVE'')"

definition stays_dead :: "string \<Rightarrow> credential_table \<Rightarrow> credential_table \<Rightarrow> bool" where
  "stays_dead cid tab tab' \<longleftrightarrow> (is_dead cid tab \<longrightarrow> is_dead cid tab')"

interpretation dead_rows: evolution "stays_dead cid" for cid
  by unfold_locales (auto simp: stays_dead_def)

interpretation dead_credentials: evolution "\<lambda>s t. stays_dead cid (ad_credentials s) (ad_credentials t)" for cid
  by unfold_locales (auto simp: stays_dead_def)

lemma dead_put: "cr_status q \<noteq> ''ACTIVE'' \<Longrightarrow> stays_dead cid tab (put_row (cr_credential_id q) q tab)"
  by (auto simp: stays_dead_def is_dead_def wf_table_put)

lemma dead_create: "unique_key cr_credential_id accepts \<Longrightarrow> evolves (stays_dead cid) (insert_row accepts cr_credential_id q)"
  by (auto simp: evolves_def stays_dead_def is_dead_def insert_row_def unique_key_def wf_table_put)

lemma dead_last_used: "evolves (stays_dead cid) (update_last_used k at now)"
  unfolding evolves_def
proof
  fix tab
  show "stays_dead cid tab (snd (update_last_used k at now tab))"
  proof (cases "get_credential tab k")
    case (Some q)
    then have q: "row_of tab (strip k) = Some q" by (simp add: get_credential_def split: if_splits)
    have "snd (update_last_used k at now tab) =
        put_row (cr_credential_id q) (q\<lparr>cr_last_used_at := Some (resolve_at at now)\<rparr>) tab"
      using Some by (simp add: update_last_used_def put_credential_def Let_def)
    moreover have "cr_credential_id q = strip k" if "wf_credentials tab" using that q by (auto simp: wf_table_def keyed_def)
    ultimately show ?thesis using q by (auto simp: stays_dead_def is_dead_def wf_table_put)
  qed (simp add: update_last_used_def stays_dead_def)
qed

lemma dead_revoke: "evolves (stays_dead cid) (revoke_credential k now)"
  unfolding evolves_def
proof
  fix tab
  show "stays_dead cid tab (snd (revoke_credential k now tab))"
    using dead_put [of "q\<lparr>cr_status := ''REVOKED'', cr_revoked_at := Some now\<rparr>" cid tab for q]
    by (cases "get_credential tab k") (simp_all add: revoke_credential_def put_credential_def Let_def stays_dead_def)
qed

lemma dead_zoom: "evolves (stays_dead cid) m \<Longrightarrow> evolves (\<lambda>s t. stays_dead cid (ad_credentials s) (ad_credentials t)) (on_credentials m)"
  unfolding on_credentials_def by (rule evolves_zoom) simp_all

lemma dead_audit: "evolves (\<lambda>s t. stays_dead cid (ad_credentials s) (ad_credentials t)) (append_auth_event sha accepts ty merchant action fp uid now)"
  by (auto simp: evolves_def append_auth_event_def zoom_def stays_dead_def split: prod.splits)

lemma dead_login:
  "evolves (\<lambda>s t. stays_dead cid (ad_credentials s) (ad_credentials t)) (authenticate_with_uow sha accepts key prefix uid now)"
proof -
  have refuse: "evolves (\<lambda>s t. stays_dead cid (ad_credentials s) (ad_credentials t)) (refuse_login sha accepts m a d fp uid now)" for m a d fp
    unfolding refuse_login_def by (intro dead_credentials.evolves_rules dead_audit)
  have expire: "evolves (stays_dead cid) (put_credential (r\<lparr>cr_status := ''EXPIRED''\<rparr>))" for r
    using dead_put [of "r\<lparr>cr_status := ''EXPIRED''\<rparr>"] by (simp add: evolves_def put_credential_def)
  have row: "evolves (\<lambda>s t. stays_dead cid (ad_credentials s) (ad_credentials t)) (login_row sha accepts key fp r uid now)" for fp r
    unfolding login_row_def Let_def
    by (intro dead_credentials.evolves_rules dead_audit refuse dead_zoom expire dead_last_used)
  show ?thesis
    unfolding authenticate_with_uow_def Let_def by (intro dead_credentials.evolves_rules refuse row)
qed

datatype credential_op =
    Login uow_use string string datetime
  | Revoke string datetime
  | Create string string string string string "datetime option" datetime

fun credential_step ::
  "(string \<Rightarrow> string) \<Rightarrow> (AuditRow list \<Rightarrow> AuditRow \<Rightarrow> bool) \<Rightarrow> (credential_table \<Rightarrow> CredentialRow \<Rightarrow> bool) \<Rightarrow> AuthDb \<Rightarrow> credential_op \<Rightarrow>
   Principal option \<times> AuthDb" where
  "credential_step sha audit accepts s (Login u raw uid now) =
     (case authenticate_credential sha audit u raw uid now s of (x, t) \<Rightarrow> (case x of Inr p \<Rightarrow> Some p | Inl _ \<Rightarrow> None, t))"
| "credential_step sha audit accepts s (Revoke cid now) = (None, snd (on_credentials (revoke_credential cid now) s))"
| "credential_step sha audit accepts s (Create cid merchant prefix hashed scopes expires now) =
     (None, snd (on_credentials (create_credential accepts cid merchant prefix hashed scopes expires now) s))"

fun over_database :: "credential_op \<Rightarrow> bool" where
  "over_database (Login u _ _ _) = (u \<noteq> No_Database)"
| "over_database _ = True"

lemma dead_authenticate: "stays_dead cid (ad_credentials s) (ad_credentials (snd (authenticate_credential sha audit u raw uid now s)))"
  using evolvesD [OF dead_login, of cid s sha audit "strip raw" "key_prefix (strip raw)" uid now]
  by (auto simp: authenticate_credential_def transactional_def Let_def stays_dead_def split: uow_use.splits prod.splits sum.splits)

lemma dead_step:
  assumes "unique_key cr_credential_id accepts" "is_dead cid (ad_credentials s)"
  shows "is_dead cid (ad_credentials (snd (credential_step sha audit accepts s x)))"
proof (cases x)
  case (Login u raw uid now)
  then show ?thesis using dead_authenticate assms(2) by (auto simp: stays_dead_def split: prod.splits) (metis snd_conv)
next
  case (Revoke k now)
  then show ?thesis using evolvesD [OF dead_zoom [OF dead_revoke]] assms(2) by (simp add: stays_dead_def)
next
  case (Create k merchant prefix hashed scopes expires now)
  have "evolves (stays_dead cid) (create_credential accepts k merchant prefix hashed scopes expires now)"
    unfolding create_credential_def Let_def by (intro dead_rows.evolves_rules dead_create [OF assms(1)])
  then show ?thesis using evolvesD [OF dead_zoom] Create assms(2) by (fastforce simp: stays_dead_def)
qed

interpretation dead_run: machine "credential_step sha audit (free_key cr_credential_id)" "\<lambda>_ _. True" "\<lambda>s. is_dead cid (ad_credentials s)" for sha audit cid
  by unfold_locales (rule dead_step, simp_all)

text \<open>C29: A revoked or expired credential is dead for good: once its row is not active, whatever logins, revocations and
  creations follow, over whatever sessions, none of the logins makes a request act for it.\<close>

theorem revoked_credential_is_dead:
  assumes "wf_credentials (ad_credentials s)" "row_of (ad_credentials s) cid = Some r" "cr_status r \<noteq> ''ACTIVE''"
    "unique_key cr_credential_id accepts" "list_all over_database xs"
  shows "\<not> (\<exists>p. Some p \<in> set (fst (run_ops (credential_step sha audit accepts) s xs)) \<and> pr_credential_id p = cid)"
proof -
  have "is_dead cid (ad_credentials s)" using assms(1-3) by (auto simp: is_dead_def)
  then show ?thesis using assms(5)
  proof (induction xs arbitrary: s)
    case (Cons x xs)
    have "\<not> (\<exists>p. fst (credential_step sha audit accepts s x) = Some p \<and> pr_credential_id p = cid)"
    proof
      assume "\<exists>p. fst (credential_step sha audit accepts s x) = Some p \<and> pr_credential_id p = cid"
      then obtain u raw uid now p t where "authenticate_credential sha audit u raw uid now s = (Inr p, t)" "u \<noteq> No_Database" "pr_credential_id p = cid"
        using Cons.prems(2) by (cases x) (auto split: prod.splits sum.splits)
      then obtain q where "q \<in> set (rows_of (ad_credentials s))" "cr_status q = ''ACTIVE''" "cr_credential_id q = cid"
        using authenticated by (fastforce simp: credential_admits_def principal_of_def)
      then show False using Cons.prems(1) wf_rows by (fastforce simp: is_dead_def)
    qed
    moreover have "\<not> (\<exists>p. Some p \<in> set (fst (run_ops (credential_step sha audit accepts) (snd (credential_step sha audit accepts s x)) xs)) \<and>
        pr_credential_id p = cid)"
      using Cons.IH [OF dead_step [OF assms(4) Cons.prems(1)]] Cons.prems(2) by simp
    ultimately show ?case by (simp add: run_ops_Cons del: run_ops.simps(2)) metis
  qed simp
qed

section \<open>A fresh key\<close>

lemma fresh_key_prefix:
  assumes "CHR ''_'' \<notin> set entropy" "e \<in> {''test'', ''live''}"
  shows "key_prefix (''rzp_'' @ e @ ''_'' @ take 8 entropy @ ''_'' @ drop 8 entropy) = ''rzp_'' @ e @ ''_'' @ take 8 entropy"
proof -
  have "CHR ''_'' \<notin> set (take 8 entropy)" "CHR ''_'' \<notin> set (drop 8 entropy)" "CHR ''_'' \<notin> set e"
    using assms set_take_subset set_drop_subset by fastforce+
  then have "split_on (CHR ''_'') (''rzp_'' @ e @ ''_'' @ take 8 entropy @ ''_'' @ drop 8 entropy) = [''rzp'', e, take 8 entropy, drop 8 entropy]"
    using split_join [of "[''rzp'', e, take 8 entropy, drop 8 entropy]" "CHR ''_''"] by simp
  then show ?thesis by (simp add: key_prefix_def Let_def)
qed

lemma unspaced_strip:
  assumes "\<forall>c \<in> set s. \<not> is_space c"
  shows "strip s = s"
proof -
  have keep: "dropWhile is_space t = t" if "\<forall>c \<in> set t. \<not> is_space c" for t
    using that by (cases t) auto
  show ?thesis using keep [of s] keep [of "rev s"] assms by (simp add: strip_def lstrip_def rstrip_def)
qed

lemma unspaced_not_blank: "s \<noteq> [] \<Longrightarrow> \<forall>c \<in> set s. \<not> is_space c \<Longrightarrow> \<not> blank s"
  by (simp add: blank_def unspaced_strip)

definition hex_text :: "string \<Rightarrow> bool" where
  "hex_text s \<longleftrightarrow> (\<forall>c \<in> set s. c \<in> set ''0123456789abcdef'')"

lemma hex_unspaced: "hex_text s \<Longrightarrow> c \<in> set s \<Longrightarrow> \<not> is_space c \<and> c \<noteq> CHR ''_''"
proof -
  have "\<forall>c \<in> set ''0123456789abcdef''. \<not> is_space c \<and> c \<noteq> CHR ''_''" by code_simp
  then show "hex_text s \<Longrightarrow> c \<in> set s \<Longrightarrow> ?thesis" unfolding hex_text_def by blast
qed

lemma new_row_found:
  assumes "\<forall>r \<in> set (rows_of tab). cr_prefix r \<noteq> cr_prefix q" "row_of tab (cr_credential_id q) = None" "cr_prefix q \<noteq> []" "strip (cr_prefix q) = cr_prefix q"
  shows "find_credential (put_row (cr_credential_id q) q tab) key (cr_prefix q) = Inr (Some q)"
proof -
  have "rows_of (put_row (cr_credential_id q) q tab) = rows_of tab @ [q]"
    using assms(2) by (induction tab) (auto simp: rows_of_def put_row_def row_of_def)
  then have "filter (\<lambda>r. cr_prefix r = cr_prefix q) (rows_of (put_row (cr_credential_id q) q tab)) = [q]"
    using assms(1) by (simp add: filter_empty_conv)
  then show ?thesis using assms(3,4) by (simp add: find_credential_def get_credential_by_prefix_def scalar_one_or_none_def)
qed

lemma fresh_key_login:
  assumes pair: "generate_credential_key_pair sha env uid entropy = Inr (cid, prefix, raw, hashed)"
    and created: "create_credential (free_key cr_credential_id) cid merchant prefix hashed scopes None now (ad_credentials s) = (Inr q, tab)"
    and new: "\<forall>r \<in> set (rows_of (ad_credentials s)). cr_prefix r \<noteq> prefix"
    and hex: "hex_text entropy" "length entropy = 32" "hex_text uid" "\<And>x. hex_text (sha x) \<and> sha x \<noteq> []"
    and audit: "\<And>r. accepts (ad_audit s) r"
  shows "\<exists>p t. authenticate_credential sha accepts Fresh_Uow raw eid later (s\<lparr>ad_credentials := tab\<rparr>) = (Inr p, t) \<and>
    pr_credential_id p = cid \<and> pr_merchant_id p = strip merchant \<and> pr_scopes p = set (words_from [] (strip scopes))"
proof -
  let ?e = "if lower env = ''test'' then ''test'' else ''live''"
  have gen: "cid = ''cred_'' @ uid" "prefix = ''rzp_'' @ ?e @ ''_'' @ take 8 entropy" "raw = prefix @ ''_'' @ drop 8 entropy"
    "hash_credential_secret sha raw = Inr hashed"
    using pair by (auto simp: generate_credential_key_pair_def Let_def bind_res_Inr)
  have spaces: "\<forall>c \<in> set entropy. \<not> is_space c" "\<forall>c \<in> set uid. \<not> is_space c" "CHR ''_'' \<notin> set entropy"
    using hex_unspaced hex(1,3) by blast+
  have lit: "\<forall>c \<in> set ''rzp_test_live_cred_''. \<not> is_space c" by code_simp
  have raw_clean: "\<forall>c \<in> set raw. \<not> is_space c" "\<forall>c \<in> set prefix. \<not> is_space c" "\<forall>c \<in> set cid. \<not> is_space c"
    using spaces lit by (auto simp: gen(1-3) dest: in_set_takeD in_set_dropD)
  have hashed: "hashed = sha (secret_hash_salt @ raw)" using gen(4) raw_clean(1)
    by (auto simp: hash_credential_secret_def unspaced_strip split: if_splits)
  have hash_clean: "\<forall>c \<in> set hashed. \<not> is_space c" "hashed \<noteq> []" using hex(4) hex_unspaced by (auto simp: hashed)
  have q: "cr_credential_id q = cid" "cr_merchant_id q = strip merchant" "cr_prefix q = prefix" "cr_secret_hash q = hashed"
    "cr_status q = ''ACTIVE''" "cr_scopes q = strip scopes" "cr_expires_at q = None" "tab = put_row cid q (ad_credentials s)"
    "row_of (ad_credentials s) cid = None"
    using created
    by (auto simp: create_credential_def Let_def insert_row_def then_do_def free_key_def unspaced_strip [OF raw_clean(2)]
        unspaced_strip [OF raw_clean(3)] unspaced_strip [OF hash_clean(1)] split: if_splits)
  have key: "strip raw = raw" "key_prefix raw = prefix" "\<not> blank raw"
    using fresh_key_prefix [OF spaces(3), of ?e] unspaced_not_blank [OF _ raw_clean(1)] unspaced_strip [OF raw_clean(1)] by (auto simp: gen(2,3))
  have "find_credential tab raw prefix = Inr (Some q)"
    using new_row_found [of "ad_credentials s" q raw] new q unspaced_strip [OF raw_clean(2)] by (simp add: gen(2))
  moreover have "verify_credential_secret sha raw hashed = Inr True"
    using key(1,3) hash_clean(2) by (simp add: secret_verified hashed)
  moreover have "get_credential tab cid = Some q"
    using q(8) unspaced_strip [OF raw_clean(3)] by (simp add: get_credential_def gen(1))
  then obtain x t where used: "on_credentials (update_last_used cid (Some later) later) (s\<lparr>ad_credentials := tab\<rparr>) = (Inr x, t)" "ad_audit t = ad_audit s"
    by (simp add: on_credentials_def zoom_def update_last_used_def put_credential_def Let_def)
  moreover have "\<exists>u x. append_auth_event sha accepts API_CREDENTIAL_AUTHENTICATED m a fp eid later t = (Inr x, u)" for m a fp
    using audit used(2) by (simp add: append_auth_event_def zoom_def repo_append_event_def flush_event_def del: audit_event_value.simps)
  ultimately have "\<exists>t. authenticate_with_uow sha accepts raw prefix eid later (s\<lparr>ad_credentials := tab\<rparr>) = (Inr (principal_of q later), t)"
    using q(1,4,5,7) by (simp add: authenticate_with_uow_def login_row_def has_expired_def Let_def then_do_result)
  then show ?thesis using q key
    by (auto simp: authenticate_credential_def transactional_def Let_def principal_of_def)
qed

text \<open>A fresh key works: after a key pair is generated for a merchant and stored, its raw secret, shown once, makes a
  request act for the new credential with that merchant and exactly the scopes that were granted, when no stored
  credential has its prefix or its identifier and the audit table takes the event.\<close>

theorem fresh_key_authenticates:
  assumes "generate_credential_key_pair sha env uid entropy = Inr (cid, prefix, raw, hashed)"
    and "create_credential (free_key cr_credential_id) cid merchant prefix hashed scopes None now (ad_credentials s) = (Inr q, tab)"
    and "\<forall>r \<in> set (rows_of (ad_credentials s)). cr_prefix r \<noteq> prefix"
    and "hex_text entropy" "length entropy = 32" "hex_text uid" "\<And>x. hex_text (sha x) \<and> sha x \<noteq> []"
    and "\<And>r. accepts (ad_audit s) r"
  shows "\<exists>p t. authenticate_credential sha accepts Fresh_Uow raw eid later (s\<lparr>ad_credentials := tab\<rparr>) = (Inr p, t) \<and>
    pr_credential_id p = cid \<and> pr_merchant_id p = strip merchant \<and> pr_scopes p = set (words_from [] (strip scopes))"
  by (rule fresh_key_login [OF assms(1-6)]) (fact assms)+

section \<open>What is lost and what is not limited\<close>

text \<open>A failed login leaves no trace: when a login in a session of its own is refused, the session is rolled back, and
  neither the audit event of the refusal nor the new status of an expired credential is stored.\<close>

theorem failed_login_is_not_audited:
  assumes "fst (authenticate_credential sha accepts Fresh_Uow raw uid now s) = Inl e"
  shows "snd (authenticate_credential sha accepts Fresh_Uow raw uid now s) = s"
  using assms by (auto simp: authenticate_credential_def transactional_def Let_def split: prod.splits sum.splits)

lemma fresh_fingerprint_passes:
  assumes "rl_history l (composite_key category fp) = None" "get_limit_for_category l category = (int (Suc n), w)" "fp \<noteq> []"
  shows "check_rate_limit l fp category now = (Inr (), l\<lparr>rl_history := (rl_history l)(composite_key category fp \<mapsto> [now])\<rparr>)"
  using assms by (simp add: check_rate_limit_def is_allowed_def Let_def)

definition guess :: "(string \<Rightarrow> string) \<Rightarrow> (AuditRow list \<Rightarrow> AuditRow \<Rightarrow> bool) \<Rightarrow> string \<Rightarrow> datetime \<Rightarrow> Gate \<Rightarrow> string \<Rightarrow> Principal res \<times> Gate" where
  \<comment> \<open>a request with this key as its bearer token\<close>
  "guess sha accepts uid now g key = get_current_principal sha accepts Fresh_Uow (Some (''Bearer '' @ key)) None uid now g"

definition never_seen :: "RateLimiter \<Rightarrow> string \<Rightarrow> bool" where
  "never_seen l fp \<longleftrightarrow> rl_history l (composite_key ''GENERAL_API'' fp) = None \<and> rl_history l (composite_key ''AUTH_FAILURES'' fp) = None"

lemma limits_known: "get_limit_for_category l ''GENERAL_API'' = (int (Suc 99), 60)" "get_limit_for_category l ''AUTH_FAILURES'' = (int (Suc 4), 60)"
  by (simp_all add: get_limit_for_category_def category_limits_def)

lemma composite_same: "composite_key c i = composite_key c j \<longleftrightarrow> i = j"
  by (simp add: composite_key_def)

lemma composite_categories: "composite_key ''GENERAL_API'' i \<noteq> composite_key ''AUTH_FAILURES'' j"
  by (simp add: composite_key_def)

lemma unknown_key_refused:
  assumes "ad_credentials s = []" "\<And>r. accepts (ad_audit s) r" "strip k = k" "k \<noteq> []"
  shows "authenticate_credential sha accepts Fresh_Uow k uid now s = (Inl (refuse_401 ''Invalid API authentication credentials.''), s)"
proof -
  have "\<not> blank k" using assms(3,4) by (simp add: blank_def)
  moreover have "find_credential [] k p = Inr None" for p
    by (simp add: find_credential_def get_credential_by_prefix_def scalar_one_or_none_def rows_of_def)
  moreover have "\<exists>x t. append_auth_event sha accepts API_CREDENTIAL_AUTH_FAILED m a fp uid now s = (Inr x, t)" for m a fp
    using assms(2) by (simp add: append_auth_event_def zoom_def repo_append_event_def flush_event_def del: audit_event_value.simps)
  then have "\<exists>t. refuse_login sha accepts m a d fp uid now s = (Inl (refuse_401 d), t)" for m a d fp
    by (metis (no_types, lifting) refuse_login_def then_do_Inr prog_simps(2))
  ultimately show ?thesis using assms(1,3)
    by (auto simp: authenticate_credential_def transactional_def authenticate_with_uow_def Let_def split: prod.splits sum.splits) (metis Pair_inject sum.simps(4) sum.inject(1))+
qed

lemma guess_refused:
  assumes "ad_credentials (ga_db g) = []" "\<And>r. accepts (ad_audit (ga_db g)) r" "strip k = k" "k \<noteq> []"
    "never_seen (ga_limiter g) (compute_credential_fingerprint sha k)"
  shows "fst (guess sha accepts uid now g k) = Inl (refuse_401 ''Invalid API authentication credentials.'') \<and>
    ga_db (snd (guess sha accepts uid now g k)) = ga_db g \<and>
    (\<forall>fp. fp \<noteq> compute_credential_fingerprint sha k \<longrightarrow> never_seen (ga_limiter g) fp \<longrightarrow> never_seen (ga_limiter (snd (guess sha accepts uid now g k))) fp)"
proof -
  let ?fp = "compute_credential_fingerprint sha k"
  have fp: "?fp \<noteq> []" by (simp add: compute_credential_fingerprint_def)
  have key: "header_key (Some (''Bearer '' @ k)) None = k" using assms(3) by (simp add: header_key_def begins_def)
  let ?l1 = "(ga_limiter g)\<lparr>rl_history := (rl_history (ga_limiter g))(composite_key ''GENERAL_API'' ?fp \<mapsto> [now])\<rparr>"
  have first: "check_limit ?fp ''GENERAL_API'' now g = (Inr (), g\<lparr>ga_limiter := ?l1\<rparr>)"
    using fresh_fingerprint_passes [OF _ limits_known(1) fp] assms(5) by (simp add: check_limit_def never_seen_def)
  let ?l2 = "?l1\<lparr>rl_history := (rl_history ?l1)(composite_key ''AUTH_FAILURES'' ?fp \<mapsto> [now])\<rparr>"
  have "rl_history ?l1 (composite_key ''AUTH_FAILURES'' ?fp) = None"
    using assms(5) composite_categories [of ?fp ?fp] by (auto simp: never_seen_def)
  then have second: "check_limit ?fp ''AUTH_FAILURES'' now (g\<lparr>ga_limiter := ?l1\<rparr>) = (Inr (), g\<lparr>ga_limiter := ?l2\<rparr>)"
    using fresh_fingerprint_passes [OF _ limits_known(2) fp] by (simp add: check_limit_def)
  have "guess sha accepts uid now g k = (Inl (refuse_401 ''Invalid API authentication credentials.''), g\<lparr>ga_limiter := ?l2\<rparr>)"
    using assms(4) second unknown_key_refused [of "ga_db g" accepts k sha uid now] assms(1,2,3)
    unfolding guess_def get_current_principal_def key Let_def
    by (simp add: first attempt_def zoom_def settle_login_def then_do_def is_http_def refuse_401_def http_exception_def)
  then show ?thesis by (simp add: never_seen_def composite_same composite_categories composite_categories [symmetric])
qed

text \<open>Guessing is not limited: failed logins are counted under a fingerprint of the key that was tried, so requests with
  different wrong keys, however many and at whatever pace, are all answered 401 and never 429.\<close>

theorem guesses_are_not_limited:
  assumes "distinct (map (compute_credential_fingerprint sha) ks)" "\<forall>k \<in> set ks. strip k = k \<and> k \<noteq> []"
    "ad_credentials (ga_db g) = []" "\<And>r. accepts (ad_audit (ga_db g)) r" "\<forall>k \<in> set ks. never_seen (ga_limiter g) (compute_credential_fingerprint sha k)"
  shows "set (fst (run_ops (guess sha accepts uid now) g ks)) \<subseteq> {Inl (refuse_401 ''Invalid API authentication credentials.'')}"
  using assms
proof (induction ks arbitrary: g)
  case (Cons k ks)
  let ?g = "snd (guess sha accepts uid now g k)"
  have "compute_credential_fingerprint sha k \<notin> compute_credential_fingerprint sha ` set ks" using Cons.prems(1) by simp
  then have other: "compute_credential_fingerprint sha j \<noteq> compute_credential_fingerprint sha k" if "j \<in> set ks" for j
    using that by (metis imageI)
  have step: "fst (guess sha accepts uid now g k) = Inl (refuse_401 ''Invalid API authentication credentials.'')" "ga_db ?g = ga_db g"
    "\<forall>k \<in> set ks. never_seen (ga_limiter ?g) (compute_credential_fingerprint sha k)"
    using guess_refused [of g accepts k sha uid now] Cons.prems other by simp_all
  then show ?case using Cons.IH [of ?g] Cons.prems by (simp add: run_ops_Cons del: run_ops.simps(2))
qed simp

section \<open>Instances\<close>

definition empty_db :: AuthDb where
  "empty_db = \<lparr>ad_credentials = [], ad_audit = []\<rparr>"

definition sample_key :: string where
  "sample_key = ''rzp_test_00000000_000000000000000000000000''"

lemma sample_pair: "generate_credential_key_pair (\<lambda>_. ''0'') ''test'' ''1'' (replicate 32 CHR ''0'') =
    Inr (''cred_1'', ''rzp_test_00000000'', sample_key, ''0'')"
  by code_simp

definition sample_row :: CredentialRow where
  "sample_row = \<lparr>cr_credential_id = ''cred_1'', cr_merchant_id = ''m1'', cr_prefix = ''rzp_test_00000000'', cr_secret_hash = ''0'',
     cr_status = ''ACTIVE'', cr_scopes = ''transaction:read'', cr_created_at = 0, cr_expires_at = None, cr_revoked_at = None,
     cr_last_used_at = None\<rparr>"

lemma sample_created:
  "create_credential (free_key cr_credential_id) ''cred_1'' ''m1'' ''rzp_test_00000000'' ''0'' ''transaction:read'' None 0 [] =
     (Inr sample_row, [(''cred_1'', sample_row)])"
proof -
  have "strip ''cred_1'' = ''cred_1''" "strip ''m1'' = ''m1''" "strip ''rzp_test_00000000'' = ''rzp_test_00000000''" "strip ''0'' = ''0''"
    "strip ''transaction:read'' = ''transaction:read''" by code_simp+
  then show ?thesis
    by (simp add: create_credential_def blank_def insert_row_def then_do_def free_key_def sample_row_def put_row_def Let_def)
qed

lemma sample_hex: "hex_text (replicate 32 CHR ''0'')" "hex_text ''1''" "hex_text ''0''"
  by (simp_all add: hex_text_def)

theorem fresh_key_authenticates_witness:
  "\<exists>p t. authenticate_credential (\<lambda>_. ''0'') (\<lambda>_ _. True) Fresh_Uow sample_key ''e1'' 5 (empty_db\<lparr>ad_credentials := [(''cred_1'', sample_row)]\<rparr>) =
     (Inr p, t) \<and> pr_credential_id p = ''cred_1'' \<and> pr_merchant_id p = strip ''m1''"
  using fresh_key_authenticates [OF sample_pair, of "''m1''" "''transaction:read''" 0 empty_db sample_row "[(''cred_1'', sample_row)]" "\<lambda>_ _. True" "''e1''" 5]
  by (auto simp: sample_created empty_db_def sample_hex rows_of_def)

definition sample_gate_state :: "CredentialRow \<Rightarrow> Gate" where
  "sample_gate_state r = \<lparr>ga_limiter = global_rate_limiter, ga_db = empty_db\<lparr>ad_credentials := [(''cred_1'', r)]\<rparr>\<rparr>"

lemma current_principal_Inr:
  assumes "header_key auth api \<noteq> []" "never_seen (ga_limiter g) (compute_credential_fingerprint sha (header_key auth api))"
    "authenticate_credential sha accepts u (header_key auth api) uid now (ga_db g) = (Inr p, t)"
  shows "\<exists>g'. get_current_principal sha accepts u auth api uid now g = (Inr p, g')"
proof -
  let ?fp = "compute_credential_fingerprint sha (header_key auth api)"
  have "?fp \<noteq> []" by (simp add: compute_credential_fingerprint_def)
  then have "\<exists>l. check_limit ?fp ''GENERAL_API'' now g = (Inr (), g\<lparr>ga_limiter := l\<rparr>)"
    using fresh_fingerprint_passes [OF _ limits_known(1)] assms(2) by (auto simp: check_limit_def never_seen_def)
  then show ?thesis using assms(1,3)
    by (auto simp: get_current_principal_def attempt_def zoom_def settle_login_def then_do_def Let_def)
qed

theorem principal_holds_credential_witness:
  "\<exists>p g' r. get_current_principal (\<lambda>_. ''0'') (\<lambda>_ _. True) Fresh_Uow (Some sample_key) None ''e1'' 5 (sample_gate_state sample_row) = (Inr p, g') \<and>
     r \<in> set (rows_of (ad_credentials (ga_db (sample_gate_state sample_row)))) \<and> credential_admits (\<lambda>_. ''0'') r sample_key 5 \<and>
     pr_merchant_id p = cr_merchant_id r"
proof -
  have key: "header_key (Some sample_key) None = sample_key" by code_simp
  obtain p t where "authenticate_credential (\<lambda>_. ''0'') (\<lambda>_ _. True) Fresh_Uow sample_key ''e1'' 5 (empty_db\<lparr>ad_credentials := [(''cred_1'', sample_row)]\<rparr>) =
     (Inr p, t)"
    using fresh_key_login [OF sample_pair, of "''m1''" "''transaction:read''" 0 empty_db sample_row "[(''cred_1'', sample_row)]" "\<lambda>_ _. True" "''e1''" 5]
    by (auto simp: sample_created empty_db_def sample_hex rows_of_def)
  then obtain g' where login: "get_current_principal (\<lambda>_. ''0'') (\<lambda>_ _. True) Fresh_Uow (Some sample_key) None ''e1'' 5 (sample_gate_state sample_row) = (Inr p, g')"
    using current_principal_Inr [of "Some sample_key" None "sample_gate_state sample_row" "\<lambda>_. ''0''" "\<lambda>_ _. True" Fresh_Uow "''e1''" 5 p t]
    unfolding key by (auto simp: sample_key_def sample_gate_state_def never_seen_def global_rate_limiter_def rate_limiter_init_def)
  from principal_holds_credential [OF this] login show ?thesis unfolding key by auto
qed

theorem revoked_credential_is_dead_witness:
  "\<not> (\<exists>p. Some p \<in> set (fst (run_ops (credential_step (\<lambda>_. ''0'') (\<lambda>_ _. True) (free_key cr_credential_id))
      (empty_db\<lparr>ad_credentials := [(''cred_1'', sample_row\<lparr>cr_status := ''REVOKED''\<rparr>)]\<rparr>) [Login Fresh_Uow sample_key ''e1'' 5])) \<and>
    pr_credential_id p = ''cred_1'')"
  by (rule revoked_credential_is_dead [where r = "sample_row\<lparr>cr_status := ''REVOKED''\<rparr>"])
    (auto simp: empty_db_def wf_table_def keyed_def row_of_def sample_row_def)

theorem failed_login_is_not_audited_witness:
  "snd (authenticate_credential (\<lambda>_. ''0'') (\<lambda>_ _. True) Fresh_Uow ''rzp_a_b_c'' ''e1'' 5 empty_db) = empty_db"
proof -
  have "strip ''rzp_a_b_c'' = ''rzp_a_b_c''" by code_simp
  then have "fst (authenticate_credential (\<lambda>_. ''0'') (\<lambda>_ _. True) Fresh_Uow ''rzp_a_b_c'' ''e1'' 5 empty_db) =
      Inl (refuse_401 ''Invalid API authentication credentials.'')"
    using unknown_key_refused [of empty_db "\<lambda>_ _. True" "''rzp_a_b_c''" "\<lambda>_. ''0''" "''e1''" 5] by (simp add: empty_db_def)
  then show ?thesis by (rule failed_login_is_not_audited)
qed

theorem guesses_are_not_limited_witness:
  "set (fst (run_ops (guess (\<lambda>x. x) (\<lambda>_ _. True) ''e1'' 5) \<lparr>ga_limiter = global_rate_limiter, ga_db = empty_db\<rparr> [''a'', ''b'', ''c''])) \<subseteq>
     {Inl (refuse_401 ''Invalid API authentication credentials.'')}"
proof (rule guesses_are_not_limited)
  show "distinct (map (compute_credential_fingerprint (\<lambda>x. x)) [''a'', ''b'', ''c''])" by code_simp
  show "\<forall>k \<in> set [''a'', ''b'', ''c'']. strip k = k \<and> k \<noteq> []" by code_simp
qed (simp_all add: empty_db_def never_seen_def global_rate_limiter_def rate_limiter_init_def)

end
