(* ===== verification/Tool_Proxy.thy ===== *)
theory Tool_Proxy
  imports Execution Py_Text
begin

text \<open>
  The proxy between an agent's tools and the execution service, \<open>apps/api/domain/tool_proxy.py\<close>. The execution service is
  the one of \<open>Execution\<close>; the provider stays a pair of parameters. Where a response carries the text of an exception, the
  message keeps no text for it.
\<close>

section \<open>Untrusted input\<close>

definition untrusted_authority_keys :: "string set" where
  "untrusted_authority_keys = {''admin_override'', ''bypass_auth'', ''payment_approved'', ''skip_policy'', ''skip_mandate'', ''skip_budget'',
     ''skip_nonce'', ''skip_step_up'', ''force_execute'', ''is_authorized'', ''authorized''}"

definition blocked_url_patterns :: "string list" where
  \<comment> \<open>every pattern is a literal\<close>
  "blocked_url_patterns = [''localhost'', ''127.0.0.1'', ''0.0.0.0'', ''169.254.'', ''file://'', ''data:'', ''javascript:'']"

definition sanitize_untrusted_input :: "(string \<times> json) list \<Rightarrow> (string \<times> json) list" where
  "sanitize_untrusted_input kvs = filter (\<lambda>(k, _). lower k \<notin> untrusted_authority_keys) kvs"

definition validate_url_safety :: "string \<Rightarrow> bool" where
  "validate_url_safety url = (let low = strip (lower url) in \<not> list_ex (\<lambda>p. contains p low) blocked_url_patterns)"

section \<open>Responses\<close>

record PaymentExecuteResponse =
  per_success :: bool
  per_transaction_id :: string
  per_state :: TransactionState
  per_external_reference :: "string option"
  per_failure_code :: "RejectionReason option"
  per_failure_category :: "string option"
  per_safe_message :: msg
  per_idempotent_replay :: bool
  per_provider_status :: "PaymentResultState option"
  per_executed_at :: datetime

definition proxy_refusal :: "Transaction \<Rightarrow> RejectionReason \<Rightarrow> ExecutionFailureCategory \<Rightarrow> msg \<Rightarrow> datetime \<Rightarrow> PaymentExecuteResponse" where
  "proxy_refusal t reason category m now =
     \<lparr>per_success = False, per_transaction_id = tx_transaction_id t, per_state = TransactionState.REJECTED, per_external_reference = None,
      per_failure_code = Some reason, per_failure_category = Some (failure_category_value category), per_safe_message = m,
      per_idempotent_replay = False, per_provider_status = None, per_executed_at = now\<rparr>"

definition response_of :: "ExecutionResult \<Rightarrow> PaymentExecuteResponse" where
  "response_of r =
     \<lparr>per_success = exr_success r, per_transaction_id = exr_transaction_id r, per_state = exr_state r,
      per_external_reference = exr_external_reference r, per_failure_code = exr_failure_code r,
      per_failure_category = map_option failure_category_value (exr_failure_category r), per_safe_message = exr_safe_message r,
      per_idempotent_replay = exr_idempotent_replay r, per_provider_status = exr_provider_status r, per_executed_at = exr_executed_at r\<rparr>"

section \<open>The proposal\<close>

definition operation_of :: "json \<Rightarrow> McpOperation option" where
  \<comment> \<open>\<open>McpOperation(v)\<close>\<close>
  "operation_of v = (case v of JStr s \<Rightarrow> mcp_of s | _ \<Rightarrow> None)"

definition currency_of :: "json \<Rightarrow> Currency res" where
  "currency_of v = (case (case v of JStr s \<Rightarrow> member_of_value currency_value [INR, USD] s | _ \<Rightarrow> None) of
     Some c \<Rightarrow> Inr c | None \<Rightarrow> Inl (Raise ValueError (Msg ''{} is not a valid Currency'' [PNone])))"

definition check_proposal :: "ExecuteProposal \<Rightarrow> json \<Rightarrow> ExecuteProposal res" where
  \<comment> \<open>the constraints of \<open>PaymentExecuteProposalRequest\<close>\<close>
  "check_proposal p metadata =
     (if prop_transaction_id p = [] \<or> prop_merchant_id p = [] \<or> prop_buyer_id p = [] \<or> prop_mandate_id p = [] \<or>
         prop_amount_paise p < 0 \<or> prop_cart_hash p = [] \<or> prop_idempotency_key p = [] then
        Inl (Raise ValueError (Msg ''PaymentExecuteProposalRequest'' []))
      else case metadata of JObj kvs \<Rightarrow> Inr (p\<lparr>prop_untrusted_metadata := map_of kvs\<rparr>)
        | _ \<Rightarrow> Inl (Raise ValueError (Msg ''PaymentExecuteProposalRequest'' [])))"

definition build_execute_proposal :: "(string \<times> json) list \<Rightarrow> Transaction \<Rightarrow> McpOperation \<Rightarrow> ExecuteProposal res" where
  "build_execute_proposal kvs t op =
     (let text = (\<lambda>k d. py_str (dget kvs k (JStr d))) in
      bind_res (py_int (dget kvs ''amount_paise'' (JInt (tx_amount_paise t)))) (\<lambda>amount.
      bind_res (currency_of (dget kvs ''currency'' (JStr (currency_value (tx_currency t))))) (\<lambda>cur.
      check_proposal \<lparr>prop_transaction_id = text ''transaction_id'' (tx_transaction_id t), prop_merchant_id = text ''merchant_id'' (tx_merchant_id t),
          prop_buyer_id = text ''buyer_id'' (tx_buyer_id t), prop_mandate_id = text ''mandate_id'' (tx_mandate_id t),
          prop_amount_paise = amount, prop_currency = cur, prop_cart_hash = text ''cart_hash'' (text_or (tx_cart_hash t) []),
          prop_operation = op, prop_idempotency_key = text ''idempotency_key'' (''exec:'' @ tx_transaction_id t),
          prop_untrusted_metadata = Map.empty\<rparr>
        (dget kvs ''untrusted_metadata'' (JObj [])))))"

definition unsafe_target :: "(string \<times> json) list \<Rightarrow> bool" where
  "unsafe_target kvs = (case get_or_none kvs ''target_url'' of JStr u \<Rightarrow> u \<noteq> [] \<and> \<not> validate_url_safety u | _ \<Rightarrow> False)"

definition invoke_execution_tool ::
  "(TrustedExecutionRequest \<Rightarrow> ExecutionResult res) \<Rightarrow> (string \<Rightarrow> ExecutionResult res) \<Rightarrow> PaymentExecutionService \<Rightarrow>
   (string \<times> json) list \<Rightarrow> AuthorizationResult \<Rightarrow> Transaction \<Rightarrow> datetime \<Rightarrow> PaymentExecuteResponse res \<times> PaymentExecutionService" where
  "invoke_execution_tool pay fetch s raw a t now =
     (let kvs = sanitize_untrusted_input raw; op_raw = dget kvs ''operation'' (JStr ''create_order'') in
      if unsafe_target kvs then
        (Inr (proxy_refusal t OPERATION_NOT_ALLOWED INVALID_CONTEXT
           (Msg ''Blocked attempt to access invalid or unsafe target URL.'' []) now), s)
      else case operation_of op_raw of
        None \<Rightarrow> (Inr (proxy_refusal t OPERATION_NOT_ALLOWED VALIDATION_ERROR (Msg ''Unsupported MCP operation: {}.'' [PStr (py_repr op_raw)]) now), s)
      | Some op \<Rightarrow>
          (case build_execute_proposal kvs t op of
             Inl _ \<Rightarrow> (Inr (proxy_refusal t INVALID_TRANSACTION_STATE VALIDATION_ERROR
               (Msg ''Invalid execution proposal parameters: {}'' [PNone]) now), s)
           | Inr p \<Rightarrow> (case execute_payment pay fetch s p a t now of (x, s') \<Rightarrow> (bind_res x (\<lambda>r. Inr (response_of r)), s'))))"

section \<open>What reaches the service\<close>

lemma invoke_execution_tool_cases:
  assumes "invoke_execution_tool pay fetch s raw a t now = (out, s')"
  obtains (refused) r where "out = Inr r" "\<not> per_success r" "s' = s"
    | (executed) p x where "\<not> unsafe_target (sanitize_untrusted_input raw)" "execute_payment pay fetch s p a t now = (x, s')"
        "out = bind_res x (\<lambda>r. Inr (response_of r))"
  using assms unfolding invoke_execution_tool_def Let_def
  by (auto simp: proxy_refusal_def split: if_splits option.splits sum.splits prod.splits)

lemma cleared_terms:
  assumes "execution_cleared p a t"
  shows "aur_decision a = ALLOW" "tx_state t = AUTHORIZED" "\<not> is_blocked_by_default (prop_operation p)"
    "(prop_amount_paise p, prop_currency p, prop_merchant_id p, prop_buyer_id p, prop_mandate_id p) =
      (tx_amount_paise t, tx_currency t, tx_merchant_id t, tx_buyer_id t, tx_mandate_id t)"
  using assms
  by (simp_all add: execution_cleared_def is_executable_def txn_can_execute_def verify_pre_execution_auth_def
      verify_context_and_operation_def split: if_splits)

text \<open>C21: The proxy adds no way around the authorization: whatever the agent writes into its tool input, a request reaches the
  provider only when the authorization result allows and the transaction is authorized; the input named no unsafe URL, the
  operation is not one that is blocked by default, and the one request that is sent carries the amount, currency, merchant,
  buyer and mandate of the transaction, not those of the input.\<close>

theorem proxy_sends_only_authorized:
  assumes "invoke_execution_tool pay fetch s raw a t now = (out, s')" and "pes_sent s' \<noteq> pes_sent s"
  shows "\<exists>req. pes_sent s' = pes_sent s @ [req] \<and> aur_decision a = ALLOW \<and> tx_state t = AUTHORIZED \<and>
    \<not> unsafe_target (sanitize_untrusted_input raw) \<and> \<not> is_blocked_by_default (ter_operation req) \<and>
    (ter_amount_paise req, ter_currency req, ter_merchant_id req, ter_buyer_id req, ter_mandate_id req) =
      (tx_amount_paise t, tx_currency t, tx_merchant_id t, tx_buyer_id t, tx_mandate_id t)"
  using assms(1)
proof (cases rule: invoke_execution_tool_cases)
  case (refused r)
  then show ?thesis using assms(2) by simp
next
  case (executed p x)
  then obtain t' where t': "execution_cleared p a t" "transition_transaction t EXECUTING no_fields now = Inr t'"
    "pes_sent s' = pes_sent s @ [trusted_request t' p a]"
    using execute_sends [OF executed(2)] assms(2) by auto
  show ?thesis using cleared_terms [OF t'(1)] t'(2,3) executed(1) claim_ok [of t now]
    by (auto simp: trusted_request_def is_executable_def txn_can_execute_def)
qed

definition no_answer :: "string \<Rightarrow> ExecutionResult res" where
  "no_answer ref = Inr (sample_answer UNKNOWN)"

definition sample_tool_input :: "(string \<times> json) list" where
  "sample_tool_input = [(''amount_paise'', JInt 50), (''Bypass_Auth'', JBool True), (''cart_hash'', JStr ''h''), (''idempotency_key'', JStr ''k'')]"

lemma sample_proposal_built:
  "build_execute_proposal [(''amount_paise'', JInt 50), (''cart_hash'', JStr ''h''), (''idempotency_key'', JStr ''k'')]
     (sample_transaction AUTHORIZED) CREATE_ORDER = Inr (sample_proposal 50)"
  by (simp add: build_execute_proposal_def dget_def check_proposal_def sample_proposal_def sample_transaction_def Let_def
      currency_of_def member_of_value_def)

lemma sample_tool_run:
  "invoke_execution_tool answer_SUCCESS no_answer execution_service_init sample_tool_input sample_authorization
     (sample_transaction AUTHORIZED) 0 = (case execute_payment answer_SUCCESS no_answer execution_service_init
       (sample_proposal 50) sample_authorization (sample_transaction AUTHORIZED) 0 of (x, s') \<Rightarrow>
         (bind_res x (\<lambda>r. Inr (response_of r)), s'))"
proof -
  have san: "sanitize_untrusted_input sample_tool_input =
    [(''amount_paise'', JInt 50), (''cart_hash'', JStr ''h''), (''idempotency_key'', JStr ''k'')]" by code_simp
  have op: "operation_of (JStr ''create_order'') = Some CREATE_ORDER" by code_simp
  show ?thesis
    by (simp add: invoke_execution_tool_def san Let_def unsafe_target_def dget_def op sample_proposal_built)
qed

theorem proxy_sends_only_authorized_witness:
  "\<exists>req. pes_sent (snd (invoke_execution_tool answer_SUCCESS no_answer execution_service_init sample_tool_input
      sample_authorization (sample_transaction AUTHORIZED) 0)) = [req] \<and> ter_amount_paise req = 50"
proof -
  let ?run = "invoke_execution_tool answer_SUCCESS no_answer execution_service_init sample_tool_input sample_authorization
      (sample_transaction AUTHORIZED) 0"
  obtain out s' where run: "?run = (out, s')" by (rule prod.exhaust)
  then obtain x where ex: "execute_payment answer_SUCCESS no_answer execution_service_init (sample_proposal 50)
      sample_authorization (sample_transaction AUTHORIZED) 0 = (x, s')"
    by (auto simp: sample_tool_run split: prod.splits)
  have "pes_sent s' \<noteq> pes_sent execution_service_init"
    using ex
  proof (cases rule: execute_payment_cases)
    case (known r)
    then show ?thesis by (simp add: execution_service_init_def)
  next
    case (rejected reason category m)
    then show ?thesis using sample_cleared by blast
  next
    case (dispatched t')
    from dispatch_sent [OF dispatched(4) [symmetric]] show ?thesis
      by (simp add: register_transaction_def execution_service_init_def)
  qed
  from proxy_sends_only_authorized [OF run this] show ?thesis
    using run by (auto simp: execution_service_init_def sample_transaction_def)
qed

text \<open>Claims of authority in the tool input do nothing: an entry whose key is, in any case of letters, one of the authority
  keys can be added anywhere, with any value, without changing the response or the state of the service.\<close>

theorem authority_claims_are_ignored:
  assumes "lower k \<in> untrusted_authority_keys"
  shows "invoke_execution_tool pay fetch s (xs @ (k, v) # ys) a t now = invoke_execution_tool pay fetch s (xs @ ys) a t now"
  using assms by (simp add: invoke_execution_tool_def sanitize_untrusted_input_def)

theorem authority_claims_are_ignored_witness:
  "invoke_execution_tool answer_SUCCESS no_answer execution_service_init [(''Bypass_Auth'', JBool True)]
     sample_authorization (sample_transaction AUTHORIZED) 0 =
   invoke_execution_tool answer_SUCCESS no_answer execution_service_init [] sample_authorization (sample_transaction AUTHORIZED) 0"
proof -
  have "lower ''Bypass_Auth'' \<in> untrusted_authority_keys" by code_simp
  from authority_claims_are_ignored [OF this, where xs = "[]" and ys = "[]" and v = "JBool True"] show ?thesis by simp
qed

end
