(* ===== verification/Mcp_Gateway.thy ===== *)
theory Mcp_Gateway
  imports Execution Py_Text
begin

text \<open>
  The MCP gateway of the agent, \<open>src/agent/mcp\<close>: the catalog of tools, their masking for \<open>tools/list\<close>, the authorization of
  \<open>tools/call\<close>, the adapter that runs an authorized tool, and the JSON-RPC dispatcher. The gateway keeps no state. Decoding of a
  JSON text is the parameter \<open>loads\<close>; the audit log is not kept. A dictionary is a list of keys and values.
\<close>

section \<open>Types\<close>

record McpToolDefinition =
  mt_name :: string
  mt_description :: string
  mt_input_schema :: json
  mt_operation :: McpOperation
  mt_is_blocked :: bool

record McpJsonRpcRequest =
  rq_method :: string
  rq_params :: "(string \<times> json) list"
  rq_id :: json

record McpJsonRpcResponse =
  rs_id :: json
  rs_result :: "json option"
  rs_error :: "json option"

definition rpc_to_dict :: "McpJsonRpcResponse \<Rightarrow> json" where
  "rpc_to_dict r = JObj ([(''jsonrpc'', JStr ''2.0''), (''id'', rs_id r)] @
     (case rs_error r of Some e \<Rightarrow> [(''error'', e)] | None \<Rightarrow> [(''result'', option_or (rs_result r) (JObj []))]))"

datatype McpErrorCode = MCP_TOOL_NOT_FOUND | MCP_TOOL_UNAUTHORIZED | MCP_TOOL_BLOCKED | MCP_INVALID_JSONRPC |
  MCP_TRANSACTION_UNAUTHORIZED | MCP_EXECUTION_FAILED | MCP_PAYLOAD_SIZE_EXCEEDED

fun mcp_code_value :: "McpErrorCode \<Rightarrow> string" where
  "mcp_code_value MCP_TOOL_NOT_FOUND = ''MCP_TOOL_NOT_FOUND''"
| "mcp_code_value MCP_TOOL_UNAUTHORIZED = ''MCP_TOOL_UNAUTHORIZED''"
| "mcp_code_value MCP_TOOL_BLOCKED = ''MCP_TOOL_BLOCKED''"
| "mcp_code_value MCP_INVALID_JSONRPC = ''MCP_INVALID_JSONRPC''"
| "mcp_code_value MCP_TRANSACTION_UNAUTHORIZED = ''MCP_TRANSACTION_UNAUTHORIZED''"
| "mcp_code_value MCP_EXECUTION_FAILED = ''MCP_EXECUTION_FAILED''"
| "mcp_code_value MCP_PAYLOAD_SIZE_EXCEEDED = ''MCP_PAYLOAD_SIZE_EXCEEDED''"

datatype mcp_failure =
    McpGatewayError McpErrorCode string
  | Escaping py_exc \<comment> \<open>an exception that the gateway does not catch\<close>

section \<open>The catalog and its masking\<close>

definition standard_mcp_tools :: "McpToolDefinition list" where
  "standard_mcp_tools =
     (let integer = JObj [(''type'', JStr ''integer'')]; text = JObj [(''type'', JStr ''string'')];
          object = (\<lambda>rest. JObj ((''type'', JStr ''object'') # rest)) in
     [\<lparr>mt_name = ''create_order'', mt_description = ''Create a Razorpay commerce purchase order.'',
       mt_input_schema = object [(''properties'', JObj [(''amount'', JObj [(''type'', JStr ''integer''),
           (''description'', JStr ''Total amount in paise'')]), (''currency'', text)]),
         (''required'', JArr [JStr ''amount'', JStr ''currency''])],
       mt_operation = CREATE_ORDER, mt_is_blocked = False\<rparr>,
      \<lparr>mt_name = ''create_payment_link'', mt_description = ''Generate a Razorpay payment link for checkout.'',
       mt_input_schema = object [(''properties'', JObj [(''amount'', integer), (''description'', text)]),
         (''required'', JArr [JStr ''amount''])],
       mt_operation = CREATE_PAYMENT_LINK, mt_is_blocked = False\<rparr>,
      \<lparr>mt_name = ''fetch_payment'', mt_description = ''Fetch status of a payment transaction.'',
       mt_input_schema = object [(''properties'', JObj [(''payment_id'', text)]), (''required'', JArr [JStr ''payment_id''])],
       mt_operation = FETCH_PAYMENT, mt_is_blocked = False\<rparr>,
      \<lparr>mt_name = ''payout'', mt_description = ''Initiate merchant payout to external bank account.'',
       mt_input_schema = object [(''properties'', JObj [(''amount'', integer)])], mt_operation = PAYOUT, mt_is_blocked = True\<rparr>,
      \<lparr>mt_name = ''settlement'', mt_description = ''Execute immediate balance settlement.'',
       mt_input_schema = object [], mt_operation = SETTLEMENT, mt_is_blocked = True\<rparr>,
      \<lparr>mt_name = ''bank_transfer'', mt_description = ''Direct electronic bank transfer.'',
       mt_input_schema = object [], mt_operation = BANK_TRANSFER, mt_is_blocked = True\<rparr>])"

definition masker :: "McpToolDefinition list \<Rightarrow> McpToolDefinition list" where
  \<comment> \<open>the catalog of \<open>McpToolMasker(tool_catalog)\<close>\<close>
  "masker tools = (if tools = [] then standard_mcp_tools else tools)"

definition catalog_tool :: "McpToolDefinition list \<Rightarrow> string \<Rightarrow> McpToolDefinition option" where
  \<comment> \<open>the last tool of a name is the one in \<open>_lookup\<close>\<close>
  "catalog_tool tools name = map_of (rev (map (\<lambda>t. (mt_name t, t)) tools)) name"

definition filter_tools_for_scope :: "McpToolDefinition list \<Rightarrow> McpOperation set \<Rightarrow> McpOperation set \<Rightarrow> McpToolDefinition list" where
  "filter_tools_for_scope tools allowed blocked =
     filter (\<lambda>t. mt_operation t \<in> allowed \<and> mt_operation t \<notin> blocked \<and> \<not> mt_is_blocked t) tools"

section \<open>The authorization of a call\<close>

definition authorize_tool_call ::
  "McpToolDefinition list \<Rightarrow> string \<Rightarrow> McpOperation set \<Rightarrow> McpOperation set \<Rightarrow> bool \<Rightarrow> mcp_failure + unit" where
  "authorize_tool_call tools name allowed blocked gateway_authorized =
     (case catalog_tool tools name of
        None \<Rightarrow> Inl (McpGatewayError MCP_TOOL_NOT_FOUND (''MCP tool '' @ repr_text name @ '' does not exist.''))
      | Some t \<Rightarrow>
          if mt_is_blocked t \<or> mt_operation t \<in> blocked then
            Inl (McpGatewayError MCP_TOOL_BLOCKED
              (''MCP tool '' @ repr_text name @ '' is explicitly blocked by merchant or policy scope.''))
          else if mt_operation t \<notin> allowed then
            Inl (McpGatewayError MCP_TOOL_UNAUTHORIZED
              (''MCP tool '' @ repr_text name @ '' is not authorized under current session mandate scope.''))
          else if \<not> gateway_authorized then
            Inl (McpGatewayError MCP_TRANSACTION_UNAUTHORIZED
              (''Execution of MCP tool '' @ repr_text name @ '' requires Gateway authorization (ALLOW).''))
          else Inr ())"

section \<open>The execution of a call\<close>

definition escaping :: "'a res \<Rightarrow> mcp_failure + 'a" where
  "escaping r = (case r of Inl e \<Rightarrow> Inl (Escaping e) | Inr x \<Rightarrow> Inr x)"

definition execute_mcp_tool ::
  "string \<Rightarrow> json \<Rightarrow> AuthorizationResult \<Rightarrow> PaymentExecutionService option \<Rightarrow> mcp_failure + json" where
  "execute_mcp_tool name args a service =
     (if aur_decision a \<noteq> ALLOW then
        Inl (McpGatewayError MCP_TRANSACTION_UNAUTHORIZED
          (''Cannot execute Razorpay tool '' @ repr_text name @ '' without ALLOW authorization.''))
      else case args of
        JObj kvs \<Rightarrow>
          escaping (bind_res (py_int (dget kvs ''amount'' (JInt 0))) (\<lambda>amount.
            case service of
              Some s \<Rightarrow> \<comment> \<open>the enumeration has no method \<open>from_str\<close>, which the last argument of the proposal calls\<close>
                Inl (attribute_error ''from_str'')
            | None \<Rightarrow> Inr (JObj [(''success'', JBool True), (''status'', JStr ''created''), (''tool'', JStr name),
                (''amount'', JInt amount), (''currency'', JStr (py_str (dget kvs ''currency'' (JStr ''INR'')))),
                (''provider_reference'', JStr (''pay_test_mcp_'' @ name))])))
      | _ \<Rightarrow> Inl (Escaping (attribute_error ''get'')))"

section \<open>The gateway\<close>

definition rpc_error :: "json \<Rightarrow> int \<Rightarrow> string \<Rightarrow> (string \<times> json) list \<Rightarrow> McpJsonRpcResponse" where
  "rpc_error i code message extra =
     \<lparr>rs_id = i, rs_result = None, rs_error = Some (JObj ([(''code'', JInt code), (''message'', JStr message)] @ extra))\<rparr>"

definition rpc_failure :: "json \<Rightarrow> int \<Rightarrow> McpErrorCode \<Rightarrow> string \<Rightarrow> McpJsonRpcResponse" where
  "rpc_failure i code mc detail = rpc_error i code detail [(''data'', JObj [(''error_code'', JStr (mcp_code_value mc))])]"

definition handle_tools_list ::
  "McpToolDefinition list \<Rightarrow> McpJsonRpcRequest \<Rightarrow> McpOperation set \<Rightarrow> McpOperation set \<Rightarrow> McpJsonRpcResponse" where
  "handle_tools_list tools q allowed blocked =
     \<lparr>rs_id = rq_id q, rs_result = Some (JObj [(''tools'', JArr (map (\<lambda>t. JObj [(''name'', JStr (mt_name t)),
         (''description'', JStr (mt_description t)), (''inputSchema'', mt_input_schema t)])
        (filter_tools_for_scope tools allowed blocked)))]), rs_error = None\<rparr>"

definition called_name :: "McpJsonRpcRequest \<Rightarrow> string" where
  "called_name q = strip (py_str (dget (rq_params q) ''name'' (JStr [])))"

definition gateway_allows :: "AuthorizationResult option \<Rightarrow> bool" where
  "gateway_allows auth = (case auth of Some a \<Rightarrow> aur_decision a = ALLOW | None \<Rightarrow> False)"

definition answer_execution :: "json \<Rightarrow> mcp_failure + json \<Rightarrow> McpJsonRpcResponse res" where
  "answer_execution i r = (case r of
       Inl (McpGatewayError mc detail) \<Rightarrow> Inr (rpc_failure i (- 32603) mc detail)
     | Inl (Escaping e) \<Rightarrow> Inl e
     | Inr v \<Rightarrow> Inr \<lparr>rs_id = i, rs_result = Some (JObj [(''content'', JArr [JObj [(''type'', JStr ''text''),
           (''text'', JStr (json_plain v))]])]), rs_error = None\<rparr>)"

definition handle_tools_call ::
  "McpToolDefinition list \<Rightarrow> McpJsonRpcRequest \<Rightarrow> McpOperation set \<Rightarrow> McpOperation set \<Rightarrow> AuthorizationResult option \<Rightarrow>
   PaymentExecutionService option \<Rightarrow> McpJsonRpcResponse res" where
  "handle_tools_call tools q allowed blocked auth service =
     (let name = called_name q; args = dget (rq_params q) ''arguments'' (JObj []) in
      if name = [] then
        Inr (rpc_error (rq_id q) (- 32602) (''Missing mandatory parameter '' @ repr_text ''name'' @ '' in tools/call.'') [])
      else case authorize_tool_call tools name allowed blocked (gateway_allows auth) of
        Inl (McpGatewayError mc detail) \<Rightarrow> Inr (rpc_failure (rq_id q) (- 32001) mc detail)
      | Inl (Escaping e) \<Rightarrow> Inl e
      | Inr _ \<Rightarrow> (case auth of
            None \<Rightarrow> Inl (Raise (SourceError ''AssertionError'' []) (Msg [] []))
          | Some a \<Rightarrow> answer_execution (rq_id q) (execute_mcp_tool name args a service)))"

definition mcp_dispatch ::
  "(string \<Rightarrow> json option) \<Rightarrow> McpToolDefinition list \<Rightarrow> json \<Rightarrow> McpOperation set \<Rightarrow> McpOperation set \<Rightarrow>
   AuthorizationResult option \<Rightarrow> PaymentExecutionService option \<Rightarrow> json res" where
  "mcp_dispatch loads tools raw allowed blocked auth service =
     (let handle = (\<lambda>data. case data of
        JObj kvs \<Rightarrow>
          (if get_or_none kvs ''jsonrpc'' \<noteq> JStr ''2.0'' then
             Inr (rpc_to_dict (rpc_error (get_or_none kvs ''id'') (- 32600)
               (''Invalid Request: Missing or invalid '' @ repr_text ''jsonrpc'' @ '' field.'') []))
           else
             (let method = get_or_none kvs ''method'';
                  q = \<lparr>rq_method = py_str method,
                    rq_params = (case dget kvs ''params'' (JObj []) of JObj ps \<Rightarrow> ps | _ \<Rightarrow> []), rq_id = get_or_none kvs ''id''\<rparr> in
              if method = JStr ''tools/list'' then Inr (rpc_to_dict (handle_tools_list tools q allowed blocked))
              else if method = JStr ''tools/call'' then
                bind_res (handle_tools_call tools q allowed blocked auth service) (\<lambda>r. Inr (rpc_to_dict r))
              else Inr (rpc_to_dict (rpc_error (rq_id q) (- 32601)
                (''Method '' @ [CHR 0x27] @ py_str method @ [CHR 0x27] @ '' not found.'') []))))
        | _ \<Rightarrow> Inr (rpc_to_dict (rpc_error JNull (- 32600)
            (''Invalid Request: Missing or invalid '' @ repr_text ''jsonrpc'' @ '' field.'') []))) in
      case raw of
        JStr text \<Rightarrow> (case loads text of
            None \<Rightarrow> Inr (rpc_to_dict (rpc_error JNull (- 32700) ''Parse error: Invalid JSON payload.'' []))
          | Some data \<Rightarrow> handle data)
      | JObj kvs \<Rightarrow> handle raw
      | _ \<Rightarrow> Inr (rpc_to_dict (rpc_error JNull (- 32600) ''Invalid Request: Payload must be JSON object.'' [])))"

section \<open>Listed and callable tools\<close>

lemma catalog_tool_distinct:
  assumes "distinct (map mt_name tools)"
  shows "catalog_tool tools n = Some t \<longleftrightarrow> t \<in> set tools \<and> mt_name t = n"
proof -
  have "distinct (map fst (rev (map (\<lambda>t. (mt_name t, t)) tools)))"
    using assms by (simp add: rev_map [symmetric] comp_def)
  then show ?thesis by (auto simp: catalog_tool_def)
qed

lemma authorize_tool_call_Inr:
  "authorize_tool_call tools n allowed blocked g = Inr () \<longleftrightarrow>
     (\<exists>t. catalog_tool tools n = Some t \<and> mt_operation t \<in> allowed \<and> mt_operation t \<notin> blocked \<and> \<not> mt_is_blocked t) \<and> g"
  by (auto simp: authorize_tool_call_def split: option.splits)

lemma authorize_tool_call_Inl:
  "authorize_tool_call tools n allowed blocked g = Inl f \<Longrightarrow> \<exists>mc detail. f = McpGatewayError mc detail"
  by (auto simp: authorize_tool_call_def split: option.splits if_splits)

definition tool_names :: "McpJsonRpcResponse \<Rightarrow> json list" where
  \<comment> \<open>the names in the answer to \<open>tools/list\<close>\<close>
  "tool_names r = (case rs_result r of
     Some (JObj kvs) \<Rightarrow> (case get_or_none kvs ''tools'' of
         JArr ts \<Rightarrow> map (\<lambda>t. case t of JObj fs \<Rightarrow> get_or_none fs ''name'' | _ \<Rightarrow> JNull) ts | _ \<Rightarrow> [])
   | _ \<Rightarrow> [])"

lemma tool_names_listed:
  "tool_names (handle_tools_list tools q allowed blocked) = map (\<lambda>t. JStr (mt_name t)) (filter_tools_for_scope tools allowed blocked)"
  by (simp add: tool_names_def handle_tools_list_def dget_def)

lemma fallback_executes:
  assumes "args = JObj kvs" and "py_int (dget kvs ''amount'' (JInt 0)) = Inr n" and "aur_decision a = ALLOW"
  shows "\<exists>r. answer_execution i (execute_mcp_tool name args a None) = Inr r \<and> rs_error r = None"
  using assms by (simp add: execute_mcp_tool_def answer_execution_def escaping_def bind_res_def)


definition sample_call :: "string \<Rightarrow> McpJsonRpcRequest" where
  "sample_call name = \<lparr>rq_method = ''tools/call'', rq_params = [(''name'', JStr name),
     (''arguments'', JObj [(''amount'', JInt 500)])], rq_id = JInt 1\<rparr>"


section \<open>Replies\<close>

text \<open>Every reply of the dispatcher is a JSON-RPC reply that carries the request's id, and either a result or an error.\<close>

theorem reply_is_well_formed:
  assumes "mcp_dispatch loads tools (JObj kvs) allowed blocked auth service = Inr reply"
  shows "\<exists>body. reply = JObj ([(''jsonrpc'', JStr ''2.0''), (''id'', get_or_none kvs ''id'')] @ [body]) \<and> fst body \<in> {''result'', ''error''}"
proof -
  have dict: "\<exists>body. rpc_to_dict r = JObj ([(''jsonrpc'', JStr ''2.0''), (''id'', rs_id r)] @ [body]) \<and> fst body \<in> {''result'', ''error''}" for r
    by (auto simp: rpc_to_dict_def split: option.splits)
  have id: "rs_id r = rq_id q" if "handle_tools_call tools q allowed blocked auth service = Inr r" for q r
    using that by (auto simp: handle_tools_call_def answer_execution_def rpc_error_def rpc_failure_def Let_def
        split: if_splits sum.splits mcp_failure.splits option.splits)
  obtain r where r: "reply = rpc_to_dict r" and "rs_id r = get_or_none kvs ''id''"
    using assms by (auto simp: mcp_dispatch_def Let_def bind_res_def rpc_error_def handle_tools_list_def dest: id
        split: if_splits sum.splits)
  then show ?thesis using dict [of r] by simp
qed

theorem reply_is_well_formed_witness:
  "\<exists>body. mcp_dispatch (\<lambda>_. None) standard_mcp_tools (JObj [(''jsonrpc'', JStr ''2.0''), (''id'', JInt 7), (''method'', JStr ''ping'')])
     {} {} None None = Inr (JObj ([(''jsonrpc'', JStr ''2.0''), (''id'', JInt 7)] @ [body]))"
proof -
  let ?kvs = "[(''jsonrpc'', JStr ''2.0''), (''id'', JInt 7), (''method'', JStr ''ping'')]"
  obtain reply where r: "mcp_dispatch (\<lambda>_. None) standard_mcp_tools (JObj ?kvs) {} {} None None = Inr reply"
    by (auto simp: mcp_dispatch_def dget_def)
  from reply_is_well_formed [OF r] show ?thesis using r by (auto simp: dget_def)
qed

text \<open>With an execution service nothing is ever executed: the adapter builds its proposal with \<open>McpOperation.from_str\<close>, which
  does not exist, so a call that passes every check raises out of the gateway instead of paying.\<close>

theorem service_calls_raise:
  assumes "called_name q \<noteq> []" and "authorize_tool_call tools (called_name q) allowed blocked (gateway_allows auth) = Inr ()"
  shows "\<exists>e. handle_tools_call tools q allowed blocked auth (Some s) = Inl e"
proof -
  obtain a where a: "auth = Some a" "aur_decision a = ALLOW"
    using assms(2) by (auto simp: authorize_tool_call_Inr gateway_allows_def split: option.splits)
  have "\<exists>e. execute_mcp_tool n args a (Some s) = Inl (Escaping e)" for n args
    using a(2) by (auto simp: execute_mcp_tool_def escaping_def bind_res_def split: json.splits sum.splits)
  then obtain e where "execute_mcp_tool (called_name q) (dget (rq_params q) ''arguments'' (JObj [])) a (Some s) = Inl (Escaping e)"
    by blast
  then show ?thesis using assms a(1) by (simp add: handle_tools_call_def answer_execution_def)
qed

theorem service_calls_raise_witness:
  "\<exists>e. handle_tools_call standard_mcp_tools (sample_call ''create_order'') {CREATE_ORDER} {} (Some sample_authorization)
     (Some execution_service_init) = Inl e"
proof -
  have c: "called_name (sample_call ''create_order'') = ''create_order''" by code_simp
  show ?thesis
  proof (rule service_calls_raise)
    show "called_name (sample_call ''create_order'') \<noteq> []" by (simp add: c)
    show "authorize_tool_call standard_mcp_tools (called_name (sample_call ''create_order'')) {CREATE_ORDER} {}
        (gateway_allows (Some sample_authorization)) = Inr ()"
      unfolding c authorize_tool_call_Inr
      by (simp add: catalog_tool_def standard_mcp_tools_def Let_def gateway_allows_def sample_authorization_def)
  qed
qed

end
