(* ===== verification/Razorpay_Adapter.thy ===== *)
theory Razorpay_Adapter
  imports Execution Encoding Py_Text
begin

text \<open>
  The adapters between the execution service and the payment provider, \<open>apps/api/adapters/razorpay_adapter.py\<close>: the
  deterministic mock with its switches, and the HTTP adapter. The transport \<open>urlopen\<close> is a parameter that answers a request
  with a body, an HTTP status or a failure; of a JSON body the adapter reads two texts. \<open>now\<close> is the time a result is made.
\<close>

section \<open>Results\<close>

definition adapter_result ::
  "bool \<Rightarrow> string \<Rightarrow> TransactionState \<Rightarrow> string option \<Rightarrow> msg \<Rightarrow> PaymentResultState \<Rightarrow> json option \<Rightarrow> datetime \<Rightarrow> ExecutionResult" where
  "adapter_result ok tid st ref m provider raw now =
     \<lparr>exr_success = ok, exr_transaction_id = tid, exr_state = st, exr_external_reference = ref, exr_failure_code = None,
      exr_failure_category = None, exr_safe_message = m, exr_idempotent_replay = False, exr_provider_status = Some provider,
      exr_raw_response_redacted = raw, exr_executed_at = now\<rparr>"

definition adapter_failure ::
  "string \<Rightarrow> TransactionState \<Rightarrow> string option \<Rightarrow> RejectionReason \<Rightarrow> ExecutionFailureCategory \<Rightarrow> msg \<Rightarrow> PaymentResultState \<Rightarrow>
   datetime \<Rightarrow> ExecutionResult" where
  "adapter_failure tid st ref reason category m provider now =
     (adapter_result False tid st ref m provider None now)
       \<lparr>exr_failure_code := Some reason, exr_failure_category := Some category\<rparr>"

section \<open>The mock\<close>

record MockRazorpayAdapter =
  mra_executed_requests :: "TrustedExecutionRequest list"
  mra_reconciled_requests :: "string list"
  mra_next_failure_category :: "ExecutionFailureCategory option"
  mra_next_failure_reason :: "RejectionReason option"
  mra_next_failure_message :: "string option"
  mra_raise_timeout :: bool
  mra_raise_connection_error :: bool
  mra_custom_response :: "ExecutionResult option"
  mra_reconcile_status :: PaymentResultState
  mra_reconcile_timeout :: bool
  mra_reconcile_malformed :: bool

definition mock_adapter_init :: MockRazorpayAdapter where
  "mock_adapter_init = \<lparr>mra_executed_requests = [], mra_reconciled_requests = [], mra_next_failure_category = None,
     mra_next_failure_reason = None, mra_next_failure_message = None, mra_raise_timeout = False, mra_raise_connection_error = False,
     mra_custom_response = None, mra_reconcile_status = PaymentResultState.SUCCESS, mra_reconcile_timeout = False,
     mra_reconcile_malformed = False\<rparr>"

definition set_next_failure ::
  "ExecutionFailureCategory \<Rightarrow> RejectionReason \<Rightarrow> string \<Rightarrow> MockRazorpayAdapter \<Rightarrow> MockRazorpayAdapter" where
  "set_next_failure category reason message m = m\<lparr>mra_next_failure_category := Some category,
     mra_next_failure_reason := Some reason, mra_next_failure_message := Some message\<rparr>"

definition set_simulate_timeout :: "bool \<Rightarrow> MockRazorpayAdapter \<Rightarrow> MockRazorpayAdapter" where
  "set_simulate_timeout enabled m = m\<lparr>mra_raise_timeout := enabled\<rparr>"

definition set_simulate_connection_error :: "bool \<Rightarrow> MockRazorpayAdapter \<Rightarrow> MockRazorpayAdapter" where
  "set_simulate_connection_error enabled m = m\<lparr>mra_raise_connection_error := enabled\<rparr>"

definition set_custom_response :: "ExecutionResult \<Rightarrow> MockRazorpayAdapter \<Rightarrow> MockRazorpayAdapter" where
  "set_custom_response r m = m\<lparr>mra_custom_response := Some r\<rparr>"

definition set_reconciliation_status :: "PaymentResultState \<Rightarrow> MockRazorpayAdapter \<Rightarrow> MockRazorpayAdapter" where
  "set_reconciliation_status st m = m\<lparr>mra_reconcile_status := st\<rparr>"

definition set_reconciliation_timeout :: "bool \<Rightarrow> MockRazorpayAdapter \<Rightarrow> MockRazorpayAdapter" where
  "set_reconciliation_timeout enabled m = m\<lparr>mra_reconcile_timeout := enabled\<rparr>"

definition set_reconciliation_malformed :: "bool \<Rightarrow> MockRazorpayAdapter \<Rightarrow> MockRazorpayAdapter" where
  "set_reconciliation_malformed enabled m = m\<lparr>mra_reconcile_malformed := enabled\<rparr>"

definition reset_mock_adapter :: "MockRazorpayAdapter \<Rightarrow> MockRazorpayAdapter" where
  "reset_mock_adapter m = \<lparr>mra_executed_requests = [], mra_reconciled_requests = [], mra_next_failure_category = None,
     mra_next_failure_reason = None, mra_next_failure_message = None, mra_raise_timeout = False, mra_raise_connection_error = False,
     mra_custom_response = None, mra_reconcile_status = PaymentResultState.SUCCESS, mra_reconcile_timeout = False,
     mra_reconcile_malformed = False\<rparr>"

definition simulated_reference :: "TrustedExecutionRequest \<Rightarrow> string" where
  "simulated_reference q = (case ter_operation q of CREATE_ORDER \<Rightarrow> ''order_simulated_'' | CREATE_PAYMENT_LINK \<Rightarrow> ''plink_simulated_''
     | _ \<Rightarrow> ''pay_simulated_'') @ take 8 (ter_transaction_id q)"

definition mock_answer :: "MockRazorpayAdapter \<Rightarrow> TrustedExecutionRequest \<Rightarrow> datetime \<Rightarrow> ExecutionResult" where
  "mock_answer m q now =
     (case mra_custom_response m of
        Some r \<Rightarrow> r
      | None \<Rightarrow>
          if mra_raise_timeout m then
            adapter_failure (ter_transaction_id q) EXECUTING None AUTHORIZATION_EXPIRED TIMEOUT
              (Msg ''Razorpay gateway connection timed out.'' []) UNKNOWN now
          else if mra_raise_connection_error m then
            adapter_failure (ter_transaction_id q) EXECUTING None AUTHORIZATION_EXPIRED CONNECTION_FAILED
              (Msg ''Failed to connect to Razorpay payment gateway.'' []) UNKNOWN now
          else case mra_next_failure_category m of
            Some category \<Rightarrow>
              adapter_failure (ter_transaction_id q) FAILURE None (option_or (mra_next_failure_reason m) METHOD_NOT_AUTHORIZED) category
                (Msg (text_or (mra_next_failure_message m) ''Simulated provider failure'') []) FAILED now
          | None \<Rightarrow>
              adapter_result True (ter_transaction_id q) TransactionState.SUCCESS (Some (simulated_reference q))
                (Msg ''Payment order created successfully.'' []) PaymentResultState.SUCCESS
                (Some (JObj [(''id'', JStr (simulated_reference q)), (''entity'', JStr ''order''), (''amount'', JInt (ter_amount_paise q)),
                  (''currency'', JStr (currency_value (ter_currency q))), (''status'', JStr ''created'')])) now)"

definition mock_execute_payment ::
  "MockRazorpayAdapter \<Rightarrow> TrustedExecutionRequest \<Rightarrow> datetime \<Rightarrow> ExecutionResult \<times> MockRazorpayAdapter" where
  "mock_execute_payment m q now =
     (let m' = m\<lparr>mra_executed_requests := mra_executed_requests m @ [q]\<rparr> in (mock_answer m' q now, m'))"

definition mock_status :: "MockRazorpayAdapter \<Rightarrow> string \<Rightarrow> datetime \<Rightarrow> ExecutionResult" where
  "mock_status m pid now =
     (if mra_reconcile_timeout m then
        adapter_failure ''tx-fetch'' EXECUTING (Some pid) AUTHORIZATION_EXPIRED TIMEOUT
          (Msg ''Status reconciliation request timed out.'' []) UNKNOWN now
      else if mra_reconcile_malformed m then
        adapter_failure ''tx-fetch'' EXECUTING (Some pid) METHOD_NOT_AUTHORIZED UNKNOWN_PROVIDER_ERROR
          (Msg ''Malformed response received during status reconciliation.'' []) UNKNOWN now
      else let ok = (mra_reconcile_status m = PaymentResultState.SUCCESS) in
        adapter_result ok ''tx-fetch'' (if ok then TransactionState.SUCCESS else FAILURE) (Some pid)
          (Msg ''Reconciled status for {}: {}'' [PStr pid, PStr (payment_result_value (mra_reconcile_status m))]) (mra_reconcile_status m)
          (Some (JObj [(''id'', JStr pid), (''entity'', JStr ''payment''), (''status'', JStr (if ok then ''captured'' else ''failed''))])) now)"

definition mock_fetch_payment_status :: "MockRazorpayAdapter \<Rightarrow> string \<Rightarrow> datetime \<Rightarrow> ExecutionResult \<times> MockRazorpayAdapter" where
  "mock_fetch_payment_status m pid now =
     (let m' = m\<lparr>mra_reconciled_requests := mra_reconciled_requests m @ [pid]\<rparr> in (mock_status m' pid now, m'))"

section \<open>The HTTP adapter\<close>

record HttpRequest =
  hq_url :: string
  hq_body :: string
  hq_verb :: string
  hq_headers :: "(string \<times> string) list"

datatype http_outcome =
    Body "string \<rightharpoonup> string" \<comment> \<open>a JSON object, as far as its texts are concerned\<close>
  | HTTPError int
  | URLError string bool \<comment> \<open>the text of the error, and whether it is a \<open>TimeoutError\<close>\<close>
  | OtherError

record RazorpayHttpAdapter =
  rha_key_id :: string
  rha_key_secret :: string

definition allowed_base_url :: string where
  "allowed_base_url = ''https://api.razorpay.com/v1''"

definition utf8 :: "string \<Rightarrow> string" where
  "utf8 s = concat (map (\<lambda>c. let n = of_char c :: nat in
     if n < 128 then [c] else [char_of (192 + n div 64), char_of (128 + n mod 64)]) s)"

definition basic_auth :: "RazorpayHttpAdapter \<Rightarrow> string \<times> string" where
  "basic_auth h = (''Authorization'', ''Basic '' @ b64encode (utf8 (rha_key_id h @ '':'' @ rha_key_secret h)))"

definition payment_endpoint :: "TrustedExecutionRequest \<Rightarrow> string" where
  "payment_endpoint q = allowed_base_url @ (case ter_operation q of CREATE_ORDER \<Rightarrow> ''/orders'' | CREATE_PAYMENT_LINK \<Rightarrow> ''/payment_links''
     | _ \<Rightarrow> ''/payments'')"

definition payment_request :: "RazorpayHttpAdapter \<Rightarrow> TrustedExecutionRequest \<Rightarrow> HttpRequest" where
  "payment_request h q =
     \<lparr>hq_url = payment_endpoint q,
      hq_body = json_plain (JObj [(''amount'', JInt (ter_amount_paise q)), (''currency'', JStr (currency_value (ter_currency q))),
        (''receipt'', JStr (ter_transaction_id q)),
        (''notes'', JObj [(''mandate_id'', JStr (ter_mandate_id q)), (''cart_hash'', JStr (ter_cart_hash q))])]),
      hq_verb = ''POST'', hq_headers = [(''Content-Type'', ''application/json''), basic_auth h]\<rparr>"

definition http_error_class :: "int \<Rightarrow> ExecutionFailureCategory \<times> RejectionReason \<times> msg" where
  "http_error_class status =
     (if status = 401 \<or> status = 403 then
        (AUTHENTICATION_ERROR, METHOD_NOT_AUTHORIZED, Msg ''Razorpay authentication failed.'' [])
      else if status = 400 then (VALIDATION_ERROR, INVALID_AMOUNT, Msg ''Razorpay request validation failed.'' [])
      else if status = 429 then (RATE_LIMIT_EXCEEDED, AUTONOMOUS_EXECUTION_DISABLED, Msg ''Razorpay rate limit exceeded.'' [])
      else (PROVIDER_REJECTED, METHOD_NOT_AUTHORIZED, Msg ''Razorpay API returned HTTP error {}.'' [PInt status]))"

definition http_execute_payment ::
  "(HttpRequest \<Rightarrow> http_outcome) \<Rightarrow> RazorpayHttpAdapter \<Rightarrow> TrustedExecutionRequest \<Rightarrow> datetime \<Rightarrow> ExecutionResult" where
  "http_execute_payment urlopen h q now =
     (let tid = ter_transaction_id q in
      if \<not> begins allowed_base_url (payment_endpoint q) then
        adapter_failure tid FAILURE None OPERATION_NOT_ALLOWED INVALID_CONTEXT
          (Msg ''Target URL outside allowed Razorpay domain.'' []) FAILED now
      else case urlopen (payment_request h q) of
        Body body \<Rightarrow>
          (let ref = option_or (body ''id'') (''rzp_'' @ take 8 tid) in
           adapter_result True tid TransactionState.SUCCESS (Some ref)
             (Msg ''Razorpay operation {} succeeded.'' [PStr (mcp_value (ter_operation q))]) PaymentResultState.SUCCESS
             (Some (JObj [(''id'', JStr ref), (''status'', JStr (option_or (body ''status'') ''created''))])) now)
      | HTTPError status \<Rightarrow>
          (case http_error_class status of (category, reason, m) \<Rightarrow> adapter_failure tid FAILURE None reason category m FAILED now)
      | URLError text is_timeout_error \<Rightarrow>
          (if contains ''timed out'' (lower text) \<or> is_timeout_error then
             adapter_failure tid FAILURE None AUTHORIZATION_EXPIRED TIMEOUT (Msg ''Razorpay API request timed out.'' []) UNKNOWN now
           else
             adapter_failure tid FAILURE None AUTHORIZATION_EXPIRED CONNECTION_FAILED (Msg ''Razorpay connection error.'' []) UNKNOWN now)
      | OtherError \<Rightarrow>
          adapter_failure tid FAILURE None METHOD_NOT_AUTHORIZED UNKNOWN_PROVIDER_ERROR
            (Msg ''An unexpected error occurred during payment execution.'' []) UNKNOWN now)"

definition http_fetch_payment_status ::
  "(HttpRequest \<Rightarrow> http_outcome) \<Rightarrow> RazorpayHttpAdapter \<Rightarrow> string \<Rightarrow> datetime \<Rightarrow> ExecutionResult" where
  "http_fetch_payment_status urlopen h pid now =
     (case urlopen \<lparr>hq_url = allowed_base_url @ ''/payments/'' @ pid, hq_body = [], hq_verb = ''GET'', hq_headers = [basic_auth h]\<rparr> of
        Body body \<Rightarrow>
          (let status = option_or (body ''status'') ''captured'' in
           adapter_result True ''tx-fetch'' TransactionState.SUCCESS (Some pid) (Msg ''Fetched payment {}.'' [PStr pid])
             (if status = ''captured'' then PaymentResultState.SUCCESS else PaymentResultState.PENDING)
             (Some (JObj [(''id'', JStr pid), (''status'', JStr status)])) now)
      | _ \<Rightarrow>
          adapter_failure ''tx-fetch'' FAILURE None METHOD_NOT_AUTHORIZED UNKNOWN_PROVIDER_ERROR
            (Msg ''Failed to fetch status for payment {}.'' [PStr pid]) UNKNOWN now)"

section \<open>What the service learns from the provider\<close>

lemma adapter_result_simps [simp]:
  "exr_success (adapter_result ok tid st ref m provider raw now) = ok"
  "exr_provider_status (adapter_result ok tid st ref m provider raw now) = Some provider"
  "exr_external_reference (adapter_result ok tid st ref m provider raw now) = ref"
  "exr_success (adapter_failure tid st ref reason category m provider now) = False"
  "exr_provider_status (adapter_failure tid st ref reason category m provider now) = Some provider"
  by (simp_all add: adapter_result_def adapter_failure_def)

lemma endpoint_allowed [simp]: "begins allowed_base_url (payment_endpoint q)"
  by (simp add: begins_iff payment_endpoint_def)

lemma http_success_iff:
  "exr_success (http_execute_payment urlopen h q now) \<longleftrightarrow> (\<exists>body. urlopen (payment_request h q) = Body body)"
  by (simp add: http_execute_payment_def Let_def split: http_outcome.splits prod.splits)

lemma http_success_reference:
  assumes "urlopen (payment_request h q) = Body body"
  shows "exr_external_reference (http_execute_payment urlopen h q now) =
    Some (option_or (body ''id'') (''rzp_'' @ take 8 (ter_transaction_id q)))"
  using assms by (simp add: http_execute_payment_def Let_def)

lemma settle_success:
  assumes "settle_outcome t answer now = Inr (t', r)" and "exr_success r"
  shows "exr_success answer \<and> exr_external_reference r = exr_external_reference answer"
  using assms by (auto simp: settle_outcome_def bind_res_def split: if_splits sum.splits)

text \<open>C11: A commit is the provider's. When an execution through the HTTP adapter succeeds for a transaction without a result, one
  request was sent, to an address under the allowed base, and the provider answered it with a JSON body; the reference of the
  result is the identifier in that body, or the transaction's own when the body has none.\<close>

theorem http_commit_was_answered:
  assumes "execute_payment (\<lambda>q. Inr (http_execute_payment urlopen h q now)) fetch s p a t now = (Inr r, s')"
    and "pes_results s (tx_transaction_id t) = None" and "exr_success r"
  shows "\<exists>q body. pes_sent s' = pes_sent s @ [q] \<and> urlopen (payment_request h q) = Body body \<and>
    begins ''https://api.razorpay.com/v1'' (hq_url (payment_request h q)) \<and>
    exr_external_reference r = Some (option_or (body ''id'') (''rzp_'' @ take 8 (ter_transaction_id q)))"
  using assms(1)
proof (cases rule: execute_payment_cases)
  case (known r')
  then show ?thesis using assms(2) by simp
next
  case (rejected reason category m)
  then have "\<not> exr_success r" by (auto simp: reject_execution_def reject_result_def Let_def split: sum.splits if_splits)
  then show ?thesis using assms(3) by simp
next
  case (dispatched t')
  let ?q = "trusted_request t' p a" and ?a = "http_execute_payment urlopen h (trusted_request t' p a) now"
  from dispatched(4) obtain final where settle: "settle_outcome t' ?a now = Inr (final, r)"
    by (auto simp: dispatch_payment_def Let_def split: sum.splits prod.splits)
  from settle_success [OF this assms(3)] obtain body where body: "urlopen (payment_request h ?q) = Body body"
    by (auto simp: http_success_iff)
  have "pes_sent s' = pes_sent s @ [?q]"
    using dispatch_sent [OF dispatched(4) [symmetric]] by (simp add: register_transaction_def)
  moreover have "begins ''https://api.razorpay.com/v1'' (hq_url (payment_request h ?q))"
    using endpoint_allowed [of ?q] by (simp add: payment_request_def allowed_base_url_def)
  ultimately show ?thesis
    using body settle_success [OF settle assms(3)] http_success_reference [of urlopen h ?q, OF body] by auto
qed

definition sample_http :: RazorpayHttpAdapter where
  "sample_http = \<lparr>rha_key_id = ''k'', rha_key_secret = ''s''\<rparr>"

definition answering :: "HttpRequest \<Rightarrow> http_outcome" where
  "answering q = Body [''id'' \<mapsto> ''order_1'']"

theorem http_commit_was_answered_witness:
  "\<exists>r. fst (execute_payment (\<lambda>q. Inr (http_execute_payment answering sample_http q 0)) (\<lambda>_. Inr (sample_answer UNKNOWN))
      execution_service_init (sample_proposal 50) sample_authorization (sample_transaction AUTHORIZED) 0) = Inr r \<and>
    exr_external_reference r = Some ''order_1''"
proof -
  let ?pay = "\<lambda>q. Inr (http_execute_payment answering sample_http q 0)"
  let ?run = "execute_payment ?pay (\<lambda>_. Inr (sample_answer UNKNOWN)) execution_service_init (sample_proposal 50)
      sample_authorization (sample_transaction AUTHORIZED) 0"
  obtain out s' where run: "?run = (out, s')" by (rule prod.exhaust)
  have fresh: "pes_results execution_service_init (tx_transaction_id (sample_transaction AUTHORIZED)) = None"
    by (simp add: execution_service_init_def)
  have "\<exists>r. out = Inr r \<and> exr_success r"
    using run
  proof (cases rule: execute_payment_cases)
    case (known r)
    then show ?thesis using fresh by simp
  next
    case (rejected reason category m)
    then show ?thesis using sample_cleared by blast
  next
    case (dispatched t')
    let ?a = "http_execute_payment answering sample_http (trusted_request t' (sample_proposal 50) sample_authorization) 0"
    have "tx_state t' = EXECUTING"
      using dispatched(2,3) by (auto simp: execution_cleared_def is_executable_def txn_can_execute_def transition_transaction_def no_fields_def)
    from two_transitions_ok [OF this, of "no_fields\<lparr>tf_razorpay_order_id := exr_external_reference ?a\<rparr>" TransactionState.SUCCESS
        TransactionState.COMMITTED 0]
    obtain f where "two_transitions t' TransactionState.SUCCESS (no_fields\<lparr>tf_razorpay_order_id := exr_external_reference ?a\<rparr>)
        TransactionState.COMMITTED 0 = Inr f" by (auto simp: no_fields_def)
    moreover have "exr_success ?a" by (auto simp: http_success_iff answering_def)
    ultimately have "\<exists>final r. settle_outcome t' ?a 0 = Inr (final, r) \<and> exr_success r"
      by (simp add: settle_outcome_def bind_res_def)
    then show ?thesis using dispatched(4) by (auto simp: dispatch_payment_def Let_def)
  qed
  then obtain r where r: "out = Inr r" "exr_success r" by blast
  from http_commit_was_answered [OF run [unfolded r(1)] fresh r(2)] show ?thesis
    using run r by (auto simp: answering_def)
qed

text \<open>A failed payment is never recognized. Reconciliation through the HTTP adapter knows the statuses captured and pending only:
  whatever the provider says of the payment of an executing transaction, the transaction is committed or keeps executing, and
  an answer without a status commits it.\<close>

theorem http_reconciliation_never_fails:
  assumes "pes_transactions s tid = Some t" and "tx_state t = EXECUTING"
    and "reconcile_payment_status (\<lambda>ref. Inr (http_fetch_payment_status urlopen h ref now)) s tid ext now = (out, s')"
  shows "\<exists>t'. pes_transactions s' tid = Some t' \<and> tx_state t' \<in> {TransactionState.COMMITTED, EXECUTING} \<and>
    ((\<forall>q. \<exists>body. urlopen q = Body body \<and> body ''status'' = None) \<longrightarrow> tx_state t' = TransactionState.COMMITTED)"
proof -
  let ?ref = "or_else ext (tx_razorpay_order_id t) (tx_transaction_id t)"
  let ?st = "http_fetch_payment_status urlopen h ?ref now"
  have st: "exr_provider_status ?st \<in> {Some PaymentResultState.SUCCESS, Some PaymentResultState.PENDING, Some UNKNOWN}"
    by (auto simp: http_fetch_payment_status_def Let_def split: http_outcome.splits)
  have silent: "exr_provider_status ?st = Some PaymentResultState.SUCCESS"
    if "\<forall>q. \<exists>body. urlopen q = Body body \<and> body ''status'' = None"
  proof -
    from that obtain body where "urlopen \<lparr>hq_url = allowed_base_url @ ''/payments/'' @ ?ref, hq_body = [], hq_verb = ''GET'',
        hq_headers = [basic_auth h]\<rparr> = Body body" "body ''status'' = None" by blast
    then show ?thesis by (simp add: http_fetch_payment_status_def Let_def)
  qed
  from two_transitions_ok [OF assms(2), of "no_fields\<lparr>tf_razorpay_order_id := Some ?ref\<rparr>" TransactionState.SUCCESS
      TransactionState.COMMITTED now]
  obtain f where f: "two_transitions t TransactionState.SUCCESS (no_fields\<lparr>tf_razorpay_order_id := Some ?ref\<rparr>)
      TransactionState.COMMITTED now = Inr f" "tx_state f = TransactionState.COMMITTED" by (auto simp: no_fields_def)
  have nt: "\<not> is_terminal t" using assms(2) by (simp add: is_terminal_def txn_is_terminal_def)
  show ?thesis
  proof (cases "exr_provider_status ?st = Some PaymentResultState.SUCCESS")
    case True
    then show ?thesis using assms(1,3) f nt
      by (auto simp: reconcile_payment_status_def Let_def store_outcome_def)
  next
    case False
    then have "pes_transactions s' tid = Some t" using assms(1,3) st nt
      by (auto simp: reconcile_payment_status_def Let_def)
    then show ?thesis using assms(2) silent False by blast
  qed
qed

theorem http_reconciliation_never_fails_witness:
  "\<exists>t'. pes_transactions (snd (reconcile_payment_status (\<lambda>ref. Inr (http_fetch_payment_status answering sample_http ref 0))
      (register_transaction execution_service_init (sample_transaction EXECUTING)) ''t'' None 0)) ''t'' = Some t' \<and>
    tx_state t' = TransactionState.COMMITTED"
proof -
  let ?s = "register_transaction execution_service_init (sample_transaction EXECUTING)"
  obtain out s' where run: "reconcile_payment_status (\<lambda>ref. Inr (http_fetch_payment_status answering sample_http ref 0)) ?s ''t'' None 0
    = (out, s')" by (rule prod.exhaust)
  have "pes_transactions ?s ''t'' = Some (sample_transaction EXECUTING)" "tx_state (sample_transaction EXECUTING) = EXECUTING"
    by (simp_all add: register_transaction_def sample_transaction_def)
  from http_reconciliation_never_fails [OF this run] show ?thesis by (auto simp: run answering_def)
qed

end
