(* ===== verification/Merchant_Store.thy ===== *)
theory Merchant_Store
  imports Session Domain_Types Py_Text
begin

text \<open>
  The tables of merchants, merchant policies and products (\<open>db/models/merchant.py\<close>, \<open>policy.py\<close>, \<open>product.py\<close>) and their
  repository, \<open>db/repository/merchant_repository.py\<close>. A policy keeps its lists as JSON texts. Rows that compare equal in an
  \<open>ORDER BY\<close> keep the order of insertion.
\<close>

record MerchantRow =
  mw_merchant_id :: string
  mw_name :: string
  mw_razorpay_account_id :: "string option"
  mw_active :: bool
  mw_created_at :: datetime

record PolicyTextRow =
  pw_id :: string
  pw_merchant_id :: string
  pw_policy_version :: string
  pw_active :: bool
  pw_autonomous_limit_paise :: int
  pw_step_up_threshold_paise :: int
  pw_allowed_categories_json :: string
  pw_allowed_operations_json :: string
  pw_blocked_operations_json :: string
  pw_effective_at :: datetime
  pw_created_at :: datetime

record ProductRow =
  dw_product_id :: string
  dw_merchant_id :: string
  dw_name :: string
  dw_description :: "string option"
  dw_price_paise :: int
  dw_currency :: string
  dw_category :: string
  dw_active :: bool
  dw_created_at :: datetime

type_synonym merchant_table = "MerchantRow table"
type_synonym policy_table = "PolicyTextRow table"
type_synonym product_table = "ProductRow table"

definition repo_create_merchant ::
  "(merchant_table \<Rightarrow> MerchantRow \<Rightarrow> bool) \<Rightarrow> string \<Rightarrow> string \<Rightarrow> string option \<Rightarrow> bool \<Rightarrow> datetime \<Rightarrow>
   (merchant_table, MerchantRow) prog" where
  "repo_create_merchant accepts mid name account active now =
     (let r = \<lparr>mw_merchant_id = mid, mw_name = name, mw_razorpay_account_id = account, mw_active = active, mw_created_at = now\<rparr>
      in then_do (insert_row accepts mw_merchant_id r) (\<lambda>ok.
        if ok then ret r else raise_exc (Raise IntegrityError (Msg ''merchants'' []))))"

definition get_merchant_by_account :: "merchant_table \<Rightarrow> string \<Rightarrow> MerchantRow option res" where
  "get_merchant_by_account tab account = scalar_one_or_none (filter (\<lambda>r. mw_razorpay_account_id r = Some account) (rows_of tab))"

definition json_list :: "string list \<Rightarrow> string" where
  "json_list xs = json_plain (JArr (map JStr xs))"

definition repo_create_policy ::
  "(policy_table \<Rightarrow> PolicyTextRow \<Rightarrow> bool) \<Rightarrow> string \<Rightarrow> string \<Rightarrow> string \<Rightarrow> int \<Rightarrow> int \<Rightarrow> string list \<Rightarrow> string list \<Rightarrow> string list \<Rightarrow>
   bool \<Rightarrow> datetime \<Rightarrow> (policy_table, PolicyTextRow) prog" where
  "repo_create_policy accepts pid mid version limit threshold categories allowed blocked active now =
     (let r = \<lparr>pw_id = pid, pw_merchant_id = mid, pw_policy_version = version, pw_active = active, pw_autonomous_limit_paise = limit,
        pw_step_up_threshold_paise = threshold, pw_allowed_categories_json = json_list categories,
        pw_allowed_operations_json = json_list allowed, pw_blocked_operations_json = json_list blocked, pw_effective_at = now,
        pw_created_at = now\<rparr>
      in then_do (insert_row accepts pw_id r) (\<lambda>ok.
        if ok then ret r else raise_exc (Raise IntegrityError (Msg ''merchant_policies'' []))))"

definition first_row :: "'r list \<Rightarrow> 'r option" where
  \<comment> \<open>\<open>LIMIT 1\<close>\<close>
  "first_row rows = (case rows of [] \<Rightarrow> None | r # _ \<Rightarrow> Some r)"

definition select_active_policy :: "policy_table \<Rightarrow> string \<Rightarrow> PolicyTextRow option" where
  "select_active_policy tab mid = first_row (sort_key (\<lambda>r. - pw_effective_at r)
     (filter (\<lambda>r. pw_merchant_id r = mid \<and> pw_active r) (rows_of tab)))"

definition get_policy_by_version :: "policy_table \<Rightarrow> string \<Rightarrow> string \<Rightarrow> PolicyTextRow option res" where
  "get_policy_by_version tab mid version =
     scalar_one_or_none (filter (\<lambda>r. pw_merchant_id r = mid \<and> pw_policy_version r = version) (rows_of tab))"

definition repo_create_product ::
  "(product_table \<Rightarrow> ProductRow \<Rightarrow> bool) \<Rightarrow> string \<Rightarrow> string \<Rightarrow> string \<Rightarrow> int \<Rightarrow> string \<Rightarrow> string \<Rightarrow> string option \<Rightarrow> bool \<Rightarrow> datetime \<Rightarrow>
   (product_table, ProductRow) prog" where
  "repo_create_product accepts pid mid name price category currency description active now =
     (let r = \<lparr>dw_product_id = pid, dw_merchant_id = mid, dw_name = name, dw_description = description, dw_price_paise = price,
        dw_currency = currency, dw_category = category, dw_active = active, dw_created_at = now\<rparr>
      in then_do (insert_row accepts dw_product_id r) (\<lambda>ok.
        if ok then ret r else raise_exc (Raise IntegrityError (Msg ''products'' []))))"

definition repo_get_product :: "product_table \<Rightarrow> string \<Rightarrow> ProductRow option" where
  "repo_get_product tab pid = row_of tab pid"

definition repo_list_products :: "product_table \<Rightarrow> string \<Rightarrow> bool \<Rightarrow> ProductRow list" where
  "repo_list_products tab mid active_only =
     filter (\<lambda>r. dw_merchant_id r = mid \<and> (\<not> active_only \<or> dw_active r)) (rows_of tab)"

section \<open>What the repository promises\<close>

lemma first_row_sorted:
  "first_row (sort_key f rows) = Some r \<Longrightarrow> r \<in> set rows \<and> (\<forall>q \<in> set rows. f r \<le> f q)"
proof -
  assume a: "first_row (sort_key f rows) = Some r"
  then obtain rest where s: "sort_key f rows = r # rest" by (auto simp: first_row_def split: list.splits)
  have "sorted (map f (r # rest))" using sorted_sort_key [of f rows] by (simp add: s)
  moreover have "set rows = insert r (set rest)" by (metis list.set(2) s set_sort)
  ultimately show ?thesis by auto
qed

lemma first_row_None [simp]: "first_row (sort_key f rows) = None \<longleftrightarrow> rows = []"
proof (cases "sort_key f rows")
  case Nil
  then have "length rows = 0" using length_sort [of f rows] by simp
  then show ?thesis by (simp add: first_row_def)
next
  case (Cons r rest)
  then have "rows \<noteq> []" by auto
  then show ?thesis unfolding first_row_def Cons by simp
qed

text \<open>The active policy of a merchant is one of its active rows, and no active row of it took effect later.\<close>

theorem active_policy_is_latest:
  assumes "select_active_policy tab mid = Some r"
  shows "r \<in> set (rows_of tab) \<and> pw_merchant_id r = mid \<and> pw_active r \<and>
    (\<forall>q \<in> set (rows_of tab). pw_merchant_id q = mid \<and> pw_active q \<longrightarrow> pw_effective_at q \<le> pw_effective_at r)"
  using first_row_sorted [OF assms [unfolded select_active_policy_def]] by auto

theorem active_policy_is_latest_witness:
  "select_active_policy [(''p'', r\<lparr>pw_merchant_id := ''m'', pw_active := True\<rparr>)] ''m'' = Some (r\<lparr>pw_merchant_id := ''m'', pw_active := True\<rparr>)"
  by (simp add: select_active_policy_def first_row_def rows_of_def)

end
