(* ===== verification/Catalog.thy ===== *)
theory Catalog
  imports Merchant_Store Mandate_Store Credentials
begin

text \<open>
  The stores behind the endpoints of \<open>routers/merchants.py\<close>, \<open>routers/mandates.py\<close> and \<open>routers/products.py\<close>: merchants and
  their policies, mandates and products are kept in dictionaries of the process, and mirrored in the database where a session
  factory is configured. A handler is synchronous and runs in a worker thread, where no event loop runs, so that
  \<open>asyncio.run\<close> completes the database part before the handler returns. A body has passed the constraints of its contract
  (the predicates \<open>valid_...\<close>). \<open>enum\<close> lists a frozen set in Python's order, and \<open>loads\<close> decodes a JSON text.
\<close>

section \<open>Contracts\<close>

record MerchantCreate =
  mcr_name :: string
  mcr_razorpay_account_id :: string

definition valid_merchant_create :: "MerchantCreate \<Rightarrow> bool" where
  "valid_merchant_create b \<longleftrightarrow> mcr_name b \<noteq> [] \<and> length (mcr_name b) \<le> 255 \<and>
     mcr_razorpay_account_id b \<noteq> [] \<and> length (mcr_razorpay_account_id b) \<le> 255"

record MerchantResponse =
  mre_merchant_id :: string
  mre_name :: string
  mre_razorpay_account_id :: string
  mre_created_at :: datetime

record PolicyCreate =
  pcr_ai_commerce_enabled :: bool
  pcr_currency :: Currency
  pcr_allowed_categories :: "string set"
  pcr_autonomous_purchase_limit_paise :: int
  pcr_step_up_threshold_paise :: int
  pcr_max_step_up_percent :: int
  pcr_allowed_regions :: "Region set"
  pcr_allowed_operations :: "McpOperation set"
  pcr_blocked_operations :: "McpOperation set"
  pcr_expires_at :: "datetime option"

definition valid_policy_create :: "PolicyCreate \<Rightarrow> bool" where
  "valid_policy_create b \<longleftrightarrow> 0 \<le> pcr_autonomous_purchase_limit_paise b \<and> 0 \<le> pcr_step_up_threshold_paise b \<and>
     0 \<le> pcr_max_step_up_percent b \<and> pcr_max_step_up_percent b \<le> 100"

record PolicyResponse =
  por_policy_id :: string
  por_merchant_id :: string
  por_policy_version :: int
  por_ai_commerce_enabled :: bool
  por_currency :: Currency
  por_allowed_categories :: "string set"
  por_autonomous_purchase_limit_paise :: int
  por_step_up_threshold_paise :: int
  por_max_step_up_percent :: int
  por_allowed_regions :: "Region set"
  por_allowed_operations :: "McpOperation set"
  por_blocked_operations :: "McpOperation set"
  por_created_at :: datetime
  por_expires_at :: "datetime option"

record MandateCreate =
  mac_buyer_id :: string
  mac_merchant_scope :: "string set"
  mac_category_scope :: "string set"
  mac_allowed_regions :: "Region set"
  mac_maximum_amount_paise :: int
  mac_daily_budget_paise :: int
  mac_currency :: Currency
  mac_autonomous_execution :: bool
  mac_expires_at :: datetime

definition valid_mandate_create :: "MandateCreate \<Rightarrow> bool" where
  "valid_mandate_create b \<longleftrightarrow> mac_buyer_id b \<noteq> [] \<and> mac_merchant_scope b \<noteq> {} \<and> 0 \<le> mac_maximum_amount_paise b \<and>
     0 \<le> mac_daily_budget_paise b"

record MandateResponse =
  mar_mandate_id :: string
  mar_buyer_id :: string
  mar_version :: int
  mar_merchant_scope :: "string set"
  mar_category_scope :: "string set"
  mar_allowed_regions :: "Region set"
  mar_maximum_amount_paise :: int
  mar_daily_budget_paise :: int
  mar_currency :: Currency
  mar_autonomous_execution :: bool
  mar_status :: MandateStatus
  mar_issued_at :: datetime
  mar_expires_at :: datetime

record MandateRevokeResponse =
  mrv_mandate_id :: string
  mrv_status :: MandateStatus
  mrv_revoked_at :: datetime

record ProductCreateRequest =
  pdc_name :: string
  pdc_category :: string
  pdc_price_paise :: int
  pdc_currency :: Currency
  pdc_description :: "string option"
  pdc_stock_quantity :: int

definition valid_product_create :: "ProductCreateRequest \<Rightarrow> bool" where
  "valid_product_create b \<longleftrightarrow> pdc_name b \<noteq> [] \<and> length (pdc_name b) \<le> 500 \<and> pdc_category b \<noteq> [] \<and>
     length (pdc_category b) \<le> 100 \<and> 0 \<le> pdc_price_paise b \<and> 0 \<le> pdc_stock_quantity b \<and>
     (case pdc_description b of None \<Rightarrow> True | Some d \<Rightarrow> length d \<le> 2000)"

record ProductResponse =
  pdr_product_id :: string
  pdr_merchant_id :: string
  pdr_name :: string
  pdr_category :: string
  pdr_price_paise :: int
  pdr_currency :: Currency
  pdr_description :: "string option"
  pdr_stock_quantity :: int
  pdr_created_at :: datetime

record ProductListResponse =
  pdl_merchant_id :: string
  pdl_products :: "ProductResponse list"
  pdl_total_count :: int

section \<open>State\<close>

record CatalogDb =
  cdb_merchants :: merchant_table
  cdb_policies :: policy_table
  cdb_mandates :: mandate_table
  cdb_auth :: AuthDb

record CatalogAccepts =
  cac_merchants :: "merchant_table \<Rightarrow> MerchantRow \<Rightarrow> bool"
  cac_policies :: "policy_table \<Rightarrow> PolicyTextRow \<Rightarrow> bool"
  cac_mandates :: "mandate_table \<Rightarrow> MandateRow \<Rightarrow> bool"
  cac_credentials :: "credential_table \<Rightarrow> CredentialRow \<Rightarrow> bool"
  cac_audit :: "AuditRow list \<Rightarrow> AuditRow \<Rightarrow> bool"

record Catalog =
  cat_merchants :: "MerchantResponse table"
  cat_policies :: "PolicyResponse table"
  cat_mandates :: "MandateResponse table"
  cat_products :: "ProductResponse table"
  cat_db :: "CatalogDb option" \<comment> \<open>\<open>None\<close> where no session factory is configured\<close>

definition persist :: "(CatalogDb, 'a) prog \<Rightarrow> (Catalog, unit) prog" where
  \<comment> \<open>a unit of work over the database, if there is one; an exception rolls it back and leaves the handler\<close>
  "persist m c = (case cat_db c of
       None \<Rightarrow> (Inr (), c)
     | Some d \<Rightarrow> (case m d of
           (Inr _, d') \<Rightarrow> (Inr (), c\<lparr>cat_db := Some d'\<rparr>)
         | (Inl e, _) \<Rightarrow> (Inl e, c)))"

definition from_db :: "(CatalogDb \<Rightarrow> 'a option res) \<Rightarrow> Catalog \<Rightarrow> 'a option" where
  \<comment> \<open>a read whose exceptions are swallowed\<close>
  "from_db f c = (case cat_db c of None \<Rightarrow> None | Some d \<Rightarrow> (case f d of Inr (Some x) \<Rightarrow> Some x | _ \<Rightarrow> None))"

definition on_merchant_rows :: "(merchant_table, 'a) prog \<Rightarrow> (CatalogDb, 'a) prog" where
  "on_merchant_rows m = zoom cdb_merchants (\<lambda>t d. d\<lparr>cdb_merchants := t\<rparr>) m"

definition on_policy_rows :: "(policy_table, 'a) prog \<Rightarrow> (CatalogDb, 'a) prog" where
  "on_policy_rows m = zoom cdb_policies (\<lambda>t d. d\<lparr>cdb_policies := t\<rparr>) m"

definition on_mandate_rows :: "(mandate_table, 'a) prog \<Rightarrow> (CatalogDb, 'a) prog" where
  "on_mandate_rows m = zoom cdb_mandates (\<lambda>t d. d\<lparr>cdb_mandates := t\<rparr>) m"

definition on_auth_rows :: "(AuthDb, 'a) prog \<Rightarrow> (CatalogDb, 'a) prog" where
  "on_auth_rows m = zoom cdb_auth (\<lambda>t d. d\<lparr>cdb_auth := t\<rparr>) m"

definition not_found_404 :: "string \<Rightarrow> string \<Rightarrow> py_exc" where
  "not_found_404 what ident = http_exception 404 (Msg (what @ '' '{}' not found.'') [PStr ident])"

section \<open>Merchants and their policies\<close>

definition default_policy :: "string \<Rightarrow> string \<Rightarrow> datetime \<Rightarrow> PolicyResponse" where
  "default_policy uid mid now =
     \<lparr>por_policy_id = ''pol_'' @ uid, por_merchant_id = mid, por_policy_version = 1, por_ai_commerce_enabled = True, por_currency = INR,
      por_allowed_categories = {''electronics'', ''clothing'', ''books'', ''supplies''}, por_autonomous_purchase_limit_paise = 500000,
      por_step_up_threshold_paise = 1000000, por_max_step_up_percent = 10, por_allowed_regions = {IN},
      por_allowed_operations = {CREATE_ORDER, FETCH_PAYMENT}, por_blocked_operations = {PAYOUT, BANK_TRANSFER},
      por_created_at = now, por_expires_at = None\<rparr>"

definition operation_values :: "(string set \<Rightarrow> string list) \<Rightarrow> McpOperation set \<Rightarrow> string list" where
  "operation_values enum ops = enum (mcp_value ` ops)"

definition save_policy :: "(string set \<Rightarrow> string list) \<Rightarrow> CatalogAccepts \<Rightarrow> PolicyResponse \<Rightarrow> string \<Rightarrow> datetime \<Rightarrow> (CatalogDb, PolicyTextRow) prog" where
  \<comment> \<open>\<open>uow.merchants.create_policy\<close> with the fields of the response\<close>
  "save_policy enum acc r version now =
     on_policy_rows (repo_create_policy (cac_policies acc) (por_policy_id r) (por_merchant_id r) version
       (por_autonomous_purchase_limit_paise r) (por_step_up_threshold_paise r) (enum (por_allowed_categories r))
       (operation_values enum (por_allowed_operations r)) (operation_values enum (por_blocked_operations r))
       (por_ai_commerce_enabled r) now)"

definition create_merchant ::
  "(string set \<Rightarrow> string list) \<Rightarrow> CatalogAccepts \<Rightarrow> MerchantCreate \<Rightarrow> string \<Rightarrow> string \<Rightarrow> datetime \<Rightarrow> (Catalog, MerchantResponse) prog" where
  "create_merchant enum acc b uid policy_uid now =
     (let mid = ''mer_'' @ uid; p = default_policy policy_uid mid now;
          m = \<lparr>mre_merchant_id = mid, mre_name = mcr_name b, mre_razorpay_account_id = mcr_razorpay_account_id b, mre_created_at = now\<rparr> in
      then_do (write_st (\<lambda>c. c\<lparr>cat_merchants := put_row mid m (cat_merchants c), cat_policies := put_row mid p (cat_policies c)\<rparr>)) (\<lambda>_.
      then_do (persist (then_do (on_merchant_rows (repo_create_merchant (cac_merchants acc) mid (mcr_name b)
          (Some (mcr_razorpay_account_id b)) True now)) (\<lambda>_. save_policy enum acc p ''1'' now))) (\<lambda>_.
      ret m)))"

definition get_merchant :: "Principal option \<Rightarrow> string \<Rightarrow> (Catalog, MerchantResponse) prog" where
  "get_merchant who mid =
     then_do (of_res (case who of Some p \<Rightarrow> verify_merchant_tenant_access mid p | None \<Rightarrow> Inr ())) (\<lambda>_.
     then_do (read_st (from_db (\<lambda>d. Inr (map_option (\<lambda>r.
        \<lparr>mre_merchant_id = mw_merchant_id r, mre_name = mw_name r, mre_razorpay_account_id = text_or (mw_razorpay_account_id r) [],
         mre_created_at = mw_created_at r\<rparr>) (row_of (cdb_merchants d) mid))))) (\<lambda>stored.
     case stored of
       Some m \<Rightarrow> ret m
     | None \<Rightarrow> then_do (read_st (\<lambda>c. row_of (cat_merchants c) mid)) (\<lambda>m.
         case m of Some m \<Rightarrow> ret m | None \<Rightarrow> raise_exc (not_found_404 ''Merchant'' mid))))"

definition updated_policy :: "PolicyCreate \<Rightarrow> string \<Rightarrow> PolicyResponse option \<Rightarrow> string \<Rightarrow> datetime \<Rightarrow> PolicyResponse" where
  "updated_policy b mid current uid now =
     \<lparr>por_policy_id = (case current of Some p \<Rightarrow> por_policy_id p | None \<Rightarrow> ''pol_'' @ uid), por_merchant_id = mid,
      por_policy_version = (case current of Some p \<Rightarrow> por_policy_version p + 1 | None \<Rightarrow> 1),
      por_ai_commerce_enabled = pcr_ai_commerce_enabled b, por_currency = pcr_currency b,
      por_allowed_categories = pcr_allowed_categories b,
      por_autonomous_purchase_limit_paise = pcr_autonomous_purchase_limit_paise b,
      por_step_up_threshold_paise = pcr_step_up_threshold_paise b, por_max_step_up_percent = pcr_max_step_up_percent b,
      por_allowed_regions = pcr_allowed_regions b, por_allowed_operations = pcr_allowed_operations b,
      por_blocked_operations = pcr_blocked_operations b, por_created_at = now, por_expires_at = pcr_expires_at b\<rparr>"

definition update_merchant_policy ::
  "(string set \<Rightarrow> string list) \<Rightarrow> CatalogAccepts \<Rightarrow> string \<Rightarrow> PolicyCreate \<Rightarrow> string \<Rightarrow> datetime \<Rightarrow> (Catalog, PolicyResponse) prog" where
  "update_merchant_policy enum acc mid b uid now =
     then_do (read_st (\<lambda>c. (row_of (cat_merchants c) mid, row_of (cat_policies c) mid))) (\<lambda>(merchant, current).
       if merchant = None then raise_exc (not_found_404 ''Merchant'' mid)
       else let p = updated_policy b mid current uid now in
         then_do (write_st (\<lambda>c. c\<lparr>cat_policies := put_row mid p (cat_policies c)\<rparr>)) (\<lambda>_.
         then_do (persist (save_policy enum acc p (int_str (por_policy_version p)) now)) (\<lambda>_.
         ret p)))"

definition invalid_column :: py_exc where
  "invalid_column = Raise ValueError (Msg ''PolicyResponse'' [])"

definition frozen_texts :: "(string \<Rightarrow> json option) \<Rightarrow> string \<Rightarrow> string set res" where
  \<comment> \<open>\<open>frozenset(json.loads(column or "[]"))\<close>, as a field of texts takes it\<close>
  "frozen_texts loads column = (case loads (if column = [] then ''[]'' else column) of
       Some (JArr xs) \<Rightarrow> if list_all (\<lambda>x. case x of JStr _ \<Rightarrow> True | _ \<Rightarrow> False) xs then Inr (py_str ` set xs) else Inl invalid_column
     | Some (JStr s) \<Rightarrow> Inr ((\<lambda>ch. [ch]) ` set s)
     | Some (JObj kvs) \<Rightarrow> Inr (fst ` set kvs)
     | _ \<Rightarrow> Inl invalid_column)"

definition frozen_operations :: "(string \<Rightarrow> json option) \<Rightarrow> string \<Rightarrow> McpOperation set res" where
  "frozen_operations loads column = bind_res (frozen_texts loads column) (\<lambda>ts.
     if \<forall>t \<in> ts. mcp_of t \<noteq> None then Inr {op. mcp_value op \<in> ts} else Inl invalid_column)"

definition row_version :: "string \<Rightarrow> int res" where
  \<comment> \<open>\<open>int(v) if v.isdigit() else 1\<close>; superscript digits pass \<open>isdigit\<close>\<close>
  "row_version v = (if v \<noteq> [] \<and> list_all (\<lambda>ch. is_digit ch \<or> (of_char ch :: nat) \<in> {178, 179, 185}) v then py_int (JStr v) else Inr 1)"

definition row_to_policy_response :: "(string \<Rightarrow> json option) \<Rightarrow> PolicyTextRow \<Rightarrow> PolicyResponse res" where
  "row_to_policy_response loads r =
     bind_res (frozen_texts loads (pw_allowed_categories_json r)) (\<lambda>categories.
     bind_res (frozen_operations loads (pw_allowed_operations_json r)) (\<lambda>allowed.
     bind_res (frozen_operations loads (pw_blocked_operations_json r)) (\<lambda>blocked.
     bind_res (row_version (pw_policy_version r)) (\<lambda>version.
       Inr \<lparr>por_policy_id = pw_id r, por_merchant_id = pw_merchant_id r, por_policy_version = version,
         por_ai_commerce_enabled = pw_active r, por_currency = INR, por_allowed_categories = categories,
         por_autonomous_purchase_limit_paise = pw_autonomous_limit_paise r, por_step_up_threshold_paise = pw_step_up_threshold_paise r,
         por_max_step_up_percent = 10, por_allowed_regions = {IN}, por_allowed_operations = allowed, por_blocked_operations = blocked,
         por_created_at = pw_created_at r, por_expires_at = None\<rparr>))))"

definition stored_policy :: "(string \<Rightarrow> json option) \<Rightarrow> string \<Rightarrow> CatalogDb \<Rightarrow> PolicyResponse option res" where
  "stored_policy loads mid d = (case select_active_policy (cdb_policies d) mid of
     None \<Rightarrow> Inr None | Some r \<Rightarrow> bind_res (row_to_policy_response loads r) (\<lambda>p. Inr (Some p)))"

definition get_merchant_policy :: "(string \<Rightarrow> json option) \<Rightarrow> string \<Rightarrow> (Catalog, PolicyResponse) prog" where
  "get_merchant_policy loads mid =
     then_do (read_st (from_db (stored_policy loads mid))) (\<lambda>stored.
     case stored of
       Some p \<Rightarrow> ret p
     | None \<Rightarrow> then_do (read_st (\<lambda>c. (row_of (cat_merchants c) mid, row_of (cat_policies c) mid))) (\<lambda>(merchant, p).
         if merchant = None then raise_exc (not_found_404 ''Merchant'' mid)
         else case p of Some p \<Rightarrow> ret p
           | None \<Rightarrow> raise_exc (http_exception 404 (Msg ''Policy for merchant '{}' not found.'' [PStr mid]))))"

section \<open>Credentials of a merchant\<close>

definition default_scopes :: string where
  "default_scopes = ''merchant:read merchant:write mandate:read mandate:write transaction:read transaction:write audit:read receipt:read reconciliation:write''"

record IssuedCredential =
  isc_credential_id :: string
  isc_merchant_id :: string
  isc_credential_prefix :: string
  isc_raw_secret :: string
  isc_status :: string
  isc_scopes :: "string list"
  isc_created_at :: datetime

definition issue_credential ::
  "(string \<Rightarrow> string) \<Rightarrow> CatalogAccepts \<Rightarrow> string \<Rightarrow> string \<Rightarrow> string \<Rightarrow> string \<Rightarrow> string \<Rightarrow> string \<Rightarrow> datetime \<Rightarrow> (AuthDb, AuditRow) prog" where
  "issue_credential sha acc mid cid prefix hashed granted eid now =
     then_do (on_credentials (create_credential (cac_credentials acc) cid mid prefix hashed granted None now)) (\<lambda>_.
     zoom ad_audit (\<lambda>t s. s\<lparr>ad_audit := t\<rparr>) (\<lambda>rows. repo_append_event sha (cac_audit acc) rows (audit_event_value API_CREDENTIAL_CREATED)
       \<lparr>ev_transaction_id = None, ev_mandate_id = None, ev_merchant_id = Some mid, ev_buyer_id = None,
        ev_payload = Some [(''action'', JStr (''Created API credential '' @ quoted cid @ '' for merchant '' @ quoted mid))]\<rparr>
       None None eid now))"

definition create_merchant_credential ::
  "(string \<Rightarrow> string) \<Rightarrow> CatalogAccepts \<Rightarrow> string \<Rightarrow> string list option \<Rightarrow> string \<Rightarrow> string \<Rightarrow> string \<Rightarrow> datetime \<Rightarrow>
   (Catalog, IssuedCredential) prog" where
  \<comment> \<open>\<open>uid\<close> and \<open>entropy\<close> are those of the key pair, \<open>eid\<close> is the fresh part of the audit event's identifier\<close>
  "create_merchant_credential sha acc mid scopes uid entropy eid now =
     then_do (of_res (generate_credential_key_pair sha ''live'' uid entropy)) (\<lambda>(cid, prefix, raw, hashed).
     let granted = (case scopes of Some (x # xs) \<Rightarrow> join_with '' '' (x # xs) | _ \<Rightarrow> default_scopes) in
     then_do (persist (on_auth_rows (issue_credential sha acc mid cid prefix hashed granted eid now))) (\<lambda>_.
     ret \<lparr>isc_credential_id = cid, isc_merchant_id = mid, isc_credential_prefix = prefix, isc_raw_secret = raw,
       isc_status = ''ACTIVE'', isc_scopes = words_from [] granted, isc_created_at = now\<rparr>))"

section \<open>Mandates\<close>

definition demo_mandates :: "datetime \<Rightarrow> MandateResponse table" where
  \<comment> \<open>the mandates that the process starts with; \<open>now\<close> is the time of its start\<close>
  "demo_mandates now =
     [(''man_buyer_01'', \<lparr>mar_mandate_id = ''man_buyer_01'', mar_buyer_id = ''buy_user_99'', mar_version = 1,
        mar_merchant_scope = {''mer_tech_store'', ''mer_office_world'', ''world.openfoodfacts.org''},
        mar_category_scope = {''electronics'', ''supplies'', ''groceries'', ''office'', ''general'', ''beverages''},
        mar_allowed_regions = {IN}, mar_maximum_amount_paise = 500000, mar_daily_budget_paise = 1000000, mar_currency = INR,
        mar_autonomous_execution = True, mar_status = MandateStatus.ACTIVE, mar_issued_at = now, mar_expires_at = 1798675200000000\<rparr>),
      (''man_buyer_02'', \<lparr>mar_mandate_id = ''man_buyer_02'', mar_buyer_id = ''buy_corp_02'', mar_version = 1,
        mar_merchant_scope = {''mer_office_world'', ''mer_tech_store''},
        mar_category_scope = {''office'', ''furniture'', ''electronics''},
        mar_allowed_regions = {IN}, mar_maximum_amount_paise = 1500000, mar_daily_budget_paise = 5000000, mar_currency = INR,
        mar_autonomous_execution = True, mar_status = MandateStatus.ACTIVE, mar_issued_at = now, mar_expires_at = 1798675200000000\<rparr>)]"

definition catalog_init :: "CatalogDb option \<Rightarrow> datetime \<Rightarrow> Catalog" where
  "catalog_init db now = \<lparr>cat_merchants = [], cat_policies = [], cat_mandates = demo_mandates now, cat_products = [], cat_db = db\<rparr>"

definition list_mandates :: "Catalog \<Rightarrow> MandateResponse list" where
  "list_mandates c = rows_of (cat_mandates c)"

definition issued_mandate :: "MandateCreate \<Rightarrow> string \<Rightarrow> datetime \<Rightarrow> MandateResponse" where
  "issued_mandate b mid now =
     \<lparr>mar_mandate_id = mid, mar_buyer_id = mac_buyer_id b, mar_version = 1, mar_merchant_scope = mac_merchant_scope b,
      mar_category_scope = lower ` mac_category_scope b, mar_allowed_regions = mac_allowed_regions b,
      mar_maximum_amount_paise = mac_maximum_amount_paise b, mar_daily_budget_paise = mac_daily_budget_paise b,
      mar_currency = mac_currency b, mar_autonomous_execution = mac_autonomous_execution b, mar_status = MandateStatus.ACTIVE,
      mar_issued_at = now, mar_expires_at = mac_expires_at b\<rparr>"

definition first_scope :: "(string set \<Rightarrow> string list) \<Rightarrow> string set \<Rightarrow> string option" where
  \<comment> \<open>\<open>list(s)[0] if s else None\<close>\<close>
  "first_scope enum s = (if s = {} then None else Some (enum s ! 0))"

definition create_mandate ::
  "(string set \<Rightarrow> string list) \<Rightarrow> CatalogAccepts \<Rightarrow> MandateCreate \<Rightarrow> string \<Rightarrow> datetime \<Rightarrow> (Catalog, MandateResponse) prog" where
  "create_mandate enum acc b uid now =
     (let mid = ''man_'' @ uid; m = issued_mandate b mid now in
      then_do (write_st (\<lambda>c. c\<lparr>cat_mandates := put_row mid m (cat_mandates c)\<rparr>)) (\<lambda>_.
      then_do (persist (on_mandate_rows (repo_create_mandate (cac_mandates acc)
        \<lparr>mrow_mandate_id = mid, mrow_buyer_id = mac_buyer_id b, mrow_merchant_id = first_scope enum (mac_merchant_scope b),
         mrow_category_scope = first_scope enum (mac_category_scope b), mrow_daily_budget_paise = mac_daily_budget_paise b,
         mrow_cumulative_budget_paise = None, mrow_currency = ''INR'', mrow_region = ''IN'',
         mrow_status = mandate_status_value MandateStatus.ACTIVE, mrow_expires_at = mac_expires_at b, mrow_created_at = now\<rparr>))) (\<lambda>_.
      ret m)))"

definition row_to_mandate_response :: "MandateRow \<Rightarrow> MandateResponse res" where
  "row_to_mandate_response r = bind_res (mandate_status_from (mrow_status r)) (\<lambda>st.
     Inr \<lparr>mar_mandate_id = mrow_mandate_id r, mar_buyer_id = mrow_buyer_id r, mar_version = 1,
       mar_merchant_scope = scope_of (mrow_merchant_id r), mar_category_scope = scope_of (mrow_category_scope r),
       mar_allowed_regions = {IN}, mar_maximum_amount_paise = mrow_daily_budget_paise r,
       mar_daily_budget_paise = mrow_daily_budget_paise r, mar_currency = INR, mar_autonomous_execution = True, mar_status = st,
       mar_issued_at = mrow_created_at r, mar_expires_at = mrow_expires_at r\<rparr>)"

definition stored_mandate_response :: "string \<Rightarrow> CatalogDb \<Rightarrow> MandateResponse option res" where
  "stored_mandate_response mid d = (case repo_get_mandate (cdb_mandates d) mid of
     None \<Rightarrow> Inr None | Some r \<Rightarrow> bind_res (row_to_mandate_response r) (\<lambda>m. Inr (Some m)))"

definition get_mandate_response :: "string \<Rightarrow> (Catalog, MandateResponse) prog" where
  "get_mandate_response mid =
     then_do (read_st (from_db (stored_mandate_response mid))) (\<lambda>stored.
     case stored of
       Some m \<Rightarrow> ret m
     | None \<Rightarrow> then_do (read_st (\<lambda>c. row_of (cat_mandates c) mid)) (\<lambda>m.
         case m of Some m \<Rightarrow> ret m | None \<Rightarrow> raise_exc (not_found_404 ''Mandate'' mid)))"

definition revoked :: "MandateResponse \<Rightarrow> MandateResponse" where
  "revoked m = m\<lparr>mar_version := mar_version m + 1, mar_status := REVOKED\<rparr>"

definition revoke_mandate_response :: "string \<Rightarrow> datetime \<Rightarrow> (Catalog, MandateRevokeResponse) prog" where
  "revoke_mandate_response mid now =
     then_do (read_st (\<lambda>c. row_of (cat_mandates c) mid)) (\<lambda>current. case current of
       None \<Rightarrow> raise_exc (not_found_404 ''Mandate'' mid)
     | Some m \<Rightarrow>
         then_do (write_st (\<lambda>c. c\<lparr>cat_mandates := put_row mid (revoked m) (cat_mandates c)\<rparr>)) (\<lambda>_.
         then_do (persist (on_mandate_rows (transition_mandate_status mid (Status REVOKED)))) (\<lambda>_.
         ret \<lparr>mrv_mandate_id = mid, mrv_status = REVOKED, mrv_revoked_at = now\<rparr>)))"

section \<open>Products\<close>

definition create_product :: "string \<Rightarrow> ProductCreateRequest \<Rightarrow> string \<Rightarrow> datetime \<Rightarrow> (Catalog, ProductResponse) prog" where
  "create_product mid b uid now =
     (let pid = ''prd_'' @ uid;
          p = \<lparr>pdr_product_id = pid, pdr_merchant_id = mid, pdr_name = pdc_name b, pdr_category = lower (pdc_category b),
            pdr_price_paise = pdc_price_paise b, pdr_currency = pdc_currency b, pdr_description = pdc_description b,
            pdr_stock_quantity = pdc_stock_quantity b, pdr_created_at = now\<rparr> in
      then_do (write_st (\<lambda>c. c\<lparr>cat_products := put_row pid p (cat_products c)\<rparr>)) (\<lambda>_. ret p))"

definition merchant_products :: "Catalog \<Rightarrow> string \<Rightarrow> ProductResponse list" where
  "merchant_products c mid = filter (\<lambda>p. pdr_merchant_id p = mid) (rows_of (cat_products c))"

definition list_merchant_products :: "string \<Rightarrow> Catalog \<Rightarrow> ProductListResponse" where
  "list_merchant_products mid c =
     \<lparr>pdl_merchant_id = mid, pdl_products = merchant_products c mid, pdl_total_count = int (length (merchant_products c mid))\<rparr>"

definition get_product :: "string \<Rightarrow> (Catalog, ProductResponse) prog" where
  "get_product pid = then_do (read_st (\<lambda>c. row_of (cat_products c) pid)) (\<lambda>p.
     case p of Some p \<Rightarrow> ret p | None \<Rightarrow> raise_exc (not_found_404 ''Product'' pid))"

section \<open>What the stores keep\<close>

lemma persist_keeps [simp]:
  "cat_mandates (snd (persist m c)) = cat_mandates c" "cat_policies (snd (persist m c)) = cat_policies c"
  "cat_merchants (snd (persist m c)) = cat_merchants c" "cat_products (snd (persist m c)) = cat_products c"
  by (auto simp: persist_def split: option.splits prod.splits sum.splits)

lemma then_do_snd: "snd (then_do m f s) = (case m s of (Inl e, t) \<Rightarrow> t | (Inr x, t) \<Rightarrow> snd (f x t))"
  by (auto simp: then_do_def split: prod.splits sum.splits)

lemma persist_then_ret:
  "snd (then_do (persist m) (\<lambda>_. ret x) c) = snd (persist m c)"
  by (auto simp: then_do_def split: prod.splits sum.splits)

lemma mandates_after:
  "cat_mandates (snd (create_merchant enum acc mb uid puid now c)) = cat_mandates c"
  "cat_mandates (snd (update_merchant_policy enum acc mid pb uid now c)) = cat_mandates c"
  "cat_mandates (snd (create_merchant_credential sha acc mid scopes uid entropy eid now c)) = cat_mandates c"
  "cat_mandates (snd (create_product mid db uid now c)) = cat_mandates c"
  "cat_mandates (snd (create_mandate enum acc ab uid now c)) = put_row (''man_'' @ uid) (issued_mandate ab (''man_'' @ uid) now) (cat_mandates c)"
  by (simp_all add: create_merchant_def update_merchant_policy_def create_merchant_credential_def create_product_def create_mandate_def
      Let_def persist_then_ret then_do_snd [of "of_res r" for r] split: sum.splits prod.splits)

lemma mandates_after_revoke:
  "cat_mandates (snd (revoke_mandate_response mid now c)) =
    (case row_of (cat_mandates c) mid of None \<Rightarrow> cat_mandates c | Some m \<Rightarrow> put_row mid (revoked m) (cat_mandates c))"
  by (simp add: revoke_mandate_response_def persist_then_ret split: option.splits)

inductive catalog_step :: "(string set \<Rightarrow> string list) \<Rightarrow> (string \<Rightarrow> string) \<Rightarrow> CatalogAccepts \<Rightarrow> Catalog \<Rightarrow> Catalog \<Rightarrow> bool"
  for enum sha acc where
  \<comment> \<open>one request; the identifier of a new mandate is not taken\<close>
  merchant: "catalog_step enum sha acc c (snd (create_merchant enum acc b uid policy_uid now c))"
| policy: "catalog_step enum sha acc c (snd (update_merchant_policy enum acc mid pb uid now c))"
| credential: "catalog_step enum sha acc c (snd (create_merchant_credential sha acc mid scopes uid entropy eid now c))"
| mandate: "row_of (cat_mandates c) (''man_'' @ uid) = None \<Longrightarrow> catalog_step enum sha acc c (snd (create_mandate enum acc ab uid now c))"
| revoke: "catalog_step enum sha acc c (snd (revoke_mandate_response mid now c))"
| product: "catalog_step enum sha acc c (snd (create_product mid pb' uid now c))"

definition stays_revoked :: "MandateResponse \<Rightarrow> MandateResponse \<Rightarrow> bool" where
  "stays_revoked m m' \<longleftrightarrow> (\<exists>v. m' = m\<lparr>mar_version := v\<rparr>)"

lemma step_keeps_revoked:
  assumes "catalog_step enum sha acc c c'" and "row_of (cat_mandates c) mid = Some m" and "mar_status m = REVOKED"
  shows "\<exists>m'. row_of (cat_mandates c') mid = Some m' \<and> stays_revoked m m'"
proof -
  have same: "stays_revoked m m" unfolding stays_revoked_def by (rule exI [of _ "mar_version m"]) simp
  have again: "stays_revoked m (revoked m)" using assms(3) by (cases m) (auto simp: stays_revoked_def revoked_def)
  show ?thesis using assms(1)
  proof (cases rule: catalog_step.cases)
    case (revoke mid' now)
    then show ?thesis using assms(2) same again by (auto simp: mandates_after_revoke split: option.splits)
  qed (use assms(2) same in \<open>auto simp: mandates_after\<close>)
qed

lemma steps_keep_revoked:
  assumes "(catalog_step enum sha acc)\<^sup>*\<^sup>* c c'" and "row_of (cat_mandates c) mid = Some m" and "mar_status m = REVOKED"
  shows "\<exists>m'. row_of (cat_mandates c') mid = Some m' \<and> mar_status m' = REVOKED \<and> (\<exists>v. m' = m\<lparr>mar_version := v\<rparr>)"
  using assms(1)
proof (induction rule: rtranclp_induct)
  case base
  have "\<exists>v. m = m\<lparr>mar_version := v\<rparr>" by (rule exI [of _ "mar_version m"]) simp
  then show ?case using assms(2,3) by blast
next
  case (step c1 c2)
  then obtain m1 v where "row_of (cat_mandates c1) mid = Some m1" "mar_status m1 = REVOKED" "m1 = m\<lparr>mar_version := v\<rparr>" by blast
  then show ?case using step_keeps_revoked [OF step(2), of mid m1] by (auto simp: stays_revoked_def)
qed

text \<open>Revocation is final in the memory of the process: after a mandate is revoked, whatever merchants, policies, credentials,
  mandates and products are created and whatever mandates are revoked, the mandate is found under its identifier with the
  status REVOKED and with its terms unchanged.\<close>

theorem revoked_mandate_stays_revoked:
  assumes "(catalog_step enum sha acc)\<^sup>*\<^sup>* c c'" and "row_of (cat_mandates c) mid = Some m" and "mar_status m = REVOKED"
  shows "\<exists>m'. row_of (cat_mandates c') mid = Some m' \<and> mar_status m' = REVOKED \<and> (\<exists>v. m' = m\<lparr>mar_version := v\<rparr>)"
  using assms by (rule steps_keep_revoked)

definition open_catalog :: CatalogAccepts where
  "open_catalog = \<lparr>cac_merchants = free_key mw_merchant_id, cac_policies = free_key pw_id, cac_mandates = free_key mrow_mandate_id,
     cac_credentials = free_key cr_credential_id, cac_audit = (\<lambda>_ _. True)\<rparr>"

theorem revoked_mandate_stays_revoked_witness:
  "\<exists>m. row_of (cat_mandates (snd (create_product ''s'' b ''u'' 2 (snd (revoke_mandate_response ''man_buyer_01'' 1 (catalog_init None 0))))))
     ''man_buyer_01'' = Some m \<and> mar_status m = REVOKED"
proof -
  let ?c = "snd (revoke_mandate_response ''man_buyer_01'' 1 (catalog_init None 0))"
  have "\<exists>m. row_of (cat_mandates ?c) ''man_buyer_01'' = Some m \<and> mar_status m = REVOKED"
    by (simp add: mandates_after_revoke catalog_init_def demo_mandates_def row_of_def revoked_def put_row_def)
  then obtain m where m: "row_of (cat_mandates ?c) ''man_buyer_01'' = Some m" "mar_status m = REVOKED" by blast
  have "(catalog_step (\<lambda>_. []) (\<lambda>_. []) open_catalog)\<^sup>*\<^sup>* ?c (snd (create_product ''s'' b ''u'' 2 ?c))"
    by (rule r_into_rtranclp, rule catalog_step.product)
  from revoked_mandate_stays_revoked [OF this m] show ?thesis by blast
qed

section \<open>What is lost\<close>

lemma save_policy_duplicate:
  assumes "unique_key pw_id (cac_policies acc)" and "row_of (cdb_policies d) (por_policy_id p) \<noteq> None"
  shows "save_policy enum acc p version now d = (Inl (Raise IntegrityError (Msg ''merchant_policies'' [])), d)"
proof -
  have "\<not> cac_policies acc (cdb_policies d) r" if "pw_id r = por_policy_id p" for r
    using assms that unfolding unique_key_def by metis
  then show ?thesis
    by (simp add: save_policy_def on_policy_rows_def zoom_def repo_create_policy_def insert_row_def then_do_def Let_def)
qed

text \<open>C12: A changed policy never reaches the database. The row of the new version gets the identifier of the current policy, which
  is the primary key of the stored row: the update answers with an error after it changed the memory, and the policy that the
  endpoint reads afterwards is the old one, even when the update disabled the agents of the merchant.\<close>

theorem policy_update_is_lost:
  assumes "unique_key pw_id (cac_policies acc)" and "cat_db c = Some d" and "row_of (cat_merchants c) mid = Some m"
    and "row_of (cat_policies c) mid = Some p" and "row_of (cdb_policies d) (por_policy_id p) = Some r"
    and "stored_policy loads mid d = Inr (Some q)"
    and "update_merchant_policy enum acc mid b uid now c = (out, c')"
  shows "(\<exists>e. out = Inl e) \<and> row_of (cat_policies c') mid = Some (updated_policy b mid (Some p) uid now) \<and>
    cat_db c' = cat_db c \<and> fst (get_merchant_policy loads mid c') = Inr q"
proof -
  let ?p = "updated_policy b mid (Some p) uid now"
  let ?c = "c\<lparr>cat_policies := put_row mid ?p (cat_policies c)\<rparr>"
  have "por_policy_id ?p = por_policy_id p" by (simp add: updated_policy_def)
  then have "save_policy enum acc ?p (int_str (por_policy_version ?p)) now d = (Inl (Raise IntegrityError (Msg ''merchant_policies'' [])), d)"
    using save_policy_duplicate [OF assms(1), of d ?p] assms(5) by simp
  then have "(out, c') = (Inl (Raise IntegrityError (Msg ''merchant_policies'' [])), ?c)"
    using assms(2-4,7) by (simp add: update_merchant_policy_def persist_def then_do_def Let_def)
  then show ?thesis using assms(2,6) by (simp add: get_merchant_policy_def from_db_def)
qed

definition sample_policy_row :: PolicyTextRow where
  "sample_policy_row = \<lparr>pw_id = ''pol_1'', pw_merchant_id = ''mer_1'', pw_policy_version = ''1'', pw_active = True,
     pw_autonomous_limit_paise = 500000, pw_step_up_threshold_paise = 1000000, pw_allowed_categories_json = ''[]'',
     pw_allowed_operations_json = ''[]'', pw_blocked_operations_json = ''[]'', pw_effective_at = 0, pw_created_at = 0\<rparr>"

definition sample_catalog :: Catalog where
  \<comment> \<open>a merchant with its first policy, in memory and in the database\<close>
  "sample_catalog = (catalog_init (Some \<lparr>cdb_merchants = [], cdb_policies = [(''pol_1'', sample_policy_row)], cdb_mandates = [],
      cdb_auth = empty_db\<rparr>) 0)
     \<lparr>cat_merchants := [(''mer_1'', \<lparr>mre_merchant_id = ''mer_1'', mre_name = ''Shop'', mre_razorpay_account_id = ''acc'', mre_created_at = 0\<rparr>)],
      cat_policies := [(''mer_1'', default_policy ''1'' ''mer_1'' 0)]\<rparr>"

definition disabling :: PolicyCreate where
  "disabling = \<lparr>pcr_ai_commerce_enabled = False, pcr_currency = INR, pcr_allowed_categories = {}, pcr_autonomous_purchase_limit_paise = 0,
     pcr_step_up_threshold_paise = 0, pcr_max_step_up_percent = 0, pcr_allowed_regions = {IN}, pcr_allowed_operations = {},
     pcr_blocked_operations = {}, pcr_expires_at = None\<rparr>"

definition loads_empty_list :: "string \<Rightarrow> json option" where
  "loads_empty_list s = Some (JArr [])"

theorem policy_update_is_lost_witness:
  "\<exists>q. fst (get_merchant_policy loads_empty_list ''mer_1''
      (snd (update_merchant_policy (\<lambda>_. []) open_catalog ''mer_1'' disabling ''2'' 5 sample_catalog))) = Inr q \<and> por_ai_commerce_enabled q"
proof -
  let ?d = "\<lparr>cdb_merchants = [], cdb_policies = [(''pol_1'', sample_policy_row)], cdb_mandates = [], cdb_auth = empty_db\<rparr>"
  have "row_version ''1'' = Inr 1" by code_simp
  then obtain q where q: "stored_policy loads_empty_list ''mer_1'' ?d = Inr (Some q)" "por_ai_commerce_enabled q"
    by (simp add: stored_policy_def select_active_policy_def rows_of_def first_row_def row_to_policy_response_def frozen_texts_def
        frozen_operations_def loads_empty_list_def sample_policy_row_def bind_res_def)
  obtain out c' where run: "update_merchant_policy (\<lambda>_. []) open_catalog ''mer_1'' disabling ''2'' 5 sample_catalog = (out, c')"
    by (rule prod.exhaust)
  have s: "unique_key pw_id (cac_policies open_catalog)" "cat_db sample_catalog = Some ?d"
    "row_of (cat_merchants sample_catalog) ''mer_1'' =
      Some \<lparr>mre_merchant_id = ''mer_1'', mre_name = ''Shop'', mre_razorpay_account_id = ''acc'', mre_created_at = 0\<rparr>"
    "row_of (cat_policies sample_catalog) ''mer_1'' = Some (default_policy ''1'' ''mer_1'' 0)"
    "row_of (cdb_policies ?d) (por_policy_id (default_policy ''1'' ''mer_1'' 0)) = Some sample_policy_row"
    by (simp_all add: open_catalog_def sample_catalog_def catalog_init_def row_of_def default_policy_def)
  from policy_update_is_lost [OF s q(1) run] q(2) run show ?thesis by auto
qed

lemma issue_credential_Inr:
  assumes "issue_credential sha acc mid cid prefix hashed granted eid now a = (Inr x, a')"
  shows "\<exists>q tab rows. create_credential (cac_credentials acc) cid mid prefix hashed granted None now (ad_credentials a) = (Inr q, tab) \<and>
    a' = a\<lparr>ad_credentials := tab, ad_audit := rows\<rparr>"
  using assms by (auto simp: issue_credential_def on_credentials_def zoom_def then_do_def split: sum.splits prod.splits)

text \<open>Anyone gets a key of any merchant: the endpoint that issues credentials asks for none. After one request that names a
  merchant, whether it exists or not, a request with the secret in the answer acts for that merchant with the nine default scopes.\<close>

theorem anyone_acts_for_any_merchant:
  assumes "cat_db c = Some d" and "cac_credentials acc = free_key cr_credential_id"
    and "create_merchant_credential sha acc mid None uid entropy eid now c = (Inr i, c')"
    and "\<forall>r \<in> set (rows_of (ad_credentials (cdb_auth d))). cr_prefix r \<noteq> isc_credential_prefix i"
    and "hex_text entropy" "length entropy = 32" "hex_text uid" "\<And>x. hex_text (sha x) \<and> sha x \<noteq> []" "\<And>rows r. cac_audit acc rows r"
  shows "\<exists>d' p t. cat_db c' = Some d' \<and>
    authenticate_credential sha (cac_audit acc) Fresh_Uow (isc_raw_secret i) eid' later (cdb_auth d') = (Inr p, t) \<and>
    pr_merchant_id p = strip mid \<and> {''merchant:write'', ''mandate:write'', ''transaction:write''} \<subseteq> pr_scopes p"
proof -
  obtain cid prefix raw hashed where pair: "generate_credential_key_pair sha ''live'' uid entropy = Inr (cid, prefix, raw, hashed)"
    using assms(3) by (auto simp: create_merchant_credential_def then_do_def split: sum.splits)
  from assms(1,3) pair obtain x a where issued: "issue_credential sha acc mid cid prefix hashed default_scopes eid now (cdb_auth d) = (Inr x, a)"
    and d': "cat_db c' = Some (d\<lparr>cdb_auth := a\<rparr>)" and i: "isc_raw_secret i = raw" "isc_credential_prefix i = prefix"
    by (auto simp: create_merchant_credential_def persist_def on_auth_rows_def zoom_def then_do_def Let_def
        split: sum.splits prod.splits option.splits)
  from issue_credential_Inr [OF issued] obtain q tab rows where created:
    "create_credential (cac_credentials acc) cid mid prefix hashed default_scopes None now (ad_credentials (cdb_auth d)) = (Inr q, tab)"
    and "a = (cdb_auth d)\<lparr>ad_credentials := tab, ad_audit := rows\<rparr>" by blast
  then have a: "a = (cdb_auth d)\<lparr>ad_audit := rows\<rparr>\<lparr>ad_credentials := tab\<rparr>" by simp
  have words: "{''merchant:write'', ''mandate:write'', ''transaction:write''} \<subseteq> set (words_from [] (strip default_scopes))" by code_simp
  have "\<exists>p t. authenticate_credential sha (cac_audit acc) Fresh_Uow raw eid' later a = (Inr p, t) \<and>
    pr_credential_id p = cid \<and> pr_merchant_id p = strip mid \<and> pr_scopes p = set (words_from [] (strip default_scopes))"
    unfolding a
    by (rule fresh_key_login [OF pair]) (use created assms i in \<open>simp_all\<close>)
  then show ?thesis using d' i(1) words by auto
qed

lemma audit_appended:
  assumes "\<And>rows r. accepts rows r"
  shows "\<exists>x rows'. repo_append_event sha accepts rows (audit_event_value t) f at eid uid now = (Inr x, rows')"
  using assms by (simp add: repo_append_event_def flush_event_def)

theorem anyone_acts_for_any_merchant_witness:
  "\<exists>i c' d' p t. create_merchant_credential (\<lambda>_. ''0'') open_catalog ''mer_1'' None ''1'' (replicate 32 CHR ''0'') ''e'' 0 sample_catalog =
     (Inr i, c') \<and> cat_db c' = Some d' \<and>
     authenticate_credential (\<lambda>_. ''0'') (\<lambda>_ _. True) Fresh_Uow (isc_raw_secret i) ''e2'' 5 (cdb_auth d') = (Inr p, t) \<and>
     pr_merchant_id p = strip ''mer_1''"
proof -
  let ?issue = "create_merchant_credential (\<lambda>_. ''0'') open_catalog ''mer_1'' None ''1'' (replicate 32 CHR ''0'') ''e'' 0 sample_catalog"
  obtain prefix raw where pair: "generate_credential_key_pair (\<lambda>_. ''0'') ''live'' ''1'' (replicate 32 CHR ''0'') = Inr (''cred_1'', prefix, raw, ''0'')"
    and p: "strip prefix \<noteq> []"
  proof -
    show thesis by (rule that [of "''rzp_live_00000000''" "''rzp_live_00000000_000000000000000000000000''"]) code_simp+
  qed
  have "strip ''cred_1'' \<noteq> []" "strip ''mer_1'' \<noteq> []" "strip ''0'' \<noteq> []" by code_simp+
  then obtain q tab where created: "create_credential (free_key cr_credential_id) ''cred_1'' ''mer_1'' prefix ''0'' default_scopes None 0 [] = (Inr q, tab)"
    using p by (simp add: create_credential_def blank_def insert_row_def free_key_def then_do_def Let_def)
  obtain x rows where "repo_append_event (\<lambda>_. ''0'') (\<lambda>_ _. True) [] (audit_event_value API_CREDENTIAL_CREATED)
      \<lparr>ev_transaction_id = None, ev_mandate_id = None, ev_merchant_id = Some ''mer_1'', ev_buyer_id = None,
        ev_payload = Some [(''action'', JStr (''Created API credential '' @ quoted ''cred_1'' @ '' for merchant '' @ quoted ''mer_1''))]\<rparr>
      None None ''e'' 0 = (Inr x, rows)"
    using audit_appended [of "\<lambda>_ _. True"] by blast
  then have "issue_credential (\<lambda>_. ''0'') open_catalog ''mer_1'' ''cred_1'' prefix ''0'' default_scopes ''e'' 0 empty_db =
      (Inr x, empty_db\<lparr>ad_credentials := tab, ad_audit := rows\<rparr>)"
    using created by (simp only: issue_credential_def open_catalog_def on_credentials_def zoom_def then_do_def empty_db_def
        CatalogAccepts.simps AuthDb.simps prod.case sum.case)
  then obtain i c' where run: "?issue = (Inr i, c')" and i: "isc_credential_prefix i = prefix"
    using pair by (simp add: create_merchant_credential_def persist_def on_auth_rows_def zoom_def sample_catalog_def catalog_init_def then_do_def Let_def)
  have "cat_db sample_catalog = Some \<lparr>cdb_merchants = [], cdb_policies = [(''pol_1'', sample_policy_row)], cdb_mandates = [],
      cdb_auth = empty_db\<rparr>" by (simp add: sample_catalog_def catalog_init_def)
  from anyone_acts_for_any_merchant [OF this _ run] show ?thesis
    using run sample_hex by (fastforce simp: open_catalog_def empty_db_def rows_of_def)
qed

end
