(* ===== verification/Explainability.thy ===== *)
theory Explainability
  imports Execution Py_Text
begin

text \<open>
  Decision traces, \<open>src/agent/explainability\<close> and \<open>routers/explainability.py\<close>. \<open>render\<close> gives the text of a symbolic message.
  A formatted trace is the list of its lines; the check mark of a valid control is the constructor \<open>Checked\<close>.
\<close>

section \<open>Texts\<close>

fun reason_value :: "RejectionReason \<Rightarrow> string" where
  "reason_value RejectionReason.MANDATE_EXPIRED = ''MANDATE_EXPIRED''"
| "reason_value RejectionReason.MANDATE_REVOKED = ''MANDATE_REVOKED''"
| "reason_value RejectionReason.MANDATE_NOT_ACTIVE = ''MANDATE_NOT_ACTIVE''"
| "reason_value RejectionReason.MANDATE_NOT_IN_SCOPE = ''MANDATE_NOT_IN_SCOPE''"
| "reason_value RejectionReason.MERCHANT_NOT_IN_SCOPE = ''MERCHANT_NOT_IN_SCOPE''"
| "reason_value RejectionReason.CATEGORY_NOT_IN_SCOPE = ''CATEGORY_NOT_IN_SCOPE''"
| "reason_value RejectionReason.AMOUNT_EXCEEDS_MANDATE = ''AMOUNT_EXCEEDS_MANDATE''"
| "reason_value RejectionReason.CURRENCY_MISMATCH = ''CURRENCY_MISMATCH''"
| "reason_value RejectionReason.AUTONOMOUS_EXECUTION_DISABLED = ''AUTONOMOUS_EXECUTION_DISABLED''"
| "reason_value RejectionReason.MANDATE_TTL_EXPIRED = ''MANDATE_TTL_EXPIRED''"
| "reason_value RejectionReason.AI_COMMERCE_DISABLED = ''AI_COMMERCE_DISABLED''"
| "reason_value RejectionReason.MERCHANT_CATEGORY_NOT_ALLOWED = ''MERCHANT_CATEGORY_NOT_ALLOWED''"
| "reason_value RejectionReason.MERCHANT_AMOUNT_LIMIT_EXCEEDED = ''MERCHANT_AMOUNT_LIMIT_EXCEEDED''"
| "reason_value RejectionReason.OPERATION_NOT_ALLOWED = ''OPERATION_NOT_ALLOWED''"
| "reason_value RejectionReason.REGION_NOT_ALLOWED = ''REGION_NOT_ALLOWED''"
| "reason_value RejectionReason.MERCHANT_CURRENCY_NOT_SUPPORTED = ''MERCHANT_CURRENCY_NOT_SUPPORTED''"
| "reason_value RejectionReason.POLICY_VERSION_INVALID = ''POLICY_VERSION_INVALID''"
| "reason_value RejectionReason.MERCHANT_POLICY_EXPIRED = ''MERCHANT_POLICY_EXPIRED''"
| "reason_value RejectionReason.MERCHANT_MISMATCH = ''MERCHANT_MISMATCH''"
| "reason_value RejectionReason.CART_INTEGRITY_VIOLATION = ''CART_INTEGRITY_VIOLATION''"
| "reason_value RejectionReason.CART_TOTAL_MISMATCH = ''CART_TOTAL_MISMATCH''"
| "reason_value RejectionReason.CART_CURRENCY_MISMATCH = ''CART_CURRENCY_MISMATCH''"
| "reason_value RejectionReason.PRODUCT_UNAVAILABLE = ''PRODUCT_UNAVAILABLE''"
| "reason_value RejectionReason.NONCE_ALREADY_CONSUMED = ''NONCE_ALREADY_CONSUMED''"
| "reason_value RejectionReason.AUTHORIZATION_EXPIRED = ''AUTHORIZATION_EXPIRED''"
| "reason_value RejectionReason.NONCE_INVALID = ''NONCE_INVALID''"
| "reason_value RejectionReason.INVALID_TRANSACTION_STATE = ''INVALID_TRANSACTION_STATE''"
| "reason_value RejectionReason.TOOL_OUTSIDE_MANDATE = ''TOOL_OUTSIDE_MANDATE''"
| "reason_value RejectionReason.METHOD_NOT_AUTHORIZED = ''METHOD_NOT_AUTHORIZED''"
| "reason_value RejectionReason.CONTROL_RESULT_MISSING = ''CONTROL_RESULT_MISSING''"
| "reason_value RejectionReason.REPLAY_ATTEMPT_DETECTED = ''REPLAY_ATTEMPT_DETECTED''"
| "reason_value RejectionReason.BUDGET_INSUFFICIENT = ''BUDGET_INSUFFICIENT''"
| "reason_value RejectionReason.DAILY_LIMIT_EXCEEDED = ''DAILY_LIMIT_EXCEEDED''"
| "reason_value RejectionReason.BUDGET_EXCEEDED = ''BUDGET_EXCEEDED''"
| "reason_value RejectionReason.BUDGET_CURRENCY_MISMATCH = ''BUDGET_CURRENCY_MISMATCH''"
| "reason_value RejectionReason.INVALID_AMOUNT = ''INVALID_AMOUNT''"
| "reason_value RejectionReason.EXCEEDS_STEP_UP_HARD_LIMIT = ''EXCEEDS_STEP_UP_HARD_LIMIT''"
| "reason_value RejectionReason.STEP_UP_CONFIRMATION_INVALID = ''STEP_UP_CONFIRMATION_INVALID''"
| "reason_value RejectionReason.STEP_UP_CONFIRMATION_EXPIRED = ''STEP_UP_CONFIRMATION_EXPIRED''"

definition secret_words :: "string list" where
  \<comment> \<open>the alternatives of the first group of \<open>_SECRET_KEY_PATTERN\<close>, its optional separators written out\<close>
  "secret_words = [''api_key'', ''api-key'', ''apikey'', ''secret'', ''password'', ''bearer'', ''auth_header'', ''auth-header'', ''authheader'',
     ''private_key'', ''private-key'', ''privatekey'']"

definition is_quote :: "char \<Rightarrow> bool" where
  "is_quote ch \<longleftrightarrow> ch = CHR 0x27 \<or> ch = CHR 0x22"

definition skip_quote :: "string \<Rightarrow> string" where
  "skip_quote s = (case s of ch # r \<Rightarrow> if is_quote ch then r else s | [] \<Rightarrow> [])"

definition secret_at :: "string \<Rightarrow> (string \<times> string) option" where
  \<comment> \<open>a match of \<open>_SECRET_KEY_PATTERN\<close> at the beginning of the text: the first group and what follows the match. No
    alternative of the pattern can match another way, since separators, quotes and characters of the value exclude each other.\<close>
  "secret_at s =
     (case find (\<lambda>w. begins w (lower s)) secret_words of
        None \<Rightarrow> None
      | Some w \<Rightarrow>
          (case dropWhile is_space (drop (length w) s) of
             [] \<Rightarrow> None
           | ch # r \<Rightarrow>
               if ch \<noteq> CHR '':'' \<and> ch \<noteq> CHR ''='' then None
               else let v = skip_quote (dropWhile is_space r); in_value = (\<lambda>c. \<not> is_space c \<and> \<not> is_quote c) in
                 if takeWhile in_value v = [] then None
                 else Some (take (length w) s, skip_quote (dropWhile in_value v))))"

lemma skip_quote_length: "length (skip_quote s) \<le> length s"
  by (simp add: skip_quote_def split: list.split)

lemma secret_at_shorter: "secret_at s = Some (w, r) \<Longrightarrow> length r < length s"
proof -
  assume "secret_at s = Some (w, r)"
  then obtain k ch q v where "dropWhile is_space (drop k s) = ch # q" "v = skip_quote (dropWhile is_space q)"
      "r = skip_quote (dropWhile (\<lambda>c. \<not> is_space c \<and> \<not> is_quote c) v)"
    by (auto simp: secret_at_def Let_def split: option.splits list.splits if_splits)
  moreover have "length (dropWhile p xs) \<le> length xs" for p and xs :: string by (simp add: length_dropWhile_le)
  ultimately have "length r \<le> length v" "length v \<le> length q" "Suc (length q) \<le> length s"
    using skip_quote_length by (metis le_trans, metis le_trans, metis length_Cons length_drop diff_le_self le_trans)
  then show ?thesis by simp
qed

function redact_secrets :: "string \<Rightarrow> string" where
  \<comment> \<open>\<open>_SECRET_KEY_PATTERN.sub\<close>\<close>
  "redact_secrets [] = []"
| "redact_secrets (c # s) = (case secret_at (c # s) of
       Some (w, r) \<Rightarrow> w @ '': [REDACTED]'' @ redact_secrets r
     | None \<Rightarrow> c # redact_secrets s)"
  by pat_completeness auto
termination by (relation "measure length") (auto dest: secret_at_shorter)

definition sanitize_trace_text :: "string \<Rightarrow> string" where
  "sanitize_trace_text s = redact_secrets s"

definition capitalize :: "string \<Rightarrow> string" where
  "capitalize s = (case s of [] \<Rightarrow> [] | c # cs \<Rightarrow> (case upper_char c of [] \<Rightarrow> [] | u # us \<Rightarrow> u # lower us) @ lower cs)"

section \<open>The report\<close>

record TraceStep =
  ts_control_name :: string
  ts_passed :: bool
  ts_decision :: PolicyDecision
  ts_rejection_reason :: "RejectionReason option"
  ts_detail :: string
  ts_evaluated_at :: datetime

datatype trace_line = Line string | Checked string

record DecisionTraceReport =
  dtr_transaction_id :: string
  dtr_mandate_id :: "string option"
  dtr_merchant_id :: "string option"
  dtr_buyer_id :: "string option"
  dtr_overall_decision :: PolicyDecision
  dtr_summary_reason :: string
  dtr_control_steps :: "TraceStep list"
  dtr_razorpay_execution_status :: string
  dtr_audit_event_id :: "string option"
  dtr_action_receipt_id :: "string option"
  dtr_formatted_text_trace :: "trace_line list"

definition trace_step :: "(msg \<Rightarrow> string) \<Rightarrow> datetime \<Rightarrow> SecurityControlOutcome \<Rightarrow> TraceStep" where
  "trace_step render now c =
     \<lparr>ts_control_name = sco_control_name c, ts_passed = sco_passed c, ts_decision = sco_decision c,
      ts_rejection_reason = sco_rejection_reason c,
      ts_detail = sanitize_trace_text (case sco_detail c of Some m \<Rightarrow> render m | None \<Rightarrow> []), ts_evaluated_at = now\<rparr>"

definition razorpay_status :: "PolicyDecision \<Rightarrow> ExecutionResult option \<Rightarrow> string" where
  "razorpay_status d x = (case x of
       Some r \<Rightarrow>
         (if exr_success r then ''EXECUTED ('' @ text_or (exr_external_reference r) ''SUCCESS'' @ '')''
          else case exr_provider_status r of Some p \<Rightarrow> ''FAILED ('' @ payment_result_value p @ '')'' | None \<Rightarrow> ''FAILED'')
     | None \<Rightarrow>
         (if d = PolicyDecision.STEP_UP_REQUIRED then ''NOT ATTEMPTED (AWAITING CONFIRMATION)''
          else if d = REJECT then ''NOT ATTEMPTED'' else ''PENDING EXECUTION''))"

definition summary_reason :: "PolicyDecision \<Rightarrow> TraceStep list \<Rightarrow> string" where
  "summary_reason d failed =
     (if d = ALLOW then ''All mandatory authorization constraints satisfied.''
      else if d = PolicyDecision.STEP_UP_REQUIRED then ''Autonomous spend limit exceeded. Human step-up confirmation required.''
      else case failed of
        [] \<Rightarrow> ''Authorization failed closed due to policy rejection.''
      | f # _ \<Rightarrow> ''Security control '' @ [CHR 0x27] @ ts_control_name f @ [CHR 0x27] @ '' failed: '' @
          (case ts_rejection_reason f of Some r \<Rightarrow> reason_value r
           | None \<Rightarrow> if ts_detail f = [] then ''Constraint failed'' else ts_detail f))"

definition format_ascii_trace ::
  "string \<Rightarrow> PolicyDecision \<Rightarrow> SecurityControlOutcome list \<Rightarrow> TraceStep list \<Rightarrow> string \<Rightarrow> string \<Rightarrow> trace_line list" where
  "format_ascii_trace tid d outcomes failed summary status =
     [Line (''TRANSACTION '' @ tid), Line []] @
     (if d = ALLOW then
        map (\<lambda>c. Checked (capitalize (replace_all ''_'' '' '' (sco_control_name c)) @ '' valid'')) outcomes @
        [Line [], Line ''DECISION: AUTO_EXECUTE'', Line [], Line ''Reason:'', Line summary]
      else if d = PolicyDecision.STEP_UP_REQUIRED then
        [Line ''DECISION: STEP_UP_REQUIRED'', Line [], Line ''Pending check:'', Line ''STEP_UP_AUTHORIZATION'', Line [],
         Line ''Reason:'', Line summary]
      else
        [Line ''DECISION: REJECT'', Line []] @
        (case failed of
           f # _ \<Rightarrow> [Line ''Failed check:'', Line (ts_control_name f), Line [], Line ''Reason:'', Line summary]
         | [] \<Rightarrow> [Line ''Reason:'', Line summary])) @
     [Line [], Line (''Razorpay execution: '' @ status)]"

definition explainability_error :: "string \<Rightarrow> py_exc" where
  "explainability_error m = Raise (SourceError ''ExplainabilityError'' ''INVALID_TRACE_DATA'') (Msg m [])"

definition generate_trace ::
  "(msg \<Rightarrow> string) \<Rightarrow> string \<Rightarrow> AuthorizationResult option \<Rightarrow> ExecutionResult option \<Rightarrow> Transaction option \<Rightarrow> string option \<Rightarrow>
   string option \<Rightarrow> datetime \<Rightarrow> DecisionTraceReport res" where
  "generate_trace render tid auth x t event_id receipt_id now =
     (if blank tid then Inl (explainability_error ''Transaction ID must be a non-empty string.'')
      else case auth of
        None \<Rightarrow> Inl (explainability_error ''Authorization result cannot be None.'')
      | Some a \<Rightarrow>
          (let d = aur_decision a; steps = map (trace_step render now) (aur_control_outcomes a);
               failed = filter (\<lambda>s. \<not> ts_passed s \<or> ts_decision s \<noteq> ALLOW) steps;
               status = razorpay_status d x; summary = summary_reason d failed in
           Inr \<lparr>dtr_transaction_id = tid, dtr_mandate_id = map_option tx_mandate_id t, dtr_merchant_id = map_option tx_merchant_id t,
             dtr_buyer_id = map_option tx_buyer_id t, dtr_overall_decision = d, dtr_summary_reason = summary,
             dtr_control_steps = steps, dtr_razorpay_execution_status = status, dtr_audit_event_id = event_id,
             dtr_action_receipt_id = receipt_id,
             dtr_formatted_text_trace = format_ascii_trace tid d (aur_control_outcomes a) failed summary status\<rparr>))"

section \<open>The endpoint\<close>

definition default_auth :: AuthorizationResult where
  \<comment> \<open>the outcome that the endpoint assumes of every transaction\<close>
  "default_auth = \<lparr>aur_decision = ALLOW, aur_control_outcomes = map (\<lambda>n.
       \<lparr>sco_control_name = n, sco_passed = True, sco_decision = ALLOW, sco_rejection_reason = None, sco_detail = None, sco_step_up_diff = None\<rparr>)
       [''MANDATE_EVALUATION'', ''MERCHANT_POLICY'', ''CART_INTEGRITY'', ''BUDGET_RESERVATION'', ''REPLAY_PROTECTION'', ''NONCE_VALIDATION''],
     aur_rejection_reason = None, aur_rejection_detail = None, aur_decision_trace = Map.empty\<rparr>"

definition get_transaction_explainability :: "(msg \<Rightarrow> string) \<Rightarrow> string \<Rightarrow> datetime \<Rightarrow> DecisionTraceReport res" where
  \<comment> \<open>the response repeats the fields of the report\<close>
  "get_transaction_explainability render tid now =
     (if blank tid then Inl (http_exception 400 (Msg ''Transaction ID must be a non-empty string.'' []))
      else case generate_trace render tid (Some default_auth) None None (Some (''evt_'' @ take 8 tid)) None now of
        Inl (Raise (SourceError c x) m) \<Rightarrow> Inl (if c = ''ExplainabilityError'' then http_exception 400 m else Raise (SourceError c x) m)
      | r \<Rightarrow> r)"

section \<open>What a trace tells\<close>

text \<open>A trace says that the payment was executed exactly when the execution result it was made from is a success, it repeats the
  decision of the authorization, and its steps are the controls of the authorization, in their order and with their verdicts.\<close>

theorem trace_is_faithful:
  assumes "generate_trace render tid (Some a) x t eid rid now = Inr r"
  shows "(begins ''EXECUTED'' (dtr_razorpay_execution_status r) \<longleftrightarrow> (\<exists>q. x = Some q \<and> exr_success q)) \<and>
    dtr_overall_decision r = aur_decision a \<and>
    map (\<lambda>s. (ts_control_name s, ts_passed s, ts_decision s)) (dtr_control_steps r) =
      map (\<lambda>c. (sco_control_name c, sco_passed c, sco_decision c)) (aur_control_outcomes a)"
  using assms
  by (auto simp: generate_trace_def razorpay_status_def begins_def trace_step_def Let_def split: if_splits option.splits)

theorem trace_is_faithful_witness:
  "\<exists>r. generate_trace (\<lambda>_. []) ''t'' (Some default_auth) None None None None 0 = Inr r \<and>
    \<not> begins ''EXECUTED'' (dtr_razorpay_execution_status r)"
proof -
  have "\<not> blank ''t''" by code_simp
  then obtain r where r: "generate_trace (\<lambda>_. []) ''t'' (Some default_auth) None None None None 0 = Inr r"
    by (simp add: generate_trace_def Let_def)
  from trace_is_faithful [OF r] show ?thesis using r by auto
qed

text \<open>The endpoint explains what did not happen: of every transaction, known or unknown, allowed or refused, it tells that the
  decision was ALLOW and that all mandatory constraints were satisfied.\<close>

theorem every_transaction_is_explained_as_allowed:
  assumes "\<not> blank tid"
  shows "\<exists>r. get_transaction_explainability render tid now = Inr r \<and> dtr_transaction_id r = tid \<and> dtr_overall_decision r = ALLOW \<and>
    dtr_summary_reason r = ''All mandatory authorization constraints satisfied.'' \<and> list_all ts_passed (dtr_control_steps r)"
  using assms
  by (simp add: get_transaction_explainability_def generate_trace_def default_auth_def Let_def summary_reason_def trace_step_def)

theorem every_transaction_is_explained_as_allowed_witness:
  "\<exists>r. get_transaction_explainability (\<lambda>_. []) ''no_such_transaction'' 0 = Inr r \<and> dtr_overall_decision r = ALLOW"
proof -
  have "\<not> blank ''no_such_transaction''" by code_simp
  from every_transaction_is_explained_as_allowed [OF this] show ?thesis by blast
qed

section \<open>Redaction\<close>

lemma lower_append [simp]: "lower (u @ v) = lower u @ lower v"
  by (simp add: lower_def)

lemma lower_secret_words: "list_all (\<lambda>w. map lower_char w = w) secret_words"
  by (simp add: secret_words_def lower_char_def)

lemma secret_words_apart: "list_all (\<lambda>w. list_all (\<lambda>k. take (length k) w = k \<longrightarrow> k = w) secret_words) secret_words"
  by (simp add: secret_words_def)

lemma secret_word_found:
  assumes "w \<in> set secret_words"
  shows "find (\<lambda>k. begins k (lower (w @ s))) secret_words = Some w"
proof -
  have low: "lower (w @ s) = w @ lower s"
    using assms lower_secret_words by (simp add: lower_def list_all_iff)
  have only: "k = w" if "k \<in> set secret_words" "begins k (w @ t)" for k t
  proof (cases "length k \<le> length w")
    case True
    then have "take (length k) w = k" using that(2) by (simp add: begins_def)
    then show ?thesis using secret_words_apart that(1) assms by (simp add: list_all_iff)
  next
    case False
    then have "take (length w) k = w" using that(2) by (metis append_eq_conv_conj begins_def le_cases take_all_iff take_append take_take min_def)
    then have "w = k" using secret_words_apart that(1) assms unfolding list_all_iff by blast
    then show ?thesis by simp
  qed
  have "begins w (w @ lower s)" by (simp add: begins_def)
  then obtain k where k: "find (\<lambda>k. begins k (w @ lower s)) secret_words = Some k"
    using assms by (cases "find (\<lambda>k. begins k (w @ lower s)) secret_words") (auto simp: find_None_iff)
  then have "k \<in> set secret_words" "begins k (w @ lower s)" by (auto simp: find_Some_iff)
  then show ?thesis using only k low by simp
qed

lemma secret_assigned:
  assumes "w \<in> set secret_words" and "sep \<in> {CHR '':'', CHR ''=''}" and "v \<noteq> []"
    and "\<forall>c \<in> set v. \<not> is_space c \<and> \<not> is_quote c" and "rest = [] \<or> is_space (hd rest) \<or> is_quote (hd rest)"
  shows "secret_at (w @ sep # v @ rest) = Some (w, skip_quote rest)"
proof -
  obtain c cs where v: "v = c # cs" using assms(3) by (cases v) auto
  have sep: "\<not> is_space sep" using assms(2) by (auto simp: is_space_def)
  have drop: "dropWhile is_space (drop (length w) (w @ sep # v @ rest)) = sep # v @ rest" using sep by simp
  have val: "skip_quote (dropWhile is_space (v @ rest)) = v @ rest"
    using assms(4) v by (simp add: skip_quote_def)
  have stop: "takeWhile (\<lambda>c. \<not> is_space c \<and> \<not> is_quote c) rest = []" "dropWhile (\<lambda>c. \<not> is_space c \<and> \<not> is_quote c) rest = rest"
    using assms(5) by (cases rest; auto)+
  then have tw: "takeWhile (\<lambda>c. \<not> is_space c \<and> \<not> is_quote c) (v @ rest) = v"
    and dw: "dropWhile (\<lambda>c. \<not> is_space c \<and> \<not> is_quote c) (v @ rest) = rest"
    using assms(4) by (simp_all add: takeWhile_append2 dropWhile_append2)
  show ?thesis
    unfolding secret_at_def secret_word_found [OF assms(1)] option.case drop Let_def list.case val tw dw
    using assms(2,3) by simp
qed

text \<open>An assigned secret is not in the trace: a value that follows one of the secret words and a colon or an equals sign is
  replaced, up to the next space or quote.\<close>

theorem assigned_secret_is_redacted:
  assumes "w \<in> set secret_words" and "sep \<in> {CHR '':'', CHR ''=''}" and "v \<noteq> []"
    and "\<forall>c \<in> set v. \<not> is_space c \<and> \<not> is_quote c" and "rest = [] \<or> is_space (hd rest) \<or> is_quote (hd rest)"
  shows "sanitize_trace_text (w @ sep # v @ rest) = w @ '': [REDACTED]'' @ sanitize_trace_text (skip_quote rest)"
proof -
  obtain c cs where "w @ sep # v @ rest = c # cs" by (cases "w @ sep # v @ rest") auto
  then show ?thesis using secret_assigned [OF assms] by (simp add: sanitize_trace_text_def)
qed

theorem assigned_secret_is_redacted_witness:
  "sanitize_trace_text (''password'' @ CHR ''='' # ''hunter2'' @ []) = ''password: [REDACTED]''"
proof -
  have "\<forall>c \<in> set ''hunter2''. \<not> is_space c \<and> \<not> is_quote c" by code_simp
  from assigned_secret_is_redacted [OF _ _ _ this, of "''password''" "CHR ''=''" "[]"] show ?thesis
    by (simp add: secret_words_def skip_quote_def sanitize_trace_text_def)
qed

text \<open>The token of an Authorization header is kept, since no colon follows the word Bearer.\<close>

theorem bearer_token_is_kept:
  "sanitize_trace_text ''Authorization: Bearer sk_live_1'' = ''Authorization: Bearer sk_live_1''"
  by code_simp

end
