(* ===== verification/Orchestrator.thy ===== *)
theory Orchestrator
  imports Catalog Explainability Razorpay_Adapter Tool_Proxy Aggregator Intent_Normalizer
begin

text \<open>
  The end-to-end orchestrator, \<open>src/agent/orchestrator/engine.py\<close>, behind \<open>routers/orchestrator.py\<close>: from a prompt to a cart,
  its controls, their aggregation, the execution with the mock adapter, a receipt and a trace. It reads the stores of
  \<open>Catalog\<close>. The fresh identifiers of a call are the record \<open>Uids\<close>; the histories of the mock adapter are not kept, since
  the service keeps the same list of requests.
\<close>

section \<open>Contracts\<close>

record OrchestratorRequest =
  orq_user_intent_text :: string
  orq_buyer_id :: string
  orq_mandate_id :: string
  orq_merchant_id :: string
  orq_idempotency_key :: string

definition valid_orchestrator_request :: "OrchestratorRequest \<Rightarrow> bool" where
  "valid_orchestrator_request q \<longleftrightarrow> orq_user_intent_text q \<noteq> [] \<and> length (orq_user_intent_text q) \<le> 1000 \<and> orq_buyer_id q \<noteq> [] \<and>
     orq_mandate_id q \<noteq> [] \<and> orq_merchant_id q \<noteq> [] \<and> orq_idempotency_key q \<noteq> []"

record Uids =
  ui_transaction :: string
  ui_product :: string
  ui_cart :: string
  ui_event :: string
  ui_receipt :: string
  ui_event_hash :: string
  ui_payload_hash :: string
  ui_signature :: string

record AuditEventResponse =
  aer_event_id :: string
  aer_event_type :: AuditEventType
  aer_timestamp :: datetime
  aer_transaction_id :: string
  aer_mandate_id :: string
  aer_merchant_id :: string
  aer_buyer_id :: string
  aer_payload :: "(string \<times> json) list"
  aer_previous_hash :: string
  aer_event_hash :: string

record ReceiptResponse =
  rcr_receipt_version :: string
  rcr_receipt_id :: string
  rcr_transaction_id :: string
  rcr_mandate_id :: string
  rcr_merchant_id :: string
  rcr_policy_version :: int
  rcr_cart_hash :: string
  rcr_amount_paise :: int
  rcr_currency :: Currency
  rcr_decision :: PolicyDecision
  rcr_execution_tool :: "string option"
  rcr_execution_reference :: "string option"
  rcr_authorized_at :: datetime
  rcr_executed_at :: "datetime option"
  rcr_created_at :: datetime
  rcr_audit_hash :: "string option"
  rcr_canonical_payload_hash :: string
  rcr_signature :: "string option"

record EndToEndResult =
  e2e_transaction_id :: string
  e2e_buyer_id :: string
  e2e_merchant_id :: string
  e2e_mandate_id :: string
  e2e_overall_decision :: PolicyDecision
  e2e_transaction_state :: TransactionState
  e2e_amount_paise :: int
  e2e_currency :: Currency
  e2e_rejection_reason :: "RejectionReason option"
  e2e_rejection_detail :: "msg option"
  e2e_authorization_result :: AuthorizationResult
  e2e_execution_result :: "ExecutionResult option"
  e2e_audit_events :: "AuditEventResponse list"
  e2e_receipt :: "ReceiptResponse option"
  e2e_decision_trace_report :: DecisionTraceReport
  e2e_executed_at :: datetime

record CommerceOrchestrator =
  or_service :: PaymentExecutionService
  or_adapter :: MockRazorpayAdapter
  or_executed_intents :: "string \<rightharpoonup> EndToEndResult"

definition orchestrator_init :: CommerceOrchestrator where
  "orchestrator_init = \<lparr>or_service = execution_service_init, or_adapter = mock_adapter_init, or_executed_intents = Map.empty\<rparr>"

section \<open>Product and cart\<close>

definition untrusted_proposal :: "OrchestratorRequest \<Rightarrow> (string \<times> json) list" where
  "untrusted_proposal q = [(''buyer_id'', JStr (orq_buyer_id q)), (''merchant_id'', JStr (orq_merchant_id q)),
     (''mandate_id'', JStr (orq_mandate_id q)), (''item_name'', JStr (take 100 (orq_user_intent_text q))),
     (''category'', JStr ''electronics''), (''max_price_paise'', JInt 500000), (''currency'', JStr ''INR''), (''quantity'', JInt 1)]"

definition intent_of ::
  "(string \<Rightarrow> string) \<Rightarrow> (string \<Rightarrow> json option) \<Rightarrow> OrchestratorRequest \<Rightarrow> Uids \<Rightarrow> datetime \<Rightarrow> string \<times> string" where
  \<comment> \<open>name and category. When the normalizer accepts, reading \<open>intent.item_name\<close> raises, since a \<open>CommerceIntent\<close> has no such
    field, and that exception is caught as well.\<close>
  "intent_of sha loads q u now =
     (case normalize sha loads (RawDict (untrusted_proposal q)) (ui_cart u) (ui_transaction u) now of
        Inr _ \<Rightarrow> (take 100 (orq_user_intent_text q), ''electronics'')
      | Inl _ \<Rightarrow> (take 100 (orq_user_intent_text q), ''electronics''))"

definition default_product :: "OrchestratorRequest \<Rightarrow> string \<times> string \<Rightarrow> Uids \<Rightarrow> datetime \<Rightarrow> ProductResponse" where
  "default_product q intent u now =
     \<lparr>pdr_product_id = ''prd_e2e_'' @ ui_product u, pdr_merchant_id = orq_merchant_id q,
      pdr_name = (if fst intent = [] then ''Default Catalog Item'' else fst intent),
      pdr_category = (if snd intent = [] then ''electronics'' else snd intent), pdr_price_paise = 150000, pdr_currency = INR,
      pdr_description = None, pdr_stock_quantity = 100, pdr_created_at = now\<rparr>"

definition selected_product ::
  "(string \<Rightarrow> string) \<Rightarrow> (string \<Rightarrow> json option) \<Rightarrow> Catalog \<Rightarrow> OrchestratorRequest \<Rightarrow> Uids \<Rightarrow> datetime \<Rightarrow> ProductResponse" where
  "selected_product sha loads c q u now = (case merchant_products c (orq_merchant_id q) of
     p # _ \<Rightarrow> p | [] \<Rightarrow> default_product q (intent_of sha loads q u now) u now)"

definition intent_cart :: "OrchestratorRequest \<Rightarrow> ProductResponse \<Rightarrow> Uids \<Rightarrow> datetime \<Rightarrow> Cart res" where
  "intent_cart q p u now =
     bind_res (mk_cart_item (pdr_product_id p) (orq_merchant_id q) (pdr_name p) (pdr_category p) 1 (pdr_price_paise p) (pdr_currency p)) (\<lambda>i.
     mk_cart (''cart_'' @ ui_cart u) (orq_merchant_id q) (orq_mandate_id q) (pdr_currency p) [i] 0 0 (subtotal_paise i) now [])"

section \<open>Controls\<close>

definition yes_no_control :: "string \<Rightarrow> bool \<Rightarrow> RejectionReason \<Rightarrow> string \<Rightarrow> string \<Rightarrow> SecurityControlOutcome" where
  "yes_no_control name ok reason good bad =
     \<lparr>sco_control_name = name, sco_passed = ok, sco_decision = (if ok then ALLOW else REJECT),
      sco_rejection_reason = (if ok then None else Some reason), sco_detail = Some (Msg (if ok then good else bad) []),
      sco_step_up_diff = None\<rparr>"

definition cart_control :: "bool \<Rightarrow> SecurityControlOutcome" where
  "cart_control ok = yes_no_control ''CART_INTEGRITY'' ok CART_INTEGRITY_VIOLATION ''Cart hash matches items.'' ''Cart hash mismatch.''"

definition merchant_control :: "PolicyResponse option \<Rightarrow> SecurityControlOutcome" where
  "merchant_control p = yes_no_control ''MERCHANT_POLICY'' (case p of None \<Rightarrow> False | Some r \<Rightarrow> por_ai_commerce_enabled r)
     AI_COMMERCE_DISABLED ''Merchant AI commerce enabled.'' ''AI commerce disabled by merchant.''"

definition mandate_control :: "MandateResponse option \<Rightarrow> SecurityControlOutcome" where
  "mandate_control m = yes_no_control ''MANDATE_EVALUATION'' (case m of None \<Rightarrow> False | Some r \<Rightarrow> mar_status r = MandateStatus.ACTIVE)
     MANDATE_NOT_ACTIVE ''Buyer mandate active.'' ''Buyer mandate inactive or revoked.''"

definition assumed_control :: "string \<Rightarrow> string \<Rightarrow> SecurityControlOutcome" where
  \<comment> \<open>of the controls that are not evaluated\<close>
  "assumed_control name detail = \<lparr>sco_control_name = name, sco_passed = True, sco_decision = ALLOW, sco_rejection_reason = None,
     sco_detail = Some (Msg detail []), sco_step_up_diff = None\<rparr>"

definition autonomous_limit :: "PolicyResponse option \<Rightarrow> int" where
  "autonomous_limit p = (case p of Some r \<Rightarrow> por_autonomous_purchase_limit_paise r | None \<Rightarrow> 500000)"

definition limit_control :: "int \<Rightarrow> int \<Rightarrow> SecurityControlOutcome" where
  "limit_control amount limit =
     (if amount > limit then
        let m = Msg ''Cart total {} exceeds autonomous limit {}.'' [PInt amount, PInt limit] in
        \<lparr>sco_control_name = ''autonomous_limit'', sco_passed = False, sco_decision = PolicyDecision.STEP_UP_REQUIRED,
         sco_rejection_reason = Some MERCHANT_AMOUNT_LIMIT_EXCEEDED, sco_detail = Some m,
         sco_step_up_diff = Some \<lparr>sd_approved_paise = limit, sd_proposed_paise = amount, sd_delta_paise = amount - limit,
           sd_delta_percent = (if limit > 0 then Percent (amount - limit) limit else Percent 1 1), sd_reason = m\<rparr>\<rparr>
      else
        \<lparr>sco_control_name = ''autonomous_limit'', sco_passed = True, sco_decision = ALLOW, sco_rejection_reason = None,
         sco_detail = Some (Msg ''Cart total {} within limit {}.'' [PInt amount, PInt limit]), sco_step_up_diff = None\<rparr>)"

definition authorize_intent ::
  "string \<Rightarrow> bool \<Rightarrow> PolicyResponse option \<Rightarrow> MandateResponse option \<Rightarrow> int \<Rightarrow> datetime \<Rightarrow> AuthorizationResult" where
  "authorize_intent tid intact p m amount now =
     (let cart = cart_control intact; merchant = merchant_control p; mandate = mandate_control m;
          budget = assumed_control ''BUDGET_RESERVATION'' ''Daily budget available.'';
          replay = assumed_control ''REPLAY_PROTECTION'' ''Request is fresh and unique.'';
          nonce = assumed_control ''NONCE_VALIDATION'' ''Nonce validated and consumed.'';
          step_up = limit_control amount (autonomous_limit p);
          agg = aggregate tid \<lparr>agg_mandate = Some (Mandate_Control mandate), agg_policy = Some (Policy_Control merchant),
            agg_cart = Some cart, agg_budget = Some budget, agg_replay = Some replay, agg_nonce = Some nonce, agg_step_up = Some step_up\<rparr>
            None now in
      \<lparr>aur_decision = agr_decision agg, aur_control_outcomes = [cart, merchant, mandate, budget, replay, nonce, step_up],
       aur_rejection_reason = agr_rejection_reason agg, aur_rejection_detail = agr_rejection_detail agg,
       aur_decision_trace = Map.empty\<rparr>)"

section \<open>Execution\<close>

definition intent_transaction ::
  "OrchestratorRequest \<Rightarrow> string \<Rightarrow> PolicyResponse option \<Rightarrow> MandateResponse option \<Rightarrow> Cart \<Rightarrow> string \<Rightarrow> datetime \<Rightarrow> Transaction res" where
  "intent_transaction q tid p m cart hash now = check_transaction
     \<lparr>tx_transaction_id = tid, tx_buyer_id = orq_buyer_id q, tx_merchant_id = orq_merchant_id q, tx_mandate_id = orq_mandate_id q,
      tx_mandate_version = (case m of Some r \<Rightarrow> mar_version r | None \<Rightarrow> 1),
      tx_policy_version = (case p of Some r \<Rightarrow> por_policy_version r | None \<Rightarrow> 1), tx_cart_id = Some (cart_id cart),
      tx_cart_hash = Some hash, tx_amount_paise = cart_total_paise cart, tx_currency = cart_currency cart, tx_state = AUTHORIZED,
      tx_rejection_reason = None, tx_rejection_detail = None, tx_idempotency_key = orq_idempotency_key q, tx_nonce = None,
      tx_created_at = now, tx_updated_at = now, tx_step_up_required_at = None, tx_step_up_approved_at = None,
      tx_step_up_amount_paise = None, tx_razorpay_order_id = None, tx_razorpay_payment_id = None\<rparr>"

definition intent_proposal :: "OrchestratorRequest \<Rightarrow> string \<Rightarrow> Cart \<Rightarrow> string \<Rightarrow> ExecuteProposal res" where
  "intent_proposal q tid cart hash = check_proposal
     \<lparr>prop_transaction_id = tid, prop_merchant_id = orq_merchant_id q, prop_buyer_id = orq_buyer_id q, prop_mandate_id = orq_mandate_id q,
      prop_amount_paise = cart_total_paise cart, prop_currency = cart_currency cart, prop_cart_hash = hash, prop_operation = CREATE_ORDER,
      prop_idempotency_key = orq_idempotency_key q, prop_untrusted_metadata = Map.empty\<rparr> (JObj [])"

definition mock_pay :: "MockRazorpayAdapter \<Rightarrow> datetime \<Rightarrow> TrustedExecutionRequest \<Rightarrow> ExecutionResult res" where
  "mock_pay a now q = Inr (fst (mock_execute_payment a q now))"

definition mock_fetch :: "MockRazorpayAdapter \<Rightarrow> datetime \<Rightarrow> string \<Rightarrow> ExecutionResult res" where
  "mock_fetch a now ref = Inr (fst (mock_fetch_payment_status a ref now))"

definition execute_intent_payment ::
  "CommerceOrchestrator \<Rightarrow> OrchestratorRequest \<Rightarrow> string \<Rightarrow> AuthorizationResult \<Rightarrow> PolicyResponse option \<Rightarrow> MandateResponse option \<Rightarrow> Cart \<Rightarrow>
   string \<Rightarrow> datetime \<Rightarrow> (ExecutionResult option \<times> TransactionState) \<times> PaymentExecutionService" where
  \<comment> \<open>the \<open>try\<close> block of the branch ALLOW: any exception makes the state FAILURE\<close>
  "execute_intent_payment o' q tid a p m cart hash now =
     (case bind_res (intent_transaction q tid p m cart hash now) (\<lambda>t.
             bind_res (intent_proposal q tid cart hash) (\<lambda>pr. Inr (t, pr))) of
        Inl e \<Rightarrow> ((None, FAILURE), or_service o')
      | Inr (t, pr) \<Rightarrow>
          (case execute_payment (mock_pay (or_adapter o') now) (mock_fetch (or_adapter o') now) (or_service o') pr a t now of
             (Inl e, s) \<Rightarrow> ((None, FAILURE), s)
           | (Inr r, s) \<Rightarrow> ((get_execution_result s tid, if exr_success r then TransactionState.COMMITTED else FAILURE), s)))"

section \<open>The answer\<close>

definition zero_hash :: string where
  "zero_hash = replicate 64 CHR ''0''"

definition intent_event ::
  "OrchestratorRequest \<Rightarrow> string \<Rightarrow> AuditEventType \<Rightarrow> (string \<times> json) list \<Rightarrow> Uids \<Rightarrow> datetime \<Rightarrow> AuditEventResponse" where
  "intent_event q tid ty payload u now =
     \<lparr>aer_event_id = ''evt_'' @ ui_event u, aer_event_type = ty, aer_timestamp = now, aer_transaction_id = tid,
      aer_mandate_id = orq_mandate_id q, aer_merchant_id = orq_merchant_id q, aer_buyer_id = orq_buyer_id q, aer_payload = payload,
      aer_previous_hash = zero_hash, aer_event_hash = ui_event_hash u\<rparr>"

definition intent_receipt ::
  "OrchestratorRequest \<Rightarrow> string \<Rightarrow> PolicyResponse option \<Rightarrow> Cart \<Rightarrow> string \<Rightarrow> Uids \<Rightarrow> datetime \<Rightarrow> ReceiptResponse" where
  "intent_receipt q tid p cart hash u now =
     \<lparr>rcr_receipt_version = ''1.0'', rcr_receipt_id = ''rcpt_'' @ ui_receipt u, rcr_transaction_id = tid,
      rcr_mandate_id = orq_mandate_id q, rcr_merchant_id = orq_merchant_id q,
      rcr_policy_version = (case p of Some r \<Rightarrow> por_policy_version r | None \<Rightarrow> 1), rcr_cart_hash = hash,
      rcr_amount_paise = cart_total_paise cart, rcr_currency = cart_currency cart, rcr_decision = ALLOW,
      rcr_execution_tool = Some ''razorpay_create_order'', rcr_execution_reference = Some ''order_e2e_123'',
      rcr_authorized_at = now, rcr_executed_at = Some now, rcr_created_at = now, rcr_audit_hash = Some (ui_event_hash u),
      rcr_canonical_payload_hash = ui_payload_hash u, rcr_signature = Some (''ed25519:sig_'' @ ui_signature u)\<rparr>"

definition route_decision ::
  "(msg \<Rightarrow> string) \<Rightarrow> CommerceOrchestrator \<Rightarrow> OrchestratorRequest \<Rightarrow> string \<Rightarrow> AuthorizationResult \<Rightarrow> PolicyResponse option \<Rightarrow> MandateResponse option \<Rightarrow>
   Cart \<Rightarrow> string \<Rightarrow> Uids \<Rightarrow> datetime \<Rightarrow>
   (ExecutionResult option \<times> TransactionState \<times> AuditEventResponse \<times> ReceiptResponse option) \<times> PaymentExecutionService" where
  "route_decision render o' q tid a p m cart hash u now =
     (let amount = (''amount_paise'', JInt (cart_total_paise cart)) in
      case aur_decision a of
        ALLOW \<Rightarrow> (case execute_intent_payment o' q tid a p m cart hash now of ((r, st), s) \<Rightarrow>
          ((r, st, intent_event q tid EXECUTION_AUTHORIZED [(''action'', JStr ''execute''), amount] u now,
            Some (intent_receipt q tid p cart hash u now)), s))
      | PolicyDecision.STEP_UP_REQUIRED \<Rightarrow>
          ((None, TransactionState.STEP_UP_REQUIRED, intent_event q tid STEP_UP_REQUESTED [(''action'', JStr ''step_up''), amount] u now, None),
           or_service o')
      | REJECT \<Rightarrow>
          ((None, TransactionState.REJECTED, intent_event q tid POLICY_EVALUATED [(''action'', JStr ''reject''),
             (''reason'', (case aur_rejection_detail a of Some d \<Rightarrow> JStr (render d) | None \<Rightarrow> JNull))] u now, None),
           or_service o'))"

definition execute_intent_internal ::
  "(string \<Rightarrow> string) \<Rightarrow> (string \<Rightarrow> json option) \<Rightarrow> (msg \<Rightarrow> string) \<Rightarrow> Catalog \<Rightarrow> CommerceOrchestrator \<Rightarrow> OrchestratorRequest \<Rightarrow> Uids \<Rightarrow> datetime \<Rightarrow>
   EndToEndResult res \<times> PaymentExecutionService" where
  "execute_intent_internal sha loads render c o' q u now =
     (let tid = ''tx_e2e_'' @ ui_transaction u in
      case intent_cart q (selected_product sha loads c q u now) u now of
        Inl e \<Rightarrow> (Inl e, or_service o')
      | Inr cart \<Rightarrow>
          (let hash = compute_cart_object_hash sha cart; intact = cir_valid (verify sha (Auth_Hash hash) cart None now);
               p = row_of (cat_policies c) (orq_merchant_id q); m = row_of (cat_mandates c) (orq_mandate_id q);
               a = authorize_intent tid intact p m (cart_total_paise cart) now in
           case route_decision render o' q tid a p m cart hash u now of
             ((x, st, event, receipt), s) \<Rightarrow>
               (bind_res (generate_trace render tid (Some a) x None (Some (aer_event_id event)) (map_option rcr_receipt_id receipt) now)
                 (\<lambda>trace. Inr
                   \<lparr>e2e_transaction_id = tid, e2e_buyer_id = orq_buyer_id q, e2e_merchant_id = orq_merchant_id q,
                    e2e_mandate_id = orq_mandate_id q, e2e_overall_decision = aur_decision a, e2e_transaction_state = st,
                    e2e_amount_paise = cart_total_paise cart, e2e_currency = cart_currency cart,
                    e2e_rejection_reason = (if aur_decision a = REJECT then aur_rejection_reason a else None),
                    e2e_rejection_detail = (if aur_decision a = REJECT then aur_rejection_detail a else None),
                    e2e_authorization_result = a, e2e_execution_result = x, e2e_audit_events = [event], e2e_receipt = receipt,
                    e2e_decision_trace_report = trace, e2e_executed_at = now\<rparr>), s)))"

definition execute_intent ::
  "(string \<Rightarrow> string) \<Rightarrow> (string \<Rightarrow> json option) \<Rightarrow> (msg \<Rightarrow> string) \<Rightarrow> Catalog \<Rightarrow> CommerceOrchestrator \<Rightarrow> OrchestratorRequest \<Rightarrow> Uids \<Rightarrow> datetime \<Rightarrow>
   EndToEndResult res \<times> CommerceOrchestrator" where
  "execute_intent sha loads render c o' q u now =
     (case or_executed_intents o' (orq_idempotency_key q) of
        Some r \<Rightarrow> (Inr r, o')
      | None \<Rightarrow>
          (case execute_intent_internal sha loads render c o' q u now of
             (Inr r, s) \<Rightarrow> (Inr r, o'\<lparr>or_service := s, or_executed_intents := (or_executed_intents o')(orq_idempotency_key q \<mapsto> r)\<rparr>)
           | (Inl e, s) \<Rightarrow> (Inl (Raise (SourceError ''OrchestratorError'' ''SYSTEM_INTERNAL_ERROR'')
               (Msg ''Internal orchestration failure: {}'' [PNone])), o'\<lparr>or_service := s\<rparr>)))"

section \<open>What an intent needs\<close>

lemma control_decisions [simp]:
  "sco_decision (yes_no_control n ok r g b) = (if ok then ALLOW else REJECT)" "sco_passed (yes_no_control n ok r g b) = ok"
  "sco_step_up_diff (yes_no_control n ok r g b) = None" "sco_control_name (yes_no_control n ok r g b) = n"
  "sco_decision (assumed_control n d) = ALLOW" "sco_passed (assumed_control n d)" "sco_control_name (assumed_control n d) = n"
  by (simp_all add: yes_no_control_def assumed_control_def)

lemma limit_decisions [simp]:
  "sco_decision (limit_control amount limit) = (if amount > limit then PolicyDecision.STEP_UP_REQUIRED else ALLOW)"
  "sco_control_name (limit_control amount limit) = ''autonomous_limit''"
  "sco_step_up_diff (limit_control amount limit) = None \<longleftrightarrow> \<not> amount > limit"
  by (simp_all add: limit_control_def Let_def)

definition commerce_enabled :: "PolicyResponse option \<Rightarrow> bool" where
  "commerce_enabled p = (case p of None \<Rightarrow> False | Some r \<Rightarrow> por_ai_commerce_enabled r)"

definition mandate_active :: "MandateResponse option \<Rightarrow> bool" where
  "mandate_active m = (case m of None \<Rightarrow> False | Some r \<Rightarrow> mar_status r = MandateStatus.ACTIVE)"

lemma authorize_intent_decision:
  "aur_decision (authorize_intent tid intact p m amount now) =
     (if \<not> (intact \<and> commerce_enabled p \<and> mandate_active m) then REJECT
      else if amount > autonomous_limit p then PolicyDecision.STEP_UP_REQUIRED else ALLOW)"
  by (simp add: authorize_intent_def Let_def aggregate_decision unanimous_def mandate_ctrl_def policy_ctrl_def control_rejects_def
      control_clear_def selected_diff_def policy_asks_step_up_def cart_control_def merchant_control_def mandate_control_def
      commerce_enabled_def mandate_active_def split: option.splits)

lemma authorize_intent_clears:
  assumes "aur_decision (authorize_intent tid intact p m amount now) = ALLOW"
  shows "verify_pre_execution_auth (authorize_intent tid intact p m amount now) = None"
proof -
  have ok: "intact" "commerce_enabled p" "mandate_active m"
    using assms by (auto simp: authorize_intent_decision split: if_splits)
  let ?cs = "aur_control_outcomes (authorize_intent tid intact p m amount now)"
  have "outcome_named ?cs ''STEP_UP_AUTHORIZATION'' = None"
    by (simp add: authorize_intent_def Let_def outcome_named_def cart_control_def merchant_control_def mandate_control_def)
  moreover have "find (\<lambda>n. \<not> control_satisfied ?cs n) required_controls = None"
    using ok by (simp add: authorize_intent_def Let_def control_satisfied_def outcome_named_def required_controls_def cart_control_def
        merchant_control_def mandate_control_def commerce_enabled_def mandate_active_def split: option.splits)
  ultimately show ?thesis using assms by (simp add: verify_pre_execution_auth_def)
qed

lemma digest_norm:
  assumes "hex_digest sha"
  shows "norm_hash (sha x) = sha x"
proof -
  have "\<not> is_space ch" if "is_hex_char ch" for ch
    using that by (auto simp: is_hex_char_def is_space_def Let_def)
  then have "\<forall>ch \<in> set (sha x). \<not> is_space ch" using assms unfolding hex_digest_def list_all_iff by blast
  then show ?thesis using unspaced_strip [of "sha x"] digest_lower [OF assms] by (simp add: norm_hash_def)
qed

lemma own_hash_valid:
  assumes "hex_digest sha" and "cart_hash cart = []"
  shows "cir_valid (verify sha (Auth_Hash (compute_cart_object_hash sha cart)) cart None now)"
  using assms digest_valid [OF assms(1)] digest_lower [OF assms(1)] digest_norm [OF assms(1)]
  by (simp add: verify_def Let_def expected_hash_def effective_hash_def object_hash_text)

lemma intent_cart_facts:
  assumes "intent_cart q p u now = Inr cart"
  shows "cart_hash cart = []" "cart_total_paise cart = pdr_price_paise p" "0 \<le> cart_total_paise cart"
    "cart_currency cart = pdr_currency p"
  using assms by (auto simp: intent_cart_def bind_res_def mk_cart_item_def mk_cart_def subtotal_paise_def Let_def split: if_splits sum.splits)

definition versions_positive :: "PolicyResponse option \<Rightarrow> MandateResponse option \<Rightarrow> bool" where
  "versions_positive p m \<longleftrightarrow> (case p of None \<Rightarrow> True | Some r \<Rightarrow> 1 \<le> por_policy_version r) \<and>
     (case m of None \<Rightarrow> True | Some r \<Rightarrow> 1 \<le> mar_version r)"

lemma intent_payment_cleared:
  assumes "valid_orchestrator_request q" and "versions_positive p m"
    and "0 \<le> cart_total_paise cart" and "hash \<noteq> []" and "tid \<noteq> []" and "verify_pre_execution_auth a = None"
  shows "\<exists>t pr. intent_transaction q tid p m cart hash now = Inr t \<and> intent_proposal q tid cart hash = Inr pr \<and> execution_cleared pr a t \<and>
    tx_transaction_id t = tid \<and> tx_amount_paise t = cart_total_paise cart \<and> tx_merchant_id t = orq_merchant_id q \<and>
    tx_buyer_id t = orq_buyer_id q \<and> tx_mandate_id t = orq_mandate_id q"
  using assms
  by (simp add: intent_transaction_def intent_proposal_def check_transaction_def check_proposal_def valid_orchestrator_request_def
      versions_positive_def execution_cleared_def verify_context_and_operation_def is_executable_def txn_can_execute_def is_blocked_by_default_def split: option.splits)

lemma intent_payment_sent:
  assumes "valid_orchestrator_request q" and "versions_positive p m"
    and "0 \<le> cart_total_paise cart" and "hash \<noteq> []" and "tid \<noteq> []" and "verify_pre_execution_auth a = None"
    and "pes_results (or_service o') tid = None"
  shows "\<exists>r. pes_sent (snd (execute_intent_payment o' q tid a p m cart hash now)) = pes_sent (or_service o') @ [r] \<and>
    (ter_amount_paise r, ter_merchant_id r, ter_buyer_id r, ter_mandate_id r) =
      (cart_total_paise cart, orq_merchant_id q, orq_buyer_id q, orq_mandate_id q)"
proof -
  obtain t pr where t: "intent_transaction q tid p m cart hash now = Inr t" "intent_proposal q tid cart hash = Inr pr"
    "execution_cleared pr a t" "tx_transaction_id t = tid" "tx_amount_paise t = cart_total_paise cart" "tx_merchant_id t = orq_merchant_id q"
    "tx_buyer_id t = orq_buyer_id q" "tx_mandate_id t = orq_mandate_id q"
    using intent_payment_cleared [OF assms(1-6)] by blast
  obtain out s' where run: "execute_payment (mock_pay (or_adapter o') now) (mock_fetch (or_adapter o') now) (or_service o') pr a t now = (out, s')"
    by (rule prod.exhaust)
  then have "snd (execute_intent_payment o' q tid a p m cart hash now) = s'"
    using t(1,2) by (cases out) (simp_all add: execute_intent_payment_def bind_res_def)
  moreover from run have "\<exists>t'. transition_transaction t EXECUTING no_fields now = Inr t' \<and>
      pes_sent s' = pes_sent (or_service o') @ [trusted_request t' pr a]"
  proof (cases rule: execute_payment_cases)
    case (dispatched t')
    then show ?thesis using dispatch_sent [OF dispatched(4) [symmetric]] by (simp add: register_transaction_def)
  qed (use assms(7) t(3,4) in auto)
  moreover obtain t' where "transition_transaction t EXECUTING no_fields now = Inr t'" "tx_amount_paise t' = tx_amount_paise t"
      "tx_merchant_id t' = tx_merchant_id t" "tx_buyer_id t' = tx_buyer_id t" "tx_mandate_id t' = tx_mandate_id t"
    using claim_ok [of t now] t(3) unfolding execution_cleared_def by metis
  ultimately show ?thesis using t(5-8) by (simp add: trusted_request_def)
qed

lemma e2e_not_blank: "\<not> blank (''tx_e2e_'' @ x)"
proof -
  have "strip (''tx_e2e_'' @ x) \<noteq> []"
  proof
    assume "strip (''tx_e2e_'' @ x) = []"
    moreover have "lstrip (''tx_e2e_'' @ x) = ''tx_e2e_'' @ x" by (simp add: lstrip_def is_space_def)
    ultimately have r: "rstrip (''tx_e2e_'' @ x) = []" by (simp add: strip_def)
    obtain t where t: "''tx_e2e_'' @ x = rstrip (''tx_e2e_'' @ x) @ t" "\<forall>c \<in> set t. is_space c"
      using rstrip_decomp by blast
    then have "t = ''tx_e2e_'' @ x" by (simp only: r append_Nil)
    then have "CHR ''t'' \<in> set t" by simp
    then show False using t(2) by (force simp: is_space_def)
  qed
  then show ?thesis by (simp add: blank_def)
qed

lemma trace_made: "\<exists>r. generate_trace render (''tx_e2e_'' @ x) (Some a) y t eid rid now = Inr r"
  using e2e_not_blank [of x] by (simp add: generate_trace_def Let_def)

definition intent_authorization ::
  "(string \<Rightarrow> string) \<Rightarrow> Catalog \<Rightarrow> OrchestratorRequest \<Rightarrow> Uids \<Rightarrow> Cart \<Rightarrow> datetime \<Rightarrow> AuthorizationResult" where
  "intent_authorization sha c q u cart now = authorize_intent (''tx_e2e_'' @ ui_transaction u)
     (cir_valid (verify sha (Auth_Hash (compute_cart_object_hash sha cart)) cart None now))
     (row_of (cat_policies c) (orq_merchant_id q)) (row_of (cat_mandates c) (orq_mandate_id q)) (cart_total_paise cart) now"

lemma internal_Inr:
  assumes "intent_cart q (selected_product sha loads c q u now) u now = Inr cart"
  shows "\<exists>r. execute_intent_internal sha loads render c o' q u now = (Inr r,
    if aur_decision (intent_authorization sha c q u cart now) = ALLOW
    then snd (execute_intent_payment o' q (''tx_e2e_'' @ ui_transaction u) (intent_authorization sha c q u cart now)
      (row_of (cat_policies c) (orq_merchant_id q)) (row_of (cat_mandates c) (orq_mandate_id q)) cart (compute_cart_object_hash sha cart) now)
    else or_service o') \<and>
    e2e_overall_decision r = aur_decision (intent_authorization sha c q u cart now) \<and>
    (e2e_overall_decision r = ALLOW \<longrightarrow> e2e_receipt r = Some (intent_receipt q (''tx_e2e_'' @ ui_transaction u)
      (row_of (cat_policies c) (orq_merchant_id q)) cart (compute_cart_object_hash sha cart) u now))"
proof -
  have tr: "\<exists>t. generate_trace render (''tx_e2e_'' @ ui_transaction u) (Some a) y None eid rid now = Inr t" for a y eid rid
    by (rule trace_made)
  show ?thesis
  proof (cases "aur_decision (intent_authorization sha c q u cart now)")
    case ALLOW
    obtain r st s where run: "execute_intent_payment o' q (''tx_e2e_'' @ ui_transaction u) (intent_authorization sha c q u cart now)
      (row_of (cat_policies c) (orq_merchant_id q)) (row_of (cat_mandates c) (orq_mandate_id q)) cart (compute_cart_object_hash sha cart) now
      = ((r, st), s)" by (metis surj_pair)
    obtain t where "generate_trace render (''tx_e2e_'' @ ui_transaction u) (Some (intent_authorization sha c q u cart now)) r None
        (Some (''evt_'' @ ui_event u)) (Some (''rcpt_'' @ ui_receipt u)) now = Inr t" using tr by blast
    then show ?thesis using assms ALLOW run
      unfolding execute_intent_internal_def Let_def intent_authorization_def
      by (simp add: route_decision_def Let_def intent_event_def intent_receipt_def bind_res_def)
  next
    case STEP_UP_REQUIRED
    obtain t where "generate_trace render (''tx_e2e_'' @ ui_transaction u) (Some (intent_authorization sha c q u cart now)) None None
        (Some (''evt_'' @ ui_event u)) None now = Inr t" using tr by blast
    then show ?thesis using assms STEP_UP_REQUIRED
      unfolding execute_intent_internal_def Let_def intent_authorization_def
      by (simp add: route_decision_def Let_def intent_event_def bind_res_def)
  next
    case REJECT
    obtain t where "generate_trace render (''tx_e2e_'' @ ui_transaction u) (Some (intent_authorization sha c q u cart now)) None None
        (Some (''evt_'' @ ui_event u)) None now = Inr t" using tr by blast
    then show ?thesis using assms REJECT
      unfolding execute_intent_internal_def Let_def intent_authorization_def
      by (simp add: route_decision_def Let_def intent_event_def bind_res_def)
  qed
qed

lemma internal_Inl:
  assumes "intent_cart q (selected_product sha loads c q u now) u now = Inl e"
  shows "execute_intent_internal sha loads render c o' q u now = (Inl e, or_service o')"
  using assms by (simp add: execute_intent_internal_def Let_def)

definition intent_admitted :: "Catalog \<Rightarrow> OrchestratorRequest \<Rightarrow> int \<Rightarrow> bool" where
  "intent_admitted c q amount \<longleftrightarrow> (\<exists>p m. row_of (cat_policies c) (orq_merchant_id q) = Some p \<and> por_ai_commerce_enabled p \<and>
     row_of (cat_mandates c) (orq_mandate_id q) = Some m \<and> mar_status m = MandateStatus.ACTIVE \<and>
     amount \<le> por_autonomous_purchase_limit_paise p)"

lemma intent_authorization_allows:
  assumes "hex_digest sha" and "intent_cart q p u now = Inr cart"
  shows "aur_decision (intent_authorization sha c q u cart now) = ALLOW \<longleftrightarrow> intent_admitted c q (cart_total_paise cart)"
proof -
  have "cir_valid (verify sha (Auth_Hash (compute_cart_object_hash sha cart)) cart None now)"
    by (rule own_hash_valid [OF assms(1)]) (rule intent_cart_facts(1) [OF assms(2)])
  then show ?thesis
    by (auto simp: intent_authorization_def authorize_intent_decision intent_admitted_def commerce_enabled_def mandate_active_def
        autonomous_limit_def split: option.splits)
qed

section \<open>When an intent is paid\<close>

text \<open>C7: What an intent needs to be paid, exactly. For a new idempotency key and a fresh transaction identifier, the orchestrator sends
  one request when the merchant has a policy that enables agents, the mandate is active and the price of the selected product is
  within the autonomous limit of the policy, and none otherwise; the request carries that price, the merchant, the buyer and
  the mandate of the intent.\<close>

theorem intent_paid_exactly_when:
  assumes "hex_digest sha" and "valid_orchestrator_request q" and "or_executed_intents o' (orq_idempotency_key q) = None"
    and "pes_results (or_service o') (''tx_e2e_'' @ ui_transaction u) = None"
    and "intent_cart q (selected_product sha loads c q u now) u now = Inr cart"
    and "versions_positive (row_of (cat_policies c) (orq_merchant_id q)) (row_of (cat_mandates c) (orq_mandate_id q))"
  shows "\<exists>reqs. pes_sent (or_service (snd (execute_intent sha loads render c o' q u now))) = pes_sent (or_service o') @ reqs \<and>
    map (\<lambda>r. (ter_amount_paise r, ter_merchant_id r, ter_buyer_id r, ter_mandate_id r)) reqs =
      (if intent_admitted c q (pdr_price_paise (selected_product sha loads c q u now))
       then [(pdr_price_paise (selected_product sha loads c q u now), orq_merchant_id q, orq_buyer_id q, orq_mandate_id q)] else [])"
proof -
  let ?a = "intent_authorization sha c q u cart now" and ?p = "row_of (cat_policies c) (orq_merchant_id q)"
    and ?m = "row_of (cat_mandates c) (orq_mandate_id q)"
  note facts = intent_cart_facts [OF assms(5)]
  note allows = intent_authorization_allows [OF assms(1,5), of c]
  obtain r where r: "execute_intent_internal sha loads render c o' q u now = (Inr r, if aur_decision ?a = ALLOW
      then snd (execute_intent_payment o' q (''tx_e2e_'' @ ui_transaction u) ?a ?p ?m cart (compute_cart_object_hash sha cart) now)
      else or_service o')"
    using internal_Inr [OF assms(5), of render o'] by blast
  show ?thesis
  proof (cases "aur_decision ?a = ALLOW")
    case True
    have "verify_pre_execution_auth ?a = None" using True unfolding intent_authorization_def by (rule authorize_intent_clears)
    moreover have "compute_cart_object_hash sha cart \<noteq> []" by (simp add: object_hash_text digest_not_Nil [OF assms(1)])
    ultimately obtain req where "pes_sent (snd (execute_intent_payment o' q (''tx_e2e_'' @ ui_transaction u) ?a ?p ?m cart
        (compute_cart_object_hash sha cart) now)) = pes_sent (or_service o') @ [req]"
      "(ter_amount_paise req, ter_merchant_id req, ter_buyer_id req, ter_mandate_id req) =
        (cart_total_paise cart, orq_merchant_id q, orq_buyer_id q, orq_mandate_id q)"
      using intent_payment_sent [OF assms(2,6) facts(3), of "compute_cart_object_hash sha cart" "''tx_e2e_'' @ ui_transaction u" ?a o' now]
        assms(4) by auto
    then show ?thesis using r True allows facts(2) assms(3) by (simp add: execute_intent_def)
  next
    case False
    then show ?thesis using r allows facts(2) assms(3) by (simp add: execute_intent_def)
  qed
qed

section \<open>Idempotency\<close>

type_synonym intent_call = "Catalog \<times> OrchestratorRequest \<times> Uids \<times> datetime"

fun intent_sends ::
  "(string \<Rightarrow> string) \<Rightarrow> (string \<Rightarrow> json option) \<Rightarrow> (msg \<Rightarrow> string) \<Rightarrow> string \<Rightarrow> CommerceOrchestrator \<Rightarrow> intent_call list \<Rightarrow> nat" where
  \<comment> \<open>how many requests the calls with the idempotency key \<open>k\<close> send\<close>
  "intent_sends sha loads render k o' [] = 0"
| "intent_sends sha loads render k o' ((c, q, u, now) # calls) =
     (let o2 = snd (execute_intent sha loads render c o' q u now) in
      (if orq_idempotency_key q = k then length (pes_sent (or_service o2)) - length (pes_sent (or_service o')) else 0) +
      intent_sends sha loads render k o2 calls)"

lemma payment_sends_one:
  "length (pes_sent (snd (execute_intent_payment o' q tid a p m cart hash now))) \<le> length (pes_sent (or_service o')) + 1"
proof -
  have "length (pes_sent s') \<le> length (pes_sent (or_service o')) + 1"
    if "execute_payment (mock_pay (or_adapter o') now) (mock_fetch (or_adapter o') now) (or_service o') pr a t now = (out, s')" for pr t out s'
    using execute_sends [OF that] by auto
  then show ?thesis
    by (auto simp: execute_intent_payment_def split: sum.splits prod.splits)
qed

lemma intent_sends_one:
  "length (pes_sent (or_service (snd (execute_intent sha loads render c o' q u now)))) \<le> length (pes_sent (or_service o')) + 1"
proof (cases "intent_cart q (selected_product sha loads c q u now) u now")
  case (Inl e)
  then show ?thesis by (simp add: execute_intent_def internal_Inl split: option.split)
next
  case (Inr cart)
  from internal_Inr [OF this, of render o'] payment_sends_one show ?thesis
    by (fastforce simp: execute_intent_def split: option.split)
qed

lemma intent_records:
  assumes "length (pes_sent (or_service (snd (execute_intent sha loads render c o' q u now)))) \<noteq> length (pes_sent (or_service o'))"
  shows "or_executed_intents (snd (execute_intent sha loads render c o' q u now)) (orq_idempotency_key q) \<noteq> None"
proof (cases "intent_cart q (selected_product sha loads c q u now) u now")
  case (Inl e)
  then show ?thesis using assms by (auto simp: execute_intent_def internal_Inl split: option.splits)
next
  case (Inr cart)
  from internal_Inr [OF this, of render o'] show ?thesis
    by (auto simp: execute_intent_def split: option.split)
qed

lemma intent_keeps_keys:
  "or_executed_intents o' k \<noteq> None \<Longrightarrow> or_executed_intents (snd (execute_intent sha loads render c o' q u now)) k \<noteq> None"
  by (auto simp: execute_intent_def split: option.splits prod.splits sum.splits)

lemma intent_known_sends_nothing:
  "or_executed_intents o' (orq_idempotency_key q) \<noteq> None \<Longrightarrow> snd (execute_intent sha loads render c o' q u now) = o'"
  by (auto simp: execute_intent_def)

lemma known_key_sends_nothing:
  "or_executed_intents o' k \<noteq> None \<Longrightarrow> intent_sends sha loads render k o' calls = 0"
proof (induction calls arbitrary: o')
  case (Cons call calls)
  obtain c q u now where call: "call = (c, q, u, now)" by (cases call)
  have "intent_sends sha loads render k (snd (execute_intent sha loads render c o' q u now)) calls = 0"
    by (rule Cons.IH) (rule intent_keeps_keys [OF Cons.prems])
  then show ?case using Cons.prems intent_known_sends_nothing [of o' q sha loads render c u now] by (auto simp: call Let_def)
qed simp


text \<open>The answer belongs to the key, not to the caller: after a call succeeded, another buyer's intent with the same key is answered
  with the first buyer's result and is not executed.\<close>

theorem key_answers_for_everyone:
  assumes "execute_intent sha loads render c o' q u now = (Inr r, o2)" and "orq_idempotency_key q2 = orq_idempotency_key q"
  shows "execute_intent sha loads render c2 o2 q2 u2 now2 = (Inr r, o2)"
  using assms by (auto simp: execute_intent_def split: option.splits prod.splits sum.splits)

section \<open>What is not looked at\<close>

definition same_lifecycle :: "Catalog \<Rightarrow> Catalog \<Rightarrow> bool" where
  \<comment> \<open>the mandates of the two catalogs agree on status and version, if not on buyer, scope, limits, budget or expiry\<close>
  "same_lifecycle c c' \<longleftrightarrow> (\<forall>k. map_option (\<lambda>m. (mar_status m, mar_version m)) (row_of (cat_mandates c) k) =
     map_option (\<lambda>m. (mar_status m, mar_version m)) (row_of (cat_mandates c') k))"

text \<open>C10: The terms of the mandate are not consulted. Two runs over stores that differ only in the buyers, scopes, limits, budgets,
  currencies and expiry of the mandates are the same run: an intent of another buyer, of another merchant, above the maximum of
  the mandate or after its expiry is executed like any other.\<close>

theorem mandate_terms_are_not_consulted:
  assumes "same_lifecycle c c'" and "cat_products c' = cat_products c" and "cat_policies c' = cat_policies c"
  shows "execute_intent sha loads render c' o' q u now = execute_intent sha loads render c o' q u now"
proof -
  have m: "map_option (\<lambda>m. (mar_status m, mar_version m)) (row_of (cat_mandates c) (orq_mandate_id q)) =
      map_option (\<lambda>m. (mar_status m, mar_version m)) (row_of (cat_mandates c') (orq_mandate_id q))"
    using assms(1) by (simp add: same_lifecycle_def)
  have "mandate_control (row_of (cat_mandates c') (orq_mandate_id q)) = mandate_control (row_of (cat_mandates c) (orq_mandate_id q))"
    using m by (cases "row_of (cat_mandates c) (orq_mandate_id q)"; cases "row_of (cat_mandates c') (orq_mandate_id q)")
      (simp_all add: mandate_control_def)
  then have auth: "authorize_intent tid intact p (row_of (cat_mandates c') (orq_mandate_id q)) amount now =
      authorize_intent tid intact p (row_of (cat_mandates c) (orq_mandate_id q)) amount now" for tid intact p amount
    by (simp add: authorize_intent_def)
  have "intent_transaction q tid p (row_of (cat_mandates c') (orq_mandate_id q)) cart hash now =
      intent_transaction q tid p (row_of (cat_mandates c) (orq_mandate_id q)) cart hash now" for tid p cart hash
    using m by (cases "row_of (cat_mandates c) (orq_mandate_id q)"; cases "row_of (cat_mandates c') (orq_mandate_id q)")
      (simp_all add: intent_transaction_def)
  then have pay: "execute_intent_payment o' q tid a p (row_of (cat_mandates c') (orq_mandate_id q)) cart hash now =
      execute_intent_payment o' q tid a p (row_of (cat_mandates c) (orq_mandate_id q)) cart hash now" for tid a p cart hash
    by (simp add: execute_intent_payment_def)
  have route: "route_decision render o' q tid a p (row_of (cat_mandates c') (orq_mandate_id q)) cart hash u now =
      route_decision render o' q tid a p (row_of (cat_mandates c) (orq_mandate_id q)) cart hash u now" for tid a p cart hash
    unfolding route_decision_def pay ..
  have sel: "selected_product sha loads c' q u now = selected_product sha loads c q u now"
    using assms(2) by (simp add: selected_product_def merchant_products_def)
  show ?thesis by (simp only: execute_intent_def execute_intent_internal_def assms(3) auth route sel Let_def)
qed

text \<open>C9: A revoked mandate pays nothing. After a mandate is revoked, in whatever state the merchants, policies, products and other
  mandates get by further requests, no intent under it sends a request.\<close>

theorem revoked_mandate_pays_nothing:
  assumes "(catalog_step enum sha' acc)\<^sup>*\<^sup>* c c'" and "row_of (cat_mandates c) (orq_mandate_id q) = Some m" and "mar_status m = REVOKED"
  shows "pes_sent (or_service (snd (execute_intent sha loads render c' o' q u now))) = pes_sent (or_service o')"
proof (cases "intent_cart q (selected_product sha loads c' q u now) u now")
  case (Inl e)
  then show ?thesis by (simp add: execute_intent_def internal_Inl split: option.split)
next
  case (Inr cart)
  have "\<exists>m'. row_of (cat_mandates c') (orq_mandate_id q) = Some m' \<and> mar_status m' = REVOKED"
    using steps_keep_revoked [OF assms] by blast
  then have "aur_decision (intent_authorization sha c' q u cart now) \<noteq> ALLOW"
    by (auto simp: intent_authorization_def authorize_intent_decision mandate_active_def)
  with internal_Inr [OF Inr, of render o'] show ?thesis
    by (auto simp: execute_intent_def split: option.split)
qed

text \<open>A receipt does not prove a payment: every allowed intent gets a receipt with an execution time and the reference
  order_e2e_123, whatever the outcome of the execution.\<close>

theorem receipt_whatever_the_outcome:
  assumes "execute_intent sha loads render c o' q u now = (Inr r, o2)" and "or_executed_intents o' (orq_idempotency_key q) = None"
    and "e2e_overall_decision r = ALLOW"
  shows "\<exists>rc. e2e_receipt r = Some rc \<and> rcr_executed_at rc = Some now \<and> rcr_execution_reference rc = Some ''order_e2e_123''"
proof (cases "intent_cart q (selected_product sha loads c q u now) u now")
  case (Inl e)
  then show ?thesis using assms(1,2) by (simp add: execute_intent_def internal_Inl)
next
  case (Inr cart)
  from internal_Inr [OF this, of render o'] assms show ?thesis
    by (auto simp: execute_intent_def intent_receipt_def)
qed

section \<open>Instances\<close>

definition sample_intent_request :: OrchestratorRequest where
  "sample_intent_request = \<lparr>orq_user_intent_text = ''a laptop'', orq_buyer_id = ''another_buyer'', orq_mandate_id = ''man_buyer_01'',
     orq_merchant_id = ''mer_1'', orq_idempotency_key = ''k''\<rparr>"

definition sample_uids :: Uids where
  "sample_uids = \<lparr>ui_transaction = ''1'', ui_product = ''2'', ui_cart = ''3'', ui_event = ''4'', ui_receipt = ''5'', ui_event_hash = ''6'',
     ui_payload_hash = ''7'', ui_signature = ''8''\<rparr>"

lemma sample_selected:
  "selected_product sha loads sample_catalog sample_intent_request sample_uids 0 =
     \<lparr>pdr_product_id = ''prd_e2e_2'', pdr_merchant_id = ''mer_1'', pdr_name = ''a laptop'', pdr_category = ''electronics'',
      pdr_price_paise = 150000, pdr_currency = INR, pdr_description = None, pdr_stock_quantity = 100, pdr_created_at = 0\<rparr>"
proof -
  have "intent_of sha loads sample_intent_request sample_uids 0 = (''a laptop'', ''electronics'')"
    by (simp add: intent_of_def sample_intent_request_def split: sum.split)
  moreover have "merchant_products sample_catalog (orq_merchant_id sample_intent_request) = []"
    by (simp add: merchant_products_def sample_catalog_def catalog_init_def rows_of_def)
  ultimately show ?thesis
    unfolding selected_product_def by (simp add: default_product_def) (simp add: sample_intent_request_def sample_uids_def)
qed

lemma sample_cart_built:
  "\<exists>cart. intent_cart sample_intent_request (selected_product sha loads sample_catalog sample_intent_request sample_uids 0) sample_uids 0 = Inr cart"
  unfolding sample_selected
  by (simp add: intent_cart_def mk_cart_item_def sample_intent_request_def mk_cart_def items_total_def subtotal_paise_def Let_def)

lemma sample_rows:
  "row_of (cat_policies sample_catalog) (orq_merchant_id sample_intent_request) = Some (default_policy ''1'' ''mer_1'' 0)"
  "\<exists>m. row_of (cat_mandates sample_catalog) (orq_mandate_id sample_intent_request) = Some m \<and> mar_status m = MandateStatus.ACTIVE \<and> mar_version m = 1"
  by (simp_all add: sample_catalog_def catalog_init_def demo_mandates_def sample_intent_request_def row_of_def)

lemma sample_valid: "valid_orchestrator_request sample_intent_request"
  by (simp add: valid_orchestrator_request_def sample_intent_request_def)

theorem intent_paid_exactly_when_witness:
  "\<exists>req. pes_sent (or_service (snd (execute_intent (sample_sha []) (\<lambda>_. None) (\<lambda>_. []) sample_catalog orchestrator_init sample_intent_request
      sample_uids 0))) = [req] \<and> ter_amount_paise req = 150000 \<and> ter_buyer_id req = ''another_buyer''"
proof -
  obtain cart where cart: "intent_cart sample_intent_request (selected_product (sample_sha []) (\<lambda>_. None) sample_catalog sample_intent_request sample_uids 0)
      sample_uids 0 = Inr cart" using sample_cart_built by blast
  have init: "or_executed_intents orchestrator_init (orq_idempotency_key sample_intent_request) = None"
    "pes_results (or_service orchestrator_init) (''tx_e2e_'' @ ui_transaction sample_uids) = None" "pes_sent (or_service orchestrator_init) = []"
    by (simp_all add: orchestrator_init_def execution_service_init_def)
  have versions: "versions_positive (row_of (cat_policies sample_catalog) (orq_merchant_id sample_intent_request))
      (row_of (cat_mandates sample_catalog) (orq_mandate_id sample_intent_request))"
    using sample_rows by (auto simp: versions_positive_def default_policy_def)
  have "intent_admitted sample_catalog sample_intent_request 150000"
    using sample_rows by (auto simp: intent_admitted_def default_policy_def)
  moreover have "pdr_price_paise (selected_product (sample_sha []) (\<lambda>_. None) sample_catalog sample_intent_request sample_uids 0) = 150000"
    by (simp add: sample_selected)
  ultimately show ?thesis
    using intent_paid_exactly_when [OF sample_sha_digest sample_valid init(1,2) cart versions, of "\<lambda>_. []"] init(3)
    by (auto simp: map_eq_Cons_conv sample_intent_request_def)
qed

theorem key_answers_for_everyone_witness:
  "\<exists>r o2. execute_intent (sample_sha []) (\<lambda>_. None) (\<lambda>_. []) sample_catalog orchestrator_init sample_intent_request sample_uids 0 = (Inr r, o2) \<and>
    execute_intent (sample_sha []) (\<lambda>_. None) (\<lambda>_. []) sample_catalog o2 (sample_intent_request\<lparr>orq_buyer_id := ''x''\<rparr>) sample_uids 5 = (Inr r, o2)"
proof -
  obtain cart where "intent_cart sample_intent_request (selected_product (sample_sha []) (\<lambda>_. None) sample_catalog sample_intent_request sample_uids 0) sample_uids 0 = Inr cart"
    using sample_cart_built by blast
  from internal_Inr [OF this, of "\<lambda>_. []" orchestrator_init] obtain r o2 where
    run: "execute_intent (sample_sha []) (\<lambda>_. None) (\<lambda>_. []) sample_catalog orchestrator_init sample_intent_request sample_uids 0 = (Inr r, o2)"
    by (auto simp: execute_intent_def orchestrator_init_def)
  from key_answers_for_everyone [OF run, of "sample_intent_request\<lparr>orq_buyer_id := ''x''\<rparr>"] run show ?thesis by auto
qed

theorem mandate_terms_are_not_consulted_witness:
  "execute_intent (sample_sha []) (\<lambda>_. None) (\<lambda>_. [])
     (sample_catalog\<lparr>cat_mandates := map (\<lambda>(k, m). (k, m\<lparr>mar_maximum_amount_paise := 0, mar_expires_at := 0, mar_merchant_scope := {}\<rparr>))
       (cat_mandates sample_catalog)\<rparr>) orchestrator_init sample_intent_request sample_uids 0 =
   execute_intent (sample_sha []) (\<lambda>_. None) (\<lambda>_. []) sample_catalog orchestrator_init sample_intent_request sample_uids 0"
  by (rule mandate_terms_are_not_consulted)
    (simp_all add: same_lifecycle_def row_of_def map_of_map option.map_comp comp_def)

theorem revoked_mandate_pays_nothing_witness:
  "pes_sent (or_service (snd (execute_intent (sample_sha []) (\<lambda>_. None) (\<lambda>_. []) (snd (revoke_mandate_response ''man_buyer_01'' 1 sample_catalog)) orchestrator_init
     sample_intent_request sample_uids 0))) = []"
proof -
  let ?c = "snd (revoke_mandate_response ''man_buyer_01'' 1 sample_catalog)"
  have "\<exists>m. row_of (cat_mandates ?c) (orq_mandate_id sample_intent_request) = Some m \<and> mar_status m = REVOKED"
    by (simp add: mandates_after_revoke sample_catalog_def catalog_init_def demo_mandates_def row_of_def revoked_def put_row_def
        sample_intent_request_def)
  then obtain m where m: "row_of (cat_mandates ?c) (orq_mandate_id sample_intent_request) = Some m" "mar_status m = REVOKED" by blast
  have "(catalog_step (\<lambda>_. []) (\<lambda>_. []) open_catalog)\<^sup>*\<^sup>* ?c ?c" by simp
  from revoked_mandate_pays_nothing [OF this m] show ?thesis
    by (simp add: orchestrator_init_def execution_service_init_def)
qed

theorem receipt_whatever_the_outcome_witness:
  "\<exists>r rc. fst (execute_intent (sample_sha []) (\<lambda>_. None) (\<lambda>_. []) sample_catalog
      (orchestrator_init\<lparr>or_adapter := set_next_failure PROVIDER_REJECTED METHOD_NOT_AUTHORIZED ''no'' mock_adapter_init\<rparr>)
      sample_intent_request sample_uids 0) = Inr r \<and> e2e_receipt r = Some rc \<and> rcr_executed_at rc = Some 0"
proof -
  let ?o = "orchestrator_init\<lparr>or_adapter := set_next_failure PROVIDER_REJECTED METHOD_NOT_AUTHORIZED ''no'' mock_adapter_init\<rparr>"
  obtain cart where cart: "intent_cart sample_intent_request (selected_product (sample_sha []) (\<lambda>_. None) sample_catalog sample_intent_request sample_uids 0)
      sample_uids 0 = Inr cart" using sample_cart_built by blast
  from internal_Inr [OF this, of "\<lambda>_. []" ?o] obtain r o2 where
    run: "execute_intent (sample_sha []) (\<lambda>_. None) (\<lambda>_. []) sample_catalog ?o sample_intent_request sample_uids 0 = (Inr r, o2)"
      and d: "e2e_overall_decision r = aur_decision (intent_authorization (sample_sha []) sample_catalog sample_intent_request sample_uids cart 0)"
    by (auto simp: execute_intent_def orchestrator_init_def)
  have new: "or_executed_intents ?o (orq_idempotency_key sample_intent_request) = None" by (simp add: orchestrator_init_def)
  have "cart_total_paise cart = 150000" using intent_cart_facts(2) [OF cart] by (simp add: sample_selected)
  then have "e2e_overall_decision r = ALLOW"
    using d intent_authorization_allows [OF sample_sha_digest cart, where c = sample_catalog] sample_rows
    by (auto simp: intent_admitted_def default_policy_def)
  from receipt_whatever_the_outcome [OF run new this] show ?thesis using run by auto
qed

end
