(* ===== verification/Spec2Isabelle.thy ===== *)
theory Spec2Isabelle
  imports Domain_Types Money Contracts Control_Outcome Budget Nonce Db_Table Nonce_Store Step_Up Json Cart
    Rule_Chain Mandate Merchant_Policy Policy_Engine Aggregator Replay Transactions Execution Iso_Time Hash_Chain
    Audit_Ledger Audit_Store Encoding Receipt Session Py_Json Txn_Store Outbox_Store Mandate_Store Payment_Db
    Webhook Recovery Async_Execution Budget_Store Step_Up_Store Agent_Policy Delegation X402 Agent_Payments
    Py_Regex Agent_Tools Agent_Graph Agent_Step_Up Intent_Normalizer
    Py_Text Web_Url Confirmation_Gate Purchase_Agent Commerce_Product Connectors Commerce_Orders Checkout Rate_Limiter Hardening Credentials
    Tool_Proxy Mcp_Gateway Razorpay_Adapter Merchant_Store Catalog Explainability Orchestrator
begin

text \<open>
  Mandate Gateway: a gateway that decides whether a software agent may spend a buyer's money at a
  merchant. A buyer's mandate and a merchant's policy bound what may be bought; independent controls
  judge a proposed cart, an aggregator combines their verdicts, and the execution service calls the
  payment provider when everything allows. The development models the domain layer of the program,
  \<open>src/apps/api/domain\<close>, the repositories of \<open>src/db/repository\<close> that its asynchronous methods use, the
  workers of \<open>src/apps/workers\<close>, the agentic payments of \<open>src/apps/api/commerce/payments\<close> and the runtime of
  the agent, \<open>src/agent\<close>.

  Conventions (theory \<open>Py_Prelude\<close>). A Python exception is a value \<open>Raise class message\<close> of the
  left side of a sum, the type \<open>'a res\<close>; a method of a stateful class takes the state, its
  arguments, and the outside values it draws (the current time \<open>now\<close>, fresh uuids and random values),
  and returns its result with the new state. Times are microseconds as \<open>int\<close>, paise amounts are \<open>int\<close>
  as in Python. Messages are symbolic: a format text with its arguments, so that a message built from
  a float (rupees, percentages) keeps the integers it is computed from. An optional time argument
  \<open>at\<close> of the source is \<open>resolve_at at now\<close>. SHA-256 is a parameter \<open>sha\<close>, of which the properties use
  that it yields 64 lower-case hexadecimal characters or that two given texts do not collide. A method
  that takes the engine's lock is one step.

  Theories and what they model:
  \<^item> \<open>Domain_Types\<close>: the enumerations of \<open>domain/types.py\<close> and the transaction graph.
  \<^item> \<open>Money\<close>: \<open>domain/money.py\<close>.
  \<^item> \<open>Contracts\<close>: the locales \<open>machine\<close> (an invariant kept by every admissible operation) and
    \<open>single_use\<close> (a key is accepted at most once in a run), with the runs \<open>run_ops\<close> and \<open>run_adm\<close>.
    Every stateful engine interprets one of them.
  \<^item> \<open>Control_Outcome\<close> and \<open>Rule_Chain\<close>: the outcome that every control reports, and the chains of
    rules that the evaluators share.
  \<^item> \<open>Budget\<close>: \<open>domain/budget.py\<close> and the in-memory \<open>BudgetEngine\<close>. A ledger invariant ties the
    counters of a budget to the sums over its reservations.
  \<^item> \<open>Nonce\<close>, \<open>Nonce_Store\<close>: the nonce engine, its asynchronous methods over the table of
    \<open>db/models/replay.py\<close> (theory \<open>Db_Table\<close>) and the simulation between the two.
  \<^item> \<open>Replay\<close>: fingerprints, the in-memory replay engine and the database one.
  \<^item> \<open>Step_Up\<close>: step-up zones, challenges and human confirmations.
  \<^item> \<open>Json\<close>, \<open>Cart\<close>: the canonical JSON text, whose injectivity is proved, carts, their digests
    and the integrity verifier.
  \<^item> \<open>Mandate\<close>, \<open>Merchant_Policy\<close>: the contracts, the life cycle of a mandate, both rule evaluators
    with their traces, and the evaluation of stored policies.
  \<^item> \<open>Policy_Engine\<close>: \<open>PolicyEngine.evaluate\<close>, related to the two evaluators.
  \<^item> \<open>Aggregator\<close>: the aggregation of all control outcomes.
  \<^item> \<open>Transactions\<close>: transaction records and \<open>transition_transaction\<close>.
  \<^item> \<open>Iso_Time\<close>, \<open>Hash_Chain\<close>: \<open>datetime.isoformat\<close>, and the locale of digest chains.
  \<^item> \<open>Audit_Ledger\<close>, \<open>Audit_Store\<close>: audit events, the in-memory ledger, the audit table and its
    repository, with racing writers as interleaved steps.
  \<^item> \<open>Encoding\<close>, \<open>Receipt\<close>: base64 and hexadecimal texts, receipts, their signer and verifier.
  \<^item> \<open>Execution\<close>: the in-memory payment execution service, whose provider is a pair of parameters.
  \<^item> \<open>Session\<close>: programs over a database session. A repository method is a \<open>prog\<close>, which reads and
    changes the pending state of the session and may raise; \<open>transactional\<close> is \<open>async with uow\<close>: the
    changes are kept when the body returns and forgotten when it raises. The locales \<open>row_relation\<close> and
    \<open>evolution\<close> carry a relation between a row before and after from the writes to whole programs.
  \<^item> \<open>Py_Json\<close>: what the code reads of decoded JSON (\<open>get\<close>, truth values).
  \<^item> \<open>Txn_Store\<close>, \<open>Outbox_Store\<close>, \<open>Mandate_Store\<close>, \<open>Payment_Db\<close>: the tables of transactions, execution
    attempts, outbox events and mandates with their repositories, the outbox worker, the asynchronous
    mandate functions, and the database that a unit of work sees.
  \<^item> \<open>Webhook\<close>: \<open>domain/webhook_engine.py\<close> and its endpoint.
  \<^item> \<open>Recovery\<close>: \<open>domain/recovery_engine.py\<close>, its worker, and the asynchronous reconciliation.
  \<^item> \<open>Async_Execution\<close>: \<open>async_execute_payment\<close>, with the three sessions it opens.
  \<^item> \<open>Budget_Store\<close>, \<open>Step_Up_Store\<close>: the asynchronous methods of the budget and step-up engines over
    their tables, the first with a simulation to the in-memory engine.
  \<^item> \<open>Agent_Policy\<close>, \<open>Delegation\<close>, \<open>X402\<close>, \<open>Agent_Payments\<close>: \<open>apps/api/commerce/payments\<close> and the endpoints of
    \<open>routers/commerce.py\<close> that use it.
  \<^item> \<open>Py_Regex\<close>: the regular expressions that the sources use, as a datatype with a matcher and its language.
  \<^item> \<open>Intent_Normalizer\<close>: \<open>domain/intent_normalizer.py\<close>, from an untrusted proposal to an intent and a cart.
  \<^item> \<open>Agent_Tools\<close>: \<open>src/agent/tools\<close>, the tool registry with the checks before and after a tool runs; the
    tools are parameters.
  \<^item> \<open>Agent_Graph\<close>: \<open>src/agent/graph\<close>, the state machine of the agent, its nodes and the bounded runtime; the
    model, the clock and the cancellation token are parameters, indexed by the round.
  \<^item> \<open>Agent_Step_Up\<close>: \<open>src/agent/stepup\<close>, the challenges of the agent and their use of the state machine.
  \<^item> \<open>Py_Text\<close>, \<open>Web_Url\<close>: the operations on texts that the commerce code uses, \<open>urlparse\<close>, the validator of redirect
    URLs of \<open>commerce/connectors/generic_web.py\<close> and the test for product pages.
  \<^item> \<open>Confirmation_Gate\<close>, \<open>Purchase_Agent\<close>: \<open>apps/api/agent\<close>, the single-use confirmation tokens, the planner between an
    untrusted language model and the sources of products, and the endpoints of \<open>routers/agent.py\<close>.
  \<^item> \<open>Commerce_Product\<close>, \<open>Connectors\<close>: the evidence of a product, its live rechecks, the connectors to shops with their
    registry, orders and health.
  \<^item> \<open>Commerce_Orders\<close>, \<open>Checkout\<close>: bindings of payments to merchant orders, verified outcomes, merchant webhooks,
    reconciliation, redirect packages, the checkout orchestrator and the creation of merchant orders.
  \<^item> \<open>Rate_Limiter\<close>, \<open>Credentials\<close>, \<open>Hardening\<close>: \<open>apps/api/security\<close> with \<open>domain/identity.py\<close> and the table of API
    credentials, and \<open>domain/security_hardening.py\<close>.
  \<^item> \<open>Tool_Proxy\<close>, \<open>Mcp_Gateway\<close>: \<open>domain/tool_proxy.py\<close>, between tool input and the execution service, and
    \<open>src/agent/mcp\<close>, the JSON-RPC gateway that masks and authorizes the tools of an agent.
  \<^item> \<open>Razorpay_Adapter\<close>: \<open>apps/api/adapters\<close>, the mock provider and the HTTP adapter, whose transport is a parameter.
  \<^item> \<open>Merchant_Store\<close>, \<open>Catalog\<close>: the tables of merchants, policies and products, and the endpoints of
    \<open>routers/merchants.py\<close>, \<open>routers/mandates.py\<close> and \<open>routers/products.py\<close> over their dictionaries and these tables.
  \<^item> \<open>Orchestrator\<close>, \<open>Explainability\<close>: \<open>src/agent/orchestrator\<close>, from the request of an agent to a payment and its
    receipt, and \<open>src/agent/explainability\<close>, the trace of a decision and its redaction.

  The groups of lemmas: for every engine, the effect of each operation on every branch, an invariant
  kept by every operation (by interpretation of a locale), and from it the safety of all runs; for
  every evaluator, the exact condition of each verdict against an independent specification
  (\<open>engine_admits\<close>, \<open>unanimous\<close>, \<open>given\<close>); for canonical texts, injectivity. The loops of
  the workers run a given number of batches; the loop of the agent is a function with a measure, the rounds
  that its limit leaves; every other loop of the modelled code is structural.

  Where the code does not keep what it promises, a theorem states what it does: a tampered cart with an
  attached hash passes, a step-up rejection does not stop an aggregated ALLOW, one bad proposal
  blocks an authorized payment, reconciliation forgets a committed payment, and others.

  Not modelled: floating-point renderings; the HTTP transports; the discovery of products over the network and their
  ranking, observability, pages and the application's start, which the manifest lists one by one.
\<close>

section \<open>Properties across components\<close>

text \<open>The outcomes that the engines' own conversions produce never pass the gate of the execution
  service, whatever the verdicts: it requires control names that no conversion uses, so an allowed
  transaction of which every control allows is refused with a missing control.\<close>

theorem engine_outcomes_never_execute:
  "\<exists>detail. verify_pre_execution_auth \<lparr>aur_decision = ALLOW,
      aur_control_outcomes = [from_mandate m, from_merchant_policy p, cir_to_control c, bev_to_control b,
        rev_to_control r, nev_to_control n, sev_to_control u],
      aur_rejection_reason = None, aur_rejection_detail = None, aur_decision_trace = trace\<rparr> =
    Some (CONTROL_RESULT_MISSING, AUTHORIZATION_FAILED, detail)"
  by (simp add: verify_pre_execution_auth_def required_controls_def control_satisfied_def outcome_named_def
      from_mandate_def from_merchant_policy_def cir_to_control_def bev_to_control_def rev_to_control_def
      nev_to_control_def sev_to_control_def)

end
